(* ===== verification/Prelude.thy ===== *)
theory Prelude
  imports Complex_Main "HOL-Library.Char_ord"
begin

text \<open>
  Shared vocabulary of the development: the Python values the components use
  (strings, truthiness, integer and decimal parsing, rounding, UTC timestamps),
  errors as values, I/O faults as parameters, and SQL-style keyed tables.

  Conventions. A Python \<open>str\<close> is a \<open>string\<close> whose characters are code points
  below 256. A Python \<open>float\<close> holding money, tokens or seconds is read as the
  exact rational it denotes (\<open>rat\<close>): binary rounding, infinities and NaN are not
  modelled. A timezone-aware UTC \<open>datetime\<close> is the number of microseconds since
  1970-01-01T00:00:00 (\<open>utc\<close>); \<open>isoformat\<close> strings of such values compare
  lexicographically exactly as these numbers do, which is what the SQL
  comparisons of the code rely on.
\<close>

section \<open>Automation shared by the components\<close>

named_theorems gate_defs \<open>definitions unfolded to evaluate a gate or handler on concrete input\<close>
named_theorems frame \<open>fields an operation leaves unchanged\<close>

section \<open>Errors and faults\<close>

datatype py_error =
    ValueError string
  | LookupError string
  | KeyError string
  | ZeroDivisionError
  | Raised string

type_synonym 'a result = "py_error + 'a"

text \<open>
  Each block of database or network I/O that can raise is named by a point of a
  component's own datatype; \<open>io p = Some e\<close> says that the block at \<open>p\<close> raises an
  exception of class \<open>e\<close>, \<open>None\<close> that it runs.
\<close>

type_synonym 'p faults = "'p \<Rightarrow> string option"

abbreviation no_faults :: "'p faults" where
  "no_faults \<equiv> (\<lambda>_. None)"

section \<open>Truthiness\<close>

text \<open>\<open>x or d\<close> on an optional number: \<open>None\<close> and zero are both falsy.\<close>

definition num_or :: "rat option \<Rightarrow> rat \<Rightarrow> rat" where
  "num_or x d = (case x of None \<Rightarrow> d | Some p \<Rightarrow> if p = 0 then d else p)"

text \<open>\<open>s or d\<close> on a string, and on an optional string.\<close>

definition str_or :: "string \<Rightarrow> string \<Rightarrow> string" where
  "str_or s d = (if s = [] then d else s)"

definition opt_str_or :: "string option \<Rightarrow> string \<Rightarrow> string" where
  "opt_str_or s d = (case s of None \<Rightarrow> d | Some x \<Rightarrow> str_or x d)"

lemma num_or_simps [simp]:
  "num_or None d = d" "num_or (Some 0) d = d" "p \<noteq> 0 \<Longrightarrow> num_or (Some p) d = p"
  by (simp_all add: num_or_def)

lemma str_or_simps [simp]: "str_or [] d = d" "str_or (c # s) d = c # s"
  by (simp_all add: str_or_def)

lemma opt_str_or_simps [simp]: "opt_str_or None d = d" "opt_str_or (Some s) d = str_or s d"
  by (simp_all add: opt_str_or_def)

section \<open>Strings\<close>

definition is_space :: "char \<Rightarrow> bool" where
  "is_space c \<longleftrightarrow> (let n = (of_char c :: nat) in
     (9 \<le> n \<and> n \<le> 13) \<or> (28 \<le> n \<and> n \<le> 32) \<or> n = 133 \<or> n = 160)"

definition lstrip :: "string \<Rightarrow> string" where
  "lstrip s = dropWhile is_space s"

definition strip :: "string \<Rightarrow> string" where
  "strip s = rev (lstrip (rev (lstrip s)))"

definition lower_char :: "char \<Rightarrow> char" where
  "lower_char c = (let n = (of_char c :: nat) in
     if (65 \<le> n \<and> n \<le> 90) \<or> (192 \<le> n \<and> n \<le> 222 \<and> n \<noteq> 215) then char_of (n + 32) else c)"

definition lower :: "string \<Rightarrow> string" where
  "lower s = map lower_char s"

definition starts_with :: "string \<Rightarrow> string \<Rightarrow> bool" where
  "starts_with p s \<longleftrightarrow> take (length p) s = p"

text \<open>\<open>sub in s\<close>.\<close>

fun contains :: "string \<Rightarrow> string \<Rightarrow> bool" where
  "contains sub [] = (sub = [])"
| "contains sub (c # s) = (starts_with sub (c # s) \<or> contains sub s)"

text \<open>\<open>s.split(c)\<close> for a one-character separator: never empty.\<close>

fun split_on :: "char \<Rightarrow> string \<Rightarrow> string list" where
  "split_on d [] = [[]]"
| "split_on d (c # s) =
     (if c = d then [] # split_on d s
      else case split_on d s of [] \<Rightarrow> [[c]] | w # ws \<Rightarrow> (c # w) # ws)"

fun join :: "string \<Rightarrow> string list \<Rightarrow> string" where
  "join sep [] = []"
| "join sep [w] = w"
| "join sep (w # ws) = w @ sep @ join sep ws"

lemma split_on_nonempty [simp]: "split_on d s \<noteq> []"
  by (induction s) (auto split: list.splits)

lemma split_on_no_sep: "w \<in> set (split_on d s) \<Longrightarrow> d \<notin> set w"
proof (induction s arbitrary: w)
  case (Cons c s)
  then show ?case by (cases "split_on d s") (auto split: if_splits)
qed simp

lemma split_on_absent [simp]: "d \<notin> set w \<Longrightarrow> split_on d w = [w]"
  by (induction w) auto

lemma split_on_append: "d \<notin> set w \<Longrightarrow> split_on d (w @ d # s) = w # split_on d s"
  by (induction w) auto

text \<open>Splitting what was joined with the same separator gives the words back.\<close>

lemma split_join:
  "ws \<noteq> [] \<Longrightarrow> \<forall>w \<in> set ws. d \<notin> set w \<Longrightarrow> split_on d (join [d] ws) = ws"
  by (induction "[d]" ws rule: join.induct) (auto simp: split_on_append)

lemma take_le_length [simp]: "length (take n s) \<le> n"
  by simp

subsection \<open>Stripping\<close>

lemma lstrip_ident: "s = [] \<or> \<not> is_space (hd s) \<Longrightarrow> lstrip s = s"
  by (cases s) (auto simp: lstrip_def)

lemma lstrip_hd: "lstrip s = [] \<or> \<not> is_space (hd (lstrip s))"
  by (metis hd_dropWhile lstrip_def)

lemma lstrip_idem [simp]: "lstrip (lstrip s) = lstrip s"
  by (rule lstrip_ident) (rule lstrip_hd)

lemma strip_Nil [simp]: "strip [] = []"
  by (simp add: strip_def lstrip_def)

lemma lstrip_suffix: "\<exists>p. s = p @ lstrip s"
  unfolding lstrip_def by (metis takeWhile_dropWhile_id)

lemma rev_lstrip_rev_hd:
  assumes "s = [] \<or> \<not> is_space (hd s)"
  shows "rev (lstrip (rev s)) = [] \<or> \<not> is_space (hd (rev (lstrip (rev s))))"
proof -
  obtain p where "rev s = p @ lstrip (rev s)" using lstrip_suffix by blast
  then have "s = rev (lstrip (rev s)) @ rev p" by (metis rev_append rev_rev_ident)
  then have "rev (lstrip (rev s)) \<noteq> [] \<Longrightarrow> s \<noteq> [] \<and> hd s = hd (rev (lstrip (rev s)))"
    by (metis append_is_Nil_conv hd_append2)
  then show ?thesis using assms by metis
qed

lemma strip_no_space: "\<forall>c \<in> set s. \<not> is_space c \<Longrightarrow> strip s = s"
proof -
  assume none: "\<forall>c \<in> set s. \<not> is_space c"
  then have "lstrip t = t" if "set t \<subseteq> set s" for t
    using that by (intro lstrip_ident) (cases t, auto)
  then show ?thesis by (simp add: strip_def)
qed

lemma strip_idem [simp]: "strip (strip s) = strip s"
proof -
  let ?t = "strip s"
  have "?t = [] \<or> \<not> is_space (hd ?t)"
    unfolding strip_def by (rule rev_lstrip_rev_hd) (rule lstrip_hd)
  then have "lstrip ?t = ?t" by (rule lstrip_ident)
  then show ?thesis unfolding strip_def by (simp add: strip_def)
qed

definition hex_digit :: "nat \<Rightarrow> char" where
  "hex_digit n = (if n < 10 then char_of (48 + n) else char_of (87 + n))"

text \<open>\<open>repr\<close> of a string.\<close>

definition repr_char :: "char \<Rightarrow> char \<Rightarrow> string" where
  "repr_char q c = (let n = (of_char c :: nat) in
     if c = q \<or> n = 92 then [char_of (92 :: nat), c]
     else if n = 10 then [char_of (92 :: nat)] @ ''n'' else if n = 13 then [char_of (92 :: nat)] @ ''r''
     else if n = 9 then [char_of (92 :: nat)] @ ''t''
     else if n < 32 \<or> (127 \<le> n \<and> n \<le> 160) \<or> n = 173
     then [char_of (92 :: nat)] @ ''x'' @ [hex_digit (n div 16), hex_digit (n mod 16)]
     else [c])"

definition py_repr :: "string \<Rightarrow> string" where
  "py_repr s =
     (let q = (if CHR 0x27 \<in> set s \<and> CHR 0x22 \<notin> set s then CHR 0x22 else CHR 0x27)
      in [q] @ concat (map (repr_char q) s) @ [q])"

section \<open>Numbers in text\<close>

definition is_digit :: "char \<Rightarrow> bool" where
  "is_digit c \<longleftrightarrow> 48 \<le> (of_char c :: nat) \<and> (of_char c :: nat) \<le> 57"

definition digit_val :: "char \<Rightarrow> nat" where
  "digit_val c = (of_char c :: nat) - 48"

text \<open>
  The digits of \<open>int(s)\<close>: at least one, a single underscore allowed between two.
  The flag says that the last character read was a digit.
\<close>

fun int_digits :: "bool \<Rightarrow> nat \<Rightarrow> string \<Rightarrow> nat option" where
  "int_digits prev acc [] = (if prev then Some acc else None)"
| "int_digits prev acc (c # cs) =
     (if is_digit c then int_digits True (10 * acc + digit_val c) cs
      else if c = CHR ''_'' \<and> prev then int_digits False acc cs
      else None)"

text \<open>\<open>int(s)\<close>: \<open>None\<close> is the \<open>ValueError\<close>.\<close>

definition py_int :: "string \<Rightarrow> int option" where
  "py_int s = (case strip s of
     [] \<Rightarrow> None
   | c # cs \<Rightarrow>
       if c = CHR ''-'' then map_option (\<lambda>n. - int n) (int_digits False 0 cs)
       else if c = CHR ''+'' then map_option int (int_digits False 0 cs)
       else map_option int (int_digits False 0 (c # cs)))"

text \<open>
  \<open>float(s)\<close> on decimal notation, with an optional exponent: \<open>None\<close> is the
  \<open>ValueError\<close>. The words \<open>inf\<close> and \<open>nan\<close>, which Python also reads, are not modelled.
\<close>

definition mantissa :: "string \<Rightarrow> rat option" where
  "mantissa s =
     (let ip = takeWhile (\<lambda>c. c \<noteq> CHR ''.'') s;
          fp = drop 1 (dropWhile (\<lambda>c. c \<noteq> CHR ''.'') s);
          iv = (if ip = [] then Some 0 else int_digits False 0 ip);
          fv = (if fp = [] then Some 0 else int_digits False 0 fp);
          k = length (filter is_digit fp)
      in if ip = [] \<and> fp = [] then None
         else case (iv, fv) of
             (Some a, Some b) \<Rightarrow> Some (of_nat a + of_nat b / 10 ^ k)
           | _ \<Rightarrow> None)"

definition exponent :: "string \<Rightarrow> int option" where
  "exponent s = (if s \<noteq> [] \<and> is_space (hd s) then None
     else if s \<noteq> [] \<and> is_space (last s) then None else py_int s)"

definition unsigned_float :: "string \<Rightarrow> rat option" where
  "unsigned_float s =
     (let m = takeWhile (\<lambda>c. lower_char c \<noteq> CHR ''e'') s;
          r = dropWhile (\<lambda>c. lower_char c \<noteq> CHR ''e'') s
      in case mantissa m of
           None \<Rightarrow> None
         | Some v \<Rightarrow>
             (case r of
                [] \<Rightarrow> Some v
              | _ # e \<Rightarrow> (case exponent e of
                    None \<Rightarrow> None
                  | Some k \<Rightarrow> Some (if 0 \<le> k then v * 10 ^ nat k else v / 10 ^ nat (- k)))))"

definition py_float :: "string \<Rightarrow> rat option" where
  "py_float s = (case strip s of
     [] \<Rightarrow> None
   | c # cs \<Rightarrow>
       if c = CHR ''-'' then map_option uminus (unsigned_float cs)
       else if c = CHR ''+'' then unsigned_float cs
       else unsigned_float (c # cs))"

text \<open>\<open>round(x, n)\<close>: to n decimals, ties to the even neighbour.\<close>

definition round_half_even :: "rat \<Rightarrow> int" where
  "round_half_even x =
     (let f = floor x; d = x - of_int f
      in if d < 1 / 2 then f else if d > 1 / 2 then f + 1 else if even f then f else f + 1)"

definition py_round :: "nat \<Rightarrow> rat \<Rightarrow> rat" where
  "py_round n x = of_int (round_half_even (x * 10 ^ n)) / 10 ^ n"

text \<open>\<open>int(x)\<close> of a float truncates towards zero.\<close>

definition py_trunc :: "rat \<Rightarrow> int" where
  "py_trunc x = (if 0 \<le> x then floor x else - floor (- x))"

text \<open>Decimal digits of a number, padded with zeros to a width.\<close>

fun digits :: "nat \<Rightarrow> string" where
  "digits n = (if n < 10 then [char_of (48 + n)] else digits (n div 10) @ [char_of (48 + n mod 10)])"

declare digits.simps [simp del]

definition padded :: "nat \<Rightarrow> int \<Rightarrow> string" where
  "padded w n = (let ds = digits (nat n) in replicate (w - length ds) (CHR ''0'') @ ds)"

section \<open>Environment variables\<close>

text \<open>\<open>os.getenv\<close> is a parameter: the process environment.\<close>

type_synonym environ = "string \<Rightarrow> string option"

definition getenv_or :: "environ \<Rightarrow> string \<Rightarrow> string \<Rightarrow> string" where
  "getenv_or env name d = (case env name of None \<Rightarrow> d | Some v \<Rightarrow> v)"

section \<open>UTC timestamps\<close>

type_synonym utc = int

definition day_us :: int where
  "day_us = 86400000000"

definition hours :: "int \<Rightarrow> int" where
  "hours n = n * 3600000000"

definition days :: "int \<Rightarrow> int" where
  "days n = n * day_us"

text \<open>
  The proleptic Gregorian calendar of \<open>datetime\<close>: year, month and day of a number
  of days since 1970-01-01.
\<close>

definition civil :: "int \<Rightarrow> int \<times> int \<times> int" where
  "civil n =
     (let z = n + 719468;
          era = z div 146097;
          doe = z mod 146097;
          yoe = (doe - doe div 1460 + doe div 36524 - doe div 146096) div 365;
          doy = doe - (365 * yoe + yoe div 4 - yoe div 100);
          mp = (5 * doy + 2) div 153;
          d = doy - (153 * mp + 2) div 5 + 1;
          m = (if mp < 10 then mp + 3 else mp - 9);
          y = yoe + era * 400 + (if m \<le> 2 then 1 else 0)
      in (y, m, d))"

definition date_of :: "utc \<Rightarrow> int \<times> int \<times> int" where
  "date_of t = civil (t div day_us)"

text \<open>The midnight a timestamp's day starts at, and the first of its month.\<close>

definition day_start :: "utc \<Rightarrow> utc" where
  "day_start t = (t div day_us) * day_us"

definition month_start :: "utc \<Rightarrow> utc" where
  "month_start t = day_start t - (snd (snd (date_of t)) - 1) * day_us"

text \<open>\<open>strftime\<close> with \<open>%Y-%m-%d\<close> and \<open>%Y-%m\<close>.\<close>

definition strf_month :: "utc \<Rightarrow> string" where
  "strf_month t = (case date_of t of (y, m, d) \<Rightarrow> padded 4 y @ ''-'' @ padded 2 m)"

definition strf_day :: "utc \<Rightarrow> string" where
  "strf_day t = (case date_of t of (y, m, d) \<Rightarrow> padded 4 y @ ''-'' @ padded 2 m @ ''-'' @ padded 2 d)"

lemma day_us_pos [simp]: "0 < day_us"
  by (simp add: day_us_def)

lemma day_start_le [simp]: "day_start t \<le> t"
  by (simp add: day_start_def minus_mod_eq_div_mult [symmetric])

lemma civil_day_pos: "1 \<le> snd (snd (civil n))"
proof -
  have bound: "(153 * ((5 * x + 2) div 153) + 2) div 5 \<le> x" for x :: int
  proof -
    have "153 * ((5 * x + 2) div 153) \<le> 5 * x + 2"
      using mult_div_mod_eq [of 153 "5 * x + 2"] pos_mod_sign [of 153 "5 * x + 2"] by linarith
    then show ?thesis by linarith
  qed
  have "1 \<le> x - (153 * ((5 * x + 2) div 153) + 2) div 5 + 1" for x :: int
    using bound [of x] by simp
  then show ?thesis
    unfolding civil_def Let_def by (simp only: prod.sel)
qed

lemma month_start_le_day_start [simp]: "month_start t \<le> day_start t"
  using civil_day_pos [of "t div day_us"]
  by (simp add: month_start_def date_of_def day_us_def)

lemma month_start_le [simp]: "month_start t \<le> t"
  using month_start_le_day_start [of t] day_start_le [of t] by linarith

lemma day_start_idem [simp]: "day_start (day_start t) = day_start t"
  using day_us_pos by (simp add: day_start_def)

lemma day_start_mono: "s \<le> t \<Longrightarrow> day_start s \<le> day_start t"
  by (simp add: day_start_def zdiv_mono1 mult_right_mono)

section \<open>Substrings and letters\<close>

lemma contains_iff: "contains sub s \<longleftrightarrow> (\<exists>a b. s = a @ sub @ b)"
proof (induction s)
  case (Cons c s)
  have "starts_with sub (c # s) \<longleftrightarrow> (\<exists>b. c # s = sub @ b)"
    unfolding starts_with_def by (metis append_eq_conv_conj append_take_drop_id)
  moreover have "(\<exists>a b. c # s = a @ sub @ b) \<longleftrightarrow> (\<exists>b. c # s = sub @ b) \<or> (\<exists>a b. s = a @ sub @ b)"
    by (metis append_Cons append_Nil list.sel(3) neq_Nil_conv)
  ultimately show ?case using Cons.IH by simp
qed simp

lemma contains_trans: "contains a b \<Longrightarrow> contains b c \<Longrightarrow> contains a c"
  unfolding contains_iff by (metis append.assoc)

lemma lower_char_idem [simp]: "lower_char (lower_char c) = lower_char c"
proof (cases "lower_char c = c")
  case False
  then have r: "(65 \<le> (of_char c :: nat) \<and> (of_char c :: nat) \<le> 90) \<or> (192 \<le> (of_char c :: nat) \<and> (of_char c :: nat) \<le> 222 \<and> (of_char c :: nat) \<noteq> 215)"
    by (auto simp: lower_char_def Let_def split: if_splits)
  then have "(of_char (lower_char c) :: nat) = of_char c + 32" by (auto simp: lower_char_def Let_def)
  then show ?thesis using r by (auto simp: lower_char_def [of "lower_char c"] Let_def)
qed simp

lemma lower_idem [simp]: "lower (lower s) = lower s"
  by (simp add: lower_def)

end
