(* ===== verification/Tables.thy ===== *)
theory Tables
  imports Prelude
begin

text \<open>
  SQL-style tables as lists of rows, and the interfaces the components share:
  key/value tables (\<open>kv_store\<close>), counter tables (\<open>counter_store\<close>), admission
  against a cap (\<open>capped\<close>) and logs that only grow (\<open>append_log\<close>).
\<close>

section \<open>Rows found and written by key\<close>

text \<open>\<open>SELECT ... WHERE key = ?\<close> on a table with a unique key.\<close>

definition find_row :: "('r \<Rightarrow> 'k) \<Rightarrow> 'k \<Rightarrow> 'r list \<Rightarrow> 'r option" where
  "find_row key k rows = List.find (\<lambda>r. key r = k) rows"

text \<open>
  \<open>INSERT ... ON CONFLICT(key) DO UPDATE\<close>: rewrite the row with the new row's key,
  or append the new row.
\<close>

fun upsert :: "('r \<Rightarrow> 'k) \<Rightarrow> ('r \<Rightarrow> 'r) \<Rightarrow> 'r \<Rightarrow> 'r list \<Rightarrow> 'r list" where
  "upsert key upd r [] = [r]"
| "upsert key upd r (x # xs) = (if key x = key r then upd x # xs else x # upsert key upd r xs)"

text \<open>\<open>COALESCE(SUM(column), 0) ... WHERE p\<close>.\<close>

definition sum_where :: "('r \<Rightarrow> rat) \<Rightarrow> ('r \<Rightarrow> bool) \<Rightarrow> 'r list \<Rightarrow> rat" where
  "sum_where f p rows = sum_list (map f (filter p rows))"

text \<open>\<open>UPDATE\<close> of the rows that satisfy a condition.\<close>

definition update_where :: "('r \<Rightarrow> bool) \<Rightarrow> ('r \<Rightarrow> 'r) \<Rightarrow> 'r list \<Rightarrow> 'r list" where
  "update_where p f rows = map (\<lambda>r. if p r then f r else r) rows"

text \<open>\<open>LIMIT n\<close>: a negative limit is no limit.\<close>

definition sql_limit :: "int \<Rightarrow> 'a list \<Rightarrow> 'a list" where
  "sql_limit n xs = (if n < 0 then xs else take (nat n) xs)"

definition sql_offset :: "int \<Rightarrow> 'a list \<Rightarrow> 'a list" where
  "sql_offset n xs = drop (nat n) xs"

lemma find_row_Nil [simp]: "find_row key k [] = None"
  by (simp add: find_row_def)

lemma find_row_Cons [simp]:
  "find_row key k (r # rows) = (if key r = k then Some r else find_row key k rows)"
  by (simp add: find_row_def)

lemma find_row_None_iff: "find_row key k rows = None \<longleftrightarrow> k \<notin> key ` set rows"
  by (induction rows) auto

lemma find_row_SomeD: "find_row key k rows = Some r \<Longrightarrow> r \<in> set rows \<and> key r = k"
  by (induction rows) (auto split: if_splits)

lemma find_row_distinct:
  "distinct (map key rows) \<Longrightarrow> r \<in> set rows \<Longrightarrow> find_row key (key r) rows = Some r"
  by (induction rows) (auto simp: image_iff)

lemma find_row_append:
  "find_row key k (xs @ ys) = (case find_row key k xs of Some r \<Rightarrow> Some r | None \<Rightarrow> find_row key k ys)"
  by (induction xs) auto

lemma find_row_upsert:
  assumes "\<And>x. key (upd x) = key x"
  shows "find_row key k (upsert key upd r rows) =
    (if k = key r then Some (case find_row key k rows of None \<Rightarrow> r | Some x \<Rightarrow> upd x)
     else find_row key k rows)"
  by (induction rows) (auto simp: assms)

lemma upsert_keys:
  assumes "\<And>x. key (upd x) = key x"
  shows "key ` set (upsert key upd r rows) = insert (key r) (key ` set rows)"
  by (induction rows) (auto simp: assms)

lemma upsert_distinct:
  assumes "\<And>x. key (upd x) = key x" and "distinct (map key rows)"
  shows "distinct (map key (upsert key upd r rows))"
  using assms(2)
proof (induction rows)
  case (Cons x rows)
  then show ?case
    using upsert_keys [of key upd r rows, OF assms(1)] by (auto simp: assms(1))
qed simp

lemma upsert_Nil_iff [simp]: "upsert key upd r rows \<noteq> []"
  by (cases rows) auto

lemma sum_where_Nil [simp]: "sum_where f p [] = 0"
  by (simp add: sum_where_def)

lemma sum_where_append [simp]: "sum_where f p (xs @ ys) = sum_where f p xs + sum_where f p ys"
  by (simp add: sum_where_def)

lemma sum_where_single [simp]: "sum_where f p [x] = (if p x then f x else 0)"
  by (simp add: sum_where_def)

lemma sum_where_Cons: "sum_where f p (x # xs) = (if p x then f x else 0) + sum_where f p xs"
  by (simp add: sum_where_def)

lemma sum_where_nonneg: "(\<And>x. x \<in> set xs \<Longrightarrow> 0 \<le> f x) \<Longrightarrow> 0 \<le> sum_where f p xs"
  by (simp add: sum_where_def) (rule sum_list_nonneg, auto)

text \<open>A wider window never sums to less.\<close>

lemma sum_where_mono:
  assumes "\<And>x. x \<in> set xs \<Longrightarrow> 0 \<le> f x" and "\<And>x. p x \<Longrightarrow> q x"
  shows "sum_where f p xs \<le> sum_where f q xs"
  using assms(1)
proof (induction xs)
  case (Cons x xs)
  then have "0 \<le> f x" and "sum_where f p xs \<le> sum_where f q xs" by auto
  then show ?case using assms(2) [of x] by (auto simp: sum_where_Cons)
qed simp

lemma length_update_where [simp]: "length (update_where p f rows) = length rows"
  by (simp add: update_where_def)

lemma map_update_where:
  assumes "\<And>x. x \<in> set rows \<Longrightarrow> p x \<Longrightarrow> g (f x) = g x"
  shows "map g (update_where p f rows) = map g rows"
  using assms by (auto simp: update_where_def)

lemma sql_limit_subset: "set (sql_limit n xs) \<subseteq> set xs"
  by (auto simp: sql_limit_def dest: in_set_takeD)

lemma sql_limit_length: "0 \<le> n \<Longrightarrow> int (length (sql_limit n xs)) \<le> n"
  by (auto simp: sql_limit_def)

section \<open>Interface: a key/value table\<close>

locale kv_store =
  fixes lookup :: "'s \<Rightarrow> 'k \<Rightarrow> 'v option"
    and put :: "'k \<Rightarrow> 'v \<Rightarrow> 's \<Rightarrow> 's"
  assumes lookup_put: "lookup (put k v s) k' = (if k' = k then Some v else lookup s k')"
begin

lemma lookup_put_same: "lookup (put k v s) k = Some v"
  by (simp add: lookup_put)

lemma lookup_put_other: "k' \<noteq> k \<Longrightarrow> lookup (put k v s) k' = lookup s k'"
  by (simp add: lookup_put)

lemma put_overwrites: "lookup (put k w (put k v s)) = lookup (put k w s)"
  by (rule ext) (simp add: lookup_put)

lemma put_commutes: "k \<noteq> j \<Longrightarrow> lookup (put k v (put j w s)) = lookup (put j w (put k v s))"
  by (rule ext) (simp add: lookup_put)

end

text \<open>A Python dict as the list of its items in insertion order.\<close>

definition dict_get :: "('k \<times> 'v) list \<Rightarrow> 'k \<Rightarrow> 'v option" where
  "dict_get d k = map_option snd (find_row fst k d)"

definition dict_set :: "'k \<Rightarrow> 'v \<Rightarrow> ('k \<times> 'v) list \<Rightarrow> ('k \<times> 'v) list" where
  "dict_set k v d = upsert fst (\<lambda>r. (fst r, v)) (k, v) d"

interpretation dict_kv: kv_store dict_get dict_set
proof unfold_locales
  fix k :: 'k and v :: 'v and d k'
  have "find_row fst k' (upsert fst (\<lambda>r. (fst r, v)) (k, v) d) =
    (if k' = k then Some (case find_row fst k d of None \<Rightarrow> (k, v) | Some x \<Rightarrow> (fst x, v)) else find_row fst k' d)"
    by (subst find_row_upsert) auto
  then show "dict_get (dict_set k v d) k' = (if k' = k then Some v else dict_get d k')"
    by (simp add: dict_get_def dict_set_def split: option.splits)
qed

section \<open>Interface: a table of counters\<close>

locale counter_store =
  fixes count :: "'s \<Rightarrow> 'k \<Rightarrow> int"
    and bump :: "'k \<Rightarrow> 's \<Rightarrow> 's"
  assumes count_bump: "count (bump k s) k' = count s k' + (if k' = k then 1 else 0)"
begin

lemma count_fold: "count (fold bump ks s) k = count s k + int (count_list ks k)"
  by (induction ks arbitrary: s) (simp_all add: count_bump)

lemma count_fold_distinct:
  "distinct ks \<Longrightarrow> count (fold bump ks s) k = count s k + (if k \<in> set ks then 1 else 0)"
  by (simp add: count_fold count_list_eq_length_filter distinct_length_filter Int_commute)

end

section \<open>Interface: admission against a cap\<close>

text \<open>
  \<open>cap > 0 and used \<ge> cap\<close> is the code's test that a cap is exhausted: a cap of
  zero or less is no cap.
\<close>

definition cap_of :: "int \<Rightarrow> int option" where
  "cap_of n = (if 0 < n then Some n else None)"

definition below_cap :: "int option \<Rightarrow> int \<Rightarrow> bool" where
  "below_cap c n = (case c of None \<Rightarrow> True | Some m \<Rightarrow> n < m)"

definition within_cap :: "int option \<Rightarrow> int \<Rightarrow> bool" where
  "within_cap c n = (case c of None \<Rightarrow> True | Some m \<Rightarrow> n \<le> m)"

text \<open>A sequence of requests served one after the other: the answers and the last state.\<close>

fun serve :: "('r \<Rightarrow> 's \<Rightarrow> 'a \<times> 's) \<Rightarrow> 'r list \<Rightarrow> 's \<Rightarrow> 'a list \<times> 's" where
  "serve step [] s = ([], s)"
| "serve step (r # rs) s =
     (case step r s of (a, s') \<Rightarrow> case serve step rs s' of (as, t) \<Rightarrow> (a # as, t))"

locale capped =
  fixes step :: "'r \<Rightarrow> 's \<Rightarrow> 'a \<times> 's"
    and admitted :: "'a \<Rightarrow> bool"
    and invar :: "'s \<Rightarrow> bool"
    and used :: "'s \<Rightarrow> int"
    and cap :: "int option"
  assumes invar_step: "invar s \<Longrightarrow> invar (snd (step r s))"
    and refused: "\<not> admitted (fst (step r s)) \<Longrightarrow> invar s \<Longrightarrow> used (snd (step r s)) = used s"
    and granted: "admitted (fst (step r s)) \<Longrightarrow> invar s \<Longrightarrow>
      used (snd (step r s)) = used s \<or> used (snd (step r s)) = used s + 1 \<and> below_cap cap (used s)"
begin

lemma step_within:
  "invar s \<Longrightarrow> within_cap cap (used s) \<Longrightarrow> within_cap cap (used (snd (step r s)))"
  using refused [of r s] granted [of r s]
  by (cases cap; cases "admitted (fst (step r s))") (auto simp: within_cap_def below_cap_def)

lemma serve_invar: "invar s \<Longrightarrow> invar (snd (serve step rs s))"
  by (induction rs arbitrary: s) (simp_all add: split_beta invar_step)

lemma serve_within:
  "invar s \<Longrightarrow> within_cap cap (used s) \<Longrightarrow> within_cap cap (used (snd (serve step rs s)))"
proof (induction rs arbitrary: s)
  case (Cons r rs)
  have "within_cap cap (used (snd (serve step rs (snd (step r s)))))"
    using invar_step step_within Cons.prems by (intro Cons.IH) auto
  then show ?case by (simp add: split_beta)
qed simp

lemma serve_used_le:
  "invar s \<Longrightarrow>
   used (snd (serve step rs s)) \<le> used s + int (length (filter admitted (fst (serve step rs s))))"
proof (induction rs arbitrary: s)
  case (Cons r rs)
  show ?case
    using Cons.IH [OF invar_step [OF Cons.prems, of r]] refused [of r s] granted [of r s] Cons.prems
    by (cases "admitted (fst (step r s))") (auto simp: split_beta)
qed simp

lemma serve_mono: "invar s \<Longrightarrow> used s \<le> used (snd (serve step rs s))"
proof (induction rs arbitrary: s)
  case (Cons r rs)
  show ?case
    using Cons.IH [OF invar_step [OF Cons.prems, of r]] refused [of r s] granted [of r s] Cons.prems
    by (cases "admitted (fst (step r s))") (auto simp: split_beta)
qed simp

end

section \<open>Interface: a log that only grows\<close>

locale append_log =
  fixes op :: "'r \<Rightarrow> 's \<Rightarrow> 's"
    and log :: "'s \<Rightarrow> 'e list"
  assumes appends: "\<exists>es. log (op r s) = log s @ es"
begin

lemma fold_appends: "\<exists>es. log (fold op rs s) = log s @ es"
proof (induction rs arbitrary: s)
  case (Cons r rs)
  obtain es where "log (op r s) = log s @ es" using appends by blast
  moreover obtain fs where "log (fold op rs (op r s)) = log (op r s) @ fs" using Cons by blast
  ultimately show ?case by auto
qed simp

lemma fold_keeps: "e \<in> set (log s) \<Longrightarrow> e \<in> set (log (fold op rs s))"
  using fold_appends [of rs s] by auto

lemma fold_length: "length (log s) \<le> length (log (fold op rs s))"
  using fold_appends [of rs s] by auto

end

end
