(* ===== verification/BudgetAlerts.thy ===== *)
theory BudgetAlerts
  imports Tables
begin

text \<open>
  \<open>core/budget_alerts.py\<close>: the \<open>BudgetAlertManager\<close>. Its table
  \<open>budget_alert_fired\<close> is a list of rows unique in (provider, threshold); webhook
  posts are an outbox the operations append to, with the success of a post as a
  parameter. The lock of \<open>init\<close> makes each operation one step.
\<close>

section \<open>State\<close>

record budget_alert =
  ba_provider_id :: string
  ba_threshold_pct :: int
  ba_limit_usd :: rat
  ba_used_usd :: rat
  ba_remaining_usd :: rat
  ba_fired_at :: utc

record fired_row =
  fr_provider_id :: string
  fr_threshold_pct :: int
  fr_fired_at :: utc

record alert_manager =
  am_ready :: bool
  am_webhook_url :: "string option"
  am_thresholds :: "int list"
  am_table :: bool
  am_fired :: "fired_row list"
  am_outbox :: "budget_alert list"

datatype alert_io = AlertInit | AlertCheck string int | AlertRecord string int | AlertReset

definition DEFAULT_THRESHOLDS :: "int list" where
  "DEFAULT_THRESHOLDS = [80, 100]"

section \<open>Configuration\<close>

text \<open>
  \<open>[int(x.strip()) for x in s.split(",") if x.strip()]\<close>: \<open>None\<close> when one of the
  parts is not an integer.
\<close>

fun parse_thresholds :: "string list \<Rightarrow> int list option" where
  "parse_thresholds [] = Some []"
| "parse_thresholds (x # xs) =
     (if strip x = [] then parse_thresholds xs
      else case (py_int (strip x), parse_thresholds xs) of
          (Some n, Some ns) \<Rightarrow> Some (n # ns)
        | _ \<Rightarrow> None)"

definition clamp_thresholds :: "int list \<Rightarrow> int list" where
  "clamp_thresholds ts = sort (remdups (map (\<lambda>t. max 0 (min 100 t)) ts))"

definition load_thresholds :: "environ \<Rightarrow> int list" where
  "load_thresholds env =
     (case parse_thresholds (split_on (CHR '','') (getenv_or env ''BUDGET_ALERT_THRESHOLDS'' ''80,100'')) of
        None \<Rightarrow> DEFAULT_THRESHOLDS
      | Some ts \<Rightarrow> clamp_thresholds ts)"

definition load_webhook :: "environ \<Rightarrow> string \<Rightarrow> string option" where
  "load_webhook env name =
     (let u = strip (getenv_or env name '''') in if u = [] then None else Some u)"

text \<open>A new manager over a database whose table holds \<open>rows\<close>, if it exists.\<close>

definition new_alert_manager :: "environ \<Rightarrow> bool \<Rightarrow> fired_row list \<Rightarrow> alert_manager" where
  "new_alert_manager env table rows =
     \<lparr> am_ready = False,
       am_webhook_url = load_webhook env ''BUDGET_ALERT_WEBHOOK_URL'',
       am_thresholds = load_thresholds env,
       am_table = table, am_fired = rows, am_outbox = [] \<rparr>"

section \<open>Operations\<close>

definition alert_init :: "alert_io faults \<Rightarrow> alert_manager \<Rightarrow> alert_manager" where
  "alert_init io m =
     (if am_ready m then m
      else if io AlertInit \<noteq> None then m
      else m\<lparr>am_ready := True, am_table := True\<rparr>)"

definition fired_key :: "fired_row \<Rightarrow> string \<times> int" where
  "fired_key r = (fr_provider_id r, fr_threshold_pct r)"

text \<open>When the alert last fired for this provider and threshold.\<close>

definition last_fired :: "alert_manager \<Rightarrow> string \<times> int \<Rightarrow> utc option" where
  "last_fired m k = map_option fr_fired_at (find_row fired_key k (am_fired m))"

definition put_fired :: "string \<times> int \<Rightarrow> utc \<Rightarrow> alert_manager \<Rightarrow> alert_manager" where
  "put_fired k t m =
     m\<lparr>am_fired := upsert fired_key (\<lambda>r. r\<lparr>fr_fired_at := t\<rparr>)
         \<lparr>fr_provider_id = fst k, fr_threshold_pct = snd k, fr_fired_at = t\<rparr> (am_fired m)\<rparr>"

text \<open>\<open>row[0][:10]\<close> against today's \<open>%Y-%m-%d\<close>; a failed read means: do not fire.\<close>

definition should_fire :: "alert_io faults \<Rightarrow> utc \<Rightarrow> string \<Rightarrow> int \<Rightarrow> alert_manager \<Rightarrow> bool" where
  "should_fire io now p thr m =
     (if io (AlertCheck p thr) \<noteq> None then False
      else case last_fired m (p, thr) of
          None \<Rightarrow> True
        | Some t \<Rightarrow> date_of t \<noteq> date_of now)"

definition record_fired :: "alert_io faults \<Rightarrow> utc \<Rightarrow> string \<Rightarrow> int \<Rightarrow> alert_manager \<Rightarrow> alert_manager" where
  "record_fired io now p thr m =
     (if io (AlertRecord p thr) \<noteq> None then m else put_fired (p, thr) now m)"

text \<open>
  \<open>_send_alert\<close>: the post is attempted when a webhook is configured; whether it
  succeeded is returned, and the caller does not look at it.
\<close>

definition send_alert :: "bool \<Rightarrow> budget_alert \<Rightarrow> alert_manager \<Rightarrow> bool \<times> alert_manager" where
  "send_alert post_ok a m =
     (if am_webhook_url m = None then (False, m)
      else (post_ok, m\<lparr>am_outbox := am_outbox m @ [a]\<rparr>))"

fun fire_thresholds ::
  "alert_io faults \<Rightarrow> bool \<Rightarrow> utc \<Rightarrow> string \<Rightarrow> rat \<Rightarrow> rat \<Rightarrow> rat \<Rightarrow> rat \<Rightarrow> int list \<Rightarrow> alert_manager
    \<Rightarrow> budget_alert list \<times> alert_manager" where
  "fire_thresholds io ok now p limit used pct remaining [] m = ([], m)"
| "fire_thresholds io ok now p limit used pct remaining (thr # ts) m =
     (if pct \<ge> of_int thr \<and> should_fire io now p thr m then
        (let a = \<lparr>ba_provider_id = p, ba_threshold_pct = thr, ba_limit_usd = limit,
                  ba_used_usd = used, ba_remaining_usd = remaining, ba_fired_at = now\<rparr>;
             m1 = record_fired io now p thr (snd (send_alert ok a m));
             (as, m2) = fire_thresholds io ok now p limit used pct remaining ts m1
         in (a # as, m2))
      else fire_thresholds io ok now p limit used pct remaining ts m)"

definition check_and_alert ::
  "alert_io faults \<Rightarrow> bool \<Rightarrow> utc \<Rightarrow> string \<Rightarrow> rat \<Rightarrow> rat \<Rightarrow> alert_manager
    \<Rightarrow> budget_alert list \<times> alert_manager" where
  "check_and_alert io ok now p limit used m0 =
     (let m = alert_init io m0 in
      if \<not> am_ready m \<or> am_webhook_url m = None then ([], m)
      else if limit \<le> 0 then ([], m)
      else fire_thresholds io ok now p limit used
             (min 100 ((used / limit) * 100)) (max 0 (limit - used)) (am_thresholds m) m)"

definition reset_alerts :: "alert_io faults \<Rightarrow> string option \<Rightarrow> alert_manager \<Rightarrow> int \<times> alert_manager" where
  "reset_alerts io p m0 =
     (let m = alert_init io m0;
          hit = (\<lambda>r. opt_str_or p '''' = [] \<or> fr_provider_id r = the p)
      in if \<not> am_ready m then (0, m)
         else if io AlertReset \<noteq> None then (0, m)
         else (int (length (filter hit (am_fired m))),
               m\<lparr>am_fired := filter (\<lambda>r. \<not> hit r) (am_fired m)\<rparr>))"

lemmas alert_defs = check_and_alert_def alert_init_def should_fire_def record_fired_def
  send_alert_def put_fired_def last_fired_def fired_key_def Let_def

section \<open>The fired table is a key/value table\<close>

interpretation fired_kv: kv_store last_fired put_fired
proof unfold_locales
  fix k :: "string \<times> int" and t :: utc and m :: alert_manager and k'
  show "last_fired (put_fired k t m) k' = (if k' = k then Some t else last_fired m k')"
    by (cases k; cases k')
       (auto simp: last_fired_def put_fired_def find_row_upsert fired_key_def split: option.splits)
qed

lemma last_fired_outbox [simp]: "last_fired (m\<lparr>am_outbox := x\<rparr>) k = last_fired m k"
  by (simp add: last_fired_def)

lemma put_fired_fields [simp]:
  "am_outbox (put_fired k t m) = am_outbox m" "am_ready (put_fired k t m) = am_ready m"
  "am_webhook_url (put_fired k t m) = am_webhook_url m"
  "am_thresholds (put_fired k t m) = am_thresholds m" "am_table (put_fired k t m) = am_table m"
  by (simp_all add: put_fired_def)

definition fired_wf :: "alert_manager \<Rightarrow> bool" where
  "fired_wf m \<longleftrightarrow> distinct (map fired_key (am_fired m))"

lemma put_fired_wf: "fired_wf m \<Longrightarrow> fired_wf (put_fired k t m)"
  by (simp add: fired_wf_def put_fired_def) (rule upsert_distinct, simp_all add: fired_key_def)

section \<open>What a run of the thresholds does\<close>

lemma record_fired_other:
  "k \<noteq> (p, thr) \<Longrightarrow> last_fired (record_fired io now p thr m) k = last_fired m k"
  by (simp add: record_fired_def fired_kv.lookup_put)

lemma send_alert_fired [simp]: "last_fired (snd (send_alert ok a m)) k = last_fired m k"
  by (simp add: send_alert_def)

lemma fire_fields:
  "am_webhook_url (snd (fire_thresholds io ok now p l u pct r ts m)) = am_webhook_url m"
  "am_ready (snd (fire_thresholds io ok now p l u pct r ts m)) = am_ready m"
  "am_thresholds (snd (fire_thresholds io ok now p l u pct r ts m)) = am_thresholds m"
  by (induction ts arbitrary: m)
     (auto simp: Let_def split_beta record_fired_def send_alert_def)

lemma record_fired_wf: "fired_wf m \<Longrightarrow> fired_wf (record_fired io now p thr (snd (send_alert ok a m)))"
  by (auto simp: record_fired_def send_alert_def intro!: put_fired_wf) (simp_all add: fired_wf_def)

lemma fire_wf: "fired_wf m \<Longrightarrow> fired_wf (snd (fire_thresholds io ok now p l u pct r ts m))"
proof (induction ts arbitrary: m)
  case (Cons thr ts)
  then show ?case using record_fired_wf by (simp add: Let_def split_beta)
qed simp

lemma fire_last_fired_other:
  "fst k \<noteq> p \<or> snd k \<notin> set ts \<Longrightarrow>
   last_fired (snd (fire_thresholds io ok now p l u pct r ts m)) k = last_fired m k"
proof (induction ts arbitrary: m)
  case (Cons thr ts)
  then have "k \<noteq> (p, thr)" and "fst k \<noteq> p \<or> snd k \<notin> set ts" by auto
  with Cons.IH show ?case by (simp add: Let_def split_beta record_fired_other)
qed simp

text \<open>The thresholds that fire are exactly the reached ones that had not fired today.\<close>

lemma fire_thresholds_exact:
  "distinct ts \<Longrightarrow>
   map ba_threshold_pct (fst (fire_thresholds io ok now p l u pct r ts m)) =
   filter (\<lambda>thr. pct \<ge> of_int thr \<and> should_fire io now p thr m) ts"
proof (induction ts arbitrary: m)
  case (Cons thr ts)
  have same: "should_fire io now p t (record_fired io now p thr (snd (send_alert ok a m)))
      = should_fire io now p t m" if "t \<in> set ts" for t a
  proof -
    have "(p, t) \<noteq> (p, thr)" using that Cons.prems by auto
    then show ?thesis by (simp add: should_fire_def record_fired_other)
  qed
  show ?case
    using Cons same by (auto simp: Let_def split_beta intro!: filter_cong)
qed simp

lemma fire_outbox:
  "am_webhook_url m \<noteq> None \<Longrightarrow>
   am_outbox (snd (fire_thresholds io ok now p l u pct r ts m)) =
   am_outbox m @ fst (fire_thresholds io ok now p l u pct r ts m)"
proof (induction ts arbitrary: m)
  case (Cons thr ts)
  then show ?case
    by (auto simp: Let_def split_beta record_fired_def send_alert_def)
qed simp

text \<open>A threshold that fired is recorded with the time it fired at, faults aside.\<close>

lemma fire_records:
  "io (AlertRecord p thr) = None \<Longrightarrow> distinct ts \<Longrightarrow>
   thr \<in> ba_threshold_pct ` set (fst (fire_thresholds io ok now p l u pct r ts m)) \<Longrightarrow>
   last_fired (snd (fire_thresholds io ok now p l u pct r ts m)) (p, thr) = Some now"
proof (induction ts arbitrary: m)
  case (Cons t ts)
  show ?case
  proof (cases "pct \<ge> of_int t \<and> should_fire io now p t m")
    case True
    show ?thesis
    proof (cases "t = thr")
      case same: True
      with True Cons.prems show ?thesis
        by (simp add: Let_def split_beta fire_last_fired_other record_fired_def fired_kv.lookup_put)
    next
      case False
      with True Cons show ?thesis by (simp add: Let_def split_beta)
    qed
  next
    case False
    with Cons show ?thesis by (auto simp: Let_def split_beta)
  qed
qed simp

lemma alert_init_fields [simp]:
  "am_webhook_url (alert_init io m) = am_webhook_url m"
  "am_thresholds (alert_init io m) = am_thresholds m"
  "am_fired (alert_init io m) = am_fired m" "am_outbox (alert_init io m) = am_outbox m"
  "last_fired (alert_init io m) = last_fired m"
  by (auto simp: alert_init_def last_fired_def)

lemma alert_init_idem [simp]: "alert_init io (alert_init io m) = alert_init io m"
  by (simp add: alert_init_def)

lemma should_fire_init [simp]: "should_fire io now p thr (alert_init io m) = should_fire io now p thr m"
  by (simp add: should_fire_def)

lemma clamp_thresholds_props:
  "sorted (clamp_thresholds ts)" "distinct (clamp_thresholds ts)"
  "set (clamp_thresholds ts) \<subseteq> {0..100}"
  by (auto simp: clamp_thresholds_def)

lemma load_thresholds_props:
  "sorted (load_thresholds env) \<and> distinct (load_thresholds env) \<and> set (load_thresholds env) \<subseteq> {0..100}"
  using clamp_thresholds_props
  by (auto simp: load_thresholds_def DEFAULT_THRESHOLDS_def split: option.splits)

lemma check_and_alert_outbox:
  "am_outbox (snd (check_and_alert io ok now p l u m)) = am_outbox m @ fst (check_and_alert io ok now p l u m)"
  by (auto simp: check_and_alert_def Let_def fire_outbox)

lemma check_and_alert_wf: "fired_wf m \<Longrightarrow> fired_wf (snd (check_and_alert io ok now p l u m))"
  by (auto simp: check_and_alert_def Let_def intro!: fire_wf) (simp_all add: fired_wf_def)

lemma check_and_alert_fields [simp]:
  "am_webhook_url (snd (check_and_alert io ok now p l u m)) = am_webhook_url m"
  "am_thresholds (snd (check_and_alert io ok now p l u m)) = am_thresholds m"
  by (auto simp: check_and_alert_def Let_def fire_fields)

section \<open>Properties\<close>

lemma check_and_alert_fires:
  assumes "am_ready (alert_init io m)" "am_webhook_url m \<noteq> None" "0 < limit" "distinct (am_thresholds m)"
  shows "map ba_threshold_pct (fst (check_and_alert io ok now p limit used m)) =
    filter (\<lambda>thr. min 100 ((used / limit) * 100) \<ge> of_int thr \<and> should_fire io now p thr m) (am_thresholds m)"
  using assms by (auto simp: check_and_alert_def Let_def fire_thresholds_exact)

lemma check_and_alert_fired_pcts:
  assumes "distinct (am_thresholds m)" "thr \<in> ba_threshold_pct ` set (fst (check_and_alert io ok now p limit used m))"
  shows "should_fire io now p thr m" "am_ready (alert_init io m)" "am_webhook_url m \<noteq> None" "0 < limit"
proof -
  have ready: "am_ready (alert_init io m)" "am_webhook_url m \<noteq> None" "0 < limit"
    using assms(2) by (auto simp: check_and_alert_def Let_def split: if_splits)
  from assms(2) have "thr \<in> set (map ba_threshold_pct (fst (check_and_alert io ok now p limit used m)))" by simp
  then show "should_fire io now p thr m"
    unfolding check_and_alert_fires [OF ready assms(1)] by simp
  show "am_ready (alert_init io m)" "am_webhook_url m \<noteq> None" "0 < limit" using ready by simp_all
qed

lemma check_and_alert_records:
  assumes "distinct (am_thresholds m)" "io (AlertRecord p thr) = None"
    and "thr \<in> ba_threshold_pct ` set (fst (check_and_alert io ok now p limit used m))"
  shows "last_fired (snd (check_and_alert io ok now p limit used m)) (p, thr) = Some now"
  using check_and_alert_fired_pcts [OF assms(1,3)] assms
  by (auto simp: check_and_alert_def Let_def intro!: fire_records)

text \<open>A threshold check fires exactly the configured thresholds that the usage has
  reached and that have not fired for this provider today, in ascending order of the
  configuration, and posts one webhook message for each.\<close>

theorem check_and_alert_exact:
  assumes "am_ready (alert_init io m)" and "am_webhook_url m \<noteq> None" and "0 < limit"
    and "distinct (am_thresholds m)"
  shows "map ba_threshold_pct (fst (check_and_alert io ok now p limit used m)) =
      filter (\<lambda>thr. min 100 ((used / limit) * 100) \<ge> of_int thr \<and> should_fire io now p thr m) (am_thresholds m)
    \<and> am_outbox (snd (check_and_alert io ok now p limit used m)) =
      am_outbox m @ fst (check_and_alert io ok now p limit used m)"
  using check_and_alert_fires [OF assms] check_and_alert_outbox by blast

definition sample_alerts :: alert_manager where
  "sample_alerts = \<lparr>am_ready = True, am_webhook_url = Some ''https://hook'', am_thresholds = [80, 100],
     am_table = True, am_fired = [], am_outbox = []\<rparr>"

theorem check_and_alert_exact_witness:
  "map ba_threshold_pct (fst (check_and_alert no_faults True 5 ''openai'' 10 9 sample_alerts)) = [80]"
proof -
  have "map ba_threshold_pct (fst (check_and_alert no_faults True 5 ''openai'' 10 9 sample_alerts)) =
      filter (\<lambda>thr. min 100 ((9 / 10) * 100) \<ge> (of_int thr :: rat) \<and> should_fire no_faults 5 ''openai'' thr sample_alerts)
        (am_thresholds sample_alerts)"
    using check_and_alert_exact [of no_faults sample_alerts 10 True 5 "''openai''" 9]
    by (simp add: sample_alerts_def alert_init_def)
  then show ?thesis by (simp add: sample_alerts_def should_fire_def last_fired_def)
qed

text \<open>No threshold alerts twice on one UTC day for one provider, whatever the limits and
  amounts of the two checks. In particular a monthly check that follows a daily one
  under the same provider name stays silent at every threshold the daily one fired.\<close>

theorem alert_not_twice_a_day:
  assumes "distinct (am_thresholds m)" and "io (AlertRecord p thr) = None"
    and "thr \<in> ba_threshold_pct ` set (fst (check_and_alert io ok now p limit used m))"
    and "date_of now' = date_of now"
  shows "thr \<notin> ba_threshold_pct `
    set (fst (check_and_alert io' ok' now' p limit' used' (snd (check_and_alert io ok now p limit used m))))"
proof
  let ?m = "snd (check_and_alert io ok now p limit used m)"
  assume "thr \<in> ba_threshold_pct ` set (fst (check_and_alert io' ok' now' p limit' used' ?m))"
  then have "should_fire io' now' p thr ?m"
    using assms(1) by (intro check_and_alert_fired_pcts(1)) simp
  then show False
    using check_and_alert_records [OF assms(1-3)] assms(4) by (simp add: should_fire_def split: if_splits)
qed

theorem alert_not_twice_a_day_witness:
  "80 \<notin> ba_threshold_pct ` set (fst (check_and_alert no_faults True 6 ''openai'' 100 90
      (snd (check_and_alert no_faults True 5 ''openai'' 10 9 sample_alerts))))"
proof (rule alert_not_twice_a_day)
  show "80 \<in> ba_threshold_pct ` set (fst (check_and_alert no_faults True 5 ''openai'' 10 9 sample_alerts))"
    by (simp add: sample_alerts_def alert_defs)
  show "date_of 6 = date_of 5" by (simp add: date_of_def day_us_def)
qed (simp_all add: sample_alerts_def)

text \<open>Whatever the environment says, the thresholds in use are percentages between 0 and
  100, in ascending order and without repetition.\<close>

theorem thresholds_well_formed:
  "sorted (load_thresholds env) \<and> distinct (load_thresholds env) \<and> set (load_thresholds env) \<subseteq> {0..100}"
  by (rule load_thresholds_props)

text \<open>An alert counts as fired for the day even when the webhook post failed: the outcome
  of the post changes neither the alerts returned nor the stored rows.\<close>

theorem failed_post_counts_as_fired:
  "check_and_alert io True now p limit used m = check_and_alert io False now p limit used m"
proof -
  have same: "snd (send_alert True a m) = snd (send_alert False a m)" for a m
    by (simp add: send_alert_def)
  have "fire_thresholds io True now p l u pct r ts m = fire_thresholds io False now p l u pct r ts m"
    for l u pct r ts m
    by (induction ts arbitrary: m) (simp_all add: same)
  then show ?thesis by (simp add: check_and_alert_def Let_def)
qed

end
