(* ===== verification/SessionCost.thy ===== *)
theory SessionCost
  imports BudgetAlerts
begin

text \<open>
  \<open>core/session_cost_tracker.py\<close>: the \<open>SessionCostTracker\<close>. The tables
  \<open>session_cost_event\<close> and \<open>session_cost_alert_sent\<close> are lists of rows (the latter
  unique in the session id); webhook posts are an outbox.
\<close>

section \<open>State\<close>

record cost_event =
  ce_session_id :: string
  ce_provider_id :: string
  ce_model :: string
  ce_input_tokens :: int
  ce_output_tokens :: int
  ce_input_cost_usd :: rat
  ce_output_cost_usd :: rat
  ce_total_cost_usd :: rat
  ce_created_at :: utc

record sent_row =
  sr_session_id :: string
  sr_threshold_usd :: rat
  sr_sent_at :: utc

record session_alert =
  sa_session_id :: string
  sa_session_total_usd :: rat
  sa_this_call_cost_usd :: rat
  sa_threshold_usd :: rat
  sa_timestamp :: utc

record cost_tracker =
  ct_ready :: bool
  ct_alert_threshold_usd :: rat
  ct_webhook_url :: "string option"
  ct_tables :: bool
  ct_events :: "cost_event list"
  ct_sent :: "sent_row list"
  ct_outbox :: "session_alert list"

datatype cost_io = CostInit | CostInsert | CostAlertRead | CostAlertWrite | CostSummary | CostTop | CostCleanup

definition DEFAULT_ALERT_THRESHOLD_USD :: rat where
  "DEFAULT_ALERT_THRESHOLD_USD = 5"

definition load_cost_threshold :: "environ \<Rightarrow> rat" where
  "load_cost_threshold env =
     (case env ''SESSION_COST_ALERT_THRESHOLD_USD'' of
        None \<Rightarrow> DEFAULT_ALERT_THRESHOLD_USD
      | Some s \<Rightarrow> (case py_float s of None \<Rightarrow> DEFAULT_ALERT_THRESHOLD_USD | Some x \<Rightarrow> x))"

definition new_cost_tracker :: "environ \<Rightarrow> bool \<Rightarrow> cost_event list \<Rightarrow> sent_row list \<Rightarrow> cost_tracker" where
  "new_cost_tracker env tables events sent =
     \<lparr>ct_ready = False, ct_alert_threshold_usd = load_cost_threshold env,
      ct_webhook_url = load_webhook env ''SESSION_COST_WEBHOOK_URL'',
      ct_tables = tables, ct_events = events, ct_sent = sent, ct_outbox = []\<rparr>"

section \<open>Operations\<close>

definition cost_init :: "cost_io faults \<Rightarrow> cost_tracker \<Rightarrow> cost_tracker" where
  "cost_init io t =
     (if ct_ready t then t
      else if io CostInit \<noteq> None then t
      else t\<lparr>ct_ready := True, ct_tables := True\<rparr>)"

definition session_total :: "cost_tracker \<Rightarrow> string \<Rightarrow> rat" where
  "session_total t sid = sum_where ce_total_cost_usd (\<lambda>e. ce_session_id e = sid) (ct_events t)"

definition already_sent :: "cost_tracker \<Rightarrow> string \<Rightarrow> bool" where
  "already_sent t sid \<longleftrightarrow> sid \<in> sr_session_id ` set (ct_sent t)"

text \<open>\<open>_send_alert\<close>: the amounts are rounded to four decimals in the payload.\<close>

definition send_session_alert :: "utc \<Rightarrow> string \<Rightarrow> rat \<Rightarrow> rat \<Rightarrow> cost_tracker \<Rightarrow> cost_tracker" where
  "send_session_alert now sid amount this_call t =
     (if ct_webhook_url t = None then t
      else t\<lparr>ct_outbox := ct_outbox t @
         [\<lparr>sa_session_id = sid, sa_session_total_usd = py_round 4 amount,
           sa_this_call_cost_usd = py_round 4 this_call,
           sa_threshold_usd = ct_alert_threshold_usd t, sa_timestamp = now\<rparr>]\<rparr>)"

definition check_session_alert :: "cost_io faults \<Rightarrow> utc \<Rightarrow> string \<Rightarrow> rat \<Rightarrow> cost_tracker \<Rightarrow> cost_tracker" where
  "check_session_alert io now sid this_call t =
     (if io CostAlertRead \<noteq> None then t
      else if session_total t sid < ct_alert_threshold_usd t then t
      else if already_sent t sid then t
      else let t1 = send_session_alert now sid (session_total t sid) this_call t
           in if io CostAlertWrite \<noteq> None then t1
              else t1\<lparr>ct_sent := ct_sent t1 @
                [\<lparr>sr_session_id = sid, sr_threshold_usd = ct_alert_threshold_usd t, sr_sent_at = now\<rparr>]\<rparr>)"

record cost_call =
  cc_session_id :: string
  cc_provider_id :: string
  cc_model :: string
  cc_input_tokens :: int
  cc_output_tokens :: int
  cc_input_cost_usd :: rat
  cc_output_cost_usd :: rat

definition call_total :: "cost_call \<Rightarrow> rat" where
  "call_total c = cc_input_cost_usd c + cc_output_cost_usd c"

definition cost_event_of :: "utc \<Rightarrow> cost_call \<Rightarrow> cost_event" where
  "cost_event_of now c =
     \<lparr>ce_session_id = cc_session_id c, ce_provider_id = cc_provider_id c, ce_model = cc_model c,
      ce_input_tokens = cc_input_tokens c, ce_output_tokens = cc_output_tokens c,
      ce_input_cost_usd = cc_input_cost_usd c, ce_output_cost_usd = cc_output_cost_usd c,
      ce_total_cost_usd = call_total c, ce_created_at = now\<rparr>"

text \<open>
  The alert is considered only when this call's own cost reaches the threshold.
\<close>

definition record_cost :: "cost_io faults \<Rightarrow> utc \<Rightarrow> cost_call \<Rightarrow> cost_tracker \<Rightarrow> cost_tracker" where
  "record_cost io now c t0 =
     (let t = cost_init io t0 in
      if \<not> ct_ready t then t
      else if io CostInsert \<noteq> None then t
      else let t1 = t\<lparr>ct_events := ct_events t @ [cost_event_of now c]\<rparr>
           in if ct_webhook_url t1 \<noteq> None \<and> call_total c \<ge> ct_alert_threshold_usd t1
              then check_session_alert io now (cc_session_id c) (call_total c) t1
              else t1)"

datatype session_summary =
    SummaryError string
  | NoCalls string
  | SessionSummary string nat int int rat rat rat utc utc

definition session_rows :: "cost_tracker \<Rightarrow> string \<Rightarrow> cost_event list" where
  "session_rows t sid = filter (\<lambda>e. ce_session_id e = sid) (ct_events t)"

definition get_session_summary :: "cost_io faults \<Rightarrow> string \<Rightarrow> cost_tracker \<Rightarrow> session_summary \<times> cost_tracker" where
  "get_session_summary io sid t0 =
     (let t = cost_init io t0; rows = session_rows t sid in
      (if \<not> ct_ready t then SummaryError ''tracker_not_ready''
       else case io CostSummary of
           Some e \<Rightarrow> SummaryError e
         | None \<Rightarrow>
             (case rows of
                [] \<Rightarrow> NoCalls sid
              | _ \<Rightarrow> SessionSummary sid (length rows)
                  (sum_list (map ce_input_tokens rows)) (sum_list (map ce_output_tokens rows))
                  (py_round 6 (sum_list (map ce_input_cost_usd rows)))
                  (py_round 6 (sum_list (map ce_output_cost_usd rows)))
                  (py_round 6 (sum_list (map ce_total_cost_usd rows)))
                  (Min (ce_created_at ` set rows)) (Max (ce_created_at ` set rows))), t))"

text \<open>
  \<open>GROUP BY session_id ORDER BY total_cost DESC LIMIT ?\<close>: session, calls, rounded
  total, last call. SQLite leaves the order of equal totals open; the model takes the
  order of the groups' last rows.
\<close>

definition top_session_rows :: "utc \<Rightarrow> cost_event list \<Rightarrow> (string \<times> nat \<times> rat \<times> utc) list" where
  "top_session_rows since events =
     (let recent = filter (\<lambda>e. ce_created_at e > since) events;
          of_session = (\<lambda>sid. filter (\<lambda>e. ce_session_id e = sid) recent)
      in map (\<lambda>sid. (sid, length (of_session sid), sum_list (map ce_total_cost_usd (of_session sid)),
                     Max (ce_created_at ` set (of_session sid))))
           (remdups (map ce_session_id recent)))"

definition get_top_sessions ::
  "cost_io faults \<Rightarrow> utc \<Rightarrow> int \<Rightarrow> int \<Rightarrow> cost_tracker \<Rightarrow> (string \<times> nat \<times> rat \<times> utc) list \<times> cost_tracker" where
  "get_top_sessions io now hrs limit t0 =
     (let t = cost_init io t0 in
      (if \<not> ct_ready t \<or> io CostTop \<noteq> None then []
       else map (\<lambda>(sid, n, amount, last). (sid, n, py_round 6 amount, last))
              (sql_limit limit
                (sort_key (\<lambda>(sid, n, amount, last). - amount)
                  (top_session_rows (now - hours hrs) (ct_events t)))), t))"

definition cleanup_old_records :: "cost_io faults \<Rightarrow> utc \<Rightarrow> int \<Rightarrow> cost_tracker \<Rightarrow> int \<times> cost_tracker" where
  "cleanup_old_records io now n t0 =
     (let t = cost_init io t0; cutoff = now - days n in
      if \<not> ct_ready t then (0, t)
      else if io CostCleanup \<noteq> None then (0, t)
      else (int (length (filter (\<lambda>e. ce_created_at e < cutoff) (ct_events t))),
            t\<lparr>ct_events := filter (\<lambda>e. \<not> ce_created_at e < cutoff) (ct_events t),
              ct_sent := filter (\<lambda>r. \<not> sr_sent_at r < cutoff) (ct_sent t)\<rparr>))"

lemmas cost_defs = record_cost_def check_session_alert_def send_session_alert_def cost_init_def
  cost_event_of_def call_total_def session_total_def already_sent_def Let_def

section \<open>Lemmas\<close>

lemma cost_init_fields [simp]:
  "ct_events (cost_init io t) = ct_events t" "ct_sent (cost_init io t) = ct_sent t"
  "ct_outbox (cost_init io t) = ct_outbox t" "ct_webhook_url (cost_init io t) = ct_webhook_url t"
  "ct_alert_threshold_usd (cost_init io t) = ct_alert_threshold_usd t"
  by (auto simp: cost_init_def)

lemma check_session_alert_fields [simp]:
  "ct_events (check_session_alert io now sid c t) = ct_events t"
  "ct_webhook_url (check_session_alert io now sid c t) = ct_webhook_url t"
  "ct_alert_threshold_usd (check_session_alert io now sid c t) = ct_alert_threshold_usd t"
  by (auto simp: check_session_alert_def send_session_alert_def Let_def)

lemma record_cost_fields [simp]:
  "ct_webhook_url (record_cost io now c t) = ct_webhook_url t"
  "ct_alert_threshold_usd (record_cost io now c t) = ct_alert_threshold_usd t"
  by (auto simp: record_cost_def Let_def)

interpretation cost_log: append_log "\<lambda>(io, now, c). record_cost io now c" ct_events
  by unfold_locales (auto simp: record_cost_def Let_def split: prod.splits)

lemma cost_init_ready: "io CostInit = None \<Longrightarrow> ct_ready (cost_init io t)"
  by (simp add: cost_init_def)

lemma session_total_record:
  "io CostInit = None \<Longrightarrow> io CostInsert = None \<Longrightarrow>
   session_total (record_cost io now c t) sid =
   session_total t sid + (if cc_session_id c = sid then call_total c else 0)"
  by (auto simp: session_total_def record_cost_def Let_def cost_init_ready cost_event_of_def)

lemma session_total_record_le:
  "0 \<le> call_total c \<Longrightarrow> session_total t sid \<le> session_total (record_cost io now c t) sid"
  by (auto simp: session_total_def record_cost_def Let_def cost_event_of_def)

text \<open>The sessions in the outbox are the sessions in the sent table, each once.\<close>

definition alerts_once :: "cost_tracker \<Rightarrow> bool" where
  "alerts_once t \<longleftrightarrow>
     distinct (map sr_session_id (ct_sent t)) \<and>
     map sa_session_id (ct_outbox t) = map sr_session_id (ct_sent t)"

lemma record_cost_alerts_once:
  assumes "alerts_once t" and "io CostAlertWrite = None"
  shows "alerts_once (record_cost io now c t)"
  using assms
  by (auto simp: alerts_once_def record_cost_def Let_def check_session_alert_def
      send_session_alert_def already_sent_def split: if_splits)

lemma record_cost_below_threshold:
  "call_total c < ct_alert_threshold_usd t \<Longrightarrow> ct_outbox (record_cost io now c t) = ct_outbox t"
  by (auto simp: record_cost_def Let_def)

definition record_costs :: "cost_io faults \<Rightarrow> utc \<Rightarrow> cost_call list \<Rightarrow> cost_tracker \<Rightarrow> cost_tracker" where
  "record_costs io now cs t = fold (record_cost io now) cs t"

lemma record_costs_Nil [simp]: "record_costs io now [] t = t"
  by (simp add: record_costs_def)

lemma record_costs_Cons [simp]:
  "record_costs io now (c # cs) t = record_costs io now cs (record_cost io now c t)"
  by (simp add: record_costs_def)

lemma record_costs_fields [simp]:
  "ct_webhook_url (record_costs io now cs t) = ct_webhook_url t"
  "ct_alert_threshold_usd (record_costs io now cs t) = ct_alert_threshold_usd t"
  by (induction cs arbitrary: t) simp_all

lemma record_costs_alerts_once:
  "alerts_once t \<Longrightarrow> io CostAlertWrite = None \<Longrightarrow> alerts_once (record_costs io now cs t)"
  by (induction cs arbitrary: t) (simp_all add: record_cost_alerts_once)

lemma record_costs_total:
  "io CostInit = None \<Longrightarrow> io CostInsert = None \<Longrightarrow>
   session_total (record_costs io now cs t) sid =
   session_total t sid + sum_where call_total (\<lambda>c. cc_session_id c = sid) cs"
  by (induction cs arbitrary: t) (simp_all add: session_total_record sum_where_Cons)

lemma record_costs_small_silent:
  "\<forall>c \<in> set cs. call_total c < ct_alert_threshold_usd t \<Longrightarrow>
   ct_outbox (record_costs io now cs t) = ct_outbox t"
  by (induction cs arbitrary: t) (simp_all add: record_cost_below_threshold)

lemma session_total_rows: "session_total t sid = sum_list (map ce_total_cost_usd (session_rows t sid))"
  by (simp add: session_total_def session_rows_def sum_where_def)

lemma remdups_top: "map fst (top_session_rows since events) =
    remdups (map ce_session_id (filter (\<lambda>e. ce_created_at e > since) events))"
  by (simp add: top_session_rows_def Let_def comp_def)

lemma sorted_take_map: "sorted (map f xs) \<Longrightarrow> sorted (map f (sql_limit n xs))"
  by (simp add: sql_limit_def take_map [symmetric])

section \<open>Properties\<close>

text \<open>Over any sequence of recorded calls each session is alerted at most once: the posts
  and the \<open>session_cost_alert_sent\<close> rows name the same sessions, each exactly once.\<close>

theorem session_alerted_once:
  assumes "alerts_once t" and "io CostAlertWrite = None"
  shows "alerts_once (record_costs io now cs t)"
  using assms by (rule record_costs_alerts_once)

definition sample_tracker :: cost_tracker where
  "sample_tracker = \<lparr>ct_ready = True, ct_alert_threshold_usd = 5, ct_webhook_url = Some ''https://hook'',
     ct_tables = True, ct_events = [], ct_sent = [], ct_outbox = []\<rparr>"

definition sample_call :: "rat \<Rightarrow> cost_call" where
  "sample_call usd = \<lparr>cc_session_id = ''s1'', cc_provider_id = ''openai'', cc_model = ''m'',
     cc_input_tokens = 10, cc_output_tokens = 20, cc_input_cost_usd = usd, cc_output_cost_usd = 0\<rparr>"

theorem session_alerted_once_witness:
  "alerts_once (record_costs no_faults 7 [sample_call 6, sample_call 6] sample_tracker)"
  by (rule session_alerted_once) (simp_all add: alerts_once_def sample_tracker_def)

text \<open>A session whose calls each cost less than the threshold never alerts, however many
  they are: after \<open>n\<close> such calls the session total is \<open>n\<close> times the price of one and
  the outbox is as it was. The threshold is compared with the single call first.\<close>

theorem many_small_calls_never_alert:
  assumes "call_total c < ct_alert_threshold_usd t" and "io CostInit = None" and "io CostInsert = None"
  shows "ct_outbox (record_costs io now (replicate n c) t) = ct_outbox t \<and>
    session_total (record_costs io now (replicate n c) t) (cc_session_id c) =
      session_total t (cc_session_id c) + of_nat n * call_total c"
proof
  show "ct_outbox (record_costs io now (replicate n c) t) = ct_outbox t"
    using assms(1) by (intro record_costs_small_silent) simp
  have "sum_where call_total (\<lambda>d. cc_session_id d = cc_session_id c) (replicate n c) = of_nat n * call_total c"
    by (induction n) (simp_all add: sum_where_Cons algebra_simps)
  then show "session_total (record_costs io now (replicate n c) t) (cc_session_id c) =
      session_total t (cc_session_id c) + of_nat n * call_total c"
    using assms by (simp add: record_costs_total)
qed

theorem many_small_calls_never_alert_witness:
  "ct_outbox (record_costs no_faults 7 (replicate 1000 (sample_call 4)) sample_tracker) = [] \<and>
   session_total (record_costs no_faults 7 (replicate 1000 (sample_call 4)) sample_tracker) ''s1'' = 4000"
  using many_small_calls_never_alert [of "sample_call 4" sample_tracker no_faults 7 1000]
  by (simp add: sample_call_def sample_tracker_def call_total_def session_total_def)

text \<open>The summary of a session is computed from exactly its recorded calls: the reported
  total is the rounded sum of their costs, and a session without calls reports none.\<close>

theorem session_summary_total:
  assumes "io CostInit = None" and "io CostInsert = None" and "io CostSummary = None"
  shows "(case fst (get_session_summary io sid (record_costs io now cs t)) of
      SessionSummary s n tin tout cin cout tot first_call last_call \<Rightarrow>
        s = sid \<and> 0 < n \<and>
        tot = py_round 6 (session_total t sid + sum_where call_total (\<lambda>c. cc_session_id c = sid) cs) \<and>
        first_call \<le> last_call
    | NoCalls s \<Rightarrow> s = sid \<and> session_rows (record_costs io now cs t) sid = []
    | SummaryError e \<Rightarrow> False)"
proof -
  let ?t = "record_costs io now cs t"
  let ?rows = "session_rows ?t sid"
  have ready: "ct_ready (cost_init io ?t)" using assms(1) by (rule cost_init_ready)
  have rows: "session_rows (cost_init io ?t) sid = ?rows" by (simp add: session_rows_def)
  show ?thesis
  proof (cases ?rows)
    case Nil
    then show ?thesis using ready assms(3) by (simp add: get_session_summary_def Let_def rows)
  next
    case (Cons r rs)
    have "sum_list (map ce_total_cost_usd ?rows) =
        session_total t sid + sum_where call_total (\<lambda>c. cc_session_id c = sid) cs"
      using record_costs_total [OF assms(1,2)] by (simp add: session_total_rows [symmetric])
    moreover have "Min (ce_created_at ` set ?rows) \<le> Max (ce_created_at ` set ?rows)"
      using Cons by (intro order_trans [OF Min_le Max_ge]) auto
    ultimately show ?thesis
      using ready assms(3) Cons by (simp add: get_session_summary_def Let_def rows)
  qed
qed

theorem session_summary_total_witness:
  "(case fst (get_session_summary no_faults ''s1'' (record_costs no_faults 7 [sample_call 2] sample_tracker)) of
      SessionSummary s n tin tout cin cout tot first_call last_call \<Rightarrow>
        s = ''s1'' \<and> 0 < n \<and>
        tot = py_round 6 (session_total sample_tracker ''s1'' + sum_where call_total (\<lambda>c. cc_session_id c = ''s1'') [sample_call 2]) \<and>
        first_call \<le> last_call
    | NoCalls s \<Rightarrow> s = ''s1'' \<and> session_rows (record_costs no_faults 7 [sample_call 2] sample_tracker) ''s1'' = []
    | SummaryError e \<Rightarrow> False)"
  by (rule session_summary_total) simp_all

text \<open>The list of top sessions is no longer than the limit, names no session twice, and
  only sessions with a call inside the window.\<close>

theorem top_sessions_shape:
  assumes "0 \<le> limit"
  shows "int (length (fst (get_top_sessions io now hrs limit t))) \<le> limit \<and>
    distinct (map fst (fst (get_top_sessions io now hrs limit t))) \<and>
    set (map fst (fst (get_top_sessions io now hrs limit t))) \<subseteq>
      ce_session_id ` {e \<in> set (ct_events t). ce_created_at e > now - hours hrs}"
proof -
  let ?top = "top_session_rows (now - hours hrs) (ct_events t)"
  let ?sorted = "sort_key (\<lambda>(sid, n, amount, last). - amount) ?top"
  have fsts: "map fst (map (\<lambda>(sid, n, amount, last). (sid, n, py_round 6 amount, last)) xs) = map fst xs"
    for xs :: "(string \<times> nat \<times> rat \<times> utc) list"
    by (auto simp: comp_def split_beta)
  have dist: "distinct (map fst ?sorted)"
    using distinct_map [of fst ?top] remdups_top [of "now - hours hrs" "ct_events t"] distinct_remdups
    by (simp add: distinct_map)
  have sub: "set (map fst ?sorted) \<subseteq> ce_session_id ` {e \<in> set (ct_events t). ce_created_at e > now - hours hrs}"
    using arg_cong [OF remdups_top, of set "now - hours hrs" "ct_events t"] by auto
  have "distinct (map fst (sql_limit limit ?sorted))"
    using dist by (auto simp: sql_limit_def take_map [symmetric])
  moreover have "set (map fst (sql_limit limit ?sorted)) \<subseteq> set (map fst ?sorted)"
    using sql_limit_subset by (fastforce simp del: set_sort)
  moreover have "map fst (fst (get_top_sessions io now hrs limit t)) \<in> {[], map fst (sql_limit limit ?sorted)}"
    by (simp add: get_top_sessions_def Let_def fsts del: map_map)
  moreover have "int (length (map fst (sql_limit limit ?sorted))) \<le> limit"
    using sql_limit_length [OF assms, of ?sorted] by simp
  moreover have "ys \<in> {[], zs} \<Longrightarrow> int (length zs) \<le> limit \<Longrightarrow> distinct zs \<Longrightarrow> set zs \<subseteq> S \<Longrightarrow>
      int (length ys) \<le> limit \<and> distinct ys \<and> set ys \<subseteq> S" for ys zs :: "string list" and S
    using assms by auto
  ultimately have "int (length (map fst (fst (get_top_sessions io now hrs limit t)))) \<le> limit \<and>
      distinct (map fst (fst (get_top_sessions io now hrs limit t))) \<and>
      set (map fst (fst (get_top_sessions io now hrs limit t))) \<subseteq> set (map fst ?sorted)"
    by metis
  then show ?thesis using sub by (simp only: length_map) (blast intro: subset_trans)
qed

theorem top_sessions_shape_witness:
  "int (length (fst (get_top_sessions no_faults 7 24 1 sample_tracker))) \<le> 1"
  using top_sessions_shape [of 1 no_faults 7 24 sample_tracker] by simp

end
