(* ===== verification/RateLimiter.thy ===== *)
theory RateLimiter
  imports Tables
begin

text \<open>
  \<open>core/rate_limiter.py\<close>: the token bucket limiter. \<open>_buckets\<close> is an association
  list in insertion order; \<open>time.monotonic()\<close> is the parameter \<open>now\<close> (seconds). The
  lock makes each operation one step. An operation returns its result and the
  state it leaves, also when it raises: the bucket is written before the division
  that may fail.
\<close>

section \<open>State\<close>

record rate_limit_config =
  requests_per_second :: rat
  burst :: int
  window_seconds :: int

record bucket =
  tokens :: rat
  last_update :: rat

type_synonym buckets = "(string \<times> bucket) list"

datatype rate_metadata =
    AllowedMeta int rat   \<comment> \<open>tokens_remaining, reset_after\<close>
  | DeniedMeta rat int    \<comment> \<open>retry_after, tokens_remaining\<close>

definition rate_config_from_env :: "environ \<Rightarrow> string \<Rightarrow> rate_limit_config" where
  "rate_config_from_env env prefix =
     \<lparr>requests_per_second =
        (case py_float (getenv_or env (prefix @ ''_RATE_LIMIT_RPS'') ''5.0'') of None \<Rightarrow> 5 | Some x \<Rightarrow> x),
      burst =
        (case py_int (getenv_or env (prefix @ ''_RATE_LIMIT_BURST'') ''10'') of None \<Rightarrow> 10 | Some n \<Rightarrow> n),
      window_seconds = 60\<rparr>"

section \<open>Operations\<close>

definition bucket_of :: "buckets \<Rightarrow> string \<Rightarrow> bucket option" where
  "bucket_of bs c = map_option snd (find_row fst c bs)"

definition put_bucket :: "string \<Rightarrow> bucket \<Rightarrow> buckets \<Rightarrow> buckets" where
  "put_bucket c b bs = upsert fst (\<lambda>r. (fst r, b)) (c, b) bs"

definition fresh_bucket :: "rate_limit_config \<Rightarrow> rat \<Rightarrow> bucket" where
  "fresh_bucket cfg now = \<lparr>tokens = of_int (burst cfg), last_update = now\<rparr>"

text \<open>\<open>min(tokens + elapsed * rps, burst)\<close>, stamped with the time of the request.\<close>

definition refill :: "rate_limit_config \<Rightarrow> rat \<Rightarrow> bucket \<Rightarrow> bucket" where
  "refill cfg now b =
     \<lparr>tokens = min (tokens b + (now - last_update b) * requests_per_second cfg) (of_int (burst cfg)),
      last_update = now\<rparr>"

definition py_div :: "rat \<Rightarrow> rat \<Rightarrow> rat result" where
  "py_div x y = (if y = 0 then Inl ZeroDivisionError else Inr (x / y))"

definition is_allowed ::
  "rate_limit_config \<Rightarrow> rat \<Rightarrow> string \<Rightarrow> int \<Rightarrow> buckets \<Rightarrow> (bool \<times> rate_metadata) result \<times> buckets" where
  "is_allowed cfg now client cost bs =
     (let b0 = (case bucket_of bs client of None \<Rightarrow> fresh_bucket cfg now | Some b \<Rightarrow> b);
          b = refill cfg now b0
      in if tokens b \<ge> of_int cost then
           (let b' = b\<lparr>tokens := tokens b - of_int cost\<rparr>
            in (case py_div (of_int (burst cfg) - tokens b') (requests_per_second cfg) of
                  Inl e \<Rightarrow> Inl e
                | Inr reset \<Rightarrow> Inr (True, AllowedMeta (py_trunc (tokens b')) reset),
                put_bucket client b' bs))
         else
           (case py_div (of_int cost - tokens b) (requests_per_second cfg) of
              Inl e \<Rightarrow> Inl e
            | Inr wait \<Rightarrow> Inr (False, DeniedMeta wait (py_trunc (tokens b))),
            put_bucket client b bs))"

definition cleanup_old_buckets :: "rat \<Rightarrow> int \<Rightarrow> buckets \<Rightarrow> nat \<times> buckets" where
  "cleanup_old_buckets now max_age bs =
     (let old = (\<lambda>r. now - last_update (snd r) > of_int max_age)
      in (length (filter old bs), filter (\<lambda>r. \<not> old r) bs))"

definition get_status :: "rate_limit_config \<Rightarrow> rat \<Rightarrow> string \<Rightarrow> buckets \<Rightarrow> int \<times> bool" where
  "get_status cfg now client bs =
     (case bucket_of bs client of
        None \<Rightarrow> (burst cfg, False)
      | Some b \<Rightarrow>
          (py_trunc (min (tokens b + (now - last_update b) * requests_per_second cfg) (of_int (burst cfg))), True))"

section \<open>The buckets are a key/value table\<close>

interpretation bucket_kv: kv_store bucket_of put_bucket
proof unfold_locales
  fix c b and bs :: buckets and c'
  show "bucket_of (put_bucket c b bs) c' = (if c' = c then Some b else bucket_of bs c')"
    unfolding bucket_of_def put_bucket_def by (subst find_row_upsert) (auto split: option.splits)
qed

section \<open>One request\<close>

definition granted :: "(bool \<times> rate_metadata) result \<Rightarrow> bool" where
  "granted r \<longleftrightarrow> (\<exists>m. r = Inr (True, m))"

text \<open>The tokens a request finds: a full bucket for a client not seen before.\<close>

definition available :: "rate_limit_config \<Rightarrow> rat \<Rightarrow> string \<Rightarrow> buckets \<Rightarrow> rat" where
  "available cfg now client bs =
     tokens (refill cfg now (case bucket_of bs client of None \<Rightarrow> fresh_bucket cfg now | Some b \<Rightarrow> b))"

lemma is_allowed_other:
  "c \<noteq> client \<Longrightarrow> bucket_of (snd (is_allowed cfg now client cost bs)) c = bucket_of bs c"
  by (simp add: is_allowed_def Let_def bucket_kv.lookup_put)

lemma is_allowed_bucket:
  "bucket_of (snd (is_allowed cfg now client cost bs)) client =
   Some \<lparr>tokens = available cfg now client bs -
             (if of_int cost \<le> available cfg now client bs then of_int cost else 0),
         last_update = now\<rparr>"
  by (simp add: is_allowed_def available_def Let_def bucket_kv.lookup_put refill_def)

lemma is_allowed_granted:
  "requests_per_second cfg \<noteq> 0 \<Longrightarrow>
   granted (fst (is_allowed cfg now client cost bs)) \<longleftrightarrow> of_int cost \<le> available cfg now client bs"
  by (auto simp: is_allowed_def available_def granted_def Let_def py_div_def)

lemma available_le_burst: "available cfg now client bs \<le> of_int (burst cfg)"
  by (simp add: available_def refill_def)

text \<open>What every bucket satisfies: between nothing and a full burst, not in the future.\<close>

definition buckets_ok :: "rate_limit_config \<Rightarrow> rat \<Rightarrow> buckets \<Rightarrow> bool" where
  "buckets_ok cfg now bs \<longleftrightarrow>
     (\<forall>c b. bucket_of bs c = Some b \<longrightarrow>
        0 \<le> tokens b \<and> tokens b \<le> of_int (burst cfg) \<and> last_update b \<le> now)"

lemma available_nonneg:
  assumes "buckets_ok cfg t bs" and "t \<le> now" and "0 \<le> requests_per_second cfg" and "0 \<le> burst cfg"
  shows "0 \<le> available cfg now client bs"
proof (cases "bucket_of bs client")
  case None
  then show ?thesis using assms by (simp add: available_def refill_def fresh_bucket_def)
next
  case (Some b)
  then have "0 \<le> tokens b" and "last_update b \<le> now"
    using assms(1,2) by (auto simp: buckets_ok_def intro: order_trans)
  with Some assms(3,4) show ?thesis by (simp add: available_def refill_def)
qed

lemma is_allowed_buckets_ok:
  assumes ok: "buckets_ok cfg t bs" and time: "t \<le> now"
    and cfg: "0 \<le> requests_per_second cfg" "0 \<le> burst cfg" and cost: "0 \<le> cost"
  shows "buckets_ok cfg now (snd (is_allowed cfg now client cost bs))"
  unfolding buckets_ok_def
proof (intro allI impI)
  fix c b
  assume b: "bucket_of (snd (is_allowed cfg now client cost bs)) c = Some b"
  show "0 \<le> tokens b \<and> tokens b \<le> of_int (burst cfg) \<and> last_update b \<le> now"
  proof (cases "c = client")
    case True
    have "(0 :: rat) \<le> of_int cost" using cost by simp
    moreover note available_nonneg [OF ok time cfg, of client] available_le_burst [of cfg now client bs]
    ultimately show ?thesis using b True by (auto simp: is_allowed_bucket)
  next
    case False
    with b have "bucket_of bs c = Some b" by (simp add: is_allowed_other)
    with ok time show ?thesis by (force simp: buckets_ok_def)
  qed
qed

section \<open>A client's run of requests\<close>

text \<open>
  Requests of one client as (time, cost) pairs, served in order; \<open>spent\<close> adds up the
  cost of those that were granted.
\<close>

fun spent :: "rate_limit_config \<Rightarrow> string \<Rightarrow> (rat \<times> int) list \<Rightarrow> buckets \<Rightarrow> rat" where
  "spent cfg client [] bs = 0"
| "spent cfg client ((now, cost) # rs) bs =
     (if granted (fst (is_allowed cfg now client cost bs)) then of_int cost else 0)
     + spent cfg client rs (snd (is_allowed cfg now client cost bs))"

fun times_from :: "rat \<Rightarrow> (rat \<times> int) list \<Rightarrow> bool" where
  "times_from t [] = True"
| "times_from t ((now, cost) # rs) = (t \<le> now \<and> 0 \<le> cost \<and> times_from now rs)"

fun end_time :: "rat \<Rightarrow> (rat \<times> int) list \<Rightarrow> rat" where
  "end_time t [] = t"
| "end_time t ((now, cost) # rs) = end_time now rs"

lemma end_time_ge: "times_from t rs \<Longrightarrow> t \<le> end_time t rs"
  by (induction t rs rule: times_from.induct) auto

text \<open>From a bucket with \<open>x\<close> tokens at time \<open>t\<close>, what is granted is paid for by the refill.\<close>

lemma spent_from_bucket:
  assumes "bucket_of bs client = Some b" and "buckets_ok cfg (last_update b) bs"
    and "times_from (last_update b) rs"
    and "0 < requests_per_second cfg" and "0 \<le> burst cfg"
  shows "spent cfg client rs bs
    \<le> tokens b + requests_per_second cfg * (end_time (last_update b) rs - last_update b)"
  using assms
proof (induction rs arbitrary: bs b)
  case Nil
  then have "0 \<le> tokens b" by (auto simp: buckets_ok_def)
  then show ?case by simp
next
  case (Cons r rs)
  obtain now cost where r: "r = (now, cost)" by (cases r)
  let ?bs = "snd (is_allowed cfg now client cost bs)"
  let ?a = "available cfg now client bs"
  let ?paid = "if of_int cost \<le> ?a then of_int cost else (0 :: rat)"
  have time: "last_update b \<le> now" and cost: "0 \<le> cost" and rest: "times_from now rs"
    using Cons.prems(3) r by auto
  have bucket: "bucket_of ?bs client = Some \<lparr>tokens = ?a - ?paid, last_update = now\<rparr>"
    by (rule is_allowed_bucket)
  have ok: "buckets_ok cfg now ?bs"
    using Cons.prems time cost by (intro is_allowed_buckets_ok [of cfg "last_update b"]) auto
  have "spent cfg client rs ?bs \<le> (?a - ?paid) + requests_per_second cfg * (end_time now rs - now)"
    using Cons.IH [OF bucket] ok rest Cons.prems(4,5) by simp
  moreover have "?a \<le> tokens b + (now - last_update b) * requests_per_second cfg"
    using Cons.prems(1) by (simp add: available_def refill_def)
  moreover have "spent cfg client (r # rs) bs = ?paid + spent cfg client rs ?bs"
    using Cons.prems(4) r by (simp add: is_allowed_granted)
  ultimately show ?case using r by (simp add: algebra_simps)
qed

lemma cleanup_bucket:
  assumes "distinct (map fst bs)"
  shows "bucket_of (snd (cleanup_old_buckets now age bs)) c =
    (case bucket_of bs c of None \<Rightarrow> None
     | Some b \<Rightarrow> if now - last_update b > of_int age then None else Some b)"
  using assms
  by (induction bs) (auto simp: cleanup_old_buckets_def bucket_of_def Let_def find_row_None_iff
      split: option.splits dest!: find_row_SomeD intro: rev_image_eqI)

section \<open>Properties\<close>

lemma spent_new_client:
  assumes new: "bucket_of bs client = None" and ok: "buckets_ok cfg t bs"
    and times: "times_from t rs" and cfg: "0 < requests_per_second cfg" "0 \<le> burst cfg"
  shows "spent cfg client rs bs \<le> of_int (burst cfg) + requests_per_second cfg * (end_time t rs - t)"
proof (cases rs)
  case Nil
  then show ?thesis using cfg by simp
next
  case (Cons r rest)
  obtain now cost where r: "r = (now, cost)" by (cases r)
  let ?bs = "snd (is_allowed cfg now client cost bs)"
  let ?paid = "if of_int cost \<le> (of_int (burst cfg) :: rat) then of_int cost else (0 :: rat)"
  have time: "t \<le> now" "0 \<le> cost" "times_from now rest" using times Cons r by auto
  have full: "available cfg now client bs = of_int (burst cfg)"
    using new by (simp add: available_def refill_def fresh_bucket_def)
  have bucket: "bucket_of ?bs client = Some \<lparr>tokens = of_int (burst cfg) - ?paid, last_update = now\<rparr>"
    using is_allowed_bucket [of cfg now client cost bs] full by simp
  have "buckets_ok cfg now ?bs"
    using ok time cfg by (intro is_allowed_buckets_ok [of cfg t]) auto
  then have "spent cfg client rest ?bs
      \<le> (of_int (burst cfg) - ?paid) + requests_per_second cfg * (end_time now rest - now)"
    using spent_from_bucket [OF bucket] time cfg by simp
  moreover have "spent cfg client rs bs = ?paid + spent cfg client rest ?bs"
    using Cons r cfg full by (simp add: is_allowed_granted)
  moreover have "requests_per_second cfg * (end_time now rest - now)
      \<le> requests_per_second cfg * (end_time now rest - t)"
    using time cfg by (intro mult_left_mono) auto
  ultimately show ?thesis using Cons r by simp
qed

text \<open>C32: a client that has not been seen before is granted, over any run of requests at
  non-decreasing times, at most one burst plus the refill rate times the length of the run.\<close>

theorem token_bucket_rate_bound:
  assumes "bucket_of bs client = None" and "buckets_ok cfg t bs" and "times_from t rs"
    and "0 < requests_per_second cfg" and "0 \<le> burst cfg"
  shows "spent cfg client rs bs \<le> of_int (burst cfg) + requests_per_second cfg * (end_time t rs - t)"
  using assms by (rule spent_new_client)

theorem token_bucket_rate_bound_witness:
  "spent \<lparr>requests_per_second = 5, burst = 2, window_seconds = 60\<rparr> ''a'' [(1, 1), (1, 1), (1, 1), (2, 1)] []
     \<le> 2 + 5 * (2 - 0)"
  using token_bucket_rate_bound [of "[]" "''a''" "\<lparr>requests_per_second = 5, burst = 2, window_seconds = 60\<rparr>"
      0 "[(1, 1), (1, 1), (1, 1), (2, 1)]"]
  by (simp add: bucket_of_def buckets_ok_def)

text \<open>Every operation keeps each bucket between nothing and a full burst, whatever the
  sequence of clients and non-negative costs.\<close>

theorem buckets_stay_bounded:
  assumes "buckets_ok cfg t bs" and "t \<le> now" and "0 \<le> requests_per_second cfg"
    and "0 \<le> burst cfg" and "0 \<le> cost"
  shows "buckets_ok cfg now (snd (is_allowed cfg now client cost bs))"
  using assms by (rule is_allowed_buckets_ok)

theorem buckets_stay_bounded_witness:
  "buckets_ok \<lparr>requests_per_second = 5, burst = 10, window_seconds = 60\<rparr> 1
     (snd (is_allowed \<lparr>requests_per_second = 5, burst = 10, window_seconds = 60\<rparr> 1 ''a'' 3 []))"
  using buckets_stay_bounded [of "\<lparr>requests_per_second = 5, burst = 10, window_seconds = 60\<rparr>" 0 "[]" 1 3 "''a''"]
  by (simp add: bucket_of_def buckets_ok_def)

text \<open>The retry advice is right. A refused request whose cost fits in a burst is granted
  when it is repeated exactly \<open>retry_after\<close> seconds later, other clients' requests aside.\<close>

theorem retry_after_suffices:
  assumes "0 < requests_per_second cfg" and "cost \<le> burst cfg"
    and "is_allowed cfg now client cost bs = (Inr (False, DeniedMeta wait left), bs')"
  shows "granted (fst (is_allowed cfg (now + wait) client cost bs'))"
proof -
  let ?a = "available cfg now client bs"
  have short: "?a < of_int cost" and wait: "wait = (of_int cost - ?a) / requests_per_second cfg"
    using assms by (auto simp: is_allowed_def available_def Let_def py_div_def split: if_splits)
  have "bucket_of bs' client = Some \<lparr>tokens = ?a, last_update = now\<rparr>"
    using is_allowed_bucket [of cfg now client cost bs] assms(3) short by simp
  then have "available cfg (now + wait) client bs' = min (?a + wait * requests_per_second cfg) (of_int (burst cfg))"
    by (simp add: available_def refill_def)
  also have "?a + wait * requests_per_second cfg = of_int cost"
    using assms(1) wait by simp
  finally show ?thesis using assms(1,2) by (simp add: is_allowed_granted)
qed

theorem retry_after_suffices_witness:
  "granted (fst (is_allowed \<lparr>requests_per_second = 5, burst = 1, window_seconds = 60\<rparr> (0 + 1 / 5) ''a'' 1
     [(''a'', \<lparr>tokens = 0, last_update = 0\<rparr>)]))"
  by (rule retry_after_suffices [of "\<lparr>requests_per_second = 5, burst = 1, window_seconds = 60\<rparr>" 1 0 "''a''"
        "[(''a'', \<lparr>tokens = 0, last_update = 0\<rparr>)]" _ 0])
     (simp_all add: is_allowed_def bucket_of_def refill_def put_bucket_def py_div_def py_trunc_def)

text \<open>With a configured rate of zero (\<open>RATE_LIMIT_RPS=0\<close>) every request raises
  \<open>ZeroDivisionError\<close>, and a request that had the tokens has already paid for them.\<close>

theorem zero_rate_raises:
  assumes "requests_per_second cfg = 0"
  shows "fst (is_allowed cfg now client cost bs) = Inl ZeroDivisionError \<and>
    (of_int cost \<le> available cfg now client bs \<longrightarrow>
     map_option tokens (bucket_of (snd (is_allowed cfg now client cost bs)) client)
       = Some (available cfg now client bs - of_int cost))"
  using assms is_allowed_bucket [of cfg now client cost bs]
  by (auto simp: is_allowed_def Let_def py_div_def)

theorem zero_rate_raises_witness:
  "requests_per_second (rate_config_from_env (\<lambda>n. if n = ''KEY_STORE_RATE_LIMIT_RPS'' then Some ''0'' else None) ''KEY_STORE'') = 0 \<and>
   fst (is_allowed (rate_config_from_env (\<lambda>n. if n = ''KEY_STORE_RATE_LIMIT_RPS'' then Some ''0'' else None) ''KEY_STORE'')
     7 ''a'' 1 []) = Inl ZeroDivisionError"
proof -
  let ?cfg = "rate_config_from_env (\<lambda>n. if n = ''KEY_STORE_RATE_LIMIT_RPS'' then Some ''0'' else None) ''KEY_STORE''"
  have "requests_per_second ?cfg = 0"
    by (simp add: rate_config_from_env_def getenv_or_def py_float_def strip_def lstrip_def is_space_def
        unsigned_float_def mantissa_def is_digit_def digit_val_def lower_char_def Let_def)
  then show ?thesis using zero_rate_raises [of ?cfg 7 "''a''" 1 "[]"] by blast
qed

end
