(* ===== verification/CloudBudget.thy ===== *)
theory CloudBudget
  imports SessionCost
begin

text \<open>
  \<open>core/cloud_budget.py\<close>, first half: \<open>CloudBudgetConfig\<close> and \<open>CloudBudgetGate\<close>, the
  global admission gate for cloud calls. Its SQLite file is the record \<open>budget_db\<close>;
  the gate object adds its readiness flags, its alert manager and its session cost
  tracker. One operation reads the clock once. A transaction that raises leaves the
  tables as they were, which is what SQLite's rollback does.
\<close>

section \<open>Configuration\<close>

definition env_bool :: "environ \<Rightarrow> string \<Rightarrow> bool \<Rightarrow> bool" where
  "env_bool env name d = (case env name of
     None \<Rightarrow> d
   | Some raw \<Rightarrow> lower (strip raw) \<in> {''1'', ''true'', ''yes'', ''on''})"

definition env_int :: "environ \<Rightarrow> string \<Rightarrow> int \<Rightarrow> int" where
  "env_int env name d = (case env name of
     None \<Rightarrow> max d 0
   | Some raw \<Rightarrow> (case py_int raw of None \<Rightarrow> d | Some n \<Rightarrow> max n 0))"

definition env_float :: "environ \<Rightarrow> string \<Rightarrow> rat \<Rightarrow> rat" where
  "env_float env name d = (case env name of
     None \<Rightarrow> max d 0
   | Some raw \<Rightarrow> (case py_float raw of None \<Rightarrow> d | Some x \<Rightarrow> max x 0))"

record cloud_budget_config =
  cb_enabled :: bool
  cb_max_calls_per_turn :: int
  cb_max_calls_per_session :: int
  cb_max_calls_per_day :: int
  cb_max_calls_per_month :: int
  cb_max_daily_usd :: rat
  cb_max_monthly_usd :: rat
  cb_max_input_tokens_per_call :: int
  cb_max_output_tokens_per_call :: int
  cb_input_price_usd_per_million :: rat
  cb_output_price_usd_per_million :: rat

definition default_cloud_config :: cloud_budget_config where
  "default_cloud_config =
     \<lparr>cb_enabled = False, cb_max_calls_per_turn = 0, cb_max_calls_per_session = 0,
      cb_max_calls_per_day = 0, cb_max_calls_per_month = 0, cb_max_daily_usd = 0,
      cb_max_monthly_usd = 0, cb_max_input_tokens_per_call = 0, cb_max_output_tokens_per_call = 0,
      cb_input_price_usd_per_million = 3, cb_output_price_usd_per_million = 15\<rparr>"

definition cloud_config_from_env :: "environ \<Rightarrow> cloud_budget_config" where
  "cloud_config_from_env env =
     \<lparr>cb_enabled = env_bool env ''ENABLE_CLOUD_SPILLOVER'' False,
      cb_max_calls_per_turn = env_int env ''CLOUD_SPILLOVER_MAX_CALLS_PER_TURN'' 0,
      cb_max_calls_per_session = env_int env ''CLOUD_SPILLOVER_MAX_CALLS_PER_SESSION'' 0,
      cb_max_calls_per_day = env_int env ''CLOUD_SPILLOVER_MAX_CALLS_PER_DAY'' 0,
      cb_max_calls_per_month = env_int env ''CLOUD_SPILLOVER_MAX_CALLS_PER_MONTH'' 0,
      cb_max_daily_usd = env_float env ''CLOUD_SPILLOVER_MAX_DAILY_USD'' 0,
      cb_max_monthly_usd = env_float env ''CLOUD_SPILLOVER_MAX_MONTHLY_USD'' 0,
      cb_max_input_tokens_per_call = env_int env ''CLOUD_SPILLOVER_MAX_INPUT_TOKENS_PER_CALL'' 0,
      cb_max_output_tokens_per_call = env_int env ''CLOUD_SPILLOVER_MAX_OUTPUT_TOKENS_PER_CALL'' 0,
      cb_input_price_usd_per_million = env_float env ''CLOUD_SPILLOVER_INPUT_PRICE_USD_PER_MILLION'' 3,
      cb_output_price_usd_per_million = env_float env ''CLOUD_SPILLOVER_OUTPUT_PRICE_USD_PER_MILLION'' 15\<rparr>"

section \<open>Decisions and state\<close>

record decision =
  allowed :: bool
  reason :: string

abbreviation allow :: "string \<Rightarrow> decision" where
  "allow r \<equiv> \<lparr>allowed = True, reason = r\<rparr>"

abbreviation deny :: "string \<Rightarrow> decision" where
  "deny r \<equiv> \<lparr>allowed = False, reason = r\<rparr>"

record counter_row =
  cr_key :: string
  cr_count :: int
  cr_updated_at :: utc

record usage_row =
  ur_created_at :: utc
  ur_session_id :: string
  ur_provider :: string
  ur_model :: string
  ur_input_tokens :: int
  ur_output_tokens :: int
  ur_input_cost_usd :: rat
  ur_output_cost_usd :: rat
  ur_total_cost_usd :: rat

record budget_db =
  bd_tables :: bool
  bd_counters :: "counter_row list"
  bd_usage :: "usage_row list"
  bd_state :: "(string \<times> string) list"

record cloud_gate =
  cg_config :: cloud_budget_config
  cg_store_ready :: bool
  cg_store_error :: string
  cg_db :: budget_db
  cg_alerts :: alert_manager
  cg_costs :: cost_tracker

datatype budget_io =
    BudInit | BudStateRead | BudStateWrite | BudReserve | BudAvail | BudInsert | BudUsageRead
  | BudSnapshot | BudClear | ProvRead | ProvInsert | ProvSnapshot

text \<open>What surrounds one operation: the clock, the faults of its I/O, the webhook.\<close>

record budget_env =
  be_now :: utc
  be_io :: "budget_io faults"
  be_alert_io :: "alert_io faults"
  be_cost_io :: "cost_io faults"
  be_post_ok :: bool

abbreviation calm :: "utc \<Rightarrow> budget_env" where
  "calm now \<equiv> \<lparr>be_now = now, be_io = no_faults, be_alert_io = no_faults, be_cost_io = no_faults, be_post_ok = True\<rparr>"

definition empty_db :: budget_db where
  "empty_db = \<lparr>bd_tables = False, bd_counters = [], bd_usage = [], bd_state = []\<rparr>"

definition new_cloud_gate :: "environ \<Rightarrow> cloud_budget_config \<Rightarrow> budget_db \<Rightarrow> cloud_gate" where
  "new_cloud_gate env cfg db =
     \<lparr>cg_config = cfg, cg_store_ready = False, cg_store_error = '''', cg_db = db,
      cg_alerts = new_alert_manager env False [], cg_costs = new_cost_tracker env False [] []\<rparr>"

section \<open>Tables\<close>

definition counter_value :: "budget_db \<Rightarrow> string \<Rightarrow> int" where
  "counter_value db k = (case find_row cr_key k (bd_counters db) of None \<Rightarrow> 0 | Some r \<Rightarrow> cr_count r)"

definition bump_counter :: "utc \<Rightarrow> string \<Rightarrow> budget_db \<Rightarrow> budget_db" where
  "bump_counter now k db =
     db\<lparr>bd_counters := upsert cr_key (\<lambda>r. r\<lparr>cr_count := cr_count r + 1, cr_updated_at := now\<rparr>)
          \<lparr>cr_key = k, cr_count = 1, cr_updated_at = now\<rparr> (bd_counters db)\<rparr>"

definition state_lookup :: "budget_db \<Rightarrow> string \<Rightarrow> string option" where
  "state_lookup db k = map_option snd (find_row fst k (bd_state db))"

definition put_state :: "string \<Rightarrow> string \<Rightarrow> budget_db \<Rightarrow> budget_db" where
  "put_state k v db = db\<lparr>bd_state := upsert fst (\<lambda>r. (fst r, v)) (k, v) (bd_state db)\<rparr>"

interpretation counter_tbl: counter_store counter_value "bump_counter now" for now
  by unfold_locales
     (auto simp: counter_value_def bump_counter_def find_row_upsert split: option.splits)

interpretation state_kv: kv_store state_lookup put_state
proof unfold_locales
  fix k v :: string and db k'
  have "find_row fst k' (upsert fst (\<lambda>r. (fst r, v)) (k, v) rows) =
    (if k' = k then Some (case find_row fst k rows of None \<Rightarrow> (k, v) | Some x \<Rightarrow> (fst x, v))
     else find_row fst k' rows)" for rows
    by (subst find_row_upsert) auto
  then show "state_lookup (put_state k v db) k' = (if k' = k then Some v else state_lookup db k')"
    by (simp add: state_lookup_def put_state_def split: option.splits)
qed

section \<open>Costs and caps\<close>

definition input_cost :: "cloud_budget_config \<Rightarrow> int \<Rightarrow> rat option \<Rightarrow> rat" where
  "input_cost cfg n price =
     of_int n * (case price of Some p \<Rightarrow> p | None \<Rightarrow> cb_input_price_usd_per_million cfg) / 1000000"

definition output_cost :: "cloud_budget_config \<Rightarrow> int \<Rightarrow> rat option \<Rightarrow> rat" where
  "output_cost cfg n price =
     of_int n * (case price of Some p \<Rightarrow> p | None \<Rightarrow> cb_output_price_usd_per_million cfg) / 1000000"

definition estimate_cost :: "cloud_budget_config \<Rightarrow> int \<Rightarrow> int \<Rightarrow> rat option \<Rightarrow> rat option \<Rightarrow> rat" where
  "estimate_cost cfg n_in n_out p_in p_out =
     input_cost cfg n_in (Some (num_or p_in (cb_input_price_usd_per_million cfg))) +
     output_cost cfg n_out (Some (num_or p_out (cb_output_price_usd_per_million cfg)))"

definition preflight_block_reason :: "cloud_budget_config \<Rightarrow> int \<Rightarrow> int \<Rightarrow> string" where
  "preflight_block_reason cfg n_in n_out =
     (if cb_max_calls_per_turn cfg > 0 \<and> cb_max_calls_per_turn cfg < 1 then ''call_cap_zero''
      else if cb_max_daily_usd cfg = 0 \<and> cb_max_monthly_usd cfg = 0 then ''''
      else if cb_max_input_tokens_per_call cfg > 0 \<and> n_in > cb_max_input_tokens_per_call cfg
      then ''input_token_cap_exceeded''
      else if cb_max_output_tokens_per_call cfg > 0 \<and> n_out > cb_max_output_tokens_per_call cfg
      then ''output_token_cap_exceeded''
      else '''')"

definition cap_exhausted_reason ::
  "cloud_budget_config \<Rightarrow> int \<Rightarrow> int \<Rightarrow> int \<Rightarrow> rat \<Rightarrow> rat \<Rightarrow> int \<Rightarrow> int \<Rightarrow> rat option \<Rightarrow> rat option \<Rightarrow> string" where
  "cap_exhausted_reason cfg session_calls day_calls month_calls day_usd month_usd n_in n_out p_in p_out =
     (if cb_max_calls_per_session cfg > 0 \<and> session_calls \<ge> cb_max_calls_per_session cfg
      then ''session_call_cap_exhausted''
      else if cb_max_calls_per_day cfg > 0 \<and> day_calls \<ge> cb_max_calls_per_day cfg
      then ''daily_call_cap_exhausted''
      else if cb_max_calls_per_month cfg > 0 \<and> month_calls \<ge> cb_max_calls_per_month cfg
      then ''monthly_call_cap_exhausted''
      else let est = estimate_cost cfg n_in n_out p_in p_out in
        if cb_max_daily_usd cfg > 0 \<and> day_usd + est > cb_max_daily_usd cfg
        then ''daily_usd_cap_exhausted''
        else if cb_max_monthly_usd cfg > 0 \<and> month_usd + est > cb_max_monthly_usd cfg
        then ''monthly_usd_cap_exhausted''
        else '''')"

section \<open>Store helpers\<close>

definition session_key :: "string option \<Rightarrow> string" where
  "session_key sid = ''session:'' @ opt_str_or sid ''anonymous''"

definition day_key :: "utc \<Rightarrow> string" where
  "day_key now = ''day:'' @ strf_day now"

definition month_key :: "utc \<Rightarrow> string" where
  "month_key now = ''month:'' @ strf_month now"

record usage_totals =
  ut_sessions :: nat
  ut_day_usd :: rat
  ut_month_usd :: rat

definition usage_from_db :: "utc \<Rightarrow> budget_db \<Rightarrow> usage_totals" where
  "usage_from_db now db =
     \<lparr>ut_sessions = length (remdups (map ur_session_id
          (filter (\<lambda>u. ur_created_at u \<ge> day_start now) (bd_usage db)))),
      ut_day_usd = sum_where ur_total_cost_usd (\<lambda>u. ur_created_at u \<ge> day_start now) (bd_usage db),
      ut_month_usd = sum_where ur_total_cost_usd (\<lambda>u. ur_created_at u \<ge> month_start now) (bd_usage db)\<rparr>"

definition gate_init :: "budget_env \<Rightarrow> cloud_gate \<Rightarrow> cloud_gate" where
  "gate_init e g =
     (if cg_store_ready g then g
      else if \<not> cb_enabled (cg_config g) then g
      else case be_io e BudInit of
          Some exc \<Rightarrow> g\<lparr>cg_store_ready := False, cg_store_error := exc\<rparr>
        | None \<Rightarrow> g\<lparr>cg_db := (cg_db g)\<lparr>bd_tables := True\<rparr>, cg_store_ready := True, cg_store_error := ''''\<rparr>)"

definition state_value :: "budget_env \<Rightarrow> string \<Rightarrow> cloud_gate \<Rightarrow> string" where
  "state_value e k g =
     (if be_io e BudStateRead \<noteq> None \<or> \<not> bd_tables (cg_db g) then ''''
      else case state_lookup (cg_db g) k of None \<Rightarrow> '''' | Some v \<Rightarrow> v)"

definition accounting_blocked :: "budget_env \<Rightarrow> cloud_gate \<Rightarrow> bool" where
  "accounting_blocked e g \<longleftrightarrow> state_value e ''last_accounting_error'' g \<noteq> ''''"

definition set_accounting_block :: "budget_env \<Rightarrow> string \<Rightarrow> cloud_gate \<Rightarrow> cloud_gate" where
  "set_accounting_block e r g =
     (if \<not> cb_enabled (cg_config g) then g
      else if be_io e BudStateWrite \<noteq> None \<or> \<not> bd_tables (cg_db g) then g
      else g\<lparr>cg_db := put_state ''last_accounting_error'' r (cg_db g)\<rparr>)"

definition store_failed :: "string \<Rightarrow> cloud_gate \<Rightarrow> cloud_gate" where
  "store_failed exc g = g\<lparr>cg_store_ready := False, cg_store_error := exc\<rparr>"

section \<open>Reserving a call\<close>

record reserve_request =
  rq_env :: budget_env
  rq_session_id :: "string option"
  rq_input_tokens :: int
  rq_output_tokens :: int
  rq_input_price :: "rat option"
  rq_output_price :: "rat option"

definition reserve_sqlite :: "reserve_request \<Rightarrow> int \<Rightarrow> int \<Rightarrow> cloud_gate \<Rightarrow> decision \<times> cloud_gate" where
  "reserve_sqlite q n_in n_out g0 =
     (let e = rq_env q; now = be_now e; g = gate_init e g0 in
      if \<not> cg_store_ready g then (deny ''budget_store_unavailable'', g)
      else if accounting_blocked e g then (deny ''budget_accounting_blocked'', g)
      else let sk = session_key (rq_session_id q); dk = day_key now; mk = month_key now; db = cg_db g in
        case be_io e BudReserve of
          Some exc \<Rightarrow> (deny ''budget_store_unavailable'',
                        set_accounting_block e ''reservation_failed'' (store_failed exc g))
        | None \<Rightarrow>
            let used = usage_from_db now db;
                blocked = cap_exhausted_reason (cg_config g)
                  (counter_value db sk) (counter_value db dk) (counter_value db mk)
                  (ut_day_usd used) (ut_month_usd used) n_in n_out (rq_input_price q) (rq_output_price q)
            in if blocked \<noteq> '''' then (deny blocked, g)
               else (allow ''within_budget'', g\<lparr>cg_db := fold (bump_counter now) [sk, dk, mk] db\<rparr>))"

definition reserve :: "reserve_request \<Rightarrow> cloud_gate \<Rightarrow> decision \<times> cloud_gate" where
  "reserve q g =
     (let n_in = max (rq_input_tokens q) 0; n_out = max (rq_output_tokens q) 0 in
      if \<not> cb_enabled (cg_config g) then (deny ''cloud_spillover_disabled'', g)
      else let blocked = preflight_block_reason (cg_config g) n_in n_out in
        if blocked \<noteq> '''' then (deny blocked, g)
        else reserve_sqlite q n_in n_out g)"

definition availability :: "budget_env \<Rightarrow> int \<Rightarrow> int \<Rightarrow> cloud_gate \<Rightarrow> decision \<times> cloud_gate" where
  "availability e est_in req_out g0 =
     (let n_in = max est_in 0; n_out = max req_out 0; cfg = cg_config g0 in
      if \<not> cb_enabled cfg then (deny ''cloud_spillover_disabled'', g0)
      else let blocked = preflight_block_reason cfg n_in n_out in
        if blocked \<noteq> '''' then (deny blocked, g0)
        else let g = gate_init e g0 in
          if \<not> cg_store_ready g then (deny ''budget_store_unavailable'', g)
          else if accounting_blocked e g then (deny ''budget_accounting_blocked'', g)
          else case be_io e BudAvail of
              Some exc \<Rightarrow> (deny ''budget_store_unavailable'', store_failed exc g)
            | None \<Rightarrow>
                let now = be_now e; db = cg_db g; used = usage_from_db now db;
                    blocked = cap_exhausted_reason cfg 0
                      (counter_value db (day_key now)) (counter_value db (month_key now))
                      (ut_day_usd used) (ut_month_usd used) n_in n_out None None
                in if blocked \<noteq> '''' then (deny blocked, g)
                   else (allow ''within_budget'', g))"

section \<open>Recording usage\<close>

record usage_report =
  rp_session_id :: "string option"
  rp_provider :: string
  rp_model :: string
  rp_input_tokens :: "int option"
  rp_output_tokens :: "int option"
  rp_input_price :: "rat option"
  rp_output_price :: "rat option"

definition insert_usage :: "usage_row \<Rightarrow> budget_db \<Rightarrow> budget_db" where
  "insert_usage u db = db\<lparr>bd_usage := bd_usage db @ [u]\<rparr>"

definition usage_of :: "utc \<Rightarrow> string \<Rightarrow> string \<Rightarrow> string \<Rightarrow> int \<Rightarrow> int \<Rightarrow> rat \<Rightarrow> rat \<Rightarrow> usage_row" where
  "usage_of now sid p m n_in n_out c_in c_out =
     \<lparr>ur_created_at = now, ur_session_id = sid, ur_provider = p, ur_model = m,
      ur_input_tokens = n_in, ur_output_tokens = n_out,
      ur_input_cost_usd = c_in, ur_output_cost_usd = c_out, ur_total_cost_usd = c_in + c_out\<rparr>"

definition cost_call_of :: "string \<Rightarrow> string \<Rightarrow> string \<Rightarrow> int \<Rightarrow> int \<Rightarrow> rat \<Rightarrow> rat \<Rightarrow> cost_call" where
  "cost_call_of sid p m n_in n_out c_in c_out =
     \<lparr>cc_session_id = sid, cc_provider_id = p, cc_model = m, cc_input_tokens = n_in,
      cc_output_tokens = n_out, cc_input_cost_usd = c_in, cc_output_cost_usd = c_out\<rparr>"

text \<open>The two threshold checks of a budget: the daily limit, then the monthly one.\<close>

definition alert_both :: "budget_env \<Rightarrow> string \<Rightarrow> rat \<Rightarrow> rat \<Rightarrow> rat \<Rightarrow> rat \<Rightarrow> alert_manager \<Rightarrow> alert_manager" where
  "alert_both e p max_day day_usd max_month month_usd m =
     (let check = (\<lambda>limit used m. if limit > 0
              then snd (check_and_alert (be_alert_io e) (be_post_ok e) (be_now e) p limit used m) else m)
      in check max_month month_usd (check max_day day_usd m))"

definition gate_record_usage :: "budget_env \<Rightarrow> usage_report \<Rightarrow> cloud_gate \<Rightarrow> decision \<times> cloud_gate" where
  "gate_record_usage e u g0 =
     (let cfg = cg_config g0 in
      if \<not> cb_enabled cfg then (allow ''cloud_spillover_disabled'', g0)
      else let g = gate_init e g0 in
        case (rp_input_tokens u, rp_output_tokens u) of
          (Some n_in, Some n_out) \<Rightarrow>
            (if n_in < 0 \<or> n_out < 0 then
               (deny ''invalid_usage_metadata'', set_accounting_block e ''invalid_usage_metadata'' g)
             else if \<not> cg_store_ready g then (deny ''budget_store_unavailable'', g)
             else
               let now = be_now e; sid = opt_str_or (rp_session_id u) ''anonymous'';
                   c_in = input_cost cfg n_in (rp_input_price u);
                   c_out = output_cost cfg n_out (rp_output_price u);
                   failed = (\<lambda>exc g. (deny ''usage_accounting_failed'',
                               set_accounting_block e ''usage_accounting_failed'' (store_failed exc g)))
               in case be_io e BudInsert of
                    Some exc \<Rightarrow> failed exc g
                  | None \<Rightarrow>
                      let g1 = g\<lparr>cg_db := insert_usage
                            (usage_of now sid (rp_provider u) (rp_model u) n_in n_out c_in c_out) (cg_db g)\<rparr>
                      in case be_io e BudUsageRead of
                           Some exc \<Rightarrow> failed exc g1
                         | None \<Rightarrow>
                             let used = usage_from_db now (cg_db g1) in
                             (allow ''usage_recorded'',
                              g1\<lparr>cg_alerts := alert_both e ''cloud_spillover'' (cb_max_daily_usd cfg) (ut_day_usd used)
                                     (cb_max_monthly_usd cfg) (ut_month_usd used) (cg_alerts g1),
                                 cg_costs := record_cost (be_cost_io e) now
                                     (cost_call_of sid (rp_provider u) (rp_model u) n_in n_out c_in c_out) (cg_costs g1)\<rparr>))
        | _ \<Rightarrow> (deny ''missing_usage_metadata'', set_accounting_block e ''missing_usage_metadata'' g))"

definition clear_accounting_block :: "budget_env \<Rightarrow> cloud_gate \<Rightarrow> decision \<times> cloud_gate" where
  "clear_accounting_block e g =
     (if \<not> cb_enabled (cg_config g) then (deny ''cloud_spillover_disabled'', g)
      else case be_io e BudClear of
          Some exc \<Rightarrow> (deny (''clear_failed: '' @ exc), g)
        | None \<Rightarrow>
            if \<not> bd_tables (cg_db g) then (deny ''clear_failed: no such table: cloud_budget_state'', g)
            else (allow ''accounting_block_cleared'',
                  g\<lparr>cg_db := put_state ''last_accounting_error'' '''' (cg_db g)\<rparr>))"

section \<open>Snapshot\<close>

record gate_usage =
  gu_sessions :: nat
  gu_day :: int
  gu_month :: int
  gu_day_usd :: rat
  gu_month_usd :: rat

definition zero_usage :: gate_usage where
  "zero_usage = \<lparr>gu_sessions = 0, gu_day = 0, gu_month = 0, gu_day_usd = 0, gu_month_usd = 0\<rparr>"

definition sqlite_usage :: "budget_env \<Rightarrow> cloud_gate \<Rightarrow> gate_usage" where
  "sqlite_usage e g =
     (if \<not> cb_enabled (cg_config g) then zero_usage
      else if be_io e BudSnapshot \<noteq> None \<or> \<not> bd_tables (cg_db g) then zero_usage
      else let now = be_now e; used = usage_from_db now (cg_db g) in
        \<lparr>gu_sessions = ut_sessions used,
         gu_day = counter_value (cg_db g) (day_key now),
         gu_month = counter_value (cg_db g) (month_key now),
         gu_day_usd = ut_day_usd used, gu_month_usd = ut_month_usd used\<rparr>)"

record gate_snapshot =
  gs_enabled :: bool
  gs_store :: string
  gs_store_ready :: bool
  gs_store_error :: string
  gs_accounting_blocked :: bool
  gs_last_accounting_error :: string
  gs_limits :: cloud_budget_config
  gs_used :: gate_usage

definition gate_snapshot_of :: "budget_env \<Rightarrow> cloud_gate \<Rightarrow> gate_snapshot" where
  "gate_snapshot_of e g =
     (let en = cb_enabled (cg_config g) in
      \<lparr>gs_enabled = en, gs_store = (if en then ''sqlite'' else ''memory''),
       gs_store_ready = (if en then cg_store_ready g else True),
       gs_store_error = cg_store_error g,
       gs_accounting_blocked = (if en then accounting_blocked e g else False),
       gs_last_accounting_error = (if en then state_value e ''last_accounting_error'' g else ''''),
       gs_limits = cg_config g,
       gs_used = (if en then sqlite_usage e g else zero_usage)\<rparr>)"

lemmas cloud_defs = reserve_def reserve_sqlite_def gate_init_def state_value_def accounting_blocked_def
  set_accounting_block_def store_failed_def preflight_block_reason_def cap_exhausted_reason_def
  estimate_cost_def input_cost_def output_cost_def usage_from_db_def session_key_def day_key_def
  month_key_def counter_value_def state_lookup_def Let_def

section \<open>Frame facts\<close>

lemma bump_counter_fields [simp]:
  "bd_usage (bump_counter now k db) = bd_usage db" "bd_state (bump_counter now k db) = bd_state db"
  "bd_tables (bump_counter now k db) = bd_tables db"
  by (simp_all add: bump_counter_def)

lemma put_state_fields [simp]:
  "bd_usage (put_state k v db) = bd_usage db" "bd_counters (put_state k v db) = bd_counters db"
  "bd_tables (put_state k v db) = bd_tables db"
  by (simp_all add: put_state_def)

lemma counter_value_cong: "bd_counters db = bd_counters db' \<Longrightarrow> counter_value db k = counter_value db' k"
  by (simp add: counter_value_def)

lemma counter_value_gate_init [simp]: "counter_value (cg_db (gate_init e g)) k = counter_value (cg_db g) k"
  by (simp add: counter_value_def gate_init_def split: option.splits)

lemma usage_from_db_gate_init [simp]: "usage_from_db now (cg_db (gate_init e g)) = usage_from_db now (cg_db g)"
  by (simp add: usage_from_db_def gate_init_def split: option.splits)

lemma gate_init_fields [simp]:
  "cg_config (gate_init e g) = cg_config g" "cg_alerts (gate_init e g) = cg_alerts g"
  "cg_costs (gate_init e g) = cg_costs g" "bd_counters (cg_db (gate_init e g)) = bd_counters (cg_db g)"
  "bd_usage (cg_db (gate_init e g)) = bd_usage (cg_db g)" "bd_state (cg_db (gate_init e g)) = bd_state (cg_db g)"
  by (simp_all add: gate_init_def split: option.splits)

lemma set_block_fields [simp]:
  "cg_config (set_accounting_block e r g) = cg_config g"
  "cg_alerts (set_accounting_block e r g) = cg_alerts g" "cg_costs (set_accounting_block e r g) = cg_costs g"
  "bd_counters (cg_db (set_accounting_block e r g)) = bd_counters (cg_db g)"
  "bd_usage (cg_db (set_accounting_block e r g)) = bd_usage (cg_db g)"
  by (simp_all add: set_accounting_block_def)

lemma store_failed_fields [simp]:
  "cg_config (store_failed exc g) = cg_config g" "cg_db (store_failed exc g) = cg_db g"
  "cg_store_ready (store_failed exc g) = False" "cg_alerts (store_failed exc g) = cg_alerts g"
  "cg_costs (store_failed exc g) = cg_costs g"
  by (simp_all add: store_failed_def)

lemma reserve_config [simp]: "cg_config (snd (reserve q g)) = cg_config g"
  by (simp add: reserve_def reserve_sqlite_def Let_def split: option.splits)

lemma reserve_usage [simp]: "bd_usage (cg_db (snd (reserve q g))) = bd_usage (cg_db g)"
  by (simp add: reserve_def reserve_sqlite_def Let_def split: option.splits)

section \<open>Admission\<close>

lemma keys_distinct:
  "session_key s \<noteq> day_key t" "session_key s \<noteq> month_key t" "day_key t \<noteq> month_key t'"
  by (simp_all add: session_key_def day_key_def month_key_def)

definition request_keys :: "reserve_request \<Rightarrow> string list" where
  "request_keys q = [session_key (rq_session_id q), day_key (be_now (rq_env q)), month_key (be_now (rq_env q))]"

lemma request_keys_distinct: "distinct (request_keys q)"
  using keys_distinct by (simp add: request_keys_def)

text \<open>What an allowed reservation says about the gate it was asked of.\<close>

lemma reserve_sqlite_allowedD:
  "allowed (fst (reserve_sqlite q n_in n_out g)) \<Longrightarrow>
   be_io (rq_env q) BudReserve = None \<and> cg_store_ready (gate_init (rq_env q) g) \<and>
   \<not> accounting_blocked (rq_env q) (gate_init (rq_env q) g) \<and>
   cap_exhausted_reason (cg_config g)
      (counter_value (cg_db g) (session_key (rq_session_id q)))
      (counter_value (cg_db g) (day_key (be_now (rq_env q))))
      (counter_value (cg_db g) (month_key (be_now (rq_env q))))
      (ut_day_usd (usage_from_db (be_now (rq_env q)) (cg_db g)))
      (ut_month_usd (usage_from_db (be_now (rq_env q)) (cg_db g)))
      n_in n_out (rq_input_price q) (rq_output_price q) = '''' \<and>
   snd (reserve_sqlite q n_in n_out g) = (gate_init (rq_env q) g)
      \<lparr>cg_db := fold (bump_counter (be_now (rq_env q))) (request_keys q) (cg_db (gate_init (rq_env q) g))\<rparr>"
  by (simp add: reserve_sqlite_def Let_def request_keys_def split: if_splits option.splits)

lemma reserve_allowed_sqlite:
  "allowed (fst (reserve q g)) \<Longrightarrow>
   cb_enabled (cg_config g) \<and>
   preflight_block_reason (cg_config g) (max (rq_input_tokens q) 0) (max (rq_output_tokens q) 0) = '''' \<and>
   reserve q g = reserve_sqlite q (max (rq_input_tokens q) 0) (max (rq_output_tokens q) 0) g"
  by (simp add: reserve_def Let_def split: if_splits)

lemma reserve_allowedD:
  assumes "allowed (fst (reserve q g))"
  shows "cb_enabled (cg_config g)" and "be_io (rq_env q) BudReserve = None"
    and "snd (reserve q g) = (gate_init (rq_env q) g)
      \<lparr>cg_db := fold (bump_counter (be_now (rq_env q))) (request_keys q) (cg_db (gate_init (rq_env q) g))\<rparr>"
    and "\<not> accounting_blocked (rq_env q) (gate_init (rq_env q) g)"
    and "cg_store_ready (gate_init (rq_env q) g)"
    and "cap_exhausted_reason (cg_config g)
      (counter_value (cg_db g) (session_key (rq_session_id q)))
      (counter_value (cg_db g) (day_key (be_now (rq_env q))))
      (counter_value (cg_db g) (month_key (be_now (rq_env q))))
      (ut_day_usd (usage_from_db (be_now (rq_env q)) (cg_db g)))
      (ut_month_usd (usage_from_db (be_now (rq_env q)) (cg_db g)))
      (max (rq_input_tokens q) 0) (max (rq_output_tokens q) 0) (rq_input_price q) (rq_output_price q) = ''''"
    and "preflight_block_reason (cg_config g) (max (rq_input_tokens q) 0) (max (rq_output_tokens q) 0) = ''''"
  using reserve_allowed_sqlite [OF assms] reserve_sqlite_allowedD assms by metis+

lemma reserve_refused_counters:
  "\<not> allowed (fst (reserve q g)) \<Longrightarrow> bd_counters (cg_db (snd (reserve q g))) = bd_counters (cg_db g)"
  by (auto simp: reserve_def reserve_sqlite_def Let_def split: if_splits option.splits)

lemma reserve_allowed_counter:
  "allowed (fst (reserve q g)) \<Longrightarrow> counter_value (cg_db (snd (reserve q g))) k =
     counter_value (cg_db g) k + (if k \<in> set (request_keys q) then 1 else 0)"
  by (subst reserve_allowedD(3), assumption)
     (simp add: counter_tbl.count_fold_distinct request_keys_distinct)

lemma cap_reason_below:
  assumes "cap_exhausted_reason cfg sc dc mc du mu n_in n_out p_in p_out = ''''"
  shows "below_cap (cap_of (cb_max_calls_per_session cfg)) sc"
    and "below_cap (cap_of (cb_max_calls_per_day cfg)) dc"
    and "below_cap (cap_of (cb_max_calls_per_month cfg)) mc"
    and "0 < cb_max_daily_usd cfg \<Longrightarrow> du + estimate_cost cfg n_in n_out p_in p_out \<le> cb_max_daily_usd cfg"
    and "0 < cb_max_monthly_usd cfg \<Longrightarrow> mu + estimate_cost cfg n_in n_out p_in p_out \<le> cb_max_monthly_usd cfg"
  using assms
  by (auto simp: cap_exhausted_reason_def below_cap_def cap_of_def Let_def not_le split: if_splits)

text \<open>
  The three call caps are instances of the cap interface: the counter of one session,
  of one day, of one month, under a fixed configuration.
\<close>

interpretation session_cap: capped reserve allowed "\<lambda>g. cg_config g = cfg"
  "\<lambda>g. counter_value (cg_db g) (session_key s)" "cap_of (cb_max_calls_per_session cfg)" for cfg s
proof unfold_locales
  fix q g
  assume "\<not> allowed (fst (reserve q g))"
  then show "counter_value (cg_db (snd (reserve q g))) (session_key s) = counter_value (cg_db g) (session_key s)"
    by (simp add: counter_value_def reserve_refused_counters)
next
  fix q g
  assume cfg: "cg_config g = cfg" and ok: "allowed (fst (reserve q g))"
  from cap_reason_below(1) [OF reserve_allowedD(6) [OF ok]] cfg keys_distinct keys_distinct [symmetric]
  show "counter_value (cg_db (snd (reserve q g))) (session_key s) = counter_value (cg_db g) (session_key s) \<or>
    counter_value (cg_db (snd (reserve q g))) (session_key s) = counter_value (cg_db g) (session_key s) + 1 \<and>
    below_cap (cap_of (cb_max_calls_per_session cfg)) (counter_value (cg_db g) (session_key s))"
    by (auto simp: reserve_allowed_counter [OF ok] request_keys_def)
qed simp

interpretation day_cap: capped reserve allowed "\<lambda>g. cg_config g = cfg"
  "\<lambda>g. counter_value (cg_db g) (day_key d)" "cap_of (cb_max_calls_per_day cfg)" for cfg d
proof unfold_locales
  fix q g
  assume "\<not> allowed (fst (reserve q g))"
  then show "counter_value (cg_db (snd (reserve q g))) (day_key d) = counter_value (cg_db g) (day_key d)"
    by (simp add: counter_value_def reserve_refused_counters)
next
  fix q g
  assume cfg: "cg_config g = cfg" and ok: "allowed (fst (reserve q g))"
  from cap_reason_below(2) [OF reserve_allowedD(6) [OF ok]] cfg keys_distinct keys_distinct [symmetric]
  show "counter_value (cg_db (snd (reserve q g))) (day_key d) = counter_value (cg_db g) (day_key d) \<or>
    counter_value (cg_db (snd (reserve q g))) (day_key d) = counter_value (cg_db g) (day_key d) + 1 \<and>
    below_cap (cap_of (cb_max_calls_per_day cfg)) (counter_value (cg_db g) (day_key d))"
    by (auto simp: reserve_allowed_counter [OF ok] request_keys_def)
qed simp

interpretation month_cap: capped reserve allowed "\<lambda>g. cg_config g = cfg"
  "\<lambda>g. counter_value (cg_db g) (month_key d)" "cap_of (cb_max_calls_per_month cfg)" for cfg d
proof unfold_locales
  fix q g
  assume "\<not> allowed (fst (reserve q g))"
  then show "counter_value (cg_db (snd (reserve q g))) (month_key d) = counter_value (cg_db g) (month_key d)"
    by (simp add: counter_value_def reserve_refused_counters)
next
  fix q g
  assume cfg: "cg_config g = cfg" and ok: "allowed (fst (reserve q g))"
  from cap_reason_below(3) [OF reserve_allowedD(6) [OF ok]] cfg keys_distinct keys_distinct [symmetric]
  show "counter_value (cg_db (snd (reserve q g))) (month_key d) = counter_value (cg_db g) (month_key d) \<or>
    counter_value (cg_db (snd (reserve q g))) (month_key d) = counter_value (cg_db g) (month_key d) + 1 \<and>
    below_cap (cap_of (cb_max_calls_per_month cfg)) (counter_value (cg_db g) (month_key d))"
    by (auto simp: reserve_allowed_counter [OF ok] request_keys_def)
qed simp

section \<open>What a run of reservations does\<close>

text \<open>The number of admitted requests of a run that count under one key.\<close>

definition admitted_under :: "string \<Rightarrow> reserve_request list \<Rightarrow> decision list \<Rightarrow> nat" where
  "admitted_under k qs ds = length (filter (\<lambda>(q, d). allowed d \<and> k \<in> set (request_keys q)) (zip qs ds))"

lemma serve_reserve_config [simp]: "cg_config (snd (serve reserve qs g)) = cg_config g"
  by (induction qs arbitrary: g) (simp_all add: split_beta)

lemma serve_reserve_usage [simp]: "bd_usage (cg_db (snd (serve reserve qs g))) = bd_usage (cg_db g)"
  by (induction qs arbitrary: g) (simp_all add: split_beta)

lemma serve_reserve_counts:
  "counter_value (cg_db (snd (serve reserve qs g))) k =
   counter_value (cg_db g) k + int (admitted_under k qs (fst (serve reserve qs g)))"
proof (induction qs arbitrary: g)
  case (Cons q qs)
  have step: "counter_value (cg_db (snd (reserve q g))) k = counter_value (cg_db g) k +
      (if allowed (fst (reserve q g)) \<and> k \<in> set (request_keys q) then 1 else 0)"
    using reserve_allowed_counter [of q g k] reserve_refused_counters [of q g]
    by (cases "allowed (fst (reserve q g))") (auto simp: counter_value_def)
  show ?case
    using Cons.IH [of "snd (reserve q g)"] step by (simp add: split_beta admitted_under_def)
qed (simp add: admitted_under_def)

lemma within_cap_positive: "within_cap (cap_of c) n \<Longrightarrow> 0 < c \<Longrightarrow> n \<le> c"
  by (simp add: within_cap_def cap_of_def)

lemma within_cap_zero [simp]: "within_cap (cap_of c) 0"
  by (simp add: within_cap_def cap_of_def)

text \<open>An accounting block: the gate's store holds a non-empty accounting error.\<close>

definition latched :: "cloud_gate \<Rightarrow> bool" where
  "latched g \<longleftrightarrow> bd_tables (cg_db g) \<and>
     (case state_lookup (cg_db g) ''last_accounting_error'' of None \<Rightarrow> False | Some v \<Rightarrow> v \<noteq> '''')"

lemma latched_gate_init [simp]: "latched g \<Longrightarrow> latched (gate_init e g)"
  by (auto simp: latched_def gate_init_def state_lookup_def split: option.splits)

lemma latched_blocks: "latched g \<Longrightarrow> be_io e BudStateRead = None \<Longrightarrow> accounting_blocked e g"
  by (auto simp: latched_def accounting_blocked_def state_value_def split: option.splits)

lemma set_block_latched:
  "latched g \<Longrightarrow> r \<noteq> '''' \<Longrightarrow> latched (set_accounting_block e r g)"
  by (auto simp: latched_def set_accounting_block_def state_kv.lookup_put)

lemma set_block_latches:
  "cb_enabled (cg_config g) \<Longrightarrow> be_io e BudStateWrite = None \<Longrightarrow> bd_tables (cg_db g) \<Longrightarrow> r \<noteq> ''''
   \<Longrightarrow> latched (set_accounting_block e r g)"
  by (auto simp: latched_def set_accounting_block_def state_kv.lookup_put)

lemma latched_store_failed [simp]: "latched (store_failed exc g) = latched g"
  by (simp add: latched_def)

lemma latched_refuses:
  assumes "latched g" "be_io (rq_env q) BudStateRead = None"
  shows "\<not> allowed (fst (reserve q g))" and "latched (snd (reserve q g))"
proof -
  have "accounting_blocked (rq_env q) (gate_init (rq_env q) g)"
    using assms by (intro latched_blocks) simp_all
  then show "\<not> allowed (fst (reserve q g))" and "latched (snd (reserve q g))"
    using assms(1) by (auto simp: reserve_def reserve_sqlite_def Let_def)
qed

lemma latched_serve:
  "latched g \<Longrightarrow> \<forall>q \<in> set qs. be_io (rq_env q) BudStateRead = None \<Longrightarrow>
   \<not> list_ex allowed (fst (serve reserve qs g))"
proof (induction qs arbitrary: g)
  case (Cons q qs)
  then show ?case using latched_refuses [of g q] by (simp add: split_beta)
qed simp

lemma no_such_reason:
  "preflight_block_reason cfg i j \<noteq> ''budget_store_unavailable''"
  "cap_exhausted_reason cfg sc dc mc du mu i j p_in p_out \<noteq> ''budget_store_unavailable''"
  by (simp_all add: preflight_block_reason_def cap_exhausted_reason_def Let_def)

text \<open>Behind a refusal for the store of a ready gate stands a failed transaction.\<close>

lemma reserve_unavailable_state:
  assumes "fst (reserve q g) = deny ''budget_store_unavailable''" and "cg_store_ready (gate_init (rq_env q) g)"
  shows "\<exists>exc. snd (reserve q g) =
    set_accounting_block (rq_env q) ''reservation_failed'' (store_failed exc (gate_init (rq_env q) g))"
proof -
  let ?n_in = "max (rq_input_tokens q) 0" and ?n_out = "max (rq_output_tokens q) 0"
  have "reserve q g = reserve_sqlite q ?n_in ?n_out g"
    using assms(1) no_such_reason(1) by (auto simp: reserve_def Let_def split: if_splits)
  then show ?thesis
    using assms no_such_reason(2) by (auto simp: reserve_sqlite_def Let_def split: if_splits option.splits)
qed

lemma gate_init_tables:
  "be_io e BudInit = None \<Longrightarrow> cb_enabled (cg_config g) \<Longrightarrow> (cg_store_ready g \<longrightarrow> bd_tables (cg_db g)) \<Longrightarrow>
   bd_tables (cg_db (gate_init e g)) \<and> cg_store_ready (gate_init e g)"
  by (simp add: gate_init_def)

lemma month_window_wider:
  assumes "\<And>u. u \<in> set (bd_usage db) \<Longrightarrow> 0 \<le> ur_total_cost_usd u"
  shows "ut_day_usd (usage_from_db now db) \<le> ut_month_usd (usage_from_db now db)"
  unfolding usage_from_db_def usage_totals.simps
  by (rule sum_where_mono, erule assms) (meson month_start_le_day_start order_trans)

section \<open>Properties\<close>

definition sample_cloud_config :: cloud_budget_config where
  "sample_cloud_config = default_cloud_config
     \<lparr>cb_enabled := True, cb_max_calls_per_session := 2, cb_max_calls_per_day := 10,
      cb_max_daily_usd := 1, cb_max_monthly_usd := 5, cb_max_input_tokens_per_call := 5000\<rparr>"

definition sample_gate :: cloud_gate where
  "sample_gate = new_cloud_gate (\<lambda>_. None) sample_cloud_config empty_db"

definition sample_request :: "utc \<Rightarrow> reserve_request" where
  "sample_request t = \<lparr>rq_env = calm t, rq_session_id = Some ''s'', rq_input_tokens = 1000,
     rq_output_tokens = 1000, rq_input_price = None, rq_output_price = None\<rparr>"

lemma sample_fields:
  "cg_config sample_gate = sample_cloud_config" "counter_value (cg_db sample_gate) k = 0"
  "cb_enabled sample_cloud_config" "bd_usage (cg_db sample_gate) = []"
  by (simp_all add: sample_gate_def new_cloud_gate_def sample_cloud_config_def empty_db_def counter_value_def)

lemma sample_session_key: "session_key (Some ''s'') = ''session:s''"
  by (simp add: session_key_def)

text \<open>A first request of the sample gate is admitted.\<close>

lemma sample_request_admitted: "allowed (fst (reserve (sample_request 0) sample_gate))"
  by (simp add: reserve_def reserve_sqlite_def Let_def sample_request_def sample_gate_def new_cloud_gate_def
      sample_cloud_config_def default_cloud_config_def empty_db_def gate_init_def accounting_blocked_def
      state_value_def state_lookup_def preflight_block_reason_def cap_exhausted_reason_def counter_value_def
      usage_from_db_def estimate_cost_def input_cost_def output_cost_def)

text \<open>C1: over any run of reservations from fresh counters, whatever faults occur, the gate
  admits at most the configured number of calls of each session, of each UTC day and of
  each UTC month (a cap of zero is no cap).\<close>

theorem call_caps_never_exceeded:
  fixes qs :: "reserve_request list"
  assumes "cg_config g = cfg" and "\<And>k. counter_value (cg_db g) k = 0"
  defines "ds \<equiv> fst (serve reserve qs g)"
  shows "(0 < cb_max_calls_per_session cfg \<longrightarrow>
        int (admitted_under (session_key s) qs ds) \<le> cb_max_calls_per_session cfg)
    \<and> (0 < cb_max_calls_per_day cfg \<longrightarrow> int (admitted_under (day_key t) qs ds) \<le> cb_max_calls_per_day cfg)
    \<and> (0 < cb_max_calls_per_month cfg \<longrightarrow> int (admitted_under (month_key t) qs ds) \<le> cb_max_calls_per_month cfg)"
  using session_cap.serve_within [of g cfg s qs] day_cap.serve_within [of g cfg t qs]
    month_cap.serve_within [of g cfg t qs] assms
  by (auto simp: serve_reserve_counts dest!: within_cap_positive)

theorem call_caps_never_exceeded_witness:
  "int (admitted_under ''session:s'' (replicate 5 (sample_request 0))
     (fst (serve reserve (replicate 5 (sample_request 0)) sample_gate))) \<le> 2"
  using call_caps_never_exceeded [where g = sample_gate and cfg = sample_cloud_config
      and qs = "replicate 5 (sample_request 0)" and s = "Some ''s''" and t = 0]
  by (simp add: sample_fields sample_session_key) (simp add: sample_cloud_config_def default_cloud_config_def)

text \<open>C14: when a call is admitted, what was already spent today and this month plus the
  estimated cost of the call stays within the daily and monthly USD caps, and with a USD
  cap configured the call respects the per-call token caps.\<close>

theorem admitted_call_fits_budget:
  assumes "allowed (fst (reserve q g))"
  defines "cfg \<equiv> cg_config g" and "used \<equiv> usage_from_db (be_now (rq_env q)) (cg_db g)"
    and "n_in \<equiv> max (rq_input_tokens q) 0" and "n_out \<equiv> max (rq_output_tokens q) 0"
  defines "est \<equiv> estimate_cost cfg n_in n_out (rq_input_price q) (rq_output_price q)"
  shows "(0 < cb_max_daily_usd cfg \<longrightarrow> ut_day_usd used + est \<le> cb_max_daily_usd cfg)
    \<and> (0 < cb_max_monthly_usd cfg \<longrightarrow> ut_month_usd used + est \<le> cb_max_monthly_usd cfg)
    \<and> (cb_max_daily_usd cfg \<noteq> 0 \<or> cb_max_monthly_usd cfg \<noteq> 0 \<longrightarrow>
        (0 < cb_max_input_tokens_per_call cfg \<longrightarrow> n_in \<le> cb_max_input_tokens_per_call cfg) \<and>
        (0 < cb_max_output_tokens_per_call cfg \<longrightarrow> n_out \<le> cb_max_output_tokens_per_call cfg))"
proof -
  note D = reserve_allowedD [OF assms(1)]
  show ?thesis
    using cap_reason_below(4,5) [OF D(6)] D(7)
    by (auto simp: assms(2-) preflight_block_reason_def split: if_splits)
qed

theorem admitted_call_fits_budget_witness:
  "estimate_cost sample_cloud_config 1000 1000 None None \<le> 1"
  using admitted_call_fits_budget [OF sample_request_admitted]
  by (simp add: sample_fields usage_from_db_def sample_request_def)
     (simp add: sample_cloud_config_def default_cloud_config_def)

text \<open>C37: the gate fails closed. When its store cannot be opened, or the reservation's
  transaction fails, the call is refused and no counter moves; after a failed transaction
  whose error could be stored, no call is admitted until an operator clears the block,
  as long as the block can be read.\<close>

theorem reservation_fails_closed:
  assumes "cb_enabled (cg_config g)"
    and "be_io (rq_env q) BudReserve \<noteq> None \<or> (\<not> cg_store_ready g \<and> be_io (rq_env q) BudInit \<noteq> None)"
  shows "\<not> allowed (fst (reserve q g))
    \<and> bd_counters (cg_db (snd (reserve q g))) = bd_counters (cg_db g)
    \<and> (fst (reserve q g) = deny ''budget_store_unavailable'' \<and> cg_store_ready (gate_init (rq_env q) g)
        \<and> bd_tables (cg_db (gate_init (rq_env q) g)) \<and> be_io (rq_env q) BudStateWrite = None
        \<and> (\<forall>p \<in> set qs. be_io (rq_env p) BudStateRead = None)
       \<longrightarrow> \<not> list_ex allowed (fst (serve reserve qs (snd (reserve q g)))))"
proof -
  have refused: "\<not> allowed (fst (reserve q g))"
    using assms reserve_allowedD(2,5) [of q g] by (auto simp: gate_init_def split: option.splits)
  have latch: "latched (snd (reserve q g))"
    if "fst (reserve q g) = deny ''budget_store_unavailable''" "cg_store_ready (gate_init (rq_env q) g)"
      "bd_tables (cg_db (gate_init (rq_env q) g))" "be_io (rq_env q) BudStateWrite = None"
    using reserve_unavailable_state [OF that(1,2)] that(3,4) assms(1) by (auto intro!: set_block_latches)
  show ?thesis
    using refused reserve_refused_counters [OF refused] latched_serve [OF latch, of qs] by blast
qed

definition broken_request :: reserve_request where
  "broken_request = (sample_request 0)\<lparr>rq_env := (calm 0)\<lparr>be_io := no_faults(BudReserve := Some ''OperationalError'')\<rparr>\<rparr>"

theorem reservation_fails_closed_witness:
  "\<not> list_ex allowed (fst (serve reserve [sample_request 1, sample_request 2] (snd (reserve broken_request sample_gate))))"
proof -
  have "fst (reserve broken_request sample_gate) = deny ''budget_store_unavailable''"
    by (simp add: reserve_def reserve_sqlite_def Let_def broken_request_def sample_request_def sample_gate_def
        new_cloud_gate_def sample_cloud_config_def default_cloud_config_def empty_db_def gate_init_def
        accounting_blocked_def state_value_def state_lookup_def preflight_block_reason_def)
  moreover have "cg_store_ready (gate_init (rq_env broken_request) sample_gate)"
      "bd_tables (cg_db (gate_init (rq_env broken_request) sample_gate))"
    using gate_init_tables [of "rq_env broken_request" sample_gate]
    by (simp_all add: broken_request_def sample_fields sample_gate_def new_cloud_gate_def)
  ultimately show ?thesis
    using reservation_fails_closed [of sample_gate broken_request "[sample_request 1, sample_request 2]"]
    by (simp add: sample_fields broken_request_def sample_request_def)
qed

text \<open>A usage report without token counts blocks the gate: every later reservation is
  refused, whatever the requests, until the block is cleared.\<close>

theorem missing_usage_blocks_gate:
  assumes "cb_enabled (cg_config g)" and "cg_store_ready g \<longrightarrow> bd_tables (cg_db g)"
    and "rp_input_tokens u = None \<or> rp_output_tokens u = None"
    and "be_io e BudInit = None" and "be_io e BudStateWrite = None"
    and "\<forall>q \<in> set qs. be_io (rq_env q) BudStateRead = None"
  shows "fst (gate_record_usage e u g) = deny ''missing_usage_metadata''
    \<and> \<not> list_ex allowed (fst (serve reserve qs (snd (gate_record_usage e u g))))"
proof -
  have res: "gate_record_usage e u g =
      (deny ''missing_usage_metadata'', set_accounting_block e ''missing_usage_metadata'' (gate_init e g))"
    using assms(1,3) by (auto simp: gate_record_usage_def Let_def split: option.splits)
  have "bd_tables (cg_db (gate_init e g))"
    using gate_init_tables [of e g] assms by blast
  then have "latched (set_accounting_block e ''missing_usage_metadata'' (gate_init e g))"
    using assms by (intro set_block_latches) simp_all
  then show ?thesis
    using res assms(6) by (auto dest: latched_serve)
qed

theorem missing_usage_blocks_gate_witness:
  "\<not> list_ex allowed (fst (serve reserve [sample_request 1, sample_request 90000000000]
     (snd (gate_record_usage (calm 0) \<lparr>rp_session_id = None, rp_provider = ''openai'', rp_model = ''m'',
        rp_input_tokens = Some 7, rp_output_tokens = None, rp_input_price = None, rp_output_price = None\<rparr>
        sample_gate))))"
  using missing_usage_blocks_gate [of sample_gate "\<lparr>rp_session_id = None, rp_provider = ''openai'', rp_model = ''m'',
        rp_input_tokens = Some 7, rp_output_tokens = None, rp_input_price = None, rp_output_price = None\<rparr>"
      "calm 0" "[sample_request 1, sample_request 90000000000]"]
  by (simp add: sample_fields sample_request_def sample_gate_def new_cloud_gate_def)

text \<open>Clearing the accounting block makes the gate answer as if it had never been blocked:
  the next decision is that of the same gate with an empty accounting error.\<close>

theorem clearing_lifts_block:
  assumes "allowed (fst (clear_accounting_block e g))"
  shows "reason (fst (reserve q (snd (clear_accounting_block e g)))) \<noteq> ''budget_accounting_blocked''
    \<and> bd_counters (cg_db (snd (clear_accounting_block e g))) = bd_counters (cg_db g)
    \<and> bd_usage (cg_db (snd (clear_accounting_block e g))) = bd_usage (cg_db g)"
proof -
  have g': "snd (clear_accounting_block e g) =
      g\<lparr>cg_db := put_state ''last_accounting_error'' '''' (cg_db g)\<rparr>" (is "_ = ?g")
    using assms by (simp add: clear_accounting_block_def split: if_split_asm option.split_asm)
  have "state_lookup (cg_db (gate_init (rq_env q) ?g)) k = state_lookup (cg_db ?g) k" for k
    by (simp add: state_lookup_def)
  then have "\<not> accounting_blocked (rq_env q) (gate_init (rq_env q) ?g)"
    by (simp add: accounting_blocked_def state_value_def state_kv.lookup_put)
  then have "reason (fst (reserve q ?g)) \<noteq> ''budget_accounting_blocked''"
    by (auto simp: reserve_def reserve_sqlite_def Let_def preflight_block_reason_def cap_exhausted_reason_def
        split: option.splits)
  then show ?thesis by (simp add: g')
qed

theorem clearing_lifts_block_witness:
  "reason (fst (reserve (sample_request 3)
     (snd (clear_accounting_block (calm 2) (gate_init (calm 0) sample_gate))))) \<noteq> ''budget_accounting_blocked''"
proof -
  have "allowed (fst (clear_accounting_block (calm 2) (gate_init (calm 0) sample_gate)))"
    using gate_init_tables [of "calm 0" sample_gate]
    by (simp add: clear_accounting_block_def sample_fields sample_gate_def new_cloud_gate_def)
  from clearing_lifts_block [OF this, of "sample_request 3"] show ?thesis by simp
qed

text \<open>A successful usage report adds exactly the cost of its tokens, at the report's prices
  or the configured ones, to the spend of the day and of the month that later
  reservations are checked against, and moves no call counter.\<close>

theorem usage_report_books_its_cost:
  assumes "fst (gate_record_usage e u g) = allow ''usage_recorded''"
    and "rp_input_tokens u = Some n_in" and "rp_output_tokens u = Some n_out"
  defines "cost \<equiv> input_cost (cg_config g) n_in (rp_input_price u) + output_cost (cg_config g) n_out (rp_output_price u)"
  defines "g' \<equiv> snd (gate_record_usage e u g)" and "now \<equiv> be_now e"
  shows "ut_day_usd (usage_from_db now (cg_db g')) = ut_day_usd (usage_from_db now (cg_db g)) + cost
    \<and> ut_month_usd (usage_from_db now (cg_db g')) = ut_month_usd (usage_from_db now (cg_db g)) + cost
    \<and> bd_counters (cg_db g') = bd_counters (cg_db g)
    \<and> 0 \<le> n_in \<and> 0 \<le> n_out"
proof -
  have "bd_usage (cg_db g') = bd_usage (cg_db g) @
      [usage_of now (opt_str_or (rp_session_id u) ''anonymous'') (rp_provider u) (rp_model u) n_in n_out
        (input_cost (cg_config g) n_in (rp_input_price u)) (output_cost (cg_config g) n_out (rp_output_price u))]
     \<and> bd_counters (cg_db g') = bd_counters (cg_db g) \<and> 0 \<le> n_in \<and> 0 \<le> n_out"
    using assms(1-3) unfolding g'_def now_def
    by (auto simp: gate_record_usage_def Let_def insert_usage_def split: if_splits option.splits)
  then show ?thesis by (simp add: usage_from_db_def usage_of_def cost_def)
qed

definition sample_report :: usage_report where
  "sample_report = \<lparr>rp_session_id = Some ''s'', rp_provider = ''openai'', rp_model = ''m'',
     rp_input_tokens = Some 1000, rp_output_tokens = Some 100, rp_input_price = Some 2, rp_output_price = None\<rparr>"

lemma sample_report_recorded: "fst (gate_record_usage (calm 5) sample_report sample_gate) = allow ''usage_recorded''"
proof -
  have "cg_store_ready (gate_init (calm 5) sample_gate)"
    using gate_init_tables [of "calm 5" sample_gate]
    by (simp add: sample_fields sample_gate_def new_cloud_gate_def)
  then show ?thesis by (simp add: gate_record_usage_def sample_report_def sample_fields Let_def)
qed

theorem usage_report_books_its_cost_witness:
  "ut_day_usd (usage_from_db 5 (cg_db (snd (gate_record_usage (calm 5) sample_report sample_gate)))) = 7 / 2000"
  using usage_report_books_its_cost [OF sample_report_recorded, of 1000 100]
  by (simp add: sample_report_def sample_fields usage_from_db_def input_cost_def output_cost_def)
     (simp add: sample_cloud_config_def default_cloud_config_def)

text \<open>The per-turn call cap is never enforced: two gates that differ only in
  \<open>max_calls_per_turn\<close> take the same decision on every request.\<close>

lemma preflight_turn [simp]:
  "preflight_block_reason (cfg\<lparr>cb_max_calls_per_turn := n\<rparr>) i j = preflight_block_reason cfg i j"
  by (simp add: preflight_block_reason_def)

theorem per_turn_cap_is_dead:
  "fst (reserve q (g\<lparr>cg_config := (cg_config g)\<lparr>cb_max_calls_per_turn := n\<rparr>\<rparr>)) = fst (reserve q g)"
proof -
  let ?g = "g\<lparr>cg_config := (cg_config g)\<lparr>cb_max_calls_per_turn := n\<rparr>\<rparr>"
  have cap: "cap_exhausted_reason (cfg\<lparr>cb_max_calls_per_turn := n\<rparr>) = cap_exhausted_reason cfg" for cfg
    by (intro ext) (simp add: cap_exhausted_reason_def estimate_cost_def input_cost_def output_cost_def Let_def)
  have init: "gate_init e ?g = (gate_init e g)\<lparr>cg_config := (cg_config g)\<lparr>cb_max_calls_per_turn := n\<rparr>\<rparr>" for e
    by (simp add: gate_init_def split: option.splits)
  show ?thesis
    by (simp add: reserve_def reserve_sqlite_def init cap accounting_blocked_def state_value_def Let_def
        split: option.splits)
qed

text \<open>A model whose catalogue price is zero is estimated at the configured default prices
  (zero is falsy), while its usage is then booked at zero: the reservation of a free model
  can be refused for a spend that would never be recorded.\<close>

theorem free_model_estimated_at_default:
  "estimate_cost cfg n_in n_out (Some 0) (Some 0) = estimate_cost cfg n_in n_out None None
    \<and> input_cost cfg n_in (Some 0) + output_cost cfg n_out (Some 0) = 0"
  by (simp add: estimate_cost_def input_cost_def output_cost_def)

text \<open>Reserving does not hold money: a run of reservations leaves the spend that the USD
  caps are checked against unchanged, so calls admitted before the first usage report
  are all checked against the same balance.\<close>

theorem reservations_hold_no_money:
  "usage_from_db now (cg_db (snd (serve reserve qs g))) = usage_from_db now (cg_db g)"
  by (simp add: usage_from_db_def)

end
