(* ===== verification/ProviderBudget.thy ===== *)
theory ProviderBudget
  imports CloudBudget
begin

text \<open>
  \<open>core/cloud_budget.py\<close>, second half: \<open>ProviderBudgetConfig\<close>,
  \<open>ProviderBudgetGate\<close> and \<open>MultiProviderBudgetGate\<close>. All gates of a process share
  one SQLite file, the record \<open>sqlite_file\<close>; a gate object is loaded from it before
  an operation and saved after. \<open>check_and_record\<close> reads the spend in one
  transaction and records in another, which the two phases here keep apart.
\<close>

section \<open>Configuration\<close>

definition upper_char :: "char \<Rightarrow> char" where
  "upper_char c = (let n = (of_char c :: nat) in
     if (97 \<le> n \<and> n \<le> 122) \<or> (224 \<le> n \<and> n \<le> 254 \<and> n \<noteq> 247) then char_of (n - 32) else c)"

definition PROVIDER_BUDGET_ENV_PREFIXES :: "(string \<times> string) list" where
  "PROVIDER_BUDGET_ENV_PREFIXES =
     [(''openrouter'', ''OPENROUTER_BUDGET''), (''anthropic'', ''ANTHROPIC_BUDGET''),
      (''google'', ''GOOGLE_BUDGET''), (''openai'', ''OPENAI_BUDGET'')]"

record provider_budget_config =
  pb_provider_id :: string
  pb_enabled :: bool
  pb_max_daily_usd :: rat
  pb_max_monthly_usd :: rat

definition provider_config_from_env :: "environ \<Rightarrow> string \<Rightarrow> provider_budget_config" where
  "provider_config_from_env env pid =
     (let prefix = (case map_of PROVIDER_BUDGET_ENV_PREFIXES pid of
          Some p \<Rightarrow> p | None \<Rightarrow> map upper_char pid @ ''_BUDGET'')
      in \<lparr>pb_provider_id = pid,
          pb_enabled = env_bool env (prefix @ ''_ENABLED'') False,
          pb_max_daily_usd = env_float env (prefix @ ''_MAX_DAILY_USD'') 0,
          pb_max_monthly_usd = env_float env (prefix @ ''_MAX_MONTHLY_USD'') 0\<rparr>)"

section \<open>The gate of one provider\<close>

record provider_gate =
  pg_provider_id :: string
  pg_config :: provider_budget_config
  pg_db :: budget_db
  pg_alerts :: alert_manager
  pg_costs :: cost_tracker

definition new_provider_gate :: "environ \<Rightarrow> string \<Rightarrow> provider_budget_config \<Rightarrow> budget_db \<Rightarrow> provider_gate" where
  "new_provider_gate env pid cfg db =
     \<lparr>pg_provider_id = pid, pg_config = cfg, pg_db = db,
      pg_alerts = new_alert_manager env False [], pg_costs = new_cost_tracker env False [] []\<rparr>"

definition provider_is_enabled :: "provider_budget_config \<Rightarrow> bool" where
  "provider_is_enabled cfg \<longleftrightarrow> pb_enabled cfg \<and> (pb_max_daily_usd cfg > 0 \<or> pb_max_monthly_usd cfg > 0)"

definition provider_day_usd :: "utc \<Rightarrow> string \<Rightarrow> budget_db \<Rightarrow> rat" where
  "provider_day_usd now p db = sum_where ur_total_cost_usd
     (\<lambda>u. ur_provider u = p \<and> ur_created_at u \<ge> day_start now) (bd_usage db)"

definition provider_month_usd :: "utc \<Rightarrow> string \<Rightarrow> budget_db \<Rightarrow> rat" where
  "provider_month_usd now p db = sum_where ur_total_cost_usd
     (\<lambda>u. ur_provider u = p \<and> ur_created_at u \<ge> month_start now) (bd_usage db)"

record provider_call =
  pc_session_id :: "string option"
  pc_input_tokens :: int
  pc_output_tokens :: int
  pc_input_price :: "rat option"
  pc_output_price :: "rat option"
  pc_model :: string
  pc_check_only :: bool

definition call_input_cost :: "provider_call \<Rightarrow> rat" where
  "call_input_cost c = of_int (pc_input_tokens c) * num_or (pc_input_price c) 3 / 1000000"

definition call_output_cost :: "provider_call \<Rightarrow> rat" where
  "call_output_cost c = of_int (pc_output_tokens c) * num_or (pc_output_price c) 15 / 1000000"

definition call_cost :: "provider_call \<Rightarrow> rat" where
  "call_cost c = call_input_cost c + call_output_cost c"

text \<open>The first transaction: the spend with this call added, against the caps.\<close>

datatype check_outcome = CheckDenied string | CheckPassed rat rat

definition provider_check :: "budget_env \<Rightarrow> provider_call \<Rightarrow> provider_gate \<Rightarrow> check_outcome" where
  "provider_check e c pg =
     (if be_io e ProvRead \<noteq> None \<or> \<not> bd_tables (pg_db pg) then CheckDenied ''provider_budget_check_failed''
      else let cfg = pg_config pg;
               day_usd = provider_day_usd (be_now e) (pg_provider_id pg) (pg_db pg) + call_cost c;
               month_usd = provider_month_usd (be_now e) (pg_provider_id pg) (pg_db pg) + call_cost c
        in if pb_max_daily_usd cfg > 0 \<and> day_usd > pb_max_daily_usd cfg
           then CheckDenied ''provider_daily_usd_cap_exhausted''
           else if pb_max_monthly_usd cfg > 0 \<and> month_usd > pb_max_monthly_usd cfg
           then CheckDenied ''provider_monthly_usd_cap_exhausted''
           else CheckPassed day_usd month_usd)"

text \<open>The second: the usage row, the alerts on the amounts read before, the session cost.\<close>

definition provider_record ::
  "budget_env \<Rightarrow> provider_call \<Rightarrow> rat \<Rightarrow> rat \<Rightarrow> provider_gate \<Rightarrow> decision \<times> provider_gate" where
  "provider_record e c day_usd month_usd pg =
     (if be_io e ProvInsert \<noteq> None \<or> \<not> bd_tables (pg_db pg) then (deny ''provider_budget_check_failed'', pg)
      else let cfg = pg_config pg; p = pg_provider_id pg; now = be_now e in
        (allow ''within_provider_budget'',
         pg\<lparr>pg_db := insert_usage (usage_of now (opt_str_or (pc_session_id c) ''provider_gate'') p (pc_model c)
               (pc_input_tokens c) (pc_output_tokens c) (call_input_cost c) (call_output_cost c)) (pg_db pg),
            pg_alerts := alert_both e p (pb_max_daily_usd cfg) day_usd (pb_max_monthly_usd cfg) month_usd (pg_alerts pg),
            pg_costs := record_cost (be_cost_io e) now
              (cost_call_of (opt_str_or (pc_session_id c) ''anonymous'') p (pc_model c)
                (pc_input_tokens c) (pc_output_tokens c) (call_input_cost c) (call_output_cost c)) (pg_costs pg)\<rparr>))"

definition check_and_record :: "budget_env \<times> provider_call \<Rightarrow> provider_gate \<Rightarrow> decision \<times> provider_gate" where
  "check_and_record r pg =
     (let e = fst r; c = snd r in
      if \<not> provider_is_enabled (pg_config pg) then (allow ''provider_budget_disabled'', pg)
      else case provider_check e c pg of
          CheckDenied why \<Rightarrow> (deny why, pg)
        | CheckPassed day_usd month_usd \<Rightarrow>
            if pc_check_only c then (allow ''within_provider_budget'', pg)
            else provider_record e c day_usd month_usd pg)"

record provider_snapshot =
  ps_provider_id :: string
  ps_enabled :: bool
  ps_max_daily_usd :: rat
  ps_max_monthly_usd :: rat
  ps_day_usd :: rat
  ps_month_usd :: rat
  ps_error :: "string option"

definition provider_snapshot_of :: "budget_env \<Rightarrow> provider_gate \<Rightarrow> provider_snapshot" where
  "provider_snapshot_of e pg =
     (let cfg = pg_config pg; p = pg_provider_id pg; now = be_now e;
          snap = (\<lambda>en d m err. \<lparr>ps_provider_id = p, ps_enabled = en, ps_max_daily_usd = pb_max_daily_usd cfg,
            ps_max_monthly_usd = pb_max_monthly_usd cfg, ps_day_usd = d, ps_month_usd = m, ps_error = err\<rparr>)
      in if \<not> provider_is_enabled cfg then snap False 0 0 None
         else if be_io e ProvSnapshot \<noteq> None \<or> \<not> bd_tables (pg_db pg) then snap True 0 0 (Some ''snapshot_failed'')
         else snap True (provider_day_usd now p (pg_db pg)) (provider_month_usd now p (pg_db pg)) None)"

section \<open>The shared database file\<close>

record sqlite_file =
  sf_budget :: budget_db
  sf_fired_table :: bool
  sf_fired :: "fired_row list"
  sf_cost_tables :: bool
  sf_events :: "cost_event list"
  sf_sent :: "sent_row list"

definition load_alerts :: "sqlite_file \<Rightarrow> alert_manager \<Rightarrow> alert_manager" where
  "load_alerts f m = m\<lparr>am_table := sf_fired_table f, am_fired := sf_fired f\<rparr>"

definition load_costs :: "sqlite_file \<Rightarrow> cost_tracker \<Rightarrow> cost_tracker" where
  "load_costs f t = t\<lparr>ct_tables := sf_cost_tables f, ct_events := sf_events f, ct_sent := sf_sent f\<rparr>"

definition file_of :: "budget_db \<Rightarrow> alert_manager \<Rightarrow> cost_tracker \<Rightarrow> sqlite_file" where
  "file_of db m t =
     \<lparr>sf_budget = db, sf_fired_table = am_table m, sf_fired = am_fired m,
      sf_cost_tables = ct_tables t, sf_events = ct_events t, sf_sent = ct_sent t\<rparr>"

definition load_cloud :: "sqlite_file \<Rightarrow> cloud_gate \<Rightarrow> cloud_gate" where
  "load_cloud f g = g\<lparr>cg_db := sf_budget f, cg_alerts := load_alerts f (cg_alerts g),
     cg_costs := load_costs f (cg_costs g)\<rparr>"

definition save_cloud :: "cloud_gate \<Rightarrow> sqlite_file" where
  "save_cloud g = file_of (cg_db g) (cg_alerts g) (cg_costs g)"

definition load_provider :: "sqlite_file \<Rightarrow> provider_gate \<Rightarrow> provider_gate" where
  "load_provider f pg = pg\<lparr>pg_db := sf_budget f, pg_alerts := load_alerts f (pg_alerts pg),
     pg_costs := load_costs f (pg_costs pg)\<rparr>"

definition save_provider :: "provider_gate \<Rightarrow> sqlite_file" where
  "save_provider pg = file_of (pg_db pg) (pg_alerts pg) (pg_costs pg)"

section \<open>The gate of all providers\<close>

text \<open>
  \<open>mg_global = None\<close> is a gate made without a global gate (the code then stores a
  configuration in its place, which no method treats as a gate). \<open>mg_gates\<close> and
  \<open>mg_headroom\<close> are Python dicts in insertion order.
\<close>

record multi_gate =
  mg_env :: environ
  mg_file :: sqlite_file
  mg_global :: "cloud_gate option"
  mg_gates :: "(string \<times> provider_gate) list"
  mg_headroom :: "(string \<times> rat) list"

definition new_multi_gate ::
  "environ \<Rightarrow> sqlite_file \<Rightarrow> cloud_gate option \<Rightarrow> (string \<times> provider_budget_config) list \<Rightarrow> multi_gate" where
  "new_multi_gate env f global cfgs =
     \<lparr>mg_env = env, mg_file = f, mg_global = global,
      mg_gates = map (\<lambda>(pid, cfg). (pid, new_provider_gate env pid cfg (sf_budget f))) cfgs, mg_headroom = []\<rparr>"

definition multi_from_env :: "environ \<Rightarrow> sqlite_file \<Rightarrow> cloud_gate option \<Rightarrow> multi_gate" where
  "multi_from_env env f global =
     new_multi_gate env f global
       (map (\<lambda>c. (pb_provider_id c, c)) (filter pb_enabled
         (map (provider_config_from_env env) [''openrouter'', ''anthropic'', ''google'', ''openai''])))"

definition multi_config :: "multi_gate \<Rightarrow> cloud_budget_config" where
  "multi_config m = (case mg_global m of Some g \<Rightarrow> cg_config g | None \<Rightarrow> default_cloud_config)"

datatype gate_ref = GlobalGate cloud_gate | ProviderGate provider_gate | FreshGate

definition gate_for :: "multi_gate \<Rightarrow> string option \<Rightarrow> gate_ref" where
  "gate_for m pid =
     (case (if opt_str_or pid '''' = '''' then None else dict_get (mg_gates m) (the pid)) of
        Some pg \<Rightarrow> ProviderGate pg
      | None \<Rightarrow> (case mg_global m of Some g \<Rightarrow> GlobalGate g | None \<Rightarrow> FreshGate))"

definition headroom :: "multi_gate \<Rightarrow> string \<Rightarrow> rat" where
  "headroom m pid = (case dict_get (mg_headroom m) pid of Some h \<Rightarrow> h | None \<Rightarrow> 1)"

definition headroom_of :: "provider_snapshot \<Rightarrow> rat" where
  "headroom_of s = (if ps_max_daily_usd s > 0 then max 0 (1 - ps_day_usd s / ps_max_daily_usd s) else 1)"

fun refresh_gates ::
  "budget_env \<Rightarrow> sqlite_file \<Rightarrow> (string \<times> provider_gate) list \<Rightarrow> (string \<times> rat) list \<Rightarrow> (string \<times> rat) list" where
  "refresh_gates e f [] cache = cache"
| "refresh_gates e f ((pid, pg) # rest) cache =
     refresh_gates e f rest (dict_set pid
       (if \<not> provider_is_enabled (pg_config pg) then 1
        else headroom_of (provider_snapshot_of e (load_provider f pg))) cache)"

definition refresh_headroom_cache :: "budget_env \<Rightarrow> multi_gate \<Rightarrow> multi_gate" where
  "refresh_headroom_cache e m = m\<lparr>mg_headroom := refresh_gates e (mg_file m) (mg_gates m) (mg_headroom m)\<rparr>"

text \<open>Run an operation of one provider gate on the shared file.\<close>

definition on_provider ::
  "string \<Rightarrow> provider_gate \<Rightarrow> (provider_gate \<Rightarrow> 'a \<times> provider_gate) \<Rightarrow> multi_gate \<Rightarrow> 'a \<times> multi_gate" where
  "on_provider pid pg act m =
     (case act (load_provider (mg_file m) pg) of
        (a, pg') \<Rightarrow> (a, m\<lparr>mg_gates := dict_set pid pg' (mg_gates m), mg_file := save_provider pg'\<rparr>))"

definition on_global ::
  "cloud_gate \<Rightarrow> (cloud_gate \<Rightarrow> 'a \<times> cloud_gate) \<Rightarrow> multi_gate \<Rightarrow> 'a \<times> multi_gate" where
  "on_global g act m =
     (case act (load_cloud (mg_file m) g) of
        (a, g') \<Rightarrow> (a, m\<lparr>mg_global := Some g', mg_file := save_cloud g'\<rparr>))"

record multi_usage =
  mu_session_id :: "string option"
  mu_provider :: string
  mu_model :: string
  mu_input_tokens :: "int option"
  mu_output_tokens :: "int option"
  mu_input_price :: "rat option"
  mu_output_price :: "rat option"
  mu_provider_id :: "string option"

text \<open>
  \<open>record_usage\<close>. The declared token counts are integers; a caller that passes
  \<open>None\<close> reaches the multiplication of an enabled gate, which raises.
\<close>

definition multi_record_usage :: "budget_env \<Rightarrow> multi_usage \<Rightarrow> multi_gate \<Rightarrow> multi_gate result" where
  "multi_record_usage e u m =
     (let key = opt_str_or (mu_provider_id u) (mu_provider u) in
      case dict_get (mg_gates m) key of
        None \<Rightarrow> Inr m
      | Some pg \<Rightarrow>
          if \<not> provider_is_enabled (pg_config pg) then Inr m
          else (case (mu_input_tokens u, mu_output_tokens u) of
              (Some n_in, Some n_out) \<Rightarrow>
                Inr (snd (on_provider key pg (check_and_record (e,
                  \<lparr>pc_session_id = mu_session_id u, pc_input_tokens = n_in, pc_output_tokens = n_out,
                   pc_input_price = mu_input_price u, pc_output_price = mu_output_price u,
                   pc_model = mu_model u, pc_check_only = False\<rparr>)) m))
            | _ \<Rightarrow> Inl (Raised ''TypeError'')))"

definition update_provider_budget :: "string \<Rightarrow> rat option \<Rightarrow> rat option \<Rightarrow> multi_gate \<Rightarrow> multi_gate" where
  "update_provider_budget pid daily monthly m =
     (case dict_get (mg_gates m) pid of
        Some pg \<Rightarrow>
          let cfg = pg_config pg;
              cfg1 = (case daily of Some d \<Rightarrow> cfg\<lparr>pb_max_daily_usd := d\<rparr> | None \<Rightarrow> cfg);
              cfg2 = (case monthly of Some d \<Rightarrow> cfg1\<lparr>pb_max_monthly_usd := d\<rparr> | None \<Rightarrow> cfg1)
          in m\<lparr>mg_gates := dict_set pid (pg\<lparr>pg_config := cfg2\<rparr>) (mg_gates m)\<rparr>
      | None \<Rightarrow>
          let cfg = \<lparr>pb_provider_id = pid, pb_enabled = True,
                     pb_max_daily_usd = num_or daily 0, pb_max_monthly_usd = num_or monthly 0\<rparr>
          in m\<lparr>mg_gates := dict_set pid (new_provider_gate (mg_env m) pid cfg (sf_budget (mg_file m))) (mg_gates m)\<rparr>)"

record multi_snapshot =
  ms_global :: "gate_snapshot option"
  ms_providers :: "(string \<times> provider_snapshot) list"

definition multi_snapshot_of :: "budget_env \<Rightarrow> multi_gate \<Rightarrow> multi_snapshot" where
  "multi_snapshot_of e m =
     \<lparr>ms_global = map_option (\<lambda>g. gate_snapshot_of e (load_cloud (mg_file m) g)) (mg_global m),
      ms_providers = map (\<lambda>(pid, pg). (pid, provider_snapshot_of e (load_provider (mg_file m) pg))) (mg_gates m)\<rparr>"

text \<open>Unlike the gate's own method, this one does not look at the enabled flag.\<close>

definition multi_clear_accounting_block :: "budget_env \<Rightarrow> multi_gate \<Rightarrow> decision \<times> multi_gate" where
  "multi_clear_accounting_block e m =
     (case mg_global m of
        None \<Rightarrow> (allow ''no_global_gate'', m)
      | Some g \<Rightarrow>
          (case be_io e BudClear of
             Some exc \<Rightarrow> (deny (''clear_failed: '' @ exc), m)
           | None \<Rightarrow>
               if \<not> bd_tables (sf_budget (mg_file m))
               then (deny ''clear_failed: no such table: cloud_budget_state'', m)
               else (allow ''accounting_block_cleared'',
                 m\<lparr>mg_file := (mg_file m)\<lparr>sf_budget :=
                     put_state ''last_accounting_error'' '''' (sf_budget (mg_file m))\<rparr>\<rparr>)))"

definition multi_init :: "budget_env \<Rightarrow> multi_gate \<Rightarrow> multi_gate" where
  "multi_init e m =
     (case mg_global m of None \<Rightarrow> m | Some g \<Rightarrow> snd (on_global g (\<lambda>g. ((), gate_init e g)) m))"

definition provider_config :: "multi_gate \<Rightarrow> string \<Rightarrow> provider_budget_config option" where
  "provider_config m pid = map_option pg_config (dict_get (mg_gates m) pid)"

text \<open>\<open>reserve\<close>: the global gate first, then the provider's gate as a check.\<close>

definition multi_reserve :: "reserve_request \<Rightarrow> string option \<Rightarrow> multi_gate \<Rightarrow> decision \<times> multi_gate" where
  "multi_reserve q pid m0 =
     (let m = multi_init (rq_env q) m0;
          (d, m1) = (case mg_global m of
              None \<Rightarrow> (allow ''within_budget'', m) | Some g \<Rightarrow> on_global g (reserve q) m)
      in if \<not> allowed d then (d, m1)
         else case (if opt_str_or pid '''' = '''' then None else dict_get (mg_gates m1) (the pid)) of
             None \<Rightarrow> (allow ''within_budget'', m1)
           | Some pg \<Rightarrow>
               let (d2, m2) = on_provider (the pid) pg (check_and_record (rq_env q,
                     \<lparr>pc_session_id = rq_session_id q, pc_input_tokens = rq_input_tokens q,
                      pc_output_tokens = rq_output_tokens q, pc_input_price = None, pc_output_price = None,
                      pc_model = ''unknown'', pc_check_only = True\<rparr>)) m1
               in if \<not> allowed d2 then (d2, m2) else (allow ''within_budget'', m2))"

section \<open>The books of one provider\<close>

text \<open>
  The spend booked for a provider in the period a window function maps to \<open>s\<close>: the
  day that starts at \<open>s\<close> for \<open>day_start\<close>, the month for \<open>month_start\<close>.
\<close>

definition booked :: "(utc \<Rightarrow> utc) \<Rightarrow> utc \<Rightarrow> string \<Rightarrow> budget_db \<Rightarrow> rat" where
  "booked w s p db = sum_where ur_total_cost_usd (\<lambda>u. ur_provider u = p \<and> w (ur_created_at u) = s) (bd_usage db)"

definition costs_nonneg :: "budget_db \<Rightarrow> bool" where
  "costs_nonneg db \<longleftrightarrow> (\<forall>u \<in> set (bd_usage db). 0 \<le> ur_total_cost_usd u)"

lemma insert_usage_fields [simp]:
  "bd_usage (insert_usage u db) = bd_usage db @ [u]" "bd_tables (insert_usage u db) = bd_tables db"
  "bd_counters (insert_usage u db) = bd_counters db" "bd_state (insert_usage u db) = bd_state db"
  by (simp_all add: insert_usage_def)

lemma usage_of_fields [simp]:
  "ur_total_cost_usd (usage_of now sid p m i j c_in c_out) = c_in + c_out"
  "ur_provider (usage_of now sid p m i j c_in c_out) = p"
  "ur_created_at (usage_of now sid p m i j c_in c_out) = now"
  by (simp_all add: usage_of_def)

lemma booked_insert:
  "booked w s p (insert_usage u db) =
   booked w s p db + (if ur_provider u = p \<and> w (ur_created_at u) = s then ur_total_cost_usd u else 0)"
  by (simp add: booked_def)

text \<open>The open window a check reads contains the whole period of its clock.\<close>

lemma booked_le_window:
  assumes "costs_nonneg db" and "\<And>t. w t \<le> t"
  shows "booked w (w now) p db \<le> sum_where ur_total_cost_usd (\<lambda>u. ur_provider u = p \<and> ur_created_at u \<ge> w now) (bd_usage db)"
  unfolding booked_def
proof (rule sum_where_mono)
  show "ur_provider x = p \<and> w (ur_created_at x) = w now \<Longrightarrow> ur_provider x = p \<and> w now \<le> ur_created_at x" for x
    using assms(2) [of "ur_created_at x"] by simp
qed (use assms(1) in \<open>simp add: costs_nonneg_def\<close>)

lemma provider_check_passedD:
  assumes "provider_check e c pg = CheckPassed d m"
  shows "d = provider_day_usd (be_now e) (pg_provider_id pg) (pg_db pg) + call_cost c"
    and "m = provider_month_usd (be_now e) (pg_provider_id pg) (pg_db pg) + call_cost c"
    and "0 < pb_max_daily_usd (pg_config pg) \<Longrightarrow> d \<le> pb_max_daily_usd (pg_config pg)"
    and "0 < pb_max_monthly_usd (pg_config pg) \<Longrightarrow> m \<le> pb_max_monthly_usd (pg_config pg)"
    and "bd_tables (pg_db pg)"
  using assms by (auto simp: provider_check_def Let_def not_less split: if_splits)

lemma provider_record_fields [simp]:
  "pg_config (snd (provider_record e c d m pg)) = pg_config pg"
  "pg_provider_id (snd (provider_record e c d m pg)) = pg_provider_id pg"
  by (simp_all add: provider_record_def Let_def)

lemma check_and_record_fields [simp]:
  "pg_config (snd (check_and_record r pg)) = pg_config pg"
  "pg_provider_id (snd (check_and_record r pg)) = pg_provider_id pg"
  by (simp_all add: check_and_record_def Let_def split: check_outcome.splits)

text \<open>Either nothing is booked, or the call's cost is, and it fitted both caps.\<close>

lemma check_and_record_cases:
  obtains (unchanged) "bd_usage (pg_db (snd (check_and_record r pg))) = bd_usage (pg_db pg)"
  | (books) u where "bd_usage (pg_db (snd (check_and_record r pg))) = bd_usage (pg_db pg) @ [u]"
      "ur_provider u = pg_provider_id pg" "ur_created_at u = be_now (fst r)" "ur_total_cost_usd u = call_cost (snd r)"
      "0 < pb_max_daily_usd (pg_config pg) \<longrightarrow>
         provider_day_usd (be_now (fst r)) (pg_provider_id pg) (pg_db pg) + call_cost (snd r) \<le> pb_max_daily_usd (pg_config pg)"
      "0 < pb_max_monthly_usd (pg_config pg) \<longrightarrow>
         provider_month_usd (be_now (fst r)) (pg_provider_id pg) (pg_db pg) + call_cost (snd r) \<le> pb_max_monthly_usd (pg_config pg)"
proof (cases "\<exists>d m. provider_check (fst r) (snd r) pg = CheckPassed d m \<and> provider_is_enabled (pg_config pg)
     \<and> \<not> pc_check_only (snd r) \<and> be_io (fst r) ProvInsert = None")
  case True
  then obtain d m where dm: "provider_check (fst r) (snd r) pg = CheckPassed d m" "provider_is_enabled (pg_config pg)"
     "\<not> pc_check_only (snd r)" "be_io (fst r) ProvInsert = None" by blast
  note P = provider_check_passedD [OF dm(1)]
  show thesis
    by (rule books [of "usage_of (be_now (fst r)) (opt_str_or (pc_session_id (snd r)) ''provider_gate'')
          (pg_provider_id pg) (pc_model (snd r)) (pc_input_tokens (snd r)) (pc_output_tokens (snd r))
          (call_input_cost (snd r)) (call_output_cost (snd r))"])
       (use P in \<open>auto simp: check_and_record_def provider_record_def dm Let_def call_cost_def\<close>)
next
  case False
  then show thesis
    by (intro unchanged) (auto simp: check_and_record_def provider_record_def Let_def split: check_outcome.splits)
qed

definition within_provider_caps :: "provider_gate \<Rightarrow> bool" where
  "within_provider_caps pg \<longleftrightarrow> costs_nonneg (pg_db pg) \<and>
     (0 < pb_max_daily_usd (pg_config pg) \<longrightarrow>
        (\<forall>s. booked day_start s (pg_provider_id pg) (pg_db pg) \<le> pb_max_daily_usd (pg_config pg))) \<and>
     (0 < pb_max_monthly_usd (pg_config pg) \<longrightarrow>
        (\<forall>s. booked month_start s (pg_provider_id pg) (pg_db pg) \<le> pb_max_monthly_usd (pg_config pg)))"

lemma booked_after:
  assumes "bd_usage db' = bd_usage db @ [u]" "costs_nonneg db" "\<And>t. w t \<le> t" "ur_provider u = p"
    and "sum_where ur_total_cost_usd (\<lambda>v. ur_provider v = p \<and> ur_created_at v \<ge> w (ur_created_at u)) (bd_usage db)
          + ur_total_cost_usd u \<le> cap"
    and "booked w s p db \<le> cap"
  shows "booked w s p db' \<le> cap"
proof (cases "w (ur_created_at u) = s")
  case True
  then show ?thesis
    using booked_le_window [OF assms(2), of w "ur_created_at u" p] assms by (simp add: booked_def)
qed (use assms in \<open>simp add: booked_def\<close>)

lemma check_and_record_within_caps:
  assumes "within_provider_caps pg" and "0 \<le> call_cost (snd r)"
  shows "within_provider_caps (snd (check_and_record r pg))"
proof (cases rule: check_and_record_cases [of r pg])
  case unchanged
  then show ?thesis using assms(1) by (simp add: within_provider_caps_def costs_nonneg_def booked_def)
next
  case (books u)
  have nn: "costs_nonneg (pg_db pg)" using assms(1) by (simp add: within_provider_caps_def)
  show ?thesis
    unfolding within_provider_caps_def check_and_record_fields
  proof (intro conjI impI allI)
    show "costs_nonneg (pg_db (snd (check_and_record r pg)))"
      using nn books assms(2) by (auto simp: costs_nonneg_def)
    show "booked day_start s (pg_provider_id pg) (pg_db (snd (check_and_record r pg))) \<le> pb_max_daily_usd (pg_config pg)"
      if "0 < pb_max_daily_usd (pg_config pg)" for s
      using that books assms(1)
      by (intro booked_after [OF books(1) nn _ books(2)]) (simp_all add: provider_day_usd_def within_provider_caps_def)
    show "booked month_start s (pg_provider_id pg) (pg_db (snd (check_and_record r pg))) \<le> pb_max_monthly_usd (pg_config pg)"
      if "0 < pb_max_monthly_usd (pg_config pg)" for s
      using that books assms(1)
      by (intro booked_after [OF books(1) nn _ books(2)]) (simp_all add: provider_month_usd_def within_provider_caps_def)
  qed
qed

lemma serve_check_and_record_caps:
  "within_provider_caps pg \<Longrightarrow> \<forall>r \<in> set rs. 0 \<le> call_cost (snd r)
   \<Longrightarrow> within_provider_caps (snd (serve check_and_record rs pg))"
  by (induction rs arbitrary: pg) (simp_all add: split_beta check_and_record_within_caps)

lemma serve_check_and_record_fields [simp]:
  "pg_config (snd (serve check_and_record rs pg)) = pg_config pg"
  "pg_provider_id (snd (serve check_and_record rs pg)) = pg_provider_id pg"
  by (induction rs arbitrary: pg) (simp_all add: split_beta)

lemma headroom_of_range: "0 \<le> ps_day_usd s \<Longrightarrow> 0 \<le> headroom_of s \<and> headroom_of s \<le> 1"
  by (simp add: headroom_of_def)

lemma provider_snapshot_nonneg: "costs_nonneg (pg_db pg) \<Longrightarrow> 0 \<le> ps_day_usd (provider_snapshot_of e pg)"
  by (auto simp: provider_snapshot_of_def Let_def provider_day_usd_def costs_nonneg_def intro!: sum_where_nonneg)

lemma load_provider_db [simp]: "pg_db (load_provider f pg) = sf_budget f"
  by (simp add: load_provider_def)

lemma refresh_gates_range:
  "costs_nonneg (sf_budget f) \<Longrightarrow>
   (\<forall>pid h. dict_get cache pid = Some h \<longrightarrow> 0 \<le> h \<and> h \<le> 1) \<Longrightarrow>
   dict_get (refresh_gates e f gs cache) pid = Some h \<Longrightarrow> 0 \<le> h \<and> h \<le> 1"
proof (induction e f gs cache rule: refresh_gates.induct)
  case (2 e f p pg rest cache)
  have "0 \<le> headroom_of (provider_snapshot_of e (load_provider f pg)) \<and>
        headroom_of (provider_snapshot_of e (load_provider f pg)) \<le> 1"
    using 2(2) by (intro headroom_of_range provider_snapshot_nonneg) simp
  then show ?case
    using 2(2-4) by (intro "2.IH") (auto simp: dict_kv.lookup_put split: if_splits)
qed simp

section \<open>Properties\<close>

definition sample_provider :: provider_gate where
  "sample_provider = new_provider_gate (\<lambda>_. None) ''anthropic''
     \<lparr>pb_provider_id = ''anthropic'', pb_enabled = True, pb_max_daily_usd = 10, pb_max_monthly_usd = 20\<rparr>
     (empty_db\<lparr>bd_tables := True\<rparr>)"

definition sample_call :: provider_call where
  "sample_call = \<lparr>pc_session_id = Some ''s'', pc_input_tokens = 2000000, pc_output_tokens = 0,
     pc_input_price = None, pc_output_price = None, pc_model = ''m'', pc_check_only = False\<rparr>"

lemma sample_provider_fields [simp]:
  "pg_provider_id sample_provider = ''anthropic''" "bd_usage (pg_db sample_provider) = []"
  "pb_max_daily_usd (pg_config sample_provider) = 10" "pb_max_monthly_usd (pg_config sample_provider) = 20"
  "provider_is_enabled (pg_config sample_provider)" "bd_tables (pg_db sample_provider)"
  by (simp_all add: sample_provider_def new_provider_gate_def empty_db_def provider_is_enabled_def)

lemma sample_call_cost [simp]: "call_cost sample_call = 6"
  by (simp add: sample_call_def call_cost_def call_input_cost_def call_output_cost_def)

text \<open>C25: checks and records of one provider that run one after the other never book more than
  its daily cap on any UTC day, nor more than its monthly cap in any month, whatever the
  clocks and faults of the calls.\<close>

theorem provider_spend_within_caps:
  assumes "within_provider_caps pg" and "\<forall>r \<in> set rs. 0 \<le> call_cost (snd r)"
  defines "pg' \<equiv> snd (serve check_and_record rs pg)"
  shows "(0 < pb_max_daily_usd (pg_config pg) \<longrightarrow>
        booked day_start s (pg_provider_id pg) (pg_db pg') \<le> pb_max_daily_usd (pg_config pg))
    \<and> (0 < pb_max_monthly_usd (pg_config pg) \<longrightarrow>
        booked month_start s (pg_provider_id pg) (pg_db pg') \<le> pb_max_monthly_usd (pg_config pg))"
  using serve_check_and_record_caps [OF assms(1,2)] unfolding pg'_def within_provider_caps_def by simp

theorem provider_spend_within_caps_witness:
  "booked day_start 0 ''anthropic'' (pg_db (snd (serve check_and_record
      [(calm 0, sample_call), (calm 1, sample_call), (calm 86400000000, sample_call)] sample_provider))) \<le> 10"
  using provider_spend_within_caps [of sample_provider
      "[(calm 0, sample_call), (calm 1, sample_call), (calm 86400000000, sample_call)]" 0]
  by (simp add: within_provider_caps_def costs_nonneg_def booked_def)

text \<open>The check and the record are separate transactions: two calls that both pass their
  check before either is recorded are both recorded, so a provider's day ends above its
  cap whenever the two costs together exceed what was left.\<close>

theorem interleaved_checks_overspend:
  assumes "provider_check e c pg = CheckPassed d m" and "pb_max_daily_usd (pg_config pg) < d + call_cost c"
    and "be_io e ProvInsert = None"
  shows "(let first = provider_record e c d m pg; second = provider_record e c d m (snd first) in
      allowed (fst first) \<and> allowed (fst second) \<and>
      pb_max_daily_usd (pg_config pg) < provider_day_usd (be_now e) (pg_provider_id pg) (pg_db (snd second)))"
  using provider_check_passedD [OF assms(1)] assms(2,3)
  by (simp add: provider_record_def Let_def provider_day_usd_def call_cost_def sum_where_Cons)

theorem interleaved_checks_overspend_witness:
  "10 < provider_day_usd 0 ''anthropic'' (pg_db (snd (provider_record (calm 0) sample_call 6 6
      (snd (provider_record (calm 0) sample_call 6 6 sample_provider)))))"
proof -
  have "provider_check (calm 0) sample_call sample_provider = CheckPassed 6 6"
    by (simp add: provider_check_def provider_day_usd_def provider_month_usd_def Let_def)
  from interleaved_checks_overspend [OF this] show ?thesis by (simp add: Let_def)
qed

text \<open>A call the provider's caps refuse is not booked at all, however much it cost: the gate
  and its database stay as they were, and the next call is checked against the old spend.
  Only calls that fit are ever counted.\<close>

theorem refused_call_not_booked:
  assumes "\<not> allowed (fst (check_and_record r pg))"
  shows "snd (check_and_record r pg) = pg"
  using assms by (auto simp: check_and_record_def provider_record_def Let_def split: check_outcome.splits if_splits)

theorem refused_call_not_booked_witness:
  "snd (check_and_record (calm 0, sample_call\<lparr>pc_output_tokens := 1000000\<rparr>) sample_provider) = sample_provider"
  by (rule refused_call_not_booked)
     (simp add: check_and_record_def provider_check_def provider_day_usd_def provider_month_usd_def Let_def
       sample_call_def call_cost_def call_input_cost_def call_output_cost_def)

lemma on_provider_counters:
  "bd_counters (sf_budget (mg_file (snd (on_provider pid pg (check_and_record r) m)))) = bd_counters (sf_budget (mg_file m))"
  by (auto simp: on_provider_def check_and_record_def provider_record_def save_provider_def file_of_def Let_def
      split: check_outcome.splits prod.splits)

lemma multi_init_counters [simp]:
  "bd_counters (sf_budget (mg_file (multi_init e m))) = bd_counters (sf_budget (mg_file m))"
  by (simp add: multi_init_def on_global_def save_cloud_def file_of_def load_cloud_def split: option.splits)

lemma gate_init_idem [simp]: "gate_init e (gate_init e g) = gate_init e g"
  by (auto simp: gate_init_def split: option.splits)

lemma reserve_gate_init: "allowed (fst (reserve q (gate_init (rq_env q) g))) = allowed (fst (reserve q g))"
  by (simp add: reserve_def reserve_sqlite_def Let_def split: option.split)

lemma fold_bump_tables [simp]:
  "bd_tables (fold (bump_counter now) ks db) = bd_tables db"
  "bd_usage (fold (bump_counter now) ks db) = bd_usage db"
  by (induction ks arbitrary: db) simp_all

lemma multi_reserve_refusal_state:
  assumes "mg_global (multi_init (rq_env q) m) = Some g" and "\<not> allowed (fst (multi_reserve q pid m))"
    and "on_global g (reserve q) (multi_init (rq_env q) m) = (d, m1)" and "allowed d"
  shows "bd_counters (sf_budget (mg_file (snd (multi_reserve q pid m)))) = bd_counters (sf_budget (mg_file m1))"
proof -
  have "mg_global m \<noteq> None" using assms(1) by (cases "mg_global m") (simp_all add: multi_init_def)
  then show ?thesis
    using assms on_provider_counters [of "the pid" _ _ m1]
    by (auto simp: multi_reserve_def Let_def split_beta split: option.splits if_splits)
qed

text \<open>A reservation that the global gate admits and the provider's gate then refuses has
  already used up a call of its session, its day and its month.\<close>

theorem provider_refusal_uses_up_calls:
  assumes "mg_global (multi_init (rq_env q) m) = Some g"
    and "allowed (fst (reserve q (load_cloud (mg_file (multi_init (rq_env q) m)) g)))"
    and "\<not> allowed (fst (multi_reserve q pid m))" and "k \<in> set (request_keys q)"
  shows "counter_value (sf_budget (mg_file (snd (multi_reserve q pid m)))) k =
    counter_value (sf_budget (mg_file m)) k + 1"
proof -
  let ?m = "multi_init (rq_env q) m"
  let ?r = "reserve q (load_cloud (mg_file ?m) g)"
  have on: "on_global g (reserve q) ?m = (fst ?r, ?m\<lparr>mg_global := Some (snd ?r), mg_file := save_cloud (snd ?r)\<rparr>)"
    by (simp add: on_global_def split_beta)
  have "counter_value (sf_budget (mg_file (snd (multi_reserve q pid m)))) k = counter_value (cg_db (snd ?r)) k"
    using multi_reserve_refusal_state [OF assms(1,3) on assms(2)]
    by (intro counter_value_cong) (simp add: save_cloud_def file_of_def)
  moreover have "counter_value (cg_db (load_cloud (mg_file ?m) g)) k = counter_value (sf_budget (mg_file m)) k"
    by (intro counter_value_cong) (simp add: load_cloud_def)
  ultimately show ?thesis
    using reserve_allowed_counter [OF assms(2), of k] assms(4) by simp
qed

definition empty_file :: sqlite_file where
  "empty_file = file_of empty_db (cg_alerts sample_gate) (cg_costs sample_gate)"

definition sample_multi :: multi_gate where
  "sample_multi = new_multi_gate (\<lambda>_. None) empty_file (Some sample_gate)
     [(''anthropic'', \<lparr>pb_provider_id = ''anthropic'', pb_enabled = True, pb_max_daily_usd = 1 / 1000,
        pb_max_monthly_usd = 0\<rparr>)]"

theorem provider_refusal_uses_up_calls_witness:
  "counter_value (sf_budget (mg_file (snd (multi_reserve (sample_request 0) (Some ''anthropic'') sample_multi))))
     (session_key (Some ''s'')) = 1"
proof -
  let ?q = "sample_request 0" and ?m = "multi_init (calm 0) sample_multi"
  let ?g = "gate_init (calm 0) sample_gate"
  have env: "rq_env ?q = calm 0" by (simp add: sample_request_def)
  have load: "load_cloud empty_file sample_gate = sample_gate"
    by (simp add: load_cloud_def empty_file_def file_of_def sample_gate_def new_cloud_gate_def load_alerts_def
        load_costs_def)
  have init: "?m = sample_multi\<lparr>mg_global := Some ?g, mg_file := save_cloud ?g\<rparr>"
    by (simp add: multi_init_def on_global_def load sample_multi_def new_multi_gate_def)
  have reload: "load_cloud (mg_file ?m) ?g = ?g"
    by (simp add: init load_cloud_def save_cloud_def file_of_def load_alerts_def load_costs_def)
  have g: "cg_store_ready ?g" "bd_tables (cg_db ?g)" "\<not> accounting_blocked (calm 0) ?g"
    using gate_init_tables [of "calm 0" sample_gate]
    by (simp_all add: sample_fields)
       (simp_all add: sample_gate_def new_cloud_gate_def accounting_blocked_def state_value_def state_lookup_def empty_db_def)
  have ok: "allowed (fst (reserve ?q ?g))"
    using sample_request_admitted reserve_gate_init [of ?q sample_gate] by (simp add: env)
  let ?r = "reserve ?q ?g"
  have r: "bd_tables (cg_db (snd ?r))" "bd_usage (cg_db (snd ?r)) = []"
    using reserve_allowedD(3) [OF ok] g by (simp_all add: env sample_fields)
  have on: "on_global ?g (reserve ?q) ?m = (fst ?r, ?m\<lparr>mg_global := Some (snd ?r), mg_file := save_cloud (snd ?r)\<rparr>)"
    by (simp add: on_global_def split_beta reload)
  have glob: "mg_global ?m = Some ?g" by (simp add: init)
  have gates: "mg_gates ?m = [(''anthropic'', new_provider_gate (\<lambda>_. None) ''anthropic''
      \<lparr>pb_provider_id = ''anthropic'', pb_enabled = True, pb_max_daily_usd = 1 / 1000, pb_max_monthly_usd = 0\<rparr> empty_db)]"
    unfolding init by (simp add: sample_multi_def new_multi_gate_def empty_file_def file_of_def)
  have q: "rq_session_id ?q = Some ''s''" "rq_input_tokens ?q = 1000" "rq_output_tokens ?q = 1000"
    by (simp_all add: sample_request_def)
  have "\<not> allowed (fst (multi_reserve ?q (Some ''anthropic'') sample_multi))"
    unfolding multi_reserve_def Let_def env
    by (simp add: glob on gates ok r q save_cloud_def file_of_def dict_get_def
        on_provider_def check_and_record_def provider_is_enabled_def new_provider_gate_def load_provider_def
        provider_check_def provider_day_usd_def call_cost_def call_input_cost_def call_output_cost_def
        sample_fields Let_def)
  then show ?thesis
    using provider_refusal_uses_up_calls [of ?q sample_multi ?g "Some ''anthropic''" "session_key (Some ''s'')"]
      ok reload
    by (simp add: env init request_keys_def) (simp add: sample_request_def sample_multi_def new_multi_gate_def
       empty_file_def file_of_def empty_db_def counter_value_def)
qed

text \<open>After a refresh the cached headroom of every provider is a share between 0 and 1, and
  it is 1 for a provider that has none.\<close>

theorem headroom_is_a_share:
  assumes "costs_nonneg (sf_budget (mg_file m))"
    and "\<forall>pid h. dict_get (mg_headroom m) pid = Some h \<longrightarrow> 0 \<le> h \<and> h \<le> 1"
  shows "0 \<le> headroom (refresh_headroom_cache e m) pid \<and> headroom (refresh_headroom_cache e m) pid \<le> 1"
  using refresh_gates_range [OF assms, of e "mg_gates m" pid]
  by (auto simp: headroom_def refresh_headroom_cache_def split: option.splits)

theorem headroom_is_a_share_witness:
  "headroom (refresh_headroom_cache (calm 0) sample_multi) ''anthropic'' \<le> 1"
  using headroom_is_a_share [of sample_multi "calm 0" "''anthropic''"]
  by (simp add: costs_nonneg_def sample_multi_def new_multi_gate_def empty_file_def file_of_def empty_db_def dict_get_def)

end
