(* ===== verification/Json.thy ===== *)
theory Json
  imports Prelude
begin

text \<open>
  The values \<open>json.loads\<close> and \<open>yaml.safe_load\<close> return, with the Python operations
  the code applies to them: truth, \<open>dict.get\<close>, \<open>str\<close>, \<open>int\<close>, \<open>float\<close>, iteration.
  A dictionary is a list of pairs with distinct string keys; parsing itself is
  third-party code and not modelled. \<open>repr\<close> of floats and containers, which
  \<open>str\<close> falls back to, is a parameter. ISO timestamps are read in the extended format.
\<close>

section \<open>Values\<close>

datatype json =
    JNull
  | JBool bool
  | JInt int
  | JFloat rat
  | JStr string
  | JList "json list"
  | JObj "(string \<times> json) list"

fun truthy :: "json \<Rightarrow> bool" where
  "truthy JNull = False"
| "truthy (JBool b) = b"
| "truthy (JInt n) = (n \<noteq> 0)"
| "truthy (JFloat x) = (x \<noteq> 0)"
| "truthy (JStr s) = (s \<noteq> [])"
| "truthy (JList xs) = (xs \<noteq> [])"
| "truthy (JObj kvs) = (kvs \<noteq> [])"

text \<open>\<open>x or d\<close>.\<close>

definition json_or :: "json \<Rightarrow> json \<Rightarrow> json" where
  "json_or x d = (if truthy x then x else d)"

text \<open>\<open>d.get(k)\<close> of a dictionary; any other value has no \<open>get\<close>.\<close>

fun json_get :: "string \<Rightarrow> json \<Rightarrow> json result" where
  "json_get k (JObj kvs) = Inr (case map_of kvs k of Some v \<Rightarrow> v | None \<Rightarrow> JNull)"
| "json_get k _ = Inl (Raised ''AttributeError'')"

fun is_obj :: "json \<Rightarrow> bool" where
  "is_obj (JObj kvs) = True"
| "is_obj _ = False"

definition bind_result :: "'a result \<Rightarrow> ('a \<Rightarrow> 'b result) \<Rightarrow> 'b result" where
  "bind_result r f = (case r of Inl e \<Rightarrow> Inl e | Inr x \<Rightarrow> f x)"

lemma bind_result_simps [simp]: "bind_result (Inl e) f = Inl e" "bind_result (Inr x) f = f x"
  by (simp_all add: bind_result_def)

fun map_result :: "('a \<Rightarrow> 'b result) \<Rightarrow> 'a list \<Rightarrow> 'b list result" where
  "map_result f [] = Inr []"
| "map_result f (x # xs) = bind_result (f x) (\<lambda>y. bind_result (map_result f xs) (\<lambda>ys. Inr (y # ys)))"

section \<open>Conversions\<close>

definition str_of_int :: "int \<Rightarrow> string" where
  "str_of_int n = (if n < 0 then ''-'' else '''') @ digits (nat \<bar>n\<bar>)"

fun json_str :: "(json \<Rightarrow> string) \<Rightarrow> json \<Rightarrow> string" where
  "json_str rep (JStr s) = s"
| "json_str rep JNull = ''None''"
| "json_str rep (JBool b) = (if b then ''True'' else ''False'')"
| "json_str rep (JInt n) = str_of_int n"
| "json_str rep j = rep j"

fun json_float :: "json \<Rightarrow> rat result" where
  "json_float (JBool b) = Inr (if b then 1 else 0)"
| "json_float (JInt n) = Inr (of_int n)"
| "json_float (JFloat x) = Inr x"
| "json_float (JStr s) = (case py_float s of Some x \<Rightarrow> Inr x | None \<Rightarrow> Inl (ValueError s))"
| "json_float _ = Inl (Raised ''TypeError'')"

fun json_int :: "json \<Rightarrow> int result" where
  "json_int (JBool b) = Inr (if b then 1 else 0)"
| "json_int (JInt n) = Inr n"
| "json_int (JFloat x) = Inr (py_trunc x)"
| "json_int (JStr s) = (case py_int s of Some n \<Rightarrow> Inr n | None \<Rightarrow> Inl (ValueError s))"
| "json_int _ = Inl (Raised ''TypeError'')"

text \<open>\<open>for x in v\<close>.\<close>

fun json_iter :: "json \<Rightarrow> json list result" where
  "json_iter (JList xs) = Inr xs"
| "json_iter (JStr s) = Inr (map (\<lambda>c. JStr [c]) s)"
| "json_iter (JObj kvs) = Inr (map (\<lambda>kv. JStr (fst kv)) kvs)"
| "json_iter _ = Inl (Raised ''TypeError'')"

section \<open>ISO timestamps\<close>

text \<open>Days since 1970-01-01 of a date, the inverse of \<open>civil\<close>.\<close>

definition days_from_civil :: "int \<Rightarrow> int \<Rightarrow> int \<Rightarrow> int" where
  "days_from_civil y m d =
     (let y1 = (if m \<le> 2 then y - 1 else y);
          era = y1 div 400;
          yoe = y1 mod 400;
          doy = (153 * (if m > 2 then m - 3 else m + 9) + 2) div 5 + d - 1;
          doe = yoe * 365 + yoe div 4 - yoe div 100 + doy
      in era * 146097 + doe - 719468)"

definition is_leap :: "int \<Rightarrow> bool" where
  "is_leap y \<longleftrightarrow> y mod 4 = 0 \<and> (y mod 100 \<noteq> 0 \<or> y mod 400 = 0)"

definition days_in_month :: "int \<Rightarrow> int \<Rightarrow> int" where
  "days_in_month y m =
     (if m = 2 then if is_leap y then 29 else 28 else if m \<in> {4, 6, 9, 11} then 30 else 31)"

definition num_of :: "nat \<Rightarrow> string \<Rightarrow> int option" where
  "num_of w s = (if length s = w \<and> list_all is_digit s
     then Some (foldl (\<lambda>a c. 10 * a + int (digit_val c)) 0 s) else None)"

definition read_date :: "string \<Rightarrow> int option" where
  "read_date s = (case (num_of 4 (take 4 s), num_of 2 (take 2 (drop 5 s)), num_of 2 (take 2 (drop 8 s))) of
       (Some y, Some m, Some d) \<Rightarrow>
         if take 1 (drop 4 s) = ''-'' \<and> take 1 (drop 7 s) = ''-'' \<and> 1 \<le> y \<and> 1 \<le> m \<and> m \<le> 12
            \<and> 1 \<le> d \<and> d \<le> days_in_month y m
         then Some (days_from_civil y m d * day_us) else None
     | _ \<Rightarrow> None)"

text \<open>\<open>HH[:MM[:SS[.fraction]]]\<close> in microseconds.\<close>

definition read_clock :: "string \<Rightarrow> int option" where
  "read_clock s =
     (let field = (\<lambda>i hi. case num_of 2 (take 2 (drop i s)) of
            Some n \<Rightarrow> if n < hi then Some n else None | None \<Rightarrow> None);
          sep = (\<lambda>i c. take 1 (drop i s) = [c]);
          frac = drop 9 s;
          us = (\<lambda>h m t f. Some (h * 3600000000 + m * 60000000 + t * 1000000 + f))
      in case field 0 24 of
           None \<Rightarrow> None
         | Some h \<Rightarrow>
             if length s = 2 then us h 0 0 0
             else case field 3 60 of
               None \<Rightarrow> None
             | Some m \<Rightarrow>
                 if \<not> sep 2 (CHR '':'') then None
                 else if length s = 5 then us h m 0 0
                 else case field 6 60 of
                   None \<Rightarrow> None
                 | Some t \<Rightarrow>
                     if \<not> sep 5 (CHR '':'') then None
                     else if length s = 8 then us h m t 0
                     else if \<not> (sep 8 (CHR ''.'') \<or> sep 8 (CHR '','')) then None
                     else if frac \<noteq> [] \<and> list_all is_digit frac then
                       (case num_of 6 (take 6 (frac @ ''00000'')) of Some f \<Rightarrow> us h m t f | None \<Rightarrow> None)
                     else None)"

text \<open>
  \<open>datetime.fromisoformat\<close>: the wall clock in microseconds and the UTC offset, if the
  text has one; \<open>None\<close> is the \<open>ValueError\<close>.
\<close>

definition is_sign :: "char \<Rightarrow> bool" where
  "is_sign c \<longleftrightarrow> c = CHR ''+'' \<or> c = CHR ''-''"

definition fromisoformat :: "string \<Rightarrow> (int \<times> int option) option" where
  "fromisoformat s =
     (case read_date s of
        None \<Rightarrow> None
      | Some day \<Rightarrow>
          if length s = 10 then Some (day, None)
          else let rest = drop 11 s;
                   clock = takeWhile (\<lambda>c. \<not> is_sign c \<and> c \<noteq> CHR ''Z'') rest;
                   zone = dropWhile (\<lambda>c. \<not> is_sign c \<and> c \<noteq> CHR ''Z'') rest
               in case read_clock clock of
                    None \<Rightarrow> None
                  | Some t \<Rightarrow>
                      (case zone of
                         [] \<Rightarrow> Some (day + t, None)
                       | c # z \<Rightarrow>
                           if c = CHR ''Z'' then if z = [] then Some (day + t, Some 0) else None
                           else case read_clock z of
                               None \<Rightarrow> None
                             | Some off \<Rightarrow> Some (day + t, Some (if c = CHR ''-'' then - off else off))))"

text \<open>A naive timestamp is read as UTC.\<close>

definition utc_of :: "int \<times> int option \<Rightarrow> utc" where
  "utc_of p = fst p - (case snd p of Some off \<Rightarrow> off | None \<Rightarrow> 0)"

lemma json_or_truthy [simp]: "truthy x \<Longrightarrow> json_or x d = x" "\<not> truthy x \<Longrightarrow> json_or x d = d"
  by (simp_all add: json_or_def)

lemma json_get_obj: "is_obj j \<Longrightarrow> \<exists>v. json_get k j = Inr v"
  by (cases j) simp_all

end
