(* ===== verification/ModelCatalog.thy ===== *)
theory ModelCatalog
  imports Json
begin

text \<open>
  \<open>core/model_catalog.py\<close>: the facts about models (\<open>CatalogModel\<close>), parsing of the
  published catalogue, the disk cache with its two ages, and the order
  cache - network - stale cache - pinned models in which a catalogue is found.
\<close>

section \<open>One model\<close>

record catalog_model =
  cm_id :: string
  cm_name :: string
  cm_context_length :: int
  cm_prompt_price :: rat
  cm_completion_price :: rat
  cm_cache_read_price :: "rat option"
  cm_supported_parameters :: "string list"
  cm_intelligence_index :: "rat option"
  cm_coding_index :: "rat option"
  cm_agentic_index :: "rat option"
  cm_expiration_date :: string

definition ROUTER_PSEUDO_MODELS :: "string list" where
  "ROUTER_PSEUDO_MODELS = [''openrouter/auto'', ''openrouter/auto-beta'', ''openrouter/free'']"

definition suffixes :: "catalog_model \<Rightarrow> string list" where
  "suffixes m = tl (split_on (CHR '':'') (lower (cm_id m)))"

definition is_free_tier :: "catalog_model \<Rightarrow> bool" where
  "is_free_tier m \<longleftrightarrow> list_ex (\<lambda>s. s = ''free'' \<or> s = ''free-tier'') (suffixes m)"

definition is_batch_tier :: "catalog_model \<Rightarrow> bool" where
  "is_batch_tier m \<longleftrightarrow> list_ex (\<lambda>s. s = ''batch'') (suffixes m)"

definition is_router_pseudo_model :: "catalog_model \<Rightarrow> bool" where
  "is_router_pseudo_model m \<longleftrightarrow> hd (split_on (CHR '':'') (lower (cm_id m))) \<in> set ROUTER_PSEUDO_MODELS"

definition is_preview :: "catalog_model \<Rightarrow> bool" where
  "is_preview m \<longleftrightarrow> list_ex (\<lambda>marker. contains marker (lower (cm_id m)))
     [''-preview'', ''-exp'', '':alpha'', '':beta'', ''-experimental'']"

definition supports :: "catalog_model \<Rightarrow> string \<Rightarrow> bool" where
  "supports m p \<longleftrightarrow> p \<in> set (cm_supported_parameters m)"

definition cost_per_turn :: "catalog_model \<Rightarrow> int \<Rightarrow> int \<Rightarrow> int \<Rightarrow> rat" where
  "cost_per_turn m n_in n_out cached =
     (let fresh = max 0 (n_in - cached);
          base = of_int fresh * cm_prompt_price m + of_int n_out * cm_completion_price m
      in if cached \<noteq> 0
         then base + of_int cached * (case cm_cache_read_price m of Some r \<Rightarrow> r | None \<Rightarrow> cm_prompt_price m)
         else base)"

section \<open>Parsing\<close>

definition as_float :: "json \<Rightarrow> rat" where
  "as_float v = (case json_float v of Inr x \<Rightarrow> x | Inl e \<Rightarrow> 0)"

definition optional_float :: "json \<Rightarrow> rat option" where
  "optional_float v = (case json_float v of Inr x \<Rightarrow> Some x | Inl e \<Rightarrow> None)"

text \<open>
  \<open>parse_model\<close> of a dictionary. \<open>Inr None\<close> is an entry without an id. A field of
  the wrong shape raises.
\<close>

definition parse_model :: "(json \<Rightarrow> string) \<Rightarrow> json \<Rightarrow> catalog_model option result" where
  "parse_model rep payload =
     bind_result (json_get ''id'' payload) (\<lambda>idv.
     let mid = strip (json_str rep (json_or idv (JStr ''''))) in
     if mid = [] then Inr None else
     bind_result (json_get ''pricing'' payload) (\<lambda>pv. let pricing = json_or pv (JObj []) in
     bind_result (json_get ''benchmarks'' payload) (\<lambda>bv.
     bind_result (json_get ''artificial_analysis'' (json_or bv (JObj []))) (\<lambda>av.
     let bench = json_or av (JObj []) in
     bind_result (json_get ''supported_parameters'' payload) (\<lambda>sv.
     bind_result (json_get ''name'' payload) (\<lambda>nv.
     bind_result (json_get ''context_length'' payload) (\<lambda>cv.
     bind_result (json_int (json_or cv (JInt 0))) (\<lambda>ctx.
     bind_result (json_get ''prompt'' pricing) (\<lambda>pp.
     bind_result (json_get ''completion'' pricing) (\<lambda>cp.
     bind_result (json_get ''input_cache_read'' pricing) (\<lambda>rp.
     bind_result (json_iter (json_or sv (JList []))) (\<lambda>params.
     bind_result (json_get ''intelligence_index'' bench) (\<lambda>ii.
     bind_result (json_get ''coding_index'' bench) (\<lambda>ci.
     bind_result (json_get ''agentic_index'' bench) (\<lambda>ai.
     bind_result (json_get ''expiration_date'' payload) (\<lambda>ev.
     Inr (Some \<lparr>cm_id = mid, cm_name = json_str rep (json_or nv (JStr mid)), cm_context_length = ctx,
       cm_prompt_price = as_float pp, cm_completion_price = as_float cp,
       cm_cache_read_price = optional_float rp, cm_supported_parameters = map (json_str rep) params,
       cm_intelligence_index = optional_float ii, cm_coding_index = optional_float ci,
       cm_agentic_index = optional_float ai,
       cm_expiration_date = json_str rep (json_or ev (JStr ''''))\<rparr>)))))))))))))))))"

fun parse_entries :: "(json \<Rightarrow> string) \<Rightarrow> json list \<Rightarrow> catalog_model list result" where
  "parse_entries rep [] = Inr []"
| "parse_entries rep (e # es) =
     (if is_obj e then
        bind_result (parse_model rep e) (\<lambda>parsed.
        bind_result (parse_entries rep es) (\<lambda>ms.
          Inr (case parsed of None \<Rightarrow> ms | Some m \<Rightarrow> m # ms)))
      else parse_entries rep es)"

definition parse_catalog :: "(json \<Rightarrow> string) \<Rightarrow> json \<Rightarrow> catalog_model list result" where
  "parse_catalog rep raw =
     (let entries = (case raw of
          JObj kvs \<Rightarrow> (case map_of kvs ''data'' of Some v \<Rightarrow> v | None \<Rightarrow> JList [])
        | _ \<Rightarrow> raw)
      in bind_result (json_iter (json_or entries (JList []))) (parse_entries rep))"

section \<open>The pinned models\<close>

definition pinned :: "string \<Rightarrow> string \<Rightarrow> int \<Rightarrow> rat \<Rightarrow> rat \<Rightarrow> rat \<Rightarrow> rat \<Rightarrow> rat \<Rightarrow> rat \<Rightarrow> catalog_model" where
  "pinned mid name ctx pin pout pcache ii ci ai =
     \<lparr>cm_id = mid, cm_name = name, cm_context_length = ctx,
      cm_prompt_price = pin / 1000000, cm_completion_price = pout / 1000000,
      cm_cache_read_price = Some (pcache / 1000000),
      cm_supported_parameters = [''tools'', ''tool_choice'', ''structured_outputs'', ''reasoning''],
      cm_intelligence_index = Some ii, cm_coding_index = Some ci, cm_agentic_index = Some ai,
      cm_expiration_date = ''''\<rparr>"

definition PINNED_FALLBACK :: "catalog_model list" where
  "PINNED_FALLBACK =
     [pinned ''anthropic/claude-haiku-4.5'' ''Claude Haiku 4.5 (pinned fallback)'' 200000
        1 5 (1/10) (296/10) (439/10) (164/10),
      pinned ''anthropic/claude-sonnet-4.6'' ''Claude Sonnet 4.6 (pinned fallback)'' 1000000
        3 15 (3/10) (472/10) 63 (408/10),
      pinned ''anthropic/claude-opus-5'' ''Claude Opus 5 (pinned fallback)'' 1000000
        5 25 (1/2) (607/10) 78 (553/10)]"

section \<open>The disk cache\<close>

text \<open>
  The cache file: missing, unreadable (an \<open>OSError\<close> or text that is not JSON, which
  is a \<open>ValueError\<close>), or its parsed content. \<open>now\<close> is \<open>time.time()\<close>, in seconds.
\<close>

datatype cache_file = CacheMissing | CacheUnreadable | CacheContent json

definition DEFAULT_TTL_SECONDS :: rat where
  "DEFAULT_TTL_SECONDS = 24 * 60 * 60"

definition HARD_MAX_AGE_SECONDS :: rat where
  "HARD_MAX_AGE_SECONDS = 72 * 60 * 60"

text \<open>\<open>Inr None\<close> is an infinite age.\<close>

definition cache_age_seconds :: "rat \<Rightarrow> cache_file \<Rightarrow> rat option result" where
  "cache_age_seconds now f =
     (case f of
        CacheContent payload \<Rightarrow>
          (case json_get ''fetched_at'' payload of
             Inl e \<Rightarrow> Inl e
           | Inr v \<Rightarrow>
               (case json_float v of
                  Inl e \<Rightarrow> Inr None
                | Inr t \<Rightarrow> if t \<le> 0 then Inr None else Inr (Some (max 0 (now - t)))))
      | _ \<Rightarrow> Inr None)"

definition older_than :: "rat option \<Rightarrow> rat \<Rightarrow> bool" where
  "older_than age limit = (case age of None \<Rightarrow> True | Some a \<Rightarrow> a > limit)"

text \<open>Only \<open>OSError\<close> and \<open>ValueError\<close> are caught.\<close>

definition catch_value_error :: "'a option result \<Rightarrow> 'a option result" where
  "catch_value_error r = (case r of Inl (ValueError s) \<Rightarrow> Inr None | _ \<Rightarrow> r)"

definition read_cache :: "(json \<Rightarrow> string) \<Rightarrow> rat \<Rightarrow> cache_file \<Rightarrow> rat \<Rightarrow> catalog_model list option result" where
  "read_cache rep now f ttl =
     (case f of
        CacheMissing \<Rightarrow> Inr None
      | _ \<Rightarrow> catch_value_error
          (bind_result (cache_age_seconds now f) (\<lambda>age.
             if older_than age ttl then Inr None
             else case f of
                 CacheContent payload \<Rightarrow>
                   bind_result (json_get ''catalog'' payload) (\<lambda>c.
                   bind_result (parse_catalog rep (json_or c (JObj []))) (\<lambda>ms.
                   Inr (if ms = [] then None else Some ms)))
               | _ \<Rightarrow> Inr None)))"

definition read_cache_within_hard_cap ::
  "(json \<Rightarrow> string) \<Rightarrow> rat \<Rightarrow> cache_file \<Rightarrow> catalog_model list option result" where
  "read_cache_within_hard_cap rep now f =
     (if f = CacheMissing then Inr None
      else bind_result (cache_age_seconds now f) (\<lambda>age.
        if older_than age HARD_MAX_AGE_SECONDS then Inr None
        else read_cache rep now f HARD_MAX_AGE_SECONDS))"

definition load_cached_catalog_sync ::
  "(json \<Rightarrow> string) \<Rightarrow> rat \<Rightarrow> cache_file \<Rightarrow> rat \<Rightarrow> bool \<Rightarrow> catalog_model list result" where
  "load_cached_catalog_sync rep now f ttl allow_stale =
     bind_result (read_cache rep now f ttl) (\<lambda>fresh.
       case fresh of
         Some ms \<Rightarrow> Inr ms
       | None \<Rightarrow>
           if allow_stale then
             bind_result (read_cache_within_hard_cap rep now f) (\<lambda>stale.
               case stale of Some ms \<Rightarrow> Inr ms | None \<Rightarrow> Inr PINNED_FALLBACK)
           else Inr PINNED_FALLBACK)"

text \<open>
  \<open>fetch_catalog\<close>. The HTTP exchange is a parameter: \<open>None\<close> when it raises, the
  decoded body otherwise. The result comes with the cache file left behind; a failed
  write is logged only.
\<close>

record fetch_env =
  fe_now :: rat
  fe_response :: "json option"
  fe_write_ok :: bool

definition fetch_catalog ::
  "(json \<Rightarrow> string) \<Rightarrow> fetch_env \<Rightarrow> bool \<Rightarrow> rat \<Rightarrow> cache_file \<Rightarrow> catalog_model list result \<times> cache_file" where
  "fetch_catalog rep e force ttl f =
     (let cached = (if force then Inr None else read_cache rep (fe_now e) f ttl);
          degrade = bind_result (read_cache_within_hard_cap rep (fe_now e) f) (\<lambda>stale.
            case stale of Some ms \<Rightarrow> Inr ms | None \<Rightarrow> Inr PINNED_FALLBACK)
      in case cached of
           Inl err \<Rightarrow> (Inl err, f)
         | Inr (Some ms) \<Rightarrow> (Inr ms, f)
         | Inr None \<Rightarrow>
             (case fe_response e of
                None \<Rightarrow> (degrade, f)
              | Some raw \<Rightarrow>
                  (case parse_catalog rep raw of
                     Inr ms \<Rightarrow>
                       if ms = [] then (degrade, f)
                       else (Inr ms, if fe_write_ok e
                          then CacheContent (JObj [(''fetched_at'', JFloat (fe_now e)), (''catalog'', raw)]) else f)
                   | Inl err \<Rightarrow> (degrade, f))))"

section \<open>Lemmas\<close>

lemma catch_value_error_Some: "catch_value_error r = Inr (Some x) \<longleftrightarrow> r = Inr (Some x)"
  by (auto simp: catch_value_error_def split: sum.splits py_error.splits)

lemma bind_result_Inr: "bind_result r f = Inr y \<longleftrightarrow> (\<exists>x. r = Inr x \<and> f x = Inr y)"
  by (cases r) auto

text \<open>What a catalogue read from the cache says about the file.\<close>

lemma read_cacheD:
  assumes "read_cache rep now f ttl = Inr (Some ms)"
  shows "\<exists>payload age c. f = CacheContent payload \<and> cache_age_seconds now f = Inr (Some age) \<and> age \<le> ttl
    \<and> json_get ''catalog'' payload = Inr c \<and> parse_catalog rep (json_or c (JObj [])) = Inr ms \<and> ms \<noteq> []"
  using assms
  by (cases f)
     (auto simp: read_cache_def catch_value_error_Some bind_result_Inr older_than_def split: option.splits if_splits)

lemma read_cache_hardD:
  assumes "read_cache_within_hard_cap rep now f = Inr (Some ms)"
  shows "read_cache rep now f HARD_MAX_AGE_SECONDS = Inr (Some ms)"
  using assms by (auto simp: read_cache_within_hard_cap_def bind_result_Inr split: if_splits)

lemma parse_model_id: "parse_model rep p = Inr (Some m) \<Longrightarrow> cm_id m \<noteq> [] \<and> strip (cm_id m) = cm_id m"
  by (auto simp: parse_model_def bind_result_Inr Let_def split: if_splits)

lemma parse_entries_ids:
  "parse_entries rep es = Inr ms \<Longrightarrow> m \<in> set ms \<Longrightarrow> cm_id m \<noteq> [] \<and> strip (cm_id m) = cm_id m"
proof (induction es arbitrary: ms)
  case (Cons e es)
  show ?case
  proof (cases "is_obj e")
    case True
    with Cons.prems(1) obtain parsed rest where "parse_model rep e = Inr parsed" "parse_entries rep es = Inr rest"
      "ms = (case parsed of None \<Rightarrow> rest | Some x \<Rightarrow> x # rest)"
      by (auto simp: bind_result_Inr)
    then show ?thesis
      using Cons.IH [of rest] Cons.prems(2) parse_model_id [of rep e] by (cases parsed) auto
  qed (use Cons in simp)
qed simp

lemma PINNED_FALLBACK_nonempty [simp]: "PINNED_FALLBACK \<noteq> []"
  by (simp add: PINNED_FALLBACK_def)

section \<open>Properties\<close>

text \<open>Route ordering never ranks on a catalogue past the hard age cap: what the
  synchronous reader returns is the pinned models, or a non-empty catalogue from a cache
  file that carries a time stamp and is at most 72 hours old.\<close>

theorem sync_catalog_never_ancient:
  assumes "load_cached_catalog_sync rep now f ttl stale = Inr ms" and "ttl \<le> HARD_MAX_AGE_SECONDS"
  shows "ms = PINNED_FALLBACK \<or>
    (\<exists>payload age. f = CacheContent payload \<and> cache_age_seconds now f = Inr (Some age)
       \<and> age \<le> HARD_MAX_AGE_SECONDS \<and> ms \<noteq> [])"
proof -
  have "ms = PINNED_FALLBACK \<or> read_cache rep now f ttl = Inr (Some ms)
      \<or> read_cache rep now f HARD_MAX_AGE_SECONDS = Inr (Some ms)"
    using assms(1)
    by (auto simp: load_cached_catalog_sync_def bind_result_Inr read_cache_hardD split: option.splits if_splits)
  then show ?thesis
    using read_cacheD [of rep now f _ ms] assms(2) by (metis order_trans)
qed

definition sample_entry :: json where
  "sample_entry = JObj [(''id'', JStr '' m1 ''), (''context_length'', JInt 8000),
     (''pricing'', JObj [(''prompt'', JStr ''0.5''), (''completion'', JFloat 1)])]"

definition sample_cache :: "rat \<Rightarrow> cache_file" where
  "sample_cache t = CacheContent (JObj [(''fetched_at'', JFloat t), (''catalog'', JObj [(''data'', JList [sample_entry])])])"

lemma sample_cache_old: "load_cached_catalog_sync (\<lambda>_. '''') 300000 (sample_cache 1000) DEFAULT_TTL_SECONDS True = Inr PINNED_FALLBACK"
  by (simp add: load_cached_catalog_sync_def read_cache_def read_cache_within_hard_cap_def sample_cache_def
      cache_age_seconds_def older_than_def catch_value_error_def DEFAULT_TTL_SECONDS_def HARD_MAX_AGE_SECONDS_def)

theorem sync_catalog_never_ancient_witness:
  "\<exists>ms. load_cached_catalog_sync (\<lambda>_. '''') 300000 (sample_cache 1000) DEFAULT_TTL_SECONDS True = Inr ms \<and>
     (ms = PINNED_FALLBACK \<or> ms \<noteq> [])"
  using sync_catalog_never_ancient [OF sample_cache_old] sample_cache_old
  by (auto simp: DEFAULT_TTL_SECONDS_def HARD_MAX_AGE_SECONDS_def)

text \<open>What a successful fetch writes is what the synchronous reader returns for as long as
  the time to live lasts.\<close>

theorem fetched_catalog_is_read_back:
  assumes "fe_response e = Some raw" and "parse_catalog rep raw = Inr ms" and "ms \<noteq> []" and "truthy raw"
    and "fe_write_ok e" and "0 < fe_now e" and "fe_now e \<le> later" and "later - fe_now e \<le> ttl"
  shows "fst (fetch_catalog rep e True ttl0 f) = Inr ms
    \<and> load_cached_catalog_sync rep later (snd (fetch_catalog rep e True ttl0 f)) ttl stale = Inr ms"
  using assms
  by (simp add: fetch_catalog_def load_cached_catalog_sync_def read_cache_def cache_age_seconds_def
      older_than_def catch_value_error_def Let_def)

lemma sample_entry_parse:
  "parse_catalog (\<lambda>_. '''') (JList [sample_entry]) = Inr [\<lparr>cm_id = ''m1'', cm_name = ''m1'', cm_context_length = 8000,
     cm_prompt_price = 1 / 2, cm_completion_price = 1, cm_cache_read_price = None, cm_supported_parameters = [],
     cm_intelligence_index = None, cm_coding_index = None, cm_agentic_index = None, cm_expiration_date = ''''\<rparr>]"
  by code_simp

theorem fetched_catalog_is_read_back_witness:
  "map_sum id (map cm_id) (load_cached_catalog_sync (\<lambda>_. '''') 2000
     (snd (fetch_catalog (\<lambda>_. '''') \<lparr>fe_now = 1000, fe_response = Some (JList [sample_entry]), fe_write_ok = True\<rparr>
        True 5 CacheMissing)) DEFAULT_TTL_SECONDS True) = Inr [''m1'']"
proof -
  note r = fetched_catalog_is_read_back [OF _ sample_entry_parse, where later = 2000 and ttl = DEFAULT_TTL_SECONDS
      and ttl0 = 5 and f = CacheMissing and stale = True
      and e = "\<lparr>fe_now = 1000, fe_response = Some (JList [sample_entry]), fe_write_ok = True\<rparr>"]
  show ?thesis using r by (simp add: DEFAULT_TTL_SECONDS_def)
qed

text \<open>A cache file whose JSON is a list instead of an object is not degraded past: the
  synchronous reader raises, and so does a fetch that falls back to it, whatever the
  network answers when the cache is consulted first.\<close>

theorem list_shaped_cache_raises:
  "load_cached_catalog_sync rep now (CacheContent (JList xs)) ttl stale = Inl (Raised ''AttributeError'')
    \<and> fst (fetch_catalog rep e False ttl (CacheContent (JList xs))) = Inl (Raised ''AttributeError'')
    \<and> fst (fetch_catalog rep (e\<lparr>fe_response := None\<rparr>) True ttl (CacheContent (JList xs))) = Inl (Raised ''AttributeError'')"
  by (simp add: load_cached_catalog_sync_def fetch_catalog_def read_cache_def read_cache_within_hard_cap_def
      cache_age_seconds_def catch_value_error_def Let_def)

text \<open>Every model of a parsed catalogue has a non-empty id without surrounding blanks.\<close>

theorem parsed_ids_usable:
  assumes "parse_catalog rep raw = Inr ms" and "m \<in> set ms"
  shows "cm_id m \<noteq> [] \<and> strip (cm_id m) = cm_id m"
  using assms parse_entries_ids [of rep _ ms m] by (auto simp: parse_catalog_def bind_result_Inr Let_def)

theorem parsed_ids_usable_witness: "strip ''m1'' = ''m1''"
proof -
  have "strip (cm_id m) = cm_id m" if "m \<in> set [\<lparr>cm_id = ''m1'', cm_name = ''m1'', cm_context_length = 8000,
     cm_prompt_price = 1 / 2, cm_completion_price = 1, cm_cache_read_price = None, cm_supported_parameters = [],
     cm_intelligence_index = None, cm_coding_index = None, cm_agentic_index = None, cm_expiration_date = ''''\<rparr>]" for m :: catalog_model
    using parsed_ids_usable [OF sample_entry_parse that] by simp
  then show ?thesis by simp
qed

end
