(* ===== verification/ModelLanes.thy ===== *)
theory ModelLanes
  imports ModelCatalog Tables
begin

text \<open>
  \<open>core/model_lanes.py\<close>: the \<open>Lane\<close> record, the default lanes and the loading of a
  deployment's \<open>lanes.yaml\<close>. Pydantic's validation of a lane record is third-party
  code: the parameter \<open>validate\<close>, which gives the lane, or \<open>None\<close> for a
  \<open>ValidationError\<close>.
\<close>

section \<open>Lanes\<close>

record lane =
  ln_name :: string
  ln_description :: string
  ln_must :: "string list"
  ln_min_context_tokens :: int
  ln_max_prompt_price_per_million :: "rat option"
  ln_min_intelligence :: "rat option"
  ln_min_coding :: "rat option"
  ln_min_agentic :: "rat option"
  ln_allow_preview :: bool
  ln_expected_input_tokens :: int
  ln_expected_output_tokens :: int
  ln_expected_cached_input_tokens :: int
  ln_shortlist_size :: int

definition price_ceiling_per_token :: "lane \<Rightarrow> rat option" where
  "price_ceiling_per_token l = map_option (\<lambda>p. p / 1000000) (ln_max_prompt_price_per_million l)"

definition plain_lane :: "string \<Rightarrow> lane" where
  "plain_lane name =
     \<lparr>ln_name = name, ln_description = '''', ln_must = [], ln_min_context_tokens = 0,
      ln_max_prompt_price_per_million = None, ln_min_intelligence = None, ln_min_coding = None,
      ln_min_agentic = None, ln_allow_preview = False, ln_expected_input_tokens = 2000,
      ln_expected_output_tokens = 500, ln_expected_cached_input_tokens = 0, ln_shortlist_size = 3\<rparr>"

definition LOOKUP_LANE :: lane where
  "LOOKUP_LANE = (plain_lane ''lookup'')
     \<lparr>ln_description := ''Short factual turns, retrieval answers, classification.'',
      ln_must := [''tools''], ln_min_intelligence := Some 28, ln_max_prompt_price_per_million := Some 1,
      ln_expected_input_tokens := 1500, ln_expected_output_tokens := 300\<rparr>"

definition GUIDE_LANE :: lane where
  "GUIDE_LANE = (plain_lane ''guide'')
     \<lparr>ln_description := ''Guided conversation and explanation: the default chat turn.'',
      ln_must := [''tools''], ln_min_context_tokens := 200000,
      ln_min_intelligence := Some 45, ln_min_agentic := Some 35,
      ln_expected_input_tokens := 6000, ln_expected_output_tokens := 900,
      ln_expected_cached_input_tokens := 4000\<rparr>"

definition BUILD_LANE :: lane where
  "BUILD_LANE = (plain_lane ''build'')
     \<lparr>ln_description := ''Code generation and refactors judged on correctness.'',
      ln_must := [''tools'', ''structured_outputs''], ln_min_context_tokens := 200000,
      ln_min_coding := Some 60, ln_expected_input_tokens := 12000, ln_expected_output_tokens := 2500,
      ln_expected_cached_input_tokens := 8000\<rparr>"

definition REVIEW_LANE :: lane where
  "REVIEW_LANE = (plain_lane ''review'')
     \<lparr>ln_description := ''Security and release-readiness review; mistakes are expensive.'',
      ln_must := [''tools'', ''reasoning''], ln_min_context_tokens := 200000,
      ln_min_intelligence := Some 55, ln_min_coding := Some 70,
      ln_expected_input_tokens := 20000, ln_expected_output_tokens := 3000,
      ln_expected_cached_input_tokens := 12000\<rparr>"

definition DEFAULT_LANES :: "lane list" where
  "DEFAULT_LANES = [LOOKUP_LANE, GUIDE_LANE, BUILD_LANE, REVIEW_LANE]"

section \<open>Loading lanes.yaml\<close>

definition UNLIFTABLE_KEYS :: "string list" where
  "UNLIFTABLE_KEYS = [''allow_free_tier'', ''allow_batch_tier'', ''allow_router_models'']"

definition REMOVED_KEYS :: "string list" where
  "REMOVED_KEYS = [''prefer_vendors'']"

text \<open>
  What the bundle has: no file, a read that fails (\<open>OSError\<close>, or a decoding
  \<open>ValueError\<close>), text that is not YAML (\<open>yaml.YAMLError\<close>, which is neither an
  \<open>OSError\<close> nor a \<open>ValueError\<close>), or a document.
\<close>

datatype lane_file = NoLaneFile | LaneFileUnreadable | LaneFileNotYaml | LaneDocument json

definition clean_record :: "(string \<times> json) list \<Rightarrow> (string \<times> json) list" where
  "clean_record r = filter (\<lambda>kv. fst kv \<notin> set UNLIFTABLE_KEYS \<and> fst kv \<notin> set REMOVED_KEYS) r"

text \<open>
  The loop over the declared records. A validation error ends it with the lanes set so
  far; a record with a key \<open>name\<close> passes that keyword twice to the constructor.
\<close>

fun apply_lanes ::
  "(string \<Rightarrow> (string \<times> json) list \<Rightarrow> lane option) \<Rightarrow> (string \<times> json) list \<Rightarrow> (string \<times> lane) list
    \<Rightarrow> (string \<times> lane) list result" where
  "apply_lanes validate [] lanes = Inr lanes"
| "apply_lanes validate ((name, JObj r) # rest) lanes =
     (let r1 = clean_record r in
      if ''name'' \<in> fst ` set r1 then Inl (Raised ''TypeError'')
      else case validate name r1 of
          None \<Rightarrow> Inr lanes
        | Some l \<Rightarrow> apply_lanes validate rest (dict_set name l lanes))"
| "apply_lanes validate (_ # rest) lanes = apply_lanes validate rest lanes"

definition declared_lanes :: "json \<Rightarrow> json" where
  "declared_lanes payload =
     (case payload of
        JObj kvs \<Rightarrow> (case map_of kvs ''lanes'' of Some v \<Rightarrow> v | None \<Rightarrow> payload)
      | _ \<Rightarrow> JObj [])"

definition load_lanes ::
  "(string \<Rightarrow> (string \<times> json) list \<Rightarrow> lane option) \<Rightarrow> lane_file \<Rightarrow> (string \<times> lane) list result" where
  "load_lanes validate f =
     (let defaults = map (\<lambda>l. (ln_name l, l)) DEFAULT_LANES in
      case f of
        NoLaneFile \<Rightarrow> Inr defaults
      | LaneFileUnreadable \<Rightarrow> Inr defaults
      | LaneFileNotYaml \<Rightarrow> Inl (Raised ''YAMLError'')
      | LaneDocument doc \<Rightarrow>
          (case declared_lanes (json_or doc (JObj [])) of
             JObj records \<Rightarrow> apply_lanes validate records defaults
           | _ \<Rightarrow> Inr defaults))"

section \<open>Lemmas\<close>

lemma dict_set_keys: "fst ` set (dict_set k v d) = insert k (fst ` set d)"
  unfolding dict_set_def by (subst upsert_keys) simp_all

lemma apply_lanes_keeps:
  "apply_lanes validate rs lanes = Inr ls \<Longrightarrow> fst ` set lanes \<subseteq> fst ` set ls"
proof (induction validate rs lanes rule: apply_lanes.induct)
  case (2 validate name r rest lanes)
  then show ?case by (auto simp: Let_def dict_set_keys split: if_splits option.splits)
qed simp_all

text \<open>A record is read as if it did not carry the keys of the unliftable exclusions.\<close>

definition without_unliftable :: "string \<times> json \<Rightarrow> string \<times> json" where
  "without_unliftable nr = (case nr of (name, JObj r) \<Rightarrow>
     (name, JObj (filter (\<lambda>kv. fst kv \<notin> set UNLIFTABLE_KEYS) r)) | _ \<Rightarrow> nr)"

lemma clean_record_unliftable [simp]:
  "clean_record (filter (\<lambda>kv. fst kv \<notin> set UNLIFTABLE_KEYS) r) = clean_record r"
  by (induction r) (auto simp: clean_record_def)

lemma apply_lanes_unliftable:
  "apply_lanes validate (map without_unliftable rs) lanes = apply_lanes validate rs lanes"
  by (induction validate rs lanes rule: apply_lanes.induct)
     (simp_all add: without_unliftable_def Let_def split: option.splits)

section \<open>Properties\<close>

text \<open>A lane file that loads leaves every default lane in place, possibly redefined, and
  keys that would lift an unliftable exclusion change nothing.\<close>

theorem lane_file_keeps_defaults:
  assumes "load_lanes validate (LaneDocument (JObj [(''lanes'', JObj records)])) = Inr ls"
  shows "(\<forall>l \<in> set DEFAULT_LANES. ln_name l \<in> fst ` set ls)
    \<and> load_lanes validate (LaneDocument (JObj [(''lanes'', JObj (map without_unliftable records))])) = Inr ls"
  using assms apply_lanes_keeps [of validate records "map (\<lambda>l. (ln_name l, l)) DEFAULT_LANES" ls]
  by (force simp: load_lanes_def declared_lanes_def apply_lanes_unliftable)

theorem lane_file_keeps_defaults_witness:
  "load_lanes (\<lambda>n r. if r = [] then Some (plain_lane n) else None)
     (LaneDocument (JObj [(''lanes'', JObj (map without_unliftable
        [(''lookup'', JObj [(''allow_free_tier'', JBool True)])]))])) =
   Inr [(''lookup'', plain_lane ''lookup''), (''guide'', GUIDE_LANE), (''build'', BUILD_LANE), (''review'', REVIEW_LANE)]"
proof -
  have "load_lanes (\<lambda>n r. if r = [] then Some (plain_lane n) else None)
     (LaneDocument (JObj [(''lanes'', JObj [(''lookup'', JObj [(''allow_free_tier'', JBool True)])])])) =
   Inr [(''lookup'', plain_lane ''lookup''), (''guide'', GUIDE_LANE), (''build'', BUILD_LANE), (''review'', REVIEW_LANE)]"
    by code_simp
  from conjunct2 [OF lane_file_keeps_defaults [OF this]] show ?thesis .
qed

text \<open>Two malformed lane files take the loader down with an exception instead of leaving the
  defaults: text that is not YAML, and a record that sets its own \<open>name\<close>.\<close>

theorem malformed_lane_file_raises:
  "load_lanes validate LaneFileNotYaml = Inl (Raised ''YAMLError'')
    \<and> load_lanes validate (LaneDocument (JObj [(''lanes'', JObj [(lane_id, JObj [(''name'', v)])])]))
      = Inl (Raised ''TypeError'')"
  by (simp add: load_lanes_def declared_lanes_def clean_record_def UNLIFTABLE_KEYS_def REMOVED_KEYS_def)

end
