(* ===== verification/ModelResolver.thy ===== *)
theory ModelResolver
  imports ModelLanes "HOL-Library.List_Lexorder" "HOL-Library.Product_Lexorder" "HOL-Library.Multiset"
begin

text \<open>
  \<open>core/model_resolver.py\<close>: \<open>resolve_lane\<close>, from the catalogue to an ordered shortlist
  with the reason each loser lost. A rejection keeps its reason as a constructor; the
  sentences the code renders from it, and the log line, are not modelled. Python compares
  tuples and strings lexicographically, as the orders imported here do.
\<close>

section \<open>Interface: a ranking that is a total order\<close>

text \<open>
  \<open>order\<close> sorts, and what it returns depends only on the candidates, not on the
  sequence they arrive in, as long as their identities differ. \<open>better a b\<close> says that
  \<open>a\<close> is not ranked after \<open>b\<close>.
\<close>

locale ranking =
  fixes order :: "'a list \<Rightarrow> 'a list"
    and ident :: "'a \<Rightarrow> 'i"
    and better :: "'a \<Rightarrow> 'a \<Rightarrow> bool"
  assumes permutes: "mset (order xs) = mset xs"
    and deterministic: "distinct (map ident xs) \<Longrightarrow> mset xs = mset ys \<Longrightarrow> order xs = order ys"
    and ranked: "sorted_wrt better (order xs)"
begin

lemma set_order: "set (order xs) = set xs"
  using permutes by (metis set_mset_mset)

lemma length_order: "length (order xs) = length xs"
  using permutes by (metis size_mset)

lemma head_best: "order xs = b # rest \<Longrightarrow> x \<in> set rest \<Longrightarrow> better b x"
  using ranked [of xs] by simp

lemma shortlist_subset: "set (take n (order xs)) \<subseteq> set xs"
  using set_take_subset set_order by metis

lemma shortlist_length: "length (take n (order xs)) = min (length xs) n"
  by (simp add: length_order)

end

section \<open>Sorting by a key\<close>

lemma map_sort_key_eq:
  assumes "mset xs = mset ys"
  shows "map f (sort_key f xs) = map f (sort_key f ys)"
proof -
  have "sort (map f xs) = map f (sort_key f xs)" for xs
    by (rule properties_for_sort) simp_all
  moreover have "sort (map f xs) = sort (map f ys)"
    using assms by (simp add: properties_for_sort)
  ultimately show ?thesis by simp
qed

text \<open>A sort whose key tells the elements apart does not see their first arrangement.\<close>

lemma sort_key_perm:
  assumes "mset xs = mset ys" and "inj_on f (set xs)"
  shows "sort_key f xs = sort_key f ys"
proof (rule map_inj_on [of f])
  show "map f (sort_key f xs) = map f (sort_key f ys)" by (rule map_sort_key_eq [OF assms(1)])
  have "set ys = set xs" using assms(1) by (metis set_mset_mset)
  then show "inj_on f (set (sort_key f xs) \<union> set (sort_key f ys))" using assms(2) by simp
qed

lemma sort_key_perm_ident:
  assumes "mset xs = mset ys" and "distinct (map ident xs)"
    and "\<And>a b. f a = f b \<Longrightarrow> ident a = ident b"
  shows "sort_key f xs = sort_key f ys"
proof (rule sort_key_perm)
  show "inj_on f (set xs)"
    using assms(2,3) unfolding distinct_map inj_on_def by blast
qed (rule assms(1))

lemma sort_key_sorted_wrt: "sorted_wrt (\<lambda>a b. f a \<le> f b) (sort_key f xs)"
  using sorted_sort_key [of f xs] unfolding sorted_map .

section \<open>Tiers, candidates, rejections\<close>

datatype tier = Best | Auto | Fast | Cheap

definition DEFAULT_TIER :: tier where
  "DEFAULT_TIER = Auto"

text \<open>A tier is passed by name; an unknown name means the default.\<close>

definition tier_of :: "string \<Rightarrow> tier" where
  "tier_of s = (if s = ''best'' then Best else if s = ''auto'' then Auto else if s = ''fast'' then Fast
     else if s = ''cheap'' then Cheap else DEFAULT_TIER)"

fun TIER_OBJECTIVES :: "tier \<Rightarrow> string" where
  "TIER_OBJECTIVES Best = ''maximum margin, cost breaks ties''"
| "TIER_OBJECTIVES Auto = ''maximum margin per dollar above the margin-share gate''"
| "TIER_OBJECTIVES Fast = ''minimum seconds x cost above the margin-share gate''"
| "TIER_OBJECTIVES Cheap = ''lowest cost above the bar, margin breaks ties''"

definition MARGIN_SHARE_GATE :: rat where
  "MARGIN_SHARE_GATE = 35 / 100"

record candidate =
  cd_model :: catalog_model
  cd_lane :: string
  cd_cost_per_turn_usd :: rat
  cd_margin :: rat
  cd_observed_seconds :: "rat option"

definition cd_id :: "candidate \<Rightarrow> string" where
  "cd_id c = cm_id (cd_model c)"

datatype axis = Intelligence | Coding | Agentic

datatype reject_reason =
    FreeTier
  | BatchTier
  | RouterPseudoModel
  | PreviewBuild
  | Benched
  | MissingParameters "string list"
  | ContextTooSmall int int
  | Expired string
  | PromptPriceAboveCeiling
  | NoPublishedIndex axis
  | BelowFloor axis rat rat
  | NonPositiveCost rat
  | BelowMarginShare rat rat

record rejection =
  rj_model_id :: string
  rj_reason :: reject_reason

record resolution =
  rs_lane :: string
  rs_candidates :: "candidate list"
  rs_rejections :: "rejection list"
  rs_tier :: tier
  rs_objective :: string
  rs_cleared_floors :: nat
  rs_survived_gate :: nat
  rs_best_available_margin :: rat

definition resolution_best :: "resolution \<Rightarrow> candidate option" where
  "resolution_best r = (case rs_candidates r of [] \<Rightarrow> None | c # _ \<Rightarrow> Some c)"

section \<open>Screening one model\<close>

text \<open>\<open>raw.replace("Z", "+00:00")\<close>, and a text that is no timestamp does not expire.\<close>

definition replace_char :: "char \<Rightarrow> string \<Rightarrow> string \<Rightarrow> string" where
  "replace_char c w s = concat (map (\<lambda>x. if x = c then w else [x]) s)"

definition is_expired :: "catalog_model \<Rightarrow> utc \<Rightarrow> bool" where
  "is_expired m now =
     (if cm_expiration_date m = '''' then False
      else case fromisoformat (replace_char (CHR ''Z'') ''+00:00'' (strip (cm_expiration_date m))) of
          None \<Rightarrow> False
        | Some t \<Rightarrow> utc_of t \<le> now)"

definition axes :: "catalog_model \<Rightarrow> lane \<Rightarrow> (axis \<times> rat option \<times> rat option) list" where
  "axes m l = [(Intelligence, ln_min_intelligence l, cm_intelligence_index m),
     (Coding, ln_min_coding l, cm_coding_index m), (Agentic, ln_min_agentic l, cm_agentic_index m)]"

definition opt_rat :: "rat option \<Rightarrow> rat" where
  "opt_rat x = (case x of Some v \<Rightarrow> v | None \<Rightarrow> 0)"

definition margin :: "catalog_model \<Rightarrow> lane \<Rightarrow> rat" where
  "margin m l =
     (let declared = filter (\<lambda>(a, bar, value). bar \<noteq> None) (axes m l)
      in if declared = [] then max 0 (opt_rat (cm_intelligence_index m))
         else sum_list (map (\<lambda>(a, bar, value). max 0 (opt_rat value - opt_rat bar)) declared))"

fun floor_reason :: "(axis \<times> rat option \<times> rat option) list \<Rightarrow> reject_reason option" where
  "floor_reason [] = None"
| "floor_reason ((a, bar, value) # rest) =
     (case bar of
        None \<Rightarrow> floor_reason rest
      | Some fl \<Rightarrow>
          (case value of
             None \<Rightarrow> Some (NoPublishedIndex a)
           | Some v \<Rightarrow> if v < fl then Some (BelowFloor a v fl) else floor_reason rest))"

definition missing_params :: "lane \<Rightarrow> catalog_model \<Rightarrow> string list" where
  "missing_params l m = filter (\<lambda>p. \<not> supports m p) (ln_must l)"

definition lane_cost :: "lane \<Rightarrow> catalog_model \<Rightarrow> rat" where
  "lane_cost l m = cost_per_turn m (ln_expected_input_tokens l) (ln_expected_output_tokens l)
     (ln_expected_cached_input_tokens l)"

text \<open>The body of the loop: the first reason to drop a model, in the code's order.\<close>

definition screen :: "lane \<Rightarrow> string list \<Rightarrow> utc \<Rightarrow> catalog_model \<Rightarrow> reject_reason option" where
  "screen l benched now m =
     (if is_free_tier m then Some FreeTier
      else if is_batch_tier m then Some BatchTier
      else if is_router_pseudo_model m then Some RouterPseudoModel
      else if is_preview m \<and> \<not> ln_allow_preview l then Some PreviewBuild
      else if cm_id m \<in> set benched then Some Benched
      else if missing_params l m \<noteq> [] then Some (MissingParameters (missing_params l m))
      else if ln_min_context_tokens l \<noteq> 0 \<and> cm_context_length m < ln_min_context_tokens l
      then Some (ContextTooSmall (cm_context_length m) (ln_min_context_tokens l))
      else if is_expired m now then Some (Expired (cm_expiration_date m))
      else if (case price_ceiling_per_token l of None \<Rightarrow> False | Some p \<Rightarrow> cm_prompt_price m > p)
      then Some PromptPriceAboveCeiling
      else case floor_reason (axes m l) of
          Some r \<Rightarrow> Some r
        | None \<Rightarrow> if \<not> lane_cost l m > 0 then Some (NonPositiveCost (lane_cost l m)) else None)"

definition candidate_of :: "lane \<Rightarrow> (string \<Rightarrow> rat option) \<Rightarrow> catalog_model \<Rightarrow> candidate" where
  "candidate_of l observed m =
     \<lparr>cd_model = m, cd_lane = ln_name l, cd_cost_per_turn_usd = lane_cost l m, cd_margin = margin m l,
      cd_observed_seconds = observed (cm_id m)\<rparr>"

section \<open>Ranking\<close>

definition best_key :: "candidate \<Rightarrow> rat \<times> rat \<times> string" where
  "best_key c = (- cd_margin c, cd_cost_per_turn_usd c, cd_id c)"

definition cheap_key :: "candidate \<Rightarrow> rat \<times> rat \<times> string" where
  "cheap_key c = (cd_cost_per_turn_usd c, - cd_margin c, cd_id c)"

definition fast_key :: "candidate \<Rightarrow> bool \<times> rat \<times> rat \<times> rat \<times> string" where
  "fast_key c = (cd_observed_seconds c = None, opt_rat (cd_observed_seconds c) * cd_cost_per_turn_usd c,
     cd_cost_per_turn_usd c, - cd_margin c, cd_id c)"

definition auto_key :: "candidate \<Rightarrow> rat \<times> rat \<times> string" where
  "auto_key c = (- (cd_margin c / cd_cost_per_turn_usd c), cd_cost_per_turn_usd c, cd_id c)"

fun order_by :: "tier \<Rightarrow> candidate list \<Rightarrow> candidate list" where
  "order_by Best cs = sort_key best_key cs"
| "order_by Cheap cs = sort_key cheap_key cs"
| "order_by Fast cs = sort_key fast_key cs"
| "order_by Auto cs = sort_key auto_key cs"

fun ranks_before :: "tier \<Rightarrow> candidate \<Rightarrow> candidate \<Rightarrow> bool" where
  "ranks_before Best a b = (best_key a \<le> best_key b)"
| "ranks_before Cheap a b = (cheap_key a \<le> cheap_key b)"
| "ranks_before Fast a b = (fast_key a \<le> fast_key b)"
| "ranks_before Auto a b = (auto_key a \<le> auto_key b)"

lemma ranks_before_eq:
  "ranks_before Best = (\<lambda>a b. best_key a \<le> best_key b)" "ranks_before Cheap = (\<lambda>a b. cheap_key a \<le> cheap_key b)"
  "ranks_before Fast = (\<lambda>a b. fast_key a \<le> fast_key b)" "ranks_before Auto = (\<lambda>a b. auto_key a \<le> auto_key b)"
  by (simp_all add: fun_eq_iff)

lemmas key_defs = best_key_def cheap_key_def fast_key_def auto_key_def

lemma order_by_perm:
  assumes "distinct (map cd_id xs)" and "mset xs = mset ys"
  shows "order_by t xs = order_by t ys"
proof (cases t)
  case Best
  then show ?thesis using sort_key_perm_ident [OF assms(2,1), of best_key] by (simp add: key_defs)
next
  case Auto
  then show ?thesis using sort_key_perm_ident [OF assms(2,1), of auto_key] by (simp add: key_defs)
next
  case Fast
  then show ?thesis using sort_key_perm_ident [OF assms(2,1), of fast_key] by (simp add: key_defs)
next
  case Cheap
  then show ?thesis using sort_key_perm_ident [OF assms(2,1), of cheap_key] by (simp add: key_defs)
qed

interpretation tier_ranking: ranking "order_by t" cd_id "ranks_before t" for t
proof unfold_locales
  fix xs ys :: "candidate list"
  show "mset (order_by t xs) = mset xs" by (cases t) simp_all
  show "sorted_wrt (ranks_before t) (order_by t xs)"
    by (cases t) (simp_all add: ranks_before_eq sort_key_sorted_wrt)
  assume "distinct (map cd_id xs)" and "mset xs = mset ys"
  then show "order_by t xs = order_by t ys" by (rule order_by_perm)
qed

section \<open>Resolving a lane\<close>

record resolve_request =
  rr_lane :: lane
  rr_catalog :: "catalog_model list"
  rr_tier :: string
  rr_benched :: "string list"
  rr_observed :: "string \<Rightarrow> rat option"
  rr_now :: utc

definition cleared :: "resolve_request \<Rightarrow> candidate list" where
  "cleared q = map (candidate_of (rr_lane q) (rr_observed q))
     (filter (\<lambda>m. screen (rr_lane q) (rr_benched q) (rr_now q) m = None) (rr_catalog q))"

definition screened_out :: "resolve_request \<Rightarrow> rejection list" where
  "screened_out q = List.map_filter
     (\<lambda>m. map_option (\<lambda>r. \<lparr>rj_model_id = cm_id m, rj_reason = r\<rparr>)
            (screen (rr_lane q) (rr_benched q) (rr_now q) m)) (rr_catalog q)"

definition best_margin :: "candidate list \<Rightarrow> rat" where
  "best_margin cs = (if cs = [] then 0 else Max (set (map cd_margin cs)))"

definition gated :: "tier \<Rightarrow> candidate list \<Rightarrow> candidate list" where
  "gated t cs =
     (if (t = Auto \<or> t = Fast) \<and> best_margin cs > 0
      then filter (\<lambda>c. cd_margin c \<ge> MARGIN_SHARE_GATE * best_margin cs) cs else cs)"

definition gated_out :: "tier \<Rightarrow> candidate list \<Rightarrow> rejection list" where
  "gated_out t cs =
     (if (t = Auto \<or> t = Fast) \<and> best_margin cs > 0
      then map (\<lambda>c. \<lparr>rj_model_id = cd_id c, rj_reason = BelowMarginShare (cd_margin c) (best_margin cs)\<rparr>)
             (filter (\<lambda>c. cd_id c \<notin> cd_id ` set (gated t cs)) cs)
      else [])"

definition resolve_lane :: "resolve_request \<Rightarrow> resolution" where
  "resolve_lane q =
     (let t = tier_of (rr_tier q); cs = cleared q; kept = gated t cs;
          objective = (if t = Fast \<and> \<not> list_ex (\<lambda>c. cd_observed_seconds c \<noteq> None) kept
            then ''no latency observed yet; lowest cost above the gate, margin breaks ties''
            else TIER_OBJECTIVES t)
      in \<lparr>rs_lane = ln_name (rr_lane q),
          rs_candidates = take (nat (max 1 (ln_shortlist_size (rr_lane q)))) (order_by t kept),
          rs_rejections = screened_out q @ gated_out t cs,
          rs_tier = t, rs_objective = objective,
          rs_cleared_floors = length cs, rs_survived_gate = length (order_by t kept),
          rs_best_available_margin = best_margin cs\<rparr>)"

lemmas resolve_simps = resolve_lane_def Let_def

section \<open>Lemmas\<close>

lemma candidate_of_simps [simp]:
  "cd_model (candidate_of l obs m) = m" "cd_id (candidate_of l obs m) = cm_id m"
  "cd_margin (candidate_of l obs m) = margin m l" "cd_cost_per_turn_usd (candidate_of l obs m) = lane_cost l m"
  by (simp_all add: candidate_of_def cd_id_def)

lemma floor_reason_None:
  "floor_reason fs = None \<longleftrightarrow> (\<forall>(a, bar, value) \<in> set fs. case bar of None \<Rightarrow> True
     | Some b \<Rightarrow> (case value of None \<Rightarrow> False | Some v \<Rightarrow> b \<le> v))"
  by (induction fs rule: floor_reason.induct) (auto simp: not_less split: option.splits)

text \<open>What a lane asks of a model, floor by floor.\<close>

definition clears_floor :: "rat option \<Rightarrow> rat option \<Rightarrow> bool" where
  "clears_floor bar value = (case bar of None \<Rightarrow> True
     | Some b \<Rightarrow> (case value of None \<Rightarrow> False | Some v \<Rightarrow> b \<le> v))"

definition qualifies :: "lane \<Rightarrow> string list \<Rightarrow> utc \<Rightarrow> catalog_model \<Rightarrow> bool" where
  "qualifies l benched now m \<longleftrightarrow>
     \<not> is_free_tier m \<and> \<not> is_batch_tier m \<and> \<not> is_router_pseudo_model m \<and> (is_preview m \<longrightarrow> ln_allow_preview l)
     \<and> cm_id m \<notin> set benched \<and> set (ln_must l) \<subseteq> set (cm_supported_parameters m)
     \<and> (ln_min_context_tokens l \<noteq> 0 \<longrightarrow> ln_min_context_tokens l \<le> cm_context_length m) \<and> \<not> is_expired m now
     \<and> (case price_ceiling_per_token l of None \<Rightarrow> True | Some p \<Rightarrow> cm_prompt_price m \<le> p)
     \<and> clears_floor (ln_min_intelligence l) (cm_intelligence_index m)
     \<and> clears_floor (ln_min_coding l) (cm_coding_index m)
     \<and> clears_floor (ln_min_agentic l) (cm_agentic_index m) \<and> 0 < lane_cost l m"

lemma screen_None: "screen l benched now m = None \<longleftrightarrow> qualifies l benched now m"
proof -
  have must: "missing_params l m = [] \<longleftrightarrow> set (ln_must l) \<subseteq> set (cm_supported_parameters m)"
    by (auto simp: missing_params_def filter_empty_conv supports_def)
  have bars: "floor_reason (axes m l) = None \<longleftrightarrow> clears_floor (ln_min_intelligence l) (cm_intelligence_index m)
     \<and> clears_floor (ln_min_coding l) (cm_coding_index m) \<and> clears_floor (ln_min_agentic l) (cm_agentic_index m)"
    unfolding floor_reason_None by (simp add: axes_def clears_floor_def)
  have price: "(case p of None \<Rightarrow> False | Some c \<Rightarrow> c < x) \<longleftrightarrow> \<not> (case p of None \<Rightarrow> True | Some c \<Rightarrow> x \<le> c)"
    for p :: "rat option" and x by (cases p) auto
  have rest: "(case floor_reason (axes m l) of Some r \<Rightarrow> Some r
      | None \<Rightarrow> if \<not> lane_cost l m > 0 then Some (NonPositiveCost (lane_cost l m)) else None) = None
      \<longleftrightarrow> floor_reason (axes m l) = None \<and> 0 < lane_cost l m"
    by (simp split: option.split)
  show ?thesis
    unfolding screen_def qualifies_def price must [symmetric]
    using rest bars by (auto simp: not_less)
qed

lemma cleared_iff: "c \<in> set (cleared q) \<longleftrightarrow> (\<exists>m \<in> set (rr_catalog q).
    qualifies (rr_lane q) (rr_benched q) (rr_now q) m \<and> c = candidate_of (rr_lane q) (rr_observed q) m)"
  by (auto simp: cleared_def screen_None)

lemma gated_subset: "set (gated t cs) \<subseteq> set cs"
  by (auto simp: gated_def)

lemma candidates_subset: "set (rs_candidates (resolve_lane q)) \<subseteq> set (gated (tier_of (rr_tier q)) (cleared q))"
  by (simp add: resolve_simps tier_ranking.shortlist_subset)

lemma candidates_cleared: "c \<in> set (rs_candidates (resolve_lane q)) \<Longrightarrow> c \<in> set (cleared q)"
  using candidates_subset gated_subset by blast

lemma gated_nonempty: "cs \<noteq> [] \<Longrightarrow> gated t cs \<noteq> []"
proof -
  assume ne: "cs \<noteq> []"
  show "gated t cs \<noteq> []"
  proof (cases "(t = Auto \<or> t = Fast) \<and> best_margin cs > 0")
    case True
    have "best_margin cs \<in> set (map cd_margin cs)"
      using ne unfolding best_margin_def by (simp only: if_False) (intro Max_in, auto)
    then obtain c where c: "c \<in> set cs" "cd_margin c = best_margin cs" by auto
    moreover have "MARGIN_SHARE_GATE * best_margin cs \<le> best_margin cs"
      using True by (simp add: MARGIN_SHARE_GATE_def)
    ultimately have "c \<in> set (gated t cs)" using True by (simp add: gated_def)
    then show ?thesis by auto
  next
    case False
    then have "gated t cs = cs" unfolding gated_def by (rule if_not_P)
    then show ?thesis using ne by simp
  qed
qed

lemma best_margin_upper: "c \<in> set cs \<Longrightarrow> cd_margin c \<le> best_margin cs"
  by (cases cs) (auto simp: best_margin_def)

lemma best_margin_perm: "mset xs = mset ys \<Longrightarrow> best_margin xs = best_margin ys"
proof -
  assume "mset xs = mset ys"
  then have "set xs = set ys" and "xs = [] \<longleftrightarrow> ys = []" using mset_eq_setD by auto
  then show ?thesis by (simp add: best_margin_def)
qed

lemma cleared_perm:
  "mset (rr_catalog q) = mset cat \<Longrightarrow> mset (cleared (q\<lparr>rr_catalog := cat\<rparr>)) = mset (cleared q)"
  by (simp add: cleared_def)

lemma gated_perm: "mset xs = mset ys \<Longrightarrow> mset (gated t xs) = mset (gated t ys)"
proof -
  assume eq: "mset xs = mset ys"
  then show ?thesis
    unfolding gated_def best_margin_perm [OF eq]
    by (simp only: eq mset_filter split: if_split) simp
qed

lemma cleared_ids_distinct: "distinct (map cm_id (rr_catalog q)) \<Longrightarrow> distinct (map cd_id (cleared q))"
  by (simp add: cleared_def comp_def distinct_map_filter)

lemma gated_ids_distinct: "distinct (map cd_id cs) \<Longrightarrow> distinct (map cd_id (gated t cs))"
  by (simp add: gated_def distinct_map_filter)

lemma screened_out_ids:
  "map rj_model_id (screened_out q) =
   map cm_id (filter (\<lambda>m. screen (rr_lane q) (rr_benched q) (rr_now q) m \<noteq> None) (rr_catalog q))"
proof -
  have "map rj_model_id (List.map_filter (\<lambda>m. map_option (\<lambda>r. \<lparr>rj_model_id = cm_id m, rj_reason = r\<rparr>) (f m)) ms) =
      map cm_id (filter (\<lambda>m. f m \<noteq> None) ms)" for f ms
    by (induction ms) (auto simp: List.map_filter_def)
  then show ?thesis by (simp add: screened_out_def)
qed

lemma gated_split:
  assumes "distinct (map cd_id cs)"
  shows "mset (map cd_id (gated t cs)) + mset (map rj_model_id (gated_out t cs)) = mset (map cd_id cs)"
proof (cases "(t = Auto \<or> t = Fast) \<and> best_margin cs > 0")
  case True
  let ?P = "\<lambda>c. cd_margin c \<ge> MARGIN_SHARE_GATE * best_margin cs"
  have keep: "gated t cs = filter ?P cs" using True by (simp add: gated_def)
  have "c \<in> set cs \<Longrightarrow> cd_id c \<notin> cd_id ` set (filter ?P cs) \<longleftrightarrow> \<not> ?P c" for c
    using assms by (auto simp: distinct_map inj_on_def)
  then have "filter (\<lambda>c. cd_id c \<notin> cd_id ` set (filter ?P cs)) cs = filter (\<lambda>c. \<not> ?P c) cs"
    by (intro filter_cong) auto
  then have "map rj_model_id (gated_out t cs) = map cd_id (filter (\<lambda>c. \<not> ?P c) cs)"
    using True by (simp add: gated_out_def keep comp_def)
  then have "mset (map rj_model_id (gated_out t cs)) = mset (map cd_id (filter (\<lambda>c. \<not> ?P c) cs))" by (rule arg_cong)
  then have out: "image_mset rj_model_id (mset (gated_out t cs)) = image_mset cd_id {#c \<in># mset cs. \<not> ?P c#}"
    by simp
  show ?thesis
    unfolding keep mset_map mset_filter out image_mset_union [symmetric] multiset_partition [symmetric] ..
qed (auto simp: gated_def gated_out_def)

lemma candidate_qualifies:
  "c \<in> set (rs_candidates (resolve_lane q)) \<Longrightarrow> cd_model c \<in> set (rr_catalog q)
    \<and> qualifies (rr_lane q) (rr_benched q) (rr_now q) (cd_model c)
    \<and> cd_margin c = margin (cd_model c) (rr_lane q) \<and> cd_cost_per_turn_usd c = lane_cost (rr_lane q) (cd_model c)"
  by (drule candidates_cleared) (auto simp: cleared_iff)

lemma shortlist_head:
  assumes "rs_candidates (resolve_lane q) = winner # rest" and "c \<in> set (gated (tier_of (rr_tier q)) (cleared q))"
  shows "c = winner \<or> ranks_before (tier_of (rr_tier q)) winner c"
proof -
  let ?o = "order_by (tier_of (rr_tier q)) (gated (tier_of (rr_tier q)) (cleared q))"
  from assms(1) obtain others where o: "?o = winner # others"
    by (cases ?o) (auto simp: resolve_simps take_Cons')
  then show ?thesis
    using tier_ranking.head_best [OF o] tier_ranking.set_order assms(2) by (metis set_ConsD)
qed

section \<open>Properties\<close>

text \<open>A request that has only the pinned models to resolve against.\<close>

definition offline_resolve :: "lane \<Rightarrow> string \<Rightarrow> utc \<Rightarrow> resolve_request" where
  "offline_resolve l t now = \<lparr>rr_lane = l, rr_catalog = PINNED_FALLBACK, rr_tier = t, rr_benched = [],
     rr_observed = (\<lambda>_. None), rr_now = now\<rparr>"

text \<open>No lane, tier, bench or latency map ever puts a free, batch or router model on a
  shortlist.\<close>

theorem unliftable_exclusions:
  "\<not> list_ex (\<lambda>c. is_free_tier (cd_model c) \<or> is_batch_tier (cd_model c) \<or> is_router_pseudo_model (cd_model c))
     (rs_candidates (resolve_lane q))"
  using candidate_qualifies [of _ q] by (auto simp: list_ex_iff qualifies_def)

text \<open>C35: every model on a shortlist comes from the catalogue and meets every requirement of the
  lane: parameters, context, expiry, price ceiling, quality floors, availability; its turn
  costs a positive amount, and cost and margin are those of the lane.\<close>

theorem shortlist_meets_lane:
  assumes "c \<in> set (rs_candidates (resolve_lane q))"
  shows "cd_model c \<in> set (rr_catalog q)
    \<and> qualifies (rr_lane q) (rr_benched q) (rr_now q) (cd_model c)
    \<and> cd_margin c = margin (cd_model c) (rr_lane q)
    \<and> cd_cost_per_turn_usd c = lane_cost (rr_lane q) (cd_model c)"
  using assms by (rule candidate_qualifies)

lemma sample_guide: "rs_candidates (resolve_lane (offline_resolve GUIDE_LANE ''cheap'' 0)) =
   map (candidate_of GUIDE_LANE (\<lambda>_. None)) [PINNED_FALLBACK ! 1, PINNED_FALLBACK ! 2]"
  by code_simp

theorem shortlist_meets_lane_witness:
  "qualifies GUIDE_LANE [] 0 (PINNED_FALLBACK ! 1)"
  using shortlist_meets_lane [of "candidate_of GUIDE_LANE (\<lambda>_. None) (PINNED_FALLBACK ! 1)" "offline_resolve GUIDE_LANE ''cheap'' 0"]
  by (simp add: sample_guide) (simp add: offline_resolve_def)

text \<open>The shortlist does not depend on the order of the catalogue: two catalogues with the
  same models, of distinct ids, give the same candidates in the same order.\<close>

theorem catalog_order_irrelevant:
  assumes "mset (rr_catalog q) = mset cat" and "distinct (map cm_id (rr_catalog q))"
  shows "rs_candidates (resolve_lane (q\<lparr>rr_catalog := cat\<rparr>)) = rs_candidates (resolve_lane q)"
proof -
  let ?t = "tier_of (rr_tier q)"
  have "order_by ?t (gated ?t (cleared q)) = order_by ?t (gated ?t (cleared (q\<lparr>rr_catalog := cat\<rparr>)))"
    using cleared_perm [OF assms(1)] cleared_ids_distinct [OF assms(2)]
    by (intro tier_ranking.deterministic gated_ids_distinct gated_perm) simp_all
  then show ?thesis by (simp add: resolve_simps)
qed

theorem catalog_order_irrelevant_witness:
  "rs_candidates (resolve_lane ((offline_resolve BUILD_LANE ''auto'' 0)\<lparr>rr_catalog := rev PINNED_FALLBACK\<rparr>)) =
   rs_candidates (resolve_lane (offline_resolve BUILD_LANE ''auto'' 0))"
proof (rule catalog_order_irrelevant)
  show "mset (rr_catalog (offline_resolve BUILD_LANE ''auto'' 0)) = mset (rev PINNED_FALLBACK)"
    by (simp add: offline_resolve_def)
  show "distinct (map cm_id (rr_catalog (offline_resolve BUILD_LANE ''auto'' 0)))"
    by (simp add: offline_resolve_def PINNED_FALLBACK_def pinned_def)
qed

text \<open>Routing is auditable: with distinct ids, the models that survived the gate and the
  rejected ones are together exactly the catalogue, and nothing is both.\<close>

theorem every_model_accounted_for:
  assumes "distinct (map cm_id (rr_catalog q))"
  shows "mset (map cd_id (gated (tier_of (rr_tier q)) (cleared q))) +
      mset (map rj_model_id (rs_rejections (resolve_lane q))) = mset (map cm_id (rr_catalog q))
    \<and> rs_survived_gate (resolve_lane q) + length (rs_rejections (resolve_lane q)) = length (rr_catalog q)"
proof -
  let ?t = "tier_of (rr_tier q)" and ?P = "\<lambda>m. screen (rr_lane q) (rr_benched q) (rr_now q) m = None"
  let ?kept = "mset (map cd_id (gated ?t (cleared q)))" and ?out = "mset (map rj_model_id (rs_rejections (resolve_lane q)))"
  have "map cd_id (cleared q) = map cm_id (filter ?P (rr_catalog q))" by (simp add: cleared_def comp_def)
  moreover have "mset (map cm_id (filter ?P (rr_catalog q))) + mset (map cm_id (filter (\<lambda>m. \<not> ?P m) (rr_catalog q)))
      = mset (map cm_id (rr_catalog q))"
    unfolding mset_map mset_filter image_mset_union [symmetric] multiset_partition [symmetric] ..
  moreover have "?out = mset (map cm_id (filter (\<lambda>m. \<not> ?P m) (rr_catalog q))) + mset (map rj_model_id (gated_out ?t (cleared q)))"
    by (simp only: resolve_simps resolution.simps map_append screened_out_ids mset_append)
  moreover have "?kept + mset (map rj_model_id (gated_out ?t (cleared q))) = mset (map cd_id (cleared q))"
    by (rule gated_split [OF cleared_ids_distinct [OF assms]])
  moreover have "k + out = a" if "c + x = a" "out = x + g" "k + g = c" for k g c x a out :: "string multiset"
    using that by (simp add: ac_simps) (simp flip: that)
  ultimately have ids: "?kept + ?out = mset (map cm_id (rr_catalog q))" by metis
  then have "size (?kept + ?out) = length (rr_catalog q)" by (metis length_map size_mset)
  moreover have "rs_survived_gate (resolve_lane q) = length (gated ?t (cleared q))"
    by (simp add: resolve_simps tier_ranking.length_order)
  ultimately show ?thesis using ids by simp
qed

theorem every_model_accounted_for_witness:
  "rs_survived_gate (resolve_lane (offline_resolve REVIEW_LANE ''best'' 0)) +
   length (rs_rejections (resolve_lane (offline_resolve REVIEW_LANE ''best'' 0))) = 3"
  using every_model_accounted_for [of "offline_resolve REVIEW_LANE ''best'' 0"]
  by (simp add: offline_resolve_def PINNED_FALLBACK_def pinned_def)

text \<open>The first model of a shortlist is the one the tier asks for: under \<open>best\<close> no qualifying
  model has more margin, nor the same margin at a lower cost; under \<open>cheap\<close> none costs
  less, nor the same with more margin; under \<open>auto\<close> none that reaches the gate's share of
  the best margin has more margin per dollar.\<close>

theorem tier_objective_met:
  assumes "rs_candidates (resolve_lane q) = winner # rest" and "m \<in> set (rr_catalog q)"
    and "qualifies (rr_lane q) (rr_benched q) (rr_now q) m"
  defines "l \<equiv> rr_lane q" and "t \<equiv> tier_of (rr_tier q)"
  shows "(t = Best \<longrightarrow> margin m l < cd_margin winner \<or>
        margin m l = cd_margin winner \<and> cd_cost_per_turn_usd winner \<le> lane_cost l m)
    \<and> (t = Cheap \<longrightarrow> cd_cost_per_turn_usd winner < lane_cost l m \<or>
        cd_cost_per_turn_usd winner = lane_cost l m \<and> margin m l \<le> cd_margin winner)
    \<and> (t = Auto \<and> margin m l \<ge> MARGIN_SHARE_GATE * rs_best_available_margin (resolve_lane q) \<longrightarrow>
        margin m l / lane_cost l m \<le> cd_margin winner / cd_cost_per_turn_usd winner)"
proof -
  let ?c = "candidate_of l (rr_observed q) m"
  have c: "?c \<in> set (cleared q)" using assms(2,3) by (auto simp: cleared_iff l_def)
  have best: "rs_best_available_margin (resolve_lane q) = best_margin (cleared q)" by (simp add: resolve_simps)
  have all: "gated Best (cleared q) = cleared q" "gated Cheap (cleared q) = cleared q" by (simp_all add: gated_def)
  have auto: "?c \<in> set (gated Auto (cleared q))" if "margin m l \<ge> MARGIN_SHARE_GATE * best_margin (cleared q)"
    using that c by (simp add: gated_def)
  note head = shortlist_head [OF assms(1), of ?c, folded t_def]
  show ?thesis
  proof (intro conjI impI)
    assume "t = Best"
    then show "margin m l < cd_margin winner \<or> margin m l = cd_margin winner \<and> cd_cost_per_turn_usd winner \<le> lane_cost l m"
      using head c all by (auto simp: best_key_def)
  next
    assume "t = Cheap"
    then show "cd_cost_per_turn_usd winner < lane_cost l m \<or> cd_cost_per_turn_usd winner = lane_cost l m \<and> margin m l \<le> cd_margin winner"
      using head c all by (auto simp: cheap_key_def)
  next
    assume "t = Auto \<and> margin m l \<ge> MARGIN_SHARE_GATE * rs_best_available_margin (resolve_lane q)"
    then show "margin m l / lane_cost l m \<le> cd_margin winner / cd_cost_per_turn_usd winner"
      using head auto best by (auto simp: auto_key_def)
  qed
qed

theorem tier_objective_met_witness:
  "cd_cost_per_turn_usd (candidate_of GUIDE_LANE (\<lambda>_. None) (PINNED_FALLBACK ! 1)) \<le> lane_cost GUIDE_LANE (PINNED_FALLBACK ! 2)"
proof -
  have m: "PINNED_FALLBACK ! 2 \<in> set (rr_catalog (offline_resolve GUIDE_LANE ''cheap'' 0))"
    by (simp add: offline_resolve_def PINNED_FALLBACK_def)
  have "qualifies GUIDE_LANE [] 0 (PINNED_FALLBACK ! 2)"
    unfolding screen_None [symmetric] by code_simp
  then have "qualifies (rr_lane (offline_resolve GUIDE_LANE ''cheap'' 0)) (rr_benched (offline_resolve GUIDE_LANE ''cheap'' 0))
      (rr_now (offline_resolve GUIDE_LANE ''cheap'' 0)) (PINNED_FALLBACK ! 2)"
    by (simp add: offline_resolve_def)
  from tier_objective_met [OF sample_guide [unfolded list.map] m this] show ?thesis
    by (auto simp: offline_resolve_def tier_of_def)
qed

lemma shortlist_Nil_iff:
  "rs_candidates (resolve_lane q) = [] \<longleftrightarrow>
     \<not> list_ex (qualifies (rr_lane q) (rr_benched q) (rr_now q)) (rr_catalog q)"
proof -
  let ?t = "tier_of (rr_tier q)"
  have "rs_candidates (resolve_lane q) = [] \<longleftrightarrow> order_by ?t (gated ?t (cleared q)) = []"
    by (simp add: resolve_simps)
  also have "\<dots> \<longleftrightarrow> cleared q = []"
    using tier_ranking.set_order gated_nonempty gated_subset by (metis set_empty subset_empty)
  also have "\<dots> \<longleftrightarrow> \<not> list_ex (qualifies (rr_lane q) (rr_benched q) (rr_now q)) (rr_catalog q)"
    by (auto simp: cleared_def filter_empty_conv list_ex_iff screen_None)
  finally show ?thesis .
qed

text \<open>A shortlist is empty only when no model of the catalogue qualifies, whatever the tier's
  gate, and it never holds more than the lane's shortlist size (at least one).\<close>

theorem shortlist_empty_iff_none_qualifies:
  "(rs_candidates (resolve_lane q) = [] \<longleftrightarrow>
      \<not> list_ex (qualifies (rr_lane q) (rr_benched q) (rr_now q)) (rr_catalog q))
    \<and> int (length (rs_candidates (resolve_lane q))) \<le> max 1 (ln_shortlist_size (rr_lane q))"
  using shortlist_Nil_iff [of q] by (simp add: resolve_simps)

text \<open>Every default lane resolves, at every tier and at any time, against the pinned models
  alone, so a catalogue outage leaves no lane unroutable.\<close>

theorem default_lanes_reachable_offline:
  "list_all (\<lambda>l. rs_candidates (resolve_lane (offline_resolve l t now)) \<noteq> []) DEFAULT_LANES"
proof -
  have "list_all (\<lambda>l. list_ex (\<lambda>m. screen l [] 0 m = None) PINNED_FALLBACK) DEFAULT_LANES"
    by code_simp
  moreover have never: "list_all (\<lambda>m. cm_expiration_date m = '''') PINNED_FALLBACK"
    by code_simp
  have "screen l [] now m = screen l [] 0 m" if "m \<in> set PINNED_FALLBACK" for l m
    using that never by (auto simp: list_all_iff screen_def is_expired_def)
  ultimately show ?thesis
    by (auto simp: shortlist_Nil_iff list_all_iff list_ex_iff offline_resolve_def screen_None [symmetric])
qed

end
