(* ===== verification/TargetSafety.thy ===== *)
theory TargetSafety
  imports Prelude
begin

text \<open>
  \<open>kb/target_safety.py\<close>: what a discovery target may look like, and the connect-time
  guard against requests into the internal network. \<open>ipaddress.ip_address(h).is_global\<close>
  is the parameter \<open>ip\<close>: \<open>None\<close> when \<open>h\<close> is no address literal, otherwise whether
  the registries call it global; the DNS resolver is a parameter too. \<open>urlparse\<close> is
  modelled as far as scheme, user information and host.
\<close>

section \<open>Patterns\<close>

definition is_alnum :: "char \<Rightarrow> bool" where
  "is_alnum c \<longleftrightarrow> (let n = (of_char c :: nat) in
     (48 \<le> n \<and> n \<le> 57) \<or> (65 \<le> n \<and> n \<le> 90) \<or> (97 \<le> n \<and> n \<le> 122))"

definition in_class :: "string \<Rightarrow> char \<Rightarrow> bool" where
  "in_class extra c \<longleftrightarrow> is_alnum c \<or> c \<in> set extra"

definition class_run :: "string \<Rightarrow> nat \<Rightarrow> nat \<Rightarrow> string \<Rightarrow> bool" where
  "class_run extra lo hi s \<longleftrightarrow> lo \<le> length s \<and> length s \<le> hi \<and> list_all (in_class extra) s"

definition removeprefix :: "string \<Rightarrow> string \<Rightarrow> string" where
  "removeprefix p s = (if starts_with p s then drop (length p) s else s)"

definition github_repo_re :: "string \<Rightarrow> bool" where
  "github_repo_re s = (case split_on (CHR ''/'') s of
     [a, b] \<Rightarrow> a \<noteq> [] \<and> b \<noteq> [] \<and> list_all (in_class ''_.-'') a \<and> list_all (in_class ''_.-'') b
   | _ \<Rightarrow> False)"

definition github_topic_re :: "string \<Rightarrow> bool" where
  "github_topic_re s = (case s of [] \<Rightarrow> False | c # cs \<Rightarrow> is_alnum c \<and> class_run ''-'' 0 80 cs)"

definition github_account_re :: "string \<Rightarrow> bool" where
  "github_account_re s = (case s of [] \<Rightarrow> False | c # cs \<Rightarrow> is_alnum c \<and> class_run ''-'' 0 38 cs)"

definition subreddit_re :: "string \<Rightarrow> bool" where
  "subreddit_re s = class_run ''_'' 2 21 (removeprefix ''r/'' s)"

definition youtube_target_re :: "string \<Rightarrow> bool" where
  "youtube_target_re s = class_run ''_.-'' 2 120
     (if starts_with ''channel:'' s then drop 8 s else if starts_with ''u/'' s then drop 2 s
      else if starts_with ''@'' s then drop 1 s else s)"

section \<open>URLs\<close>

record url_parts =
  up_scheme :: string
  up_userinfo :: string
  up_host :: string

definition scheme_char :: "char \<Rightarrow> bool" where
  "scheme_char c \<longleftrightarrow> in_class ''+-.'' c"

definition is_alpha :: "char \<Rightarrow> bool" where
  "is_alpha c \<longleftrightarrow> is_alnum c \<and> \<not> is_digit c"

text \<open>Control characters and blanks in front, tabs and line ends anywhere are dropped.\<close>

definition sanitize_url :: "string \<Rightarrow> string" where
  "sanitize_url s = filter (\<lambda>c. (of_char c :: nat) \<noteq> 9 \<and> (of_char c :: nat) \<noteq> 10 \<and> (of_char c :: nat) \<noteq> 13)
     (dropWhile (\<lambda>c. (of_char c :: nat) \<le> 32) s)"

definition split_scheme :: "string \<Rightarrow> string \<times> string" where
  "split_scheme s =
     (let p = takeWhile (\<lambda>c. c \<noteq> CHR '':'') s; r = dropWhile (\<lambda>c. c \<noteq> CHR '':'') s
      in if r \<noteq> [] \<and> p \<noteq> [] \<and> is_alpha (hd p) \<and> list_all scheme_char p then (lower p, tl r) else ([], s))"

text \<open>Text before the last and after the last \<open>@\<close>.\<close>

definition rpartition_at :: "string \<Rightarrow> string \<times> string" where
  "rpartition_at s =
     (let tail = rev (takeWhile (\<lambda>c. c \<noteq> CHR ''@'') (rev s))
      in (take (length s - length tail - 1) s, tail))"

definition host_of :: "string \<Rightarrow> string" where
  "host_of hostinfo =
     (if CHR ''['' \<in> set hostinfo
      then takeWhile (\<lambda>c. c \<noteq> CHR '']'') (tl (dropWhile (\<lambda>c. c \<noteq> CHR ''['') hostinfo))
      else takeWhile (\<lambda>c. c \<noteq> CHR '':'') hostinfo)"

text \<open>\<open>None\<close> is the \<open>ValueError\<close> for unbalanced or non-address brackets.\<close>

definition urlparse :: "(string \<Rightarrow> bool option) \<Rightarrow> string \<Rightarrow> url_parts option" where
  "urlparse ip raw =
     (let (scheme, rest) = split_scheme (sanitize_url raw);
          netloc = (if starts_with ''//'' rest
            then takeWhile (\<lambda>c. c \<notin> {CHR ''/'', CHR ''?'', CHR ''#''}) (drop 2 rest) else []);
          (userinfo, hostinfo) = rpartition_at netloc;
          host = host_of hostinfo;
          open_br = (CHR ''['' \<in> set netloc); close_br = (CHR '']'' \<in> set netloc)
      in if open_br \<noteq> close_br then None
         else if open_br \<and> ip host = None then None
         else Some \<lparr>up_scheme = scheme, up_userinfo = userinfo, up_host = lower host\<rparr>)"

section \<open>Insert-time validation\<close>

definition BLOCKED_HOSTS :: "string list" where
  "BLOCKED_HOSTS = [''localhost'', ''localhost.localdomain'']"

definition BLOCKED_SUFFIXES :: "string list" where
  "BLOCKED_SUFFIXES = [''.local'', ''.localhost'', ''.internal'', ''.lan'', ''.home'', ''.home.arpa'']"

definition ends_with :: "string \<Rightarrow> string \<Rightarrow> bool" where
  "ends_with suf s \<longleftrightarrow> starts_with (rev suf) (rev s)"

definition blocked_host :: "string \<Rightarrow> bool" where
  "blocked_host h \<longleftrightarrow> h \<in> set BLOCKED_HOSTS \<or> list_ex (\<lambda>s. ends_with s h) BLOCKED_SUFFIXES"

definition rstrip_dots :: "string \<Rightarrow> string" where
  "rstrip_dots s = rev (dropWhile (\<lambda>c. c = CHR ''.'') (rev s))"

text \<open>\<open>user:password\<close>: one of the two parts non-empty.\<close>

definition has_credentials :: "string \<Rightarrow> bool" where
  "has_credentials userinfo \<longleftrightarrow> takeWhile (\<lambda>c. c \<noteq> CHR '':'') userinfo \<noteq> []
     \<or> tl (dropWhile (\<lambda>c. c \<noteq> CHR '':'') userinfo) \<noteq> []"

definition validate_public_https_url ::
  "(string \<Rightarrow> bool option) \<Rightarrow> string \<Rightarrow> string \<Rightarrow> string \<Rightarrow> string result" where
  "validate_public_https_url ip raw source field =
     (let url = strip raw; err = (\<lambda>m. Inl (ValueError (source @ '' '' @ field @ m))) in
      case urlparse ip url of
        None \<Rightarrow> Inl (ValueError ''Invalid IPv6 URL'')
      | Some p \<Rightarrow>
          if up_scheme p \<noteq> ''https'' then err '' must use https://''
          else if up_host p = '''' then err '' requires a host''
          else if has_credentials (up_userinfo p) then err '' must not include credentials''
          else let host = lower (rstrip_dots (up_host p)) in
            if blocked_host host then err ('' host is not allowed: '' @ host)
            else case ip host of
                None \<Rightarrow> Inr url
              | Some True \<Rightarrow> Inr url
              | Some False \<Rightarrow> err '' must not target private or local addresses'')"

definition is_http_url :: "string \<Rightarrow> bool" where
  "is_http_url s \<longleftrightarrow> starts_with ''http://'' s \<or> starts_with ''https://'' s"

definition validate_discovery_target ::
  "(string \<Rightarrow> bool option) \<Rightarrow> string \<Rightarrow> string \<Rightarrow> string \<Rightarrow> unit result" where
  "validate_discovery_target ip watch_type target source =
     (let v = strip target; err = (\<lambda>m. Inl (ValueError (source @ m))) in
      if watch_type \<in> {''github_repo_watch'', ''github_repo_artifact_scan''} then
        if github_repo_re v then Inr () else err '' target must be a GitHub owner/repo name''
      else if watch_type = ''github_topic_watch'' then
        if github_topic_re (removeprefix ''topic:'' v) then Inr () else err '' target must be a GitHub topic slug''
      else if watch_type = ''github_user_org_watch'' then
        if github_account_re v then Inr () else err '' target must be a GitHub user or org name''
      else if watch_type \<in> {''rss_feed'', ''web_diff''} then
        (case validate_public_https_url ip v source ''target'' of Inl e \<Rightarrow> Inl e | Inr u \<Rightarrow> Inr ())
      else if watch_type = ''subreddit_watch'' then
        if subreddit_re v then Inr () else err '' target must be a subreddit name like r/msp''
      else if watch_type = ''youtube_channel_watch'' then
        if is_http_url v \<or> \<not> youtube_target_re v
        then err '' target must be a YouTube channel/user identifier, not a URL'' else Inr ()
      else if watch_type = ''saved_search'' then
        if is_http_url v \<or> length v > 300 then err '' target must be a saved search query'' else Inr ()
      else err ('' has no target validator for watch_type='' @ py_repr watch_type))"

section \<open>Connect-time guard\<close>

definition address_is_global :: "(string \<Rightarrow> bool option) \<Rightarrow> string \<Rightarrow> bool" where
  "address_is_global ip a = (case ip a of Some b \<Rightarrow> b | None \<Rightarrow> False)"

fun first_non_global :: "(string \<Rightarrow> bool option) \<Rightarrow> string list \<Rightarrow> string option" where
  "first_non_global ip [] = None"
| "first_non_global ip (a # as) = (if address_is_global ip a then first_non_global ip as else Some a)"

text \<open>\<open>resolve h = None\<close> is an \<open>OSError\<close> of the resolver.\<close>

definition assert_destination_is_global ::
  "(string \<Rightarrow> bool option) \<Rightarrow> (string \<Rightarrow> string list option) \<Rightarrow> string \<Rightarrow> string \<Rightarrow> string \<Rightarrow> unit result" where
  "assert_destination_is_global ip resolve host source field =
     (let cleaned = lower (rstrip_dots (strip host));
          err = (\<lambda>m. Inl (ValueError (source @ '' '' @ field @ m)))
      in if cleaned = '''' then err '' is empty''
         else if blocked_host cleaned then err ('' host is not allowed: '' @ cleaned)
         else case (case ip cleaned of Some b \<Rightarrow> Some [cleaned] | None \<Rightarrow> resolve cleaned) of
             None \<Rightarrow> err ('' host could not be resolved: '' @ cleaned)
           | Some addresses \<Rightarrow>
               if addresses = [] then err ('' host did not resolve: '' @ cleaned)
               else case first_non_global ip addresses of
                   Some a \<Rightarrow> err ('' resolves to a non-global address ('' @ a @ ''); refusing internal fetch'')
                 | None \<Rightarrow> Inr ())"

text \<open>
  One request of a guarded client is a chain of hops (redirects). The transport checks the
  host of each and then hands the request to the socket layer, which looks the host up
  again: a hop has the answers of the guard's own look-up and the address the socket then
  connects to. The hosts contacted are returned with these addresses.
\<close>

record hop =
  hp_host :: string
  hp_lookup :: "string \<Rightarrow> string list option"
  hp_peer :: string

fun guarded_fetch :: "(string \<Rightarrow> bool option) \<Rightarrow> hop list \<Rightarrow> (string \<times> string) list" where
  "guarded_fetch ip [] = []"
| "guarded_fetch ip (h # hs) =
     (case assert_destination_is_global ip (hp_lookup h) (hp_host h) ''outbound fetch'' ''url host'' of
        Inl e \<Rightarrow> []
      | Inr u \<Rightarrow> (hp_host h, hp_peer h) # guarded_fetch ip hs)"

section \<open>Lemmas\<close>

lemma first_non_global_None: "first_non_global ip as = None \<longleftrightarrow> (\<forall>a \<in> set as. ip a = Some True)"
  by (induction as) (auto simp: address_is_global_def split: option.splits)

lemma first_non_global_Some: "first_non_global ip as = Some a \<Longrightarrow> \<exists>x \<in> set as. ip x \<noteq> Some True"
  using first_non_global_None [of ip as] by auto

lemma ends_with_iff: "ends_with suf s \<longleftrightarrow> (\<exists>stem. s = stem @ suf)"
proof -
  have "starts_with (rev suf) (rev s) \<longleftrightarrow> (\<exists>rest. rev s = rev suf @ rest)"
    unfolding starts_with_def by (metis append_take_drop_id append_eq_conv_conj)
  also have "\<dots> \<longleftrightarrow> (\<exists>stem. s = stem @ suf)" by (metis rev_append rev_rev_ident)
  finally show ?thesis by (simp add: ends_with_def)
qed

section \<open>Properties\<close>

text \<open>
  A destination that may be contacted: the name is not an internal one, and it is a global
  address or every address the guard's look-up gives for it, at least one, is.
\<close>

definition global_destination :: "(string \<Rightarrow> bool option) \<Rightarrow> hop \<Rightarrow> bool" where
  "global_destination ip h =
     (let name = lower (rev (dropWhile (\<lambda>c. c = CHR ''.'') (rev (strip (hp_host h))))) in
      name \<notin> {'''', ''localhost'', ''localhost.localdomain''}
      \<and> \<not> list_ex (\<lambda>zone. \<exists>stem. name = stem @ zone) [''.local'', ''.localhost'', ''.internal'', ''.lan'', ''.home'', ''.home.arpa'']
      \<and> (case ip name of
            Some global \<Rightarrow> global
          | None \<Rightarrow> (case hp_lookup h name of None \<Rightarrow> False
              | Some addresses \<Rightarrow> addresses \<noteq> [] \<and> list_all (\<lambda>a. ip a = Some True) addresses)))"

lemma destination_iff:
  "(\<exists>u. assert_destination_is_global ip (hp_lookup h) (hp_host h) source field = Inr u) \<longleftrightarrow> global_destination ip h"
proof -
  have "(\<exists>u. assert_destination_is_global ip (hp_lookup h) (hp_host h) source field = Inr u) \<longleftrightarrow>
      (let name = lower (rstrip_dots (strip (hp_host h))) in name \<noteq> '''' \<and> \<not> blocked_host name \<and>
        (case (case ip name of Some b \<Rightarrow> Some [name] | None \<Rightarrow> hp_lookup h name) of None \<Rightarrow> False
         | Some addresses \<Rightarrow> addresses \<noteq> [] \<and> (\<forall>a \<in> set addresses. ip a = Some True)))"
    by (auto simp: assert_destination_is_global_def Let_def first_non_global_None address_is_global_def
        dest: first_non_global_Some split: option.splits if_splits)
  then show ?thesis
    by (auto simp: global_destination_def Let_def rstrip_dots_def blocked_host_def BLOCKED_HOSTS_def BLOCKED_SUFFIXES_def ends_with_iff
        list_all_iff split: option.splits)
qed

lemma fetch_until_refused:
  "guarded_fetch ip hops = map (\<lambda>h. (hp_host h, hp_peer h)) (takeWhile (global_destination ip) hops)"
proof (induction hops)
  case (Cons h hs)
  then show ?case using destination_iff [of ip h "''outbound fetch''" "''url host''"]
    by (cases "assert_destination_is_global ip (hp_lookup h) (hp_host h) ''outbound fetch'' ''url host''") auto
qed simp

text \<open>C34: 
  A guarded client contacts the hosts of the hops up to the first whose destination is refused,
  and no later one: a refused redirect ends the chain. A destination is accepted when its
  name is not an internal one and it is a global address, or every address that the guard's
  own look-up gives for it is global, at least one; names that do not resolve are refused.
  Which address the socket connects to is not constrained: it comes from a second look-up.
\<close>

theorem guarded_fetch_stays_public:
  "guarded_fetch ip hops = map (\<lambda>h. (hp_host h, hp_peer h)) (takeWhile (global_destination ip) hops)"
  by (rule fetch_until_refused)

text \<open>A name that answers the guard with a global address and the socket with another one is contacted there.\<close>

lemma rebound_name_is_contacted:
  "global_destination ip h \<Longrightarrow> guarded_fetch ip [h\<lparr>hp_peer := ''169.254.169.254''\<rparr>] = [(hp_host h, ''169.254.169.254'')]"
proof -
  have "global_destination ip (h\<lparr>hp_peer := a\<rparr>) = global_destination ip h" for a
    by (simp add: global_destination_def cong: option.case_cong)
  then show "global_destination ip h \<Longrightarrow> ?thesis" by (simp add: fetch_until_refused)
qed

definition demo_ip :: "string \<Rightarrow> bool option" where
  "demo_ip s = (if s = ''10.0.0.1'' then Some False else if s = ''93.184.216.34'' then Some True else None)"

definition demo_dns :: "string \<Rightarrow> string list option" where
  "demo_dns s = (if s = ''example.com'' then Some [''93.184.216.34'']
     else if s = ''mixed.example'' then Some [''93.184.216.34'', ''10.0.0.1''] else None)"

definition demo_hop :: "string \<Rightarrow> hop" where
  "demo_hop name = \<lparr>hp_host = name, hp_lookup = demo_dns, hp_peer = ''93.184.216.34''\<rparr>"

lemma demo_fetch:
  "guarded_fetch demo_ip (map demo_hop [''Example.com.'', ''mixed.example'', ''example.com'']) = [(''Example.com.'', ''93.184.216.34'')]"
  by code_simp

text \<open>An accepted feed or page target is an https URL without credentials whose host is
  neither on the block list nor a private address literal.\<close>

theorem accepted_url_is_public:
  assumes "validate_discovery_target ip w target source = Inr u" and "w = ''rss_feed'' \<or> w = ''web_diff''"
  shows "\<exists>p. urlparse ip (strip target) = Some p \<and> up_scheme p = ''https'' \<and> up_host p \<noteq> ''''
    \<and> \<not> has_credentials (up_userinfo p) \<and> \<not> blocked_host (lower (rstrip_dots (up_host p)))
    \<and> ip (lower (rstrip_dots (up_host p))) \<noteq> Some False"
  using assms
  by (auto simp: validate_discovery_target_def validate_public_https_url_def Let_def
      split: if_splits option.splits sum.splits bool.splits)

lemma demo_target: "validate_discovery_target demo_ip ''rss_feed'' '' https://Example.com/feed '' ''s'' = Inr ()"
  by code_simp

theorem accepted_url_is_public_witness:
  "\<exists>p. urlparse demo_ip (strip '' https://Example.com/feed '') = Some p \<and> up_scheme p = ''https''"
  using accepted_url_is_public [OF demo_target] by auto

end
