(* ===== verification/Watchlist.thy ===== *)
theory Watchlist
  imports TargetSafety
begin

text \<open>
  \<open>kb/watchlist.py\<close>: the \<open>WatchedSource\<close> definitions of the discovery subsystem and
  their validation. A Python \<open>set\<close> of names is a list here.
\<close>

record watched_source =
  ws_name :: string
  ws_watch_type :: string
  ws_target :: string
  ws_description :: string
  ws_refresh_cadence :: string
  ws_canonical_url :: string
  ws_provenance :: string
  ws_license_notes :: string
  ws_attribution :: string
  ws_trust_tier :: string
  ws_display_policy :: string
  ws_retrieval_policy :: string
  ws_curriculum_policy :: string
  ws_agent_access_policy :: string
  ws_secret_handling :: string
  ws_importance_floor :: string
  ws_active :: bool

definition ALLOWED_WATCH_TYPES :: "string list" where
  "ALLOWED_WATCH_TYPES =
     [''github_repo_watch'', ''github_repo_artifact_scan'', ''github_topic_watch'', ''github_user_org_watch'',
      ''rss_feed'', ''subreddit_watch'', ''youtube_channel_watch'', ''web_diff'', ''saved_search'']"

definition CADENCE_SECONDS :: "(string \<times> int) list" where
  "CADENCE_SECONDS = [(''hourly'', 3600), (''every_6h'', 21600), (''daily'', 86400), (''weekly'', 604800)]"

definition ALLOWED_REFRESH_CADENCES :: "string list" where
  "ALLOWED_REFRESH_CADENCES = [''hourly'', ''every_6h'', ''daily'', ''weekly'']"

definition IMPORTANCE_FLOORS :: "string list" where
  "IMPORTANCE_FLOORS = [''low'', ''normal'', ''high'']"

definition required_field :: "string \<Rightarrow> string \<Rightarrow> string \<Rightarrow> string result" where
  "required_field v field source =
     (if strip v = '''' then Inl (ValueError (source @ '' requires '' @ field)) else Inr (strip v))"

text \<open>The fields checked in turn: the first empty one raises.\<close>

definition checked_fields :: "watched_source \<Rightarrow> (string \<times> string) list" where
  "checked_fields s =
     [(''target'', ws_target s), (''description'', ws_description s), (''canonical_url'', ws_canonical_url s),
      (''provenance'', ws_provenance s), (''license_notes'', ws_license_notes s),
      (''attribution'', ws_attribution s), (''trust_tier'', ws_trust_tier s),
      (''display_policy'', ws_display_policy s), (''retrieval_policy'', ws_retrieval_policy s),
      (''agent_access_policy'', ws_agent_access_policy s), (''secret_handling'', ws_secret_handling s)]"

fun require_fields :: "string \<Rightarrow> (string \<times> string) list \<Rightarrow> unit result" where
  "require_fields name [] = Inr ()"
| "require_fields name ((f, v) # rest) =
     (case required_field v f name of Inl e \<Rightarrow> Inl e | Inr w \<Rightarrow> require_fields name rest)"

definition error_text :: "py_error \<Rightarrow> string" where
  "error_text e = (case e of ValueError s \<Rightarrow> s | _ \<Rightarrow> '''')"

text \<open>The errors one source adds, and the names seen after it.\<close>

definition source_errors ::
  "(string \<Rightarrow> bool option) \<Rightarrow> string list \<Rightarrow> watched_source \<Rightarrow> string list \<times> string list" where
  "source_errors ip names s =
     (case required_field (ws_name s) ''name'' ''watched source'' of
        Inl e \<Rightarrow> ([error_text e], names)
      | Inr name \<Rightarrow>
          ((if name \<in> set names then [''duplicate watched source name: '' @ name] else []) @
           (if ws_watch_type s \<notin> set ALLOWED_WATCH_TYPES
            then [name @ '' has unsupported watch_type: '' @ ws_watch_type s] else []) @
           (if ws_refresh_cadence s \<notin> set ALLOWED_REFRESH_CADENCES
            then [name @ '' has unsupported refresh_cadence: '' @ ws_refresh_cadence s] else []) @
           (if ws_importance_floor s \<notin> set IMPORTANCE_FLOORS
            then [name @ '' has unsupported importance_floor: '' @ ws_importance_floor s] else []) @
           (case require_fields name (checked_fields s) of
              Inl e \<Rightarrow> [error_text e]
            | Inr u \<Rightarrow> (case validate_discovery_target ip (ws_watch_type s) (ws_target s) name of
                Inl e \<Rightarrow> [error_text e] | Inr u' \<Rightarrow> [])),
           name # names))"

fun watchlist_errors ::
  "(string \<Rightarrow> bool option) \<Rightarrow> string list \<Rightarrow> watched_source list \<Rightarrow> string list" where
  "watchlist_errors ip names [] = []"
| "watchlist_errors ip names (s # ss) =
     (case source_errors ip names s of (errs, names') \<Rightarrow> errs @ watchlist_errors ip names' ss)"

definition validate_watchlist :: "(string \<Rightarrow> bool option) \<Rightarrow> watched_source list \<Rightarrow> unit result" where
  "validate_watchlist ip sources =
     (let errors = watchlist_errors ip [] sources
      in if errors \<noteq> [] then Inl (ValueError (''Invalid watchlist: '' @ join ''; '' errors)) else Inr ())"

definition refresh_seconds :: "watched_source \<Rightarrow> int result" where
  "refresh_seconds s = (case map_of CADENCE_SECONDS (ws_refresh_cadence s) of
     Some n \<Rightarrow> Inr n | None \<Rightarrow> Inl (KeyError (ws_refresh_cadence s)))"

section \<open>Lemmas\<close>

lemma source_errors_NilD:
  assumes "source_errors ip names s = ([], names')"
  shows "strip (ws_name s) \<noteq> ''''" and "strip (ws_name s) \<notin> set names" and "names' = strip (ws_name s) # names"
    and "ws_watch_type s \<in> set ALLOWED_WATCH_TYPES" and "ws_refresh_cadence s \<in> set ALLOWED_REFRESH_CADENCES"
    and "ws_importance_floor s \<in> set IMPORTANCE_FLOORS"
    and "validate_discovery_target ip (ws_watch_type s) (ws_target s) (strip (ws_name s)) = Inr ()"
  using assms by (auto simp: source_errors_def required_field_def split: if_splits sum.splits)

lemma watchlist_errors_NilD:
  "watchlist_errors ip names ss = [] \<Longrightarrow>
     distinct (map (strip \<circ> ws_name) ss) \<and> set (map (strip \<circ> ws_name) ss) \<inter> set names = {}
     \<and> (\<forall>s \<in> set ss. \<exists>ns ns'. source_errors ip ns s = ([], ns'))"
proof (induction ss arbitrary: names)
  case (Cons s ss)
  obtain errs names' where e: "source_errors ip names s = (errs, names')" by force
  with Cons.prems have nil: "errs = []" "watchlist_errors ip names' ss = []" by simp_all
  note S = source_errors_NilD [OF e [unfolded nil(1)]]
  from Cons.IH [OF nil(2)] S e nil(1) show ?case by auto
qed simp

lemma valid_watchlistD:
  assumes "validate_watchlist ip ss = Inr u" and "s \<in> set ss"
  shows "strip (ws_name s) \<noteq> ''''" and "ws_watch_type s \<in> set ALLOWED_WATCH_TYPES"
    and "\<exists>n. refresh_seconds s = Inr n \<and> 3600 \<le> n" and "ws_importance_floor s \<in> set IMPORTANCE_FLOORS"
    and "validate_discovery_target ip (ws_watch_type s) (ws_target s) (strip (ws_name s)) = Inr ()"
proof -
  have "watchlist_errors ip [] ss = []" using assms(1) by (auto simp: validate_watchlist_def Let_def split: if_splits)
  with assms(2) obtain ns ns' where e: "source_errors ip ns s = ([], ns')" using watchlist_errors_NilD by blast
  note S = source_errors_NilD [OF e]
  show "strip (ws_name s) \<noteq> ''''" "ws_watch_type s \<in> set ALLOWED_WATCH_TYPES" "ws_importance_floor s \<in> set IMPORTANCE_FLOORS"
    "validate_discovery_target ip (ws_watch_type s) (ws_target s) (strip (ws_name s)) = Inr ()"
    using S by simp_all
  show "\<exists>n. refresh_seconds s = Inr n \<and> 3600 \<le> n"
    using S(5) by (auto simp: refresh_seconds_def CADENCE_SECONDS_def ALLOWED_REFRESH_CADENCES_def)
qed

section \<open>Properties\<close>

text \<open>In an accepted watch list no two sources share a name after trimming, every source has
  a supported type, cadence and floor, its cadence converts to at least an hour, and its
  target passes the safety check of its type.\<close>

theorem accepted_watchlist_well_formed:
  assumes "validate_watchlist ip ss = Inr u"
  shows "distinct (map (strip \<circ> ws_name) ss)
    \<and> (\<forall>s \<in> set ss. ws_watch_type s \<in> set ALLOWED_WATCH_TYPES \<and> ws_importance_floor s \<in> set IMPORTANCE_FLOORS
        \<and> (\<exists>n. refresh_seconds s = Inr n \<and> 3600 \<le> n)
        \<and> validate_discovery_target ip (ws_watch_type s) (ws_target s) (strip (ws_name s)) = Inr ())"
proof -
  have "watchlist_errors ip [] ss = []" using assms by (auto simp: validate_watchlist_def Let_def split: if_splits)
  then show ?thesis using watchlist_errors_NilD valid_watchlistD [OF assms] by blast
qed

definition demo_source :: "string \<Rightarrow> string \<Rightarrow> string \<Rightarrow> watched_source" where
  "demo_source name w target =
     \<lparr>ws_name = name, ws_watch_type = w, ws_target = target, ws_description = ''d'', ws_refresh_cadence = ''daily'',
      ws_canonical_url = ''c'', ws_provenance = ''p'', ws_license_notes = ''l'', ws_attribution = ''a'',
      ws_trust_tier = ''t'', ws_display_policy = ''d'', ws_retrieval_policy = ''r'', ws_curriculum_policy = '''',
      ws_agent_access_policy = ''a'', ws_secret_handling = ''s'', ws_importance_floor = ''normal'', ws_active = True\<rparr>"

lemma demo_list_valid:
  "validate_watchlist demo_ip [demo_source ''a'' ''rss_feed'' ''https://example.com'', demo_source ''b'' ''github_repo_watch'' ''o/r''] = Inr ()"
  by code_simp

theorem accepted_watchlist_well_formed_witness:
  "distinct [''a'', ''b''] \<and> refresh_seconds (demo_source ''b'' ''github_repo_watch'' ''o/r'') = Inr 86400"
  using accepted_watchlist_well_formed [OF demo_list_valid]
  by (simp add: demo_source_def refresh_seconds_def CADENCE_SECONDS_def)

text \<open>The validator covers the allowed watch types exactly: it is closed by default for any
  other type, and no allowed type falls through to that refusal.\<close>

theorem validator_covers_allowed_types:
  "(validate_discovery_target ip w target source = Inl (ValueError (source @ '' has no target validator for watch_type='' @ py_repr w)))
    \<longleftrightarrow> w \<notin> set ALLOWED_WATCH_TYPES"
  by (auto simp: validate_discovery_target_def validate_public_https_url_def Let_def ALLOWED_WATCH_TYPES_def
      split: if_splits option.splits sum.splits bool.splits)

end
