(* ===== verification/DiscoveryReview.thy ===== *)
theory DiscoveryReview
  imports Prelude "HOL-Library.List_Lexorder"
begin

text \<open>
  \<open>core/discovery_summary.py\<close>, the scoring part: \<open>discovery_review_metadata\<close> and the
  functions it calls. A find is given by the fields the scoring reads. The summary page
  built from the scores (\<open>summarize_discovery_finds\<close>) is not modelled.
\<close>

section \<open>Input and output\<close>

record review_input =
  ri_title :: string
  ri_summary_text :: string
  ri_url :: string
  ri_source_name :: string
  ri_watch_type :: string
  ri_finding_type :: string
  ri_importance_signal :: string

record review_metadata =
  rm_topic :: string
  rm_tags :: "string list"
  rm_content_type :: string
  rm_event_kind :: string
  rm_lane :: string
  rm_approval_required :: bool
  rm_publish_score :: int
  rm_ingest_score :: int
  rm_newsletter_candidate :: bool
  rm_routine_update :: bool

definition NEWSLETTER_THRESHOLD :: int where "NEWSLETTER_THRESHOLD = 55"
definition INGEST_THRESHOLD :: int where "INGEST_THRESHOLD = 60"
definition ROUTINE_THRESHOLD :: int where "ROUTINE_THRESHOLD = 30"

definition has_any :: "string \<Rightarrow> string list \<Rightarrow> bool" where
  "has_any text needles \<longleftrightarrow> list_ex (\<lambda>n. contains n text) needles"

section \<open>Classification\<close>

definition topic_of :: "string \<Rightarrow> string \<Rightarrow> string" where
  "topic_of finding_type text =
     (if finding_type = ''new_source_candidate'' then ''New sources to consider''
      else if has_any text [''release'', ''changelog'', ''version'', ''tagged'', ''breaking'']
      then ''Releases and major updates''
      else if has_any text [''workflow'', ''bundle'', ''template'', ''automation'', ''crate'']
      then ''Workflows, bundles, and templates''
      else if has_any text [''app builder'', ''html'', ''ui'', ''component'', ''page''] then ''App Builder and UI''
      else if has_any text [''jinja'', ''filter'', ''schema'', ''json'', ''api''] then ''Schemas, filters, Jinja, and APIs''
      else if has_any text [''docs'', ''documentation'', ''reference'', ''guide'', ''lesson''] then ''Docs and references''
      else if has_any text [''reddit'', ''forum'', ''discord'', ''community'', ''youtube''] then ''Community signals''
      else if has_any text [''github'', ''commit'', ''repository'', ''repo''] then ''Repository activity''
      else if finding_type = ''diff'' then ''Tracked page changes''
      else ''General automation intelligence'')"

definition TAG_NEEDLES :: "(string \<times> string list) list" where
  "TAG_NEEDLES =
     [(''release'', [''release'', ''changelog'', ''version'']),
      (''workflow'', [''workflow'', ''bundle'', ''template'']),
      (''docs'', [''docs'', ''documentation'', ''reference'', ''guide'']),
      (''community'', [''reddit'', ''forum'', ''discord'', ''youtube'', ''community'']),
      (''github'', [''github'', ''repository'', ''commit'', ''pull request'']),
      (''app-builder'', [''app builder'', ''html'', ''ui'', ''component'']),
      (''api-schema'', [''api'', ''schema'', ''json'', ''jinja'', ''filter'']),
      (''editorial'', [''blog'', ''newsletter'', ''article'', ''linkedin'', ''post''])]"

definition tags_of :: "string \<Rightarrow> string \<Rightarrow> string \<Rightarrow> string list" where
  "tags_of finding_type importance text =
     (let tags = (if finding_type = ''new_source_candidate'' then [''new-source''] else [])
            @ (if importance = ''high'' then [''high-importance''] else [])
            @ map fst (filter (\<lambda>(tag, needles). has_any text needles) TAG_NEEDLES)
      in if tags = [] then [''review''] else sort (remdups tags))"

definition content_type_of :: "string \<Rightarrow> string \<Rightarrow> string" where
  "content_type_of finding_type text =
     (if finding_type = ''new_source_candidate'' then ''source''
      else if has_any text [''blog'', ''newsletter'', ''article'', ''linkedin'', ''post''] then ''article''
      else if has_any text [''workflow'', ''bundle'', ''template''] then ''workflow''
      else if has_any text [''repo'', ''repository'', ''github''] then ''repo''
      else if has_any text [''lesson'', ''course'', ''tutorial'', ''guide''] then ''education''
      else if has_any text [''docs'', ''documentation'', ''reference'', ''api'', ''schema''] then ''reference''
      else ''update'')"

definition event_kind_of :: "string \<Rightarrow> string \<Rightarrow> string \<Rightarrow> string" where
  "event_kind_of finding_type watch_type text =
     (if finding_type = ''new_source_candidate'' then ''new_source''
      else if finding_type \<in> {''release'', ''video'', ''post''}
           \<or> has_any text [''new post'', ''new article'', ''release'', ''changelog''] then ''new_content''
      else if finding_type = ''diff'' \<or> watch_type \<in> {''github_repo_artifact_scan'', ''web_diff_watch''}
           \<or> has_any text [''updated'', ''changed'', ''commit''] then ''source_update''
      else ''discovery'')"

section \<open>Scores\<close>

definition clamp100 :: "int \<Rightarrow> int" where
  "clamp100 n = max 0 (min n 100)"

definition publish_score_of ::
  "string \<Rightarrow> string \<Rightarrow> string \<Rightarrow> string list \<Rightarrow> string \<Rightarrow> string \<Rightarrow> int" where
  "publish_score_of finding_type importance text tags content_type event_kind = clamp100
     ((if importance = ''high'' then 45 else if importance = ''normal'' then 20 else if importance = ''low'' then 5 else 15)
      + (if finding_type = ''new_source_candidate'' then 35 else 0)
      + (if ''release'' \<in> set tags then 25 else 0)
      + (if content_type \<in> {''article'', ''repo'', ''education''} then 15 else 0)
      + (if event_kind = ''new_content'' then 20 else 0)
      + (if ''workflow'' \<in> set tags \<or> ''api-schema'' \<in> set tags then 15 else 0)
      + (if ''docs'' \<in> set tags \<or> ''app-builder'' \<in> set tags then 10 else 0)
      + (if ''community'' \<in> set tags then 10 else 0)
      - (if finding_type = ''diff'' \<and> event_kind \<noteq> ''new_content'' \<and> \<not> has_any text [''release'', ''major'', ''breaking'']
         then 10 else 0)
      - (if event_kind = ''source_update''
            \<and> \<not> has_any text [''release'', ''major'', ''new'', ''added'', ''bundle'', ''workflow''] then 15 else 0))"

definition ingest_score_of :: "string \<Rightarrow> string list \<Rightarrow> string \<Rightarrow> string \<Rightarrow> string \<Rightarrow> int" where
  "ingest_score_of importance tags content_type event_kind finding_type =
     (if event_kind = ''new_source'' then 0
      else if event_kind = ''source_update'' \<and> finding_type \<in> {''artifact'', ''diff''}
           \<and> {''workflow'', ''api-schema'', ''app-builder''} \<inter> set tags = {} then 0
      else clamp100
        ((if importance = ''high'' then 40 else if importance = ''normal'' then 20 else if importance = ''low'' then 5 else 15)
         + (if content_type \<in> {''workflow'', ''reference'', ''repo''} then 30 else 0)
         + (if ''workflow'' \<in> set tags \<or> ''api-schema'' \<in> set tags then 25 else 0)
         + (if ''docs'' \<in> set tags \<or> ''app-builder'' \<in> set tags then 20 else 0)
         + (if content_type = ''education'' then 10 else 0)))"

definition review_lane_of :: "string \<Rightarrow> int \<Rightarrow> int \<Rightarrow> string list \<Rightarrow> bool \<Rightarrow> string" where
  "review_lane_of event_kind publish ingest tags routine =
     (if ''new-source'' \<in> set tags \<or> event_kind = ''new_source'' then ''new_discoveries''
      else if routine then ''routine_updates''
      else if publish \<ge> NEWSLETTER_THRESHOLD then ''publish_candidates''
      else if ingest \<ge> INGEST_THRESHOLD then ''kb_ingestion_candidates''
      else if event_kind = ''source_update'' then ''source_updates''
      else ''low_signal'')"

definition notable_source_update :: "string \<Rightarrow> bool" where
  "notable_source_update text \<longleftrightarrow>
     has_any text [''release'', ''major'', ''breaking'', ''workflow'', ''bundle'', ''schema'', ''api'', ''lesson'', ''tutorial'']"

definition discovery_review_metadata :: "review_input \<Rightarrow> review_metadata" where
  "discovery_review_metadata r =
     (let text = lower (join '' '' [ri_title r, ri_summary_text r, ri_url r, ri_source_name r, ri_watch_type r, ri_finding_type r]);
          signal = lower (join '' '' [ri_title r, ri_summary_text r, ri_finding_type r]);
          ft = ri_finding_type r;
          importance = str_or (ri_importance_signal r) ''normal'';
          tags = tags_of ft importance text;
          ct = content_type_of ft text;
          ek = event_kind_of ft (ri_watch_type r) signal;
          publish0 = publish_score_of ft importance signal tags ct ek;
          ingest = ingest_score_of importance tags ct ek ft;
          publish = (if ''new-source'' \<in> set tags then min publish0 (NEWSLETTER_THRESHOLD - 1) else publish0);
          routine = (ek = ''source_update'' \<and> publish < ROUTINE_THRESHOLD
            \<and> (importance = ''low'' \<or> ingest < INGEST_THRESHOLD) \<and> \<not> notable_source_update signal);
          lane = review_lane_of ek publish ingest tags routine
      in \<lparr>rm_topic = topic_of ft text, rm_tags = tags, rm_content_type = ct, rm_event_kind = ek, rm_lane = lane,
          rm_approval_required = (lane \<noteq> ''routine_updates'' \<and> lane \<noteq> ''low_signal''),
          rm_publish_score = publish, rm_ingest_score = ingest,
          rm_newsletter_candidate = (publish \<ge> NEWSLETTER_THRESHOLD \<and> ''new-source'' \<notin> set tags),
          rm_routine_update = routine\<rparr>)"

lemma clamp100_range: "0 \<le> clamp100 n \<and> clamp100 n \<le> 100"
  by (simp add: clamp100_def)

lemma new_source_tag: "''new-source'' \<in> set (tags_of ft importance text) \<longleftrightarrow> ft = ''new_source_candidate''"
  by (auto simp: tags_of_def Let_def TAG_NEEDLES_def)

section \<open>Properties\<close>

text \<open>Scores stay between 0 and 100; a proposed source always waits for an operator in its own
  lane and is never a newsletter candidate; and every newsletter candidate needs
  approval.\<close>

theorem review_lanes_consistent:
  "(let m = discovery_review_metadata r in
      0 \<le> rm_publish_score m \<and> rm_publish_score m \<le> 100 \<and> 0 \<le> rm_ingest_score m \<and> rm_ingest_score m \<le> 100
      \<and> (ri_finding_type r = ''new_source_candidate'' \<longrightarrow>
           rm_lane m = ''new_discoveries'' \<and> rm_approval_required m \<and> \<not> rm_newsletter_candidate m)
      \<and> (rm_newsletter_candidate m \<longrightarrow> rm_lane m = ''publish_candidates'' \<and> rm_approval_required m))"
proof -
  have p: "0 \<le> publish_score_of a b c d e f \<and> publish_score_of a b c d e f \<le> 100" for a b c d e f
    by (simp add: publish_score_of_def clamp100_range)
  have i: "0 \<le> ingest_score_of a b c d e \<and> ingest_score_of a b c d e \<le> 100" for a b c d e
    by (simp add: ingest_score_of_def clamp100_range)
  have k: "event_kind_of ft w t = ''new_source'' \<longleftrightarrow> ft = ''new_source_candidate''" for ft w t
    by (simp add: event_kind_of_def)
  show ?thesis
    unfolding discovery_review_metadata_def Let_def review_metadata.simps
    using p i by (auto simp: new_source_tag review_lane_of_def k NEWSLETTER_THRESHOLD_def ROUTINE_THRESHOLD_def min_def)
qed

definition proposed_source :: review_input where
  "proposed_source = \<lparr>ri_title = ''New release feed'', ri_summary_text = ''high value'', ri_url = ''https://x'',
     ri_source_name = ''scout'', ri_watch_type = ''saved_search'', ri_finding_type = ''new_source_candidate'',
     ri_importance_signal = ''high''\<rparr>"

theorem review_lanes_consistent_witness:
  "rm_lane (discovery_review_metadata proposed_source) = ''new_discoveries''
    \<and> \<not> rm_newsletter_candidate (discovery_review_metadata proposed_source)"
  using review_lanes_consistent [of proposed_source] by (simp add: Let_def proposed_source_def)

end
