(* ===== verification/DiscoveryState.thy ===== *)
theory DiscoveryState
  imports Watchlist DiscoveryReview Json Tables
begin

text \<open>
  The discovery tables of \<open>core/db/models.py\<close> (\<open>DiscoverySource\<close>, \<open>DiscoveryFind\<close>,
  \<open>DiscoveryAudit\<close>) as lists of rows, together with the two outside stores the finds
  are written to: the vector index (a list of find ids, one per stored document) and the
  library repository (a list of file paths). Row ids come from a supply of fresh ids,
  which stands for \<open>uuid4\<close>.
\<close>

section \<open>Rows\<close>

record discovery_source =
  so_id :: string
  so_name :: string
  so_watch_type :: string
  so_target :: string
  so_refresh_interval_seconds :: int
  so_importance_floor :: string
  so_active :: bool
  so_last_polled_at :: "utc option"
  so_last_status :: string
  so_last_error :: string
  so_notes :: string
  so_etag :: string
  so_last_modified :: string
  so_consecutive_failures :: int
  so_featured :: bool
  so_created_at :: utc
  so_updated_at :: "utc option"

record discovery_find =
  fi_id :: string
  fi_source_id :: string
  fi_finding_type :: string
  fi_external_id :: string
  fi_title :: string
  fi_url :: string
  fi_summary_text :: string
  fi_raw_payload :: string
  fi_importance_signal :: string
  fi_first_seen_at :: utc
  fi_last_seen_at :: utc
  fi_status :: string
  fi_decision_notes :: string
  fi_reviewer :: string
  fi_decided_at :: "utc option"
  fi_ingested_into_chroma :: bool
  fi_published_to_library_repo :: bool
  fi_library_target_path :: string
  fi_library_file_url :: string
  fi_library_promotion_error :: string
  fi_promoted_at :: "utc option"
  fi_featured :: bool
  fi_featured_at :: "utc option"
  fi_ticker_featured :: bool
  fi_ticker_featured_at :: "utc option"
  fi_newsletter_pending :: bool
  fi_dismissed :: bool
  fi_newsletter_issue_id :: "string option"
  fi_published_in_newsletter_at :: "utc option"
  fi_category :: string
  fi_child_count :: int
  fi_last_upstream_updated_at :: "utc option"
  fi_created_at :: utc

datatype audit_event =
    SourceAdded | SourceUpdated | PollStarted | PollSucceeded | PollFailed | FindSeen | FindDecision
  | LibraryPromoted | FindUnpublished | LibraryUnpublished | KbPurged

record discovery_audit =
  au_find_id :: "string option"
  au_source_id :: "string option"
  au_event_type :: audit_event
  au_actor :: string
  au_before_state :: string
  au_after_state :: string
  au_reason :: string
  au_created_at :: utc

record discovery_db =
  dd_sources :: "discovery_source list"
  dd_finds :: "discovery_find list"
  dd_audits :: "discovery_audit list"
  dd_chroma :: "string list"
  dd_library :: "string list"
  dd_fresh :: "string list"

definition plain_source :: "utc \<Rightarrow> string \<Rightarrow> string \<Rightarrow> string \<Rightarrow> string \<Rightarrow> discovery_source" where
  "plain_source now sid name w target =
     \<lparr>so_id = sid, so_name = name, so_watch_type = w, so_target = target, so_refresh_interval_seconds = 86400,
      so_importance_floor = ''normal'', so_active = True, so_last_polled_at = None, so_last_status = '''',
      so_last_error = '''', so_notes = '''', so_etag = '''', so_last_modified = '''', so_consecutive_failures = 0,
      so_featured = False, so_created_at = now, so_updated_at = None\<rparr>"

definition plain_find :: "utc \<Rightarrow> string \<Rightarrow> string \<Rightarrow> string \<Rightarrow> string \<Rightarrow> string \<Rightarrow> string \<Rightarrow> discovery_find" where
  "plain_find now fid sid ftype ext title url =
     \<lparr>fi_id = fid, fi_source_id = sid, fi_finding_type = ftype, fi_external_id = ext, fi_title = title, fi_url = url,
      fi_summary_text = '''', fi_raw_payload = ''{}'', fi_importance_signal = ''normal'', fi_first_seen_at = now,
      fi_last_seen_at = now, fi_status = ''pending'', fi_decision_notes = '''', fi_reviewer = '''',
      fi_decided_at = None, fi_ingested_into_chroma = False, fi_published_to_library_repo = False,
      fi_library_target_path = '''', fi_library_file_url = '''', fi_library_promotion_error = '''',
      fi_promoted_at = None, fi_featured = False, fi_featured_at = None, fi_ticker_featured = False,
      fi_ticker_featured_at = None, fi_newsletter_pending = False, fi_dismissed = False,
      fi_newsletter_issue_id = None, fi_published_in_newsletter_at = None, fi_category = '''', fi_child_count = 0,
      fi_last_upstream_updated_at = None, fi_created_at = now\<rparr>"

section \<open>Reading and writing rows\<close>

text \<open>\<open>session.add\<close> and \<open>flush\<close> of a new row takes the next fresh id.\<close>

definition next_id :: "discovery_db \<Rightarrow> string" where
  "next_id db = (case dd_fresh db of [] \<Rightarrow> '''' | i # _ \<Rightarrow> i)"

definition use_id :: "discovery_db \<Rightarrow> discovery_db" where
  "use_id db = db\<lparr>dd_fresh := tl (dd_fresh db)\<rparr>"

definition source_by_id :: "discovery_db \<Rightarrow> string \<Rightarrow> discovery_source option" where
  "source_by_id db i = find_row so_id i (dd_sources db)"

definition source_by_name :: "discovery_db \<Rightarrow> string \<Rightarrow> discovery_source option" where
  "source_by_name db n = find_row so_name n (dd_sources db)"

text \<open>The join of a find with its source, by find id.\<close>

definition find_with_source :: "discovery_db \<Rightarrow> string \<Rightarrow> (discovery_find \<times> discovery_source) option" where
  "find_with_source db i =
     (case find_row fi_id i (dd_finds db) of
        None \<Rightarrow> None
      | Some f \<Rightarrow> map_option (\<lambda>s. (f, s)) (source_by_id db (fi_source_id f)))"

definition joined :: "discovery_db \<Rightarrow> (discovery_find \<times> discovery_source) list" where
  "joined db = List.map_filter (\<lambda>f. map_option (\<lambda>s. (f, s)) (source_by_id db (fi_source_id f))) (dd_finds db)"

definition put_find :: "discovery_find \<Rightarrow> discovery_db \<Rightarrow> discovery_db" where
  "put_find f db = db\<lparr>dd_finds := update_where (\<lambda>x. fi_id x = fi_id f) (\<lambda>_. f) (dd_finds db)\<rparr>"

definition put_source :: "discovery_source \<Rightarrow> discovery_db \<Rightarrow> discovery_db" where
  "put_source s db = db\<lparr>dd_sources := update_where (\<lambda>x. so_id x = so_id s) (\<lambda>_. s) (dd_sources db)\<rparr>"

definition add_audit :: "discovery_audit \<Rightarrow> discovery_db \<Rightarrow> discovery_db" where
  "add_audit a db = db\<lparr>dd_audits := dd_audits db @ [a]\<rparr>"

definition add_source :: "discovery_source \<Rightarrow> discovery_db \<Rightarrow> discovery_db" where
  "add_source s db = use_id (db\<lparr>dd_sources := dd_sources db @ [s]\<rparr>)"

definition add_find :: "discovery_find \<Rightarrow> discovery_db \<Rightarrow> discovery_db" where
  "add_find f db = use_id (db\<lparr>dd_finds := dd_finds db @ [f]\<rparr>)"

definition audit_of ::
  "utc \<Rightarrow> audit_event \<Rightarrow> string option \<Rightarrow> string option \<Rightarrow> string \<Rightarrow> string \<Rightarrow> string \<Rightarrow> string \<Rightarrow> discovery_audit" where
  "audit_of now ev fid sid actor before after why =
     \<lparr>au_find_id = fid, au_source_id = sid, au_event_type = ev, au_actor = actor, au_before_state = before,
      au_after_state = after, au_reason = why, au_created_at = now\<rparr>"

definition reviewer_actor :: "string \<Rightarrow> string" where
  "reviewer_actor reviewer = (if reviewer = '''' then ''reviewer'' else ''reviewer:'' @ reviewer)"

text \<open>\<open>ORDER BY t DESC\<close>; equal stamps keep the order of the rows.\<close>

definition newest_first :: "('a \<Rightarrow> utc) \<Rightarrow> 'a list \<Rightarrow> 'a list" where
  "newest_first t xs = sort_key (\<lambda>x. - t x) xs"

section \<open>JSON text\<close>

definition json_char :: "char \<Rightarrow> string" where
  "json_char c = (let n = (of_char c :: nat) in
     if n = 34 then [char_of (92 :: nat), c] else if n = 92 then [c, c]
     else if n = 10 then [char_of (92 :: nat)] @ ''n'' else if n = 13 then [char_of (92 :: nat)] @ ''r''
     else if n = 9 then [char_of (92 :: nat)] @ ''t'' else if n = 8 then [char_of (92 :: nat)] @ ''b''
     else if n = 12 then [char_of (92 :: nat)] @ ''f''
     else if n < 32 \<or> 128 \<le> n then [char_of (92 :: nat)] @ ''u00'' @ [hex_digit (n div 16), hex_digit (n mod 16)]
     else [c])"

definition json_quote :: "string \<Rightarrow> string" where
  "json_quote s = [CHR 0x22] @ concat (map json_char s) @ [CHR 0x22]"

definition json_bool :: "bool \<Rightarrow> string" where
  "json_bool b = (if b then ''true'' else ''false'')"

text \<open>\<open>json.dumps\<close> of a flat dictionary whose values are rendered already.\<close>

definition json_object :: "(string \<times> string) list \<Rightarrow> string" where
  "json_object kvs = ''{'' @ join '', '' (map (\<lambda>(k, v). json_quote k @ '': '' @ v) kvs) @ ''}''"

definition source_audit_state :: "discovery_source \<Rightarrow> string" where
  "source_audit_state s = json_object
     [(''active'', json_bool (so_active s)), (''importance_floor'', json_quote (so_importance_floor s)),
      (''notes'', json_quote (take 256 (so_notes s))),
      (''refresh_interval_seconds'', str_of_int (so_refresh_interval_seconds s))]"

section \<open>What an operation needs from outside\<close>

text \<open>
  The clock; \<open>json.loads\<close> (\<open>None\<close> for a \<open>JSONDecodeError\<close>); \<open>repr\<close> of values that are
  no strings; the address check of the target validator; the outcome of publishing to
  and deleting from the library repository (\<open>Inl\<close> the exception), of the two index
  calls (\<open>Some\<close> the exception) and of each commit, by the row it saves (the name of a
  new source, the id of any other row). An exception is its class and its message. A call
  of the library or of the index that raises has changed nothing there.
\<close>

type_synonym exn = "string \<times> string"

record publish_result =
  pr_public_url :: string
  pr_commit_url :: string
  pr_path :: string

record discovery_env =
  de_now :: utc
  de_loads :: "string \<Rightarrow> json option"
  de_repr :: "json \<Rightarrow> string"
  de_ip :: "string \<Rightarrow> bool option"
  de_publish :: "exn + publish_result"
  de_delete :: "exn + publish_result"
  de_ingest_error :: "exn option"
  de_purge_error :: "exn option"
  de_commit :: "string \<Rightarrow> exn option"

text \<open>
  The end of an operation: its writes are committed and \<open>x\<close> is returned, or the commit
  raises and the session is rolled back, which leaves the tables as they were. What the
  operation did to the index or the library before is not undone.
\<close>

definition committing ::
  "discovery_env \<Rightarrow> string \<Rightarrow> 'a \<Rightarrow> (discovery_db \<Rightarrow> discovery_db) \<Rightarrow> discovery_db \<Rightarrow> 'a result \<times> discovery_db" where
  "committing e key x writes db =
     (case de_commit e key of None \<Rightarrow> (Inr x, writes db) | Some exc \<Rightarrow> (Inl (Raised (fst exc)), db))"

text \<open>Committing, then raising; a failing commit raises its own exception instead.\<close>

definition raise_after :: "py_error \<Rightarrow> 'a result \<times> discovery_db \<Rightarrow> 'b result \<times> discovery_db" where
  "raise_after err r = (case r of (Inl err', db) \<Rightarrow> (Inl err', db) | (Inr x, db) \<Rightarrow> (Inl err, db))"

lemma snd_raise_after [simp]: "snd (raise_after err r) = snd r"
  by (simp add: raise_after_def split: prod.split sum.split)

lemma committing_db: "snd (committing e key x writes db) = (if de_commit e key = None then writes db else db)"
  by (simp add: committing_def split: option.split)

definition is_linebreak :: "char \<Rightarrow> bool" where
  "is_linebreak c \<longleftrightarrow> (of_char c :: nat) \<in> {10, 11, 12, 13, 28, 29, 30, 133}"

text \<open>
  \<open>_error_summary\<close>: the first line of the message after the class. An empty message has
  no lines, and indexing the first raises.
\<close>

definition error_summary :: "exn \<Rightarrow> string result" where
  "error_summary exc =
     (if snd exc = '''' then Inl (Raised ''IndexError'')
      else Inr (take 512 (fst exc @ '': '' @ takeWhile (\<lambda>c. \<not> is_linebreak c) (snd exc))))"

text \<open>\<open>xs[:n]\<close>.\<close>

definition slice_to :: "int \<Rightarrow> 'a list \<Rightarrow> 'a list" where
  "slice_to n xs = (if 0 \<le> n then take (nat n) xs else take (length xs - nat (- n)) xs)"

abbreviation published_url :: "publish_result \<Rightarrow> string" where
  "published_url p \<equiv> str_or (pr_public_url p) (pr_commit_url p)"

text \<open>The fields the publishing of a find sets.\<close>

definition mark_published :: "utc \<Rightarrow> publish_result \<Rightarrow> discovery_find \<Rightarrow> discovery_find" where
  "mark_published now p f =
     f\<lparr>fi_published_to_library_repo := True, fi_library_target_path := pr_path p,
       fi_library_file_url := published_url p, fi_library_promotion_error := '''', fi_promoted_at := Some now\<rparr>"

definition library_put :: "publish_result \<Rightarrow> discovery_db \<Rightarrow> discovery_db" where
  "library_put p db = db\<lparr>dd_library := (if pr_path p \<in> set (dd_library db) then dd_library db else dd_library db @ [pr_path p])\<rparr>"

definition library_delete :: "string \<Rightarrow> discovery_db \<Rightarrow> discovery_db" where
  "library_delete p db = db\<lparr>dd_library := filter (\<lambda>x. x \<noteq> p) (dd_library db)\<rparr>"

definition chroma_add :: "string \<Rightarrow> discovery_db \<Rightarrow> discovery_db" where
  "chroma_add i db = db\<lparr>dd_chroma := dd_chroma db @ [i]\<rparr>"

definition chroma_purge :: "string \<Rightarrow> discovery_db \<Rightarrow> discovery_db" where
  "chroma_purge i db = db\<lparr>dd_chroma := filter (\<lambda>x. x \<noteq> i) (dd_chroma db)\<rparr>"

section \<open>Lemmas\<close>

lemma put_find_fields [simp]:
  "dd_sources (put_find f db) = dd_sources db" "dd_audits (put_find f db) = dd_audits db"
  "dd_chroma (put_find f db) = dd_chroma db" "dd_library (put_find f db) = dd_library db"
  "dd_fresh (put_find f db) = dd_fresh db" "length (dd_finds (put_find f db)) = length (dd_finds db)"
  by (simp_all add: put_find_def)

lemma put_source_fields [simp]:
  "dd_finds (put_source s db) = dd_finds db" "dd_audits (put_source s db) = dd_audits db"
  "dd_chroma (put_source s db) = dd_chroma db" "dd_library (put_source s db) = dd_library db"
  "dd_fresh (put_source s db) = dd_fresh db"
  by (simp_all add: put_source_def)

lemma add_audit_fields [simp]:
  "dd_finds (add_audit a db) = dd_finds db" "dd_sources (add_audit a db) = dd_sources db"
  "dd_chroma (add_audit a db) = dd_chroma db" "dd_library (add_audit a db) = dd_library db"
  "dd_fresh (add_audit a db) = dd_fresh db" "dd_audits (add_audit a db) = dd_audits db @ [a]"
  by (simp_all add: add_audit_def)

lemma library_chroma_fields [simp]:
  "dd_finds (library_put p db) = dd_finds db" "dd_sources (library_put p db) = dd_sources db"
  "dd_audits (library_put p db) = dd_audits db" "dd_chroma (library_put p db) = dd_chroma db"
  "dd_finds (library_delete x db) = dd_finds db" "dd_sources (library_delete x db) = dd_sources db"
  "dd_audits (library_delete x db) = dd_audits db" "dd_chroma (library_delete x db) = dd_chroma db"
  "dd_finds (chroma_add i db) = dd_finds db" "dd_sources (chroma_add i db) = dd_sources db"
  "dd_audits (chroma_add i db) = dd_audits db" "dd_library (chroma_add i db) = dd_library db"
  "dd_finds (chroma_purge i db) = dd_finds db" "dd_sources (chroma_purge i db) = dd_sources db"
  "dd_audits (chroma_purge i db) = dd_audits db" "dd_library (chroma_purge i db) = dd_library db"
  by (simp_all add: library_put_def library_delete_def chroma_add_def chroma_purge_def)

lemma set_put_find: "set (dd_finds (put_find f db)) \<subseteq> insert f (set (dd_finds db))"
  by (auto simp: put_find_def update_where_def)

lemma find_with_sourceD:
  "find_with_source db i = Some (f, s) \<Longrightarrow> f \<in> set (dd_finds db) \<and> fi_id f = i \<and> s \<in> set (dd_sources db) \<and> so_id s = fi_source_id f"
  by (auto simp: find_with_source_def source_by_id_def dest!: find_row_SomeD split: option.splits)

lemma joinedD: "(f, s) \<in> set (joined db) \<Longrightarrow> f \<in> set (dd_finds db) \<and> source_by_id db (fi_source_id f) = Some s"
  by (auto simp: joined_def List.map_filter_def)

lemma newest_first_set [simp]: "set (newest_first t xs) = set xs"
  by (simp add: newest_first_def)

lemma newest_first_length [simp]: "length (newest_first t xs) = length xs"
  by (simp add: newest_first_def)

lemma newest_first_sorted: "sorted_wrt (\<lambda>a b. t a \<ge> t b) (newest_first t xs)"
proof -
  have "sorted (map (\<lambda>x. - t x) (newest_first t xs))" by (simp add: newest_first_def)
  then show ?thesis unfolding sorted_map by simp
qed

end
