(* ===== verification/DiscoveryQueue.thy ===== *)
theory DiscoveryQueue
  imports DiscoveryState
begin

text \<open>
  \<open>core/discovery_queue.py\<close>: the review queue. Each operation takes what it needs from
  outside (\<open>discovery_env\<close>), its arguments and the tables, and gives its result and the
  tables it committed: an exception before or in the commit leaves the tables as they
  were, one after it does not. A find is returned with its source; the dictionaries that the
  serializers render from the two are not modelled.
\<close>

type_synonym found = "discovery_find \<times> discovery_source"
type_synonym 'a op = "discovery_db \<Rightarrow> 'a result \<times> discovery_db"

definition PUBLIC_FIND_STATUSES :: "string list" where
  "PUBLIC_FIND_STATUSES = [''approved'', ''published'', ''auto_indexed'']"

definition not_found :: "string \<Rightarrow> py_error" where
  "not_found i = LookupError (''Discovery find not found: '' @ i)"

section \<open>Listings\<close>

definition review_input_of :: "found \<Rightarrow> review_input" where
  "review_input_of fs = (case fs of (f, s) \<Rightarrow>
     \<lparr>ri_title = fi_title f, ri_summary_text = fi_summary_text f, ri_url = fi_url f, ri_source_name = so_name s,
      ri_watch_type = so_watch_type s, ri_finding_type = fi_finding_type f,
      ri_importance_signal = fi_importance_signal f\<rparr>)"

definition list_pending_finds :: "int \<Rightarrow> int \<Rightarrow> discovery_db \<Rightarrow> found list" where
  "list_pending_finds limit offset db =
     sql_limit limit (sql_offset offset (newest_first (fi_created_at \<circ> fst)
       (filter (\<lambda>(f, s). fi_status f = ''pending'') (joined db))))"

definition status_filter :: "string option \<Rightarrow> found \<Rightarrow> bool" where
  "status_filter status fs =
     (if status = Some ''reviewed'' then fi_status (fst fs) \<in> {''approved'', ''published'', ''withdrawn''}
      else if opt_str_or status '''' \<noteq> '''' then fi_status (fst fs) = the status
      else True)"

definition list_recent_finds :: "int \<Rightarrow> string option \<Rightarrow> bool \<Rightarrow> discovery_db \<Rightarrow> found list" where
  "list_recent_finds limit0 status include_activity db =
     (let limit = max 1 (min limit0 250);
          query_limit = (if include_activity \<or> status \<noteq> Some ''pending'' then limit else min (limit * 5) 1000);
          finds = sql_limit query_limit (newest_first (fi_created_at \<circ> fst) (filter (status_filter status) (joined db)));
          shown = (if status = Some ''pending'' \<and> \<not> include_activity
            then filter (\<lambda>fs. rm_approval_required (discovery_review_metadata (review_input_of fs))) finds else finds)
      in slice_to limit shown)"

definition list_source_health :: "discovery_db \<Rightarrow> discovery_source list" where
  "list_source_health db = sort_key so_name (dd_sources db)"

definition TICKER_WINDOW_DAYS :: int where "TICKER_WINDOW_DAYS = 30"
definition TICKER_MAX_ITEMS :: int where "TICKER_MAX_ITEMS = 10"

definition opt_time :: "utc option \<Rightarrow> utc" where
  "opt_time t = (case t of Some x \<Rightarrow> x | None \<Rightarrow> 0)"

text \<open>\<open>ORDER BY decided_at DESC, created_at DESC\<close>.\<close>

definition list_public_latest_finds :: "utc \<Rightarrow> int \<Rightarrow> int \<Rightarrow> int \<Rightarrow> discovery_db \<Rightarrow> found list" where
  "list_public_latest_finds now limit offset n_days db =
     (let since = now - days (max 1 (min n_days 365))
      in sql_limit limit (sql_offset offset
           (newest_first (opt_time \<circ> fi_decided_at \<circ> fst) (newest_first (fi_created_at \<circ> fst)
             (filter (\<lambda>(f, s). fi_status f \<in> set PUBLIC_FIND_STATUSES \<and> fi_decided_at f \<noteq> None
                \<and> opt_time (fi_decided_at f) \<ge> since) (joined db))))))"

definition on_ticker :: "utc \<Rightarrow> discovery_find \<Rightarrow> bool" where
  "on_ticker now f \<longleftrightarrow> fi_ticker_featured f \<and> fi_ticker_featured_at f \<noteq> None
     \<and> opt_time (fi_ticker_featured_at f) \<ge> now - days TICKER_WINDOW_DAYS
     \<and> \<not> fi_dismissed f \<and> fi_status f \<noteq> ''rejected''"

definition list_ticker_finds :: "utc \<Rightarrow> int \<Rightarrow> discovery_db \<Rightarrow> found list" where
  "list_ticker_finds now limit db =
     sql_limit (max 1 (min limit TICKER_MAX_ITEMS))
       (newest_first (opt_time \<circ> fi_ticker_featured_at \<circ> fst) (filter (\<lambda>(f, s). on_ticker now f) (joined db)))"

text \<open>SQL \<open>LIKE\<close> on lower-cased ASCII text: \<open>%\<close> any run, \<open>_\<close> any character.\<close>

definition ascii_lower :: "string \<Rightarrow> string" where
  "ascii_lower s = map (\<lambda>c. let n = (of_char c :: nat) in if 65 \<le> n \<and> n \<le> 90 then char_of (n + 32) else c) s"

fun like :: "string \<Rightarrow> string \<Rightarrow> bool" where
  "like [] s = (s = [])"
| "like (p # ps) [] = (p = CHR ''%'' \<and> like ps [])"
| "like (p # ps) (c # cs) =
     (if p = CHR ''%'' then like ps (c # cs) \<or> like (p # ps) cs
      else (p = CHR ''_'' \<or> p = c) \<and> like ps cs)"

definition ilike :: "string \<Rightarrow> string \<Rightarrow> bool" where
  "ilike text pat \<longleftrightarrow> like (ascii_lower pat) (ascii_lower text)"

record find_page =
  fp_finds :: "found list"
  fp_page :: int
  fp_page_size :: int
  fp_total :: int
  fp_total_pages :: int

definition source_filter :: "utc \<Rightarrow> string \<Rightarrow> int option \<Rightarrow> string option \<Rightarrow> discovery_find \<Rightarrow> bool" where
  "source_filter now sid n_days topic f \<longleftrightarrow>
     fi_source_id f = sid
     \<and> (case n_days of Some n \<Rightarrow> n > 0 \<longrightarrow> fi_first_seen_at f \<ge> now - days (min n 3650) | None \<Rightarrow> True)
     \<and> (opt_str_or topic '''' \<noteq> '''' \<longrightarrow>
          (let pat = ''%'' @ lower (the topic) @ ''%'' in ilike (fi_title f) pat \<or> ilike (fi_summary_text f) pat))"

definition list_finds_for_source ::
  "utc \<Rightarrow> string \<Rightarrow> int \<Rightarrow> int \<Rightarrow> int option \<Rightarrow> string option \<Rightarrow> discovery_db \<Rightarrow> find_page" where
  "list_finds_for_source now sid page0 size0 n_days topic db =
     (let page = max 1 page0; size = max 1 (min size0 200);
          total = int (length (filter (source_filter now sid n_days topic) (dd_finds db)))
      in \<lparr>fp_finds = sql_limit size (sql_offset ((page - 1) * size)
            (newest_first (fi_first_seen_at \<circ> fst) (filter (source_filter now sid n_days topic \<circ> fst) (joined db)))),
          fp_page = page, fp_page_size = size, fp_total = total,
          fp_total_pages = (if total = 0 then 0 else (total + size - 1) div size)\<rparr>)"

definition uncurated :: "discovery_find \<Rightarrow> bool" where
  "uncurated f \<longleftrightarrow> fi_status f = ''auto_indexed'' \<and> \<not> fi_ticker_featured f \<and> \<not> fi_newsletter_pending f \<and> \<not> fi_dismissed f"

definition count_uncurated_finds_per_source :: "discovery_db \<Rightarrow> (string \<times> nat) list" where
  "count_uncurated_finds_per_source db =
     (let rows = filter uncurated (dd_finds db)
      in map (\<lambda>sid. (sid, length (filter (\<lambda>f. fi_source_id f = sid) rows))) (remdups (map fi_source_id rows)))"

subsection \<open>Sources with their recent activity\<close>

record activity =
  ac_source :: discovery_source
  ac_last_activity_at :: "utc option"
  ac_total_finds :: nat
  ac_notable_finds :: nat
  ac_featured_finds :: nat
  ac_sample_titles :: "string list"
  ac_recent_finds :: "discovery_find list"

definition new_activity :: "discovery_source \<Rightarrow> activity" where
  "new_activity s = \<lparr>ac_source = s, ac_last_activity_at = None, ac_total_finds = 0, ac_notable_finds = 0,
     ac_featured_finds = 0, ac_sample_titles = [], ac_recent_finds = []\<rparr>"

definition add_activity :: "discovery_find \<Rightarrow> activity \<Rightarrow> activity" where
  "add_activity f b =
     b\<lparr>ac_total_finds := ac_total_finds b + 1,
       ac_notable_finds := ac_notable_finds b +
         (if fi_status f \<in> {''auto_indexed'', ''approved'', ''published''} \<and> fi_finding_type f \<noteq> ''new_source_candidate''
          then 1 else 0),
       ac_featured_finds := ac_featured_finds b + (if fi_featured f then 1 else 0),
       ac_last_activity_at := (case ac_last_activity_at b of
           None \<Rightarrow> Some (fi_last_seen_at f)
         | Some t \<Rightarrow> if fi_last_seen_at f > t then Some (fi_last_seen_at f) else Some t),
       ac_recent_finds := (if length (ac_recent_finds b) < 8 \<and> fi_status f \<noteq> ''source_activity''
         then ac_recent_finds b @ [f] else ac_recent_finds b),
       ac_sample_titles := (if length (ac_sample_titles b) < 5 \<and> fi_title f \<noteq> '''' \<and> fi_title f \<notin> set (ac_sample_titles b)
         then ac_sample_titles b @ [fi_title f] else ac_sample_titles b)\<rparr>"

definition bucket_find :: "found \<Rightarrow> (string \<times> activity) list \<Rightarrow> (string \<times> activity) list" where
  "bucket_find fs by_source = (case fs of (f, s) \<Rightarrow>
     dict_set (so_id s)
       (add_activity f (case dict_get by_source (so_id s) of Some b \<Rightarrow> b | None \<Rightarrow> new_activity s)) by_source)"

definition list_sources_with_activity :: "utc \<Rightarrow> int \<Rightarrow> int \<Rightarrow> discovery_db \<Rightarrow> activity list" where
  "list_sources_with_activity now window_days limit db =
     (let cutoff = now - days (max window_days 1);
          rows = newest_first (fi_last_seen_at \<circ> fst) (filter (\<lambda>(f, s). fi_last_seen_at f \<ge> cutoff) (joined db));
          sources = map snd (fold bucket_find rows [])
      in slice_to limit
           (sort_key (\<lambda>b. if so_featured (ac_source b) then 0 else 1 :: nat)
             (newest_first (opt_time \<circ> ac_last_activity_at) sources)))"

section \<open>Operator-managed sources\<close>

definition add_watched_source :: "discovery_env \<Rightarrow> watched_source \<Rightarrow> string \<Rightarrow> string \<Rightarrow> discovery_source op" where
  "add_watched_source e w notes actor db =
     (case validate_watchlist (de_ip e) [w] of
        Inl err \<Rightarrow> (Inl err, db)
      | Inr u \<Rightarrow>
          if source_by_name db (ws_name w) \<noteq> None
          then (Inl (ValueError (''Discovery source already exists: '' @ ws_name w)), db)
          else case refresh_seconds w of
              Inl err \<Rightarrow> (Inl err, db)
            | Inr secs \<Rightarrow>
                if source_by_name db (strip (ws_name w)) \<noteq> None then (Inl (Raised ''IntegrityError''), db)
                else let s = (plain_source (de_now e) (next_id db) (strip (ws_name w)) (strip (ws_watch_type w)) (strip (ws_target w)))
                        \<lparr>so_refresh_interval_seconds := secs, so_importance_floor := strip (ws_importance_floor w),
                         so_active := ws_active w, so_notes := strip (take 2048 notes)\<rparr>
                     in committing e (ws_name w) s (\<lambda>db. add_audit (audit_of (de_now e) SourceAdded None (Some (so_id s))
                           actor '''' (source_audit_state s) (strip (take 2048 notes))) (add_source s db)) db)"

record source_update =
  su_refresh_interval_seconds :: "int option"
  su_active :: "bool option"
  su_notes :: "string option"
  su_importance_floor :: "string option"

definition apply_update :: "utc \<Rightarrow> source_update \<Rightarrow> discovery_source \<Rightarrow> discovery_source" where
  "apply_update now u s =
     s\<lparr>so_refresh_interval_seconds := (case su_refresh_interval_seconds u of Some n \<Rightarrow> n | None \<Rightarrow> so_refresh_interval_seconds s),
       so_active := (case su_active u of Some b \<Rightarrow> b | None \<Rightarrow> so_active s),
       so_notes := (case su_notes u of Some n \<Rightarrow> strip (take 2048 n) | None \<Rightarrow> so_notes s),
       so_importance_floor := (case su_importance_floor u of Some f \<Rightarrow> f | None \<Rightarrow> so_importance_floor s),
       so_updated_at := Some now\<rparr>"

definition update_watched_source :: "discovery_env \<Rightarrow> string \<Rightarrow> source_update \<Rightarrow> string \<Rightarrow> discovery_source op" where
  "update_watched_source e sid u actor db =
     (case source_by_id db sid of
        None \<Rightarrow> (Inl (LookupError (''Discovery source not found: '' @ sid)), db)
      | Some s \<Rightarrow>
          if (case su_refresh_interval_seconds u of Some n \<Rightarrow> n < 300 | None \<Rightarrow> False)
          then (Inl (ValueError ''refresh_interval_seconds must be at least 300''), db)
          else if (case su_importance_floor u of Some f \<Rightarrow> f \<notin> {''low'', ''normal'', ''high''} | None \<Rightarrow> False)
          then (Inl (ValueError ''importance_floor must be one of low, normal, high''), db)
          else let s' = apply_update (de_now e) u s
               in committing e (so_id s) s' (\<lambda>db. add_audit (audit_of (de_now e) SourceUpdated None (Some (so_id s)) actor
                     (source_audit_state s) (source_audit_state s')
                     (strip (take 2048 (opt_str_or (su_notes u) '''')))) (put_source s' db)) db)"

definition set_source_featured :: "discovery_env \<Rightarrow> string \<Rightarrow> bool \<Rightarrow> string \<Rightarrow> discovery_source op" where
  "set_source_featured e sid featured reviewer db =
     (case source_by_id db sid of
        None \<Rightarrow> (Inl (LookupError (''Discovery source not found: '' @ sid)), db)
      | Some s \<Rightarrow>
          let word = (\<lambda>b. if b then ''featured'' else ''not_featured'');
              s' = s\<lparr>so_featured := featured, so_updated_at := Some (de_now e)\<rparr>
          in committing e (so_id s) s' (\<lambda>db. add_audit (audit_of (de_now e) SourceUpdated None (Some (so_id s))
                (reviewer_actor reviewer) (word (so_featured s)) (word featured) ''feature_toggle'') (put_source s' db)) db)"

section \<open>Decisions on a find\<close>

text \<open>Run an operation on a find and its source, or raise \<open>LookupError\<close>.\<close>

definition on_find :: "string \<Rightarrow> (discovery_find \<Rightarrow> discovery_source \<Rightarrow> found op) \<Rightarrow> found op" where
  "on_find fid act db = (case find_with_source db fid of
     None \<Rightarrow> (Inl (not_found fid), db) | Some (f, s) \<Rightarrow> act f s db)"

text \<open>Save the find with an audit row and commit.\<close>

definition commit_find ::
  "discovery_env \<Rightarrow> audit_event \<Rightarrow> string \<Rightarrow> string \<Rightarrow> string \<Rightarrow> string \<Rightarrow> discovery_find \<Rightarrow> discovery_source \<Rightarrow> found op" where
  "commit_find e ev reviewer before after why f s db =
     committing e (fi_id f) (f, s) (\<lambda>db. add_audit (audit_of (de_now e) ev (Some (fi_id f)) (Some (so_id s))
        (reviewer_actor reviewer) before after why) (put_find f db)) db"

text \<open>
  A failed call of the publisher: its summary is stored and committed with the find as
  changed so far, and the exception goes on. A message without lines raises before that.
\<close>

definition publish_failed :: "discovery_env \<Rightarrow> exn \<Rightarrow> discovery_find \<Rightarrow> found op" where
  "publish_failed e exc f db =
     (case error_summary exc of
        Inl err \<Rightarrow> (Inl err, db)
      | Inr msg \<Rightarrow> raise_after (Raised (fst exc))
          (committing e (fi_id f) () (put_find (f\<lparr>fi_library_promotion_error := msg\<rparr>)) db))"

record decision_request =
  dr_decision :: string
  dr_reviewer :: string
  dr_notes :: string
  dr_ingest_into_chroma :: bool
  dr_publish_to_library :: bool

definition decided :: "utc \<Rightarrow> decision_request \<Rightarrow> discovery_find \<Rightarrow> discovery_find" where
  "decided now r f = f\<lparr>fi_reviewer := dr_reviewer r, fi_decision_notes := take 2048 (dr_notes r), fi_decided_at := Some now\<rparr>"

text \<open>The second half of a decision: status, index, stamp, audit, commit.\<close>

definition settle_find :: "discovery_env \<Rightarrow> decision_request \<Rightarrow> discovery_find \<Rightarrow> discovery_source \<Rightarrow> found op" where
  "settle_find e r f s db =
     (let approve = (dr_decision r = ''approve'');
          before = fi_status f;
          f1 = f\<lparr>fi_status := (if approve then ''approved'' else ''rejected'')\<rparr>
      in if approve \<and> dr_ingest_into_chroma r then
           (case de_ingest_error e of
              Some exc \<Rightarrow> (Inl (Raised (fst exc)), db)
            | None \<Rightarrow> commit_find e FindDecision (dr_reviewer r) before (fi_status f1) (take 2048 (dr_notes r))
                (decided (de_now e) r (f1\<lparr>fi_ingested_into_chroma := True\<rparr>)) s (chroma_add (fi_id f) db))
         else commit_find e FindDecision (dr_reviewer r) before (fi_status f1) (take 2048 (dr_notes r))
                (decided (de_now e) r f1) s db)"

definition decide_find :: "discovery_env \<Rightarrow> string \<Rightarrow> decision_request \<Rightarrow> found op" where
  "decide_find e fid r db =
     (if dr_decision r \<notin> {''approve'', ''reject''}
      then (Inl (ValueError (''Unsupported decision: '' @ py_repr (dr_decision r))), db)
      else on_find fid (\<lambda>f s db.
        let f0 = f\<lparr>fi_ingested_into_chroma := False\<rparr> in
        if dr_decision r = ''approve'' \<and> dr_publish_to_library r \<and> \<not> fi_published_to_library_repo f then
          (case de_publish e of
             Inl exc \<Rightarrow> publish_failed e exc f0 db
           | Inr p \<Rightarrow> settle_find e r (mark_published (de_now e) p f0) s (library_put p db))
        else settle_find e r f0 s db) db)"

definition toggle_word :: "string \<Rightarrow> bool \<Rightarrow> string" where
  "toggle_word w b = (if b then w else ''not_'' @ w)"

definition stamp :: "bool \<Rightarrow> utc \<Rightarrow> utc option" where
  "stamp b now = (if b then Some now else None)"

definition set_find_featured :: "discovery_env \<Rightarrow> string \<Rightarrow> bool \<Rightarrow> string \<Rightarrow> found op" where
  "set_find_featured e fid on reviewer = on_find fid (\<lambda>f s.
     commit_find e FindDecision reviewer (toggle_word ''featured'' (fi_featured f)) (toggle_word ''featured'' on)
       ''feature_toggle'' (f\<lparr>fi_featured := on, fi_featured_at := stamp on (de_now e)\<rparr>) s)"

definition set_find_ticker_featured :: "discovery_env \<Rightarrow> string \<Rightarrow> bool \<Rightarrow> string \<Rightarrow> found op" where
  "set_find_ticker_featured e fid on reviewer = on_find fid (\<lambda>f s.
     commit_find e FindDecision reviewer (toggle_word ''ticker_featured'' (fi_ticker_featured f))
       (toggle_word ''ticker_featured'' on) ''ticker_feature_toggle''
       (f\<lparr>fi_ticker_featured := on, fi_ticker_featured_at := stamp on (de_now e),
          fi_featured := on, fi_featured_at := stamp on (de_now e),
          fi_dismissed := (if on then False else fi_dismissed f)\<rparr>) s)"

definition set_find_newsletter_pending :: "discovery_env \<Rightarrow> string \<Rightarrow> bool \<Rightarrow> string \<Rightarrow> found op" where
  "set_find_newsletter_pending e fid on reviewer = on_find fid (\<lambda>f s.
     commit_find e FindDecision reviewer (toggle_word ''newsletter_pending'' (fi_newsletter_pending f))
       (toggle_word ''newsletter_pending'' on) ''newsletter_queue_toggle''
       (f\<lparr>fi_newsletter_pending := on, fi_dismissed := (if on then False else fi_dismissed f)\<rparr>) s)"

definition set_find_dismissed :: "discovery_env \<Rightarrow> string \<Rightarrow> bool \<Rightarrow> string \<Rightarrow> found op" where
  "set_find_dismissed e fid on reviewer = on_find fid (\<lambda>f s.
     commit_find e FindDecision reviewer (toggle_word ''dismissed'' (fi_dismissed f)) (toggle_word ''dismissed'' on)
       ''dismiss_toggle''
       (if on then f\<lparr>fi_dismissed := True, fi_ticker_featured := False, fi_ticker_featured_at := None,
                    fi_newsletter_pending := False, fi_featured := False, fi_featured_at := None\<rparr>
        else f\<lparr>fi_dismissed := False\<rparr>) s)"

definition unpublish_find_from_latest :: "discovery_env \<Rightarrow> string \<Rightarrow> string \<Rightarrow> string \<Rightarrow> found op" where
  "unpublish_find_from_latest e fid reviewer notes = on_find fid (\<lambda>f s db.
     if fi_status f = ''withdrawn'' then (Inr (f, s), db)
     else if fi_status f \<notin> set PUBLIC_FIND_STATUSES
     then (Inl (ValueError ''Only public discovery finds can be unpublished from Latest''), db)
     else commit_find e FindUnpublished reviewer (fi_status f) ''withdrawn'' (take 2048 notes)
       (f\<lparr>fi_status := ''withdrawn'', fi_reviewer := reviewer, fi_decision_notes := take 2048 notes,
          fi_decided_at := Some (de_now e)\<rparr>) s db)"

definition library_state :: "discovery_find \<Rightarrow> string" where
  "library_state f = json_object [(''library_target_path'', json_quote (fi_library_target_path f)),
     (''published_to_library_repo'', json_bool (fi_published_to_library_repo f))]"

definition unpublish_find_from_library :: "discovery_env \<Rightarrow> string \<Rightarrow> string \<Rightarrow> string \<Rightarrow> found op" where
  "unpublish_find_from_library e fid reviewer notes = on_find fid (\<lambda>f s db.
     let before = library_state f;
         cleared = f\<lparr>fi_published_to_library_repo := False, fi_library_target_path := '''', fi_library_file_url := '''',
                     fi_library_promotion_error := ''''\<rparr>
     in if fi_published_to_library_repo f \<and> fi_library_target_path f \<noteq> '''' then
          (case de_delete e of
             Inl exc \<Rightarrow>
               (case error_summary exc of
                  Inl err \<Rightarrow> (Inl err, db)
                | Inr msg \<Rightarrow> raise_after (Raised (fst exc))
                    (commit_find e LibraryUnpublished reviewer before (''delete_failed:'' @ msg) (take 2048 notes)
                      (f\<lparr>fi_library_promotion_error := msg\<rparr>) s db))
           | Inr p \<Rightarrow> commit_find e LibraryUnpublished reviewer before
               (str_or (pr_commit_url p) (''deleted:'' @ pr_path p)) (take 2048 notes) cleared s
               (library_delete (pr_path p) db))
        else commit_find e LibraryUnpublished reviewer before ''not_published'' (take 2048 notes) cleared s db)"

definition purge_find_from_kb :: "discovery_env \<Rightarrow> string \<Rightarrow> string \<Rightarrow> string \<Rightarrow> found op" where
  "purge_find_from_kb e fid reviewer notes = on_find fid (\<lambda>f s db.
     let before = (if fi_ingested_into_chroma f then ''ingested'' else ''not_ingested'')
     in case de_purge_error e of
          Some exc \<Rightarrow>
            (case error_summary exc of
               Inl err \<Rightarrow> (Inl err, db)
             | Inr msg \<Rightarrow> raise_after (Raised (fst exc)) (committing e (fi_id f) ()
                 (add_audit (audit_of (de_now e) KbPurged (Some (fi_id f)) (Some (so_id s)) (reviewer_actor reviewer)
                   before (''purge_failed:'' @ msg) (take 2048 notes))) db))
        | None \<Rightarrow> commit_find e KbPurged reviewer before ''not_ingested'' (take 2048 notes)
            (f\<lparr>fi_ingested_into_chroma := False\<rparr>) s (chroma_purge (fi_id f) db))"

definition promote_find_to_library :: "discovery_env \<Rightarrow> string \<Rightarrow> string \<Rightarrow> string \<Rightarrow> found op" where
  "promote_find_to_library e fid reviewer notes = on_find fid (\<lambda>f s db.
     if fi_status f \<notin> set PUBLIC_FIND_STATUSES
     then (Inl (ValueError ''Only approved discovery finds can be promoted to library''), db)
     else if fi_published_to_library_repo f \<and> fi_library_file_url f \<noteq> '''' then (Inr (f, s), db)
     else case de_publish e of
         Inl exc \<Rightarrow> publish_failed e exc f db
       | Inr p \<Rightarrow> commit_find e LibraryPromoted reviewer '''' (published_url p) (take 2048 notes)
           (mark_published (de_now e) p f) s (library_put p db))"

section \<open>Promoting a proposed source\<close>

record proposal =
  pp_name :: string
  pp_watch_type :: string
  pp_target :: string
  pp_reason :: string

definition source_candidate_payload :: "discovery_env \<Rightarrow> discovery_find \<Rightarrow> proposal result" where
  "source_candidate_payload e f =
     (case de_loads e (str_or (fi_raw_payload f) ''{}'') of
        None \<Rightarrow> Inl (ValueError ''Source candidate payload is invalid JSON'')
      | Some payload \<Rightarrow>
          (case (case payload of JObj kvs \<Rightarrow> map_of kvs ''proposal'' | _ \<Rightarrow> None) of
             Some (JObj p) \<Rightarrow>
               let field = (\<lambda>k d. strip (json_str (de_repr e)
                     (json_or (case map_of p k of Some v \<Rightarrow> v | None \<Rightarrow> JNull) (JStr d))));
                   name = field ''name'' (fi_title f); w = field ''watch_type'' '''';
                   target = field ''target'' (fi_url f); why = field ''reason'' (fi_summary_text f)
               in if name = '''' \<or> w = '''' \<or> target = ''''
                  then Inl (ValueError ''Source candidate proposal requires name, watch_type, and target'')
                  else Inr \<lparr>pp_name = name, pp_watch_type = w, pp_target = target, pp_reason = why\<rparr>
           | _ \<Rightarrow> Inl (ValueError ''Source candidate payload does not include a proposal'')))"

text \<open>Each run of characters outside the class becomes one \<open>r\<close>.\<close>

fun squeeze :: "(char \<Rightarrow> bool) \<Rightarrow> char \<Rightarrow> bool \<Rightarrow> string \<Rightarrow> string" where
  "squeeze ok r in_run [] = []"
| "squeeze ok r in_run (c # cs) =
     (if ok c then c # squeeze ok r False cs
      else if in_run then squeeze ok r True cs else r # squeeze ok r True cs)"

definition strip_char :: "char \<Rightarrow> string \<Rightarrow> string" where
  "strip_char c s = rev (dropWhile (\<lambda>x. x = c) (rev (dropWhile (\<lambda>x. x = c) s)))"

definition source_name_slug :: "string \<Rightarrow> string" where
  "source_name_slug v =
     take 80 (str_or (strip_char (CHR ''_'') (squeeze is_alnum (CHR ''_'') False (lower v))) ''discovery_source'')"

definition candidate_canonical_url :: "string \<Rightarrow> string \<Rightarrow> string" where
  "candidate_canonical_url w target =
     (if w \<in> {''github_repo_watch'', ''github_repo_artifact_scan''} then ''https://github.com/'' @ target
      else if w = ''subreddit_watch'' then ''https://www.reddit.com/r/'' @ strip_char (CHR ''/'') target
      else target)"

definition watched_source_from_proposal :: "proposal \<Rightarrow> string \<Rightarrow> watched_source" where
  "watched_source_from_proposal p cadence =
     (let name = source_name_slug (pp_name p); target = strip (pp_target p); w = strip (pp_watch_type p);
          url = candidate_canonical_url w target
      in \<lparr>ws_name = name, ws_watch_type = w, ws_target = target,
          ws_description = str_or (pp_reason p) (''Discovery-promoted source '' @ name @ ''.''),
          ws_refresh_cadence = cadence, ws_canonical_url = url,
          ws_provenance = ''Promoted from discovery source candidate: '' @ url,
          ws_license_notes = ''Link and summarize only unless upstream licensing explicitly permits reuse.'',
          ws_attribution = ''Upstream source owner.'', ws_trust_tier = ''public_reviewed_source'',
          ws_display_policy = ''public_after_source_review'',
          ws_retrieval_policy = ''approved_for_grounded_retrieval_after_review'',
          ws_curriculum_policy = ''not_approved_by_default'',
          ws_agent_access_policy = ''read_only_public_source_only'',
          ws_secret_handling = ''no_credentials_required'', ws_importance_floor = ''normal'', ws_active = True\<rparr>)"

definition planned_sources :: "proposal \<Rightarrow> string \<Rightarrow> bool \<Rightarrow> watched_source list" where
  "planned_sources p cadence add_artifact_scan =
     watched_source_from_proposal p cadence #
     (if add_artifact_scan \<and> pp_watch_type p = ''github_repo_watch''
      then [watched_source_from_proposal
              (p\<lparr>pp_name := pp_name p @ ''_artifacts'', pp_watch_type := ''github_repo_artifact_scan''\<rparr>) cadence]
      else [])"

definition ensure_source_names_available :: "discovery_db \<Rightarrow> string list \<Rightarrow> unit result" where
  "ensure_source_names_available db names =
     (let existing = filter (\<lambda>n. n \<in> set names) (map so_name (dd_sources db))
      in if existing \<noteq> [] then Inl (ValueError (''Discovery source already exists: '' @ join '', '' (sort existing)))
         else Inr ())"

text \<open>Each source is added and committed on its own; the first failure stops the loop.\<close>

fun add_all_sources ::
  "discovery_env \<Rightarrow> string \<Rightarrow> string \<Rightarrow> watched_source list \<Rightarrow> discovery_source list op" where
  "add_all_sources e notes actor [] db = (Inr [], db)"
| "add_all_sources e notes actor (w # ws) db =
     (case add_watched_source e w notes actor db of
        (Inl err, db1) \<Rightarrow> (Inl err, db1)
      | (Inr s, db1) \<Rightarrow>
          (case add_all_sources e notes actor ws db1 of
             (Inl err, db2) \<Rightarrow> (Inl err, db2)
           | (Inr ss, db2) \<Rightarrow> (Inr (s # ss), db2)))"

definition promote_find_to_source ::
  "discovery_env \<Rightarrow> string \<Rightarrow> string \<Rightarrow> string \<Rightarrow> string \<Rightarrow> bool \<Rightarrow> (found \<times> discovery_source list) op" where
  "promote_find_to_source e fid reviewer notes cadence add_artifact_scan db =
     (case find_with_source db fid of
        None \<Rightarrow> (Inl (not_found fid), db)
      | Some (f, s) \<Rightarrow>
          if fi_finding_type f \<noteq> ''new_source_candidate''
          then (Inl (ValueError ''Only new_source_candidate findings can be promoted to watched sources''), db)
          else if fi_status f \<noteq> ''pending''
          then (Inl (ValueError ''Only pending source candidates can be promoted to watched sources''), db)
          else case source_candidate_payload e f of
              Inl err \<Rightarrow> (Inl err, db)
            | Inr p \<Rightarrow>
                let planned = planned_sources p cadence add_artifact_scan in
                (case validate_watchlist (de_ip e) planned of
                   Inl err \<Rightarrow> (Inl err, db)
                 | Inr u \<Rightarrow>
                     (case ensure_source_names_available db (map ws_name planned) of
                        Inl err \<Rightarrow> (Inl err, db)
                      | Inr u \<Rightarrow>
                          (case add_all_sources e notes (''reviewer:'' @ reviewer) planned db of
                             (Inl err, db1) \<Rightarrow> (Inl err, db1)
                           | (Inr created, db1) \<Rightarrow>
                               let f' = f\<lparr>fi_status := ''approved'', fi_reviewer := reviewer,
                                     fi_decision_notes := take 2048 notes, fi_decided_at := Some (de_now e)\<rparr>
                               in apfst (map_sum id (\<lambda>fs. (fs, created)))
                                    (commit_find e FindDecision reviewer (fi_status f) ''approved_source_promoted''
                                      (take 2048 notes) f' s db1)))))"

section \<open>Hand-picked finds\<close>

definition ensure_manual_curation_source :: "discovery_env \<Rightarrow> discovery_db \<Rightarrow> discovery_source \<times> discovery_db" where
  "ensure_manual_curation_source e db =
     (case source_by_name db ''manual_curation'' of
        Some s \<Rightarrow> (s, db)
      | None \<Rightarrow>
          let s = (plain_source (de_now e) (next_id db) ''manual_curation'' ''manual_curation'' ''manual'')
                \<lparr>so_active := False,
                 so_notes := ''Synthetic source owning operator-pasted custom URLs for the newsletter pipeline.''\<rparr>
          in (s, add_audit (audit_of (de_now e) SourceAdded None (Some (so_id s)) ''system:manual_curation_bootstrap'' ''''
                (source_audit_state s) ''Manual curation singleton'') (add_source s db)))"

record manual_find =
  mf_url :: string
  mf_title :: string
  mf_description :: string
  mf_image_url :: string
  mf_source_label :: string
  mf_queue_for_newsletter :: bool
  mf_reviewer :: string

definition find_by_external :: "discovery_db \<Rightarrow> string \<Rightarrow> string \<Rightarrow> discovery_find option" where
  "find_by_external db sid ext = find_row (\<lambda>f. (fi_source_id f, fi_external_id f)) (sid, ext) (dd_finds db)"

text \<open>
  \<open>create_manual_find\<close>. The source made on first use is committed only with the find, or
  with the newsletter flag of a duplicate.
\<close>

definition create_manual_find :: "discovery_env \<Rightarrow> manual_find \<Rightarrow> found op" where
  "create_manual_find e r db =
     (let url = strip (mf_url r); title = strip (mf_title r) in
      if url = '''' \<or> title = '''' then (Inl (ValueError ''Manual find requires both url and title''), db)
      else let (s, db1) = ensure_manual_curation_source e db in
        case find_by_external db1 (so_id s) url of
          Some dup \<Rightarrow>
            if mf_queue_for_newsletter r \<and> \<not> fi_newsletter_pending dup
            then let dup' = dup\<lparr>fi_newsletter_pending := True, fi_dismissed := False\<rparr>
                 in committing e url (dup', s) (\<lambda>_. put_find dup' db1) db
            else (Inr (dup, s), db)
        | None \<Rightarrow>
            let payload = json_object [(''manual_curation'', ''true''), (''image_url'', json_quote (strip (mf_image_url r))),
                  (''source_label'', json_quote (strip (mf_source_label r))), (''added_by'', json_quote (mf_reviewer r))];
                f = (plain_find (de_now e) (next_id db1) (so_id s) ''manual_url'' url (take 300 title) url)
                  \<lparr>fi_summary_text := take 2000 (strip (mf_description r)), fi_raw_payload := payload,
                   fi_status := ''auto_indexed'', fi_reviewer := mf_reviewer r, fi_decided_at := Some (de_now e),
                   fi_newsletter_pending := mf_queue_for_newsletter r\<rparr>
            in committing e url (f, s) (\<lambda>_. add_audit (audit_of (de_now e) FindDecision (Some (fi_id f)) (Some (so_id s))
                 (reviewer_actor (mf_reviewer r)) '''' ''manual_added'' ''Operator pasted custom URL'') (add_find f db1)) db)"

end
