(* ===== verification/DiscoveryRuns.thy ===== *)
theory DiscoveryRuns
  imports DiscoveryQueue
begin

text \<open>
  Runs of the review queue's operations: what any operation may do to the finds and the
  audit log (\<open>touch\<close>), the invariants every run keeps, and the properties of the listings
  and of the single operations.
\<close>

section \<open>Runs of queue operations\<close>

datatype queue_op =
    AddSource watched_source string string
  | UpdateSource string source_update string
  | FeatureSource string bool string
  | Decide string decision_request
  | FeatureFind string bool string
  | TickerFind string bool string
  | QueueFind string bool string
  | DismissFind string bool string
  | UnpublishLatest string string string
  | UnpublishLibrary string string string
  | PurgeKb string string string
  | PromoteLibrary string string string
  | PromoteSource string string string string bool
  | ManualFind manual_find

fun run_op :: "discovery_env \<Rightarrow> queue_op \<Rightarrow> discovery_db \<Rightarrow> discovery_db" where
  "run_op e (AddSource w notes actor) db = snd (add_watched_source e w notes actor db)"
| "run_op e (UpdateSource i u actor) db = snd (update_watched_source e i u actor db)"
| "run_op e (FeatureSource i on reviewer) db = snd (set_source_featured e i on reviewer db)"
| "run_op e (Decide i r) db = snd (decide_find e i r db)"
| "run_op e (FeatureFind i on reviewer) db = snd (set_find_featured e i on reviewer db)"
| "run_op e (TickerFind i on reviewer) db = snd (set_find_ticker_featured e i on reviewer db)"
| "run_op e (QueueFind i on reviewer) db = snd (set_find_newsletter_pending e i on reviewer db)"
| "run_op e (DismissFind i on reviewer) db = snd (set_find_dismissed e i on reviewer db)"
| "run_op e (UnpublishLatest i reviewer notes) db = snd (unpublish_find_from_latest e i reviewer notes db)"
| "run_op e (UnpublishLibrary i reviewer notes) db = snd (unpublish_find_from_library e i reviewer notes db)"
| "run_op e (PurgeKb i reviewer notes) db = snd (purge_find_from_kb e i reviewer notes db)"
| "run_op e (PromoteLibrary i reviewer notes) db = snd (promote_find_to_library e i reviewer notes db)"
| "run_op e (PromoteSource i reviewer notes cadence scan) db = snd (promote_find_to_source e i reviewer notes cadence scan db)"
| "run_op e (ManualFind r) db = snd (create_manual_find e r db)"

definition run_ops :: "(discovery_env \<times> queue_op) list \<Rightarrow> discovery_db \<Rightarrow> discovery_db" where
  "run_ops ops db = fold (\<lambda>(e, op). run_op e op) ops db"

text \<open>
  What one operation may do to the tables: rows are only added or rewritten one by one.
  \<open>touch db db'\<close> says that the finds of \<open>db'\<close> are those of \<open>db\<close> with at most one
  rewritten, or one added, and that audit rows were only appended.
\<close>

inductive touch :: "discovery_db \<Rightarrow> discovery_db \<Rightarrow> bool" for db where
  finds_kept: "dd_finds db' = dd_finds db \<Longrightarrow> dd_audits db' = dd_audits db @ as \<Longrightarrow> touch db db'"
| find_put: "f \<in> set (dd_finds db) \<Longrightarrow> fi_id f' = fi_id f \<Longrightarrow> fi_source_id f' = fi_source_id f \<Longrightarrow>
    fi_external_id f' = fi_external_id f \<Longrightarrow>
    dd_finds db' = update_where (\<lambda>x. fi_id x = fi_id f) (\<lambda>_. f') (dd_finds db) \<Longrightarrow>
    dd_audits db' = dd_audits db @ as \<Longrightarrow>
    (fi_status f' \<noteq> fi_status f \<Longrightarrow> \<exists>a \<in> set as. au_find_id a = Some (fi_id f) \<and> au_before_state a = fi_status f
        \<and> (au_event_type a = FindDecision \<or> au_event_type a = FindUnpublished)) \<Longrightarrow>
    (fi_dismissed f' \<Longrightarrow> fi_dismissed f \<and> (fi_ticker_featured f' \<longrightarrow> fi_ticker_featured f)
        \<and> (fi_newsletter_pending f' \<longrightarrow> fi_newsletter_pending f) \<or> \<not> fi_ticker_featured f' \<and> \<not> fi_newsletter_pending f') \<Longrightarrow>
    touch db db'"
| find_added: "\<not> fi_dismissed f' \<Longrightarrow> dd_finds db' = dd_finds db @ [f'] \<Longrightarrow> dd_audits db' = dd_audits db @ as \<Longrightarrow> touch db db'"

lemma touch_refl [intro]: "touch db db"
  by (rule finds_kept [where as = "[]"]) simp_all

lemma commit_find_tables [simp]:
  "dd_finds (snd (commit_find e ev rv b a w f s db)) =
     (if de_commit e (fi_id f) = None then update_where (\<lambda>x. fi_id x = fi_id f) (\<lambda>_. f) (dd_finds db) else dd_finds db)"
  "dd_audits (snd (commit_find e ev rv b a w f s db)) = dd_audits db @
     (if de_commit e (fi_id f) = None
      then [audit_of (de_now e) ev (Some (fi_id f)) (Some (so_id s)) (reviewer_actor rv) b a w] else [])"
  by (simp_all add: commit_find_def committing_db put_find_def)

lemma audit_of_fields [simp]:
  "au_find_id (audit_of now ev fid sid actor b a w) = fid" "au_event_type (audit_of now ev fid sid actor b a w) = ev"
  "au_before_state (audit_of now ev fid sid actor b a w) = b"
  by (simp_all add: audit_of_def)

text \<open>A committed find that keeps its identity and its status, or changes it with an audit row.\<close>

lemma touch_commit:
  assumes "find_with_source db fid = Some (f, s)"
    and "fi_id f' = fi_id f" "fi_source_id f' = fi_source_id f" "fi_external_id f' = fi_external_id f"
    and "fi_status f' \<noteq> fi_status f \<Longrightarrow> b = fi_status f \<and> (ev = FindDecision \<or> ev = FindUnpublished)"
    and "fi_dismissed f' \<Longrightarrow> fi_dismissed f \<and> (fi_ticker_featured f' \<longrightarrow> fi_ticker_featured f)
        \<and> (fi_newsletter_pending f' \<longrightarrow> fi_newsletter_pending f) \<or> \<not> fi_ticker_featured f' \<and> \<not> fi_newsletter_pending f'"
    and "dd_finds db1 = dd_finds db" "dd_audits db1 = dd_audits db @ as"
  shows "touch db (snd (commit_find e ev rv b a w f' s db1))"
proof (cases "de_commit e (fi_id f') = None")
  case True
  show ?thesis
  proof (rule find_put)
    show "f \<in> set (dd_finds db)" using find_with_sourceD [OF assms(1)] by simp
    show "dd_audits (snd (commit_find e ev rv b a w f' s db1)) = dd_audits db @
        as @ [audit_of (de_now e) ev (Some (fi_id f)) (Some (so_id s)) (reviewer_actor rv) b a w]"
      using True assms by simp
  qed (use True assms in auto)
qed (use assms in \<open>auto intro: finds_kept\<close>)

lemma touch_put:
  assumes "find_with_source db fid = Some (f, s)"
    and "fi_id f' = fi_id f" "fi_source_id f' = fi_source_id f" "fi_external_id f' = fi_external_id f"
    and "fi_status f' = fi_status f" "fi_dismissed f' = fi_dismissed f" "fi_ticker_featured f' = fi_ticker_featured f"
    "fi_newsletter_pending f' = fi_newsletter_pending f" "dd_finds db1 = dd_finds db" "dd_audits db1 = dd_audits db"
  shows "touch db (put_find f' db1)"
proof (rule find_put [where as = "[]"])
  show "f \<in> set (dd_finds db)" using find_with_sourceD [OF assms(1)] by simp
  show "dd_finds (put_find f' db1) = update_where (\<lambda>x. fi_id x = fi_id f) (\<lambda>_. f') (dd_finds db)"
    using assms by (simp add: put_find_def)
qed (use assms in auto)

lemma add_source_tables [simp]:
  "dd_finds (add_source s db) = dd_finds db" "dd_audits (add_source s db) = dd_audits db"
  "dd_sources (add_source s db) = dd_sources db @ [s]"
  by (simp_all add: add_source_def use_id_def)

lemma add_watched_source_tables:
  "dd_finds (snd (add_watched_source e w notes actor db)) = dd_finds db
    \<and> (\<exists>as. dd_audits (snd (add_watched_source e w notes actor db)) = dd_audits db @ as)"
  by (auto simp: add_watched_source_def committing_db Let_def split: sum.splits)

lemma add_all_sources_tables:
  "dd_finds (snd (add_all_sources e notes actor ws db)) = dd_finds db
    \<and> (\<exists>as. dd_audits (snd (add_all_sources e notes actor ws db)) = dd_audits db @ as)"
proof (induction ws arbitrary: db)
  case (Cons w ws)
  obtain r db1 where r: "add_watched_source e w notes actor db = (r, db1)" by force
  then have "dd_finds db1 = dd_finds db" "\<exists>as. dd_audits db1 = dd_audits db @ as"
    using add_watched_source_tables [of e w "notes" actor db] by simp_all
  then show ?case using Cons.IH [of db1] r by (cases r) (auto split: prod.splits sum.splits)
qed simp

lemma publish_failed_touch:
  assumes "find_with_source db fid = Some (f, s)"
    and "fi_id f' = fi_id f" "fi_source_id f' = fi_source_id f" "fi_external_id f' = fi_external_id f"
    and "fi_status f' = fi_status f" "fi_dismissed f' = fi_dismissed f" "fi_ticker_featured f' = fi_ticker_featured f"
    "fi_newsletter_pending f' = fi_newsletter_pending f"
  shows "touch db (snd (publish_failed e exc f' db))"
  using touch_put [OF assms(1), of "f'\<lparr>fi_library_promotion_error := _\<rparr>" db] assms
  by (auto simp: publish_failed_def committing_db split: sum.splits)

lemma settle_find_touch:
  assumes "find_with_source db fid = Some (f, s)"
    and "fi_id f' = fi_id f" "fi_source_id f' = fi_source_id f" "fi_external_id f' = fi_external_id f"
    and "fi_status f' = fi_status f" "fi_dismissed f' = fi_dismissed f" "fi_ticker_featured f' = fi_ticker_featured f"
    "fi_newsletter_pending f' = fi_newsletter_pending f" "dd_finds db1 = dd_finds db" "dd_audits db1 = dd_audits db"
  shows "touch db (snd (settle_find e r f' s db1))"
proof -
  have commit: "touch db (snd (commit_find e FindDecision rv (fi_status f') a w (decided now r g) s db2))"
    if "g = f'\<lparr>fi_status := st\<rparr> \<or> g = f'\<lparr>fi_status := st, fi_ingested_into_chroma := True\<rparr>"
      "dd_finds db2 = dd_finds db" "dd_audits db2 = dd_audits db" for rv a w now g st db2
  proof -
    have g: "fi_id g = fi_id f'" "fi_source_id g = fi_source_id f'" "fi_external_id g = fi_external_id f'"
      "fi_dismissed g = fi_dismissed f'" "fi_ticker_featured g = fi_ticker_featured f'"
      "fi_newsletter_pending g = fi_newsletter_pending f'"
      using that(1) by auto
    show ?thesis
      by (rule touch_commit [OF assms(1), where as = "[]"]) (simp_all add: decided_def g assms that(2,3))
  qed
  have none: "touch db db1" using assms(9,10) by (intro finds_kept [where as = "[]"]) simp_all
  have c1: "touch db (snd (commit_find e FindDecision rv (fi_status f') a w
      (decided now r (f'\<lparr>fi_status := st, fi_ingested_into_chroma := True\<rparr>)) s (chroma_add i db1)))"
    and c2: "touch db (snd (commit_find e FindDecision rv (fi_status f') a w (decided now r (f'\<lparr>fi_status := st\<rparr>)) s db1))"
    for rv a w now st i
    using assms(9,10) by (auto intro!: commit simp del: commit_find_tables)
  show ?thesis
    unfolding settle_find_def Let_def by (simp add: none c1 c2 del: commit_find_tables split: option.split)
qed

lemma on_find_touch:
  "(\<And>f s. find_with_source db fid = Some (f, s) \<Longrightarrow> touch db (snd (act f s db))) \<Longrightarrow> touch db (snd (on_find fid act db))"
  by (auto simp: on_find_def split: option.splits)

lemma touch_source_op:
  "touch db (snd (add_watched_source e w n actor db))" "touch db (snd (update_watched_source e i u actor db))"
  "touch db (snd (set_source_featured e i on rv db))"
  using add_watched_source_tables [of e w n actor db]
  by (auto simp: update_watched_source_def set_source_featured_def committing_db Let_def intro: finds_kept
      split: option.splits)

lemma touch_toggles:
  "touch db (snd (set_find_featured e i on rv db))" "touch db (snd (set_find_ticker_featured e i on rv db))"
  "touch db (snd (set_find_newsletter_pending e i on rv db))" "touch db (snd (set_find_dismissed e i on rv db))"
proof -
  show "touch db (snd (set_find_featured e i on rv db))"
    unfolding set_find_featured_def
    by (rule on_find_touch, rule touch_commit [where as = "[]"], assumption) auto
  show "touch db (snd (set_find_ticker_featured e i on rv db))"
    unfolding set_find_ticker_featured_def
    by (rule on_find_touch, rule touch_commit [where as = "[]"], assumption) (auto split: if_splits)
  show "touch db (snd (set_find_newsletter_pending e i on rv db))"
    unfolding set_find_newsletter_pending_def
    by (rule on_find_touch, rule touch_commit [where as = "[]"], assumption) (auto split: if_splits)
  show "touch db (snd (set_find_dismissed e i on rv db))"
    unfolding set_find_dismissed_def
    by (rule on_find_touch, rule touch_commit [where as = "[]"], assumption) (auto split: if_splits)
qed

lemma touch_decide: "touch db (snd (decide_find e i r db))"
proof (cases "dr_decision r \<in> {''approve'', ''reject''}")
  case True
  have "touch db (snd (on_find i (\<lambda>f s db. let f0 = f\<lparr>fi_ingested_into_chroma := False\<rparr> in
        if dr_decision r = ''approve'' \<and> dr_publish_to_library r \<and> \<not> fi_published_to_library_repo f then
          (case de_publish e of
             Inl exc \<Rightarrow> publish_failed e exc f0 db
           | Inr p \<Rightarrow> settle_find e r (mark_published (de_now e) p f0) s (library_put p db))
        else settle_find e r f0 s db) db))"
  proof (rule on_find_touch)
    fix f s
    assume f: "find_with_source db i = Some (f, s)"
    have "touch db (snd (publish_failed e exc (f\<lparr>fi_ingested_into_chroma := False\<rparr>) db))" for exc
      by (rule publish_failed_touch [OF f]) simp_all
    moreover have "touch db (snd (settle_find e r (mark_published (de_now e) p (f\<lparr>fi_ingested_into_chroma := False\<rparr>)) s
        (library_put p db)))" for p
      by (rule settle_find_touch [OF f]) (simp_all add: mark_published_def)
    moreover have "touch db (snd (settle_find e r (f\<lparr>fi_ingested_into_chroma := False\<rparr>) s db))"
      by (rule settle_find_touch [OF f]) simp_all
    ultimately show "touch db (snd (let f0 = f\<lparr>fi_ingested_into_chroma := False\<rparr> in
        if dr_decision r = ''approve'' \<and> dr_publish_to_library r \<and> \<not> fi_published_to_library_repo f then
          (case de_publish e of
             Inl exc \<Rightarrow> publish_failed e exc f0 db
           | Inr p \<Rightarrow> settle_find e r (mark_published (de_now e) p f0) s (library_put p db))
        else settle_find e r f0 s db))"
      by (simp add: Let_def split: sum.split)
  qed
  then show ?thesis using True by (simp add: decide_find_def)
qed (auto simp: decide_find_def)

lemma touch_unpublish_latest: "touch db (snd (unpublish_find_from_latest e i rv n db))"
  unfolding unpublish_find_from_latest_def
proof (rule on_find_touch)
  fix f s
  assume f: "find_with_source db i = Some (f, s)"
  have "touch db (snd (commit_find e FindUnpublished rv (fi_status f) ''withdrawn'' (take 2048 n)
       (f\<lparr>fi_status := ''withdrawn'', fi_reviewer := rv, fi_decision_notes := take 2048 n,
          fi_decided_at := Some (de_now e)\<rparr>) s db))"
    by (rule touch_commit [OF f, where as = "[]"]) simp_all
  then show "touch db (snd (if fi_status f = ''withdrawn'' then (Inr (f, s), db)
     else if fi_status f \<notin> set PUBLIC_FIND_STATUSES
     then (Inl (ValueError ''Only public discovery finds can be unpublished from Latest''), db)
     else commit_find e FindUnpublished rv (fi_status f) ''withdrawn'' (take 2048 n)
       (f\<lparr>fi_status := ''withdrawn'', fi_reviewer := rv, fi_decision_notes := take 2048 n,
          fi_decided_at := Some (de_now e)\<rparr>) s db))"
    by auto
qed

lemma touch_unpublish_library: "touch db (snd (unpublish_find_from_library e i rv n db))"
  unfolding unpublish_find_from_library_def
proof (rule on_find_touch)
  fix f s
  assume f: "find_with_source db i = Some (f, s)"
  have keep: "touch db (snd (commit_find e LibraryUnpublished rv b a w (f\<lparr>fi_library_promotion_error := m\<rparr>) s db))"
    and clear: "dd_finds db1 = dd_finds db \<Longrightarrow> dd_audits db1 = dd_audits db \<Longrightarrow>
      touch db (snd (commit_find e LibraryUnpublished rv b a w
        (f\<lparr>fi_published_to_library_repo := False, fi_library_target_path := '''', fi_library_file_url := '''',
           fi_library_promotion_error := ''''\<rparr>) s db1))" for b a w m db1
    by (rule touch_commit [OF f, where as = "[]"]; simp)+
  show "touch db (snd (let before = library_state f;
         cleared = f\<lparr>fi_published_to_library_repo := False, fi_library_target_path := '''', fi_library_file_url := '''',
                     fi_library_promotion_error := ''''\<rparr>
     in if fi_published_to_library_repo f \<and> fi_library_target_path f \<noteq> '''' then
          (case de_delete e of
             Inl exc \<Rightarrow>
               (case error_summary exc of
                  Inl err \<Rightarrow> (Inl err, db)
                | Inr msg \<Rightarrow> raise_after (Raised (fst exc))
                    (commit_find e LibraryUnpublished rv before (''delete_failed:'' @ msg) (take 2048 n)
                      (f\<lparr>fi_library_promotion_error := msg\<rparr>) s db))
           | Inr p \<Rightarrow> commit_find e LibraryUnpublished rv before
               (str_or (pr_commit_url p) (''deleted:'' @ pr_path p)) (take 2048 n) cleared s
               (library_delete (pr_path p) db))
        else commit_find e LibraryUnpublished rv before ''not_published'' (take 2048 n) cleared s db))"
    using keep clear by (auto simp: Let_def simp del: commit_find_tables split: sum.split)
qed

lemma touch_purge: "touch db (snd (purge_find_from_kb e i rv n db))"
  unfolding purge_find_from_kb_def
proof (rule on_find_touch)
  fix f s
  assume f: "find_with_source db i = Some (f, s)"
  have "touch db (snd (commit_find e KbPurged rv b a w (f\<lparr>fi_ingested_into_chroma := False\<rparr>) s (chroma_purge x db)))" for b a w x
    by (rule touch_commit [OF f, where as = "[]"]) simp_all
  moreover have "touch db (add_audit a db)" for a
    by (rule finds_kept [where as = "[a]"]) simp_all
  ultimately show "touch db (snd (let before = (if fi_ingested_into_chroma f then ''ingested'' else ''not_ingested'')
     in case de_purge_error e of
          Some exc \<Rightarrow>
            (case error_summary exc of
               Inl err \<Rightarrow> (Inl err, db)
             | Inr msg \<Rightarrow> raise_after (Raised (fst exc)) (committing e (fi_id f) ()
                 (add_audit (audit_of (de_now e) KbPurged (Some (fi_id f)) (Some (so_id s)) (reviewer_actor rv)
                   before (''purge_failed:'' @ msg) (take 2048 n))) db))
        | None \<Rightarrow> commit_find e KbPurged rv before ''not_ingested'' (take 2048 n)
            (f\<lparr>fi_ingested_into_chroma := False\<rparr>) s (chroma_purge (fi_id f) db)))"
    by (auto simp: Let_def committing_db simp del: commit_find_tables split: option.split sum.split)
qed

lemma touch_promote_library: "touch db (snd (promote_find_to_library e i rv n db))"
  unfolding promote_find_to_library_def
proof (rule on_find_touch)
  fix f s
  assume f: "find_with_source db i = Some (f, s)"
  have "touch db (snd (publish_failed e exc f db))" for exc
    by (rule publish_failed_touch [OF f]) simp_all
  moreover have "touch db (snd (commit_find e LibraryPromoted rv b a w (mark_published t p f) s (library_put p db)))" for b a w t p
    by (rule touch_commit [OF f, where as = "[]"]) (simp_all add: mark_published_def)
  ultimately show "touch db (snd (if fi_status f \<notin> set PUBLIC_FIND_STATUSES
     then (Inl (ValueError ''Only approved discovery finds can be promoted to library''), db)
     else if fi_published_to_library_repo f \<and> fi_library_file_url f \<noteq> '''' then (Inr (f, s), db)
     else case de_publish e of
         Inl exc \<Rightarrow> publish_failed e exc f db
       | Inr p \<Rightarrow> commit_find e LibraryPromoted rv '''' (published_url p) (take 2048 n)
           (mark_published (de_now e) p f) s (library_put p db)))"
    by (auto split: sum.split)
qed

lemma touch_promote_source: "touch db (snd (promote_find_to_source e i rv n cadence scan db))"
proof (cases "find_with_source db i")
  case (Some fs)
  obtain f s where fs: "find_with_source db i = Some (f, s)" using Some by (cases fs) simp
  have "touch db db1" if "dd_finds db1 = dd_finds db" "\<exists>as. dd_audits db1 = dd_audits db @ as" for db1
    using that by (auto intro: finds_kept)
  moreover have "touch db (snd (commit_find e FindDecision rv (fi_status f) a w
      (f\<lparr>fi_status := ''approved'', fi_reviewer := rv, fi_decision_notes := take 2048 n, fi_decided_at := Some (de_now e)\<rparr>) s db1))"
    if "dd_finds db1 = dd_finds db" "\<exists>as. dd_audits db1 = dd_audits db @ as" for a w db1
    using that by (auto intro!: touch_commit [OF fs] simp del: commit_find_tables)
  ultimately show ?thesis
    using add_all_sources_tables [of e n "''reviewer:'' @ rv" _ db] fs
    by (auto simp: promote_find_to_source_def Let_def simp del: commit_find_tables split: sum.split prod.split) (metis snd_conv)+
qed (auto simp: promote_find_to_source_def)

lemma manual_source_tables:
  "dd_finds (snd (ensure_manual_curation_source e db)) = dd_finds db
    \<and> (\<exists>as. dd_audits (snd (ensure_manual_curation_source e db)) = dd_audits db @ as)"
  by (auto simp: ensure_manual_curation_source_def Let_def split: option.splits)

lemma add_find_tables [simp]:
  "dd_finds (add_find f db) = dd_finds db @ [f]" "dd_audits (add_find f db) = dd_audits db"
  by (simp_all add: add_find_def use_id_def)

lemma touch_manual: "touch db (snd (create_manual_find e r db))"
proof (cases "strip (mf_url r) = '''' \<or> strip (mf_title r) = ''''")
  case False
  obtain s db1 where s: "ensure_manual_curation_source e db = (s, db1)" by force
  then have same: "dd_finds db1 = dd_finds db" and audits: "\<exists>as. dd_audits db1 = dd_audits db @ as"
    using manual_source_tables [of e db] by simp_all
  have dup: "touch db (put_find (f\<lparr>fi_newsletter_pending := True, fi_dismissed := False\<rparr>) db1)"
    if f: "find_by_external db1 (so_id s) u = Some f" for u f
  proof -
    have "f \<in> set (dd_finds db)"
      using f same find_row_SomeD unfolding find_by_external_def by fastforce
    moreover obtain as where "dd_audits db1 = dd_audits db @ as" using audits by blast
    ultimately show ?thesis
      by (intro find_put [where f = f and f' = "f\<lparr>fi_newsletter_pending := True, fi_dismissed := False\<rparr>"])
         (simp_all add: put_find_def same)
  qed
  have new: "touch db (add_audit a (add_find f db1))" if "\<not> fi_dismissed f" for a f
    using that same audits by (auto intro: find_added)
  show ?thesis
    using False s dup new by (auto simp: create_manual_find_def committing_db Let_def plain_find_def split: option.splits)
qed (auto simp: create_manual_find_def Let_def)

lemma run_op_touch: "touch db (run_op e op db)"
  by (cases op)
     (simp_all add: touch_source_op touch_toggles touch_decide touch_unpublish_latest touch_unpublish_library
       touch_purge touch_promote_library touch_promote_source touch_manual)

section \<open>Invariants of every run\<close>

text \<open>A dismissed find is on no curated surface.\<close>

definition curation_ok :: "discovery_find \<Rightarrow> bool" where
  "curation_ok f \<longleftrightarrow> (fi_dismissed f \<longrightarrow> \<not> fi_ticker_featured f \<and> \<not> fi_newsletter_pending f)"

lemma touch_curation:
  assumes "touch db db'" and "\<forall>f \<in> set (dd_finds db). curation_ok f"
  shows "\<forall>f \<in> set (dd_finds db'). curation_ok f"
  using assms
proof (cases rule: touch.cases)
  case (find_put f f' as)
  then show ?thesis
    using assms(2) by (auto simp: update_where_def curation_ok_def)
qed (auto simp: curation_ok_def)

lemma run_ops_induct:
  assumes "P db" and "\<And>db e op. P db \<Longrightarrow> P (run_op e op db)"
  shows "P (run_ops ops db)"
  using assms(1) unfolding run_ops_def
  by (induction ops arbitrary: db) (auto intro: assms(2))

lemma touch_audits: "touch db db' \<Longrightarrow> \<exists>as. dd_audits db' = dd_audits db @ as"
  by (auto elim: touch.cases)

lemma touch_keys:
  assumes "touch db db'"
  shows "\<exists>ks. map fi_id (dd_finds db') = map fi_id (dd_finds db) @ ks"
  using assms
proof (cases rule: touch.cases)
  case (find_put f f' as)
  then have "map fi_id (dd_finds db') = map fi_id (dd_finds db)" by (simp add: map_update_where)
  then show ?thesis by simp
qed simp_all

interpretation audit_log: append_log "\<lambda>(e, op). run_op e op" dd_audits
  by unfold_locales (use touch_audits run_op_touch in auto)

interpretation find_ids: append_log "\<lambda>(e, op). run_op e op" "\<lambda>db. map fi_id (dd_finds db)"
  by unfold_locales (use touch_keys run_op_touch in auto)

text \<open>One operation leaves an audit row behind for every status it changes.\<close>

lemma touch_status_audited:
  assumes "touch db db'" and "f \<in> set (dd_finds db)" and "distinct (map fi_id (dd_finds db))"
    and "f' \<in> set (dd_finds db')" "fi_id f' = fi_id f" "fi_status f' \<noteq> fi_status f"
    and "distinct (map fi_id (dd_finds db'))"
  shows "\<exists>a \<in> set (drop (length (dd_audits db)) (dd_audits db')). au_find_id a = Some (fi_id f)
    \<and> au_before_state a = fi_status f \<and> (au_event_type a = FindDecision \<or> au_event_type a = FindUnpublished)"
  using assms(1)
proof (cases rule: touch.cases)
  case (finds_kept as)
  then have "f' = f" using assms by (auto simp: distinct_map inj_on_def)
  then show ?thesis using assms(6) by simp
next
  case (find_put g g' as)
  show ?thesis
  proof (cases "fi_id f = fi_id g")
    case True
    then have "f = g" using assms(2,3) find_put(1) by (auto simp: distinct_map inj_on_def)
    moreover have "f' = g'" using assms(4,5) find_put(2,5) True by (auto simp: update_where_def split: if_splits)
    ultimately show ?thesis using find_put assms(6) by simp
  next
    case False
    then have "f' \<in> set (dd_finds db)"
      using assms(4,5) find_put(2,5) by (auto simp: update_where_def split: if_splits)
    then have "f' = f" using assms(2,3,5) by (auto simp: distinct_map inj_on_def)
    then show ?thesis using assms(6) by simp
  qed
next
  case (find_added g as)
  then have "f \<in> set (dd_finds db')" using assms(2) by simp
  then have "f' = f" using assms(4,5,7) by (auto simp: distinct_map inj_on_def)
  then show ?thesis using assms(6) by simp
qed

section \<open>Promotion of a proposed source is atomic\<close>

lemma squeeze_chars: "c \<in> set (squeeze ok r b s) \<Longrightarrow> ok c \<or> c = r"
  by (induction ok r b s rule: squeeze.induct) (auto split: if_splits)

lemma strip_char_subset: "set (strip_char c s) \<subseteq> set s"
  by (auto simp: strip_char_def dest!: set_dropWhileD)

lemma alnum_no_space: "is_alnum c \<Longrightarrow> \<not> is_space c"
  by (auto simp: is_alnum_def is_space_def Let_def)

lemma source_name_slug_strip [simp]: "strip (source_name_slug v) = source_name_slug v"
proof (rule strip_no_space, rule ballI)
  fix c assume "c \<in> set (source_name_slug v)"
  then have "is_alnum c \<or> c = CHR ''_'' \<or> c \<in> set ''discovery_source''"
    using strip_char_subset squeeze_chars
    by (auto simp: source_name_slug_def str_or_def dest!: in_set_takeD split: if_splits) blast+
  then have "is_alnum c \<or> c = CHR ''_''" by (auto simp: is_alnum_def)
  then show "\<not> is_space c" using alnum_no_space by (auto simp: is_space_def)
qed

lemma source_errors_fewer_names:
  "source_errors ip names s = ([], names') \<Longrightarrow> fst (source_errors ip [] s) = []"
  by (auto simp: source_errors_def split: sum.splits if_splits)

lemma valid_watchlist_single:
  assumes "validate_watchlist ip ws = Inr u" and "w \<in> set ws"
  shows "validate_watchlist ip [w] = Inr ()"
proof -
  have "watchlist_errors ip [] ws = []" using assms(1) by (auto simp: validate_watchlist_def Let_def split: if_splits)
  then obtain ns ns' where "source_errors ip ns w = ([], ns')" using watchlist_errors_NilD assms(2) by blast
  then have "fst (source_errors ip [] w) = []" by (rule source_errors_fewer_names)
  then show ?thesis by (simp add: validate_watchlist_def split_beta)
qed

lemma source_by_name_None: "source_by_name db n = None \<longleftrightarrow> n \<notin> set (map so_name (dd_sources db))"
  by (simp add: source_by_name_def find_row_None_iff)

text \<open>Valid sources with fresh, distinct, trimmed names are all added.\<close>

lemma add_all_sources_succeeds:
  assumes "\<And>w. w \<in> set ws \<Longrightarrow> validate_watchlist (de_ip e) [w] = Inr ()"
    and "\<And>w. w \<in> set ws \<Longrightarrow> strip (ws_name w) = ws_name w"
    and "distinct (map ws_name ws)" and "set (map ws_name ws) \<inter> set (map so_name (dd_sources db)) = {}"
    and "\<And>w. w \<in> set ws \<Longrightarrow> de_commit e (ws_name w) = None"
  shows "\<exists>ss db'. add_all_sources e n actor ws db = (Inr ss, db')"
  using assms
proof (induction ws arbitrary: db)
  case (Cons w ws)
  have v: "validate_watchlist (de_ip e) [w] = Inr ()" and st: "strip (ws_name w) = ws_name w" using Cons.prems by auto
  obtain secs where r: "refresh_seconds w = Inr secs" using valid_watchlistD(3) [OF v, of w] by auto
  have fresh: "source_by_name db (ws_name w) = None"
    using Cons.prems(4) by (auto simp: source_by_name_None)
  obtain s db1 where a: "add_watched_source e w n actor db = (Inr s, db1)" "map so_name (dd_sources db1) = map so_name (dd_sources db) @ [ws_name w]"
    using v r fresh st Cons.prems(5) [of w] by (simp add: add_watched_source_def committing_def Let_def plain_source_def)
  have "set (map ws_name ws) \<inter> set (map so_name (dd_sources db1)) = {}"
    using Cons.prems(3,4) unfolding a(2) by auto
  then obtain ss db' where "add_all_sources e n actor ws db1 = (Inr ss, db')"
    using Cons.IH [of db1] Cons.prems(1-3,5) by auto
  with a(1) show ?case by simp
qed simp

lemma planned_sources_names: "w \<in> set (planned_sources p cadence scan) \<Longrightarrow> strip (ws_name w) = ws_name w"
  by (auto simp: planned_sources_def watched_source_from_proposal_def Let_def split: if_splits)

lemma promote_source_plan:
  assumes "validate_watchlist (de_ip e) (planned_sources p cadence scan) = Inr u"
    and "ensure_source_names_available db (map ws_name (planned_sources p cadence scan)) = Inr u'"
    and "\<And>k. de_commit e k = None"
  shows "\<exists>ss db'. add_all_sources e n actor (planned_sources p cadence scan) db = (Inr ss, db')"
proof (rule add_all_sources_succeeds)
  let ?ws = "planned_sources p cadence scan"
  show "validate_watchlist (de_ip e) [w] = Inr ()" if "w \<in> set ?ws" for w
    using valid_watchlist_single [OF assms(1) that] .
  show strips: "strip (ws_name w) = ws_name w" if "w \<in> set ?ws" for w
    using planned_sources_names [OF that] .
  have "watchlist_errors (de_ip e) [] ?ws = []" using assms(1) by (auto simp: validate_watchlist_def Let_def split: if_splits)
  then have "distinct (map (strip \<circ> ws_name) ?ws)" using watchlist_errors_NilD by blast
  moreover have "map (strip \<circ> ws_name) ?ws = map ws_name ?ws" using strips by simp
  ultimately show "distinct (map ws_name ?ws)" by simp
  have "\<forall>s \<in> set (dd_sources db). so_name s \<notin> set (map ws_name ?ws)"
    using assms(2) by (simp add: ensure_source_names_available_def Let_def filter_empty_conv del: set_map split: if_splits) simp
  then show "set (map ws_name ?ws) \<inter> set (map so_name (dd_sources db)) = {}" by force
qed (rule assms(3))

section \<open>Properties\<close>

text \<open>Whatever sequence of queue operations runs, with whatever outcomes of the library, the
  index and the clock, a dismissed find is never featured on the ticker nor queued for a
  newsletter.\<close>

theorem dismissed_never_curated:
  assumes "\<forall>f \<in> set (dd_finds db). curation_ok f"
  shows "\<forall>f \<in> set (dd_finds (run_ops ops db)). curation_ok f"
  using assms by (rule run_ops_induct) (rule touch_curation [OF run_op_touch])

text \<open>The audit log is append-only and no find ever disappears: a run of queue operations
  extends the log and the list of find ids.\<close>

theorem queue_history_grows:
  "(\<exists>as. dd_audits (run_ops ops db) = dd_audits db @ as)
    \<and> (\<exists>ks. map fi_id (dd_finds (run_ops ops db)) = map fi_id (dd_finds db) @ ks)"
  unfolding run_ops_def using audit_log.fold_appends find_ids.fold_appends by blast

text \<open>An operation that changes the status of a find leaves a new audit row that names the
  find and its status before.\<close>

theorem status_changes_are_audited:
  assumes "f \<in> set (dd_finds db)" and "f' \<in> set (dd_finds (run_op e op db))"
    and "fi_id f' = fi_id f" and "fi_status f' \<noteq> fi_status f" and "distinct (map fi_id (dd_finds (run_op e op db)))"
  shows "\<exists>a \<in> set (drop (length (dd_audits db)) (dd_audits (run_op e op db))).
    au_find_id a = Some (fi_id f) \<and> au_before_state a = fi_status f
    \<and> (au_event_type a = FindDecision \<or> au_event_type a = FindUnpublished)"
proof -
  obtain ks where "map fi_id (dd_finds (run_op e op db)) = map fi_id (dd_finds db) @ ks"
    using touch_keys [OF run_op_touch] by blast
  then have "distinct (map fi_id (dd_finds db))" using assms(5) by simp
  then show ?thesis using assms by (intro touch_status_audited [OF run_op_touch]) auto
qed

text \<open>As long as its commits hold, promoting a proposed source either succeeds or leaves every table as
  it was, although it commits each new source separately: after its checks no insertion can fail.\<close>

theorem promote_source_atomic:
  assumes "fst (promote_find_to_source e fid reviewer n cadence scan db) = Inl err"
    and "\<And>k. de_commit e k = None"
  shows "snd (promote_find_to_source e fid reviewer n cadence scan db) = db"
proof -
  have "\<not> (validate_watchlist (de_ip e) (planned_sources p cadence scan) = Inr u
      \<and> ensure_source_names_available db (map ws_name (planned_sources p cadence scan)) = Inr u'
      \<and> add_all_sources e n (''reviewer:'' @ reviewer) (planned_sources p cadence scan) db = (Inl err', db'))" for p u u' err' db'
    using promote_source_plan [of e p cadence scan u db u' n "''reviewer:'' @ reviewer"] assms(2) by auto
  then show ?thesis
    using assms by (auto simp: commit_find_def committing_def promote_find_to_source_def Let_def split: option.splits if_splits sum.splits prod.splits)
qed

text \<open>The ticker shows only finds that are featured, stamped within the last 30 days, neither
  dismissed nor rejected; newest first; at most ten, and all of them when they fit.\<close>

theorem ticker_shows_what_it_should:
  "list_all (\<lambda>(f, s). on_ticker now f) (list_ticker_finds now limit db)
    \<and> sorted_wrt (\<lambda>a b. opt_time (fi_ticker_featured_at (fst a)) \<ge> opt_time (fi_ticker_featured_at (fst b)))
        (list_ticker_finds now limit db)
    \<and> length (list_ticker_finds now limit db) =
        min (nat (max 1 (min limit 10))) (length (filter (\<lambda>(f, s). on_ticker now f) (joined db)))"
proof -
  let ?rows = "filter (\<lambda>(f, s). on_ticker now f) (joined db)"
  let ?sorted = "newest_first (opt_time \<circ> fi_ticker_featured_at \<circ> fst) ?rows"
  have eq: "list_ticker_finds now limit db = take (nat (max 1 (min limit 10))) ?sorted"
    by (simp add: list_ticker_finds_def sql_limit_def TICKER_MAX_ITEMS_def)
  have "set (list_ticker_finds now limit db) \<subseteq> set ?rows"
    unfolding eq using set_take_subset newest_first_set by metis
  then have "list_all (\<lambda>(f, s). on_ticker now f) (list_ticker_finds now limit db)"
    by (auto simp: list_all_iff)
  moreover have "sorted_wrt (\<lambda>a b. opt_time (fi_ticker_featured_at (fst a)) \<ge> opt_time (fi_ticker_featured_at (fst b)))
      (list_ticker_finds now limit db)"
    using newest_first_sorted [of "opt_time \<circ> fi_ticker_featured_at \<circ> fst" ?rows]
    unfolding eq by (simp add: sorted_wrt_take)
  ultimately show ?thesis by (simp add: eq min.commute)
qed

section \<open>Concrete runs\<close>

text \<open>A table with one source and one pending find, and an outside world where every call succeeds.\<close>

definition sample_env :: discovery_env where
  "sample_env = \<lparr>de_now = days 100, de_loads = (\<lambda>_. None), de_repr = (\<lambda>_. ''?''), de_ip = (\<lambda>_. None),
     de_publish = Inr \<lparr>pr_public_url = ''u'', pr_commit_url = ''c'', pr_path = ''p''\<rparr>,
     de_delete = Inr \<lparr>pr_public_url = ''u'', pr_commit_url = ''c'', pr_path = ''p''\<rparr>,
     de_ingest_error = None, de_purge_error = None, de_commit = (\<lambda>_. None)\<rparr>"

definition sample_db :: discovery_db where
  "sample_db = \<lparr>dd_sources = [plain_source 0 ''s'' ''manual_curation'' ''manual_curation'' ''manual''],
     dd_finds = [plain_find 0 ''f'' ''s'' ''manual_url'' ''x'' ''t'' ''x''],
     dd_audits = [], dd_chroma = [], dd_library = [], dd_fresh = [''g'']\<rparr>"

lemmas sample_defs = sample_env_def sample_db_def plain_source_def plain_find_def

lemmas find_ops_eval = on_find_def find_with_source_def source_by_id_def put_find_def add_audit_def update_where_def
  find_row_def commit_find_def committing_def set_find_ticker_featured_def set_find_newsletter_pending_def set_find_dismissed_def
  decide_find_def settle_find_def decided_def chroma_add_def audit_of_def stamp_def Let_def

lemma dismissed_never_curated_witness:
  "list_all curation_ok (dd_finds (run_ops [(sample_env, QueueFind ''f'' True ''r''), (sample_env, DismissFind ''f'' True ''r'')] sample_db))
    \<and> map fi_dismissed (dd_finds (run_ops [(sample_env, QueueFind ''f'' True ''r''), (sample_env, DismissFind ''f'' True ''r'')] sample_db)) = [True]"
proof -
  let ?ops = "[(sample_env, QueueFind ''f'' True ''r''), (sample_env, DismissFind ''f'' True ''r'')]"
  have "\<forall>f \<in> set (dd_finds sample_db). curation_ok f" by (simp add: sample_defs curation_ok_def)
  then have "\<forall>f \<in> set (dd_finds (run_ops ?ops sample_db)). curation_ok f" by (rule dismissed_never_curated)
  moreover have "map fi_dismissed (dd_finds (run_ops ?ops sample_db)) = [True]"
    by (simp add: run_ops_def find_ops_eval sample_defs)
  ultimately show ?thesis by (simp add: list_all_iff)
qed

definition sample_decision :: decision_request where
  "sample_decision = \<lparr>dr_decision = ''reject'', dr_reviewer = ''r'', dr_notes = '''', dr_ingest_into_chroma = True,
     dr_publish_to_library = False\<rparr>"

lemma status_changes_are_audited_witness:
  "\<exists>a \<in> set (drop (length (dd_audits sample_db)) (dd_audits (run_op sample_env (Decide ''f'' sample_decision) sample_db))).
    au_find_id a = Some (fi_id (hd (dd_finds sample_db))) \<and> au_before_state a = fi_status (hd (dd_finds sample_db))
    \<and> (au_event_type a = FindDecision \<or> au_event_type a = FindUnpublished)"
  by (rule status_changes_are_audited [where f' = "hd (dd_finds (run_op sample_env (Decide ''f'' sample_decision) sample_db))"])
     (simp_all add: find_ops_eval sample_defs sample_decision_def)

lemma promote_source_atomic_witness:
  "snd (promote_find_to_source sample_env ''f'' ''r'' '''' ''daily'' True sample_db) = sample_db"
  by (rule promote_source_atomic [where err = "ValueError ''Only new_source_candidate findings can be promoted to watched sources''"])
     (simp_all add: promote_find_to_source_def find_ops_eval sample_defs)

end
