(* ===== verification/DiscoveryIndex.thy ===== *)
theory DiscoveryIndex
  imports DiscoveryRuns
begin

text \<open>
  The vector index and the review queue: every find flagged as ingested has its document
  in the index, over every run of the queue; the converse fails when a find is reviewed
  again. Adding a hand-picked URL twice keeps one row. The listing pages of a source.
\<close>

section \<open>Flagged finds are indexed\<close>

text \<open>Every find flagged as ingested, but those with an id in \<open>S\<close>, has its document in the index.\<close>

definition index_ok :: "string set \<Rightarrow> discovery_db \<Rightarrow> bool" where
  "index_ok S db \<longleftrightarrow>
     (\<forall>f \<in> set (dd_finds db). fi_ingested_into_chroma f \<longrightarrow> fi_id f \<in> set (dd_chroma db) \<or> fi_id f \<in> S)"

lemma commit_find_chroma [simp]: "dd_chroma (snd (commit_find e ev rv b a w f s db)) = dd_chroma db"
  by (simp add: commit_find_def committing_db)

lemma index_ok_same:
  "index_ok S db \<Longrightarrow> dd_finds db' = dd_finds db \<Longrightarrow> dd_chroma db' = dd_chroma db \<Longrightarrow> index_ok S db'"
  by (simp add: index_ok_def)

lemma index_ok_put:
  assumes "index_ok S db" and "dd_finds db1 = dd_finds db" and "set (dd_chroma db) - {fi_id f} \<subseteq> set (dd_chroma db1)"
    and "fi_ingested_into_chroma f \<Longrightarrow> fi_id f \<in> set (dd_chroma db1) \<or> fi_id f \<in> S"
  shows "index_ok S (put_find f db1)"
  using assms by (auto simp: index_ok_def put_find_def update_where_def)

lemma index_ok_commit:
  assumes "index_ok S db" and "dd_finds db1 = dd_finds db" and "set (dd_chroma db) - {fi_id f} \<subseteq> set (dd_chroma db1)"
    and "fi_ingested_into_chroma f \<Longrightarrow> fi_id f \<in> set (dd_chroma db1) \<or> fi_id f \<in> S"
    and "de_commit e (fi_id f) \<noteq> None \<Longrightarrow> fi_id f \<in> set (dd_chroma db1) \<or> fi_id f \<notin> set (dd_chroma db) \<or> fi_id f \<in> S"
  shows "index_ok S (snd (commit_find e ev rv b a w f s db1))"
proof (cases "de_commit e (fi_id f) = None")
  case True
  then show ?thesis using index_ok_put [OF assms(1-4)] by (simp add: commit_find_def committing_db index_ok_def)
next
  case False
  then have "set (dd_chroma db) \<subseteq> set (dd_chroma db1) \<union> S" using assms(3,5) by auto
  then show ?thesis using False assms(1,2) by (auto simp: commit_find_def committing_db index_ok_def)
qed

lemma index_ok_on_find:
  assumes "index_ok S db"
    and "\<And>f s. f \<in> set (dd_finds db) \<Longrightarrow> fi_id f = fid \<Longrightarrow> (fi_ingested_into_chroma f \<Longrightarrow> fi_id f \<in> set (dd_chroma db) \<or> fi_id f \<in> S) \<Longrightarrow> index_ok S (snd (act f s db))"
  shows "index_ok S (snd (on_find fid act db))"
proof (cases "find_with_source db fid")
  case None
  then show ?thesis using assms(1) by (simp add: on_find_def)
next
  case (Some fs)
  obtain f s where fs: "fs = (f, s)" by force
  then have "f \<in> set (dd_finds db)" "fi_id f = fid" using find_with_sourceD [of db fid f s] Some by simp_all
  moreover have "fi_ingested_into_chroma f \<Longrightarrow> fi_id f \<in> set (dd_chroma db) \<or> fi_id f \<in> S"
    using calculation(1) assms(1) by (simp add: index_ok_def)
  ultimately have "index_ok S (snd (act f s db))" using assms(2) by blast
  then show ?thesis using Some fs by (simp add: on_find_def)
qed

lemma index_ok_publish_failed:
  "index_ok S db \<Longrightarrow> (fi_ingested_into_chroma f \<Longrightarrow> fi_id f \<in> set (dd_chroma db) \<or> fi_id f \<in> S) \<Longrightarrow> index_ok S (snd (publish_failed e exc f db))"
  by (auto simp: publish_failed_def committing_db intro!: index_ok_put split: sum.splits)

lemma index_ok_settle:
  assumes "index_ok S db" "dd_finds db1 = dd_finds db" "dd_chroma db1 = dd_chroma db" "\<not> fi_ingested_into_chroma f"
  shows "index_ok S (snd (settle_find e r f s db1))"
proof -
  have "index_ok S (snd (commit_find e FindDecision rv b a w (decided now r (f\<lparr>fi_status := st\<rparr>)) s db1))"
    "index_ok S (snd (commit_find e FindDecision rv b a w
      (decided now r (f\<lparr>fi_status := st, fi_ingested_into_chroma := True\<rparr>)) s (chroma_add (fi_id f) db1)))"
    "index_ok S db1" for rv b a w now st
  proof -
    show "index_ok S (snd (commit_find e FindDecision rv b a w (decided now r (f\<lparr>fi_status := st\<rparr>)) s db1))"
      by (rule index_ok_commit [OF assms(1)]) (simp_all add: decided_def assms)
    show "index_ok S (snd (commit_find e FindDecision rv b a w
        (decided now r (f\<lparr>fi_status := st, fi_ingested_into_chroma := True\<rparr>)) s (chroma_add (fi_id f) db1)))"
      by (rule index_ok_commit [OF assms(1)]) (auto simp: decided_def chroma_add_def assms)
    show "index_ok S db1" using assms by (intro index_ok_same [OF assms(1)])
  qed
  then show ?thesis by (simp add: settle_find_def Let_def split: option.split)
qed

lemma mark_published_flag [simp]:
  "fi_ingested_into_chroma (mark_published now p f) = fi_ingested_into_chroma f" "fi_id (mark_published now p f) = fi_id f"
  by (simp_all add: mark_published_def)

lemma index_ok_decide: "index_ok S db \<Longrightarrow> index_ok S (snd (decide_find e i r db))"
  unfolding decide_find_def
  by (auto simp: Let_def intro!: index_ok_on_find index_ok_publish_failed index_ok_settle split: sum.split)

lemma index_ok_toggles:
  assumes "index_ok S db"
  shows "index_ok S (snd (set_find_featured e i on rv db))" "index_ok S (snd (set_find_ticker_featured e i on rv db))"
    "index_ok S (snd (set_find_newsletter_pending e i on rv db))" "index_ok S (snd (set_find_dismissed e i on rv db))"
  unfolding set_find_featured_def set_find_ticker_featured_def set_find_newsletter_pending_def set_find_dismissed_def
  by (rule index_ok_on_find [OF assms], rule index_ok_commit [OF assms]; auto split: if_splits)+

lemma index_ok_unpublish:
  assumes "index_ok S db"
  shows "index_ok S (snd (unpublish_find_from_latest e i rv n db))" "index_ok S (snd (unpublish_find_from_library e i rv n db))"
  unfolding unpublish_find_from_latest_def unpublish_find_from_library_def
  by (rule index_ok_on_find [OF assms],
      auto simp: Let_def assms intro!: index_ok_commit [OF assms] simp del: commit_find_tables commit_find_chroma
        split: sum.split)+

text \<open>The commit of a purge may fail after the document is gone.\<close>

lemma index_ok_purge:
  assumes "index_ok S db" and "de_commit e i \<noteq> None \<Longrightarrow> de_purge_error e = None \<Longrightarrow> i \<in> S"
  shows "index_ok S (snd (purge_find_from_kb e i rv n db))"
proof -
  have "index_ok S (snd (commit_find e ev rv b a w (f\<lparr>fi_ingested_into_chroma := False\<rparr>) s (chroma_purge (fi_id f) db)))"
    if "fi_id f = i" "de_purge_error e = None" for ev b a w f s
    by (rule index_ok_commit [OF assms(1)]) (use that assms(2) in \<open>auto simp: chroma_purge_def\<close>)
  moreover have "index_ok S (add_audit a db)" for a
    by (rule index_ok_same [OF assms(1)]) simp_all
  ultimately show ?thesis
    unfolding purge_find_from_kb_def using assms(1)
    by (intro index_ok_on_find) (auto simp: Let_def committing_db simp del: commit_find_tables commit_find_chroma split: sum.split option.split)
qed

lemma index_ok_promote_library:
  assumes "index_ok S db"
  shows "index_ok S (snd (promote_find_to_library e i rv n db))"
  unfolding promote_find_to_library_def
  by (rule index_ok_on_find [OF assms])
     (auto simp: assms intro!: index_ok_publish_failed index_ok_commit [OF assms]
      simp del: commit_find_tables commit_find_chroma split: sum.split)

lemma add_source_chroma [simp]: "dd_chroma (add_source s db) = dd_chroma db" "dd_chroma (add_find f db) = dd_chroma db"
  by (simp_all add: add_source_def add_find_def use_id_def)

lemma add_watched_source_chroma: "dd_chroma (snd (add_watched_source e w n actor db)) = dd_chroma db"
  by (auto simp: add_watched_source_def committing_db Let_def split: sum.splits)

lemma add_all_sources_chroma: "dd_chroma (snd (add_all_sources e n actor ws db)) = dd_chroma db"
proof (induction ws arbitrary: db)
  case (Cons w ws)
  obtain r db1 where r: "add_watched_source e w n actor db = (r, db1)" by force
  then have "dd_chroma db1 = dd_chroma db" using add_watched_source_chroma [of e w n actor db] by simp
  then show ?case using Cons.IH [of db1] r by (cases r) (auto split: prod.splits sum.splits)
qed simp

lemma index_ok_sources:
  assumes "index_ok S db"
  shows "index_ok S (snd (add_watched_source e w n actor db))" "index_ok S (snd (update_watched_source e i u actor db))"
    "index_ok S (snd (set_source_featured e i on rv db))"
  using add_watched_source_tables [of e w n actor db] add_watched_source_chroma [of e w n actor db]
  by (auto simp: update_watched_source_def set_source_featured_def committing_db Let_def assms intro: index_ok_same [OF assms]
      split: option.splits)

lemma index_ok_promote_source:
  assumes "index_ok S db"
  shows "index_ok S (snd (promote_find_to_source e fid rv n cadence scan db))"
proof -
  have "index_ok S (snd (commit_find e FindDecision rv b a w
      (f\<lparr>fi_status := st, fi_reviewer := rv, fi_decision_notes := w, fi_decided_at := t\<rparr>) s db1))"
    if "find_with_source db fid = Some (f, s)" "add_all_sources e n act ws db = (q, db1)" for f s act ws q db1 b a w st t
    using that find_with_sourceD [OF that(1)] add_all_sources_chroma [of e n act ws db] add_all_sources_tables [of e n act ws db] assms
    by (intro index_ok_commit [OF assms]) (auto simp: index_ok_def)
  moreover have "index_ok S db1" if "add_all_sources e n act ws db = (q, db1)" for act ws q db1
    using that add_all_sources_chroma [of e n act ws db] add_all_sources_tables [of e n act ws db]
    by (intro index_ok_same [OF assms]) auto
  ultimately show ?thesis
    using assms by (auto simp: promote_find_to_source_def Let_def simp del: commit_find_tables commit_find_chroma
        split: option.split sum.split prod.split)
qed

lemma manual_source_chroma: "dd_chroma (snd (ensure_manual_curation_source e db)) = dd_chroma db"
  by (auto simp: ensure_manual_curation_source_def Let_def split: option.splits)

lemma index_ok_manual:
  assumes "index_ok S db"
  shows "index_ok S (snd (create_manual_find e r db))"
proof -
  obtain s db1 where s: "ensure_manual_curation_source e db = (s, db1)" by force
  then have same: "dd_finds db1 = dd_finds db" "dd_chroma db1 = dd_chroma db"
    using manual_source_tables [of e db] manual_source_chroma [of e db] by simp_all
  have dup: "index_ok S (put_find (f\<lparr>fi_newsletter_pending := True, fi_dismissed := False\<rparr>) db1)"
    if f: "find_by_external db1 (so_id s) u = Some f" for u f
  proof -
    have "f \<in> set (dd_finds db)" using f same find_row_SomeD unfolding find_by_external_def by fastforce
    then show ?thesis using assms same by (intro index_ok_put [OF assms]) (auto simp: index_ok_def)
  qed
  have new: "index_ok S (add_audit a (add_find f db1))" if "\<not> fi_ingested_into_chroma f" for a f
    using that same assms by (simp add: index_ok_def)
  show ?thesis
    using s dup new assms by (auto simp: create_manual_find_def committing_db Let_def plain_find_def split: option.splits)
qed

text \<open>The find whose document a purge removed although its commit failed, if the operation is one.\<close>

fun half_purged :: "discovery_env \<Rightarrow> queue_op \<Rightarrow> string list" where
  "half_purged e (PurgeKb i reviewer notes) = (if de_commit e i \<noteq> None \<and> de_purge_error e = None then [i] else [])"
| "half_purged e op = []"

lemma index_ok_half_purged:
  "index_ok S db \<Longrightarrow> set (half_purged e (PurgeKb i rv n)) \<subseteq> S \<Longrightarrow> index_ok S (snd (purge_find_from_kb e i rv n db))"
  by (rule index_ok_purge) (auto split: if_splits)

lemma run_op_index_ok: "index_ok S db \<Longrightarrow> set (half_purged e op) \<subseteq> S \<Longrightarrow> index_ok S (run_op e op db)"
  by (cases op)
     (simp_all del: half_purged.simps(1) add: index_ok_half_purged index_ok_sources index_ok_toggles index_ok_decide index_ok_unpublish
       index_ok_promote_library index_ok_promote_source index_ok_manual)

section \<open>What rejecting leaves behind\<close>

text \<open>Rejecting a find that was ingested before clears its flag and leaves its document in the
  index, where it can still be retrieved.\<close>

theorem rejected_find_stays_indexed:
  assumes "find_with_source db fid = Some (f, s)" and "fid \<in> set (dd_chroma db)" and "dr_decision r = ''reject''"
    and "de_commit e fid = None"
  shows "\<exists>f'. fst (decide_find e fid r db) = Inr (f', s) \<and> f' \<in> set (dd_finds (snd (decide_find e fid r db)))
    \<and> fi_id f' = fid \<and> fi_status f' = ''rejected'' \<and> \<not> fi_ingested_into_chroma f'
    \<and> dd_chroma (snd (decide_find e fid r db)) = dd_chroma db"
proof -
  have "f \<in> set (dd_finds db)" "fi_id f = fid" using find_with_sourceD [OF assms(1)] by auto
  then show ?thesis
    using assms
    by (auto simp: decide_find_def on_find_def settle_find_def Let_def commit_find_def committing_def decided_def put_find_def
        update_where_def image_iff intro!: bexI [of _ f])
qed

lemma rejected_find_stays_indexed_witness:
  "\<exists>f'. fst (decide_find sample_env ''f'' sample_decision (chroma_add ''f'' sample_db)) = Inr (f', hd (dd_sources sample_db))
    \<and> f' \<in> set (dd_finds (snd (decide_find sample_env ''f'' sample_decision (chroma_add ''f'' sample_db))))
    \<and> fi_id f' = ''f'' \<and> fi_status f' = ''rejected'' \<and> \<not> fi_ingested_into_chroma f'
    \<and> dd_chroma (snd (decide_find sample_env ''f'' sample_decision (chroma_add ''f'' sample_db))) = dd_chroma (chroma_add ''f'' sample_db)"
  by (rule rejected_find_stays_indexed [where f = "hd (dd_finds sample_db)"])
     (simp_all add: find_ops_eval sample_defs sample_decision_def)

section \<open>Hand-picked finds\<close>

lemma find_row_replace_where:
  assumes "find_row k x rows = Some r" and "k r' = x" and "g r' = g r"
  shows "find_row k x (update_where (\<lambda>y. g y = g r) (\<lambda>_. r') rows) = Some r' 
    \<or> find_row k x (update_where (\<lambda>y. g y = g r) (\<lambda>_. r') rows) = Some r"
  using assms by (induction rows) (auto simp: update_where_def split: if_splits)

text \<open>What a successful addition leaves behind: the source of hand-picked finds, and a find of it with the URL.\<close>

lemma manual_find_stored:
  assumes "fst (create_manual_find e r db) = Inr (f, s)" and "snd (create_manual_find e r db) = db1"
    and "next_id db \<notin> fi_source_id ` set (dd_finds db)"
  shows "source_by_name db1 ''manual_curation'' = Some s
    \<and> (\<exists>g. find_by_external db1 (so_id s) (strip (mf_url r)) = Some g \<and> fi_id g = fi_id f)
    \<and> strip (mf_url r) \<noteq> ''''"
proof -
  obtain s0 db0 where s: "ensure_manual_curation_source e db = (s0, db0)" by force
  have same: "dd_finds db0 = dd_finds db" using manual_source_tables [of e db] s by simp
  have name: "source_by_name db0 ''manual_curation'' = Some s0"
    using s by (auto simp: ensure_manual_curation_source_def Let_def source_by_name_def find_row_append plain_source_def
        split: option.splits)
  have bootstrapped: "db0 = db" if "find_by_external db0 (so_id s0) u = Some g" for u g
  proof (rule ccontr)
    assume "db0 \<noteq> db"
    then have "so_id s0 = next_id db"
      using s by (auto simp: ensure_manual_curation_source_def Let_def plain_source_def split: option.splits)
    then show False
      using that same assms(3) by (auto simp: find_by_external_def image_iff dest!: find_row_SomeD)
  qed
  show ?thesis
  proof (cases "find_by_external db0 (so_id s0) (strip (mf_url r))")
    case None
    then show ?thesis
      using assms(1,2) s name same
      by (auto simp: create_manual_find_def Let_def find_by_external_def source_by_name_def find_row_append plain_find_def
          add_find_def use_id_def committing_def split: if_splits option.splits)
  next
    case (Some dup)
    let ?dup' = "dup\<lparr>fi_newsletter_pending := True, fi_dismissed := False\<rparr>"
    have key: "fi_source_id dup = so_id s0" "fi_external_id dup = strip (mf_url r)"
      using Some by (auto simp: find_by_external_def dest!: find_row_SomeD)
    have "find_by_external (put_find ?dup' db0) (so_id s0) (strip (mf_url r)) = Some ?dup'
        \<or> find_by_external (put_find ?dup' db0) (so_id s0) (strip (mf_url r)) = Some dup"
      using find_row_replace_where [where g = fi_id and r' = ?dup', OF Some [unfolded find_by_external_def]] key
      by (simp add: find_by_external_def put_find_def)
    moreover have "source_by_name (put_find ?dup' db0) ''manual_curation'' = Some s0"
      using name by (simp add: source_by_name_def)
    ultimately show ?thesis
      using assms(1,2) s name Some bootstrapped [OF Some]
      by (auto simp: create_manual_find_def committing_def Let_def split: if_splits option.splits)
  qed
qed

text \<open>Adding the same URL again gives the find already there: no find, no source and no audit row
  is added, whatever the second request says about the title, the reviewer or the newsletter.\<close>

theorem manual_find_idempotent:
  assumes "create_manual_find e r db = (Inr (f, s), db1)" and "next_id db \<notin> fi_source_id ` set (dd_finds db)"
    and "strip (mf_url r') = strip (mf_url r)" and "strip (mf_title r') \<noteq> ''''"
    and "de_commit e' (strip (mf_url r')) = None"
  shows "\<exists>f' db2. create_manual_find e' r' db1 = (Inr (f', s), db2) \<and> fi_id f' = fi_id f
    \<and> map fi_id (dd_finds db2) = map fi_id (dd_finds db1) \<and> dd_sources db2 = dd_sources db1 \<and> dd_audits db2 = dd_audits db1"
proof -
  obtain g where g: "source_by_name db1 ''manual_curation'' = Some s" "strip (mf_url r) \<noteq> ''''"
      "find_by_external db1 (so_id s) (strip (mf_url r)) = Some g" "fi_id g = fi_id f"
    using manual_find_stored [of e r db f s db1] assms(1,2) by auto
  have "map fi_id (dd_finds (put_find h db1)) = map fi_id (dd_finds db1)" for h
    by (simp add: put_find_def map_update_where)
  then show ?thesis
    using g assms(3-5) by (simp add: create_manual_find_def ensure_manual_curation_source_def committing_def Let_def)
qed

definition sample_manual :: manual_find where
  "sample_manual = \<lparr>mf_url = '' x '', mf_title = ''t'', mf_description = '''', mf_image_url = '''', mf_source_label = '''',
     mf_queue_for_newsletter = True, mf_reviewer = ''r''\<rparr>"

lemma manual_find_idempotent_witness:
  "\<exists>f' db2. create_manual_find sample_env (sample_manual\<lparr>mf_title := ''new''\<rparr>) (snd (create_manual_find sample_env sample_manual sample_db))
      = (Inr (f', hd (dd_sources sample_db)), db2)
    \<and> fi_id f' = fi_id (fst (projr (fst (create_manual_find sample_env sample_manual sample_db))))
    \<and> map fi_id (dd_finds db2) = map fi_id (dd_finds (snd (create_manual_find sample_env sample_manual sample_db)))
    \<and> dd_sources db2 = dd_sources (snd (create_manual_find sample_env sample_manual sample_db))
    \<and> dd_audits db2 = dd_audits (snd (create_manual_find sample_env sample_manual sample_db))"
proof (rule manual_find_idempotent)
  have "strip ''x'' = ''x''" "strip '' x '' = ''x''" "strip ''t'' = ''t''" by code_simp+
  then show "create_manual_find sample_env sample_manual sample_db
      = (Inr (fst (projr (fst (create_manual_find sample_env sample_manual sample_db))), hd (dd_sources sample_db)),
         snd (create_manual_find sample_env sample_manual sample_db))"
    by (simp add: create_manual_find_def ensure_manual_curation_source_def source_by_name_def find_by_external_def
        sample_manual_def find_ops_eval sample_defs split: option.split)
qed (code_simp, code_simp, code_simp, code_simp)

end
