(* ===== verification/DiscoveryScheduler.thy ===== *)
theory DiscoveryScheduler
  imports DiscoveryIndex
begin

text \<open>
  \<open>core/discovery_scheduler.py\<close>: the seed is reconciled against the source table, due
  sources are polled by their handlers, and the finds are stored and indexed. A session
  is the committed tables and the working copy: \<open>commit\<close> publishes the copy,
  \<open>rollback\<close> drops it, except for what left the database already (documents in the
  index, files in the library, ids drawn). Rows touched after a rollback are reloaded.
  The handlers, the key store, the publisher, the index, \<open>json.dumps\<close> of a payload and the
  failures of the database that the code catches are arguments (\<open>sched_env\<close>); a query
  without an order gives the rows in the order of the table.
\<close>

section \<open>Sessions\<close>

record db_session =
  se_committed :: discovery_db
  se_work :: discovery_db

definition commit :: "db_session \<Rightarrow> db_session" where
  "commit st = st\<lparr>se_committed := se_work st\<rparr>"

definition rollback :: "db_session \<Rightarrow> db_session" where
  "rollback st = (let w = se_work st;
       db = (se_committed st)\<lparr>dd_chroma := dd_chroma w, dd_library := dd_library w, dd_fresh := dd_fresh w\<rparr>
     in \<lparr>se_committed = db, se_work = db\<rparr>)"

definition work :: "(discovery_db \<Rightarrow> discovery_db) \<Rightarrow> db_session \<Rightarrow> db_session" where
  "work f st = st\<lparr>se_work := f (se_work st)\<rparr>"

section \<open>What handlers give\<close>

record find_candidate =
  fc_finding_type :: string
  fc_external_id :: string
  fc_title :: string
  fc_url :: string
  fc_summary_text :: string
  fc_raw_payload :: json
  fc_importance_signal :: string
  fc_category :: string
  fc_child_count :: int
  fc_last_upstream_updated_at :: "utc option"

record poll_result =
  po_finds :: "find_candidate list"
  po_etag :: string
  po_last_modified :: string
  po_status :: string
  po_error :: string

record source_like =
  sl_name :: string
  sl_watch_type :: string
  sl_target :: string
  sl_etag :: string
  sl_last_modified :: string
  sl_auth_token :: string

datatype handler_outcome = Returned poll_result | TimedOut | Crashed string
datatype publish_outcome = Published publish_result | ImportFailed | PublishRaised string

record sched_env =
  sv_now :: utc
  sv_ip :: "string \<Rightarrow> bool option"
  sv_registered :: "string list"
  sv_key_store :: "(string \<Rightarrow> string \<Rightarrow> exn + string option) option"
  sv_admin_token :: string
  sv_handler :: "source_like \<Rightarrow> handler_outcome"
  sv_timeout_text :: string
  sv_show_time :: "utc option \<Rightarrow> string"
  sv_dumps :: "json \<Rightarrow> string"
  sv_publish :: "discovery_find \<Rightarrow> publish_outcome"
  sv_index :: "discovery_find \<Rightarrow> bool"
  sv_conflict :: "discovery_source \<Rightarrow> find_candidate \<Rightarrow> bool"
  sv_save_error :: "discovery_source \<Rightarrow> string option"
  sv_record_error :: "discovery_source \<Rightarrow> bool"

text \<open>\<open>_audit\<close>: the texts are cut to their columns.\<close>

definition sched_audit ::
  "sched_env \<Rightarrow> audit_event \<Rightarrow> string option \<Rightarrow> string option \<Rightarrow> string \<Rightarrow> string \<Rightarrow> string \<Rightarrow> discovery_db \<Rightarrow> discovery_db" where
  "sched_audit e ev fid sid before after why =
     add_audit (audit_of (sv_now e) ev fid sid ''scheduler'' (take 2048 before) (take 2048 after) (take 2048 why))"

section \<open>Reconciling the seed\<close>

definition serialize_seed :: "watched_source \<Rightarrow> string" where
  "serialize_seed w = json_object
     [(''name'', json_quote (ws_name w)), (''watch_type'', json_quote (ws_watch_type w)),
      (''target'', json_quote (ws_target w)), (''refresh_cadence'', json_quote (ws_refresh_cadence w)),
      (''importance_floor'', json_quote (ws_importance_floor w)), (''active'', json_bool (ws_active w))]"

text \<open>The fields that drifted, with their values before and after.\<close>

definition seed_drift :: "watched_source \<Rightarrow> int \<Rightarrow> discovery_source \<Rightarrow> (string \<times> string \<times> string) list" where
  "seed_drift w secs s =
     (if so_target s \<noteq> ws_target w then [(''target'', json_quote (so_target s), json_quote (ws_target w))] else []) @
     (if so_refresh_interval_seconds s \<noteq> secs
      then [(''refresh_interval_seconds'', str_of_int (so_refresh_interval_seconds s), str_of_int secs)] else []) @
     (if so_watch_type s \<noteq> ws_watch_type w
      then [(''watch_type'', json_quote (so_watch_type s), json_quote (ws_watch_type w))] else []) @
     (if so_importance_floor s \<noteq> ws_importance_floor w
      then [(''importance_floor'', json_quote (so_importance_floor s), json_quote (ws_importance_floor w))] else []) @
     (if so_active s \<noteq> ws_active w then [(''active'', json_bool (so_active s), json_bool (ws_active w))] else [])"

definition apply_seed :: "watched_source \<Rightarrow> int \<Rightarrow> discovery_source \<Rightarrow> discovery_source" where
  "apply_seed w secs s =
     s\<lparr>so_target := ws_target w, so_refresh_interval_seconds := secs, so_watch_type := ws_watch_type w,
       so_importance_floor := ws_importance_floor w, so_active := ws_active w\<rparr>"

definition seed_row :: "sched_env \<Rightarrow> watched_source \<Rightarrow> int \<Rightarrow> string \<Rightarrow> discovery_source" where
  "seed_row e w secs i = (plain_source (sv_now e) i (ws_name w) (ws_watch_type w) (ws_target w))
     \<lparr>so_refresh_interval_seconds := secs, so_importance_floor := ws_importance_floor w, so_active := ws_active w\<rparr>"

text \<open>One entry: 1 for a row created, 1 for a row updated.\<close>

definition reconcile_entry :: "sched_env \<Rightarrow> watched_source \<Rightarrow> int \<Rightarrow> discovery_db \<Rightarrow> (nat \<times> nat) \<times> discovery_db" where
  "reconcile_entry e w secs db =
     (case source_by_name db (ws_name w) of
        None \<Rightarrow>
          let s = seed_row e w secs (next_id db)
          in ((1, 0), sched_audit e SourceAdded None (Some (so_id s)) '''' (serialize_seed w) ''seed reconciliation'' (add_source s db))
      | Some s \<Rightarrow>
          let drift = seed_drift w secs s in
          if drift = [] then ((0, 0), db)
          else ((0, 1), sched_audit e SourceUpdated None (Some (so_id s))
                 (json_object (map (\<lambda>(k, a, b). (k, a)) drift)) (json_object (map (\<lambda>(k, a, b). (k, b)) drift))
                 ''seed reconciliation'' (put_source ((apply_seed w secs s)\<lparr>so_updated_at := Some (sv_now e)\<rparr>) db)))"

fun reconcile_entries :: "sched_env \<Rightarrow> watched_source list \<Rightarrow> discovery_db \<Rightarrow> (nat \<times> nat) result \<times> discovery_db" where
  "reconcile_entries e [] db = (Inr (0, 0), db)"
| "reconcile_entries e (w # ws) db =
     (case refresh_seconds w of
        Inl err \<Rightarrow> (Inl err, db)
      | Inr secs \<Rightarrow>
          (case reconcile_entry e w secs db of
             ((c, u), db1) \<Rightarrow>
               (case reconcile_entries e ws db1 of
                  (Inl err, db2) \<Rightarrow> (Inl err, db2)
                | (Inr (c', u'), db2) \<Rightarrow> (Inr (c + c', u + u'), db2))))"

definition reconcile_watchlist_seed :: "sched_env \<Rightarrow> watched_source list \<Rightarrow> db_session \<Rightarrow> (nat \<times> nat) result \<times> db_session" where
  "reconcile_watchlist_seed e seed st =
     (case validate_watchlist (sv_ip e) seed of
        Inl err \<Rightarrow> (Inl err, st)
      | Inr u \<Rightarrow>
          (case reconcile_entries e seed (se_work st) of
             (Inl err, db) \<Rightarrow> (Inl err, st\<lparr>se_work := db\<rparr>)
           | (Inr counts, db) \<Rightarrow> (Inr counts, commit (st\<lparr>se_work := db\<rparr>))))"

section \<open>Due sources\<close>

definition is_due :: "utc \<Rightarrow> discovery_source \<Rightarrow> bool" where
  "is_due now s = (case so_last_polled_at s of
     None \<Rightarrow> True | Some t \<Rightarrow> now - t \<ge> so_refresh_interval_seconds s * 1000000)"

definition select_due_sources :: "utc \<Rightarrow> int \<Rightarrow> discovery_db \<Rightarrow> discovery_source list" where
  "select_due_sources now limit db = filter (is_due now) (sql_limit limit (filter so_active (dd_sources db)))"

section \<open>Storing finds\<close>

definition FIRST_CLASS_CONTENT_MARKERS :: "string list" where
  "FIRST_CLASS_CONTENT_MARKERS =
     [''release'', ''changelog'', ''tagged'', ''v1.'', ''v2.'', ''v3.'', ''version '', ''.bundle.json'', ''schema'',
      ''index.md'', ''readme'', ''post:'', ''blog'', ''newsletter'', ''tutorial'']"

definition is_routine_artifact_noise :: "find_candidate \<Rightarrow> discovery_source \<Rightarrow> bool" where
  "is_routine_artifact_noise c s =
     (if so_watch_type s \<noteq> ''github_repo_artifact_scan'' then False
      else if fc_importance_signal c = ''high'' then False
      else let text = lower (fc_title c @ '' '' @ fc_summary_text c)
           in if list_ex (\<lambda>m. contains m text) FIRST_CLASS_CONTENT_MARKERS then False else True)"

definition initial_status_for :: "find_candidate \<Rightarrow> discovery_source \<Rightarrow> string" where
  "initial_status_for c s =
     (if fc_finding_type c = ''new_source_candidate'' then ''pending''
      else if is_routine_artifact_noise c s then ''source_activity'' else ''auto_indexed'')"

text \<open>The two writes outside the database; neither failure stops the other.\<close>

definition auto_ingest_if_eligible :: "sched_env \<Rightarrow> discovery_find \<Rightarrow> discovery_db \<Rightarrow> discovery_find \<times> discovery_db" where
  "auto_ingest_if_eligible e f db =
     (if fi_status f \<noteq> ''auto_indexed'' then (f, db)
      else let f1 = f\<lparr>fi_decided_at := Some (sv_now e), fi_reviewer := ''scheduler:auto_ingest''\<rparr>;
               (f2, db2) = (case sv_publish e f1 of
                   Published p \<Rightarrow> (mark_published (sv_now e) p f1, library_put p db)
                 | ImportFailed \<Rightarrow> (f1, db)
                 | PublishRaised c \<Rightarrow> (f1\<lparr>fi_library_promotion_error := c\<rparr>, db))
           in if sv_index e f2 then (f2\<lparr>fi_ingested_into_chroma := True\<rparr>, chroma_add (fi_id f2) db2) else (f2, db2))"

definition new_find :: "sched_env \<Rightarrow> discovery_source \<Rightarrow> find_candidate \<Rightarrow> string \<Rightarrow> discovery_find" where
  "new_find e s c i =
     (plain_find (sv_now e) i (so_id s) (fc_finding_type c) (fc_external_id c) (take 512 (fc_title c)) (take 1024 (fc_url c)))
     \<lparr>fi_summary_text := take 4000 (fc_summary_text c), fi_raw_payload := sv_dumps e (fc_raw_payload c),
      fi_importance_signal := fc_importance_signal c, fi_status := initial_status_for c s,
      fi_category := fc_category c, fi_child_count := fc_child_count c,
      fi_last_upstream_updated_at := fc_last_upstream_updated_at c\<rparr>"

text \<open>A find seen before: its stamp, and the rolled-up fields when the candidate has a category.\<close>

definition see_again :: "sched_env \<Rightarrow> find_candidate \<Rightarrow> discovery_find \<Rightarrow> discovery_find" where
  "see_again e c f =
     (let f1 = f\<lparr>fi_last_seen_at := sv_now e\<rparr> in
      if fc_category c \<noteq> ''''
      then f1\<lparr>fi_category := fc_category c, fi_child_count := fc_child_count c,
              fi_raw_payload := sv_dumps e (fc_raw_payload c),
              fi_last_upstream_updated_at := (case fc_last_upstream_updated_at c of
                  Some t \<Rightarrow> Some t | None \<Rightarrow> fi_last_upstream_updated_at f)\<rparr>
      else f1)"

definition seen_state :: "discovery_find \<Rightarrow> string \<Rightarrow> string" where
  "seen_state f initial = json_object
     [(''title'', json_quote (fi_title f)), (''url'', json_quote (fi_url f)),
      (''finding_type'', json_quote (fi_finding_type f)), (''importance_signal'', json_quote (fi_importance_signal f)),
      (''initial_status'', json_quote initial), (''auto_ingested'', json_bool (fi_ingested_into_chroma f))]"

text \<open>One candidate: is it counted as new, and the session after it.\<close>

definition persist_one :: "sched_env \<Rightarrow> discovery_source \<Rightarrow> find_candidate \<Rightarrow> db_session \<Rightarrow> bool \<times> db_session" where
  "persist_one e s c st =
     (case find_by_external (se_work st) (so_id s) (fc_external_id c) of
        Some f \<Rightarrow> (False, work (put_find (see_again e c f)) st)
      | None \<Rightarrow>
          let f = new_find e s c (next_id (se_work st)) in
          if sv_conflict e s c then (False, rollback (work use_id st))
          else let (f', db) = auto_ingest_if_eligible e f (add_find f (se_work st))
               in (True, st\<lparr>se_work := sched_audit e FindSeen (Some (fi_id f')) (Some (so_id s)) ''''
                     (seen_state f' (initial_status_for c s)) '''' (put_find f' db)\<rparr>))"

fun persist_loop ::
  "sched_env \<Rightarrow> discovery_source \<Rightarrow> find_candidate list \<Rightarrow> nat \<times> nat \<Rightarrow> db_session \<Rightarrow> (nat \<times> nat) \<times> db_session" where
  "persist_loop e s [] counts st = (counts, st)"
| "persist_loop e s (c # cs) (n, r) st =
     (case persist_one e s c st of
        (True, st1) \<Rightarrow> persist_loop e s cs (n + 1, r) st1
      | (False, st1) \<Rightarrow> persist_loop e s cs (n, r + 1) st1)"

text \<open>\<open>_persist_finds\<close>; a failure of the database is raised at the commit.\<close>

definition persist_finds :: "sched_env \<Rightarrow> discovery_source \<Rightarrow> find_candidate list \<Rightarrow> db_session \<Rightarrow> (string + nat \<times> nat) \<times> db_session" where
  "persist_finds e s cs st =
     (case persist_loop e s cs (0, 0) st of
        (counts, st1) \<Rightarrow> (case sv_save_error e s of Some err \<Rightarrow> (Inl err, st1) | None \<Rightarrow> (Inr counts, commit st1)))"

section \<open>Poll state\<close>

definition polled_ok :: "sched_env \<Rightarrow> poll_result \<Rightarrow> discovery_source \<Rightarrow> discovery_source" where
  "polled_ok e r s =
     s\<lparr>so_last_polled_at := Some (sv_now e), so_last_status := po_status r, so_last_error := '''',
       so_consecutive_failures := 0, so_etag := str_or (po_etag r) (so_etag s),
       so_last_modified := str_or (po_last_modified r) (so_last_modified s), so_updated_at := Some (sv_now e)\<rparr>"

definition record_successful_poll :: "sched_env \<Rightarrow> discovery_source \<Rightarrow> poll_result \<Rightarrow> db_session \<Rightarrow> db_session" where
  "record_successful_poll e s r st =
     commit (work (\<lambda>db. sched_audit e PollSucceeded None (Some (so_id s)) '''' (po_status r) '''' (put_source (polled_ok e r s) db)) st)"

definition polled_badly :: "sched_env \<Rightarrow> string \<Rightarrow> discovery_source \<Rightarrow> discovery_source" where
  "polled_badly e err s =
     s\<lparr>so_last_polled_at := Some (sv_now e), so_last_status := ''error'', so_last_error := take 1024 err,
       so_consecutive_failures := so_consecutive_failures s + 1, so_updated_at := Some (sv_now e)\<rparr>"

definition record_failed_poll :: "sched_env \<Rightarrow> discovery_source \<Rightarrow> string \<Rightarrow> db_session \<Rightarrow> db_session" where
  "record_failed_poll e s err st =
     commit (work (\<lambda>db. sched_audit e PollFailed None (Some (so_id s)) '''' '''' (take 1024 err) (put_source (polled_badly e err s) db)) st)"

section \<open>A pass\<close>

definition WATCH_TYPE_TO_PROVIDER :: "(string \<times> string) list" where
  "WATCH_TYPE_TO_PROVIDER =
     [(''github_repo_watch'', ''github''), (''github_repo_artifact_scan'', ''github''), (''github_topic_watch'', ''github''),
      (''github_user_org_watch'', ''github''), (''saved_search'', ''brave'')]"

text \<open>The token of the source's provider; an exception of the key store is not caught.\<close>

definition auth_token :: "sched_env \<Rightarrow> discovery_source \<Rightarrow> string result" where
  "auth_token e s =
     (case (map_of WATCH_TYPE_TO_PROVIDER (so_watch_type s), sv_key_store e) of
        (Some provider, Some get) \<Rightarrow>
          if sv_admin_token e = '''' then Inr ''''
          else (case get provider (sv_admin_token e) of
              Inl exc \<Rightarrow> Inl (Raised (fst exc)) | Inr key \<Rightarrow> Inr (opt_str_or key ''''))
      | _ \<Rightarrow> Inr '''')"

definition poll_source :: "sched_env \<Rightarrow> discovery_source \<Rightarrow> (discovery_source \<times> poll_result option \<times> string) result" where
  "poll_source e s =
     (case auth_token e s of
        Inl err \<Rightarrow> Inl err
      | Inr token \<Rightarrow>
          Inr (s, case sv_handler e \<lparr>sl_name = so_name s, sl_watch_type = so_watch_type s, sl_target = so_target s,
                     sl_etag = so_etag s, sl_last_modified = so_last_modified s, sl_auth_token = token\<rparr> of
              Returned r \<Rightarrow> (Some r, '''')
            | TimedOut \<Rightarrow> (None, ''handler timed out after '' @ sv_timeout_text e @ ''s'')
            | Crashed msg \<Rightarrow> (None, ''handler crashed: '' @ msg)))"

record poll_summary =
  ps_source_id :: string
  ps_source_name :: string
  ps_watch_type :: string
  ps_status :: string
  ps_new_finds :: nat
  ps_repeat_finds :: nat
  ps_error :: string

definition failed_summary :: "discovery_source \<Rightarrow> string \<Rightarrow> poll_summary" where
  "failed_summary s err = \<lparr>ps_source_id = so_id s, ps_source_name = so_name s, ps_watch_type = so_watch_type s,
     ps_status = ''error'', ps_new_finds = 0, ps_repeat_finds = 0, ps_error = err\<rparr>"

record pass_state =
  pa_session :: db_session
  pa_summaries :: "poll_summary list"
  pa_polled :: nat
  pa_failed :: nat
  pa_new :: nat
  pa_repeat :: nat

definition pass_failed :: "discovery_source \<Rightarrow> string \<Rightarrow> db_session \<Rightarrow> pass_state \<Rightarrow> pass_state" where
  "pass_failed s err st p =
     p\<lparr>pa_session := st, pa_summaries := pa_summaries p @ [failed_summary s err], pa_failed := pa_failed p + 1\<rparr>"

text \<open>The first loop: sources without a handler fail at once, the others are started.\<close>

fun start_polls :: "sched_env \<Rightarrow> discovery_source list \<Rightarrow> pass_state \<Rightarrow> discovery_source list \<times> pass_state" where
  "start_polls e [] p = ([], p)"
| "start_polls e (s # ss) p =
     (if so_watch_type s \<notin> set (sv_registered e)
      then let err = ''No handler registered for '' @ so_watch_type s
           in start_polls e ss (pass_failed s err (record_failed_poll e s err (pa_session p)) p)
      else let (jobs, p') = start_polls e ss (p\<lparr>pa_session := work (sched_audit e PollStarted None (Some (so_id s)) '''' ''''
                  (''due (last_polled_at='' @ sv_show_time e (so_last_polled_at s) @ '')'')) (pa_session p)\<rparr>)
           in (s # jobs, p'))"

fun gather :: "'a result list \<Rightarrow> 'a list result" where
  "gather [] = Inr []"
| "gather (r # rs) = (case r of Inl err \<Rightarrow> Inl err | Inr x \<Rightarrow>
     (case gather rs of Inl err \<Rightarrow> Inl err | Inr xs \<Rightarrow> Inr (x # xs)))"

text \<open>
  One outcome of the second loop. When storing the finds fails, everything since the last
  commit is dropped and the failure recorded, if that works.
\<close>

definition handle_outcome :: "sched_env \<Rightarrow> discovery_source \<times> poll_result option \<times> string \<Rightarrow> pass_state \<Rightarrow> pass_state" where
  "handle_outcome e out p =
     (case out of
        (s, None, err) \<Rightarrow> pass_failed s err (record_failed_poll e s err (pa_session p)) p
      | (s, Some r, err) \<Rightarrow>
          (case persist_finds e s (po_finds r) (pa_session p) of
             (Inl msg, st1) \<Rightarrow>
               let st2 = rollback st1; text = ''result persistence failed: '' @ msg;
                   st3 = (case source_by_id (se_work st2) (so_id s) of
                       None \<Rightarrow> st2
                     | Some fresh \<Rightarrow> if sv_record_error e s then rollback st2 else record_failed_poll e fresh text st2)
               in pass_failed s text st3 p
           | (Inr (new, repeat), st1) \<Rightarrow>
               p\<lparr>pa_session := record_successful_poll e s r st1, pa_polled := pa_polled p + 1,
                 pa_new := pa_new p + new, pa_repeat := pa_repeat p + repeat,
                 pa_summaries := pa_summaries p @
                   [\<lparr>ps_source_id = so_id s, ps_source_name = so_name s, ps_watch_type = so_watch_type s,
                     ps_status = po_status r, ps_new_finds = new, ps_repeat_finds = repeat, ps_error = po_error r\<rparr>]\<rparr>))"

record run_report =
  rr_started_at :: utc
  rr_sources_due :: nat
  rr_sources_polled :: nat
  rr_sources_failed :: nat
  rr_new_finds :: nat
  rr_repeat_finds :: nat
  rr_per_source :: "poll_summary list"

definition run_one_pass :: "sched_env \<Rightarrow> utc \<Rightarrow> watched_source list \<Rightarrow> db_session \<Rightarrow> run_report result \<times> db_session" where
  "run_one_pass e started seed st =
     (case reconcile_watchlist_seed e seed st of
        (Inl err, st1) \<Rightarrow> (Inl err, st1)
      | (Inr counts, st1) \<Rightarrow>
          let due = select_due_sources started 200 (se_work st1);
              (jobs, p) = start_polls e due \<lparr>pa_session = st1, pa_summaries = [], pa_polled = 0, pa_failed = 0,
                                            pa_new = 0, pa_repeat = 0\<rparr>
          in (case gather (map (poll_source e) jobs) of
                Inl err \<Rightarrow> (Inl err, pa_session p)
              | Inr outcomes \<Rightarrow>
                  let q = fold (handle_outcome e) outcomes p
                  in (Inr \<lparr>rr_started_at = started, rr_sources_due = length due, rr_sources_polled = pa_polled q,
                           rr_sources_failed = pa_failed q, rr_new_finds = pa_new q, rr_repeat_finds = pa_repeat q,
                           rr_per_source = pa_summaries q\<rparr>, pa_session q)))"

end
