(* ===== verification/DiscoveryPolling.thy ===== *)
theory DiscoveryPolling
  imports DiscoveryScheduler
begin

text \<open>
  What a pass of the scheduler keeps and does: an interface for the invariants of the
  find table (\<open>pass_invariant\<close>), its instances, the reconciliation of the seed, the poll
  stamps and the report, and what a rollback inside a batch loses.
\<close>

section \<open>The interface: invariants of the find table\<close>

text \<open>The index only grows and ids are only drawn.\<close>

definition later :: "discovery_db \<Rightarrow> discovery_db \<Rightarrow> bool" where
  "later db db' \<longleftrightarrow> set (dd_chroma db) \<subseteq> set (dd_chroma db') \<and> (\<exists>k. dd_fresh db' = drop k (dd_fresh db))"

lemma later_refl [simp]: "later db db"
  unfolding later_def by (metis drop0 order_refl)

lemma later_trans [trans]: "later a b \<Longrightarrow> later b c \<Longrightarrow> later a c"
  unfolding later_def by (metis drop_drop order_trans)

lemma later_simps [simp]:
  "later db (put_find f db') = later db db'" "later db (put_source s db') = later db db'"
  "later db (add_audit a db') = later db db'" "later db (sched_audit e ev fid sid b x w db') = later db db'"
  "later db (library_put p db') = later db db'"
  by (simp_all add: later_def sched_audit_def library_put_def)

lemma later_drawn [simp]: "later db (use_id db)" "later db (add_source s db)" "later db (add_find f db)" "later db (chroma_add i db)"
proof -
  have "\<exists>k. tl xs = drop k xs" for xs :: "string list" by (metis drop0 drop_Suc)
  then show "later db (use_id db)" "later db (add_source s db)" "later db (add_find f db)"
    by (simp_all add: later_def use_id_def add_source_def add_find_def)
  have "\<exists>k. (xs :: string list) = drop k xs" for xs by (metis drop0)
  then show "later db (chroma_add i db)" by (auto simp: later_def chroma_add_def)
qed

lemma sched_audit_tables [simp]:
  "dd_finds (sched_audit e ev fid sid b x w db) = dd_finds db" "dd_sources (sched_audit e ev fid sid b x w db) = dd_sources db"
  "dd_chroma (sched_audit e ev fid sid b x w db) = dd_chroma db" "dd_fresh (sched_audit e ev fid sid b x w db) = dd_fresh db"
  by (simp_all add: sched_audit_def)

lemma use_id_tables [simp]: "dd_finds (use_id db) = dd_finds db" "dd_chroma (use_id db) = dd_chroma db"
  "dd_sources (use_id db) = dd_sources db"
  by (simp_all add: use_id_def)

lemma auto_ingest_later: "auto_ingest_if_eligible e f db = (f', db') \<Longrightarrow> later db db'"
  by (auto simp: auto_ingest_if_eligible_def Let_def split: if_splits publish_outcome.splits intro: later_trans [OF _ later_drawn(4)])

lemma auto_ingest_finds: "auto_ingest_if_eligible e f db = (f', db') \<Longrightarrow> dd_finds db' = dd_finds db"
  by (auto simp: auto_ingest_if_eligible_def Let_def split: if_splits publish_outcome.splits)

locale pass_invariant =
  fixes P :: "discovery_db \<Rightarrow> bool"
  assumes kept: "P db \<Longrightarrow> dd_finds db' = dd_finds db \<Longrightarrow> later db db' \<Longrightarrow> P db'"
    and seen: "P db \<Longrightarrow> find_by_external db sid ext = Some f \<Longrightarrow> P (put_find (see_again e c f) db)"
    and stored: "P db \<Longrightarrow> find_by_external db (so_id s) (fc_external_id c) = None \<Longrightarrow>
      auto_ingest_if_eligible e (new_find e s c (next_id db)) (add_find (new_find e s c (next_id db)) db) = (f', db') \<Longrightarrow>
      P (put_find f' db')"
begin

definition session_ok :: "db_session \<Rightarrow> bool" where
  "session_ok st \<longleftrightarrow> P (se_committed st) \<and> P (se_work st) \<and> later (se_committed st) (se_work st)"

lemma commit_ok: "session_ok st \<Longrightarrow> session_ok (commit st)"
  by (simp add: session_ok_def commit_def)

lemma rollback_ok:
  assumes "session_ok st"
  shows "session_ok (rollback st)"
proof -
  let ?db = "(se_committed st)\<lparr>dd_chroma := dd_chroma (se_work st), dd_library := dd_library (se_work st),
    dd_fresh := dd_fresh (se_work st)\<rparr>"
  have "P ?db"
    by (rule kept [of "se_committed st"]) (use assms in \<open>simp_all add: session_ok_def later_def\<close>)
  then show ?thesis by (simp add: session_ok_def rollback_def Let_def)
qed

lemma work_ok:
  assumes "session_ok st" and "\<And>db. P db \<Longrightarrow> P (f db)" and "\<And>db. later db (f db)"
  shows "session_ok (work f st)"
  using assms later_trans by (simp add: session_ok_def work_def) blast

lemma work_kept:
  assumes "session_ok st" and "\<And>db. dd_finds (f db) = dd_finds db" and "\<And>db. later db (f db)"
  shows "session_ok (work f st)"
  using assms by (intro work_ok) (auto intro: kept)

lemma persist_one_ok:
  assumes "session_ok st"
  shows "session_ok (snd (persist_one e s c st))"
proof (cases "find_by_external (se_work st) (so_id s) (fc_external_id c)")
  case (Some f)
  have "P (put_find (see_again e c f) (se_work st))"
    using assms Some by (intro seen) (auto simp: session_ok_def)
  then show ?thesis using Some assms by (simp add: persist_one_def session_ok_def work_def)
next
  case None
  let ?f = "new_find e s c (next_id (se_work st))"
  obtain f' db where i: "auto_ingest_if_eligible e ?f (add_find ?f (se_work st)) = (f', db)" by force
  have "P (put_find f' db)" using assms None i by (intro stored) (auto simp: session_ok_def)
  then have "P (sched_audit e ev fid sid b x w (put_find f' db))" for ev fid sid b x w
    by (rule kept) simp_all
  moreover have "later (se_work st) db"
    using auto_ingest_later [OF i] later_trans [OF later_drawn(3)] by simp
  then have "later (se_committed st) db"
    using assms later_trans unfolding session_ok_def by blast
  moreover have "session_ok (work use_id st)" using assms by (intro work_kept) simp_all
  ultimately show ?thesis
    using None i assms rollback_ok by (simp add: persist_one_def Let_def session_ok_def)
qed

lemma persist_loop_ok: "session_ok st \<Longrightarrow> session_ok (snd (persist_loop e s cs counts st))"
proof (induction e s cs counts st rule: persist_loop.induct)
  case (2 e s c cs n r st)
  then show ?case using persist_one_ok [of st e s c] by (auto split: prod.splits bool.splits)
qed simp

lemma persist_finds_ok:
  assumes "session_ok st"
  shows "session_ok (snd (persist_finds e s cs st))"
proof -
  obtain n st1 where l: "persist_loop e s cs (0, 0) st = (n, st1)" by (rule prod.exhaust)
  then have "session_ok st1" using persist_loop_ok [OF assms, of e s cs "(0, 0)"] by simp
  then show ?thesis using l commit_ok by (simp add: persist_finds_def split: option.split)
qed

lemma record_ok:
  "session_ok st \<Longrightarrow> session_ok (record_failed_poll e s err st)"
  "session_ok st \<Longrightarrow> session_ok (record_successful_poll e s r st)"
  by (simp_all add: record_failed_poll_def record_successful_poll_def commit_ok work_kept)

lemma start_polls_ok: "session_ok (pa_session p) \<Longrightarrow> session_ok (pa_session (snd (start_polls e ss p)))"
  by (induction e ss p rule: start_polls.induct)
     (auto simp: Let_def pass_failed_def record_ok work_kept split: prod.splits)

lemma handle_outcome_ok:
  assumes "session_ok (pa_session p)"
  shows "session_ok (pa_session (handle_outcome e out p))"
proof -
  obtain s r err where out: "out = (s, r, err)" by (cases out) auto
  show ?thesis
  proof (cases r)
    case None
    then show ?thesis using assms out by (simp add: handle_outcome_def pass_failed_def record_ok)
  next
    case (Some x)
    obtain q st1 where q: "persist_finds e s (po_finds x) (pa_session p) = (q, st1)" by force
    then have st1: "session_ok st1" using persist_finds_ok [OF assms, of e s "po_finds x"] by simp
    show ?thesis
      using out Some q st1
      by (auto simp: handle_outcome_def pass_failed_def Let_def record_ok rollback_ok split: sum.split option.split)
  qed
qed

lemma reconcile_entry_kept:
  "reconcile_entry e w secs db = (n, db') \<Longrightarrow> dd_finds db' = dd_finds db \<and> later db db'"
  by (auto simp: reconcile_entry_def Let_def split: option.splits if_splits)

lemma reconcile_entries_kept:
  "reconcile_entries e ws db = (r, db') \<Longrightarrow> dd_finds db' = dd_finds db \<and> later db db'"
proof (induction e ws db arbitrary: r db' rule: reconcile_entries.induct)
  case (2 e w ws db)
  show ?case
  proof (cases "refresh_seconds w")
    case (Inr secs)
    obtain c u db1 where e: "reconcile_entry e w secs db = ((c, u), db1)" by (metis surj_pair)
    obtain q db2 where r: "reconcile_entries e ws db1 = (q, db2)" by force
    have "dd_finds db2 = dd_finds db1 \<and> later db1 db2" using "2.IH" [OF Inr e [symmetric] refl r] .
    moreover have "db' = db2" using "2.prems" Inr e r by (auto split: sum.splits)
    ultimately show ?thesis using reconcile_entry_kept [OF e] later_trans by metis
  qed (use "2.prems" in auto)
qed auto

lemma reconcile_ok:
  assumes "session_ok st"
  shows "session_ok (snd (reconcile_watchlist_seed e seed st))"
proof -
  obtain r db where r: "reconcile_entries e seed (se_work st) = (r, db)" by force
  have "P db" "later (se_committed st) db"
    using assms reconcile_entries_kept [OF r] kept later_trans unfolding session_ok_def by blast+
  then have "session_ok (st\<lparr>se_work := db\<rparr>)" using assms by (simp add: session_ok_def)
  then show ?thesis
    using r assms commit_ok by (auto simp: reconcile_watchlist_seed_def split: sum.splits)
qed

lemma run_one_pass_ok:
  assumes "session_ok st"
  shows "session_ok (snd (run_one_pass e started seed st))"
proof -
  obtain r st1 where r: "reconcile_watchlist_seed e seed st = (r, st1)" by force
  have st1: "session_ok st1" using reconcile_ok [OF assms, of e seed] r by simp
  have fold: "session_ok (pa_session (fold (handle_outcome e) outs p))" if "session_ok (pa_session p)" for outs p
    using that by (induction outs arbitrary: p) (simp_all add: handle_outcome_ok)
  show ?thesis
  proof (cases r)
    case (Inr n)
    let ?p = "\<lparr>pa_session = st1, pa_summaries = [], pa_polled = 0, pa_failed = 0, pa_new = 0, pa_repeat = 0\<rparr>"
    obtain jobs p where p: "start_polls e (select_due_sources started 200 (se_work st1)) ?p = (jobs, p)" by force
    have "session_ok (pa_session p)" using start_polls_ok [of ?p e "select_due_sources started 200 (se_work st1)"] st1 p by simp
    then show ?thesis
      using r Inr p fold by (auto simp: run_one_pass_def Let_def split: sum.split)
  qed (use r st1 in \<open>simp add: run_one_pass_def\<close>)
qed

end

section \<open>Instances\<close>

lemma see_again_fields [simp]:
  "fi_id (see_again e c f) = fi_id f" "fi_source_id (see_again e c f) = fi_source_id f"
  "fi_external_id (see_again e c f) = fi_external_id f" "fi_status (see_again e c f) = fi_status f"
  "fi_ingested_into_chroma (see_again e c f) = fi_ingested_into_chroma f"
  "fi_published_to_library_repo (see_again e c f) = fi_published_to_library_repo f"
  by (simp_all add: see_again_def Let_def)

lemma new_find_fields [simp]:
  "fi_id (new_find e s c i) = i" "fi_source_id (new_find e s c i) = so_id s"
  "fi_external_id (new_find e s c i) = fc_external_id c" "fi_status (new_find e s c i) = initial_status_for c s"
  "\<not> fi_ingested_into_chroma (new_find e s c i)" "\<not> fi_published_to_library_repo (new_find e s c i)"
  by (simp_all add: new_find_def plain_find_def)

lemma mark_published_fields [simp]:
  "fi_source_id (mark_published now p f) = fi_source_id f" "fi_external_id (mark_published now p f) = fi_external_id f"
  "fi_status (mark_published now p f) = fi_status f"
  by (simp_all add: mark_published_def)

lemma auto_ingest_fields:
  assumes "auto_ingest_if_eligible e f db = (f', db')"
  shows "fi_id f' = fi_id f" "fi_source_id f' = fi_source_id f" "fi_external_id f' = fi_external_id f" "fi_status f' = fi_status f"
    "dd_fresh db' = dd_fresh db" "fi_status f \<noteq> ''auto_indexed'' \<Longrightarrow> f' = f \<and> db' = db"
    "fi_ingested_into_chroma f' \<Longrightarrow> fi_ingested_into_chroma f \<or> fi_id f \<in> set (dd_chroma db')"
  using assms by (auto simp: auto_ingest_if_eligible_def Let_def chroma_add_def library_put_def split: if_splits publish_outcome.splits)

lemma find_by_externalD: "find_by_external db sid ext = Some f \<Longrightarrow> f \<in> set (dd_finds db) \<and> fi_source_id f = sid \<and> fi_external_id f = ext"
  by (auto simp: find_by_external_def dest!: find_row_SomeD)

interpretation pass_index: pass_invariant "index_ok S" for S
proof
  fix db db'
  assume "index_ok S db" "dd_finds db' = dd_finds db" "later db db'"
  then show "index_ok S db'" by (auto simp: index_ok_def later_def)
next
  fix db sid ext f e c
  assume "index_ok S db" "find_by_external db sid ext = Some f"
  then show "index_ok S (put_find (see_again e c f) db)"
    by (intro index_ok_put) (auto simp: index_ok_def dest: find_by_externalD)
next
  fix db s c e f' db'
  let ?f = "new_find e s c (next_id db)"
  assume db: "index_ok S db" and i: "auto_ingest_if_eligible e ?f (add_find ?f db) = (f', db')"
  have "index_ok S (add_find ?f db)" using db by (simp add: index_ok_def)
  moreover have "set (dd_chroma (add_find ?f db)) \<subseteq> set (dd_chroma db')"
    using auto_ingest_later [OF i] by (simp add: later_def)
  ultimately show "index_ok S (put_find f' db')"
    using auto_ingest_finds [OF i] auto_ingest_fields [OF i] by (intro index_ok_put [of _ "add_find ?f db"]) auto
qed

text \<open>
  Nothing that waits for a reviewer, or was rolled up under its source, is flagged as
  ingested or as published. The flags are those of the row: what the index and the library
  really hold may differ where a step after the call that filled them fails.
\<close>

definition gated :: "discovery_find \<Rightarrow> bool" where
  "gated f \<longleftrightarrow> (fi_status f \<in> {''pending'', ''source_activity''} \<longrightarrow>
     \<not> fi_ingested_into_chroma f \<and> \<not> fi_published_to_library_repo f)"

definition gate_ok :: "discovery_db \<Rightarrow> bool" where
  "gate_ok db \<longleftrightarrow> (\<forall>f \<in> set (dd_finds db). gated f)"

lemma gate_ok_put: "gate_ok db \<Longrightarrow> gated f \<Longrightarrow> dd_finds db1 = dd_finds db \<Longrightarrow> gate_ok (put_find f db1)"
  by (auto simp: gate_ok_def put_find_def update_where_def)

interpretation pass_gate: pass_invariant gate_ok
proof
  fix db db' :: discovery_db
  assume "gate_ok db" "dd_finds db' = dd_finds db"
  then show "gate_ok db'" by (simp add: gate_ok_def)
next
  fix db sid ext f e c
  assume "gate_ok db" "find_by_external db sid ext = Some f"
  then show "gate_ok (put_find (see_again e c f) db)"
    by (intro gate_ok_put [of db]) (auto simp: gate_ok_def gated_def dest: find_by_externalD)
next
  fix db s c e f' db'
  let ?f = "new_find e s c (next_id db)"
  assume db: "gate_ok db" and i: "auto_ingest_if_eligible e ?f (add_find ?f db) = (f', db')"
  have "gated ?f" by (simp add: gated_def)
  then have "gate_ok (add_find ?f db)" using db by (simp add: gate_ok_def)
  moreover have "gated f'"
    using auto_ingest_fields(4,6) [OF i] \<open>gated ?f\<close> by (cases "fi_status ?f = ''auto_indexed''") (auto simp: gated_def)
  ultimately show "gate_ok (put_find f' db')" using auto_ingest_finds [OF i] by (intro gate_ok_put)
qed

text \<open>While ids are left: ids are unique and unused ones fresh, and no source has two finds with the same external id.\<close>

definition find_key :: "discovery_find \<Rightarrow> string \<times> string" where
  "find_key f = (fi_source_id f, fi_external_id f)"

definition finds_unique :: "discovery_db \<Rightarrow> bool" where
  "finds_unique db \<longleftrightarrow> dd_fresh db = [] \<or>
     (distinct (map fi_id (dd_finds db) @ dd_fresh db) \<and> distinct (map find_key (dd_finds db)))"

lemma update_where_last:
  "i \<notin> fi_id ` set fs \<Longrightarrow> update_where (\<lambda>x. fi_id x = i) (\<lambda>_. f) (fs @ [g]) = fs @ [if fi_id g = i then f else g]"
  by (induction fs) (auto simp: update_where_def)

interpretation pass_unique: pass_invariant finds_unique
proof
  fix db db'
  assume a: "finds_unique db" "dd_finds db' = dd_finds db" "later db db'"
  then obtain k where k: "dd_fresh db' = drop k (dd_fresh db)" by (auto simp: later_def)
  then show "finds_unique db'"
    using a set_drop_subset [of k "dd_fresh db"] by (auto simp: finds_unique_def)
next
  fix db sid ext f e c
  assume a: "finds_unique db" "find_by_external db sid ext = Some f"
  show "finds_unique (put_find (see_again e c f) db)"
  proof (cases "dd_fresh db = []")
    case False
    then have d: "distinct (map fi_id (dd_finds db) @ dd_fresh db)" "distinct (map find_key (dd_finds db))"
      using a by (auto simp: finds_unique_def)
    have f: "f \<in> set (dd_finds db)" using find_by_externalD [OF a(2)] by simp
    have "map fi_id (dd_finds (put_find (see_again e c f) db)) = map fi_id (dd_finds db)"
      by (simp add: put_find_def map_update_where)
    moreover have "map find_key (dd_finds (put_find (see_again e c f) db)) = map find_key (dd_finds db)"
      using d f by (auto simp: put_find_def update_where_def find_key_def distinct_map inj_on_def)
    ultimately show ?thesis using d by (simp add: finds_unique_def)
  qed (simp add: finds_unique_def)
next
  fix db s c e f' db'
  let ?f = "new_find e s c (next_id db)"
  assume db: "finds_unique db" and none: "find_by_external db (so_id s) (fc_external_id c) = None"
    and i: "auto_ingest_if_eligible e ?f (add_find ?f db) = (f', db')"
  show "finds_unique (put_find f' db')"
  proof (cases "dd_fresh db")
    case Nil
    then show ?thesis using auto_ingest_fields(5) [OF i] by (simp add: finds_unique_def add_find_def use_id_def)
  next
    case (Cons i ids)
    then have d: "distinct (map fi_id (dd_finds db) @ i # ids)" "distinct (map find_key (dd_finds db))"
      using db by (auto simp: finds_unique_def)
    have id: "fi_id f' = i" using auto_ingest_fields(1) [OF i] Cons by (simp add: next_id_def)
    have "dd_finds (put_find f' db') = dd_finds db @ [f']"
      using auto_ingest_finds [OF i] id d(1) Cons
      by (simp add: put_find_def update_where_last next_id_def)
    moreover have "dd_fresh (put_find f' db') = ids"
      using auto_ingest_fields(5) [OF i] Cons by (simp add: add_find_def use_id_def)
    moreover have "find_key f' \<notin> find_key ` set (dd_finds db)"
      using none auto_ingest_fields(2,3) [OF i] by (auto simp: find_by_external_def find_row_None_iff find_key_def image_iff)
    ultimately show ?thesis using d id by (simp add: finds_unique_def)
  qed
qed

section \<open>The subsystem\<close>

text \<open>Queue operations and passes of the scheduler in any order; a pass runs in a session of its own.\<close>

datatype system_step =
    QueueStep discovery_env queue_op
  | PassStep sched_env utc "watched_source list"

definition open_session :: "discovery_db \<Rightarrow> db_session" where
  "open_session db = \<lparr>se_committed = db, se_work = db\<rparr>"

definition close_session :: "db_session \<Rightarrow> discovery_db" where
  "close_session st = se_committed (rollback st)"

fun do_step :: "system_step \<Rightarrow> discovery_db \<Rightarrow> discovery_db" where
  "do_step (QueueStep e op) db = run_op e op db"
| "do_step (PassStep e started seed) db = close_session (snd (run_one_pass e started seed (open_session db)))"

definition run_system :: "system_step list \<Rightarrow> discovery_db \<Rightarrow> discovery_db" where
  "run_system steps db = fold do_step steps db"

context pass_invariant
begin

lemma pass_keeps: "P db \<Longrightarrow> P (do_step (PassStep e started seed) db)"
  using rollback_ok [OF run_one_pass_ok [of "open_session db" e started seed]]
  by (simp add: session_ok_def open_session_def close_session_def)

lemma system_keeps:
  assumes "\<And>db e op. QueueStep e op \<in> set steps \<Longrightarrow> P db \<Longrightarrow> P (run_op e op db)" and "P db"
  shows "P (run_system steps db)"
  using assms unfolding run_system_def
proof (induction steps arbitrary: db)
  case (Cons x xs)
  then have "P (do_step x db)" using pass_keeps by (cases x) (simp_all del: do_step.simps(2))
  then show ?case using Cons.IH [of "do_step x db"] Cons.prems(1) by simp
qed simp

end

section \<open>Reconciliation\<close>

lemma seed_drift_Nil: "seed_drift w secs s = [] \<longleftrightarrow> apply_seed w secs s = s"
  by (cases s) (auto simp: seed_drift_def apply_seed_def)

lemma seed_drift_applied [simp]:
  "seed_drift w secs (apply_seed w secs s\<lparr>so_updated_at := t\<rparr>) = []" "seed_drift w secs (seed_row e w secs i) = []"
  by (simp_all add: seed_drift_def apply_seed_def seed_row_def plain_source_def)

lemma apply_seed_key [simp]: "so_id (apply_seed w secs s) = so_id s" "so_name (apply_seed w secs s) = so_name s"
  "so_id (seed_row e w secs i) = i" "so_name (seed_row e w secs i) = ws_name w"
  by (simp_all add: apply_seed_def seed_row_def plain_source_def)

text \<open>The row of an entry agrees with it.\<close>

definition seeded :: "discovery_db \<Rightarrow> watched_source \<Rightarrow> bool" where
  "seeded db w \<longleftrightarrow> (case (source_by_name db (ws_name w), refresh_seconds w) of
     (Some s, Inr secs) \<Rightarrow> seed_drift w secs s = [] | _ \<Rightarrow> False)"

text \<open>Ids of sources are unique and the next \<open>n\<close> ids are fresh.\<close>

definition source_ids_ok :: "nat \<Rightarrow> discovery_db \<Rightarrow> bool" where
  "source_ids_ok n db \<longleftrightarrow> distinct (map so_id (dd_sources db) @ dd_fresh db) \<and> n \<le> length (dd_fresh db)"

lemma find_row_put:
  assumes "distinct (map so_id rows)" and "s \<in> set rows" and "so_id s' = so_id s" and "so_name s' = so_name s"
  shows "find_row so_name n (update_where (\<lambda>x. so_id x = so_id s') (\<lambda>_. s') rows) =
    map_option (\<lambda>x. if x = s then s' else x) (find_row so_name n rows)"
proof -
  have "update_where (\<lambda>x. so_id x = so_id s') (\<lambda>_. s') rows = map (\<lambda>x. if x = s then s' else x) rows"
    using assms(1-3) by (auto simp: update_where_def distinct_map inj_on_def)
  moreover have "find_row so_name n (map (\<lambda>x. if x = s then s' else x) rows) = map_option (\<lambda>x. if x = s then s' else x) (find_row so_name n rows)"
    using assms(4) by (induction rows) auto
  ultimately show ?thesis by simp
qed

lemma reconcile_entry_effect:
  assumes "source_ids_ok (Suc n) db" and "refresh_seconds w = Inr secs" and "reconcile_entry e w secs db = (k, db')"
  shows "source_ids_ok n db'" "seeded db' w"
    "\<And>v. seeded db v \<Longrightarrow> ws_name v \<noteq> ws_name w \<Longrightarrow> seeded db' v"
proof -
  obtain i ids where fresh: "dd_fresh db = i # ids" using assms(1) by (cases "dd_fresh db") (auto simp: source_ids_ok_def)
  have all: "source_ids_ok n db' \<and> seeded db' w \<and> (\<forall>v. seeded db v \<longrightarrow> ws_name v \<noteq> ws_name w \<longrightarrow> seeded db' v)"
  proof (cases "source_by_name db (ws_name w)")
    case None
    then have db': "dd_sources db' = dd_sources db @ [seed_row e w secs i]" "dd_fresh db' = ids"
      using assms(3) fresh by (auto simp: reconcile_entry_def Let_def next_id_def add_source_def use_id_def)
    then have "source_by_name db' (ws_name w) = Some (seed_row e w secs i)"
      using None by (simp add: source_by_name_def find_row_append)
    moreover have "source_by_name db' m = source_by_name db m" if "m \<noteq> ws_name w" for m
      using that db' by (simp add: source_by_name_def find_row_append split: option.split)
    ultimately show ?thesis
      using assms(1,2) db' fresh by (auto simp: seeded_def source_ids_ok_def)
  next
    case (Some s)
    then have s: "s \<in> set (dd_sources db)" "so_name s = ws_name w" by (auto simp: source_by_name_def dest!: find_row_SomeD)
    show ?thesis
    proof (cases "seed_drift w secs s = []")
      case True
      then have "db' = db" using assms(3) Some by (simp add: reconcile_entry_def)
      then show ?thesis using True Some assms(1,2) by (simp add: seeded_def source_ids_ok_def)
    next
      case False
      let ?s = "apply_seed w secs s\<lparr>so_updated_at := Some (sv_now e)\<rparr>"
      have db': "dd_sources db' = update_where (\<lambda>x. so_id x = so_id ?s) (\<lambda>_. ?s) (dd_sources db)" "dd_fresh db' = dd_fresh db"
        using assms(3) Some False by (auto simp: reconcile_entry_def Let_def put_source_def)
      have by_name: "source_by_name db' m = map_option (\<lambda>x. if x = s then ?s else x) (source_by_name db m)" for m
        unfolding source_by_name_def db'(1)
        by (rule find_row_put) (use assms(1) s in \<open>auto simp: source_ids_ok_def\<close>)
      have "map so_id (dd_sources db') = map so_id (dd_sources db)" unfolding db' by (rule map_update_where) auto
      then have "source_ids_ok n db'" using assms(1) db'(2) unfolding source_ids_ok_def by simp
      moreover have "seeded db' w" using assms(2) Some by (simp add: seeded_def by_name)
      moreover have "seeded db' v" if "seeded db v" "ws_name v \<noteq> ws_name w" for v
      proof -
        obtain x secs' where x: "source_by_name db (ws_name v) = Some x" "refresh_seconds v = Inr secs'" "seed_drift v secs' x = []"
          using \<open>seeded db v\<close> by (auto simp: seeded_def split: option.splits sum.splits)
        moreover have "x \<noteq> s" using x(1) s(2) that(2) by (auto simp: source_by_name_def dest!: find_row_SomeD)
        ultimately show ?thesis by (simp add: seeded_def by_name)
      qed
      ultimately show ?thesis by blast
    qed
  qed
  then show "source_ids_ok n db'" "seeded db' w" "\<And>v. seeded db v \<Longrightarrow> ws_name v \<noteq> ws_name w \<Longrightarrow> seeded db' v"
    by blast+
qed

lemma reconcile_entries_effect:
  assumes "reconcile_entries e ws db = (Inr k, db')" and "source_ids_ok (length ws + n) db" and "distinct (map ws_name ws)"
  shows "source_ids_ok n db' \<and> (\<forall>w \<in> set ws. seeded db' w) \<and> (\<forall>v. seeded db v \<longrightarrow> ws_name v \<notin> ws_name ` set ws \<longrightarrow> seeded db' v)"
  using assms
proof (induction ws arbitrary: db db' k)
  case (Cons w ws)
  obtain secs where secs: "refresh_seconds w = Inr secs" using Cons.prems(1) by (auto split: sum.splits)
  obtain j db1 where e: "reconcile_entry e w secs db = (j, db1)" by (rule prod.exhaust)
  obtain k' where r: "reconcile_entries e ws db1 = (Inr k', db')"
    using Cons.prems(1) secs e by (auto split: prod.splits sum.splits)
  note E = reconcile_entry_effect [OF _ secs e, of "length ws + n"]
  have ids: "source_ids_ok (Suc (length ws + n)) db" using Cons.prems(2) by simp
  have "source_ids_ok n db' \<and> (\<forall>w \<in> set ws. seeded db' w) \<and> (\<forall>v. seeded db1 v \<longrightarrow> ws_name v \<notin> ws_name ` set ws \<longrightarrow> seeded db' v)"
    using Cons.IH [OF r E(1) [OF ids]] Cons.prems(3) by simp
  then show ?case using E(2,3) [OF ids] Cons.prems(3) by auto
qed (simp add: source_ids_ok_def)

lemma reconcile_entries_settled:
  "(\<And>w. w \<in> set ws \<Longrightarrow> seeded db w) \<Longrightarrow> reconcile_entries e ws db = (Inr (0, 0), db)"
  by (induction ws) (fastforce simp: seeded_def reconcile_entry_def split: option.splits sum.splits)+

lemma valid_watchlist_names:
  assumes "validate_watchlist ip ws = Inr u"
  shows "distinct (map ws_name ws)"
proof -
  have "watchlist_errors ip [] ws = []" using assms by (auto simp: validate_watchlist_def Let_def split: if_splits)
  then have "distinct (map (strip \<circ> ws_name) ws)" using watchlist_errors_NilD by blast
  then show ?thesis by (auto simp: distinct_map inj_on_def)
qed

end
