(* ===== verification/DiscoveryPasses.thy ===== *)
theory DiscoveryPasses
  imports DiscoveryPolling
begin

text \<open>
  Properties of the scheduler and of the discovery subsystem as a whole: runs that mix
  queue operations and passes, the reconciliation of the seed, the poll stamps, the
  report, the order of the due query and what a rollback inside a batch loses.
\<close>

section \<open>The review gate over queue operations\<close>

lemma gate_ok_same: "gate_ok db \<Longrightarrow> dd_finds db' = dd_finds db \<Longrightarrow> gate_ok db'"
  by (simp add: gate_ok_def)

lemma gate_ok_commit:
  assumes "gate_ok db" and "dd_finds db1 = dd_finds db" and "gated f"
  shows "gate_ok (snd (commit_find e ev rv b a w f s db1))"
  using gate_ok_put [OF assms(1,3,2)] assms(1,2) by (auto simp: commit_find_def committing_db gate_ok_def)

lemma gate_ok_on_find:
  assumes "gate_ok db" and "\<And>f s. gated f \<Longrightarrow> gate_ok (snd (act f s db))"
  shows "gate_ok (snd (on_find fid act db))"
proof (cases "find_with_source db fid")
  case (Some fs)
  obtain f s where fs: "fs = (f, s)" by force
  then have "f \<in> set (dd_finds db)" using find_with_sourceD [of db fid f s] Some by simp
  then have "gated f" using assms(1) by (simp add: gate_ok_def)
  then show ?thesis using assms(2) Some fs by (simp add: on_find_def)
qed (simp add: on_find_def assms(1))

lemma gate_ok_publish_failed: "gate_ok db \<Longrightarrow> gated f \<Longrightarrow> gate_ok (snd (publish_failed e exc f db))"
  by (auto simp: publish_failed_def committing_db gated_def intro!: gate_ok_put split: sum.splits)

lemma gate_ok_settle:
  assumes "gate_ok db" "dd_finds db1 = dd_finds db"
  shows "gate_ok (snd (settle_find e r f s db1))"
proof -
  have "gate_ok (snd (commit_find e FindDecision rv b a w (decided now r (f\<lparr>fi_status := st\<rparr>)) s db1))"
    "gate_ok (snd (commit_find e FindDecision rv b a w (decided now r (f\<lparr>fi_status := st, fi_ingested_into_chroma := True\<rparr>)) s
      (chroma_add i db1)))"
    if "st = ''approved'' \<or> st = ''rejected''" for rv b a w now st i
    by (rule gate_ok_commit [OF assms(1)]; use that in \<open>auto simp: gated_def decided_def assms(2)\<close>)+
  moreover have "gate_ok db1" using gate_ok_same [OF assms] .
  ultimately show ?thesis by (simp add: settle_find_def Let_def split: option.split)
qed

lemma gate_ok_decide:
  assumes "gate_ok db"
  shows "gate_ok (snd (decide_find e i r db))"
  unfolding decide_find_def using assms
  by (auto simp: Let_def gated_def intro!: gate_ok_on_find gate_ok_publish_failed gate_ok_settle [OF assms] split: sum.split)

lemma gate_ok_toggles:
  assumes "gate_ok db"
  shows "gate_ok (snd (set_find_featured e i on rv db))" "gate_ok (snd (set_find_ticker_featured e i on rv db))"
    "gate_ok (snd (set_find_newsletter_pending e i on rv db))" "gate_ok (snd (set_find_dismissed e i on rv db))"
  unfolding set_find_featured_def set_find_ticker_featured_def set_find_newsletter_pending_def set_find_dismissed_def
  by (rule gate_ok_on_find [OF assms], rule gate_ok_commit [OF assms]; auto simp: gated_def split: if_splits)+

lemma gate_ok_withdrawals:
  assumes "gate_ok db"
  shows "gate_ok (snd (unpublish_find_from_latest e i rv n db))" "gate_ok (snd (unpublish_find_from_library e i rv n db))"
    "gate_ok (snd (purge_find_from_kb e i rv n db))" "gate_ok (snd (promote_find_to_library e i rv n db))"
proof -
  note intros = gate_ok_on_find [OF assms] gate_ok_commit [OF assms] gate_ok_same [OF assms] gate_ok_publish_failed [OF assms]
  show "gate_ok (snd (unpublish_find_from_latest e i rv n db))"
    unfolding unpublish_find_from_latest_def
    by (rule intros(1)) (auto simp: assms gated_def intro!: intros(2) simp del: commit_find_tables)
  show "gate_ok (snd (unpublish_find_from_library e i rv n db))"
    unfolding unpublish_find_from_library_def
    by (rule intros(1)) (auto simp: assms gated_def Let_def intro!: intros(2) simp del: commit_find_tables split: sum.split)
  have "gate_ok (add_audit a db)" for a by (rule intros(3)) simp
  then show "gate_ok (snd (purge_find_from_kb e i rv n db))"
    unfolding purge_find_from_kb_def
    by (intro intros(1)) (auto simp: assms gated_def Let_def chroma_purge_def committing_db intro!: intros(2) simp del: commit_find_tables
        split: sum.split option.split)
  show "gate_ok (snd (promote_find_to_library e i rv n db))"
    unfolding promote_find_to_library_def
    by (rule intros(1)) (auto simp: assms gated_def PUBLIC_FIND_STATUSES_def intro!: intros(2,4) simp del: commit_find_tables
        split: sum.split)
qed

lemma gate_ok_sources:
  assumes "gate_ok db"
  shows "gate_ok (snd (add_watched_source e w n actor db))" "gate_ok (snd (update_watched_source e i u actor db))"
    "gate_ok (snd (set_source_featured e i on rv db))"
  using add_watched_source_tables [of e w n actor db]
  by (auto simp: update_watched_source_def set_source_featured_def committing_db Let_def assms intro: gate_ok_same [OF assms]
      split: option.splits)

lemma gate_ok_promote_source:
  assumes "gate_ok db"
  shows "gate_ok (snd (promote_find_to_source e fid rv n cadence scan db))"
proof -
  have "gate_ok (snd (commit_find e FindDecision rv b a w
      (f\<lparr>fi_status := ''approved'', fi_reviewer := rv, fi_decision_notes := w, fi_decided_at := t\<rparr>) s db1))"
    "gate_ok db1"
    if "add_all_sources e n act ws db = (q, db1)" for f s act ws q db1 b a w t
  proof -
    have same: "dd_finds db1 = dd_finds db" using that add_all_sources_tables [of e n act ws db] by simp
    show "gate_ok db1" using gate_ok_same [OF assms same] .
    show "gate_ok (snd (commit_find e FindDecision rv b a w
      (f\<lparr>fi_status := ''approved'', fi_reviewer := rv, fi_decision_notes := w, fi_decided_at := t\<rparr>) s db1))"
      by (rule gate_ok_commit [OF assms same]) (simp add: gated_def)
  qed
  then show ?thesis
    using assms by (auto simp: promote_find_to_source_def Let_def simp del: commit_find_tables
        split: option.split sum.split prod.split)
qed

lemma gate_ok_manual:
  assumes "gate_ok db"
  shows "gate_ok (snd (create_manual_find e r db))"
proof -
  obtain s db1 where s: "ensure_manual_curation_source e db = (s, db1)" by force
  then have same: "dd_finds db1 = dd_finds db" using manual_source_tables [of e db] by simp
  have "gate_ok (put_find (f\<lparr>fi_newsletter_pending := True, fi_dismissed := False\<rparr>) db1)"
    if f: "find_by_external db1 (so_id s) u = Some f" for u f
    using find_by_externalD [OF f] same assms by (intro gate_ok_put [OF assms]) (auto simp: gate_ok_def gated_def)
  moreover have "gate_ok (add_audit a (add_find f db1))" if "gated f" for a f
    using that same assms by (simp add: gate_ok_def)
  ultimately show ?thesis
    using s assms by (auto simp: create_manual_find_def committing_db Let_def plain_find_def gated_def split: option.splits)
qed

lemma run_op_gate_ok: "gate_ok db \<Longrightarrow> gate_ok (run_op e op db)"
  by (cases op)
     (simp_all add: gate_ok_sources gate_ok_toggles gate_ok_decide gate_ok_withdrawals gate_ok_promote_source gate_ok_manual)

section \<open>Poll stamps\<close>

definition stamped :: "utc \<Rightarrow> string \<Rightarrow> discovery_source list \<Rightarrow> bool" where
  "stamped now i rows \<longleftrightarrow> i \<in> so_id ` set rows \<and> (\<forall>s \<in> set rows. so_id s = i \<longrightarrow> so_last_polled_at s = Some now)"

text \<open>A property of the source table in both copies of a session.\<close>

definition both :: "(discovery_source list \<Rightarrow> bool) \<Rightarrow> db_session \<Rightarrow> bool" where
  "both Q st \<longleftrightarrow> Q (dd_sources (se_committed st)) \<and> Q (dd_sources (se_work st))"

lemma both_steps [simp]:
  "both Q st \<Longrightarrow> both Q (commit st)" "both Q st \<Longrightarrow> both Q (rollback st)"
  "dd_sources (f (se_work st)) = dd_sources (se_work st) \<Longrightarrow> both Q (work f st) = both Q st"
  by (simp_all add: both_def commit_def rollback_def work_def Let_def)

lemma add_find_sources [simp]: "dd_sources (add_find f db) = dd_sources db"
  by (simp add: add_find_def use_id_def)

lemma auto_ingest_sources: "auto_ingest_if_eligible e f db = (f', db') \<Longrightarrow> dd_sources db' = dd_sources db"
  by (auto simp: auto_ingest_if_eligible_def Let_def split: if_splits publish_outcome.splits)

lemma both_persist_one: "both Q st \<Longrightarrow> both Q (snd (persist_one e s c st))"
  by (auto simp: persist_one_def Let_def both_def rollback_def work_def dest: auto_ingest_sources split: option.splits prod.splits)

lemma both_persist_loop: "both Q st \<Longrightarrow> both Q (snd (persist_loop e s cs counts st))"
proof (induction e s cs counts st rule: persist_loop.induct)
  case (2 e s c cs n r st)
  then show ?case using both_persist_one [of Q st e s c] by (auto split: prod.splits bool.splits)
qed simp

lemma both_persist_finds:
  assumes "both Q st"
  shows "both Q (snd (persist_finds e s cs st))"
proof -
  obtain n st1 where l: "persist_loop e s cs (0, 0) st = (n, st1)" by (rule prod.exhaust)
  then have "both Q st1" using both_persist_loop [OF assms, of e s cs "(0, 0)"] by simp
  then show ?thesis using l by (simp add: persist_finds_def split: option.split)
qed

lemma stamped_put:
  assumes "so_last_polled_at x = Some now"
  shows "stamped now i (dd_sources db) \<Longrightarrow> stamped now i (dd_sources (put_source x db))"
    and "so_id x \<in> so_id ` set (dd_sources db) \<Longrightarrow> stamped now (so_id x) (dd_sources (put_source x db))"
    and "i \<in> so_id ` set (dd_sources db) \<Longrightarrow> i \<in> so_id ` set (dd_sources (put_source x db))"
  using assms by (auto simp: stamped_def put_source_def update_where_def image_iff)

text \<open>What recording an outcome does to the stamps and to the presence of rows.\<close>

definition recorded :: "utc \<Rightarrow> string \<Rightarrow> db_session \<Rightarrow> db_session \<Rightarrow> bool" where
  "recorded now k st st' \<longleftrightarrow>
     (\<forall>i. both (stamped now i) st \<longrightarrow> both (stamped now i) st')
     \<and> (\<forall>i. both (\<lambda>rows. i \<in> so_id ` set rows) st \<longrightarrow> both (\<lambda>rows. i \<in> so_id ` set rows) st')
     \<and> (both (\<lambda>rows. k \<in> so_id ` set rows) st \<longrightarrow> both (stamped now k) st')"

lemma recorded_after:
  "(\<And>Q. both Q st \<Longrightarrow> both Q st1) \<Longrightarrow> recorded now k st1 st2 \<Longrightarrow> recorded now k st st2"
  unfolding recorded_def by blast

lemma recorded_put:
  assumes "so_last_polled_at x = Some now" and "dd_sources (se_committed st') = dd_sources (put_source x (se_work st))"
    and "dd_sources (se_work st') = dd_sources (put_source x (se_work st))"
  shows "recorded now (so_id x) st st'"
  using stamped_put [OF assms(1)] assms(2,3) unfolding recorded_def both_def by simp

lemma recorded_polls:
  "recorded (sv_now e) (so_id s) st (record_failed_poll e s err st)"
  "recorded (sv_now e) (so_id s) st (record_successful_poll e s r st)"
proof -
  show "recorded (sv_now e) (so_id s) st (record_failed_poll e s err st)"
    using recorded_put [of "polled_badly e err s" "sv_now e" "record_failed_poll e s err st" st]
    by (simp add: record_failed_poll_def commit_def work_def polled_badly_def)
  show "recorded (sv_now e) (so_id s) st (record_successful_poll e s r st)"
    using recorded_put [of "polled_ok e r s" "sv_now e" "record_successful_poll e s r st" st]
    by (simp add: record_successful_poll_def commit_def work_def polled_ok_def)
qed

lemma recorded_handle_outcome:
  assumes "fst out = s" and "\<not> sv_record_error e s" and "both (\<lambda>rows. so_id s \<in> so_id ` set rows) (pa_session p)"
  shows "recorded (sv_now e) (so_id s) (pa_session p) (pa_session (handle_outcome e out p))"
proof -
  obtain r err where out: "out = (s, r, err)" using assms(1) by (cases out) auto
  show ?thesis
  proof (cases r)
    case None
    then show ?thesis using out recorded_polls(1) by (simp add: handle_outcome_def pass_failed_def)
  next
    case (Some x)
    obtain q st1 where q: "persist_finds e s (po_finds x) (pa_session p) = (q, st1)" by (rule prod.exhaust)
    have keeps: "both Q (pa_session p) \<Longrightarrow> both Q st1" for Q
      using both_persist_finds [of Q "pa_session p" e s "po_finds x"] q by simp
    show ?thesis
    proof (cases q)
      case (Inr n)
      then show ?thesis
        using out Some q recorded_after [OF keeps recorded_polls(2)]
        by (cases n) (simp add: handle_outcome_def)
    next
      case (Inl msg)
      have "so_id s \<in> so_id ` set (dd_sources (se_work (rollback st1)))"
        using both_steps(2) [OF keeps [OF assms(3)]] by (simp add: both_def)
      then obtain fresh where fresh: "source_by_id (se_work (rollback st1)) (so_id s) = Some fresh"
        unfolding source_by_id_def by (metis find_row_None_iff option.exhaust)
      then have "so_id fresh = so_id s" by (auto simp: source_by_id_def dest!: find_row_SomeD)
      moreover have "recorded (sv_now e) (so_id fresh) (pa_session p) (record_failed_poll e fresh err' (rollback st1))" for err'
      proof (rule recorded_after [OF _ recorded_polls(1)])
        show "both Q (rollback st1)" if "both Q (pa_session p)" for Q using keeps [OF that] by (rule both_steps(2))
      qed
      ultimately show ?thesis
        using out Some q Inl fresh assms(2) by (simp add: handle_outcome_def pass_failed_def Let_def)
    qed
  qed
qed

lemma recorded_outcomes:
  assumes "\<And>out. out \<in> set outs \<Longrightarrow> \<not> sv_record_error e (fst out)
      \<and> both (\<lambda>rows. so_id (fst out) \<in> so_id ` set rows) (pa_session p)"
  shows "(\<forall>i. both (stamped (sv_now e) i) (pa_session p) \<longrightarrow>
        both (stamped (sv_now e) i) (pa_session (fold (handle_outcome e) outs p)))
    \<and> (\<forall>out \<in> set outs. both (stamped (sv_now e) (so_id (fst out))) (pa_session (fold (handle_outcome e) outs p)))"
  using assms
proof (induction outs arbitrary: p)
  case (Cons out outs)
  let ?p = "handle_outcome e out p"
  have r: "recorded (sv_now e) (so_id (fst out)) (pa_session p) (pa_session ?p)"
    using Cons.prems by (intro recorded_handle_outcome) auto
  have "\<not> sv_record_error e (fst o') \<and> both (\<lambda>rows. so_id (fst o') \<in> so_id ` set rows) (pa_session ?p)"
    if "o' \<in> set outs" for o'
    using Cons.prems [of o'] that r unfolding recorded_def by simp
  from Cons.IH [OF this] r Cons.prems [of out] show ?case unfolding recorded_def by simp
qed simp

lemma start_polls_effect:
  assumes "start_polls e ss p = (jobs, p')"
    and "\<And>s. s \<in> set ss \<Longrightarrow> both (\<lambda>rows. so_id s \<in> so_id ` set rows) (pa_session p)"
  shows "(\<forall>i. both (stamped (sv_now e) i) (pa_session p) \<longrightarrow> both (stamped (sv_now e) i) (pa_session p'))
    \<and> (\<forall>i. both (\<lambda>rows. i \<in> so_id ` set rows) (pa_session p) \<longrightarrow> both (\<lambda>rows. i \<in> so_id ` set rows) (pa_session p'))
    \<and> set jobs \<subseteq> set ss \<and> (\<forall>s \<in> set ss. s \<notin> set jobs \<longrightarrow> both (stamped (sv_now e) (so_id s)) (pa_session p'))"
  using assms
proof (induction ss arbitrary: p jobs p')
  case (Cons s ss)
  show ?case
  proof (cases "so_watch_type s \<in> set (sv_registered e)")
    case True
    let ?p = "p\<lparr>pa_session := work (sched_audit e PollStarted None (Some (so_id s)) '''' ''''
      (''due (last_polled_at='' @ sv_show_time e (so_last_polled_at s) @ '')'')) (pa_session p)\<rparr>"
    obtain jobs' where j: "start_polls e ss ?p = (jobs', p')" "jobs = s # jobs'"
      using Cons.prems(1) True by (auto simp: Let_def split: prod.splits)
    have same: "both Q (pa_session ?p) = both Q (pa_session p)" for Q by simp
    then show ?thesis using Cons.IH [OF j(1)] Cons.prems(2) j(2) unfolding same by auto
  next
    case False
    let ?err = "''No handler registered for '' @ so_watch_type s"
    let ?p = "pass_failed s ?err (record_failed_poll e s ?err (pa_session p)) p"
    have j: "start_polls e ss ?p = (jobs, p')" using Cons.prems(1) False by (simp add: Let_def)
    have r: "recorded (sv_now e) (so_id s) (pa_session p) (pa_session ?p)"
      using recorded_polls(1) by (simp add: pass_failed_def)
    have "both (\<lambda>rows. so_id x \<in> so_id ` set rows) (pa_session ?p)" if "x \<in> set ss" for x
      using Cons.prems(2) [of x] that r unfolding recorded_def by simp
    from Cons.IH [OF j this] r Cons.prems(2) [of s] show ?thesis unfolding recorded_def by auto
  qed
qed simp

lemma gather_InrD: "gather rs = Inr xs \<Longrightarrow> rs = map Inr xs"
  by (induction rs arbitrary: xs) (auto split: sum.splits)

lemma poll_source_fst: "poll_source e s = Inr out \<Longrightarrow> fst out = s"
  by (auto simp: poll_source_def split: sum.splits)

lemma gather_polls:
  assumes "gather (map (poll_source e) jobs) = Inr outs"
  shows "map fst outs = jobs"
proof -
  have "map (poll_source e) jobs = map Inr outs" using gather_InrD [OF assms] .
  then show ?thesis by (induction jobs arbitrary: outs) (auto simp: map_eq_Cons_conv dest: poll_source_fst)
qed

lemma reconcile_committed:
  "reconcile_watchlist_seed e seed st = (Inr n, st') \<Longrightarrow> se_committed st' = se_work st'"
  by (auto simp: reconcile_watchlist_seed_def commit_def split: sum.splits prod.splits)

lemma select_due_subset: "set (select_due_sources now limit db) \<subseteq> set (dd_sources db)"
  using sql_limit_subset [of limit "filter so_active (dd_sources db)"] by (auto simp: select_due_sources_def)

section \<open>The report\<close>

lemma handle_outcome_counts:
  "pa_polled (handle_outcome e out p) + pa_failed (handle_outcome e out p) = pa_polled p + pa_failed p + 1
   \<and> length (pa_summaries (handle_outcome e out p)) = length (pa_summaries p) + 1
   \<and> (pa_new p = sum_list (map ps_new_finds (pa_summaries p)) \<longrightarrow>
       pa_new (handle_outcome e out p) = sum_list (map ps_new_finds (pa_summaries (handle_outcome e out p))))
   \<and> (pa_repeat p = sum_list (map ps_repeat_finds (pa_summaries p)) \<longrightarrow>
       pa_repeat (handle_outcome e out p) = sum_list (map ps_repeat_finds (pa_summaries (handle_outcome e out p))))"
  by (auto simp: handle_outcome_def pass_failed_def failed_summary_def Let_def split: prod.split option.split sum.split)

definition tally_ok :: "nat \<Rightarrow> pass_state \<Rightarrow> bool" where
  "tally_ok n p \<longleftrightarrow> pa_polled p + pa_failed p = n \<and> length (pa_summaries p) = n
     \<and> pa_new p = sum_list (map ps_new_finds (pa_summaries p))
     \<and> pa_repeat p = sum_list (map ps_repeat_finds (pa_summaries p))"

lemma handle_outcomes_tally: "tally_ok n p \<Longrightarrow> tally_ok (n + length outs) (fold (handle_outcome e) outs p)"
proof (induction outs arbitrary: n p)
  case (Cons out outs)
  have "tally_ok (Suc n) (handle_outcome e out p)"
    using Cons.prems handle_outcome_counts [of e out p] by (simp add: tally_ok_def)
  from Cons.IH [OF this] show ?case by simp
qed simp

lemma start_polls_tally:
  "start_polls e ss p = (jobs, p') \<Longrightarrow> tally_ok n p \<Longrightarrow> \<exists>m. tally_ok (n + m) p' \<and> m + length jobs = length ss"
proof (induction ss arbitrary: n p jobs)
  case (Cons s ss)
  show ?case
  proof (cases "so_watch_type s \<in> set (sv_registered e)")
    case True
    let ?p = "p\<lparr>pa_session := work (sched_audit e PollStarted None (Some (so_id s)) '''' ''''
      (''due (last_polled_at='' @ sv_show_time e (so_last_polled_at s) @ '')'')) (pa_session p)\<rparr>"
    obtain jobs' where j: "start_polls e ss ?p = (jobs', p')" "jobs = s # jobs'"
      using Cons.prems(1) True by (auto simp: Let_def split: prod.splits)
    have "tally_ok n ?p" using Cons.prems(2) by (simp add: tally_ok_def)
    then show ?thesis using Cons.IH [OF j(1)] j(2) by auto
  next
    case False
    let ?err = "''No handler registered for '' @ so_watch_type s"
    let ?p = "pass_failed s ?err (record_failed_poll e s ?err (pa_session p)) p"
    have j: "start_polls e ss ?p = (jobs, p')" using Cons.prems(1) False by (simp add: Let_def)
    have "tally_ok (Suc n) ?p" using Cons.prems(2) by (simp add: tally_ok_def pass_failed_def failed_summary_def)
    then obtain m where "tally_ok (Suc n + m) p'" "m + length jobs = length ss" using Cons.IH [OF j] by blast
    then show ?thesis by (intro exI [of _ "Suc m"]) simp
  qed
qed auto

section \<open>A rollback inside a batch\<close>

lemma persist_loop_append:
  "persist_loop e s (cs @ ds) counts st = (case persist_loop e s cs counts st of (counts', st') \<Rightarrow> persist_loop e s ds counts' st')"
  by (induction e s cs counts st rule: persist_loop.induct) (auto split: prod.splits bool.splits)

text \<open>Storing finds commits nothing by itself.\<close>

lemma persist_one_committed:
  "dd_finds (se_committed (snd (persist_one e s c st))) = dd_finds (se_committed st)
   \<and> dd_audits (se_committed (snd (persist_one e s c st))) = dd_audits (se_committed st)"
  by (auto simp: persist_one_def Let_def rollback_def work_def split: option.split prod.split)

lemma persist_loop_committed:
  "dd_finds (se_committed (snd (persist_loop e s cs counts st))) = dd_finds (se_committed st)
   \<and> dd_audits (se_committed (snd (persist_loop e s cs counts st))) = dd_audits (se_committed st)"
proof (induction e s cs counts st rule: persist_loop.induct)
  case (2 e s c cs n r st)
  then show ?case using persist_one_committed [of e s c st] by (auto split: prod.splits bool.splits)
qed simp

lemma persist_loop_counts:
  "fst (fst (persist_loop e s cs (n, r) st)) + snd (fst (persist_loop e s cs (n, r) st)) = n + r + length cs"
  by (induction cs arbitrary: n r st) (auto split: prod.split bool.split)

section \<open>Properties\<close>

text \<open>The finds of which a run removed the document although the commit of the purge failed.\<close>

definition half_purges :: "system_step list \<Rightarrow> string list" where
  "half_purges steps = concat (map (\<lambda>step. case step of
     QueueStep e op \<Rightarrow> half_purged e op | PassStep e started seed \<Rightarrow> []) steps)"

lemma half_purged_listed: "QueueStep e op \<in> set steps \<Longrightarrow> set (half_purged e op) \<subseteq> set (half_purges steps)"
  by (force simp: half_purges_def)

text \<open>C27: whatever queue operations and scheduler passes run, in whatever order, with whatever failures of
  handlers, publisher and index calls and of the commits of queue operations, every find flagged as
  ingested has its document in the index, except a find of which a purge in this run removed the
  document and then could not commit. Such a find can be flagged without its document
  (\<open>purge_without_commit\<close>). Assumed is that the run starts with every flagged find indexed;
  an index call that raises is taken to have changed nothing.\<close>

theorem flagged_finds_are_indexed:
  assumes "index_ok {} db"
  shows "index_ok (set (half_purges steps)) (run_system steps db)"
proof (rule pass_index.system_keeps)
  show "index_ok (set (half_purges steps)) (run_op e op db')"
    if "QueueStep e op \<in> set steps" "index_ok (set (half_purges steps)) db'" for e op db'
    using run_op_index_ok [OF that(2) half_purged_listed [OF that(1)]] .
  show "index_ok (set (half_purges steps)) db" using assms by (auto simp: index_ok_def)
qed

text \<open>A purge whose commit fails has removed the document; the row keeps its flag.\<close>

theorem purge_without_commit:
  assumes "find_with_source db fid = Some (f, s)" and "fi_ingested_into_chroma f"
    and "de_purge_error e = None" and "de_commit e fid = Some exc"
  shows "\<exists>db'. purge_find_from_kb e fid rv n db = (Inl (Raised (fst exc)), db') \<and> f \<in> set (dd_finds db')
    \<and> fid \<notin> set (dd_chroma db')"
  using assms find_with_sourceD [OF assms(1)]
  by (simp add: purge_find_from_kb_def on_find_def commit_find_def committing_def chroma_purge_def)

lemma purge_without_commit_witness:
  "\<exists>db'. purge_find_from_kb (sample_env\<lparr>de_commit := (\<lambda>_. Some (''OperationalError'', ''''))\<rparr>) ''f'' ''r'' ''''
      (chroma_add ''f'' (put_find ((hd (dd_finds sample_db))\<lparr>fi_ingested_into_chroma := True\<rparr>) sample_db))
      = (Inl (Raised ''OperationalError''), db')
    \<and> (hd (dd_finds sample_db))\<lparr>fi_ingested_into_chroma := True\<rparr> \<in> set (dd_finds db') \<and> ''f'' \<notin> set (dd_chroma db')"
  by (rule purge_without_commit [where s = "hd (dd_sources sample_db)" and exc = "(''OperationalError'', '''')", unfolded fst_conv])
     (simp_all add: find_ops_eval sample_defs)

text \<open>C23: over every run of queue operations and scheduler passes, with failures of handlers, publisher,
  index and commits, a find that
  waits for a reviewer or was rolled up as routine noise is flagged neither as ingested nor as
  published. This speaks of the flags of the row: a file published by a decision that fails
  afterwards stays in the library while the find goes on waiting (\<open>published_find_waits\<close>).\<close>

theorem waiting_finds_carry_no_flags:
  assumes "gate_ok db"
  shows "gate_ok (run_system steps db)"
  by (rule pass_gate.system_keeps) (simp_all add: assms run_op_gate_ok)

text \<open>A decision that publishes a waiting find and then fails to index it leaves the find waiting, and its
  file in the library.\<close>

theorem published_find_waits:
  assumes "find_with_source db fid = Some (f, s)" and "fi_status f = ''pending''" and "\<not> fi_published_to_library_repo f"
    and "dr_decision r = ''approve''" "dr_publish_to_library r" "dr_ingest_into_chroma r"
    and "de_publish e = Inr p" and "de_ingest_error e = Some exc"
  shows "\<exists>db'. decide_find e fid r db = (Inl (Raised (fst exc)), db') \<and> f \<in> set (dd_finds db')
    \<and> pr_path p \<in> set (dd_library db')"
  using assms find_with_sourceD [OF assms(1)]
  by (simp add: decide_find_def on_find_def settle_find_def Let_def library_put_def)

lemma published_find_waits_witness:
  "\<exists>db'. decide_find (sample_env\<lparr>de_ingest_error := Some (''RuntimeError'', '''')\<rparr>) ''f''
      (sample_decision\<lparr>dr_decision := ''approve'', dr_publish_to_library := True\<rparr>) sample_db = (Inl (Raised ''RuntimeError''), db')
    \<and> hd (dd_finds sample_db) \<in> set (dd_finds db') \<and> ''p'' \<in> set (dd_library db')"
  by (rule published_find_waits [where s = "hd (dd_sources sample_db)" and exc = "(''RuntimeError'', '''')"
      and p = "\<lparr>pr_public_url = ''u'', pr_commit_url = ''c'', pr_path = ''p''\<rparr>", unfolded fst_conv publish_result.simps])
     (simp_all add: find_ops_eval sample_defs sample_decision_def)

text \<open>A pass stores no find twice: while there are ids left, ids stay unique and no source has two
  finds with the same external id.\<close>

theorem passes_store_no_duplicates:
  assumes "finds_unique db" and "dd_fresh (do_step (PassStep e started seed) db) \<noteq> []"
  shows "distinct (map fi_id (dd_finds (do_step (PassStep e started seed) db)))
    \<and> distinct (map find_key (dd_finds (do_step (PassStep e started seed) db)))"
  using pass_unique.pass_keeps [OF assms(1), of e started seed] assms(2)
  by (simp add: finds_unique_def del: do_step.simps)

text \<open>After a successful reconciliation the row of every seed entry has the entry's target, type,
  interval, floor and active flag, also where an operator had changed them.\<close>

theorem reconcile_imposes_seed:
  assumes "reconcile_watchlist_seed e seed st = (Inr counts, st')"
    and "source_ids_ok (length seed) (se_work st)" and "w \<in> set seed"
  shows "\<exists>s. source_by_name (se_committed st') (ws_name w) = Some s \<and> so_target s = ws_target w
    \<and> so_watch_type s = ws_watch_type w \<and> refresh_seconds w = Inr (so_refresh_interval_seconds s)
    \<and> so_importance_floor s = ws_importance_floor w \<and> so_active s = ws_active w"
proof -
  obtain u where v: "validate_watchlist (sv_ip e) seed = Inr u"
    using assms(1) by (auto simp: reconcile_watchlist_seed_def split: sum.splits)
  obtain k db where r: "reconcile_entries e seed (se_work st) = (Inr k, db)" and st': "se_committed st' = db"
    using assms(1) v by (auto simp: reconcile_watchlist_seed_def commit_def split: sum.splits prod.splits)
  have "seeded db w"
    using reconcile_entries_effect [OF r, of 0] assms(2,3) valid_watchlist_names [OF v] by simp
  then show ?thesis
    unfolding st' by (auto simp: seeded_def seed_drift_def split: option.splits sum.splits if_splits)
qed

text \<open>A second reconciliation finds nothing to do: it counts nothing, changes no row and writes no audit.\<close>

theorem reconcile_settles:
  assumes "reconcile_watchlist_seed e seed st = (Inr counts, st')"
    and "source_ids_ok (length seed) (se_work st)" and "sv_ip e' = sv_ip e"
  shows "reconcile_watchlist_seed e' seed st' = (Inr (0, 0), st')"
proof -
  obtain u where v: "validate_watchlist (sv_ip e) seed = Inr u"
    using assms(1) by (auto simp: reconcile_watchlist_seed_def split: sum.splits)
  obtain k db where r: "reconcile_entries e seed (se_work st) = (Inr k, db)"
    and st': "st' = commit (st\<lparr>se_work := db\<rparr>)"
    using assms(1) v by (auto simp: reconcile_watchlist_seed_def split: sum.splits prod.splits)
  have "seeded db w" if "w \<in> set seed" for w
    using reconcile_entries_effect [OF r, of 0] assms(2) valid_watchlist_names [OF v] that by simp
  then show ?thesis
    using v assms(3) by (simp add: reconcile_watchlist_seed_def reconcile_entries_settled st' commit_def)
qed

text \<open>In a pass that returns, every due source ends with the stamp of this pass, whether its handler
  answered, failed, timed out or does not exist, and whether its finds could be stored, as long as
  failures can be recorded.\<close>

theorem due_sources_are_stamped:
  assumes "run_one_pass e started seed st = (Inr report, st')"
    and "s \<in> set (select_due_sources started 200 (se_work (snd (reconcile_watchlist_seed e seed st))))"
    and "\<forall>x. \<not> sv_record_error e x"
  shows "\<exists>x \<in> set (dd_sources (se_committed st')). so_id x = so_id s \<and> so_last_polled_at x = Some (sv_now e)"
proof -
  obtain n st1 where r: "reconcile_watchlist_seed e seed st = (Inr n, st1)"
    using assms(1) by (auto simp: run_one_pass_def split: sum.splits prod.splits)
  let ?due = "select_due_sources started 200 (se_work st1)"
  let ?p = "\<lparr>pa_session = st1, pa_summaries = [], pa_polled = 0, pa_failed = 0, pa_new = 0, pa_repeat = 0\<rparr>"
  obtain jobs p where p: "start_polls e ?due ?p = (jobs, p)" by (rule prod.exhaust)
  obtain outs where g: "gather (map (poll_source e) jobs) = Inr outs" and st': "st' = pa_session (fold (handle_outcome e) outs p)"
    using assms(1) r p by (auto simp: run_one_pass_def Let_def split: sum.splits)
  have present: "both (\<lambda>rows. so_id x \<in> so_id ` set rows) st1" if "x \<in> set ?due" for x
    using that select_due_subset reconcile_committed [OF r] unfolding both_def by fastforce
  note S = start_polls_effect [OF p, simplified, OF present]
  have fst_outs: "map fst outs = jobs" using gather_polls [OF g] .
  have jobs_present: "both (\<lambda>rows. so_id x \<in> so_id ` set rows) (pa_session p)" if "x \<in> set jobs" for x
    using S present that by blast
  have R: "\<not> sv_record_error e (fst out) \<and> both (\<lambda>rows. so_id (fst out) \<in> so_id ` set rows) (pa_session p)"
    if "out \<in> set outs" for out
    using jobs_present [of "fst out"] that assms(3) fst_outs by force
  note O = recorded_outcomes [of outs e p, OF R]
  have "both (stamped (sv_now e) (so_id s)) st'"
  proof (cases "s \<in> set jobs")
    case True
    then obtain out where "out \<in> set outs" "fst out = s" using fst_outs by force
    then show ?thesis using O st' by blast
  next
    case False
    then show ?thesis using S O st' assms(2) r by simp
  qed
  then show ?thesis by (auto simp: both_def stamped_def)
qed

text \<open>The report adds up: every due source is counted once as polled or failed and has one line, and
  the totals are the sums over the lines.\<close>

theorem report_adds_up:
  assumes "run_one_pass e started seed st = (Inr report, st')"
  shows "rr_sources_due report = rr_sources_polled report + rr_sources_failed report
    \<and> length (rr_per_source report) = rr_sources_due report
    \<and> rr_new_finds report = sum_list (map ps_new_finds (rr_per_source report))
    \<and> rr_repeat_finds report = sum_list (map ps_repeat_finds (rr_per_source report))"
proof -
  obtain n st1 where r: "reconcile_watchlist_seed e seed st = (Inr n, st1)"
    using assms by (auto simp: run_one_pass_def split: sum.splits prod.splits)
  let ?due = "select_due_sources started 200 (se_work st1)"
  let ?p = "\<lparr>pa_session = st1, pa_summaries = [], pa_polled = 0, pa_failed = 0, pa_new = 0, pa_repeat = 0\<rparr>"
  obtain jobs p where p: "start_polls e ?due ?p = (jobs, p)" by (rule prod.exhaust)
  obtain outs where g: "gather (map (poll_source e) jobs) = Inr outs"
    and rep: "report = \<lparr>rr_started_at = started, rr_sources_due = length ?due,
      rr_sources_polled = pa_polled (fold (handle_outcome e) outs p), rr_sources_failed = pa_failed (fold (handle_outcome e) outs p),
      rr_new_finds = pa_new (fold (handle_outcome e) outs p), rr_repeat_finds = pa_repeat (fold (handle_outcome e) outs p),
      rr_per_source = pa_summaries (fold (handle_outcome e) outs p)\<rparr>"
    using assms r p by (auto simp: run_one_pass_def Let_def split: sum.splits)
  obtain m where m: "tally_ok m p" "m + length jobs = length ?due"
    using start_polls_tally [OF p, of 0] by (auto simp: tally_ok_def)
  have "length outs = length jobs" using gather_polls [OF g] by (metis length_map)
  then have "tally_ok (length ?due) (fold (handle_outcome e) outs p)"
    using handle_outcomes_tally [OF m(1), of outs e] m(2) by simp
  then show ?thesis by (simp add: rep tally_ok_def)
qed

text \<open>The limit of the due query cuts before the due test and without an order: an active source past
  it is never selected, however long ago it was polled.\<close>

theorem sources_past_the_limit_starve:
  assumes "distinct (map so_id (dd_sources db))" and "0 \<le> limit"
    and "s \<in> set (drop (nat limit) (filter so_active (dd_sources db)))"
  shows "s \<notin> set (select_due_sources now limit db)"
proof -
  let ?active = "filter so_active (dd_sources db)"
  have "distinct ?active" using assms(1) by (simp add: distinct_map)
  then have "set (take (nat limit) ?active) \<inter> set (drop (nat limit) ?active) = {}"
    by (rule set_take_disj_set_drop_if_distinct) simp
  then show ?thesis using assms(2,3) by (auto simp: select_due_sources_def sql_limit_def)
qed

text \<open>When the database refuses the last candidate of a batch, everything the batch stored before it is
  rolled back, yet the finds are counted as new and their documents stay in the index.\<close>

theorem conflict_drops_the_batch:
  assumes "persist_loop e s cs (0, 0) st = ((n, r), st1)"
    and "find_by_external (se_work st1) (so_id s) (fc_external_id c) = None"
    and "sv_conflict e s c" and "sv_save_error e s = None"
  shows "\<exists>st2. persist_finds e s (cs @ [c]) st = (Inr (n, r + 1), st2)
    \<and> dd_finds (se_committed st2) = dd_finds (se_committed st) \<and> dd_audits (se_committed st2) = dd_audits (se_committed st)
    \<and> dd_chroma (se_committed st2) = dd_chroma (se_work st1)"
  using persist_loop_committed [of e s cs "(0, 0)" st] assms
  by (simp add: persist_finds_def persist_loop_append persist_one_def Let_def rollback_def work_def commit_def use_id_def)

section \<open>Concrete passes\<close>

text \<open>A seed with one feed, an empty table, and a handler that gives one article and one proposed source.\<close>

definition sample_candidate :: "string \<Rightarrow> string \<Rightarrow> find_candidate" where
  "sample_candidate kind ext = \<lparr>fc_finding_type = kind, fc_external_id = ext, fc_title = ''t'', fc_url = ''u'',
     fc_summary_text = '''', fc_raw_payload = JNull, fc_importance_signal = ''normal'', fc_category = '''',
     fc_child_count = 0, fc_last_upstream_updated_at = None\<rparr>"

definition sample_sched :: sched_env where
  "sample_sched = \<lparr>sv_now = days 200, sv_ip = demo_ip, sv_registered = [''rss_feed''], sv_key_store = None,
     sv_admin_token = '''',
     sv_handler = (\<lambda>_. Returned \<lparr>po_finds = [sample_candidate ''post'' ''1'', sample_candidate ''new_source_candidate'' ''2''],
       po_etag = ''e'', po_last_modified = '''', po_status = ''ok'', po_error = ''''\<rparr>),
     sv_timeout_text = ''60'', sv_show_time = (\<lambda>_. ''None''), sv_dumps = (\<lambda>_. ''{}''),
     sv_publish = (\<lambda>_. ImportFailed), sv_index = (\<lambda>_. True), sv_conflict = (\<lambda>_ _. False),
     sv_save_error = (\<lambda>_. None), sv_record_error = (\<lambda>_. False)\<rparr>"

definition sample_seed :: "watched_source list" where
  "sample_seed = [demo_source ''a'' ''rss_feed'' ''https://example.com'']"

definition empty_db :: discovery_db where
  "empty_db = \<lparr>dd_sources = [], dd_finds = [], dd_audits = [], dd_chroma = [], dd_library = [],
     dd_fresh = [''i1'', ''i2'', ''i3'', ''i4'']\<rparr>"

abbreviation sample_pass :: system_step where
  "sample_pass \<equiv> PassStep sample_sched (days 200) sample_seed"

abbreviation sample_run :: "system_step list" where
  "sample_run \<equiv> [sample_pass, QueueStep sample_env (Decide ''i3'' (sample_decision\<lparr>dr_decision := ''approve''\<rparr>)),
     QueueStep sample_env (PurgeKb ''i3'' ''r'' '''')]"

lemma flagged_finds_are_indexed_witness: "index_ok {} (run_system sample_run empty_db)"
  using flagged_finds_are_indexed [of empty_db sample_run]
  by (simp add: index_ok_def empty_db_def half_purges_def sample_env_def)

lemma waiting_finds_carry_no_flags_witness: "gate_ok (run_system sample_run empty_db)"
  by (rule waiting_finds_carry_no_flags) (simp add: gate_ok_def empty_db_def)


lemma sample_seed_valid: "validate_watchlist demo_ip sample_seed = Inr ()"
  unfolding sample_seed_def by code_simp

lemmas sched_eval = reconcile_watchlist_seed_def reconcile_entry_def source_by_name_def seed_row_def plain_source_def
  next_id_def add_source_def use_id_def sched_audit_def add_audit_def commit_def rollback_def work_def Let_def
  run_one_pass_def select_due_sources_def sql_limit_def is_due_def poll_source_def auth_token_def handle_outcome_def
  persist_finds_def persist_one_def find_by_external_def new_find_def plain_find_def auto_ingest_if_eligible_def
  initial_status_for_def is_routine_artifact_noise_def put_find_def update_where_def add_find_def chroma_add_def
  record_successful_poll_def polled_ok_def put_source_def open_session_def close_session_def find_row_def

lemma sample_seed_refresh: "refresh_seconds (demo_source ''a'' ''rss_feed'' ''https://example.com'') = Inr 86400"
  by (simp add: refresh_seconds_def demo_source_def CADENCE_SECONDS_def)

lemma sample_reconcile:
  "fst (reconcile_watchlist_seed sample_sched sample_seed (open_session empty_db)) = Inr (1, 0)"
  using sample_seed_valid sample_seed_refresh
  by (simp add: sched_eval sample_sched_def sample_seed_def empty_db_def demo_source_def)

lemma empty_db_ids: "source_ids_ok (length sample_seed) (se_work (open_session empty_db))"
  by (simp add: source_ids_ok_def empty_db_def open_session_def sample_seed_def)

lemma reconcile_imposes_seed_witness:
  "\<exists>s. source_by_name (se_committed (snd (reconcile_watchlist_seed sample_sched sample_seed (open_session empty_db)))) ''a'' = Some s
    \<and> so_target s = ''https://example.com'' \<and> so_active s"
  using reconcile_imposes_seed [of sample_sched sample_seed "open_session empty_db" "(1, 0)"
      "snd (reconcile_watchlist_seed sample_sched sample_seed (open_session empty_db))" "hd sample_seed"]
    sample_reconcile empty_db_ids
  by (simp add: prod_eq_iff) (auto simp: sample_seed_def demo_source_def)

lemma reconcile_settles_witness:
  "fst (reconcile_watchlist_seed sample_sched sample_seed
     (snd (reconcile_watchlist_seed sample_sched sample_seed (open_session empty_db)))) = Inr (0, 0)"
  using reconcile_settles [of sample_sched sample_seed "open_session empty_db" "(1, 0)"
      "snd (reconcile_watchlist_seed sample_sched sample_seed (open_session empty_db))" sample_sched]
    sample_reconcile empty_db_ids
  by (simp add: prod_eq_iff)


definition two_sources :: discovery_db where
  "two_sources = sample_db\<lparr>dd_sources := [plain_source 0 ''a'' ''a'' ''w'' ''t'', plain_source 0 ''b'' ''b'' ''w'' ''t'']\<rparr>"

lemma sources_past_the_limit_starve_witness:
  "plain_source 0 ''b'' ''b'' ''w'' ''t'' \<notin> set (select_due_sources (days 900) 1 two_sources)"
  by (rule sources_past_the_limit_starve) (simp_all add: two_sources_def sample_db_def plain_source_def)

text \<open>A database that refuses the proposed source, after the article was stored and indexed.\<close>

definition conflict_sched :: sched_env where
  "conflict_sched = sample_sched\<lparr>sv_conflict := (\<lambda>s c. fc_external_id c = ''2'')\<rparr>"

lemma conflict_drops_the_batch_witness:
  "\<exists>st2. persist_finds conflict_sched (plain_source 0 ''s'' ''n'' ''rss_feed'' ''t'')
      ([sample_candidate ''post'' ''1''] @ [sample_candidate ''post'' ''2'']) (open_session empty_db) = (Inr (1, 0 + 1), st2)
    \<and> dd_finds (se_committed st2) = dd_finds (se_committed (open_session empty_db))
    \<and> dd_audits (se_committed st2) = dd_audits (se_committed (open_session empty_db))
    \<and> dd_chroma (se_committed st2) = dd_chroma (se_work (snd (persist_loop conflict_sched
        (plain_source 0 ''s'' ''n'' ''rss_feed'' ''t'') [sample_candidate ''post'' ''1''] (0, 0) (open_session empty_db))))"
proof (rule conflict_drops_the_batch)
  show "persist_loop conflict_sched (plain_source 0 ''s'' ''n'' ''rss_feed'' ''t'') [sample_candidate ''post'' ''1''] (0, 0)
      (open_session empty_db) = ((1, 0), snd (persist_loop conflict_sched (plain_source 0 ''s'' ''n'' ''rss_feed'' ''t'')
        [sample_candidate ''post'' ''1''] (0, 0) (open_session empty_db)))"
    by (simp add: sched_eval conflict_sched_def sample_sched_def empty_db_def sample_candidate_def)
qed (simp_all add: sched_eval conflict_sched_def sample_sched_def empty_db_def sample_candidate_def)

end
