(* ===== verification/NewsletterLabels.thy ===== *)
theory NewsletterLabels
  imports Json Tables
begin

text \<open>
  The names of newsletter issues (\<open>core/newsletter.py\<close>): slugs made unique by counting,
  base-26 letter suffixes, and the display label of a draft. The slug loop of the code
  runs until it finds a free name; it is a partial function here and is shown to return.
\<close>

section \<open>Numbers in text are read back\<close>

definition undigits :: "string \<Rightarrow> nat" where
  "undigits s = foldl (\<lambda>a c. 10 * a + digit_val c) 0 s"

lemma digit_char: "n < 10 \<Longrightarrow> digit_val (char_of (48 + n)) = n \<and> is_digit (char_of (48 + n))"
  by (simp add: digit_val_def is_digit_def)

lemma undigits_digits [simp]: "undigits (digits n) = n"
proof (induction n rule: digits.induct)
  case (1 n)
  show ?case
  proof (cases "n < 10")
    case True
    then show ?thesis by (subst digits.simps) (simp add: undigits_def digit_char)
  next
    case False
    then have "undigits (digits n) = 10 * undigits (digits (n div 10)) + n mod 10"
      by (subst digits.simps) (simp add: undigits_def digit_char)
    then show ?thesis using 1 False by simp
  qed
qed

lemma digits_inj: "digits m = digits n \<Longrightarrow> m = n"
  by (metis undigits_digits)

lemma digits_are_digits: "c \<in> set (digits n) \<Longrightarrow> is_digit c"
proof (induction n rule: digits.induct)
  case (1 n)
  then show ?case by (subst (asm) (2) digits.simps) (auto simp: digit_char split: if_splits)
qed

lemma digits_nonempty [simp]: "digits n \<noteq> []"
  by (subst digits.simps) simp

lemma int_digits_run: "\<forall>c \<in> set s. is_digit c \<Longrightarrow> int_digits prev acc s
    = (if s = [] then if prev then Some acc else None else Some (foldl (\<lambda>a c. 10 * a + digit_val c) acc s))"
  by (induction s arbitrary: prev acc) auto

text \<open>\<open>int(str(n))\<close> of a natural number.\<close>

lemma is_digit_not_space: "is_digit c \<Longrightarrow> \<not> is_space c"
  by (auto simp: is_digit_def is_space_def Let_def)

lemma py_int_digits [simp]: "py_int (digits n) = Some (int n)"
proof -
  have d: "\<forall>c \<in> set (digits n). is_digit c" by (auto dest: digits_are_digits)
  then have s: "strip (digits n) = digits n" by (intro strip_no_space) (auto dest: is_digit_not_space)
  obtain c cs where c: "digits n = c # cs" by (cases "digits n") auto
  have "is_digit c" using d c by simp
  then have "c \<noteq> CHR ''-'' \<and> c \<noteq> CHR ''+''" by (auto simp: is_digit_def)
  then show ?thesis
    using d int_digits_run [of "digits n" False 0] undigits_digits [of n]
    unfolding py_int_def s by (simp add: c undigits_def)
qed

section \<open>Slugs\<close>

partial_function (option) free_suffix :: "string \<Rightarrow> string list \<Rightarrow> nat \<Rightarrow> string option" where
  "free_suffix base existing n =
     (if base @ ''-'' @ digits n \<in> set existing then free_suffix base existing (n + 1)
      else Some (base @ ''-'' @ digits n))"

definition unique_slug :: "string \<Rightarrow> string list \<Rightarrow> string option" where
  "unique_slug base existing = (if base \<notin> set existing then Some base else free_suffix base existing 2)"

text \<open>The numbers that are still taken get fewer with every step.\<close>

lemma free_suffix_least:
  "\<exists>m \<ge> n. free_suffix base existing n = Some (base @ ''-'' @ digits m) \<and> base @ ''-'' @ digits m \<notin> set existing
     \<and> (\<forall>k. n \<le> k \<and> k < m \<longrightarrow> base @ ''-'' @ digits k \<in> set existing)"
proof (induction "card {m. n \<le> m \<and> base @ ''-'' @ digits m \<in> set existing}" arbitrary: n rule: less_induct)
  case less
  let ?taken = "\<lambda>n. {m. n \<le> m \<and> base @ ''-'' @ digits m \<in> set existing}"
  show ?case
  proof (cases "base @ ''-'' @ digits n \<in> set existing")
    case True
    have "inj_on (\<lambda>m. base @ ''-'' @ digits m) (?taken n)" by (auto intro: inj_onI dest: digits_inj)
    then have "finite (?taken n)" by (rule inj_on_finite [of _ _ "set existing"]) auto
    moreover have "?taken (n + 1) \<subset> ?taken n"
    proof (rule psubsetI)
      have "n \<in> ?taken n" "n \<notin> ?taken (n + 1)" using True by auto
      then show "?taken (n + 1) \<noteq> ?taken n" by blast
    qed auto
    ultimately have "card (?taken (n + 1)) < card (?taken n)" by (rule psubset_card_mono)
    from less [OF this] obtain m where m: "n + 1 \<le> m" "free_suffix base existing (n + 1) = Some (base @ ''-'' @ digits m)"
      "base @ ''-'' @ digits m \<notin> set existing" "\<forall>k. n + 1 \<le> k \<and> k < m \<longrightarrow> base @ ''-'' @ digits k \<in> set existing" by blast
    have "base @ ''-'' @ digits k \<in> set existing" if "n \<le> k" "k < m" for k
      using that m(4) True by (cases "k = n") auto
    then show ?thesis using m True by (intro exI [of _ m]) (simp add: free_suffix.simps [of base existing n])
  next
    case False
    then show ?thesis by (intro exI [of _ n]) (auto simp: free_suffix.simps [of base existing n])
  qed
qed

lemma free_suffix_total:
  "\<exists>m \<ge> n. free_suffix base existing n = Some (base @ ''-'' @ digits m) \<and> base @ ''-'' @ digits m \<notin> set existing"
  using free_suffix_least by blast

lemma unique_slug_total:
  "\<exists>s. unique_slug base existing = Some s \<and> s \<notin> set existing \<and> starts_with base s"
proof (cases "base \<in> set existing")
  case True
  then show ?thesis
    using free_suffix_total [of 2 base existing] by (auto simp: unique_slug_def starts_with_def)
qed (simp add: unique_slug_def starts_with_def)

text \<open>C40: 
  The loop that looks for a free slug returns, whatever names exist: it ends with the base
  name if that is free, and otherwise with the base name and the least number from two on
  that gives a free name.
\<close>

theorem unique_slug_returns:
  "\<exists>n. unique_slug base existing = Some (if base \<in> set existing then base @ ''-'' @ digits n else base) \<and> 2 \<le> n \<and>
     base @ ''-'' @ digits n \<notin> set existing \<and> list_all (\<lambda>m. base @ ''-'' @ digits m \<in> set existing) [2..<n]"
  using free_suffix_least [of 2 base existing] by (auto simp: unique_slug_def list_all_iff)

definition the_slug :: "string \<Rightarrow> string list \<Rightarrow> string" where
  "the_slug base existing = (case unique_slug base existing of Some s \<Rightarrow> s | None \<Rightarrow> base)"

lemma the_slug_fresh: "the_slug base existing \<notin> set existing"
  using unique_slug_total [of base existing] by (auto simp: the_slug_def)

section \<open>Letters\<close>

definition letter_char :: "int \<Rightarrow> char" where
  "letter_char k = char_of (97 + nat k)"

function label_loop :: "int \<Rightarrow> string \<Rightarrow> string" where
  "label_loop n chars =
     (let chars' = chars @ [letter_char (n mod 26)]; n' = n div 26 - 1
      in if n' < 0 then chars' else label_loop n' chars')"
  by pat_completeness auto
termination
proof (relation "measure (\<lambda>(n, chars). nat n)")
  fix n :: int and chars chars' n'
  assume "chars' = chars @ [letter_char (n mod 26)]" and n': "n' = n div 26 - 1" and "\<not> n' < 0"
  then have "1 \<le> n div 26" by simp
  then have "26 \<le> n" by linarith
  then have "n div 26 - 1 < n" by (smt (verit) int_div_less_self)
  then show "((n', chars'), n, chars) \<in> measure (\<lambda>(n, chars). nat n)" using n' \<open>\<not> n' < 0\<close> by simp
qed simp

declare label_loop.simps [simp del]

definition label_letter :: "int \<Rightarrow> string result" where
  "label_letter idx =
     (if idx < 0 then Inl (ValueError (''label index must be non-negative, got '' @ str_of_int idx))
      else Inr (rev (label_loop idx [])))"

text \<open>Reading a letter suffix back: \<open>a\<close> is 0, \<open>z\<close> 25, \<open>aa\<close> 26.\<close>

definition label_value :: "string \<Rightarrow> int" where
  "label_value s = foldl (\<lambda>a c. 26 * a + (of_char c - 96)) 0 s - 1"

lemma letter_char_val: "0 \<le> k \<Longrightarrow> k < 26 \<Longrightarrow> (of_char (letter_char k) :: int) = 97 + k"
proof -
  assume "0 \<le> k" "k < 26"
  then have "(of_char (letter_char k) :: nat) = 97 + nat k" by (simp add: letter_char_def)
  then have "int (of_char (letter_char k)) = int (97 + nat k)" by simp
  then show ?thesis using \<open>0 \<le> k\<close> by (simp add: of_nat_of_char)
qed

lemma label_loop_value:
  "0 \<le> n \<Longrightarrow> foldl (\<lambda>a c. 26 * a + (of_char c - 96)) 0 (rev (label_loop n chars))
     = foldl (\<lambda>a c. 26 * a + (of_char c - 96)) (n + 1) (rev chars)"
proof (induction n chars rule: label_loop.induct)
  case (1 n chars)
  have l: "(of_char (letter_char (n mod 26)) :: int) = 97 + n mod 26" by (rule letter_char_val) simp_all
  show ?case
  proof (cases "n div 26 - 1 < 0")
    case True
    then have "n div 26 = 0" using 1 by (simp add: pos_imp_zdiv_nonneg_iff order_antisym)
    then have "n mod 26 = n" by (metis add.right_neutral mult_zero_right mult_div_mod_eq add_0)
    then show ?thesis using True l by (subst label_loop.simps) (simp add: Let_def add.commute)
  next
    case False
    have "26 * (n div 26 - 1 + 1) + (97 + n mod 26 - 96) = n + 1" using mult_div_mod_eq [of 26 n] by simp
    then show ?thesis
      using 1 False l by (subst label_loop.simps) (simp add: Let_def)
  qed
qed

text \<open>A letter suffix determines its index: two indices never share one.\<close>

theorem label_letter_read_back: "0 \<le> n \<Longrightarrow> \<exists>s. label_letter n = Inr s \<and> label_value s = n"
  using label_loop_value [of n "[]"] by (simp add: label_letter_def label_value_def)

definition the_letters :: "int \<Rightarrow> string" where
  "the_letters n = rev (label_loop n [])"

lemma label_letter_nat: "label_letter (int k) = Inr (the_letters (int k))"
  by (simp add: label_letter_def the_letters_def)

lemma the_letters_inj: "the_letters (int j) = the_letters (int k) \<Longrightarrow> j = k"
  using label_letter_read_back [of "int j"] label_letter_read_back [of "int k"] by (simp add: label_letter_nat)

section \<open>Display labels\<close>

definition is_lower_letter :: "char \<Rightarrow> bool" where
  "is_lower_letter c \<longleftrightarrow> 97 \<le> (of_char c :: nat) \<and> (of_char c :: nat) \<le> 122"

text \<open>
  The number in front of a letter suffix; \<open>None\<close> for a label without digits or with
  another suffix. Labels are ASCII.
\<close>

definition display_label_epoch :: "string \<Rightarrow> int option" where
  "display_label_epoch label =
     (let ds = takeWhile is_digit label; suffix = drop (length ds) label
      in if ds = '''' \<or> suffix = '''' \<or> \<not> list_all is_lower_letter suffix then None else py_int ds)"

definition epoch_label :: "int \<Rightarrow> nat \<Rightarrow> string" where
  "epoch_label ship k = str_of_int ship @ the_letters (int k)"

lemma label_loop_letters:
  "0 \<le> n \<Longrightarrow> \<forall>c \<in> set chars. is_lower_letter c \<Longrightarrow> (\<forall>c \<in> set (label_loop n chars). is_lower_letter c) \<and> label_loop n chars \<noteq> []"
proof (induction n chars rule: label_loop.induct)
  case (1 n chars)
  have "nat (n mod 26) < 26" by (simp add: nat_less_iff)
  then have "is_lower_letter (letter_char (n mod 26))" by (simp add: is_lower_letter_def letter_char_def)
  moreover have "label_loop n chars = (if n div 26 - 1 < 0 then chars @ [letter_char (n mod 26)]
      else label_loop (n div 26 - 1) (chars @ [letter_char (n mod 26)]))"
    by (subst label_loop.simps) (simp add: Let_def)
  ultimately show ?case using 1 by auto
qed

lemma the_letters_lower: "(\<forall>c \<in> set (the_letters (int k)). is_lower_letter c) \<and> the_letters (int k) \<noteq> []"
  using label_loop_letters [of "int k" "[]"] by (simp add: the_letters_def)

lemma lower_not_digit: "is_lower_letter c \<Longrightarrow> \<not> is_digit c"
  by (simp add: is_lower_letter_def is_digit_def)

lemma epoch_label_epoch: "0 \<le> ship \<Longrightarrow> display_label_epoch (epoch_label ship k) = Some ship"
proof -
  assume "0 \<le> ship"
  then have s: "str_of_int ship = digits (nat ship)" by (simp add: str_of_int_def)
  have d: "\<forall>c \<in> set (digits (nat ship)). is_digit c" by (auto dest: digits_are_digits)
  obtain c cs where l: "the_letters (int k) = c # cs" "\<not> is_digit c"
    using the_letters_lower [of k] by (cases "the_letters (int k)") (auto dest: lower_not_digit)
  have t: "takeWhile is_digit (digits (nat ship) @ the_letters (int k)) = digits (nat ship)"
    using d l by (simp add: takeWhile_append)
  have "display_label_epoch (epoch_label ship k) = py_int (digits (nat ship))"
    using the_letters_lower [of k] by (simp add: display_label_epoch_def epoch_label_def s t Let_def list_all_iff)
  then show ?thesis using \<open>0 \<le> ship\<close> by simp
qed

lemma epoch_label_inj: "0 \<le> ship \<Longrightarrow> epoch_label ship j = epoch_label ship k \<Longrightarrow> j = k"
  by (auto simp: epoch_label_def dest: the_letters_inj)

lemma number_is_no_epoch: "0 \<le> n \<Longrightarrow> display_label_epoch (str_of_int n) = None"
proof -
  assume n: "0 \<le> n"
  have t: "takeWhile is_digit (digits (nat n)) = digits (nat n)" by (auto dest: digits_are_digits)
  show ?thesis using n by (simp add: display_label_epoch_def str_of_int_def Let_def t)
qed

end
