(* ===== verification/ApprovalToken.thy ===== *)
theory ApprovalToken
  imports NewsletterLabels
begin

text \<open>
  The one-click approval token of \<open>core/newsletter.py\<close>: issue id and expiry, base64url,
  signed with HMAC-SHA256 of the admin token. Bytes are characters below 256; the hex
  digest is a parameter \<open>hm key message\<close>. Decoding follows \<open>binascii.a2b_base64\<close>, which
  skips characters outside the alphabet. UTF-8 is written out for code points below 256.
\<close>

section \<open>Base64\<close>

definition b64_char :: "nat \<Rightarrow> char" where
  "b64_char k = (if k < 26 then char_of (65 + k) else if k < 52 then char_of (71 + k)
     else if k < 62 then char_of (k - 4) else if k = 62 then CHR ''-'' else CHR ''_'')"

definition b64_val :: "char \<Rightarrow> nat option" where
  "b64_val c = (let n = (of_char c :: nat) in
     if 65 \<le> n \<and> n \<le> 90 then Some (n - 65) else if 97 \<le> n \<and> n \<le> 122 then Some (n - 71)
     else if 48 \<le> n \<and> n \<le> 57 then Some (n + 4)
     else if c = CHR ''-'' \<or> c = CHR ''+'' then Some 62 else if c = CHR ''_'' \<or> c = CHR ''/'' then Some 63 else None)"

definition byte :: "char \<Rightarrow> nat" where
  "byte c = of_char c"

fun b64_encode :: "string \<Rightarrow> string" where
  "b64_encode [] = []"
| "b64_encode [a] = [b64_char (byte a div 4), b64_char (byte a mod 4 * 16), CHR ''='', CHR ''='']"
| "b64_encode [a, b] = [b64_char (byte a div 4), b64_char (byte a mod 4 * 16 + byte b div 16),
     b64_char (byte b mod 16 * 4), CHR ''='']"
| "b64_encode (a # b # c # s) = b64_char (byte a div 4) # b64_char (byte a mod 4 * 16 + byte b div 16)
     # b64_char (byte b mod 16 * 4 + byte c div 64) # b64_char (byte c mod 64) # b64_encode s"

definition b64url :: "string \<Rightarrow> string" where
  "b64url s = rev (dropWhile (\<lambda>c. c = CHR ''='') (rev (b64_encode s)))"

text \<open>Position in the group of four, bits carried over, padding seen; \<open>None\<close> for \<open>binascii.Error\<close>.\<close>

fun a2b :: "nat \<Rightarrow> nat \<Rightarrow> nat \<Rightarrow> string \<Rightarrow> string \<Rightarrow> string option" where
  "a2b quad left pads out [] = (if quad = 0 then Some out else None)"
| "a2b quad left pads out (c # cs) =
     (if c = CHR ''='' then
        if quad \<ge> 2 then if quad + (pads + 1) \<ge> 4 then Some out else a2b quad left (pads + 1) out cs
        else a2b quad left pads out cs
      else case b64_val c of
        None \<Rightarrow> a2b quad left pads out cs
      | Some v \<Rightarrow>
          if quad = 0 then a2b 1 v 0 out cs
          else if quad = 1 then a2b 2 (v mod 16) 0 (out @ [char_of (left * 4 + v div 16)]) cs
          else if quad = 2 then a2b 3 (v mod 4) 0 (out @ [char_of (left * 16 + v div 4)]) cs
          else a2b 0 0 0 (out @ [char_of (left * 64 + v)]) cs)"

definition ascii :: "string \<Rightarrow> bool" where
  "ascii s \<longleftrightarrow> list_all (\<lambda>c. byte c < 128) s"

definition b64url_decode :: "string \<Rightarrow> string option" where
  "b64url_decode value =
     (if ascii value then a2b 0 0 0 [] (value @ replicate ((4 - length value mod 4) mod 4) (CHR ''='')) else None)"

section \<open>UTF-8\<close>

fun utf8_encode :: "string \<Rightarrow> string" where
  "utf8_encode [] = []"
| "utf8_encode (c # s) =
     (if byte c < 128 then c # utf8_encode s
      else char_of (192 + byte c div 64) # char_of (128 + byte c mod 64) # utf8_encode s)"

fun utf8_decode :: "string \<Rightarrow> string option" where
  "utf8_decode [] = Some []"
| "utf8_decode (c # s) =
     (if byte c < 128 then map_option ((#) c) (utf8_decode s)
      else case s of
        [] \<Rightarrow> None
      | d # t \<Rightarrow>
          if (byte c = 194 \<or> byte c = 195) \<and> 128 \<le> byte d \<and> byte d < 192
          then map_option ((#) (char_of ((byte c - 192) * 64 + (byte d - 128)))) (utf8_decode t) else None)"

section \<open>Tokens\<close>

definition APPROVAL_TOKEN_TTL :: int where
  "APPROVAL_TOKEN_TTL = days 7"

definition signing_key :: "environ \<Rightarrow> string" where
  "signing_key env = utf8_encode (str_or (getenv_or env ''ADMIN_POLICY_TOKEN'' '''') ''dev-approval-key'')"

text \<open>\<open>int(t.timestamp())\<close>.\<close>

definition unix_seconds :: "utc \<Rightarrow> int" where
  "unix_seconds t = py_trunc (of_int t / 1000000)"

definition make_approval_token :: "(string \<Rightarrow> string \<Rightarrow> string) \<Rightarrow> environ \<Rightarrow> utc \<Rightarrow> string \<Rightarrow> int \<Rightarrow> string" where
  "make_approval_token hm env now issue_id ttl =
     (let expiry = unix_seconds (now + ttl);
          payload = b64url (utf8_encode issue_id) @ ''.'' @ b64url (utf8_encode (str_of_int expiry));
          mac = hm (signing_key env) (utf8_encode payload)
      in payload @ ''.'' @ b64url (utf8_encode mac))"

definition verify_approval_token :: "(string \<Rightarrow> string \<Rightarrow> string) \<Rightarrow> environ \<Rightarrow> utc \<Rightarrow> string \<Rightarrow> string result" where
  "verify_approval_token hm env now token =
     (case split_on (CHR ''.'') token of
        [p0, p1, p2] \<Rightarrow>
          (case (Option.bind (b64url_decode p0) utf8_decode,
                 Option.bind (Option.bind (b64url_decode p1) utf8_decode) py_int,
                 Option.bind (b64url_decode p2) (\<lambda>m. if ascii m then Some m else None)) of
             (Some issue_id, Some expiry, Some provided) \<Rightarrow>
               if hm (signing_key env) (utf8_encode (p0 @ ''.'' @ p1)) \<noteq> provided
               then Inl (ValueError ''Approval token signature mismatch'')
               else if expiry < unix_seconds now then Inl (ValueError ''Approval token expired'')
               else Inr issue_id
           | _ \<Rightarrow> Inl (ValueError ''Approval token decode failed''))
      | _ \<Rightarrow> Inl (ValueError ''Malformed approval token''))"

section \<open>Base64 is read back\<close>

lemma byte_less [simp]: "byte c < 256"
  by (simp add: byte_def)

lemma char_of_byte [simp]: "char_of (byte c) = c"
  by (simp add: byte_def)

lemma b64_facts: "k < 64 \<Longrightarrow> b64_val (b64_char k) = Some k \<and> b64_char k \<noteq> CHR ''='' \<and> b64_char k \<noteq> CHR ''.''
    \<and> byte (b64_char k) < 128"
proof -
  assume "k < 64"
  then have "k < 26 \<or> (\<exists>j < 26. k = 26 + j) \<or> (\<exists>j < 10. k = 52 + j) \<or> k = 62 \<or> k = 63" by presburger
  then consider "k < 26" | j where "k = 26 + j" "j < 26" | j where "k = 52 + j" "j < 10" | "k = 62" | "k = 63" by blast
  then show ?thesis
  proof cases
    case 1
    then have c: "of_char (b64_char k) = 65 + k" by (simp add: b64_char_def)
    then show ?thesis using 1 by (auto simp: b64_val_def byte_def)
  next
    case (2 j)
    then have c: "of_char (b64_char k) = 97 + j" by (simp add: b64_char_def)
    then show ?thesis using 2 by (auto simp: b64_val_def byte_def)
  next
    case (3 j)
    then have c: "of_char (b64_char k) = 48 + j" by (simp add: b64_char_def)
    then show ?thesis using 3 by (auto simp: b64_val_def byte_def)
  qed (simp_all add: b64_char_def b64_val_def byte_def)
qed

lemma b64_val_char: "k < 64 \<Longrightarrow> b64_val (b64_char k) = Some k"
  and b64_char_plain: "k < 64 \<Longrightarrow> b64_char k \<noteq> CHR ''='' \<and> b64_char k \<noteq> CHR ''.'' \<and> byte (b64_char k) < 128"
  using b64_facts by auto

text \<open>The encoding without its padding.\<close>

fun b64_plain :: "string \<Rightarrow> string" where
  "b64_plain [] = []"
| "b64_plain [a] = [b64_char (byte a div 4), b64_char (byte a mod 4 * 16)]"
| "b64_plain [a, b] = [b64_char (byte a div 4), b64_char (byte a mod 4 * 16 + byte b div 16), b64_char (byte b mod 16 * 4)]"
| "b64_plain (a # b # c # s) = b64_char (byte a div 4) # b64_char (byte a mod 4 * 16 + byte b div 16)
     # b64_char (byte b mod 16 * 4 + byte c div 64) # b64_char (byte c mod 64) # b64_plain s"

lemma sextets:
  fixes x y :: nat
  assumes "x < 256" "y < 256"
  shows "x div 4 < 64" "x mod 4 * 16 < 64" "x mod 4 * 16 + y div 16 < 64" "x mod 16 * 4 < 64"
    "x mod 16 * 4 + y div 64 < 64" "x mod 64 < 64"
proof -
  have "x mod 4 < 4" "x mod 16 < 16" "y div 16 < 16" "y div 64 < 4" "x div 4 < 64"
    using assms by (simp_all add: less_mult_imp_div_less)
  then show "x div 4 < 64" "x mod 4 * 16 < 64" "x mod 4 * 16 + y div 16 < 64" "x mod 16 * 4 < 64"
    "x mod 16 * 4 + y div 64 < 64" "x mod 64 < 64" by simp_all
qed

lemma regroup:
  fixes x y :: nat
  assumes "x < 256" "y < 256"
  shows "x div 4 * 4 + (x mod 4 * 16 + y div 16) div 16 = x" "(x mod 4 * 16 + y div 16) mod 16 = y div 16"
    "(x mod 16 * 4 + y div 64) div 4 = x mod 16" "(x mod 16 * 4 + y div 64) mod 4 = y div 64"
proof -
  have "y div 16 < 16" "y div 64 < 4" using assms by (simp_all add: less_mult_imp_div_less)
  then show "x div 4 * 4 + (x mod 4 * 16 + y div 16) div 16 = x" "(x mod 4 * 16 + y div 16) mod 16 = y div 16"
    "(x mod 16 * 4 + y div 64) div 4 = x mod 16" "(x mod 16 * 4 + y div 64) mod 4 = y div 64"
    by simp_all
qed

lemma nibbles [simp]:
  "byte c div 16 mod 16 = byte c div 16" "byte c div 16 div 16 = 0" "byte c div 64 mod 4 = byte c div 64"
  "byte c div 64 div 4 = 0"
proof -
  have "byte c div 16 < 16" "byte c div 64 < 4" using byte_less [of c] by (simp_all add: less_mult_imp_div_less)
  then show "byte c div 16 mod 16 = byte c div 16" "byte c div 16 div 16 = 0" "byte c div 64 mod 4 = byte c div 64"
    "byte c div 64 div 4 = 0" by simp_all
qed

lemmas sextet = sextets [OF byte_less byte_less]
lemmas regrouped = regroup [OF byte_less byte_less]

lemma b64_plain_chars: "c \<in> set (b64_plain s) \<Longrightarrow> c \<noteq> CHR ''='' \<and> c \<noteq> CHR ''.'' \<and> byte c < 128"
proof (induction s rule: b64_plain.induct)
  case (2 a)
  then show ?case using b64_char_plain [OF sextet(1) [of a]] b64_char_plain [OF sextet(2) [of a]] by auto
next
  case (3 a b)
  then show ?case
    using b64_char_plain [OF sextet(1) [of a]] b64_char_plain [OF sextet(3) [of a b]] b64_char_plain [OF sextet(4) [of b]] by auto
next
  case (4 a b c' s)
  then show ?case
    using b64_char_plain [OF sextet(1) [of a]] b64_char_plain [OF sextet(3) [of a b]]
      b64_char_plain [OF sextet(5) [of b c']] b64_char_plain [OF sextet(6) [of c']] by auto
qed simp

lemma b64_encode_plain: "\<exists>n. b64_encode s = b64_plain s @ replicate n (CHR ''='')"
proof (induction s rule: b64_plain.induct)
  case (2 a)
  then show ?case by (intro exI [of _ 2]) (simp add: numeral_2_eq_2)
next
  case (3 a b)
  then show ?case by (intro exI [of _ 1]) simp
next
  case (4 a b c s)
  then show ?case by simp
qed simp

lemma b64url_plain: "b64url s = b64_plain s"
proof -
  obtain n where n: "b64_encode s = b64_plain s @ replicate n (CHR ''='')" using b64_encode_plain by blast
  have "dropWhile (\<lambda>c. c = CHR ''='') (rev (b64_plain s)) = rev (b64_plain s)"
    using b64_plain_chars [of "last (b64_plain s)" s] by (cases "b64_plain s = []") (simp_all add: dropWhile_eq_self_iff hd_rev)
  then show ?thesis by (simp add: b64url_def n dropWhile_append)
qed

text \<open>Four sextets are three bytes again.\<close>

lemma a2b_step:
  assumes "b64_val c = Some v" "c \<noteq> CHR ''=''"
  shows "a2b quad left pads out (c # cs) =
     (if quad = 0 then a2b 1 v 0 out cs
      else if quad = 1 then a2b 2 (v mod 16) 0 (out @ [char_of (left * 4 + v div 16)]) cs
      else if quad = 2 then a2b 3 (v mod 4) 0 (out @ [char_of (left * 16 + v div 4)]) cs
      else a2b 0 0 0 (out @ [char_of (left * 64 + v)]) cs)"
  using assms by simp

lemmas a2b_sextet = a2b_step [OF b64_val_char conjunct1 [OF b64_char_plain]]

lemma a2b_plain:
  "a2b 0 0 0 out (b64_plain s @ replicate ((4 - length (b64_plain s) mod 4) mod 4) (CHR ''='')) = Some (out @ s)"
proof (induction s arbitrary: out rule: b64_plain.induct)
  case (2 a)
  show ?case by (simp add: a2b_sextet sextet regrouped numeral_2_eq_2 del: a2b.simps(2)) (simp add: regrouped)
next
  case (3 a b)
  show ?case by (simp add: a2b_sextet sextet regrouped del: a2b.simps(2)) (simp add: regrouped)
next
  case (4 a b c s)
  have "(4 - length (b64_plain (a # b # c # s)) mod 4) mod 4 = (4 - length (b64_plain s) mod 4) mod 4" by simp
  then show ?case
    using 4 [of "out @ [a, b, c]"] by (simp add: a2b_sextet sextet regrouped del: a2b.simps(2))
qed simp

theorem b64url_read_back: "b64url_decode (b64url s) = Some s"
proof -
  have "ascii (b64url s)" using b64_plain_chars [of _ s] by (auto simp: b64url_plain ascii_def list_all_iff)
  then show ?thesis using a2b_plain [of "[]" s] by (simp add: b64url_decode_def b64url_plain)
qed

section \<open>UTF-8 is read back\<close>

lemma utf8_two_bytes: "\<not> byte c < 128 \<Longrightarrow> byte (char_of (192 + byte c div 64)) \<in> {194, 195}
    \<and> byte (char_of (128 + byte c mod 64)) = 128 + byte c mod 64
    \<and> (byte (char_of (192 + byte c div 64)) - 192) * 64 + (byte (char_of (128 + byte c mod 64)) - 128) = byte c"
proof -
  assume big: "\<not> byte c < 128"
  have d: "byte c div 64 = 2 \<or> byte c div 64 = 3" using big byte_less [of c] by linarith
  have m: "byte c mod 64 < 64" by simp
  have "byte (char_of (192 + byte c div 64)) = 192 + byte c div 64"
    using d by (auto simp: byte_def)
  moreover have "byte (char_of (128 + byte c mod 64)) = 128 + byte c mod 64"
    using m by (simp add: byte_def)
  ultimately show ?thesis using d by auto
qed

theorem utf8_read_back: "utf8_decode (utf8_encode s) = Some s"
proof (induction s)
  case (Cons c s)
  show ?case
  proof (cases "byte c < 128")
    case False
    note two = utf8_two_bytes [OF False]
    have "byte c mod 64 < 64" by simp
    then show ?thesis using Cons False two by auto
  qed (simp add: Cons)
qed simp

lemma utf8_ascii: "ascii s \<Longrightarrow> utf8_encode s = s"
  by (induction s) (simp_all add: ascii_def)

section \<open>Tokens are read back, and bind what they sign\<close>

lemma split_token:
  "split_on (CHR ''.'') (b64url a @ CHR ''.'' # b64url b @ CHR ''.'' # b64url c) = [b64url a, b64url b, b64url c]"
proof -
  have nodot: "CHR ''.'' \<notin> set (b64url s)" for s using b64_plain_chars [of "CHR ''.''" s] by (auto simp: b64url_plain)
  show ?thesis using nodot by (simp add: split_on_append)
qed

lemma str_of_int_nat: "0 \<le> n \<Longrightarrow> str_of_int n = digits (nat n)"
  by (simp add: str_of_int_def)

lemma made_token_verified:
  assumes "ascii (hm (signing_key env) (utf8_encode (b64url (utf8_encode issue) @ ''.'' @
      b64url (utf8_encode (str_of_int (unix_seconds (made + ttl)))))))"
    and "0 \<le> unix_seconds (made + ttl)"
  shows "verify_approval_token hm env now (make_approval_token hm env made issue ttl) =
    (if unix_seconds (made + ttl) < unix_seconds now then Inl (ValueError ''Approval token expired'') else Inr issue)"
proof -
  have e: "Option.bind (Option.bind (b64url_decode (b64url (utf8_encode (str_of_int (unix_seconds (made + ttl)))))) utf8_decode) py_int
      = Some (unix_seconds (made + ttl))"
    using assms(2) by (simp add: b64url_read_back utf8_read_back str_of_int_nat)
  show ?thesis
    using assms(1) e
    by (simp add: verify_approval_token_def make_approval_token_def Let_def split_token b64url_read_back utf8_read_back utf8_ascii)
qed

text \<open>C39: 
  A token is accepted for the issue it was made for until the second it expires in, and
  refused as expired afterwards, whatever the signing function is.
\<close>

theorem approval_token_read_back:
  assumes "ascii (hm (signing_key env) (utf8_encode (b64url (utf8_encode issue) @ ''.'' @
      b64url (utf8_encode (str_of_int (unix_seconds (made + ttl)))))))"
    and "0 \<le> unix_seconds (made + ttl)"
  shows "verify_approval_token hm env now (make_approval_token hm env made issue ttl) =
    (if unix_seconds (made + ttl) < unix_seconds now then Inl (ValueError ''Approval token expired'') else Inr issue)"
  using assms by (rule made_token_verified)

theorem approval_token_read_back_witness:
  "verify_approval_token (\<lambda>k m. ''ab'') (\<lambda>_. None) (days 7) (make_approval_token (\<lambda>k m. ''ab'') (\<lambda>_. None) 0 ''i1'' (days 7)) = Inr ''i1''"
  by (subst approval_token_read_back)
    (simp_all add: ascii_def byte_def unix_seconds_def py_trunc_def days_def day_us_def)

text \<open>
  The signature of one token cannot be used for another issue or expiry: when no two
  messages share a signature, an accepted token that carries the signature of a made
  token has the payload of that token.
\<close>

theorem approval_token_binds_payload:
  assumes "verify_approval_token hm env now (p0 @ ''.'' @ p1 @ ''.'' @ b64url (utf8_encode mac)) = Inr i"
    and "mac = hm (signing_key env) (utf8_encode (q0 @ ''.'' @ q1))"
    and "inj (hm (signing_key env))" and "CHR ''.'' \<notin> set p0" and "CHR ''.'' \<notin> set p1" and "CHR ''.'' \<notin> set q0"
  shows "p0 = q0 \<and> p1 = q1 \<and> Option.bind (b64url_decode p0) utf8_decode = Some i"
proof -
  have nodot: "CHR ''.'' \<notin> set (b64url s)" for s using b64_plain_chars [of "CHR ''.''" s] by (auto simp: b64url_plain)
  have sp: "split_on (CHR ''.'') (p0 @ ''.'' @ p1 @ ''.'' @ b64url (utf8_encode mac)) = [p0, p1, b64url (utf8_encode mac)]"
    using assms(4,5) nodot by (simp add: split_on_append)
  have parts: "Option.bind (b64url_decode p0) utf8_decode = Some i"
    "hm (signing_key env) (utf8_encode (p0 @ ''.'' @ p1)) = utf8_encode mac" "ascii (utf8_encode mac)"
    using assms(1) unfolding verify_approval_token_def sp
    by (auto simp: b64url_read_back split: option.splits if_splits)
  have enc_ascii: "utf8_encode m = m" if "ascii (utf8_encode m)" for m
    using that by (induction m) (auto simp: ascii_def byte_def split: if_splits)
  have "hm (signing_key env) (utf8_encode (p0 @ ''.'' @ p1)) = hm (signing_key env) (utf8_encode (q0 @ ''.'' @ q1))"
    using parts enc_ascii [OF parts(3)] assms(2) by simp
  then have "utf8_encode (p0 @ ''.'' @ p1) = utf8_encode (q0 @ ''.'' @ q1)" using assms(3) by (simp add: inj_def)
  then have "p0 @ ''.'' @ p1 = q0 @ ''.'' @ q1" using utf8_read_back by (metis option.inject)
  then have "split_on (CHR ''.'') (p0 @ CHR ''.'' # p1) = split_on (CHR ''.'') (q0 @ CHR ''.'' # q1)" by simp
  then have "p0 = q0" using assms(4,6) by (simp add: split_on_append)
  then show ?thesis using \<open>p0 @ ''.'' @ p1 = q0 @ ''.'' @ q1\<close> parts by simp
qed

lemma ascii_simps [simp]: "ascii []" "ascii (a @ b) \<longleftrightarrow> ascii a \<and> ascii b" "ascii (c # s) \<longleftrightarrow> byte c < 128 \<and> ascii s"
  by (auto simp: ascii_def)

lemma ascii_b64url [simp]: "ascii (b64url s)"
  using b64_plain_chars [of _ s] by (auto simp: b64url_plain ascii_def list_all_iff)

theorem approval_token_binds_payload_witness:
  "Option.bind (b64url_decode (b64url ''i1'')) utf8_decode = Some ''i1''"
proof -
  let ?hm = "\<lambda>k m. m :: string" and ?env = "\<lambda>_. None :: string option"
  define q where "q = b64url (utf8_encode (str_of_int (unix_seconds (0 + days 7))))"
  have dot: "byte (CHR ''.'') < 128" by (simp add: byte_def)
  have i1: "utf8_encode ''i1'' = ''i1''" by (simp add: byte_def)
  have q: "ascii q" by (simp add: q_def)
  have m: "make_approval_token ?hm ?env 0 ''i1'' (days 7) =
      b64url ''i1'' @ ''.'' @ q @ ''.'' @ b64url (utf8_encode (utf8_encode (b64url ''i1'' @ ''.'' @ q)))"
    unfolding make_approval_token_def Let_def i1 q_def by simp
  have "verify_approval_token ?hm ?env 0 (make_approval_token ?hm ?env 0 ''i1'' (days 7)) = Inr ''i1''"
    by (subst made_token_verified)
      (simp_all add: utf8_ascii dot unix_seconds_def py_trunc_def days_def day_us_def)
  moreover have "CHR ''.'' \<notin> set (b64url s)" for s using b64_plain_chars [of "CHR ''.''" s] by (auto simp: b64url_plain)
  ultimately show ?thesis
    using approval_token_binds_payload [of ?hm ?env 0 "b64url ''i1''" q
        "utf8_encode (b64url ''i1'' @ ''.'' @ q)" "''i1''" "b64url ''i1''" q]
    by (simp add: inj_def m) (simp add: q_def)
qed

end
