(* ===== verification/SiteData.thy ===== *)
theory SiteData
  imports Tables
begin

text \<open>
  The tables of the public site (\<open>core/db/models.py\<close>, chat, intake, contact, subscriber
  and newsletter rows) as lists of rows, the deployment texts the mails are written from
  (\<open>core/deployment_config.py\<close>), and what a request needs from outside: the clock, the
  process environment, fresh \<open>uuid4\<close> strings, failing database blocks and the mail
  transport. Mails that were handed to the transport are kept in an outbox beside the
  database: a rollback does not take them back.
\<close>

section \<open>Rows\<close>

record conversation =
  cv_id :: string
  cv_mode :: string
  cv_created_at :: utc

record intake_record =
  ik_id :: string
  ik_conversation_id :: string
  ik_selected_mode :: string
  ik_objective :: string
  ik_building :: string
  ik_maturity :: string
  ik_help_needed :: string
  ik_data :: string
  ik_created_at :: utc
  ik_updated_at :: "utc option"

record terminal_intake =
  ti_id :: string
  ti_terminal_session_id :: string
  ti_conversation_id :: "string option"
  ti_contact_id :: "string option"
  ti_selected_mode :: string
  ti_objective :: string
  ti_building :: string
  ti_maturity :: string
  ti_help_needed :: string
  ti_source_path :: string
  ti_referrer :: string
  ti_user_agent :: string
  ti_ip_address :: string
  ti_data :: string
  ti_submission_count :: int
  ti_created_at :: utc
  ti_updated_at :: "utc option"

record message_record =
  mg_id :: string
  mg_conversation_id :: string
  mg_role :: string
  mg_content :: string
  mg_created_at :: utc

record chat_usage =
  cu_id :: string
  cu_ip_address :: string
  cu_session_key :: string
  cu_conversation_id :: "string option"
  cu_input_tokens :: int
  cu_output_tokens :: int
  cu_created_at :: utc

record contact_record =
  cr_id :: string
  cr_role :: string
  cr_name :: string
  cr_email :: string
  cr_data :: string
  cr_ip_address :: string
  cr_created_at :: utc
  cr_updated_at :: "utc option"

record contact_notification =
  cn_id :: string
  cn_contact_id :: string
  cn_channel :: string
  cn_status :: string
  cn_error :: string
  cn_created_at :: utc

record subscriber =
  sb_id :: string
  sb_email :: string
  sb_name :: string
  sb_topics :: string
  sb_source_role :: string
  sb_unsubscribe_token :: string
  sb_opted_in_at :: utc
  sb_unsubscribed_at :: "utc option"
  sb_updated_at :: utc

record newsletter_delivery =
  nd_id :: string
  nd_issue_id :: string
  nd_subscriber_id :: string
  nd_channel :: string
  nd_status :: string
  nd_sent_at :: "utc option"
  nd_error :: string
  nd_created_at :: utc

record autoreply_record =
  ar_id :: string
  ar_subscriber_id :: string
  ar_contact_id :: string
  ar_role :: string
  ar_template :: string
  ar_status :: string
  ar_error :: string
  ar_created_at :: utc

record mail =
  ml_subject :: string
  ml_html :: string
  ml_recipient :: string
  ml_reply_to :: "(string \<times> string) option"
  ml_sender :: string

record site_db =
  sd_conversations :: "conversation list"
  sd_intakes :: "intake_record list"
  sd_messages :: "message_record list"
  sd_usage :: "chat_usage list"
  sd_terminals :: "terminal_intake list"
  sd_contacts :: "contact_record list"
  sd_notifications :: "contact_notification list"
  sd_subscribers :: "subscriber list"
  sd_autoreplies :: "autoreply_record list"
  sd_deliveries :: "newsletter_delivery list"

definition empty_site :: site_db where
  "empty_site = \<lparr>sd_conversations = [], sd_intakes = [], sd_messages = [], sd_usage = [], sd_terminals = [],
     sd_contacts = [], sd_notifications = [], sd_subscribers = [], sd_autoreplies = [], sd_deliveries = []\<rparr>"

record site =
  st_db :: site_db
  st_outbox :: "mail list"

section \<open>Deployment texts\<close>

record deployment =
  dc_organization_name :: string
  dc_short_name :: string
  dc_public_email :: string
  dc_signature_name :: string
  dc_contact_path :: string
  dc_library_path :: string
  dc_booking_url :: string
  dc_community_url :: string
  dc_base_url :: string
  dc_newsletter_name :: string

definition default_deployment :: deployment where
  "default_deployment =
     \<lparr>dc_organization_name = ''Gestalt Workframe'', dc_short_name = ''GWF'', dc_public_email = ''hello@example.com'',
      dc_signature_name = ''the team'', dc_contact_path = ''/contact'', dc_library_path = ''/library'',
      dc_booking_url = '''', dc_community_url = '''', dc_base_url = ''https://example.com'',
      dc_newsletter_name = ''Newsletter Digest''\<rparr>"

section \<open>What a request needs from outside\<close>

text \<open>The calls of \<open>uuid4\<close> and the blocks of I/O, by the place in the code they stand at.\<close>

datatype uuid_place =
    NewContact | NewNotification | NewSubscriber | NewToken | RotatedToken | NewAutoReply

datatype site_point =
    SubscriberCommit | CooldownRead | AutoReplyCommit | UnsubscribeCommit
  | ContactCommit | NotificationCommit

text \<open>
  \<open>se_post m = Some msg\<close>: fetching the mail token or posting \<open>m\<close> raises an exception
  whose \<open>str\<close> is \<open>msg\<close>.
\<close>

record site_env =
  se_now :: utc
  se_env :: environ
  se_deployment :: deployment
  se_uuid :: "uuid_place \<Rightarrow> string"
  se_io :: "site_point faults"
  se_post :: "mail \<Rightarrow> string option"

section \<open>Mail\<close>

text \<open>\<open>core/email_service.py\<close>: an empty credential means that no mail is sent.\<close>

definition default_sender :: "environ \<Rightarrow> deployment \<Rightarrow> string" where
  "default_sender env dc =
     (let over = strip (getenv_or env ''MS365_SEND_AS'' '''') in if over \<noteq> '''' then over else dc_public_email dc)"

definition mail_configured :: "environ \<Rightarrow> bool" where
  "mail_configured env \<longleftrightarrow> getenv_or env ''MS365_TENANT_ID'' '''' \<noteq> '''' \<and> getenv_or env ''MS365_CLIENT_ID'' '''' \<noteq> ''''
     \<and> getenv_or env ''MS365_CLIENT_SECRET'' '''' \<noteq> ''''"

definition send_internal_email ::
  "site_env \<Rightarrow> string \<Rightarrow> string \<Rightarrow> string option \<Rightarrow> (string \<times> string) option \<Rightarrow> string option \<Rightarrow> mail list
   \<Rightarrow> (string + string) \<times> mail list" where
  "send_internal_email e subject html recipient reply_to sender outbox =
     (let snd = opt_str_or sender (default_sender (se_env e) (se_deployment e));
          rcp = opt_str_or recipient (getenv_or (se_env e) ''DISCOVERY_DIGEST_TO'' snd)
      in if \<not> mail_configured (se_env e) then (Inr ''skipped'', outbox)
         else let m = \<lparr>ml_subject = subject, ml_html = html, ml_recipient = rcp, ml_reply_to = reply_to, ml_sender = snd\<rparr>
           in case se_post e m of
               Some msg \<Rightarrow> (Inl msg, outbox)
             | None \<Rightarrow> (Inr ''sent'', outbox @ [m]))"

text \<open>The three outcomes, and what each leaves in the outbox.\<close>

lemma send_internal_email_cases:
  obtains (skipped) "send_internal_email e s h r rt sd ob = (Inr ''skipped'', ob)" "\<not> mail_configured (se_env e)"
  | (raised) msg where "send_internal_email e s h r rt sd ob = (Inl msg, ob)" "mail_configured (se_env e)"
  | (sent) m where "send_internal_email e s h r rt sd ob = (Inr ''sent'', ob @ [m])" "mail_configured (se_env e)"
      "ml_html m = h" "ml_subject m = s"
      "ml_recipient m = opt_str_or r (getenv_or (se_env e) ''DISCOVERY_DIGEST_TO'' (ml_sender m))"
proof (cases "mail_configured (se_env e)")
  case False
  then show ?thesis by (intro skipped) (simp_all add: send_internal_email_def Let_def)
next
  case True
  let ?snd = "opt_str_or sd (default_sender (se_env e) (se_deployment e))"
  let ?m = "\<lparr>ml_subject = s, ml_html = h,
    ml_recipient = opt_str_or r (getenv_or (se_env e) ''DISCOVERY_DIGEST_TO'' ?snd), ml_reply_to = rt, ml_sender = ?snd\<rparr>"
  show ?thesis
  proof (cases "se_post e ?m")
    case None
    with True show ?thesis by (intro sent [of ?m]) (simp_all add: send_internal_email_def Let_def)
  next
    case (Some msg)
    with True show ?thesis by (intro raised [of msg]) (simp_all add: send_internal_email_def Let_def)
  qed
qed

section \<open>Strings the mails are made of\<close>

definition rstrip_slash :: "string \<Rightarrow> string" where
  "rstrip_slash s = rev (dropWhile (\<lambda>c. c = CHR ''/'') (rev s))"

definition nl :: string where
  "nl = [CHR 0x0A]"

lemma contains_infix [simp]: "contains sub (a @ sub @ b)"
  by (auto simp: contains_iff)

lemma contains_append1: "contains sub a \<Longrightarrow> contains sub (a @ b)"
  by (metis append.assoc contains_iff)

lemma contains_append2: "contains sub b \<Longrightarrow> contains sub (a @ b)"
  by (metis append.assoc contains_iff)

lemma contains_refl [simp]: "contains s s"
  using contains_infix [of s "[]" "[]"] by simp

lemma contains_prefix: "contains s (s @ b)"
  using contains_infix [of s "[]" b] by simp

end
