(* ===== verification/Subscribers.thy ===== *)
theory Subscribers
  imports SiteData "HOL-Library.List_Lexorder"
begin

text \<open>
  The auto-replies of \<open>core/contact_autoreply.py\<close>: four templates chosen by the role of
  the contact, each with an HTML and a plain part, and \<open>send_auto_reply\<close>, which never
  raises.
  The second part has the subscribers and their tokens (\<open>core/subscribers.py\<close>).
\<close>

section \<open>Deployment values\<close>

definition site_url :: "environ \<Rightarrow> deployment \<Rightarrow> string" where
  "site_url env dc =
     (let over = strip (getenv_or env ''SITE_PUBLIC_URL'' '''')
      in if over \<noteq> '''' then rstrip_slash over else rstrip_slash (dc_base_url dc))"

definition PLACEHOLDER_COMMUNITY :: string where
  "PLACEHOLDER_COMMUNITY = ''https://example.com/community-invite''"

definition PLACEHOLDER_BOOKING :: string where
  "PLACEHOLDER_BOOKING = ''https://example.com/booking''"

definition community_url :: "environ \<Rightarrow> deployment \<Rightarrow> string" where
  "community_url env dc =
     (let over = strip (getenv_or env ''COMMUNITY_INVITE_URL'' '''')
      in if over \<noteq> '''' then over else str_or (dc_community_url dc) PLACEHOLDER_COMMUNITY)"

definition booking_url :: "environ \<Rightarrow> deployment \<Rightarrow> string" where
  "booking_url env dc =
     (let over = strip (getenv_or env ''BOOKING_URL'' '''')
      in if over \<noteq> '''' then over else str_or (dc_booking_url dc) PLACEHOLDER_BOOKING)"

definition unsubscribe_url :: "environ \<Rightarrow> deployment \<Rightarrow> string \<Rightarrow> string" where
  "unsubscribe_url env dc token = site_url env dc @ ''/newsletter/unsubscribe?token='' @ token"

section \<open>Templates\<close>

record auto_reply =
  rp_subject :: string
  rp_html :: string
  rp_plain :: string
  rp_template_id :: string

definition footer_html :: "environ \<Rightarrow> deployment \<Rightarrow> string \<Rightarrow> string" where
  "footer_html env dc unsub =
    ''<hr style=\"border:none;border-top:1px solid #d4bf9133;margin:32px 0 16px\"/>'' @
    ''<p style=\"color:#888;font-size:12px;line-height:18px;margin:0\">'' @ dc_organization_name dc @
    '' &middot; '' @ site_url env dc @ '' &middot; Sent because you submitted the contact form at '' @
    site_url env dc @ dc_contact_path dc @ ''. <a href=\"'' @ unsub @
    ''\" style=\"color:#888;text-decoration:underline\">Unsubscribe</a></p>''"

definition footer_plain :: "environ \<Rightarrow> deployment \<Rightarrow> string \<Rightarrow> string" where
  "footer_plain env dc unsub =
    nl @ nl @ ''--'' @ nl @ dc_organization_name dc @ '' / '' @ site_url env dc @ nl @
    ''Sent because you submitted the contact form at '' @ site_url env dc @ dc_contact_path dc @ ''.'' @ nl @
    ''Unsubscribe: '' @ unsub"

definition wrap_html :: "environ \<Rightarrow> deployment \<Rightarrow> string \<Rightarrow> string \<Rightarrow> string" where
  "wrap_html env dc body unsub =
    ''<div style=\"font-family:-apple-system,BlinkMacSystemFont,Segoe UI,Inter,sans-serif;'' @
    ''max-width:560px;margin:0 auto;padding:24px;color:#242128;line-height:1.6\">'' @
    body @ footer_html env dc unsub @ ''</div>''"

definition sig_html :: "deployment \<Rightarrow> string" where
  "sig_html dc = ''<p>- '' @ dc_signature_name dc @ ''<br/>'' @ dc_organization_name dc @ ''</p>''"

definition sig_plain :: "deployment \<Rightarrow> string" where
  "sig_plain dc = ''- '' @ dc_signature_name dc @ nl @ dc_organization_name dc"

definition student_template :: "environ \<Rightarrow> deployment \<Rightarrow> string \<Rightarrow> string \<Rightarrow> auto_reply" where
  "student_template env dc first_name unsub =
     \<lparr>rp_subject = ''Thanks for reaching out about learning'',
      rp_html = wrap_html env dc (
    ''<p>Hi '' @ first_name @ '',</p><p>Thanks for reaching out about learning with '' @ dc_organization_name dc @
    ''. You're on the list and will receive the newsletter on its regular cadence.</p><p>The library is '' @
    ''browsable at <a href=\"'' @ site_url env dc @ dc_library_path dc @ ''\">'' @ site_url env dc @
    dc_library_path dc @ ''</a>.</p><p>Reply to this email with a specific topic you want covered first.</p>'' @
    sig_html dc) unsub,
      rp_plain =
    ''Hi '' @ first_name @ '','' @ nl @ nl @ ''Thanks for reaching out about learning with '' @
    dc_organization_name dc @ ''. You're on the list and will receive the newsletter on its regular cadence.'' @
    nl @ nl @ ''The library is browsable at '' @ site_url env dc @ dc_library_path dc @ ''.'' @ nl @ nl @
    ''Reply to this email with a specific topic you want covered first.'' @ nl @ nl @ sig_plain dc @
    footer_plain env dc unsub,
      rp_template_id = ''student_v1''\<rparr>"

definition engineer_template :: "environ \<Rightarrow> deployment \<Rightarrow> string \<Rightarrow> string \<Rightarrow> string \<Rightarrow> auto_reply" where
  "engineer_template env dc first_name unsub community =
     \<lparr>rp_subject = ''Welcome to the list'',
      rp_html = wrap_html env dc (
    ''<p>Hi '' @ first_name @
    '',</p><p>Thanks for the contact. You're on the list and will receive the newsletter on its regular '' @
    ''cadence.</p><p>Community discussion happens here: <a href=\"'' @ community @ ''\">'' @ community @
    ''</a></p><p>The library is at <a href=\"'' @ site_url env dc @ dc_library_path dc @ ''\">'' @ site_url env dc @
    dc_library_path dc @
    ''</a>.</p><p>Reply to this email if you have a specific build in flight you want a second pair of '' @
    ''eyes on.</p>'' @ sig_html dc) unsub,
      rp_plain =
    ''Hi '' @ first_name @ '','' @ nl @ nl @
    ''Thanks for the contact. You're on the list and will receive the newsletter on its regular cadence.'' @
    nl @ nl @ ''Community discussion happens here: '' @ community @ nl @ nl @ ''The library is at '' @
    site_url env dc @ dc_library_path dc @ ''.'' @ nl @ nl @
    ''Reply to this email if you have a specific build in flight you want a second pair of eyes on.'' @ nl @ nl @
    sig_plain dc @ footer_plain env dc unsub,
      rp_template_id = ''engineer_v1''\<rparr>"

definition interested_template :: "environ \<Rightarrow> deployment \<Rightarrow> string \<Rightarrow> string \<Rightarrow> string \<Rightarrow> auto_reply" where
  "interested_template env dc first_name unsub booking =
     \<lparr>rp_subject = ''Scoping a project'',
      rp_html = wrap_html env dc (
    ''<p>Hi '' @ first_name @
    '',</p><p>Thanks for reaching out about working together. We will follow up directly about the '' @
    ''specifics you described.</p><p>To put time on the calendar to talk through the work: <a href=\"'' @ booking @
    ''\">'' @ booking @
    ''</a></p><p>On that call we will want to understand the systems involved, the current process, '' @
    ''what 'better' looks like for you, and the support expectation after launch. That is usually '' @
    ''enough to know whether '' @ dc_organization_name dc @
    '' is the right fit and what the engagement shape would be.</p><p>You are also on the newsletter '' @
    ''list. The library is at <a href=\"'' @ site_url env dc @ dc_library_path dc @ ''\">'' @ site_url env dc @
    dc_library_path dc @ ''</a>.</p>'' @ sig_html dc) unsub,
      rp_plain =
    ''Hi '' @ first_name @ '','' @ nl @ nl @
    ''Thanks for reaching out about working together. We will follow up directly about the specifics '' @
    ''you described.'' @ nl @ nl @ ''To put time on the calendar: '' @ booking @ nl @ nl @
    ''On that call we will want to understand the systems involved, the current process, what 'better' '' @
    ''looks like for you, and the support expectation after launch. That is usually enough to know '' @
    ''whether '' @ dc_organization_name dc @ '' is the right fit and what the engagement shape would be.'' @
    nl @ nl @ ''You are also on the newsletter list. The library is at '' @ site_url env dc @ dc_library_path dc @
    ''.'' @ nl @ nl @ sig_plain dc @ footer_plain env dc unsub,
      rp_template_id = ''interested_v1''\<rparr>"

definition generic_template :: "environ \<Rightarrow> deployment \<Rightarrow> string \<Rightarrow> string \<Rightarrow> auto_reply" where
  "generic_template env dc first_name unsub =
     \<lparr>rp_subject = ''Thanks for reaching out'',
      rp_html = wrap_html env dc (
    ''<p>Hi '' @ first_name @
    '',</p><p>Thanks for the contact. You're on the newsletter list. The library is at <a href=\"'' @
    site_url env dc @ dc_library_path dc @ ''\">'' @ site_url env dc @ dc_library_path dc @
    ''</a>.</p><p>We will follow up directly about your submission.</p>'' @ sig_html dc) unsub,
      rp_plain =
    ''Hi '' @ first_name @ '','' @ nl @ nl @
    ''Thanks for the contact. You're on the newsletter list. The library is at '' @ site_url env dc @
    dc_library_path dc @ ''.'' @ nl @ nl @ ''We will follow up directly about your submission.'' @ nl @ nl @
    sig_plain dc @ footer_plain env dc unsub,
      rp_template_id = ''generic_v1''\<rparr>"

section \<open>Composing and sending\<close>

definition first_name :: "string \<Rightarrow> string" where
  "first_name name =
     str_or (strip (if name \<noteq> '''' then takeWhile (\<lambda>c. c \<noteq> CHR '' '') name else ''there'')) ''there''"

definition compose_auto_reply :: "environ \<Rightarrow> deployment \<Rightarrow> string \<Rightarrow> string \<Rightarrow> string \<Rightarrow> auto_reply" where
  "compose_auto_reply env dc role name token =
     (let who = first_name name; unsub = unsubscribe_url env dc token in
      if role = ''student'' then student_template env dc who unsub
      else if role = ''automation_engineer'' then engineer_template env dc who unsub (community_url env dc)
      else if role = ''interested_party'' then interested_template env dc who unsub (booking_url env dc)
      else generic_template env dc who unsub)"

definition send_auto_reply ::
  "site_env \<Rightarrow> string \<Rightarrow> string \<Rightarrow> string \<Rightarrow> string \<Rightarrow> mail list \<Rightarrow> (string \<times> string \<times> string) \<times> mail list" where
  "send_auto_reply e role name email token outbox =
     (let reply = compose_auto_reply (se_env e) (se_deployment e) role name token;
          sender = getenv_or (se_env e) ''AUTOREPLY_SENDER'' (dc_public_email (se_deployment e))
      in case send_internal_email e (rp_subject reply) (rp_html reply) (Some email) None (Some sender) outbox of
           (Inr status, outbox') \<Rightarrow> ((status, rp_template_id reply, ''''), outbox')
         | (Inl msg, outbox') \<Rightarrow> ((''skipped'', rp_template_id reply, take 512 msg), outbox'))"

section \<open>Every mail can be unsubscribed from\<close>

lemmas template_defs = student_template_def engineer_template_def interested_template_def generic_template_def

lemma wrap_html_unsub: "contains unsub (wrap_html env dc body unsub)"
proof -
  have "contains unsub (footer_html env dc unsub)"
    unfolding footer_html_def by (rule contains_prefix | rule contains_append2)+
  then have end_of_mail: "contains unsub (footer_html env dc unsub @ ''</div>'')" by (rule contains_append1)
  show ?thesis unfolding wrap_html_def by (rule end_of_mail | rule contains_append2)+
qed

lemma footer_plain_unsub: "contains unsub (footer_plain env dc unsub)"
  unfolding footer_plain_def by (rule contains_refl | rule contains_append2)+

text \<open>The replies the four templates can give for a greeting and a link.\<close>

definition templates :: "environ \<Rightarrow> deployment \<Rightarrow> string \<Rightarrow> string \<Rightarrow> auto_reply set" where
  "templates env dc who unsub =
     {student_template env dc who unsub, engineer_template env dc who unsub (community_url env dc),
      interested_template env dc who unsub (booking_url env dc), generic_template env dc who unsub}"

lemma starts_with_append: "starts_with (p @ x) (p @ y) = starts_with x y"
  by (simp add: starts_with_def)

lemma contains_start: "starts_with x body \<Longrightarrow> contains x (wrap_html env dc body unsub)"
proof -
  assume "starts_with x body"
  then have "contains x body"
    unfolding starts_with_def by (metis append_take_drop_id contains_prefix)
  then have "contains x (body @ footer_html env dc unsub @ ''</div>'')" by (rule contains_append1)
  then show ?thesis unfolding wrap_html_def by (metis contains_append2)
qed

lemma template_links:
  assumes "r \<in> templates env dc who unsub"
  shows "contains unsub (rp_html r) \<and> contains unsub (rp_plain r)
    \<and> contains (''<p>Hi '' @ who @ '',</p>'') (rp_html r)"
proof -
  note body = wrap_html_unsub [of unsub env dc]
  have plain: "contains unsub (t @ footer_plain env dc unsub)" for t
    by (rule contains_append2) (rule footer_plain_unsub)
  have greet: "contains (''<p>Hi '' @ who @ '',</p>'') (wrap_html env dc (''<p>Hi '' @ who @ t) unsub)"
    if "starts_with '',</p>'' t" for t
    by (rule contains_start) (simp only: starts_with_append that)
  consider "r = student_template env dc who unsub" | "r = engineer_template env dc who unsub (community_url env dc)"
    | "r = interested_template env dc who unsub (booking_url env dc)" | "r = generic_template env dc who unsub"
    using assms by (auto simp: templates_def)
  then show ?thesis
  proof cases
    case 1
    show ?thesis unfolding 1 student_template_def auto_reply.simps
      by (intro conjI body greet; (simp only: append_assoc [symmetric], rule plain)?; simp add: starts_with_def)
  next
    case 2
    show ?thesis unfolding 2 engineer_template_def auto_reply.simps
      by (intro conjI body greet; (simp only: append_assoc [symmetric], rule plain)?; simp add: starts_with_def)
  next
    case 3
    show ?thesis unfolding 3 interested_template_def auto_reply.simps
      by (intro conjI body greet; (simp only: append_assoc [symmetric], rule plain)?; simp add: starts_with_def)
  next
    case 4
    show ?thesis unfolding 4 generic_template_def auto_reply.simps
      by (intro conjI body greet; (simp only: append_assoc [symmetric], rule plain)?; simp add: starts_with_def)
  qed
qed

text \<open>
  The subscriber list of \<open>core/subscribers.py\<close>: one row per normalized address, opting
  in by submitting a form, opting out by the token of the row, and the auto-reply with
  its cooldown. \<open>subscribe_and_reply\<close> commits twice; each commit is checked against the
  unique constraints of the table and can fail on its own.
\<close>

section \<open>Rows by address and by token\<close>

definition AUTOREPLY_COOLDOWN :: int where
  "AUTOREPLY_COOLDOWN = days 7"

definition ROLE_TOPICS :: "(string \<times> string list) list" where
  "ROLE_TOPICS = [(''student'', [''general'', ''edu'']), (''automation_engineer'', [''general'', ''auto'']),
     (''interested_party'', [''general'', ''service''])]"

definition normalize_email :: "string \<Rightarrow> string" where
  "normalize_email email = lower (strip email)"

definition get_subscriber_by_email :: "site_db \<Rightarrow> string \<Rightarrow> subscriber option" where
  "get_subscriber_by_email db email = find_row sb_email (normalize_email email) (sd_subscribers db)"

definition get_subscriber_by_token :: "site_db \<Rightarrow> string \<Rightarrow> subscriber option" where
  "get_subscriber_by_token db token =
     (let t = strip token in if t = '''' then None else find_row sb_unsubscribe_token t (sd_subscribers db))"

definition recent_autoreply_exists :: "utc \<Rightarrow> int \<Rightarrow> string \<Rightarrow> site_db \<Rightarrow> bool" where
  "recent_autoreply_exists now window sid db \<longleftrightarrow>
     list_ex (\<lambda>r. ar_subscriber_id r = sid \<and> ar_status r \<in> {''sent'', ''skipped''} \<and> ar_created_at r \<ge> now - window)
       (sd_autoreplies db)"

section \<open>Opting in and out\<close>

text \<open>The set of topics as the column stores it: sorted, joined with bars.\<close>

definition topic_words :: "string \<Rightarrow> string list" where
  "topic_words s = filter (\<lambda>t. t \<noteq> '''') (split_on (CHR ''|'') s)"

definition join_topics :: "string list \<Rightarrow> string" where
  "join_topics ts = str_or (join ''|'' (sort (remdups ts))) ''general''"

definition put_subscriber :: "subscriber \<Rightarrow> site_db \<Rightarrow> site_db" where
  "put_subscriber s db = db\<lparr>sd_subscribers := update_where (\<lambda>x. sb_id x = sb_id s) (\<lambda>_. s) (sd_subscribers db)\<rparr>"

definition upsert_subscriber ::
  "site_env \<Rightarrow> string \<Rightarrow> string \<Rightarrow> string \<Rightarrow> string list \<Rightarrow> site_db \<Rightarrow> (subscriber \<times> bool) \<times> site_db" where
  "upsert_subscriber e email name role topics db =
     (let addr = normalize_email email; now = se_now e;
          topic_set = filter (\<lambda>t. t \<noteq> '''') (map strip topics)
      in case get_subscriber_by_email db addr of
           None \<Rightarrow>
             let sub = \<lparr>sb_id = se_uuid e NewSubscriber, sb_email = addr, sb_name = strip name,
                        sb_topics = join_topics topic_set, sb_source_role = role,
                        sb_unsubscribe_token = se_uuid e NewToken, sb_opted_in_at = now,
                        sb_unsubscribed_at = None, sb_updated_at = now\<rparr>
             in ((sub, True), db\<lparr>sd_subscribers := sd_subscribers db @ [sub]\<rparr>)
         | Some old \<Rightarrow>
             let s1 = old\<lparr>sb_topics := join_topics (topic_words (sb_topics old) @ topic_set),
                          sb_name := str_or (strip name) (sb_name old),
                          sb_source_role := str_or role (sb_source_role old), sb_updated_at := now\<rparr>;
                 s2 = (if sb_unsubscribed_at old \<noteq> None
                       then s1\<lparr>sb_unsubscribed_at := None, sb_opted_in_at := now,
                               sb_unsubscribe_token := se_uuid e RotatedToken\<rparr>
                       else s1)
             in ((s2, False), put_subscriber s2 db))"

definition unsubscribed :: "utc \<Rightarrow> subscriber \<Rightarrow> subscriber" where
  "unsubscribed now s =
     (let left = (case sb_unsubscribed_at s of None \<Rightarrow> now | Some t \<Rightarrow> t)
      in s\<lparr>sb_unsubscribed_at := Some left, sb_name := '''', sb_source_role := '''', sb_topics := '''', sb_updated_at := left\<rparr>)"

definition unsubscribe_by_token :: "site_env \<Rightarrow> string \<Rightarrow> site_db \<Rightarrow> subscriber option \<times> site_db" where
  "unsubscribe_by_token e token db =
     (case get_subscriber_by_token db token of
        None \<Rightarrow> (None, db)
      | Some s \<Rightarrow> let s' = unsubscribed (se_now e) s in (Some s', put_subscriber s' db))"

definition active_subscribers :: "string option \<Rightarrow> site_db \<Rightarrow> subscriber list" where
  "active_subscribers topic db =
     (let subs = filter (\<lambda>s. sb_unsubscribed_at s = None) (sd_subscribers db)
      in case topic of
           None \<Rightarrow> subs
         | Some t \<Rightarrow> if t = '''' then subs
             else filter (\<lambda>s. lower (strip t) \<in> set (map (\<lambda>w. lower (strip w)) (topic_words (sb_topics s)))) subs)"

section \<open>The auto-reply\<close>

definition record_autoreply ::
  "site_env \<Rightarrow> string \<Rightarrow> string \<Rightarrow> string \<Rightarrow> string \<Rightarrow> string \<Rightarrow> string \<Rightarrow> site_db \<Rightarrow> site_db" where
  "record_autoreply e sid contact_id role template status error db =
     db\<lparr>sd_autoreplies := sd_autoreplies db @
        [\<lparr>ar_id = se_uuid e NewAutoReply, ar_subscriber_id = sid, ar_contact_id = contact_id, ar_role = role,
          ar_template = template, ar_status = status, ar_error = take 512 error, ar_created_at = se_now e\<rparr>]\<rparr>"

text \<open>The unique constraints of the table, checked at the commit.\<close>

definition subscriber_keys_unique :: "site_db \<Rightarrow> bool" where
  "subscriber_keys_unique db \<longleftrightarrow> distinct (map sb_id (sd_subscribers db)) \<and> distinct (map sb_email (sd_subscribers db))
     \<and> distinct (map sb_unsubscribe_token (sd_subscribers db))"

type_synonym reply_answer = "subscriber option \<times> string \<times> string \<times> string"

definition subscribe_and_reply ::
  "site_env \<Rightarrow> string \<Rightarrow> string \<Rightarrow> string \<Rightarrow> string \<Rightarrow> site \<Rightarrow> reply_answer result \<times> site" where
  "subscribe_and_reply e name email role contact_id s =
     (let topics = (case map_of ROLE_TOPICS role of Some ts \<Rightarrow> ts | None \<Rightarrow> [''general'']);
          ((sub, created), db1) = upsert_subscriber e email name role topics (st_db s)
      in if se_io e SubscriberCommit \<noteq> None \<or> \<not> subscriber_keys_unique db1
         then (Inr (None, '''', '''', ''upsert_failed''), s)
         else let s1 = s\<lparr>st_db := db1\<rparr> in
           case se_io e CooldownRead of
             Some exc \<Rightarrow> (Inl (Raised exc), s1)
           | None \<Rightarrow>
               let ((status, template, error), ob) =
                     (if recent_autoreply_exists (se_now e) AUTOREPLY_COOLDOWN (sb_id sub) db1
                      then ((''skipped'', ''cooldown'', ''auto_reply_cooldown_active''), st_outbox s)
                      else send_auto_reply e role name email (sb_unsubscribe_token sub) (st_outbox s));
                   s2 = s1\<lparr>st_outbox := ob\<rparr>
               in (Inr (Some sub, status, template, error),
                   if contact_id \<noteq> '''' \<and> se_io e AutoReplyCommit = None
                   then s2\<lparr>st_db := record_autoreply e (sb_id sub) contact_id role template status error db1\<rparr>
                   else s2))"

section \<open>Normalized addresses\<close>

lemma lower_char_space [simp]: "is_space (lower_char c) = is_space c"
proof -
  have small: "of_char (char_of (of_char c + 32 :: nat)) = (of_char c :: nat) + 32"
    if "(of_char c :: nat) \<le> 222"
    using that by simp
  show ?thesis
  proof (cases "(65 \<le> (of_char c :: nat) \<and> of_char c \<le> (90 :: nat))
      \<or> (192 \<le> (of_char c :: nat) \<and> of_char c \<le> (222 :: nat) \<and> of_char c \<noteq> (215 :: nat))")
    case True
    then have "lower_char c = char_of (of_char c + 32 :: nat)" by (auto simp: lower_char_def Let_def)
    moreover have "(of_char c :: nat) \<le> 222" using True by auto
    ultimately show ?thesis using small True by (auto simp: is_space_def Let_def)
  next
    case False
    then have "lower_char c = c" by (auto simp: lower_char_def Let_def)
    then show ?thesis by simp
  qed
qed

lemma lstrip_lower: "lstrip (lower s) = lower (lstrip s)"
  by (simp add: lstrip_def lower_def dropWhile_map comp_def)

lemma strip_lower: "strip (lower s) = lower (strip s)"
proof -
  have "rev (lower t) = lower (rev t)" for t by (simp add: lower_def rev_map)
  then show ?thesis unfolding strip_def by (simp add: lstrip_lower)
qed

lemma normalize_email_idem [simp]: "normalize_email (normalize_email a) = normalize_email a"
  by (simp add: normalize_email_def strip_lower)

lemma get_by_normalized [simp]: "get_subscriber_by_email db (normalize_email a) = get_subscriber_by_email db a"
  by (simp add: get_subscriber_by_email_def)

end
