(* ===== verification/Markup.thy ===== *)
theory Markup
  imports SiteData
begin

text \<open>
  Text on its way into HTML and mail: control characters removed, \<open>html.escape\<close>,
  \<open>str.title\<close>, \<open>str.replace\<close> and the \<open>LIKE\<close> operator of SQLite. What escaping
  promises is stated here once: escaped text holds no markup character and can be read
  back.
\<close>

section \<open>Control characters and words\<close>

definition is_control :: "char \<Rightarrow> bool" where
  "is_control c \<longleftrightarrow> (let n = (of_char c :: nat) in n \<le> 8 \<or> n = 11 \<or> n = 12 \<or> (14 \<le> n \<and> n \<le> 31) \<or> n = 127)"

definition clean_text :: "string \<Rightarrow> string" where
  "clean_text s = strip (filter (\<lambda>c. \<not> is_control c) s)"

definition is_upper :: "char \<Rightarrow> bool" where
  "is_upper c \<longleftrightarrow> 65 \<le> (of_char c :: nat) \<and> (of_char c :: nat) \<le> 90"

definition is_lower :: "char \<Rightarrow> bool" where
  "is_lower c \<longleftrightarrow> 97 \<le> (of_char c :: nat) \<and> (of_char c :: nat) \<le> 122"

definition upper_char :: "char \<Rightarrow> char" where
  "upper_char c = (if is_lower c then char_of ((of_char c :: nat) - 32) else c)"

text \<open>\<open>str.title\<close> on ASCII text: the flag says that the last character was a letter.\<close>

fun title_from :: "bool \<Rightarrow> string \<Rightarrow> string" where
  "title_from prev [] = []"
| "title_from prev (c # cs) =
     (let letter = is_upper c \<or> is_lower c
      in (if letter then if prev then lower_char c else upper_char c else c) # title_from letter cs)"

definition title_case :: "string \<Rightarrow> string" where
  "title_case s = title_from False s"

definition replace_char :: "char \<Rightarrow> string \<Rightarrow> string \<Rightarrow> string" where
  "replace_char c w s = concat (map (\<lambda>x. if x = c then w else [x]) s)"

section \<open>\<open>html.escape\<close>\<close>

definition escape_char :: "char \<Rightarrow> string" where
  "escape_char c = (if c = CHR ''&'' then ''&amp;'' else if c = CHR ''<'' then ''&lt;''
     else if c = CHR ''>'' then ''&gt;'' else if c = CHR 0x22 then ''&quot;''
     else if c = CHR 0x27 then ''&#x27;'' else [c])"

definition html_escape :: "string \<Rightarrow> string" where
  "html_escape s = concat (map escape_char s)"

definition escape_text_char :: "char \<Rightarrow> string" where
  "escape_text_char c = (if c \<in> {CHR 0x22, CHR 0x27} then [c] else escape_char c)"

text \<open>With \<open>quote=False\<close>.\<close>

definition html_escape_text :: "string \<Rightarrow> string" where
  "html_escape_text s = concat (map escape_text_char s)"

text \<open>\<open>html.unescape\<close> of text that \<open>html.escape\<close> wrote: the five entities it writes.\<close>

fun html_unescape :: "string \<Rightarrow> string" where
  "html_unescape [] = []"
| "html_unescape (c # s) =
     (if c = CHR ''&'' then
        if starts_with ''amp;'' s then CHR ''&'' # html_unescape (drop 4 s)
        else if starts_with ''lt;'' s then CHR ''<'' # html_unescape (drop 3 s)
        else if starts_with ''gt;'' s then CHR ''>'' # html_unescape (drop 3 s)
        else if starts_with ''quot;'' s then CHR 0x22 # html_unescape (drop 5 s)
        else if starts_with ''#x27;'' s then CHR 0x27 # html_unescape (drop 5 s)
        else c # html_unescape s
      else c # html_unescape s)"

definition markup_free :: "string \<Rightarrow> bool" where
  "markup_free s \<longleftrightarrow> set s \<inter> {CHR ''<'', CHR ''>'', CHR 0x22, CHR 0x27} = {}"

lemma escape_char_free: "x \<in> set (escape_char c) \<Longrightarrow> x \<notin> {CHR ''<'', CHR ''>'', CHR 0x22, CHR 0x27}"
  by (auto simp: escape_char_def split: if_splits)

lemma html_escape_free [simp]: "markup_free (html_escape s)"
  using escape_char_free by (fastforce simp: markup_free_def html_escape_def)

lemma html_escape_simps [simp]:
  "html_escape [] = []" "html_escape (c # s) = escape_char c @ html_escape s"
  "html_escape (s @ t) = html_escape s @ html_escape t"
  by (simp_all add: html_escape_def)

lemma unescape_escape_char: "html_unescape (escape_char c @ s) = c # html_unescape s"
  by (simp add: escape_char_def starts_with_def)

lemma unescape_escape [simp]: "html_unescape (html_escape s) = s"
  by (induction s) (simp_all add: unescape_escape_char)

lemma html_escape_Nil_iff [simp]: "html_escape s = [] \<longleftrightarrow> s = []"
  by (cases s) (auto simp: escape_char_def)

section \<open>\<open>LIKE\<close>\<close>

definition lower_ascii :: "char \<Rightarrow> char" where
  "lower_ascii c = (if is_upper c then char_of ((of_char c :: nat) + 32) else c)"

function sql_like :: "string \<Rightarrow> string \<Rightarrow> bool" where
  "sql_like [] s = (s = [])"
| "p = CHR ''%'' \<Longrightarrow> sql_like (p # ps) [] = sql_like ps []"
| "p = CHR ''%'' \<Longrightarrow> sql_like (p # ps) (c # s) = (sql_like ps (c # s) \<or> sql_like (p # ps) s)"
| "p \<noteq> CHR ''%'' \<Longrightarrow> sql_like (p # ps) [] = False"
| "p \<noteq> CHR ''%'' \<Longrightarrow> sql_like (p # ps) (c # s) =
     ((p = CHR ''_'' \<or> lower_ascii p = lower_ascii c) \<and> sql_like ps s)"
  by (auto, metis neq_Nil_conv)
termination by (relation "measure (\<lambda>(p, s). length p + length s)") auto

lemma like_any: "sql_like ''%'' s"
  by (induction s) simp_all

lemma like_exact: "CHR ''%'' \<notin> set p \<Longrightarrow> sql_like q s \<Longrightarrow> sql_like (p @ q) (p @ s)"
  by (induction p) auto

lemma like_skip: "sql_like ps s \<Longrightarrow> sql_like (CHR ''%'' # ps) (a @ s)"
  by (induction a) (cases s; simp)+

end
