(* ===== verification/DiscoveryDisplay.thy ===== *)
theory DiscoveryDisplay
  imports DiscoveryState DiscoveryReview Json Markup
begin

text \<open>
  What a reader sees of a find: \<open>core/discovery_display.py\<close>, which rewrites the titles and
  source names of the handlers for humans, and \<open>_serialize_public_find\<close> of
  \<open>core/discovery_queue.py\<close>, the dictionary that the public feed and the newsletter carry.
  Letters are those of ASCII.
\<close>

section \<open>Names of sources\<close>

definition capitalize :: "string \<Rightarrow> string" where
  "capitalize s = (case s of [] \<Rightarrow> [] | c # cs \<Rightarrow> upper_char c # map lower_char cs)"

definition SUFFIX_STRIP :: "string list" where
  "SUFFIX_STRIP = [''artifacts'', ''topics'', ''matches'', ''watch'', ''watches'']"

text \<open>\<open>while parts and parts[-1].lower() in suffix_strip: parts.pop()\<close>.\<close>

definition strip_suffixes :: "string list \<Rightarrow> string list" where
  "strip_suffixes parts = rev (dropWhile (\<lambda>w. lower w \<in> set SUFFIX_STRIP) (rev parts))"

definition display_part :: "string \<Rightarrow> string" where
  "display_part w = (if list_ex is_upper w \<and> list_ex is_lower w then w else capitalize w)"

definition display_source_name :: "string \<Rightarrow> string" where
  "display_source_name raw_name =
     (let raw = strip raw_name; words = split_on (CHR ''_'') raw; parts = strip_suffixes words
      in if raw_name = '''' then ''''
         else if raw = ''discovery_scout'' then ''Discovery scout''
         else if CHR ''/'' \<in> set raw then raw
         else join '' '' (map display_part (if parts = [] then words else parts)))"

section \<open>Titles of finds\<close>

text \<open>
  The five patterns, on a stripped title. A repository is \<open>[^ /]+/[^ ]+\<close> up to the first
  space; what follows it has to start with the words of the pattern.
\<close>

definition is_repo :: "string \<Rightarrow> bool" where
  "is_repo w = (let a = takeWhile (\<lambda>c. c \<noteq> CHR ''/'') w in a \<noteq> '''' \<and> length w > Suc (length a))"

definition after_words :: "string \<Rightarrow> string \<Rightarrow> (string \<times> string) option" where
  "after_words words title =
     (let w = takeWhile (\<lambda>c. c \<noteq> CHR '' '') title; r = drop (length w) title
      in if starts_with words r then Some (w, drop (length words) r) else None)"

text \<open>\<open>\s*(.+)$\<close>: the rest of the title after spaces, on one line.\<close>

definition tail_line :: "string \<Rightarrow> string option" where
  "tail_line s = (let t = lstrip s in if t \<noteq> '''' \<and> CHR 0x0A \<notin> set t then Some t else None)"

definition match_topic :: "string \<Rightarrow> (string \<times> string) option" where
  "match_topic title =
     (case after_words '' matches topic:'' title of
        None \<Rightarrow> None
      | Some (repo, s) \<Rightarrow>
          let topic = takeWhile (\<lambda>c. \<not> is_space c) s
          in if is_repo repo \<and> topic \<noteq> '''' \<and> list_all is_space (drop (length topic) s) then Some (repo, topic) else None)"

definition match_user_repo :: "string \<Rightarrow> (string \<times> string) option" where
  "match_user_repo title =
     (case after_words '' repository:'' title of
        None \<Rightarrow> None
      | Some (account, s) \<Rightarrow> if account \<noteq> '''' then map_option (\<lambda>t. (account, t)) (tail_line s) else None)"

definition match_artifact :: "string \<Rightarrow> (string \<times> string) option" where
  "match_artifact title =
     (case after_words '' artifact:'' title of
        None \<Rightarrow> None
      | Some (repo, s) \<Rightarrow> if is_repo repo then map_option (\<lambda>t. (repo, t)) (tail_line s) else None)"

definition is_sha_char :: "char \<Rightarrow> bool" where
  "is_sha_char c \<longleftrightarrow> is_digit c \<or> c \<in> set ''abcdef''"

definition match_sha :: "string \<Rightarrow> (string \<times> string \<times> string) option" where
  "match_sha title =
     (case after_words '' commit '' title of
        None \<Rightarrow> None
      | Some (repo, s) \<Rightarrow>
          if is_repo repo \<and> length (take 7 s) = 7 \<and> list_all is_sha_char (take 7 s) then Some (repo, take 7 s, drop 7 s) else None)"

definition match_commit :: "string \<Rightarrow> (string \<times> string \<times> string) option" where
  "match_commit title =
     (case match_sha title of
        None \<Rightarrow> None
      | Some (repo, sha, r) \<Rightarrow> if starts_with '':'' r then map_option (\<lambda>t. (repo, sha, t)) (tail_line (drop 1 r)) else None)"

definition match_bare_commit :: "string \<Rightarrow> (string \<times> string) option" where
  "match_bare_commit title =
     (case match_sha title of
        None \<Rightarrow> None
      | Some (repo, sha, r) \<Rightarrow> if list_all is_space r then Some (repo, sha) else None)"

definition display_finding_title :: "string \<Rightarrow> string" where
  "display_finding_title raw_title =
     (let title = strip raw_title in
      if raw_title = '''' then '''' else
      case match_topic title of Some (repo, topic) \<Rightarrow> ''New '' @ topic @ '' repo: '' @ repo | None \<Rightarrow>
      case match_user_repo title of Some (account, repo) \<Rightarrow> ''New repo from '' @ account @ '': '' @ repo | None \<Rightarrow>
      case match_artifact title of Some (repo, path) \<Rightarrow> repo @ '' - '' @ path | None \<Rightarrow>
      case match_commit title of
        Some (repo, sha, msg) \<Rightarrow> repo @ '' commit: '' @ msg @ '' ('' @ sha @ '')'' | None \<Rightarrow>
      case match_bare_commit title of Some (repo, sha) \<Rightarrow> repo @ '' commit '' @ sha | None \<Rightarrow> title)"

definition FINDING_TYPE_LABELS :: "(string \<times> string) list" where
  "FINDING_TYPE_LABELS =
     [(''release'', ''Release''), (''rss_item'', ''Article''), (''subreddit_post'', ''Forum post''),
      (''youtube_item'', ''Video''), (''github_topic_match'', ''New repo''), (''github_user_repo'', ''New repo''),
      (''artifact'', ''Repository file''), (''new_source_candidate'', ''Candidate source''), (''diff'', ''Update''),
      (''saved_search'', ''Search hit'')]"

definition display_finding_caption :: "string \<Rightarrow> string \<Rightarrow> string" where
  "display_finding_caption finding_type source_display =
     (let label = (case map_of FINDING_TYPE_LABELS finding_type of
            Some l \<Rightarrow> l
          | None \<Rightarrow> if finding_type = '''' then ''Finding'' else capitalize (replace_char (CHR ''_'') '' '' finding_type))
      in if source_display \<noteq> '''' then label @ '' from '' @ source_display else label)"

section \<open>The public dictionary of a find\<close>

type_synonym find_dict = "(string \<times> json) list"

definition clock_of :: "utc \<Rightarrow> int \<times> int \<times> int \<times> int" where
  "clock_of t = (let u = t mod day_us in
     (u div 3600000000, u div 60000000 mod 60, u div 1000000 mod 60, u mod 1000000))"

definition iso_clock :: "string \<Rightarrow> utc \<Rightarrow> string" where
  "iso_clock sep t = (case clock_of t of (h, mi, sec, us) \<Rightarrow>
     strf_day t @ sep @ padded 2 h @ '':'' @ padded 2 mi @ '':'' @ padded 2 sec
     @ (if us = 0 then '''' else ''.'' @ padded 6 us))"

text \<open>\<open>isoformat\<close> of a stamp read from a row: SQLite keeps no time zone.\<close>

definition row_isoformat :: "utc \<Rightarrow> string" where
  "row_isoformat t = iso_clock ''T'' t"

definition json_time :: "utc option \<Rightarrow> json" where
  "json_time t = (case t of None \<Rightarrow> JNull | Some x \<Rightarrow> JStr (row_isoformat x))"

definition review_of :: "discovery_find \<Rightarrow> discovery_source \<Rightarrow> review_metadata" where
  "review_of f so = discovery_review_metadata
     \<lparr>ri_title = fi_title f, ri_summary_text = fi_summary_text f, ri_url = fi_url f, ri_source_name = so_name so,
      ri_watch_type = so_watch_type so, ri_finding_type = fi_finding_type f,
      ri_importance_signal = fi_importance_signal f\<rparr>"

definition serialize_public_find :: "discovery_find \<Rightarrow> discovery_source \<Rightarrow> find_dict" where
  "serialize_public_find f so =
     (let m = review_of f so; sd = display_source_name (so_name so) in
      [(''id'', JStr (fi_id f)), (''source_name'', JStr (so_name so)), (''display_source_name'', JStr sd),
       (''watch_type'', JStr (so_watch_type so)), (''finding_type'', JStr (fi_finding_type f)),
       (''content_type'', JStr (rm_content_type m)), (''review_topic'', JStr (rm_topic m)),
       (''title'', JStr (fi_title f)), (''display_title'', JStr (display_finding_title (fi_title f))),
       (''display_caption'', JStr (display_finding_caption (fi_finding_type f) sd)), (''url'', JStr (fi_url f)),
       (''summary_text'', JStr (fi_summary_text f)), (''importance_signal'', JStr (fi_importance_signal f)),
       (''decided_at'', json_time (fi_decided_at f)), (''first_seen_at'', JStr (row_isoformat (fi_first_seen_at f))),
       (''last_seen_at'', JStr (row_isoformat (fi_last_seen_at f)))])"

text \<open>The dictionary names its find.\<close>

lemma serialized_id [simp]: "map_of (serialize_public_find f so) ''id'' = Some (JStr (fi_id f))"
  by (simp add: serialize_public_find_def Let_def)

section \<open>Properties\<close>

lemma take_word: "CHR '' '' \<notin> set w \<Longrightarrow> takeWhile (\<lambda>c. c \<noteq> CHR '' '') (w @ CHR '' '' # s) = w"
  by (induction w) auto

lemma after_words_there: "CHR '' '' \<notin> set w \<Longrightarrow> after_words (CHR '' '' # p) (w @ CHR '' '' # p @ s) = Some (w, s)"
  by (simp add: after_words_def take_word starts_with_def)

lemma after_words_other:
  "CHR '' '' \<notin> set w \<Longrightarrow> \<not> starts_with p s \<Longrightarrow> after_words (CHR '' '' # p) (w @ CHR '' '' # s) = None"
  by (simp add: after_words_def take_word starts_with_def)

lemma strip_ident: "s \<noteq> [] \<Longrightarrow> \<not> is_space (hd s) \<Longrightarrow> \<not> is_space (last s) \<Longrightarrow> strip s = s"
proof -
  assume "s \<noteq> []" "\<not> is_space (hd s)" "\<not> is_space (last s)"
  then have "lstrip s = s" by (cases s) (simp_all add: lstrip_def)
  moreover have "lstrip (rev s) = rev s"
    using \<open>s \<noteq> []\<close> \<open>\<not> is_space (last s)\<close> by (cases s rule: rev_cases) (simp_all add: lstrip_def)
  ultimately show ?thesis by (simp add: strip_def)
qed

lemma repo_hd: "is_repo w \<Longrightarrow> w \<noteq> []"
  by (auto simp: is_repo_def Let_def)

text \<open>The headline of a commit keeps its repository, message and hash, and nothing else.\<close>

theorem commit_headline:
  assumes "is_repo repo" and "CHR '' '' \<notin> set repo" and "\<not> is_space (hd repo)"
    and "length sha = 7" and "list_all is_sha_char sha"
    and "msg \<noteq> ''''" and "\<not> is_space (hd msg)" and "\<not> is_space (last msg)" and "CHR 0x0A \<notin> set msg"
  shows "display_finding_title (repo @ '' commit '' @ sha @ '': '' @ msg) = repo @ '' commit: '' @ msg @ '' ('' @ sha @ '')''"
proof -
  let ?t = "repo @ '' commit '' @ sha @ '': '' @ msg"
  have "strip ?t = ?t" using assms repo_hd [OF assms(1)] by (intro strip_ident) auto
  moreover have "match_topic ?t = None" "match_user_repo ?t = None" "match_artifact ?t = None"
    using after_words_other [OF assms(2), of "''matches topic:''"] after_words_other [OF assms(2), of "''repository:''"]
      after_words_other [OF assms(2), of "''artifact:''"]
    by (simp_all add: match_topic_def match_user_repo_def match_artifact_def starts_with_def)
  moreover have "lstrip ('' '' @ msg) = msg" using assms(6,7) by (cases msg) (simp_all add: lstrip_def is_space_def)
  then have "match_commit ?t = Some (repo, sha, msg)"
    using after_words_there [OF assms(2), of "''commit ''" "sha @ '': '' @ msg"] assms
    by (simp add: match_commit_def match_sha_def tail_line_def Let_def starts_with_def)
  ultimately show ?thesis using repo_hd [OF assms(1)] by (simp add: display_finding_title_def)
qed

theorem commit_headline_witness:
  "display_finding_title ''acme/flow commit 0a1b2c3: fix retry'' = ''acme/flow commit: fix retry (0a1b2c3)''"
  using commit_headline [of "''acme/flow''" "''0a1b2c3''" "''fix retry''"]
  by (simp add: is_repo_def is_space_def is_sha_char_def is_digit_def)

end
