(* ===== verification/NewsletterState.thy ===== *)
theory NewsletterState
  imports ApprovalToken Subscribers DiscoveryDisplay
begin

text \<open>
  The newsletter's data: issues and their six states (\<open>core/db/models.py\<close>), beside them
  the finds (\<open>discovery_db\<close>) and the subscribers, deliveries and sent mails (\<open>site\<close>). The
  column \<open>finds_json\<close> holds the dump of an array of flat dictionaries and is read back
  with \<open>json.loads\<close>; it is the list of these dictionaries here. Two history variables
  record what left the process: which issue went to which subscriber, and the posts.
\<close>

section \<open>Issues\<close>

datatype issue_status = Draft | AwaitingApproval | Approved | Sending | Sent | Skipped

fun status_name :: "issue_status \<Rightarrow> string" where
  "status_name Draft = ''draft''"
| "status_name AwaitingApproval = ''awaiting_approval''"
| "status_name Approved = ''approved''"
| "status_name Sending = ''sending''"
| "status_name Sent = ''sent''"
| "status_name Skipped = ''skipped''"

record newsletter_issue =
  ni_id :: string
  ni_ship_number :: "int option"
  ni_display_label :: string
  ni_slug :: string
  ni_period_start :: utc
  ni_period_end :: utc
  ni_status :: issue_status
  ni_editorial_markdown :: string
  ni_finds_json :: "find_dict list"
  ni_subject :: string
  ni_approved_by :: string
  ni_approved_at :: "utc option"
  ni_target_send_at :: "utc option"
  ni_approval_email_sent_at :: "utc option"
  ni_scheduled_send_at :: "utc option"
  ni_sent_at :: "utc option"
  ni_unpublished_at :: "utc option"
  ni_notes :: string
  ni_created_at :: utc
  ni_updated_at :: utc

definition new_issue :: "string \<Rightarrow> string \<Rightarrow> string \<Rightarrow> utc \<Rightarrow> utc \<Rightarrow> issue_status \<Rightarrow> utc \<Rightarrow> newsletter_issue" where
  "new_issue i label slug since till st now =
     \<lparr>ni_id = i, ni_ship_number = None, ni_display_label = label, ni_slug = slug, ni_period_start = since,
      ni_period_end = till, ni_status = st, ni_editorial_markdown = '''', ni_finds_json = [], ni_subject = '''',
      ni_approved_by = '''', ni_approved_at = None, ni_target_send_at = None, ni_approval_email_sent_at = None,
      ni_scheduled_send_at = None, ni_sent_at = None, ni_unpublished_at = None, ni_notes = '''', ni_created_at = now,
      ni_updated_at = now\<rparr>"

record news =
  nw_issues :: "newsletter_issue list"
  nw_disc :: discovery_db
  nw_site :: site
  nw_sent :: "(string \<times> string) list"
  nw_posts :: "string list"

section \<open>What an operation needs from outside\<close>

text \<open>
  \<open>ne_others k rows\<close> is the issue table after what other sessions commit between the read
  and the commit of attempt \<open>k\<close> of a retry loop. The outcome of the LinkedIn call is the
  status and text of the answer, or the class and text of the exception. A block that
  fails is rolled back; which of the commits of an issue fail is up to \<open>ne_io\<close>.
\<close>

datatype linkedin_outcome = LinkedInAnswer int string | LinkedInRaised string string

datatype news_point =
    StatusCommit | SnapshotCommit | ShipCommit | RevertCommit | HaltCommit | SendCommit | FinalCommit | ReminderCommit

record news_env =
  ne_site :: site_env
  ne_issue_id :: string
  ne_delivery_id :: "string \<Rightarrow> string \<Rightarrow> string"
  ne_hmac :: "string \<Rightarrow> string \<Rightarrow> string"
  ne_others :: "nat \<Rightarrow> newsletter_issue list \<Rightarrow> newsletter_issue list"
  ne_io :: "string \<Rightarrow> news_point faults"
  ne_linkedin :: "string \<Rightarrow> linkedin_outcome"
  ne_exc_class :: "string \<Rightarrow> string"

definition ne_now :: "news_env \<Rightarrow> utc" where
  "ne_now e = se_now (ne_site e)"

definition ne_env :: "news_env \<Rightarrow> environ" where
  "ne_env e = se_env (ne_site e)"

definition ne_deployment :: "news_env \<Rightarrow> deployment" where
  "ne_deployment e = se_deployment (ne_site e)"

section \<open>Reading and writing rows\<close>

definition issue_by_id :: "string \<Rightarrow> news \<Rightarrow> newsletter_issue option" where
  "issue_by_id i s = find_row ni_id i (nw_issues s)"

definition update_issues :: "(newsletter_issue \<Rightarrow> bool) \<Rightarrow> (newsletter_issue \<Rightarrow> newsletter_issue) \<Rightarrow> news \<Rightarrow> news" where
  "update_issues p f s = s\<lparr>nw_issues := update_where p f (nw_issues s)\<rparr>"

definition change_issue :: "string \<Rightarrow> (newsletter_issue \<Rightarrow> newsletter_issue) \<Rightarrow> news \<Rightarrow> news" where
  "change_issue i f s = update_issues (\<lambda>x. ni_id x = i) f s"

definition add_issue :: "newsletter_issue \<Rightarrow> news \<Rightarrow> news" where
  "add_issue x s = s\<lparr>nw_issues := nw_issues s @ [x]\<rparr>"

text \<open>The unique constraints of the issue table, with its primary key.\<close>

definition issue_keys_unique :: "newsletter_issue list \<Rightarrow> bool" where
  "issue_keys_unique xs \<longleftrightarrow> distinct (map ni_id xs) \<and> distinct (map ni_slug xs) \<and> distinct (map ni_display_label xs)
     \<and> distinct (List.map_filter ni_ship_number xs)"

section \<open>Dates and names in texts\<close>

definition month_abbr :: "int \<Rightarrow> string" where
  "month_abbr m = (let ms = [''Jan'', ''Feb'', ''Mar'', ''Apr'', ''May'', ''Jun'', ''Jul'', ''Aug'', ''Sep'', ''Oct'', ''Nov'', ''Dec'']
     in if 1 \<le> m \<and> m \<le> 12 then ms ! nat (m - 1) else '''')"

definition weekday_abbr :: "utc \<Rightarrow> string" where
  "weekday_abbr t = [''Thu'', ''Fri'', ''Sat'', ''Sun'', ''Mon'', ''Tue'', ''Wed''] ! nat ((t div day_us) mod 7)"

text \<open>\<open>strftime\<close> with \<open>%b %d\<close> and \<open>%b %d, %Y\<close>, and the long form of the reminder.\<close>

definition strf_bd :: "utc \<Rightarrow> string" where
  "strf_bd t = (case date_of t of (y, m, d) \<Rightarrow> month_abbr m @ '' '' @ padded 2 d)"

definition strf_bdy :: "utc \<Rightarrow> string" where
  "strf_bdy t = (case date_of t of (y, m, d) \<Rightarrow> month_abbr m @ '' '' @ padded 2 d @ '', '' @ padded 4 y)"


definition strf_target :: "utc \<Rightarrow> string" where
  "strf_target t = (case clock_of t of (h, mi, sec, us) \<Rightarrow>
     weekday_abbr t @ '' '' @ strf_bdy t @ '' at '' @ padded 2 h @ '':'' @ padded 2 mi @ '' UTC'')"

definition isoformat :: "utc \<Rightarrow> string" where
  "isoformat t = iso_clock ''T'' t @ ''+00:00''"

definition news_site_url :: "news_env \<Rightarrow> string" where
  "news_site_url e = rstrip_slash (getenv_or (ne_env e) ''SITE_PUBLIC_URL'' (dc_base_url (ne_deployment e)))"

definition newsletter_label :: "news_env \<Rightarrow> string" where
  "newsletter_label e = str_or (dc_newsletter_name (ne_deployment e)) (dc_short_name (ne_deployment e) @ '' signals'')"

definition organization_label :: "news_env \<Rightarrow> string" where
  "organization_label e = dc_organization_name (ne_deployment e)"

definition news_unsubscribe_url :: "news_env \<Rightarrow> string \<Rightarrow> string" where
  "news_unsubscribe_url e token = news_site_url e @ ''/newsletter/unsubscribe?token='' @ token"

definition default_subject :: "news_env \<Rightarrow> utc \<Rightarrow> nat \<Rightarrow> string" where
  "default_subject e period_end n =
     newsletter_label e @ '' - '' @ strf_bd period_end @ '' ('' @ digits n @ '' '' @ (if n = 1 then ''item'' else ''items'') @ '')''"

section \<open>LinkedIn\<close>

text \<open>\<open>core/linkedin.py\<close>: dark until all four values are set; it never raises.\<close>

definition linkedin_configured :: "environ \<Rightarrow> bool" where
  "linkedin_configured env \<longleftrightarrow> list_all (\<lambda>v. strip (getenv_or env v '''') \<noteq> '''')
     [''LINKEDIN_CLIENT_ID'', ''LINKEDIN_CLIENT_SECRET'', ''LINKEDIN_REFRESH_TOKEN'', ''LINKEDIN_AUTHOR_URN'']"

definition post_to_linkedin :: "news_env \<Rightarrow> string \<Rightarrow> string \<times> string" where
  "post_to_linkedin e content =
     (if \<not> linkedin_configured (ne_env e) then (''skipped'', ''not_configured'')
      else case ne_linkedin e content of
          LinkedInAnswer code text \<Rightarrow>
            (if code = 200 \<or> code = 201 then (''sent'', ''published'')
             else (''failed'', ''http_'' @ str_of_int code @ '': '' @ take 200 text))
        | LinkedInRaised cls text \<Rightarrow> (''failed'', ''exception: '' @ cls @ '': '' @ text))"

section \<open>Lemmas on rows\<close>

lemma nw_update_issues [simp]:
  "nw_disc (update_issues p f s) = nw_disc s" "nw_site (update_issues p f s) = nw_site s"
  "nw_sent (update_issues p f s) = nw_sent s" "nw_posts (update_issues p f s) = nw_posts s"
  "nw_issues (update_issues p f s) = update_where p f (nw_issues s)"
  by (simp_all add: update_issues_def)

lemma nw_change_issue [simp]:
  "nw_disc (change_issue i f s) = nw_disc s" "nw_site (change_issue i f s) = nw_site s"
  "nw_sent (change_issue i f s) = nw_sent s" "nw_posts (change_issue i f s) = nw_posts s"
  "nw_issues (change_issue i f s) = update_where (\<lambda>x. ni_id x = i) f (nw_issues s)"
  by (simp_all add: change_issue_def)

lemma nw_add_issue [simp]:
  "nw_disc (add_issue x s) = nw_disc s" "nw_site (add_issue x s) = nw_site s" "nw_sent (add_issue x s) = nw_sent s"
  "nw_posts (add_issue x s) = nw_posts s" "nw_issues (add_issue x s) = nw_issues s @ [x]"
  by (simp_all add: add_issue_def)

lemma new_issue_simps [simp]:
  "ni_id (new_issue i l sl a b st now) = i" "ni_ship_number (new_issue i l sl a b st now) = None"
  "ni_display_label (new_issue i l sl a b st now) = l" "ni_slug (new_issue i l sl a b st now) = sl"
  "ni_status (new_issue i l sl a b st now) = st" "ni_approved_at (new_issue i l sl a b st now) = None"
  "ni_scheduled_send_at (new_issue i l sl a b st now) = None" "ni_unpublished_at (new_issue i l sl a b st now) = None"
  by (simp_all add: new_issue_def)

lemma issue_by_id_SomeD: "issue_by_id i s = Some x \<Longrightarrow> x \<in> set (nw_issues s) \<and> ni_id x = i"
  unfolding issue_by_id_def by (drule find_row_SomeD) simp

lemma in_update_where: "x \<in> set (update_where p f xs) \<longleftrightarrow> (\<exists>y \<in> set xs. x = (if p y then f y else y))"
  by (auto simp: update_where_def image_iff)

lemma find_row_update_where:
  assumes "\<And>x. key (f x) = key x"
  shows "find_row key k (update_where p f rows) = map_option (\<lambda>x. if p x then f x else x) (find_row key k rows)"
  unfolding update_where_def by (induction rows) (auto simp: assms)

end
