(* ===== verification/NewsletterIssues.thy ===== *)
theory NewsletterIssues
  imports NewsletterState NewsletterLabels
begin

text \<open>
  The operations of \<open>core/newsletter.py\<close> on issues before they are sent: numbering,
  creation, tagging of finds, composition, editing, approval and its cancellation,
  deletion, unpublishing and the list of issues. A handler returns its answer or its
  exception, with the state it commits.
\<close>

section \<open>Numbers and labels\<close>

definition ship_numbers :: "newsletter_issue list \<Rightarrow> int list" where
  "ship_numbers xs = List.map_filter ni_ship_number xs"

text \<open>\<open>int(row or 0)\<close> of \<open>MAX(ship_number)\<close>.\<close>

definition last_ship :: "newsletter_issue list \<Rightarrow> int" where
  "last_ship xs = (case ship_numbers xs of [] \<Rightarrow> 0 | n # ns \<Rightarrow> fold max ns n)"

definition next_ship_number :: "newsletter_issue list \<Rightarrow> int" where
  "next_ship_number xs = last_ship xs + 1"

definition epoch_count :: "newsletter_issue list \<Rightarrow> nat" where
  "epoch_count xs = length (filter (\<lambda>x. ni_ship_number x = None \<and> display_label_epoch (ni_display_label x) = Some (last_ship xs)) xs)"

definition next_display_label :: "newsletter_issue list \<Rightarrow> string" where
  "next_display_label xs = epoch_label (last_ship xs) (epoch_count xs)"

section \<open>Creation\<close>

text \<open>\<open>ORDER BY t DESC NULLS LAST\<close> and \<open>ORDER BY t ASC NULLS LAST\<close>.\<close>

definition desc_nulls_last :: "('a \<Rightarrow> utc option) \<Rightarrow> 'a list \<Rightarrow> 'a list" where
  "desc_nulls_last t xs = newest_first (\<lambda>x. the (t x)) (filter (\<lambda>x. t x \<noteq> None) xs) @ filter (\<lambda>x. t x = None) xs"

definition asc_nulls_last :: "('a \<Rightarrow> utc option) \<Rightarrow> 'a list \<Rightarrow> 'a list" where
  "asc_nulls_last t xs = sort_key (\<lambda>x. the (t x)) (filter (\<lambda>x. t x \<noteq> None) xs) @ filter (\<lambda>x. t x = None) xs"

definition issue_anchor :: "newsletter_issue \<Rightarrow> utc" where
  "issue_anchor x = (case ni_target_send_at x of Some t \<Rightarrow> t | None \<Rightarrow>
     (case ni_scheduled_send_at x of Some t \<Rightarrow> t | None \<Rightarrow>
     (case ni_sent_at x of Some t \<Rightarrow> t | None \<Rightarrow> ni_created_at x)))"

definition next_default_target_send_at :: "utc \<Rightarrow> newsletter_issue list \<Rightarrow> utc" where
  "next_default_target_send_at now xs =
     (case desc_nulls_last ni_sent_at (filter (\<lambda>x. ni_status x = Sent) xs) of
        [] \<Rightarrow> now + days 10
      | x # _ \<Rightarrow> let target = issue_anchor x + days 10 in if target \<le> now then now + days 10 else target)"

definition draft_issue :: "news_env \<Rightarrow> utc \<Rightarrow> string \<Rightarrow> string \<Rightarrow> newsletter_issue list \<Rightarrow> newsletter_issue" where
  "draft_issue e target subject notes xs =
     (let label = next_display_label xs; slug = the_slug (''issue-'' @ label @ ''-'' @ strf_day target) (map ni_slug xs)
      in (new_issue (ne_issue_id e) label slug (target - days 10) target Draft (ne_now e))
           \<lparr>ni_subject := str_or (strip subject) (''Issue '' @ label), ni_target_send_at := Some target, ni_notes := notes\<rparr>)"

text \<open>The loop over attempts: \<open>k\<close> the attempt, \<open>n\<close> how many are left.\<close>

fun create_loop :: "news_env \<Rightarrow> utc \<Rightarrow> string \<Rightarrow> string \<Rightarrow> nat \<Rightarrow> nat \<Rightarrow> news \<Rightarrow> newsletter_issue result \<times> news" where
  "create_loop e target subject notes k 0 s = (Inl (Raised ''Could not assign newsletter draft display label''), s)"
| "create_loop e target subject notes k (Suc n) s =
     (let x = draft_issue e target subject notes (nw_issues s);
          s1 = s\<lparr>nw_issues := ne_others e k (nw_issues s)\<rparr>
      in if issue_keys_unique (nw_issues s1 @ [x]) then (Inr x, add_issue x s1)
         else create_loop e target subject notes (Suc k) n s1)"

definition create_empty_issue :: "news_env \<Rightarrow> utc option \<Rightarrow> string \<Rightarrow> string \<Rightarrow> news \<Rightarrow> newsletter_issue result \<times> news" where
  "create_empty_issue e target subject notes s =
     create_loop e (case target of Some t \<Rightarrow> t | None \<Rightarrow> next_default_target_send_at (ne_now e) (nw_issues s)) subject notes 0 3 s"

section \<open>Finds of an issue\<close>

definition open_status :: "issue_status \<Rightarrow> bool" where
  "open_status st \<longleftrightarrow> st = Draft \<or> st = AwaitingApproval \<or> st = Approved"

definition set_disc :: "discovery_db \<Rightarrow> news \<Rightarrow> news" where
  "set_disc d s = s\<lparr>nw_disc := d\<rparr>"

definition set_finds :: "(discovery_find list \<Rightarrow> discovery_find list) \<Rightarrow> news \<Rightarrow> news" where
  "set_finds f s = s\<lparr>nw_disc := (nw_disc s)\<lparr>dd_finds := f (dd_finds (nw_disc s))\<rparr>\<rparr>"

definition assign_find_to_issue :: "string \<Rightarrow> string option \<Rightarrow> news \<Rightarrow> discovery_find result \<times> news" where
  "assign_find_to_issue find_id issue_id s =
     (case find_row fi_id find_id (dd_finds (nw_disc s)) of
        None \<Rightarrow> (Inl (LookupError (''Discovery find not found: '' @ find_id)), s)
      | Some f \<Rightarrow>
          case issue_id of
            None \<Rightarrow> let f' = f\<lparr>fi_newsletter_issue_id := None, fi_newsletter_pending := False\<rparr>
                    in (Inr f', set_disc (put_find f' (nw_disc s)) s)
          | Some i \<Rightarrow>
              case issue_by_id i s of
                None \<Rightarrow> (Inl (LookupError (''Newsletter issue not found: '' @ i)), s)
              | Some x \<Rightarrow>
                  if \<not> open_status (ni_status x)
                  then (Inl (ValueError (''Cannot tag a find onto a '' @ status_name (ni_status x)
                         @ '' issue; pick a draft or awaiting-approval issue, or create a new one.'')), s)
                  else let f' = f\<lparr>fi_newsletter_issue_id := Some (ni_id x), fi_newsletter_pending := True, fi_dismissed := False\<rparr>
                       in (Inr f', set_disc (put_find f' (nw_disc s)) s))"

definition list_assignable_issues :: "utc \<Rightarrow> news \<Rightarrow> newsletter_issue list" where
  "list_assignable_issues now s =
     asc_nulls_last ni_target_send_at (filter (\<lambda>x. ni_status x = Draft \<or> ni_status x = AwaitingApproval) (nw_issues s))
     @ asc_nulls_last ni_scheduled_send_at
         (filter (\<lambda>x. ni_status x = Approved \<and> (case ni_scheduled_send_at x of None \<Rightarrow> False | Some t \<Rightarrow> t > now)) (nw_issues s))"

definition live_finds_for_issue :: "string \<Rightarrow> news \<Rightarrow> find_dict list" where
  "live_finds_for_issue i s = map (\<lambda>(f, so). serialize_public_find f so)
     (newest_first (\<lambda>fs. fi_last_seen_at (fst fs)) (filter (\<lambda>(f, so). fi_newsletter_issue_id f = Some i) (joined (nw_disc s))))"

definition eligible_find :: "utc \<Rightarrow> discovery_find \<Rightarrow> bool" where
  "eligible_find cutoff f \<longleftrightarrow> fi_status f = ''auto_indexed'' \<and> fi_newsletter_issue_id f = None \<and> \<not> fi_dismissed f
     \<and> fi_published_in_newsletter_at f = None \<and> fi_first_seen_at f \<ge> cutoff"

text \<open>The batches of 500 ids are updates of one transaction.\<close>

definition auto_populate_draft :: "news_env \<Rightarrow> string \<Rightarrow> int \<Rightarrow> news \<Rightarrow> nat \<times> news" where
  "auto_populate_draft e issue_id window_days s =
     (let cutoff = ne_now e - days (max 1 window_days);
          eligible = map fi_id (filter (eligible_find cutoff) (dd_finds (nw_disc s)))
      in (length eligible,
          set_finds (update_where (\<lambda>f. fi_id f \<in> set eligible)
            (\<lambda>f. f\<lparr>fi_newsletter_issue_id := Some issue_id, fi_newsletter_pending := True\<rparr>)) s))"

section \<open>Composition and editing\<close>

definition pending_find_dicts :: "news \<Rightarrow> find_dict list" where
  "pending_find_dicts s = map (\<lambda>(f, so). serialize_public_find f so)
     (newest_first (\<lambda>fs. fi_first_seen_at (fst fs))
       (filter (\<lambda>(f, so). fi_newsletter_pending f \<and> \<not> fi_dismissed f) (joined (nw_disc s))))"

definition composed_issue :: "news_env \<Rightarrow> int \<Rightarrow> bool \<Rightarrow> news \<Rightarrow> newsletter_issue" where
  "composed_issue e period_days skip s =
     (let now = ne_now e; period_start = now - days (max 1 period_days); find_dicts = pending_find_dicts s;
          label = next_display_label (nw_issues s);
          slug = the_slug (''issue-'' @ label @ ''-'' @ strf_day now) (map ni_slug (nw_issues s))
      in if skip
         then (new_issue (ne_issue_id e) label slug period_start now Skipped now)
                \<lparr>ni_notes := ''No pending finds at compose time; cycle skipped.''\<rparr>
         else (new_issue (ne_issue_id e) label slug period_start now AwaitingApproval now)
                \<lparr>ni_subject := default_subject e now (length find_dicts), ni_finds_json := find_dicts\<rparr>)"

text \<open>The commit is not retried: another session's key is an \<open>IntegrityError\<close>.\<close>

definition compose_pending_issue :: "news_env \<Rightarrow> int \<Rightarrow> bool \<Rightarrow> news \<Rightarrow> (newsletter_issue \<times> bool) result \<times> news" where
  "compose_pending_issue e period_days force s =
     (let skip = (pending_find_dicts s = [] \<and> \<not> force); x = composed_issue e period_days skip s;
          s1 = s\<lparr>nw_issues := ne_others e 0 (nw_issues s)\<rparr>
      in if issue_keys_unique (nw_issues s1 @ [x]) then (Inr (x, \<not> skip), add_issue x s1)
         else (Inl (Raised ''IntegrityError''), s1))"

definition update_editorial :: "news_env \<Rightarrow> string \<Rightarrow> string \<Rightarrow> string option \<Rightarrow> news \<Rightarrow> newsletter_issue result \<times> news" where
  "update_editorial e i editorial_markdown subject s =
     (case issue_by_id i s of
        None \<Rightarrow> (Inl (LookupError (''Newsletter issue not found: '' @ i)), s)
      | Some x \<Rightarrow>
          if \<not> (ni_status x = Draft \<or> ni_status x = AwaitingApproval)
          then (Inl (ValueError (''Cannot edit a '' @ status_name (ni_status x) @ '' issue'')), s)
          else let f = (\<lambda>x. x\<lparr>ni_editorial_markdown := take 20000 editorial_markdown,
                  ni_subject := (case subject of None \<Rightarrow> ni_subject x | Some t \<Rightarrow> take 200 (strip t)), ni_updated_at := ne_now e\<rparr>)
               in (Inr (f x), change_issue i f s))"

section \<open>Approval\<close>

definition DEFAULT_SCHEDULE_DELAY :: int where
  "DEFAULT_SCHEDULE_DELAY = 30 * 60 * 1000000"

text \<open>An \<open>UPDATE\<close> with a guard, and the row it is read back as.\<close>

definition guarded_update ::
  "string \<Rightarrow> (newsletter_issue \<Rightarrow> bool) \<Rightarrow> (newsletter_issue \<Rightarrow> newsletter_issue) \<Rightarrow> news \<Rightarrow> bool \<times> news" where
  "guarded_update i p f s =
     (list_ex (\<lambda>x. ni_id x = i \<and> p x) (nw_issues s), update_issues (\<lambda>x. ni_id x = i \<and> p x) f s)"

definition approve_and_schedule :: "news_env \<Rightarrow> string \<Rightarrow> string \<Rightarrow> utc option \<Rightarrow> news \<Rightarrow> newsletter_issue result \<times> news" where
  "approve_and_schedule e i approved_by scheduled s =
     (let now = ne_now e;
          send_at = (case scheduled of None \<Rightarrow> now + DEFAULT_SCHEDULE_DELAY
            | Some t \<Rightarrow> if t \<le> now then now + DEFAULT_SCHEDULE_DELAY else t);
          (affected, s') = guarded_update i (\<lambda>x. ni_status x = Draft \<or> ni_status x = AwaitingApproval)
            (\<lambda>x. x\<lparr>ni_status := Approved, ni_approved_by := str_or approved_by ''admin'', ni_approved_at := Some now,
                   ni_scheduled_send_at := Some send_at, ni_updated_at := now\<rparr>) s
      in case issue_by_id i s' of
           None \<Rightarrow> (Inl (LookupError (''Newsletter issue not found: '' @ i)), s')
         | Some x \<Rightarrow> if \<not> affected then (Inl (ValueError (''Cannot approve a '' @ status_name (ni_status x) @ '' issue'')), s')
                     else (Inr x, s'))"

definition opt_datetime_str :: "utc option \<Rightarrow> string" where
  "opt_datetime_str t = (case t of None \<Rightarrow> ''None'' | Some x \<Rightarrow> iso_clock '' '' x)"

definition cancellable :: "utc \<Rightarrow> newsletter_issue \<Rightarrow> bool" where
  "cancellable now x \<longleftrightarrow> ni_status x = Approved \<and> (case ni_scheduled_send_at x of None \<Rightarrow> False | Some t \<Rightarrow> t > now)"

definition cancel_scheduled_send :: "news_env \<Rightarrow> string \<Rightarrow> news \<Rightarrow> newsletter_issue result \<times> news" where
  "cancel_scheduled_send e i s =
     (let now = ne_now e;
          (affected, s') = guarded_update i (cancellable now)
            (\<lambda>x. x\<lparr>ni_status := AwaitingApproval, ni_scheduled_send_at := None, ni_updated_at := now\<rparr>) s
      in case issue_by_id i s' of
           None \<Rightarrow> (Inl (LookupError (''Newsletter issue not found: '' @ i)), s')
         | Some x \<Rightarrow> if \<not> affected
             then (Inl (ValueError (''Cannot cancel: status='' @ status_name (ni_status x) @ '', scheduled_send_at=''
                    @ opt_datetime_str (ni_scheduled_send_at x))), s')
             else (Inr x, s'))"

section \<open>Deletion and unpublishing\<close>

record delete_summary =
  dl_id :: string
  dl_display_label :: string
  dl_status :: issue_status
  dl_finds_reverted :: nat
  dl_deliveries_purged :: nat
  dl_deleted_by :: string

definition keeps_published_at :: "issue_status \<Rightarrow> bool" where
  "keeps_published_at st \<longleftrightarrow> st = Sent \<or> st = Sending"

definition set_deliveries :: "(newsletter_delivery list \<Rightarrow> newsletter_delivery list) \<Rightarrow> news \<Rightarrow> news" where
  "set_deliveries f s = s\<lparr>nw_site := (nw_site s)\<lparr>st_db := (st_db (nw_site s))\<lparr>sd_deliveries := f (sd_deliveries (st_db (nw_site s)))\<rparr>\<rparr>\<rparr>"

definition delete_issue :: "string \<Rightarrow> string \<Rightarrow> news \<Rightarrow> delete_summary result \<times> news" where
  "delete_issue i deleted_by s =
     (case issue_by_id i s of
        None \<Rightarrow> (Inl (LookupError (''Newsletter issue not found: '' @ i)), s)
      | Some x \<Rightarrow>
          let tagged = (\<lambda>f. fi_newsletter_issue_id f = Some i);
              detach = (\<lambda>f. f\<lparr>fi_newsletter_issue_id := None, fi_newsletter_pending := False,
                fi_published_in_newsletter_at := (if keeps_published_at (ni_status x) then fi_published_in_newsletter_at f else None)\<rparr>);
              s1 = set_finds (update_where tagged detach) s;
              s2 = set_deliveries (filter (\<lambda>d. nd_issue_id d \<noteq> i)) s1
          in (Inr \<lparr>dl_id = ni_id x, dl_display_label = ni_display_label x, dl_status = ni_status x,
                dl_finds_reverted = length (filter tagged (dd_finds (nw_disc s))),
                dl_deliveries_purged = length (filter (\<lambda>d. nd_issue_id d = i) (sd_deliveries (st_db (nw_site s)))),
                dl_deleted_by = deleted_by\<rparr>,
              s2\<lparr>nw_issues := filter (\<lambda>y. ni_id y \<noteq> i) (nw_issues s)\<rparr>))"

definition unpublish_issue :: "news_env \<Rightarrow> string \<Rightarrow> news \<Rightarrow> newsletter_issue result \<times> news" where
  "unpublish_issue e i s =
     (case issue_by_id i s of
        None \<Rightarrow> (Inl (LookupError (''Newsletter issue not found: '' @ i)), s)
      | Some x \<Rightarrow>
          let now = ne_now e in
          if ni_unpublished_at x \<noteq> None then (Inr x, s)
          else if ni_status x = Sent \<or> ni_status x = Sending
          then let f = (\<lambda>x. x\<lparr>ni_unpublished_at := Some now, ni_updated_at := now\<rparr>) in (Inr (f x), change_issue i f s)
          else if ni_status x = Approved
          then let f = (\<lambda>x. x\<lparr>ni_unpublished_at := Some now, ni_scheduled_send_at := None, ni_status := AwaitingApproval,
                              ni_updated_at := now\<rparr>) in (Inr (f x), change_issue i f s)
          else (Inl (ValueError (''Cannot unpublish a '' @ status_name (ni_status x) @ '' issue; only sent / sending / ''
                 @ ''approved issues can be unpublished. Delete the draft instead.'')), s))"

section \<open>The list of issues\<close>

definition listed :: "bool \<Rightarrow> bool \<Rightarrow> newsletter_issue \<Rightarrow> bool" where
  "listed include_unpublished public_only x \<longleftrightarrow>
     (include_unpublished \<or> ni_unpublished_at x = None) \<and> (public_only \<longrightarrow> ni_status x = Sent)"

definition list_issues :: "int \<Rightarrow> bool \<Rightarrow> bool \<Rightarrow> news \<Rightarrow> newsletter_issue list" where
  "list_issues limit include_unpublished public_only s =
     sql_limit (max 1 (min limit 500)) (newest_first ni_created_at (filter (listed include_unpublished public_only) (nw_issues s)))"

end
