(* ===== verification/NewsletterRender.thy ===== *)
theory NewsletterRender
  imports NewsletterState TargetSafety Markup
begin

text \<open>
  The renderers of \<open>core/newsletter.py\<close>: the HTML mail and preview, the plain text and
  the LinkedIn post of an issue, with the guards they are built on. A link is emitted
  only after \<open>safe_url\<close>, a text only after escaping; the subset of markdown is recognized
  in text that is escaped already.
\<close>

section \<open>Guards\<close>

text \<open>\<open>urlparse(url).netloc\<close>, when parsing does not raise.\<close>

definition url_netloc :: "string \<Rightarrow> string" where
  "url_netloc raw =
     (let (scheme, rest) = split_scheme (sanitize_url raw)
      in if starts_with ''//'' rest then takeWhile (\<lambda>c. c \<notin> {CHR ''/'', CHR ''?'', CHR ''#''}) (drop 2 rest) else [])"

definition safe_url :: "(string \<Rightarrow> bool option) \<Rightarrow> string \<Rightarrow> string" where
  "safe_url ip url =
     (if url = '''' then ''#''
      else case urlparse ip (strip url) of
          None \<Rightarrow> ''#''
        | Some p \<Rightarrow>
            if lower (up_scheme p) \<notin> {''http'', ''https''} then ''#''
            else if url_netloc (strip url) = '''' then ''#'' else strip url)"

text \<open>
  A value of a find, \<open>d.get(k)\<close>; \<open>str(v or "")\<close> of a value of its own, a text for all
  the keys the renderers read. What \<open>str\<close> gives for floats and containers is a parameter.
\<close>

record render_env =
  re_news :: news_env
  re_ip :: "string \<Rightarrow> bool option"
  re_repr :: "json \<Rightarrow> string"

definition find_get :: "find_dict \<Rightarrow> string \<Rightarrow> json" where
  "find_get d k = (case map_of d k of None \<Rightarrow> JNull | Some v \<Rightarrow> v)"

definition text_of :: "render_env \<Rightarrow> json \<Rightarrow> string" where
  "text_of r v = (if truthy v then json_str (re_repr r) v else '''')"

definition json_url :: "render_env \<Rightarrow> json \<Rightarrow> string" where
  "json_url r v = (case json_or v (JStr '''') of JStr s \<Rightarrow> safe_url (re_ip r) s | _ \<Rightarrow> ''#'')"

definition esc :: "render_env \<Rightarrow> json \<Rightarrow> string" where
  "esc r v = html_escape (text_of r v)"

section \<open>Markdown\<close>

text \<open>\<open>s.split("\n\n")\<close>.\<close>

fun split_blank :: "string \<Rightarrow> string list" where
  "split_blank (a # b # s) =
     (if a = CHR 0x0A \<and> b = CHR 0x0A then [] # split_blank s
      else case split_blank (b # s) of [] \<Rightarrow> [[a]] | w # ws \<Rightarrow> (a # w) # ws)"
| "split_blank s = [s]"

text \<open>
  \<open>re.sub\<close> of the three patterns, from the left: a link \<open>[label](http...)\<close>, bold between
  double stars, emphasis between single ones. Each gives the rest of the text after a match.
\<close>

definition match_link :: "string \<Rightarrow> (string \<times> string \<times> string) option" where
  "match_link s =
     (let label = takeWhile (\<lambda>c. c \<noteq> CHR '']'') (tl s); r = drop (Suc (length label)) s;
          u = takeWhile (\<lambda>c. \<not> is_space c \<and> c \<noteq> CHR '')'') (drop 2 r); rest = drop (2 + length u) r;
          scheme = (if starts_with ''https://'' u then 8 else if starts_with ''http://'' u then 7 else 0)
      in if s \<noteq> [] \<and> hd s = CHR ''['' \<and> label \<noteq> [] \<and> starts_with '']('' r \<and> scheme > 0 \<and> length u > scheme
            \<and> rest \<noteq> [] \<and> hd rest = CHR '')''
         then Some (label, u, tl rest) else None)"

definition match_bold :: "string \<Rightarrow> (string \<times> string) option" where
  "match_bold s =
     (let w = takeWhile (\<lambda>c. c \<noteq> CHR ''*'') (drop 2 s); r = drop (2 + length w) s
      in if starts_with ''**'' s \<and> w \<noteq> [] \<and> starts_with ''**'' r then Some (w, drop 2 r) else None)"

definition match_em :: "string \<Rightarrow> (string \<times> string) option" where
  "match_em s =
     (let w = takeWhile (\<lambda>c. c \<noteq> CHR ''*'') (drop 1 s); r = drop (1 + length w) s
      in if starts_with ''*'' s \<and> w \<noteq> [] \<and> starts_with ''*'' r then Some (w, drop 1 r) else None)"

definition link_html :: "render_env \<Rightarrow> string \<Rightarrow> string \<Rightarrow> string" where
  "link_html r label url = ''<a href=\"'' @ html_escape (safe_url (re_ip r) (html_unescape url)) @ ''\">'' @ label @ ''</a>''"

lemma match_link_shorter: "match_link s = Some (l, u, t) \<Longrightarrow> length t < length s"
  by (auto simp: match_link_def Let_def starts_with_def split: if_splits)

lemma match_bold_shorter: "match_bold s = Some (w, t) \<Longrightarrow> length t < length s"
  by (auto simp: match_bold_def Let_def split: if_splits) (cases s; auto simp: starts_with_def)

lemma match_em_shorter: "match_em s = Some (w, t) \<Longrightarrow> length t < length s"
  by (auto simp: match_em_def Let_def split: if_splits) (cases s; auto simp: starts_with_def)

function sub_links :: "render_env \<Rightarrow> string \<Rightarrow> string" where
  "sub_links r s = (case match_link s of
       Some (label, u, t) \<Rightarrow> link_html r label u @ sub_links r t
     | None \<Rightarrow> (case s of [] \<Rightarrow> [] | c # s' \<Rightarrow> c # sub_links r s'))"
  by pat_completeness auto
termination by (relation "measure (\<lambda>(r, s). length s)") (auto dest: match_link_shorter)

function sub_bold :: "string \<Rightarrow> string" where
  "sub_bold s = (case match_bold s of
       Some (w, t) \<Rightarrow> ''<strong>'' @ w @ ''</strong>'' @ sub_bold t
     | None \<Rightarrow> (case s of [] \<Rightarrow> [] | c # s' \<Rightarrow> c # sub_bold s'))"
  by pat_completeness auto
termination by (relation "measure length") (auto dest: match_bold_shorter)

function sub_em :: "string \<Rightarrow> string" where
  "sub_em s = (case match_em s of
       Some (w, t) \<Rightarrow> ''<em>'' @ w @ ''</em>'' @ sub_em t
     | None \<Rightarrow> (case s of [] \<Rightarrow> [] | c # s' \<Rightarrow> c # sub_em s'))"
  by pat_completeness auto
termination by (relation "measure length") (auto dest: match_em_shorter)

declare sub_links.simps [simp del] sub_bold.simps [simp del] sub_em.simps [simp del]

definition markdown_to_html_paragraphs :: "render_env \<Rightarrow> string \<Rightarrow> string" where
  "markdown_to_html_paragraphs r text =
     (if text = '''' then ''''
      else join nl (map (\<lambda>p. ''<p>'' @ replace_char (CHR 0x0A) ''<br/>'' (sub_em (sub_bold (sub_links r p))) @ ''</p>'')
             (filter (\<lambda>p. p \<noteq> '''') (map strip (split_blank (html_escape text))))))"

section \<open>HTML\<close>

definition card_html :: "render_env \<Rightarrow> find_dict \<Rightarrow> string" where
  "card_html r d =
     (let title = esc r (json_or (find_get d ''display_title'') (json_or (find_get d ''title'') (JStr ''Update'')));
          url = html_escape (json_url r (find_get d ''url''));
          source = esc r (json_or (find_get d ''display_source_name'') (json_or (find_get d ''source_name'') (JStr '''')));
          summary = esc r (json_or (find_get d ''summary_text'') (JStr ''''));
          topic = esc r (json_or (find_get d ''review_topic'') (JStr ''''));
          meta_tail = (if topic \<noteq> '''' then '' &middot; '' @ topic else '''')
      in
     ''<tr><td style=\"padding:0 0 20px\"><div style=\"border:1px solid '' @
     ''#d4bf9133;border-radius:14px;padding:16px;background:#fafaf7\"><p style=\"margin:0 0 '' @
     ''6px;font-size:11px;letter-spacing:.18em;text-transform:uppercase;color:#7a6440\">'' @ source @
     meta_tail @ ''</p><h3 style=\"margin:0 0 8px;font-size:18px;font-weight:600;color:#242128\"><a href=\"'' @
     url @ ''\" style=\"color:#242128;text-decoration:none\">'' @ title @
     ''</a></h3><p style=\"margin:0 0 10px;font-size:14px;line-height:1.55;color:#3f3a47\">'' @ summary @
     ''</p><a href=\"'' @ url @
     ''\" style=\"font-size:13px;color:#8a7126;text-decoration:underline\">Open source</a></div></td></tr>'')"

fun drop_sub :: "string \<Rightarrow> string \<Rightarrow> string" where
  "drop_sub sub [] = []"
| "drop_sub sub (c # s) = (if sub \<noteq> [] \<and> starts_with sub (c # s) then drop_sub sub (drop (length sub - 1) s) else c # drop_sub sub s)"

definition render_issue_html :: "render_env \<Rightarrow> newsletter_issue \<Rightarrow> string \<Rightarrow> string" where
  "render_issue_html r x unsub =
     (let e = re_news r;
          editorial_html = markdown_to_html_paragraphs r (ni_editorial_markdown x);
          safe_unsub = html_escape (safe_url (re_ip r) unsub);
          safe_subject = html_escape (ni_subject x);
          cards = concat (map (card_html r) (ni_finds_json x));
          cards_html = (if cards \<noteq> '''' then cards
            else ''<tr><td style=\"padding:16px;color:#888\">No included items.</td></tr>'');
          safe_site = html_escape (safe_url (re_ip r) (news_site_url e));
          site_host = html_escape (rstrip_slash (drop_sub ''http://'' (drop_sub ''https://'' (safe_url (re_ip r) (news_site_url e)))));
          safe_label = html_escape (newsletter_label e)
      in
     ''<!doctype html>'' @ nl @ ''<html><head><meta charset=\"utf-8\"/><title>'' @ safe_subject @
     ''</title></head>'' @ nl @
     ''<body style=\"margin:0;padding:0;background:#f0ece2;font-family:-apple-system,'' @
     ''BlinkMacSystemFont,'Segoe UI',Inter,sans-serif\">'' @
     nl @ ''<table role=\"presentation\" width=\"100%\" cellpadding=\"0\" cellspacing=\"0\" '' @
     ''style=\"background:#f0ece2;padding:24px 0\">'' @ nl @ ''<tr><td align=\"center\">'' @ nl @
     ''<table role=\"presentation\" width=\"600\" cellpadding=\"0\" cellspacing=\"0\" '' @
     ''style=\"max-width:600px;background:#fffdf7;border-radius:16px;border:1px solid '' @
     ''#d4bf9144;padding:32px\">'' @ nl @ ''<tr><td>'' @ nl @ ''<p style=\"margin:0 0 '' @
     ''6px;font-size:11px;letter-spacing:.22em;text-transform:uppercase;color:#7a6440\">'' @ safe_label @
     ''</p>'' @ nl @ ''<h1 style=\"margin:0 0 8px;font-size:26px;color:#242128\">'' @ safe_subject @ ''</h1>'' @
     nl @ ''<p style=\"margin:0 0 18px;font-size:13px;color:#7a6440\">'' @ strf_bd (ni_period_start x) @
     '' - '' @ strf_bdy (ni_period_end x) @ ''</p>'' @ nl @ editorial_html @ nl @
     ''<table role=\"presentation\" width=\"100%\" cellpadding=\"0\" cellspacing=\"0\" style=\"margin-top:12px\">'' @
     nl @ cards_html @ nl @ ''</table>'' @ nl @
     ''<hr style=\"border:none;border-top:1px solid #d4bf9133;margin:24px 0 12px\"/>'' @ nl @
     ''<p style=\"margin:0;font-size:12px;color:#7a6440\">'' @ nl @ ''Sent from <a href=\"'' @ safe_site @
     ''\" style=\"color:#7a6440\">'' @ site_host @ ''</a> &middot;'' @ nl @ ''<a href=\"'' @ safe_unsub @
     ''\" style=\"color:#7a6440\">Unsubscribe</a>'' @ nl @ ''</p>'' @ nl @ ''</td></tr></table>'' @ nl @
     ''</td></tr></table>'' @ nl @ ''</body></html>'')"

section \<open>Plain text and LinkedIn\<close>

definition plain_title :: "render_env \<Rightarrow> find_dict \<Rightarrow> string" where
  "plain_title r d = json_str (re_repr r) (json_or (find_get d ''display_title'') (json_or (find_get d ''title'') (JStr ''Update'')))"

definition plain_source_label :: "render_env \<Rightarrow> find_dict \<Rightarrow> string" where
  "plain_source_label r d =
     json_str (re_repr r) (json_or (find_get d ''display_source_name'') (json_or (find_get d ''source_name'') (JStr '''')))"

definition plain_url :: "render_env \<Rightarrow> find_dict \<Rightarrow> string" where
  "plain_url r d = (if truthy (json_or (find_get d ''url'') (JStr '''')) then json_url r (find_get d ''url'') else '''')"

definition plain_find_lines :: "render_env \<Rightarrow> find_dict \<Rightarrow> string list" where
  "plain_find_lines r d =
     (let source = plain_source_label r d; url = plain_url r d;
          summary = json_str (re_repr r) (json_or (find_get d ''summary_text'') (JStr ''''))
      in [''- '' @ plain_title r d]
         @ (if source \<noteq> '''' then [''  Source: '' @ source] else [])
         @ (if summary \<noteq> '''' then [''  '' @ summary] else [])
         @ (if url \<noteq> '''' \<and> url \<noteq> ''#'' then [''  '' @ url] else []) @ [''''])"

definition render_issue_plain :: "render_env \<Rightarrow> newsletter_issue \<Rightarrow> string \<Rightarrow> string" where
  "render_issue_plain r x unsub = join nl
     ([ni_subject x, '''']
      @ (if strip (ni_editorial_markdown x) \<noteq> '''' then [strip (ni_editorial_markdown x), ''''] else [])
      @ concat (map (plain_find_lines r) (ni_finds_json x))
      @ [''--'', organization_label (re_news r) @ '' / '' @ safe_url (re_ip r) (news_site_url (re_news r)),
         ''Unsubscribe: '' @ safe_url (re_ip r) unsub])"

definition linkedin_find_lines :: "render_env \<Rightarrow> find_dict \<Rightarrow> string list" where
  "linkedin_find_lines r d =
     (let source = plain_source_label r d; url = plain_url r d; prefix = (if source \<noteq> '''' then source @ '': '' else '''')
      in [''- '' @ prefix @ plain_title r d] @ (if url \<noteq> '''' \<and> url \<noteq> ''#'' then [''  '' @ url] else []))"

definition render_issue_linkedin :: "render_env \<Rightarrow> newsletter_issue \<Rightarrow> string" where
  "render_issue_linkedin r x = join nl
     ((if strip (ni_editorial_markdown x) \<noteq> '''' then [strip (ni_editorial_markdown x), ''''] else [])
      @ [newsletter_label (re_news r) @ '' - '' @ strf_bdy (ni_period_end x), '''']
      @ concat (map (linkedin_find_lines r) (ni_finds_json x))
      @ ['''', ''Full archive: '' @ news_site_url (re_news r) @ ''/library/latest''])"

end
