(* ===== verification/NewsletterDispatch.thy ===== *)
theory NewsletterDispatch
  imports NewsletterIssues NewsletterRender
begin

text \<open>
  Sending (\<open>core/newsletter.py\<close>, from \<open>_dispatch_issue\<close> on): the transition of an approved
  issue to \<open>sending\<close>, the snapshot of its finds, its number, the mails, the web and
  LinkedIn records and the transition to \<open>sent\<close>, with every commit a block that may fail;
  the dispatcher of due issues and the immediate send. The views of the admin panel are
  the serialized issue and its detail with three previews.
  The last part is the daily tick.
\<close>

section \<open>The number of an issue\<close>

definition add_note :: "string \<Rightarrow> newsletter_issue \<Rightarrow> newsletter_issue" where
  "add_note note x = x\<lparr>ni_notes := strip (ni_notes x @ note)\<rparr>"

definition back_to_approval :: "news_env \<Rightarrow> string \<Rightarrow> newsletter_issue \<Rightarrow> newsletter_issue" where
  "back_to_approval e note x =
     add_note note (x\<lparr>ni_status := AwaitingApproval, ni_scheduled_send_at := None, ni_updated_at := ne_now e\<rparr>)"

definition numbered :: "news_env \<Rightarrow> int \<Rightarrow> newsletter_issue \<Rightarrow> newsletter_issue" where
  "numbered e n x = x\<lparr>ni_ship_number := Some n, ni_display_label := str_of_int n, ni_updated_at := ne_now e\<rparr>"

text \<open>
  A commit that breaks a unique constraint is retried, any other failure is not. The
  answer is \<open>Inl\<close> when the number could not be assigned.
\<close>

fun ship_loop :: "news_env \<Rightarrow> string \<Rightarrow> nat \<Rightarrow> nat \<Rightarrow> news \<Rightarrow> unit result option \<times> news" where
  "ship_loop e i k 0 s = (None, s)"
| "ship_loop e i k (Suc n) s =
     (case ne_io e i ShipCommit of
        Some exc \<Rightarrow> (Some (Inl (Raised exc)), s)
      | None \<Rightarrow>
          let ship = next_ship_number (nw_issues s);
              s1 = s\<lparr>nw_issues := ne_others e k (nw_issues s)\<rparr>;
              s2 = change_issue i (numbered e ship) s1
          in if issue_keys_unique (nw_issues s2) then (Some (Inr ()), s2) else ship_loop e i (Suc k) n s1)"

definition assign_ship_number_with_retry :: "news_env \<Rightarrow> string \<Rightarrow> news \<Rightarrow> unit result \<times> news" where
  "assign_ship_number_with_retry e i s =
     (case ship_loop e i 0 3 s of
        (Some r, s1) \<Rightarrow> (r, s1)
      | (None, s1) \<Rightarrow>
          (Inl (Raised (''Could not assign newsletter ship number for issue '' @ i)),
           if ne_io e i RevertCommit = None
           then change_issue i (back_to_approval e (nl @ ''Ship-number assignment failed; operator review required.'')) s1 else s1))"

section \<open>The send loop\<close>

definition delivery_row :: "news_env \<Rightarrow> string \<Rightarrow> string \<Rightarrow> string \<Rightarrow> string \<Rightarrow> utc option \<Rightarrow> string \<Rightarrow> newsletter_delivery" where
  "delivery_row e i sid channel status sent_at err =
     \<lparr>nd_id = ne_delivery_id e channel sid, nd_issue_id = i, nd_subscriber_id = sid, nd_channel = channel,
      nd_status = status, nd_sent_at = sent_at, nd_error = err, nd_created_at = ne_now e\<rparr>"

definition send_one :: "render_env \<Rightarrow> newsletter_issue \<Rightarrow> subscriber \<Rightarrow> mail list \<Rightarrow> (string + string) \<times> mail list" where
  "send_one r x sub outbox =
     (let e = re_news r in
      send_internal_email (ne_site e) (str_or (ni_subject x) (newsletter_label e))
        (render_issue_html r x (news_unsubscribe_url e (sb_unsubscribe_token sub))) (Some (sb_email sub)) None
        (Some (getenv_or (ne_env e) ''MS365_SEND_AS'' ''no-reply@example.com'')) outbox)"

record send_state =
  ss_outbox :: "mail list"
  ss_rows :: "newsletter_delivery list"
  ss_sent :: "(string \<times> string) list"
  ss_failed :: nat

definition send_step :: "render_env \<Rightarrow> newsletter_issue \<Rightarrow> subscriber \<Rightarrow> send_state \<Rightarrow> send_state" where
  "send_step r x sub a =
     (let e = re_news r; (answer, ob) = send_one r x sub (ss_outbox a);
          row = (\<lambda>status stamp err. delivery_row e (ni_id x) (sb_id sub) ''email'' status stamp err)
      in case answer of
           Inl msg \<Rightarrow> a\<lparr>ss_outbox := ob, ss_rows := ss_rows a @ [row ''failed'' None (take 512 msg)], ss_failed := ss_failed a + 1\<rparr>
         | Inr status \<Rightarrow>
             if status = ''sent''
             then a\<lparr>ss_outbox := ob, ss_rows := ss_rows a @ [row ''sent'' (Some (ne_now e)) ''''],
                    ss_sent := ss_sent a @ [(ni_id x, sb_id sub)]\<rparr>
             else a\<lparr>ss_outbox := ob, ss_rows := ss_rows a @ [row status None '''']\<rparr>)"

definition send_all :: "render_env \<Rightarrow> newsletter_issue \<Rightarrow> subscriber list \<Rightarrow> mail list \<Rightarrow> send_state" where
  "send_all r x subs outbox =
     fold (send_step r x) subs \<lparr>ss_outbox = outbox, ss_rows = [], ss_sent = [], ss_failed = 0\<rparr>"

section \<open>Dispatch of one issue\<close>

definition capped_notes :: "string \<Rightarrow> string" where
  "capped_notes appended =
     (if length appended > 4000
      then ''...[earlier notes truncated]...'' @ nl @ drop (length appended - 3900) appended else appended)"

definition dispatch_note :: "news_env \<Rightarrow> nat \<Rightarrow> nat \<Rightarrow> string" where
  "dispatch_note e sent failed = nl @ ''['' @ isoformat (ne_now e) @ ''] sent='' @ digits sent @ '' failed='' @ digits failed"

definition sent_issue :: "news_env \<Rightarrow> nat \<Rightarrow> nat \<Rightarrow> newsletter_issue \<Rightarrow> newsletter_issue" where
  "sent_issue e sent failed x =
     x\<lparr>ni_status := Sent, ni_sent_at := Some (ne_now e), ni_updated_at := ne_now e,
       ni_notes := capped_notes (strip (ni_notes x @ dispatch_note e sent failed))\<rparr>"

definition published_find :: "news_env \<Rightarrow> discovery_find \<Rightarrow> discovery_find" where
  "published_find e f = f\<lparr>fi_newsletter_pending := False, fi_published_in_newsletter_at := Some (ne_now e)\<rparr>"

definition snapshot_ids :: "find_dict list \<Rightarrow> string list" where
  "snapshot_ids ds = List.map_filter (\<lambda>d. case map_of d ''id'' of Some (JStr i) \<Rightarrow> if i = '''' then None else Some i | _ \<Rightarrow> None) ds"

definition stamp_finds :: "news_env \<Rightarrow> newsletter_issue \<Rightarrow> news \<Rightarrow> news" where
  "stamp_finds e x s =
     (let tagged = (\<lambda>f. fi_newsletter_issue_id f = Some (ni_id x))
      in if list_ex tagged (dd_finds (nw_disc s)) then set_finds (update_where tagged (published_find e)) s
         else set_finds (update_where (\<lambda>f. fi_id f \<in> set (snapshot_ids (ni_finds_json x))) (published_find e)) s)"

text \<open>
  What stands once the mails are out. The LinkedIn post is recorded in \<open>nw_posts\<close> when
  the service took it, whether or not the last commit holds.
\<close>

definition finish_dispatch :: "render_env \<Rightarrow> newsletter_issue \<Rightarrow> nat \<Rightarrow> nat \<Rightarrow> news \<Rightarrow> newsletter_issue result \<times> news" where
  "finish_dispatch r x sent failed s =
     (let e = re_news r; i = ni_id x;
          (status, why) = post_to_linkedin e (render_issue_linkedin r x);
          s1 = s\<lparr>nw_posts := nw_posts s @ (if status = ''sent'' then [i] else [])\<rparr>
      in case ne_io e i FinalCommit of
           Some exc \<Rightarrow> (Inl (Raised exc), s1)
         | None \<Rightarrow>
             let rows = [delivery_row e i '''' ''web'' ''sent'' (Some (ne_now e)) '''',
                    delivery_row e i '''' ''linkedin'' status (if status = ''sent'' then Some (ne_now e) else None)
                      (if status = ''failed'' then why else '''')];
                 s2 = set_deliveries (\<lambda>ds. ds @ rows) s1;
                 s3 = stamp_finds e x s2
             in (Inr (sent_issue e sent failed x), change_issue i (sent_issue e sent failed) s3))"

definition send_issue :: "render_env \<Rightarrow> string \<Rightarrow> news \<Rightarrow> newsletter_issue result \<times> news" where
  "send_issue r i s =
     (case issue_by_id i s of
        None \<Rightarrow> (Inl (Raised ''NoResultFound''), s)
      | Some x \<Rightarrow>
          let e = re_news r;
              a = send_all r x (active_subscribers None (st_db (nw_site s))) (st_outbox (nw_site s));
              s1 = s\<lparr>nw_site := (nw_site s)\<lparr>st_outbox := ss_outbox a\<rparr>, nw_sent := nw_sent s @ ss_sent a\<rparr>
          in case ne_io e i SendCommit of
               Some exc \<Rightarrow> (Inl (Raised exc), s1)
             | None \<Rightarrow> finish_dispatch r x (length (ss_sent a)) (ss_failed a) (set_deliveries (\<lambda>ds. ds @ ss_rows a) s1))"

definition halt_dispatch :: "news_env \<Rightarrow> string \<Rightarrow> news \<Rightarrow> news" where
  "halt_dispatch e i s =
     (case issue_by_id i s of
        None \<Rightarrow> s
      | Some x \<Rightarrow>
          if ni_status x = Sending \<and> ne_io e i HaltCommit = None
          then change_issue i (back_to_approval e (nl @ ''Dispatch halted before external sends; operator review required.'')) s
          else s)"

definition number_and_send :: "render_env \<Rightarrow> string \<Rightarrow> news \<Rightarrow> newsletter_issue result \<times> news" where
  "number_and_send r i s =
     (case assign_ship_number_with_retry (re_news r) i s of
        (Inl err, s1) \<Rightarrow> (Inl err, halt_dispatch (re_news r) i s1)
      | (Inr _, s1) \<Rightarrow> send_issue r i s1)"

text \<open>\<open>json.loads\<close> of the dump: the snapshot is the list of dictionaries itself.\<close>

definition dispatch_issue :: "render_env \<Rightarrow> string \<Rightarrow> news \<Rightarrow> newsletter_issue result \<times> news" where
  "dispatch_issue r i s =
     (let e = re_news r in
      case ne_io e i StatusCommit of
        Some exc \<Rightarrow> (Inl (Raised exc), s)
      | None \<Rightarrow>
          let (affected, s1) = guarded_update i (\<lambda>x. ni_status x = Approved)
                (\<lambda>x. x\<lparr>ni_status := Sending, ni_updated_at := ne_now e\<rparr>) s
          in if \<not> affected
             then (case issue_by_id i s1 of
                     None \<Rightarrow> (Inl (LookupError (''Newsletter issue vanished: '' @ i)), s1)
                   | Some x \<Rightarrow> (Inr x, s1))
             else let live = live_finds_for_issue i s1 in
               if live = [] then number_and_send r i s1
               else case ne_io e i SnapshotCommit of
                   Some exc \<Rightarrow> (Inl (Raised exc), s1)
                 | None \<Rightarrow> number_and_send r i (change_issue i (\<lambda>x. x\<lparr>ni_finds_json := live\<rparr>) s1))"

section \<open>The dispatcher\<close>

definition due :: "utc \<Rightarrow> newsletter_issue \<Rightarrow> bool" where
  "due now x \<longleftrightarrow> ni_status x = Approved \<and> (case ni_scheduled_send_at x of None \<Rightarrow> False | Some t \<Rightarrow> t \<le> now)"

fun dispatch_each :: "render_env \<Rightarrow> string list \<Rightarrow> nat \<times> nat \<times> news \<Rightarrow> nat \<times> nat \<times> news" where
  "dispatch_each r [] a = a"
| "dispatch_each r (i # is) (dispatched, failed, s) =
     (case dispatch_issue r i s of
        (Inl err, s1) \<Rightarrow> dispatch_each r is (dispatched, failed + 1, s1)
      | (Inr x, s1) \<Rightarrow> dispatch_each r is (dispatched + 1, failed, s1))"

definition dispatch_scheduled_issues :: "render_env \<Rightarrow> news \<Rightarrow> nat \<times> nat \<times> news" where
  "dispatch_scheduled_issues r s =
     dispatch_each r (map ni_id (filter (due (ne_now (re_news r))) (nw_issues s))) (0, 0, s)"

definition approve_and_distribute :: "render_env \<Rightarrow> string \<Rightarrow> string \<Rightarrow> news \<Rightarrow> newsletter_issue result \<times> news" where
  "approve_and_distribute r i approved_by s =
     (let e = re_news r; immediate = ne_now e - 1000000 in
      case approve_and_schedule e i approved_by (Some immediate) s of
        (Inl err, s1) \<Rightarrow> (Inl err, s1)
      | (Inr _, s1) \<Rightarrow> dispatch_issue r i (change_issue i (\<lambda>x. x\<lparr>ni_scheduled_send_at := Some immediate\<rparr>) s1))"

section \<open>Views of the admin panel\<close>

definition json_opt_int :: "int option \<Rightarrow> json" where
  "json_opt_int n = (case n of None \<Rightarrow> JNull | Some k \<Rightarrow> JInt k)"

definition serialize_issue :: "newsletter_issue \<Rightarrow> find_dict" where
  "serialize_issue x =
     [(''id'', JStr (ni_id x)), (''display_label'', JStr (ni_display_label x)), (''ship_number'', json_opt_int (ni_ship_number x)),
      (''slug'', JStr (ni_slug x)), (''subject'', JStr (ni_subject x)), (''status'', JStr (status_name (ni_status x))),
      (''period_start'', JStr (row_isoformat (ni_period_start x))), (''period_end'', JStr (row_isoformat (ni_period_end x))),
      (''approved_by'', JStr (ni_approved_by x)), (''approved_at'', json_time (ni_approved_at x)),
      (''target_send_at'', json_time (ni_target_send_at x)),
      (''approval_email_sent_at'', json_time (ni_approval_email_sent_at x)),
      (''scheduled_send_at'', json_time (ni_scheduled_send_at x)), (''sent_at'', json_time (ni_sent_at x)),
      (''unpublished_at'', json_time (ni_unpublished_at x)), (''created_at'', JStr (row_isoformat (ni_created_at x))),
      (''updated_at'', JStr (row_isoformat (ni_updated_at x))), (''notes'', JStr (ni_notes x)),
      (''find_count'', JInt (int (length (ni_finds_json x))))]"

record issue_detail =
  id_issue :: find_dict
  id_finds :: "find_dict list"
  id_find_count :: int
  id_editorial_markdown :: string
  id_html_preview :: string
  id_plain_preview :: string
  id_linkedin_post :: string

definition preview_issue_with_finds_json :: "newsletter_issue \<Rightarrow> find_dict list \<Rightarrow> newsletter_issue" where
  "preview_issue_with_finds_json x finds = x\<lparr>ni_finds_json := finds\<rparr>"

definition get_issue_detail :: "render_env \<Rightarrow> string \<Rightarrow> news \<Rightarrow> issue_detail option" where
  "get_issue_detail r i s =
     (case issue_by_id i s of
        None \<Rightarrow> None
      | Some x \<Rightarrow>
          let live = live_finds_for_issue (ni_id x) s;
              finds = (if open_status (ni_status x) \<and> \<not> (live = [] \<and> ni_finds_json x \<noteq> []) then live else ni_finds_json x);
              unsub = news_unsubscribe_url (re_news r) ''preview''
          in Some \<lparr>id_issue = serialize_issue x, id_finds = finds, id_find_count = int (length finds),
               id_editorial_markdown = ni_editorial_markdown x,
               id_html_preview = render_issue_html r (preview_issue_with_finds_json x finds) unsub,
               id_plain_preview = render_issue_plain r x unsub, id_linkedin_post = render_issue_linkedin r x\<rparr>)"

text \<open>
  The daily tick of \<open>core/newsletter.py\<close> (\<open>run_scheduled_cycle\<close>): reminders for drafts that
  are due within a day, each with a signed approval link, and a new draft filled with the
  eligible finds when none is open and the cycle has elapsed.
\<close>

section \<open>The approval mail\<close>

definition issue_label_of :: "newsletter_issue \<Rightarrow> string" where
  "issue_label_of x = (if ni_display_label x \<noteq> '''' then ''Issue '' @ ni_display_label x else ni_slug x)"

definition approval_body :: "string \<Rightarrow> string \<Rightarrow> newsletter_issue \<Rightarrow> string" where
  "approval_body review_link approve_link x =
     ''<p>'' @ html_escape_text (issue_label_of x) @ '' is ready for review.</p>'' @
     ''<p><strong>Subject:</strong> '' @ html_escape_text (str_or (ni_subject x) (ni_slug x)) @ ''</p>'' @
     ''<p><strong>Target send:</strong> ''
       @ html_escape_text (case ni_target_send_at x of None \<Rightarrow> ''TBD'' | Some t \<Rightarrow> strf_target t) @ ''</p>'' @
     ''<p><strong>Cycle window:</strong> '' @ strf_bd (ni_period_start x) @ '' - '' @ strf_bdy (ni_period_end x) @ ''</p>'' @
     ''<p><strong>Find count:</strong> '' @ digits (length (ni_finds_json x)) @ ''</p>'' @
     ''<p style=\"margin-top:24px\">'' @
     ''<a href=\"'' @ html_escape review_link @ ''\" '' @
     ''style=\"display:inline-block;padding:10px 16px;background:#D4BF91;color:#242128;'' @
     ''text-decoration:none;border-radius:8px;font-weight:600\">Review &amp; edit</a>'' @
     ''&nbsp;&nbsp;'' @
     ''<a href=\"'' @ html_escape approve_link @ ''\" '' @
     ''style=\"display:inline-block;padding:10px 16px;border:1px solid #D4BF91;'' @
     ''color:#D4BF91;text-decoration:none;border-radius:8px;font-weight:600\">'' @
     ''Approve with default 30-min delay</a>'' @
     ''</p>'' @
     ''<p style=\"color:#666;font-size:13px\">The one-click approval schedules the send '' @
     ''for 30 minutes from now so you can still pull it back via '' @
     ''<a href=\"'' @ html_escape review_link @ ''\">/admin/newsletter</a> '' @
     ''if you change your mind. The token in the link is signed and expires in 7 days.</p>'' @
     ''<p style=\"color:#666;font-size:13px\">If you do nothing, the draft will continue to wait. '' @
     ''The next scheduler pass will not auto-compose another draft until this one is approved or rejected.</p>''"

definition approval_recipients :: "environ \<Rightarrow> string list" where
  "approval_recipients env = filter (\<lambda>a. a \<noteq> '''') (map strip (split_on (CHR '','') (getenv_or env ''NEWSLETTER_APPROVAL_TO'' '''')))"

fun send_each :: "news_env \<Rightarrow> string \<Rightarrow> string \<Rightarrow> string list \<Rightarrow> mail list \<Rightarrow> string list \<times> mail list" where
  "send_each e subject body [] outbox = ([], outbox)"
| "send_each e subject body (a # as) outbox =
     (let (answer, ob) = send_internal_email (ne_site e) subject body (Some a) None None outbox;
          status = (case answer of Inl msg \<Rightarrow> ''failed:'' @ ne_exc_class e msg | Inr st \<Rightarrow> st);
          (rest, ob') = send_each e subject body as ob
      in (status # rest, ob'))"

definition overall_status :: "string list \<Rightarrow> string" where
  "overall_status statuses =
     (if list_all (\<lambda>s. s = ''sent'') statuses then ''sent''
      else if list_ex (\<lambda>s. s = ''sent'') statuses then ''partial''
      else case statuses of [] \<Rightarrow> ''skipped_no_recipient'' | s # _ \<Rightarrow> s)"

definition send_approval_notification :: "news_env \<Rightarrow> newsletter_issue \<Rightarrow> mail list \<Rightarrow> string \<times> mail list" where
  "send_approval_notification e x outbox =
     (let recipients = approval_recipients (ne_env e); site = news_site_url e;
          review_link = site @ ''/admin/newsletter'';
          token = make_approval_token (ne_hmac e) (ne_env e) (ne_now e) (ni_id x) APPROVAL_TOKEN_TTL;
          approve_link = site @ ''/admin/api/newsletter/approve-via-link?token='' @ token;
          subject = issue_label_of x @ '' awaiting approval: '' @ str_or (ni_subject x) (ni_slug x);
          (statuses, ob) = send_each e subject (approval_body review_link approve_link x) recipients outbox
      in if recipients = [] then (''skipped_no_recipient'', outbox) else (overall_status statuses, ob))"

section \<open>The tick\<close>

record cycle_summary =
  cy_reminders_sent :: nat
  cy_drafts_created :: nat
  cy_draft_skipped_reason :: string
  cy_upcoming_issue_id :: "string option"
  cy_days_since_last :: "rat option"
  cy_new_issue :: "newsletter_issue option"
  cy_auto_tagged_finds :: nat

definition empty_summary :: cycle_summary where
  "empty_summary = \<lparr>cy_reminders_sent = 0, cy_drafts_created = 0, cy_draft_skipped_reason = '''', cy_upcoming_issue_id = None,
     cy_days_since_last = None, cy_new_issue = None, cy_auto_tagged_finds = 0\<rparr>"

definition CYCLE_DAYS :: int where
  "CYCLE_DAYS = 10"

definition needs_reminder :: "utc \<Rightarrow> newsletter_issue \<Rightarrow> bool" where
  "needs_reminder now x \<longleftrightarrow> ni_status x = Draft \<and> ni_approval_email_sent_at x = None
     \<and> (case ni_target_send_at x of None \<Rightarrow> False | Some t \<Rightarrow> t \<le> now + hours 24)"

definition reminded :: "news_env \<Rightarrow> string \<Rightarrow> newsletter_issue \<Rightarrow> newsletter_issue" where
  "reminded e status x =
     add_note (nl @ ''['' @ isoformat (ne_now e) @ ''] approval reminder email status='' @ status)
       (x\<lparr>ni_approval_email_sent_at := Some (ne_now e)\<rparr>)"

text \<open>A reminder changes the row in the session and mails at once.\<close>

definition remind :: "news_env \<Rightarrow> newsletter_issue \<Rightarrow> news \<Rightarrow> news" where
  "remind e x s =
     (let (status, ob) = send_approval_notification e x (st_outbox (nw_site s))
      in change_issue (ni_id x) (reminded e status) (s\<lparr>nw_site := (nw_site s)\<lparr>st_outbox := ob\<rparr>\<rparr>))"

text \<open>The reminders of a tick are one transaction: when its commit fails, the mails are out but no row says so.\<close>

definition reminder_pass :: "news_env \<Rightarrow> news \<Rightarrow> nat result \<times> news" where
  "reminder_pass e s =
     (let candidates = filter (needs_reminder (ne_now e)) (nw_issues s);
          s1 = fold (remind e) candidates s
      in if candidates = [] then (Inr 0, s)
         else case ne_io e '''' ReminderCommit of
             Some exc \<Rightarrow> (Inl (Raised exc), s\<lparr>nw_site := nw_site s1\<rparr>)
           | None \<Rightarrow> (Inr (length candidates), s1))"

definition upcoming_issue :: "news \<Rightarrow> newsletter_issue option" where
  "upcoming_issue s = List.find (\<lambda>x. ni_status x = Draft \<or> ni_status x = AwaitingApproval) (nw_issues s)"

definition last_cycle :: "news \<Rightarrow> newsletter_issue option" where
  "last_cycle s = (case desc_nulls_last ni_sent_at (filter (\<lambda>x. ni_status x = Sent \<or> ni_status x = Skipped) (nw_issues s)) of
     [] \<Rightarrow> None | x # _ \<Rightarrow> Some x)"

definition days_between :: "utc \<Rightarrow> utc \<Rightarrow> rat" where
  "days_between a b = of_int (b - a) / of_int day_us"

definition pace :: "news_env \<Rightarrow> cycle_summary \<Rightarrow> news \<Rightarrow> cycle_summary result \<times> news" where
  "pace e c s =
     (case create_empty_issue e None '''' '''' s of
        (Inl err, s1) \<Rightarrow> (Inl err, s1)
      | (Inr x, s1) \<Rightarrow>
          let (tagged, s2) = auto_populate_draft e (ni_id x) 10 s1;
              c1 = c\<lparr>cy_drafts_created := 1, cy_new_issue := Some x, cy_auto_tagged_finds := tagged\<rparr>
          in case ni_target_send_at x of
               None \<Rightarrow> (Inr c1, s2)
             | Some t \<Rightarrow>
                 if t \<le> ne_now e + hours 24
                 then let s3 = remind e x s2 in
                   case ne_io e (ni_id x) ReminderCommit of
                     Some exc \<Rightarrow> (Inr (c1\<lparr>cy_draft_skipped_reason := ''reminder_error:'' @ exc\<rparr>), s2\<lparr>nw_site := nw_site s3\<rparr>)
                   | None \<Rightarrow> (Inr (c1\<lparr>cy_reminders_sent := cy_reminders_sent c1 + 1\<rparr>), s3)
                 else (Inr c1, s2))"

definition run_scheduled_cycle :: "news_env \<Rightarrow> news \<Rightarrow> cycle_summary result \<times> news" where
  "run_scheduled_cycle e s =
     (case reminder_pass e s of
        (Inl err, s1) \<Rightarrow> (Inl err, s1)
      | (Inr n, s1) \<Rightarrow>
          let c = empty_summary\<lparr>cy_reminders_sent := n\<rparr> in
          case upcoming_issue s1 of
            Some x \<Rightarrow> (Inr (c\<lparr>cy_draft_skipped_reason := ''upcoming_issue_exists'', cy_upcoming_issue_id := Some (ni_id x)\<rparr>), s1)
          | None \<Rightarrow>
              let since = map_option (\<lambda>x. days_between (issue_anchor x) (ne_now e)) (last_cycle s1) in
              if (case since of None \<Rightarrow> False | Some d \<Rightarrow> d < of_int (CYCLE_DAYS - 1))
              then (Inr (c\<lparr>cy_draft_skipped_reason := ''cycle_window_not_elapsed'',
                           cy_days_since_last := map_option (py_round 2) since\<rparr>), s1)
              else pace e c s1)"

end
