(* ===== verification/HandoffPackets.thy ===== *)
theory HandoffPackets
  imports Markup
begin

text \<open>
  The handoff packets of \<open>core/handoff_packets.py\<close>: what a contact form or a terminal
  intake is turned into for the operator, and its text and HTML rendering. Values of a
  form are texts, lists of texts or flags.
\<close>

section \<open>Packets\<close>

datatype form_value = FText string | FList "string list" | FBool bool | FNone

datatype packet_type = ServiceInquiry | AutomatorSupport | EducationInterest | CommunityContribution

fun packet_type_name :: "packet_type \<Rightarrow> string" where
  "packet_type_name ServiceInquiry = ''service_inquiry''"
| "packet_type_name AutomatorSupport = ''automator_support''"
| "packet_type_name EducationInterest = ''education_interest''"
| "packet_type_name CommunityContribution = ''community_contribution''"

record packet_field =
  pf_label :: string
  pf_value :: string

record handoff_packet =
  hp_source :: string
  hp_packet_type :: packet_type
  hp_title :: string
  hp_summary :: string
  hp_contact :: "(string \<times> string) list"
  hp_fields :: "packet_field list"
  hp_next_steps :: "string list"
  hp_tags :: "string list"

section \<open>Building a packet\<close>

definition packet_clean :: "string \<Rightarrow> nat \<Rightarrow> string" where
  "packet_clean value limit = take limit (clean_text value)"

definition packet_label :: "string \<Rightarrow> string" where
  "packet_label key = packet_clean (title_case (replace_char (CHR ''_'') '' '' key)) 80"

fun render_value :: "form_value \<Rightarrow> string" where
  "render_value (FList xs) = packet_clean (join '', '' (filter (\<lambda>x. strip x \<noteq> '''') xs)) 1000"
| "render_value (FBool b) = (if b then packet_clean ''True'' 2000 else '''')"
| "render_value FNone = ''''"
| "render_value (FText s) = packet_clean s 2000"

definition packet_fields :: "(string \<times> form_value) list \<Rightarrow> packet_field list" where
  "packet_fields raw =
     map (\<lambda>(k, v). \<lparr>pf_label = packet_label k, pf_value = render_value v\<rparr>)
       (filter (\<lambda>(k, v). render_value v \<noteq> '''') raw)"

definition contact_packet_type :: "string \<Rightarrow> packet_type" where
  "contact_packet_type role =
     (if role = ''student'' then EducationInterest
      else if role = ''automation_engineer'' then CommunityContribution else ServiceInquiry)"

definition intake_packet_type :: "string \<Rightarrow> (string \<times> string) list \<Rightarrow> packet_type" where
  "intake_packet_type selected_mode intake =
     (let text = join '' '' (map (lower \<circ> snd) intake) in
      if selected_mode = ''educator'' \<or> list_ex (\<lambda>t. contains t text) [''learn'', ''teach'', ''walk me through'', ''student'']
      then EducationInterest
      else if selected_mode = ''automator'' \<or> list_ex (\<lambda>t. contains t text) [''debug'', ''workflow'', ''technical'']
      then AutomatorSupport
      else ServiceInquiry)"

fun packet_title :: "packet_type \<Rightarrow> string" where
  "packet_title ServiceInquiry = ''Service inquiry handoff packet''"
| "packet_title AutomatorSupport = ''Automator support handoff packet''"
| "packet_title EducationInterest = ''Education interest handoff packet''"
| "packet_title CommunityContribution = ''Community contribution handoff packet''"

text \<open>The value a lower-case label has; a later field with the same label wins.\<close>

definition labelled :: "packet_field list \<Rightarrow> string \<Rightarrow> string" where
  "labelled fs label =
     (case map_of (rev (map (\<lambda>f. (lower (pf_label f), pf_value f)) fs)) label of None \<Rightarrow> '''' | Some v \<Rightarrow> v)"

definition present :: "string list \<Rightarrow> string" where
  "present ws = join ''; '' (filter (\<lambda>w. w \<noteq> '''') ws)"

definition contact_summary :: "packet_type \<Rightarrow> packet_field list \<Rightarrow> string" where
  "contact_summary t fs =
     (let val = labelled fs in
      if t = ServiceInquiry
      then packet_clean (str_or (present [val ''company'', val ''timeline'', val ''notes'']) ''New service inquiry.'') 500
      else if t = EducationInterest
      then packet_clean (str_or (val ''learning topics'') (str_or (val ''learning notes'') ''New education interest.'')) 500
      else packet_clean (str_or (val ''community interest'') (str_or (val ''tool recommendations'')
             ''New community contribution interest.'')) 500)"

definition intake_summary :: "packet_field list \<Rightarrow> string" where
  "intake_summary fs =
     (let val = labelled fs
      in packet_clean (str_or (present [val ''objective'', val ''building'', val ''help needed'']) ''New terminal intake.'') 500)"

fun packet_next_steps :: "packet_type \<Rightarrow> string list" where
  "packet_next_steps EducationInterest =
     [''Reply with the best learning path or invite them into the educator flow.'',
      ''Capture topic, level, timeline, and preferred format.'']"
| "packet_next_steps AutomatorSupport =
     [''Ask for trigger system, target system, expected result, and failure point.'',
      ''Decide whether this is quick guidance or a scoped engagement.'']"
| "packet_next_steps CommunityContribution =
     [''Review fit for community/resource contribution.'',
      ''Ask for public repo, examples, or contribution boundaries if needed.'']"
| "packet_next_steps ServiceInquiry =
     [''Reply with a scoping question focused on systems, risk, and desired outcome.'',
      ''Route to service discovery if the need is qualified.'']"

definition build_contact_handoff_packet ::
  "string \<Rightarrow> string \<Rightarrow> string \<Rightarrow> (string \<times> form_value) list \<Rightarrow> handoff_packet" where
  "build_contact_handoff_packet role name email raw =
     (let t = contact_packet_type role; fs = packet_fields raw
      in \<lparr>hp_source = ''contact_form'', hp_packet_type = t, hp_title = packet_title t,
          hp_summary = contact_summary t fs,
          hp_contact = [(''name'', packet_clean name 200), (''email'', packet_clean email 320)],
          hp_fields = fs, hp_next_steps = packet_next_steps t,
          hp_tags = [packet_clean role 80, packet_type_name t]\<rparr>)"

definition intake_value :: "(string \<times> string) list \<Rightarrow> string \<Rightarrow> string" where
  "intake_value intake k = (case map_of intake k of None \<Rightarrow> '''' | Some v \<Rightarrow> v)"

definition build_terminal_intake_handoff_packet ::
  "string \<Rightarrow> (string \<times> string) list \<Rightarrow> (string \<times> string) list \<Rightarrow> handoff_packet" where
  "build_terminal_intake_handoff_packet selected_mode intake contact =
     (let t = intake_packet_type selected_mode intake;
          fs = packet_fields (map (\<lambda>k. (k, FText (intake_value intake k)))
                 [''objective'', ''building'', ''maturity'', ''help_needed''])
      in \<lparr>hp_source = ''terminal_intake'', hp_packet_type = t, hp_title = packet_title t,
          hp_summary = intake_summary fs,
          hp_contact = map (\<lambda>(k, v). (k, packet_clean v 320)) (filter (\<lambda>(k, v). packet_clean v 320 \<noteq> '''') contact),
          hp_fields = fs, hp_next_steps = packet_next_steps t,
          hp_tags = [packet_clean selected_mode 80, packet_type_name t]\<rparr>)"

section \<open>Rendering\<close>

definition render_packet_text :: "handoff_packet \<Rightarrow> string" where
  "render_packet_text p = join nl
     ([hp_title p, '''', ''Source: '' @ hp_source p, ''Type: '' @ packet_type_name (hp_packet_type p)]
      @ (if hp_summary p \<noteq> '''' then ['''', ''Summary:'', hp_summary p] else [])
      @ (if hp_contact p \<noteq> [] then ['''', ''Contact:''] @ map (\<lambda>(k, v). ''- '' @ packet_label k @ '': '' @ v) (hp_contact p)
         else [])
      @ (if hp_fields p \<noteq> [] then ['''', ''Details:''] @ map (\<lambda>f. ''- '' @ pf_label f @ '': '' @ pf_value f) (hp_fields p)
         else [])
      @ (if hp_next_steps p \<noteq> [] then ['''', ''Suggested next steps:''] @ map (\<lambda>s. ''- '' @ s) (hp_next_steps p) else []))"

definition packet_row :: "string \<Rightarrow> string \<Rightarrow> string" where
  "packet_row label value =
     ''<tr><td style='padding:4px 12px 4px 0;color:#888;vertical-align:top'>'' @ html_escape label @
     ''</td><td style='padding:4px 0;color:#F5F5F5'>'' @ html_escape value @ ''</td></tr>''"

definition render_packet_html :: "handoff_packet \<Rightarrow> string" where
  "render_packet_html p =
     (let field_rows = concat (map (\<lambda>f. packet_row (pf_label f) (pf_value f)) (hp_fields p));
          contact_rows = concat (map (\<lambda>(k, v). packet_row (packet_label k) v) (hp_contact p));
          next_steps = concat (map (\<lambda>s. ''<li>'' @ html_escape s @ ''</li>'') (hp_next_steps p))
      in
     nl @ ''<html><head><meta charset='utf-8'></head><body '' @
     ''style='background:#242128;color:#F5F5F5;font-family:Inter,Arial,sans-serif;padding:32px'>'' @ nl @
     ''  <h2 style='color:#DCD077;font-family:Rajdhani,Arial,sans-serif;margin:0 0 8px'>'' @
     html_escape (hp_title p) @ ''</h2>'' @ nl @ ''  <p style='color:#aaa;margin:0 0 24px'>Contact intake</p>'' @
     nl @ ''  <p style='color:#F5F5F5;margin:0 0 20px'>'' @ html_escape (hp_summary p) @ ''</p>'' @ nl @
     ''  <table cellpadding='0' cellspacing='0'>'' @ contact_rows @ field_rows @ ''</table>'' @ nl @
     ''  <h3 style='color:#D4BF91;margin:24px 0 8px'>Suggested next steps</h3>'' @ nl @
     ''  <ul style='color:#F5F5F5;margin:0;padding-left:20px'>'' @ next_steps @ ''</ul>'' @ nl @
     ''</body></html>'' @ nl)"

section \<open>What a packet shows\<close>

lemma length_packet_clean [simp]: "length (packet_clean s n) \<le> n"
  by (simp add: packet_clean_def)

lemma packet_fields_nonempty: "f \<in> set (packet_fields fs) \<Longrightarrow> pf_value f \<noteq> ''''"
  by (auto simp: packet_fields_def)

end
