(* ===== verification/ContactIntake.thy ===== *)
theory ContactIntake
  imports Subscribers HandoffPackets DiscoveryState
begin

text \<open>
  The public forms: \<open>api/request_helpers.py\<close> (whose address a request counts against),
  \<open>api/contact.py\<close> (the contact form and its update) and \<open>api/newsletter_public.py\<close>
  (newsletter signup and unsubscribe). A refused request is an HTTP status with a
  message; every commit of a request that succeeded stays when a later step fails.
\<close>

section \<open>The address of a request\<close>

datatype http_error = HttpError int string | Crash string

type_synonym 'a reply = "http_error + 'a"

definition TRUSTED_PROXY_HOSTS :: "string list" where
  "TRUSTED_PROXY_HOSTS = [''127.0.0.1'', ''::1'', ''localhost'']"

definition client_ip :: "string option \<Rightarrow> string option \<Rightarrow> string" where
  "client_ip host forwarded_header =
     (let client_host = (case host of None \<Rightarrow> ''unknown'' | Some h \<Rightarrow> h);
          forwarded = strip (hd (split_on (CHR '','') (case forwarded_header of None \<Rightarrow> '''' | Some h \<Rightarrow> h)))
      in if forwarded \<noteq> '''' \<and> client_host \<in> set TRUSTED_PROXY_HOSTS then take 128 forwarded else take 128 client_host)"

section \<open>Validation of the contact form\<close>

text \<open>
  \<open>[^@\s]+@[^@\s]+\.[^@\s]+\<close> on the whole text: one \<open>@\<close>, no space, and a dot with
  something on either side after it.
\<close>

definition inner_dot :: "string \<Rightarrow> bool" where
  "inner_dot d \<longleftrightarrow> CHR ''.'' \<in> set (butlast (tl d))"

definition valid_email :: "string \<Rightarrow> bool" where
  "valid_email s \<longleftrightarrow> (case split_on (CHR ''@'') s of
     [l, d] \<Rightarrow> l \<noteq> '''' \<and> d \<noteq> '''' \<and> inner_dot d \<and> list_all (\<lambda>c. \<not> is_space c) s
   | _ \<Rightarrow> False)"

definition LIST_LIMIT :: nat where "LIST_LIMIT = 20"

definition LIST_ITEM_LIMIT :: nat where "LIST_ITEM_LIMIT = 120"

definition clean_list :: "string list \<Rightarrow> string list option" where
  "clean_list values =
     (let cleaned = map clean_text values in
      if length values > LIST_LIMIT then None
      else if list_ex (\<lambda>w. length w > LIST_ITEM_LIMIT) cleaned then None
      else Some (filter (\<lambda>w. w \<noteq> '''') cleaned))"

text \<open>The role-specific fields of the three payload classes, in the order of their declaration.\<close>

datatype field_spec = RequiredText nat | OptionalText nat | TextList | Flag

definition payload_fields :: "string \<Rightarrow> (string \<times> field_spec) list option" where
  "payload_fields role =
     (if role = ''automation_engineer'' then Some
        [(''platforms'', TextList), (''project_types'', TextList), (''llm_tools'', TextList),
         (''tool_recommendations'', OptionalText 1000), (''repo_url'', OptionalText 500),
         (''community_interest'', OptionalText 1000), (''willing_to_contribute'', Flag)]
      else if role = ''student'' then Some
        [(''learning_topics'', TextList), (''experience_level'', OptionalText 200),
         (''format_preferences'', TextList), (''learning_notes'', OptionalText 1000)]
      else if role = ''interested_party'' then Some
        [(''company'', RequiredText 200), (''title'', OptionalText 200), (''dream_automations'', TextList),
         (''automation_journey'', OptionalText 300), (''current_tools'', OptionalText 500),
         (''timeline'', OptionalText 100), (''referral_source'', OptionalText 200), (''notes'', OptionalText 2000)]
      else None)"

fun read_field :: "field_spec \<Rightarrow> form_value option \<Rightarrow> form_value option" where
  "read_field (RequiredText n) (Some (FText s)) =
     (if 1 \<le> length s \<and> length s \<le> n then Some (FText (clean_text s)) else None)"
| "read_field (OptionalText n) None = Some (FText '''')"
| "read_field (OptionalText n) (Some (FText s)) = (if length s \<le> n then Some (FText (clean_text s)) else None)"
| "read_field TextList None = Some (FList [])"
| "read_field TextList (Some (FList xs)) = map_option FList (clean_list xs)"
| "read_field Flag None = Some (FBool False)"
| "read_field Flag (Some (FBool b)) = Some (FBool b)"
| "read_field _ _ = None"

fun read_fields :: "(string \<times> form_value) list \<Rightarrow> (string \<times> field_spec) list \<Rightarrow> (string \<times> form_value) list option" where
  "read_fields raw [] = Some []"
| "read_fields raw ((k, spec) # rest) =
     (case (read_field spec (map_of raw k), read_fields raw rest) of
        (Some v, Some vs) \<Rightarrow> Some ((k, v) # vs)
      | _ \<Rightarrow> None)"

record contact_form =
  cf_role :: string
  cf_name :: string
  cf_email :: string
  cf_fields :: "(string \<times> form_value) list"

text \<open>The body as posted to the payload, \<open>None\<close> for a 422 answer.\<close>

definition read_contact :: "contact_form \<Rightarrow> contact_form option" where
  "read_contact raw =
     (let email = lower (strip (clean_text (cf_email raw))) in
      if 1 \<le> length (cf_name raw) \<and> length (cf_name raw) \<le> 200 \<and> length (cf_email raw) \<le> 320 \<and> valid_email email
      then case payload_fields (cf_role raw) of
          None \<Rightarrow> None
        | Some specs \<Rightarrow> map_option (\<lambda>vs. \<lparr>cf_role = cf_role raw, cf_name = clean_text (cf_name raw), cf_email = email,
            cf_fields = vs\<rparr>) (read_fields (cf_fields raw) specs)
      else None)"

section \<open>Stored data\<close>

fun dump_value :: "form_value \<Rightarrow> string" where
  "dump_value (FText s) = json_quote s"
| "dump_value (FList xs) = ''['' @ join '', '' (map json_quote xs) @ '']''"
| "dump_value (FBool b) = json_bool b"
| "dump_value FNone = ''null''"

definition dump_fields :: "(string \<times> form_value) list \<Rightarrow> string" where
  "dump_fields fs = json_object (map (\<lambda>(k, v). (k, dump_value v)) fs)"

definition WINDOW :: int where "WINDOW = hours 24"

definition IP_LIMIT :: int where "IP_LIMIT = 5"

definition SIGNUP_IP_LIMIT :: int where "SIGNUP_IP_LIMIT = 10"

definition latest_contact :: "string \<Rightarrow> string \<Rightarrow> site_db \<Rightarrow> contact_record option" where
  "latest_contact email role db =
     (case sort_key (\<lambda>r. - cr_created_at r) (filter (\<lambda>r. cr_email r = email \<and> cr_role r = role) (sd_contacts db)) of
        [] \<Rightarrow> None
      | r # _ \<Rightarrow> Some r)"

definition count_rows :: "('r \<Rightarrow> bool) \<Rightarrow> 'r list \<Rightarrow> int" where
  "count_rows p rows = int (length (filter p rows))"

definition ip_submission_count :: "string \<Rightarrow> utc \<Rightarrow> site_db \<Rightarrow> int" where
  "ip_submission_count ip since db = count_rows (\<lambda>r. cr_ip_address r = ip \<and> cr_created_at r \<ge> since) (sd_contacts db)"

definition role_label :: "string \<Rightarrow> string" where
  "role_label role = (if role = ''automation_engineer'' then ''automation engineer''
     else if role = ''interested_party'' then ''interested party'' else role)"

definition enforce_ip_rate_limit :: "utc \<Rightarrow> string \<Rightarrow> site_db \<Rightarrow> unit reply" where
  "enforce_ip_rate_limit now ip db =
     (if ip_submission_count ip (now - WINDOW) db \<ge> IP_LIMIT
      then Inl (HttpError 429 ''Too many submissions from this network. Please try again later.'') else Inr ())"

definition enforce_rate_limits :: "utc \<Rightarrow> contact_form \<Rightarrow> string \<Rightarrow> contact_record option \<Rightarrow> site_db \<Rightarrow> unit reply" where
  "enforce_rate_limits now p ip latest db =
     (case latest of
        Some r \<Rightarrow> if cr_created_at r \<ge> now - WINDOW then Inl (HttpError 409 (role_label (cf_role p)))
                 else enforce_ip_rate_limit now ip db
      | None \<Rightarrow> enforce_ip_rate_limit now ip db)"

definition put_contact :: "contact_record \<Rightarrow> site_db \<Rightarrow> site_db" where
  "put_contact r db = db\<lparr>sd_contacts := update_where (\<lambda>x. cr_id x = cr_id r) (\<lambda>_. r) (sd_contacts db)\<rparr>"

definition save_notification :: "site_env \<Rightarrow> string \<Rightarrow> string \<Rightarrow> string \<Rightarrow> site_db \<Rightarrow> site_db" where
  "save_notification e contact_id status error db =
     db\<lparr>sd_notifications := sd_notifications db @
        [\<lparr>cn_id = se_uuid e NewNotification, cn_contact_id = contact_id, cn_channel = ''email'', cn_status = status,
          cn_error = take 1000 error, cn_created_at = se_now e\<rparr>]\<rparr>"

text \<open>The mail to the operator; the answer is the status that is stored, with the error.\<close>

definition send_contact_notification ::
  "site_env \<Rightarrow> string \<Rightarrow> string \<Rightarrow> string \<Rightarrow> (string \<times> form_value) list \<Rightarrow> mail list \<Rightarrow> (string + string) \<times> mail list" where
  "send_contact_notification e role name email extra outbox =
     send_internal_email e (''[contact] '' @ title_case (replace_char (CHR ''_'') '' '' role) @ '' | '' @ name)
       (render_packet_html (build_contact_handoff_packet role name email extra)) None (Some (email, name))
       (Some (default_sender (se_env e) (se_deployment e))) outbox"

text \<open>
  A commit of the notification row that fails leaves the session unusable: the second
  attempt in the handler fails too, and the request ends with a server error.
\<close>

definition notify_contact :: "site_env \<Rightarrow> contact_record \<Rightarrow> contact_form \<Rightarrow> site \<Rightarrow> unit reply \<times> site" where
  "notify_contact e r p s =
     (case send_contact_notification e (cf_role p) (cf_name p) (cf_email p) (cf_fields p) (st_outbox s) of (sent, ob) \<Rightarrow>
       let s1 = s\<lparr>st_outbox := ob\<rparr> in
       case se_io e NotificationCommit of
         Some exc \<Rightarrow> (Inl (Crash exc), s1)
       | None \<Rightarrow> (Inr (), s1\<lparr>st_db := (case sent of
             Inr status \<Rightarrow> save_notification e (cr_id r) status '''' (st_db s1)
           | Inl msg \<Rightarrow> save_notification e (cr_id r) ''failed'' msg (st_db s1))\<rparr>))"

text \<open>The rest of a form request once its contact row is committed.\<close>

definition add_to_list :: "site_env \<Rightarrow> contact_record \<Rightarrow> string \<Rightarrow> string \<Rightarrow> string \<Rightarrow> site \<Rightarrow> string reply \<times> site" where
  "add_to_list e r name email role s =
     (case subscribe_and_reply e name email role (cr_id r) s of
        (Inl exc, s') \<Rightarrow> (Inl (Crash ''subscribe_and_reply''), s')
      | (Inr _, s') \<Rightarrow> (Inr (cr_id r), s'))"

definition submit_contact :: "site_env \<Rightarrow> contact_form \<Rightarrow> bool \<Rightarrow> string \<Rightarrow> site \<Rightarrow> string reply \<times> site" where
  "submit_contact e raw update ip s =
     (case read_contact raw of
        None \<Rightarrow> (Inl (HttpError 422 ''validation''), s)
      | Some p \<Rightarrow>
          let db = st_db s; now = se_now e; latest = latest_contact (cf_email p) (cf_role p) db;
              allowed = (if \<not> update then enforce_rate_limits now p ip latest db
                         else if latest = None then Inl (HttpError 404 ''Contact profile not found.'')
                         else enforce_ip_rate_limit now ip db)
          in case allowed of
            Inl err \<Rightarrow> (Inl err, s)
          | Inr _ \<Rightarrow>
              let (r, db1) = (case (update, latest) of
                    (True, Some old) \<Rightarrow>
                      let r = old\<lparr>cr_name := cf_name p, cr_data := dump_fields (cf_fields p), cr_ip_address := ip,
                                  cr_updated_at := Some now\<rparr>
                      in (r, put_contact r db)
                  | _ \<Rightarrow>
                      let r = \<lparr>cr_id = se_uuid e NewContact, cr_role = cf_role p, cr_name = cf_name p,
                               cr_email = cf_email p, cr_data = dump_fields (cf_fields p), cr_ip_address = ip,
                               cr_created_at = now, cr_updated_at = None\<rparr>
                      in (r, db\<lparr>sd_contacts := sd_contacts db @ [r]\<rparr>))
              in case se_io e ContactCommit of
                Some exc \<Rightarrow> (Inl (Crash exc), s)
              | None \<Rightarrow>
                  (case notify_contact e r p (s\<lparr>st_db := db1\<rparr>) of
                     (Inl err, s2) \<Rightarrow> (Inl err, s2)
                   | (Inr _, s2) \<Rightarrow> add_to_list e r (cf_name p) (cf_email p) (cf_role p) s2))"

section \<open>Newsletter signup and unsubscribe\<close>

definition VALID_ROLES :: "string list" where
  "VALID_ROLES = [''student'', ''automation_engineer'', ''interested_party'']"

record signup_form =
  sf_name :: string
  sf_email :: string
  sf_company :: string
  sf_role :: string

definition read_signup :: "signup_form \<Rightarrow> signup_form option" where
  "read_signup raw =
     (let email = lower (strip (sf_email raw)) in
      if 1 \<le> length (sf_name raw) \<and> length (sf_name raw) \<le> 200 \<and> length (sf_email raw) \<le> 320
         \<and> length (sf_company raw) \<le> 200 \<and> valid_email email \<and> sf_role raw \<in> set VALID_ROLES
      then Some \<lparr>sf_name = clean_text (sf_name raw), sf_email = email, sf_company = clean_text (sf_company raw),
                 sf_role = sf_role raw\<rparr>
      else None)"

definition signup_data :: "string \<Rightarrow> string" where
  "signup_data company = json_object [(''signup_source'', json_quote ''newsletter''), (''company'', json_quote company)]"

definition is_signup :: "contact_record \<Rightarrow> bool" where
  "is_signup r \<longleftrightarrow> sql_like ''%\"signup_source\": \"newsletter\"%'' (cr_data r)"

definition signup_count :: "string \<Rightarrow> utc \<Rightarrow> site_db \<Rightarrow> int" where
  "signup_count ip since db =
     count_rows (\<lambda>r. cr_ip_address r = ip \<and> cr_created_at r \<ge> since \<and> is_signup r) (sd_contacts db)"

definition newsletter_subscribe :: "site_env \<Rightarrow> signup_form \<Rightarrow> string \<Rightarrow> site \<Rightarrow> string reply \<times> site" where
  "newsletter_subscribe e raw ip s =
     (case read_signup raw of
        None \<Rightarrow> (Inl (HttpError 422 ''validation''), s)
      | Some p \<Rightarrow>
          if signup_count ip (se_now e - WINDOW) (st_db s) \<ge> SIGNUP_IP_LIMIT
          then (Inl (HttpError 429 ''Too many signups from this IP in the last 24h. Try again later.''), s)
          else let name = take 200 (clean_text (sf_name p)); company = take 200 (clean_text (sf_company p)) in
            if name = '''' then (Inl (HttpError 422 ''Name is required''), s)
            else let r = \<lparr>cr_id = se_uuid e NewContact, cr_role = sf_role p, cr_name = name, cr_email = sf_email p,
                          cr_data = signup_data company, cr_ip_address = ip, cr_created_at = se_now e,
                          cr_updated_at = None\<rparr>
              in case se_io e ContactCommit of
                Some exc \<Rightarrow> (Inl (Crash exc), s)
              | None \<Rightarrow> add_to_list e r name (sf_email p) (sf_role p)
                   (s\<lparr>st_db := (st_db s)\<lparr>sd_contacts := sd_contacts (st_db s) @ [r]\<rparr>\<rparr>))"

text \<open>Both unsubscribe endpoints; the page does not tell whether the token was known.\<close>

definition unsubscribe_request :: "site_env \<Rightarrow> string \<Rightarrow> site \<Rightarrow> string reply \<times> site" where
  "unsubscribe_request e token s =
     (if length token > 128 then (Inl (HttpError 422 ''validation''), s)
      else let t = strip token in
        if t = '''' then (Inl (HttpError 400 ''Missing token''), s)
        else let (sub, db1) = unsubscribe_by_token e t (st_db s) in
          case se_io e UnsubscribeCommit of
            Some exc \<Rightarrow> (Inl (Crash exc), s)
          | None \<Rightarrow> (Inr ''unsubscribed'', s\<lparr>st_db := db1\<rparr>))"

end
