(* ===== verification/SiteForms.thy ===== *)
theory SiteForms
  imports ContactIntake
begin

text \<open>
  What the public forms keep over any sequence of requests: a request is a contact form,
  a newsletter signup or an unsubscribe click, each with its own clock, failures and mail
  transport. \<open>form_invariant\<close> is the interface an invariant of the site has to satisfy;
  it is interpreted on the shape of the subscriber table, on the trace an auto-reply
  leaves and on an address that has opted out.
\<close>

section \<open>Requests\<close>

datatype site_step =
    SubmitContact site_env contact_form bool string
  | NewsletterSignup site_env signup_form string
  | UnsubscribeClick site_env string

fun site_do :: "site_step \<Rightarrow> site \<Rightarrow> site" where
  "site_do (SubmitContact e raw update ip) s = snd (submit_contact e raw update ip s)"
| "site_do (NewsletterSignup e raw ip) s = snd (newsletter_subscribe e raw ip s)"
| "site_do (UnsubscribeClick e token) s = snd (unsubscribe_request e token s)"

definition run_site :: "site_step list \<Rightarrow> site \<Rightarrow> site" where
  "run_site steps s = fold site_do steps s"

text \<open>The address a form puts on the list.\<close>

fun step_address :: "site_step \<Rightarrow> string option" where
  "step_address (SubmitContact e raw update ip) = Some (normalize_email (clean_text (cf_email raw)))"
| "step_address (NewsletterSignup e raw ip) = Some (normalize_email (sf_email raw))"
| "step_address (UnsubscribeClick e token) = None"

lemma read_contact_email: "read_contact raw = Some p \<Longrightarrow> cf_email p = normalize_email (clean_text (cf_email raw))"
  by (auto simp: read_contact_def normalize_email_def Let_def split: if_splits option.splits)

lemma read_signup_email: "read_signup raw = Some p \<Longrightarrow> sf_email p = normalize_email (sf_email raw)"
  by (auto simp: read_signup_def normalize_email_def Let_def split: if_splits)

section \<open>Interface: invariants of the forms\<close>

locale form_invariant =
  fixes allowed :: "string \<Rightarrow> bool"
    and inv :: "site \<Rightarrow> bool"
  assumes subscribe: "inv s \<Longrightarrow> allowed (normalize_email email) \<Longrightarrow>
      inv (snd (subscribe_and_reply e name email role contact_id s))"
    and unsubscribe: "inv s \<Longrightarrow> inv (s\<lparr>st_db := snd (unsubscribe_by_token e token (st_db s))\<rparr>)"
    and contacts: "inv s \<Longrightarrow> inv (s\<lparr>st_db := (st_db s)\<lparr>sd_contacts := cs\<rparr>\<rparr>)"
    and notified: "inv s \<Longrightarrow> inv (s\<lparr>st_db := (st_db s)\<lparr>sd_notifications := ns\<rparr>\<rparr>)"
    and mailed: "inv s \<Longrightarrow> inv (s\<lparr>st_outbox := ob\<rparr>)"
begin

lemma add_to_list_inv:
  "inv s \<Longrightarrow> allowed (normalize_email email) \<Longrightarrow> inv (snd (add_to_list e r name email role s))"
  using subscribe [of s email e name role "cr_id r"]
  by (auto simp: add_to_list_def split: prod.splits sum.splits)

lemma notify_contact_inv: assumes "inv s" shows "inv (snd (notify_contact e r p s))"
proof -
  obtain sent ob where n: "send_contact_notification e (cf_role p) (cf_name p) (cf_email p) (cf_fields p) (st_outbox s) = (sent, ob)"
    by fastforce
  have m: "inv (s\<lparr>st_outbox := ob\<rparr>)" using assms by (rule mailed)
  show ?thesis
    using m notified [OF m]
    by (auto simp: notify_contact_def n Let_def save_notification_def split: option.splits sum.splits)
qed

lemma submit_contact_inv:
  assumes "inv s" and "allowed (normalize_email (clean_text (cf_email raw)))"
  shows "inv (snd (submit_contact e raw update ip s))"
proof (cases "read_contact raw")
  case (Some p)
  let ?latest = "latest_contact (cf_email p) (cf_role p) (st_db s)"
  have step: "inv (snd (case notify_contact e r p (s\<lparr>st_db := (st_db s)\<lparr>sd_contacts := cs\<rparr>\<rparr>) of
      (Inl err, s2) \<Rightarrow> (Inl err, s2)
    | (Inr _, s2) \<Rightarrow> add_to_list e r (cf_name p) (cf_email p) (cf_role p) s2))" for r cs
  proof -
    obtain a s2 where n: "notify_contact e r p (s\<lparr>st_db := (st_db s)\<lparr>sd_contacts := cs\<rparr>\<rparr>) = (a, s2)" by fastforce
    have i2: "inv s2" using notify_contact_inv [OF contacts [OF assms(1)], of e r p cs] n by simp
    have al: "allowed (normalize_email (cf_email p))" using assms(2) read_contact_email [OF Some] by simp
    show ?thesis using i2 add_to_list_inv [OF i2 al] by (auto simp: n split: sum.splits)
  qed
  show ?thesis
    using assms(1) step
    by (simp add: submit_contact_def Some Let_def put_contact_def split: sum.splits option.splits bool.splits prod.splits)
qed (simp add: submit_contact_def assms(1))

lemma newsletter_subscribe_inv:
  assumes "inv s" and "allowed (normalize_email (sf_email raw))"
  shows "inv (snd (newsletter_subscribe e raw ip s))"
proof (cases "read_signup raw")
  case (Some p)
  have al: "allowed (normalize_email (sf_email p))" using assms(2) read_signup_email [OF Some] by simp
  show ?thesis
    using assms(1) add_to_list_inv [OF contacts [OF assms(1)] al]
    by (auto simp: newsletter_subscribe_def Some Let_def split: option.splits)
qed (simp add: newsletter_subscribe_def assms(1))

lemma unsubscribe_request_inv: "inv s \<Longrightarrow> inv (snd (unsubscribe_request e token s))"
  using unsubscribe [of s e "strip token"]
  by (auto simp: unsubscribe_request_def Let_def split: option.splits prod.splits)

lemma site_do_inv: "inv s \<Longrightarrow> pred_option allowed (step_address st) \<Longrightarrow> inv (site_do st s)"
  by (cases st) (auto intro: submit_contact_inv newsletter_subscribe_inv unsubscribe_request_inv)

lemma run_site_inv: "inv s \<Longrightarrow> \<forall>st \<in> set steps. pred_option allowed (step_address st) \<Longrightarrow> inv (run_site steps s)"
  unfolding run_site_def by (induction steps arbitrary: s) (auto intro: site_do_inv)

end

section \<open>The subscriber table\<close>

lemma join_topics_nonempty [simp]: "join_topics ts \<noteq> []"
  by (simp add: join_topics_def str_or_def)

definition subscriber_row_ok :: "subscriber \<Rightarrow> bool" where
  "subscriber_row_ok r \<longleftrightarrow> normalize_email (sb_email r) = sb_email r \<and>
     (case sb_unsubscribed_at r of
        None \<Rightarrow> sb_topics r \<noteq> ''''
      | Some t \<Rightarrow> sb_name r = '''' \<and> sb_source_role r = '''' \<and> sb_topics r = '''' \<and> sb_updated_at r = t)"

definition subscribers_ok :: "site_db \<Rightarrow> bool" where
  "subscribers_ok db \<longleftrightarrow> subscriber_keys_unique db \<and> list_all subscriber_row_ok (sd_subscribers db)"

lemma put_subscriber_frame [simp]:
  "sd_contacts (put_subscriber r db) = sd_contacts db" "sd_autoreplies (put_subscriber r db) = sd_autoreplies db"
  "sd_notifications (put_subscriber r db) = sd_notifications db"
  by (simp_all add: put_subscriber_def)

lemma record_autoreply_frame [simp]:
  "sd_subscribers (record_autoreply e sid c role t st err db) = sd_subscribers db"
  by (simp add: record_autoreply_def)

lemma put_subscriber_map:
  assumes "distinct (map sb_id (sd_subscribers db))" "old \<in> set (sd_subscribers db)" "sb_id r = sb_id old" "f r = f old"
  shows "map f (sd_subscribers (put_subscriber r db)) = map f (sd_subscribers db)"
proof -
  have "f (if sb_id x = sb_id r then r else x) = f x" if "x \<in> set (sd_subscribers db)" for x
    using that assms by (auto simp: distinct_map inj_on_def)
  then show ?thesis by (simp add: put_subscriber_def update_where_def)
qed

lemma put_subscriber_set: "x \<in> set (sd_subscribers (put_subscriber r db)) \<Longrightarrow> x = r \<or> x \<in> set (sd_subscribers db)"
  by (auto simp: put_subscriber_def update_where_def split: if_splits)

lemma get_by_token_mem:
  "get_subscriber_by_token db token = Some r \<Longrightarrow> r \<in> set (sd_subscribers db)"
  by (auto simp: get_subscriber_by_token_def Let_def dest: find_row_SomeD split: if_splits)

lemma get_by_email_mem:
  "get_subscriber_by_email db email = Some r \<Longrightarrow> r \<in> set (sd_subscribers db) \<and> sb_email r = normalize_email email"
  by (auto simp: get_subscriber_by_email_def dest: find_row_SomeD)

lemma unsubscribe_keeps_keys:
  assumes "subscriber_keys_unique db"
  shows "subscriber_keys_unique (snd (unsubscribe_by_token e token db))"
proof (cases "get_subscriber_by_token db token")
  case (Some r)
  have "map f (sd_subscribers (put_subscriber (unsubscribed (se_now e) r) db)) = map f (sd_subscribers db)"
    if "f (unsubscribed (se_now e) r) = f r" for f :: "subscriber \<Rightarrow> string"
    using assms get_by_token_mem [OF Some] that
    by (intro put_subscriber_map [where old = r]) (auto simp: subscriber_keys_unique_def unsubscribed_def Let_def)
  then show ?thesis
    using assms by (simp add: unsubscribe_by_token_def Some subscriber_keys_unique_def unsubscribed_def Let_def)
qed (simp add: unsubscribe_by_token_def assms)

text \<open>What \<open>subscribe_and_reply\<close> leaves behind, by the commits that went through.\<close>

lemma subscribe_and_reply_cases:
  assumes "upsert_subscriber e email name role topics (st_db s) = ((sub, created), db1)"
    and "topics = (case map_of ROLE_TOPICS role of Some ts \<Rightarrow> ts | None \<Rightarrow> [''general''])"
  obtains (rolled_back) "subscribe_and_reply e name email role cid s = (Inr (None, '''', '''', ''upsert_failed''), s)"
  | (raised) exc where "subscribe_and_reply e name email role cid s = (Inl exc, s\<lparr>st_db := db1\<rparr>)"
      "subscriber_keys_unique db1"
  | (replied) status template error ob where
      "subscribe_and_reply e name email role cid s = (Inr (Some sub, status, template, error),
         s\<lparr>st_db := (if cid \<noteq> '''' \<and> se_io e AutoReplyCommit = None
            then record_autoreply e (sb_id sub) cid role template status error db1 else db1), st_outbox := ob\<rparr>)"
      "subscriber_keys_unique db1" "status \<in> {''sent'', ''skipped''}"
      "recent_autoreply_exists (se_now e) AUTOREPLY_COOLDOWN (sb_id sub) db1 \<Longrightarrow> ob = st_outbox s"
proof (cases "se_io e SubscriberCommit \<noteq> None \<or> \<not> subscriber_keys_unique db1")
  case True
  then show ?thesis by (intro rolled_back) (simp add: subscribe_and_reply_def assms(1) flip: assms(2))
next
  case False
  show ?thesis
  proof (cases "se_io e CooldownRead")
    case (Some exc)
    with False show ?thesis
      by (intro raised) (simp_all add: subscribe_and_reply_def assms(1) Let_def flip: assms(2))
  next
    case None
    let ?recent = "recent_autoreply_exists (se_now e) AUTOREPLY_COOLDOWN (sb_id sub) db1"
    obtain status template error ob where r:
      "(if ?recent then ((''skipped'', ''cooldown'', ''auto_reply_cooldown_active''), st_outbox s)
        else send_auto_reply e role name email (sb_unsubscribe_token sub) (st_outbox s)) = ((status, template, error), ob)"
      by (metis prod.exhaust)
    have st: "status \<in> {''sent'', ''skipped''}"
    proof (cases ?recent)
      case False
      then have "send_auto_reply e role name email (sb_unsubscribe_token sub) (st_outbox s) = ((status, template, error), ob)"
        using r by simp
      then show ?thesis
        unfolding send_auto_reply_def Let_def
        by (cases rule: send_internal_email_cases
             [of e "rp_subject (compose_auto_reply (se_env e) (se_deployment e) role name (sb_unsubscribe_token sub))"
                   "rp_html (compose_auto_reply (se_env e) (se_deployment e) role name (sb_unsubscribe_token sub))"
                   "Some email" None "Some (getenv_or (se_env e) ''AUTOREPLY_SENDER'' (dc_public_email (se_deployment e)))"
                   "st_outbox s"]) auto
    qed (use r in auto)
    have ob: "?recent \<Longrightarrow> ob = st_outbox s" using r by simp
    have "subscribe_and_reply e name email role cid s = (Inr (Some sub, status, template, error),
         s\<lparr>st_db := (if cid \<noteq> '''' \<and> se_io e AutoReplyCommit = None
            then record_autoreply e (sb_id sub) cid role template status error db1 else db1), st_outbox := ob\<rparr>)"
      using False None unfolding subscribe_and_reply_def assms(2) [symmetric]
      by (simp add: assms(1) Let_def r)
    then show ?thesis by (rule replied [OF _ _ st ob]) (use False in simp_all)
  qed
qed

lemma upsert_frame:
  assumes "upsert_subscriber e email name role topics db = ((sub, created), db1)"
  shows "sd_autoreplies db1 = sd_autoreplies db" "sd_contacts db1 = sd_contacts db"
  using assms by (auto simp: upsert_subscriber_def Let_def split: option.splits if_splits)

lemma upsert_row:
  assumes "upsert_subscriber e email name role topics db = ((sub, created), db1)"
  shows "sub \<in> set (sd_subscribers db1)" "sb_email sub = normalize_email email" "sb_unsubscribed_at sub = None"
    "sb_topics sub \<noteq> ''''"
proof -
  have in_put: "r' \<in> set (sd_subscribers (put_subscriber r' db))" if "r \<in> set (sd_subscribers db)" "sb_id r' = sb_id r" for r r'
    using that by (force simp: put_subscriber_def update_where_def)
  show "sub \<in> set (sd_subscribers db1)"
    using assms in_put by (auto simp: upsert_subscriber_def Let_def split: option.splits if_splits dest!: get_by_email_mem)
  show "sb_email sub = normalize_email email" "sb_unsubscribed_at sub = None" "sb_topics sub \<noteq> ''''"
    using assms by (auto simp: upsert_subscriber_def Let_def split: option.splits if_splits dest!: get_by_email_mem)
qed

lemma upsert_new_rows:
  assumes "upsert_subscriber e email name role topics db = ((sub, created), db1)" "x \<in> set (sd_subscribers db1)"
  shows "x = sub \<or> x \<in> set (sd_subscribers db)"
  using assms put_subscriber_set by (auto simp: upsert_subscriber_def Let_def split: option.splits if_splits)

lemma upsert_old_rows:
  assumes "upsert_subscriber e email name role topics db = ((sub, created), db1)" "subscriber_keys_unique db"
    and "x \<in> set (sd_subscribers db)"
  shows "if sb_email x = normalize_email email then sb_id x = sb_id sub else x \<in> set (sd_subscribers db1)"
proof -
  have ids: "sb_id x = sb_id y \<longleftrightarrow> x = y" and emails: "sb_email x = sb_email y \<longleftrightarrow> x = y"
    if "y \<in> set (sd_subscribers db)" for y
    using that assms(2,3) by (auto simp: subscriber_keys_unique_def distinct_map inj_on_def)
  show ?thesis
  proof (cases "get_subscriber_by_email db (normalize_email email)")
    case None
    then have "sb_email x \<noteq> normalize_email email"
      using assms(3) unfolding get_subscriber_by_email_def find_row_None_iff by (metis image_eqI normalize_email_idem)
    moreover have "x \<in> set (sd_subscribers db1)"
      using assms(1,3) None by (auto simp: upsert_subscriber_def Let_def)
    ultimately show ?thesis by simp
  next
    case (Some old)
    then have old: "old \<in> set (sd_subscribers db)" "sb_email old = normalize_email email"
      using get_by_email_mem by force+
    have "sb_id sub = sb_id old" and db1: "db1 = put_subscriber sub db"
      using assms(1) Some by (auto simp: upsert_subscriber_def Let_def split: if_splits)
    moreover have "x \<in> set (sd_subscribers db1)" if "x \<noteq> old"
      using that assms(3) ids [OF old(1)] calculation(1) unfolding db1
      by (force simp: put_subscriber_def update_where_def)
    ultimately show ?thesis using emails [OF old(1)] old(2) by auto
  qed
qed

text \<open>The shape of the table is kept by every request, whatever its address.\<close>

interpretation form_shape: form_invariant "\<lambda>_. True" "\<lambda>s. subscribers_ok (st_db s)"
proof unfold_locales
  fix s :: site and e :: site_env and name email role cid
  assume ok: "subscribers_ok (st_db s)"
  obtain topics sub created db1 where u: "upsert_subscriber e email name role topics (st_db s) = ((sub, created), db1)"
    and t: "topics = (case map_of ROLE_TOPICS role of Some ts \<Rightarrow> ts | None \<Rightarrow> [''general''])"
    by (metis prod.exhaust)
  have "subscriber_row_ok sub" using upsert_row [OF u] by (simp add: subscriber_row_ok_def)
  then have rows: "list_all subscriber_row_ok (sd_subscribers db1)"
    using ok upsert_new_rows [OF u] by (auto simp: subscribers_ok_def list_all_iff)
  show "subscribers_ok (st_db (snd (subscribe_and_reply e name email role cid s)))"
    by (cases rule: subscribe_and_reply_cases [OF u t, of cid])
      (use ok rows in \<open>auto simp: subscribers_ok_def subscriber_keys_unique_def\<close>)
next
  fix s :: site and e :: site_env and token
  assume ok: "subscribers_ok (st_db s)"
  have "subscriber_row_ok (unsubscribed (se_now e) r)" if "r \<in> set (sd_subscribers (st_db s))" for r
    using that ok by (auto simp: subscribers_ok_def list_all_iff subscriber_row_ok_def unsubscribed_def Let_def)
  then have "list_all subscriber_row_ok (sd_subscribers (snd (unsubscribe_by_token e token (st_db s))))"
    using ok get_by_token_mem
    by (auto simp: unsubscribe_by_token_def subscribers_ok_def list_all_iff Let_def dest!: put_subscriber_set split: option.splits)
  then show "subscribers_ok (st_db (s\<lparr>st_db := snd (unsubscribe_by_token e token (st_db s))\<rparr>))"
    using ok unsubscribe_keeps_keys by (simp add: subscribers_ok_def)
qed (simp_all add: subscribers_ok_def subscriber_keys_unique_def)

section \<open>The trace of an auto-reply\<close>

definition reply_on_record :: "string \<Rightarrow> utc \<Rightarrow> site \<Rightarrow> bool" where
  "reply_on_record addr t s \<longleftrightarrow> subscriber_keys_unique (st_db s) \<and>
     (\<exists>x \<in> set (sd_subscribers (st_db s)). sb_email x = addr \<and>
        (\<exists>r \<in> set (sd_autoreplies (st_db s)). ar_subscriber_id r = sb_id x \<and> ar_status r \<in> {''sent'', ''skipped''}
           \<and> ar_created_at r = t))"

lemma upsert_keeps_record:
  assumes u: "upsert_subscriber e email name role topics (st_db s) = ((sub, created), db1)"
    and rec: "reply_on_record addr t s"
  obtains x r where "x \<in> set (sd_subscribers db1)" "sb_email x = addr" "r \<in> set (sd_autoreplies (st_db s))"
    "ar_subscriber_id r = sb_id x" "ar_status r \<in> {''sent'', ''skipped''}" "ar_created_at r = t"
proof -
  obtain x r where x: "x \<in> set (sd_subscribers (st_db s))" "sb_email x = addr" and
    r: "r \<in> set (sd_autoreplies (st_db s))" "ar_subscriber_id r = sb_id x" "ar_status r \<in> {''sent'', ''skipped''}"
      "ar_created_at r = t"
    using rec by (auto simp: reply_on_record_def)
  have keys: "subscriber_keys_unique (st_db s)" using rec by (simp add: reply_on_record_def)
  show ?thesis
  proof (cases "addr = normalize_email email")
    case True
    then show ?thesis
      using that [of sub r] upsert_row [OF u] upsert_old_rows [OF u keys x(1)] r x(2) by simp
  next
    case False
    then show ?thesis using that [of x r] upsert_old_rows [OF u keys x(1)] r x by simp
  qed
qed

interpretation form_record: form_invariant "\<lambda>_. True" "reply_on_record addr t"
proof unfold_locales
  fix s :: site and e :: site_env and name email role cid
  assume rec: "reply_on_record addr t s"
  obtain topics sub created db1 where u: "upsert_subscriber e email name role topics (st_db s) = ((sub, created), db1)"
    and tp: "topics = (case map_of ROLE_TOPICS role of Some ts \<Rightarrow> ts | None \<Rightarrow> [''general''])"
    by (metis prod.exhaust)
  note kept = upsert_keeps_record [OF u rec]
  note same = upsert_frame [OF u]
  show "reply_on_record addr t (snd (subscribe_and_reply e name email role cid s))"
    using u tp
  proof (cases rule: subscribe_and_reply_cases [where cid = cid])
    case rolled_back
    then show ?thesis using rec by simp
  next
    case (raised exc)
    then show ?thesis using kept same unfolding reply_on_record_def by simp metis
  next
    case (replied status template error ob)
    have "subscriber_keys_unique (record_autoreply e (sb_id sub) cid role template status error db1)"
      using replied(2) by (simp add: subscriber_keys_unique_def)
    then show ?thesis
      using replied kept same unfolding reply_on_record_def record_autoreply_def by simp (metis UnI1 insertI2)
  qed
next
  fix s :: site and e :: site_env and token
  assume rec: "reply_on_record addr t s"
  then have keys: "subscriber_keys_unique (st_db s)" by (simp add: reply_on_record_def)
  have rows: "map (\<lambda>x. (sb_email x, sb_id x)) (sd_subscribers (snd (unsubscribe_by_token e token (st_db s))))
      = map (\<lambda>x. (sb_email x, sb_id x)) (sd_subscribers (st_db s))"
  proof (cases "get_subscriber_by_token (st_db s) token")
    case (Some r)
    have "snd (unsubscribe_by_token e token (st_db s)) = put_subscriber (unsubscribed (se_now e) r) (st_db s)"
      by (simp add: unsubscribe_by_token_def Some Let_def)
    moreover have "sb_id (unsubscribed (se_now e) r) = sb_id r" "sb_email (unsubscribed (se_now e) r) = sb_email r"
      by (simp_all add: unsubscribed_def Let_def)
    moreover have "distinct (map sb_id (sd_subscribers (st_db s)))" using keys by (simp add: subscriber_keys_unique_def)
    ultimately show ?thesis
      using put_subscriber_map [of "st_db s" r "unsubscribed (se_now e) r" "\<lambda>x. (sb_email x, sb_id x)"]
        get_by_token_mem [OF Some] by simp
  qed (simp add: unsubscribe_by_token_def)
  have pairs: "(\<lambda>x. (sb_email x, sb_id x)) ` set (sd_subscribers (snd (unsubscribe_by_token e token (st_db s))))
      = (\<lambda>x. (sb_email x, sb_id x)) ` set (sd_subscribers (st_db s))"
    using arg_cong [OF rows, of set] by simp
  have same: "sd_autoreplies (snd (unsubscribe_by_token e token (st_db s))) = sd_autoreplies (st_db s)"
    by (simp add: unsubscribe_by_token_def Let_def split: option.splits)
  obtain x r where x: "x \<in> set (sd_subscribers (st_db s))" "sb_email x = addr"
    and r: "r \<in> set (sd_autoreplies (st_db s))" "ar_subscriber_id r = sb_id x"
      "ar_status r \<in> {''sent'', ''skipped''}" "ar_created_at r = t"
    using rec by (auto simp: reply_on_record_def)
  have "(addr, sb_id x) \<in> (\<lambda>x. (sb_email x, sb_id x)) ` set (sd_subscribers (snd (unsubscribe_by_token e token (st_db s))))"
    unfolding pairs using x by force
  then obtain y where "y \<in> set (sd_subscribers (snd (unsubscribe_by_token e token (st_db s))))" "sb_email y = addr" "sb_id y = sb_id x"
    by auto
  then show "reply_on_record addr t (s\<lparr>st_db := snd (unsubscribe_by_token e token (st_db s))\<rparr>)"
    using r unsubscribe_keeps_keys [OF keys, of e token] unfolding reply_on_record_def
    by (auto simp: same intro!: bexI [of _ y] bexI [of _ r])
qed (auto simp: reply_on_record_def subscriber_keys_unique_def)

text \<open>While the trace is younger than the cooldown, no form sends an auto-reply to the address.\<close>

lemma record_silences:
  assumes rec: "reply_on_record (normalize_email email) t s" and "se_now e - AUTOREPLY_COOLDOWN \<le> t"
  shows "st_outbox (snd (subscribe_and_reply e name email role cid s)) = st_outbox s"
proof -
  obtain topics sub created db1 where u: "upsert_subscriber e email name role topics (st_db s) = ((sub, created), db1)"
    and tp: "topics = (case map_of ROLE_TOPICS role of Some ts \<Rightarrow> ts | None \<Rightarrow> [''general''])"
    by (metis prod.exhaust)
  have keys: "subscriber_keys_unique (st_db s)" using rec by (simp add: reply_on_record_def)
  obtain x r where x: "x \<in> set (sd_subscribers (st_db s))" "sb_email x = normalize_email email"
    and r: "r \<in> set (sd_autoreplies (st_db s))" "ar_subscriber_id r = sb_id x"
      "ar_status r \<in> {''sent'', ''skipped''}" "ar_created_at r = t"
    using rec by (auto simp: reply_on_record_def)
  have "sb_id x = sb_id sub" using upsert_old_rows [OF u keys x(1)] x(2) by simp
  then have "recent_autoreply_exists (se_now e) AUTOREPLY_COOLDOWN (sb_id sub) db1"
    using r assms(2) unfolding recent_autoreply_exists_def upsert_frame [OF u] list_ex_iff by (intro bexI [of _ r]) auto
  then show ?thesis
    by (cases rule: subscribe_and_reply_cases [OF u tp, of cid]) auto
qed

lemma reply_recorded:
  assumes "subscribe_and_reply e name email role cid s = (Inr (Some sub, status, template, error), s')"
    and "cid \<noteq> ''''" and "se_io e AutoReplyCommit = None"
  shows "reply_on_record (normalize_email email) (se_now e) s'"
proof -
  obtain topics sub' created db1 where u: "upsert_subscriber e email name role topics (st_db s) = ((sub', created), db1)"
    and tp: "topics = (case map_of ROLE_TOPICS role of Some ts \<Rightarrow> ts | None \<Rightarrow> [''general''])"
    by (metis prod.exhaust)
  show ?thesis
    using u tp
  proof (cases rule: subscribe_and_reply_cases [where cid = cid])
    case (replied st tm er ob)
    have "subscriber_keys_unique (record_autoreply e (sb_id sub') cid role tm st er db1)"
      using replied(2) by (simp add: subscriber_keys_unique_def)
    then show ?thesis
      using replied(1,3) assms upsert_row [OF u]
      by (auto simp: reply_on_record_def record_autoreply_def intro!: bexI [of _ sub'])
  qed (use assms in auto)
qed

section \<open>An address that opted out\<close>

definition opted_out :: "string \<Rightarrow> site \<Rightarrow> bool" where
  "opted_out addr s \<longleftrightarrow> subscriber_keys_unique (st_db s) \<and>
     (\<forall>x \<in> set (sd_subscribers (st_db s)). sb_email x = addr \<longrightarrow> sb_unsubscribed_at x \<noteq> None)"

lemma unsubscribed_simps [simp]:
  "sb_email (unsubscribed now r) = sb_email r" "sb_id (unsubscribed now r) = sb_id r"
  "sb_unsubscribe_token (unsubscribed now r) = sb_unsubscribe_token r" "\<exists>t. sb_unsubscribed_at (unsubscribed now r) = Some t"
  by (simp_all add: unsubscribed_def Let_def)

lemma unsubscribed_idem: "unsubscribed t (unsubscribed now r) = unsubscribed now r"
  by (simp add: unsubscribed_def Let_def split: option.splits)

interpretation form_opt_out: form_invariant "\<lambda>a. a \<noteq> addr" "opted_out addr"
proof unfold_locales
  fix s :: site and email and e :: site_env and name role cid
  assume out: "opted_out addr s" and other: "normalize_email email \<noteq> addr"
  obtain topics sub created db1 where u: "upsert_subscriber e email name role topics (st_db s) = ((sub, created), db1)"
    and tp: "topics = (case map_of ROLE_TOPICS role of Some ts \<Rightarrow> ts | None \<Rightarrow> [''general''])"
    by (metis prod.exhaust)
  have "\<forall>x \<in> set (sd_subscribers db1). sb_email x = addr \<longrightarrow> sb_unsubscribed_at x \<noteq> None"
    using out other upsert_new_rows [OF u] upsert_row(2) [OF u] unfolding opted_out_def by metis
  then show "opted_out addr (snd (subscribe_and_reply e name email role cid s))"
    by (cases rule: subscribe_and_reply_cases [OF u tp, of cid])
      (use out in \<open>auto simp: opted_out_def subscriber_keys_unique_def\<close>)
next
  fix s :: site and e :: site_env and token
  assume out: "opted_out addr s"
  then show "opted_out addr (s\<lparr>st_db := snd (unsubscribe_by_token e token (st_db s))\<rparr>)"
    using unsubscribe_keeps_keys [of "st_db s" e token]
    by (auto simp: opted_out_def unsubscribe_by_token_def Let_def dest!: put_subscriber_set split: option.splits)
qed (auto simp: opted_out_def subscriber_keys_unique_def)

lemma unsubscribe_opts_out:
  assumes "subscriber_keys_unique db" and "get_subscriber_by_token db token = Some x"
  shows "opted_out (sb_email x) (s\<lparr>st_db := snd (unsubscribe_by_token e token db)\<rparr>)"
proof -
  have x: "x \<in> set (sd_subscribers db)" using get_by_token_mem [OF assms(2)] .
  have "sb_unsubscribed_at y \<noteq> None"
    if "y \<in> set (sd_subscribers (put_subscriber (unsubscribed (se_now e) x) db))" "sb_email y = sb_email x" for y
  proof (cases "y = unsubscribed (se_now e) x")
    case False
    with that have y: "y \<in> set (sd_subscribers db)" "sb_id y \<noteq> sb_id x"
      by (auto simp: put_subscriber_def update_where_def split: if_splits)
    with that(2) x assms(1) have "y = x" by (auto simp: subscriber_keys_unique_def distinct_map inj_on_def)
    with y show ?thesis by simp
  qed simp
  then show ?thesis
    using unsubscribe_keeps_keys [OF assms(1), of e token]
    by (simp add: opted_out_def unsubscribe_by_token_def assms(2) Let_def)
qed

text \<open>A second click finds the row by the same token and rewrites it to itself.\<close>

lemma unsubscribe_twice:
  assumes keys: "subscriber_keys_unique db"
  shows "snd (unsubscribe_by_token e2 token (snd (unsubscribe_by_token e token db))) = snd (unsubscribe_by_token e token db)"
proof (cases "get_subscriber_by_token db token")
  case (Some x)
  let ?x = "unsubscribed (se_now e) x" and ?db = "put_subscriber (unsubscribed (se_now e) x) db"
  have mem: "x \<in> set (sd_subscribers db)" using get_by_token_mem [OF Some] .
  have d: "distinct (map sb_unsubscribe_token (sd_subscribers ?db))"
    using unsubscribe_keeps_keys [OF keys, of e token]
    by (simp add: unsubscribe_by_token_def Some Let_def subscriber_keys_unique_def)
  have xin: "?x \<in> set (sd_subscribers ?db)" using mem by (force simp: put_subscriber_def update_where_def)
  have tok: "strip token \<noteq> ''''" "sb_unsubscribe_token x = strip token"
    using Some by (auto simp: get_subscriber_by_token_def Let_def dest: find_row_SomeD split: if_splits)
  then have "get_subscriber_by_token ?db token = Some ?x"
    using find_row_distinct [OF d xin] by (simp add: get_subscriber_by_token_def Let_def)
  then show ?thesis
    by (simp add: unsubscribe_by_token_def Some Let_def unsubscribed_idem)
      (simp add: put_subscriber_def update_where_def comp_def)
qed (simp add: unsubscribe_by_token_def)

section \<open>Updates and the limit of an address\<close>

lemma count_rows_mono: "(\<And>r. r \<in> set rows \<Longrightarrow> p r \<Longrightarrow> q r) \<Longrightarrow> count_rows p rows \<le> count_rows q rows"
  unfolding count_rows_def by (induction rows) (auto simp: le_diff_eq)

lemma count_rows_update:
  assumes "\<not> p r"
  shows "count_rows p (update_where q (\<lambda>_. r) rows) \<le> count_rows p rows"
proof -
  have "length (filter p (update_where q (\<lambda>_. r) rows)) \<le> length (filter p rows)"
    unfolding update_where_def by (induction rows) (use assms in auto)
  then show ?thesis by (simp add: count_rows_def)
qed

text \<open>
  A profile that was created before the window: an update of it is let through, and
  leaves no more rows of the address in the window than there were.
\<close>

definition updatable :: "utc \<Rightarrow> string \<Rightarrow> contact_form \<Rightarrow> site \<Rightarrow> bool" where
  "updatable since ip p s \<longleftrightarrow> ip_submission_count ip since (st_db s) < IP_LIMIT
     \<and> (\<exists>r \<in> set (sd_contacts (st_db s)). cr_email r = cf_email p \<and> cr_role r = cf_role p)
     \<and> (\<forall>r \<in> set (sd_contacts (st_db s)). cr_email r = cf_email p \<and> cr_role r = cf_role p \<longrightarrow> cr_created_at r < since)"

lemma subscribe_contacts [simp]:
  "sd_contacts (st_db (snd (subscribe_and_reply e name email role cid s))) = sd_contacts (st_db s)"
proof -
  obtain topics sub created db1 where u: "upsert_subscriber e email name role topics (st_db s) = ((sub, created), db1)"
    and tp: "topics = (case map_of ROLE_TOPICS role of Some ts \<Rightarrow> ts | None \<Rightarrow> [''general''])"
    by (metis prod.exhaust)
  show ?thesis
    by (cases rule: subscribe_and_reply_cases [OF u tp, of cid])
      (simp_all add: upsert_frame [OF u] record_autoreply_def)
qed

lemma add_to_list_contacts [simp]:
  "sd_contacts (st_db (snd (add_to_list e r name email role s))) = sd_contacts (st_db s)"
  using subscribe_contacts [of e name email role "cr_id r" s]
  by (auto simp: add_to_list_def simp del: subscribe_contacts split: prod.splits sum.splits)

lemma notify_contacts [simp]: "sd_contacts (st_db (snd (notify_contact e r p s))) = sd_contacts (st_db s)"
  by (auto simp: notify_contact_def Let_def save_notification_def split: prod.splits option.splits sum.splits)

lemma subscribe_no_crash:
  assumes "se_io e CooldownRead = None"
  shows "\<exists>a. fst (subscribe_and_reply e name email role cid s) = Inr a"
proof -
  obtain topics sub created db1 where u: "upsert_subscriber e email name role topics (st_db s) = ((sub, created), db1)"
    and tp: "topics = (case map_of ROLE_TOPICS role of Some ts \<Rightarrow> ts | None \<Rightarrow> [''general''])"
    by (metis prod.exhaust)
  show ?thesis
    using assms unfolding subscribe_and_reply_def tp [symmetric] by (simp add: u Let_def split: prod.splits)
qed

lemma update_admitted:
  assumes raw: "read_contact raw = Some p" and up: "updatable since ip p s"
    and now: "since \<le> se_now e - WINDOW" and io: "se_io e = no_faults"
  shows "isl (fst (submit_contact e raw True ip s)) = False \<and> updatable since ip p (snd (submit_contact e raw True ip s))"
proof -
  let ?db = "st_db s"
  obtain r where r: "latest_contact (cf_email p) (cf_role p) ?db = Some r"
    and rin: "r \<in> set (sd_contacts ?db)" "cr_email r = cf_email p" "cr_role r = cf_role p"
  proof -
    let ?xs = "sort_key (\<lambda>r. - cr_created_at r) (filter (\<lambda>r. cr_email r = cf_email p \<and> cr_role r = cf_role p) (sd_contacts ?db))"
    have "?xs \<noteq> []" using up by (auto simp: updatable_def filter_empty_conv simp flip: set_empty)
    then have "hd ?xs \<in> set ?xs" by (rule hd_in_set)
    then show ?thesis using that [of "hd ?xs"] \<open>?xs \<noteq> []\<close> by (auto simp: latest_contact_def split: list.splits)
  qed
  have "ip_submission_count ip (se_now e - WINDOW) ?db \<le> ip_submission_count ip since ?db"
    unfolding ip_submission_count_def using now by (intro count_rows_mono) auto
  then have free: "ip_submission_count ip (se_now e - WINDOW) ?db < IP_LIMIT" using up by (simp add: updatable_def)
  define r' where "r' = r\<lparr>cr_name := cf_name p, cr_data := dump_fields (cf_fields p), cr_ip_address := ip,
     cr_updated_at := Some (se_now e)\<rparr>"
  let ?s1 = "s\<lparr>st_db := put_contact r' ?db\<rparr>"
  obtain a s2 where n: "notify_contact e r' p ?s1 = (a, s2)" by fastforce
  have a: "a = Inr ()" using n io by (auto simp: notify_contact_def Let_def split: prod.splits)
  have run: "submit_contact e raw True ip s = add_to_list e r' (cf_name p) (cf_email p) (cf_role p) s2"
    using free io by (simp add: submit_contact_def raw Let_def r enforce_ip_rate_limit_def r'_def [symmetric] n a)
  have "\<not> isl (fst (submit_contact e raw True ip s))"
    using subscribe_no_crash [of e "cf_name p" "cf_email p" "cf_role p" "cr_id r'" s2] io
    unfolding run add_to_list_def by (auto split: prod.splits sum.splits)
  moreover have "updatable since ip p (snd (submit_contact e raw True ip s))"
  proof -
    have c: "sd_contacts (st_db (snd (submit_contact e raw True ip s))) = sd_contacts (put_contact r' ?db)"
      using notify_contacts [of e r' p ?s1] unfolding run by (simp add: n)
    have old: "cr_created_at r < since" using up rin by (auto simp: updatable_def)
    have "ip_submission_count ip since (put_contact r' ?db) \<le> ip_submission_count ip since ?db"
      unfolding ip_submission_count_def put_contact_def using old by (simp add: count_rows_update r'_def)
    moreover have "r' \<in> set (sd_contacts (put_contact r' ?db))"
      using rin(1) by (force simp: put_contact_def update_where_def r'_def)
    ultimately show ?thesis
      using up rin old unfolding updatable_def c
      by (auto simp: ip_submission_count_def c put_contact_def update_where_def r'_def split: if_splits intro!: bexI [of _ r'])
  qed
  ultimately show ?thesis by simp
qed

section \<open>Properties\<close>

text \<open>A request that works, on an empty site.\<close>

definition plain_env :: "utc \<Rightarrow> site_env" where
  "plain_env now = \<lparr>se_now = now, se_env = (\<lambda>_. None), se_deployment = default_deployment,
     se_uuid = (\<lambda>p. case p of NewContact \<Rightarrow> ''c1'' | NewNotification \<Rightarrow> ''n1'' | NewSubscriber \<Rightarrow> ''s1''
                     | NewToken \<Rightarrow> ''t1'' | RotatedToken \<Rightarrow> ''t2'' | NewAutoReply \<Rightarrow> ''a1''),
     se_io = no_faults, se_post = (\<lambda>_. None)\<rparr>"

lemma plain_env_simps [simp]:
  "se_io (plain_env t) = no_faults" "se_now (plain_env t) = t" "se_post (plain_env t) m = None"
  "se_env (plain_env t) v = None"
  by (simp_all add: plain_env_def)

definition empty_state :: site where
  "empty_state = \<lparr>st_db = empty_site, st_outbox = []\<rparr>"

definition sample_signup :: signup_form where
  "sample_signup = \<lparr>sf_name = ''Ada'', sf_email = ''a@b.co'', sf_company = '''', sf_role = ''student''\<rparr>"

definition sample_subscriber :: subscriber where
  "sample_subscriber = \<lparr>sb_id = ''s1'', sb_email = ''a@b.co'', sb_name = ''Ada'', sb_topics = ''edu|general'',
     sb_source_role = ''student'', sb_unsubscribe_token = ''t1'', sb_opted_in_at = 0, sb_unsubscribed_at = None,
     sb_updated_at = 0\<rparr>"

definition sample_state :: site where
  "sample_state = \<lparr>st_db = empty_site\<lparr>sd_subscribers := [sample_subscriber]\<rparr>, st_outbox = []\<rparr>"

text \<open>
  Over any sequence of form requests, signups and unsubscribe clicks the subscriber table
  has one row per normalized address and per token; a row that opted out keeps no
  profile, and an active row has topics.
\<close>

theorem subscriber_table_well_formed:
  assumes "subscribers_ok (st_db s)"
  shows "subscribers_ok (st_db (run_site steps s))"
  using assms by (rule form_shape.run_site_inv) (simp add: option.pred_set)

theorem subscriber_table_well_formed_witness:
  "subscribers_ok (st_db (run_site [NewsletterSignup (plain_env 0) sample_signup ''203.0.113.9'',
     UnsubscribeClick (plain_env 1) ''t1''] empty_state))"
  by (rule subscriber_table_well_formed)
    (simp add: subscribers_ok_def subscriber_keys_unique_def empty_state_def empty_site_def)

text \<open>C30: 
  A click on a known token takes its address off every send, whatever other requests
  follow, until the address itself is submitted again; a second click changes nothing.
\<close>

theorem unsubscribed_stays_off:
  assumes "subscribers_ok (st_db s)" and "get_subscriber_by_token (st_db s) token = Some x"
    and "length token \<le> 128" and "se_io e UnsubscribeCommit = None"
    and "\<forall>st \<in> set steps. step_address st \<noteq> Some (sb_email x)"
  defines "s1 \<equiv> site_do (UnsubscribeClick e token) s"
  shows "sb_email x \<notin> sb_email ` set (active_subscribers None (st_db (run_site steps s1)))
    \<and> (se_io e2 UnsubscribeCommit = None \<longrightarrow> site_do (UnsubscribeClick e2 token) s1 = s1)"
proof -
  have keys: "subscriber_keys_unique (st_db s)" using assms(1) by (simp add: subscribers_ok_def)
  have tok: "strip token \<noteq> ''''" using assms(2) by (auto simp: get_subscriber_by_token_def Let_def split: if_splits)
  have click: "snd (unsubscribe_request e' token s') = s'\<lparr>st_db := snd (unsubscribe_by_token e' token (st_db s'))\<rparr>"
    if "se_io e' UnsubscribeCommit = None" for e' and s' :: site
    using that tok assms(3)
    by (simp add: unsubscribe_request_def unsubscribe_by_token_def get_subscriber_by_token_def Let_def split: prod.splits)
  have s1: "s1 = s\<lparr>st_db := snd (unsubscribe_by_token e token (st_db s))\<rparr>"
    unfolding s1_def using click [OF assms(4)] by simp
  have "opted_out (sb_email x) s1" unfolding s1 using unsubscribe_opts_out [OF keys assms(2)] .
  then have "opted_out (sb_email x) (run_site steps s1)"
    by (rule form_opt_out.run_site_inv) (use assms(5) in \<open>auto simp: pred_option_def\<close>)
  moreover have "site_do (UnsubscribeClick e2 token) s1 = s1" if "se_io e2 UnsubscribeCommit = None"
    using click [OF that, of s1] unsubscribe_twice [OF keys, of e2 token e] by (simp add: s1)
  ultimately show ?thesis by (auto simp: opted_out_def active_subscribers_def)
qed

theorem unsubscribed_stays_off_witness:
  "''a@b.co'' \<notin> sb_email ` set (active_subscribers None (st_db (run_site
     [SubmitContact (plain_env 2) \<lparr>cf_role = ''student'', cf_name = ''B'', cf_email = ''c@d.co'', cf_fields = []\<rparr> False ''ip'']
     (site_do (UnsubscribeClick (plain_env 1) ''t1'') sample_state))))"
  using unsubscribed_stays_off [of sample_state "''t1''" sample_subscriber "plain_env 1"
     "[SubmitContact (plain_env 2) \<lparr>cf_role = ''student'', cf_name = ''B'', cf_email = ''c@d.co'', cf_fields = []\<rparr> False ''ip'']"
     "plain_env 3"]
  by (simp add: sample_state_def sample_subscriber_def empty_site_def subscribers_ok_def subscriber_keys_unique_def
      subscriber_row_ok_def get_subscriber_by_token_def strip_def lstrip_def is_space_def plain_env_def
      normalize_email_def lower_def lower_char_def clean_text_def is_control_def)

text \<open>
  After an auto-reply attempt that was recorded, with whatever outcome, no form sends
  another auto-reply to the address for seven days, whatever requests come in between.
  The outcome does not matter: a mail that failed in transport is recorded as skipped
  and silences the address as well, and so does each suppressed attempt in its turn.
\<close>

theorem auto_reply_cooldown:
  assumes "subscribe_and_reply e name email role cid s = (Inr (Some sub, status, template, error), s1)"
    and "cid \<noteq> ''''" and "se_io e AutoReplyCommit = None"
    and "normalize_email email2 = normalize_email email"
    and "se_now e2 \<le> se_now e + AUTOREPLY_COOLDOWN"
  shows "st_outbox (snd (subscribe_and_reply e2 name2 email2 role2 cid2 (run_site steps s1))) = st_outbox (run_site steps s1)"
proof -
  have "reply_on_record (normalize_email email) (se_now e) (run_site steps s1)"
    by (rule form_record.run_site_inv [OF reply_recorded [OF assms(1-3)]]) (simp add: option.pred_set)
  then show ?thesis using record_silences [of email2 "se_now e" "run_site steps s1" e2] assms(4,5) by simp
qed

theorem auto_reply_cooldown_witness:
  "\<exists>s1. st_outbox (snd (subscribe_and_reply (plain_env (days 7)) ''Bob'' ''A@B.co '' ''student'' '''' (run_site [] s1)))
     = st_outbox (run_site [] s1)"
proof -
  have u: "\<exists>sub created db1. upsert_subscriber (plain_env 0) ''a@b.co'' ''Ada'' ''student'' [''general'', ''edu''] empty_site
      = ((sub, created), db1) \<and> subscriber_keys_unique db1"
    by (auto simp: upsert_subscriber_def get_subscriber_by_email_def empty_site_def Let_def subscriber_keys_unique_def)
  then obtain sub created db1 where
    u: "upsert_subscriber (plain_env 0) ''a@b.co'' ''Ada'' ''student'' [''general'', ''edu''] (st_db empty_state)
      = ((sub, created), db1)" and keys: "subscriber_keys_unique db1"
    by (auto simp: empty_state_def)
  have "\<exists>status template error s1. subscribe_and_reply (plain_env 0) ''Ada'' ''a@b.co'' ''student'' ''c1'' empty_state
      = (Inr (Some sub, status, template, error), s1)"
    unfolding subscribe_and_reply_def using u keys by (simp add: ROLE_TOPICS_def Let_def split: prod.splits)
  then obtain status template error s1 where
    "subscribe_and_reply (plain_env 0) ''Ada'' ''a@b.co'' ''student'' ''c1'' empty_state
      = (Inr (Some sub, status, template, error), s1)" by blast
  moreover have "normalize_email ''A@B.co '' = normalize_email ''a@b.co''"
    by code_simp
  ultimately show ?thesis
    using auto_reply_cooldown [of "plain_env 0" "''Ada''" "''a@b.co''" "''student''" "''c1''" empty_state sub status template
        error s1 "''A@B.co ''" "plain_env (days 7)" "''Bob''" "''student''" "''''" "[]"]
    by (auto simp: AUTOREPLY_COOLDOWN_def)
qed

text \<open>
  Behind a proxy that appends the peer to the header it received, the address a request
  counts against is the first word the caller wrote into that header.
\<close>

theorem forwarded_address_is_the_callers_choice:
  assumes "host \<in> set TRUSTED_PROXY_HOSTS" and "CHR '','' \<notin> set h" and "strip h \<noteq> ''''"
  shows "client_ip (Some host) (Some (h @ '', '' @ peer)) = take 128 (strip h)"
  using assms by (simp add: client_ip_def Let_def split_on_append)

theorem forwarded_address_is_the_callers_choice_witness:
  "client_ip (Some ''127.0.0.1'') (Some (''198.51.100.1'' @ '', '' @ ''203.0.113.9'')) = ''198.51.100.1''"
  using forwarded_address_is_the_callers_choice [of "''127.0.0.1''" "''198.51.100.1''" "''203.0.113.9''"]
  by (simp add: TRUSTED_PROXY_HOSTS_def strip_def lstrip_def is_space_def)

text \<open>
  Updates of a profile older than a day never reach the limit of the address they come
  from: any number of them is let through, each with a mail to the operator.
\<close>

theorem updates_escape_the_limit:
  assumes "read_contact raw = Some p" and "updatable since ip p s"
    and "\<forall>e \<in> set es. since \<le> se_now e - WINDOW \<and> se_io e = no_faults"
  shows "\<not> list_ex isl (fst (serve (\<lambda>e. submit_contact e raw True ip) es s))"
  using assms(2,3)
proof (induction es arbitrary: s)
  case (Cons e es)
  obtain a s1 where s1: "submit_contact e raw True ip s = (a, s1)" by fastforce
  have "isl a = False \<and> updatable since ip p s1"
    using update_admitted [OF assms(1) Cons.prems(1), of e] Cons.prems(2) s1 by simp
  then show ?case using Cons.IH [of s1] Cons.prems(2) s1 by (auto split: prod.splits)
qed simp

definition sample_form :: contact_form where
  "sample_form = \<lparr>cf_role = ''student'', cf_name = ''Ada'', cf_email = ''a@b.co'', cf_fields = []\<rparr>"

definition sample_contact :: contact_record where
  "sample_contact = \<lparr>cr_id = ''c0'', cr_role = ''student'', cr_name = ''Ada'', cr_email = ''a@b.co'', cr_data = ''{}'',
     cr_ip_address = ''203.0.113.9'', cr_created_at = 0, cr_updated_at = None\<rparr>"

theorem updates_escape_the_limit_witness:
  "\<not> list_ex isl (fst (serve (\<lambda>e. submit_contact e sample_form True ''203.0.113.9'')
     (replicate 20 (plain_env (days 2))) \<lparr>st_db = empty_site\<lparr>sd_contacts := [sample_contact]\<rparr>, st_outbox = []\<rparr>))"
proof -
  have "read_contact sample_form = Some (sample_form\<lparr>cf_fields :=
      [(''learning_topics'', FList []), (''experience_level'', FText ''''), (''format_preferences'', FList []),
       (''learning_notes'', FText '''')]\<rparr>)"
    by (simp add: read_contact_def sample_form_def payload_fields_def valid_email_def inner_dot_def clean_text_def
        is_control_def strip_def lstrip_def is_space_def lower_def lower_char_def)
  then show ?thesis
    by (rule updates_escape_the_limit [where since = "days 1"])
      (auto simp: updatable_def ip_submission_count_def count_rows_def sample_contact_def sample_form_def empty_site_def
        days_def day_us_def WINDOW_def hours_def IP_LIMIT_def)
qed

text \<open>
  Every auto-reply offers its unsubscribe link in both parts, and greets with the first
  word of the submitted name exactly as it was typed, markup included.
\<close>

theorem auto_reply_links_and_greeting:
  "contains (unsubscribe_url env dc token) (rp_html (compose_auto_reply env dc role name token))
   \<and> contains (unsubscribe_url env dc token) (rp_plain (compose_auto_reply env dc role name token))
   \<and> contains (''<p>Hi '' @ first_name name @ '',</p>'') (rp_html (compose_auto_reply env dc role name token))"
proof -
  have "compose_auto_reply env dc role name token \<in> templates env dc (first_name name) (unsubscribe_url env dc token)"
    by (simp add: compose_auto_reply_def templates_def Let_def)
  then show ?thesis by (rule template_links)
qed

end
