(* ===== verification/NewsletterSafety.thy ===== *)
theory NewsletterSafety
  imports NewsletterDispatch SiteForms
begin

text \<open>
  What the newsletter keeps over any sequence of operations. The life of an issue is an
  abstract machine on statuses and the log of mails (\<open>life_step\<close>); every operation of the
  code refines it, whatever commits fail, and what is proved of the machine holds of the
  newsletter: an issue reaches a subscriber once at most.
\<close>

section \<open>Operations\<close>

datatype news_op =
    CreateIssue news_env "utc option" string string
  | AssignFind string "string option"
  | AutoPopulate news_env string int
  | Compose news_env int bool
  | EditIssue news_env string string "string option"
  | Approve news_env string string "utc option"
  | CancelSend news_env string
  | DeleteIssue string string
  | Unpublish news_env string
  | Distribute render_env string string
  | DispatchDue render_env
  | CycleTick news_env
  | FormRequest site_step
  | QueueChange "discovery_db \<Rightarrow> discovery_db"

fun news_do :: "news_op \<Rightarrow> news \<Rightarrow> news" where
  "news_do (CreateIssue e target subject nts) s = snd (create_empty_issue e target subject nts s)"
| "news_do (AssignFind f i) s = snd (assign_find_to_issue f i s)"
| "news_do (AutoPopulate e i w) s = snd (auto_populate_draft e i w s)"
| "news_do (Compose e period force) s = snd (compose_pending_issue e period force s)"
| "news_do (EditIssue e i text subject) s = snd (update_editorial e i text subject s)"
| "news_do (Approve e i who when) s = snd (approve_and_schedule e i who when s)"
| "news_do (CancelSend e i) s = snd (cancel_scheduled_send e i s)"
| "news_do (DeleteIssue i who) s = snd (delete_issue i who s)"
| "news_do (Unpublish e i) s = snd (unpublish_issue e i s)"
| "news_do (Distribute r i who) s = snd (approve_and_distribute r i who s)"
| "news_do (DispatchDue r) s = snd (snd (dispatch_scheduled_issues r s))"
| "news_do (CycleTick e) s = snd (run_scheduled_cycle e s)"
| "news_do (FormRequest st) s = s\<lparr>nw_site := site_do st (nw_site s)\<rparr>"
| "news_do (QueueChange q) s = set_disc (q (nw_disc s)) s"

text \<open>
  An operation runs alone when no other session commits to the issue table between its
  read and its commit, and \<open>uuid4\<close> gives it an id that was not used before.
\<close>

fun op_env :: "news_op \<Rightarrow> news_env option" where
  "op_env (CreateIssue e target subject nts) = Some e"
| "op_env (AutoPopulate e i w) = Some e"
| "op_env (Compose e period force) = Some e"
| "op_env (EditIssue e i text subject) = Some e"
| "op_env (Approve e i who when) = Some e"
| "op_env (CancelSend e i) = Some e"
| "op_env (Unpublish e i) = Some e"
| "op_env (Distribute r i who) = Some (re_news r)"
| "op_env (DispatchDue r) = Some (re_news r)"
| "op_env (CycleTick e) = Some e"
| "op_env op = None"

definition alone :: "news_env \<Rightarrow> bool" where
  "alone e \<longleftrightarrow> ne_others e = (\<lambda>k xs. xs)"

definition op_alone :: "news_op \<Rightarrow> news \<Rightarrow> bool" where
  "op_alone op s \<longleftrightarrow> pred_option (\<lambda>e. alone e \<and> ne_issue_id e \<notin> fst ` set (nw_sent s)) (op_env op)"

fun runs_alone :: "news_op list \<Rightarrow> news \<Rightarrow> bool" where
  "runs_alone [] s = True"
| "runs_alone (op # ops) s = (op_alone op s \<and> runs_alone ops (news_do op s))"

definition run_news :: "news_op list \<Rightarrow> news \<Rightarrow> news" where
  "run_news ops s = fold news_do ops s"

section \<open>The life of an issue\<close>

type_synonym life_state = "(string \<Rightarrow> issue_status option) \<times> (string \<times> string) list"

inductive life_step :: "life_state \<Rightarrow> life_state \<Rightarrow> bool" where
  born: "m i = None \<Longrightarrow> i \<notin> fst ` set out \<Longrightarrow> st \<in> {Draft, AwaitingApproval, Skipped} \<Longrightarrow>
    life_step (m, out) (m(i \<mapsto> st), out)"
| approved: "m i = Some Draft \<or> m i = Some AwaitingApproval \<Longrightarrow> life_step (m, out) (m(i \<mapsto> Approved), out)"
| withdrawn: "m i = Some Approved \<Longrightarrow> life_step (m, out) (m(i \<mapsto> AwaitingApproval), out)"
| mailed: "m i = Some Approved \<Longrightarrow> distinct sids \<Longrightarrow> st \<in> {Sending, Sent} \<Longrightarrow>
    life_step (m, out) (m(i \<mapsto> st), out @ map (Pair i) sids)"
| removed: "m i \<noteq> None \<Longrightarrow> life_step (m, out) (m(i := None), out)"

inductive_cases life_stepE: "life_step (m, out) t"

abbreviation life_steps :: "life_state \<Rightarrow> life_state \<Rightarrow> bool" where
  "life_steps \<equiv> life_step\<^sup>*\<^sup>*"

definition life_of :: "news \<Rightarrow> string \<Rightarrow> issue_status option" where
  "life_of s i = map_option ni_status (issue_by_id i s)"

definition life :: "news \<Rightarrow> life_state" where
  "life s = (life_of s, nw_sent s)"

text \<open>An issue in the mail log never goes back to a status it could be mailed from.\<close>

definition mailed_once :: "life_state \<Rightarrow> bool" where
  "mailed_once t \<longleftrightarrow> distinct (snd t) \<and> (\<forall>i \<in> fst ` set (snd t). fst t i \<in> {None, Some Sending, Some Sent})"

lemma life_step_mailed_once: "life_step t t' \<Longrightarrow> mailed_once t \<Longrightarrow> mailed_once t'"
  by (induction rule: life_step.induct) (auto simp: mailed_once_def distinct_map inj_on_def)

lemma life_steps_mailed_once: "life_steps t t' \<Longrightarrow> mailed_once t \<Longrightarrow> mailed_once t'"
  by (induction rule: rtranclp_induct) (auto intro: life_step_mailed_once)

text \<open>What has begun to be sent stays so until it is deleted.\<close>

definition begun :: "issue_status option \<Rightarrow> bool" where
  "begun st \<longleftrightarrow> st = Some Sending \<or> st = Some Sent \<or> st = None"

section \<open>Rows\<close>

lemma issue_by_id_update:
  "(\<And>x. ni_id (f x) = ni_id x) \<Longrightarrow>
     issue_by_id i (update_issues p f s) = map_option (\<lambda>x. if p x then f x else x) (issue_by_id i s)"
  by (simp add: issue_by_id_def find_row_update_where)

lemma life_update:
  assumes "\<And>x. ni_id (f x) = ni_id x"
  shows "life_of (update_issues (\<lambda>x. ni_id x = i \<and> p x) f s) =
    (case issue_by_id i s of None \<Rightarrow> life_of s
       | Some x \<Rightarrow> if p x then (life_of s)(i \<mapsto> ni_status (f x)) else life_of s)"
proof
  fix j
  show "life_of (update_issues (\<lambda>x. ni_id x = i \<and> p x) f s) j = (case issue_by_id i s of None \<Rightarrow> life_of s
       | Some x \<Rightarrow> if p x then (life_of s)(i \<mapsto> ni_status (f x)) else life_of s) j"
  proof (cases "j = i")
    case True
    then show ?thesis
      by (cases "issue_by_id i s") (auto simp: life_of_def issue_by_id_update assms dest: issue_by_id_SomeD)
  next
    case False
    then show ?thesis
      by (cases "issue_by_id j s"; cases "issue_by_id i s")
        (auto simp: life_of_def issue_by_id_update assms dest: issue_by_id_SomeD)
  qed
qed

lemma life_change:
  "(\<And>x. ni_id (f x) = ni_id x) \<Longrightarrow> life_of (change_issue i f s) =
    (case issue_by_id i s of None \<Rightarrow> life_of s | Some x \<Rightarrow> (life_of s)(i \<mapsto> ni_status (f x)))"
  using life_update [of f i "\<lambda>_. True" s] by (simp add: change_issue_def split: option.splits)

lemma life_change_same:
  "(\<And>x. ni_id (f x) = ni_id x) \<Longrightarrow> (\<And>x. ni_status (f x) = ni_status x) \<Longrightarrow> life_of (change_issue i f s) = life_of s"
  by (auto simp: life_change life_of_def fun_eq_iff split: option.splits)

lemma life_of_cong: "nw_issues s = nw_issues s' \<Longrightarrow> life_of s = life_of s'"
  by (simp add: life_of_def issue_by_id_def fun_eq_iff)

lemma guarded_update_hit:
  assumes "distinct (map ni_id (nw_issues s))"
  shows "fst (guarded_update i p f s) \<longleftrightarrow> (\<exists>x. issue_by_id i s = Some x \<and> p x)"
proof -
  have "issue_by_id i s = Some x" if "x \<in> set (nw_issues s)" "ni_id x = i" for x
    using that assms unfolding issue_by_id_def by (metis find_row_distinct)
  then show ?thesis by (auto simp: guarded_update_def list_ex_iff dest: issue_by_id_SomeD)
qed

section \<open>Refinement, operation by operation\<close>

definition news_wf :: "news \<Rightarrow> bool" where
  "news_wf s \<longleftrightarrow> issue_keys_unique (nw_issues s) \<and> subscribers_ok (st_db (nw_site s))"

definition refines :: "news \<Rightarrow> news \<Rightarrow> bool" where
  "refines s s' \<longleftrightarrow> life_steps (life s) (life s')"

lemma refines_refl [intro, simp]: "refines s s"
  by (simp add: refines_def)

lemma refines_trans: "refines s t \<Longrightarrow> refines t u \<Longrightarrow> refines s u"
  by (simp add: refines_def)

lemma refines_same: "life_of s' = life_of s \<Longrightarrow> nw_sent s' = nw_sent s \<Longrightarrow> refines s s'"
  by (simp add: refines_def life_def)

lemma refines_step: "life_step (life s) (life s') \<Longrightarrow> refines s s'"
  by (simp add: refines_def)

lemma wf_ids: "news_wf s \<Longrightarrow> distinct (map ni_id (nw_issues s))"
  by (simp add: news_wf_def issue_keys_unique_def)

lemma add_issue_life:
  assumes "distinct (map ni_id (nw_issues s @ [x]))"
  shows "life_of s (ni_id x) = None" "life_of (add_issue x s) = (life_of s)(ni_id x \<mapsto> ni_status x)"
proof -
  show n: "life_of s (ni_id x) = None"
    using assms by (auto simp: life_of_def issue_by_id_def find_row_None_iff)
  show "life_of (add_issue x s) = (life_of s)(ni_id x \<mapsto> ni_status x)"
    using n by (auto simp: life_of_def issue_by_id_def find_row_append fun_eq_iff split: option.splits)
qed

lemma add_issue_refines:
  assumes "issue_keys_unique (nw_issues s @ [x])" and "ni_id x \<notin> fst ` set (nw_sent s)"
    and "ni_status x \<in> {Draft, AwaitingApproval, Skipped}"
  shows "refines s (add_issue x s)"
  using add_issue_life [of s x] assms
  by (intro refines_step) (auto simp: life_def issue_keys_unique_def intro!: life_step.born)

lemma create_loop_cases:
  assumes "alone e"
  shows "(\<exists>err. create_loop e t ttl nts k n s = (Inl err, s))
    \<or> (issue_keys_unique (nw_issues s @ [draft_issue e t ttl nts (nw_issues s)])
        \<and> create_loop e t ttl nts k n s = (Inr (draft_issue e t ttl nts (nw_issues s)), add_issue (draft_issue e t ttl nts (nw_issues s)) s))"
  using assms by (induction n arbitrary: k) (auto simp: alone_def Let_def)

lemma draft_issue_simps [simp]:
  "ni_id (draft_issue e t ttl nts xs) = ne_issue_id e" "ni_status (draft_issue e t ttl nts xs) = Draft"
  "ni_display_label (draft_issue e t ttl nts xs) = next_display_label xs" "ni_ship_number (draft_issue e t ttl nts xs) = None"
  by (simp_all add: draft_issue_def Let_def)

lemma create_cases:
  assumes "alone e"
  obtains (failed) err where "create_empty_issue e t ttl nts s = (Inl err, s)"
  | (made) x where "create_empty_issue e t ttl nts s = (Inr x, add_issue x s)" "issue_keys_unique (nw_issues s @ [x])"
      "ni_id x = ne_issue_id e" "ni_status x = Draft" "ni_ship_number x = None" "ni_display_label x = next_display_label (nw_issues s)"
  using create_loop_cases [OF assms] unfolding create_empty_issue_def by (metis draft_issue_simps)

lemma create_refines: "alone e \<Longrightarrow> ne_issue_id e \<notin> fst ` set (nw_sent s) \<Longrightarrow> refines s (snd (create_empty_issue e t ttl nts s))"
  by (rule create_cases [of e t ttl nts s]) (simp_all add: add_issue_refines)

lemma composed_issue_simps [simp]:
  "ni_id (composed_issue e d skip s) = ne_issue_id e" "ni_ship_number (composed_issue e d skip s) = None"
  "ni_status (composed_issue e d skip s) = (if skip then Skipped else AwaitingApproval)"
  "ni_display_label (composed_issue e d skip s) = next_display_label (nw_issues s)"
  by (simp_all add: composed_issue_def Let_def)

lemma compose_cases:
  assumes "alone e"
  obtains (failed) err where "compose_pending_issue e d force s = (Inl err, s)"
  | (made) x b where "compose_pending_issue e d force s = (Inr (x, b), add_issue x s)" "issue_keys_unique (nw_issues s @ [x])"
      "ni_id x = ne_issue_id e" "ni_status x \<in> {AwaitingApproval, Skipped}" "ni_ship_number x = None"
      "ni_display_label x = next_display_label (nw_issues s)"
proof -
  let ?skip = "pending_find_dicts s = [] \<and> \<not> force" let ?x = "composed_issue e d ?skip s"
  have c: "compose_pending_issue e d force s =
      (if issue_keys_unique (nw_issues s @ [?x]) then (Inr (?x, \<not> ?skip), add_issue ?x s) else (Inl (Raised ''IntegrityError''), s))"
    using assms by (simp add: compose_pending_issue_def alone_def Let_def)
  show ?thesis
  proof (cases "issue_keys_unique (nw_issues s @ [?x])")
    case True
    show ?thesis by (rule made [of ?x "\<not> ?skip"]) (use c True in simp_all)
  next
    case False
    show ?thesis by (rule failed) (use c False in simp)
  qed
qed

lemma compose_refines:
  "alone e \<Longrightarrow> ne_issue_id e \<notin> fst ` set (nw_sent s) \<Longrightarrow> refines s (snd (compose_pending_issue e d force s))"
  by (rule compose_cases [of e d force s]) (simp_all add: add_issue_refines)

lemma set_disc_frame [simp]:
  "nw_issues (set_disc d s) = nw_issues s" "nw_sent (set_disc d s) = nw_sent s" "nw_site (set_disc d s) = nw_site s"
  "nw_posts (set_disc d s) = nw_posts s"
  by (simp_all add: set_disc_def)

lemma set_finds_frame [simp]:
  "nw_issues (set_finds f s) = nw_issues s" "nw_sent (set_finds f s) = nw_sent s" "nw_site (set_finds f s) = nw_site s"
  "nw_posts (set_finds f s) = nw_posts s"
  by (simp_all add: set_finds_def)

lemma set_deliveries_frame [simp]:
  "nw_issues (set_deliveries f s) = nw_issues s" "nw_sent (set_deliveries f s) = nw_sent s" "nw_disc (set_deliveries f s) = nw_disc s"
  "sd_subscribers (st_db (nw_site (set_deliveries f s))) = sd_subscribers (st_db (nw_site s))"
  "nw_posts (set_deliveries f s) = nw_posts s" "st_outbox (nw_site (set_deliveries f s)) = st_outbox (nw_site s)"
  by (simp_all add: set_deliveries_def)

lemma same_rows_refine: "nw_issues s' = nw_issues s \<Longrightarrow> nw_sent s' = nw_sent s \<Longrightarrow> refines s s'"
  by (intro refines_same life_of_cong) simp_all

lemma assign_frame:
  "nw_issues (snd (assign_find_to_issue f i s)) = nw_issues s" "nw_sent (snd (assign_find_to_issue f i s)) = nw_sent s"
  "nw_site (snd (assign_find_to_issue f i s)) = nw_site s"
  by (auto simp: assign_find_to_issue_def Let_def split: option.splits)

lemma auto_populate_frame:
  "nw_issues (snd (auto_populate_draft e i w s)) = nw_issues s" "nw_sent (snd (auto_populate_draft e i w s)) = nw_sent s"
  "nw_site (snd (auto_populate_draft e i w s)) = nw_site s"
  by (simp_all add: auto_populate_draft_def Let_def)

lemma edit_refines: "refines s (snd (update_editorial e i text subject s))"
  by (auto simp: update_editorial_def Let_def life_change_same intro!: refines_same split: option.splits)

text \<open>A guarded \<open>UPDATE\<close> is a step of the machine when its target is.\<close>

lemma guarded_refines:
  assumes "\<And>x. ni_id (f x) = ni_id x"
    and "\<And>x m. p x \<Longrightarrow> m i = Some (ni_status x) \<Longrightarrow> life_step (m, nw_sent s) (m(i \<mapsto> ni_status (f x)), nw_sent s)"
  shows "refines s (snd (guarded_update i p f s))"
proof (cases "issue_by_id i s")
  case None
  then show ?thesis using assms(1) by (intro refines_same) (simp_all add: guarded_update_def life_update)
next
  case (Some x)
  show ?thesis
  proof (cases "p x")
    case True
    have "life_of s i = Some (ni_status x)" by (simp add: life_of_def Some)
    from assms(2) [of x "life_of s", OF True this] show ?thesis
      using True Some assms(1) by (intro refines_step) (simp add: life_def guarded_update_def life_update)
  next
    case False
    then show ?thesis using Some assms(1) by (intro refines_same) (simp_all add: guarded_update_def life_update)
  qed
qed

lemma approve_state:
  "snd (approve_and_schedule e i who when s) = snd (guarded_update i (\<lambda>x. ni_status x = Draft \<or> ni_status x = AwaitingApproval)
     (\<lambda>x. x\<lparr>ni_status := Approved, ni_approved_by := str_or who ''admin'', ni_approved_at := Some (ne_now e),
       ni_scheduled_send_at := Some (case when of None \<Rightarrow> ne_now e + DEFAULT_SCHEDULE_DELAY
         | Some t \<Rightarrow> if t \<le> ne_now e then ne_now e + DEFAULT_SCHEDULE_DELAY else t), ni_updated_at := ne_now e\<rparr>) s)"
  by (auto simp: approve_and_schedule_def Let_def split: prod.splits option.splits)

lemma approve_refines: "refines s (snd (approve_and_schedule e i who when s))"
  unfolding approve_state by (rule guarded_refines) (auto intro: life_step.approved)

lemma cancel_state:
  "snd (cancel_scheduled_send e i s) = snd (guarded_update i (cancellable (ne_now e))
     (\<lambda>x. x\<lparr>ni_status := AwaitingApproval, ni_scheduled_send_at := None, ni_updated_at := ne_now e\<rparr>) s)"
  by (auto simp: cancel_scheduled_send_def Let_def split: prod.splits option.splits)

lemma cancel_refines: "refines s (snd (cancel_scheduled_send e i s))"
  unfolding cancel_state by (rule guarded_refines) (auto simp: cancellable_def intro: life_step.withdrawn)

lemma find_row_filter_key:
  "find_row key k (filter (\<lambda>y. key y \<noteq> i) rows) = (if k = i then None else find_row key k rows)"
  by (induction rows) auto

lemma delete_refines: "refines s (snd (delete_issue i who s))"
proof (cases "issue_by_id i s")
  case (Some x)
  let ?s' = "snd (delete_issue i who s)"
  have "nw_issues ?s' = filter (\<lambda>y. ni_id y \<noteq> i) (nw_issues s)" "nw_sent ?s' = nw_sent s"
    by (simp_all add: delete_issue_def Some Let_def)
  then have "life ?s' = ((life_of s)(i := None), nw_sent s)"
    by (auto simp: life_def life_of_def issue_by_id_def find_row_filter_key)
  then show ?thesis using Some by (intro refines_step) (auto simp: life_def life_of_def intro!: life_step.removed)
qed (simp add: delete_issue_def)

lemma unpublish_refines: "refines s (snd (unpublish_issue e i s))"
proof (cases "issue_by_id i s")
  case (Some x)
  then have i: "life_of s i = Some (ni_status x)" by (simp add: life_of_def)
  consider "snd (unpublish_issue e i s) = s"
    | f where "\<And>y. ni_id (f y) = ni_id y" "\<And>y. ni_status (f y) = ni_status y" "snd (unpublish_issue e i s) = change_issue i f s"
    | f where "\<And>y. ni_id (f y) = ni_id y" "\<And>y. ni_status (f y) = AwaitingApproval" "ni_status x = Approved"
        "snd (unpublish_issue e i s) = change_issue i f s"
  proof -
    assume one: "snd (unpublish_issue e i s) = s \<Longrightarrow> thesis"
      and two: "\<And>f. (\<And>y. ni_id (f y) = ni_id y) \<Longrightarrow> (\<And>y. ni_status (f y) = ni_status y) \<Longrightarrow>
        snd (unpublish_issue e i s) = change_issue i f s \<Longrightarrow> thesis"
      and three: "\<And>f. (\<And>y. ni_id (f y) = ni_id y) \<Longrightarrow> (\<And>y. ni_status (f y) = AwaitingApproval) \<Longrightarrow> ni_status x = Approved \<Longrightarrow>
        snd (unpublish_issue e i s) = change_issue i f s \<Longrightarrow> thesis"
    show thesis
    proof (cases "ni_unpublished_at x")
      case None
      let ?h = "\<lambda>x. x\<lparr>ni_unpublished_at := Some (ne_now e), ni_updated_at := ne_now e\<rparr>"
      let ?w = "\<lambda>x. x\<lparr>ni_unpublished_at := Some (ne_now e), ni_scheduled_send_at := None, ni_status := AwaitingApproval,
        ni_updated_at := ne_now e\<rparr>"
      show thesis
        using one two [of ?h] three [of ?w] by (cases "ni_status x") (simp_all add: unpublish_issue_def Some None Let_def)
    qed (use one in \<open>simp add: unpublish_issue_def Some\<close>)
  qed
  then show ?thesis
  proof cases
    case 2
    then show ?thesis by (intro refines_same) (simp_all add: life_change_same)
  next
    case 3
    then show ?thesis
      using i by (intro refines_step) (auto simp: life_def life_change Some intro: life_step.withdrawn)
  qed simp
qed (simp add: unpublish_issue_def)

section \<open>Sending\<close>

definition active_ids :: "news \<Rightarrow> string list" where
  "active_ids s = map sb_id (active_subscribers None (st_db (nw_site s)))"

lemma active_ids_change [simp]: "active_ids (change_issue i f s) = active_ids s" "active_ids (update_issues p f s) = active_ids s"
  by (simp_all add: active_ids_def)

lemma issue_by_id_change:
  "(\<And>x. ni_id (f x) = ni_id x) \<Longrightarrow> issue_by_id i s = Some x \<Longrightarrow> issue_by_id i (change_issue i f s) = Some (f x)"
  using issue_by_id_SomeD [of i s x] by (simp add: change_issue_def issue_by_id_update)

lemma active_ids_distinct: "subscribers_ok (st_db (nw_site s)) \<Longrightarrow> distinct (active_ids s)"
  by (simp add: active_ids_def active_subscribers_def Let_def subscribers_ok_def subscriber_keys_unique_def distinct_map_filter)

lemma send_step_sent:
  "\<exists>sids. ss_sent (send_step r x sub a) = ss_sent a @ map (Pair (ni_id x)) sids \<and> sids \<in> {[], [sb_id sub]}"
proof -
  obtain answer ob where "send_one r x sub (ss_outbox a) = (answer, ob)" by fastforce
  then have "ss_sent (send_step r x sub a) = ss_sent a \<or> ss_sent (send_step r x sub a) = ss_sent a @ [(ni_id x, sb_id sub)]"
    by (simp add: send_step_def Let_def split: sum.splits)
  then show ?thesis by (elim disjE; force)
qed

lemma send_fold_sent:
  "\<exists>sids. ss_sent (fold (send_step r x) subs a) = ss_sent a @ map (Pair (ni_id x)) sids
     \<and> set sids \<subseteq> sb_id ` set subs \<and> (distinct (map sb_id subs) \<longrightarrow> distinct sids)"
proof (induction subs arbitrary: a)
  case (Cons sub subs)
  obtain one where one: "ss_sent (send_step r x sub a) = ss_sent a @ map (Pair (ni_id x)) one" "one \<in> {[], [sb_id sub]}"
    using send_step_sent by blast
  obtain rest where rest: "ss_sent (fold (send_step r x) subs (send_step r x sub a))
      = ss_sent (send_step r x sub a) @ map (Pair (ni_id x)) rest"
    "set rest \<subseteq> sb_id ` set subs" "distinct (map sb_id subs) \<longrightarrow> distinct rest"
    using Cons.IH by blast
  show ?case using one rest by (intro exI [of _ "one @ rest"]) auto
qed simp

lemma send_all_sent:
  obtains sids where "ss_sent (send_all r x subs ob) = map (Pair (ni_id x)) sids" "set sids \<subseteq> sb_id ` set subs"
    "distinct (map sb_id subs) \<Longrightarrow> distinct sids"
  using send_fold_sent [of r x subs "\<lparr>ss_outbox = ob, ss_rows = [], ss_sent = [], ss_failed = 0\<rparr>"]
  by (auto simp: send_all_def)

lemma numbered_simps [simp]:
  "ni_id (numbered e n x) = ni_id x" "ni_status (numbered e n x) = ni_status x" "ni_slug (numbered e n x) = ni_slug x"
  by (simp_all add: numbered_def)

lemma back_to_approval_simps [simp]:
  "ni_id (back_to_approval e note x) = ni_id x" "ni_status (back_to_approval e note x) = AwaitingApproval"
  by (simp_all add: back_to_approval_def add_note_def)

lemma sent_issue_simps [simp]:
  "ni_id (sent_issue e a b x) = ni_id x" "ni_status (sent_issue e a b x) = Sent"
  by (simp_all add: sent_issue_def)

lemma ship_loop_cases:
  assumes "alone e"
  shows "(snd (ship_loop e i k n s) = s \<and> fst (ship_loop e i k n s) \<noteq> Some (Inr ()))
    \<or> (ship_loop e i k n s = (Some (Inr ()), change_issue i (numbered e (next_ship_number (nw_issues s))) s)
        \<and> issue_keys_unique (nw_issues (change_issue i (numbered e (next_ship_number (nw_issues s))) s)))"
  using assms
proof (induction n arbitrary: k)
  case (Suc n)
  then show ?case by (cases "ne_io e i ShipCommit") (auto simp: alone_def Let_def)
qed simp

lemma assign_ship_cases:
  assumes "alone e"
  obtains (failed) err where "assign_ship_number_with_retry e i s = (Inl err, s)"
  | (reverted) err msg where "assign_ship_number_with_retry e i s = (Inl err, change_issue i (back_to_approval e msg) s)"
  | (numbered) "assign_ship_number_with_retry e i s = (Inr (), change_issue i (numbered e (next_ship_number (nw_issues s))) s)"
      "issue_keys_unique (nw_issues (change_issue i (numbered e (next_ship_number (nw_issues s))) s))"
proof -
  obtain o1 s1 where l: "ship_loop e i 0 3 s = (o1, s1)" by fastforce
  have d: "(s1 = s \<and> o1 \<noteq> Some (Inr ())) \<or> (o1 = Some (Inr ()) \<and> s1 = change_issue i (numbered e (next_ship_number (nw_issues s))) s
      \<and> issue_keys_unique (nw_issues (change_issue i (numbered e (next_ship_number (nw_issues s))) s)))"
    using ship_loop_cases [OF assms, of i 0 3 s] by (auto simp: l)
  show ?thesis
  proof (cases o1)
    case None
    then show ?thesis using d failed reverted
      by (cases "ne_io e i RevertCommit") (auto simp: assign_ship_number_with_retry_def l)
  next
    case (Some r)
    then show ?thesis using d failed numbered
      by (cases r) (auto simp: assign_ship_number_with_retry_def l)
  qed
qed

text \<open>From \<open>sending\<close>, the mails of an issue go out in one batch, or it returns to the operator unmailed.\<close>

definition ends_at :: "render_env \<Rightarrow> string \<Rightarrow> issue_status \<Rightarrow> string list \<Rightarrow> bool" where
  "ends_at r i st sids \<longleftrightarrow> (st \<in> {Sending, Sent} \<or> st = AwaitingApproval \<and> sids = [])
     \<and> (st = Sent \<longrightarrow> ne_io (re_news r) i FinalCommit = None)"

lemma send_issue_life:
  assumes "issue_by_id i s = Some x" and "ni_status x = Sending"
  obtains st sids where "life (snd (send_issue r i s)) = ((life_of s)(i \<mapsto> st), nw_sent s @ map (Pair i) sids)"
    "ends_at r i st sids" "set sids \<subseteq> set (active_ids s)" "distinct (active_ids s) \<Longrightarrow> distinct sids"
proof -
  let ?e = "re_news r"
  let ?a = "send_all r x (active_subscribers None (st_db (nw_site s))) (st_outbox (nw_site s))"
  have xi: "ni_id x = i" using issue_by_id_SomeD [OF assms(1)] by simp
  have keep: "(life_of s)(i \<mapsto> Sending) = life_of s" using assms by (auto simp: life_of_def)
  obtain sids where sids: "ss_sent ?a = map (Pair i) sids" "set sids \<subseteq> set (active_ids s)"
    "distinct (active_ids s) \<Longrightarrow> distinct sids"
    using send_all_sent [of r x "active_subscribers None (st_db (nw_site s))" "st_outbox (nw_site s)"] xi
    by (auto simp: active_ids_def)
  let ?s1 = "s\<lparr>nw_site := (nw_site s)\<lparr>st_outbox := ss_outbox ?a\<rparr>, nw_sent := nw_sent s @ ss_sent ?a\<rparr>"
  show ?thesis
  proof (cases "ne_io ?e i SendCommit")
    case (Some exc)
    note io = Some
    have "life (snd (send_issue r i s)) = ((life_of s)(i \<mapsto> Sending), nw_sent s @ map (Pair i) sids)"
      using keep life_of_cong [of ?s1 s] by (simp add: send_issue_def assms(1) Some life_def sids(1) Let_def)
    then show ?thesis by (rule that) (use sids io in \<open>auto simp: ends_at_def\<close>)
  next
    case None
    let ?s2 = "set_deliveries (\<lambda>ds. ds @ ss_rows ?a) ?s1"
    obtain status why where li: "post_to_linkedin ?e (render_issue_linkedin r x) = (status, why)" by fastforce
    let ?s3 = "?s2\<lparr>nw_posts := nw_posts ?s2 @ (if status = ''sent'' then [i] else [])\<rparr>"
    have b3: "issue_by_id i ?s3 = Some x" "life_of ?s3 = life_of s" "nw_sent ?s3 = nw_sent s @ map (Pair i) sids"
      using assms(1) life_of_cong [of ?s3 s] by (simp_all add: issue_by_id_def sids(1))
    have rw: "snd (send_issue r i s) = snd (finish_dispatch r x (length (ss_sent ?a)) (ss_failed ?a) ?s2)"
      by (simp add: send_issue_def assms(1) None Let_def)
    show ?thesis
    proof (cases "ne_io ?e i FinalCommit")
      case (Some exc)
      note io = Some
      have "snd (send_issue r i s) = ?s3" by (simp add: rw finish_dispatch_def li xi Some Let_def)
      then have "life (snd (send_issue r i s)) = ((life_of s)(i \<mapsto> Sending), nw_sent s @ map (Pair i) sids)"
        using b3 keep by (simp only: life_def)
      then show ?thesis by (rule that) (use sids io in \<open>auto simp: ends_at_def\<close>)
    next
      case None
      note io = None
      define s5 where "s5 = stamp_finds ?e x (set_deliveries (\<lambda>ds. ds @ [delivery_row ?e i '''' ''web'' ''sent'' (Some (ne_now ?e)) '''',
          delivery_row ?e i '''' ''linkedin'' status (if status = ''sent'' then Some (ne_now ?e) else None)
            (if status = ''failed'' then why else '''')]) ?s3)"
      have f5: "nw_issues s5 = nw_issues ?s3" "nw_sent s5 = nw_sent ?s3"
        unfolding s5_def stamp_finds_def Let_def by simp_all
      have "snd (send_issue r i s) = change_issue i (sent_issue ?e (length (ss_sent ?a)) (ss_failed ?a)) s5"
        by (simp add: rw finish_dispatch_def li xi None Let_def s5_def)
      moreover have "issue_by_id i s5 = Some x" "life_of s5 = life_of s"
        using b3 life_of_cong [OF f5(1)] f5(1) by (simp_all add: issue_by_id_def)
      ultimately have "life (snd (send_issue r i s)) = ((life_of s)(i \<mapsto> Sent), nw_sent s @ map (Pair i) sids)"
        using b3(3) f5(2) by (simp add: life_def life_change)
      then show ?thesis by (rule that) (use sids io in \<open>auto simp: ends_at_def\<close>)
    qed
  qed
qed

text \<open>From an approved issue, a dispatch is one step of the machine, or a withdrawal.\<close>

lemma number_and_send_life:
  assumes "alone (re_news r)" and "issue_by_id i s = Some x" and "ni_status x = Sending"
  obtains st sids where "life (snd (number_and_send r i s)) = ((life_of s)(i \<mapsto> st), nw_sent s @ map (Pair i) sids)"
    "ends_at r i st sids" "set sids \<subseteq> set (active_ids s)"
    "distinct (active_ids s) \<Longrightarrow> distinct sids"
proof -
  let ?e = "re_news r"
  have keep: "(life_of s)(i \<mapsto> Sending) = life_of s" using assms(2,3) by (auto simp: life_of_def)
  have rv: "life (change_issue i (back_to_approval ?e msg) s) = ((life_of s)(i \<mapsto> AwaitingApproval), nw_sent s @ map (Pair i) [])"
    for msg by (simp add: life_def life_change assms(2))
  show ?thesis
  proof (rule assign_ship_cases [OF assms(1), of i s])
    fix err assume a: "assign_ship_number_with_retry ?e i s = (Inl err, s)"
    show ?thesis
    proof (cases "ne_io ?e i HaltCommit")
      case None
      then have "life (snd (number_and_send r i s)) = ((life_of s)(i \<mapsto> AwaitingApproval), nw_sent s @ map (Pair i) [])"
        using rv by (simp add: number_and_send_def a halt_dispatch_def assms(2,3))
      then show ?thesis by (rule that) (simp_all add: ends_at_def)
    next
      case (Some exc)
      then have "life (snd (number_and_send r i s)) = ((life_of s)(i \<mapsto> Sending), nw_sent s @ map (Pair i) [])"
        by (simp add: number_and_send_def a halt_dispatch_def assms(2,3) keep life_def)
      then show ?thesis by (rule that) (simp_all add: ends_at_def)
    qed
  next
    fix err msg assume a: "assign_ship_number_with_retry ?e i s = (Inl err, change_issue i (back_to_approval ?e msg) s)"
    have "issue_by_id i (change_issue i (back_to_approval ?e msg) s) = Some (back_to_approval ?e msg x)"
      using assms(2) by (simp add: issue_by_id_change)
    then have "life (snd (number_and_send r i s)) = ((life_of s)(i \<mapsto> AwaitingApproval), nw_sent s @ map (Pair i) [])"
      using rv by (simp add: number_and_send_def a halt_dispatch_def)
    then show ?thesis by (rule that) (simp_all add: ends_at_def)
  next
    let ?s = "change_issue i (numbered ?e (next_ship_number (nw_issues s))) s"
    let ?x = "numbered ?e (next_ship_number (nw_issues s)) x"
    assume a: "assign_ship_number_with_retry ?e i s = (Inr (), ?s)"
    have b: "issue_by_id i ?s = Some ?x" "ni_status ?x = Sending" "life_of ?s = life_of s" "active_ids ?s = active_ids s"
      using assms(2,3) by (simp_all add: issue_by_id_change life_change_same)
    obtain st sids where "life (snd (send_issue r i ?s)) = ((life_of ?s)(i \<mapsto> st), nw_sent ?s @ map (Pair i) sids)"
      "ends_at r i st sids" "set sids \<subseteq> set (active_ids ?s)" "distinct (active_ids ?s) \<Longrightarrow> distinct sids"
      using send_issue_life [OF b(1,2)] by blast
    then show ?thesis using that [of st sids] b(3,4) by (simp add: number_and_send_def a)
  qed
qed

lemma dispatch_life:
  assumes "alone (re_news r)" and "news_wf s"
  obtains (idle) "snd (dispatch_issue r i s) = s"
  | (gone) st sids where "life_of s i = Some Approved"
    "life (snd (dispatch_issue r i s)) = ((life_of s)(i \<mapsto> st), nw_sent s @ map (Pair i) sids)"
    "ends_at r i st sids" "set sids \<subseteq> set (active_ids s)" "distinct sids"
proof -
  let ?e = "re_news r"
  let ?f = "\<lambda>x. x\<lparr>ni_status := Sending, ni_updated_at := ne_now ?e\<rparr>"
  let ?g = "guarded_update i (\<lambda>x. ni_status x = Approved) ?f s"
  have hit: "fst ?g \<longleftrightarrow> (\<exists>x. issue_by_id i s = Some x \<and> ni_status x = Approved)"
    by (rule guarded_update_hit) (rule wf_ids [OF assms(2)])
  show ?thesis
  proof (cases "ne_io ?e i StatusCommit = None \<and> fst ?g")
    case False
    have "snd (dispatch_issue r i s) = s"
    proof (cases "ne_io ?e i StatusCommit")
      case None
      then have nf: "\<not> fst ?g" using False by simp
      then have "\<forall>x \<in> set (nw_issues s). \<not> (ni_id x = i \<and> ni_status x = Approved)"
        by (auto simp: guarded_update_def list_ex_iff)
      then have "update_where (\<lambda>x. ni_id x = i \<and> ni_status x = Approved) ?f (nw_issues s) = nw_issues s"
        unfolding update_where_def by (intro map_idI) auto
      then have "(snd ?g) = s" by (simp add: guarded_update_def update_issues_def)
      then have "?g = (False, s)" using nf by (simp add: prod_eq_iff)
      then show ?thesis using None by (simp add: dispatch_issue_def Let_def split: option.splits)
    qed (simp add: dispatch_issue_def)
    then show ?thesis by (rule idle)
  next
    case True
    then obtain x where x: "issue_by_id i s = Some x" "ni_status x = Approved" using hit by blast
    obtain s1 where g: "?g = (True, s1)" using True by (cases ?g) simp
    then have s1: "s1 = snd ?g" by simp
    have io: "ne_io ?e i StatusCommit = None" using True by simp
    have b1: "issue_by_id i s1 = Some (?f x)" "life_of s1 = (life_of s)(i \<mapsto> Sending)" "nw_sent s1 = nw_sent s"
      "active_ids s1 = active_ids s"
      using x issue_by_id_SomeD [OF x(1)] by (simp_all add: s1 guarded_update_def issue_by_id_update life_update)
    have dist: "distinct (active_ids s)" using assms(2) by (simp add: news_wf_def active_ids_distinct)
    have i: "life_of s i = Some Approved" using x by (simp add: life_of_def)
    let ?live = "live_finds_for_issue i s1"
    let ?s2 = "change_issue i (\<lambda>x. x\<lparr>ni_finds_json := ?live\<rparr>) s1"
    have b2: "issue_by_id i ?s2 = Some ((?f x)\<lparr>ni_finds_json := ?live\<rparr>)" "life_of ?s2 = (life_of s)(i \<mapsto> Sending)"
      "nw_sent ?s2 = nw_sent s" "active_ids ?s2 = active_ids s"
      using issue_by_id_change [OF _ b1(1), of "\<lambda>x. x\<lparr>ni_finds_json := ?live\<rparr>"] b1(2,3,4) by (simp_all add: life_change_same)
    show ?thesis
    proof (cases "?live = []")
      case True
      have "snd (dispatch_issue r i s) = snd (number_and_send r i s1)"
        by (simp add: dispatch_issue_def io g True Let_def split: prod.splits)
      moreover obtain st sids where "life (snd (number_and_send r i s1)) = ((life_of s1)(i \<mapsto> st), nw_sent s1 @ map (Pair i) sids)"
        "ends_at r i st sids" "set sids \<subseteq> set (active_ids s1)" "distinct (active_ids s1) \<Longrightarrow> distinct sids"
        using number_and_send_life [OF assms(1) b1(1)] by auto
      ultimately show ?thesis using gone [OF i, of st sids] b1 dist by simp
    next
      case False
      show ?thesis
      proof (cases "ne_io ?e i SnapshotCommit")
        case (Some exc)
        have "snd (dispatch_issue r i s) = s1"
          by (simp add: dispatch_issue_def io g False Some Let_def split: prod.splits)
        then show ?thesis using gone [OF i, of Sending "[]"] b1 by (simp add: life_def ends_at_def)
      next
        case None
        have "snd (dispatch_issue r i s) = snd (number_and_send r i ?s2)"
          by (simp add: dispatch_issue_def io g False None Let_def split: prod.splits)
        moreover obtain st sids where "life (snd (number_and_send r i ?s2)) = ((life_of ?s2)(i \<mapsto> st), nw_sent ?s2 @ map (Pair i) sids)"
          "ends_at r i st sids" "set sids \<subseteq> set (active_ids ?s2)" "distinct (active_ids ?s2) \<Longrightarrow> distinct sids"
          using number_and_send_life [OF assms(1) b2(1)] by auto
        ultimately show ?thesis using gone [OF i, of st sids] b2 dist by simp
      qed
    qed
  qed
qed

lemma dispatch_refines:
  assumes "alone (re_news r)" and "news_wf s"
  shows "refines s (snd (dispatch_issue r i s))"
proof (rule dispatch_life [OF assms, of i])
  fix st sids
  assume i: "life_of s i = Some Approved" and st: "ends_at r i st sids" and "distinct sids"
    and l: "life (snd (dispatch_issue r i s)) = ((life_of s)(i \<mapsto> st), nw_sent s @ map (Pair i) sids)"
  have "life_step (life_of s, nw_sent s) ((life_of s)(i \<mapsto> st), nw_sent s @ map (Pair i) sids)"
  proof -
    from st consider "st \<in> {Sending, Sent}" | "st = AwaitingApproval \<and> sids = []" by (auto simp: ends_at_def)
    then show ?thesis
  proof cases
    assume "st \<in> {Sending, Sent}"
    with i \<open>distinct sids\<close> show ?thesis by (rule life_step.mailed)
  next
    assume "st = AwaitingApproval \<and> sids = []"
    then show ?thesis using life_step.withdrawn [of "life_of s" i "nw_sent s"] i by simp
  qed
  qed
  then have "life_step (life s) (life (snd (dispatch_issue r i s)))" unfolding l by (simp add: life_def)
  then show ?thesis by (rule refines_step)
qed simp

end
