(* ===== verification/NewsletterInvariants.thy ===== *)
theory NewsletterInvariants
  imports NewsletterSafety
begin

text \<open>
  Invariants of the newsletter. \<open>news_invariant\<close> is what an invariant has to satisfy for
  the few kinds of changes the operations are made of: a lawful change of a row, a new
  row, a number, a deletion, and changes beside the issue table. It is interpreted on the
  well-formedness of the tables, on the contents of a sent issue and on the labels of the
  drafts.
\<close>

section \<open>Changes of a row\<close>

text \<open>No change touches the keys of a row, and a sent issue is only hidden from the archive.\<close>

definition lawful :: "newsletter_issue \<Rightarrow> newsletter_issue \<Rightarrow> bool" where
  "lawful x y \<longleftrightarrow> ni_id y = ni_id x \<and> ni_slug y = ni_slug x \<and> ni_display_label y = ni_display_label x
     \<and> ni_ship_number y = ni_ship_number x
     \<and> (ni_status x = Sent \<longrightarrow> (\<exists>u t. y = x\<lparr>ni_unpublished_at := u, ni_updated_at := t\<rparr>))"

lemma lawful_refl [simp]: "lawful x x"
  unfolding lawful_def by (auto intro!: exI [of _ "ni_unpublished_at x"] exI [of _ "ni_updated_at x"])

lemma lawful_sent_issue: "ni_status x \<noteq> Sent \<Longrightarrow> lawful x (sent_issue e a b x)"
  by (simp add: lawful_def sent_issue_def)

lemma lawful_back: "ni_status x \<noteq> Sent \<Longrightarrow> lawful x (back_to_approval e msg x)"
  by (simp add: lawful_def back_to_approval_def add_note_def)

lemma lawful_reminded: "ni_status x \<noteq> Sent \<Longrightarrow> lawful x (reminded e st x)"
  by (simp add: lawful_def reminded_def add_note_def)

text \<open>The id an operation gives to a new issue, and the one it deletes.\<close>

fun op_new_id :: "news_op \<Rightarrow> string option" where
  "op_new_id (CreateIssue e target subject nts) = Some (ne_issue_id e)"
| "op_new_id (Compose e period force) = Some (ne_issue_id e)"
| "op_new_id (CycleTick e) = Some (ne_issue_id e)"
| "op_new_id op = None"

fun op_deletes :: "news_op \<Rightarrow> string option" where
  "op_deletes (DeleteIssue i who) = Some i"
| "op_deletes op = None"

section \<open>Approval and reminders\<close>

lemma approve_answer:
  assumes "distinct (map ni_id (nw_issues s))" and "approve_and_schedule e i who when s = (Inr x, s1)"
  shows "issue_by_id i s1 = Some x" "ni_status x = Approved"
proof -
  let ?p = "\<lambda>x. ni_status x = Draft \<or> ni_status x = AwaitingApproval"
  let ?f = "\<lambda>x. x\<lparr>ni_status := Approved, ni_approved_by := str_or who ''admin'', ni_approved_at := Some (ne_now e),
       ni_scheduled_send_at := Some (case when of None \<Rightarrow> ne_now e + DEFAULT_SCHEDULE_DELAY
         | Some t \<Rightarrow> if t \<le> ne_now e then ne_now e + DEFAULT_SCHEDULE_DELAY else t), ni_updated_at := ne_now e\<rparr>"
  obtain hit s2 where g: "guarded_update i ?p ?f s = (hit, s2)" by fastforce
  have r: "hit \<and> s2 = s1 \<and> issue_by_id i s1 = Some x"
    using assms(2) by (auto simp: approve_and_schedule_def Let_def g split: option.splits if_splits)
  then obtain x0 where x0: "issue_by_id i s = Some x0" "?p x0"
    using guarded_update_hit [OF assms(1), of i ?p ?f] g by auto
  have "s1 = update_issues (\<lambda>x. ni_id x = i \<and> ?p x) ?f s" using g r by (simp add: guarded_update_def)
  then have "issue_by_id i s1 = Some (?f x0)"
    using x0 issue_by_id_SomeD [OF x0(1)] by (simp add: issue_by_id_update)
  then show "issue_by_id i s1 = Some x" "ni_status x = Approved" using r by auto
qed

lemma remind_row:
  "\<exists>st. issue_by_id j (remind e x s) = map_option (\<lambda>y. if ni_id y = ni_id x then reminded e st y else y) (issue_by_id j s)"
proof -
  obtain st ob where n: "send_approval_notification e x (st_outbox (nw_site s)) = (st, ob)" by fastforce
  have "issue_by_id j (s\<lparr>nw_site := t\<rparr>) = issue_by_id j s" for t by (simp add: issue_by_id_def)
  then show ?thesis
    by (intro exI [of _ st]) (simp add: remind_def n change_issue_def issue_by_id_update reminded_def add_note_def)
qed

lemma remind_status: "issue_by_id j s = Some y \<Longrightarrow> \<exists>z. issue_by_id j (remind e x s) = Some z \<and> ni_status z = ni_status y"
  using remind_row [of j e x s] by (auto simp: reminded_def add_note_def)

lemma remind_subscribers [simp]:
  "sd_subscribers (st_db (nw_site (remind e x s))) = sd_subscribers (st_db (nw_site s))" "nw_sent (remind e x s) = nw_sent s"
  by (simp_all add: remind_def split: prod.splits)

lemma reminders_subscribers [simp]:
  "sd_subscribers (st_db (nw_site (fold (remind e) xs s))) = sd_subscribers (st_db (nw_site s))"
  "nw_sent (fold (remind e) xs s) = nw_sent s"
  by (induction xs arbitrary: s) simp_all

section \<open>Interface: invariants of the newsletter\<close>

locale news_invariant =
  fixes newid :: "string \<Rightarrow> bool"
    and deletable :: "string \<Rightarrow> bool"
    and inv :: "news \<Rightarrow> bool"
  assumes keys: "inv s \<Longrightarrow> issue_keys_unique (nw_issues s)"
    and change: "inv s \<Longrightarrow> (\<And>x. x \<in> set (nw_issues s) \<Longrightarrow> p x \<Longrightarrow> lawful x (f x)) \<Longrightarrow> inv (update_issues p f s)"
    and number: "inv s \<Longrightarrow> issue_by_id i s = Some x \<Longrightarrow> ni_status x = Sending \<Longrightarrow>
      issue_keys_unique (nw_issues (change_issue i (numbered e (next_ship_number (nw_issues s))) s)) \<Longrightarrow>
      inv (change_issue i (numbered e (next_ship_number (nw_issues s))) s)"
    and add: "inv s \<Longrightarrow> newid (ni_id x) \<Longrightarrow> issue_keys_unique (nw_issues s @ [x]) \<Longrightarrow> ni_ship_number x = None \<Longrightarrow>
      ni_display_label x = next_display_label (nw_issues s) \<Longrightarrow> ni_status x \<in> {Draft, AwaitingApproval, Skipped} \<Longrightarrow>
      inv (add_issue x s)"
    and delete: "inv s \<Longrightarrow> deletable i \<Longrightarrow> inv (s\<lparr>nw_issues := filter (\<lambda>y. ni_id y \<noteq> i) (nw_issues s)\<rparr>)"
    and finds: "inv s \<Longrightarrow> inv (s\<lparr>nw_disc := d\<rparr>)"
    and site: "inv s \<Longrightarrow> (subscribers_ok (st_db (nw_site s)) \<Longrightarrow> subscribers_ok (st_db t)) \<Longrightarrow> inv (s\<lparr>nw_site := t\<rparr>)"
    and history: "inv s \<Longrightarrow> inv (s\<lparr>nw_sent := l\<rparr>)" "inv s \<Longrightarrow> inv (s\<lparr>nw_posts := ps\<rparr>)"
begin

lemma row_unique: "inv s \<Longrightarrow> issue_by_id i s = Some x \<Longrightarrow> y \<in> set (nw_issues s) \<Longrightarrow> ni_id y = i \<Longrightarrow> y = x"
  using keys [of s] unfolding issue_keys_unique_def issue_by_id_def by (metis find_row_distinct option.inject)

lemma change_row: "inv s \<Longrightarrow> issue_by_id i s = Some x \<Longrightarrow> lawful x (f x) \<Longrightarrow> inv (change_issue i f s)"
  unfolding change_issue_def by (rule change) (auto dest: row_unique)

lemma guarded_inv: "inv s \<Longrightarrow> (\<And>x. p x \<Longrightarrow> lawful x (f x)) \<Longrightarrow> inv (snd (guarded_update i p f s))"
  unfolding guarded_update_def snd_conv by (rule change) auto

lemma set_disc_inv: "inv s \<Longrightarrow> inv (set_disc d s)"
  by (simp add: set_disc_def finds)

lemma set_finds_inv: "inv s \<Longrightarrow> inv (set_finds f s)"
  by (simp add: set_finds_def finds)

lemma deliveries_inv: "inv s \<Longrightarrow> inv (set_deliveries f s)"
  unfolding set_deliveries_def by (rule site) (simp_all add: subscribers_ok_def subscriber_keys_unique_def)

lemma outbox_inv: "inv s \<Longrightarrow> inv (s\<lparr>nw_site := (nw_site s)\<lparr>st_outbox := ob\<rparr>\<rparr>)"
  by (rule site) simp_all

lemma create_inv:
  assumes "inv s" and "alone e" and "newid (ne_issue_id e)"
  shows "inv (snd (create_empty_issue e t ttl nts s))"
  by (rule create_cases [OF assms(2), of t ttl nts s]) (simp_all add: assms add)

lemma compose_inv:
  assumes "inv s" and "alone e" and "newid (ne_issue_id e)"
  shows "inv (snd (compose_pending_issue e d force s))"
  by (rule compose_cases [OF assms(2), of d force s]) (simp_all add: assms add)

lemma assign_inv: "inv s \<Longrightarrow> inv (snd (assign_find_to_issue f i s))"
  by (auto simp: assign_find_to_issue_def Let_def set_disc_inv split: option.splits)

lemma auto_populate_inv: "inv s \<Longrightarrow> inv (snd (auto_populate_draft e i w s))"
  by (simp add: auto_populate_draft_def Let_def set_finds_inv)

lemma edit_inv: "inv s \<Longrightarrow> inv (snd (update_editorial e i text subject s))"
  by (auto simp: update_editorial_def Let_def lawful_def intro!: change_row split: option.splits)

lemma approve_inv: "inv s \<Longrightarrow> inv (snd (approve_and_schedule e i who when s))"
  unfolding approve_state by (rule guarded_inv) (auto simp: lawful_def)

lemma cancel_inv: "inv s \<Longrightarrow> inv (snd (cancel_scheduled_send e i s))"
  unfolding cancel_state by (rule guarded_inv) (auto simp: lawful_def cancellable_def)

lemma delete_inv: "inv s \<Longrightarrow> deletable i \<Longrightarrow> inv (snd (delete_issue i who s))"
proof (cases "issue_by_id i s")
  case (Some x)
  assume i: "inv s" and d: "deletable i"
  let ?t = "set_deliveries (filter (\<lambda>d. nd_issue_id d \<noteq> i)) (set_finds (update_where (\<lambda>f. fi_newsletter_issue_id f = Some i)
    (\<lambda>f. f\<lparr>fi_newsletter_issue_id := None, fi_newsletter_pending := False, fi_published_in_newsletter_at :=
      (if keeps_published_at (ni_status x) then fi_published_in_newsletter_at f else None)\<rparr>)) s)"
  have "inv ?t" by (intro deliveries_inv set_finds_inv i)
  from delete [OF this d] show ?thesis by (simp add: delete_issue_def Some Let_def)
qed (simp add: delete_issue_def)

lemma unpublish_inv: assumes "inv s" shows "inv (snd (unpublish_issue e i s))"
proof (cases "issue_by_id i s")
  case (Some x)
  let ?h = "\<lambda>x. x\<lparr>ni_unpublished_at := Some (ne_now e), ni_updated_at := ne_now e\<rparr>"
  let ?w = "\<lambda>x. x\<lparr>ni_unpublished_at := Some (ne_now e), ni_scheduled_send_at := None, ni_status := AwaitingApproval,
    ni_updated_at := ne_now e\<rparr>"
  have "inv (change_issue i ?h s)" by (rule change_row [OF assms Some]) (auto simp: lawful_def)
  moreover have "ni_status x = Approved \<Longrightarrow> inv (change_issue i ?w s)" by (rule change_row [OF assms Some]) (simp add: lawful_def)
  ultimately show ?thesis
    using assms by (cases "ni_unpublished_at x"; cases "ni_status x") (simp_all add: unpublish_issue_def Some Let_def)
qed (simp add: unpublish_issue_def assms)

lemma finish_inv:
  assumes "inv s" and "issue_by_id i s = Some y" and "ni_status y = Sending" and "ni_id x = i"
  shows "inv (snd (finish_dispatch r x a b s))"
proof -
  let ?e = "re_news r"
  obtain status why where li: "post_to_linkedin ?e (render_issue_linkedin r x) = (status, why)" by fastforce
  let ?s1 = "s\<lparr>nw_posts := nw_posts s @ (if status = ''sent'' then [ni_id x] else [])\<rparr>"
  have i1: "inv ?s1" by (rule history(2) [OF assms(1)])
  define s3 where "s3 = stamp_finds ?e x (set_deliveries (\<lambda>ds. ds @ [delivery_row ?e (ni_id x) '''' ''web'' ''sent'' (Some (ne_now ?e)) '''',
      delivery_row ?e (ni_id x) '''' ''linkedin'' status (if status = ''sent'' then Some (ne_now ?e) else None)
        (if status = ''failed'' then why else '''')]) ?s1)"
  have i3: "inv s3" unfolding s3_def stamp_finds_def Let_def using i1 by (simp add: set_finds_inv deliveries_inv)
  have "nw_issues s3 = nw_issues s" unfolding s3_def stamp_finds_def Let_def by simp
  then have "issue_by_id i s3 = Some y" using assms(2) by (simp add: issue_by_id_def)
  then have "inv (change_issue i (sent_issue ?e a b) s3)"
    by (rule change_row [OF i3]) (simp add: lawful_sent_issue assms(3))
  then have i4: "inv (change_issue (ni_id x) (sent_issue ?e a b) s3)" by (simp add: assms(4))
  show ?thesis
  proof (cases "ne_io ?e (ni_id x) FinalCommit")
    case None
    then have "snd (finish_dispatch r x a b s) = change_issue (ni_id x) (sent_issue ?e a b) s3"
      by (simp add: finish_dispatch_def li Let_def s3_def)
    then show ?thesis using i4 by (simp only:)
  next
    case (Some exc)
    then have "snd (finish_dispatch r x a b s) = ?s1" by (simp add: finish_dispatch_def li Let_def)
    then show ?thesis using i1 by (simp only:)
  qed
qed

lemma send_issue_inv:
  assumes "inv s" and "issue_by_id i s = Some x" and "ni_status x = Sending"
  shows "inv (snd (send_issue r i s))"
proof -
  let ?a = "send_all r x (active_subscribers None (st_db (nw_site s))) (st_outbox (nw_site s))"
  let ?s1 = "s\<lparr>nw_site := (nw_site s)\<lparr>st_outbox := ss_outbox ?a\<rparr>, nw_sent := nw_sent s @ ss_sent ?a\<rparr>"
  have i1: "inv ?s1" using history(1) [OF outbox_inv [OF assms(1)]] by simp
  have "inv (snd (finish_dispatch r x n m (set_deliveries (\<lambda>ds. ds @ ss_rows ?a) ?s1)))" for n m
    using assms issue_by_id_SomeD [OF assms(2)] by (intro finish_inv deliveries_inv i1) (simp_all add: issue_by_id_def)
  then show ?thesis using i1 by (simp add: send_issue_def assms(2) Let_def split: option.splits)
qed

lemma number_and_send_inv:
  assumes "inv s" and "alone (re_news r)" and "issue_by_id i s = Some x" and "ni_status x = Sending"
  shows "inv (snd (number_and_send r i s))"
proof -
  let ?e = "re_news r"
  have halt: "inv (halt_dispatch ?e i t)" if "inv t" for t
    using that change_row [OF that, of i _ "back_to_approval ?e msg" for msg]
    by (simp add: halt_dispatch_def lawful_back split: option.splits)
  have rv: "inv (change_issue i (back_to_approval ?e msg) s)" for msg
    by (rule change_row [OF assms(1,3)]) (simp add: lawful_back assms(4))
  show ?thesis
  proof (rule assign_ship_cases [OF assms(2), of i s])
    fix err assume "assign_ship_number_with_retry ?e i s = (Inl err, s)"
    then show ?thesis using halt assms(1) by (simp add: number_and_send_def)
  next
    fix err msg assume "assign_ship_number_with_retry ?e i s = (Inl err, change_issue i (back_to_approval ?e msg) s)"
    then show ?thesis using halt rv by (simp add: number_and_send_def)
  next
    let ?f = "numbered ?e (next_ship_number (nw_issues s))"
    assume a: "assign_ship_number_with_retry ?e i s = (Inr (), change_issue i ?f s)"
      and u: "issue_keys_unique (nw_issues (change_issue i ?f s))"
    have "inv (change_issue i ?f s)" using assms u by (intro number) simp_all
    moreover have "issue_by_id i (change_issue i ?f s) = Some (?f x)" using assms(3) by (simp add: issue_by_id_change)
    ultimately have "inv (snd (send_issue r i (change_issue i ?f s)))" by (rule send_issue_inv) (simp add: assms(4))
    then show ?thesis by (simp add: number_and_send_def a)
  qed
qed

lemma dispatch_inv:
  assumes "inv s" and "alone (re_news r)"
  shows "inv (snd (dispatch_issue r i s))"
proof -
  let ?e = "re_news r"
  let ?f = "\<lambda>x. x\<lparr>ni_status := Sending, ni_updated_at := ne_now ?e\<rparr>"
  obtain hit s1 where g: "guarded_update i (\<lambda>x. ni_status x = Approved) ?f s = (hit, s1)" by fastforce
  have i1: "inv s1" using guarded_inv [OF assms(1), of "\<lambda>x. ni_status x = Approved" ?f i] g by (simp add: lawful_def)
  have dist: "distinct (map ni_id (nw_issues s))" using keys [OF assms(1)] by (simp add: issue_keys_unique_def)
  show ?thesis
  proof (cases "ne_io ?e i StatusCommit = None \<and> hit")
    case False
    then show ?thesis
      using assms(1) i1 by (cases "ne_io ?e i StatusCommit") (simp_all add: dispatch_issue_def g Let_def split: option.splits)
  next
    case True
    then obtain x where x: "issue_by_id i s = Some x" "ni_status x = Approved"
      using guarded_update_hit [OF dist, of i "\<lambda>x. ni_status x = Approved" ?f] g by auto
    have b1: "issue_by_id i s1 = Some (?f x)"
      using g x issue_by_id_SomeD [OF x(1)] by (auto simp: guarded_update_def issue_by_id_update)
    let ?live = "live_finds_for_issue i s1"
    let ?h = "\<lambda>x. x\<lparr>ni_finds_json := ?live\<rparr>"
    have "inv (change_issue i ?h s1)" by (rule change_row [OF i1 b1]) (simp add: lawful_def)
    moreover have "issue_by_id i (change_issue i ?h s1) = Some (?h (?f x))" using b1 by (simp add: issue_by_id_change)
    ultimately have "inv (snd (number_and_send r i (change_issue i ?h s1)))" by (rule number_and_send_inv [OF _ assms(2)]) simp
    moreover have "inv (snd (number_and_send r i s1))" by (rule number_and_send_inv [OF i1 assms(2) b1]) simp
    ultimately show ?thesis
      using True i1 by (simp add: dispatch_issue_def g Let_def split: option.splits)
  qed
qed

lemma dispatch_each_inv:
  "inv s \<Longrightarrow> alone (re_news r) \<Longrightarrow> inv (snd (snd (dispatch_each r is (a, b, s))))"
proof (induction "is" arbitrary: a b s)
  case (Cons i "is")
  have d: "inv (snd (dispatch_issue r i s))" using Cons.prems by (rule dispatch_inv)
  show ?case
  proof (cases "dispatch_issue r i s")
    case (Pair answer s1)
    then show ?thesis using d Cons by (cases answer) simp_all
  qed
qed simp

lemma distribute_inv:
  assumes "inv s" and "alone (re_news r)"
  shows "inv (snd (approve_and_distribute r i who s))"
proof -
  let ?e = "re_news r"
  obtain answer s1 where a: "approve_and_schedule ?e i who (Some (ne_now ?e - 1000000)) s = (answer, s1)" by fastforce
  have i1: "inv s1" using approve_inv [OF assms(1), of ?e i who "Some (ne_now ?e - 1000000)"] a by simp
  show ?thesis
  proof (cases answer)
    case (Inl err)
    then show ?thesis using a i1 by (simp add: approve_and_distribute_def Let_def)
  next
    case (Inr x)
    then have b: "issue_by_id i s1 = Some x" "ni_status x \<noteq> Sent"
      using approve_answer [OF _ a [unfolded Inr]] keys [OF assms(1)] by (simp_all add: issue_keys_unique_def)
    have "inv (change_issue i (\<lambda>x. x\<lparr>ni_scheduled_send_at := Some (ne_now ?e - 1000000)\<rparr>) s1)"
      by (rule change_row [OF i1 b(1)]) (simp add: lawful_def b(2))
    then show ?thesis using dispatch_inv assms(2) by (simp add: approve_and_distribute_def a Inr Let_def)
  qed
qed

lemma remind_inv:
  assumes "inv s" and "issue_by_id (ni_id x) s = Some y" and "ni_status y \<noteq> Sent"
  shows "inv (remind e x s)"
proof -
  obtain st ob where n: "send_approval_notification e x (st_outbox (nw_site s)) = (st, ob)" by fastforce
  have "inv (s\<lparr>nw_site := (nw_site s)\<lparr>st_outbox := ob\<rparr>\<rparr>)" by (rule outbox_inv [OF assms(1)])
  moreover have "issue_by_id (ni_id x) (s\<lparr>nw_site := (nw_site s)\<lparr>st_outbox := ob\<rparr>\<rparr>) = Some y"
    using assms(2) by (simp add: issue_by_id_def)
  ultimately show ?thesis using assms(3) by (simp add: remind_def n change_row lawful_reminded)
qed

lemma reminders_inv:
  "inv s \<Longrightarrow> \<forall>x \<in> set xs. \<exists>y. issue_by_id (ni_id x) s = Some y \<and> ni_status y \<noteq> Sent \<Longrightarrow> inv (fold (remind e) xs s)"
proof (induction xs arbitrary: s)
  case (Cons x xs)
  then have "inv (remind e x s)" using remind_inv by auto
  moreover have "\<forall>z \<in> set xs. \<exists>y. issue_by_id (ni_id z) (remind e x s) = Some y \<and> ni_status y \<noteq> Sent"
    using Cons.prems(2) remind_status by fastforce
  ultimately show ?case using Cons.IH by simp
qed simp

lemma reminder_pass_inv: assumes "inv s" shows "inv (snd (reminder_pass e s))"
proof -
  let ?xs = "filter (needs_reminder (ne_now e)) (nw_issues s)"
  have dist: "distinct (map ni_id (nw_issues s))" using keys [OF assms] by (simp add: issue_keys_unique_def)
  have "\<forall>x \<in> set ?xs. \<exists>y. issue_by_id (ni_id x) s = Some y \<and> ni_status y \<noteq> Sent"
    using find_row_distinct [OF dist] by (auto simp: issue_by_id_def needs_reminder_def)
  then have i: "inv (fold (remind e) ?xs s)" by (rule reminders_inv [OF assms])
  have "inv (s\<lparr>nw_site := nw_site (fold (remind e) ?xs s)\<rparr>)"
    by (rule site [OF assms]) (simp add: reminders_subscribers subscribers_ok_def subscriber_keys_unique_def)
  then show ?thesis using i assms by (simp add: reminder_pass_def Let_def split: option.splits)
qed

lemma cycle_inv:
  assumes "inv s" and "alone e" and "newid (ne_issue_id e)"
  shows "inv (snd (run_scheduled_cycle e s))"
proof -
  obtain answer s1 where p: "reminder_pass e s = (answer, s1)" by fastforce
  have i1: "inv s1" using reminder_pass_inv [OF assms(1), of e] p by simp
  have "inv (snd (pace e c s1))" for c
  proof (rule create_cases [OF assms(2), of None "''''" "''''" s1])
    fix err assume "create_empty_issue e None '''' '''' s1 = (Inl err, s1)"
    then show ?thesis using i1 by (simp add: pace_def)
  next
    fix x assume c: "create_empty_issue e None '''' '''' s1 = (Inr x, add_issue x s1)"
      and u: "issue_keys_unique (nw_issues s1 @ [x])" and d: "ni_status x = Draft"
    obtain n s2 where t: "auto_populate_draft e (ni_id x) 10 (add_issue x s1) = (n, s2)" by fastforce
    have "inv (add_issue x s1)" using create_inv [OF i1 assms(2,3), of None "''''" "''''"] c by simp
    then have i2: "inv s2" using auto_populate_inv [of "add_issue x s1" e "ni_id x" 10] t by simp
    have "nw_issues s2 = nw_issues s1 @ [x]" using auto_populate_frame [of e "ni_id x" 10 "add_issue x s1"] t by simp
    moreover have "find_row ni_id (ni_id x) (nw_issues s1) = None"
      using u by (auto simp: issue_keys_unique_def find_row_None_iff)
    ultimately have b: "issue_by_id (ni_id x) s2 = Some x" by (simp add: issue_by_id_def find_row_append)
    have i3: "inv (remind e x s2)" by (rule remind_inv [OF i2 b]) (simp add: d)
    have "inv (s2\<lparr>nw_site := nw_site (remind e x s2)\<rparr>)"
      by (rule site [OF i2]) (simp add: remind_subscribers subscribers_ok_def subscriber_keys_unique_def)
    then show ?thesis using i2 i3 by (simp add: pace_def c t Let_def split: option.splits)
  qed
  then show ?thesis using i1 by (simp add: run_scheduled_cycle_def p Let_def split: sum.splits option.splits)
qed

text \<open>An operation keeps the invariant when it runs alone, with an admitted id.\<close>

lemma news_do_inv:
  assumes "inv s" and "pred_option alone (op_env op)" and "pred_option newid (op_new_id op)" and "pred_option deletable (op_deletes op)"
  shows "inv (news_do op s)"
proof (cases op)
  case (FormRequest st)
  then show ?thesis using assms(1) form_shape.site_do_inv [of "nw_site s" st] by (cases "step_address st") (auto intro: site)
qed (use assms in \<open>simp_all add: create_inv assign_inv auto_populate_inv compose_inv edit_inv approve_inv cancel_inv delete_inv
    unpublish_inv distribute_inv dispatch_scheduled_issues_def dispatch_each_inv cycle_inv set_disc_inv\<close>)

end

section \<open>The tables are well formed\<close>

lemma ship_numbers_update:
  "(\<And>x. x \<in> set xs \<Longrightarrow> p x \<Longrightarrow> ni_ship_number (f x) = ni_ship_number x) \<Longrightarrow> ship_numbers (update_where p f xs) = ship_numbers xs"
  unfolding ship_numbers_def update_where_def by (induction xs) (auto simp: map_filter_simps split: option.splits)

lemma keys_update:
  assumes "\<And>x. x \<in> set xs \<Longrightarrow> p x \<Longrightarrow> lawful x (f x)"
  shows "issue_keys_unique (update_where p f xs) = issue_keys_unique xs"
proof -
  have "map g (update_where p f xs) = map g xs" if "\<And>x y. lawful x y \<Longrightarrow> g y = g x" for g :: "newsletter_issue \<Rightarrow> string"
    using assms that by (intro map_update_where) blast
  moreover have "ship_numbers (update_where p f xs) = ship_numbers xs"
    using assms by (intro ship_numbers_update) (auto simp: lawful_def)
  ultimately show ?thesis by (simp add: issue_keys_unique_def lawful_def ship_numbers_def)
qed

lemma set_map_filter: "set (List.map_filter g xs) = {y. \<exists>x \<in> set xs. g x = Some y}"
  by (induction xs) (auto simp: map_filter_simps split: option.splits)

lemma distinct_map_filter_filter: "distinct (List.map_filter g xs) \<Longrightarrow> distinct (List.map_filter g (filter P xs))"
  by (induction xs) (auto simp: map_filter_simps set_map_filter split: option.splits)

lemma keys_filter: "issue_keys_unique xs \<Longrightarrow> issue_keys_unique (filter P xs)"
  by (auto simp: issue_keys_unique_def distinct_map_filter distinct_map_filter_filter)

interpretation news_tables: news_invariant "\<lambda>_. True" "\<lambda>_. True" news_wf
proof unfold_locales
  fix s p and f :: "newsletter_issue \<Rightarrow> newsletter_issue"
  assume "news_wf s" "\<And>x. x \<in> set (nw_issues s) \<Longrightarrow> p x \<Longrightarrow> lawful x (f x)"
  then show "news_wf (update_issues p f s)" by (simp add: news_wf_def keys_update)
next
  fix s i assume "news_wf s"
  then show "news_wf (s\<lparr>nw_issues := filter (\<lambda>y. ni_id y \<noteq> i) (nw_issues s)\<rparr>)" by (simp add: news_wf_def keys_filter)
qed (simp_all add: news_wf_def)

section \<open>Every operation refines the life cycle\<close>

lemma life_remind: "life_of (remind e x s) = life_of s"
proof
  fix j show "life_of (remind e x s) j = life_of s j"
    using remind_row [of j e x s] by (cases "issue_by_id j s") (auto simp: life_of_def reminded_def add_note_def)
qed

lemma life_reminders: "life_of (fold (remind e) xs s) = life_of s"
  by (induction xs arbitrary: s) (simp_all add: life_remind)

lemma dispatch_each_refines:
  "news_wf s \<Longrightarrow> alone (re_news r) \<Longrightarrow> refines s (snd (snd (dispatch_each r is (a, b, s))))"
proof (induction "is" arbitrary: a b s)
  case (Cons i "is")
  let ?t = "snd (dispatch_issue r i s)"
  have d: "refines s ?t" "news_wf ?t"
    using dispatch_refines [OF Cons.prems(2,1)] news_tables.dispatch_inv [OF Cons.prems] by blast+
  then have "refines ?t (snd (snd (dispatch_each r is (a', b', ?t))))" for a' b' using Cons by blast
  then show ?case
    using refines_trans [OF d(1)] by (cases "dispatch_issue r i s"; cases "fst (dispatch_issue r i s)") simp_all
qed simp

lemma distribute_refines:
  assumes "news_wf s" and "alone (re_news r)"
  shows "refines s (snd (approve_and_distribute r i who s))"
proof -
  let ?e = "re_news r"
  obtain answer s1 where a: "approve_and_schedule ?e i who (Some (ne_now ?e - 1000000)) s = (answer, s1)" by fastforce
  have r1: "refines s s1" using approve_refines [of s ?e i who "Some (ne_now ?e - 1000000)"] a by simp
  show ?thesis
  proof (cases answer)
    case (Inl err)
    then show ?thesis using a r1 by (simp add: approve_and_distribute_def Let_def)
  next
    case (Inr x)
    let ?f = "\<lambda>x. x\<lparr>ni_scheduled_send_at := Some (ne_now ?e - 1000000)\<rparr>"
    have w1: "news_wf s1" using news_tables.approve_inv [OF assms(1), of ?e i who "Some (ne_now ?e - 1000000)"] a by simp
    have x: "issue_by_id i s1 = Some x" "ni_status x = Approved"
      using approve_answer [OF wf_ids [OF assms(1)] a [unfolded Inr]] by simp_all
    have "news_wf (change_issue i ?f s1)" by (rule news_tables.change_row [OF w1 x(1)]) (simp add: lawful_def x(2))
    moreover have "refines s1 (change_issue i ?f s1)" by (intro refines_same) (simp_all add: life_change_same)
    ultimately have "refines s1 (snd (dispatch_issue r i (change_issue i ?f s1)))"
      using dispatch_refines [OF assms(2)] refines_trans by blast
    then show ?thesis using refines_trans [OF r1] by (simp add: approve_and_distribute_def a Inr Let_def)
  qed
qed

lemma cycle_refines:
  assumes "alone e" and "ne_issue_id e \<notin> fst ` set (nw_sent s)"
  shows "refines s (snd (run_scheduled_cycle e s))"
proof -
  obtain answer s1 where p: "reminder_pass e s = (answer, s1)" by fastforce
  let ?c = "filter (needs_reminder (ne_now e)) (nw_issues s)"
  have "s1 = s \<or> s1 = fold (remind e) ?c s \<or> s1 = s\<lparr>nw_site := nw_site (fold (remind e) ?c s)\<rparr>"
    using p by (auto simp: reminder_pass_def Let_def split: if_splits option.splits)
  then have r1: "refines s s1" and l1: "nw_sent s1 = nw_sent s"
    by (auto intro: refines_same same_rows_refine simp: life_reminders)
  have "refines s1 (snd (pace e c s1))" for c
  proof (rule create_cases [OF assms(1), of None "''''" "''''" s1])
    fix err assume "create_empty_issue e None '''' '''' s1 = (Inl err, s1)"
    then show ?thesis by (simp add: pace_def)
  next
    fix x assume c: "create_empty_issue e None '''' '''' s1 = (Inr x, add_issue x s1)"
      and u: "issue_keys_unique (nw_issues s1 @ [x])" and i: "ni_id x = ne_issue_id e" and d: "ni_status x = Draft"
    obtain n s2 where t: "auto_populate_draft e (ni_id x) 10 (add_issue x s1) = (n, s2)" by fastforce
    have f2: "nw_issues s2 = nw_issues (add_issue x s1)" "nw_sent s2 = nw_sent (add_issue x s1)"
      using auto_populate_frame [of e "ni_id x" 10 "add_issue x s1"] t by simp_all
    have "refines s1 (add_issue x s1)" using u i d assms(2) l1 by (intro add_issue_refines) simp_all
    from refines_trans [OF this same_rows_refine [OF f2]] have r2: "refines s1 s2" .
    have "refines s2 (remind e x s2)" by (rule refines_same) (simp_all add: life_remind)
    from refines_trans [OF r2 this] have r3: "refines s1 (remind e x s2)" .
    have "refines s2 (s2\<lparr>nw_site := t\<rparr>)" for t by (rule same_rows_refine) simp_all
    from refines_trans [OF r2 this] have r4: "refines s1 (s2\<lparr>nw_site := t\<rparr>)" for t .
    show ?thesis using r2 r3 r4 by (simp add: pace_def c t Let_def split: option.splits)
  qed
  then show ?thesis
    using r1 refines_trans [OF r1] by (simp add: run_scheduled_cycle_def p Let_def split: sum.splits option.splits)
qed

lemma news_do_refines:
  assumes "news_wf s" and "op_alone op s"
  shows "refines s (news_do op s)"
  using assms
  by (cases op) (simp_all add: op_alone_def create_refines compose_refines edit_refines approve_refines cancel_refines delete_refines
      unpublish_refines distribute_refines dispatch_scheduled_issues_def dispatch_each_refines cycle_refines
      same_rows_refine assign_frame auto_populate_frame)

lemma news_do_wf: "news_wf s \<Longrightarrow> op_alone op s \<Longrightarrow> news_wf (news_do op s)"
  by (rule news_tables.news_do_inv) (auto simp: op_alone_def option.pred_True elim: option.pred_mono_strong)

lemma run_news_refines: "news_wf s \<Longrightarrow> runs_alone ops s \<Longrightarrow> refines s (run_news ops s) \<and> news_wf (run_news ops s)"
  unfolding run_news_def
proof (induction ops arbitrary: s)
  case (Cons op ops)
  then show ?case using news_do_refines [of s op] news_do_wf [of s op] refines_trans by (auto simp: run_news_def)
qed simp

end
