(* ===== verification/NewsletterGuarantees.thy ===== *)
theory NewsletterGuarantees
  imports NewsletterInvariants
begin

text \<open>
  What the newsletter guarantees over any sequence of operations, and where it does not:
  each issue reaches a subscriber once at most, a sent issue stays as it was sent, drafts
  get fresh labels as long as nothing is deleted, and a commit that fails after the mails
  are out leaves the issue in \<open>sending\<close> for good.
\<close>

section \<open>Labels\<close>

lemma last_ship_Max: "last_ship xs = (if ship_numbers xs = [] then 0 else Max (set (ship_numbers xs)))"
  by (cases "ship_numbers xs") (simp_all add: last_ship_def Max.set_eq_fold flip: list.set)

lemma last_ship_ge: "n \<in> set (ship_numbers xs) \<Longrightarrow> n \<le> last_ship xs"
  by (auto simp: last_ship_Max)

lemma ship_numbers_append: "ship_numbers (xs @ ys) = ship_numbers xs @ ship_numbers ys"
  unfolding ship_numbers_def by (induction xs) (auto simp: map_filter_simps split: option.splits)

lemma ship_numbers_None [simp]: "ni_ship_number x = None \<Longrightarrow> ship_numbers [x] = []"
  by (simp add: ship_numbers_def map_filter_simps)

lemma in_ship_numbers: "n \<in> set (ship_numbers xs) \<longleftrightarrow> (\<exists>x \<in> set xs. ni_ship_number x = Some n)"
  by (simp add: ship_numbers_def set_map_filter)

definition label_ok :: "int \<Rightarrow> nat \<Rightarrow> newsletter_issue \<Rightarrow> bool" where
  "label_ok ship count x \<longleftrightarrow> (case ni_ship_number x of
     Some n \<Rightarrow> 1 \<le> n \<and> ni_display_label x = str_of_int n
   | None \<Rightarrow> \<exists>epoch k. 0 \<le> epoch \<and> epoch \<le> ship \<and> ni_display_label x = epoch_label epoch k \<and> (epoch = ship \<longrightarrow> k < count))"

text \<open>Sent issues carry their number; the unsent ones of the current epoch the first letters, none twice.\<close>

definition labels_ok :: "newsletter_issue list \<Rightarrow> bool" where
  "labels_ok xs \<longleftrightarrow> issue_keys_unique xs \<and> (\<forall>x \<in> set xs. label_ok (last_ship xs) (epoch_count xs) x)"

lemma last_ship_nonneg: "labels_ok xs \<Longrightarrow> 0 \<le> last_ship xs"
proof (cases "ship_numbers xs")
  case (Cons n ns)
  assume l: "labels_ok xs"
  have n: "n \<in> set (ship_numbers xs)" by (simp add: Cons)
  then obtain x where "x \<in> set xs" "ni_ship_number x = Some n" by (auto simp: in_ship_numbers)
  then have "1 \<le> n" using l by (auto simp: labels_ok_def label_ok_def)
  then show ?thesis using last_ship_ge [OF n] by simp
qed (simp add: last_ship_def)

lemma fresh_label: assumes "labels_ok xs" shows "next_display_label xs \<notin> ni_display_label ` set xs"
proof
  assume "next_display_label xs \<in> ni_display_label ` set xs"
  then obtain x where x: "x \<in> set xs" "ni_display_label x = epoch_label (last_ship xs) (epoch_count xs)"
    by (auto simp: next_display_label_def)
  have e: "display_label_epoch (ni_display_label x) = Some (last_ship xs)"
    using x(2) last_ship_nonneg [OF assms] by (simp add: epoch_label_epoch)
  have ok: "label_ok (last_ship xs) (epoch_count xs) x" using assms x(1) by (simp add: labels_ok_def)
  show False
  proof (cases "ni_ship_number x")
    case None
    with ok obtain epoch k where k: "0 \<le> epoch" "ni_display_label x = epoch_label epoch k" "epoch = last_ship xs \<longrightarrow> k < epoch_count xs"
      by (auto simp: label_ok_def)
    then have "epoch = last_ship xs" using e by (simp add: epoch_label_epoch)
    then show False using k x(2) epoch_label_inj [of "last_ship xs" k "epoch_count xs"] by simp
  next
    case (Some n)
    then show False using ok e number_is_no_epoch [of n] by (simp add: label_ok_def)
  qed
qed

lemma epoch_count_cong:
  "map (\<lambda>x. (ni_ship_number x, ni_display_label x)) xs = map (\<lambda>x. (ni_ship_number x, ni_display_label x)) ys \<Longrightarrow>
     last_ship xs = last_ship ys \<Longrightarrow> epoch_count xs = epoch_count ys"
proof -
  assume m: "map (\<lambda>x. (ni_ship_number x, ni_display_label x)) xs = map (\<lambda>x. (ni_ship_number x, ni_display_label x)) ys"
    and l: "last_ship xs = last_ship ys"
  have e: "epoch_count zs = length (filter (\<lambda>(n, d). n = None \<and> display_label_epoch d = Some (last_ship zs))
      (map (\<lambda>x. (ni_ship_number x, ni_display_label x)) zs))" for zs
    by (simp add: epoch_count_def filter_map comp_def)
  show ?thesis unfolding e [of xs] e [of ys] m l ..
qed

lemma labels_update:
  assumes "labels_ok xs" and "\<And>x. x \<in> set xs \<Longrightarrow> p x \<Longrightarrow> lawful x (f x)"
  shows "labels_ok (update_where p f xs)"
proof -
  let ?ys = "update_where p f xs"
  have s: "ship_numbers ?ys = ship_numbers xs" using assms(2) by (intro ship_numbers_update) (auto simp: lawful_def)
  then have l: "last_ship ?ys = last_ship xs" by (simp add: last_ship_def)
  have "map (\<lambda>x. (ni_ship_number x, ni_display_label x)) ?ys = map (\<lambda>x. (ni_ship_number x, ni_display_label x)) xs"
    using assms(2) by (intro map_update_where) (auto simp: lawful_def)
  then have c: "epoch_count ?ys = epoch_count xs" using l by (rule epoch_count_cong)
  have "label_ok (last_ship xs) (epoch_count xs) y" if "y \<in> set ?ys" for y
  proof -
    obtain x where x: "x \<in> set xs" "y = (if p x then f x else x)" using \<open>y \<in> set ?ys\<close> unfolding in_update_where by blast
    have "lawful x y" using assms(2) [OF x(1)] x(2) by simp
    then have "ni_ship_number y = ni_ship_number x" "ni_display_label y = ni_display_label x" by (simp_all add: lawful_def)
    moreover have "label_ok (last_ship xs) (epoch_count xs) x" using assms(1) x(1) by (simp add: labels_ok_def)
    ultimately show ?thesis by (simp add: label_ok_def cong: option.case_cong)
  qed
  then show ?thesis using assms keys_update [of xs p f] by (simp add: labels_ok_def l c)
qed

lemma labels_add:
  assumes "labels_ok xs" and "issue_keys_unique (xs @ [x])" and "ni_ship_number x = None"
    and "ni_display_label x = next_display_label xs"
  shows "labels_ok (xs @ [x])"
proof -
  have l: "last_ship (xs @ [x]) = last_ship xs" using assms(3) by (simp add: last_ship_def ship_numbers_append)
  have n: "0 \<le> last_ship xs" by (rule last_ship_nonneg [OF assms(1)])
  have c: "epoch_count (xs @ [x]) = epoch_count xs + 1"
    using assms(3,4) n by (simp add: epoch_count_def l next_display_label_def epoch_label_epoch)
  have "label_ok (last_ship xs) (epoch_count xs + 1) y" if "y \<in> set xs" for y
    using assms(1) that by (fastforce simp: labels_ok_def label_ok_def split: option.splits)
  moreover have "label_ok (last_ship xs) (epoch_count xs + 1) x"
    using assms(3,4) n by (auto simp: label_ok_def next_display_label_def)
  ultimately show ?thesis using assms(2) by (simp add: labels_ok_def l c)
qed

lemma labels_number:
  assumes "labels_ok xs" and "\<exists>x \<in> set xs. ni_id x = i"
    and "issue_keys_unique (update_where (\<lambda>x. ni_id x = i) (numbered e (next_ship_number xs)) xs)"
  shows "labels_ok (update_where (\<lambda>x. ni_id x = i) (numbered e (next_ship_number xs)) xs)"
proof -
  let ?n = "next_ship_number xs"
  let ?ys = "update_where (\<lambda>x. ni_id x = i) (numbered e ?n) xs"
  have nn: "0 \<le> last_ship xs" by (rule last_ship_nonneg [OF assms(1)])
  have row: "ni_ship_number y = Some ?n \<and> ni_display_label y = str_of_int ?n
      \<or> y \<in> set xs" if "y \<in> set ?ys" for y
    using that by (auto simp: in_update_where numbered_def)
  have mem: "?n \<in> set (ship_numbers ?ys)"
    using assms(2) by (force simp: in_ship_numbers in_update_where numbered_def)
  have up: "m \<le> ?n" if "m \<in> set (ship_numbers ?ys)" for m
  proof -
    obtain y where y: "y \<in> set ?ys" "ni_ship_number y = Some m" using \<open>m \<in> set (ship_numbers ?ys)\<close> by (auto simp: in_ship_numbers)
    then have "m = ?n \<or> m \<in> set (ship_numbers xs)" using row [OF y(1)] by (auto simp: in_ship_numbers)
    then show ?thesis using last_ship_ge [of m xs] by (auto simp: next_ship_number_def)
  qed
  have l: "last_ship ?ys = ?n"
    using last_ship_ge [OF mem] mem up by (auto simp: last_ship_Max intro!: order_antisym split: if_splits)
  have "label_ok ?n c y" if "y \<in> set ?ys" for c y
  proof -
    consider "ni_ship_number y = Some ?n \<and> ni_display_label y = str_of_int ?n" | "y \<in> set xs" using row \<open>y \<in> set ?ys\<close> by blast
    then show ?thesis
    proof cases
      case 2
      then have "label_ok (last_ship xs) (epoch_count xs) y" using assms(1) by (simp add: labels_ok_def)
      then show ?thesis by (fastforce simp: label_ok_def next_ship_number_def split: option.splits)
    qed (use nn in \<open>simp add: label_ok_def next_ship_number_def\<close>)
  qed
  then show ?thesis using assms(3) by (simp add: labels_ok_def l)
qed

interpretation news_labels: news_invariant "\<lambda>_. True" "\<lambda>_. False" "\<lambda>s. labels_ok (nw_issues s)"
proof unfold_locales
  fix s i x e
  assume "labels_ok (nw_issues s)" and b: "issue_by_id i s = Some x"
    and u: "issue_keys_unique (nw_issues (change_issue i (numbered e (next_ship_number (nw_issues s))) s))"
  then show "labels_ok (nw_issues (change_issue i (numbered e (next_ship_number (nw_issues s))) s))"
    using issue_by_id_SomeD [OF b] by (auto intro!: labels_number)
qed (simp_all add: labels_update labels_add, simp add: labels_ok_def)

lemma run_news_labels:
  "labels_ok (nw_issues s) \<Longrightarrow> runs_alone ops s \<Longrightarrow> \<forall>op \<in> set ops. op_deletes op = None \<Longrightarrow> labels_ok (nw_issues (run_news ops s))"
  unfolding run_news_def
proof (induction ops arbitrary: s)
  case (Cons op ops)
  have "labels_ok (nw_issues (news_do op s))"
    by (rule news_labels.news_do_inv [OF Cons.prems(1)])
      (use Cons.prems in \<open>auto simp: op_alone_def option.pred_True elim: option.pred_mono_strong\<close>)
  then show ?case using Cons by simp
qed simp

text \<open>With ordered labels, a draft is created at the first attempt.\<close>

lemma create_succeeds:
  assumes "labels_ok (nw_issues s)" and "alone e" and "ne_issue_id e \<notin> ni_id ` set (nw_issues s)"
  obtains x where "create_empty_issue e t ttl nts s = (Inr x, add_issue x s)" "ni_display_label x = next_display_label (nw_issues s)"
    "ni_id x = ne_issue_id e"
proof -
  let ?t = "case t of Some t \<Rightarrow> t | None \<Rightarrow> next_default_target_send_at (ne_now e) (nw_issues s)"
  let ?x = "draft_issue e ?t ttl nts (nw_issues s)"
  have slug: "ni_slug ?x \<notin> ni_slug ` set (nw_issues s)"
    using the_slug_fresh [of _ "map ni_slug (nw_issues s)"] by (simp add: draft_issue_def Let_def)
  have "distinct (List.map_filter ni_ship_number (nw_issues s @ [?x]))"
    using assms(1) ship_numbers_append [of "nw_issues s" "[?x]"]
    by (simp add: labels_ok_def issue_keys_unique_def flip: ship_numbers_def)
  then have "issue_keys_unique (nw_issues s @ [?x])"
    using assms slug fresh_label [OF assms(1)] by (auto simp: labels_ok_def issue_keys_unique_def)
  then have "create_empty_issue e t ttl nts s = (Inr ?x, add_issue ?x s)"
    using assms(2) by (simp add: create_empty_issue_def numeral_3_eq_3 Let_def alone_def)
  then show ?thesis by (rule that) simp_all
qed

text \<open>After the deletion of any draft of the epoch but the newest, the next label is taken.\<close>

lemma epoch_labels_are_all_used:
  assumes "labels_ok xs" and "k < epoch_count xs"
  obtains y where "y \<in> set xs" "ni_ship_number y = None" "ni_display_label y = epoch_label (last_ship xs) k"
proof -
  let ?ship = "last_ship xs" and ?n = "epoch_count xs"
  let ?ys = "filter (\<lambda>y. ni_ship_number y = None \<and> display_label_epoch (ni_display_label y) = Some ?ship) xs"
  let ?ls = "map ni_display_label ?ys"
  have n: "0 \<le> ?ship" by (rule last_ship_nonneg [OF assms(1)])
  have "ni_display_label y \<in> epoch_label ?ship ` {..<?n}" if "y \<in> set ?ys" for y
  proof -
    have "label_ok ?ship ?n y" using assms(1) that by (simp add: labels_ok_def)
    then show ?thesis using that by (auto simp: label_ok_def epoch_label_epoch)
  qed
  then have sub: "set ?ls \<subseteq> epoch_label ?ship ` {..<?n}" by auto
  have "distinct ?ls" using assms(1) by (simp add: labels_ok_def issue_keys_unique_def distinct_map_filter)
  then have "card (set ?ls) = length ?ls" by (rule distinct_card)
  then have "card (set ?ls) = ?n" unfolding epoch_count_def length_map .
  then have "card (epoch_label ?ship ` {..<?n}) \<le> card (set ?ls)" using card_image_le [of "{..<?n}" "epoch_label ?ship"] by simp
  then have "set ?ls = epoch_label ?ship ` {..<?n}" by (intro card_seteq sub) simp
  then have "epoch_label ?ship k \<in> set ?ls" using assms(2) by simp
  then show ?thesis using that by auto
qed

lemma gap_collides:
  assumes "labels_ok xs" and "x \<in> set xs" and "ni_ship_number x = None" and "ni_display_label x = epoch_label (last_ship xs) k"
    and "k + 1 < epoch_count xs"
  shows "next_display_label (filter (\<lambda>y. ni_id y \<noteq> ni_id x) xs) \<in> ni_display_label ` set (filter (\<lambda>y. ni_id y \<noteq> ni_id x) xs)"
proof -
  let ?ship = "last_ship xs" and ?n = "epoch_count xs"
  let ?cur = "\<lambda>y. ni_ship_number y = None \<and> display_label_epoch (ni_display_label y) = Some ?ship"
  let ?zs = "filter (\<lambda>y. ni_id y \<noteq> ni_id x) xs"
  have n: "0 \<le> ?ship" by (rule last_ship_nonneg [OF assms(1)])
  have u: "distinct (map ni_id xs)" using assms(1) by (simp add: labels_ok_def issue_keys_unique_def)
  have only: "ni_id y = ni_id x \<longleftrightarrow> y = x" if "y \<in> set xs" for y
    using u assms(2) that by (auto simp: distinct_map inj_on_def)
  have "set (ship_numbers ?zs) = set (ship_numbers xs)" using assms(3) only by (force simp: in_ship_numbers set_eq_iff)
  then have l: "last_ship ?zs = ?ship" unfolding last_ship_Max by (metis set_empty)
  have "filter ?cur ?zs = removeAll x (filter ?cur xs)"
    using only by (auto simp: removeAll_filter_not_eq intro!: filter_cong)
  moreover have "x \<in> set (filter ?cur xs)" using assms(2,3,4) n by (simp add: epoch_label_epoch)
  moreover have "distinct (filter ?cur xs)" using u by (simp add: distinct_map)
  ultimately have c: "epoch_count ?zs = ?n - 1"
    by (simp add: epoch_count_def l length_remove1 flip: distinct_remove1_removeAll)
  obtain y where y: "y \<in> set xs" "ni_display_label y = epoch_label ?ship (?n - 1)"
    using epoch_labels_are_all_used [OF assms(1), of "?n - 1"] assms(5) by auto
  then have "y \<noteq> x" using assms(4,5) epoch_label_inj [OF n, of k "?n - 1"] by auto
  then show ?thesis using y only by (force simp: next_display_label_def l c)
qed

lemma taken_label_blocks:
  assumes "next_display_label (nw_issues s) \<in> ni_display_label ` set (nw_issues s)" and "alone e"
  shows "create_empty_issue e t ttl nts s = (Inl (Raised ''Could not assign newsletter draft display label''), s)"
  using assms by (simp add: create_empty_issue_def numeral_3_eq_3 Let_def alone_def issue_keys_unique_def)

section \<open>Sent issues\<close>

text \<open>The contents of an issue: what does not say whether the archive shows it.\<close>

definition contents :: "newsletter_issue \<Rightarrow> newsletter_issue" where
  "contents x = x\<lparr>ni_unpublished_at := None, ni_updated_at := 0\<rparr>"

lemma contents_lawful: "ni_status x = Sent \<Longrightarrow> lawful x y \<Longrightarrow> contents y = contents x"
  by (auto simp: lawful_def contents_def)

lemma contents_status [simp]: "ni_status (contents x) = ni_status x"
  by (simp add: contents_def)

definition frozen :: "newsletter_issue \<Rightarrow> news \<Rightarrow> bool" where
  "frozen c s \<longleftrightarrow> issue_keys_unique (nw_issues s) \<and> ni_status c = Sent
     \<and> (\<forall>x \<in> set (nw_issues s). ni_id x = ni_id c \<longrightarrow> contents x = contents c)"

lemma contents_sent: "contents x = contents c \<Longrightarrow> ni_status c = Sent \<Longrightarrow> ni_status x = Sent"
  by (metis contents_status)

interpretation news_frozen: news_invariant "\<lambda>i. i \<noteq> ni_id c" "\<lambda>_. True" "frozen c" for c
proof unfold_locales
  fix s p and f :: "newsletter_issue \<Rightarrow> newsletter_issue"
  assume i: "frozen c s" and l: "\<And>x. x \<in> set (nw_issues s) \<Longrightarrow> p x \<Longrightarrow> lawful x (f x)"
  have "contents (f x) = contents c" if "x \<in> set (nw_issues s)" "p x" "ni_id (f x) = ni_id c" for x
  proof -
    have "lawful x (f x)" using l that by blast
    moreover have "contents x = contents c" using i that calculation by (simp add: frozen_def lawful_def)
    ultimately show ?thesis using i contents_lawful [of x "f x"] contents_sent [of x c] by (simp add: frozen_def)
  qed
  then show "frozen c (update_issues p f s)"
    using i l keys_update [of "nw_issues s" p f] by (auto simp: frozen_def in_update_where)
next
  fix s i x e
  assume fr: "frozen c s" and b: "issue_by_id i s = Some x" "ni_status x = Sending"
    and u: "issue_keys_unique (nw_issues (change_issue i (numbered e (next_ship_number (nw_issues s))) s))"
  have "i \<noteq> ni_id c"
  proof
    assume "i = ni_id c"
    then have "contents x = contents c" using fr issue_by_id_SomeD [OF b(1)] by (simp add: frozen_def)
    then show False using contents_sent [of x c] fr b(2) by (simp add: frozen_def)
  qed
  then show "frozen c (change_issue i (numbered e (next_ship_number (nw_issues s))) s)"
    using fr u by (auto simp: frozen_def in_update_where)
next
  fix s i assume "frozen c s"
  then show "frozen c (s\<lparr>nw_issues := filter (\<lambda>y. ni_id y \<noteq> i) (nw_issues s)\<rparr>)" by (simp add: frozen_def keys_filter)
qed (auto simp: frozen_def)

lemma run_news_frozen:
  "frozen c s \<Longrightarrow> runs_alone ops s \<Longrightarrow> \<forall>op \<in> set ops. op_new_id op \<noteq> Some (ni_id c) \<Longrightarrow> frozen c (run_news ops s)"
  unfolding run_news_def
proof (induction ops arbitrary: s)
  case (Cons op ops)
  have "frozen c (news_do op s)"
    by (rule news_frozen.news_do_inv [OF Cons.prems(1)])
      (use Cons.prems in \<open>auto simp: op_alone_def option.pred_True pred_option_def elim: option.pred_mono_strong\<close>)
  then show ?case using Cons by simp
qed simp

section \<open>Issues that stay in \<open>sending\<close>\<close>

text \<open>Once a mail is out, the machine never leaves \<open>sending\<close> but by deletion.\<close>

definition stranded :: "string \<Rightarrow> life_state \<Rightarrow> bool" where
  "stranded i t \<longleftrightarrow> i \<in> fst ` set (snd t) \<and> fst t i \<in> {None, Some Sending}"

lemma life_step_stranded: "life_step t t' \<Longrightarrow> stranded i t \<Longrightarrow> stranded i t'"
  by (induction rule: life_step.induct) (auto simp: stranded_def)

lemma life_steps_stranded: "life_steps t t' \<Longrightarrow> stranded i t \<Longrightarrow> stranded i t'"
  by (induction rule: rtranclp_induct) (auto intro: life_step_stranded)

section \<open>A healthy dispatch\<close>

lemma ship_numbers_Cons: "ship_numbers (x # xs) = (case ni_ship_number x of None \<Rightarrow> ship_numbers xs | Some n \<Rightarrow> n # ship_numbers xs)"
  by (simp add: ship_numbers_def map_filter_simps split: option.splits)

lemma update_where_Cons: "update_where p f (x # xs) = (if p x then f x else x) # update_where p f xs"
  by (simp add: update_where_def)

lemma update_where_absent: "i \<notin> ni_id ` set xs \<Longrightarrow> update_where (\<lambda>x. ni_id x = i) f xs = xs"
  unfolding update_where_def by (intro map_idI) auto

lemma distinct_update_one:
  assumes "distinct (map ni_id xs)" and "distinct (map g xs)" and "v \<notin> g ` set xs" and "\<And>x. g (f x) = v"
  shows "distinct (map g (update_where (\<lambda>x. ni_id x = i) f xs)) \<and> g ` set (update_where (\<lambda>x. ni_id x = i) f xs) \<subseteq> insert v (g ` set xs)"
  using assms(1-3)
proof (induction xs)
  case (Cons x xs)
  show ?case
  proof (cases "ni_id x = i")
    case True
    then have "update_where (\<lambda>x. ni_id x = i) f xs = xs"
      using Cons.prems(1) by (intro update_where_absent) simp
    then show ?thesis using Cons True assms(4) by (auto simp: update_where_Cons)
  next
    case False
    then show ?thesis using Cons by (auto simp: update_where_Cons)
  qed
qed (simp add: update_where_def)

lemma distinct_ships_update:
  "distinct (map ni_id xs) \<Longrightarrow> distinct (ship_numbers xs) \<Longrightarrow> n \<notin> set (ship_numbers xs) \<Longrightarrow>
     distinct (ship_numbers (update_where (\<lambda>x. ni_id x = i) (numbered e n) xs))
     \<and> set (ship_numbers (update_where (\<lambda>x. ni_id x = i) (numbered e n) xs)) \<subseteq> insert n (set (ship_numbers xs))"
proof (induction xs)
  case (Cons x xs)
  have n: "ni_ship_number (numbered e n x) = Some n" by (simp add: numbered_def)
  show ?case
  proof (cases "ni_id x = i")
    case True
    then have "update_where (\<lambda>x. ni_id x = i) (numbered e n) xs = xs"
      using Cons.prems(1) by (intro update_where_absent) simp
    then have "ship_numbers (update_where (\<lambda>x. ni_id x = i) (numbered e n) (x # xs)) = n # ship_numbers xs"
      using True n by (simp add: update_where_Cons ship_numbers_Cons)
    then show ?thesis using Cons.prems by (auto simp: ship_numbers_Cons split: option.splits)
  next
    case False
    then show ?thesis using Cons by (auto simp: update_where_Cons ship_numbers_Cons split: option.splits)
  qed
qed (simp add: update_where_def ship_numbers_def map_filter_simps)

lemma str_of_int_inj: "0 \<le> m \<Longrightarrow> 0 \<le> n \<Longrightarrow> str_of_int m = str_of_int n \<Longrightarrow> m = n"
  by (auto simp: str_of_int_def dest: digits_inj)

text \<open>The next number and its label are free.\<close>

lemma number_is_free:
  assumes "labels_ok xs"
  shows "issue_keys_unique (update_where (\<lambda>x. ni_id x = i) (numbered e (next_ship_number xs)) xs)"
proof -
  let ?n = "next_ship_number xs"
  let ?ys = "update_where (\<lambda>x. ni_id x = i) (numbered e ?n) xs"
  have u: "distinct (map ni_id xs)" "distinct (map ni_slug xs)" "distinct (map ni_display_label xs)" "distinct (ship_numbers xs)"
    using assms by (simp_all add: labels_ok_def issue_keys_unique_def ship_numbers_def)
  have nn: "0 \<le> last_ship xs" by (rule last_ship_nonneg [OF assms])
  have m: "map ni_id ?ys = map ni_id xs" "map ni_slug ?ys = map ni_slug xs" by (rule map_update_where; simp)+
  have "?n \<notin> set (ship_numbers xs)" using last_ship_ge [of ?n xs] by (auto simp: next_ship_number_def)
  then have s: "distinct (ship_numbers ?ys)" using distinct_ships_update [OF u(1,4)] by blast
  have "str_of_int ?n \<noteq> ni_display_label x" if "x \<in> set xs" for x
  proof
    assume eq: "str_of_int ?n = ni_display_label x"
    have ok: "label_ok (last_ship xs) (epoch_count xs) x" using assms that by (simp add: labels_ok_def)
    show False
    proof (cases "ni_ship_number x")
      case None
      with ok obtain epoch k where "0 \<le> epoch" "ni_display_label x = epoch_label epoch k" by (auto simp: label_ok_def)
      then have "display_label_epoch (str_of_int ?n) = Some epoch" using eq by (simp add: epoch_label_epoch)
      then show False using number_is_no_epoch [of ?n] nn by (simp add: next_ship_number_def)
    next
      case (Some k)
      then have "k \<le> last_ship xs" using last_ship_ge [of k xs] that by (auto simp: in_ship_numbers)
      moreover have "1 \<le> k" "str_of_int ?n = str_of_int k" using ok Some eq by (simp_all add: label_ok_def)
      ultimately show False using str_of_int_inj [of ?n k] nn by (simp add: next_ship_number_def)
    qed
  qed
  then have "str_of_int ?n \<notin> ni_display_label ` set xs" by blast
  then have "distinct (map ni_display_label ?ys)"
    using distinct_update_one [OF u(1,3), of "str_of_int ?n" "numbered e ?n" i] by (simp add: numbered_def)
  then show ?thesis using u s by (simp add: issue_keys_unique_def m ship_numbers_def)
qed

definition delivered :: "newsletter_delivery \<Rightarrow> string \<times> string \<times> string" where
  "delivered d = (nd_issue_id d, nd_channel d, nd_subscriber_id d)"

lemma send_fold_rows:
  "map delivered (ss_rows (fold (send_step r x) subs a))
     = map delivered (ss_rows a) @ map (\<lambda>sub. (ni_id x, ''email'', sb_id sub)) subs"
proof (induction subs arbitrary: a)
  case (Cons sub subs)
  have "map delivered (ss_rows (send_step r x sub a))
      = map delivered (ss_rows a) @ [(ni_id x, ''email'', sb_id sub)]"
    by (simp add: send_step_def Let_def delivery_row_def delivered_def split: prod.splits sum.splits)
  then show ?case using Cons by simp
qed simp

definition healthy :: "news_env \<Rightarrow> string \<Rightarrow> bool" where
  "healthy e i \<longleftrightarrow> alone e \<and> (\<forall>p. ne_io e i p = None)"

lemma healthy_send:
  assumes "healthy (re_news r) i" and "issue_by_id i s = Some x"
  obtains y s' rows where "send_issue r i s = (Inr y, s')" "issue_by_id i s' = Some y" "ni_status y = Sent"
    "ni_ship_number y = ni_ship_number x" "ni_display_label y = ni_display_label x" "ni_finds_json y = ni_finds_json x"
    "sd_deliveries (st_db (nw_site s')) = sd_deliveries (st_db (nw_site s)) @ rows"
    "map delivered rows = map (\<lambda>sid. (i, ''email'', sid)) (active_ids s) @ [(i, ''web'', ''''), (i, ''linkedin'', '''')]"
    "\<And>f. f \<in> set (dd_finds (nw_disc s')) \<Longrightarrow> fi_newsletter_issue_id f = Some i \<Longrightarrow>
        \<not> fi_newsletter_pending f \<and> fi_published_in_newsletter_at f = Some (ne_now (re_news r))"
proof -
  let ?e = "re_news r"
  have xi: "ni_id x = i" using issue_by_id_SomeD [OF assms(2)] by simp
  let ?a = "send_all r x (active_subscribers None (st_db (nw_site s))) (st_outbox (nw_site s))"
  let ?s1 = "s\<lparr>nw_site := (nw_site s)\<lparr>st_outbox := ss_outbox ?a\<rparr>, nw_sent := nw_sent s @ ss_sent ?a\<rparr>"
  obtain status why where li: "post_to_linkedin ?e (render_issue_linkedin r x) = (status, why)" by fastforce
  define tail where "tail = [delivery_row ?e i '''' ''web'' ''sent'' (Some (ne_now ?e)) '''',
      delivery_row ?e i '''' ''linkedin'' status (if status = ''sent'' then Some (ne_now ?e) else None)
        (if status = ''failed'' then why else '''')]"
  define s4 where "s4 = set_deliveries (\<lambda>ds. ds @ tail)
      ((set_deliveries (\<lambda>ds. ds @ ss_rows ?a) ?s1)\<lparr>nw_posts := nw_posts s @ (if status = ''sent'' then [i] else [])\<rparr>)"
  let ?f = "sent_issue ?e (length (ss_sent ?a)) (ss_failed ?a)"
  define s5 where "s5 = change_issue i ?f (stamp_finds ?e x s4)"
  have io: "ne_io ?e i p = None" for p using assms(1) by (simp add: healthy_def)
  have r: "send_issue r i s = (Inr (?f x), s5)"
    by (simp add: send_issue_def assms(2) io finish_dispatch_def li xi s5_def s4_def tail_def Let_def)
  have "issue_by_id i (stamp_finds ?e x s4) = Some x"
    using assms(2) by (simp add: issue_by_id_def stamp_finds_def s4_def Let_def)
  then have b: "issue_by_id i s5 = Some (?f x)" unfolding s5_def by (rule issue_by_id_change [rotated]) simp
  have d: "sd_deliveries (st_db (nw_site s5)) = sd_deliveries (st_db (nw_site s)) @ (ss_rows ?a @ tail)"
    by (simp add: s5_def stamp_finds_def s4_def set_deliveries_def Let_def)
  have "map delivered (ss_rows ?a) = map (\<lambda>sid. (i, ''email'', sid)) (active_ids s)"
    using send_fold_rows [of r x "active_subscribers None (st_db (nw_site s))"] xi
    by (simp add: send_all_def active_ids_def comp_def)
  then have m: "map delivered (ss_rows ?a @ tail) = map (\<lambda>sid. (i, ''email'', sid)) (active_ids s) @ [(i, ''web'', ''''), (i, ''linkedin'', '''')]"
    by (simp add: tail_def delivered_def delivery_row_def)
  have "\<not> fi_newsletter_pending f \<and> fi_published_in_newsletter_at f = Some (ne_now ?e)"
    if "f \<in> set (dd_finds (nw_disc s5))" "fi_newsletter_issue_id f = Some i" for f
  proof -
    have "dd_finds (nw_disc s4) = dd_finds (nw_disc s)" by (simp add: s4_def)
    then show ?thesis
      using that by (auto simp: s5_def stamp_finds_def Let_def set_finds_def update_where_def published_find_def xi list_ex_iff
        split: if_splits)
  qed
  with r b d m show ?thesis by (intro that [of "?f x" s5 "ss_rows ?a @ tail"]) (simp_all add: sent_issue_def)
qed

end
