(* ===== verification/NewsletterPass.thy ===== *)
theory NewsletterPass
  imports NewsletterGuarantees
begin

text \<open>
  A pass of the newsletter dispatcher in which no commit fails: what the dispatch of one
  issue does, what it leaves alone (\<open>only_touches\<close>), and what a pass over several due
  issues adds up to.
\<close>

section \<open>One issue\<close>

lemma healthy_dispatch:
  assumes "healthy (re_news r) i" and "labels_ok (nw_issues s)" and "issue_by_id i s = Some x" and "ni_status x = Approved"
  obtains y s' rows where "dispatch_issue r i s = (Inr y, s')" "issue_by_id i s' = Some y" "ni_status y = Sent"
    "ni_ship_number y = Some (next_ship_number (nw_issues s))" "ni_display_label y = str_of_int (next_ship_number (nw_issues s))"
    "ni_finds_json y = (let live = live_finds_for_issue i s in if live = [] then ni_finds_json x else live)"
    "sd_deliveries (st_db (nw_site s')) = sd_deliveries (st_db (nw_site s)) @ rows"
    "map delivered rows = map (\<lambda>sid. (i, ''email'', sid)) (active_ids s) @ [(i, ''web'', ''''), (i, ''linkedin'', '''')]"
    "\<forall>f \<in> set (dd_finds (nw_disc s')). fi_newsletter_issue_id f = Some i \<longrightarrow>
        \<not> fi_newsletter_pending f \<and> fi_published_in_newsletter_at f = Some (ne_now (re_news r))"
proof -
  let ?e = "re_news r"
  let ?f = "\<lambda>x. x\<lparr>ni_status := Sending, ni_updated_at := ne_now ?e\<rparr>"
  have io: "ne_io ?e i p = None" "alone ?e" for p using assms(1) by (auto simp: healthy_def)
  have u: "issue_keys_unique (nw_issues s)" using assms(2) by (simp add: labels_ok_def)
  obtain hit s1 where g: "guarded_update i (\<lambda>x. ni_status x = Approved) ?f s = (hit, s1)" by fastforce
  have hit: "hit" using guarded_update_hit [of s i "\<lambda>x. ni_status x = Approved" ?f] g u assms(3,4) by (auto simp: issue_keys_unique_def)
  have l1: "labels_ok (nw_issues s1)"
    using news_labels.guarded_inv [OF assms(2), of "\<lambda>x. ni_status x = Approved" ?f i] g by (simp add: lawful_def)
  have s1: "s1 = update_issues (\<lambda>x. ni_id x = i \<and> ni_status x = Approved) ?f s" using g by (simp add: guarded_update_def)
  then have b1: "issue_by_id i s1 = Some (?f x)" using assms(3,4) issue_by_id_SomeD [OF assms(3)] by (simp add: issue_by_id_update)
  have live: "live_finds_for_issue i s1 = live_finds_for_issue i s" by (simp add: s1 live_finds_for_issue_def)
  define h :: "newsletter_issue \<Rightarrow> newsletter_issue" where "h = (\<lambda>x. x\<lparr>ni_finds_json := (let live = live_finds_for_issue i s in if live = [] then ni_finds_json x else live)\<rparr>)"
  define s2 where "s2 = (if live_finds_for_issue i s = [] then s1 else change_issue i (\<lambda>x. x\<lparr>ni_finds_json := live_finds_for_issue i s\<rparr>) s1)"
  have b2: "issue_by_id i s2 = Some (h (?f x))"
    using b1 issue_by_id_change [OF _ b1, of "\<lambda>x. x\<lparr>ni_finds_json := live_finds_for_issue i s\<rparr>"] by (simp add: s2_def h_def Let_def)
  have l2: "labels_ok (nw_issues s2)"
    using l1 news_labels.change_row [OF l1 b1, of "\<lambda>x. x\<lparr>ni_finds_json := live_finds_for_issue i s\<rparr>"] by (simp add: s2_def lawful_def)
  have ships: "next_ship_number (nw_issues s2) = next_ship_number (nw_issues s)"
    by (simp add: s2_def s1 next_ship_number_def last_ship_def ship_numbers_update)
  let ?n = "next_ship_number (nw_issues s)"
  define s3 where "s3 = change_issue i (numbered ?e ?n) s2"
  have d: "dispatch_issue r i s = number_and_send r i s2"
    using hit by (simp add: dispatch_issue_def io g Let_def s2_def live)
  have "ship_loop ?e i 0 3 s2 = (Some (Inr ()), s3)"
    using number_is_free [OF l2, of i ?e] io by (simp add: numeral_3_eq_3 alone_def Let_def s3_def ships)
  then have n: "number_and_send r i s2 = send_issue r i s3"
    by (simp add: number_and_send_def assign_ship_number_with_retry_def)
  have b3: "issue_by_id i s3 = Some (numbered ?e ?n (h (?f x)))" unfolding s3_def by (rule issue_by_id_change [OF _ b2]) simp
  have same: "active_ids s3 = active_ids s" "nw_site s3 = nw_site s" by (simp_all add: s3_def s2_def s1)
  show ?thesis
    by (rule healthy_send [OF assms(1) b3])
      (rule that, auto simp: d n same numbered_def h_def Let_def)
qed

section \<open>What a dispatch leaves alone\<close>

text \<open>The other issues, the subscribers, and of the finds all but their stamps.\<close>

definition only_touches :: "news_env \<Rightarrow> string \<Rightarrow> news \<Rightarrow> news \<Rightarrow> bool" where
  "only_touches e i s s' \<longleftrightarrow> (\<forall>j. j \<noteq> i \<longrightarrow> issue_by_id j s' = issue_by_id j s) \<and> active_ids s' = active_ids s
     \<and> dd_sources (nw_disc s') = dd_sources (nw_disc s)
     \<and> (\<exists>p. dd_finds (nw_disc s') = map (\<lambda>f. if p f then published_find e f else f) (dd_finds (nw_disc s)))"

lemma only_touches_same:
  "nw_issues s' = nw_issues s \<Longrightarrow> nw_disc s' = nw_disc s \<Longrightarrow> active_ids s' = active_ids s \<Longrightarrow> only_touches e i s s'"
  by (auto simp: only_touches_def issue_by_id_def intro!: exI [of _ "\<lambda>_. False"])

lemma stamps_compose:
  assumes "db1 = map (\<lambda>f. if p f then published_find e f else f) db"
    and "db2 = map (\<lambda>f. if q f then published_find e f else f) db1"
  shows "\<exists>p. db2 = map (\<lambda>f. if p f then published_find e f else f) db"
  using assms by (intro exI [of _ "\<lambda>f. p f \<or> q f"]) (auto simp: published_find_def)

lemma only_touches_trans:
  assumes "only_touches e i s s1" and "only_touches e i s1 s2"
  shows "only_touches e i s s2"
proof -
  obtain p q where "dd_finds (nw_disc s1) = map (\<lambda>f. if p f then published_find e f else f) (dd_finds (nw_disc s))"
    and "dd_finds (nw_disc s2) = map (\<lambda>f. if q f then published_find e f else f) (dd_finds (nw_disc s1))"
    using assms unfolding only_touches_def by blast
  from stamps_compose [OF this] show ?thesis using assms unfolding only_touches_def by simp
qed

lemma only_touches_update:
  assumes "\<And>x. ni_id (f x) = ni_id x" and "\<And>x. p x \<Longrightarrow> ni_id x = i"
  shows "only_touches e i s (update_issues p f s)"
proof -
  have "issue_by_id j (update_issues p f s) = issue_by_id j s" if "j \<noteq> i" for j
    using assms that issue_by_id_SomeD [of j s] by (cases "issue_by_id j s") (auto simp: issue_by_id_update)
  moreover have "nw_disc (update_issues p f s) = nw_disc s" by (simp add: update_issues_def)
  ultimately show ?thesis by (auto simp: only_touches_def intro!: exI [of _ "\<lambda>_. False"])
qed

lemma only_touches_change: "(\<And>x. ni_id (f x) = ni_id x) \<Longrightarrow> only_touches e i s (change_issue i f s)"
  unfolding change_issue_def by (rule only_touches_update)

lemma only_touches_stamp: "only_touches e i s (stamp_finds e x s)"
  by (auto simp: only_touches_def stamp_finds_def Let_def set_finds_def update_where_def issue_by_id_def active_ids_def)

lemma only_touches_send: "only_touches (re_news r) i s (snd (send_issue r i s))"
proof (cases "issue_by_id i s")
  case (Some x)
  let ?e = "re_news r"
  have xi: "ni_id x = i" using issue_by_id_SomeD [OF Some] by simp
  let ?a = "send_all r x (active_subscribers None (st_db (nw_site s))) (st_outbox (nw_site s))"
  let ?s1 = "s\<lparr>nw_site := (nw_site s)\<lparr>st_outbox := ss_outbox ?a\<rparr>, nw_sent := nw_sent s @ ss_sent ?a\<rparr>"
  have same: "only_touches ?e i s t" if "nw_issues t = nw_issues s" "nw_disc t = nw_disc s"
    "sd_subscribers (st_db (nw_site t)) = sd_subscribers (st_db (nw_site s))" for t
    using that by (intro only_touches_same) (simp_all add: active_ids_def active_subscribers_def)
  have finish: "only_touches ?e i s (snd (finish_dispatch r x m n t))" if "nw_issues t = nw_issues s" "nw_disc t = nw_disc s"
    "sd_subscribers (st_db (nw_site t)) = sd_subscribers (st_db (nw_site s))" for m n t
  proof -
    obtain status why where li: "post_to_linkedin ?e (render_issue_linkedin r x) = (status, why)" by fastforce
    have "only_touches ?e i s (change_issue i f (stamp_finds ?e x u))"
      if "nw_issues u = nw_issues s" "nw_disc u = nw_disc s"
        "sd_subscribers (st_db (nw_site u)) = sd_subscribers (st_db (nw_site s))" "\<And>x. ni_id (f x) = ni_id x" for u f
      using only_touches_trans [OF only_touches_trans [OF same [OF that(1-3)] only_touches_stamp] only_touches_change [OF that(4)]] .
    then show ?thesis
      using that same by (simp add: finish_dispatch_def li xi Let_def sent_issue_def split: option.split)
  qed
  show ?thesis
    using finish same by (simp add: send_issue_def Some Let_def split: option.split)
qed (simp add: send_issue_def only_touches_same)

lemma only_touches_number_and_send:
  assumes "alone (re_news r)"
  shows "only_touches (re_news r) i s (snd (number_and_send r i s))"
proof -
  let ?e = "re_news r"
  have halt: "only_touches ?e i t (halt_dispatch ?e i t)" for t
    by (auto simp: halt_dispatch_def only_touches_same intro!: only_touches_change split: option.split)
  show ?thesis
  proof (rule assign_ship_cases [OF assms, of i s])
    fix err
    assume "assign_ship_number_with_retry ?e i s = (Inl err, s)"
    then show ?thesis using halt by (simp add: number_and_send_def)
  next
    fix err msg
    assume "assign_ship_number_with_retry ?e i s = (Inl err, change_issue i (back_to_approval ?e msg) s)"
    moreover have "only_touches ?e i s (change_issue i (back_to_approval ?e msg) s)" by (rule only_touches_change) simp
    ultimately show ?thesis using only_touches_trans [OF _ halt] by (simp add: number_and_send_def)
  next
    let ?t = "change_issue i (numbered ?e (next_ship_number (nw_issues s))) s"
    assume "assign_ship_number_with_retry ?e i s = (Inr (), ?t)"
    moreover have "only_touches ?e i s ?t" by (rule only_touches_change) simp
    ultimately show ?thesis using only_touches_trans [OF _ only_touches_send] by (simp add: number_and_send_def)
  qed
qed

lemma only_touches_dispatch:
  assumes "alone (re_news r)"
  shows "only_touches (re_news r) i s (snd (dispatch_issue r i s))"
proof -
  let ?e = "re_news r"
  let ?f = "\<lambda>x. x\<lparr>ni_status := Sending, ni_updated_at := ne_now ?e\<rparr>"
  obtain hit s1 where g: "guarded_update i (\<lambda>x. ni_status x = Approved) ?f s = (hit, s1)" by fastforce
  have g1: "only_touches ?e i s s1"
    using g only_touches_update [of ?f "\<lambda>x. ni_id x = i \<and> ni_status x = Approved" i ?e s] by (auto simp: guarded_update_def)
  have "only_touches ?e i s (snd (number_and_send r i t))" if "only_touches ?e i s1 t" for t
    using only_touches_trans [OF only_touches_trans [OF g1 that] only_touches_number_and_send [OF assms]] .
  moreover have "only_touches ?e i s1 (change_issue i (\<lambda>x. x\<lparr>ni_finds_json := l\<rparr>) s1)" for l by (rule only_touches_change) simp
  moreover have "only_touches ?e i t t" for t by (rule only_touches_same) simp_all
  ultimately show ?thesis using g1 by (simp add: dispatch_issue_def g Let_def split: option.split)
qed

section \<open>Several issues\<close>

lemma insort_key_map: "(\<And>x. k (h x) = k x) \<Longrightarrow> insort_key k (h x) (map h xs) = map h (insort_key k x xs)"
  by (induction xs) auto

lemma newest_first_map: "(\<And>x. t (h x) = t x) \<Longrightarrow> newest_first t (map h xs) = map h (newest_first t xs)"
  unfolding newest_first_def by (induction xs) (simp_all add: insort_key_map)

lemma map_filter_pairs:
  "(\<And>f. d (g f) = d f) \<Longrightarrow>
     List.map_filter (\<lambda>f. map_option (\<lambda>s. (f, s)) (d f)) (map g fs)
       = map (\<lambda>(f, s). (g f, s)) (List.map_filter (\<lambda>f. map_option (\<lambda>s. (f, s)) (d f)) fs)"
  by (induction fs) (auto simp: map_filter_simps split: option.splits)

text \<open>The finds an issue would carry do not depend on the stamps.\<close>

lemma live_finds_stable:
  assumes "only_touches e i s s'"
  shows "live_finds_for_issue j s' = live_finds_for_issue j s"
proof -
  obtain p where p: "dd_finds (nw_disc s') = map (\<lambda>f. if p f then published_find e f else f) (dd_finds (nw_disc s))"
    and d: "dd_sources (nw_disc s') = dd_sources (nw_disc s)" using assms unfolding only_touches_def by blast
  define g where "g = (\<lambda>f. if p f then published_find e f else f)"
  have g: "fi_source_id (g f) = fi_source_id f" "fi_newsletter_issue_id (g f) = fi_newsletter_issue_id f"
    "fi_last_seen_at (g f) = fi_last_seen_at f" "serialize_public_find (g f) so = serialize_public_find f so" for f so
    by (simp_all add: g_def published_find_def serialize_public_find_def review_of_def Let_def)
  define h :: "discovery_find \<times> discovery_source \<Rightarrow> discovery_find \<times> discovery_source" where "h = (\<lambda>(f, so). (g f, so))"
  have "joined (nw_disc s') = map h (joined (nw_disc s))"
    using map_filter_pairs [of "\<lambda>f. source_by_id (nw_disc s) (fi_source_id f)" g "dd_finds (nw_disc s)"]
    by (simp add: joined_def p d source_by_id_def g(1) h_def flip: g_def)
  moreover have "filter (\<lambda>(f, so). fi_newsletter_issue_id f = Some j) (map h xs)
      = map h (filter (\<lambda>(f, so). fi_newsletter_issue_id f = Some j) xs)" for xs
    by (induction xs) (auto simp: h_def g(2))
  moreover have "newest_first (\<lambda>fs. fi_last_seen_at (fst fs)) (map h xs) = map h (newest_first (\<lambda>fs. fi_last_seen_at (fst fs)) xs)" for xs
    by (rule newest_first_map) (auto simp: h_def g(3) split: prod.split)
  moreover have "(\<lambda>(f, so). serialize_public_find f so) \<circ> h = (\<lambda>(f, so). serialize_public_find f so)"
    by (auto simp: h_def g(4))
  ultimately show ?thesis by (simp add: live_finds_for_issue_def)
qed

text \<open>The number given to one issue is the last one for the next.\<close>

lemma last_ship_after:
  assumes "labels_ok (nw_issues s)" and "labels_ok (nw_issues s')" and "only_touches e i s s'"
    and "issue_by_id i s' = Some y" and "ni_ship_number y = Some (next_ship_number (nw_issues s))"
  shows "last_ship (nw_issues s') = next_ship_number (nw_issues s)"
proof -
  let ?n = "next_ship_number (nw_issues s)"
  have dist: "distinct (map ni_id (nw_issues s'))" using assms(2) by (simp add: labels_ok_def issue_keys_unique_def)
  have "?n \<in> set (ship_numbers (nw_issues s'))"
    using assms(4,5) issue_by_id_SomeD [OF assms(4)] by (auto simp: in_ship_numbers)
  moreover have "m \<le> ?n" if m: "m \<in> set (ship_numbers (nw_issues s'))" for m
  proof -
    obtain z where z: "z \<in> set (nw_issues s')" "ni_ship_number z = Some m" using m by (auto simp: in_ship_numbers)
    have b: "issue_by_id (ni_id z) s' = Some z" using find_row_distinct [OF dist z(1)] by (simp add: issue_by_id_def)
    show ?thesis
    proof (cases "ni_id z = i")
      case True
      then show ?thesis using b z(2) assms(4,5) by simp
    next
      case False
      then have "issue_by_id (ni_id z) s = Some z" using b assms(3) by (simp add: only_touches_def)
      then have "m \<in> set (ship_numbers (nw_issues s))"
        using z(2) issue_by_id_SomeD by (auto simp: in_ship_numbers)
      then show ?thesis using last_ship_ge by (force simp: next_ship_number_def)
    qed
  qed
  ultimately show ?thesis by (auto simp: last_ship_Max intro!: Max_eqI)
qed

text \<open>What one sent issue adds to the delivery records: one for each subscriber, the web and LinkedIn.\<close>

definition issue_records :: "string list \<Rightarrow> string \<Rightarrow> (string \<times> string \<times> string) list" where
  "issue_records sids i = map (\<lambda>sid. (i, ''email'', sid)) sids @ [(i, ''web'', ''''), (i, ''linkedin'', '''')]"

definition stamped_by :: "news_env \<Rightarrow> discovery_find \<Rightarrow> bool" where
  "stamped_by e f \<longleftrightarrow> \<not> fi_newsletter_pending f \<and> fi_published_in_newsletter_at f = Some (ne_now e)"

lemma healthy_pass:
  assumes "\<And>i. healthy (re_news r) i" and "labels_ok (nw_issues s)" and "distinct is"
    and "\<And>i. i \<in> set is \<Longrightarrow> \<exists>x. issue_by_id i s = Some x \<and> ni_status x = Approved"
  shows "\<exists>s'. dispatch_each r is (a, b, s) = (a + length is, b, s')
    \<and> (\<forall>j. j \<notin> set is \<longrightarrow> issue_by_id j s' = issue_by_id j s)
    \<and> (\<forall>k < length is. \<exists>y. issue_by_id (is ! k) s' = Some y \<and> ni_status y = Sent
        \<and> ni_ship_number y = Some (next_ship_number (nw_issues s) + int k)
        \<and> ni_display_label y = str_of_int (next_ship_number (nw_issues s) + int k)
        \<and> ni_finds_json y = (let live = live_finds_for_issue (is ! k) s in
            if live = [] then ni_finds_json (the (issue_by_id (is ! k) s)) else live))
    \<and> map delivered (sd_deliveries (st_db (nw_site s'))) =
        map delivered (sd_deliveries (st_db (nw_site s))) @ concat (map (issue_records (active_ids s)) is)
    \<and> (\<exists>p. dd_finds (nw_disc s') = map (\<lambda>f. if p f then published_find (re_news r) f else f) (dd_finds (nw_disc s)))
    \<and> (\<forall>f \<in> set (dd_finds (nw_disc s')). \<forall>i \<in> set is. fi_newsletter_issue_id f = Some i \<longrightarrow> stamped_by (re_news r) f)"
  using assms(2-4)
proof (induction "is" arbitrary: a s)
  case Nil
  show ?case by (auto intro!: exI [of _ "\<lambda>_. False"])
next
  case (Cons i "is")
  let ?e = "re_news r"
  let ?n = "next_ship_number (nw_issues s)"
  obtain x where x: "issue_by_id i s = Some x" "ni_status x = Approved" using Cons.prems(3) by auto
  obtain y s1 rows where y: "dispatch_issue r i s = (Inr y, s1)" "issue_by_id i s1 = Some y" "ni_status y = Sent"
    "ni_ship_number y = Some ?n" "ni_display_label y = str_of_int ?n"
    "ni_finds_json y = (let live = live_finds_for_issue i s in if live = [] then ni_finds_json x else live)"
    "sd_deliveries (st_db (nw_site s1)) = sd_deliveries (st_db (nw_site s)) @ rows"
    "map delivered rows = map (\<lambda>sid. (i, ''email'', sid)) (active_ids s) @ [(i, ''web'', ''''), (i, ''linkedin'', '''')]"
    "\<forall>f \<in> set (dd_finds (nw_disc s1)). fi_newsletter_issue_id f = Some i \<longrightarrow>
        \<not> fi_newsletter_pending f \<and> fi_published_in_newsletter_at f = Some (ne_now ?e)"
    by (rule healthy_dispatch [OF assms(1) Cons.prems(1) x])
  have alone: "alone ?e" using assms(1) by (simp add: healthy_def)
  have t: "only_touches ?e i s s1" using only_touches_dispatch [OF alone, of i s] y(1) by simp
  have l1: "labels_ok (nw_issues s1)" using news_labels.dispatch_inv [OF Cons.prems(1) alone, of i] y(1) by simp
  have n1: "next_ship_number (nw_issues s1) = ?n + 1"
    using last_ship_after [OF Cons.prems(1) l1 t y(2,4)] by (simp add: next_ship_number_def)
  have others: "issue_by_id j s1 = issue_by_id j s" if "j \<noteq> i" for j using t that by (simp add: only_touches_def)
  have act: "active_ids s1 = active_ids s" using t by (simp add: only_touches_def)
  have i: "i \<notin> set is" "distinct is" using Cons.prems(2) by simp_all
  have "\<exists>x. issue_by_id j s1 = Some x \<and> ni_status x = Approved" if "j \<in> set is" for j
  proof -
    have "j \<noteq> i" using that i(1) by blast
    then show ?thesis using Cons.prems(3) [of j] others that by simp
  qed
  from Cons.IH [OF l1 i(2) this, of "a + 1"] obtain s' where s': "dispatch_each r is (a + 1, b, s1) = (a + 1 + length is, b, s')"
    and keep: "\<And>j. j \<notin> set is \<Longrightarrow> issue_by_id j s' = issue_by_id j s1"
    and sent: "\<And>k. k < length is \<Longrightarrow> \<exists>y. issue_by_id (is ! k) s' = Some y \<and> ni_status y = Sent
        \<and> ni_ship_number y = Some (next_ship_number (nw_issues s1) + int k)
        \<and> ni_display_label y = str_of_int (next_ship_number (nw_issues s1) + int k)
        \<and> ni_finds_json y = (let live = live_finds_for_issue (is ! k) s1 in
            if live = [] then ni_finds_json (the (issue_by_id (is ! k) s1)) else live)"
    and rec: "map delivered (sd_deliveries (st_db (nw_site s'))) =
        map delivered (sd_deliveries (st_db (nw_site s1))) @ concat (map (issue_records (active_ids s1)) is)"
    and stamps: "\<exists>p. dd_finds (nw_disc s') = map (\<lambda>f. if p f then published_find ?e f else f) (dd_finds (nw_disc s1))"
    and all: "\<forall>f \<in> set (dd_finds (nw_disc s')). \<forall>i \<in> set is. fi_newsletter_issue_id f = Some i \<longrightarrow> stamped_by ?e f"
    by blast
  have d: "dispatch_each r (i # is) (a, b, s) = (a + length (i # is), b, s')" using y(1) s' by simp
  have k: "\<forall>j. j \<notin> set (i # is) \<longrightarrow> issue_by_id j s' = issue_by_id j s" using keep others by simp
  have sent': "\<exists>y. issue_by_id ((i # is) ! k) s' = Some y \<and> ni_status y = Sent
        \<and> ni_ship_number y = Some (?n + int k) \<and> ni_display_label y = str_of_int (?n + int k)
        \<and> ni_finds_json y = (let live = live_finds_for_issue ((i # is) ! k) s in
            if live = [] then ni_finds_json (the (issue_by_id ((i # is) ! k) s)) else live)"
    if "k < length (i # is)" for k
  proof (cases k)
    case 0
    then show ?thesis using keep [OF i(1)] y(2-6) x(1) by (simp add: Let_def)
  next
    case (Suc m)
    then have "is ! m \<noteq> i" using that i(1) by (metis Suc_less_eq length_Cons nth_mem)
    then show ?thesis
      using sent [of m] that Suc others [of "is ! m"] live_finds_stable [OF t] by (simp add: n1 add.assoc Let_def cong: if_cong split del: if_split)
  qed
  have rec': "map delivered (sd_deliveries (st_db (nw_site s'))) =
      map delivered (sd_deliveries (st_db (nw_site s))) @ concat (map (issue_records (active_ids s)) (i # is))"
    by (simp add: rec y(7,8) act issue_records_def)
  obtain p q where p: "dd_finds (nw_disc s1) = map (\<lambda>f. if p f then published_find ?e f else f) (dd_finds (nw_disc s))"
    and q: "dd_finds (nw_disc s') = map (\<lambda>f. if q f then published_find ?e f else f) (dd_finds (nw_disc s1))"
    using t stamps unfolding only_touches_def by blast
  have "stamped_by ?e f" if "f \<in> set (dd_finds (nw_disc s'))" "fi_newsletter_issue_id f = Some i" for f
    using that y(9) by (auto simp: q stamped_by_def published_find_def split: if_splits)
  then have all': "\<forall>f \<in> set (dd_finds (nw_disc s')). \<forall>j \<in> set (i # is). fi_newsletter_issue_id f = Some j \<longrightarrow> stamped_by ?e f"
    using all by simp
  show ?case
    using d k sent' rec' stamps_compose [OF p q] all' by (intro exI [of _ s'] conjI) blast+
qed

end
