(* ===== verification/Newsletter.thy ===== *)
theory Newsletter
  imports NewsletterPass DiscoveryRuns
begin

text \<open>
  The properties of the newsletter, over any sequence of its operations, of the public
  forms and of the discovery queue: refinement of the life cycle, one mail per issue and
  subscriber, sent issues that stay as they are, labels, the healthy and the failing
  dispatch, and what the previews and the mails show.
\<close>

section \<open>Sample state\<close>

text \<open>An approved issue that is due, one subscriber, and a mail transport that works.\<close>

definition sample_site_env :: site_env where
  "sample_site_env = (plain_env (days 20000))\<lparr>se_env := \<lambda>v. Some ''x''\<rparr>"

definition sample_news_env :: news_env where
  "sample_news_env = \<lparr>ne_site = sample_site_env, ne_issue_id = ''i2'', ne_delivery_id = (\<lambda>c sid. c @ sid), ne_hmac = (\<lambda>k m. ''mac''),
     ne_others = (\<lambda>k xs. xs), ne_io = (\<lambda>i. no_faults), ne_linkedin = (\<lambda>t. LinkedInAnswer 201 ''''), ne_exc_class = (\<lambda>m. ''RuntimeError'')\<rparr>"

definition sample_render :: render_env where
  "sample_render = \<lparr>re_news = sample_news_env, re_ip = (\<lambda>h. None), re_repr = (\<lambda>j. '''')\<rparr>"

definition failing_render :: render_env where
  "failing_render = sample_render\<lparr>re_news := sample_news_env\<lparr>ne_io := \<lambda>i p. if p = FinalCommit then Some ''OperationalError'' else None\<rparr>\<rparr>"

definition empty_disc :: discovery_db where
  "empty_disc = \<lparr>dd_sources = [], dd_finds = [], dd_audits = [], dd_chroma = [], dd_library = [], dd_fresh = []\<rparr>"

definition draft_row :: newsletter_issue where
  "draft_row = new_issue ''i1'' ''0a'' ''issue-0a'' 0 (days 10) Draft 0"

definition due_row :: newsletter_issue where
  "due_row = draft_row\<lparr>ni_status := Approved, ni_scheduled_send_at := Some 0\<rparr>"

definition news_with :: "newsletter_issue list \<Rightarrow> news" where
  "news_with xs = \<lparr>nw_issues = xs, nw_disc = empty_disc, nw_site = sample_state, nw_sent = [], nw_posts = []\<rparr>"

lemma sample_simps [simp]:
  "re_news sample_render = sample_news_env" "alone sample_news_env" "ne_issue_id sample_news_env = ''i2''"
  "ne_io sample_news_env i p = None" "ne_io (re_news failing_render) i p = (if p = FinalCommit then Some ''OperationalError'' else None)"
  "alone (re_news failing_render)" "ne_issue_id (re_news failing_render) = ''i2''"
  "healthy sample_news_env i"
  by (simp_all add: sample_render_def failing_render_def sample_news_env_def alone_def healthy_def)

lemma sample_rows [simp]:
  "ni_id due_row = ''i1''" "ni_status due_row = Approved" "ni_ship_number due_row = None" "ni_display_label due_row = ''0a''"
  "ni_id draft_row = ''i1''" "ni_status draft_row = Draft" "ni_ship_number draft_row = None" "ni_display_label draft_row = ''0a''"
  by (simp_all add: due_row_def draft_row_def)

lemma news_with_simps [simp]:
  "nw_issues (news_with xs) = xs" "nw_sent (news_with xs) = []" "nw_site (news_with xs) = sample_state"
  "nw_disc (news_with xs) = empty_disc"
  by (simp_all add: news_with_def)

lemma sample_subscribers_ok [simp]: "subscribers_ok (st_db sample_state)"
  by (simp add: sample_state_def subscribers_ok_def subscriber_keys_unique_def subscriber_row_ok_def sample_subscriber_def
      normalize_email_def strip_def lstrip_def is_space_def lower_def lower_char_def)

lemma one_issue_wf [simp]: "news_wf (news_with [x])"
  by (simp add: news_wf_def issue_keys_unique_def map_filter_simps split: option.splits)

lemma labels_Nil [simp]: "labels_ok []"
  by (simp add: labels_ok_def issue_keys_unique_def map_filter_simps)

lemma zero_letters [simp]: "epoch_label 0 0 = CHR ''0'' # ''a''" "epoch_label 0 1 = CHR ''0'' # ''b''"
  by code_simp+

text \<open>The dispatch of the sample issue mails its subscriber; the failing one leaves the issue in \<open>sending\<close>.\<close>

lemma sample_send:
  "ss_sent (send_all sample_render x [sample_subscriber] ob) = [(ni_id x, ''s1'')]"
  "ss_sent (send_all failing_render x [sample_subscriber] ob) = [(ni_id x, ''s1'')]"
  by (simp_all add: send_all_def send_step_def send_one_def send_internal_email_def mail_configured_def getenv_or_def
      sample_render_def failing_render_def sample_news_env_def sample_site_env_def sample_subscriber_def plain_env_def Let_def)

lemma sample_active [simp]: "active_subscribers None (st_db sample_state) = [sample_subscriber]"
  by (simp add: active_subscribers_def sample_state_def sample_subscriber_def Let_def)

lemma one_row [simp]: "issue_keys_unique [x]"
  by (simp add: issue_keys_unique_def map_filter_simps split: option.splits)

lemma no_live_finds [simp]: "nw_disc s = empty_disc \<Longrightarrow> live_finds_for_issue i s = []"
  by (simp add: live_finds_for_issue_def joined_def empty_disc_def newest_first_def map_filter_simps)

lemma sample_dispatch:
  assumes "r = sample_render \<or> r = failing_render"
  shows "nw_sent (snd (dispatch_issue r ''i1'' (news_with [due_row]))) = [(''i1'', ''s1'')]"
proof -
  let ?s1 = "update_issues (\<lambda>x. ni_id x = ''i1'' \<and> ni_status x = Approved) (\<lambda>x. x\<lparr>ni_status := Sending, ni_updated_at := ne_now (re_news r)\<rparr>) (news_with [due_row])"
  let ?s2 = "change_issue ''i1'' (numbered (re_news r) (next_ship_number (nw_issues ?s1))) ?s1"
  have io: "ne_io (re_news r) ''i1'' StatusCommit = None" "ne_io (re_news r) ''i1'' ShipCommit = None"
    "ne_others (re_news r) k xs = xs" for k xs
    using assms by (auto simp: failing_render_def sample_news_env_def sample_render_def)
  have "ship_loop (re_news r) ''i1'' 0 3 ?s1 = (Some (Inr ()), ?s2)"
    by (simp add: numeral_3_eq_3 io Let_def update_where_def del: nw_change_issue) (simp add: update_where_def)
  then have "snd (dispatch_issue r ''i1'' (news_with [due_row])) = snd (send_issue r ''i1'' ?s2)"
    by (simp add: dispatch_issue_def io guarded_update_def number_and_send_def assign_ship_number_with_retry_def Let_def)
  then show ?thesis
    using assms sample_send
    by (auto simp: send_issue_def finish_dispatch_def issue_by_id_def update_where_def stamp_finds_def Let_def
        split: option.splits prod.splits)
qed

lemma sample_due:
  assumes "r = sample_render \<or> r = failing_render"
  shows "news_do (DispatchDue r) (news_with [due_row]) = snd (dispatch_issue r ''i1'' (news_with [due_row]))"
proof -
  have "ne_now (re_news r) = days 20000"
    using assms by (auto simp: ne_now_def failing_render_def sample_news_env_def sample_render_def sample_site_env_def)
  then have "filter (due (ne_now (re_news r))) [due_row] = [due_row]" by (simp add: due_def due_row_def draft_row_def days_def day_us_def)
  then show ?thesis by (simp add: dispatch_scheduled_issues_def split: prod.splits sum.splits)
qed

section \<open>Properties\<close>

text \<open>C2: 
  Every sequence of operations that run alone, with any commits failing, is a run of the
  abstract life cycle of issues with its log of mails.
\<close>

theorem newsletter_refines_life_cycle:
  assumes "news_wf s" and "runs_alone ops s"
  shows "life_steps (life s) (life (run_news ops s))"
  using run_news_refines [OF assms] by (simp add: refines_def)

theorem newsletter_refines_life_cycle_witness:
  "life_steps (life (news_with [due_row])) (life (run_news [DispatchDue failing_render, DeleteIssue ''i1'' ''ops''] (news_with [due_row])))"
  by (rule newsletter_refines_life_cycle) (simp_all add: op_alone_def)

text \<open>C3: 
  However often the dispatcher runs, whatever commits fail and whatever the operator does
  in between, an issue is mailed to a subscriber once at most, and an issue that was
  mailed is \<open>sending\<close>, \<open>sent\<close> or deleted.
\<close>

theorem issue_reaches_a_subscriber_once:
  assumes "news_wf s" and "mailed_once (life s)" and "runs_alone ops s"
  shows "distinct (nw_sent (run_news ops s)) \<and> (\<forall>x \<in> set (nw_issues (run_news ops s)). ni_id x \<in> fst ` set (nw_sent (run_news ops s)) \<longrightarrow> ni_status x \<in> {Sending, Sent})"
proof -
  let ?s = "run_news ops s"
  have m: "mailed_once (life ?s)" and w: "news_wf ?s"
    using run_news_refines [OF assms(1,3)] life_steps_mailed_once [OF _ assms(2)] by (auto simp: refines_def)
  then have d: "distinct (nw_sent ?s)" by (simp add: mailed_once_def life_def)
  have "life_of ?s (ni_id x) = Some (ni_status x)" if "x \<in> set (nw_issues ?s)" for x
    using find_row_distinct [OF wf_ids [OF w] that] by (simp add: life_of_def issue_by_id_def)
  then have "\<forall>x \<in> set (nw_issues ?s). ni_id x \<in> fst ` set (nw_sent ?s) \<longrightarrow> ni_status x \<in> {Sending, Sent}"
    using m by (fastforce simp: mailed_once_def life_def)
  with d show ?thesis ..
qed

theorem issue_reaches_a_subscriber_once_witness:
  "distinct (nw_sent (run_news [DispatchDue failing_render, DispatchDue sample_render] (news_with [due_row])))
    \<and> nw_sent (news_do (DispatchDue failing_render) (news_with [due_row])) = [(''i1'', ''s1'')]"
  using issue_reaches_a_subscriber_once [of "news_with [due_row]" "[DispatchDue failing_render, DispatchDue sample_render]"]
    sample_dispatch [of failing_render]
  by (simp add: sample_due op_alone_def mailed_once_def life_def del: news_do.simps)

text \<open>
  A dispatch mails the issue only when it was approved, and only to subscribers that had
  not opted out, whatever commits fail.
\<close>

theorem dispatch_mails_active_subscribers:
  assumes "alone (re_news r)" and "news_wf s"
  shows "\<exists>sids. nw_sent (snd (dispatch_issue r i s)) = nw_sent s @ map (Pair i) sids
    \<and> (sids \<noteq> [] \<longrightarrow> life_of s i = Some Approved)
    \<and> (\<forall>sid \<in> set sids. \<exists>sub \<in> set (sd_subscribers (st_db (nw_site s))). sb_id sub = sid \<and> sb_unsubscribed_at sub = None)"
proof (rule dispatch_life [OF assms, of i])
  fix st sids
  assume "life_of s i = Some Approved" and a: "set sids \<subseteq> set (active_ids s)"
    and "life (snd (dispatch_issue r i s)) = ((life_of s)(i \<mapsto> st), nw_sent s @ map (Pair i) sids)"
  moreover have "\<exists>sub \<in> set (sd_subscribers (st_db (nw_site s))). sb_id sub = sid \<and> sb_unsubscribed_at sub = None"
    if "sid \<in> set sids" for sid
    using a that by (auto simp: active_ids_def active_subscribers_def Let_def)
  ultimately show ?thesis by (intro exI [of _ sids]) (simp add: life_def)
qed simp

theorem dispatch_mails_active_subscribers_witness:
  "life_of (news_with [due_row]) ''i1'' = Some Approved
    \<and> (\<exists>sub \<in> set (sd_subscribers (st_db sample_state)). sb_id sub = ''s1'' \<and> sb_unsubscribed_at sub = None)"
  using dispatch_mails_active_subscribers [of sample_render "news_with [due_row]" "''i1''"] sample_dispatch [of sample_render]
  by auto

text \<open>
  A sent issue keeps its contents, its number, its label and its status through all later
  operations, as long as it is not deleted: only its visibility in the archive changes.
\<close>

theorem sent_issue_is_frozen:
  assumes "news_wf s" and "x \<in> set (nw_issues s)" and "ni_status x = Sent"
    and "runs_alone ops s" and "\<forall>op \<in> set ops. op_new_id op \<noteq> Some (ni_id x)"
    and "y \<in> set (nw_issues (run_news ops s))" and "ni_id y = ni_id x"
  shows "contents y = contents x"
proof -
  have "z = x" if "z \<in> set (nw_issues s)" "ni_id z = ni_id x" for z
    using wf_ids [OF assms(1)] assms(2) that by (auto simp: distinct_map inj_on_def)
  then have "frozen x s" using assms(1,3) by (auto simp: frozen_def news_wf_def)
  then have "frozen x (run_news ops s)" using assms(4,5) by (rule run_news_frozen)
  then show ?thesis using assms(6,7) by (simp add: frozen_def)
qed

theorem sent_issue_is_frozen_witness:
  "contents ((draft_row\<lparr>ni_status := Sent\<rparr>)\<lparr>ni_unpublished_at := Some (days 20000), ni_updated_at := days 20000\<rparr>)
    = contents (draft_row\<lparr>ni_status := Sent\<rparr>)"
proof (rule sent_issue_is_frozen [of "news_with [draft_row\<lparr>ni_status := Sent\<rparr>]" _ "[Unpublish sample_news_env ''i1'']"])
  show "(draft_row\<lparr>ni_status := Sent\<rparr>)\<lparr>ni_unpublished_at := Some (days 20000), ni_updated_at := days 20000\<rparr>
      \<in> set (nw_issues (run_news [Unpublish sample_news_env ''i1''] (news_with [draft_row\<lparr>ni_status := Sent\<rparr>])))"
    by (simp add: run_news_def unpublish_issue_def issue_by_id_def update_where_def ne_now_def sample_news_env_def
        sample_site_env_def draft_row_def new_issue_def Let_def)
qed (simp_all add: op_alone_def)

text \<open>
  As long as no issue is deleted, a new draft gets a label that no issue has, at the
  first attempt, whatever was created, composed, approved and sent before.
\<close>

theorem drafts_get_fresh_labels:
  assumes "labels_ok (nw_issues s)" and "runs_alone ops s" and "\<forall>op \<in> set ops. op_deletes op = None"
    and "alone e" and "ne_issue_id e \<notin> ni_id ` set (nw_issues (run_news ops s))"
  shows "\<exists>x. create_empty_issue e t ttl nts (run_news ops s) = (Inr x, add_issue x (run_news ops s))
    \<and> ni_display_label x \<notin> ni_display_label ` set (nw_issues (run_news ops s))"
proof -
  have l: "labels_ok (nw_issues (run_news ops s))" using assms(1-3) by (rule run_news_labels)
  show ?thesis by (rule create_succeeds [OF l assms(4,5), of t ttl nts]) (use fresh_label [OF l] in auto)
qed

theorem drafts_get_fresh_labels_witness:
  "\<exists>x. create_empty_issue sample_news_env None '''' '''' (news_with []) = (Inr x, add_issue x (news_with []))"
  using drafts_get_fresh_labels [of "news_with []" "[]" sample_news_env None "''''" "''''"] by (auto simp: run_news_def)

text \<open>
  Deleting a draft that is not the newest of its epoch makes the next label one that is
  taken: no draft can be created any more, at any of the three attempts, and the error is
  the same until another issue is deleted or sent.
\<close>

theorem deleting_a_draft_blocks_creation:
  assumes "labels_ok (nw_issues s)" and "x \<in> set (nw_issues s)" and "ni_ship_number x = None"
    and "ni_display_label x = epoch_label (last_ship (nw_issues s)) k" and "k + 1 < epoch_count (nw_issues s)" and "alone e"
  shows "fst (create_empty_issue e t ttl nts (snd (delete_issue (ni_id x) who s)))
    = Inl (Raised ''Could not assign newsletter draft display label'')"
proof -
  have "distinct (map ni_id (nw_issues s))" using assms(1) by (simp add: labels_ok_def issue_keys_unique_def)
  then have b: "issue_by_id (ni_id x) s = Some x" using assms(2) by (simp add: issue_by_id_def find_row_distinct)
  let ?s = "snd (delete_issue (ni_id x) who s)"
  have "nw_issues ?s = filter (\<lambda>y. ni_id y \<noteq> ni_id x) (nw_issues s)" by (simp add: delete_issue_def b Let_def)
  then have "next_display_label (nw_issues ?s) \<in> ni_display_label ` set (nw_issues ?s)"
    using gap_collides [OF assms(1-5)] by (simp only:)
  from taken_label_blocks [OF this assms(6)] show ?thesis by simp
qed

definition two_drafts :: news where
  "two_drafts = news_with [draft_row, new_issue ''i3'' ''0b'' ''issue-0b'' 0 (days 10) Draft 0]"

theorem deleting_a_draft_blocks_creation_witness:
  "fst (create_empty_issue sample_news_env None '''' '''' (snd (delete_issue ''i1'' ''ops'' two_drafts)))
    = Inl (Raised ''Could not assign newsletter draft display label'')"
proof -
  let ?xs = "nw_issues two_drafts"
  have e: "display_label_epoch ''0a'' = Some 0" "display_label_epoch ''0b'' = Some 0"
    using epoch_label_epoch [of 0 0] epoch_label_epoch [of 0 1] by (simp_all flip: One_nat_def)
  have s: "last_ship ?xs = 0" "epoch_count ?xs = 2"
    using e by (simp_all add: two_drafts_def last_ship_def ship_numbers_def epoch_count_def map_filter_simps)
  have "labels_ok ?xs"
    unfolding labels_ok_def s
    by (simp add: two_drafts_def issue_keys_unique_def map_filter_simps label_ok_def draft_row_def)
      (metis zero_letters One_nat_def less_2_cases_iff order_refl)
  then show ?thesis
    using deleting_a_draft_blocks_creation [of two_drafts draft_row 0 sample_news_env None "''''" "''''" "''ops''"] s
    by (simp add: two_drafts_def)
qed

text \<open>
  When the last commit of a dispatch fails after mails went out, the issue stays in
  \<open>sending\<close>: no later operation sends it, finishes it or lists it in the public archive.
\<close>

theorem failed_commit_strands_issue:
  assumes "alone (re_news r)" and "news_wf s" and "ne_io (re_news r) i FinalCommit \<noteq> None"
    and "nw_sent (snd (dispatch_issue r i s)) \<noteq> nw_sent s"
    and "runs_alone ops (snd (dispatch_issue r i s))"
  shows "life_of (run_news ops (snd (dispatch_issue r i s))) i \<in> {None, Some Sending}
    \<and> (\<forall>y \<in> set (list_issues n u True (run_news ops (snd (dispatch_issue r i s)))). ni_id y \<noteq> i)"
proof -
  let ?s1 = "snd (dispatch_issue r i s)" let ?s2 = "run_news ops ?s1"
  have "stranded i (life ?s1)"
  proof (rule dispatch_life [OF assms(1,2), of i])
    assume "?s1 = s" then show ?thesis using assms(4) by simp
  next
    fix st sids
    assume l: "life ?s1 = ((life_of s)(i \<mapsto> st), nw_sent s @ map (Pair i) sids)" and e: "ends_at r i st sids"
    then have "sids \<noteq> []" using assms(4) by (auto simp: life_def)
    then have "st = Sending" "i \<in> fst ` set (map (Pair i) sids)" using e assms(3) by (cases sids; auto simp: ends_at_def)+
    then show ?thesis by (auto simp: stranded_def l)
  qed
  moreover have w: "refines ?s1 ?s2" "news_wf ?s2"
    using run_news_refines [OF news_tables.dispatch_inv [OF assms(2,1)] assms(5)] by blast+
  ultimately have "stranded i (life ?s2)" by (auto simp: refines_def intro: life_steps_stranded)
  then have st: "life_of ?s2 i \<in> {None, Some Sending}" by (simp add: stranded_def life_def)
  have "ni_id y \<noteq> i" if "y \<in> set (list_issues n u True ?s2)" for y
  proof
    assume "ni_id y = i"
    have "y \<in> set (nw_issues ?s2)" "ni_status y = Sent"
      using that by (auto simp: list_issues_def sql_limit_def newest_first_def listed_def dest!: in_set_takeD split: if_splits)
    then have "life_of ?s2 i = Some Sent"
      using find_row_distinct [OF wf_ids [OF w(2)]] \<open>ni_id y = i\<close> by (auto simp: life_of_def issue_by_id_def)
    then show False using st by simp
  qed
  then show ?thesis using st by blast
qed

theorem failed_commit_strands_issue_witness:
  "life_of (run_news [DispatchDue sample_render] (news_do (DispatchDue failing_render) (news_with [due_row]))) ''i1'' \<in> {None, Some Sending}
    \<and> nw_sent (news_do (DispatchDue failing_render) (news_with [due_row])) = [(''i1'', ''s1'')]"
  using failed_commit_strands_issue [of failing_render "news_with [due_row]" "''i1''" "[DispatchDue sample_render]"]
    sample_dispatch [of failing_render]
  by (simp add: sample_due op_alone_def del: news_do.simps)

text \<open>C29: 
  In a pass of the dispatcher in which every commit holds and no other process writes to the
  issues, every due issue is sent, in the order of the table: an issue is due when it is
  approved and its scheduled time is not in the future. Each takes the next free number as
  its number and label, carries the finds tagged for it (the stored list, when no find is),
  leaves one email record per active subscriber, whether or not the mail went out, and one
  each for the web and LinkedIn, and has its finds stamped as published. Every other issue
  keeps its row. Assumed is that labels and numbers are as the code makes them while no
  draft but the newest is deleted (\<open>labels_ok\<close>).
\<close>

theorem due_issues_are_sent:
  assumes "\<forall>i p. ne_others (re_news r) = (\<lambda>k xs. xs) \<and> ne_io (re_news r) i p = None" and "labels_ok (nw_issues s)"
    and "due_now = filter (\<lambda>x. ni_status x = Approved \<and> ni_scheduled_send_at x \<noteq> None
        \<and> the (ni_scheduled_send_at x) \<le> ne_now (re_news r)) (nw_issues s)"
  shows "\<exists>s'. dispatch_scheduled_issues r s = (length due_now, 0, s')
    \<and> (\<forall>x \<in> set (nw_issues s) - set due_now. issue_by_id (ni_id x) s' = Some x)
    \<and> (\<forall>k < length due_now. \<exists>y. issue_by_id (ni_id (due_now ! k)) s' = Some y \<and> ni_status y = Sent
        \<and> ni_ship_number y = Some (next_ship_number (nw_issues s) + int k)
        \<and> ni_display_label y = str_of_int (next_ship_number (nw_issues s) + int k)
        \<and> ni_finds_json y = (let live = live_finds_for_issue (ni_id (due_now ! k)) s in
            if live = [] then ni_finds_json (due_now ! k) else live))
    \<and> map delivered (sd_deliveries (st_db (nw_site s'))) = map delivered (sd_deliveries (st_db (nw_site s)))
        @ concat (map (\<lambda>x. map (\<lambda>sid. (ni_id x, ''email'', sid)) (active_ids s)
            @ [(ni_id x, ''web'', ''''), (ni_id x, ''linkedin'', '''')]) due_now)
    \<and> (\<forall>f \<in> set (dd_finds (nw_disc s')). \<forall>x \<in> set due_now. fi_newsletter_issue_id f = Some (ni_id x) \<longrightarrow>
        \<not> fi_newsletter_pending f \<and> fi_published_in_newsletter_at f = Some (ne_now (re_news r)))"
proof -
  have h: "healthy (re_news r) i" for i using assms(1) by (simp add: healthy_def alone_def)
  have dist: "distinct (map ni_id (nw_issues s))" using assms(2) by (simp add: labels_ok_def issue_keys_unique_def)
  have b: "issue_by_id (ni_id x) s = Some x" if "x \<in> set (nw_issues s)" for x
    using find_row_distinct [OF dist that] by (simp add: issue_by_id_def)
  have "due (ne_now (re_news r)) = (\<lambda>x. ni_status x = Approved \<and> ni_scheduled_send_at x \<noteq> None
      \<and> the (ni_scheduled_send_at x) \<le> ne_now (re_news r))"
    by (intro ext) (simp add: due_def split: option.split)
  then have d: "dispatch_scheduled_issues r s = dispatch_each r (map ni_id due_now) (0, 0, s)"
    by (simp add: dispatch_scheduled_issues_def assms(3))
  have sub: "set due_now \<subseteq> set (nw_issues s)" by (auto simp: assms(3))
  have "distinct (map ni_id due_now)" unfolding assms(3) by (rule distinct_map_filter [OF dist])
  moreover have "\<exists>x. issue_by_id i s = Some x \<and> ni_status x = Approved" if "i \<in> set (map ni_id due_now)" for i
    using that b by (auto simp: assms(3))
  ultimately obtain s' where s': "dispatch_each r (map ni_id due_now) (0, 0, s) = (0 + length (map ni_id due_now), 0, s')"
    "\<forall>j. j \<notin> set (map ni_id due_now) \<longrightarrow> issue_by_id j s' = issue_by_id j s"
    "\<forall>k < length (map ni_id due_now). \<exists>y. issue_by_id (map ni_id due_now ! k) s' = Some y \<and> ni_status y = Sent
        \<and> ni_ship_number y = Some (next_ship_number (nw_issues s) + int k)
        \<and> ni_display_label y = str_of_int (next_ship_number (nw_issues s) + int k)
        \<and> ni_finds_json y = (let live = live_finds_for_issue (map ni_id due_now ! k) s in
            if live = [] then ni_finds_json (the (issue_by_id (map ni_id due_now ! k) s)) else live)"
    "map delivered (sd_deliveries (st_db (nw_site s'))) =
        map delivered (sd_deliveries (st_db (nw_site s))) @ concat (map (issue_records (active_ids s)) (map ni_id due_now))"
    "\<forall>f \<in> set (dd_finds (nw_disc s')). \<forall>i \<in> set (map ni_id due_now). fi_newsletter_issue_id f = Some i \<longrightarrow> stamped_by (re_news r) f"
    using healthy_pass [OF h assms(2), of "map ni_id due_now" 0 0] by blast
  have "issue_by_id (ni_id x) s' = Some x" if "x \<in> set (nw_issues s) - set due_now" for x
  proof -
    have "ni_id x \<notin> set (map ni_id due_now)" using that sub dist by (auto simp: distinct_map inj_on_def)
    then show ?thesis using s'(2) b that by simp
  qed
  moreover have "\<exists>y. issue_by_id (ni_id (due_now ! k)) s' = Some y \<and> ni_status y = Sent
      \<and> ni_ship_number y = Some (next_ship_number (nw_issues s) + int k)
      \<and> ni_display_label y = str_of_int (next_ship_number (nw_issues s) + int k)
      \<and> ni_finds_json y = (let live = live_finds_for_issue (ni_id (due_now ! k)) s in
          if live = [] then ni_finds_json (due_now ! k) else live)" if "k < length due_now" for k
  proof -
    have i: "map ni_id due_now ! k = ni_id (due_now ! k)" using that by simp
    have x: "the (issue_by_id (ni_id (due_now ! k)) s) = due_now ! k" using b sub that by (simp add: subset_iff)
    show ?thesis using s'(3) [rule_format, of k, unfolded i x] that by simp
  qed
  ultimately show ?thesis
    using s'(1,4,5) by (intro exI [of _ s']) (simp add: d issue_records_def stamped_by_def comp_def)
qed

lemma one_draft_labels [simp]: "labels_ok [draft_row]" "labels_ok [due_row]"
proof -
  have e: "display_label_epoch ''0a'' = Some 0" using epoch_label_epoch [of 0 0] by simp
  have "last_ship [x] = 0" "epoch_count [x] = 1" if "ni_ship_number x = None" "ni_display_label x = ''0a''" for x
    using that e by (simp_all add: last_ship_def ship_numbers_def epoch_count_def map_filter_simps)
  then have "labels_ok [x]" if "ni_ship_number x = None" "ni_display_label x = ''0a''" for x
    using that by (auto simp: labels_ok_def label_ok_def intro!: exI [of _ "0 :: int"] exI [of _ "0 :: nat"])
  then show "labels_ok [draft_row]" "labels_ok [due_row]" by simp_all
qed

theorem due_issues_are_sent_witness:
  "\<exists>y s'. dispatch_scheduled_issues sample_render (news_with [due_row]) = (1, 0, s') \<and> issue_by_id ''i1'' s' = Some y
    \<and> ni_status y = Sent \<and> ni_ship_number y = Some 1"
proof -
  have "ne_now sample_news_env = days 20000" by (simp add: ne_now_def sample_news_env_def sample_site_env_def)
  then have "[due_row] = filter (\<lambda>x. ni_status x = Approved \<and> ni_scheduled_send_at x \<noteq> None
      \<and> the (ni_scheduled_send_at x) \<le> ne_now (re_news sample_render)) (nw_issues (news_with [due_row]))"
    by (simp add: due_row_def draft_row_def days_def day_us_def)
  moreover have "\<forall>i p. ne_others (re_news sample_render) = (\<lambda>k xs. xs) \<and> ne_io (re_news sample_render) i p = None"
    by (simp add: sample_render_def sample_news_env_def)
  moreover have "labels_ok (nw_issues (news_with [due_row]))" by simp
  ultimately obtain s' where s': "dispatch_scheduled_issues sample_render (news_with [due_row]) = (length [due_row], 0, s')"
    and k: "\<forall>k < length [due_row]. \<exists>y. issue_by_id (ni_id ([due_row] ! k)) s' = Some y \<and> ni_status y = Sent
        \<and> ni_ship_number y = Some (next_ship_number (nw_issues (news_with [due_row])) + int k)"
    using due_issues_are_sent [of sample_render "news_with [due_row]" "[due_row]"] by blast
  have "next_ship_number (nw_issues (news_with [due_row])) = 1"
    by (simp add: next_ship_number_def last_ship_def ship_numbers_def map_filter_simps)
  then show ?thesis using s' k by simp
qed

lemma joined_mem: "(f, so) \<in> set (joined db) \<longleftrightarrow> f \<in> set (dd_finds db) \<and> source_by_id db (fi_source_id f) = Some so"
  by (auto simp: joined_def set_map_filter)

lemma live_mem:
  "f \<in> set (dd_finds (nw_disc s)) \<Longrightarrow> source_by_id (nw_disc s) (fi_source_id f) = Some so \<Longrightarrow> fi_newsletter_issue_id f = Some i \<Longrightarrow>
     serialize_public_find f so \<in> set (live_finds_for_issue i s)"
  by (force simp: live_finds_for_issue_def newest_first_def joined_mem)

text \<open>
  Dismissing a find does not take it out of the issue it is tagged for: the operator
  dismisses it, and the issue still ships with it.
\<close>

theorem dismissed_find_ships:
  assumes "healthy (re_news r) i" and "labels_ok (nw_issues s)" and "issue_by_id i s = Some x" and "ni_status x = Approved"
    and "find_with_source (nw_disc s) fid = Some (f, so)" and "fi_newsletter_issue_id f = Some i"
    and "\<And>k. de_commit e k = None"
  shows "\<exists>f' y s'. set_find_dismissed e fid True who (nw_disc s) = (Inr (f', so), snd (set_find_dismissed e fid True who (nw_disc s)))
    \<and> fi_dismissed f'
    \<and> dispatch_issue r i (set_disc (snd (set_find_dismissed e fid True who (nw_disc s))) s) = (Inr y, s')
    \<and> ni_status y = Sent \<and> (\<exists>d \<in> set (ni_finds_json y). map_of d ''id'' = Some (JStr fid))"
proof -
  let ?db = "snd (set_find_dismissed e fid True who (nw_disc s))"
  let ?f = "f\<lparr>fi_dismissed := True, fi_ticker_featured := False, fi_ticker_featured_at := None,
    fi_newsletter_pending := False, fi_featured := False, fi_featured_at := None\<rparr>"
  let ?s = "set_disc ?db s"
  have f: "f \<in> set (dd_finds (nw_disc s))" "fi_id f = fid" "source_by_id (nw_disc s) (fi_source_id f) = Some so"
    using assms(5) by (auto simp: find_with_source_def split: option.splits dest: find_row_SomeD)
  have a: "set_find_dismissed e fid True who (nw_disc s) = (Inr (?f, so), ?db)" "dd_finds ?db = dd_finds (put_find ?f (nw_disc s))"
    "dd_sources ?db = dd_sources (nw_disc s)"
    by (simp_all add: set_find_dismissed_def on_find_def assms(5,7) commit_find_def committing_def add_audit_def put_find_def)
  have "?f \<in> set (dd_finds ?db)" unfolding a(2) using f by (force simp: put_find_def in_update_where)
  then have mem: "serialize_public_find ?f so \<in> set (live_finds_for_issue i ?s)"
    using f(3) a(3) assms(6) by (intro live_mem) (simp_all add: set_disc_def source_by_id_def)
  have b: "issue_by_id i ?s = Some x" "labels_ok (nw_issues ?s)" using assms(2,3) by (simp_all add: issue_by_id_def)
  obtain y s' where y: "dispatch_issue r i ?s = (Inr y, s')" "ni_status y = Sent"
    "ni_finds_json y = (let live = live_finds_for_issue i ?s in if live = [] then ni_finds_json x else live)"
    by (rule healthy_dispatch [OF assms(1) b(2,1) assms(4)])
  have "serialize_public_find ?f so \<in> set (ni_finds_json y)" using mem by (auto simp: y(3) Let_def)
  moreover have "map_of (serialize_public_find ?f so) ''id'' = Some (JStr fid)" by (simp add: f(2))
  ultimately have "\<exists>d \<in> set (ni_finds_json y). map_of d ''id'' = Some (JStr fid)" by blast
  then show ?thesis using a(1) y(1,2) by (intro exI [of _ ?f] exI [of _ y] exI [of _ s'] conjI) simp_all
qed

definition tagged_disc :: discovery_db where
  "tagged_disc = empty_disc\<lparr>dd_sources := [plain_source 0 ''src'' ''acme_docs'' ''rss'' ''https://acme.example''],
     dd_finds := [(plain_find 0 ''f1'' ''src'' ''rss_item'' ''e1'' ''News'' ''https://acme.example/1'')\<lparr>fi_newsletter_issue_id := Some ''i1''\<rparr>]\<rparr>"

lemma tagged_find:
  "find_with_source tagged_disc ''f1'' = Some
     ((plain_find 0 ''f1'' ''src'' ''rss_item'' ''e1'' ''News'' ''https://acme.example/1'')\<lparr>fi_newsletter_issue_id := Some ''i1''\<rparr>,
      plain_source 0 ''src'' ''acme_docs'' ''rss'' ''https://acme.example'')"
  by (simp add: find_with_source_def tagged_disc_def plain_find_def source_by_id_def plain_source_def)

theorem dismissed_find_ships_witness:
  "\<exists>y s'. dispatch_issue sample_render ''i1'' (set_disc (snd (set_find_dismissed sample_env ''f1'' True ''ops'' tagged_disc))
      (set_disc tagged_disc (news_with [due_row]))) = (Inr y, s')
    \<and> ni_status y = Sent \<and> (\<exists>d \<in> set (ni_finds_json y). map_of d ''id'' = Some (JStr ''f1''))"
proof -
  let ?s = "set_disc tagged_disc (news_with [due_row])"
  have d: "nw_disc ?s = tagged_disc" by (simp add: set_disc_def)
  have c: "de_commit sample_env k = None" for k by (simp add: sample_env_def)
  show ?thesis
    using dismissed_find_ships [of sample_render "''i1''" ?s due_row "''f1''", OF _ _ _ _ _ _ c, where who = "''ops''"] tagged_find
    unfolding d by (fastforce simp: issue_by_id_def)
qed

text \<open>
  The HTML preview of an open issue shows the finds tagged for it; its text and LinkedIn
  previews, which the operator copies, show the finds stored with the issue, which are
  none until it is sent.
\<close>

theorem text_previews_miss_tagged_finds:
  assumes "issue_by_id i s = Some x" and "open_status (ni_status x)" and "ni_finds_json x = []"
    and "live_finds_for_issue i s \<noteq> []"
  shows "\<exists>d d0. get_issue_detail r i s = Some d \<and> get_issue_detail r i (set_finds (\<lambda>fs. []) s) = Some d0
    \<and> id_finds d = live_finds_for_issue i s \<and> id_finds d0 = []
    \<and> id_plain_preview d = id_plain_preview d0 \<and> id_linkedin_post d = id_linkedin_post d0"
proof -
  have xi: "ni_id x = i" using issue_by_id_SomeD [OF assms(1)] by simp
  have "joined (nw_disc (set_finds (\<lambda>fs. []) s)) = []" by (simp add: joined_def set_finds_def map_filter_simps)
  then have "live_finds_for_issue i (set_finds (\<lambda>fs. []) s) = []" by (simp add: live_finds_for_issue_def newest_first_def)
  moreover have "issue_by_id i (set_finds (\<lambda>fs. []) s) = Some x" using assms(1) by (simp add: issue_by_id_def)
  ultimately show ?thesis using assms by (simp add: get_issue_detail_def xi Let_def)
qed

theorem text_previews_miss_tagged_finds_witness:
  "\<exists>d d0. get_issue_detail sample_render ''i1'' (set_disc tagged_disc (news_with [draft_row])) = Some d
    \<and> get_issue_detail sample_render ''i1'' (set_finds (\<lambda>fs. []) (set_disc tagged_disc (news_with [draft_row]))) = Some d0
    \<and> id_finds d \<noteq> [] \<and> id_plain_preview d = id_plain_preview d0"
proof -
  let ?s = "set_disc tagged_disc (news_with [draft_row])"
  have "live_finds_for_issue ''i1'' ?s \<noteq> []"
    using live_mem [of _ ?s _ "''i1''"]
    by (fastforce simp: set_disc_def tagged_disc_def plain_find_def source_by_id_def plain_source_def)
  then show ?thesis
    using text_previews_miss_tagged_finds [of "''i1''" ?s draft_row sample_render]
    by (fastforce simp: issue_by_id_def open_status_def draft_row_def new_issue_def)
qed

section \<open>Reminders\<close>

lemma reminded_row:
  "z \<in> set (nw_issues (remind e x s)) \<Longrightarrow>
     (z \<in> set (nw_issues s) \<and> ni_id z \<noteq> ni_id x) \<or> ni_approval_email_sent_at z \<noteq> None"
proof -
  assume z: "z \<in> set (nw_issues (remind e x s))"
  obtain st ob where n: "send_approval_notification e x (st_outbox (nw_site s)) = (st, ob)" by fastforce
  have stamp: "ni_approval_email_sent_at (reminded e st y) \<noteq> None" for y by (simp add: reminded_def add_note_def)
  have "z \<in> set (update_where (\<lambda>y. ni_id y = ni_id x) (reminded e st) (nw_issues s))" using z by (simp add: remind_def n)
  then obtain y where "y \<in> set (nw_issues s)" "z = (if ni_id y = ni_id x then reminded e st y else y)"
    unfolding in_update_where by blast
  then show ?thesis using stamp by (cases "ni_id y = ni_id x") simp_all
qed

lemma reminded_rows:
  "z \<in> set (nw_issues (fold (remind e) xs s)) \<Longrightarrow>
     (z \<in> set (nw_issues s) \<and> ni_id z \<notin> ni_id ` set xs) \<or> ni_approval_email_sent_at z \<noteq> None"
proof (induction xs arbitrary: s)
  case (Cons x xs)
  then have "(z \<in> set (nw_issues (remind e x s)) \<and> ni_id z \<notin> ni_id ` set xs) \<or> ni_approval_email_sent_at z \<noteq> None" by simp
  then show ?case using reminded_row [of z e x s] by auto
qed simp

lemma reminder_pass_done:
  assumes "reminder_pass e s = (Inr n, s1)" and "z \<in> set (nw_issues s1)"
  shows "\<not> needs_reminder (ne_now e) z"
proof -
  let ?c = "filter (needs_reminder (ne_now e)) (nw_issues s)"
  show ?thesis
  proof (cases "?c = []")
    case True
    then have "s1 = s" using assms(1) by (simp add: reminder_pass_def)
    then show ?thesis using assms(2) True by (auto simp: filter_empty_conv)
  next
    case False
    then have "s1 = fold (remind e) ?c s" using assms(1) by (auto simp: reminder_pass_def Let_def split: option.splits)
    then have "(z \<in> set (nw_issues s) \<and> ni_id z \<notin> ni_id ` set ?c) \<or> ni_approval_email_sent_at z \<noteq> None"
      using assms(2) reminded_rows [of z e ?c s] by simp
    then show ?thesis by (auto simp: needs_reminder_def)
  qed
qed

text \<open>
  After a tick whose commits hold, no draft is waiting for its reminder, the one the tick
  created included: a draft is announced to the approvers once.
\<close>

theorem tick_leaves_no_reminder_open:
  assumes "alone e" and "\<forall>i. ne_io e i ReminderCommit = None" and "run_scheduled_cycle e s = (Inr c, s')"
    and "z \<in> set (nw_issues s')"
  shows "\<not> needs_reminder (ne_now e) z"
proof -
  obtain answer s1 where p: "reminder_pass e s = (answer, s1)" by fastforce
  show ?thesis
  proof (cases answer)
    case (Inl err)
    then show ?thesis using assms(3) by (simp add: run_scheduled_cycle_def p)
  next
    case (Inr n)
    have old: "\<not> needs_reminder (ne_now e) z" if "z \<in> set (nw_issues s1)" for z
      using reminder_pass_done [OF p [unfolded Inr] that] .
    have "s' = s1 \<or> (\<exists>c'. pace e c' s1 = (Inr c, s'))"
      using assms(3) by (auto simp: run_scheduled_cycle_def p Inr Let_def split: option.splits if_splits)
    then show ?thesis
    proof
      assume "\<exists>c'. pace e c' s1 = (Inr c, s')"
      then obtain c' where pc: "pace e c' s1 = (Inr c, s')" by blast
      show ?thesis
      proof (rule create_cases [OF assms(1), of None "''''" "''''" s1])
        fix err assume "create_empty_issue e None '''' '''' s1 = (Inl err, s1)"
        then show ?thesis using pc by (simp add: pace_def)
      next
        fix x assume cr: "create_empty_issue e None '''' '''' s1 = (Inr x, add_issue x s1)"
        obtain k s2 where t: "auto_populate_draft e (ni_id x) 10 (add_issue x s1) = (k, s2)" by fastforce
        have i2: "nw_issues s2 = nw_issues s1 @ [x]" using auto_populate_frame [of e "ni_id x" 10 "add_issue x s1"] t by simp
        have cases: "(s' = s2 \<and> (case ni_target_send_at x of None \<Rightarrow> True | Some t \<Rightarrow> \<not> t \<le> ne_now e + hours 24)) \<or> s' = remind e x s2"
          using pc assms(2) by (auto simp: pace_def cr t Let_def split: option.splits if_splits)
        then show ?thesis
        proof
          assume "s' = remind e x s2"
          then have "(z \<in> set (nw_issues s2) \<and> ni_id z \<noteq> ni_id x) \<or> ni_approval_email_sent_at z \<noteq> None"
            using reminded_row assms(4) by simp
          then show ?thesis using old i2 by (auto simp: needs_reminder_def)
        next
          assume "s' = s2 \<and> (case ni_target_send_at x of None \<Rightarrow> True | Some t \<Rightarrow> \<not> t \<le> ne_now e + hours 24)"
          then show ?thesis
            using old i2 assms(4) by (cases "z \<in> set (nw_issues s1)") (auto simp: needs_reminder_def split: option.splits)
        qed
      qed
    qed (use old assms(4) in simp)
  qed
qed

definition late_draft :: newsletter_issue where
  "late_draft = draft_row\<lparr>ni_target_send_at := Some 0\<rparr>"

theorem tick_leaves_no_reminder_open_witness:
  "needs_reminder (ne_now sample_news_env) late_draft
    \<and> (\<forall>z \<in> set (nw_issues (snd (run_scheduled_cycle sample_news_env (news_with [late_draft])))).
         \<not> needs_reminder (ne_now sample_news_env) z)"
proof -
  let ?e = sample_news_env and ?s = "news_with [late_draft]"
  have n: "needs_reminder (ne_now ?e) late_draft"
    by (simp add: needs_reminder_def late_draft_def draft_row_def new_issue_def ne_now_def sample_news_env_def sample_site_env_def
        days_def day_us_def hours_def)
  then have p: "reminder_pass ?e ?s = (Inr 1, remind ?e late_draft ?s)" by (simp add: reminder_pass_def)
  have "life_of (remind ?e late_draft ?s) ''i1'' = Some Draft"
    by (simp add: life_remind life_of_def issue_by_id_def late_draft_def)
  then obtain x where x: "issue_by_id ''i1'' (remind ?e late_draft ?s) = Some x" "ni_status x = Draft" by (auto simp: life_of_def)
  have "upcoming_issue (remind ?e late_draft ?s) \<noteq> None"
    unfolding upcoming_issue_def find_None_iff using issue_by_id_SomeD [OF x(1)] x(2) by blast
  then obtain c s' where c: "run_scheduled_cycle ?e ?s = (Inr c, s')" by (auto simp: run_scheduled_cycle_def p Let_def)
  show ?thesis using n tick_leaves_no_reminder_open [OF _ _ c] by (simp add: c)
qed

section \<open>What the mails are made of\<close>

lemma count_free: "c \<in> {CHR ''<'', CHR ''>'', CHR 0x22, CHR 0x27} \<Longrightarrow> count_list (html_escape s) c = 0"
  using html_escape_free [of s] by (auto simp: markup_free_def count_list_0_iff)

text \<open>
  A find cannot add markup to a mail: whatever its title, summary, topic, source and link
  are, its card has the angle brackets and quotes of the template, and no others.
\<close>

theorem card_markup_is_the_template:
  assumes "c \<in> {CHR ''<'', CHR ''>'', CHR 0x22, CHR 0x27}"
  shows "count_list (card_html r d) c = count_list (card_html r []) c"
proof -
  have e: "count_list (esc r v) c = 0" "count_list (html_escape s) c = 0" for v s
    using count_free [OF assms] by (simp_all add: esc_def)
  have t: "count_list (if esc r v \<noteq> '''' then '' &middot; '' @ esc r v else '''') c = 0" for v
    using assms e by auto
  show ?thesis unfolding card_html_def Let_def by (simp only: count_list_append e t)
qed

theorem card_markup_is_the_template_witness:
  "count_list (card_html sample_render [(''title'', JStr ''<script>''), (''url'', JStr ''javascript:alert(1)'')]) (CHR ''<'')
    = count_list (card_html sample_render []) (CHR ''<'')"
  by (rule card_markup_is_the_template) simp

end
