(* ===== verification/Retention.thy ===== *)
theory Retention
  imports Markup Json
begin

text \<open>
  The retention sweep of \<open>core/retention.py\<close> over the tables of the site: rows older
  than the window of their table are deleted, contacts are anonymized, a window of zero
  days switches its table off, and a dry run only counts. The sweep commits once, at its
  end.
\<close>

section \<open>Policy\<close>

record retention_policy =
  ry_chat_days :: int
  ry_terminal_intake_days :: int
  ry_contact_notification_days :: int
  ry_subscriber_autoreply_days :: int
  ry_newsletter_delivery_days :: int
  ry_contact_record_days :: int

definition default_retention :: retention_policy where
  "default_retention = \<lparr>ry_chat_days = 30, ry_terminal_intake_days = 30, ry_contact_notification_days = 30,
     ry_subscriber_autoreply_days = 30, ry_newsletter_delivery_days = 90, ry_contact_record_days = 730\<rparr>"

definition env_days :: "environ \<Rightarrow> string \<Rightarrow> int \<Rightarrow> int" where
  "env_days env name d =
     (case env name of
        None \<Rightarrow> d
      | Some raw \<Rightarrow> if strip raw = '''' then d else case py_int (strip raw) of None \<Rightarrow> d | Some v \<Rightarrow> max v 0)"

definition retention_from_env :: "environ \<Rightarrow> retention_policy" where
  "retention_from_env env =
     (let d = default_retention in
      \<lparr>ry_chat_days = env_days env ''RETENTION_CHAT_DAYS'' (ry_chat_days d),
       ry_terminal_intake_days = env_days env ''RETENTION_TERMINAL_INTAKE_DAYS'' (ry_terminal_intake_days d),
       ry_contact_notification_days = env_days env ''RETENTION_CONTACT_NOTIFICATION_DAYS'' (ry_contact_notification_days d),
       ry_subscriber_autoreply_days = env_days env ''RETENTION_SUBSCRIBER_AUTOREPLY_DAYS'' (ry_subscriber_autoreply_days d),
       ry_newsletter_delivery_days = env_days env ''RETENTION_NEWSLETTER_DELIVERY_DAYS'' (ry_newsletter_delivery_days d),
       ry_contact_record_days = env_days env ''RETENTION_CONTACT_RECORD_DAYS'' (ry_contact_record_days d)\<rparr>)"

section \<open>Summary\<close>

record sweep_summary =
  sw_ran_at :: utc
  sw_chat_conversations_deleted :: nat
  sw_chat_messages_deleted :: nat
  sw_chat_intake_deleted :: nat
  sw_chat_usage_deleted :: nat
  sw_terminal_intake_deleted :: nat
  sw_contact_notifications_deleted :: nat
  sw_subscriber_autoreplies_deleted :: nat
  sw_newsletter_deliveries_deleted :: nat
  sw_contact_records_anonymized :: nat
  sw_dry_run :: bool
  sw_policy :: retention_policy

definition new_summary :: "bool \<Rightarrow> retention_policy \<Rightarrow> utc \<Rightarrow> sweep_summary" where
  "new_summary dry p now =
     \<lparr>sw_ran_at = now, sw_chat_conversations_deleted = 0, sw_chat_messages_deleted = 0, sw_chat_intake_deleted = 0,
      sw_chat_usage_deleted = 0, sw_terminal_intake_deleted = 0, sw_contact_notifications_deleted = 0,
      sw_subscriber_autoreplies_deleted = 0, sw_newsletter_deliveries_deleted = 0, sw_contact_records_anonymized = 0,
      sw_dry_run = dry, sw_policy = p\<rparr>"

lemma new_summary_zero [simp]:
  "sw_chat_conversations_deleted (new_summary dry p now) = 0" "sw_chat_messages_deleted (new_summary dry p now) = 0"
  "sw_chat_intake_deleted (new_summary dry p now) = 0" "sw_chat_usage_deleted (new_summary dry p now) = 0"
  "sw_terminal_intake_deleted (new_summary dry p now) = 0" "sw_contact_notifications_deleted (new_summary dry p now) = 0"
  "sw_subscriber_autoreplies_deleted (new_summary dry p now) = 0"
  "sw_newsletter_deliveries_deleted (new_summary dry p now) = 0" "sw_contact_records_anonymized (new_summary dry p now) = 0"
  by (simp_all add: new_summary_def)

section \<open>The sweep, table by table\<close>

definition retention_cutoff :: "int \<Rightarrow> utc \<Rightarrow> utc" where
  "retention_cutoff n now = now - days n"

text \<open>\<open>SELECT count(*) ... WHERE p\<close> and \<open>DELETE ... WHERE p\<close>.\<close>

definition rows_where :: "('r \<Rightarrow> bool) \<Rightarrow> 'r list \<Rightarrow> nat" where
  "rows_where p rows = length (filter p rows)"

definition delete_where :: "('r \<Rightarrow> bool) \<Rightarrow> 'r list \<Rightarrow> 'r list" where
  "delete_where p rows = filter (\<lambda>r. \<not> p r) rows"

definition orphan_usage :: "utc \<Rightarrow> chat_usage \<Rightarrow> bool" where
  "orphan_usage cutoff u \<longleftrightarrow> cu_conversation_id u = None \<and> cu_created_at u < cutoff"

definition usage_of_chats :: "string list \<Rightarrow> chat_usage \<Rightarrow> bool" where
  "usage_of_chats ids u \<longleftrightarrow> (case cu_conversation_id u of None \<Rightarrow> False | Some i \<Rightarrow> i \<in> set ids)"

type_synonym sweep_state = "sweep_summary \<times> site_db"

definition sweep_chat :: "retention_policy \<Rightarrow> bool \<Rightarrow> utc \<Rightarrow> sweep_state \<Rightarrow> sweep_state" where
  "sweep_chat p dry now = (\<lambda>(sm, db).
     if ry_chat_days p > 0 then
       let cutoff = retention_cutoff (ry_chat_days p) now;
           ids = map cv_id (filter (\<lambda>c. cv_created_at c < cutoff) (sd_conversations db));
           (sm1, db1) = (if ids = [] then (sm, db) else
             (sm\<lparr>sw_chat_conversations_deleted := length ids,
                 sw_chat_messages_deleted := rows_where (\<lambda>m. mg_conversation_id m \<in> set ids) (sd_messages db),
                 sw_chat_intake_deleted := rows_where (\<lambda>i. ik_conversation_id i \<in> set ids) (sd_intakes db),
                 sw_chat_usage_deleted := rows_where (usage_of_chats ids) (sd_usage db)\<rparr>,
              if dry then db else
                db\<lparr>sd_messages := delete_where (\<lambda>m. mg_conversation_id m \<in> set ids) (sd_messages db),
                   sd_intakes := delete_where (\<lambda>i. ik_conversation_id i \<in> set ids) (sd_intakes db),
                   sd_usage := delete_where (usage_of_chats ids) (sd_usage db),
                   sd_conversations := delete_where (\<lambda>c. cv_id c \<in> set ids) (sd_conversations db)\<rparr>));
           orphans = rows_where (orphan_usage cutoff) (sd_usage db1)
       in (sm1\<lparr>sw_chat_usage_deleted := sw_chat_usage_deleted sm1 + orphans\<rparr>,
           if orphans > 0 \<and> \<not> dry then db1\<lparr>sd_usage := delete_where (orphan_usage cutoff) (sd_usage db1)\<rparr> else db1)
     else (sm, db))"

definition stale_terminal :: "utc \<Rightarrow> terminal_intake \<Rightarrow> bool" where
  "stale_terminal cutoff t \<longleftrightarrow> ti_created_at t < cutoff \<and> ti_conversation_id t = None \<and> ti_contact_id t = None"

definition sweep_terminal :: "retention_policy \<Rightarrow> bool \<Rightarrow> utc \<Rightarrow> sweep_state \<Rightarrow> sweep_state" where
  "sweep_terminal p dry now = (\<lambda>(sm, db).
     if ry_terminal_intake_days p > 0 then
       let stale = stale_terminal (retention_cutoff (ry_terminal_intake_days p) now);
           n = rows_where stale (sd_terminals db)
       in (sm\<lparr>sw_terminal_intake_deleted := n\<rparr>,
           if n > 0 \<and> \<not> dry then db\<lparr>sd_terminals := delete_where stale (sd_terminals db)\<rparr> else db)
     else (sm, db))"

definition sweep_notifications :: "retention_policy \<Rightarrow> bool \<Rightarrow> utc \<Rightarrow> sweep_state \<Rightarrow> sweep_state" where
  "sweep_notifications p dry now = (\<lambda>(sm, db).
     if ry_contact_notification_days p > 0 then
       let stale = (\<lambda>r. cn_created_at r < retention_cutoff (ry_contact_notification_days p) now);
           n = rows_where stale (sd_notifications db)
       in (sm\<lparr>sw_contact_notifications_deleted := n\<rparr>,
           if n > 0 \<and> \<not> dry then db\<lparr>sd_notifications := delete_where stale (sd_notifications db)\<rparr> else db)
     else (sm, db))"

definition sweep_autoreplies :: "retention_policy \<Rightarrow> bool \<Rightarrow> utc \<Rightarrow> sweep_state \<Rightarrow> sweep_state" where
  "sweep_autoreplies p dry now = (\<lambda>(sm, db).
     if ry_subscriber_autoreply_days p > 0 then
       let stale = (\<lambda>r. ar_created_at r < retention_cutoff (ry_subscriber_autoreply_days p) now);
           n = rows_where stale (sd_autoreplies db)
       in (sm\<lparr>sw_subscriber_autoreplies_deleted := n\<rparr>,
           if n > 0 \<and> \<not> dry then db\<lparr>sd_autoreplies := delete_where stale (sd_autoreplies db)\<rparr> else db)
     else (sm, db))"

definition sweep_deliveries :: "retention_policy \<Rightarrow> bool \<Rightarrow> utc \<Rightarrow> sweep_state \<Rightarrow> sweep_state" where
  "sweep_deliveries p dry now = (\<lambda>(sm, db).
     if ry_newsletter_delivery_days p > 0 then
       let stale = (\<lambda>r. nd_subscriber_id r \<noteq> '''' \<and> nd_created_at r < retention_cutoff (ry_newsletter_delivery_days p) now);
           n = rows_where stale (sd_deliveries db)
       in (sm\<lparr>sw_newsletter_deliveries_deleted := n\<rparr>,
           if n > 0 \<and> \<not> dry then db\<lparr>sd_deliveries := delete_where stale (sd_deliveries db)\<rparr> else db)
     else (sm, db))"

definition anonymized_contact_email :: "string \<Rightarrow> string" where
  "anonymized_contact_email i = ''deleted+'' @ i @ ''@anon.invalid''"

definition is_anonymized :: "contact_record \<Rightarrow> bool" where
  "is_anonymized r \<longleftrightarrow> sql_like ''deleted+%@anon.invalid'' (cr_email r)"

definition anonymize :: "utc \<Rightarrow> contact_record \<Rightarrow> contact_record" where
  "anonymize now r = r\<lparr>cr_name := ''[deleted]'', cr_email := anonymized_contact_email (cr_id r), cr_data := ''{}'',
     cr_ip_address := '''', cr_updated_at := Some now\<rparr>"

definition sweep_contacts :: "retention_policy \<Rightarrow> bool \<Rightarrow> utc \<Rightarrow> sweep_state \<Rightarrow> sweep_state" where
  "sweep_contacts p dry now = (\<lambda>(sm, db).
     if ry_contact_record_days p > 0 then
       let stale = (\<lambda>r. cr_created_at r < retention_cutoff (ry_contact_record_days p) now \<and> \<not> is_anonymized r);
           n = rows_where stale (sd_contacts db)
       in (sm\<lparr>sw_contact_records_anonymized := n\<rparr>,
           if n > 0 \<and> \<not> dry then db\<lparr>sd_contacts := update_where stale (anonymize now) (sd_contacts db)\<rparr> else db)
     else (sm, db))"

definition sweep :: "retention_policy \<Rightarrow> bool \<Rightarrow> utc \<Rightarrow> site_db \<Rightarrow> sweep_state" where
  "sweep p dry now db =
     sweep_contacts p dry now (sweep_deliveries p dry now (sweep_autoreplies p dry now
       (sweep_notifications p dry now (sweep_terminal p dry now (sweep_chat p dry now (new_summary dry p now, db))))))"

section \<open>Deleting rows\<close>

lemma delete_where_length: "length (delete_where p rows) + rows_where p rows = length rows"
  unfolding delete_where_def rows_where_def using sum_length_filter_compl [of p rows] by simp

lemma delete_where_idem [simp]: "delete_where p (delete_where p rows) = delete_where p rows"
  by (simp add: delete_where_def)

lemma rows_where_deleted [simp]: "rows_where p (delete_where p rows) = 0"
  by (simp add: rows_where_def delete_where_def)

lemma rows_where_0: "rows_where p rows = 0 \<longleftrightarrow> (\<forall>r \<in> set rows. \<not> p r)"
  by (simp add: rows_where_def filter_empty_conv)

lemma delete_where_none: "\<forall>r \<in> set rows. \<not> p r \<Longrightarrow> delete_where p rows = rows"
  by (simp add: delete_where_def)

lemma delete_where_guarded: "(if rows_where p rows > 0 then delete_where p rows else rows) = delete_where p rows"
  by (auto simp: rows_where_0 delete_where_none)

section \<open>The effect of a real sweep\<close>

definition windowed :: "int \<Rightarrow> utc \<Rightarrow> utc \<Rightarrow> bool" where
  "windowed n now t \<longleftrightarrow> n > 0 \<and> t < retention_cutoff n now"

definition stale_chats :: "retention_policy \<Rightarrow> utc \<Rightarrow> site_db \<Rightarrow> string set" where
  "stale_chats p now db = cv_id ` {c \<in> set (sd_conversations db). windowed (ry_chat_days p) now (cv_created_at c)}"

text \<open>The declarative specification of the sweep: one predicate per table.\<close>

definition swept :: "retention_policy \<Rightarrow> utc \<Rightarrow> site_db \<Rightarrow> site_db" where
  "swept p now db =
     db\<lparr>sd_conversations := filter (\<lambda>c. cv_id c \<notin> stale_chats p now db) (sd_conversations db),
        sd_messages := filter (\<lambda>m. mg_conversation_id m \<notin> stale_chats p now db) (sd_messages db),
        sd_intakes := filter (\<lambda>i. ik_conversation_id i \<notin> stale_chats p now db) (sd_intakes db),
        sd_usage := filter (\<lambda>u. case cu_conversation_id u of
            None \<Rightarrow> \<not> windowed (ry_chat_days p) now (cu_created_at u)
          | Some i \<Rightarrow> i \<notin> stale_chats p now db) (sd_usage db),
        sd_terminals := filter (\<lambda>t. \<not> (windowed (ry_terminal_intake_days p) now (ti_created_at t)
          \<and> ti_conversation_id t = None \<and> ti_contact_id t = None)) (sd_terminals db),
        sd_notifications := filter (\<lambda>r. \<not> windowed (ry_contact_notification_days p) now (cn_created_at r)) (sd_notifications db),
        sd_autoreplies := filter (\<lambda>r. \<not> windowed (ry_subscriber_autoreply_days p) now (ar_created_at r)) (sd_autoreplies db),
        sd_deliveries := filter (\<lambda>r. \<not> (nd_subscriber_id r \<noteq> ''''
          \<and> windowed (ry_newsletter_delivery_days p) now (nd_created_at r))) (sd_deliveries db),
        sd_contacts := map (\<lambda>r. if windowed (ry_contact_record_days p) now (cr_created_at r) \<and> \<not> is_anonymized r
          then anonymize now r else r) (sd_contacts db)\<rparr>"

lemma update_where_guarded: "(if rows_where p rows > 0 then update_where p f rows else rows) = update_where p f rows"
  by (auto simp: rows_where_0 update_where_def intro!: map_idI [symmetric])

text \<open>A guarded statement on one table is a guarded update of that table.\<close>

lemma guarded_table:
  "(if c then db\<lparr>sd_usage := a\<rparr> else db) = db\<lparr>sd_usage := if c then a else sd_usage db\<rparr>"
  "(if c then db\<lparr>sd_terminals := b\<rparr> else db) = db\<lparr>sd_terminals := if c then b else sd_terminals db\<rparr>"
  "(if c then db\<lparr>sd_notifications := d\<rparr> else db) = db\<lparr>sd_notifications := if c then d else sd_notifications db\<rparr>"
  "(if c then db\<lparr>sd_autoreplies := f\<rparr> else db) = db\<lparr>sd_autoreplies := if c then f else sd_autoreplies db\<rparr>"
  "(if c then db\<lparr>sd_deliveries := g\<rparr> else db) = db\<lparr>sd_deliveries := if c then g else sd_deliveries db\<rparr>"
  "(if c then db\<lparr>sd_contacts := h\<rparr> else db) = db\<lparr>sd_contacts := if c then h else sd_contacts db\<rparr>"
  by simp_all

lemma sweep_chat_db:
  "snd (sweep_chat p False now (sm, db)) =
     db\<lparr>sd_conversations := sd_conversations (swept p now db), sd_messages := sd_messages (swept p now db),
        sd_intakes := sd_intakes (swept p now db), sd_usage := sd_usage (swept p now db)\<rparr>"
proof (cases "ry_chat_days p > 0")
  case True
  let ?cut = "retention_cutoff (ry_chat_days p) now"
  let ?ids = "map cv_id (filter (\<lambda>c. cv_created_at c < ?cut) (sd_conversations db))"
  have ids: "stale_chats p now db = set ?ids" using True by (auto simp: stale_chats_def windowed_def)
  have usage: "delete_where (orphan_usage ?cut) (delete_where (usage_of_chats ?ids) (sd_usage db)) = sd_usage (swept p now db)"
    using True unfolding swept_def ids delete_where_def
    by (auto simp: filter_filter windowed_def orphan_usage_def usage_of_chats_def intro!: filter_cong split: option.splits)
  show ?thesis
  proof (cases "?ids = []")
    case none: True
    then have "delete_where (usage_of_chats ?ids) (sd_usage db) = sd_usage db"
      by (intro delete_where_none) (auto simp: usage_of_chats_def split: option.splits)
    with usage have usage': "delete_where (orphan_usage ?cut) (sd_usage db) = sd_usage (swept p now db)" by simp
    have stale: "stale_chats p now db = {}" using ids none by simp
    have "snd (sweep_chat p False now (sm, db)) = db\<lparr>sd_usage := sd_usage (swept p now db)\<rparr>"
      using True none unfolding sweep_chat_def Let_def
      by (simp only: split if_True prod.case snd_conv guarded_table not_False_eq_True simp_thms delete_where_guarded usage')
    then show ?thesis using stale by (simp add: swept_def)
  next
    case False
    have "snd (sweep_chat p False now (sm, db)) = db\<lparr>sd_messages := delete_where (\<lambda>m. mg_conversation_id m \<in> set ?ids) (sd_messages db),
        sd_intakes := delete_where (\<lambda>i. ik_conversation_id i \<in> set ?ids) (sd_intakes db),
        sd_conversations := delete_where (\<lambda>c. cv_id c \<in> set ?ids) (sd_conversations db),
        sd_usage := delete_where (orphan_usage ?cut) (delete_where (usage_of_chats ?ids) (sd_usage db))\<rparr>"
      using True False unfolding sweep_chat_def Let_def by (simp add: guarded_table delete_where_guarded)
    then show ?thesis unfolding usage by (simp add: swept_def ids delete_where_def)
  qed
next
  case False
  then have none: "stale_chats p now db = {}" by (simp add: stale_chats_def windowed_def)
  have usage: "filter (\<lambda>u. case cu_conversation_id u of None \<Rightarrow> \<not> windowed (ry_chat_days p) now (cu_created_at u)
      | Some i \<Rightarrow> i \<notin> stale_chats p now db) (sd_usage db) = sd_usage db"
    using False none by (intro filter_True) (auto simp: windowed_def split: option.splits)
  show ?thesis using False by (simp add: sweep_chat_def swept_def usage none)
qed

text \<open>Each of the other steps touches one table.\<close>

lemma sweep_tables_db:
  "snd (sweep_terminal p False now st) =
     (snd st)\<lparr>sd_terminals := filter (\<lambda>t. \<not> (windowed (ry_terminal_intake_days p) now (ti_created_at t)
       \<and> ti_conversation_id t = None \<and> ti_contact_id t = None)) (sd_terminals (snd st))\<rparr>"
  "snd (sweep_notifications p False now st) =
     (snd st)\<lparr>sd_notifications := filter (\<lambda>r. \<not> windowed (ry_contact_notification_days p) now (cn_created_at r)) (sd_notifications (snd st))\<rparr>"
  "snd (sweep_autoreplies p False now st) =
     (snd st)\<lparr>sd_autoreplies := filter (\<lambda>r. \<not> windowed (ry_subscriber_autoreply_days p) now (ar_created_at r)) (sd_autoreplies (snd st))\<rparr>"
  "snd (sweep_deliveries p False now st) =
     (snd st)\<lparr>sd_deliveries := filter (\<lambda>r. \<not> (nd_subscriber_id r \<noteq> '''' \<and> windowed (ry_newsletter_delivery_days p) now (nd_created_at r)))
       (sd_deliveries (snd st))\<rparr>"
  "snd (sweep_contacts p False now st) =
     (snd st)\<lparr>sd_contacts := map (\<lambda>r. if windowed (ry_contact_record_days p) now (cr_created_at r) \<and> \<not> is_anonymized r
        then anonymize now r else r) (sd_contacts (snd st))\<rparr>"
  by (cases st; simp add: sweep_terminal_def sweep_notifications_def sweep_autoreplies_def sweep_deliveries_def
        sweep_contacts_def Let_def guarded_table delete_where_guarded update_where_guarded;
      simp add: delete_where_def update_where_def windowed_def stale_terminal_def)+

lemma sweep_swept: "snd (sweep p False now db) = swept p now db"
  unfolding sweep_def sweep_tables_db sweep_chat_db by (simp add: swept_def)

section \<open>What the summary counts\<close>

lemma dry_steps:
  "snd (sweep_chat p True now st) = snd st" "snd (sweep_terminal p True now st) = snd st"
  "snd (sweep_notifications p True now st) = snd st" "snd (sweep_autoreplies p True now st) = snd st"
  "snd (sweep_deliveries p True now st) = snd st" "snd (sweep_contacts p True now st) = snd st"
  by (cases st; simp add: sweep_chat_def sweep_terminal_def sweep_notifications_def sweep_autoreplies_def
        sweep_deliveries_def sweep_contacts_def Let_def)+

lemma step_summaries:
  "fst (sweep_terminal p dry now st) = (fst st)\<lparr>sw_terminal_intake_deleted := if ry_terminal_intake_days p > 0
     then rows_where (stale_terminal (retention_cutoff (ry_terminal_intake_days p) now)) (sd_terminals (snd st))
     else sw_terminal_intake_deleted (fst st)\<rparr>"
  "fst (sweep_notifications p dry now st) = (fst st)\<lparr>sw_contact_notifications_deleted := if ry_contact_notification_days p > 0
     then rows_where (\<lambda>r. cn_created_at r < retention_cutoff (ry_contact_notification_days p) now) (sd_notifications (snd st))
     else sw_contact_notifications_deleted (fst st)\<rparr>"
  "fst (sweep_autoreplies p dry now st) = (fst st)\<lparr>sw_subscriber_autoreplies_deleted := if ry_subscriber_autoreply_days p > 0
     then rows_where (\<lambda>r. ar_created_at r < retention_cutoff (ry_subscriber_autoreply_days p) now) (sd_autoreplies (snd st))
     else sw_subscriber_autoreplies_deleted (fst st)\<rparr>"
  "fst (sweep_deliveries p dry now st) = (fst st)\<lparr>sw_newsletter_deliveries_deleted := if ry_newsletter_delivery_days p > 0
     then rows_where (\<lambda>r. nd_subscriber_id r \<noteq> '''' \<and> nd_created_at r < retention_cutoff (ry_newsletter_delivery_days p) now)
       (sd_deliveries (snd st)) else sw_newsletter_deliveries_deleted (fst st)\<rparr>"
  "fst (sweep_contacts p dry now st) = (fst st)\<lparr>sw_contact_records_anonymized := if ry_contact_record_days p > 0
     then rows_where (\<lambda>r. cr_created_at r < retention_cutoff (ry_contact_record_days p) now \<and> \<not> is_anonymized r)
       (sd_contacts (snd st)) else sw_contact_records_anonymized (fst st)\<rparr>"
  by (cases st; simp add: sweep_terminal_def sweep_notifications_def sweep_autoreplies_def sweep_deliveries_def
        sweep_contacts_def Let_def)+

lemma orphans_not_of_chats: "rows_where (orphan_usage cutoff) (delete_where (usage_of_chats ids) rows) = rows_where (orphan_usage cutoff) rows"
  unfolding rows_where_def delete_where_def
  by (induction rows) (auto simp: orphan_usage_def usage_of_chats_def split: option.splits)

lemma chat_summary:
  fixes db :: site_db and now :: utc
  assumes "ry_chat_days p > 0"
  defines "ids \<equiv> map cv_id (filter (\<lambda>c. cv_created_at c < retention_cutoff (ry_chat_days p) now) (sd_conversations db))"
  shows "fst (sweep_chat p dry now (new_summary d p now, db)) = (new_summary d p now)
     \<lparr>sw_chat_conversations_deleted := length ids,
      sw_chat_messages_deleted := rows_where (\<lambda>m. mg_conversation_id m \<in> set ids) (sd_messages db),
      sw_chat_intake_deleted := rows_where (\<lambda>i. ik_conversation_id i \<in> set ids) (sd_intakes db),
      sw_chat_usage_deleted := rows_where (usage_of_chats ids) (sd_usage db)
        + rows_where (orphan_usage (retention_cutoff (ry_chat_days p) now)) (sd_usage db)\<rparr>"
proof (cases "ids = []")
  case True
  then have "rows_where (\<lambda>m. mg_conversation_id m \<in> set ids) (sd_messages db) = 0"
    "rows_where (\<lambda>i. ik_conversation_id i \<in> set ids) (sd_intakes db) = 0" "rows_where (usage_of_chats ids) (sd_usage db) = 0"
    by (auto simp: rows_where_0 usage_of_chats_def split: option.splits)
  then show ?thesis
    using assms(1) True by (simp add: sweep_chat_def Let_def new_summary_def orphans_not_of_chats flip: ids_def)
next
  case False
  then have "filter (\<lambda>c. cv_created_at c < retention_cutoff (ry_chat_days p) now) (sd_conversations db) \<noteq> []"
    by (simp add: ids_def)
  then show ?thesis
    using assms(1) by (simp add: sweep_chat_def Let_def new_summary_def orphans_not_of_chats flip: ids_def)
qed

lemma chat_summary_off: "\<not> ry_chat_days p > 0 \<Longrightarrow> sweep_chat p dry now st = st"
  by (cases st) (simp add: sweep_chat_def)

lemma summary_ignores_dry: "fst (sweep_chat p dry now (new_summary d p now, db)) = fst (sweep_chat p False now (new_summary d p now, db))"
  by (cases "ry_chat_days p > 0") (simp_all add: chat_summary chat_summary_off)

lemma filter_count: "length (filter p rows) + rows_where q rows = length rows" if "\<And>r. r \<in> set rows \<Longrightarrow> q r = (\<not> p r)"
proof -
  have "filter (\<lambda>r. \<not> p r) rows = filter q rows" using that by (intro filter_cong) auto
  then show ?thesis using sum_length_filter_compl [of p rows] by (simp add: rows_where_def)
qed

text \<open>The chat tables lose exactly the rows the summary counts.\<close>

lemma chat_counts:
  fixes db :: site_db and now :: utc
  assumes "ry_chat_days p > 0" and keys: "distinct (map cv_id (sd_conversations db))"
  defines "sm \<equiv> fst (sweep_chat p False now (new_summary False p now, db))" and "db' \<equiv> swept p now db"
  shows "length (sd_conversations db') + sw_chat_conversations_deleted sm = length (sd_conversations db)"
    and "length (sd_messages db') + sw_chat_messages_deleted sm = length (sd_messages db)"
    and "length (sd_intakes db') + sw_chat_intake_deleted sm = length (sd_intakes db)"
    and "length (sd_usage db') + sw_chat_usage_deleted sm = length (sd_usage db)"
proof -
  let ?cut = "retention_cutoff (ry_chat_days p) now"
  define ids where "ids = map cv_id (filter (\<lambda>c. cv_created_at c < ?cut) (sd_conversations db))"
  have stale: "stale_chats p now db = set ids" using assms(1) by (auto simp: stale_chats_def windowed_def ids_def)
  note sm = chat_summary [OF assms(1), of False now False db, folded ids_def]
  have "cv_id c \<in> set ids \<longleftrightarrow> cv_created_at c < ?cut" if "c \<in> set (sd_conversations db)" for c
    using that keys by (auto simp: ids_def distinct_map inj_on_def)
  then have "rows_where (\<lambda>c. cv_id c \<in> set ids) (sd_conversations db) = length ids"
    by (simp add: rows_where_def ids_def cong: filter_cong)
  then show "length (sd_conversations db') + sw_chat_conversations_deleted sm = length (sd_conversations db)"
    using filter_count [of "sd_conversations db" "\<lambda>c. cv_id c \<in> set ids" "\<lambda>c. cv_id c \<notin> set ids"]
    by (simp add: sm_def db'_def swept_def stale sm)
  show "length (sd_messages db') + sw_chat_messages_deleted sm = length (sd_messages db)"
    using filter_count [of "sd_messages db" "\<lambda>m. mg_conversation_id m \<in> set ids" "\<lambda>m. mg_conversation_id m \<notin> set ids"]
    by (simp add: sm_def db'_def swept_def stale sm)
  show "length (sd_intakes db') + sw_chat_intake_deleted sm = length (sd_intakes db)"
    using filter_count [of "sd_intakes db" "\<lambda>m. ik_conversation_id m \<in> set ids" "\<lambda>m. ik_conversation_id m \<notin> set ids"]
    by (simp add: sm_def db'_def swept_def stale sm)
  have both: "rows_where (usage_of_chats ids) rows + rows_where (orphan_usage ?cut) rows
      = rows_where (\<lambda>u. usage_of_chats ids u \<or> orphan_usage ?cut u) rows" for rows
    unfolding rows_where_def by (induction rows) (auto simp: usage_of_chats_def orphan_usage_def split: option.splits)
  let ?P = "\<lambda>u. case cu_conversation_id u of None \<Rightarrow> \<not> windowed (ry_chat_days p) now (cu_created_at u)
    | Some i \<Rightarrow> i \<notin> stale_chats p now db"
  have u: "sd_usage db' = filter ?P (sd_usage db)" by (simp add: db'_def swept_def)
  have "length (filter ?P (sd_usage db)) + rows_where (\<lambda>u. usage_of_chats ids u \<or> orphan_usage ?cut u) (sd_usage db)
      = length (sd_usage db)"
    by (rule filter_count)
      (use assms(1) in \<open>auto simp: usage_of_chats_def orphan_usage_def windowed_def stale split: option.splits\<close>)
  then show "length (sd_usage db') + sw_chat_usage_deleted sm = length (sd_usage db)"
    unfolding u sm_def sm using both [of "sd_usage db"] by simp
qed

lemma chat_counts_off:
  assumes "\<not> ry_chat_days p > 0"
  shows "sd_conversations (swept p now db) = sd_conversations db" "sd_messages (swept p now db) = sd_messages db"
    "sd_intakes (swept p now db) = sd_intakes db" "sd_usage (swept p now db) = sd_usage db"
  using assms sweep_chat_db [of p now "new_summary False p now" db]
  by (metis chat_summary_off site_db.select_convs(1-4) site_db.update_convs(1-4) snd_conv site_db.surjective)+

lemma table_count:
  assumes "\<And>r. q r \<longleftrightarrow> t r < retention_cutoff n now \<and> P r"
  shows "length (filter (\<lambda>r. \<not> (windowed n now (t r) \<and> P r)) rows) + (if n > 0 then rows_where q rows else 0) = length rows"
proof (cases "n > 0")
  case True
  then show ?thesis
    using filter_count [of rows q "\<lambda>r. \<not> (windowed n now (t r) \<and> P r)"] by (simp add: assms windowed_def)
qed (simp add: windowed_def)

text \<open>Rows that are there, and rows the summary says are gone.\<close>

definition rows_left :: "sweep_summary \<Rightarrow> site_db \<Rightarrow> nat list" where
  "rows_left sm db =
     [length (sd_conversations db) + sw_chat_conversations_deleted sm, length (sd_messages db) + sw_chat_messages_deleted sm,
      length (sd_intakes db) + sw_chat_intake_deleted sm, length (sd_usage db) + sw_chat_usage_deleted sm,
      length (sd_terminals db) + sw_terminal_intake_deleted sm,
      length (sd_notifications db) + sw_contact_notifications_deleted sm,
      length (sd_autoreplies db) + sw_subscriber_autoreplies_deleted sm,
      length (sd_deliveries db) + sw_newsletter_deliveries_deleted sm]"

lemma other_counts:
  "length (sd_terminals (swept p now db)) + (if ry_terminal_intake_days p > 0
      then rows_where (stale_terminal (retention_cutoff (ry_terminal_intake_days p) now)) (sd_terminals db) else 0)
      = length (sd_terminals db)"
  "length (sd_notifications (swept p now db)) + (if ry_contact_notification_days p > 0
      then rows_where (\<lambda>r. cn_created_at r < retention_cutoff (ry_contact_notification_days p) now) (sd_notifications db) else 0)
      = length (sd_notifications db)"
  "length (sd_autoreplies (swept p now db)) + (if ry_subscriber_autoreply_days p > 0
      then rows_where (\<lambda>r. ar_created_at r < retention_cutoff (ry_subscriber_autoreply_days p) now) (sd_autoreplies db) else 0)
      = length (sd_autoreplies db)"
  "length (sd_deliveries (swept p now db)) + (if ry_newsletter_delivery_days p > 0
      then rows_where (\<lambda>r. nd_subscriber_id r \<noteq> '''' \<and> nd_created_at r < retention_cutoff (ry_newsletter_delivery_days p) now)
        (sd_deliveries db) else 0) = length (sd_deliveries db)"
  using table_count [of "stale_terminal (retention_cutoff (ry_terminal_intake_days p) now)" ti_created_at "ry_terminal_intake_days p" now
      "\<lambda>t. ti_conversation_id t = None \<and> ti_contact_id t = None" "sd_terminals db"]
    table_count [of "\<lambda>r. cn_created_at r < retention_cutoff (ry_contact_notification_days p) now" cn_created_at
      "ry_contact_notification_days p" now "\<lambda>_. True" "sd_notifications db"]
    table_count [of "\<lambda>r. ar_created_at r < retention_cutoff (ry_subscriber_autoreply_days p) now" ar_created_at
      "ry_subscriber_autoreply_days p" now "\<lambda>_. True" "sd_autoreplies db"]
    table_count [of "\<lambda>r. nd_subscriber_id r \<noteq> '''' \<and> nd_created_at r < retention_cutoff (ry_newsletter_delivery_days p) now"
      nd_created_at "ry_newsletter_delivery_days p" now "\<lambda>r. nd_subscriber_id r \<noteq> ''''" "sd_deliveries db"]
  by (auto simp: swept_def stale_terminal_def conj_commute)

section \<open>Properties\<close>

text \<open>
  A dry run changes nothing and reports what a real run at the same time reports, and
  the real report is the number of rows that are gone from each table.
\<close>

theorem dry_run_tells_the_truth:
  assumes "distinct (map cv_id (sd_conversations db))"
  shows "sweep p True now db = ((fst (sweep p False now db))\<lparr>sw_dry_run := True\<rparr>, db)
    \<and> rows_left (fst (sweep p False now db)) (snd (sweep p False now db)) = rows_left (new_summary False p now) db"
proof
  have sum: "fst (sweep_chat p True now (new_summary True p now, db))
      = (fst (sweep_chat p False now (new_summary False p now, db)))\<lparr>sw_dry_run := True\<rparr>"
    by (cases "ry_chat_days p > 0"; simp only: chat_summary chat_summary_off simp_thms; simp add: new_summary_def)
  have "fst (sweep p True now db) = (fst (sweep p False now db))\<lparr>sw_dry_run := True\<rparr>"
    unfolding sweep_def step_summaries sweep_tables_db sweep_chat_db dry_steps by (simp add: sum swept_def)
  then show "sweep p True now db = ((fst (sweep p False now db))\<lparr>sw_dry_run := True\<rparr>, db)"
    by (simp add: prod_eq_iff) (simp add: sweep_def dry_steps)
next
  let ?c = "fst (sweep_chat p False now (new_summary False p now, db))"
  have sm: "rows_left (fst (sweep p False now db)) db' =
     [length (sd_conversations db') + sw_chat_conversations_deleted ?c, length (sd_messages db') + sw_chat_messages_deleted ?c,
      length (sd_intakes db') + sw_chat_intake_deleted ?c, length (sd_usage db') + sw_chat_usage_deleted ?c]
     @ drop 4 (rows_left (fst (sweep p False now db)) db')" for db'
    unfolding sweep_def step_summaries by (simp add: rows_left_def)
  have zero: "sw_terminal_intake_deleted ?c = 0" "sw_contact_notifications_deleted ?c = 0"
    "sw_subscriber_autoreplies_deleted ?c = 0" "sw_newsletter_deliveries_deleted ?c = 0"
    by (cases "ry_chat_days p > 0"; simp only: chat_summary chat_summary_off simp_thms; simp add: new_summary_def)+
  have rest: "drop 4 (rows_left (fst (sweep p False now db)) (swept p now db)) = drop 4 (rows_left (new_summary False p now) db)"
    using other_counts [of p now db] zero
    unfolding sweep_def step_summaries sweep_tables_db sweep_chat_db
    by (simp add: rows_left_def cong: if_cong split del: if_split)
  have chat: "take 4 (rows_left (fst (sweep p False now db)) (swept p now db)) = take 4 (rows_left (new_summary False p now) db)"
    using chat_counts [OF _ assms, of p now] chat_counts_off [of p now db] chat_summary_off [of p False now]
    by (subst sm) (cases "ry_chat_days p > 0"; simp add: rows_left_def)
  show "rows_left (fst (sweep p False now db)) (snd (sweep p False now db)) = rows_left (new_summary False p now) db"
    unfolding sweep_swept using rest chat by (metis append_take_drop_id)
qed

text \<open>A conversation, its messages and usage, and an intake that is linked to it, at day 0.\<close>

definition sample_site :: site_db where
  "sample_site = empty_site
     \<lparr>sd_conversations := [\<lparr>cv_id = ''k'', cv_mode = ''automator'', cv_created_at = 0\<rparr>],
      sd_messages := [\<lparr>mg_id = ''m'', mg_conversation_id = ''k'', mg_role = ''user'', mg_content = ''hi'', mg_created_at = 0\<rparr>],
      sd_terminals := [\<lparr>ti_id = ''t'', ti_terminal_session_id = ''session1'', ti_conversation_id = Some ''k'',
        ti_contact_id = None, ti_selected_mode = ''automator'', ti_objective = ''o'', ti_building = ''b'',
        ti_maturity = ''m'', ti_help_needed = ''h'', ti_source_path = '''', ti_referrer = '''', ti_user_agent = '''',
        ti_ip_address = ''203.0.113.9'', ti_data = ''{}'', ti_submission_count = 1, ti_created_at = 0,
        ti_updated_at = None\<rparr>]\<rparr>"

theorem dry_run_tells_the_truth_witness:
  "snd (sweep default_retention True (days 31) sample_site) = sample_site"
  using dry_run_tells_the_truth [of sample_site default_retention "days 31"]
  by (simp add: sample_site_def empty_site_def)

lemma anonymize_created [simp]: "cr_created_at (anonymize now r) = cr_created_at r"
  by (simp add: anonymize_def)

lemma anonymize_anonymized [simp]: "is_anonymized (anonymize now r)"
proof -
  have "sql_like ''@anon.invalid'' ''@anon.invalid''" by (rule like_exact [of _ "[]" "[]", simplified]) simp_all
  then have "sql_like (''%'' @ ''@anon.invalid'') (cr_id r @ ''@anon.invalid'')" by (simp add: like_skip)
  then have "sql_like (''deleted+'' @ ''%'' @ ''@anon.invalid'') (''deleted+'' @ cr_id r @ ''@anon.invalid'')"
    by (intro like_exact) simp_all
  then show ?thesis by (simp add: is_anonymized_def anonymize_def anonymized_contact_email_def)
qed

text \<open>
  A second sweep at the same time finds nothing: the first one left no row it would
  delete and no contact it would anonymize again.
\<close>

theorem sweep_settles:
  "snd (sweep p False now (snd (sweep p False now db))) = snd (sweep p False now db)"
proof -
  have none: "stale_chats p now (swept p now db) = {}"
    unfolding stale_chats_def by (auto simp: swept_def stale_chats_def)
  have usage: "filter (\<lambda>u. case cu_conversation_id u of None \<Rightarrow> \<not> windowed (ry_chat_days p) now (cu_created_at u)
      | Some i \<Rightarrow> i \<notin> stale_chats p now (swept p now db)) (sd_usage (swept p now db)) = sd_usage (swept p now db)"
    unfolding none by (intro filter_True) (auto simp: swept_def split: option.splits)
  have chats: "sd_conversations (swept p now (swept p now db)) = sd_conversations (swept p now db)"
    "sd_messages (swept p now (swept p now db)) = sd_messages (swept p now db)"
    "sd_intakes (swept p now (swept p now db)) = sd_intakes (swept p now db)"
    by (subst swept_def, simp add: none)+
  have usage2: "sd_usage (swept p now (swept p now db)) = sd_usage (swept p now db)"
    using usage by (subst swept_def) simp
  have contacts: "sd_contacts (swept p now (swept p now db)) = sd_contacts (swept p now db)"
    by (auto simp: swept_def)
  have others: "sd_terminals (swept p now (swept p now db)) = sd_terminals (swept p now db)"
    "sd_notifications (swept p now (swept p now db)) = sd_notifications (swept p now db)"
    "sd_autoreplies (swept p now (swept p now db)) = sd_autoreplies (swept p now db)"
    "sd_deliveries (swept p now (swept p now db)) = sd_deliveries (swept p now db)"
    "sd_subscribers (swept p now (swept p now db)) = sd_subscribers (swept p now db)"
    by (simp_all add: swept_def)
  show ?thesis
    unfolding sweep_swept by (rule site_db.equality) (simp_all add: chats usage2 contacts others)
qed

text \<open>C31: 
  What a sweep leaves of every table, whatever is in it. A conversation goes when its window is
  on and it is older than the window (a window of zero days is off), and with it go the messages,
  intake answers and usage rows of that conversation; a usage row without a conversation goes by
  its own age; so do notifications and auto-replies. A terminal intake goes by its age only when
  it is linked to no conversation and no contact, and a delivery record only when it has a
  subscriber: linked intakes and the records of the web and LinkedIn are never swept. A contact
  past its window, unless it is anonymized already, loses its name, e-mail address, data and IP
  address. Everything else stays as it was; a second sweep at the same time changes nothing, and a
  dry run never does.
\<close>

theorem sweep_meets_specification:
  "snd (sweep p False now db) =
     (let old = (\<lambda>n t. 0 < n \<and> t < now - days n);
          gone = cv_id ` {c \<in> set (sd_conversations db). old (ry_chat_days p) (cv_created_at c)}
      in db\<lparr>sd_conversations := filter (\<lambda>c. cv_id c \<notin> gone) (sd_conversations db),
            sd_messages := filter (\<lambda>m. mg_conversation_id m \<notin> gone) (sd_messages db),
            sd_intakes := filter (\<lambda>i. ik_conversation_id i \<notin> gone) (sd_intakes db),
            sd_usage := filter (\<lambda>u. case cu_conversation_id u of
                None \<Rightarrow> \<not> old (ry_chat_days p) (cu_created_at u) | Some i \<Rightarrow> i \<notin> gone) (sd_usage db),
            sd_terminals := filter (\<lambda>t. \<not> (old (ry_terminal_intake_days p) (ti_created_at t)
                \<and> ti_conversation_id t = None \<and> ti_contact_id t = None)) (sd_terminals db),
            sd_notifications := filter (\<lambda>r. \<not> old (ry_contact_notification_days p) (cn_created_at r)) (sd_notifications db),
            sd_autoreplies := filter (\<lambda>r. \<not> old (ry_subscriber_autoreply_days p) (ar_created_at r)) (sd_autoreplies db),
            sd_deliveries := filter (\<lambda>r. \<not> (nd_subscriber_id r \<noteq> '''' \<and> old (ry_newsletter_delivery_days p) (nd_created_at r)))
                (sd_deliveries db),
            sd_contacts := map (\<lambda>r. if old (ry_contact_record_days p) (cr_created_at r) \<and> \<not> is_anonymized r
                then r\<lparr>cr_name := ''[deleted]'', cr_email := ''deleted+'' @ cr_id r @ ''@anon.invalid'', cr_data := ''{}'',
                       cr_ip_address := '''', cr_updated_at := Some now\<rparr>
                else r) (sd_contacts db)\<rparr>)
    \<and> snd (sweep p False now (snd (sweep p False now db))) = snd (sweep p False now db)
    \<and> snd (sweep p True now db) = db"
  (is "_ = ?swept \<and> _ \<and> _")
proof (intro conjI)
  show "snd (sweep p False now (snd (sweep p False now db))) = snd (sweep p False now db)" by (rule sweep_settles)
  show "snd (sweep p True now db) = db" by (simp add: sweep_def dry_steps)
  have w: "windowed = (\<lambda>n now t. 0 < n \<and> t < now - days n)"
    by (intro ext) (simp add: windowed_def retention_cutoff_def)
  show "snd (sweep p False now db) = ?swept"
    unfolding sweep_swept swept_def stale_chats_def w anonymize_def anonymized_contact_email_def Let_def by (rule refl)
qed

text \<open>
  Whatever is swept, a terminal intake that was linked to a conversation or a contact
  stays for ever, with the address and the answers in it, while the conversation it
  points to is deleted at the end of its window.
\<close>

theorem linked_intake_is_never_swept:
  assumes "t \<in> set (sd_terminals db)" and "ti_conversation_id t \<noteq> None \<or> ti_contact_id t \<noteq> None"
  shows "t \<in> set (sd_terminals (fold (\<lambda>(p, dry, now) d. snd (sweep p dry now d)) runs db))"
  using assms(1)
proof (induction runs arbitrary: db)
  case (Cons r runs)
  obtain p dry now where r: "r = (p, dry, now)" by (rule prod_cases3)
  have "snd (sweep p True now db) = db" by (simp add: sweep_def dry_steps)
  then have "t \<in> set (sd_terminals (snd (sweep p dry now db)))"
    using Cons.prems assms(2) by (cases dry) (auto simp: sweep_swept swept_def)
  then show ?case using Cons.IH by (simp add: r)
qed simp

theorem linked_intake_is_never_swept_witness:
  "\<exists>t \<in> set (sd_terminals (fold (\<lambda>(p, dry, now) d. snd (sweep p dry now d)) [(default_retention, False, days 9000)] sample_site)).
     ti_conversation_id t = Some ''k''"
  using linked_intake_is_never_swept [of "hd (sd_terminals sample_site)" sample_site "[(default_retention, False, days 9000)]"]
  by (force simp: sample_site_def)

text \<open>
  A sweep never leaves a message, an intake answer or a usage row whose conversation is
  gone, when there was none before.
\<close>

definition chats_linked :: "site_db \<Rightarrow> bool" where
  "chats_linked db \<longleftrightarrow> (let ids = cv_id ` set (sd_conversations db) in
     (\<forall>m \<in> set (sd_messages db). mg_conversation_id m \<in> ids) \<and> (\<forall>i \<in> set (sd_intakes db). ik_conversation_id i \<in> ids)
     \<and> (\<forall>u \<in> set (sd_usage db). \<forall>i. cu_conversation_id u = Some i \<longrightarrow> i \<in> ids))"

lemma sweep_keeps_links: "chats_linked db \<Longrightarrow> chats_linked (snd (sweep p dry now db))"
proof (cases dry)
  case True
  then show "chats_linked db \<Longrightarrow> ?thesis" by (simp add: sweep_def dry_steps)
next
  case False
  then show "chats_linked db \<Longrightarrow> ?thesis"
    by (fastforce simp: sweep_swept chats_linked_def Let_def swept_def)
qed

end
