(* ===== verification/Words.thy ===== *)
theory Words
  imports Prelude
begin

text \<open>
  \<open>str.split()\<close> without an argument, \<open>" ".join(s.split())\<close>, \<open>str.rstrip(chars)\<close> and the test
  whether one of several terms occurs in a text, with what the classifiers of the chat
  rely on: splitting drops blanks only, and a term inside a term drags the outer one along.
\<close>

section \<open>Words\<close>

fun words_from :: "string \<Rightarrow> string \<Rightarrow> string list" where
  "words_from w [] = (if w = [] then [] else [w])"
| "words_from w (c # s) =
     (if is_space c then (if w = [] then words_from [] s else w # words_from [] s) else words_from (w @ [c]) s)"

definition words :: "string \<Rightarrow> string list" where
  "words s = words_from [] s"

definition squeeze :: "string \<Rightarrow> string" where
  "squeeze s = join '' '' (words s)"

definition rstrip_of :: "string \<Rightarrow> string \<Rightarrow> string" where
  "rstrip_of cs s = rev (dropWhile (\<lambda>c. c \<in> set cs) (rev s))"

text \<open>\<open>any(term in text for term in terms)\<close>.\<close>

definition has_any :: "string \<Rightarrow> string list \<Rightarrow> bool" where
  "has_any text terms = list_ex (\<lambda>t. contains t text) terms"

definition plain_word :: "string \<Rightarrow> bool" where
  "plain_word u \<longleftrightarrow> u \<noteq> [] \<and> (\<forall>c \<in> set u. \<not> is_space c)"

lemma words_from_plain: "\<forall>c \<in> set w. \<not> is_space c \<Longrightarrow> list_all plain_word (words_from w s)"
proof (induction s arbitrary: w)
  case (Cons c s)
  then show ?case
    using Cons.IH [of "[]"] Cons.IH [of "w @ [c]"] by (cases "is_space c") (simp_all add: plain_word_def)
qed (simp add: plain_word_def)

lemma words_plain: "u \<in> set (words s) \<Longrightarrow> u \<noteq> [] \<and> (\<forall>c \<in> set u. \<not> is_space c)"
  using words_from_plain [of "[]" s] by (auto simp: words_def list_all_iff plain_word_def)

lemma words_from_run: "\<forall>c \<in> set u. \<not> is_space c \<Longrightarrow> words_from w (u @ s) = words_from (w @ u) s"
  by (induction u arbitrary: w) auto

lemma words_single: "\<forall>c \<in> set u. \<not> is_space c \<Longrightarrow> u \<noteq> [] \<Longrightarrow> words u = [u]"
  using words_from_run [of u "[]" "[]"] by (simp add: words_def)

lemma space_is_space [simp]: "is_space CHR '' ''"
  by (simp add: is_space_def)

lemma words_Cons: "\<forall>c \<in> set u. \<not> is_space c \<Longrightarrow> u \<noteq> [] \<Longrightarrow> words (u @ '' '' @ s) = u # words s"
  using words_from_run [of u "[]" "'' '' @ s"] by (simp add: words_def)

text \<open>Squeezing blanks twice is squeezing them once.\<close>

lemma words_join: "\<forall>u \<in> set us. u \<noteq> [] \<and> (\<forall>c \<in> set u. \<not> is_space c) \<Longrightarrow> words (join '' '' us) = us"
proof (induction us)
  case (Cons w ws)
  then show ?case using words_Cons [of w "join '' '' ws"] words_single [of w] by (cases ws) simp_all
qed (simp add: words_def)

lemma words_squeeze [simp]: "words (squeeze s) = words s"
  unfolding squeeze_def by (rule words_join) (use words_plain in blast)

lemma squeeze_idem [simp]: "squeeze (squeeze s) = squeeze s"
  by (simp add: squeeze_def [of "squeeze s"]) (simp add: squeeze_def)

section \<open>Terms in a text\<close>

lemma contains_append [simp]: "contains t s \<Longrightarrow> contains t (a @ s @ b)"
  unfolding contains_iff by (metis append.assoc)

lemma contains_left: "contains t s \<Longrightarrow> contains t (s @ b)"
  using contains_append [of t s "[]" b] by simp

lemma contains_right: "contains t s \<Longrightarrow> contains t (a @ s)"
  using contains_append [of t s a "[]"] by simp

lemma has_any_mono: "has_any s ts \<Longrightarrow> contains s s' \<Longrightarrow> has_any s' ts"
  unfolding has_any_def list_ex_iff by (meson contains_trans)

lemma has_any_set: "has_any s ts \<Longrightarrow> set ts \<subseteq> set us \<Longrightarrow> has_any s us"
  unfolding has_any_def list_ex_iff by blast

lemma has_any_append [simp]: "has_any s (ts @ us) = (has_any s ts \<or> has_any s us)"
  by (simp add: has_any_def)

text \<open>A term that contains a word without blanks keeps it when the blanks around are squeezed.\<close>

lemma words_from_keeps:
  assumes "\<forall>c \<in> set t. \<not> is_space c" and "t \<noteq> []" and "contains t (w @ s)" and "\<forall>c \<in> set w. \<not> is_space c"
  shows "\<exists>u \<in> set (words_from w s). contains t u"
  using assms(3,4)
proof (induction w s rule: words_from.induct)
  case (1 w)
  then show ?case using assms(2) by (cases w) (auto simp: starts_with_def)
next
  case (2 w c s)
  show ?case
  proof (cases "is_space c")
    case False
    then show ?thesis using 2 by auto
  next
    case True
    obtain a b where ab: "w @ c # s = a @ t @ b" using 2(4) contains_iff by blast
    have "c \<notin> set t" using True assms(1) by blast
    then have "contains t w \<or> contains t s"
    proof (cases "length (a @ t) \<le> length w")
      case True
      then have "take (length (a @ t)) w = a @ t"
        using ab by (metis append.assoc append_eq_append_conv_if append_take_drop_id)
      then have "\<exists>b'. w = a @ t @ b'" by (metis append.assoc append_take_drop_id)
      then show ?thesis unfolding contains_iff by blast
    next
      case False
      have "length a > length w"
      proof (rule ccontr)
        assume "\<not> length a > length w"
        then have "(a @ t @ b) ! length w = t ! (length w - length a)" "length w - length a < length t"
          using False by (auto simp: nth_append)
        moreover have "(w @ c # s) ! length w = c" by simp
        ultimately show False using ab \<open>c \<notin> set t\<close> by (metis nth_mem)
      qed
      then have "drop (Suc (length w)) (w @ c # s) = drop (Suc (length w)) a @ t @ b" using ab by simp
      then show ?thesis unfolding contains_iff by auto
    qed
    then show ?thesis
      using 2 True by (cases "w = []") (auto simp: starts_with_def assms(2))
  qed
qed

lemma squeeze_keeps:
  assumes "contains t s" and "\<forall>c \<in> set t. \<not> is_space c" and "t \<noteq> []"
  shows "contains t (squeeze s)"
proof -
  obtain u where u: "u \<in> set (words s)" "contains t u"
    using words_from_keeps [of t "[]" s] assms by (auto simp: words_def)
  have "contains u (join '' '' us)" if "u \<in> set us" for us
    using that
  proof (induction us)
    case (Cons w ws)
    have self: "contains w w" unfolding contains_iff by (intro exI [of _ "[]"]) simp
    show ?case
    proof (cases ws)
      case Nil
      then show ?thesis using Cons.prems self by simp
    next
      case (Cons v vs)
      then have j: "join '' '' (w # ws) = (w @ '' '') @ join '' '' ws" by simp
      show ?thesis
      proof (cases "u = w")
        case True
        then show ?thesis using contains_left [OF self, of "'' '' @ join '' '' ws"] j by simp
      next
        case False
        then show ?thesis using Cons.IH Cons.prems contains_right j by auto
      qed
    qed
  qed simp
  then show ?thesis using u contains_trans unfolding squeeze_def by blast
qed

end
