(* ===== verification/ChatPolicy.thy ===== *)
theory ChatPolicy
  imports Words CloudBudget Json
begin

text \<open>
  The vocabulary of a chat turn (\<open>core/policy.py\<close>) and the tools each mode may use
  (\<open>core/tool_policy.py\<close>): the enumerations with their values, the spend policy read from
  the environment, the decision about a turn, and the choice of a retrieval tool.
  The two helpers that read the environment are those of \<open>core/cloud_budget.py\<close>, word for
  word.
\<close>

section \<open>Enumerations\<close>

datatype chat_mode = ServiceMode | AutomatorMode | EducatorMode

fun mode_value :: "chat_mode \<Rightarrow> string" where
  "mode_value ServiceMode = ''pipeline''"
| "mode_value AutomatorMode = ''automator''"
| "mode_value EducatorMode = ''educator''"

text \<open>\<open>ChatMode(value)\<close>; \<open>None\<close> for \<open>ValueError\<close>.\<close>

definition chat_mode_of :: "string \<Rightarrow> chat_mode option" where
  "chat_mode_of v = (if v = ''pipeline'' then Some ServiceMode else if v = ''automator'' then Some AutomatorMode
     else if v = ''educator'' then Some EducatorMode else None)"

datatype user_intent = SmallTalkIntent | ServiceInquiryIntent | TechnicalHelpIntent | EducationIntent
  | TroubleshootingIntent | OutOfScopeIntent | UnknownIntent

fun intent_value :: "user_intent \<Rightarrow> string" where
  "intent_value SmallTalkIntent = ''small_talk''"
| "intent_value ServiceInquiryIntent = ''service_inquiry''"
| "intent_value TechnicalHelpIntent = ''technical_help''"
| "intent_value EducationIntent = ''education''"
| "intent_value TroubleshootingIntent = ''troubleshooting''"
| "intent_value OutOfScopeIntent = ''out_of_scope''"
| "intent_value UnknownIntent = ''unknown''"

datatype audience = Practitioner | Client | Student | UnknownAudience

fun audience_value :: "audience \<Rightarrow> string" where
  "audience_value Practitioner = ''practitioner''"
| "audience_value Client = ''client''"
| "audience_value Student = ''student''"
| "audience_value UnknownAudience = ''unknown''"

datatype user_need = SmallTalkNeed | ResourceLookup | ImplementationHelp | TroubleshootingNeed | ServiceDiscovery
  | PricingTerms | ProjectIntake | EducationNeed | OutOfScopeNeed | UnknownNeed

fun need_value :: "user_need \<Rightarrow> string" where
  "need_value SmallTalkNeed = ''small_talk''"
| "need_value ResourceLookup = ''resource_lookup''"
| "need_value ImplementationHelp = ''implementation_help''"
| "need_value TroubleshootingNeed = ''troubleshooting''"
| "need_value ServiceDiscovery = ''service_discovery''"
| "need_value PricingTerms = ''pricing_terms''"
| "need_value ProjectIntake = ''project_intake''"
| "need_value EducationNeed = ''education''"
| "need_value OutOfScopeNeed = ''out_of_scope''"
| "need_value UnknownNeed = ''unknown''"

datatype output_shape = DirectAnswer | Recommendation | TroubleshootingPlan | IntakePacket | SocraticLesson | Redirect

fun shape_value :: "output_shape \<Rightarrow> string" where
  "shape_value DirectAnswer = ''direct_answer''"
| "shape_value Recommendation = ''recommendation''"
| "shape_value TroubleshootingPlan = ''troubleshooting_plan''"
| "shape_value IntakePacket = ''intake_packet''"
| "shape_value SocraticLesson = ''socratic_lesson''"
| "shape_value Redirect = ''redirect''"

datatype search_plan = NoSearch | LocalFirst | LocalPlusPublic

fun plan_value :: "search_plan \<Rightarrow> string" where
  "plan_value NoSearch = ''none''"
| "plan_value LocalFirst = ''local_first''"
| "plan_value LocalPlusPublic = ''local_plus_public''"

datatype tone = Neutral | Confused | Hesitant | Frustrated | Urgent

fun tone_value :: "tone \<Rightarrow> string" where
  "tone_value Neutral = ''neutral''"
| "tone_value Confused = ''confused''"
| "tone_value Hesitant = ''hesitant''"
| "tone_value Frustrated = ''frustrated''"
| "tone_value Urgent = ''urgent''"

datatype response_policy = LocalOnly | LocalThenLowCost | LocalThenClaude

fun policy_value :: "response_policy \<Rightarrow> string" where
  "policy_value LocalOnly = ''local_only''"
| "policy_value LocalThenLowCost = ''local_then_low_cost''"
| "policy_value LocalThenClaude = ''local_then_claude_if_high_value''"

datatype conversation_stage = IntakeStage | ActiveStage | RedirectStage

datatype tool_mode = ToolsDisabled | BackendRetrievalOnly | ModelToolLoop

section \<open>Spend policy and decision\<close>

record cloud_spend_policy =
  cp_low_cost_enabled :: bool
  cp_claude_enabled :: bool
  cp_max_cloud_calls_per_turn :: int
  cp_max_cloud_calls_per_session :: int

definition default_spend_policy :: cloud_spend_policy where
  "default_spend_policy = \<lparr>cp_low_cost_enabled = False, cp_claude_enabled = False,
     cp_max_cloud_calls_per_turn = 0, cp_max_cloud_calls_per_session = 0\<rparr>"

definition spend_policy_from_env :: "environ \<Rightarrow> cloud_spend_policy" where
  "spend_policy_from_env env =
     (let spillover = env_bool env ''ENABLE_CLOUD_SPILLOVER'' False
      in \<lparr>cp_low_cost_enabled = env_bool env ''ENABLE_LOW_COST_CLOUD'' False \<and> spillover,
          cp_claude_enabled = env_bool env ''ENABLE_CLAUDE_FALLBACK'' False \<and> spillover,
          cp_max_cloud_calls_per_turn = env_int env ''CLOUD_SPILLOVER_MAX_CALLS_PER_TURN'' 0,
          cp_max_cloud_calls_per_session = env_int env ''CLOUD_SPILLOVER_MAX_CALLS_PER_SESSION'' 0\<rparr>)"

record route_frame =
  rf_audience :: audience
  rf_need :: user_need
  rf_output_shape :: output_shape
  rf_search_plan :: search_plan
  rf_task :: string

definition default_frame :: route_frame where
  "default_frame = \<lparr>rf_audience = UnknownAudience, rf_need = UnknownNeed, rf_output_shape = DirectAnswer,
     rf_search_plan = NoSearch, rf_task = ''routine_chat''\<rparr>"

type_synonym intake = "(string \<times> string) list"

record routing_decision =
  rd_stage :: conversation_stage
  rd_selected_mode :: chat_mode
  rd_intent :: user_intent
  rd_tone :: tone
  rd_response_policy :: response_policy
  rd_retrieval_required :: bool
  rd_retrieval_tool :: "string option"
  rd_allowed_tools :: "string list"
  rd_provider_tools :: "string list"
  rd_tool_execution_mode :: tool_mode
  rd_max_model_calls_per_turn :: int
  rd_max_retrieval_calls_per_turn :: int
  rd_max_tool_calls_per_turn :: int
  rd_tool_loop_requires_route :: bool
  rd_answer_allowed :: bool
  rd_intake_required :: bool
  rd_service_handoff_suggested :: bool
  rd_soft_service_offer :: bool
  rd_cloud_allowed :: bool
  rd_intake :: intake
  rd_frame :: route_frame
  rd_redirect_message :: "string option"
  rd_reason :: string

text \<open>A decision with the defaults of its class.\<close>

definition plain_decision :: "chat_mode \<Rightarrow> user_intent \<Rightarrow> routing_decision" where
  "plain_decision mode i = \<lparr>rd_stage = ActiveStage, rd_selected_mode = mode, rd_intent = i, rd_tone = Neutral,
     rd_response_policy = LocalOnly, rd_retrieval_required = False, rd_retrieval_tool = None, rd_allowed_tools = [],
     rd_provider_tools = [], rd_tool_execution_mode = ToolsDisabled, rd_max_model_calls_per_turn = 1,
     rd_max_retrieval_calls_per_turn = 1, rd_max_tool_calls_per_turn = 1, rd_tool_loop_requires_route = False,
     rd_answer_allowed = True, rd_intake_required = False, rd_service_handoff_suggested = False,
     rd_soft_service_offer = False, rd_cloud_allowed = False, rd_intake = [], rd_frame = default_frame,
     rd_redirect_message = None, rd_reason = ''''\<rparr>"

section \<open>Tools\<close>

definition KB_OVERVIEW :: string where "KB_OVERVIEW = ''kb_overview''"
definition REFERENCE_SEARCH :: string where "REFERENCE_SEARCH = ''reference_search''"
definition WORKFLOW_PATTERN_SEARCH :: string where "WORKFLOW_PATTERN_SEARCH = ''workflow_pattern_search''"
definition LESSON_CONCEPT_SEARCH :: string where "LESSON_CONCEPT_SEARCH = ''lesson_concept_search''"
definition SERVICE_INQUIRY_CTA :: string where "SERVICE_INQUIRY_CTA = ''service_inquiry_cta''"

lemmas tool_names = KB_OVERVIEW_def REFERENCE_SEARCH_def WORKFLOW_PATTERN_SEARCH_def LESSON_CONCEPT_SEARCH_def
  SERVICE_INQUIRY_CTA_def

record tool_definition =
  td_name :: string
  td_description :: string
  td_input_schema :: json
  td_destructive :: bool

definition query_schema :: json where
  "query_schema = JObj [(''type'', JStr ''object''),
     (''properties'', JObj [(''query'', JObj [(''type'', JStr ''string'')])]), (''required'', JList [JStr ''query''])]"

definition cta_schema :: json where
  "cta_schema = JObj [(''type'', JStr ''object''),
     (''properties'', JObj [(''summary'', JObj [(''type'', JStr ''string'')]), (''urgency'', JObj [(''type'', JStr ''string'')]),
        (''desired_outcome'', JObj [(''type'', JStr ''string'')])]), (''required'', JList [JStr ''summary''])]"

definition query_tool :: "string \<Rightarrow> string \<Rightarrow> tool_definition" where
  "query_tool name descr = \<lparr>td_name = name, td_description = descr, td_input_schema = query_schema, td_destructive = False\<rparr>"

definition TOOL_DEFINITIONS :: "(string \<times> tool_definition) list" where
  "TOOL_DEFINITIONS =
     [(KB_OVERVIEW, query_tool KB_OVERVIEW ''Retrieve high-level automation platform context from the KB.''),
      (REFERENCE_SEARCH, query_tool REFERENCE_SEARCH ''Search reference material and cheat-sheet snippets with source citations.''),
      (WORKFLOW_PATTERN_SEARCH, query_tool WORKFLOW_PATTERN_SEARCH ''Search workflow examples, patterns, and troubleshooting context.''),
      (LESSON_CONCEPT_SEARCH, query_tool LESSON_CONCEPT_SEARCH
         ''Search educational explanations, concepts, and lesson-oriented KB context.''),
      (SERVICE_INQUIRY_CTA, \<lparr>td_name = SERVICE_INQUIRY_CTA,
         td_description = ''Route a qualified service-inquiry user to the deployment's configured contact path '' @
           ''or public email and summarize the problem, urgency, and desired outcome for handoff.'',
         td_input_schema = cta_schema, td_destructive = False\<rparr>)]"

definition as_provider_tool :: "tool_definition \<Rightarrow> (string \<times> json) list" where
  "as_provider_tool t = [(''name'', JStr (td_name t)), (''description'', JStr (td_description t)), (''input_schema'', td_input_schema t)]"

fun allowed_tools_for_mode :: "chat_mode \<Rightarrow> string list" where
  "allowed_tools_for_mode ServiceMode = [SERVICE_INQUIRY_CTA, REFERENCE_SEARCH, WORKFLOW_PATTERN_SEARCH]"
| "allowed_tools_for_mode AutomatorMode = [KB_OVERVIEW, REFERENCE_SEARCH, WORKFLOW_PATTERN_SEARCH]"
| "allowed_tools_for_mode EducatorMode = [KB_OVERVIEW, LESSON_CONCEPT_SEARCH, REFERENCE_SEARCH]"

definition tool_definitions_for_mode :: "chat_mode \<Rightarrow> tool_definition list" where
  "tool_definitions_for_mode mode = map (the \<circ> map_of TOOL_DEFINITIONS) (allowed_tools_for_mode mode)"

definition provider_tools_for_mode :: "chat_mode \<Rightarrow> string list \<Rightarrow> (string \<times> json) list list" where
  "provider_tools_for_mode mode names =
     map as_provider_tool (filter (\<lambda>t. td_name t \<in> set names) (tool_definitions_for_mode mode))"

definition looks_like_workflow_library_request :: "string \<Rightarrow> bool" where
  "looks_like_workflow_library_request message = has_any message
     [''workflow'', ''example'', ''sample'', ''script'', ''onboarding'', ''pattern'', ''template'', ''bundle'', ''import'',
      ''plug in'', ''library'']"

definition retrieval_tool_for ::
  "user_intent \<Rightarrow> chat_mode \<Rightarrow> string \<Rightarrow> user_need option \<Rightarrow> search_plan option \<Rightarrow> string option" where
  "retrieval_tool_for i mode message need plan =
     (if plan = Some NoSearch then None
      else if i = SmallTalkIntent then None
      else if mode = EducatorMode \<or> i = EducationIntent then Some LESSON_CONCEPT_SEARCH
      else if need \<in> {Some ResourceLookup, Some TroubleshootingNeed} then Some WORKFLOW_PATTERN_SEARCH
      else if looks_like_workflow_library_request message \<or> i = TroubleshootingIntent then Some WORKFLOW_PATTERN_SEARCH
      else if mode \<in> {AutomatorMode, ServiceMode} then Some REFERENCE_SEARCH
      else Some KB_OVERVIEW)"

section \<open>What the tool policy keeps\<close>

lemma chat_mode_of_value [simp]: "chat_mode_of (mode_value m) = Some m"
  by (cases m) (simp_all add: chat_mode_of_def)

text \<open>Every tool a mode allows is defined, under its own name, and none is destructive.\<close>

lemma mode_tools_defined:
  "map td_name (tool_definitions_for_mode mode) = allowed_tools_for_mode mode
   \<and> list_all (\<lambda>t. \<not> td_destructive t) (tool_definitions_for_mode mode)"
  by (cases mode) (simp_all add: tool_definitions_for_mode_def TOOL_DEFINITIONS_def tool_names query_tool_def)

text \<open>What the provider is offered is what the mode and the turn both allow.\<close>

lemma provider_tools_allowed:
  "map (\<lambda>t. map_of t ''name'') (provider_tools_for_mode mode names)
   = map (Some \<circ> JStr) (filter (\<lambda>n. n \<in> set names) (allowed_tools_for_mode mode))"
proof -
  have "map td_name (tool_definitions_for_mode mode) = allowed_tools_for_mode mode" using mode_tools_defined by blast
  then have "filter (\<lambda>n. n \<in> set names) (allowed_tools_for_mode mode)
      = map td_name (filter (\<lambda>t. td_name t \<in> set names) (tool_definitions_for_mode mode))"
    by (metis (mono_tags, lifting) comp_apply filter_cong filter_map)
  then show ?thesis by (simp add: provider_tools_for_mode_def as_provider_tool_def)
qed

text \<open>Where education always has its own mode, the retrieval tool is one its mode allows.\<close>

lemma retrieval_tool_allowed:
  assumes "retrieval_tool_for i mode message need plan = Some t" and "i = EducationIntent \<Longrightarrow> mode = EducatorMode"
  shows "t \<in> set (allowed_tools_for_mode mode)"
  using assms by (cases mode) (auto simp: retrieval_tool_for_def split: if_splits)

end
