(* ===== verification/RoutingFrame.thy ===== *)
theory RoutingFrame
  imports ChatPolicy
begin

text \<open>
  \<open>core/routing_frame.py\<close>: the signal lists, overridden group by group by the deployment,
  and the classification of a message and the intake answers by the terms they contain.
\<close>

section \<open>Signals\<close>

record routing_config =
  rc_small_talk :: "string list"
  rc_learning_signals :: "string list"
  rc_resource_signals :: "string list"
  rc_implementation_signals :: "string list"
  rc_trouble_signals :: "string list"
  rc_service_signals :: "string list"
  rc_pricing_signals :: "string list"
  rc_discovery_signals :: "string list"
  rc_confusion_signals :: "string list"
  rc_urgency_signals :: "string list"
  rc_technical_terms :: "string list"
  rc_build_intent_terms :: "string list"
  rc_direct_service_handoff_terms :: "string list"
  rc_complex_build_phrases :: "string list"

definition SMALL_TALK :: "string list" where
  "SMALL_TALK = [''hi'', ''hello'', ''hey'', ''yo'', ''test'', ''thanks'', ''thank you'']"

definition LEARNING_SIGNALS :: "string list" where
  "LEARNING_SIGNALS = [''teach'', ''explain'', ''walk me through'', ''lesson'', ''learn'', ''quiz'', ''scenario'', ''socratic'', ''practice'']"

definition RESOURCE_SIGNALS :: "string list" where
  "RESOURCE_SIGNALS = [''github'', ''repo'', ''duplicate'', ''copy'', ''sample'', ''example'', ''template'', ''bundle'', ''library'', ''script'']"

definition IMPLEMENTATION_SIGNALS :: "string list" where
  "IMPLEMENTATION_SIGNALS = [''how do i'', ''how can i'', ''build'', ''create'', ''configure'', ''integrate'', ''connect'', ''api'',
     ''webhook'', ''jinja'', ''ctx'', ''workflow'']"

definition TROUBLE_SIGNALS :: "string list" where
  "TROUBLE_SIGNALS = [''broken'', ''error'', ''failing'', ''doesn'' @ [CHR 0x27] @ ''t work'', ''not working'', ''debug'',
     ''troubleshoot'', ''stuck'', ''already tried'', ''wrong'']"

definition SERVICE_SIGNALS :: "string list" where
  "SERVICE_SIGNALS = [''hire'', ''consult'', ''consulting'', ''work with you'', ''bring you in'', ''contact'', ''demo'', ''proposal'',
     ''scope'', ''build this'', ''build it for'', ''can you build'', ''debug this for me'', ''fix this for me'', ''do this for me'', ''for us'']"

definition PRICING_SIGNALS :: "string list" where
  "PRICING_SIGNALS = [''pricing'', ''price'', ''cost'', ''rate'', ''contract'', ''terms'', ''retainer'', ''sow'', ''msa'', ''statement of work'']"

definition DISCOVERY_SIGNALS :: "string list" where
  "DISCOVERY_SIGNALS = [''where to start'', ''what should we automate'', ''worth automating'', ''help us decide'',
     ''not sure what to automate'', ''how can you help'', ''how do you help'', ''what can you do'']"

definition CONFUSION_SIGNALS :: "string list" where
  "CONFUSION_SIGNALS = [''confused'', ''lost'', ''don'' @ [CHR 0x27] @ ''t understand'', ''do not understand'', ''not following'', ''break that down'']"

definition URGENCY_SIGNALS :: "string list" where
  "URGENCY_SIGNALS = [''urgent'', ''production'', ''client'', ''blocked'', ''down'', ''asap'']"

definition COMPLEX_BUILD_PHRASES :: "string list" where
  "COMPLEX_BUILD_PHRASES = [''i want to build'', ''i'' @ [CHR 0x27] @ ''m trying to build'', ''im trying to build'', ''trying to build'',
     ''want to build'', ''need to build'', ''how do i build'', ''how would i build'', ''how do i implement'', ''how would i implement'',
     ''i want to implement'', ''need to implement'', ''is there a workflow'', ''is there a bundle'', ''looking for a workflow'',
     ''need a workflow'', ''how do i automate'']"

record signals =
  sg_small_talk :: "string list"
  sg_learning :: "string list"
  sg_resource :: "string list"
  sg_implementation :: "string list"
  sg_trouble :: "string list"
  sg_service :: "string list"
  sg_pricing :: "string list"
  sg_discovery :: "string list"
  sg_confusion :: "string list"
  sg_urgency :: "string list"
  sg_complex_build :: "string list"
  sg_domain :: "string list"

text \<open>\<open>tuple(lst) if lst else default\<close>, of a group of the configuration if there is one.\<close>

definition group_or :: "routing_config option \<Rightarrow> (routing_config \<Rightarrow> string list) \<Rightarrow> string list \<Rightarrow> string list" where
  "group_or cfg get d = (case cfg of None \<Rightarrow> d | Some c \<Rightarrow> if get c = [] then d else get c)"

definition signals_of :: "routing_config option \<Rightarrow> signals" where
  "signals_of cfg =
     (let learning = group_or cfg rc_learning_signals LEARNING_SIGNALS;
          resource = group_or cfg rc_resource_signals RESOURCE_SIGNALS;
          implementation = group_or cfg rc_implementation_signals IMPLEMENTATION_SIGNALS;
          service = group_or cfg rc_service_signals SERVICE_SIGNALS;
          pricing = group_or cfg rc_pricing_signals PRICING_SIGNALS;
          discovery = group_or cfg rc_discovery_signals DISCOVERY_SIGNALS
      in \<lparr>sg_small_talk = group_or cfg rc_small_talk SMALL_TALK, sg_learning = learning, sg_resource = resource,
          sg_implementation = implementation, sg_trouble = group_or cfg rc_trouble_signals TROUBLE_SIGNALS,
          sg_service = service, sg_pricing = pricing, sg_discovery = discovery,
          sg_confusion = group_or cfg rc_confusion_signals CONFUSION_SIGNALS,
          sg_urgency = group_or cfg rc_urgency_signals URGENCY_SIGNALS,
          sg_complex_build = group_or cfg rc_complex_build_phrases COMPLEX_BUILD_PHRASES,
          sg_domain = implementation @ resource @ service @ pricing @ discovery @ learning
            @ [''automation'', ''automator'', ''security'', ''engineer'', ''student'']\<rparr>)"

section \<open>Classification\<close>

definition normalize_text :: "string \<Rightarrow> string" where
  "normalize_text v = squeeze (rstrip_of ''.!?'' (filter (\<lambda>c. c \<noteq> CHR '','') (lower (strip v))))"

definition classify_need :: "string \<Rightarrow> string \<Rightarrow> signals \<Rightarrow> user_need" where
  "classify_need message combined sg =
     (if message \<in> set (sg_small_talk sg) \<and> \<not> has_any combined (sg_domain sg) then SmallTalkNeed
      else if has_any combined (sg_pricing sg) then PricingTerms
      else if has_any message (sg_service sg) then ProjectIntake
      else if has_any combined (sg_discovery sg) \<or> has_any combined (sg_service sg) then ServiceDiscovery
      else if has_any combined (sg_trouble sg) then TroubleshootingNeed
      else if has_any combined (sg_learning sg) then EducationNeed
      else if has_any combined (sg_resource sg) then ResourceLookup
      else if has_any combined (sg_implementation sg) then ImplementationHelp
      else if has_any combined (sg_confusion sg) then EducationNeed
      else if length (words message) \<ge> 4 \<and> \<not> has_any combined (sg_domain sg) then OutOfScopeNeed
      else UnknownNeed)"

definition classify_audience :: "string \<Rightarrow> user_need \<Rightarrow> string \<Rightarrow> audience" where
  "classify_audience starting_mode need combined =
     (if need = EducationNeed \<or> starting_mode = mode_value EducatorMode then Student
      else if need \<in> {ResourceLookup, ImplementationHelp, TroubleshootingNeed} then Practitioner
      else if need \<in> {ServiceDiscovery, PricingTerms, ProjectIntake} \<or> starting_mode \<in> {mode_value ServiceMode, ''sales''} then Client
      else if has_any combined [''student'', ''junior'', ''learning''] then Student
      else if has_any combined [''client'', ''customer'', ''contract'', ''pricing''] then Client
      else UnknownAudience)"

definition classify_tone :: "string \<Rightarrow> signals \<Rightarrow> tone" where
  "classify_tone combined sg =
     (if has_any combined (sg_urgency sg) then Urgent
      else if has_any combined (sg_trouble sg) then Frustrated
      else if has_any combined (sg_discovery sg) then Hesitant
      else if has_any combined (sg_confusion sg) then Confused
      else Neutral)"

fun need_to_intent :: "user_need \<Rightarrow> user_intent" where
  "need_to_intent SmallTalkNeed = SmallTalkIntent"
| "need_to_intent OutOfScopeNeed = OutOfScopeIntent"
| "need_to_intent EducationNeed = EducationIntent"
| "need_to_intent ServiceDiscovery = ServiceInquiryIntent"
| "need_to_intent PricingTerms = ServiceInquiryIntent"
| "need_to_intent ProjectIntake = ServiceInquiryIntent"
| "need_to_intent TroubleshootingNeed = TroubleshootingIntent"
| "need_to_intent ResourceLookup = TechnicalHelpIntent"
| "need_to_intent ImplementationHelp = TechnicalHelpIntent"
| "need_to_intent UnknownNeed = UnknownIntent"

definition shape_of_need :: "user_need \<Rightarrow> output_shape" where
  "shape_of_need need = (case need of ResourceLookup \<Rightarrow> Recommendation | TroubleshootingNeed \<Rightarrow> TroubleshootingPlan
     | ProjectIntake \<Rightarrow> IntakePacket | EducationNeed \<Rightarrow> SocraticLesson | OutOfScopeNeed \<Rightarrow> Redirect | _ \<Rightarrow> DirectAnswer)"

definition plan_of_need :: "user_need \<Rightarrow> search_plan" where
  "plan_of_need need = (if need \<in> {ResourceLookup, ImplementationHelp, TroubleshootingNeed} then LocalPlusPublic
     else if need = EducationNeed then LocalFirst else NoSearch)"

definition task_of :: "user_need \<Rightarrow> audience \<Rightarrow> tone \<Rightarrow> string \<Rightarrow> signals \<Rightarrow> string" where
  "task_of need aud tn combined sg =
     (if need = ResourceLookup then ''workflow_examples''
      else if need = TroubleshootingNeed
        then if tn \<in> {Frustrated, Urgent} then ''high_value_service_inquiry'' else ''workflow_debugging''
      else if need = ImplementationHelp
        then if has_any combined [''jinja'', ''ctx'', ''tasks''] then ''jinja_help''
          else if has_any combined (sg_complex_build sg) then ''complex_implementation'' else ''implementation_help''
      else if need = EducationNeed then ''socratic_tutor''
      else if need \<in> {PricingTerms, ServiceDiscovery, ProjectIntake}
        then if aud = Client then ''high_value_service_inquiry'' else ''routine_support''
      else ''routine_chat'')"

definition classify_route ::
  "routing_config option \<Rightarrow> string \<Rightarrow> string \<Rightarrow> intake \<Rightarrow> route_frame \<times> user_intent \<times> tone" where
  "classify_route cfg starting_mode message intake =
     (let sg = signals_of cfg; text = normalize_text message;
          intake_text = normalize_text (join '' '' (map snd intake));
          combined = strip (text @ '' '' @ intake_text);
          need = classify_need text combined sg; aud = classify_audience starting_mode need combined;
          tn = classify_tone combined sg
      in (\<lparr>rf_audience = aud, rf_need = need, rf_output_shape = shape_of_need need, rf_search_plan = plan_of_need need,
           rf_task = task_of need aud tn combined sg\<rparr>, need_to_intent need, tn))"

section \<open>What the classification keeps\<close>

text \<open>Every frame names a task: the rest of \<open>_router_task\<close> is never reached.\<close>

lemma task_named: "task_of need aud tn combined sg \<noteq> ''''"
  by (simp add: task_of_def)

text \<open>The urgency, trouble and discovery tones in terms of the signals alone.\<close>

lemma tone_urgent [simp]: "classify_tone c sg = Urgent \<longleftrightarrow> has_any c (sg_urgency sg)"
  by (simp add: classify_tone_def)

text \<open>A trouble signal decides the tone as well: \<open>workflow_debugging\<close> is never the task.\<close>

lemma trouble_tone:
  "classify_need m c sg = TroubleshootingNeed \<Longrightarrow> classify_tone c sg \<in> {Frustrated, Urgent}"
  by (auto simp: classify_need_def classify_tone_def split: if_splits)

lemma education_intent: "need_to_intent need = EducationIntent \<longleftrightarrow> need = EducationNeed"
  by (cases need) simp_all

lemma plan_no_search: "plan_of_need need = NoSearch \<longleftrightarrow> need \<notin> {ResourceLookup, ImplementationHelp, TroubleshootingNeed, EducationNeed}"
  by (simp add: plan_of_need_def)

text \<open>Trimming drops blanks only, so a term without blanks is found before and after.\<close>

lemma contains_snoc_space:
  assumes "contains t (s @ [c])" and "is_space c" and "\<forall>c \<in> set t. \<not> is_space c"
  shows "contains t s"
proof -
  obtain a b where ab: "s @ [c] = a @ t @ b" using assms(1) contains_iff by blast
  show ?thesis
  proof (cases b rule: rev_cases)
    case Nil
    then show ?thesis using ab assms(2,3) by (cases t rule: rev_cases) (auto simp: contains_iff)
  next
    case (snoc b' c')
    then have "s = a @ t @ b'" using ab by simp
    then show ?thesis unfolding contains_iff by blast
  qed
qed

lemma contains_Cons_space:
  assumes "contains t (c # s)" and "is_space c" and "\<forall>c \<in> set t. \<not> is_space c" and "t \<noteq> []"
  shows "contains t s"
  using assms by (cases t) (auto simp: starts_with_def)

lemma lstrip_keeps:
  "contains t s \<Longrightarrow> \<forall>c \<in> set t. \<not> is_space c \<Longrightarrow> t \<noteq> [] \<Longrightarrow> contains t (lstrip s)"
proof (induction s)
  case (Cons c s)
  then show ?case using contains_Cons_space [of t c s] by (simp add: lstrip_def)
qed (simp add: lstrip_def)

lemma contains_rev: "contains t s \<Longrightarrow> contains (rev t) (rev s)"
  unfolding contains_iff by (metis append.assoc rev_append)

lemma strip_keeps:
  assumes "contains t s" and "\<forall>c \<in> set t. \<not> is_space c" and "t \<noteq> []"
  shows "contains t (strip s)"
proof -
  have "contains (rev t) (lstrip (rev (lstrip s)))"
    using lstrip_keeps [OF contains_rev [OF lstrip_keeps [OF assms]]] assms by simp
  then show ?thesis using contains_rev [of "rev t"] by (fastforce simp: strip_def)
qed

text \<open>With the default signals, any text with \<open>rate\<close> inside a word is a question about prices.\<close>

lemma pricing_need:
  assumes "has_any combined (sg_pricing sg)" and "set (sg_pricing sg) \<subseteq> set (sg_domain sg)"
  shows "classify_need message combined sg = PricingTerms"
  using assms(1) has_any_set [OF assms] by (simp add: classify_need_def)

lemma pricing_in_domain: "set (sg_pricing (signals_of cfg)) \<subseteq> set (sg_domain (signals_of cfg))"
  by (auto simp: signals_of_def Let_def)

end
