(* ===== verification/TurnDecision.thy ===== *)
theory TurnDecision
  imports RoutingFrame
begin

text \<open>
  \<open>core/orchestrator.py\<close>: from a message, the mode the user started in and the intake
  answers to the decision about the turn. The routing configuration of the deployment is
  a parameter; the orchestrator itself is its spend policy and its tool-loop flag.
\<close>

section \<open>Terms\<close>

definition TECHNICAL_TERMS :: "string list" where
  "TECHNICAL_TERMS = [''jinja'', ''workflow'', ''bundle'', ''.bundle.json'', ''template'', ''ctx'', ''tasks'', ''crate'', ''api'', ''n8n'', ''webhook'']"

definition DIRECT_SERVICE_HANDOFF_TERMS :: "string list" where
  "DIRECT_SERVICE_HANDOFF_TERMS = [''hire'', ''consult'', ''consulting'', ''build this'', ''debug this for me'', ''fix this for me'',
     ''do this for me'', ''work with you'', ''bring you in'', ''contact'', ''demo'']"

definition BUILD_INTENT_TERMS :: "string list" where
  "BUILD_INTENT_TERMS = [''i want to build'', ''i'' @ [CHR 0x27] @ ''m trying to build'', ''im trying to build'', ''trying to build'',
     ''want to build'', ''need to build'', ''how do i build'', ''how would i build'', ''how do i implement'', ''how would i implement'',
     ''i want to implement'', ''need to implement'', ''how do i set up'', ''how do i deploy'', ''how would i deploy'',
     ''where can i find'', ''is there a workflow'', ''is there a bundle'', ''is there an example'', ''is there a template'',
     ''looking for a workflow'', ''looking for an example'', ''looking for a template'', ''need a workflow'', ''need an example'',
     ''how do i automate'']"

definition MODE_ALIASES :: "(string \<times> string) list" where
  "MODE_ALIASES = [(''sales'', mode_value ServiceMode)]"

section \<open>Steps of the decision\<close>

record orchestrator =
  or_cloud_policy :: cloud_spend_policy
  or_model_tool_loop_enabled :: bool

definition new_orchestrator :: "environ \<Rightarrow> cloud_spend_policy option \<Rightarrow> bool option \<Rightarrow> orchestrator" where
  "new_orchestrator env policy loop =
     \<lparr>or_cloud_policy = (case policy of None \<Rightarrow> default_spend_policy | Some p \<Rightarrow> p),
      or_model_tool_loop_enabled = (case loop of None \<Rightarrow> env_bool env ''ENABLE_MODEL_TOOL_LOOP'' False | Some b \<Rightarrow> b)\<rparr>"

definition clean_intake :: "intake \<Rightarrow> intake" where
  "clean_intake given = List.map_filter (\<lambda>k.
       let v = strip (case map_of given k of None \<Rightarrow> '''' | Some v \<Rightarrow> v) in if v = '''' then None else Some (k, v))
     [''objective'', ''building'', ''maturity'', ''help_needed'']"

definition intake_text :: "intake \<Rightarrow> string" where
  "intake_text given = lower (join '' '' (map snd given))"

definition detect_intake_intent :: "intake \<Rightarrow> user_intent option" where
  "detect_intake_intent given =
     (let text = intake_text given in
      if text = '''' then None
      else if has_any text [''service inquiry'', ''consult'', ''support''] then Some ServiceInquiryIntent
      else if has_any text [''educator'', ''learn'', ''teach'', ''walk me through'', ''understand''] then Some EducationIntent
      else if has_any text [''workflow'', ''debug'', ''pattern'', ''technical answer'', ''examples''] then Some TechnicalHelpIntent
      else None)"

definition normalize_message :: "string \<Rightarrow> string" where
  "normalize_message m = rstrip_of ''.!?'' (filter (\<lambda>c. c \<noteq> CHR '','') (lower (strip m)))"

definition select_mode :: "string \<Rightarrow> user_intent \<Rightarrow> tone \<Rightarrow> chat_mode" where
  "select_mode starting_mode i tn =
     (if i = EducationIntent then EducatorMode
      else if i \<in> {ServiceInquiryIntent, TroubleshootingIntent} \<and> tn \<in> {Frustrated, Urgent} then ServiceMode
      else if tn = Urgent \<and> i \<in> {TechnicalHelpIntent, UnknownIntent} then ServiceMode
      else if tn = Hesitant then ServiceMode
      else if i = ServiceInquiryIntent then ServiceMode
      else if tn = Confused \<and> i \<in> {TechnicalHelpIntent, UnknownIntent} then EducatorMode
      else if i = TechnicalHelpIntent then AutomatorMode
      else case chat_mode_of (case map_of MODE_ALIASES starting_mode of None \<Rightarrow> starting_mode | Some m \<Rightarrow> m) of
        Some m \<Rightarrow> m | None \<Rightarrow> AutomatorMode)"

definition needs_retrieval :: "routing_config option \<Rightarrow> user_intent \<Rightarrow> chat_mode \<Rightarrow> string \<Rightarrow> search_plan \<Rightarrow> bool" where
  "needs_retrieval cfg i mode message plan =
     (if plan = NoSearch then False
      else if i = SmallTalkIntent then False
      else if mode \<in> {AutomatorMode, EducatorMode} then True
      else has_any message (group_or cfg rc_technical_terms TECHNICAL_TERMS))"

definition tool_execution_mode :: "orchestrator \<Rightarrow> bool \<Rightarrow> string option \<Rightarrow> tool_mode" where
  "tool_execution_mode orc required tool =
     (if or_model_tool_loop_enabled orc \<and> required \<and> (case tool of None \<Rightarrow> False | Some t \<Rightarrow> t \<noteq> '''') then ModelToolLoop
      else if required then BackendRetrievalOnly else ToolsDisabled)"

definition select_policy :: "orchestrator \<Rightarrow> response_policy" where
  "select_policy orc =
     (if cp_claude_enabled (or_cloud_policy orc) then LocalThenClaude
      else if cp_low_cost_enabled (or_cloud_policy orc) then LocalThenLowCost else LocalOnly)"

definition should_suggest_service_handoff ::
  "routing_config option \<Rightarrow> chat_mode \<Rightarrow> user_intent \<Rightarrow> tone \<Rightarrow> string \<Rightarrow> user_need \<Rightarrow> bool" where
  "should_suggest_service_handoff cfg mode i tn message need =
     (if mode \<noteq> ServiceMode \<or> i = SmallTalkIntent then False
      else if need \<in> {PricingTerms, ProjectIntake} then True
      else if tn \<in> {Frustrated, Urgent} then True
      else has_any message (group_or cfg rc_direct_service_handoff_terms DIRECT_SERVICE_HANDOFF_TERMS))"

definition should_offer_soft_service :: "routing_config option \<Rightarrow> chat_mode \<Rightarrow> string \<Rightarrow> bool" where
  "should_offer_soft_service cfg mode message =
     (if mode = ServiceMode then False
      else if message = '''' then False
      else has_any message (group_or cfg rc_build_intent_terms BUILD_INTENT_TERMS))"

definition cloud_allowed_for :: "orchestrator \<Rightarrow> response_policy \<Rightarrow> bool" where
  "cloud_allowed_for orc policy =
     (let cp = or_cloud_policy orc in
      if cp_max_cloud_calls_per_turn cp < 1 then False
      else case policy of LocalThenLowCost \<Rightarrow> cp_low_cost_enabled cp | LocalThenClaude \<Rightarrow> cp_claude_enabled cp | LocalOnly \<Rightarrow> False)"

definition show_bool :: "bool \<Rightarrow> string" where
  "show_bool b = (if b then ''True'' else ''False'')"

definition reason_text :: "chat_mode \<Rightarrow> user_intent \<Rightarrow> tone \<Rightarrow> bool \<Rightarrow> bool \<Rightarrow> string \<Rightarrow> string" where
  "reason_text mode i tn retrieval cloud task =
     ''mode='' @ mode_value mode @ ''; intent='' @ intent_value i @ ''; tone='' @ tone_value tn @ ''; retrieval='' @ show_bool retrieval
     @ ''; cloud='' @ show_bool cloud @ (if task = '''' then '''' else ''; task='' @ task)"

definition intake_decision :: "string \<Rightarrow> string \<Rightarrow> routing_decision" where
  "intake_decision starting_mode message =
     (let mode = select_mode starting_mode UnknownIntent Neutral
      in (plain_decision mode UnknownIntent)\<lparr>rd_stage := IntakeStage, rd_answer_allowed := False, rd_intake_required := True,
           rd_redirect_message := Some ''Before we chat, please confirm your objective.'',
           rd_reason := ''intake_required; mode='' @ mode_value mode @ ''; message_seen='' @ show_bool (message \<noteq> '''')\<rparr>)"

definition redirect_decision :: "string \<Rightarrow> user_intent \<Rightarrow> tone \<Rightarrow> routing_decision" where
  "redirect_decision starting_mode i tn =
     (let mode = select_mode starting_mode UnknownIntent tn
      in (plain_decision mode i)\<lparr>rd_stage := RedirectStage, rd_tone := tn, rd_answer_allowed := False,
           rd_redirect_message := Some (''I can help with automation workflows, learning automation concepts, or scoping a service inquiry. '' @
             ''Which path should we take?''),
           rd_reason := ''out_of_scope_redirect; mode='' @ mode_value mode @ ''; tone='' @ tone_value tn\<rparr>)"

text \<open>The decision about a turn that is answered, once its intent is known.\<close>

definition answer_decision ::
  "routing_config option \<Rightarrow> orchestrator \<Rightarrow> string \<Rightarrow> string \<Rightarrow> intake \<Rightarrow> route_frame \<Rightarrow> user_intent \<Rightarrow> tone \<Rightarrow> routing_decision" where
  "answer_decision cfg orc starting_mode normalized intake frame i tn =
     (let mode = select_mode starting_mode i tn;
          retrieval = needs_retrieval cfg i mode normalized (rf_search_plan frame);
          tool = (if retrieval then retrieval_tool_for i mode normalized (Some (rf_need frame)) (Some (rf_search_plan frame)) else None);
          handoff = should_suggest_service_handoff cfg mode i tn normalized (rf_need frame);
          soft = should_offer_soft_service cfg mode normalized \<and> \<not> handoff;
          policy = select_policy orc; cloud = cloud_allowed_for orc policy;
          execution = tool_execution_mode orc retrieval tool; loop = (execution = ModelToolLoop)
      in (plain_decision mode i)\<lparr>rd_tone := tn, rd_response_policy := policy, rd_retrieval_required := retrieval,
           rd_retrieval_tool := tool, rd_allowed_tools := allowed_tools_for_mode mode,
           rd_provider_tools := (if loop then (case tool of Some t \<Rightarrow> [t] | None \<Rightarrow> []) else []),
           rd_tool_execution_mode := execution, rd_max_model_calls_per_turn := (if loop then 2 else 1),
           rd_tool_loop_requires_route := loop, rd_service_handoff_suggested := handoff, rd_soft_service_offer := soft,
           rd_cloud_allowed := cloud, rd_intake := intake, rd_frame := frame,
           rd_reason := reason_text mode i tn retrieval cloud (rf_task frame)\<rparr>)"

text \<open>The intake answers stand in for a message that says nothing.\<close>

definition turn_intent :: "user_intent \<Rightarrow> intake \<Rightarrow> user_intent" where
  "turn_intent i intake =
     (if i \<in> {UnknownIntent, SmallTalkIntent} \<and> intake \<noteq> []
      then (case detect_intake_intent intake of Some j \<Rightarrow> j | None \<Rightarrow> i) else i)"

definition decide :: "routing_config option \<Rightarrow> orchestrator \<Rightarrow> string \<Rightarrow> string \<Rightarrow> bool \<Rightarrow> intake \<Rightarrow> routing_decision" where
  "decide cfg orc starting_mode message intake_complete given =
     (let normalized = normalize_message message; intake = clean_intake given in
      if \<not> intake_complete then intake_decision starting_mode normalized
      else let (frame, i0, tn) = classify_route cfg starting_mode normalized intake; i = turn_intent i0 intake
        in if i = OutOfScopeIntent then redirect_decision starting_mode i tn
           else answer_decision cfg orc starting_mode normalized intake frame i tn)"

end
