(* ===== verification/TurnRules.thy ===== *)
theory TurnRules
  imports TurnDecision
begin

text \<open>
  What holds of every decision about a chat turn: its fields agree with each other and
  with the tool policy, the cloud is open only where the environment opened it, and the
  spelling of a message does not matter. And where matching by substring goes wrong: any
  word with \<open>rate\<close> in it is a question about prices, and a report of an error never stays
  in the technical mode.
\<close>

section \<open>Spelling\<close>

lemma is_space_lower_char [simp]: "is_space (lower_char c) = is_space c"
proof -

  show ?thesis
  proof (cases "(65 \<le> (of_char c :: nat) \<and> (of_char c :: nat) \<le> 90) \<or> (192 \<le> (of_char c :: nat) \<and> (of_char c :: nat) \<le> 222 \<and> (of_char c :: nat) \<noteq> 215)")
    case True
    then have "(of_char (lower_char c) :: nat) = of_char c + 32"
      by (auto simp: lower_char_def Let_def)
    then show ?thesis using True by (auto simp: is_space_def Let_def)
  qed (auto simp: lower_char_def Let_def)
qed

lemma lower_rev: "lower (rev s) = rev (lower s)"
  by (simp add: lower_def rev_map)

lemma lower_lstrip: "lower (lstrip s) = lstrip (lower s)"
  by (induction s) (simp_all add: lstrip_def lower_def)

lemma lower_strip: "lower (strip s) = strip (lower s)"
  by (simp add: strip_def lower_lstrip lower_rev)

lemma lstrip_blanks: "list_all is_space a \<Longrightarrow> lstrip (a @ s) = lstrip s"
  by (induction a) (simp_all add: lstrip_def)

lemma lstrip_append: "\<not> list_all is_space s \<Longrightarrow> lstrip (s @ b) = lstrip s @ b"
  by (induction s) (simp_all add: lstrip_def)

lemma lstrip_all_blank: "list_all is_space s \<Longrightarrow> lstrip s = []"
  by (induction s) (simp_all add: lstrip_def)

lemma strip_blanks:
  assumes "list_all is_space a" and "list_all is_space b"
  shows "strip (a @ s @ b) = strip s"
proof (cases "list_all is_space s")
  case True
  then show ?thesis using assms by (simp add: strip_def lstrip_all_blank)
next
  case False
  then have "strip (a @ s @ b) = rev (lstrip (rev b @ rev (lstrip s)))"
    using assms by (simp add: strip_def lstrip_blanks lstrip_append)
  also have "\<dots> = strip s" using assms(2) by (simp add: strip_def lstrip_blanks list_all_rev)
  finally show ?thesis .
qed

section \<open>Terms that survive normalization\<close>

definition term_ok :: "string \<Rightarrow> bool" where
  "term_ok t \<longleftrightarrow> t \<noteq> [] \<and> lower t = t \<and> (\<forall>c \<in> set t. \<not> is_space c \<and> c \<notin> set '',.!?'')"

lemma lower_keeps: "contains t s \<Longrightarrow> lower t = t \<Longrightarrow> contains t (lower s)"
  unfolding contains_iff lower_def by (metis map_append)

lemma filter_keeps: "contains t s \<Longrightarrow> filter p t = t \<Longrightarrow> contains t (filter p s)"
  unfolding contains_iff by (metis filter_append)

lemma rstrip_keeps:
  assumes "contains t s" and "\<forall>c \<in> set t. c \<notin> set cs" and "t \<noteq> []"
  shows "contains t (rstrip_of cs s)"
proof -
  obtain a b where s: "s = a @ t @ b" using assms(1) contains_iff by blast
  have "dropWhile (\<lambda>c. c \<in> set cs) (rev t @ rev a) = rev t @ rev a"
    using assms(2,3) by (cases t rule: rev_cases) auto
  then have "\<exists>p. dropWhile (\<lambda>c. c \<in> set cs) (rev b @ rev t @ rev a) = p @ rev t @ rev a"
    by (induction b rule: rev_induct) (auto intro: exI [of _ "[]"])
  then obtain p where "dropWhile (\<lambda>c. c \<in> set cs) (rev s) = p @ rev t @ rev a" using s by auto
  then show ?thesis unfolding rstrip_of_def contains_iff by auto
qed

lemma normalize_message_keeps:
  assumes "contains t (lower m)" and "term_ok t"
  shows "contains t (normalize_message m)"
proof -
  have f: "filter (\<lambda>c. c \<noteq> CHR '','') t = t" using assms(2) by (auto simp: term_ok_def filter_id_conv)
  have "contains t (lower (strip m))"
    using strip_keeps [OF assms(1)] assms(2) by (simp add: term_ok_def lower_strip)
  then show ?thesis
    using rstrip_keeps [OF filter_keeps [OF _ f]] assms(2) unfolding normalize_message_def term_ok_def by simp
qed

lemma normalize_text_keeps:
  assumes "contains t m" and "term_ok t"
  shows "contains t (normalize_text m)"
proof -
  have "contains t (normalize_message m)"
    using normalize_message_keeps [OF lower_keeps [OF assms(1)]] assms(2) by (simp add: term_ok_def)
  then show ?thesis
    using squeeze_keeps assms(2) unfolding normalize_text_def normalize_message_def term_ok_def by blast
qed

text \<open>A term of the message, or of an intake answer that is kept, is in the text the signals are looked up in.\<close>

definition route_text :: "string \<Rightarrow> intake \<Rightarrow> string" where
  "route_text message given =
     strip (normalize_text (normalize_message message) @ '' '' @ normalize_text (join '' '' (map snd (clean_intake given))))"

lemma route_text_message:
  assumes "contains t (lower m)" and "term_ok t"
  shows "contains t (route_text m given)"
  using strip_keeps contains_left [OF normalize_text_keeps [OF normalize_message_keeps [OF assms] assms(2)]] assms(2)
  unfolding route_text_def term_ok_def by blast

lemma route_text_intake:
  assumes "contains t (normalize_text (join '' '' (map snd (clean_intake given))))" and "term_ok t"
  shows "contains t (route_text m given)"
  using strip_keeps contains_right [OF contains_right [OF assms(1), of "'' ''"]] assms(2)
  unfolding route_text_def term_ok_def by blast

section \<open>Shape of a decision\<close>

definition decision_ok :: "routing_decision \<Rightarrow> bool" where
  "decision_ok d \<longleftrightarrow>
     (rd_retrieval_required d \<longleftrightarrow> rd_retrieval_tool d \<noteq> None)
     \<and> (case rd_retrieval_tool d of None \<Rightarrow> True | Some t \<Rightarrow> t \<in> set (rd_allowed_tools d))
     \<and> set (rd_provider_tools d) \<subseteq> set (rd_allowed_tools d)
     \<and> set (rd_provider_tools d) \<subseteq> set_option (rd_retrieval_tool d)
     \<and> (rd_tool_execution_mode d = ModelToolLoop \<longleftrightarrow> rd_provider_tools d \<noteq> [])
     \<and> (rd_tool_execution_mode d = ToolsDisabled \<longleftrightarrow> \<not> rd_retrieval_required d)
     \<and> rd_max_model_calls_per_turn d = (if rd_provider_tools d = [] then 1 else 2)
     \<and> rd_max_tool_calls_per_turn d = 1
     \<and> (rd_answer_allowed d \<longleftrightarrow> rd_stage d = ActiveStage)
     \<and> (if rd_answer_allowed d then rd_allowed_tools d = allowed_tools_for_mode (rd_selected_mode d) \<and> rd_redirect_message d = None
        else rd_allowed_tools d = [] \<and> \<not> rd_cloud_allowed d \<and> rd_redirect_message d \<noteq> None)
     \<and> \<not> (rd_service_handoff_suggested d \<and> rd_soft_service_offer d)
     \<and> (if rd_selected_mode d = ServiceMode then \<not> rd_soft_service_offer d else \<not> rd_service_handoff_suggested d)"

lemma education_in_its_mode: "select_mode m EducationIntent tn = EducatorMode"
  by (simp add: select_mode_def)

lemma retrieval_tool_found:
  "needs_retrieval cfg i mode message plan \<Longrightarrow> \<exists>t. retrieval_tool_for i mode message need (Some plan) = Some t \<and> t \<noteq> ''''"
  by (auto simp: needs_retrieval_def retrieval_tool_for_def tool_names split: if_splits)

lemma answer_decision_fields:
  fixes cfg orc sm m inta frame i tn
  defines "d \<equiv> answer_decision cfg orc sm m inta frame i tn" and "mode \<equiv> select_mode sm i tn"
  defines "retrieval \<equiv> needs_retrieval cfg i mode m (rf_search_plan frame)"
  defines "tool \<equiv> if retrieval then retrieval_tool_for i mode m (Some (rf_need frame)) (Some (rf_search_plan frame)) else None"
  defines "handoff \<equiv> should_suggest_service_handoff cfg mode i tn m (rf_need frame)"
  shows "rd_selected_mode d = mode" "rd_retrieval_required d = retrieval" "rd_retrieval_tool d = tool"
    "rd_allowed_tools d = allowed_tools_for_mode mode" "rd_tool_execution_mode d = tool_execution_mode orc retrieval tool"
    "rd_provider_tools d = (if tool_execution_mode orc retrieval tool = ModelToolLoop then (case tool of Some t \<Rightarrow> [t] | None \<Rightarrow> []) else [])"
    "rd_max_model_calls_per_turn d = (if tool_execution_mode orc retrieval tool = ModelToolLoop then 2 else 1)"
    "rd_service_handoff_suggested d = handoff" "rd_soft_service_offer d = (should_offer_soft_service cfg mode m \<and> \<not> handoff)"
    "rd_max_tool_calls_per_turn d = 1" "rd_stage d = ActiveStage" "rd_answer_allowed d" "rd_redirect_message d = None"
    "rd_intent d = i" "rd_tone d = tn" "rd_frame d = frame" "rd_response_policy d = select_policy orc"
    "rd_cloud_allowed d = cloud_allowed_for orc (select_policy orc)" "rd_intake d = inta" "rd_max_retrieval_calls_per_turn d = 1"
  unfolding assms answer_decision_def Let_def plain_decision_def by simp_all

lemma answer_decision_ok: "decision_ok (answer_decision cfg orc sm m inta frame i tn)"
proof -
  define mode where "mode = select_mode sm i tn"
  have edu: "i = EducationIntent \<Longrightarrow> mode = EducatorMode" by (simp add: mode_def education_in_its_mode)
  note fields = answer_decision_fields [of cfg orc sm m inta frame i tn, folded mode_def]
  show ?thesis
  proof (cases "needs_retrieval cfg i mode m (rf_search_plan frame)")
    case True
    then obtain t where t: "retrieval_tool_for i mode m (Some (rf_need frame)) (Some (rf_search_plan frame)) = Some t" "t \<noteq> ''''"
      using retrieval_tool_found by metis
    from t(1) edu have "t \<in> set (allowed_tools_for_mode mode)" by (rule retrieval_tool_allowed)
    then show ?thesis
      by (cases "or_model_tool_loop_enabled orc"; unfold decision_ok_def fields)
        (simp_all add: fields(12) True t tool_execution_mode_def should_offer_soft_service_def should_suggest_service_handoff_def)
  next
    case False
    then show ?thesis
      by (simp add: decision_ok_def fields tool_execution_mode_def should_offer_soft_service_def should_suggest_service_handoff_def)
  qed
qed

lemma halted_decisions_ok: "decision_ok (intake_decision sm m)" "decision_ok (redirect_decision sm i tn)"
  by (simp_all add: intake_decision_def redirect_decision_def decision_ok_def plain_decision_def Let_def)

text \<open>C22: 
  Whatever the user writes, the fields of a decision agree: a turn that needs retrieval has
  one retrieval tool, which its mode allows; the model is offered that tool at most, and
  only then gets a second call; a turn that may not be answered has no tools and no cloud;
  and a handoff and the soft offer exclude each other and fit the mode.
\<close>

theorem decisions_are_consistent: "decision_ok (decide cfg orc starting_mode message intake_complete given)"
  by (simp add: decide_def Let_def halted_decisions_ok answer_decision_ok split: prod.splits)


section \<open>The cloud\<close>

text \<open>
  A turn may use the cloud only when the environment has switched on the spillover and one
  of the two cloud tiers and allows a call per turn; its policy is then the one of that tier.
\<close>

theorem cloud_turns_were_switched_on:
  assumes "rd_cloud_allowed (decide cfg (new_orchestrator env (Some (spend_policy_from_env env)) loop) starting_mode message answered given)"
  shows "env_bool env ''ENABLE_CLOUD_SPILLOVER'' False \<and> env_int env ''CLOUD_SPILLOVER_MAX_CALLS_PER_TURN'' 0 \<ge> 1
    \<and> (if env_bool env ''ENABLE_CLAUDE_FALLBACK'' False
       then rd_response_policy (decide cfg (new_orchestrator env (Some (spend_policy_from_env env)) loop) starting_mode message answered given) = LocalThenClaude
       else env_bool env ''ENABLE_LOW_COST_CLOUD'' False
         \<and> rd_response_policy (decide cfg (new_orchestrator env (Some (spend_policy_from_env env)) loop) starting_mode message answered given) = LocalThenLowCost)"
  using assms
  by (auto simp: decide_def Let_def answer_decision_fields cloud_allowed_for_def select_policy_def new_orchestrator_def
      spend_policy_from_env_def intake_decision_def redirect_decision_def plain_decision_def split: prod.splits if_splits)

theorem cloud_turns_were_switched_on_witness:
  "env_bool (\<lambda>_. Some ''1'') ''ENABLE_CLOUD_SPILLOVER'' False
   \<and> rd_response_policy (decide None (new_orchestrator (\<lambda>_. Some ''1'') (Some (spend_policy_from_env (\<lambda>_. Some ''1''))) None)
       ''automator'' ''hi'' True []) = LocalThenClaude"
proof -
  have "rd_cloud_allowed (decide None (new_orchestrator (\<lambda>_. Some ''1'') (Some (spend_policy_from_env (\<lambda>_. Some ''1''))) None)
      ''automator'' ''hi'' True [])"
    by code_simp
  moreover have "env_bool (\<lambda>_. Some ''1'') ''ENABLE_CLAUDE_FALLBACK'' False" by code_simp
  ultimately show ?thesis
    using cloud_turns_were_switched_on [of None "\<lambda>_. Some ''1''" None "''automator''" "''hi''" True "[]"] by presburger
qed

section \<open>Where substrings mislead\<close>

lemma classified:
  "classify_route cfg sm (normalize_message m) (clean_intake given) =
    (let sg = signals_of cfg; c = route_text m given; need = classify_need (normalize_text (normalize_message m)) c sg;
         aud = classify_audience sm need c; tn = classify_tone c sg
     in (\<lparr>rf_audience = aud, rf_need = need, rf_output_shape = shape_of_need need, rf_search_plan = plan_of_need need,
          rf_task = task_of need aud tn c sg\<rparr>, need_to_intent need, tn))"
  by (simp add: classify_route_def route_text_def Let_def)

lemma service_inquiry_mode: "select_mode sm ServiceInquiryIntent tn = ServiceMode"
  by (cases tn) (simp_all add: select_mode_def)

text \<open>A turn whose need is about prices.\<close>

lemma pricing_turn:
  assumes "has_any (route_text message given) (sg_pricing (signals_of cfg))"
  shows "rd_selected_mode (decide cfg orc sm message True given) = ServiceMode
    \<and> rd_frame (decide cfg orc sm message True given) = \<lparr>rf_audience = (if sm = ''educator'' then Student else Client),
        rf_need = PricingTerms, rf_output_shape = DirectAnswer, rf_search_plan = NoSearch,
        rf_task = (if sm = ''educator'' then ''routine_support'' else ''high_value_service_inquiry'')\<rparr>
    \<and> rd_service_handoff_suggested (decide cfg orc sm message True given)
    \<and> \<not> rd_retrieval_required (decide cfg orc sm message True given)"
proof -
  have n: "classify_need (normalize_text (normalize_message message)) (route_text message given) (signals_of cfg) = PricingTerms"
    by (rule pricing_need [OF assms pricing_in_domain])
  show ?thesis
    by (simp add: decide_def Let_def classified n answer_decision_fields turn_intent_def service_inquiry_mode needs_retrieval_def
        plan_of_need_def should_suggest_service_handoff_def shape_of_need_def task_of_def classify_audience_def)
qed

text \<open>
  The signals are looked up as substrings, and \<open>rate\<close> is a signal of the price group: with
  the default groups, a message that contains a word such as \<open>generate\<close>, \<open>integrate\<close>,
  \<open>separate\<close> or \<open>accurate\<close> is answered in service mode with a handoff and without
  retrieval, whatever mode the user chose.
\<close>

theorem rate_inside_a_word_is_a_price:
  assumes "contains ''rate'' (lower message)" and "group_or cfg rc_pricing_signals PRICING_SIGNALS = PRICING_SIGNALS"
  shows "rd_selected_mode (decide cfg orc starting_mode message True given) = ServiceMode
    \<and> rf_need (rd_frame (decide cfg orc starting_mode message True given)) = PricingTerms
    \<and> rd_service_handoff_suggested (decide cfg orc starting_mode message True given)
    \<and> \<not> rd_retrieval_required (decide cfg orc starting_mode message True given)"
proof -
  have "term_ok ''rate''" by (simp add: term_ok_def lower_def lower_char_def is_space_def)
  then have "contains ''rate'' (route_text message given)" by (rule route_text_message [OF assms(1)])
  moreover have "sg_pricing (signals_of cfg) = PRICING_SIGNALS" by (simp add: signals_of_def Let_def assms(2))
  ultimately have "has_any (route_text message given) (sg_pricing (signals_of cfg))"
    by (simp add: has_any_def PRICING_SIGNALS_def)
  then show ?thesis using pricing_turn [of message given cfg orc starting_mode] by simp
qed

theorem rate_inside_a_word_is_a_price_witness:
  "rd_selected_mode (decide None \<lparr>or_cloud_policy = default_spend_policy, or_model_tool_loop_enabled = False\<rparr>
      ''automator'' ''How do I generate a report?'' True []) = ServiceMode"
  using rate_inside_a_word_is_a_price [of "''How do I generate a report?''" None
      "\<lparr>or_cloud_policy = default_spend_policy, or_model_tool_loop_enabled = False\<rparr>" "''automator''" "[]"]
  by (simp add: lower_def lower_char_def starts_with_def group_or_def)

text \<open>
  Reports of trouble carry a tone of trouble, so they are always moved to service mode with
  a handoff and the task of a sales inquiry: the mode for technical help and the task
  \<open>workflow_debugging\<close> are never chosen for them.
\<close>

theorem trouble_goes_to_service:
  assumes "rf_need (rd_frame (decide cfg orc starting_mode message True given)) = TroubleshootingNeed"
  shows "rd_selected_mode (decide cfg orc starting_mode message True given) = ServiceMode
    \<and> rf_task (rd_frame (decide cfg orc starting_mode message True given)) = ''high_value_service_inquiry''
    \<and> rd_service_handoff_suggested (decide cfg orc starting_mode message True given)"
proof -
  define c where "c = route_text message given"
  define need where "need = classify_need (normalize_text (normalize_message message)) c (signals_of cfg)"
  have n: "need = TroubleshootingNeed"
    using assms
    by (auto simp: decide_def Let_def classified answer_decision_fields redirect_decision_def plain_decision_def default_frame_def
        need_def c_def split: if_splits)
  have tn: "classify_tone c (signals_of cfg) \<in> {Frustrated, Urgent}"
    using trouble_tone n unfolding need_def by blast
  have mode: "select_mode starting_mode TroubleshootingIntent (classify_tone c (signals_of cfg)) = ServiceMode"
    using tn by (auto simp: select_mode_def)
  show ?thesis
    using n tn by (auto simp: decide_def Let_def classified answer_decision_fields turn_intent_def mode
        should_suggest_service_handoff_def task_of_def simp flip: c_def need_def)
qed


definition trouble_message :: string where
  "trouble_message = ''My workflow is stuck''"

theorem trouble_goes_to_service_witness:
  "rd_selected_mode (decide None (new_orchestrator (\<lambda>_. None) None None) ''automator'' trouble_message True []) = ServiceMode"
proof -
  have "rf_need (rd_frame (decide None (new_orchestrator (\<lambda>_. None) None None) ''automator'' trouble_message True [])) = TroubleshootingNeed"
    by code_simp
  then show ?thesis by (rule trouble_goes_to_service [THEN conjunct1])
qed

section \<open>Spelling does not matter\<close>

text \<open>Blanks around a message and capital letters in it do not change the decision.\<close>

theorem spelling_does_not_matter:
  assumes "list_all is_space a" and "list_all is_space b"
  shows "decide cfg orc starting_mode (a @ message @ b) answered given = decide cfg orc starting_mode message answered given
    \<and> decide cfg orc starting_mode (lower message) answered given = decide cfg orc starting_mode message answered given"
proof -
  have "normalize_message (a @ message @ b) = normalize_message message"
    by (simp add: normalize_message_def strip_blanks [OF assms])
  moreover have "normalize_message (lower message) = normalize_message message"
    by (simp add: normalize_message_def lower_strip)
  ultimately show ?thesis by (simp add: decide_def)
qed

theorem spelling_does_not_matter_witness:
  "decide None (new_orchestrator (\<lambda>_. None) None None) ''automator'' (''  '' @ ''Explain Jinja'' @ '' '') True []
   = decide None (new_orchestrator (\<lambda>_. None) None None) ''automator'' ''Explain Jinja'' True []"
  using spelling_does_not_matter [of "''  ''" "'' ''" None "new_orchestrator (\<lambda>_. None) None None" "''automator''" "''Explain Jinja''" True "[]"]
  by (simp add: is_space_def)

end
