(* ===== verification/Routes.thy ===== *)
theory Routes
  imports Json Words
begin

text \<open>
  \<open>core/model_transport.py\<close>: which catalogue entry an alias stands for and whether it goes
  through the aggregator or straight to the vendor, and how the map is loaded from the
  deployment bundle.
  The second part has the routes and the policies of \<open>core/router.py\<close>.
\<close>

record transport_map =
  tm_gateway_prefix :: string
  tm_direct_aliases :: "(string \<times> string) list"

definition DEFAULT_GATEWAY_PREFIX :: string where "DEFAULT_GATEWAY_PREFIX = ''openrouter/''"

definition AGGREGATOR :: nat where "AGGREGATOR = 0"
definition DIRECT :: nat where "DIRECT = 1"
definition UNKNOWN_TRANSPORT :: nat where "UNKNOWN_TRANSPORT = 2"

text \<open>\<open>{alias: catalog_id ...}\<close>: the last entry of an alias wins.\<close>

definition alias_to_catalog :: "transport_map \<Rightarrow> string \<Rightarrow> string option" where
  "alias_to_catalog t = map_of (rev (map (\<lambda>(catalog, al). (al, catalog)) (tm_direct_aliases t)))"

definition through_gateway :: "transport_map \<Rightarrow> string \<Rightarrow> bool" where
  "through_gateway t al \<longleftrightarrow> tm_gateway_prefix t \<noteq> '''' \<and> starts_with (tm_gateway_prefix t) al"

definition catalog_id :: "transport_map \<Rightarrow> string \<Rightarrow> string" where
  "catalog_id t al =
     (if through_gateway t al then drop (length (tm_gateway_prefix t)) al
      else case alias_to_catalog t al of Some c \<Rightarrow> c | None \<Rightarrow> al)"

definition transport_kind :: "transport_map \<Rightarrow> string \<Rightarrow> nat" where
  "transport_kind t al =
     (if through_gateway t al then AGGREGATOR else if alias_to_catalog t al \<noteq> None then DIRECT else UNKNOWN_TRANSPORT)"

text \<open>The file of the bundle: missing, not readable as text or YAML, or a document.\<close>

datatype transport_file = NoTransportFile | TransportUnreadable | TransportDocument json

definition declared_aliases :: "(json \<Rightarrow> string) \<Rightarrow> json \<Rightarrow> (string \<times> string) list" where
  "declared_aliases rep doc =
     (case json_or doc (JObj []) of
        JObj kvs \<Rightarrow> (case (case map_of kvs ''direct'' of Some v \<Rightarrow> v | None \<Rightarrow> JObj []) of
            JObj entries \<Rightarrow> map (\<lambda>(k, v). (k, json_str rep v)) (filter (\<lambda>(k, v). k \<noteq> '''' \<and> truthy v) entries)
          | _ \<Rightarrow> [])
      | _ \<Rightarrow> [])"

definition load_transport_map :: "(json \<Rightarrow> string) \<Rightarrow> environ \<Rightarrow> transport_file \<Rightarrow> transport_map" where
  "load_transport_map rep env f =
     \<lparr>tm_gateway_prefix = getenv_or env ''MODEL_GATEWAY_PREFIX'' DEFAULT_GATEWAY_PREFIX,
      tm_direct_aliases = (case f of TransportDocument doc \<Rightarrow> declared_aliases rep doc | _ \<Rightarrow> [])\<rparr>"

text \<open>
  Both transports of one model name the same catalogue entry, and the aggregator is tried
  first: what the lane ranking and the order inside a rank rely on.
\<close>

lemma both_transports_one_model:
  assumes "tm_gateway_prefix t \<noteq> ''''" and "alias_to_catalog t al = Some c" and "\<not> through_gateway t al"
  shows "catalog_id t (tm_gateway_prefix t @ c) = c \<and> catalog_id t al = c
    \<and> transport_kind t (tm_gateway_prefix t @ c) < transport_kind t al"
  using assms by (simp add: catalog_id_def transport_kind_def through_gateway_def starts_with_def AGGREGATOR_def DIRECT_def)

text \<open>Without a prefix and without aliases every alias stands for itself.\<close>

lemma catalog_id_plain: "tm_gateway_prefix t = '''' \<Longrightarrow> tm_direct_aliases t = [] \<Longrightarrow> catalog_id t al = al"
  by (simp add: catalog_id_def through_gateway_def alias_to_catalog_def)

text \<open>
  The routes of the model router: \<open>ProviderRoute\<close> and the constants of \<open>core/router.py\<close>,
  the exclusion of free aggregator endpoints, and the policies of \<open>core/runtime.py\<close> (how
  many answers are generated at a time, what the health of a local runtime does to a route).
  A provider is what the router sees of the client object: its identity, its class and the
  attributes it reads.
\<close>

section \<open>Providers and routes\<close>

record provider =
  pv_id :: nat
  pv_class :: string
  pv_base_url :: string
  pv_max_tokens :: int
  pv_closable :: bool
  pv_rekeyable :: bool

record provider_route =
  pr_name :: string
  pr_provider :: "provider option"
  pr_provider_type :: string
  pr_model :: string
  pr_role :: string
  pr_cost_tier :: string
  pr_allowed_response_policies :: "string list"
  pr_recommended_for :: "string list"
  pr_avoid_for :: "string list"
  pr_routing_priority :: int
  pr_configured :: bool
  pr_blocked_reason :: string
  pr_deployment_status :: string
  pr_runtime_group :: string
  pr_enabled_by_default :: bool
  pr_capabilities :: "string list"
  pr_tool_calling_quality :: string
  pr_input_price :: rat
  pr_output_price :: rat
  pr_provider_budget_id :: string
  pr_preferred_provider_id :: string
  pr_catalog_derived :: bool

text \<open>A route with the defaults of the class.\<close>

definition plain_route :: "string \<Rightarrow> provider option \<Rightarrow> string \<Rightarrow> string \<Rightarrow> string \<Rightarrow> string \<Rightarrow> string list \<Rightarrow> provider_route" where
  "plain_route name p ptype model role tier policies =
     \<lparr>pr_name = name, pr_provider = p, pr_provider_type = ptype, pr_model = model, pr_role = role, pr_cost_tier = tier,
      pr_allowed_response_policies = policies, pr_recommended_for = [], pr_avoid_for = [], pr_routing_priority = 0,
      pr_configured = True, pr_blocked_reason = '''', pr_deployment_status = ''active'', pr_runtime_group = '''',
      pr_enabled_by_default = True, pr_capabilities = [], pr_tool_calling_quality = ''none'', pr_input_price = 0,
      pr_output_price = 0, pr_provider_budget_id = ''default'', pr_preferred_provider_id = '''', pr_catalog_derived = False\<rparr>"

definition FREE_TIER_SEGMENTS :: "string list" where
  "FREE_TIER_SEGMENTS = [''free'', ''free-tier'']"

definition is_free_tier_model :: "string \<Rightarrow> bool" where
  "is_free_tier_model model_id = list_ex (\<lambda>seg. seg \<in> set FREE_TIER_SEGMENTS) (tl (split_on (CHR '':'') (lower (strip model_id))))"

definition is_cloud :: "provider_route \<Rightarrow> bool" where
  "is_cloud r \<longleftrightarrow> pr_cost_tier r \<noteq> ''local''"

definition is_metered :: "provider_route \<Rightarrow> bool" where
  "is_metered r \<longleftrightarrow> pr_cost_tier r \<in> {''low_cost'', ''premium''}"

definition is_free_route :: "provider_route \<Rightarrow> bool" where
  "is_free_route r = is_free_tier_model (pr_model r)"

definition supports_tools :: "provider_route \<Rightarrow> bool" where
  "supports_tools r \<longleftrightarrow> ''tools'' \<in> (\<lambda>c. lower (strip c)) ` set (pr_capabilities r)"

definition reliable_tool_calling :: "provider_route \<Rightarrow> bool" where
  "reliable_tool_calling r \<longleftrightarrow> supports_tools r \<and> pr_tool_calling_quality r \<in> {''ok'', ''strong''}"

definition task_matches :: "string option \<Rightarrow> string list \<Rightarrow> bool" where
  "task_matches task tags = (case task of None \<Rightarrow> False
     | Some t \<Rightarrow> t \<noteq> '''' \<and> lower (strip t) \<in> (\<lambda>g. lower (strip g)) ` set tags)"

definition route_key :: "provider_route \<Rightarrow> string" where
  "route_key r = str_or (pr_name r) (pr_provider_type r @ '':'' @ pr_model r @ '':'' @ pr_role r)"

section \<open>Strategies, lanes and buckets\<close>

definition ROUTING_STRATEGIES :: "string list" where
  "ROUTING_STRATEGIES = [''best_value'', ''prefer_local'', ''prefer_cloud_quality'', ''local_only'', ''cloud_only'']"

definition clean_routing_strategy :: "string option \<Rightarrow> string" where
  "clean_routing_strategy s = (let v = lower (strip (opt_str_or s ''best_value'')) in if v \<in> set ROUTING_STRATEGIES then v else ''best_value'')"

definition STRATEGY_TIERS :: "(string \<times> string) list" where
  "STRATEGY_TIERS = [(''best_value'', ''auto''), (''prefer_local'', ''auto''), (''prefer_cloud_quality'', ''best''),
     (''local_only'', ''auto''), (''cloud_only'', ''auto'')]"

definition TASK_LANES :: "(string \<times> string) list" where
  "TASK_LANES = [(''code_review'', ''review''), (''critical_code_review'', ''review''), (''deep_code_review'', ''review''),
     (''security_review'', ''review''), (''coding'', ''build''), (''implementation_help'', ''build''), (''large_refactor'', ''build''),
     (''classification'', ''lookup''), (''routine_chat'', ''lookup''), (''basic_rewst_help'', ''lookup'')]"

definition DEFAULT_LANE :: string where "DEFAULT_LANE = ''guide''"

definition SYNTHESIZED_ROUTE_PREFIX :: string where "SYNTHESIZED_ROUTE_PREFIX = ''catalog:''"

definition SYNTHESIZED_PREMIUM_COMPLETION_PRICE :: rat where "SYNTHESIZED_PREMIUM_COMPLETION_PRICE = 5"

fun SYNTHESIZED_RESPONSE_POLICIES :: "string \<Rightarrow> string list" where
  "SYNTHESIZED_RESPONSE_POLICIES bucket =
     (if bucket = ''low_cost'' then [''local_then_low_cost'', ''local_then_claude_if_high_value'']
      else [''local_then_claude_if_high_value''])"

definition SYNTHESIZED_STRONG_TOOL_AGENTIC_INDEX :: rat where "SYNTHESIZED_STRONG_TOOL_AGENTIC_INDEX = 444 / 10"

definition SYNTHESIZED_MAX_OUTPUT_TOKENS :: int where "SYNTHESIZED_MAX_OUTPUT_TOKENS = 4096"

definition ROUTE_COST_ADJUSTMENTS :: "(string \<times> (string \<times> int) list) list" where
  "ROUTE_COST_ADJUSTMENTS =
     [(''best_value'', [(''local'', 120), (''low_cost'', 40), (''premium'', 0)]),
      (''prefer_local'', [(''local'', 300), (''low_cost'', 75), (''premium'', 0)]),
      (''prefer_cloud_quality'', [(''local'', 0), (''low_cost'', 250), (''premium'', 300)]),
      (''local_only'', [(''local'', 0), (''low_cost'', 0), (''premium'', 0)]),
      (''cloud_only'', [(''local'', 0), (''low_cost'', 0), (''premium'', 0)])]"

definition cost_adjustment :: "string \<Rightarrow> string \<Rightarrow> int" where
  "cost_adjustment strategy tier =
     (case map_of ROUTE_COST_ADJUSTMENTS strategy of None \<Rightarrow> 0
      | Some t \<Rightarrow> (case map_of t tier of None \<Rightarrow> 0 | Some n \<Rightarrow> n))"

section \<open>Health of a route\<close>

record health_payload =
  hp_endpoint_healthy :: bool
  hp_model_available :: bool
  hp_available_models :: "string list"
  hp_checked :: bool
  hp_cached :: bool
  hp_checked_at :: "rat option"

definition unchecked_health :: health_payload where
  "unchecked_health = \<lparr>hp_endpoint_healthy = False, hp_model_available = False, hp_available_models = [],
     hp_checked = False, hp_cached = False, hp_checked_at = None\<rparr>"

section \<open>Runtime policies\<close>

definition plain_env_int :: "environ \<Rightarrow> string \<Rightarrow> int \<Rightarrow> int" where
  "plain_env_int env name d = (case env name of None \<Rightarrow> d
     | Some raw \<Rightarrow> (case py_int raw of None \<Rightarrow> d | Some n \<Rightarrow> n))"

record runtime_control =
  rp_warm_route_bonus :: int
  rp_unavailable_penalty :: int

definition runtime_control_from_env :: "environ \<Rightarrow> runtime_control" where
  "runtime_control_from_env env = \<lparr>rp_warm_route_bonus = plain_env_int env ''RUNTIME_WARM_ROUTE_BONUS'' 75,
     rp_unavailable_penalty = plain_env_int env ''RUNTIME_UNAVAILABLE_PENALTY'' 750\<rparr>"

record concurrency_policy =
  gc_normal_parallel_limit :: int
  gc_hard_parallel_limit :: int
  gc_max_local_generations :: int
  gc_max_cloud_generations :: int

definition concurrency_from_env :: "environ \<Rightarrow> concurrency_policy" where
  "concurrency_from_env env =
     (let normal = max (plain_env_int env ''GENERATION_NORMAL_PARALLEL_LIMIT'' 3) 1;
          hard = max (max (plain_env_int env ''GENERATION_HARD_PARALLEL_LIMIT'' 5) 1) normal
      in \<lparr>gc_normal_parallel_limit = normal, gc_hard_parallel_limit = hard,
          gc_max_local_generations = min (max (plain_env_int env ''GENERATION_MAX_LOCAL'' 2) 0) hard,
          gc_max_cloud_generations = min (max (plain_env_int env ''GENERATION_MAX_CLOUD'' 3) 0) hard\<rparr>)"

definition can_start :: "concurrency_policy \<Rightarrow> string \<Rightarrow> int \<Rightarrow> int \<Rightarrow> int \<Rightarrow> bool" where
  "can_start p tier active_total active_local active_cloud =
     (if active_total \<ge> min (gc_normal_parallel_limit p) (gc_hard_parallel_limit p) then False
      else if tier = ''local'' then active_local < gc_max_local_generations p
      else active_cloud < gc_max_cloud_generations p)"

definition runtime_blocked_reason :: "provider_route \<Rightarrow> health_payload option \<Rightarrow> bool \<Rightarrow> string" where
  "runtime_blocked_reason r health enabled =
     (case health of None \<Rightarrow> ''''
      | Some h \<Rightarrow>
          if is_cloud r \<or> \<not> enabled \<or> \<not> hp_checked h then ''''
          else if hp_model_available h then ''''
          else if \<not> hp_endpoint_healthy h then ''runtime_unreachable'' else ''runtime_model_not_warm'')"

definition runtime_score_adjustment :: "runtime_control \<Rightarrow> provider_route \<Rightarrow> health_payload option \<Rightarrow> int" where
  "runtime_score_adjustment p r health =
     (case health of None \<Rightarrow> 0
      | Some h \<Rightarrow> if is_cloud r \<or> \<not> hp_checked h then 0
          else if hp_model_available h then rp_warm_route_bonus p else - rp_unavailable_penalty p)"

record runtime_status =
  rt_group :: string
  rt_endpoint :: string
  rt_warm :: bool
  rt_reachable :: bool
  rt_model_available :: bool
  rt_blocked_reason :: string

text \<open>A cloud route reports its group only: the other fields are the empty ones.\<close>

definition runtime_status_of :: "provider_route \<Rightarrow> health_payload option \<Rightarrow> bool \<Rightarrow> runtime_status" where
  "runtime_status_of r health enabled =
     (if is_cloud r then \<lparr>rt_group = str_or (pr_runtime_group r) ''cloud'', rt_endpoint = '''', rt_warm = False, rt_reachable = False,
        rt_model_available = False, rt_blocked_reason = ''''\<rparr>
      else \<lparr>rt_group = str_or (pr_runtime_group r) ''local'',
        rt_endpoint = (case pr_provider r of None \<Rightarrow> '''' | Some p \<Rightarrow> pv_base_url p),
        rt_warm = (case health of None \<Rightarrow> False | Some h \<Rightarrow> hp_model_available h),
        rt_reachable = (case health of None \<Rightarrow> False | Some h \<Rightarrow> hp_endpoint_healthy h),
        rt_model_available = (case health of None \<Rightarrow> False | Some h \<Rightarrow> hp_model_available h),
        rt_blocked_reason = runtime_blocked_reason r health enabled\<rparr>)"

section \<open>Facts about the policies\<close>

lemma concurrency_from_env_ok:
  "1 \<le> gc_normal_parallel_limit (concurrency_from_env env)
   \<and> gc_normal_parallel_limit (concurrency_from_env env) \<le> gc_hard_parallel_limit (concurrency_from_env env)
   \<and> 0 \<le> gc_max_local_generations (concurrency_from_env env) \<and> 0 \<le> gc_max_cloud_generations (concurrency_from_env env)"
  unfolding concurrency_from_env_def Let_def concurrency_policy.simps by (intro conjI) linarith+

lemma synthesized_never_local: "''local_only'' \<notin> set (SYNTHESIZED_RESPONSE_POLICIES bucket)"
  by simp

text \<open>A runtime blocks a route only when its model was seen to be missing.\<close>

lemma runtime_blocks_iff:
  "runtime_blocked_reason r health enabled \<noteq> '''' \<longleftrightarrow>
    \<not> is_cloud r \<and> enabled \<and> (case health of None \<Rightarrow> False | Some h \<Rightarrow> hp_checked h \<and> \<not> hp_model_available h)"
  by (auto simp: runtime_blocked_reason_def split: option.splits)

end
