(* ===== verification/RouterState.thy ===== *)
theory RouterState
  imports Routes ProviderBudget ModelResolver
begin

text \<open>
  The state of \<open>LLMRouter\<close> (\<open>core/router.py\<close>) and its gate: which routes may serve a turn
  and why not, the operator's overrides, the health cache, the circuit breakers, the
  generation slots. The budget is absent, the global gate, or the gate of all providers.
\<close>

section \<open>State\<close>

datatype router_budget = NoBudget | SingleGate cloud_gate | MultiGate multi_gate

record concurrency_snapshot =
  cs_policy :: concurrency_policy
  cs_active_total :: int
  cs_active_local :: int
  cs_active_cloud :: int

record candidate_line =
  cl_name :: string
  cl_model :: string
  cl_cost_tier :: string
  cl_deployment_status :: string
  cl_runtime_group :: string
  cl_enabled :: bool
  cl_supports_tools :: bool
  cl_tool_calling_quality :: string
  cl_score :: "int option"
  cl_blocked_reason :: string
  cl_recommended_match :: bool
  cl_avoid_match :: bool
  cl_catalog_derived :: bool
  cl_runtime :: "runtime_status option"

record lane_report =
  lr_lane :: string
  lr_tier :: tier
  lr_objective :: string
  lr_synthesized :: "string list"
  lr_rejected :: "rejection list"

record route_decision =
  dg_routing_strategy :: string
  dg_force_secondary :: bool
  dg_cloud_allowed :: bool
  dg_response_policy :: "string option"
  dg_task :: "string option"
  dg_context_cloud_eligible :: bool
  dg_require_tools :: bool
  dg_candidates :: "candidate_line list"
  dg_ordered_routes :: "string list"
  dg_selected_route :: string
  dg_empty_reason :: string
  dg_concurrency :: concurrency_snapshot
  dg_generation_blocked :: "string list"
  dg_capability :: "lane_report option"

record llm_router =
  ro_primary :: provider
  ro_error_threshold :: int
  ro_budget :: router_budget
  ro_routes :: "provider_route list"
  ro_error_count :: int
  ro_breaker_open :: bool
  ro_route_errors :: "(string \<times> int) list"
  ro_route_breakers :: "string set"
  ro_overrides :: "(string \<times> bool) list"
  ro_health_ttl :: rat
  ro_health_cache :: "(string \<times> rat \<times> health_payload) list"
  ro_last_decision :: "route_decision option"
  ro_synthesized :: "(string \<times> provider_route) list"
  ro_strategy :: string
  ro_runtime :: "runtime_control option"
  ro_concurrency :: concurrency_policy
  ro_active_total :: int
  ro_active_local :: int
  ro_active_cloud :: int
  ro_next_provider :: nat

definition new_router ::
  "provider \<Rightarrow> int \<Rightarrow> router_budget \<Rightarrow> provider_route list \<Rightarrow> string option \<Rightarrow> rat \<Rightarrow> runtime_control option
   \<Rightarrow> concurrency_policy \<Rightarrow> nat \<Rightarrow> llm_router" where
  "new_router primary threshold budget routes strategy ttl runtime conc n =
     \<lparr>ro_primary = primary, ro_error_threshold = threshold, ro_budget = budget, ro_routes = routes, ro_error_count = 0,
      ro_breaker_open = False, ro_route_errors = [], ro_route_breakers = {}, ro_overrides = [], ro_health_ttl = max 0 ttl,
      ro_health_cache = [], ro_last_decision = None, ro_synthesized = [], ro_strategy = clean_routing_strategy strategy,
      ro_runtime = runtime, ro_concurrency = conc, ro_active_total = 0, ro_active_local = 0, ro_active_cloud = 0,
      ro_next_provider = n\<rparr>"

definition all_routes :: "llm_router \<Rightarrow> provider_route list" where
  "all_routes ro = ro_routes ro @ map snd (ro_synthesized ro)"

definition route_named :: "llm_router \<Rightarrow> string \<Rightarrow> provider_route option" where
  "route_named ro name = find (\<lambda>r. pr_name r = name) (all_routes ro)"

section \<open>Operator controls\<close>

definition route_enabled :: "llm_router \<Rightarrow> string \<Rightarrow> bool" where
  "route_enabled ro name =
     (let route = route_named ro name in
      if (case route of None \<Rightarrow> False | Some r \<Rightarrow> pr_deployment_status r = ''disabled'') then False
      else case dict_get (ro_overrides ro) name of
          Some b \<Rightarrow> b
        | None \<Rightarrow> (case route of None \<Rightarrow> True | Some r \<Rightarrow> pr_enabled_by_default r))"

definition dict_pop :: "'k \<Rightarrow> ('k \<times> 'v) list \<Rightarrow> ('k \<times> 'v) list" where
  "dict_pop k d = filter (\<lambda>kv. fst kv \<noteq> k) d"

definition set_route_enabled :: "string \<Rightarrow> bool \<Rightarrow> llm_router \<Rightarrow> llm_router" where
  "set_route_enabled name enabled ro =
     (let ro1 = ro\<lparr>ro_overrides := dict_set name enabled (ro_overrides ro)\<rparr> in
      case route_named ro1 name of None \<Rightarrow> ro1
      | Some r \<Rightarrow> ro1\<lparr>ro_health_cache := dict_pop (route_key r) (ro_health_cache ro1)\<rparr>)"

definition route_overrides :: "llm_router \<Rightarrow> (string \<times> bool) list" where
  "route_overrides ro = fold (\<lambda>r d. dict_set (pr_name r) (route_enabled ro (pr_name r)) d) (all_routes ro) []"

definition set_routing_strategy :: "string option \<Rightarrow> llm_router \<Rightarrow> llm_router result" where
  "set_routing_strategy strategy ro =
     (let v = lower (strip (opt_str_or strategy '''')) in
      if v \<notin> set ROUTING_STRATEGIES
      then Inl (ValueError (''Unknown routing_strategy: '' @ (case strategy of None \<Rightarrow> ''None'' | Some s \<Rightarrow> s)))
      else Inr (ro\<lparr>ro_strategy := v\<rparr>))"

text \<open>\<open>close\<close> and \<open>rotate_provider_key\<close> visit each provider object once, by identity.\<close>

fun visit_providers :: "(provider \<Rightarrow> bool) \<Rightarrow> provider_route list \<Rightarrow> nat list \<Rightarrow> nat list" where
  "visit_providers p [] seen = seen"
| "visit_providers p (r # rs) seen =
     (case pr_provider r of
        None \<Rightarrow> visit_providers p rs seen
      | Some pv \<Rightarrow> if pv_id pv \<in> set seen \<or> \<not> p pv then visit_providers p rs seen
          else visit_providers p rs (seen @ [pv_id pv]))"

definition close_router :: "llm_router \<Rightarrow> nat list" where
  "close_router ro = visit_providers pv_closable (all_routes ro) []"

definition rotate_provider_key :: "string \<Rightarrow> llm_router \<Rightarrow> nat list" where
  "rotate_provider_key budget_id ro =
     visit_providers pv_rekeyable (filter (\<lambda>r. pr_provider_budget_id r = budget_id) (all_routes ro)) []"

section \<open>Health\<close>

datatype health_answer = StatusAnswer bool bool "string list" | PlainAnswer bool | HealthRaises

record health_env =
  he_monotonic :: rat
  he_wall :: rat
  he_answer :: "provider \<Rightarrow> health_answer"

fun payload_of :: "rat \<Rightarrow> health_answer \<Rightarrow> health_payload" where
  "payload_of t (StatusAnswer e m ms) = \<lparr>hp_endpoint_healthy = e, hp_model_available = m, hp_available_models = ms,
     hp_checked = True, hp_cached = False, hp_checked_at = Some t\<rparr>"
| "payload_of t (PlainAnswer h) = \<lparr>hp_endpoint_healthy = h, hp_model_available = h, hp_available_models = [],
     hp_checked = True, hp_cached = False, hp_checked_at = Some t\<rparr>"
| "payload_of t HealthRaises = \<lparr>hp_endpoint_healthy = False, hp_model_available = False, hp_available_models = [],
     hp_checked = True, hp_cached = False, hp_checked_at = Some t\<rparr>"

definition provider_health :: "health_env \<Rightarrow> bool \<Rightarrow> provider \<Rightarrow> provider_route \<Rightarrow> llm_router \<Rightarrow> health_payload \<times> llm_router" where
  "provider_health e force pv r ro =
     (let key = route_key r; now = he_monotonic e;
          fresh = (let p = payload_of (he_wall e) (he_answer e pv)
                   in (p, ro\<lparr>ro_health_cache := dict_set key (now, p) (ro_health_cache ro)\<rparr>))
      in case dict_get (ro_health_cache ro) key of
           Some (t, p) \<Rightarrow>
             if \<not> force \<and> ro_health_ttl ro > 0 \<and> now - t \<le> ro_health_ttl ro then (p\<lparr>hp_cached := True\<rparr>, ro) else fresh
         | None \<Rightarrow> fresh)"

definition cached_provider_health :: "rat \<Rightarrow> provider_route \<Rightarrow> llm_router \<Rightarrow> health_payload option" where
  "cached_provider_health now r ro =
     (case dict_get (ro_health_cache ro) (route_key r) of
        None \<Rightarrow> None
      | Some (t, p) \<Rightarrow> if ro_health_ttl ro \<le> 0 then None
          else if now - t > ro_health_ttl ro then None else Some (p\<lparr>hp_cached := True\<rparr>))"

definition runtime_status_in :: "provider_route \<Rightarrow> health_payload option \<Rightarrow> llm_router \<Rightarrow> runtime_status option" where
  "runtime_status_in r h ro =
     (case ro_runtime ro of None \<Rightarrow> None | Some _ \<Rightarrow> Some (runtime_status_of r h (route_enabled ro (pr_name r))))"

definition runtime_selection_blocked_reason :: "rat \<Rightarrow> provider_route \<Rightarrow> llm_router \<Rightarrow> string" where
  "runtime_selection_blocked_reason now r ro =
     (case ro_runtime ro of None \<Rightarrow> ''''
      | Some _ \<Rightarrow> runtime_blocked_reason r (cached_provider_health now r ro) (route_enabled ro (pr_name r)))"

section \<open>The gate of a route\<close>

definition route_allowed :: "provider_route \<Rightarrow> bool \<Rightarrow> string option \<Rightarrow> string list option \<Rightarrow> llm_router \<Rightarrow> bool" where
  "route_allowed r cloud policy tiers ro =
     (if is_free_route r then False
      else if pr_deployment_status r = ''disabled'' then False
      else if \<not> pr_configured r \<or> pr_provider r = None then False
      else if \<not> route_enabled ro (pr_name r) then False
      else if \<not> is_cloud r then True
      else if \<not> cloud then False
      else if (case tiers of None \<Rightarrow> False | Some ts \<Rightarrow> pr_cost_tier r \<notin> set ts) then False
      else case policy of None \<Rightarrow> True | Some p \<Rightarrow> p \<in> set (pr_allowed_response_policies r))"

definition route_temporarily_blocked :: "provider_route \<Rightarrow> llm_router \<Rightarrow> bool" where
  "route_temporarily_blocked r ro \<longleftrightarrow> route_key r \<in> ro_route_breakers ro
     \<or> (ro_breaker_open ro \<and> (case pr_provider r of None \<Rightarrow> False | Some pv \<Rightarrow> pv_id pv = pv_id (ro_primary ro)))"

definition disabled_reason :: "provider_route \<Rightarrow> llm_router \<Rightarrow> string" where
  "disabled_reason r ro =
     (if pr_deployment_status r = ''candidate'' \<and> dict_get (ro_overrides ro) (pr_name r) = None
      then ''candidate_not_enabled'' else ''route_disabled'')"

definition route_blocked_reason ::
  "provider_route \<Rightarrow> health_payload \<Rightarrow> bool \<Rightarrow> string option \<Rightarrow> string list option \<Rightarrow> llm_router \<Rightarrow> string" where
  "route_blocked_reason r h cloud policy tiers ro =
     (if is_free_route r then ''free_tier_excluded''
      else if pr_deployment_status r = ''disabled'' then ''deployment_disabled''
      else if \<not> pr_configured r then str_or (pr_blocked_reason r) ''not_configured''
      else if pr_provider r = None then str_or (pr_blocked_reason r) ''provider_not_built''
      else if \<not> route_enabled ro (pr_name r) then disabled_reason r ro
      else if \<not> hp_checked h then ''health_not_checked''
      else if \<not> hp_endpoint_healthy h then ''health_check_failed''
      else if \<not> hp_model_available h then ''model_not_available''
      else if route_temporarily_blocked r ro then ''circuit_breaker_open''
      else if is_cloud r \<and> \<not> cloud then ''cloud_policy_not_enabled''
      else if is_cloud r \<and> (case tiers of None \<Rightarrow> False | Some ts \<Rightarrow> pr_cost_tier r \<notin> set ts) then ''cloud_tier_disabled''
      else if is_cloud r \<and> (case policy of None \<Rightarrow> False | Some p \<Rightarrow> p \<notin> set (pr_allowed_response_policies r))
        then ''not_allowed_for_response_policy''
      else '''')"

definition policy_blocked_reason :: "provider_route \<Rightarrow> bool \<Rightarrow> string option \<Rightarrow> llm_router \<Rightarrow> string" where
  "policy_blocked_reason r cloud policy ro =
     (if pr_deployment_status r = ''disabled'' then ''deployment_disabled''
      else if \<not> pr_configured r then str_or (pr_blocked_reason r) ''not_configured''
      else if pr_provider r = None then str_or (pr_blocked_reason r) ''provider_not_built''
      else if \<not> route_enabled ro (pr_name r) then disabled_reason r ro
      else if is_cloud r \<and> \<not> cloud then ''cloud_policy_not_enabled''
      else if is_cloud r \<and> (case policy of None \<Rightarrow> False | Some p \<Rightarrow> p \<notin> set (pr_allowed_response_policies r))
        then ''not_allowed_for_response_policy''
      else ''policy_blocked'')"

record turn_request =
  tq_force_secondary :: bool
  tq_cloud_allowed :: bool
  tq_response_policy :: "string option"
  tq_task :: "string option"
  tq_session_id :: "string option"
  tq_context_cloud_eligible :: bool
  tq_require_tools :: bool

definition selection_blocked_reason :: "rat \<Rightarrow> turn_request \<Rightarrow> string \<Rightarrow> provider_route \<Rightarrow> llm_router \<Rightarrow> string" where
  "selection_blocked_reason now q strategy r ro =
     (if is_free_route r then ''free_tier_excluded''
      else if strategy = ''local_only'' \<and> is_cloud r then ''strategy_local_only''
      else if tq_require_tools q \<and> \<not> reliable_tool_calling r then ''tool_calling_not_supported''
      else if strategy = ''cloud_only'' \<and> \<not> is_cloud r then ''strategy_cloud_only''
      else if tq_force_secondary q \<and> \<not> is_cloud r then ''force_secondary''
      else if is_cloud r \<and> \<not> tq_context_cloud_eligible q then ''context_cloud_ineligible''
      else if route_temporarily_blocked r ro then ''circuit_breaker_open''
      else if \<not> route_allowed r (tq_cloud_allowed q) (tq_response_policy q) None ro
        then policy_blocked_reason r (tq_cloud_allowed q) (tq_response_policy q) ro
      else runtime_selection_blocked_reason now r ro)"

section \<open>Circuit breakers\<close>

definition circuit_breaker_status :: "llm_router \<Rightarrow> (string \<times> bool \<times> int) list" where
  "circuit_breaker_status ro = fold (\<lambda>r d. dict_set (route_key r)
     (route_key r \<in> ro_route_breakers ro, case dict_get (ro_route_errors ro) (route_key r) of None \<Rightarrow> 0 | Some n \<Rightarrow> n) d)
     (all_routes ro) []"

definition trip_breaker :: "llm_router \<Rightarrow> llm_router" where
  "trip_breaker ro = ro\<lparr>ro_breaker_open := True\<rparr>"

definition serves_primary :: "llm_router \<Rightarrow> provider_route \<Rightarrow> bool" where
  "serves_primary ro r \<longleftrightarrow> (case pr_provider r of None \<Rightarrow> False | Some pv \<Rightarrow> pv_id pv = pv_id (ro_primary ro))"

text \<open>The answer of the primary's health check is a parameter; it may raise.\<close>

definition reset_breaker_if_healthy :: "bool result \<Rightarrow> llm_router \<Rightarrow> llm_router result" where
  "reset_breaker_if_healthy healthy ro =
     (if \<not> ro_breaker_open ro then Inr ro
      else case healthy of
          Inl err \<Rightarrow> Inl err
        | Inr False \<Rightarrow> Inr ro
        | Inr True \<Rightarrow>
            let keys = map route_key (filter (serves_primary ro) (ro_routes ro))
            in Inr (ro\<lparr>ro_breaker_open := False, ro_error_count := 0,
                 ro_route_breakers := ro_route_breakers ro - set keys,
                 ro_route_errors := fold (\<lambda>k d. dict_set k 0 d) keys (ro_route_errors ro)\<rparr>))"

definition route_error_count :: "string \<Rightarrow> llm_router \<Rightarrow> int" where
  "route_error_count key ro = (case dict_get (ro_route_errors ro) key of None \<Rightarrow> 0 | Some n \<Rightarrow> n)"

definition record_route_failure :: "provider_route \<Rightarrow> llm_router \<Rightarrow> llm_router" where
  "record_route_failure r ro =
     (let key = route_key r; n = route_error_count key ro + 1;
          ro1 = ro\<lparr>ro_error_count := ro_error_count ro + 1, ro_route_errors := dict_set key n (ro_route_errors ro)\<rparr>
      in if n \<ge> ro_error_threshold ro
         then let ro2 = ro1\<lparr>ro_route_breakers := insert key (ro_route_breakers ro1)\<rparr>
              in if serves_primary ro r then trip_breaker ro2 else ro2
         else ro1)"

section \<open>Generation slots and the published decision\<close>

definition concurrency_snapshot_of :: "llm_router \<Rightarrow> concurrency_snapshot" where
  "concurrency_snapshot_of ro = \<lparr>cs_policy = ro_concurrency ro, cs_active_total = ro_active_total ro,
     cs_active_local = ro_active_local ro, cs_active_cloud = ro_active_cloud ro\<rparr>"

definition publish_decision :: "route_decision \<Rightarrow> llm_router \<Rightarrow> llm_router" where
  "publish_decision d ro = ro\<lparr>ro_last_decision := Some d\<rparr>"

definition record_generation_blocked :: "provider_route \<Rightarrow> route_decision \<times> llm_router \<Rightarrow> route_decision \<times> llm_router" where
  "record_generation_blocked r = (\<lambda>(d, ro).
     let d1 = d\<lparr>dg_generation_blocked := dg_generation_blocked d @ [pr_name r],
                dg_candidates := map (\<lambda>c. if cl_name c = pr_name r then c\<lparr>cl_blocked_reason := ''generation_concurrency_limit''\<rparr> else c)
                  (dg_candidates d),
                dg_concurrency := concurrency_snapshot_of ro\<rparr>
     in (d1, publish_decision d1 ro))"

definition try_start_generation :: "provider_route \<Rightarrow> route_decision \<times> llm_router \<Rightarrow> bool \<times> route_decision \<times> llm_router" where
  "try_start_generation r = (\<lambda>(d, ro).
     if \<not> can_start (ro_concurrency ro) (pr_cost_tier r) (ro_active_total ro) (ro_active_local ro) (ro_active_cloud ro)
     then (False, record_generation_blocked r (d, ro))
     else let ro1 = ro\<lparr>ro_active_total := ro_active_total ro + 1\<rparr>;
              ro2 = (if is_cloud r then ro1\<lparr>ro_active_cloud := ro_active_cloud ro + 1\<rparr>
                     else ro1\<lparr>ro_active_local := ro_active_local ro + 1\<rparr>);
              d1 = d\<lparr>dg_concurrency := concurrency_snapshot_of ro2\<rparr>
          in (True, d1, publish_decision d1 ro2))"

definition finish_generation :: "provider_route \<Rightarrow> route_decision \<times> llm_router \<Rightarrow> route_decision \<times> llm_router" where
  "finish_generation r = (\<lambda>(d, ro).
     let ro1 = ro\<lparr>ro_active_total := max 0 (ro_active_total ro - 1)\<rparr>;
         ro2 = (if is_cloud r then ro1\<lparr>ro_active_cloud := max 0 (ro_active_cloud ro - 1)\<rparr>
                else ro1\<lparr>ro_active_local := max 0 (ro_active_local ro - 1)\<rparr>);
         d1 = d\<lparr>dg_concurrency := concurrency_snapshot_of ro2\<rparr>
     in (d1, publish_decision d1 ro2))"

definition record_route_selected :: "provider_route \<Rightarrow> route_decision \<times> llm_router \<Rightarrow> route_decision \<times> llm_router" where
  "record_route_selected r = (\<lambda>(d, ro).
     let d1 = d\<lparr>dg_selected_route := pr_name r\<rparr> in (d1, publish_decision d1 ro))"

section \<open>The status list\<close>

record route_status =
  st_route :: provider_route
  st_admin_enabled :: bool
  st_health :: health_payload
  st_callable :: bool
  st_blocked_reason :: string
  st_runtime :: "runtime_status option"

definition should_check_health :: "provider_route \<Rightarrow> bool \<Rightarrow> llm_router \<Rightarrow> bool" where
  "should_check_health r check_disabled_local ro \<longleftrightarrow> pr_provider r \<noteq> None \<and> pr_configured r
     \<and> (route_enabled ro (pr_name r) \<or> (check_disabled_local \<and> \<not> is_cloud r))"

definition status_of ::
  "health_env \<Rightarrow> string option \<Rightarrow> bool \<Rightarrow> string list option \<Rightarrow> bool \<Rightarrow> bool \<Rightarrow> provider_route \<Rightarrow> llm_router \<Rightarrow> route_status \<times> llm_router" where
  "status_of e policy cloud tiers force check_disabled_local r ro =
     (let (h, ro1) = (case pr_provider r of
            Some pv \<Rightarrow> if should_check_health r check_disabled_local ro then provider_health e force pv r ro else (unchecked_health, ro)
          | None \<Rightarrow> (unchecked_health, ro))
      in (\<lparr>st_route = r, st_admin_enabled = route_enabled ro1 (pr_name r), st_health = h,
           st_callable = (hp_model_available h \<and> route_allowed r cloud policy tiers ro1 \<and> \<not> route_temporarily_blocked r ro1),
           st_blocked_reason = route_blocked_reason r h cloud policy tiers ro1, st_runtime = runtime_status_in r (Some h) ro1\<rparr>, ro1))"

fun statuses_of ::
  "health_env \<Rightarrow> string option \<Rightarrow> bool \<Rightarrow> string list option \<Rightarrow> bool \<Rightarrow> bool \<Rightarrow> provider_route list \<Rightarrow> llm_router
   \<Rightarrow> route_status list \<times> llm_router" where
  "statuses_of e policy cloud tiers force cdl [] ro = ([], ro)"
| "statuses_of e policy cloud tiers force cdl (r # rs) ro =
     (let (x, ro1) = status_of e policy cloud tiers force cdl r ro; (xs, ro2) = statuses_of e policy cloud tiers force cdl rs ro1
      in (x # xs, ro2))"

definition provider_statuses ::
  "health_env \<Rightarrow> string option \<Rightarrow> bool \<Rightarrow> string list option \<Rightarrow> bool \<Rightarrow> bool \<Rightarrow> llm_router \<Rightarrow> route_status list \<times> llm_router" where
  "provider_statuses e policy cloud tiers force cdl ro = statuses_of e policy cloud tiers force cdl (all_routes ro) ro"

end
