(* ===== verification/RouteOrder.thy ===== *)
theory RouteOrder
  imports RouterState
begin

text \<open>
  The order in which the router tries its routes (\<open>core/router.py\<close>, lines 630 to 1147): the
  lane of a turn is resolved against the catalogue, winners without a configured route are
  synthesized, every route passes the one gate, and the score decides. What the code reads
  from the process, the deployment bundle and the caches is the record \<open>order_env\<close>.
\<close>

section \<open>The inputs\<close>

text \<open>The names and the default of the contract package, which is not part of the repository.\<close>

record llm_contract =
  lc_openrouter_api_key :: string
  lc_openrouter_base_url :: string
  lc_default_openrouter_base_url :: string

record order_env =
  oe_environ :: environ
  oe_contract :: llm_contract
  oe_monotonic :: rat
  oe_wall :: rat
  oe_utc :: utc
  oe_str :: "json \<Rightarrow> string"
  oe_validate :: "string \<Rightarrow> (string \<times> json) list \<Rightarrow> lane option"
  oe_lanes :: lane_file
  oe_transports :: transport_file
  oe_catalog :: cache_file

definition capability_routing_enabled :: "environ \<Rightarrow> bool" where
  "capability_routing_enabled env =
     (let raw = lower (strip (getenv_or env ''ENABLE_CAPABILITY_ROUTING'' '''')) in
      if raw = '''' then True
      else if raw \<in> {''1'', ''true'', ''yes'', ''on''} then True
      else if raw \<in> {''0'', ''false'', ''no'', ''off''} then False
      else True)"

definition transports_of :: "order_env \<Rightarrow> transport_map" where
  "transports_of e = load_transport_map (oe_str e) (oe_environ e) (oe_transports e)"

definition catalog_of :: "order_env \<Rightarrow> catalog_model list result" where
  "catalog_of e = load_cached_catalog_sync (oe_str e) (oe_wall e) (oe_catalog e) DEFAULT_TTL_SECONDS True"

definition lane_for :: "order_env \<Rightarrow> string option \<Rightarrow> lane result" where
  "lane_for e task =
     bind_result (load_lanes (oe_validate e) (oe_lanes e)) (\<lambda>lanes.
       let name = (case map_of TASK_LANES (strip (opt_str_or task '''')) of Some l \<Rightarrow> l | None \<Rightarrow> DEFAULT_LANE)
       in case dict_get lanes name of Some l \<Rightarrow> Inr l
          | None \<Rightarrow> (case dict_get lanes DEFAULT_LANE of Some l \<Rightarrow> Inr l | None \<Rightarrow> Inl (KeyError DEFAULT_LANE)))"

definition openrouter_credentials :: "order_env \<Rightarrow> string \<times> string" where
  "openrouter_credentials e =
     (let c = oe_contract e in
      (strip (getenv_or (oe_environ e) (lc_openrouter_api_key c) ''''),
       str_or (strip (getenv_or (oe_environ e) (lc_openrouter_base_url c) '''')) (lc_default_openrouter_base_url c)))"

section \<open>Routes made from the catalogue\<close>

definition catalog_cost_tier :: "catalog_model \<Rightarrow> string" where
  "catalog_cost_tier m = (if cm_completion_price m * 1000000 > SYNTHESIZED_PREMIUM_COMPLETION_PRICE then ''premium'' else ''low_cost'')"

definition synthesized_provider :: "string \<Rightarrow> nat \<Rightarrow> provider" where
  "synthesized_provider base_url n = \<lparr>pv_id = n, pv_class = ''OpenAICompatibleProvider'', pv_base_url = base_url,
     pv_max_tokens = SYNTHESIZED_MAX_OUTPUT_TOKENS, pv_closable = True, pv_rekeyable = True\<rparr>"

definition synthesized_route :: "provider \<Rightarrow> catalog_model \<Rightarrow> provider_route" where
  "synthesized_route p m =
     (let tools = supports m ''tools'';
          quality = (if (case cm_agentic_index m of None \<Rightarrow> 0 | Some x \<Rightarrow> x) \<ge> SYNTHESIZED_STRONG_TOOL_AGENTIC_INDEX then ''strong''
                     else if tools then ''ok'' else ''none'')
      in (plain_route (SYNTHESIZED_ROUTE_PREFIX @ cm_id m) (Some p) ''openrouter'' (cm_id m) ''secondary'' (catalog_cost_tier m)
            (SYNTHESIZED_RESPONSE_POLICIES (catalog_cost_tier m)))
         \<lparr>pr_routing_priority := 0, pr_configured := True, pr_deployment_status := ''active'', pr_runtime_group := ''openrouter'',
          pr_enabled_by_default := True, pr_capabilities := [''chat'', ''rag_answering''] @ (if tools then [''tools''] else []),
          pr_tool_calling_quality := quality, pr_input_price := cm_prompt_price m * 1000000,
          pr_output_price := cm_completion_price m * 1000000, pr_provider_budget_id := ''openrouter'', pr_catalog_derived := True\<rparr>)"

text \<open>Built once per model; \<open>None\<close> when there is no key.\<close>

definition synthesized_base_route :: "order_env \<Rightarrow> catalog_model \<Rightarrow> llm_router \<Rightarrow> provider_route option \<times> llm_router" where
  "synthesized_base_route e m ro =
     (case dict_get (ro_synthesized ro) (cm_id m) of
        Some r \<Rightarrow> (Some r, ro)
      | None \<Rightarrow> (let (key, base_url) = openrouter_credentials e in
          if key = '''' then (None, ro)
          else let r = synthesized_route (synthesized_provider base_url (ro_next_provider ro)) m
               in (Some r, ro\<lparr>ro_synthesized := dict_set (cm_id m) r (ro_synthesized ro), ro_next_provider := Suc (ro_next_provider ro)\<rparr>)))"

text \<open>The checks on the id that would be dispatched.\<close>

definition may_synthesize :: "string list \<Rightarrow> candidate \<Rightarrow> bool" where
  "may_synthesize pins c =
     (let m = cd_model c in
      if cm_id m \<in> set pins then False
      else if is_free_tier_model (cm_id m) \<or> is_batch_tier m \<or> is_router_pseudo_model m then False
      else cd_cost_per_turn_usd c > 0)"

definition repriced :: "catalog_model \<Rightarrow> string list \<Rightarrow> provider_route \<Rightarrow> provider_route" where
  "repriced m recommended r = r\<lparr>pr_cost_tier := catalog_cost_tier m,
     pr_allowed_response_policies := SYNTHESIZED_RESPONSE_POLICIES (catalog_cost_tier m),
     pr_input_price := cm_prompt_price m * 1000000, pr_output_price := cm_completion_price m * 1000000,
     pr_recommended_for := recommended\<rparr>"

fun synthesize_each ::
  "order_env \<Rightarrow> string list \<Rightarrow> candidate list \<Rightarrow> provider_route list \<Rightarrow> llm_router \<Rightarrow> provider_route list \<times> llm_router" where
  "synthesize_each e recommended [] acc ro = (acc, ro)"
| "synthesize_each e recommended (c # cs) acc ro =
     (case synthesized_base_route e (cd_model c) ro of
        (None, ro1) \<Rightarrow> ([], ro1)
      | (Some base, ro1) \<Rightarrow> synthesize_each e recommended cs (acc @ [repriced (cd_model c) recommended base]) ro1)"

definition pinned_ids :: "order_env \<Rightarrow> llm_router \<Rightarrow> string list" where
  "pinned_ids e ro = map (\<lambda>r. catalog_id (transports_of e) (pr_model r)) (filter is_cloud (ro_routes ro))"

definition recommended_tasks :: "provider_route list \<Rightarrow> string option \<Rightarrow> string list" where
  "recommended_tasks cloud task =
     (case task of None \<Rightarrow> []
      | Some t \<Rightarrow> if list_ex (\<lambda>r. task_matches task (pr_recommended_for r)) cloud \<and> t \<noteq> '''' then [t] else [])"

definition synthesize_cloud_routes ::
  "order_env \<Rightarrow> candidate list \<Rightarrow> provider_route list \<Rightarrow> string option \<Rightarrow> llm_router \<Rightarrow> provider_route list \<times> llm_router" where
  "synthesize_cloud_routes e cands cloud task ro =
     synthesize_each e (recommended_tasks cloud task) (filter (may_synthesize (pinned_ids e ro)) cands) [] ro"

section \<open>Scores\<close>

definition provider_budget_headroom :: "string \<Rightarrow> llm_router \<Rightarrow> rat" where
  "provider_budget_headroom pid ro = (case ro_budget ro of MultiGate m \<Rightarrow> headroom m pid | _ \<Rightarrow> 1)"

definition quality_bonus :: "string \<Rightarrow> int" where
  "quality_bonus q = (if q = ''ok'' then 100 else if q = ''strong'' then 250 else 0)"

definition route_score ::
  "rat \<Rightarrow> provider_route \<Rightarrow> string option \<Rightarrow> string \<Rightarrow> (string \<Rightarrow> int option) \<Rightarrow> llm_router \<Rightarrow> int" where
  "route_score now r task strategy prio ro =
     (let st = clean_routing_strategy (Some (str_or strategy (ro_strategy ro)));
          base = (case prio (pr_name r) of Some n \<Rightarrow> n | None \<Rightarrow> pr_routing_priority r)
      in base + cost_adjustment st (pr_cost_tier r)
         + (if task_matches task (pr_recommended_for r) then 1000 else 0)
         - (if task_matches task (pr_avoid_for r) then 2000 else 0)
         + (if reliable_tool_calling r then quality_bonus (pr_tool_calling_quality r) else 0)
         + (case ro_runtime ro of None \<Rightarrow> 0 | Some rc \<Rightarrow> runtime_score_adjustment rc r (cached_provider_health now r ro))
         + (if pr_preferred_provider_id r \<noteq> '''' \<and> pr_preferred_provider_id r = pr_provider_budget_id r
            then py_trunc (50 * provider_budget_headroom (pr_preferred_provider_id r) ro) else 0))"

definition candidate_diagnostic :: "rat \<Rightarrow> string option \<Rightarrow> string \<Rightarrow> llm_router \<Rightarrow> provider_route \<times> string \<Rightarrow> candidate_line" where
  "candidate_diagnostic now task strategy ro = (\<lambda>(r, blocked).
     \<lparr>cl_name = pr_name r, cl_model = pr_model r, cl_cost_tier = pr_cost_tier r, cl_deployment_status = pr_deployment_status r,
      cl_runtime_group = pr_runtime_group r, cl_enabled = route_enabled ro (pr_name r), cl_supports_tools = supports_tools r,
      cl_tool_calling_quality = pr_tool_calling_quality r,
      cl_score = (if blocked \<noteq> '''' then None else Some (route_score now r task strategy (\<lambda>_. None) ro)),
      cl_blocked_reason = blocked, cl_recommended_match = task_matches task (pr_recommended_for r),
      cl_avoid_match = task_matches task (pr_avoid_for r), cl_catalog_derived = pr_catalog_derived r,
      cl_runtime = runtime_status_in r (cached_provider_health now r ro) ro\<rparr>)"

section \<open>The order of the cloud routes\<close>

definition failing :: "llm_router \<Rightarrow> provider_route \<Rightarrow> bool" where
  "failing ro r \<longleftrightarrow> route_key r \<in> ro_route_breakers ro \<or> route_error_count (route_key r) ro \<ge> ro_error_threshold ro"

definition benched_ids :: "order_env \<Rightarrow> provider_route list \<Rightarrow> llm_router \<Rightarrow> string list" where
  "benched_ids e cloud ro =
     map (\<lambda>r. catalog_id (transports_of e) (pr_model r)) (filter (failing ro) (cloud @ filter is_cloud (ro_routes ro)))
     @ map pr_model (filter (failing ro) (map snd (ro_synthesized ro)))"

definition resolution_for ::
  "order_env \<Rightarrow> lane \<Rightarrow> catalog_model list \<Rightarrow> string \<Rightarrow> provider_route list \<Rightarrow> llm_router \<Rightarrow> resolution" where
  "resolution_for e lane catalog strategy cloud ro =
     resolve_lane \<lparr>rr_lane = lane, rr_catalog = catalog,
       rr_tier = (case map_of STRATEGY_TIERS (clean_routing_strategy (Some strategy)) of Some t \<Rightarrow> t | None \<Rightarrow> ''auto''),
       rr_benched = benched_ids e cloud ro, rr_observed = (\<lambda>_. None), rr_now = oe_utc e\<rparr>"

text \<open>\<open>{candidate.id: position ...}\<close>: the last position of an id wins.\<close>

definition rank_of :: "candidate list \<Rightarrow> string \<Rightarrow> nat option" where
  "rank_of cs = map_of (rev (zip (map cd_id cs) [0..<length cs]))"

definition lane_order :: "transport_map \<Rightarrow> catalog_model list \<Rightarrow> candidate list \<Rightarrow> provider_route list \<Rightarrow> provider_route list" where
  "lane_order t catalog cs routes =
     (let cid = (\<lambda>r. catalog_id t (pr_model r)); kind = (\<lambda>r. transport_kind t (pr_model r));
          rank = (\<lambda>r. case rank_of cs (cid r) of Some p \<Rightarrow> p | None \<Rightarrow> 0);
          known = (\<lambda>r. if cid r \<in> set (map cm_id catalog) then 0 else (1::nat))
      in sort_key (\<lambda>r. (rank r, kind r)) (filter (\<lambda>r. rank_of cs (cid r) \<noteq> None) routes)
         @ sort_key (\<lambda>r. (known r, kind r)) (filter (\<lambda>r. rank_of cs (cid r) = None) routes))"

text \<open>
  The one gate of a turn. \<open>capability_order\<close> returns the new order, \<open>None\<close> where the code
  returns the list it was given, with the lines and the report of the decision.
\<close>

definition turn_gate :: "rat \<Rightarrow> turn_request \<Rightarrow> provider_route \<Rightarrow> llm_router \<Rightarrow> string" where
  "turn_gate now q r ro = selection_blocked_reason now q (ro_strategy ro) r ro"

definition capability_order ::
  "order_env \<Rightarrow> turn_request \<Rightarrow> provider_route list \<Rightarrow> llm_router
   \<Rightarrow> (provider_route list option \<times> candidate_line list \<times> lane_report \<times> llm_router) result" where
  "capability_order e q cloud ro =
     bind_result (lane_for e (tq_task q)) (\<lambda>lane.
     bind_result (catalog_of e) (\<lambda>catalog.
       let t = transports_of e; strategy = ro_strategy ro; now = oe_monotonic e;
           res = resolution_for e lane catalog strategy cloud ro;
           (made, ro1) = synthesize_cloud_routes e (rs_candidates res) cloud (tq_task q) ro;
           judged = map (\<lambda>r. (r, turn_gate now q r ro1)) made;
           candidates = cloud @ map fst (filter (\<lambda>x. snd x = '''') judged);
           ordered = lane_order t catalog (rs_candidates res) candidates;
           report = \<lparr>lr_lane = ln_name lane, lr_tier = rs_tier res, lr_objective = rs_objective res,
                     lr_synthesized = map pr_name (filter pr_catalog_derived candidates),
                     lr_rejected = filter (\<lambda>x. rj_model_id x \<in> set (map (\<lambda>r. catalog_id t (pr_model r)) cloud)) (rs_rejections res)\<rparr>
       in Inr (if ordered = [] then None else Some ordered,
               map (candidate_diagnostic now (tq_task q) strategy ro1) judged, report, ro1)))"

text \<open>The numbers of the cloud family dealt again, in the order of the lane.\<close>

definition anchors_of :: "provider_route list \<Rightarrow> provider_route list \<Rightarrow> int list" where
  "anchors_of cloud reordered = rev (sort (map pr_routing_priority cloud @ map pr_routing_priority (filter pr_catalog_derived reordered)))"

definition lane_priorities :: "provider_route list \<Rightarrow> provider_route list \<Rightarrow> string \<Rightarrow> int option" where
  "lane_priorities cloud reordered =
     (let anchors = anchors_of cloud reordered in
      map_of (rev (map (\<lambda>(i, r). (pr_name r, if i < length anchors then anchors ! i else 0))
        (zip [0..<length reordered] reordered))))"

section \<open>The order of a turn\<close>

definition by_score :: "(provider_route \<Rightarrow> int) \<Rightarrow> provider_route list \<Rightarrow> provider_route list" where
  "by_score f = sort_key (\<lambda>r. - f r)"

definition strategy_order ::
  "string \<Rightarrow> (provider_route \<Rightarrow> int) \<Rightarrow> provider_route list \<Rightarrow> provider_route list \<Rightarrow> provider_route list \<Rightarrow> provider_route list" where
  "strategy_order strategy f local_rs cloud_rs all_rs =
     (if strategy = ''prefer_local'' then by_score f local_rs @ by_score f cloud_rs
      else if strategy = ''prefer_cloud_quality'' then by_score f cloud_rs @ by_score f local_rs
      else by_score f all_rs)"

definition plain_decision_record :: "turn_request \<Rightarrow> llm_router \<Rightarrow> route_decision" where
  "plain_decision_record q ro = \<lparr>dg_routing_strategy = ro_strategy ro, dg_force_secondary = tq_force_secondary q,
     dg_cloud_allowed = tq_cloud_allowed q, dg_response_policy = tq_response_policy q, dg_task = tq_task q,
     dg_context_cloud_eligible = tq_context_cloud_eligible q, dg_require_tools = tq_require_tools q, dg_candidates = [],
     dg_ordered_routes = [], dg_selected_route = '''', dg_empty_reason = '''', dg_concurrency = concurrency_snapshot_of ro,
     dg_generation_blocked = [], dg_capability = None\<rparr>"

definition ordered_routes ::
  "order_env \<Rightarrow> bool \<Rightarrow> turn_request \<Rightarrow> llm_router \<Rightarrow> (provider_route list \<times> route_decision \<times> llm_router) result" where
  "ordered_routes e publish q ro =
     (let strategy = ro_strategy ro; now = oe_monotonic e; d0 = plain_decision_record q ro;
          judged = map (\<lambda>r. (r, turn_gate now q r ro)) (ro_routes ro);
          routes = map fst (filter (\<lambda>x. snd x = '''') judged);
          lines = map (candidate_diagnostic now (tq_task q) strategy ro) judged;
          local_rs = filter (\<lambda>r. \<not> is_cloud r) routes; cloud_rs = filter is_cloud routes;
          finish = (\<lambda>(all_rs, cloud2, prio, lines2, report, ro1).
            let ordered = strategy_order strategy (\<lambda>r. route_score now r (tq_task q) strategy prio ro1) local_rs cloud2 all_rs;
                d = d0\<lparr>dg_candidates := lines @ lines2, dg_capability := report, dg_ordered_routes := map pr_name ordered,
                       dg_empty_reason := (if ordered = [] \<and> tq_force_secondary q \<and> strategy = ''local_only''
                         then ''force_secondary_conflicts_with_local_only'' else '''')\<rparr>
            in (ordered, d, if publish then publish_decision d ro1 else ro1))
      in if \<not> capability_routing_enabled (oe_environ e) then Inr (finish (routes, cloud_rs, (\<lambda>_. None), [], None, ro))
         else bind_result (capability_order e q cloud_rs ro) (\<lambda>(order, lines2, report, ro1).
           Inr (finish (case order of
               None \<Rightarrow> (routes, cloud_rs, (\<lambda>_. None), lines2, Some report, ro1)
             | Some rs \<Rightarrow> (local_rs @ rs, rs, lane_priorities cloud_rs rs, lines2, Some report, ro1)))))"

definition has_tool_capable_route ::
  "order_env \<Rightarrow> bool \<Rightarrow> string option \<Rightarrow> string option \<Rightarrow> bool \<Rightarrow> llm_router \<Rightarrow> (bool \<times> llm_router) result" where
  "has_tool_capable_route e cloud policy task eligible ro =
     bind_result (ordered_routes e False \<lparr>tq_force_secondary = False, tq_cloud_allowed = cloud, tq_response_policy = policy,
         tq_task = task, tq_session_id = None, tq_context_cloud_eligible = eligible, tq_require_tools = True\<rparr> ro)
       (\<lambda>(rs, _, ro1). Inr (rs \<noteq> [], ro1))"

end
