(* ===== verification/RouterTurn.thy ===== *)
theory RouterTurn
  imports RouteOrder
begin

text \<open>
  One call of the router (\<open>core/router.py\<close>, lines 1255 to 1596): \<open>chat\<close> and \<open>stream_chat\<close>, the
  health gate of local routes, the budget gate of cloud routes, the call, the booking of its
  usage, the failure count. What a provider answers is a parameter, and so is what other
  turns do to the router while this one waits. The list of events is a ghost: it records
  what was asked of the budget and what left for a provider.
\<close>

section \<open>Messages and answers\<close>

type_synonym chat_message = "(string \<times> json) list"

definition message_text :: "(json \<Rightarrow> string) \<Rightarrow> chat_message \<Rightarrow> string" where
  "message_text rep m = json_str rep (case map_of m ''content'' of Some v \<Rightarrow> v | None \<Rightarrow> JStr '''')"

definition estimate_input_tokens :: "(json \<Rightarrow> string) \<Rightarrow> chat_message list \<Rightarrow> int" where
  "estimate_input_tokens rep msgs = max 1 (ceiling (of_nat (length (join '' '' (map (message_text rep) msgs))) / (4::rat)))"

text \<open>
  An answer is a dict with its content and its tool calls, or a vendor's object with typed
  blocks; either may carry usage.
\<close>

record content_block =
  bk_type :: string
  bk_text :: string
  bk_id :: string
  bk_name :: string
  bk_input :: json

datatype response =
    DictResponse "string option" "(int option \<times> int option) option" "json list"
  | ObjectResponse "content_block list" "(int option \<times> int option) option"

fun extract_usage :: "response \<Rightarrow> int option \<times> int option" where
  "extract_usage (DictResponse _ u _) = (case u of None \<Rightarrow> (None, None) | Some x \<Rightarrow> x)"
| "extract_usage (ObjectResponse _ u) = (case u of None \<Rightarrow> (None, None) | Some x \<Rightarrow> x)"

fun response_text :: "response \<Rightarrow> string" where
  "response_text (DictResponse c _ _) = opt_str_or c ''''"
| "response_text (ObjectResponse blocks _) = (case find (\<lambda>b. bk_type b = ''text'') blocks of None \<Rightarrow> '''' | Some b \<Rightarrow> bk_text b)"

text \<open>A chunk: text; a dict with the deltas of its choices and its own content; an event object.\<close>

datatype chunk = TextChunk string | DictChunk "string option list" "string option" | EventChunk "string option" string

fun chunk_text :: "chunk \<Rightarrow> string" where
  "chunk_text (TextChunk s) = s"
| "chunk_text (DictChunk choices content) = (case choices of c # _ \<Rightarrow> opt_str_or c '''' | [] \<Rightarrow> opt_str_or content '''')"
| "chunk_text (EventChunk delta txt) = (case delta of Some d \<Rightarrow> if d \<noteq> '''' then d else txt | None \<Rightarrow> txt)"

record stream_answer =
  sa_chunks :: "chunk list"
  sa_raises :: "py_error option"

definition LOCAL_UNAVAILABLE :: string where
  "LOCAL_UNAVAILABLE = ''The local model is temporarily unavailable. Cloud escalation is not available for this session. Please try again shortly.''"

definition SENSITIVE_CONTEXT_LOCAL_REQUIRED :: string where
  "SENSITIVE_CONTEXT_LOCAL_REQUIRED = ''This context is marked local-only, so I cannot send it to a cloud model. The local model is unavailable right now. Please retry when local inference is healthy or ask an operator to review the source privacy settings.''"

definition degraded_text :: "turn_request \<Rightarrow> string" where
  "degraded_text q = (if \<not> tq_context_cloud_eligible q then SENSITIVE_CONTEXT_LOCAL_REQUIRED else LOCAL_UNAVAILABLE)"

section \<open>What a call reads\<close>

text \<open>
  One entry per route that is tried. \<open>se_probe_others\<close>, \<open>se_call_others\<close> and
  \<open>se_stream_others\<close> are what the other turns did during the probe, until the answer (or its
  first chunk) came, and during the rest of a stream.
\<close>

record step_env =
  se_health :: health_env
  se_reserve :: budget_env
  se_record :: budget_env
  se_answer :: "provider \<Rightarrow> py_error + response"
  se_stream :: "provider \<Rightarrow> stream_answer"
  se_probe_others :: "llm_router \<Rightarrow> llm_router"
  se_call_others :: "llm_router \<Rightarrow> llm_router"
  se_stream_others :: "llm_router \<Rightarrow> llm_router"

record turn_env =
  te_order :: order_env
  te_primary_healthy :: "bool result"
  te_headroom :: budget_env
  te_step :: "nat \<Rightarrow> step_env"

datatype turn_event =
    Refused provider_route
  | Reserved provider_route
  | SentCloud provider_route int
  | SentLocal provider_route

datatype attempt = Skipped | Answered response | Failed py_error

section \<open>The budget gate of a cloud route\<close>

definition nonzero :: "rat \<Rightarrow> rat option" where
  "nonzero x = (if x = 0 then None else Some x)"

definition spend_config :: "router_budget \<Rightarrow> cloud_budget_config option" where
  "spend_config b = (case b of NoBudget \<Rightarrow> None | SingleGate g \<Rightarrow> Some (cg_config g) | MultiGate m \<Rightarrow> Some (multi_config m))"

definition cloud_max_tokens :: "provider_route \<Rightarrow> llm_router \<Rightarrow> int" where
  "cloud_max_tokens r ro =
     (let own = (case pr_provider r of None \<Rightarrow> 0 | Some pv \<Rightarrow> pv_max_tokens pv) in
      case spend_config (ro_budget ro) of
        None \<Rightarrow> own
      | Some cfg \<Rightarrow> if cb_enabled cfg \<and> cb_max_output_tokens_per_call cfg > 0 then cb_max_output_tokens_per_call cfg else own)"

definition reserve_for :: "budget_env \<Rightarrow> int \<Rightarrow> turn_request \<Rightarrow> provider_route \<Rightarrow> llm_router \<Rightarrow> reserve_request" where
  "reserve_for e n_in q r ro = \<lparr>rq_env = e, rq_session_id = tq_session_id q, rq_input_tokens = n_in,
     rq_output_tokens = cloud_max_tokens r ro, rq_input_price = nonzero (pr_input_price r), rq_output_price = nonzero (pr_output_price r)\<rparr>"

text \<open>A \<open>ProviderBudgetGate\<close> has no \<open>reserve\<close>.\<close>

definition cloud_spend_allowed ::
  "budget_env \<Rightarrow> int \<Rightarrow> turn_request \<Rightarrow> provider_route \<Rightarrow> llm_router \<Rightarrow> (bool \<times> llm_router) result" where
  "cloud_spend_allowed e n_in q r ro =
     (if \<not> is_cloud r \<or> \<not> route_allowed r (tq_cloud_allowed q) (tq_response_policy q) None ro then Inr (False, ro)
      else let rq = reserve_for e n_in q r ro in
        case ro_budget ro of
          NoBudget \<Rightarrow> Inr (False, ro)
        | SingleGate g \<Rightarrow> (case reserve rq g of (d, g1) \<Rightarrow> Inr (allowed d, ro\<lparr>ro_budget := SingleGate g1\<rparr>))
        | MultiGate m \<Rightarrow> (case gate_for m (Some (pr_provider_budget_id r)) of
              ProviderGate _ \<Rightarrow> Inl (Raised ''AttributeError'')
            | GlobalGate g \<Rightarrow> (case on_global g (reserve rq) m of (d, m1) \<Rightarrow> Inr (allowed d, ro\<lparr>ro_budget := MultiGate m1\<rparr>))
            | FreshGate \<Rightarrow> Inr (allowed (fst (reserve rq (new_cloud_gate (mg_env m) default_cloud_config (sf_budget (mg_file m))))), ro)))"

definition book_usage ::
  "budget_env \<Rightarrow> turn_request \<Rightarrow> provider_route \<Rightarrow> provider \<Rightarrow> response \<Rightarrow> llm_router \<Rightarrow> llm_router result" where
  "book_usage e q r pv resp ro =
     (case extract_usage resp of (n_in, n_out) \<Rightarrow>
        (case ro_budget ro of
           NoBudget \<Rightarrow> Inr ro
         | SingleGate g \<Rightarrow> Inr (ro\<lparr>ro_budget := SingleGate (snd (gate_record_usage e
               \<lparr>rp_session_id = tq_session_id q, rp_provider = pv_class pv, rp_model = pr_model r, rp_input_tokens = n_in,
                rp_output_tokens = n_out, rp_input_price = nonzero (pr_input_price r), rp_output_price = nonzero (pr_output_price r)\<rparr> g))\<rparr>)
         | MultiGate m \<Rightarrow> bind_result (multi_record_usage e
               \<lparr>mu_session_id = tq_session_id q, mu_provider = pv_class pv, mu_model = pr_model r, mu_input_tokens = n_in,
                mu_output_tokens = n_out, mu_input_price = nonzero (pr_input_price r), mu_output_price = nonzero (pr_output_price r),
                mu_provider_id = Some (pr_provider_budget_id r)\<rparr> m) (\<lambda>m1. Inr (ro\<lparr>ro_budget := MultiGate m1\<rparr>))))"

section \<open>Calls\<close>

text \<open>The body of an attempt: the decision record and the router in, the outcome and the events out.\<close>

type_synonym attempt_body = "route_decision \<times> llm_router \<Rightarrow> attempt \<times> (route_decision \<times> llm_router) \<times> turn_event list"

definition cloud_attempt :: "step_env \<Rightarrow> int \<Rightarrow> turn_request \<Rightarrow> provider_route \<Rightarrow> provider \<Rightarrow> attempt_body" where
  "cloud_attempt s n_in q r pv = (\<lambda>(d, ro).
     case cloud_spend_allowed (se_reserve s) n_in q r ro of
       Inl err \<Rightarrow> (Failed err, (d, ro), [])
     | Inr (ok, ro1) \<Rightarrow>
         if \<not> ok then (Skipped, (d, ro1), [Refused r])
         else let ev = [Reserved r, SentCloud r (cloud_max_tokens r ro1)]; ro2 = se_call_others s ro1 in
           case se_answer s pv of
             Inl err \<Rightarrow> (Failed err, (d, ro2), ev)
           | Inr resp \<Rightarrow> (case book_usage (se_record s) q r pv resp ro2 of
                 Inl err \<Rightarrow> (Failed err, (d, ro2), ev)
               | Inr ro3 \<Rightarrow> (Answered resp, record_route_selected r (d, ro3), ev)))"

definition local_attempt :: "step_env \<Rightarrow> provider_route \<Rightarrow> provider \<Rightarrow> attempt_body" where
  "local_attempt s r pv = (\<lambda>(d, ro).
     let ro1 = se_call_others s ro in
     case se_answer s pv of
       Inl err \<Rightarrow> (Failed err, (d, ro1), [SentLocal r])
     | Inr resp \<Rightarrow> (Answered resp, record_route_selected r (d, ro1), [SentLocal r]))"

definition in_slot :: "provider_route \<Rightarrow> attempt_body \<Rightarrow> attempt_body" where
  "in_slot r body x =
     (case try_start_generation r x of (started, x1) \<Rightarrow>
        if \<not> started then (Skipped, x1, [])
        else case body x1 of (a, x2, ev) \<Rightarrow> (a, finish_generation r x2, ev))"

text \<open>The probe of a local route. \<open>provider_health\<close> turns every exception into a payload.\<close>

definition local_route_callable :: "step_env \<Rightarrow> provider_route \<Rightarrow> llm_router \<Rightarrow> bool \<times> llm_router" where
  "local_route_callable s r ro =
     (if is_cloud r then (True, ro)
      else case pr_provider r of None \<Rightarrow> (True, ro)
        | Some pv \<Rightarrow> (case provider_health (se_health s) False pv r ro of (h, ro1) \<Rightarrow> (hp_model_available h, se_probe_others s ro1)))"

section \<open>Chat\<close>

fun chat_loop ::
  "(nat \<Rightarrow> step_env) \<Rightarrow> int \<Rightarrow> turn_request \<Rightarrow> nat \<Rightarrow> provider_route list \<Rightarrow> route_decision \<times> llm_router
   \<Rightarrow> response option \<times> (route_decision \<times> llm_router) \<times> turn_event list" where
  "chat_loop se n_in q i [] x = (None, x, [])"
| "chat_loop se n_in q i (r # rs) (d, ro) =
     (case pr_provider r of
        None \<Rightarrow> chat_loop se n_in q (Suc i) rs (d, ro)
      | Some pv \<Rightarrow>
          (case local_route_callable (se i) r ro of (up, ro1) \<Rightarrow>
             if \<not> up then chat_loop se n_in q (Suc i) rs (d, ro1)
             else (case in_slot r (if is_cloud r then cloud_attempt (se i) n_in q r pv else local_attempt (se i) r pv) (d, ro1) of
                 (Answered resp, x, ev) \<Rightarrow> (Some resp, x, ev)
               | (Skipped, x, ev) \<Rightarrow> (case chat_loop se n_in q (Suc i) rs x of (a, y, evs) \<Rightarrow> (a, y, ev @ evs))
               | (Failed err, (d1, ro2), ev) \<Rightarrow>
                   (case chat_loop se n_in q (Suc i) rs (d1, record_route_failure r ro2) of (a, y, evs) \<Rightarrow> (a, y, ev @ evs)))))"

definition refreshed :: "budget_env \<Rightarrow> llm_router \<Rightarrow> llm_router" where
  "refreshed e ro = (case ro_budget ro of MultiGate m \<Rightarrow> ro\<lparr>ro_budget := MultiGate (refresh_headroom_cache e m)\<rparr> | _ \<Rightarrow> ro)"

text \<open>The router after the breaker reset and the refresh of the headroom, and the order it then has.\<close>

definition prepare_turn :: "turn_env \<Rightarrow> turn_request \<Rightarrow> llm_router \<Rightarrow> (provider_route list \<times> route_decision \<times> llm_router) result" where
  "prepare_turn e q ro =
     bind_result (reset_breaker_if_healthy (te_primary_healthy e) ro) (\<lambda>ro1.
       ordered_routes (te_order e) True q (refreshed (te_headroom e) ro1))"

definition chat ::
  "turn_env \<Rightarrow> chat_message list \<Rightarrow> turn_request \<Rightarrow> llm_router \<Rightarrow> (response \<times> llm_router \<times> turn_event list) result" where
  "chat e msgs q ro =
     bind_result (prepare_turn e q ro) (\<lambda>(rs, x).
       case chat_loop (te_step e) (estimate_input_tokens (oe_str (te_order e)) msgs) q 0 rs x of
         (Some resp, (_, ro1), ev) \<Rightarrow> Inr (resp, ro1, ev)
       | (None, (_, ro1), ev) \<Rightarrow> Inr (DictResponse (Some (degraded_text q)) None [], ro1, ev))"

section \<open>Streaming\<close>

text \<open>
  The chunks that were yielded, and how the generator ended. The first nonempty text
  publishes the route.
\<close>

definition local_stream ::
  "step_env \<Rightarrow> provider_route \<Rightarrow> provider \<Rightarrow> route_decision \<times> llm_router
   \<Rightarrow> string list \<times> attempt \<times> (route_decision \<times> llm_router) \<times> turn_event list" where
  "local_stream s r pv = (\<lambda>x.
     case try_start_generation r x of (started, d, ro) \<Rightarrow>
       if \<not> started then ([], Skipped, (d, ro), [])
       else let answer = se_stream s pv; texts = filter (\<lambda>t. t \<noteq> '''') (map chunk_text (sa_chunks answer));
                (d1, ro1) = (if texts \<noteq> [] \<or> sa_raises answer = None then record_route_selected r (d, se_call_others s ro)
                             else (d, se_call_others s ro));
                y = finish_generation r (d1, se_stream_others s ro1)
            in case sa_raises answer of
                 None \<Rightarrow> (texts, Answered (DictResponse None None []), y, [SentLocal r])
               | Some err \<Rightarrow> (texts, Failed err, y, [SentLocal r]))"

fun stream_loop ::
  "(nat \<Rightarrow> step_env) \<Rightarrow> int \<Rightarrow> turn_request \<Rightarrow> nat \<Rightarrow> provider_route list \<Rightarrow> route_decision \<times> llm_router
   \<Rightarrow> string list \<times> unit result \<times> llm_router \<times> turn_event list" where
  "stream_loop se n_in q i [] (d, ro) =
     ([degraded_text q], Inr (), (if ro_error_count ro \<ge> ro_error_threshold ro then trip_breaker ro else ro), [])"
| "stream_loop se n_in q i (r # rs) (d, ro) =
     (case pr_provider r of
        None \<Rightarrow> stream_loop se n_in q (Suc i) rs (d, ro)
      | Some pv \<Rightarrow>
          if is_cloud r
          then (case in_slot r (cloud_attempt (se i) n_in q r pv) (d, ro) of
              (Answered resp, (_, ro1), ev) \<Rightarrow> ([response_text resp], Inr (), ro1, ev)
            | (Failed err, (_, ro1), ev) \<Rightarrow> ([], Inl err, ro1, ev)
            | (Skipped, x, ev) \<Rightarrow> (case stream_loop se n_in q (Suc i) rs x of (ts, a, y, evs) \<Rightarrow> (ts, a, y, ev @ evs)))
          else (case local_route_callable (se i) r ro of (up, ro1) \<Rightarrow>
              if \<not> up then stream_loop se n_in q (Suc i) rs (d, ro1)
              else (case local_stream (se i) r pv (d, ro1) of
                  (texts, Answered _, (_, ro2), ev) \<Rightarrow> (texts, Inr (), ro2, ev)
                | (texts, Skipped, x, ev) \<Rightarrow> (case stream_loop se n_in q (Suc i) rs x of (ts, a, y, evs) \<Rightarrow> (ts, a, y, ev @ evs))
                | (texts, Failed err, (d2, ro2), ev) \<Rightarrow>
                    let ro3 = record_route_failure r ro2 in
                    if texts \<noteq> [] then (texts, Inl err, ro3, ev)
                    else (case stream_loop se n_in q (Suc i) rs (d2, ro3) of (ts, a, y, evs) \<Rightarrow> (ts, a, y, ev @ evs)))))"

text \<open>An error of the preparation is the outer one, as in \<open>chat\<close>; the inner one ends a generator that ran.\<close>

definition stream_chat ::
  "turn_env \<Rightarrow> chat_message list \<Rightarrow> turn_request \<Rightarrow> llm_router
   \<Rightarrow> (string list \<times> unit result \<times> llm_router \<times> turn_event list) result" where
  "stream_chat e msgs q ro =
     bind_result (prepare_turn e q ro) (\<lambda>(rs, x).
       Inr (stream_loop (te_step e) (estimate_input_tokens (oe_str (te_order e)) msgs) q 0 rs x))"

end
