(* ===== verification/RouterSamples.thy ===== *)
theory RouterSamples
  imports RouterTurn
begin

text \<open>A small deployment: one local model, one cloud model, a budget gate, and the inputs of a calm turn.\<close>

definition local_provider :: provider where
  "local_provider = \<lparr>pv_id = 0, pv_class = ''LlamaCppProvider'', pv_base_url = ''http://llm'', pv_max_tokens = 512,
     pv_closable = True, pv_rekeyable = False\<rparr>"

definition cloud_provider :: provider where
  "cloud_provider = \<lparr>pv_id = 1, pv_class = ''AnthropicProvider'', pv_base_url = ''https://api'', pv_max_tokens = 1000,
     pv_closable = True, pv_rekeyable = True\<rparr>"

definition local_route :: provider_route where
  "local_route = plain_route ''local'' (Some local_provider) ''llama_cpp'' ''qwen'' ''primary'' ''local''
     [''local_only'', ''local_then_low_cost'']"

definition cloud_route :: provider_route where
  "cloud_route = plain_route ''claude'' (Some cloud_provider) ''anthropic'' ''claude'' ''secondary'' ''premium''
     [''local_then_low_cost'']"

definition sample_router :: llm_router where
  "sample_router = new_router local_provider 2 (SingleGate sample_gate) [local_route, cloud_route] None 30 None
     (concurrency_from_env (\<lambda>_. None)) 2"

definition quiet_step :: "(provider \<Rightarrow> py_error + response) \<Rightarrow> step_env" where
  "quiet_step answer = \<lparr>se_health = \<lparr>he_monotonic = 0, he_wall = 0, he_answer = (\<lambda>_. PlainAnswer True)\<rparr>, se_reserve = calm 0,
     se_record = calm 0, se_answer = answer, se_stream = (\<lambda>_. \<lparr>sa_chunks = [TextChunk ''hi''], sa_raises = None\<rparr>),
     se_probe_others = id, se_call_others = id, se_stream_others = id\<rparr>"

definition order_inputs :: "environ \<Rightarrow> order_env" where
  "order_inputs env = \<lparr>oe_environ = env, oe_contract = \<lparr>lc_openrouter_api_key = ''OPENROUTER_API_KEY'',
     lc_openrouter_base_url = ''OPENROUTER_BASE_URL'', lc_default_openrouter_base_url = ''https://openrouter.ai/api/v1''\<rparr>,
     oe_monotonic = 0, oe_wall = 0, oe_utc = 0, oe_str = (\<lambda>_. ''''), oe_validate = (\<lambda>_ _. None), oe_lanes = NoLaneFile,
     oe_transports = NoTransportFile, oe_catalog = CacheMissing\<rparr>"

text \<open>Static routing, and routing by lane with a key for the aggregator.\<close>

definition static_inputs :: order_env where
  "static_inputs = order_inputs ((\<lambda>_. None)(''ENABLE_CAPABILITY_ROUTING'' := Some ''0''))"

definition lane_inputs :: order_env where
  "lane_inputs = order_inputs ((\<lambda>_. None)(''OPENROUTER_API_KEY'' := Some ''key''))"

definition sample_turn :: "order_env \<Rightarrow> (provider \<Rightarrow> py_error + response) \<Rightarrow> turn_env" where
  "sample_turn oe answer = \<lparr>te_order = oe, te_primary_healthy = Inr True, te_headroom = calm 0, te_step = (\<lambda>_. quiet_step answer)\<rparr>"

definition cloud_request :: turn_request where
  "cloud_request = \<lparr>tq_force_secondary = False, tq_cloud_allowed = True, tq_response_policy = Some ''local_then_low_cost'',
     tq_task = None, tq_session_id = Some ''s'', tq_context_cloud_eligible = True, tq_require_tools = False\<rparr>"

text \<open>The cloud model answers, with its usage; the local one fails.\<close>

definition only_cloud_answers :: "provider \<Rightarrow> py_error + response" where
  "only_cloud_answers pv = (if pv_id pv = 0 then Inl (Raised ''ConnectError'')
     else Inr (DictResponse (Some ''hello'') (Some (Some 10, Some 20)) []))"

end
