(* ===== verification/RouterRules.thy ===== *)
theory RouterRules
  imports RouterSamples
begin

text \<open>
  What the router promises about the routes of a turn: every route that is tried passed the
  one gate, configured or made from the catalogue; nothing leaves for a cloud model unless
  the turn allows it and a reservation admitted it; the capability order loses no route;
  routes made from the catalogue cleared the lane.
\<close>

section \<open>The gate\<close>

text \<open>What the gate guarantees of a route, whatever the state of the router.\<close>

definition route_open :: "turn_request \<Rightarrow> string \<Rightarrow> provider_route \<Rightarrow> bool" where
  "route_open q st r \<longleftrightarrow> \<not> is_free_route r \<and> pr_configured r \<and> pr_provider r \<noteq> None \<and> pr_deployment_status r \<noteq> ''disabled''
     \<and> (st = ''local_only'' \<longrightarrow> \<not> is_cloud r) \<and> (st = ''cloud_only'' \<or> tq_force_secondary q \<longrightarrow> is_cloud r)
     \<and> (tq_require_tools q \<longrightarrow> reliable_tool_calling r)
     \<and> (is_cloud r \<longrightarrow> tq_context_cloud_eligible q \<and> tq_cloud_allowed q
          \<and> (case tq_response_policy q of None \<Rightarrow> True | Some p \<Rightarrow> p \<in> set (pr_allowed_response_policies r)))"

lemma policy_blocked_nonempty [simp]: "policy_blocked_reason r c p ro \<noteq> ''''"
  by (auto simp: policy_blocked_reason_def disabled_reason_def str_or_def split: option.splits if_splits)

lemma gate_allows: "turn_gate now q r ro = '''' \<Longrightarrow> route_allowed r (tq_cloud_allowed q) (tq_response_policy q) None ro"
  unfolding turn_gate_def selection_blocked_reason_def by (auto split: if_splits)

lemma allowedD:
  "route_allowed r c p ts ro \<Longrightarrow> \<not> is_free_route r \<and> pr_configured r \<and> pr_provider r \<noteq> None \<and> pr_deployment_status r \<noteq> ''disabled''
     \<and> (is_cloud r \<longrightarrow> c \<and> (case p of None \<Rightarrow> True | Some x \<Rightarrow> x \<in> set (pr_allowed_response_policies r)))"
  unfolding route_allowed_def by (auto split: if_splits option.splits)

lemma gate_open: "turn_gate now q r ro = '''' \<Longrightarrow> route_open q (ro_strategy ro) r"
  using allowedD [OF gate_allows [of now q r ro]]
  unfolding route_open_def turn_gate_def selection_blocked_reason_def by (auto split: if_splits)

section \<open>The order\<close>

lemma set_by_score [simp]: "set (by_score f rs) = set rs" and mset_by_score [simp]: "mset (by_score f rs) = mset rs"
  by (simp_all add: by_score_def)

lemma set_strategy_order: "set (strategy_order st f l c a) \<subseteq> set l \<union> set c \<union> set a"
  by (auto simp: strategy_order_def)

lemma mset_lane_order [simp]: "mset (lane_order t cat cs rs) = mset rs"
  using multiset_partition [of "mset rs" "\<lambda>r. rank_of cs (catalog_id t (pr_model r)) \<noteq> None"]
  by (simp add: lane_order_def Let_def mset_filter)

lemma set_lane_order [simp]: "set (lane_order t cat cs rs) = set rs"
  using mset_lane_order by (metis set_mset_mset)

lemma base_route_keeps:
  "synthesized_base_route e m ro = (x, ro1) \<Longrightarrow> ro_strategy ro1 = ro_strategy ro \<and> ro_routes ro1 = ro_routes ro"
  by (auto simp: synthesized_base_route_def Let_def split: option.splits prod.splits if_splits)

lemma synthesize_each_keeps:
  "synthesize_each e rec cs acc ro = (rs, ro1) \<Longrightarrow> ro_strategy ro1 = ro_strategy ro \<and> ro_routes ro1 = ro_routes ro"
  by (induction e rec cs acc ro rule: synthesize_each.induct) (auto split: prod.splits option.splits dest!: base_route_keeps)

lemma synthesize_keeps:
  "synthesize_cloud_routes e cs cloud task ro = (rs, ro1) \<Longrightarrow> ro_strategy ro1 = ro_strategy ro \<and> ro_routes ro1 = ro_routes ro"
  unfolding synthesize_cloud_routes_def by (rule synthesize_each_keeps)

text \<open>What \<open>capability_order\<close> returns, over the routes it made.\<close>

definition lane_result ::
  "order_env \<Rightarrow> turn_request \<Rightarrow> provider_route list \<Rightarrow> llm_router \<Rightarrow> lane \<Rightarrow> catalog_model list
   \<Rightarrow> provider_route list \<Rightarrow> llm_router \<Rightarrow> provider_route list" where
  "lane_result e q cloud ro lane catalog made ro1 =
     lane_order (transports_of e) catalog (rs_candidates (resolution_for e lane catalog (ro_strategy ro) cloud ro))
       (cloud @ filter (\<lambda>r. turn_gate (oe_monotonic e) q r ro1 = '''') made)"

lemma capability_orderE:
  assumes "capability_order e q cloud ro = Inr (order, lines, report, ro1)"
  obtains lane catalog made where "lane_for e (tq_task q) = Inr lane" and "catalog_of e = Inr catalog"
    and "synthesize_cloud_routes e (rs_candidates (resolution_for e lane catalog (ro_strategy ro) cloud ro)) cloud (tq_task q) ro
          = (made, ro1)"
    and "order = (if lane_result e q cloud ro lane catalog made ro1 = [] then None else Some (lane_result e q cloud ro lane catalog made ro1))"
proof -
  from assms obtain lane where l: "lane_for e (tq_task q) = Inr lane"
  proof (cases "lane_for e (tq_task q)")
    case (Inl err)
    then show thesis using assms by (simp add: capability_order_def)
  qed
  from assms l obtain catalog where c: "catalog_of e = Inr catalog"
  proof (cases "catalog_of e")
    case (Inl err)
    then show thesis using assms l by (simp add: capability_order_def)
  qed
  obtain made ro2 where m: "synthesize_cloud_routes e (rs_candidates (resolution_for e lane catalog (ro_strategy ro) cloud ro)) cloud (tq_task q) ro
      = (made, ro2)" by (metis surj_pair)
  have "map fst (filter (\<lambda>x. snd x = '''') (map (\<lambda>r. (r, turn_gate (oe_monotonic e) q r ro2)) made))
      = filter (\<lambda>r. turn_gate (oe_monotonic e) q r ro2 = '''') made"
    by (simp add: filter_map o_def)
  then have "ro2 = ro1" and "order = (if lane_result e q cloud ro lane catalog made ro2 = [] then None
      else Some (lane_result e q cloud ro lane catalog made ro2))"
    using assms by (auto simp: capability_order_def l c m lane_result_def Let_def)
  with l c m show ?thesis by (intro that) auto
qed

text \<open>What \<open>ordered_routes\<close> orders: the routes the gate let through, and the gated ones made from the catalogue.\<close>

definition gated_routes :: "rat \<Rightarrow> turn_request \<Rightarrow> llm_router \<Rightarrow> provider_route list" where
  "gated_routes now q ro = filter (\<lambda>r. turn_gate now q r ro = '''') (ro_routes ro)"

lemma gated_routes_open: "r \<in> set (gated_routes now q ro) \<Longrightarrow> route_open q (ro_strategy ro) r"
  by (auto simp: gated_routes_def dest: gate_open)

definition unpublished :: "llm_router \<Rightarrow> llm_router" where
  "unpublished ro = ro\<lparr>ro_last_decision := None\<rparr>"

text \<open>The order of a turn is a permutation of the routes that passed the gate.\<close>

lemma mset_strategy_order:
  "mset (strategy_order st f l c a) = (if st = ''prefer_local'' \<or> st = ''prefer_cloud_quality'' then mset l + mset c else mset a)"
  by (simp add: strategy_order_def union_commute)

lemma mset_split: "mset (filter (\<lambda>x. \<not> P x) xs) + mset (filter P xs) = mset xs"
  using multiset_partition [of "mset xs" P] by (simp add: mset_filter union_commute)

lemma gated_of_judged:
  "map fst (filter (\<lambda>x. snd x = '''') (map (\<lambda>r. (r, turn_gate now q r ro)) (ro_routes ro))) = gated_routes now q ro"
  by (simp add: gated_routes_def filter_map o_def)

lemma ordered_routesE:
  assumes "ordered_routes e pub q ro = Inr (rs, d, ro1)"
  obtains (plain) "mset rs = mset (gated_routes (oe_monotonic e) q ro)" and "unpublished ro1 = unpublished ro"
      and "\<not> capability_routing_enabled (oe_environ e)"
  | (lane) lane catalog made ro2 where "lane_for e (tq_task q) = Inr lane" and "catalog_of e = Inr catalog"
    and "synthesize_cloud_routes e (rs_candidates (resolution_for e lane catalog (ro_strategy ro)
            (filter is_cloud (gated_routes (oe_monotonic e) q ro)) ro)) (filter is_cloud (gated_routes (oe_monotonic e) q ro)) (tq_task q) ro
          = (made, ro2)"
    and "mset rs = mset (gated_routes (oe_monotonic e) q ro) + mset (filter (\<lambda>r. turn_gate (oe_monotonic e) q r ro2 = '''') made)"
    and "unpublished ro1 = unpublished ro2"
proof (cases "capability_routing_enabled (oe_environ e)")
  case False
  then have "rs = strategy_order (ro_strategy ro) (\<lambda>r. route_score (oe_monotonic e) r (tq_task q) (ro_strategy ro) (\<lambda>_. None) ro)
      (filter (\<lambda>r. \<not> is_cloud r) (gated_routes (oe_monotonic e) q ro)) (filter is_cloud (gated_routes (oe_monotonic e) q ro))
      (gated_routes (oe_monotonic e) q ro)" and "unpublished ro1 = unpublished ro"
    using assms by (auto simp: ordered_routes_def Let_def gated_of_judged publish_decision_def unpublished_def)
  then show ?thesis using False by (intro plain) (simp_all add: mset_strategy_order mset_split)
next
  case True
  let ?g = "gated_routes (oe_monotonic e) q ro"
  let ?c = "filter is_cloud ?g"
  obtain order lines report ro2 where cap: "capability_order e q ?c ro = Inr (order, lines, report, ro2)"
    using assms True by (cases "capability_order e q ?c ro") (auto simp: ordered_routes_def Let_def gated_of_judged)
  then obtain lane catalog made where parts: "lane_for e (tq_task q) = Inr lane" "catalog_of e = Inr catalog"
      "synthesize_cloud_routes e (rs_candidates (resolution_for e lane catalog (ro_strategy ro) ?c ro)) ?c (tq_task q) ro = (made, ro2)"
    and order: "order = (if lane_result e q ?c ro lane catalog made ro2 = [] then None else Some (lane_result e q ?c ro lane catalog made ro2))"
    by (rule capability_orderE)
  let ?x = "filter (\<lambda>r. turn_gate (oe_monotonic e) q r ro2 = '''') made"
  have res: "mset (lane_result e q ?c ro lane catalog made ro2) = mset ?c + mset ?x"
    by (simp add: lane_result_def)
  have un: "unpublished ro1 = unpublished ro2"
    using assms True cap by (auto simp: ordered_routes_def Let_def gated_of_judged publish_decision_def unpublished_def split: option.splits)
  have "mset rs = mset ?g + mset ?x"
  proof (cases order)
    case None
    then have e: "?c = []" "?x = []" using order res by (auto split: if_splits)
    have "rs = strategy_order (ro_strategy ro) (\<lambda>r. route_score (oe_monotonic e) r (tq_task q) (ro_strategy ro) (\<lambda>_. None) ro2)
        (filter (\<lambda>r. \<not> is_cloud r) ?g) ?c ?g"
      using assms True cap None by (simp add: ordered_routes_def Let_def gated_of_judged)
    then show ?thesis using e(2) by (simp add: mset_strategy_order mset_split)
  next
    case (Some l)
    then have "mset l = mset ?c + mset ?x" using order res by (auto split: if_splits)
    moreover have "mset (filter (\<lambda>r. \<not> is_cloud r) ?g) + (mset ?c + mset ?x) = mset ?g + mset ?x"
      using mset_split [of is_cloud ?g] by (metis union_assoc)
    moreover have "rs = strategy_order (ro_strategy ro) (\<lambda>r. route_score (oe_monotonic e) r (tq_task q) (ro_strategy ro) (lane_priorities ?c l) ro2)
        (filter (\<lambda>r. \<not> is_cloud r) ?g) l (filter (\<lambda>r. \<not> is_cloud r) ?g @ l)"
      using assms True cap Some by (simp add: ordered_routes_def Let_def gated_of_judged)
    ultimately show ?thesis by (simp add: mset_strategy_order)
  qed
  with parts un show ?thesis by (intro lane) auto
qed

text \<open>Only the lanes and the catalogue can raise.\<close>

lemma capability_order_total:
  "lane_for e (tq_task q) = Inr l \<Longrightarrow> catalog_of e = Inr c \<Longrightarrow> \<exists>x. capability_order e q cloud ro = Inr x"
  by (simp add: capability_order_def Let_def split_beta)

lemma ordered_routes_total:
  assumes "lane_for e (tq_task q) = Inr l" and "catalog_of e = Inr c"
  shows "\<exists>x. ordered_routes e pub q ro = Inr x"
proof -
  obtain x where "capability_order e q (filter is_cloud (gated_routes (oe_monotonic e) q ro)) ro = Inr x"
    using capability_order_total [OF assms] by blast
  then show ?thesis by (simp add: ordered_routes_def Let_def split_beta gated_of_judged)
qed

lemma ordered_routes_open:
  assumes "ordered_routes e pub q ro = Inr (rs, d, ro1)" and "r \<in> set rs"
  shows "route_open q (ro_strategy ro) r"
  using assms(1)
proof (cases rule: ordered_routesE)
  case plain
  then show ?thesis using assms(2) by (metis gated_routes_open set_mset_mset)
next
  case (lane l c made ro2)
  then have "set rs = set (gated_routes (oe_monotonic e) q ro) \<union> set (filter (\<lambda>r. turn_gate (oe_monotonic e) q r ro2 = '''') made)"
    by (metis set_mset_mset set_mset_union)
  then show ?thesis using assms(2) gate_open [of "oe_monotonic e" q r ro2] synthesize_keeps [OF lane(3)]
    by (auto dest: gated_routes_open)
qed

section \<open>What leaves the router\<close>

text \<open>The events of one call, streamed or not; an error before the first route leaves none.\<close>

definition turn_events :: "bool \<Rightarrow> turn_env \<Rightarrow> chat_message list \<Rightarrow> turn_request \<Rightarrow> llm_router \<Rightarrow> turn_event list" where
  "turn_events streamed e msgs q ro =
     (if streamed then (case stream_chat e msgs q ro of Inl _ \<Rightarrow> [] | Inr (_, _, _, ev) \<Rightarrow> ev)
      else (case chat e msgs q ro of Inl _ \<Rightarrow> [] | Inr (_, _, ev) \<Rightarrow> ev))"

fun event_route :: "turn_event \<Rightarrow> provider_route" where
  "event_route (Refused r) = r" | "event_route (Reserved r) = r" | "event_route (SentCloud r _) = r" | "event_route (SentLocal r) = r"

text \<open>An event about a cloud route is a cloud event.\<close>

fun event_kind_ok :: "turn_event \<Rightarrow> bool" where
  "event_kind_ok (SentLocal r) = (\<not> is_cloud r)"
| "event_kind_ok ev = is_cloud (event_route ev)"

lemma cloud_attempt_events:
  "cloud_attempt s n_in q r pv x = (a, y, ev) \<Longrightarrow> z \<in> set ev \<Longrightarrow> event_route z = r \<and> (\<nexists>r'. z = SentLocal r')"
  by (cases x) (auto simp: cloud_attempt_def Let_def split: sum.splits if_splits)

lemma local_attempt_events: "local_attempt s r pv x = (a, y, ev) \<Longrightarrow> z \<in> set ev \<Longrightarrow> z = SentLocal r"
  by (cases x) (auto simp: local_attempt_def Let_def split: sum.splits if_splits)

lemma in_slot_events:
  "in_slot r body x = (a, y, ev) \<Longrightarrow> z \<in> set ev \<Longrightarrow> \<exists>x1 a1 y1. body x1 = (a1, y1, ev)"
  by (auto simp: in_slot_def split: prod.splits if_splits) blast

lemma slot_cloud_events:
  assumes "in_slot r (cloud_attempt s n_in q r pv) x = (a, y, ev)" "is_cloud r" "z \<in> set ev"
  shows "event_route z = r \<and> event_kind_ok z"
proof -
  obtain x1 a1 y1 where "cloud_attempt s n_in q r pv x1 = (a1, y1, ev)"
    using in_slot_events [OF assms(1,3)] by blast
  from cloud_attempt_events [OF this assms(3)] assms(2) show ?thesis by (cases z) auto
qed

lemma slot_local_events:
  assumes "in_slot r (local_attempt s r pv) x = (a, y, ev)" "\<not> is_cloud r" "z \<in> set ev"
  shows "event_route z = r \<and> event_kind_ok z"
proof -
  obtain x1 a1 y1 where "local_attempt s r pv x1 = (a1, y1, ev)"
    using in_slot_events [OF assms(1,3)] by blast
  from local_attempt_events [OF this assms(3)] assms(2) show ?thesis by auto
qed

lemma local_stream_events:
  "local_stream s r pv x = (ts, a, y, ev) \<Longrightarrow> \<not> is_cloud r \<Longrightarrow> z \<in> set ev \<Longrightarrow> event_route z = r \<and> event_kind_ok z"
  by (auto simp: local_stream_def Let_def split: prod.splits if_splits option.splits)

text \<open>One round of the two loops.\<close>

definition attempt_of :: "step_env \<Rightarrow> int \<Rightarrow> turn_request \<Rightarrow> provider_route \<Rightarrow> provider \<Rightarrow> attempt_body" where
  "attempt_of s n_in q r pv = in_slot r (if is_cloud r then cloud_attempt s n_in q r pv else local_attempt s r pv)"

lemma chat_loopE:
  assumes "chat_loop se n_in q i (r # rs) (d, ro) = (a, y, ev)"
  obtains (unbuilt) "chat_loop se n_in q (Suc i) rs (d, ro) = (a, y, ev)"
  | (down) "chat_loop se n_in q (Suc i) rs (d, snd (local_route_callable (se i) r ro)) = (a, y, ev)"
  | (answered) pv resp where "pr_provider r = Some pv"
      "attempt_of (se i) n_in q r pv (d, snd (local_route_callable (se i) r ro)) = (Answered resp, y, ev)" "a = Some resp"
  | (skipped) pv x ev1 ev2 where "pr_provider r = Some pv"
      "attempt_of (se i) n_in q r pv (d, snd (local_route_callable (se i) r ro)) = (Skipped, x, ev1)"
      "chat_loop se n_in q (Suc i) rs x = (a, y, ev2)" "ev = ev1 @ ev2"
  | (failed) pv err d1 ro1 ev1 ev2 where "pr_provider r = Some pv"
      "attempt_of (se i) n_in q r pv (d, snd (local_route_callable (se i) r ro)) = (Failed err, (d1, ro1), ev1)"
      "chat_loop se n_in q (Suc i) rs (d1, record_route_failure r ro1) = (a, y, ev2)" "ev = ev1 @ ev2"
proof (cases "pr_provider r")
  case None
  then show ?thesis using assms by (intro unbuilt) simp
next
  case (Some pv)
  obtain up ro1 where up: "local_route_callable (se i) r ro = (up, ro1)" by fastforce
  obtain a1 d1 ro2 ev1 where b: "attempt_of (se i) n_in q r pv (d, ro1) = (a1, (d1, ro2), ev1)" by (metis surj_pair)
  obtain a2 y2 ev2 where s: "chat_loop se n_in q (Suc i) rs (d1, ro2) = (a2, y2, ev2)" by (metis surj_pair)
  obtain a3 y3 ev3 where f: "chat_loop se n_in q (Suc i) rs (d1, record_route_failure r ro2) = (a3, y3, ev3)" by (metis surj_pair)
  show ?thesis
  proof (cases up)
    case False
    then show ?thesis using assms Some up by (intro down) simp
  next
    case True
    show ?thesis
    proof (cases a1)
      case Skipped
      then show ?thesis using assms Some up True b s
        by (intro skipped [OF Some, of "(d1, ro2)" ev1 ev2]) (simp_all add: attempt_of_def)
    next
      case (Answered resp)
      then show ?thesis using assms Some up True b
        by (intro answered [OF Some, of resp]) (simp_all add: attempt_of_def)
    next
      case (Failed err)
      then show ?thesis using assms Some up True b f
        by (intro failed [OF Some, of err d1 ro2 ev1 ev3]) (simp_all add: attempt_of_def)
    qed
  qed
qed

lemma stream_loopE:
  assumes "stream_loop se n_in q i (r # rs) (d, ro) = (ts, a, y, ev)"
  obtains (unbuilt) "stream_loop se n_in q (Suc i) rs (d, ro) = (ts, a, y, ev)"
  | (down) "stream_loop se n_in q (Suc i) rs (d, snd (local_route_callable (se i) r ro)) = (ts, a, y, ev)"
  | (cloud) pv a1 x ev1 ev2 where "pr_provider r = Some pv" "is_cloud r"
      "in_slot r (cloud_attempt (se i) n_in q r pv) (d, ro) = (a1, x, ev1)" "ev = ev1 @ ev2"
      "(snd x = y \<and> ev2 = []) \<or> (a1 = Skipped \<and> stream_loop se n_in q (Suc i) rs x = (ts, a, y, ev2))"
  | (stream) pv ts1 a1 d1 ro1 ev1 ev2 where "pr_provider r = Some pv" "\<not> is_cloud r"
      "local_stream (se i) r pv (d, snd (local_route_callable (se i) r ro)) = (ts1, a1, (d1, ro1), ev1)" "ev = ev1 @ ev2"
      "(ro1 = y \<and> ev2 = []) \<or> (record_route_failure r ro1 = y \<and> ev2 = [])
        \<or> (\<exists>t. stream_loop se n_in q (Suc i) rs (d1, ro1) = (t, a, y, ev2))
        \<or> (\<exists>t. stream_loop se n_in q (Suc i) rs (d1, record_route_failure r ro1) = (t, a, y, ev2))"
proof (cases "pr_provider r")
  case None
  then show ?thesis using assms by (intro unbuilt) simp
next
  case (Some pv)
  show ?thesis
  proof (cases "is_cloud r")
    case True
    obtain a1 d1 ro2 ev1 where b: "in_slot r (cloud_attempt (se i) n_in q r pv) (d, ro) = (a1, (d1, ro2), ev1)" by (metis surj_pair)
    obtain t2 a2 y2 ev2 where s: "stream_loop se n_in q (Suc i) rs (d1, ro2) = (t2, a2, y2, ev2)" by (metis surj_pair)
    show ?thesis using assms Some True b s
      by (cases a1; intro cloud [OF Some True b, of "if a1 = Skipped then ev2 else []"]) auto
  next
    case False
    obtain up ro1 where up: "local_route_callable (se i) r ro = (up, ro1)" by fastforce
    obtain ts1 a1 d1 ro2 ev1 where b: "local_stream (se i) r pv (d, ro1) = (ts1, a1, (d1, ro2), ev1)" by (metis surj_pair)
    obtain t2 a2 y2 ev2 where s: "stream_loop se n_in q (Suc i) rs (d1, ro2) = (t2, a2, y2, ev2)" by (metis surj_pair)
    obtain t3 a3 y3 ev3 where f: "stream_loop se n_in q (Suc i) rs (d1, record_route_failure r ro2) = (t3, a3, y3, ev3)" by (metis surj_pair)
    have b': "local_stream (se i) r pv (d, snd (local_route_callable (se i) r ro)) = (ts1, a1, (d1, ro2), ev1)"
      using b up by simp
    show ?thesis
    proof (cases up)
      case unavailable: False
      then show ?thesis using assms Some False up by (intro down) simp
    next
      case True
      show ?thesis
      proof (cases a1)
        case Skipped
        then show ?thesis using assms Some False up True b s by (intro stream [OF Some False b', of ev2]) auto
      next
        case (Answered resp)
        then show ?thesis using assms Some False up True b by (intro stream [OF Some False b', of "[]"]) auto
      next
        case (Failed err)
        then show ?thesis using assms Some False up True b f
          by (intro stream [OF Some False b', of "if ts1 = [] then ev3 else []"]) (auto simp: Let_def)
      qed
    qed
  qed
qed

lemma attempt_of_events:
  "attempt_of s n_in q r pv x = (a, y, ev) \<Longrightarrow> z \<in> set ev \<Longrightarrow> event_route z = r \<and> event_kind_ok z"
  using slot_cloud_events slot_local_events unfolding attempt_of_def by (metis (full_types))

lemma chat_loop_events:
  "chat_loop se n_in q i rs x = (a, y, ev) \<Longrightarrow> z \<in> set ev \<Longrightarrow> event_route z \<in> set rs \<and> event_kind_ok z"
proof (induction rs arbitrary: i x a y ev)
  case (Cons r rs)
  obtain d ro where x: "x = (d, ro)" by fastforce
  from Cons.prems(1) [unfolded x] show ?case
  proof (cases rule: chat_loopE)
    case unbuilt
    from Cons.IH [OF this Cons.prems(2)] show ?thesis by simp
  next
    case down
    from Cons.IH [OF this Cons.prems(2)] show ?thesis by simp
  next
    case (answered pv resp)
    from attempt_of_events [OF this(2) Cons.prems(2)] show ?thesis by simp
  next
    case (skipped pv x1 ev1 ev2)
    then show ?thesis using Cons.IH [OF skipped(3)] Cons.prems(2) attempt_of_events [OF skipped(2)] by auto
  next
    case (failed pv err d1 ro1 ev1 ev2)
    then show ?thesis using Cons.IH [OF failed(3)] Cons.prems(2) attempt_of_events [OF failed(2)] by auto
  qed
qed simp

lemma stream_loop_events:
  "stream_loop se n_in q i rs x = (ts, a, y, ev) \<Longrightarrow> z \<in> set ev \<Longrightarrow> event_route z \<in> set rs \<and> event_kind_ok z"
proof (induction rs arbitrary: i x ts a y ev)
  case Nil
  then show ?case by (cases x) simp
next
  case (Cons r rs)
  obtain d ro where x: "x = (d, ro)" by fastforce
  from Cons.prems(1) [unfolded x] show ?case
  proof (cases rule: stream_loopE)
    case unbuilt
    from Cons.IH [OF this Cons.prems(2)] show ?thesis by simp
  next
    case down
    from Cons.IH [OF this Cons.prems(2)] show ?thesis by simp
  next
    case (cloud pv a1 x1 ev1 ev2)
    then show ?thesis using Cons.IH [of "Suc i" x1 ts a y ev2] Cons.prems(2) slot_cloud_events [OF cloud(3,2)] by auto
  next
    case (stream pv ts1 a1 d1 ro1 ev1 ev2)
    then show ?thesis using Cons.IH [of "Suc i" "(d1, ro1)" _ a y ev2] Cons.IH [of "Suc i" "(d1, record_route_failure r ro1)" _ a y ev2]
        Cons.prems(2) local_stream_events [OF stream(3,2)] by auto
  qed
qed

lemma prepare_turnE:
  assumes "prepare_turn e q ro = Inr (rs, d, ro1)"
  obtains ro0 where "reset_breaker_if_healthy (te_primary_healthy e) ro = Inr ro0"
    and "ordered_routes (te_order e) True q (refreshed (te_headroom e) ro0) = Inr (rs, d, ro1)"
  using assms by (cases "reset_breaker_if_healthy (te_primary_healthy e) ro") (auto simp: prepare_turn_def)

lemma reset_keeps:
  "reset_breaker_if_healthy h ro = Inr ro1 \<Longrightarrow> ro_strategy ro1 = ro_strategy ro \<and> ro_routes ro1 = ro_routes ro
    \<and> ro_budget ro1 = ro_budget ro \<and> ro_synthesized ro1 = ro_synthesized ro"
  by (auto simp: reset_breaker_if_healthy_def Let_def split: if_splits sum.splits bool.splits)

lemma refreshed_keeps [simp]:
  "ro_strategy (refreshed e ro) = ro_strategy ro" "ro_routes (refreshed e ro) = ro_routes ro"
  "ro_synthesized (refreshed e ro) = ro_synthesized ro" "ro_route_breakers (refreshed e ro) = ro_route_breakers ro"
  by (simp_all add: refreshed_def split: router_budget.splits)

lemma prepared_open:
  assumes "prepare_turn e q ro = Inr (rs, d, ro1)" and "r \<in> set rs"
  shows "route_open q (ro_strategy ro) r"
  using assms(1)
proof (rule prepare_turnE)
  fix ro0
  assume "reset_breaker_if_healthy (te_primary_healthy e) ro = Inr ro0"
    and "ordered_routes (te_order e) True q (refreshed (te_headroom e) ro0) = Inr (rs, d, ro1)"
  then show ?thesis using ordered_routes_open [OF _ assms(2)] reset_keeps by fastforce
qed

lemma turn_events_open:
  assumes "z \<in> set (turn_events streamed e msgs q ro)"
  shows "route_open q (ro_strategy ro) (event_route z) \<and> event_kind_ok z"
proof (cases "prepare_turn e q ro")
  case (Inl err)
  then show ?thesis using assms by (simp add: turn_events_def chat_def stream_chat_def split: if_splits)
next
  case (Inr p)
  obtain rs d ro1 where p: "p = (rs, d, ro1)" by (cases p) auto
  have "event_route z \<in> set rs \<and> event_kind_ok z"
    using assms Inr p chat_loop_events stream_loop_events
    by (auto simp: turn_events_def chat_def stream_chat_def split: if_splits prod.splits option.splits) metis+
  then show ?thesis using prepared_open Inr p by blast
qed

text \<open>C4: 
  Nothing is sent to a cloud model, streamed or not, unless the turn's context may go
  there, its policy allows it and the strategy is not \<open>local_only\<close>; and never to a free
  endpoint. What the other turns do meanwhile is arbitrary.
\<close>

theorem cloud_only_when_the_turn_allows_it:
  "list_all (\<lambda>z. case z of
       SentCloud r n \<Rightarrow> tq_context_cloud_eligible q \<and> tq_cloud_allowed q \<and> ro_strategy ro \<noteq> ''local_only'' \<and> \<not> is_free_route r
         \<and> tq_response_policy q \<in> insert None (Some ` set (pr_allowed_response_policies r))
     | SentLocal r \<Rightarrow> \<not> is_cloud r \<and> ro_strategy ro \<noteq> ''cloud_only'' \<and> \<not> tq_force_secondary q
     | _ \<Rightarrow> is_cloud (event_route z)) (turn_events streamed e msgs q ro)"
  unfolding list_all_iff
proof
  fix z
  assume "z \<in> set (turn_events streamed e msgs q ro)"
  from turn_events_open [OF this] show "case z of
       SentCloud r n \<Rightarrow> tq_context_cloud_eligible q \<and> tq_cloud_allowed q \<and> ro_strategy ro \<noteq> ''local_only'' \<and> \<not> is_free_route r
         \<and> tq_response_policy q \<in> insert None (Some ` set (pr_allowed_response_policies r))
     | SentLocal r \<Rightarrow> \<not> is_cloud r \<and> ro_strategy ro \<noteq> ''cloud_only'' \<and> \<not> tq_force_secondary q
     | _ \<Rightarrow> is_cloud (event_route z)"
    by (cases z) (auto simp: route_open_def split: option.splits)
qed

section \<open>Routes made from the catalogue\<close>

text \<open>The cache of synthesized routes holds, under each id, a catalogue route for that id.\<close>

definition synth_ok :: "llm_router \<Rightarrow> bool" where
  "synth_ok ro \<longleftrightarrow> (\<forall>(k, r) \<in> set (ro_synthesized ro). pr_model r = k \<and> pr_catalog_derived r)"

lemma synth_ok_new: "synth_ok (new_router p t b rs st ttl rc cp n)"
  by (simp add: synth_ok_def new_router_def)

lemma set_dict_set: "set (dict_set k v d) \<subseteq> insert (k, v) (set d)"
  by (induction d) (auto simp: dict_set_def)

lemma dict_get_mem: "dict_get d k = Some v \<Longrightarrow> (k, v) \<in> set d"
  by (induction d) (auto simp: dict_get_def split: if_splits)

lemma base_route_ok:
  assumes "synthesized_base_route e m ro = (x, ro1)" and "synth_ok ro"
  shows "synth_ok ro1 \<and> (case x of None \<Rightarrow> True | Some r \<Rightarrow> pr_model r = cm_id m \<and> pr_catalog_derived r)"
proof (cases "dict_get (ro_synthesized ro) (cm_id m)")
  case (Some r)
  then have "x = Some r" "ro1 = ro" using assms(1) by (simp_all add: synthesized_base_route_def)
  then show ?thesis using assms(2) dict_get_mem [OF Some] by (auto simp: synth_ok_def)
next
  case None
  let ?r = "synthesized_route (synthesized_provider (snd (openrouter_credentials e)) (ro_next_provider ro)) m"
  have "pr_model ?r = cm_id m \<and> pr_catalog_derived ?r"
    by (simp add: synthesized_route_def Let_def plain_route_def)
  then show ?thesis using assms None set_dict_set [of "cm_id m" ?r "ro_synthesized ro"]
    by (auto simp: synthesized_base_route_def synth_ok_def Let_def split: prod.splits if_splits)
qed

lemma synthesize_each_ok:
  assumes "synthesize_each e rec cs acc ro = (made, ro1)" and "synth_ok ro"
  shows "synth_ok ro1 \<and> (\<forall>r \<in> set made. r \<in> set acc \<or> (\<exists>c \<in> set cs. pr_model r = cd_id c \<and> pr_catalog_derived r))"
  using assms
proof (induction e rec cs acc ro arbitrary: made ro1 rule: synthesize_each.induct)
  case (2 e rec c cs acc ro)
  obtain x ro2 where b: "synthesized_base_route e (cd_model c) ro = (x, ro2)" by fastforce
  note ok = base_route_ok [OF b 2(3)]
  show ?case
  proof (cases x)
    case None
    then show ?thesis using 2(2) b ok by auto
  next
    case (Some base)
    have "synthesize_each e rec cs (acc @ [repriced (cd_model c) rec base]) ro2 = (made, ro1)"
      using 2(2) b Some by simp
    moreover have "pr_model (repriced (cd_model c) rec base) = cd_id c \<and> pr_catalog_derived (repriced (cd_model c) rec base)"
      using ok Some by (simp add: repriced_def cd_id_def)
    ultimately show ?thesis using 2(1) [OF b [symmetric] Some] ok by fastforce
  qed
qed simp

lemma synthesize_ok:
  assumes "synthesize_cloud_routes e cs cloud task ro = (made, ro1)" and "synth_ok ro"
  shows "synth_ok ro1" and "r \<in> set made \<Longrightarrow> pr_catalog_derived r
    \<and> (\<exists>c \<in> set cs. may_synthesize (pinned_ids e ro) c \<and> pr_model r = cd_id c)"
  using synthesize_each_ok [OF assms(1) [unfolded synthesize_cloud_routes_def] assms(2)] by auto

lemma synth_ok_cong: "unpublished ro1 = unpublished ro2 \<Longrightarrow> synth_ok ro1 = synth_ok ro2"
proof -
  assume "unpublished ro1 = unpublished ro2"
  then have "ro_synthesized (unpublished ro1) = ro_synthesized (unpublished ro2)" by simp
  then show ?thesis by (simp add: synth_ok_def unpublished_def)
qed

lemma ordered_routes_synth_ok: "ordered_routes e pub q ro = Inr (rs, d, ro1) \<Longrightarrow> synth_ok ro \<Longrightarrow> synth_ok ro1"
  by (erule ordered_routesE) (auto dest: synth_ok_cong synthesize_ok(1))

text \<open>The routes that were configured.\<close>

definition all_configured :: "llm_router \<Rightarrow> bool" where
  "all_configured ro \<longleftrightarrow> list_all (\<lambda>r. \<not> pr_catalog_derived r) (ro_routes ro)"

lemma gated_not_derived: "all_configured ro \<Longrightarrow> r \<in> set (gated_routes now q ro) \<Longrightarrow> \<not> pr_catalog_derived r"
  by (auto simp: all_configured_def gated_routes_def list_all_iff)

text \<open>
  Ordering by lane loses nothing: the configured routes that are tried are, as a multiset,
  the configured routes that pass the gate, whatever lane, catalogue, breakers and
  strategy say.
\<close>

theorem lane_order_drops_no_route:
  assumes "ordered_routes e publish q ro = Inr (rs, d, ro1)" and "synth_ok ro" and "all_configured ro"
  shows "mset (filter (\<lambda>r. \<not> pr_catalog_derived r) rs) = mset (filter (\<lambda>r. turn_gate (oe_monotonic e) q r ro = '''') (ro_routes ro))"
  using assms(1)
proof (cases rule: ordered_routesE)
  case plain
  then have "mset (filter (\<lambda>r. \<not> pr_catalog_derived r) rs) = mset (filter (\<lambda>r. \<not> pr_catalog_derived r) (gated_routes (oe_monotonic e) q ro))"
    by (simp add: mset_filter)
  also have "filter (\<lambda>r. \<not> pr_catalog_derived r) (gated_routes (oe_monotonic e) q ro) = gated_routes (oe_monotonic e) q ro"
    using gated_not_derived [OF assms(3)] by (simp add: filter_id_conv)
  finally show ?thesis by (simp add: gated_routes_def)
next
  case (lane l cat made ro2)
  let ?x = "filter (\<lambda>r. turn_gate (oe_monotonic e) q r ro2 = '''') made"
  have "mset (filter (\<lambda>r. \<not> pr_catalog_derived r) rs)
      = mset (filter (\<lambda>r. \<not> pr_catalog_derived r) (gated_routes (oe_monotonic e) q ro @ ?x))"
    using lane(4) by (metis mset_append mset_filter)
  also have "filter (\<lambda>r. \<not> pr_catalog_derived r) (gated_routes (oe_monotonic e) q ro @ ?x) = gated_routes (oe_monotonic e) q ro"
    using gated_not_derived [OF assms(3)] synthesize_ok(2) [OF lane(3) assms(2)]
    by (auto simp: filter_empty_conv filter_id_conv)
  finally show ?thesis by (simp add: gated_routes_def)
qed

lemma sample_router_ok: "synth_ok sample_router" "all_configured sample_router"
  by (simp add: sample_router_def synth_ok_new) code_simp

lemma sample_order:
  "map_sum id (\<lambda>(rs, d, ro). map pr_name rs) (ordered_routes static_inputs True cloud_request sample_router) = Inr [''local'', ''claude'']"
  by code_simp

theorem lane_order_drops_no_route_witness:
  "mset (map pr_name (filter (\<lambda>r. turn_gate 0 cloud_request r sample_router = '''') (ro_routes sample_router)))
     \<subseteq># mset [''local'', ''claude'']"
proof -
  obtain rs d ro1 where o: "ordered_routes static_inputs True cloud_request sample_router = Inr (rs, d, ro1)"
    and names: "map pr_name rs = [''local'', ''claude'']"
    using sample_order by (cases "ordered_routes static_inputs True cloud_request sample_router") auto
  have "oe_monotonic static_inputs = 0" by (simp add: static_inputs_def order_inputs_def)
  with lane_order_drops_no_route [OF o sample_router_ok]
  have "mset (filter (\<lambda>r. turn_gate 0 cloud_request r sample_router = '''') (ro_routes sample_router)) \<subseteq># mset rs"
    by (metis mset_filter multiset_filter_subset)
  then show ?thesis using names by (metis image_mset_subseteq_mono mset_map)
qed

text \<open>
  A route made from the catalogue and tried in a turn stands for a model of the catalogue
  that meets the turn's lane (price ceiling, floors and exclusions included), costs money,
  is not pinned by a configured cloud route, and passed the gate of the turn.
\<close>

theorem synthesized_routes_meet_the_lane:
  assumes "ordered_routes e publish q ro = Inr (rs, d, ro1)" and "synth_ok ro" and "all_configured ro"
    and "r \<in> set rs" and "pr_catalog_derived r"
  shows "\<exists>lane catalog benched m. lane_for e (tq_task q) = Inr lane \<and> catalog_of e = Inr catalog \<and> m \<in> set catalog
    \<and> pr_model r = cm_id m \<and> qualifies lane benched (oe_utc e) m \<and> lane_cost lane m > 0
    \<and> pr_model r \<notin> set (pinned_ids e ro) \<and> route_open q (ro_strategy ro) r"
  using assms(1)
proof (cases rule: ordered_routesE)
  case plain
  then show ?thesis using assms gated_not_derived by (metis set_mset_mset)
next
  case (lane l cat made ro2)
  let ?cands = "rs_candidates (resolution_for e l cat (ro_strategy ro) (filter is_cloud (gated_routes (oe_monotonic e) q ro)) ro)"
  have "r \<in> set (gated_routes (oe_monotonic e) q ro) \<union> set made"
    using lane(4) assms(4) by (metis (no_types, lifting) UnCI UnE filter_is_subset set_mset_mset set_mset_union subsetD)
  then have "r \<in> set made" using gated_not_derived [OF assms(3)] assms(5) by blast
  then obtain c where c: "c \<in> set ?cands" "may_synthesize (pinned_ids e ro) c" "pr_model r = cd_id c"
    using synthesize_ok(2) [OF lane(3) assms(2)] by blast
  have q: "cd_model c \<in> set cat \<and> qualifies l (benched_ids e (filter is_cloud (gated_routes (oe_monotonic e) q ro)) ro) (oe_utc e) (cd_model c)"
    and "c = candidate_of l (\<lambda>_. None) (cd_model c)"
    using candidate_qualifies c(1) candidates_cleared c(1) unfolding resolution_for_def by (fastforce simp: cleared_iff)+
  then have "lane_cost l (cd_model c) > 0" "cm_id (cd_model c) \<notin> set (pinned_ids e ro)"
    using c(2) by (auto simp: may_synthesize_def Let_def split: if_splits) (metis candidate_of_simps(4))
  then show ?thesis using q lane(1,2) c(3) ordered_routes_open [OF assms(1,4)] by (auto simp: cd_id_def)
qed

end
