(* ===== verification/RouterRuns.thy ===== *)
theory RouterRuns
  imports RouterRules
begin

text \<open>
  Runs of the router: many calls, streamed or not, one after the other on the same router,
  each with its own inputs. The locale \<open>turn_invariant\<close> says what an invariant has to
  satisfy for the two loops; the invariants of the budget, of the generation slots and of
  the breakers are its instances.
\<close>

section \<open>Interface: an invariant of the loops\<close>

text \<open>\<open>P n ro\<close> may count the events: \<open>w\<close> is what an event adds to \<open>n\<close>.\<close>

locale turn_invariant =
  fixes se :: "nat \<Rightarrow> step_env" and n_in :: int and q :: turn_request
    and P :: "int \<Rightarrow> llm_router \<Rightarrow> bool" and w :: "turn_event \<Rightarrow> int"
  assumes far: "P n ro \<Longrightarrow> is_cloud r \<Longrightarrow> in_slot r (cloud_attempt (se i) n_in q r pv) (d, ro) = (a, (d1, ro1), ev)
      \<Longrightarrow> P (n + sum_list (map w ev)) ro1"
    and near: "P n ro \<Longrightarrow> \<not> is_cloud r \<Longrightarrow> in_slot r (local_attempt (se i) r pv) (d, ro) = (a, (d1, ro1), ev)
      \<Longrightarrow> P (n + sum_list (map w ev)) ro1"
    and streaming: "P n ro \<Longrightarrow> \<not> is_cloud r \<Longrightarrow> local_stream (se i) r pv (d, ro) = (ts, a, (d1, ro1), ev)
      \<Longrightarrow> P (n + sum_list (map w ev)) ro1"
    and probe: "P n ro \<Longrightarrow> P n (snd (local_route_callable (se i) r ro))"
    and failure: "P n ro \<Longrightarrow> P n (record_route_failure r ro)"
    and trip: "P n ro \<Longrightarrow> P n (trip_breaker ro)"
begin

lemma attempt:
  "P n ro \<Longrightarrow> attempt_of (se i) n_in q r pv (d, ro) = (a, (d1, ro1), ev) \<Longrightarrow> P (n + sum_list (map w ev)) ro1"
  using far near unfolding attempt_of_def by (cases "is_cloud r") auto

lemma chat_loop:
  "P n ro \<Longrightarrow> chat_loop se n_in q i rs (d, ro) = (a, (d1, ro1), ev) \<Longrightarrow> P (n + sum_list (map w ev)) ro1"
proof (induction rs arbitrary: i d ro a d1 ro1 ev n)
  case (Cons r rs)
  note start = probe [OF Cons.prems(1), of i r]
  from Cons.prems(2) show ?case
  proof (cases rule: chat_loopE)
    case unbuilt
    from Cons.IH [OF Cons.prems(1) this] show ?thesis .
  next
    case down
    from Cons.IH [OF start this] show ?thesis .
  next
    case (answered pv resp)
    from attempt [OF start this(2)] show ?thesis .
  next
    case (skipped pv x ev1 ev2)
    obtain d2 ro2 where x: "x = (d2, ro2)" by fastforce
    from Cons.IH [OF attempt [OF start skipped(2) [unfolded x]] skipped(3) [unfolded x]] skipped(4)
    show ?thesis by (simp add: add.assoc)
  next
    case (failed pv err d2 ro2 ev1 ev2)
    from Cons.IH [OF failure [OF attempt [OF start failed(2)]] failed(3)] failed(4) show ?thesis by (simp add: add.assoc)
  qed
qed simp

lemma stream_loop:
  "P n ro \<Longrightarrow> stream_loop se n_in q i rs (d, ro) = (ts, a, ro1, ev) \<Longrightarrow> P (n + sum_list (map w ev)) ro1"
proof (induction rs arbitrary: i d ro ts a ro1 ev n)
  case Nil
  then show ?case using trip by (auto split: if_splits)
next
  case (Cons r rs)
  note start = probe [OF Cons.prems(1), of i r]
  from Cons.prems(2) show ?case
  proof (cases rule: stream_loopE)
    case unbuilt
    from Cons.IH [OF Cons.prems(1) this] show ?thesis .
  next
    case down
    from Cons.IH [OF start this] show ?thesis .
  next
    case (cloud pv a1 x ev1 ev2)
    obtain d2 ro2 where x: "x = (d2, ro2)" by fastforce
    note mid = far [OF Cons.prems(1) cloud(2) cloud(3) [unfolded x]]
    from cloud(5) show ?thesis
      using mid Cons.IH [OF mid, of "Suc i" d2 ts a ro1 ev2] cloud(4) x by (auto simp: add.assoc)
  next
    case (stream pv ts1 a1 d2 ro2 ev1 ev2)
    note mid = streaming [OF start stream(2,3)]
    from stream(5) show ?thesis
      using mid failure [OF mid, of r] Cons.IH [OF mid, of "Suc i" d2 _ a ro1 ev2]
        Cons.IH [OF failure [OF mid, of r], of "Suc i" d2 _ a ro1 ev2] stream(4) by (auto simp: add.assoc)
  qed
qed

end

section \<open>Calls on the same router\<close>

record router_call =
  rc_streamed :: bool
  rc_env :: turn_env
  rc_messages :: "chat_message list"
  rc_request :: turn_request

text \<open>A call whose preparation raises leaves the router as the preparation left it.\<close>

definition prepared_router :: "turn_env \<Rightarrow> llm_router \<Rightarrow> llm_router" where
  "prepared_router e ro = (case reset_breaker_if_healthy (te_primary_healthy e) ro of Inl _ \<Rightarrow> ro | Inr ro1 \<Rightarrow> refreshed (te_headroom e) ro1)"

definition run_call :: "router_call \<Rightarrow> llm_router \<Rightarrow> turn_event list \<times> llm_router" where
  "run_call c ro =
     (if rc_streamed c then (case stream_chat (rc_env c) (rc_messages c) (rc_request c) ro of
          Inl _ \<Rightarrow> ([], prepared_router (rc_env c) ro) | Inr (_, _, ro1, ev) \<Rightarrow> (ev, ro1))
      else (case chat (rc_env c) (rc_messages c) (rc_request c) ro of
          Inl _ \<Rightarrow> ([], prepared_router (rc_env c) ro) | Inr (_, ro1, ev) \<Rightarrow> (ev, ro1)))"

text \<open>The events with the call they belong to.\<close>

fun run_calls :: "router_call list \<Rightarrow> llm_router \<Rightarrow> (router_call \<times> turn_event list) list \<times> llm_router" where
  "run_calls [] ro = ([], ro)"
| "run_calls (c # cs) ro = (case run_call c ro of (ev, ro1) \<Rightarrow> case run_calls cs ro1 of (trace, ro2) \<Rightarrow> ((c, ev) # trace, ro2))"

lemma run_call_events: "fst (run_call c ro) = turn_events (rc_streamed c) (rc_env c) (rc_messages c) (rc_request c) ro"
  by (auto simp: run_call_def turn_events_def split: sum.splits)

text \<open>From an invariant of the loops and of the preparation to one of a call.\<close>

lemma run_call_invariant:
  assumes inv: "turn_invariant (te_step (rc_env c)) (estimate_input_tokens (oe_str (te_order (rc_env c))) (rc_messages c)) (rc_request c) P w"
    and prep: "\<And>rs d ro1. prepare_turn (rc_env c) (rc_request c) ro = Inr (rs, d, ro1) \<Longrightarrow> P n ro1"
    and fails: "P n (prepared_router (rc_env c) ro)"
  shows "P (n + sum_list (map w (fst (run_call c ro)))) (snd (run_call c ro))"
proof (cases "prepare_turn (rc_env c) (rc_request c) ro")
  case (Inl err)
  then show ?thesis using fails by (simp add: run_call_def chat_def stream_chat_def)
next
  case (Inr x)
  obtain rs d ro1 where x: "x = (rs, d, ro1)" by (cases x) auto
  note p = prep [OF Inr [unfolded x]]
  let ?n = "estimate_input_tokens (oe_str (te_order (rc_env c))) (rc_messages c)"
  show ?thesis
  proof (cases "rc_streamed c")
    case True
    obtain ts a ro2 ev where s: "stream_loop (te_step (rc_env c)) ?n (rc_request c) 0 rs (d, ro1) = (ts, a, ro2, ev)" by (metis surj_pair)
    from turn_invariant.stream_loop [OF inv p s] True Inr x s show ?thesis by (simp add: run_call_def stream_chat_def)
  next
    case False
    obtain a d2 ro2 ev where s: "chat_loop (te_step (rc_env c)) ?n (rc_request c) 0 rs (d, ro1) = (a, (d2, ro2), ev)" by (metis surj_pair)
    from turn_invariant.chat_loop [OF inv p s] False Inr x s show ?thesis
      by (cases a) (simp_all add: run_call_def chat_def)
  qed
qed

section \<open>What the bookkeeping leaves alone\<close>

lemma start_keeps:
  "try_start_generation r (d, ro) = (b, d1, ro1) \<Longrightarrow> ro_budget ro1 = ro_budget ro \<and> ro_route_breakers ro1 = ro_route_breakers ro
    \<and> ro_routes ro1 = ro_routes ro \<and> ro_primary ro1 = ro_primary ro"
  by (auto simp: try_start_generation_def record_generation_blocked_def publish_decision_def Let_def split: if_splits)

lemma finish_keeps:
  "finish_generation r (d, ro) = (d1, ro1) \<Longrightarrow> ro_budget ro1 = ro_budget ro \<and> ro_route_breakers ro1 = ro_route_breakers ro
    \<and> ro_routes ro1 = ro_routes ro \<and> ro_primary ro1 = ro_primary ro"
  by (auto simp: finish_generation_def publish_decision_def Let_def split: if_splits)

lemma selected_keeps:
  "record_route_selected r (d, ro) = (d1, ro1) \<Longrightarrow> ro_budget ro1 = ro_budget ro \<and> ro_route_breakers ro1 = ro_route_breakers ro
    \<and> ro_routes ro1 = ro_routes ro \<and> ro_primary ro1 = ro_primary ro \<and> ro_active_total ro1 = ro_active_total ro
    \<and> ro_active_local ro1 = ro_active_local ro \<and> ro_active_cloud ro1 = ro_active_cloud ro"
  by (auto simp: record_route_selected_def publish_decision_def Let_def)

lemma health_keeps:
  "provider_health e force pv r ro = (h, ro1) \<Longrightarrow> ro_budget ro1 = ro_budget ro \<and> ro_route_breakers ro1 = ro_route_breakers ro
    \<and> ro_routes ro1 = ro_routes ro \<and> ro_primary ro1 = ro_primary ro \<and> ro_active_total ro1 = ro_active_total ro
    \<and> ro_active_local ro1 = ro_active_local ro \<and> ro_active_cloud ro1 = ro_active_cloud ro"
  by (auto simp: provider_health_def Let_def split: option.splits if_splits prod.splits)

lemma failure_keeps [simp]:
  "ro_budget (record_route_failure r ro) = ro_budget ro" "ro_routes (record_route_failure r ro) = ro_routes ro"
  "ro_primary (record_route_failure r ro) = ro_primary ro" "ro_active_total (record_route_failure r ro) = ro_active_total ro"
  "ro_active_local (record_route_failure r ro) = ro_active_local ro" "ro_active_cloud (record_route_failure r ro) = ro_active_cloud ro"
  by (simp_all add: record_route_failure_def trip_breaker_def Let_def)

lemma failure_breakers: "ro_route_breakers ro \<subseteq> ro_route_breakers (record_route_failure r ro)"
  by (auto simp: record_route_failure_def trip_breaker_def Let_def)

lemma trip_keeps [simp]:
  "ro_budget (trip_breaker ro) = ro_budget ro" "ro_routes (trip_breaker ro) = ro_routes ro" "ro_primary (trip_breaker ro) = ro_primary ro"
  "ro_route_breakers (trip_breaker ro) = ro_route_breakers ro" "ro_active_total (trip_breaker ro) = ro_active_total ro"
  "ro_active_local (trip_breaker ro) = ro_active_local ro" "ro_active_cloud (trip_breaker ro) = ro_active_cloud ro"
  by (simp_all add: trip_breaker_def)

text \<open>Ordering the routes touches the cache of synthesized routes and the published decision only.\<close>

definition core :: "llm_router \<Rightarrow> router_budget \<times> string set \<times> provider_route list \<times> provider \<times> int \<times> int \<times> int" where
  "core ro = (ro_budget ro, ro_route_breakers ro, ro_routes ro, ro_primary ro, ro_active_total ro, ro_active_local ro, ro_active_cloud ro)"

lemma unpublished_core:
  assumes "unpublished ro1 = unpublished ro2"
  shows "core ro1 = core ro2"
proof -
  have "core (unpublished ro1) = core (unpublished ro2)" using assms by simp
  then show ?thesis by (simp add: core_def unpublished_def)
qed

lemma base_route_core: "synthesized_base_route e m ro = (x, ro1) \<Longrightarrow> core ro1 = core ro"
  by (auto simp: core_def synthesized_base_route_def Let_def split: option.splits prod.splits if_splits)

lemma synthesize_each_core: "synthesize_each e rec cs acc ro = (made, ro1) \<Longrightarrow> core ro1 = core ro"
proof (induction e rec cs acc ro arbitrary: made ro1 rule: synthesize_each.induct)
  case (2 e rec c cs acc ro)
  obtain x ro2 where b: "synthesized_base_route e (cd_model c) ro = (x, ro2)" by fastforce
  show ?case
  proof (cases x)
    case None
    then have "ro1 = ro2" using 2(2) b by simp
    then show ?thesis using base_route_core [OF b] by simp
  next
    case (Some base)
    then have "synthesize_each e rec cs (acc @ [repriced (cd_model c) rec base]) ro2 = (made, ro1)" using 2(2) b by simp
    from 2(1) [OF b [symmetric] Some this] show ?thesis using base_route_core [OF b] by simp
  qed
qed simp

lemma ordered_core:
  assumes "ordered_routes e pub q ro = Inr (rs, d, ro1)"
  shows "core ro1 = core ro"
  using assms
proof (cases rule: ordered_routesE)
  case plain
  then show ?thesis by (intro unpublished_core)
next
  case (lane l c made ro2)
  from synthesize_each_core [OF lane(3) [unfolded synthesize_cloud_routes_def]] unpublished_core [OF lane(5)]
  show ?thesis by simp
qed

text \<open>
  An invariant that only reads what the bookkeeping leaves alone follows from the budget's
  steps and from what the others do.
\<close>

locale field_invariant =
  fixes se :: "nat \<Rightarrow> step_env" and n_in :: int and q :: turn_request
    and P :: "int \<Rightarrow> llm_router \<Rightarrow> bool" and w :: "turn_event \<Rightarrow> int"
  assumes cong: "ro_budget ro1 = ro_budget ro \<Longrightarrow> ro_route_breakers ro \<subseteq> ro_route_breakers ro1 \<Longrightarrow> ro_routes ro1 = ro_routes ro
      \<Longrightarrow> ro_primary ro1 = ro_primary ro \<Longrightarrow> P n ro \<Longrightarrow> P n ro1"
    and others: "P n ro \<Longrightarrow> P n (se_probe_others (se i) ro)" "P n ro \<Longrightarrow> P n (se_call_others (se i) ro)"
      "P n ro \<Longrightarrow> P n (se_stream_others (se i) ro)"
    and refused: "P n ro \<Longrightarrow> cloud_spend_allowed (se_reserve (se i)) n_in q r ro = Inr (False, ro1) \<Longrightarrow> P n ro1"
    and admitted: "P n ro \<Longrightarrow> cloud_spend_allowed (se_reserve (se i)) n_in q r ro = Inr (True, ro1) \<Longrightarrow> P (n + w (SentCloud r k)) ro1"
    and booked: "P n ro \<Longrightarrow> book_usage (se_record (se i)) q r pv resp ro = Inr ro1 \<Longrightarrow> P n ro1"
    and weight: "w (Reserved r) = 0" "w (Refused r) = 0" "w (SentLocal r) = 0"
begin

lemma same:
  "P n ro \<Longrightarrow> ro_budget ro1 = ro_budget ro \<and> ro_route_breakers ro1 = ro_route_breakers ro \<and> ro_routes ro1 = ro_routes ro
      \<and> ro_primary ro1 = ro_primary ro \<Longrightarrow> P n ro1"
  using cong by blast

lemma slot:
  assumes start: "P n ro" and s: "in_slot r body (d, ro) = (a, (d1, ro1), ev)"
    and body: "\<And>ro d a1 d2 ro2 ev. P n ro \<Longrightarrow> body (d, ro) = (a1, (d2, ro2), ev) \<Longrightarrow> P (n + sum_list (map w ev)) ro2"
  shows "P (n + sum_list (map w ev)) ro1"
proof -
  obtain b d2 ro2 where t: "try_start_generation r (d, ro) = (b, d2, ro2)" by (metis surj_pair)
  have p2: "P n ro2" using same [OF start] start_keeps [OF t] by blast
  show ?thesis
  proof (cases b)
    case False
    then show ?thesis using s t p2 by (simp add: in_slot_def)
  next
    case True
    obtain a3 d3 ro3 ev3 where b: "body (d2, ro2) = (a3, (d3, ro3), ev3)" by (metis surj_pair)
    have "finish_generation r (d3, ro3) = (d1, ro1)" and "ev = ev3" using s t b True by (simp_all add: in_slot_def)
    then show ?thesis using same [OF body [OF p2 b]] finish_keeps by metis
  qed
qed

lemma cloud_body:
  assumes p: "P n ro" and c: "cloud_attempt (se i) n_in q r pv (d, ro) = (a, (d2, ro2), ev)"
  shows "P (n + sum_list (map w ev)) ro2"
proof (cases "cloud_spend_allowed (se_reserve (se i)) n_in q r ro")
  case (Inl e)
  then show ?thesis using c p by (simp add: cloud_attempt_def)
next
  case (Inr x)
  obtain ok ro3 where x: "x = (ok, ro3)" by fastforce
  show ?thesis
  proof (cases ok)
    case False
    then show ?thesis using c Inr x refused [OF p] weight by (auto simp: cloud_attempt_def)
  next
    case True
    let ?ev = "[Reserved r, SentCloud r (cloud_max_tokens r ro3)]" and ?ro = "se_call_others (se i) ro3"
    have sent: "P (n + sum_list (map w ?ev)) ?ro"
      using others(2) [OF admitted [OF p]] Inr x True weight by simp
    consider (raised) e where "se_answer (se i) pv = Inl e"
      | (unbooked) resp e where "se_answer (se i) pv = Inr resp" "book_usage (se_record (se i)) q r pv resp ?ro = Inl e"
      | (answered) resp ro4 where "se_answer (se i) pv = Inr resp" "book_usage (se_record (se i)) q r pv resp ?ro = Inr ro4"
      by (metis sum.exhaust)
    then show ?thesis
    proof cases
      case answered
      then have "record_route_selected r (d, ro4) = (d2, ro2)" and "ev = ?ev"
        using c Inr x True by (simp_all add: cloud_attempt_def)
      then show ?thesis using same [OF booked [OF sent answered(2)]] selected_keeps by metis
    qed (use c Inr x True sent in \<open>auto simp: cloud_attempt_def\<close>)
  qed
qed

lemma local_body:
  assumes p: "P n ro" and c: "local_attempt (se i) r pv (d, ro) = (a, (d2, ro2), ev)"
  shows "P (n + sum_list (map w ev)) ro2"
proof (cases "se_answer (se i) pv")
  case (Inl e)
  then show ?thesis using c others(2) [OF p] weight by (auto simp: local_attempt_def)
next
  case (Inr resp)
  have k: "record_route_selected r (d, se_call_others (se i) ro) = (d2, ro2)" and ev: "ev = [SentLocal r]"
    using c Inr by (simp_all add: local_attempt_def)
  show ?thesis using same [OF others(2) [OF p], of ro2] selected_keeps [OF k] weight by (simp add: ev)
qed

lemma stream_body:
  assumes p: "P n ro" and s: "local_stream (se i) r pv (d, ro) = (ts, a, (d1, ro1), ev)"
  shows "P (n + sum_list (map w ev)) ro1"
proof -
  obtain b d2 ro2 where t: "try_start_generation r (d, ro) = (b, d2, ro2)" by (metis surj_pair)
  have p2: "P n ro2" using same [OF p] start_keeps [OF t] by blast
  show ?thesis
  proof (cases b)
    case False
    then show ?thesis using s t p2 by (simp add: local_stream_def)
  next
    case True
    let ?texts = "filter (\<lambda>t. t \<noteq> '''') (map chunk_text (sa_chunks (se_stream (se i) pv)))" and ?ro = "se_call_others (se i) ro2"
    obtain d3 ro3 where m: "(if ?texts \<noteq> [] \<or> sa_raises (se_stream (se i) pv) = None
        then record_route_selected r (d2, ?ro) else (d2, ?ro)) = (d3, ro3)"
      by (metis surj_pair)
    have p3: "P n ro3" using m same [OF others(2) [OF p2]] selected_keeps [of r d2 ?ro d3 ro3] others(2) [OF p2]
      by (auto split: if_splits)
    have k: "finish_generation r (d3, se_stream_others (se i) ro3) = (d1, ro1)" and ev: "ev = [SentLocal r]"
      using s t True m by (auto simp: local_stream_def Let_def split: option.splits)
    show ?thesis using same [OF others(3) [OF p3], of ro1] finish_keeps [OF k] weight by (simp add: ev)
  qed
qed

lemma probe_body: "P n ro \<Longrightarrow> P n (snd (local_route_callable (se i) r ro))"
proof (cases "is_cloud r \<or> pr_provider r = None")
  case False
  assume p: "P n ro"
  obtain pv where pv: "pr_provider r = Some pv" using False by blast
  obtain h ro1 where h: "provider_health (se_health (se i)) False pv r ro = (h, ro1)" by (metis surj_pair)
  show ?thesis using False pv h others(1) [OF same [OF p, of ro1]] health_keeps [OF h] by (simp add: local_route_callable_def)
qed (auto simp: local_route_callable_def)

end

sublocale field_invariant \<subseteq> turn_invariant se n_in q P w
proof
  show "P (n + sum_list (map w ev)) ro1"
    if "P n ro" "is_cloud r" "in_slot r (cloud_attempt (se i) n_in q r pv) (d, ro) = (a, (d1, ro1), ev)" for n ro r i pv d a d1 ro1 ev
    using that(1,3) cloud_body by (rule slot)
  show "P (n + sum_list (map w ev)) ro1"
    if "P n ro" "\<not> is_cloud r" "in_slot r (local_attempt (se i) r pv) (d, ro) = (a, (d1, ro1), ev)" for n ro r i pv d a d1 ro1 ev
    using that(1,3) local_body by (rule slot)
  show "P (n + sum_list (map w ev)) ro1"
    if "P n ro" "\<not> is_cloud r" "local_stream (se i) r pv (d, ro) = (ts, a, (d1, ro1), ev)" for n ro r i pv d ts a d1 ro1 ev
    using that(1,3) by (rule stream_body)
  show "P n (record_route_failure r ro)" if "P n ro" for n r ro
    by (rule cong [OF _ _ _ _ that]) (simp_all add: failure_breakers)
  show "P n (trip_breaker ro)" if "P n ro" for n ro
    by (rule same [OF that]) simp
qed (rule probe_body)

end
