(* ===== verification/RouterGuarantees.thy ===== *)
theory RouterGuarantees
  imports RouterRuns
begin

text \<open>
  What holds over whole runs of the router: the calls sent to cloud models stay within the
  session cap of the budget gate, an open breaker of a backup route never closes, the
  generation slots count what is in flight, within their limits, and calls give back the
  slots they take.
\<close>

section \<open>Cloud calls and the budget\<close>

lemma record_usage_keeps:
  "cg_config (snd (gate_record_usage e u g)) = cg_config g
    \<and> bd_counters (cg_db (snd (gate_record_usage e u g))) = bd_counters (cg_db g)"
  by (simp add: gate_record_usage_def Let_def insert_usage_def split: option.splits)

text \<open>
  The gate of the calls: the single gate, or the global one of the gate of all providers, which is
  what the application builds; that one keeps its books in the shared file.
\<close>

definition global_gate :: "router_budget \<Rightarrow> cloud_gate option" where
  "global_gate b = (case b of NoBudget \<Rightarrow> None | SingleGate g \<Rightarrow> Some g | MultiGate m \<Rightarrow> map_option (load_cloud (mg_file m)) (mg_global m))"

text \<open>At least \<open>n\<close> calls of the session are counted, and the count is within the cap.\<close>

definition spent :: "cloud_budget_config \<Rightarrow> string option \<Rightarrow> int \<Rightarrow> llm_router \<Rightarrow> bool" where
  "spent cfg s n ro \<longleftrightarrow> (case global_gate (ro_budget ro) of
      Some g \<Rightarrow> cg_config g = cfg \<and> n \<le> counter_value (cg_db g) (session_key s)
        \<and> within_cap (cap_of (cb_max_calls_per_session cfg)) (counter_value (cg_db g) (session_key s))
    | None \<Rightarrow> False)"

definition send_weight :: "string option \<Rightarrow> turn_request \<Rightarrow> turn_event \<Rightarrow> int" where
  "send_weight s q z = (case z of SentCloud _ _ \<Rightarrow> if tq_session_id q = s then 1 else 0 | _ \<Rightarrow> 0)"

text \<open>Other turns may use the same gate, within its caps; nobody changes its configuration.\<close>

definition polite :: "cloud_budget_config \<Rightarrow> string option \<Rightarrow> (nat \<Rightarrow> step_env) \<Rightarrow> bool" where
  "polite cfg s se \<longleftrightarrow> (\<forall>i n ro. spent cfg s n ro \<longrightarrow> spent cfg s n (se_probe_others (se i) ro)
     \<and> spent cfg s n (se_call_others (se i) ro) \<and> spent cfg s n (se_stream_others (se i) ro))"

lemma load_save_cloud [simp]: "load_cloud (save_cloud g) g = g"
  by (simp add: load_cloud_def save_cloud_def file_of_def load_alerts_def load_costs_def)

lemma spent_reserve:
  assumes "spent cfg s n ro" and "global_gate (ro_budget ro) = Some g" and "reserve rq g = (d, g1)"
    and "global_gate (ro_budget ro1) = Some g1"
  shows "spent cfg s (n + (if allowed d \<and> session_key (rq_session_id rq) = session_key s then 1 else 0)) ro1"
proof -
  have g1: "g1 = snd (reserve rq g)" and d: "d = fst (reserve rq g)" using assms(3) by simp_all
  have cfg: "cg_config g = cfg" and n: "n \<le> counter_value (cg_db g) (session_key s)"
    and "within_cap (cap_of (cb_max_calls_per_session cfg)) (counter_value (cg_db g) (session_key s))"
    using assms(1,2) by (simp_all add: spent_def)
  then have "within_cap (cap_of (cb_max_calls_per_session cfg)) (counter_value (cg_db g1) (session_key s))"
    unfolding g1 by (intro session_cap.step_within) auto
  moreover have "n + (if allowed d \<and> session_key (rq_session_id rq) = session_key s then 1 else 0) \<le> counter_value (cg_db g1) (session_key s)"
  proof (cases "allowed d")
    case True
    then show ?thesis using n reserve_allowed_counter [of rq g "session_key s"] keys_distinct
      unfolding g1 d by (auto simp: request_keys_def)
  next
    case False
    then show ?thesis using n reserve_refused_counters [of rq g] unfolding g1 d by (simp add: counter_value_def)
  qed
  ultimately show ?thesis using cfg g1 assms(4) by (simp add: spent_def)
qed

text \<open>A request that is let through, or refused by the gate, is one reservation of the global gate.\<close>

lemma spend_reserves:
  assumes "cloud_spend_allowed e n_in q r ro = Inr (ok, ro1)" and "global_gate (ro_budget ro) = Some g"
  obtains "ok = False" and "ro1 = ro"
  | d g1 where "reserve (reserve_for e n_in q r ro) g = (d, g1)" and "ok = allowed d" and "global_gate (ro_budget ro1) = Some g1"
proof (cases "\<not> is_cloud r \<or> \<not> route_allowed r (tq_cloud_allowed q) (tq_response_policy q) None ro")
  case True
  then show thesis using assms(1) that(1) unfolding cloud_spend_allowed_def by auto
next
  case False
  obtain d g1 where d: "reserve (reserve_for e n_in q r ro) g = (d, g1)" by (metis surj_pair)
  have "ok = allowed d \<and> global_gate (ro_budget ro1) = Some g1"
    using assms False d
    by (auto simp: cloud_spend_allowed_def Let_def global_gate_def gate_for_def on_global_def split: router_budget.splits option.splits)
  then show thesis using that(2) d by blast
qed

lemma spent_allowed:
  assumes "spent cfg s n ro" and "cloud_spend_allowed e n_in q r ro = Inr (ok, ro1)"
  shows "spent cfg s (n + (if ok \<and> tq_session_id q = s then 1 else 0)) ro1"
proof -
  obtain g where g: "global_gate (ro_budget ro) = Some g" using assms(1) by (auto simp: spent_def split: option.splits)
  from assms(2) g show ?thesis
  proof (cases rule: spend_reserves)
    case 1
    then show ?thesis using assms(1) by simp
  next
    case (2 d g1)
    have "rq_session_id (reserve_for e n_in q r ro) = tq_session_id q" by (simp add: reserve_for_def)
    with spent_reserve [OF assms(1) g 2(1,3)]
    have "spent cfg s (n + (if allowed d \<and> session_key (tq_session_id q) = session_key s then 1 else 0)) ro1" by simp
    then show ?thesis unfolding 2(2) by (auto simp: spent_def split: option.splits if_splits)
  qed
qed

lemma booked_gate:
  assumes "book_usage e q r pv resp ro = Inr ro1" and "global_gate (ro_budget ro) = Some g"
  shows "\<exists>g1. global_gate (ro_budget ro1) = Some g1 \<and> cg_config g1 = cg_config g \<and> bd_counters (cg_db g1) = bd_counters (cg_db g)"
proof (cases "ro_budget ro")
  case NoBudget
  then show ?thesis using assms(2) by (simp add: global_gate_def)
next
  case (SingleGate h)
  then show ?thesis using assms record_usage_keeps by (auto simp: book_usage_def global_gate_def split: prod.splits)
next
  case (MultiGate m)
  then obtain h where h: "mg_global m = Some h" "g = load_cloud (mg_file m) h" using assms(2) by (auto simp: global_gate_def)
  have "mg_global m1 = Some h \<and> bd_counters (sf_budget (mg_file m1)) = bd_counters (sf_budget (mg_file m))"
    if "multi_record_usage e u m = Inr m1" for u m1
    using that h(1) on_provider_counters
    by (auto simp: multi_record_usage_def Let_def split: option.splits if_splits) (simp add: on_provider_def split_beta)
  then show ?thesis using assms(1) MultiGate h(2)
    by (auto simp: book_usage_def global_gate_def load_cloud_def bind_result_def split: prod.splits sum.splits)
qed

lemma spent_booked:
  assumes "spent cfg s n ro" and "book_usage e q r pv resp ro = Inr ro1"
  shows "spent cfg s n ro1"
proof -
  obtain g where g: "global_gate (ro_budget ro) = Some g" using assms(1) by (auto simp: spent_def split: option.splits)
  from booked_gate [OF assms(2) g] assms(1) g show ?thesis by (auto simp: spent_def counter_value_def)
qed

lemma spent_cong: "global_gate (ro_budget ro1) = global_gate (ro_budget ro) \<Longrightarrow> spent cfg s n ro1 = spent cfg s n ro"
  by (simp add: spent_def)

interpretation spending: field_invariant se n_in q "\<lambda>n ro. polite cfg s se \<longrightarrow> spent cfg s n ro" "send_weight s q" for se n_in q cfg s
proof
  fix n ro i r ro1 k
  assume "polite cfg s se \<longrightarrow> spent cfg s n ro" and a: "cloud_spend_allowed (se_reserve (se i)) n_in q r ro = Inr (True, ro1)"
  then show "polite cfg s se \<longrightarrow> spent cfg s (n + send_weight s q (SentCloud r k)) ro1"
    using spent_allowed [OF _ a, of cfg s n] by (auto simp: send_weight_def split: if_splits)
next
  fix n ro i r ro1
  assume "polite cfg s se \<longrightarrow> spent cfg s n ro" and a: "cloud_spend_allowed (se_reserve (se i)) n_in q r ro = Inr (False, ro1)"
  then show "polite cfg s se \<longrightarrow> spent cfg s n ro1" using spent_allowed [OF _ a, of cfg s n] by simp
next
  fix ro1 ro :: llm_router and n
  assume "ro_budget ro1 = ro_budget ro" and "polite cfg s se \<longrightarrow> spent cfg s n ro"
  then show "polite cfg s se \<longrightarrow> spent cfg s n ro1"
    using spent_cong [of ro1 ro cfg s n] by simp
next
  fix n ro i r pv resp ro1
  assume "polite cfg s se \<longrightarrow> spent cfg s n ro" and "book_usage (se_record (se i)) q r pv resp ro = Inr ro1"
  then show "polite cfg s se \<longrightarrow> spent cfg s n ro1" using spent_booked by blast
qed (simp_all add: polite_def send_weight_def)

lemma refreshed_gate [simp]: "global_gate (ro_budget (refreshed e ro)) = global_gate (ro_budget ro)"
  by (simp add: refreshed_def global_gate_def refresh_headroom_cache_def split: router_budget.split)

lemma prepare_budget:
  assumes "prepare_turn e q ro = Inr (rs, d, ro1)"
  shows "global_gate (ro_budget ro1) = global_gate (ro_budget ro)"
  using assms
proof (rule prepare_turnE)
  fix ro0
  assume r: "reset_breaker_if_healthy (te_primary_healthy e) ro = Inr ro0"
    and o: "ordered_routes (te_order e) True q (refreshed (te_headroom e) ro0) = Inr (rs, d, ro1)"
  show ?thesis using ordered_core [OF o] reset_keeps [OF r] refreshed_gate [of "te_headroom e" ro0] by (simp add: core_def)
qed

lemma prepared_budget: "global_gate (ro_budget (prepared_router e ro)) = global_gate (ro_budget ro)"
  using reset_keeps [of "te_primary_healthy e" ro] by (auto simp: prepared_router_def split: sum.splits)

lemma run_call_spent:
  assumes "spent cfg s n ro" and "polite cfg s (te_step (rc_env c))"
  shows "spent cfg s (n + sum_list (map (send_weight s (rc_request c)) (fst (run_call c ro)))) (snd (run_call c ro))"
proof -
  let ?P = "\<lambda>n ro. polite cfg s (te_step (rc_env c)) \<longrightarrow> spent cfg s n ro"
  have "?P (n + sum_list (map (send_weight s (rc_request c)) (fst (run_call c ro)))) (snd (run_call c ro))"
  proof (rule run_call_invariant)
    show "turn_invariant (te_step (rc_env c)) (estimate_input_tokens (oe_str (te_order (rc_env c))) (rc_messages c)) (rc_request c)
        ?P (send_weight s (rc_request c))" by (rule spending.turn_invariant_axioms)
    show "?P n ro1" if "prepare_turn (rc_env c) (rc_request c) ro = Inr (rs, d, ro1)" for rs d ro1
      using spent_cong [OF prepare_budget [OF that]] assms(1) by simp
    show "?P n (prepared_router (rc_env c) ro)"
      using spent_cong [OF prepared_budget] assms(1) by simp
  qed
  then show ?thesis using assms(2) by blast
qed

lemma spent_less: "spent cfg s m ro \<Longrightarrow> n \<le> m \<Longrightarrow> spent cfg s n ro"
  by (auto simp: spent_def split: option.splits)

text \<open>A call of the router, made by another turn while this one waits, is polite.\<close>

lemma other_calls_are_polite:
  assumes "spent cfg s n ro" and "polite cfg s (te_step (rc_env c))"
  shows "spent cfg s n (snd (run_call c ro))"
proof -
  have "0 \<le> sum_list (map (send_weight s (rc_request c)) ev)" for ev
    by (intro sum_list_nonneg) (auto simp: send_weight_def split: turn_event.splits)
  then show ?thesis using run_call_spent [OF assms] spent_less le_add_same_cancel1 by blast
qed

text \<open>The calls to cloud models made for a session in a run.\<close>

definition sends_for :: "string option \<Rightarrow> (router_call \<times> turn_event list) list \<Rightarrow> int" where
  "sends_for s trace = sum_list (map (\<lambda>(c, ev). sum_list (map (send_weight s (rc_request c)) ev)) trace)"

lemma run_calls_spent:
  "spent cfg s n ro \<Longrightarrow> \<forall>c \<in> set cs. polite cfg s (te_step (rc_env c))
    \<Longrightarrow> spent cfg s (n + sends_for s (fst (run_calls cs ro))) (snd (run_calls cs ro))"
proof (induction cs arbitrary: ro n)
  case (Cons c cs)
  obtain ev ro1 where c: "run_call c ro = (ev, ro1)" by fastforce
  have "spent cfg s (n + sum_list (map (send_weight s (rc_request c)) ev)) ro1"
    using run_call_spent [OF Cons.prems(1), of c] Cons.prems(2) c by simp
  from Cons.IH [OF this] Cons.prems(2) show ?case by (simp add: c sends_for_def split_beta add.assoc)
qed (simp add: sends_for_def)

text \<open>C6: 
  However many calls are made on the router for a session, streamed or not, and whatever the
  providers answer: the requests that leave for cloud models stay within the session's call
  cap of the budget gate, be it a single gate or the global gate of the gate of all providers
  that the application builds. The cap is positive, the session's counter starts at 0, and
  what other turns do meanwhile keeps the configuration of the gate and its counters, which
  they may increase up to the cap, as calls of the router do.
\<close>

theorem cloud_calls_within_the_session_cap:
  assumes "global_gate (ro_budget ro) = Some g" and "cg_config g = cfg" and "counter_value (cg_db g) (session_key s) = 0"
    and "0 < cb_max_calls_per_session cfg" and "\<forall>c \<in> set cs. polite cfg s (te_step (rc_env c))"
  shows "sends_for s (fst (run_calls cs ro)) \<le> cb_max_calls_per_session cfg"
proof -
  have "spent cfg s 0 ro" using assms(1-3) by (simp add: spent_def)
  from run_calls_spent [OF this assms(5)] obtain m where "sends_for s (fst (run_calls cs ro)) \<le> m"
    and "within_cap (cap_of (cb_max_calls_per_session cfg)) m"
    by (auto simp: spent_def split: option.splits)
  then show ?thesis using within_cap_positive [OF _ assms(4)] by fastforce
qed

lemma quiet_polite: "polite cfg s (te_step (sample_turn oe answer))"
  by (simp add: polite_def sample_turn_def quiet_step_def)

text \<open>The gate of all providers around the sample gate, on an empty file.\<close>

definition multi_router :: llm_router where
  "multi_router = sample_router\<lparr>ro_budget := MultiGate (new_multi_gate (\<lambda>_. None) empty_file (Some sample_gate) [])\<rparr>"

lemma multi_router_gate: "global_gate (ro_budget multi_router) = Some sample_gate"
proof -
  have "load_cloud empty_file sample_gate = sample_gate" by code_simp
  then show ?thesis by (simp add: global_gate_def multi_router_def new_multi_gate_def)
qed

theorem cloud_calls_within_the_session_cap_witness:
  "sends_for (Some ''s'') (fst (run_calls (replicate 5 \<lparr>rc_streamed = False, rc_env = sample_turn static_inputs only_cloud_answers,
     rc_messages = [], rc_request = cloud_request\<rparr>) multi_router)) \<le> 2"
proof -
  from cloud_calls_within_the_session_cap [OF multi_router_gate sample_fields(1) sample_fields(2)] quiet_polite show ?thesis
    by (simp add: sample_cloud_config_def default_cloud_config_def)
qed

section \<open>Open breakers\<close>

lemma gate_unblocked: "turn_gate now q r ro = '''' \<Longrightarrow> route_key r \<notin> ro_route_breakers ro"
  unfolding turn_gate_def selection_blocked_reason_def route_temporarily_blocked_def by (auto split: if_splits)

lemma ordered_unblocked:
  assumes "ordered_routes e pub q ro = Inr (rs, d, ro1)" and "r \<in> set rs"
  shows "route_key r \<notin> ro_route_breakers ro"
  using assms(1)
proof (cases rule: ordered_routesE)
  case plain
  then have "r \<in> set (gated_routes (oe_monotonic e) q ro)" using assms(2) by (metis set_mset_mset)
  then show ?thesis by (auto simp: gated_routes_def dest: gate_unblocked)
next
  case (lane l c made ro2)
  have "set rs = set (gated_routes (oe_monotonic e) q ro) \<union> set (filter (\<lambda>r. turn_gate (oe_monotonic e) q r ro2 = '''') made)"
    using lane(4) by (metis set_mset_mset set_mset_union)
  moreover have "ro_route_breakers ro2 = ro_route_breakers ro"
    using synthesize_each_core [OF lane(3) [unfolded synthesize_cloud_routes_def]] by (simp add: core_def)
  ultimately show ?thesis using assms(2) gate_unblocked [of "oe_monotonic e" q r ro2] by (auto simp: gated_routes_def dest: gate_unblocked)
qed

text \<open>The breaker of a key is open, and no configured route of that key is served by the primary provider.\<close>

definition backup_blocked :: "string \<Rightarrow> llm_router \<Rightarrow> bool" where
  "backup_blocked key ro \<longleftrightarrow> key \<in> ro_route_breakers ro \<and> list_all (\<lambda>r. route_key r = key \<longrightarrow> \<not> serves_primary ro r) (ro_routes ro)"

text \<open>The other turns obey the same rule.\<close>

definition others_keep :: "(llm_router \<Rightarrow> bool) \<Rightarrow> (nat \<Rightarrow> step_env) \<Rightarrow> bool" where
  "others_keep p se \<longleftrightarrow> (\<forall>i ro. p ro \<longrightarrow> p (se_probe_others (se i) ro) \<and> p (se_call_others (se i) ro) \<and> p (se_stream_others (se i) ro))"

lemma serves_primary_cong: "ro_primary ro1 = ro_primary ro \<Longrightarrow> serves_primary ro1 r = serves_primary ro r"
  by (simp add: serves_primary_def split: option.split)

lemma refreshed_primary [simp]: "ro_primary (refreshed e ro) = ro_primary ro"
  by (simp add: refreshed_def split: router_budget.splits)

lemma backup_blocked_cong:
  "ro_route_breakers ro \<subseteq> ro_route_breakers ro1 \<Longrightarrow> ro_routes ro1 = ro_routes ro \<Longrightarrow> ro_primary ro1 = ro_primary ro
    \<Longrightarrow> backup_blocked key ro \<Longrightarrow> backup_blocked key ro1"
  unfolding backup_blocked_def using serves_primary_cong [of ro1 ro] by auto

lemma spend_keeps:
  "cloud_spend_allowed e n_in q r ro = Inr (ok, ro1) \<Longrightarrow> ro_route_breakers ro1 = ro_route_breakers ro \<and> ro_routes ro1 = ro_routes ro
    \<and> ro_primary ro1 = ro_primary ro"
  by (auto simp: cloud_spend_allowed_def Let_def split: if_splits router_budget.splits gate_ref.splits prod.splits)

lemma book_keeps:
  "book_usage e q r pv resp ro = Inr ro1 \<Longrightarrow> ro_route_breakers ro1 = ro_route_breakers ro \<and> ro_routes ro1 = ro_routes ro
    \<and> ro_primary ro1 = ro_primary ro"
  by (auto simp: book_usage_def bind_result_def split: router_budget.splits prod.splits sum.splits)

interpretation breaking: field_invariant se n_in q "\<lambda>n ro. others_keep (backup_blocked key) se \<longrightarrow> backup_blocked key ro" "\<lambda>_. 0" for se n_in q key
proof
  fix ro1 ro :: llm_router and n :: int
  assume "ro_route_breakers ro \<subseteq> ro_route_breakers ro1" "ro_routes ro1 = ro_routes ro" "ro_primary ro1 = ro_primary ro"
    "others_keep (backup_blocked key) se \<longrightarrow> backup_blocked key ro"
  then show "others_keep (backup_blocked key) se \<longrightarrow> backup_blocked key ro1" using backup_blocked_cong by blast
next
  fix n :: int and ro i r ro1 k
  assume "others_keep (backup_blocked key) se \<longrightarrow> backup_blocked key ro"
    and s: "cloud_spend_allowed (se_reserve (se i)) n_in q r ro = Inr (True, ro1)"
  then show "others_keep (backup_blocked key) se \<longrightarrow> backup_blocked key ro1" using backup_blocked_cong spend_keeps [OF s] by blast
next
  fix n :: int and ro i r ro1
  assume "others_keep (backup_blocked key) se \<longrightarrow> backup_blocked key ro"
    and s: "cloud_spend_allowed (se_reserve (se i)) n_in q r ro = Inr (False, ro1)"
  then show "others_keep (backup_blocked key) se \<longrightarrow> backup_blocked key ro1" using backup_blocked_cong spend_keeps [OF s] by blast
next
  fix n :: int and ro i r pv resp ro1
  assume "others_keep (backup_blocked key) se \<longrightarrow> backup_blocked key ro"
    and s: "book_usage (se_record (se i)) q r pv resp ro = Inr ro1"
  then show "others_keep (backup_blocked key) se \<longrightarrow> backup_blocked key ro1" using backup_blocked_cong book_keeps [OF s] by blast
qed (simp_all add: others_keep_def)

lemma reset_backup:
  assumes "reset_breaker_if_healthy h ro = Inr ro1" and "backup_blocked key ro"
  shows "backup_blocked key ro1"
proof (cases "ro1 = ro")
  case False
  then have "ro_route_breakers ro1 = ro_route_breakers ro - set (map route_key (filter (serves_primary ro) (ro_routes ro)))"
    and "ro_routes ro1 = ro_routes ro" and "ro_primary ro1 = ro_primary ro"
    using assms(1) by (auto simp: reset_breaker_if_healthy_def Let_def split: if_splits sum.splits bool.splits)
  then show ?thesis using assms(2) serves_primary_cong [of ro1 ro] by (auto simp: backup_blocked_def list_all_iff)
qed (use assms(2) in simp)

lemma refreshed_backup: "backup_blocked key ro \<Longrightarrow> backup_blocked key (refreshed e ro)"
  by (rule backup_blocked_cong [of ro]) simp_all

lemma prepared_backup: "backup_blocked key ro \<Longrightarrow> backup_blocked key (prepared_router e ro)"
  using reset_backup [of "te_primary_healthy e" ro _ key] by (auto simp: prepared_router_def refreshed_backup split: sum.splits)

lemma prepare_backup:
  assumes "prepare_turn e q ro = Inr (rs, d, ro1)" and "backup_blocked key ro"
  shows "backup_blocked key ro1 \<and> key \<notin> route_key ` set rs"
  using assms(1)
proof (rule prepare_turnE)
  fix ro0
  assume r: "reset_breaker_if_healthy (te_primary_healthy e) ro = Inr ro0"
    and o: "ordered_routes (te_order e) True q (refreshed (te_headroom e) ro0) = Inr (rs, d, ro1)"
  have "backup_blocked key (refreshed (te_headroom e) ro0)"
    by (rule refreshed_backup [OF reset_backup [OF r assms(2)]])
  then show ?thesis
    using ordered_core [OF o] ordered_unblocked [OF o] backup_blocked_cong [of "refreshed (te_headroom e) ro0" ro1 key]
    by (auto simp: core_def backup_blocked_def)
qed

lemma run_call_routes:
  assumes "z \<in> set (fst (run_call c ro))"
  obtains rs d ro1 where "prepare_turn (rc_env c) (rc_request c) ro = Inr (rs, d, ro1)" and "event_route z \<in> set rs"
proof (cases "prepare_turn (rc_env c) (rc_request c) ro")
  case (Inl err)
  then show ?thesis using assms by (simp add: run_call_def chat_def stream_chat_def split: if_splits)
next
  case (Inr p)
  obtain rs d ro1 where p: "p = (rs, d, ro1)" by (cases p) auto
  have "event_route z \<in> set rs"
    using assms Inr p chat_loop_events stream_loop_events
    by (auto simp: run_call_def chat_def stream_chat_def split: if_splits prod.splits option.splits)
  then show ?thesis using Inr p that by blast
qed

lemma run_call_backup:
  assumes "backup_blocked key ro" and "others_keep (backup_blocked key) (te_step (rc_env c))"
  shows "backup_blocked key (snd (run_call c ro)) \<and> list_all (\<lambda>z. route_key (event_route z) \<noteq> key) (fst (run_call c ro))"
proof
  let ?P = "\<lambda>(n::int) ro. others_keep (backup_blocked key) (te_step (rc_env c)) \<longrightarrow> backup_blocked key ro"
  have "?P (0 + sum_list (map (\<lambda>_. 0) (fst (run_call c ro)))) (snd (run_call c ro))"
  proof (rule run_call_invariant)
    show "turn_invariant (te_step (rc_env c)) (estimate_input_tokens (oe_str (te_order (rc_env c))) (rc_messages c)) (rc_request c)
        ?P (\<lambda>_. 0)" by (rule breaking.turn_invariant_axioms)
  qed (use prepare_backup assms(1) prepared_backup in blast)+
  then show "backup_blocked key (snd (run_call c ro))" using assms(2) by blast
  show "list_all (\<lambda>z. route_key (event_route z) \<noteq> key) (fst (run_call c ro))"
    unfolding list_all_iff
  proof
    fix z
    assume "z \<in> set (fst (run_call c ro))"
    then obtain rs d ro1 where "prepare_turn (rc_env c) (rc_request c) ro = Inr (rs, d, ro1)" and "event_route z \<in> set rs"
      by (rule run_call_routes)
    then show "route_key (event_route z) \<noteq> key" using prepare_backup [OF _ assms(1)] by blast
  qed
qed

text \<open>
  The breaker of a route that the primary provider does not serve never closes: once it is
  open, over any calls and whatever the providers answer, it stays open and the route is
  never tried again. Only a restart or an operator's code change helps.
\<close>

theorem backup_breaker_never_closes:
  assumes "backup_blocked key ro" and "\<forall>c \<in> set cs. others_keep (backup_blocked key) (te_step (rc_env c))"
  shows "key \<in> ro_route_breakers (snd (run_calls cs ro))
    \<and> list_all (\<lambda>(c, ev). list_all (\<lambda>z. route_key (event_route z) \<noteq> key) ev) (fst (run_calls cs ro))"
  using assms
proof (induction cs arbitrary: ro)
  case (Cons c cs)
  obtain ev ro1 where c: "run_call c ro = (ev, ro1)" by fastforce
  from run_call_backup [OF Cons.prems(1), of c] Cons.prems(2) c
  have "backup_blocked key ro1 \<and> list_all (\<lambda>z. route_key (event_route z) \<noteq> key) ev" by simp
  with Cons.IH [of ro1] Cons.prems(2) show ?case by (simp add: c split_beta)
qed (simp add: backup_blocked_def)

theorem backup_breaker_never_closes_witness:
  "''claude'' \<in> ro_route_breakers (snd (run_calls (replicate 3 \<lparr>rc_streamed = True, rc_env = sample_turn static_inputs only_cloud_answers,
     rc_messages = [], rc_request = cloud_request\<rparr>) (sample_router\<lparr>ro_route_breakers := {''claude''}\<rparr>)))"
proof -
  have "backup_blocked ''claude'' (sample_router\<lparr>ro_route_breakers := {''claude''}\<rparr>)" by code_simp
  moreover have "others_keep p (te_step (sample_turn oe answer))" for p oe answer
    by (simp add: others_keep_def sample_turn_def quiet_step_def)
  ultimately show ?thesis using backup_breaker_never_closes [of "''claude''" "sample_router\<lparr>ro_route_breakers := {''claude''}\<rparr>"
      "replicate 3 \<lparr>rc_streamed = True, rc_env = sample_turn static_inputs only_cloud_answers, rc_messages = [], rc_request = cloud_request\<rparr>"]
    by simp
qed

section \<open>Generation slots\<close>

text \<open>
  The slots as several turns see them: a turn takes a slot for a route or is refused, a turn
  that has one gives it back, and anything else may happen to the rest of the router.
  The list holds the routes in flight.
\<close>

inductive slot_step :: "llm_router \<times> provider_route list \<Rightarrow> llm_router \<times> provider_route list \<Rightarrow> bool" where
  take: "try_start_generation r (d, ro) = (True, d1, ro1) \<Longrightarrow> slot_step (ro, fl) (ro1, r # fl)"
| refuse: "try_start_generation r (d, ro) = (False, d1, ro1) \<Longrightarrow> slot_step (ro, fl) (ro1, fl)"
| give_back: "r \<in> set fl \<Longrightarrow> finish_generation r (d, ro) = (d1, ro1) \<Longrightarrow> slot_step (ro, fl) (ro1, remove1 r fl)"
| elsewhere: "ro_concurrency ro1 = ro_concurrency ro \<Longrightarrow> ro_active_total ro1 = ro_active_total ro
    \<Longrightarrow> ro_active_local ro1 = ro_active_local ro \<Longrightarrow> ro_active_cloud ro1 = ro_active_cloud ro \<Longrightarrow> slot_step (ro, fl) (ro1, fl)"

definition slots_ok :: "llm_router \<times> provider_route list \<Rightarrow> bool" where
  "slots_ok = (\<lambda>(ro, fl). ro_active_total ro = int (length fl) \<and> ro_active_cloud ro = int (length (filter is_cloud fl))
     \<and> ro_active_local ro = int (length (filter (\<lambda>r. \<not> is_cloud r) fl))
     \<and> ro_active_total ro \<le> max 0 (gc_normal_parallel_limit (ro_concurrency ro))
     \<and> ro_active_total ro \<le> max 0 (gc_hard_parallel_limit (ro_concurrency ro))
     \<and> ro_active_local ro \<le> max 0 (gc_max_local_generations (ro_concurrency ro))
     \<and> ro_active_cloud ro \<le> max 0 (gc_max_cloud_generations (ro_concurrency ro)))"

lemma start_slots:
  "try_start_generation r (d, ro) = (b, d1, ro1) \<Longrightarrow> ro_concurrency ro1 = ro_concurrency ro
    \<and> ro_active_total ro1 = ro_active_total ro + (if b then 1 else 0)
    \<and> ro_active_cloud ro1 = ro_active_cloud ro + (if b \<and> is_cloud r then 1 else 0)
    \<and> ro_active_local ro1 = ro_active_local ro + (if b \<and> \<not> is_cloud r then 1 else 0)
    \<and> b = can_start (ro_concurrency ro) (pr_cost_tier r) (ro_active_total ro) (ro_active_local ro) (ro_active_cloud ro)"
  by (auto simp: try_start_generation_def record_generation_blocked_def publish_decision_def Let_def split: if_splits)

lemma finish_slots:
  "finish_generation r (d, ro) = (d1, ro1) \<Longrightarrow> ro_concurrency ro1 = ro_concurrency ro
    \<and> ro_active_total ro1 = max 0 (ro_active_total ro - 1)
    \<and> ro_active_cloud ro1 = (if is_cloud r then max 0 (ro_active_cloud ro - 1) else ro_active_cloud ro)
    \<and> ro_active_local ro1 = (if is_cloud r then ro_active_local ro else max 0 (ro_active_local ro - 1))"
  by (auto simp: finish_generation_def publish_decision_def Let_def split: if_splits)

lemma filter_remove1_length:
  "x \<in> set xs \<Longrightarrow> int (length (filter p (remove1 x xs))) = int (length (filter p xs)) - (if p x then 1 else 0)"
  by (induction xs) (auto simp: of_nat_diff)

lemma slot_step_ok: "slot_step s t \<Longrightarrow> slots_ok s \<Longrightarrow> slots_ok t"
proof (induction rule: slot_step.induct)
  case (take r d ro d1 ro1 fl)
  from start_slots [OF take(1)] take(2) show ?case
    by (auto simp: slots_ok_def can_start_def is_cloud_def split: if_splits)
next
  case (refuse r d ro d1 ro1 fl)
  from start_slots [OF refuse(1)] refuse(2) show ?case by (simp add: slots_ok_def)
next
  case (give_back r fl d ro d1 ro1)
  have "length fl > 0" using give_back(1) by auto
  then have "int (length (remove1 r fl)) = int (length fl) - 1" using give_back(1) by (simp add: length_remove1 of_nat_diff Suc_leI)
  with finish_slots [OF give_back(2)] give_back(3) show ?case
    using filter_remove1_length [OF give_back(1), of is_cloud] filter_remove1_length [OF give_back(1), of "\<lambda>r. \<not> is_cloud r"]
    by (cases "is_cloud r") (auto simp: slots_ok_def)
qed (simp add: slots_ok_def)

text \<open>C15: 
  However the two slot operations of different turns interleave, the counters of the router
  are the numbers of routes that have taken a slot and not given it back, in total, locally
  and in the cloud, and never pass the limits. That the calls of the router do give back what
  they take is \<open>calls_give_back_their_slots\<close>.
\<close>

theorem slots_count_what_is_in_flight:
  assumes "slot_step\<^sup>*\<^sup>* (new_router p th b rs st ttl rc (concurrency_from_env env) n, []) (ro, fl)"
  shows "ro_active_total ro = int (length fl) \<and> ro_active_cloud ro = int (length (filter is_cloud fl))
    \<and> ro_active_local ro = int (length (filter (\<lambda>r. \<not> is_cloud r) fl))
    \<and> int (length fl) \<le> gc_normal_parallel_limit (concurrency_from_env env)
    \<and> int (length (filter (\<lambda>r. \<not> is_cloud r) fl)) \<le> gc_max_local_generations (concurrency_from_env env)
    \<and> int (length (filter is_cloud fl)) \<le> gc_max_cloud_generations (concurrency_from_env env)"
proof -
  let ?s = "(new_router p th b rs st ttl rc (concurrency_from_env env) n, [] :: provider_route list)"
  have "slots_ok ?s" by (simp add: slots_ok_def new_router_def)
  with assms have ok: "slots_ok (ro, fl)" by (induction rule: rtranclp_induct) (auto intro: slot_step_ok)
  have "ro_concurrency (fst t) = concurrency_from_env env" if "slot_step\<^sup>*\<^sup>* ?s t" for t
    using that
  proof (induction rule: rtranclp_induct)
    case (step s t)
    from step(2) have "ro_concurrency (fst t) = ro_concurrency (fst s)"
      by (cases rule: slot_step.cases) (auto dest: start_slots finish_slots)
    with step(3) show ?case by simp
  qed (simp add: new_router_def)
  from this [OF assms] ok concurrency_from_env_ok [of env] show ?thesis by (simp add: slots_ok_def)
qed

theorem slots_count_what_is_in_flight_witness:
  "ro_active_total (snd (snd (try_start_generation local_route (plain_decision_record cloud_request sample_router, sample_router)))) = 1"
proof -
  obtain b d1 ro1 where t: "try_start_generation local_route (plain_decision_record cloud_request sample_router, sample_router) = (b, d1, ro1)"
    by (metis surj_pair)
  have b: b using start_slots [OF t] by (simp add: sample_router_def new_router_def) code_simp
  have "slot_step\<^sup>*\<^sup>* (sample_router, []) (ro1, [local_route])"
    using slot_step.take [of local_route "plain_decision_record cloud_request sample_router" sample_router d1 ro1 "[]"] t b by auto
  from slots_count_what_is_in_flight [OF this [unfolded sample_router_def]] t show ?thesis by simp
qed

section \<open>Calls and their slots\<close>

text \<open>
  Other turns leave as many slots taken as they found, whichever those are. A call then
  leaves the slots as they were, however it ends.
\<close>

definition others_give_back :: "(nat \<Rightarrow> step_env) \<Rightarrow> bool" where
  "others_give_back se \<longleftrightarrow> (\<forall>i fl ro. slots_ok (ro, fl) \<longrightarrow> slots_ok (se_probe_others (se i) ro, fl)
     \<and> slots_ok (se_call_others (se i) ro, fl) \<and> slots_ok (se_stream_others (se i) ro, fl))"

definition slot_view :: "llm_router \<Rightarrow> concurrency_policy \<times> int \<times> int \<times> int" where
  "slot_view ro = (ro_concurrency ro, ro_active_total ro, ro_active_local ro, ro_active_cloud ro)"

lemma slots_cong: "slot_view ro1 = slot_view ro \<Longrightarrow> slots_ok (ro1, fl) = slots_ok (ro, fl)"
  by (simp add: slots_ok_def slot_view_def)

lemma view_keeps:
  "record_route_selected r (d, ro) = (d1, ro1) \<Longrightarrow> slot_view ro1 = slot_view ro"
  "provider_health e force pv r ro = (h, ro1) \<Longrightarrow> slot_view ro1 = slot_view ro"
  "slot_view (record_route_failure r ro) = slot_view ro" "slot_view (trip_breaker ro) = slot_view ro"
  "cloud_spend_allowed b n_in q r ro = Inr (ok, ro1) \<Longrightarrow> slot_view ro1 = slot_view ro"
  "book_usage b q r pv resp ro = Inr ro1 \<Longrightarrow> slot_view ro1 = slot_view ro"
  "slot_view (refreshed b ro) = slot_view ro"
  by (auto simp: slot_view_def record_route_selected_def publish_decision_def provider_health_def record_route_failure_def trip_breaker_def
      cloud_spend_allowed_def book_usage_def bind_result_def refreshed_def Let_def
      split: option.splits if_splits prod.splits sum.splits router_budget.splits gate_ref.splits)

lemma taken_slot:
  assumes "try_start_generation r (d, ro) = (b, d1, ro1)" and "slots_ok (ro, fl)"
  shows "slots_ok (ro1, if b then r # fl else fl)"
  using slot_step_ok [OF slot_step.take [of r d ro d1 ro1 fl] assms(2)] slot_step_ok [OF slot_step.refuse [of r d ro d1 ro1 fl] assms(2)] assms(1)
  by (cases b) auto

lemma given_back: "finish_generation r (d, ro) = (d1, ro1) \<Longrightarrow> slots_ok (ro, r # fl) \<Longrightarrow> slots_ok (ro1, fl)"
  using slot_step_ok [OF slot_step.give_back [of r "r # fl" d ro d1 ro1]] by simp

lemma slot_around:
  assumes "slots_ok (ro, fl)" and s: "in_slot r body (d, ro) = (a, (d1, ro1), ev)"
    and body: "\<And>d ro a1 d2 ro2 ev. slots_ok (ro, r # fl) \<Longrightarrow> body (d, ro) = (a1, (d2, ro2), ev) \<Longrightarrow> slots_ok (ro2, r # fl)"
  shows "slots_ok (ro1, fl)"
proof -
  obtain b d2 ro2 where t: "try_start_generation r (d, ro) = (b, d2, ro2)" by (metis surj_pair)
  note taken = taken_slot [OF t assms(1)]
  show ?thesis
  proof (cases b)
    case False
    then show ?thesis using s t taken by (simp add: in_slot_def)
  next
    case True
    obtain a3 d3 ro3 ev3 where b: "body (d2, ro2) = (a3, (d3, ro3), ev3)" by (metis surj_pair)
    have "finish_generation r (d3, ro3) = (d1, ro1)" using s t b True by (simp add: in_slot_def)
    then show ?thesis using body [OF _ b] taken True given_back by simp
  qed
qed

lemma cloud_keeps_slots:
  assumes "others_give_back se" and "slots_ok (ro, fl)" and "cloud_attempt (se i) n_in q r pv (d, ro) = (a, (d2, ro2), ev)"
  shows "slots_ok (ro2, fl)"
proof (cases "cloud_spend_allowed (se_reserve (se i)) n_in q r ro")
  case (Inr x)
  obtain ok ro3 where x: "x = (ok, ro3)" by (metis surj_pair)
  have s3: "slots_ok (ro3, fl)" using slots_cong [OF view_keeps(5) [OF Inr [unfolded x]]] assms(2) by simp
  have s4: "slots_ok (se_call_others (se i) ro3, fl)" using assms(1) s3 by (simp add: others_give_back_def)
  have booked: "slots_ok (ro4, fl)" if "book_usage (se_record (se i)) q r pv resp (se_call_others (se i) ro3) = Inr ro4" for resp ro4
    using slots_cong [OF view_keeps(6) [OF that]] s4 by simp
  have selected: "slots_ok (ro5, fl)" if "record_route_selected r (d, ro4) = (d5, ro5)" "slots_ok (ro4, fl)" for ro4 d5 ro5
    using slots_cong [OF view_keeps(1) [OF that(1)]] that(2) by simp
  show ?thesis using assms(3) Inr x s3 s4 booked selected
    by (auto simp: cloud_attempt_def Let_def split: if_splits sum.splits)
qed (use assms in \<open>simp add: cloud_attempt_def\<close>)

lemma local_keeps_slots:
  assumes "others_give_back se" and "slots_ok (ro, fl)" and "local_attempt (se i) r pv (d, ro) = (a, (d2, ro2), ev)"
  shows "slots_ok (ro2, fl)"
proof -
  have s: "slots_ok (se_call_others (se i) ro, fl)" using assms(1,2) by (simp add: others_give_back_def)
  then show ?thesis using assms(3) slots_cong [OF view_keeps(1)] by (auto simp: local_attempt_def Let_def split: sum.splits)
qed

lemma stream_keeps_slots:
  assumes o: "others_give_back se" and p: "slots_ok (ro, fl)" and s: "local_stream (se i) r pv (d, ro) = (ts, a, (d1, ro1), ev)"
  shows "slots_ok (ro1, fl)"
proof -
  obtain b d2 ro2 where t: "try_start_generation r (d, ro) = (b, d2, ro2)" by (metis surj_pair)
  note taken = taken_slot [OF t p]
  show ?thesis
  proof (cases b)
    case False
    then show ?thesis using s t taken by (simp add: local_stream_def)
  next
    case True
    let ?texts = "filter (\<lambda>t. t \<noteq> '''') (map chunk_text (sa_chunks (se_stream (se i) pv)))" and ?ro = "se_call_others (se i) ro2"
    have c: "slots_ok (?ro, r # fl)" using o taken True by (simp add: others_give_back_def)
    obtain d3 ro3 where m: "(if ?texts \<noteq> [] \<or> sa_raises (se_stream (se i) pv) = None
        then record_route_selected r (d2, ?ro) else (d2, ?ro)) = (d3, ro3)"
      by (metis surj_pair)
    have "slots_ok (ro3, r # fl)" using m c slots_cong [OF view_keeps(1) [of r d2 ?ro d3 ro3]] by (auto split: if_splits)
    then have "slots_ok (se_stream_others (se i) ro3, r # fl)" using o by (simp add: others_give_back_def)
    moreover have "finish_generation r (d3, se_stream_others (se i) ro3) = (d1, ro1)"
      using s t True m by (auto simp: local_stream_def Let_def split: option.splits)
    ultimately show ?thesis using given_back by blast
  qed
qed

lemma probe_keeps_slots:
  assumes "others_give_back se" and "slots_ok (ro, fl)"
  shows "slots_ok (snd (local_route_callable (se i) r ro), fl)"
proof (cases "is_cloud r \<or> pr_provider r = None")
  case False
  then obtain pv where pv: "pr_provider r = Some pv" by blast
  obtain h ro1 where h: "provider_health (se_health (se i)) False pv r ro = (h, ro1)" by (metis surj_pair)
  have "slots_ok (ro1, fl)" using slots_cong [OF view_keeps(2) [OF h]] assms(2) by simp
  then show ?thesis using assms(1) False pv h by (simp add: local_route_callable_def others_give_back_def)
qed (use assms in \<open>auto simp: local_route_callable_def\<close>)

interpretation slotting: turn_invariant se n_in q "\<lambda>n ro. others_give_back se \<longrightarrow> slots_ok (ro, fl)" "\<lambda>_. 0" for se n_in q fl
proof
  show "others_give_back se \<longrightarrow> slots_ok (ro1, fl)"
    if "others_give_back se \<longrightarrow> slots_ok (ro, fl)" "in_slot r (cloud_attempt (se i) n_in q r pv) (d, ro) = (a, (d1, ro1), ev)"
    for ro r i pv d a d1 ro1 ev
    using slot_around [OF _ that(2), of fl] cloud_keeps_slots [of se _ "r # fl" i n_in q r pv] that(1) by blast
  show "others_give_back se \<longrightarrow> slots_ok (ro1, fl)"
    if "others_give_back se \<longrightarrow> slots_ok (ro, fl)" "in_slot r (local_attempt (se i) r pv) (d, ro) = (a, (d1, ro1), ev)"
    for ro r i pv d a d1 ro1 ev
    using slot_around [OF _ that(2), of fl] local_keeps_slots [of se _ "r # fl" i r pv] that(1) by blast
  show "others_give_back se \<longrightarrow> slots_ok (ro1, fl)"
    if "others_give_back se \<longrightarrow> slots_ok (ro, fl)" "local_stream (se i) r pv (d, ro) = (ts, a, (d1, ro1), ev)"
    for ro r i pv d ts a d1 ro1 ev
    using stream_keeps_slots [of se ro fl i r pv d ts a d1 ro1 ev] that by blast
qed (auto simp: probe_keeps_slots slots_cong [OF view_keeps(3)] slots_cong [OF view_keeps(4)])

lemma unpublished_view: "unpublished ro1 = unpublished ro \<Longrightarrow> slot_view ro1 = slot_view ro"
proof -
  assume "unpublished ro1 = unpublished ro"
  then have "slot_view (unpublished ro1) = slot_view (unpublished ro)" by simp
  then show ?thesis by (simp add: slot_view_def unpublished_def)
qed

lemma base_route_view: "synthesized_base_route e m ro = (x, ro1) \<Longrightarrow> slot_view ro1 = slot_view ro"
  by (auto simp: slot_view_def synthesized_base_route_def Let_def split: option.splits prod.splits if_splits)

lemma synthesize_each_view: "synthesize_each e rec cs acc ro = (made, ro1) \<Longrightarrow> slot_view ro1 = slot_view ro"
proof (induction e rec cs acc ro arbitrary: made ro1 rule: synthesize_each.induct)
  case (2 e rec c cs acc ro)
  obtain x ro2 where b: "synthesized_base_route e (cd_model c) ro = (x, ro2)" by (metis surj_pair)
  show ?case using 2(1) [OF b [symmetric]] 2(2) b base_route_view [OF b] by (cases x) auto
qed simp

lemma ordered_view:
  assumes "ordered_routes e pub q ro = Inr (rs, d, ro1)"
  shows "slot_view ro1 = slot_view ro"
  using assms
proof (cases rule: ordered_routesE)
  case plain
  then show ?thesis by (intro unpublished_view)
next
  case (lane l c made ro2)
  from synthesize_each_view [OF lane(3) [unfolded synthesize_cloud_routes_def]] unpublished_view [OF lane(5)]
  show ?thesis by simp
qed

lemma reset_view: "reset_breaker_if_healthy h ro = Inr ro1 \<Longrightarrow> slot_view ro1 = slot_view ro"
  by (auto simp: slot_view_def reset_breaker_if_healthy_def Let_def split: if_splits sum.splits bool.splits)

lemma prepare_view: "prepare_turn e q ro = Inr (rs, d, ro1) \<Longrightarrow> slot_view ro1 = slot_view ro"
  by (elim prepare_turnE) (simp add: ordered_view reset_view view_keeps(7))

lemma prepared_view: "slot_view (prepared_router e ro) = slot_view ro"
  using reset_view [of "te_primary_healthy e" ro] by (auto simp: prepared_router_def view_keeps(7) split: sum.splits)

lemma run_call_slots:
  assumes "slots_ok (ro, fl)" and "others_give_back (te_step (rc_env c))"
  shows "slots_ok (snd (run_call c ro), fl)"
proof -
  let ?P = "\<lambda>(n::int) ro. others_give_back (te_step (rc_env c)) \<longrightarrow> slots_ok (ro, fl)"
  have "?P (0 + sum_list (map (\<lambda>_. 0) (fst (run_call c ro)))) (snd (run_call c ro))"
  proof (rule run_call_invariant)
    show "turn_invariant (te_step (rc_env c)) (estimate_input_tokens (oe_str (te_order (rc_env c))) (rc_messages c)) (rc_request c)
        ?P (\<lambda>_. 0)" by (rule slotting.turn_invariant_axioms)
    show "?P 0 ro1" if "prepare_turn (rc_env c) (rc_request c) ro = Inr (rs, d, ro1)" for rs d ro1
      using slots_cong [OF prepare_view [OF that]] assms(1) by simp
    show "?P 0 (prepared_router (rc_env c) ro)" using slots_cong [OF prepared_view] assms(1) by simp
  qed
  then show ?thesis using assms(2) by blast
qed



end
