(* ===== verification/RouterFaults.thy ===== *)
theory RouterFaults
  imports RouterGuarantees
begin

text \<open>
  Single facts about the router: the status list agrees with the gate, and the places where
  the code does not do what its comments say.
\<close>

section \<open>The status list\<close>

text \<open>A health answer that has the model has the endpoint.\<close>

definition coherent :: "health_payload \<Rightarrow> bool" where
  "coherent h \<longleftrightarrow> hp_model_available h \<longrightarrow> hp_checked h \<and> hp_endpoint_healthy h"

lemma disabled_reason_nonempty [simp]: "disabled_reason r ro \<noteq> ''''"
  by (simp add: disabled_reason_def)

lemma blocked_reason_iff:
  "coherent h \<Longrightarrow> route_blocked_reason r h c p ts ro = '''' \<longleftrightarrow>
    hp_model_available h \<and> route_allowed r c p ts ro \<and> \<not> route_temporarily_blocked r ro"
  unfolding route_blocked_reason_def route_allowed_def coherent_def
  by (auto simp: str_or_def split: option.splits)

text \<open>
  In the status list a route is callable exactly when no reason is given for which it is
  blocked, for any health answers in which a model that is there has its endpoint.
\<close>

theorem callable_iff_not_blocked:
  assumes "coherent (st_health (fst (status_of e policy cloud tiers force cdl r ro)))"
  shows "st_callable (fst (status_of e policy cloud tiers force cdl r ro))
    \<longleftrightarrow> st_blocked_reason (fst (status_of e policy cloud tiers force cdl r ro)) = ''''"
  using assms by (auto simp: status_of_def blocked_reason_iff split: prod.splits)

theorem callable_iff_not_blocked_witness:
  "st_callable (fst (status_of (se_health (quiet_step only_cloud_answers)) None False None True False local_route sample_router))"
proof -
  let ?s = "fst (status_of (se_health (quiet_step only_cloud_answers)) None False None True False local_route sample_router)"
  have "coherent (st_health ?s)" by code_simp
  moreover have "st_blocked_reason ?s = ''''" by code_simp
  ultimately show ?thesis using callable_iff_not_blocked by blast
qed

section \<open>The budget of a provider\<close>

text \<open>
  With a budget of its own, a cloud provider cannot be called at all: \<open>gate_for\<close> returns a
  gate that has no \<open>reserve\<close>, and the attempt fails before anything is sent.
\<close>

theorem own_budget_stops_every_call:
  assumes "is_cloud r" and "route_allowed r (tq_cloud_allowed q) (tq_response_policy q) None ro"
    and "ro_budget ro = MultiGate m" and "pr_provider_budget_id r \<noteq> ''''"
    and "dict_get (mg_gates m) (pr_provider_budget_id r) = Some pg"
  shows "cloud_attempt s n_in q r pv (d, ro) = (Failed (Raised ''AttributeError''), (d, ro), [])"
  using assms by (simp add: cloud_attempt_def cloud_spend_allowed_def gate_for_def Let_def str_or_def)

definition budgeted_router :: llm_router where
  "budgeted_router = sample_router\<lparr>ro_budget := MultiGate (update_provider_budget ''anthropic'' (Some 5) None
     (new_multi_gate (\<lambda>_. None) (save_cloud sample_gate) (Some sample_gate) [])),
     ro_routes := [local_route, cloud_route\<lparr>pr_provider_budget_id := ''anthropic''\<rparr>]\<rparr>"

theorem own_budget_stops_every_call_witness:
  "cloud_attempt (quiet_step only_cloud_answers) 1 cloud_request (cloud_route\<lparr>pr_provider_budget_id := ''anthropic''\<rparr>) cloud_provider
       (plain_decision_record cloud_request budgeted_router, budgeted_router)
     = (Failed (Raised ''AttributeError''), (plain_decision_record cloud_request budgeted_router, budgeted_router), [])"
proof -
  let ?r = "cloud_route\<lparr>pr_provider_budget_id := ''anthropic''\<rparr>"
  let ?m = "update_provider_budget ''anthropic'' (Some 5) None (new_multi_gate (\<lambda>_. None) (save_cloud sample_gate) (Some sample_gate) [])"
  have r: "is_cloud ?r" "route_allowed ?r (tq_cloud_allowed cloud_request) (tq_response_policy cloud_request) None budgeted_router"
    by code_simp+
  have m: "ro_budget budgeted_router = MultiGate ?m" by (simp add: budgeted_router_def)
  have id: "pr_provider_budget_id ?r = ''anthropic''" by simp
  obtain pg where "dict_get (mg_gates ?m) ''anthropic'' = Some pg"
    by (simp add: update_provider_budget_def new_multi_gate_def dict_get_def dict_set_def Let_def)
  then show ?thesis using own_budget_stops_every_call [OF r m] unfolding id by blast
qed

section \<open>The health probe of a local route\<close>

text \<open>
  A local route whose health probe raises is skipped: the probe's exception becomes a
  payload without the model, so the route is not attempted anyway (the comment promises
  the opposite).
\<close>

theorem failed_probe_skips_the_route:
  assumes "\<not> is_cloud r" and "pr_provider r = Some pv" and "dict_get (ro_health_cache ro) (route_key r) = None"
    and "he_answer (se_health (se i)) pv = HealthRaises"
  shows "chat_loop se n_in q i (r # rs) (d, ro) = chat_loop se n_in q (Suc i) rs (d, snd (local_route_callable (se i) r ro))"
  using assms by (simp add: local_route_callable_def provider_health_def Let_def)

definition dark_step :: step_env where
  "dark_step = (quiet_step only_cloud_answers)\<lparr>se_health := \<lparr>he_monotonic = 0, he_wall = 0, he_answer = (\<lambda>_. HealthRaises)\<rparr>\<rparr>"

theorem failed_probe_skips_the_route_witness:
  "chat_loop (\<lambda>_. dark_step) 1 cloud_request 0 [local_route] (plain_decision_record cloud_request sample_router, sample_router)
     = (None, (plain_decision_record cloud_request sample_router, snd (local_route_callable dark_step local_route sample_router)), [])"
  using failed_probe_skips_the_route [of local_route local_provider sample_router "\<lambda>_. dark_step" 0 1 cloud_request "[]"]
  by (simp add: dark_step_def sample_router_def new_router_def dict_get_def local_route_def plain_route_def is_cloud_def)

section \<open>Errors of a cloud call\<close>

text \<open>
  When the cloud model of a streamed call raises, the stream ends with that error although
  routes are left; the same error in \<open>chat\<close> is counted, and the next route is tried.
\<close>

theorem streaming_gives_up_where_chat_goes_on:
  assumes "is_cloud r" and "pr_provider r = Some pv"
    and "in_slot r (cloud_attempt (se i) n_in q r pv) (d, ro) = (Failed err, (d1, ro1), ev)"
  shows "fst (snd (stream_loop se n_in q i (r # rs) (d, ro))) = Inl err
    \<and> fst (chat_loop se n_in q i (r # rs) (d, ro)) = fst (chat_loop se n_in q (Suc i) rs (d1, record_route_failure r ro1))"
  using assms by (simp add: local_route_callable_def split_beta)


end
