(* ===== verification/Personas.thy ===== *)
theory Personas
  imports SiteData ChatPolicy
begin

text \<open>
  \<open>core/personas.py\<close>: the three personas with their prompts, and what the deployment may
  replace of them. A configuration that cannot be read counts as one without overrides.
\<close>

section \<open>The texts\<close>

definition DEFAULT_BOT_IDENTITY :: string where
  "DEFAULT_BOT_IDENTITY =
     ''IDENTITY:'' @ nl @
     ''You are the assistant for this deployment. Whatever model is running you, you speak with a consistent '' @
     ''voice: direct, plain, technically fluent. No manufactured enthusiasm. No em dashes. No generic '' @
     ''vendor filler. Match the user'' @ [CHR 0x27] @
     ''s register: technical with engineers, accessible with prospects, supportive with learners.'' @ nl @ nl @
     ''RESOURCES YOU RELY ON:'' @ nl @ ''- The retrieval context you receive on each turn is the deployment'' @
     [CHR 0x27] @ ''s curated knowledge library answering the user'' @ [CHR 0x27] @
     ''s query. When it has a relevant source (a repo, post, release, report, video, or thread), lean '' @
     ''on it: name it, link it, quote the specific number or code, attribute the author.'' @ nl @
     ''- When the library has nothing useful, say so plainly and answer with practical general knowledge. '' @
     ''Never fabricate a citation.'' @ nl @ nl @ ''POSTURE:'' @ nl @
     ''- Surface library content naturally when it helps the user. If a source matches what they'' @ [CHR 0x27] @
     ''re trying to build, recommend it by name with the URL. If a post or report contains a statistic '' @
     ''that answers their question, cite the author/year and quote the figure.'' @ nl @
     ''- You do not invent links, prices, contracts, or commercial terms. You do not speak for third '' @ ''parties.'' @ nl"

definition CITATION_DISCIPLINE :: string where
  "CITATION_DISCIPLINE =
     ''GROUNDING RULES (the retrieval context is an index over the deployment'' @ [CHR 0x27] @
     ''s curated knowledge library):'' @ nl @
     ''- When the retrieved context contains a specific source (a repo, blog post, release, report, '' @
     ''video, or thread), NAME IT EXPLICITLY in your reply: title, author or org if known, year if known, '' @
     ''and the full URL.'' @ nl @
     ''- When the context has a specific statistic, quoted number, code snippet, or command, USE IT '' @
     ''verbatim with attribution. Do not paraphrase a specific number into a vague qualifier ('' @ [CHR 0x22] @ ''many'' @
     [CHR 0x22] @ '', '' @ [CHR 0x22] @ ''a lot'' @ [CHR 0x22] @ '', '' @ [CHR 0x22] @ ''most'' @ [CHR 0x22] @ '').'' @
     nl @ ''- When the context has an artifact that matches what the user is trying to build, recommend it '' @
     ''by name with the URL.'' @ nl @
     ''- When the context is empty or unrelated, say so plainly and offer practical general guidance. '' @
     ''Never fabricate a citation. Never invent URLs.'' @ nl @ ''- Cite by emitting a final '' @ [CHR 0x27] @
     ''Source: <URL>'' @ [CHR 0x27] @ '' line for each cited source.'' @ nl @
     ''- When the user describes something they want to build, implement, integrate, deploy, debug, '' @
     ''or operationalize, and the library has a relevant artifact, BOTH recommend the artifact AND offer '' @
     ''a soft handoff: '' @ [CHR 0x22] @ ''Want help getting this implemented? I can connect you with the team.'' @
     [CHR 0x22] @ '' Keep the offer to one short sentence and only when build/implement intent is clear from the '' @
     ''user'' @ [CHR 0x27] @ ''s words.'' @ nl"

record persona =
  pe_id :: string
  pe_name :: string
  pe_description :: string
  pe_system_prompt :: string
  pe_allowed_tools :: "string list"
  pe_force_secondary :: bool

definition PIPELINE_PERSONA :: persona where
  "PIPELINE_PERSONA = \<lparr>pe_id = ''pipeline'', pe_name = ''Service Inquiry'',
     pe_description = ''Explore support, consulting, and implementation help.'',
     pe_system_prompt = DEFAULT_BOT_IDENTITY @
     nl @ ''MODE: Service Inquiry.'' @ nl @
     ''You are helping a prospect or client decide whether and how to engage the operator of this deployment. '' @
     ''Focus on outcomes (hours saved, error rates, onboarding speed). Never dump jargon. Ask qualifying '' @
     ''questions that turn vague interest into a scoped engagement: what systems are involved, what '' @
     ''the current process looks like, what '' @ [CHR 0x27] @ ''better'' @ [CHR 0x27] @
     '' looks like, what the support expectation is.'' @ nl @ ''Route qualified leads to the deployment'' @ [CHR 0x27] @
     ''s contact path with a short summary of what to include. Do not quote prices, rates, or packages. '' @
     ''Do not push the contact path before you have answered the user'' @ [CHR 0x27] @
     ''s immediate question or identified a real fit.'' @ nl @ nl
     @ CITATION_DISCIPLINE,
     pe_allowed_tools = [SERVICE_INQUIRY_CTA, REFERENCE_SEARCH, WORKFLOW_PATTERN_SEARCH], pe_force_secondary = False\<rparr>"

definition AUTOMATOR_PERSONA :: persona where
  "AUTOMATOR_PERSONA = \<lparr>pe_id = ''automator'', pe_name = ''Technical Assistance'',
     pe_description = ''Get help with implementation questions and workflows.'',
     pe_system_prompt = DEFAULT_BOT_IDENTITY @
     nl @ ''MODE: Technical Assistance.'' @ nl @
     ''You are helping a working engineer unblock a workflow or solve a specific implementation problem. '' @
     ''Be technical, terse, accurate.'' @ nl @ ''Workflow:'' @ nl @
     ''1. If the retrieved library context contains a relevant existing workflow, schema, filter, or '' @
     ''reference, recommend it by name with its URL. The library is a source, not a cage; if it has '' @
     ''a useful hit, use it. If it does not, answer with practical general guidance and say plainly '' @
     ''that the library did not have a specific hit.'' @ nl @
     ''2. Never claim something came from the library without emitting a Source: line with the exact '' @
     ''URL. Never invent URLs.'' @ nl @ nl
     @ CITATION_DISCIPLINE,
     pe_allowed_tools = [KB_OVERVIEW, REFERENCE_SEARCH, WORKFLOW_PATTERN_SEARCH], pe_force_secondary = False\<rparr>"

definition EDUCATOR_PERSONA :: persona where
  "EDUCATOR_PERSONA = \<lparr>pe_id = ''educator'', pe_name = ''Educator'',
     pe_description = ''Learn concepts through lessons and challenges.'',
     pe_system_prompt = DEFAULT_BOT_IDENTITY @
     nl @ ''MODE: Educator.'' @ nl @
     ''You are teaching the user the subject of this deployment. Use the Socratic method when it helps: '' @
     ''guide the learner to the answer with a hint before giving it. Explain the '' @ [CHR 0x27] @ ''why'' @ [CHR 0x27] @
     '' behind the '' @ [CHR 0x27] @ ''how'' @ [CHR 0x27] @
     ''. Questions and small practice scenarios are often more useful than direct telling. Tone is supportive '' @
     ''and instructive without being precious.'' @ nl @
     ''When the library has a tutorial, blog post, official doc, or reference that walks through what '' @
     ''the learner is asking about, cite it with author and URL so the learner can go deeper on their '' @ ''own.'' @ nl @
     nl
     @ CITATION_DISCIPLINE,
     pe_allowed_tools = [KB_OVERVIEW, LESSON_CONCEPT_SEARCH, REFERENCE_SEARCH], pe_force_secondary = False\<rparr>"
definition PERSONAS :: "(string \<times> persona) list" where
  "PERSONAS = [(''pipeline'', PIPELINE_PERSONA), (''automator'', AUTOMATOR_PERSONA), (''educator'', EDUCATOR_PERSONA),
     (''sales'', PIPELINE_PERSONA)]"

section \<open>What a deployment replaces\<close>

record persona_override =
  po_id :: string
  po_name :: string
  po_description :: string
  po_system_prompt :: string
  po_allowed_tools :: "string list"
  po_force_secondary :: bool

text \<open>The two parts of the configuration a persona reads; \<open>None\<close> is one that cannot be read.\<close>

record persona_config =
  pc_bot_persona :: string
  pc_modes :: "persona_override list"

definition current_bot_identity :: "persona_config option \<Rightarrow> string" where
  "current_bot_identity cfg = (case cfg of None \<Rightarrow> DEFAULT_BOT_IDENTITY | Some c \<Rightarrow> str_or (pc_bot_persona c) DEFAULT_BOT_IDENTITY)"

definition persona_override_of :: "persona_config option \<Rightarrow> string \<Rightarrow> persona_override option" where
  "persona_override_of cfg mode = (case cfg of None \<Rightarrow> None | Some c \<Rightarrow> find (\<lambda>m. po_id m = mode) (pc_modes c))"

text \<open>\<open>s.replace(old, new, 1)\<close> for a nonempty \<open>old\<close>.\<close>

fun replace_first :: "string \<Rightarrow> string \<Rightarrow> string \<Rightarrow> string" where
  "replace_first old new [] = []"
| "replace_first old new (c # s) =
     (if starts_with old (c # s) then new @ drop (length old) (c # s) else c # replace_first old new s)"

definition with_identity :: "string \<Rightarrow> string \<Rightarrow> string" where
  "with_identity identity prompt =
     (if identity \<noteq> DEFAULT_BOT_IDENTITY then replace_first DEFAULT_BOT_IDENTITY identity prompt else prompt)"

definition get_persona :: "persona_config option \<Rightarrow> string \<Rightarrow> persona" where
  "get_persona cfg mode =
     (let base = (case map_of PERSONAS mode of Some p \<Rightarrow> p | None \<Rightarrow> AUTOMATOR_PERSONA);
          identity = current_bot_identity cfg in
      case persona_override_of cfg mode of
        None \<Rightarrow> base\<lparr>pe_system_prompt := with_identity identity (pe_system_prompt base)\<rparr>
      | Some ov \<Rightarrow> base\<lparr>pe_name := str_or (po_name ov) (pe_name base),
          pe_description := str_or (po_description ov) (pe_description base),
          pe_system_prompt := with_identity identity (str_or (po_system_prompt ov) (pe_system_prompt base)),
          pe_allowed_tools := (if po_allowed_tools ov = [] then pe_allowed_tools base else po_allowed_tools ov),
          pe_force_secondary := po_force_secondary ov\<rparr>)"

section \<open>Lemmas\<close>

lemma starts_with_self [simp]: "starts_with p (p @ s)"
  by (simp add: starts_with_def)

lemma replace_first_prefix: "old \<noteq> [] \<Longrightarrow> replace_first old new (old @ s) = new @ s"
  using starts_with_self [of old s] by (cases old) (simp_all del: starts_with_self)

lemma identity_nonempty: "DEFAULT_BOT_IDENTITY \<noteq> []"
  by (simp add: DEFAULT_BOT_IDENTITY_def)

text \<open>The prompt of a persona that the deployment does not replace: the identity, then the rest.\<close>

lemma base_prompt: "\<exists>m. pe_system_prompt (case map_of PERSONAS mode of Some p \<Rightarrow> p | None \<Rightarrow> AUTOMATOR_PERSONA)
    = DEFAULT_BOT_IDENTITY @ m @ CITATION_DISCIPLINE"
  by (auto simp: PERSONAS_def PIPELINE_PERSONA_def AUTOMATOR_PERSONA_def EDUCATOR_PERSONA_def)

lemma persona_keeps_rules:
  assumes "case persona_override_of cfg mode of None \<Rightarrow> True | Some ov \<Rightarrow> po_system_prompt ov = ''''"
  shows "\<exists>m. pe_system_prompt (get_persona cfg mode) = current_bot_identity cfg @ m @ CITATION_DISCIPLINE"
proof -
  obtain m where m: "pe_system_prompt (case map_of PERSONAS mode of Some p \<Rightarrow> p | None \<Rightarrow> AUTOMATOR_PERSONA)
      = DEFAULT_BOT_IDENTITY @ m @ CITATION_DISCIPLINE" using base_prompt by blast
  have "with_identity identity (DEFAULT_BOT_IDENTITY @ m @ CITATION_DISCIPLINE) = identity @ m @ CITATION_DISCIPLINE" for identity
    by (simp add: with_identity_def replace_first_prefix identity_nonempty)
  then show ?thesis using assms m
    by (auto simp: get_persona_def Let_def split: option.splits)
qed

end
