(* ===== verification/Retriever.thy ===== *)
theory Retriever
  imports ChatPolicy
begin

text \<open>
  \<open>core/retrieval.py\<close>: the knowledge retriever with its bounded cache. The search of the
  knowledge base, the approved discovery context and the HTTP fallback are parameters; the
  first two come with their cloud eligibility.
  The lemmas at the end are about the cache.
\<close>

section \<open>Results\<close>

record retrieval_result =
  rv_tool_name :: string
  rv_query :: string
  rv_content :: string
  rv_source :: string
  rv_cloud_llm_eligible :: bool

definition usable_content :: "string \<Rightarrow> bool" where
  "usable_content content \<longleftrightarrow> strip content \<noteq> '''' \<and> \<not> contains ''no relevant information found'' (lower content)
     \<and> \<not> contains ''error searching knowledge base'' (lower content)"

definition has_context :: "retrieval_result \<Rightarrow> bool" where
  "has_context r = usable_content (rv_content r)"

section \<open>The cache\<close>

type_synonym cache_key = "string \<times> string \<times> int"

text \<open>An \<open>OrderedDict\<close>: the items, the one used last at the end.\<close>

record retriever =
  kr_fallback_url :: string
  kr_cache :: "(cache_key \<times> rat \<times> retrieval_result) list"

definition new_retriever :: "environ \<Rightarrow> string option \<Rightarrow> retriever" where
  "new_retriever env url = \<lparr>kr_fallback_url = (case url of Some u \<Rightarrow> u | None \<Rightarrow> strip (getenv_or env ''KB_FALLBACK_SEARCH_URL'' '''')),
     kr_cache = []\<rparr>"

definition without_key :: "cache_key \<Rightarrow> (cache_key \<times> 'a) list \<Rightarrow> (cache_key \<times> 'a) list" where
  "without_key k d = filter (\<lambda>kv. fst kv \<noteq> k) d"

definition cache_get :: "rat \<Rightarrow> rat \<Rightarrow> cache_key \<Rightarrow> retriever \<Rightarrow> retrieval_result option \<times> retriever" where
  "cache_get ttl now k kr =
     (case map_of (kr_cache kr) k of
        None \<Rightarrow> (None, kr)
      | Some (t, r) \<Rightarrow>
          if ttl > 0 \<and> now - t > ttl then (None, kr\<lparr>kr_cache := without_key k (kr_cache kr)\<rparr>)
          else (Some r, kr\<lparr>kr_cache := without_key k (kr_cache kr) @ [(k, t, r)]\<rparr>))"

definition cache_put :: "int \<Rightarrow> rat \<Rightarrow> cache_key \<Rightarrow> retrieval_result \<Rightarrow> retriever \<Rightarrow> retriever" where
  "cache_put max_entries now k r kr =
     (if max_entries \<le> 0 then kr
      else let items = without_key k (kr_cache kr) @ [(k, now, r)]
           in kr\<lparr>kr_cache := drop (length items - nat max_entries) items\<rparr>)"

definition clear_cache :: "retriever \<Rightarrow> retriever" where
  "clear_cache kr = kr\<lparr>kr_cache := []\<rparr>"

section \<open>The fallback\<close>

text \<open>The HTTP exchange raised, or gave a response; \<open>None\<close> is a body that is not JSON.\<close>

record http_response =
  hr_success :: bool
  hr_content_type :: string
  hr_text :: string
  hr_json :: "json option"

definition fallback_content :: "(json \<Rightarrow> string) \<Rightarrow> http_response \<Rightarrow> string option" where
  "fallback_content rep h =
     (if \<not> contains ''application/json'' (hr_content_type h) then Some (hr_text h)
      else case hr_json h of
          None \<Rightarrow> None
        | Some (JObj kvs) \<Rightarrow>
            (case map_of kvs ''content'' of
               Some (JStr s) \<Rightarrow> Some s
             | _ \<Rightarrow> (case map_of kvs ''results'' of
                  Some (JList xs) \<Rightarrow> Some (join [CHR 0x0A, CHR 0x0A] (map (json_str rep) xs))
                | _ \<Rightarrow> Some (hr_text h)))
        | Some _ \<Rightarrow> Some (hr_text h))"

definition fallback_search :: "(json \<Rightarrow> string) \<Rightarrow> http_response option \<Rightarrow> string \<Rightarrow> string \<Rightarrow> retrieval_result option" where
  "fallback_search rep h query tool =
     (case h of
        None \<Rightarrow> None
      | Some r \<Rightarrow> if \<not> hr_success r then None
          else (case fallback_content rep r of
              None \<Rightarrow> None
            | Some content \<Rightarrow> if strip content = '''' then None
                else Some \<lparr>rv_tool_name = tool, rv_query = query, rv_content = content, rv_source = ''fallback'',
                  rv_cloud_llm_eligible = True\<rparr>))"

section \<open>Retrieving\<close>

text \<open>\<open>Inl\<close> of a search is an exception it raised; \<open>rx_meanwhile\<close> is what other turns do to the
  cache while this one waits for its searches.\<close>

record retrieval_env =
  rx_max_entries :: int
  rx_ttl :: rat
  rx_now :: rat
  rx_now_put :: rat
  rx_rep :: "json \<Rightarrow> string"
  rx_kb :: "string \<Rightarrow> int \<Rightarrow> (string \<times> bool) result"
  rx_discovery :: "string \<Rightarrow> int \<Rightarrow> string \<times> bool"
  rx_fallback :: "string \<Rightarrow> string \<Rightarrow> int \<Rightarrow> http_response option"
  rx_meanwhile :: "retriever \<Rightarrow> retriever"

definition search_query :: "string \<Rightarrow> string \<Rightarrow> string" where
  "search_query query tool =
     (if tool \<noteq> WORKFLOW_PATTERN_SEARCH then query
      else if \<not> has_any (lower query) [''bundle'', ''import'', ''plug in'', ''template''] then query
      else query @ '' workflow examples import bundle ready to import '' @
        ''workflow libraries INDEX.md README preserved import compatibility source URLs'')"

text \<open>The local and the discovery text put together, with the name of the source.\<close>

definition merged_content :: "string \<Rightarrow> string \<Rightarrow> string \<times> string" where
  "merged_content content discovery =
     (if discovery = '''' then (content, ''local'')
      else if usable_content content then (content @ [CHR 0x0A, CHR 0x0A] @ discovery, ''local+discovery'')
      else (discovery, ''discovery''))"

definition fresh_result :: "retrieval_env \<Rightarrow> string \<Rightarrow> string \<Rightarrow> int \<Rightarrow> retrieval_result result" where
  "fresh_result e query tool limit =
     bind_result (rx_kb e (search_query query tool) limit) (\<lambda>(content, eligible).
       let (discovery, d_eligible) = rx_discovery e query 3; (txt, source) = merged_content content discovery
       in Inr \<lparr>rv_tool_name = tool, rv_query = query, rv_content = txt, rv_source = source,
            rv_cloud_llm_eligible = (eligible \<and> d_eligible)\<rparr>)"

definition retrieve :: "retrieval_env \<Rightarrow> string \<Rightarrow> string \<Rightarrow> int \<Rightarrow> retriever \<Rightarrow> (retrieval_result \<times> retriever) result" where
  "retrieve e query0 tool limit kr0 =
     (let query = strip query0; k = (query, tool, limit) in
      case cache_get (rx_ttl e) (rx_now e) k kr0 of
        (Some r, kr) \<Rightarrow> Inr (r, kr)
      | (None, kr) \<Rightarrow>
          bind_result (fresh_result e query tool limit) (\<lambda>r.
            let kr = rx_meanwhile e kr;
              put = (\<lambda>r. if has_context r then cache_put (rx_max_entries e) (rx_now_put e) k r kr else kr) in
            if has_context r \<or> kr_fallback_url kr = '''' then Inr (r, put r)
            else let final = (case fallback_search (rx_rep e) (rx_fallback e query tool limit) query tool of Some x \<Rightarrow> x | None \<Rightarrow> r)
                 in Inr (final, put final)))"

section \<open>Lemmas\<close>

text \<open>The cache never grows past its bound, holds one entry per key, and only usable results.\<close>

definition cache_ok :: "int \<Rightarrow> retriever \<Rightarrow> bool" where
  "cache_ok n kr \<longleftrightarrow> int (length (kr_cache kr)) \<le> max 0 n \<and> distinct (map fst (kr_cache kr))
     \<and> list_all (\<lambda>(k, t, r). has_context r \<and> fst (snd k) = rv_tool_name r \<and> fst k = rv_query r) (kr_cache kr)"

lemma without_key_length: "length (without_key k d) \<le> length d"
  by (simp add: without_key_def)

lemma without_key_distinct: "distinct (map fst d) \<Longrightarrow> distinct (map fst (without_key k d))"
  by (simp add: without_key_def distinct_map_filter)

lemma without_key_absent: "k \<notin> fst ` set (without_key k d)"
  by (auto simp: without_key_def)

lemma without_key_length_less: "map_of d k = Some v \<Longrightarrow> length (without_key k d) < length d"
  unfolding without_key_def by (rule length_filter_less [of "(k, v)"]) (auto dest: map_of_SomeD)

lemma without_key_subset: "set (without_key k d) \<subseteq> set d"
  by (auto simp: without_key_def)

lemma cache_get_ok:
  assumes "cache_ok n kr" and "cache_get ttl now k kr = (x, kr1)"
  shows "cache_ok n kr1 \<and> (case x of None \<Rightarrow> True | Some r \<Rightarrow> has_context r)"
proof (cases "map_of (kr_cache kr) k")
  case None
  then show ?thesis using assms by (simp add: cache_get_def)
next
  case (Some v)
  obtain t r where v: "v = (t, r)" by fastforce
  note less = without_key_length_less [OF Some]
  have r: "has_context r \<and> fst (snd k) = rv_tool_name r \<and> fst k = rv_query r"
    using map_of_SomeD [OF Some] assms(1) v by (auto simp: cache_ok_def list_all_iff)
  have rest: "list_all (\<lambda>(k, t, r). has_context r \<and> fst (snd k) = rv_tool_name r \<and> fst k = rv_query r) (without_key k (kr_cache kr))"
    using assms(1) without_key_subset [of k "kr_cache kr"] by (auto simp: cache_ok_def list_all_iff)
  have "distinct (map fst (without_key k (kr_cache kr)))" using assms(1) by (simp add: cache_ok_def without_key_distinct)
  moreover have "int (length (without_key k (kr_cache kr))) + 1 \<le> max 0 n" using less assms(1) by (simp add: cache_ok_def)
  ultimately show ?thesis using assms(2) Some v r rest without_key_absent [of k "kr_cache kr"]
    by (cases "ttl > 0 \<and> now - t > ttl") (auto simp: cache_get_def cache_ok_def)
qed

lemma distinct_drop_map: "distinct (map f xs) \<Longrightarrow> distinct (map f (drop n xs))"
  by (metis distinct_drop drop_map)

lemma cache_put_ok:
  assumes "cache_ok n kr" and "has_context r" and "rv_tool_name r = tool" and "rv_query r = query"
  shows "cache_ok n (cache_put n now (query, tool, limit) r kr)"
proof (cases "n \<le> 0")
  case True
  then show ?thesis using assms(1) by (simp add: cache_put_def)
next
  case False
  let ?items = "without_key (query, tool, limit) (kr_cache kr) @ [((query, tool, limit), now, r)]"
  have "distinct (map fst ?items)"
    using assms(1) without_key_absent [of "(query, tool, limit)" "kr_cache kr"]
    by (auto simp: cache_ok_def without_key_distinct)
  moreover have "list_all (\<lambda>(k, t, r). has_context r \<and> fst (snd k) = rv_tool_name r \<and> fst k = rv_query r) ?items"
    using assms by (auto simp: cache_ok_def list_all_iff without_key_def)
  ultimately show ?thesis using False
    by (auto simp: cache_put_def cache_ok_def Let_def distinct_drop_map list_all_iff dest!: in_set_dropD)
qed

text \<open>
  Properties of the knowledge retriever: its cache stays bounded, without duplicate keys and
  with usable results only, whatever other turns do to it meanwhile; a result is only
  eligible for the cloud if all its sources were.
\<close>

lemma fresh_result_fields:
  "fresh_result e query tool limit = Inr r \<Longrightarrow> rv_tool_name r = tool \<and> rv_query r = query"
  by (auto simp: fresh_result_def bind_result_def Let_def split: sum.splits prod.splits)

lemma fallback_fields:
  "fallback_search rep h query tool = Some r \<Longrightarrow> rv_tool_name r = tool \<and> rv_query r = query"
  by (auto simp: fallback_search_def split: option.splits if_splits)

text \<open>
  A retrieval keeps the cache within its limit, one entry per key, usable results under the
  key they answer, if the turns that run meanwhile do.
\<close>

theorem cache_stays_well_formed:
  assumes "cache_ok (rx_max_entries e) kr" and "\<And>k. cache_ok (rx_max_entries e) k \<Longrightarrow> cache_ok (rx_max_entries e) (rx_meanwhile e k)"
    and "retrieve e query tool limit kr = Inr (r, kr1)"
  shows "cache_ok (rx_max_entries e) kr1"
proof -
  let ?q = "strip query"
  obtain x kr0 where g: "cache_get (rx_ttl e) (rx_now e) (?q, tool, limit) kr = (x, kr0)" by fastforce
  note ok0 = cache_get_ok [OF assms(1) g]
  have ok: "cache_ok (rx_max_entries e) (rx_meanwhile e kr0)" using assms(2) ok0 by blast
  show ?thesis
  proof (cases x)
    case (Some y)
    then show ?thesis using assms(3) g ok0 by (simp add: retrieve_def)
  next
    case None
    obtain f where f: "fresh_result e ?q tool limit = Inr f"
      using assms(3) g None by (cases "fresh_result e ?q tool limit") (auto simp: retrieve_def bind_result_def)
    define fin where "fin = (if has_context f \<or> kr_fallback_url (rx_meanwhile e kr0) = '''' then f
      else case fallback_search (rx_rep e) (rx_fallback e ?q tool limit) ?q tool of Some z \<Rightarrow> z | None \<Rightarrow> f)"
    have fields: "rv_tool_name fin = tool \<and> rv_query fin = ?q"
      using fresh_result_fields [OF f] fallback_fields [of "rx_rep e" _ ?q tool] unfolding fin_def by (auto split: option.split)
    have "kr1 = (if has_context fin then cache_put (rx_max_entries e) (rx_now_put e) (?q, tool, limit) fin (rx_meanwhile e kr0)
        else rx_meanwhile e kr0)"
      using assms(3) g None f by (auto simp: retrieve_def bind_result_def Let_def fin_def split: if_splits)
    then show ?thesis using cache_put_ok [OF ok _ fields [THEN conjunct1] fields [THEN conjunct2]] ok by simp
  qed
qed

definition kb_sample :: retrieval_env where
  "kb_sample = \<lparr>rx_max_entries = 1, rx_ttl = 300, rx_now = 0, rx_now_put = 1, rx_rep = (\<lambda>_. []),
     rx_kb = (\<lambda>_ _. Inr (''notes on queues'', True)), rx_discovery = (\<lambda>_ _. ([], True)), rx_fallback = (\<lambda>_ _ _. None),
     rx_meanwhile = id\<rparr>"

theorem cache_stays_well_formed_witness:
  "\<exists>r kr1. retrieve kb_sample '' queues '' ''kb_overview'' 5 (new_retriever (\<lambda>_. None) (Some [])) = Inr (r, kr1) \<and> length (kr_cache kr1) \<le> 1"
proof -
  have start: "cache_ok (rx_max_entries kb_sample) (new_retriever (\<lambda>_. None) (Some []))" by (simp add: cache_ok_def new_retriever_def)
  obtain r kr1 where r: "retrieve kb_sample '' queues '' ''kb_overview'' 5 (new_retriever (\<lambda>_. None) (Some [])) = Inr (r, kr1)"
    by (cases "retrieve kb_sample '' queues '' ''kb_overview'' 5 (new_retriever (\<lambda>_. None) (Some []))")
      (auto simp: retrieve_def fresh_result_def bind_result_def kb_sample_def Let_def merged_content_def split: prod.splits option.splits if_splits)
  have "cache_ok (rx_max_entries kb_sample) kr1" by (rule cache_stays_well_formed [OF start _ r]) (simp add: kb_sample_def)
  then show ?thesis using r by (auto simp: cache_ok_def kb_sample_def)
qed

end
