(* ===== verification/AnswerGrading.thy ===== *)
theory AnswerGrading
  imports Retriever
begin

text \<open>
  \<open>core/answer_grading.py\<close>: the grade of an answer, the repair of an inadequate one, and the
  two patterns it searches for (links and amounts of money) as functions on strings.
\<close>

section \<open>The two patterns\<close>

definition url_stop :: "char \<Rightarrow> bool" where
  "url_stop c \<longleftrightarrow> is_space c \<or> c \<in> set ''<>)''"

text \<open>The match of \<open>URL_RE\<close> at the start of a text, and all of them from left to right.\<close>

definition url_at :: "string \<Rightarrow> string option" where
  "url_at s =
     (case find (\<lambda>p. starts_with p s) [''https://'', ''http://''] of
        None \<Rightarrow> None
      | Some p \<Rightarrow> let body = takeWhile (\<lambda>c. \<not> url_stop c) (drop (length p) s) in if body = [] then None else Some (p @ body))"

lemma url_at_nonempty: "url_at s = Some u \<Longrightarrow> u \<noteq> []"
  by (auto simp: url_at_def Let_def split: option.splits if_splits)

function urls :: "string \<Rightarrow> string list" where
  "urls [] = []"
| "urls (c # s) = (case url_at (c # s) of None \<Rightarrow> urls s | Some u \<Rightarrow> u # urls (drop (length u) (c # s)))"
  by pat_completeness auto
termination
  by (relation "measure length") (auto dest: url_at_nonempty)

text \<open>\<open>\w\<close> on code points below 256.\<close>

definition word_char :: "char \<Rightarrow> bool" where
  "word_char c \<longleftrightarrow> (let n = (of_char c :: nat) in
     (48 \<le> n \<and> n \<le> 57) \<or> (65 \<le> n \<and> n \<le> 90) \<or> n = 95 \<or> (97 \<le> n \<and> n \<le> 122)
     \<or> n \<in> {170, 178, 179, 181, 185, 186, 188, 189, 190} \<or> (192 \<le> n \<and> n \<noteq> 215 \<and> n \<noteq> 247))"

definition after_blank :: "string \<Rightarrow> string list" where
  "after_blank s = s # (case s of c # r \<Rightarrow> if is_space c then [r] else [] | [] \<Rightarrow> [])"

definition unit_at :: "string \<Rightarrow> bool" where
  "unit_at s = list_ex (\<lambda>u. starts_with u (lower s) \<and> (case drop (length u) s of [] \<Rightarrow> True | c # _ \<Rightarrow> \<not> word_char c))
     [''usd'', ''dollars'', ''dollar'']"

fun has_money :: "string \<Rightarrow> bool" where
  "has_money [] = False"
| "has_money (c # s) =
     ((c = CHR ''$'' \<and> list_ex (\<lambda>r. r \<noteq> [] \<and> is_digit (hd r)) (after_blank s))
      \<or> (is_digit c \<and> list_ex unit_at (after_blank s)) \<or> has_money s)"

section \<open>Markers\<close>

definition UNKNOWN_ANSWER :: string where
  "UNKNOWN_ANSWER = ''__needs_directional_fallback__''"

definition LEGACY_UNKNOWN_ANSWER :: string where
  "LEGACY_UNKNOWN_ANSWER = ''I don'' @ [CHR 0x27] @ ''t '' @ ''know based on the current '' @ ''documentation.''"

definition SERVICE_HANDOFF_MARKERS :: "string list" where
  "SERVICE_HANDOFF_MARKERS = [''lead-capture'', ''contact form'', ''guide you through the next steps'']"

definition FORBIDDEN_SERVICE_COMMERCIAL_MARKERS :: "string list" where
  "FORBIDDEN_SERVICE_COMMERCIAL_MARKERS = [''price range'', ''pricing range'', ''cost range'', ''hourly rate'', ''per hour'', ''/hr'',
     ''starter package'', ''standard package'', ''premium package'', ''consulting package'', ''third-party implementation'',
     ''third party implementation'', ''community consultant'', ''freelancer'', ''upwork'', ''fiverr'']"

definition approved_public_urls :: "environ \<Rightarrow> string list" where
  "approved_public_urls env =
     (let raw = strip (getenv_or env ''APPROVED_PUBLIC_URLS'' '''') in
      if raw = '''' then [] else map (\<lambda>i. rstrip_of ''/'' (strip i)) (filter (\<lambda>i. strip i \<noteq> '''') (split_on CHR '','' raw)))"

text \<open>\<open>" ".join(answer.strip().lower().split())\<close>.\<close>

definition normalize_answer :: "string \<Rightarrow> string" where
  "normalize_answer answer = squeeze (lower (strip answer))"

definition is_unknown_answer :: "string \<Rightarrow> bool" where
  "is_unknown_answer answer \<longleftrightarrow>
     normalize_answer answer \<in> {normalize_answer UNKNOWN_ANSWER, normalize_answer LEGACY_UNKNOWN_ANSWER}"

section \<open>Tests on an answer\<close>

definition is_line_break :: "char \<Rightarrow> bool" where
  "is_line_break c \<longleftrightarrow> (of_char c :: nat) \<in> {10, 11, 12, 13, 28, 29, 30, 133}"

text \<open>\<open>str.splitlines()\<close>; a carriage return takes a following line feed with it.\<close>

fun splitlines_from :: "string \<Rightarrow> string \<Rightarrow> string list" where
  "splitlines_from w [] = (if w = [] then [] else [w])"
| "splitlines_from w (c # s) =
     (if \<not> is_line_break c then splitlines_from (w @ [c]) s
      else if c = CHR 0x0D \<and> s \<noteq> [] \<and> hd s = CHR 0x0A then w # splitlines_from [] (tl s)
      else w # splitlines_from [] s)"

definition splitlines :: "string \<Rightarrow> string list" where
  "splitlines s = splitlines_from [] s"

definition has_citation :: "string \<Rightarrow> bool" where
  "has_citation answer = list_ex (\<lambda>line. starts_with ''source:'' (lower (strip line))
     \<and> strip (tl (dropWhile (\<lambda>c. c \<noteq> CHR '':'') line)) \<noteq> '''') (splitlines answer)"

definition has_forbidden_service_handoff :: "string \<Rightarrow> routing_decision \<Rightarrow> bool" where
  "has_forbidden_service_handoff answer d =
     (if rd_service_handoff_suggested d then False
      else if rd_soft_service_offer d then False
      else if rd_selected_mode d \<notin> {AutomatorMode, EducatorMode} then False
      else has_any (normalize_answer answer) SERVICE_HANDOFF_MARKERS)"

definition has_forbidden_service_commercial_claim :: "string \<Rightarrow> routing_decision \<Rightarrow> bool" where
  "has_forbidden_service_commercial_claim answer d =
     (if rd_selected_mode d \<noteq> ServiceMode then False
      else if has_money answer then True
      else has_any (normalize_answer answer) FORBIDDEN_SERVICE_COMMERCIAL_MARKERS)"

definition is_approved_public_url :: "environ \<Rightarrow> string \<Rightarrow> bool" where
  "is_approved_public_url env url = list_ex (\<lambda>a. url = a \<or> starts_with (a @ ''/'') url) (approved_public_urls env)"

definition has_unsupported_url :: "environ \<Rightarrow> string \<Rightarrow> retrieval_result \<Rightarrow> bool" where
  "has_unsupported_url env answer r =
     list_ex (\<lambda>url. \<not> contains (rstrip_of ''.,'' url) (rv_content r) \<and> \<not> is_approved_public_url env (rstrip_of ''.,'' url)) (urls answer)"

definition is_labeled_general_fallback :: "string \<Rightarrow> bool" where
  "is_labeled_general_fallback answer =
     (let n = normalize_answer answer in
      has_any n [''library did not have'', ''library doesn'' @ [CHR 0x27] @ ''t have'', ''library does not have'',
        ''i didn'' @ [CHR 0x27] @ ''t find'', ''i did not find'', ''i don'' @ [CHR 0x27] @ ''t see'', ''i do not see'', ''i did not get'']
      \<and> has_any n [''general guidance'', ''outside the library'', ''not from the library'', ''not verified in the library''])"

definition claims_library_source :: "string \<Rightarrow> bool" where
  "claims_library_source answer =
     (let n = normalize_answer answer in
      if \<not> contains ''library'' n then False
      else if has_any n [''did not find'', ''didn'' @ [CHR 0x27] @ ''t find'', ''don'' @ [CHR 0x27] @ ''t see'', ''do not see'',
        ''does not have'', ''doesn'' @ [CHR 0x27] @ ''t have''] then False
      else has_any n [''found in library'', ''found in the library'', ''found in my library'', ''from library'', ''from the library'',
        ''from my library'', ''in library'', ''in the library'', ''in my library'', ''library source'', ''library result'', ''library hit''])"

definition allows_direct_general_answer :: "string \<Rightarrow> routing_decision \<Rightarrow> bool" where
  "allows_direct_general_answer answer d =
     (if rd_retrieval_tool d \<noteq> Some WORKFLOW_PATTERN_SEARCH then False
      else if is_unknown_answer answer then False
      else \<not> claims_library_source answer)"

section \<open>The grade and the repair\<close>

record answer_grade =
  ag_adequate :: bool
  ag_reason :: string

abbreviation graded :: "bool \<Rightarrow> string \<Rightarrow> answer_grade" where
  "graded ok why \<equiv> \<lparr>ag_adequate = ok, ag_reason = why\<rparr>"

definition grade :: "environ \<Rightarrow> string \<Rightarrow> routing_decision \<Rightarrow> retrieval_result option \<Rightarrow> answer_grade" where
  "grade env answer d retrieval =
     (if normalize_answer answer = '''' then graded False ''empty_answer''
      else if has_forbidden_service_commercial_claim answer d then graded False ''forbidden_service_commercial_claim''
      else if has_forbidden_service_handoff answer d then graded False ''unexpected_service_handoff''
      else if \<not> rd_retrieval_required d then graded True ''retrieval_not_required''
      else case retrieval of
          None \<Rightarrow> graded False ''retrieval_missing''
        | Some r \<Rightarrow>
            if \<not> has_context r
            then (if has_unsupported_url env answer r then graded False ''unsupported_external_link''
              else if allows_direct_general_answer answer d then graded True ''general_guidance_no_context''
              else graded (is_unknown_answer answer \<or> is_labeled_general_fallback answer) ''no_retrieval_context'')
            else if has_unsupported_url env answer r then graded False ''unsupported_external_link''
            else if is_labeled_general_fallback answer then graded True ''labeled_general_fallback''
            else if has_citation answer \<or> is_unknown_answer answer then graded True ''grounded_or_declined''
            else if allows_direct_general_answer answer d then graded True ''general_guidance''
            else graded False ''missing_citation'')"

definition REPAIRED_REASONS :: "string list" where
  "REPAIRED_REASONS = [''retrieval_missing'', ''no_retrieval_context'', ''empty_answer'', ''missing_citation'',
     ''unsupported_external_link'', ''unexpected_service_handoff'', ''forbidden_service_commercial_claim'']"

definition repair :: "string \<Rightarrow> answer_grade \<Rightarrow> string" where
  "repair answer g = (if ag_reason g \<in> set REPAIRED_REASONS then UNKNOWN_ANSWER else answer)"

section \<open>Lemmas\<close>

lemma unknown_is_unknown [simp]: "is_unknown_answer UNKNOWN_ANSWER"
  by (simp add: is_unknown_answer_def)

lemma legacy_is_unknown [simp]: "is_unknown_answer LEGACY_UNKNOWN_ANSWER"
  by (simp add: is_unknown_answer_def)

lemma inadequate_reasons: "ag_adequate (grade env answer d r) \<or> ag_reason (grade env answer d r) \<in> set REPAIRED_REASONS"
  by (simp add: grade_def REPAIRED_REASONS_def split: option.split)

lemma repair_inadequate: "\<not> ag_adequate (grade env answer d r) \<Longrightarrow> repair answer' (grade env answer d r) = UNKNOWN_ANSWER"
  using inadequate_reasons [of env answer d r] by (simp add: repair_def)

lemma adequate_links:
  "ag_adequate (grade env answer d (Some r)) \<Longrightarrow> rd_retrieval_required d \<Longrightarrow> \<not> has_unsupported_url env answer r"
  unfolding grade_def by (auto split: if_splits)

lemma adequate_service: "ag_adequate (grade env answer d r) \<Longrightarrow> \<not> has_forbidden_service_commercial_claim answer d"
  unfolding grade_def by (auto split: if_splits)

lemma adequate_nonempty: "ag_adequate (grade env answer d r) \<Longrightarrow> normalize_answer answer \<noteq> ''''"
  unfolding grade_def by (auto split: if_splits)

end
