(* ===== verification/ChatTurn.thy ===== *)
theory ChatTurn
  imports ChatPrompts RouteOrder TurnDecision
begin

text \<open>
  \<open>core/chat_orchestrator.py\<close>: a chat turn, from the decision to the text the user sees. The
  state has the router and the retriever as their own theories model them; what other turns
  do while this one waits is in \<open>turn_env\<close> and \<open>retrieval_env\<close>, one per call, and in
  \<open>ce_waits\<close> for the router during a search. Two ghosts record the calls of the router, each
  with what had been retrieved before it, and the results of the retriever. An operation returns its result, or the exception, and the
  state.
\<close>

section \<open>State\<close>

record router_call =
  rc_messages :: "chat_message list"
  rc_request :: turn_request
  rc_found :: "retrieval_result list"
  rc_events :: "turn_event list"

record turn_state =
  ts_router :: llm_router
  ts_retriever :: retriever
  ts_calls :: "router_call list"
  ts_found :: "retrieval_result list"

record chat_env =
  ce_config :: chat_config
  ce_plan :: order_env
  ce_calls :: "nat \<Rightarrow> turn_env"
  ce_searches :: "nat \<Rightarrow> retrieval_env"
  ce_waits :: "nat \<Rightarrow> llm_router \<Rightarrow> llm_router"

type_synonym 'a turn_op = "turn_state \<Rightarrow> 'a result \<times> turn_state"

definition return_turn :: "'a \<Rightarrow> 'a turn_op" where
  "return_turn x = (\<lambda>s. (Inr x, s))"

definition bind_turn :: "'a turn_op \<Rightarrow> ('a \<Rightarrow> 'b turn_op) \<Rightarrow> 'b turn_op" where
  "bind_turn m f = (\<lambda>s. case m s of (Inl err, s1) \<Rightarrow> (Inl err, s1) | (Inr x, s1) \<Rightarrow> f x s1)"

section \<open>The plan of a turn\<close>

text \<open>The task of a turn; every frame has one, so the rest is only read for a decision built by hand.\<close>

definition router_task :: "routing_decision \<Rightarrow> string \<Rightarrow> string" where
  "router_task d user_message =
     (let message = lower user_message in
      if rf_task (rd_frame d) \<noteq> '''' then rf_task (rd_frame d)
      else if rd_service_handoff_suggested d then ''high_value_service_inquiry''
      else if rd_retrieval_tool d = Some WORKFLOW_PATTERN_SEARCH
      then (if has_any message [''example'', ''sample'', ''script'', ''onboarding'', ''bundle'', ''import'', ''plug in'', ''template'']
            then ''workflow_examples'' else ''workflow_debugging'')
      else if has_any message [''jinja'', ''ctx'', ''tasks''] then ''jinja_help''
      else intent_value (rd_intent d))"

definition backend_fallback :: "routing_decision \<Rightarrow> routing_decision" where
  "backend_fallback d = d\<lparr>rd_provider_tools := [], rd_tool_execution_mode := BackendRetrievalOnly,
     rd_max_model_calls_per_turn := 1, rd_tool_loop_requires_route := False\<rparr>"

definition route_aware_tool_loop_decision :: "chat_env \<Rightarrow> routing_decision \<Rightarrow> string \<Rightarrow> routing_decision turn_op" where
  "route_aware_tool_loop_decision e d user_message s =
     (if rd_tool_execution_mode d \<noteq> ModelToolLoop \<or> \<not> rd_tool_loop_requires_route d then (Inr d, s)
      else case has_tool_capable_route (ce_plan e) (rd_cloud_allowed d) (Some (policy_value (rd_response_policy d)))
             (Some (router_task d user_message)) True (ts_router s) of
          Inl err \<Rightarrow> (Inl err, s)
        | Inr (ok, ro) \<Rightarrow> (Inr (if ok then d
            else (backend_fallback d)\<lparr>rd_reason := rd_reason d @ ''; tool_loop=backend_fallback_no_capable_route''\<rparr>),
            s\<lparr>ts_router := ro\<rparr>))"

definition plan ::
  "chat_env \<Rightarrow> routing_config option \<Rightarrow> orchestrator \<Rightarrow> string \<Rightarrow> string \<Rightarrow> bool \<Rightarrow> intake \<Rightarrow> routing_decision turn_op" where
  "plan e rcfg orc starting_mode message intake_complete intake =
     route_aware_tool_loop_decision e (decide rcfg orc starting_mode message intake_complete intake) message"

section \<open>Calls\<close>

definition call_request :: "routing_decision \<Rightarrow> bool \<Rightarrow> bool \<Rightarrow> string \<Rightarrow> string \<Rightarrow> bool \<Rightarrow> bool \<Rightarrow> turn_request" where
  "call_request d force cloud task session_id eligible tools =
     \<lparr>tq_force_secondary = force, tq_cloud_allowed = cloud, tq_response_policy = Some (policy_value (rd_response_policy d)),
      tq_task = Some task, tq_session_id = Some session_id, tq_context_cloud_eligible = eligible, tq_require_tools = tools\<rparr>"

definition router_chat :: "chat_env \<Rightarrow> chat_message list \<Rightarrow> turn_request \<Rightarrow> response turn_op" where
  "router_chat e msgs q s =
     (case chat (ce_calls e (length (ts_calls s))) msgs q (ts_router s) of
        Inl err \<Rightarrow> (Inl err, s\<lparr>ts_calls := ts_calls s @ [\<lparr>rc_messages = msgs, rc_request = q, rc_found = ts_found s, rc_events = []\<rparr>]\<rparr>)
      | Inr (resp, ro, ev) \<Rightarrow> (Inr resp,
          s\<lparr>ts_router := ro, ts_calls := ts_calls s @ [\<lparr>rc_messages = msgs, rc_request = q, rc_found = ts_found s, rc_events = ev\<rparr>]\<rparr>))"

text \<open>The texts that were yielded; the second component tells how the generator ended.\<close>

definition router_stream :: "chat_env \<Rightarrow> chat_message list \<Rightarrow> turn_request \<Rightarrow> (string list \<times> unit result) turn_op" where
  "router_stream e msgs q s =
     (case stream_chat (ce_calls e (length (ts_calls s))) msgs q (ts_router s) of
        Inl err \<Rightarrow> (Inl err, s\<lparr>ts_calls := ts_calls s @ [\<lparr>rc_messages = msgs, rc_request = q, rc_found = ts_found s, rc_events = []\<rparr>]\<rparr>)
      | Inr (texts, end_result, ro, ev) \<Rightarrow> (Inr (texts, end_result),
          s\<lparr>ts_router := ro, ts_calls := ts_calls s @ [\<lparr>rc_messages = msgs, rc_request = q, rc_found = ts_found s, rc_events = ev\<rparr>]\<rparr>))"

text \<open>A search, with the default limit of five.\<close>

definition search :: "chat_env \<Rightarrow> string \<Rightarrow> string \<Rightarrow> retrieval_result turn_op" where
  "search e query tool s =
     (let k = length (ts_found s); ro = ce_waits e k (ts_router s) in
      case retrieve (ce_searches e k) query tool 5 (ts_retriever s) of
        Inl err \<Rightarrow> (Inl err, s\<lparr>ts_router := ro\<rparr>)
      | Inr (r, kr) \<Rightarrow> (Inr r, s\<lparr>ts_router := ro, ts_retriever := kr, ts_found := ts_found s @ [r]\<rparr>))"

definition last_selected_route_was_cloud :: "llm_router \<Rightarrow> bool" where
  "last_selected_route_was_cloud ro =
     (let selected = (case ro_last_decision ro of None \<Rightarrow> None | Some d \<Rightarrow> Some (dg_selected_route d)) in
      list_ex (\<lambda>r. Some (pr_name r) = selected \<and> is_cloud r) (all_routes ro))"

section \<open>Retrieval\<close>

definition context_cloud_eligible :: "retrieval_result option \<Rightarrow> bool" where
  "context_cloud_eligible retrieval = (case retrieval of None \<Rightarrow> True | Some r \<Rightarrow> rv_cloud_llm_eligible r)"

definition decision_for_retrieval :: "routing_decision \<Rightarrow> retrieval_result option \<Rightarrow> routing_decision" where
  "decision_for_retrieval d retrieval =
     (if context_cloud_eligible retrieval then d
      else d\<lparr>rd_cloud_allowed := False, rd_reason := rd_reason d @ ''; cloud_blocked=sensitive_context''\<rparr>)"

definition wanted_tool :: "routing_decision \<Rightarrow> string option" where
  "wanted_tool d = (case rd_retrieval_tool d of None \<Rightarrow> None | Some t \<Rightarrow> if t = '''' then None else Some t)"

definition retrieve_for :: "chat_env \<Rightarrow> routing_decision \<Rightarrow> string \<Rightarrow> retrieval_result option turn_op" where
  "retrieve_for e d user_message =
     (if \<not> rd_retrieval_required d then return_turn None
      else if rd_max_retrieval_calls_per_turn d < 1 then return_turn None
      else case wanted_tool d of
          None \<Rightarrow> return_turn None
        | Some tool \<Rightarrow> if tool \<notin> set (rd_allowed_tools d) then return_turn None
            else bind_turn (search e user_message tool) (\<lambda>r. return_turn (Some r)))"

section \<open>Tools\<close>

definition allowed_provider_tools :: "routing_decision \<Rightarrow> string list" where
  "allowed_provider_tools d = filter (\<lambda>n. n \<in> set (rd_allowed_tools d)) (rd_provider_tools d)"

definition tools_for_turn :: "routing_decision \<Rightarrow> (string \<times> json) list list" where
  "tools_for_turn d =
     (if rd_tool_execution_mode d \<noteq> ModelToolLoop then []
      else provider_tools_for_mode (rd_selected_mode d) (allowed_provider_tools d))"

type_synonym tool_call = "(string \<times> json) list"

fun response_tool_calls :: "response \<Rightarrow> tool_call list" where
  "response_tool_calls (DictResponse _ _ calls) = concat (map (\<lambda>c. case c of JObj kvs \<Rightarrow> [kvs] | _ \<Rightarrow> []) calls)"
| "response_tool_calls (ObjectResponse blocks _) =
     map (\<lambda>b. [(''id'', JStr (bk_id b)), (''name'', JStr (bk_name b)), (''arguments'', bk_input b)])
       (filter (\<lambda>b. bk_type b = ''tool_use'') blocks)"

text \<open>\<open>str(value or "")\<close> for a value looked up.\<close>

definition str_of_value :: "(json \<Rightarrow> string) \<Rightarrow> json option \<Rightarrow> string" where
  "str_of_value rep v = (case v of None \<Rightarrow> '''' | Some x \<Rightarrow> if truthy x then json_str rep x else '''')"

definition tool_call_name :: "chat_config \<Rightarrow> tool_call \<Rightarrow> string" where
  "tool_call_name cfg call =
     (case map_of call ''function'' of
        Some (JObj f) \<Rightarrow> str_of_value (cc_rep cfg) (map_of f ''name'')
      | _ \<Rightarrow> str_of_value (cc_rep cfg) (map_of call ''name''))"

definition tool_call_args :: "chat_config \<Rightarrow> tool_call \<Rightarrow> (string \<times> json) list" where
  "tool_call_args cfg call =
     (let own = (case map_of call ''arguments'' of None \<Rightarrow> JObj [] | Some v \<Rightarrow> v);
          raw = (case map_of call ''function'' of
              Some (JObj f) \<Rightarrow> (case map_of f ''arguments'' of None \<Rightarrow> own | Some v \<Rightarrow> v)
            | _ \<Rightarrow> own)
      in case raw of
          JObj kvs \<Rightarrow> kvs
        | JStr t \<Rightarrow> (case cc_loads cfg t of Some (JObj kvs) \<Rightarrow> kvs | _ \<Rightarrow> [])
        | _ \<Rightarrow> [])"

text \<open>A field of a pydantic model: a string within its bounds, or the default where there is one.\<close>

definition text_field :: "string \<Rightarrow> nat \<Rightarrow> nat \<Rightarrow> string option \<Rightarrow> (string \<times> json) list \<Rightarrow> string option" where
  "text_field name least most otherwise args =
     (case map_of args name of
        None \<Rightarrow> otherwise
      | Some (JStr t) \<Rightarrow> if least \<le> length t \<and> length t \<le> most then Some t else None
      | Some _ \<Rightarrow> None)"

definition query_tool_args :: "(string \<times> json) list \<Rightarrow> string option" where
  "query_tool_args args = text_field ''query'' 1 500 None args"

record service_cta_args =
  sc_summary :: string
  sc_urgency :: string
  sc_desired_outcome :: string

definition service_cta_tool_args :: "(string \<times> json) list \<Rightarrow> service_cta_args option" where
  "service_cta_tool_args args =
     (case (text_field ''summary'' 1 1000 None args, text_field ''urgency'' 0 200 (Some '''') args,
            text_field ''desired_outcome'' 0 500 (Some '''') args) of
        (Some a, Some b, Some c) \<Rightarrow> Some \<lparr>sc_summary = a, sc_urgency = b, sc_desired_outcome = c\<rparr>
      | _ \<Rightarrow> None)"

definition service_cta_tool_result :: "chat_config \<Rightarrow> service_cta_args \<Rightarrow> string" where
  "service_cta_tool_result cfg a =
     (let dep = cc_deployment cfg in
      join nl ([''Service handoff target: '' @ dc_contact_path dep @ '' or '' @ dc_public_email dep, ''Summary: '' @ sc_summary a]
        @ (if sc_urgency a = '''' then [] else [''Urgency: '' @ sc_urgency a])
        @ (if sc_desired_outcome a = '''' then [] else [''Desired outcome: '' @ sc_desired_outcome a])))"

definition execute_tool_call :: "chat_env \<Rightarrow> routing_decision \<Rightarrow> tool_call \<Rightarrow> (string \<times> retrieval_result option) turn_op" where
  "execute_tool_call e d call =
     (let cfg = ce_config e; name = tool_call_name cfg call; args = tool_call_args cfg call;
          invalid = return_turn (''Tool request rejected: invalid arguments for '' @ name @ ''.'', None) in
      if name \<notin> set (allowed_provider_tools d)
      then return_turn (''Tool request rejected: '' @ str_or name ''unknown'' @ '' is not whitelisted for this mode.'', None)
      else if name \<in> set RETRIEVAL_TOOLS
      then (case query_tool_args args of
          None \<Rightarrow> invalid
        | Some query \<Rightarrow> bind_turn (search e query name) (\<lambda>r. return_turn (rv_content r, Some r)))
      else if name = SERVICE_INQUIRY_CTA
      then (case service_cta_tool_args args of
          None \<Rightarrow> invalid
        | Some a \<Rightarrow> return_turn (service_cta_tool_result cfg a, None))
      else return_turn (''Tool request rejected: '' @ name @ '' has no executor.'', None))"

section \<open>The tool loop\<close>

text \<open>The calls in turn: the messages with their results, whether one retrieved, and the last retrieval.\<close>

fun execute_tool_calls ::
  "chat_env \<Rightarrow> routing_decision \<Rightarrow> tool_call list \<Rightarrow> chat_message list \<times> bool \<times> retrieval_result option
   \<Rightarrow> (chat_message list \<times> bool \<times> retrieval_result option) turn_op" where
  "execute_tool_calls e d [] acc = return_turn acc"
| "execute_tool_calls e d (call # calls) (msgs, found, retrieval) =
     bind_turn (execute_tool_call e d call) (\<lambda>(out, r).
       execute_tool_calls e d calls
         (msgs @ [tool_result_message (ce_config e) (tool_call_name (ce_config e) call) out],
          found \<or> r \<noteq> None, case r of None \<Rightarrow> retrieval | Some x \<Rightarrow> Some x))"

text \<open>\<open>calls[:n]\<close>.\<close>

definition first_calls :: "int \<Rightarrow> tool_call list \<Rightarrow> tool_call list" where
  "first_calls n calls = take (nat (if n < 0 then int (length calls) + n else n)) calls"

definition backend_answer_after_miss ::
  "chat_env \<Rightarrow> routing_decision \<Rightarrow> persona \<Rightarrow> chat_message list \<Rightarrow> string \<Rightarrow> string \<Rightarrow> retrieval_result option
   \<Rightarrow> (string \<times> retrieval_result option) option turn_op" where
  "backend_answer_after_miss e d p msgs user_message session_id retrieval =
     (if \<not> rd_retrieval_required d \<or> wanted_tool d = None then return_turn None
      else let bd = backend_fallback d in
        bind_turn (case retrieval of Some r \<Rightarrow> return_turn (Some r) | None \<Rightarrow> retrieve_for e bd user_message) (\<lambda>found.
          case found of
            None \<Rightarrow> return_turn None
          | Some r \<Rightarrow>
              let bd1 = decision_for_retrieval bd (Some r) in
              bind_turn (router_chat e (msgs @ [retrieval_message (ce_config e) r])
                  (call_request bd1 (pe_force_secondary p) (rd_cloud_allowed bd1) (router_task bd1 user_message) session_id
                     (context_cloud_eligible (Some r)) False)) (\<lambda>resp.
                return_turn (Some (response_text resp, Some r)))))"

definition tail_text :: "(json \<Rightarrow> string) \<Rightarrow> chat_message list \<Rightarrow> string" where
  "tail_text rep msgs = join '' '' (map (message_text rep) (drop (length msgs - 3) msgs))"

text \<open>After the calls of the tools: the answer of the backend retrieval, or the final answer.\<close>

definition finish_tool_loop ::
  "chat_env \<Rightarrow> routing_decision \<Rightarrow> persona \<Rightarrow> chat_message list \<Rightarrow> string \<Rightarrow> string
   \<Rightarrow> chat_message list \<times> bool \<times> retrieval_result option \<Rightarrow> (string \<times> retrieval_result option) turn_op" where
  "finish_tool_loop e d p msgs session_id user_message = (\<lambda>(tool_msgs, found, retrieval).
     bind_turn (if found then return_turn None else backend_answer_after_miss e d p msgs user_message session_id retrieval) (\<lambda>backend.
       case backend of
         Some answer \<Rightarrow> return_turn answer
       | None \<Rightarrow>
           let d1 = decision_for_retrieval d retrieval in
           bind_turn (router_chat e (msgs @ tool_msgs @ [final_answer_message])
               (call_request d1 (pe_force_secondary p) (rd_cloud_allowed d1)
                  (router_task d1 (tail_text (cc_rep (ce_config e)) msgs)) session_id (context_cloud_eligible retrieval) False)) (\<lambda>resp.
             return_turn (if response_tool_calls resp \<noteq> [] then UNKNOWN_ANSWER else response_text resp, retrieval))))"

definition run_model_tool_loop ::
  "chat_env \<Rightarrow> routing_decision \<Rightarrow> persona \<Rightarrow> chat_message list \<Rightarrow> retrieval_result option \<Rightarrow> string \<Rightarrow> string
   \<Rightarrow> (string \<times> retrieval_result option) turn_op" where
  "run_model_tool_loop e d p msgs retrieval session_id user_message =
     (if rd_max_model_calls_per_turn d < 2 then return_turn (CALL_LIMIT_REACHED, retrieval)
      else bind_turn (router_chat e msgs
          (call_request d (pe_force_secondary p) (rd_cloud_allowed d) (router_task d (tail_text (cc_rep (ce_config e)) msgs)) session_id
             (context_cloud_eligible retrieval) (tools_for_turn d \<noteq> []))) (\<lambda>resp.
        case response_tool_calls resp of
          [] \<Rightarrow> bind_turn (backend_answer_after_miss e d p msgs user_message session_id retrieval) (\<lambda>backend.
            return_turn (case backend of Some answer \<Rightarrow> answer | None \<Rightarrow> (response_text resp, retrieval)))
        | calls \<Rightarrow> bind_turn (execute_tool_calls e d (first_calls (rd_max_tool_calls_per_turn d) calls) ([], False, retrieval))
            (finish_tool_loop e d p msgs session_id user_message)))"

section \<open>The retry on a cloud model\<close>

definition retry_cloud_if_unknown ::
  "chat_env \<Rightarrow> string \<Rightarrow> routing_decision \<Rightarrow> chat_message list \<Rightarrow> bool \<Rightarrow> string \<Rightarrow> string \<Rightarrow> string turn_op" where
  "retry_cloud_if_unknown e content d msgs tools session_id user_message s =
     (if \<not> is_unknown_answer content then (Inr content, s)
      else if \<not> rd_cloud_allowed d \<or> last_selected_route_was_cloud (ts_router s) then (Inr content, s)
      else case router_chat e (msgs @ [cloud_retry_message])
               (call_request d True True (router_task d user_message) session_id True tools) s of
          (Inl err, s1) \<Rightarrow> (Inl err, s1)
        | (Inr resp, s1) \<Rightarrow> (Inr (if \<not> last_selected_route_was_cloud (ts_router s1) then content
            else str_or (strip (response_text resp)) content), s1))"

section \<open>A turn\<close>

record turn_result =
  tr_content :: string
  tr_decision :: routing_decision
  tr_answer_grade :: "answer_grade option"
  tr_retrieval :: "retrieval_result option"

definition grade_of :: "chat_env \<Rightarrow> string \<Rightarrow> routing_decision \<Rightarrow> retrieval_result option \<Rightarrow> answer_grade" where
  "grade_of e content d retrieval = grade (cc_environ (ce_config e)) content d retrieval"

text \<open>Grade, repair, retry, fall back: the ladder both branches of \<open>run\<close> end with.\<close>

definition repair_ladder ::
  "chat_env \<Rightarrow> routing_decision \<Rightarrow> chat_message list \<Rightarrow> bool \<Rightarrow> chat_message list \<Rightarrow> string \<Rightarrow> string
   \<Rightarrow> retrieval_result option \<Rightarrow> string \<Rightarrow> turn_result turn_op" where
  "repair_ladder e d msgs tools history session_id user_message retrieval content =
     (let g = grade_of e content d retrieval;
          done = (\<lambda>c g. return_turn \<lparr>tr_content = c, tr_decision = d, tr_answer_grade = Some g, tr_retrieval = retrieval\<rparr>) in
      if ag_adequate g then done content g
      else let repaired = repair content g in
        bind_turn (retry_cloud_if_unknown e repaired d msgs tools session_id user_message) (\<lambda>content1.
          let g1 = (if content1 \<noteq> repaired then grade_of e content1 d retrieval else g) in
          if ag_adequate g1 then done content1 g1
          else let fallback = fallback_after_repair (ce_config e) content1 g1 d history in
            if fallback \<noteq> content1 then done fallback (grade_of e fallback d retrieval) else done content1 g1))"

definition turn_persona :: "chat_env \<Rightarrow> routing_decision \<Rightarrow> persona" where
  "turn_persona e d = get_persona (cc_personas (ce_config e)) (mode_value (rd_selected_mode d))"

text \<open>The retrieval of the turn, before any model is called; the tool loop retrieves later.\<close>

definition first_retrieval :: "chat_env \<Rightarrow> routing_decision \<Rightarrow> string \<Rightarrow> retrieval_result option turn_op" where
  "first_retrieval e d user_message =
     (if rd_tool_execution_mode d \<noteq> ModelToolLoop then retrieve_for e d user_message else return_turn None)"

definition plain_result :: "string \<Rightarrow> routing_decision \<Rightarrow> turn_result" where
  "plain_result content d = \<lparr>tr_content = content, tr_decision = d, tr_answer_grade = None, tr_retrieval = None\<rparr>"

definition redirect_text :: "routing_decision \<Rightarrow> string" where
  "redirect_text d = opt_str_or (rd_redirect_message d) INTAKE_FIRST"

text \<open>What a turn answers without a model.\<close>

definition early_answer :: "routing_decision \<Rightarrow> string \<Rightarrow> string option" where
  "early_answer d user_message =
     (if is_direct_safety_violation user_message then Some SAFETY_REFUSAL
      else if \<not> rd_answer_allowed d then Some (redirect_text d)
      else if rd_max_model_calls_per_turn d < 1 then Some CALL_LIMIT_REACHED
      else None)"

definition run_tool_branch ::
  "chat_env \<Rightarrow> routing_decision \<Rightarrow> string \<Rightarrow> chat_message list \<Rightarrow> string \<Rightarrow> chat_message list \<Rightarrow> retrieval_result option
   \<Rightarrow> turn_result turn_op" where
  "run_tool_branch e d user_message history session_id msgs retrieval0 =
     bind_turn (run_model_tool_loop e d (turn_persona e d) msgs retrieval0 session_id user_message) (\<lambda>(content, retrieval).
       bind_turn (retry_cloud_if_unknown e content d msgs False session_id user_message)
         (repair_ladder e d msgs False history session_id user_message retrieval))"

definition run_plain_branch ::
  "chat_env \<Rightarrow> routing_decision \<Rightarrow> string \<Rightarrow> chat_message list \<Rightarrow> string \<Rightarrow> chat_message list \<Rightarrow> retrieval_result option
   \<Rightarrow> turn_result turn_op" where
  "run_plain_branch e d user_message history session_id msgs retrieval =
     (let tools = tools_for_turn d \<noteq> [] in
      bind_turn (router_chat e msgs (call_request d (pe_force_secondary (turn_persona e d)) (rd_cloud_allowed d)
          (router_task d user_message) session_id (context_cloud_eligible retrieval) tools)) (\<lambda>resp.
        bind_turn (retry_cloud_if_unknown e (response_text resp) d msgs tools session_id user_message) (\<lambda>content.
          repair_ladder e d msgs tools history session_id user_message retrieval
            (fallback_general_guidance (ce_config e) content d history))))"

definition run :: "chat_env \<Rightarrow> routing_decision \<Rightarrow> string \<Rightarrow> chat_message list \<Rightarrow> string \<Rightarrow> turn_result turn_op" where
  "run e d0 user_message history session_id =
     (case early_answer d0 user_message of
        Some text \<Rightarrow> return_turn (plain_result text d0)
      | None \<Rightarrow>
          bind_turn (first_retrieval e d0 user_message) (\<lambda>retrieval.
            let msgs = turn_messages (ce_config e) d0 history retrieval; d = decision_for_retrieval d0 retrieval in
            if rd_tool_execution_mode d = ModelToolLoop then run_tool_branch e d user_message history session_id msgs retrieval
            else run_plain_branch e d user_message history session_id msgs retrieval))"

section \<open>Streaming\<close>

definition sentinel_might_emerge :: "string \<Rightarrow> bool" where
  "sentinel_might_emerge buffered =
     (if buffered = '''' then False
      else let normalized = lstrip buffered in
        normalized = '''' \<or> list_ex (starts_with normalized) [UNKNOWN_ANSWER, LEGACY_UNKNOWN_ANSWER])"

text \<open>What is yielded of the chunks: nothing while they may still be a sentinel, then all that was held back.\<close>

fun live_chunks :: "bool \<Rightarrow> string \<Rightarrow> string list \<Rightarrow> string list" where
  "live_chunks emitted buffered [] = []"
| "live_chunks emitted buffered (c # cs) =
     (if c = '''' then live_chunks emitted buffered cs
      else let buffered1 = buffered @ c in
        if emitted then c # live_chunks True buffered1 cs
        else if sentinel_might_emerge buffered1 then live_chunks False buffered1 cs
        else buffered1 # live_chunks True buffered1 cs)"

definition stream_correction_separator :: string where
  "stream_correction_separator = nl @ nl @ ''---'' @ nl @ ''Quality-check note: ''"

text \<open>What follows the live chunks.\<close>

definition correction :: "bool \<Rightarrow> string \<Rightarrow> string" where
  "correction emitted text = (if emitted then stream_correction_separator @ text else text)"

definition stream_tail ::
  "chat_env \<Rightarrow> routing_decision \<Rightarrow> chat_message list \<Rightarrow> bool \<Rightarrow> chat_message list \<Rightarrow> string \<Rightarrow> string
   \<Rightarrow> retrieval_result option \<Rightarrow> bool \<Rightarrow> string \<Rightarrow> string list turn_op" where
  "stream_tail e d msgs tools history session_id user_message retrieval emitted content =
     (let cfg = ce_config e; fallback = fallback_general_guidance cfg content d history;
          g = grade_of e content d retrieval; unsent = (if \<not> emitted \<and> content \<noteq> '''' then [content] else []) in
      if fallback \<noteq> content then return_turn [correction emitted fallback]
      else if ag_adequate g then return_turn unsent
      else bind_turn (retry_cloud_if_unknown e (repair content g) d msgs tools session_id user_message) (\<lambda>repaired.
        let final_content =
          (if repaired \<noteq> content
           then (let g1 = grade_of e repaired d retrieval in
             if ag_adequate g1 then repaired else fallback_after_repair cfg repaired g1 d history)
           else fallback_after_repair cfg content g d history)
        in return_turn (if final_content = content then unsent else [correction emitted final_content])))"

text \<open>The chunks of the router and how they ended become what the user was sent.\<close>

definition finish_stream ::
  "chat_env \<Rightarrow> routing_decision \<Rightarrow> chat_message list \<Rightarrow> bool \<Rightarrow> chat_message list \<Rightarrow> string \<Rightarrow> string
   \<Rightarrow> retrieval_result option \<Rightarrow> string list \<times> unit result \<Rightarrow> (string list \<times> unit result) turn_op" where
  "finish_stream e d msgs tools history session_id user_message retrieval = (\<lambda>(chunks, ended) s.
     let live = live_chunks False [] chunks in
     case ended of
       Inl err \<Rightarrow> (Inr (live, Inl err), s)
     | Inr _ \<Rightarrow>
         (case stream_tail e d msgs tools history session_id user_message retrieval (live \<noteq> []) (concat chunks) s of
            (Inl err, s1) \<Rightarrow> (Inr (live, Inl err), s1)
          | (Inr rest, s1) \<Rightarrow> (Inr (live @ rest, Inr ()), s1)))"

text \<open>The outer error is raised before the first chunk, the inner one after the chunks yielded so far.\<close>

definition stream :: "chat_env \<Rightarrow> routing_decision \<Rightarrow> string \<Rightarrow> chat_message list \<Rightarrow> string \<Rightarrow> (string list \<times> unit result) turn_op" where
  "stream e d0 user_message history session_id =
     (case early_answer d0 user_message of
        Some text \<Rightarrow> return_turn ([text], Inr ())
      | None \<Rightarrow>
          if rd_retrieval_required d0 \<or> rd_selected_mode d0 = ServiceMode \<or> rd_tool_execution_mode d0 = ModelToolLoop
          then bind_turn (run e d0 user_message history session_id) (\<lambda>r. return_turn ([tr_content r], Inr ()))
          else bind_turn (first_retrieval e d0 user_message) (\<lambda>retrieval.
            let msgs = turn_messages (ce_config e) d0 history retrieval; d = decision_for_retrieval d0 retrieval;
                tools = tools_for_turn d \<noteq> [] in
            bind_turn (router_stream e msgs (call_request d (pe_force_secondary (turn_persona e d)) (rd_cloud_allowed d)
                (router_task d user_message) session_id (context_cloud_eligible retrieval) tools))
              (finish_stream e d msgs tools history session_id user_message retrieval)))"

end
