(* ===== verification/ChatRuns.thy ===== *)
theory ChatRuns
  imports ChatTurn RouterRules
begin

text \<open>
  What holds along a whole chat turn. \<open>triple P m Q E\<close> says that an operation started where
  \<open>P\<close> holds returns where \<open>Q\<close> holds of its result, or raises where \<open>E\<close> holds; its rules follow
  the operations of \<open>ChatTurn\<close>. Two invariants use them: the number of calls of the router, and
  that nothing built from restricted context leaves for a cloud model.
\<close>

named_theorems triple_rules

section \<open>Triples\<close>

definition triple ::
  "(turn_state \<Rightarrow> bool) \<Rightarrow> 'a turn_op \<Rightarrow> ('a \<Rightarrow> turn_state \<Rightarrow> bool) \<Rightarrow> (turn_state \<Rightarrow> bool) \<Rightarrow> bool" where
  "triple P m Q E \<longleftrightarrow> (\<forall>s. P s \<longrightarrow> (case m s of (Inl _, s1) \<Rightarrow> E s1 | (Inr x, s1) \<Rightarrow> Q x s1))"

lemma tripleI: "(\<And>s. P s \<Longrightarrow> (case m s of (Inl err, s1) \<Rightarrow> E s1 | (Inr x, s1) \<Rightarrow> Q x s1)) \<Longrightarrow> triple P m Q E"
  by (simp add: triple_def)

lemma triple_return: "(\<And>s. P s \<Longrightarrow> Q x s) \<Longrightarrow> triple P (return_turn x) Q E"
  by (simp add: triple_def return_turn_def)

lemma triple_bind:
  assumes "triple P m R E" and "\<And>x. triple (R x) (f x) Q E"
  shows "triple P (bind_turn m f) Q E"
  unfolding triple_def
proof (intro allI impI)
  fix s
  assume "P s"
  obtain x s1 where m: "m s = (x, s1)" by fastforce
  have one: "case x of Inl _ \<Rightarrow> E s1 | Inr y \<Rightarrow> R y s1" using assms(1) \<open>P s\<close> m by (auto simp: triple_def)
  show "case bind_turn m f s of (Inl _, s1) \<Rightarrow> E s1 | (Inr x, s1) \<Rightarrow> Q x s1"
  proof (cases x)
    case (Inl err)
    then show ?thesis using one m by (simp add: bind_turn_def)
  next
    case (Inr y)
    then have "R y s1" using one by simp
    then show ?thesis using assms(2) [of y] Inr m by (simp add: bind_turn_def triple_def)
  qed
qed

lemma triple_conseq:
  "triple P m Q E \<Longrightarrow> (\<And>s. P' s \<Longrightarrow> P s) \<Longrightarrow> (\<And>x s. Q x s \<Longrightarrow> Q' x s) \<Longrightarrow> (\<And>s. E s \<Longrightarrow> E' s) \<Longrightarrow> triple P' m Q' E'"
  unfolding triple_def by (fastforce split: prod.splits sum.splits)

lemma triple_pre: "triple P m Q E \<Longrightarrow> (\<And>s. P' s \<Longrightarrow> P s) \<Longrightarrow> triple P' m Q E"
  by (rule triple_conseq)

lemma triple_post: "triple P m Q E \<Longrightarrow> (\<And>x s. Q x s \<Longrightarrow> Q' x s) \<Longrightarrow> triple P m Q' E"
  by (rule triple_conseq)

lemma triple_if: "(b \<Longrightarrow> triple P m Q E) \<Longrightarrow> (\<not> b \<Longrightarrow> triple P m' Q E) \<Longrightarrow> triple P (if b then m else m') Q E"
  by simp

lemma triple_option:
  "(x = None \<Longrightarrow> triple P m Q E) \<Longrightarrow> (\<And>y. x = Some y \<Longrightarrow> triple P (f y) Q E) \<Longrightarrow> triple P (case x of None \<Rightarrow> m | Some y \<Rightarrow> f y) Q E"
  by (cases x) auto

lemma triple_result: "triple P m Q E \<Longrightarrow> P s \<Longrightarrow> m s = (res, s1) \<Longrightarrow> (case res of Inl _ \<Rightarrow> E s1 | Inr x \<Rightarrow> Q x s1)"
  unfolding triple_def by (metis (mono_tags, lifting) case_prod_conv)

lemma triple_outcome: "triple P m (\<lambda>_. Q) Q \<Longrightarrow> P s \<Longrightarrow> Q (snd (m s))"
  unfolding triple_def by (fastforce split: prod.splits sum.splits)

section \<open>The number of calls\<close>

definition at_most :: "nat \<Rightarrow> turn_state \<Rightarrow> bool" where
  "at_most n s \<longleftrightarrow> length (ts_calls s) \<le> n"

lemma at_most_mono: "at_most n s \<Longrightarrow> n \<le> m \<Longrightarrow> at_most m s"
  by (simp add: at_most_def)

lemma chat_calls: "n < N \<Longrightarrow> triple (at_most n) (router_chat e msgs q) (\<lambda>_. at_most (Suc n)) (at_most N)"
  by (rule tripleI) (auto simp: router_chat_def at_most_def split: sum.split prod.split)

lemma stream_calls: "n < N \<Longrightarrow> triple (at_most n) (router_stream e msgs q) (\<lambda>_. at_most (Suc n)) (at_most N)"
  by (rule tripleI) (auto simp: router_stream_def at_most_def split: sum.split prod.split)

lemma search_calls: "n \<le> N \<Longrightarrow> triple (at_most n) (search e query tool) (\<lambda>_. at_most n) (at_most N)"
  by (rule tripleI) (auto simp: search_def Let_def at_most_def split: sum.split prod.split)

lemma retry_calls:
  "n < N \<Longrightarrow> triple (at_most n) (retry_cloud_if_unknown e content d msgs tools sid um) (\<lambda>_. at_most (Suc n)) (at_most N)"
  by (rule tripleI) (auto simp: retry_cloud_if_unknown_def router_chat_def at_most_def split: sum.split prod.split)

lemma retrieve_for_calls:
  assumes "n \<le> N"
  shows "triple (at_most n) (retrieve_for e d um) (\<lambda>_. at_most n) (at_most N)"
  unfolding retrieve_for_def
  by (intro triple_if triple_option triple_return) (auto intro: triple_bind [OF search_calls [OF assms]] triple_return)

lemma first_retrieval_calls:
  "n \<le> N \<Longrightarrow> triple (at_most n) (first_retrieval e d um) (\<lambda>_. at_most n) (at_most N)"
  unfolding first_retrieval_def by (intro triple_if retrieve_for_calls triple_return)

lemma execute_call_calls:
  assumes "n \<le> N"
  shows "triple (at_most n) (execute_tool_call e d call) (\<lambda>_. at_most n) (at_most N)"
  unfolding execute_tool_call_def Let_def
  by (intro triple_if triple_option triple_return) (auto intro: triple_bind [OF search_calls [OF assms]] triple_return)

lemma execute_calls_calls:
  "n \<le> N \<Longrightarrow> triple (at_most n) (execute_tool_calls e d calls acc) (\<lambda>_. at_most n) (at_most N)"
proof (induction e d calls acc rule: execute_tool_calls.induct)
  case (2 e d call calls msgs found retrieval)
  then show ?case
    by (auto simp: split_beta intro!: triple_bind [OF execute_call_calls [OF "2.prems"]])
qed (auto intro: triple_return)

lemma backend_calls:
  assumes "n < N"
  shows "triple (at_most n) (backend_answer_after_miss e d p msgs um sid retrieval)
    (\<lambda>x. at_most (if x = None then n else Suc n)) (at_most N)"
  unfolding backend_answer_after_miss_def Let_def
proof (intro triple_if triple_return)
  show "triple (at_most n) (bind_turn (case retrieval of None \<Rightarrow> retrieve_for e (backend_fallback d) um | Some r \<Rightarrow> return_turn (Some r))
      (\<lambda>found. case found of None \<Rightarrow> return_turn None
        | Some r \<Rightarrow> bind_turn (router_chat e (msgs @ [retrieval_message (ce_config e) r])
            (call_request (decision_for_retrieval (backend_fallback d) (Some r)) (pe_force_secondary p)
              (rd_cloud_allowed (decision_for_retrieval (backend_fallback d) (Some r)))
              (router_task (decision_for_retrieval (backend_fallback d) (Some r)) um) sid (context_cloud_eligible (Some r)) False))
          (\<lambda>resp. return_turn (Some (response_text resp, Some r)))))
    (\<lambda>x. at_most (if x = None then n else Suc n)) (at_most N)"
    using assms
    by (intro triple_bind [where R = "\<lambda>_. at_most n"] triple_option triple_bind [OF chat_calls [OF assms]] triple_return retrieve_for_calls)
      (auto simp: at_most_def)
qed (simp add: at_most_def)

lemma finish_calls:
  assumes "n < N"
  shows "triple (at_most n) (finish_tool_loop e d p msgs sid um acc) (\<lambda>_. at_most (Suc n)) (at_most N)"
proof (cases acc)
  case (fields tool_msgs found retrieval)
  have "triple (at_most n) (if found then return_turn None else backend_answer_after_miss e d p msgs um sid retrieval)
      (\<lambda>x. at_most (if x = None then n else Suc n)) (at_most N)"
    using backend_calls [OF assms] by (intro triple_if triple_return) auto
  then show ?thesis unfolding fields finish_tool_loop_def Let_def prod.case
    by (rule triple_bind) (auto intro!: triple_option triple_return triple_bind [OF chat_calls [OF assms]])
qed

lemma tool_loop_calls:
  assumes "n + 2 \<le> N"
  shows "triple (at_most n) (run_model_tool_loop e d p msgs retrieval sid um) (\<lambda>_. at_most (n + 2)) (at_most N)"
  unfolding run_model_tool_loop_def
proof (intro triple_if triple_return triple_bind [OF chat_calls [of n N]])
  fix resp
  have "triple (at_most (Suc n)) (bind_turn (backend_answer_after_miss e d p msgs um sid retrieval)
      (\<lambda>backend. return_turn (case backend of None \<Rightarrow> (response_text resp, retrieval) | Some answer \<Rightarrow> answer))) (\<lambda>_. at_most (n + 2)) (at_most N)"
    using assms by (intro triple_bind [OF backend_calls [of "Suc n" N]] triple_return) (auto simp: at_most_def split: if_splits)
  moreover have "triple (at_most (Suc n)) (bind_turn (execute_tool_calls e d calls ([], False, retrieval))
      (finish_tool_loop e d p msgs sid um)) (\<lambda>_. at_most (n + 2)) (at_most N)" for calls
    using assms triple_bind [OF execute_calls_calls [of "Suc n" N] finish_calls [of "Suc n" N]] by simp
  ultimately show "triple (at_most (Suc n))
      (case response_tool_calls resp of [] \<Rightarrow> bind_turn (backend_answer_after_miss e d p msgs um sid retrieval)
          (\<lambda>backend. return_turn (case backend of None \<Rightarrow> (response_text resp, retrieval) | Some answer \<Rightarrow> answer))
       | a # list \<Rightarrow> bind_turn (execute_tool_calls e d (first_calls (rd_max_tool_calls_per_turn d) (a # list)) ([], False, retrieval))
          (finish_tool_loop e d p msgs sid um)) (\<lambda>_. at_most (n + 2)) (at_most N)"
    by (cases "response_tool_calls resp") simp_all
qed (use assms in \<open>auto simp: at_most_def\<close>)

lemma ladder_calls:
  assumes "n < N"
  shows "triple (at_most n) (repair_ladder e d msgs tools history sid um retrieval content) (\<lambda>_. at_most (Suc n)) (at_most N)"
  unfolding repair_ladder_def Let_def
  by (intro triple_if triple_return triple_bind [OF retry_calls [OF assms]]) (auto simp: at_most_def)

lemma next_call:
  "(\<And>n N. n < N \<Longrightarrow> triple (at_most n) m (\<lambda>_. at_most (Suc n)) (at_most N)) \<Longrightarrow>
     triple (at_most n) m (\<lambda>_. at_most (n + 1)) (at_most (n + 3)) \<and> triple (at_most (n + 1)) m (\<lambda>_. at_most (n + 2)) (at_most (n + 3))
     \<and> triple (at_most (n + 2)) m (\<lambda>_. at_most (n + 3)) (at_most (n + 3)) \<and> triple (at_most (n + 2)) m (\<lambda>_. at_most (n + 3)) (at_most (n + 4))
     \<and> triple (at_most (n + 3)) m (\<lambda>_. at_most (n + 4)) (at_most (n + 4))"
  by (simp add: numeral_eq_Suc)

lemma tool_branch_calls:
  "triple (at_most n) (run_tool_branch e d um history sid msgs retrieval) (\<lambda>_. at_most (n + 4)) (at_most (n + 4))"
proof -
  have "triple (at_most (n + 2)) (bind_turn (retry_cloud_if_unknown e content d msgs False sid um)
      (repair_ladder e d msgs False history sid um r)) (\<lambda>_. at_most (n + 4)) (at_most (n + 4))" for content r
    by (rule triple_bind [where R = "\<lambda>_. at_most (n + 3)"])
      (simp_all only: next_call [OF retry_calls] next_call [OF ladder_calls])
  moreover have "triple (at_most n) (run_model_tool_loop e d p msgs retrieval sid um) (\<lambda>_. at_most (n + 2)) (at_most (n + 4))" for p
    using tool_loop_calls [of n "n + 4"] by simp
  ultimately show ?thesis unfolding run_tool_branch_def
    by (intro triple_bind [where R = "\<lambda>_. at_most (n + 2)"]) (auto simp: split_beta)
qed

lemma plain_branch_calls:
  "triple (at_most n) (run_plain_branch e d um history sid msgs retrieval) (\<lambda>_. at_most (n + 3)) (at_most (n + 3))"
  unfolding run_plain_branch_def Let_def
  by (rule triple_bind [where R = "\<lambda>_. at_most (n + 1)"], simp only: next_call [OF chat_calls],
      rule triple_bind [where R = "\<lambda>_. at_most (n + 2)"]) (simp_all only: next_call [OF retry_calls] next_call [OF ladder_calls])

definition call_bound :: "routing_decision \<Rightarrow> nat" where
  "call_bound d = (if rd_tool_execution_mode d = ModelToolLoop then 4 else 3)"

lemma mode_for_retrieval [simp]:
  "rd_tool_execution_mode (decision_for_retrieval d r) = rd_tool_execution_mode d"
  "rd_selected_mode (decision_for_retrieval d r) = rd_selected_mode d"
  "rd_retrieval_required (decision_for_retrieval d r) = rd_retrieval_required d"
  by (simp_all add: decision_for_retrieval_def)

lemma run_calls:
  "triple (at_most n) (run e d um history sid) (\<lambda>_. at_most (n + call_bound d)) (at_most (n + call_bound d))"
  unfolding run_def
proof (intro triple_option triple_return triple_bind [OF first_retrieval_calls])
  fix r
  show "triple (at_most n) (let msgs = turn_messages (ce_config e) d history r; d1 = decision_for_retrieval d r in
      if rd_tool_execution_mode d1 = ModelToolLoop then run_tool_branch e d1 um history sid msgs r
      else run_plain_branch e d1 um history sid msgs r) (\<lambda>_. at_most (n + call_bound d)) (at_most (n + call_bound d))"
    by (simp add: Let_def call_bound_def tool_branch_calls plain_branch_calls)
qed (simp_all add: at_most_def)

section \<open>Restricted context\<close>

text \<open>
  The messages of a turn that were put together before anything was retrieved. A call is
  safe if it sends nothing to a cloud model, or its messages are these, or all that had been
  retrieved before it may go there.
\<close>

definition base_messages :: "chat_env \<Rightarrow> routing_decision \<Rightarrow> chat_message list \<Rightarrow> chat_message list list" where
  "base_messages e d history =
     (let msgs = turn_messages (ce_config e) d history None in [msgs, msgs @ [cloud_retry_message]])"

fun sent_to_cloud :: "turn_event \<Rightarrow> bool" where
  "sent_to_cloud (SentCloud _ _) = True"
| "sent_to_cloud _ = False"

definition safe_call :: "chat_message list list \<Rightarrow> router_call \<Rightarrow> bool" where
  "safe_call base c \<longleftrightarrow> list_ex sent_to_cloud (rc_events c)
     \<longrightarrow> rc_messages c \<in> set base \<or> list_all rv_cloud_llm_eligible (rc_found c)"

definition safe_calls :: "chat_message list list \<Rightarrow> turn_state \<Rightarrow> bool" where
  "safe_calls base s \<longleftrightarrow> list_all (safe_call base) (ts_calls s)"

text \<open>What is retrieved at a point of the turn, and what the eligibility of the last retrieval says of it.\<close>

definition tracked :: "chat_message list list \<Rightarrow> retrieval_result option \<Rightarrow> turn_state \<Rightarrow> bool" where
  "tracked base r s \<longleftrightarrow> safe_calls base s \<and> (context_cloud_eligible r \<longrightarrow> list_all rv_cloud_llm_eligible (ts_found s))"

definition untouched :: "chat_message list list \<Rightarrow> turn_state \<Rightarrow> bool" where
  "untouched base s \<longleftrightarrow> safe_calls base s \<and> ts_found s = []"

lemma tracked_safe: "tracked base r s \<Longrightarrow> safe_calls base s"
  by (simp add: tracked_def)

lemma untouched_tracked: "untouched base s \<Longrightarrow> tracked base r s"
  by (simp add: tracked_def untouched_def)

lemma chat_cloud_events:
  "chat e msgs q ro = Inr (resp, ro1, ev) \<Longrightarrow> list_ex sent_to_cloud ev \<Longrightarrow> tq_context_cloud_eligible q"
  "stream_chat e msgs q ro = Inr (texts, res, ro1, ev) \<Longrightarrow> list_ex sent_to_cloud ev \<Longrightarrow> tq_context_cloud_eligible q"
proof -
  have key: "tq_context_cloud_eligible q" if ev: "set ev \<subseteq> set (turn_events st e msgs q ro)" and ex: "list_ex sent_to_cloud ev" for st
  proof -
    obtain z where z: "z \<in> set ev" "sent_to_cloud z" using ex by (auto simp: list_ex_iff)
    obtain r n where "z = SentCloud r n" using z(2) by (cases z) auto
    then show ?thesis using turn_events_open [of z st e msgs q ro] z(1) ev by (auto simp: route_open_def)
  qed
  show "chat e msgs q ro = Inr (resp, ro1, ev) \<Longrightarrow> list_ex sent_to_cloud ev \<Longrightarrow> tq_context_cloud_eligible q"
    using key [of False] by (simp add: turn_events_def)
  show "stream_chat e msgs q ro = Inr (texts, res, ro1, ev) \<Longrightarrow> list_ex sent_to_cloud ev \<Longrightarrow> tq_context_cloud_eligible q"
    using key [of True] by (simp add: turn_events_def)
qed

lemma chat_tracked:
  assumes "msgs \<in> set base \<or> (tq_context_cloud_eligible q \<longrightarrow> context_cloud_eligible r)"
  shows "triple (tracked base r) (router_chat e msgs q) (\<lambda>_. tracked base r) (safe_calls base)"
  using assms chat_cloud_events(1)
  by (intro tripleI)
    (auto simp: router_chat_def tracked_def safe_calls_def safe_call_def split: sum.split prod.split)

lemma stream_tracked:
  assumes "msgs \<in> set base \<or> (tq_context_cloud_eligible q \<longrightarrow> context_cloud_eligible r)"
  shows "triple (tracked base r) (router_stream e msgs q) (\<lambda>_. tracked base r) (safe_calls base)"
  using assms chat_cloud_events(2)
  by (intro tripleI)
    (auto simp: router_stream_def tracked_def safe_calls_def safe_call_def split: sum.split prod.split)

lemma chat_untouched:
  "msgs \<in> set base \<Longrightarrow> triple (untouched base) (router_chat e msgs q) (\<lambda>_. untouched base) (safe_calls base)"
  by (intro tripleI) (auto simp: router_chat_def untouched_def safe_calls_def safe_call_def split: sum.split prod.split)

lemma search_tracked:
  "triple (untouched base) (search e query tool) (\<lambda>r. tracked base (Some r)) (safe_calls base)"
  by (intro tripleI)
    (auto simp: search_def Let_def untouched_def tracked_def safe_calls_def context_cloud_eligible_def split: sum.split prod.split)

lemma retry_tracked:
  assumes "rd_cloud_allowed d \<Longrightarrow> msgs @ [cloud_retry_message] \<in> set base \<or> context_cloud_eligible r"
  shows "triple (tracked base r) (retry_cloud_if_unknown e content d msgs tools sid um) (\<lambda>_. tracked base r) (safe_calls base)"
proof (rule tripleI)
  fix s
  assume s: "tracked base r s"
  let ?call = "router_chat e (msgs @ [cloud_retry_message]) (call_request d True True (router_task d um) sid True tools) s"
  show "case retry_cloud_if_unknown e content d msgs tools sid um s of (Inl err, s1) \<Rightarrow> safe_calls base s1 | (Inr x, s1) \<Rightarrow> tracked base r s1"
  proof (cases "is_unknown_answer content \<and> rd_cloud_allowed d \<and> \<not> last_selected_route_was_cloud (ts_router s)")
    case True
    obtain res s1 where c: "?call = (res, s1)" by fastforce
    have "triple (tracked base r) (router_chat e (msgs @ [cloud_retry_message]) (call_request d True True (router_task d um) sid True tools))
        (\<lambda>_. tracked base r) (safe_calls base)"
      using assms True by (intro chat_tracked) auto
    from triple_result [OF this s c] show ?thesis using True c
      by (auto simp: retry_cloud_if_unknown_def split: sum.splits)
  next
    case False
    then show ?thesis using s by (auto simp: retry_cloud_if_unknown_def)
  qed
qed

definition found_nothing :: "chat_message list list \<Rightarrow> retrieval_result option \<Rightarrow> turn_state \<Rightarrow> bool" where
  "found_nothing base r s \<longleftrightarrow> tracked base r s \<and> (r = None \<longrightarrow> untouched base s)"

lemma retrieve_for_tracked:
  "triple (untouched base) (retrieve_for e d um) (found_nothing base) (safe_calls base)"
  unfolding retrieve_for_def
  by (intro triple_if triple_option triple_return triple_bind [OF search_tracked])
    (auto simp: found_nothing_def untouched_tracked)

lemma first_retrieval_tracked:
  "triple (untouched base) (first_retrieval e d um) (found_nothing base) (safe_calls base)"
  unfolding first_retrieval_def
  by (intro triple_if retrieve_for_tracked triple_return) (auto simp: found_nothing_def untouched_tracked)

lemma execute_call_tracked:
  "triple (untouched base) (execute_tool_call e d call) (\<lambda>x. found_nothing base (snd x)) (safe_calls base)"
  unfolding execute_tool_call_def Let_def
  by (intro triple_if triple_option triple_return triple_bind [OF search_tracked])
    (auto simp: found_nothing_def untouched_tracked)

lemma execute_one_tracked:
  assumes "length calls \<le> 1"
  shows "triple (untouched base) (execute_tool_calls e d calls ([], False, None))
    (\<lambda>(msgs, found, r) s. tracked base r s \<and> (\<not> found \<longrightarrow> r = None \<and> untouched base s)) (safe_calls base)"
proof (cases calls)
  case Nil
  then show ?thesis by (auto intro!: triple_return simp: untouched_tracked)
next
  case (Cons call rest)
  then have "rest = []" using assms by simp
  then show ?thesis unfolding Cons
    by (auto intro!: triple_bind [OF execute_call_tracked] triple_return simp: found_nothing_def split: option.splits)
qed

text \<open>The answer of the backend retrieval, if there is one, comes with what it was made of.\<close>

lemma backend_tracked:
  "triple (untouched base) (backend_answer_after_miss e d p msgs um sid None)
    (\<lambda>x. case x of None \<Rightarrow> untouched base | Some (t, r) \<Rightarrow> tracked base r) (safe_calls base)"
  unfolding backend_answer_after_miss_def Let_def option.case
proof (intro triple_if triple_return)
  show "triple (untouched base) (bind_turn (retrieve_for e (backend_fallback d) um)
      (\<lambda>found. case found of None \<Rightarrow> return_turn None
        | Some r \<Rightarrow> bind_turn (router_chat e (msgs @ [retrieval_message (ce_config e) r])
            (call_request (decision_for_retrieval (backend_fallback d) (Some r)) (pe_force_secondary p)
              (rd_cloud_allowed (decision_for_retrieval (backend_fallback d) (Some r)))
              (router_task (decision_for_retrieval (backend_fallback d) (Some r)) um) sid (context_cloud_eligible (Some r)) False))
          (\<lambda>resp. return_turn (Some (response_text resp, Some r)))))
    (\<lambda>x. case x of None \<Rightarrow> untouched base | Some (t, r) \<Rightarrow> tracked base r) (safe_calls base)"
  proof (rule triple_bind [OF retrieve_for_tracked], rule triple_option)
    fix found :: "retrieval_result option" and r
    assume found: "found = Some r"
    have call: "triple (tracked base (Some r)) (router_chat e (msgs @ [retrieval_message (ce_config e) r])
            (call_request (decision_for_retrieval (backend_fallback d) (Some r)) (pe_force_secondary p)
              (rd_cloud_allowed (decision_for_retrieval (backend_fallback d) (Some r)))
              (router_task (decision_for_retrieval (backend_fallback d) (Some r)) um) sid (context_cloud_eligible (Some r)) False))
        (\<lambda>_. tracked base (Some r)) (safe_calls base)"
      by (rule chat_tracked) (simp add: call_request_def)
    show "triple (found_nothing base found) (bind_turn (router_chat e (msgs @ [retrieval_message (ce_config e) r])
            (call_request (decision_for_retrieval (backend_fallback d) (Some r)) (pe_force_secondary p)
              (rd_cloud_allowed (decision_for_retrieval (backend_fallback d) (Some r)))
              (router_task (decision_for_retrieval (backend_fallback d) (Some r)) um) sid (context_cloud_eligible (Some r)) False))
          (\<lambda>resp. return_turn (Some (response_text resp, Some r))))
        (\<lambda>x. case x of None \<Rightarrow> untouched base | Some (t, r) \<Rightarrow> tracked base r) (safe_calls base)"
      by (rule triple_pre [OF triple_bind [OF call]]) (auto intro: triple_return simp: found found_nothing_def)
  qed (auto intro!: triple_return simp: found_nothing_def)
qed simp

lemma finish_tracked:
  "triple (\<lambda>s. (case acc of (m, found, r) \<Rightarrow> tracked base r s \<and> (\<not> found \<longrightarrow> r = None \<and> untouched base s)))
     (finish_tool_loop e d p msgs sid um acc) (\<lambda>(t, r). tracked base r) (safe_calls base)"
proof (cases acc)
  case (fields tool_msgs found r)
  let ?d = "decision_for_retrieval d r"
  have call: "triple (tracked base r) (router_chat e (msgs @ tool_msgs @ [final_answer_message])
      (call_request ?d (pe_force_secondary p) (rd_cloud_allowed ?d) (router_task ?d (tail_text (cc_rep (ce_config e)) msgs)) sid
        (context_cloud_eligible r) False)) (\<lambda>_. tracked base r) (safe_calls base)"
    by (rule chat_tracked) (simp add: call_request_def)
  have first: "triple (\<lambda>s. tracked base r s \<and> (\<not> found \<longrightarrow> r = None \<and> untouched base s))
      (if found then return_turn None else backend_answer_after_miss e d p msgs um sid r)
      (\<lambda>x. case x of None \<Rightarrow> tracked base r | Some (t, r1) \<Rightarrow> tracked base r1) (safe_calls base)"
  proof (rule triple_if)
    assume "\<not> found"
    show "triple (\<lambda>s. tracked base r s \<and> (\<not> found \<longrightarrow> r = None \<and> untouched base s)) (backend_answer_after_miss e d p msgs um sid r)
        (\<lambda>x. case x of None \<Rightarrow> tracked base r | Some (t, r1) \<Rightarrow> tracked base r1) (safe_calls base)"
    proof (cases r)
      case None
      then show ?thesis using \<open>\<not> found\<close>
        by (auto intro!: triple_conseq [OF backend_tracked] simp: untouched_tracked split: option.splits)
    qed (use \<open>\<not> found\<close> in \<open>simp add: triple_def\<close>)
  qed (auto intro: triple_return)
  show ?thesis unfolding fields finish_tool_loop_def Let_def prod.case
    by (rule triple_bind [OF first]) (auto intro!: triple_option triple_return triple_bind [OF call] split: option.split)
qed

lemma tool_loop_tracked:
  assumes "rd_max_tool_calls_per_turn d \<in> {0, 1}" and "msgs \<in> set base"
  shows "triple (untouched base) (run_model_tool_loop e d p msgs None sid um) (\<lambda>(t, r). tracked base r) (safe_calls base)"
  unfolding run_model_tool_loop_def
proof (intro triple_if triple_return triple_bind [OF chat_untouched [OF assms(2)]])
  fix resp
  show "triple (untouched base)
      (case response_tool_calls resp of [] \<Rightarrow> bind_turn (backend_answer_after_miss e d p msgs um sid None)
          (\<lambda>backend. return_turn (case backend of None \<Rightarrow> (response_text resp, None) | Some answer \<Rightarrow> answer))
       | a # list \<Rightarrow> bind_turn (execute_tool_calls e d (first_calls (rd_max_tool_calls_per_turn d) (a # list)) ([], False, None))
          (finish_tool_loop e d p msgs sid um)) (\<lambda>(t, r). tracked base r) (safe_calls base)"
  proof (cases "response_tool_calls resp")
    case Nil
    then show ?thesis
      by (auto intro!: triple_bind [OF backend_tracked] triple_return simp: untouched_tracked split: option.splits)
  next
    case (Cons a list)
    have "length (first_calls (rd_max_tool_calls_per_turn d) (a # list)) \<le> 1" using assms(1) by (auto simp: first_calls_def)
    from triple_bind [OF execute_one_tracked [OF this] triple_pre [OF finish_tracked]] show ?thesis
      using Cons by (simp add: split_beta)
  qed
qed (simp add: untouched_tracked)

lemma ladder_tracked:
  assumes "rd_cloud_allowed d \<Longrightarrow> msgs @ [cloud_retry_message] \<in> set base \<or> context_cloud_eligible r"
  shows "triple (tracked base r) (repair_ladder e d msgs tools history sid um rv content) (\<lambda>_. safe_calls base) (safe_calls base)"
  unfolding repair_ladder_def Let_def
  by (intro triple_if triple_return triple_bind [OF retry_tracked [OF assms]]) (auto simp: tracked_safe)

lemma run_tracked:
  assumes "rd_max_tool_calls_per_turn d \<in> {0, 1}"
  shows "triple (untouched (base_messages e d history)) (run e d um history sid)
    (\<lambda>_. safe_calls (base_messages e d history)) (safe_calls (base_messages e d history))"
proof -
  let ?base = "base_messages e d history"
  let ?msgs = "turn_messages (ce_config e) d history"
  have base: "?msgs None \<in> set ?base" "?msgs None @ [cloud_retry_message] \<in> set ?base" by (simp_all add: base_messages_def Let_def)
  have plain: "triple (found_nothing ?base r) (run_plain_branch e (decision_for_retrieval d r) um history sid (?msgs r) r)
      (\<lambda>_. safe_calls ?base) (safe_calls ?base)" for r
  proof -
    have cloud: "rd_cloud_allowed (decision_for_retrieval d r) \<Longrightarrow>
        ?msgs r @ [cloud_retry_message] \<in> set ?base \<or> context_cloud_eligible r"
      by (simp add: decision_for_retrieval_def split: if_splits)
    show ?thesis unfolding run_plain_branch_def Let_def
      by (rule triple_pre [where P = "tracked ?base r"], rule triple_bind [OF chat_tracked], simp add: call_request_def,
          rule triple_bind [OF retry_tracked ladder_tracked]) (use cloud in \<open>auto simp: found_nothing_def\<close>)
  qed
  have tools: "triple (untouched ?base) (run_tool_branch e d um history sid (?msgs None) None) (\<lambda>_. safe_calls ?base) (safe_calls ?base)"
    unfolding run_tool_branch_def
    by (rule triple_bind [OF tool_loop_tracked [OF assms base(1)]])
      (auto simp: split_beta intro!: triple_bind [OF retry_tracked ladder_tracked] base)
  show ?thesis
  proof (cases "rd_tool_execution_mode d = ModelToolLoop")
    case True
    then have "first_retrieval e d um = return_turn None" by (simp add: first_retrieval_def)
    moreover have "decision_for_retrieval d None = d" by (simp add: decision_for_retrieval_def context_cloud_eligible_def)
    ultimately show ?thesis using True tools
      by (auto simp: run_def Let_def bind_turn_def return_turn_def triple_def untouched_def split: option.splits)
  next
    case False
    show ?thesis unfolding run_def Let_def
      by (intro triple_option triple_return triple_bind [OF first_retrieval_tracked])
        (use plain False in \<open>auto simp: untouched_def\<close>)
  qed
qed

lemma stream_turn_tracked:
  assumes "rd_max_tool_calls_per_turn d \<in> {0, 1}"
  shows "triple (untouched (base_messages e d history)) (stream e d um history sid)
    (\<lambda>_. safe_calls (base_messages e d history)) (safe_calls (base_messages e d history))"
proof -
  let ?base = "base_messages e d history"
  let ?msgs = "turn_messages (ce_config e) d history"
  have cloud: "rd_cloud_allowed (decision_for_retrieval d r) \<Longrightarrow> context_cloud_eligible r" for r
    by (simp add: decision_for_retrieval_def split: if_splits)
  have rest: "triple (tracked ?base r) (stream_tail e (decision_for_retrieval d r) (?msgs r) tools history sid um r emitted content)
      (\<lambda>_. safe_calls ?base) (safe_calls ?base)" for r tools emitted content
    unfolding stream_tail_def Let_def
    by (intro triple_if triple_return triple_bind [OF retry_tracked]) (use cloud tracked_safe in auto)
  have after: "triple (tracked ?base r) (finish_stream e (decision_for_retrieval d r) (?msgs r) tools history sid um r x)
      (\<lambda>_. safe_calls ?base) (safe_calls ?base)" for r tools x
  proof (rule tripleI)
    fix s
    assume s: "tracked ?base r s"
    obtain chunks ended where x: "x = (chunks, ended)" by fastforce
    obtain res s1 where t: "stream_tail e (decision_for_retrieval d r) (?msgs r) tools history sid um r
        (live_chunks False [] chunks \<noteq> []) (concat chunks) s = (res, s1)" by fastforce
    have "safe_calls ?base s1" using triple_result [OF rest s t] by (auto split: sum.splits)
    then show "case finish_stream e (decision_for_retrieval d r) (?msgs r) tools history sid um r x s of
        (Inl err, s1) \<Rightarrow> safe_calls ?base s1 | (Inr y, s1) \<Rightarrow> safe_calls ?base s1"
      using x t tracked_safe [OF s] by (auto simp: finish_stream_def Let_def split: sum.splits)
  qed
  have live: "triple (found_nothing ?base r) (bind_turn (router_stream e (?msgs r)
      (call_request (decision_for_retrieval d r) force cloud task sid (context_cloud_eligible r) tools)) f)
      (\<lambda>_. safe_calls ?base) (safe_calls ?base)"
    if "\<And>x. triple (tracked ?base r) (f x) (\<lambda>_. safe_calls ?base) (safe_calls ?base)" for r force cloud task tools f
    by (rule triple_pre [OF triple_bind [OF stream_tracked that]]) (auto simp: call_request_def found_nothing_def)
  show ?thesis unfolding stream_def Let_def
    by (intro triple_option triple_return triple_if triple_bind [OF run_tracked [OF assms]] triple_bind [OF first_retrieval_tracked] live)
      (use after in \<open>auto simp: untouched_def\<close>)
qed

end
