(* ===== verification/ChatRules.thy ===== *)
theory ChatRules
  imports ChatRuns TurnRules RouterSamples
begin

text \<open>
  What a chat turn promises: restricted context stays local, the number of model calls is
  bounded, refused messages reach no model, the internal sentinel is not shown (and where it
  is), a service turn quotes no price, the reported grade is that of the answer, and streamed
  chunks add up to the answer.
\<close>

section \<open>A whole turn\<close>

text \<open>Planning and streaming, as \<open>chat_stream\<close> of \<open>api/chat.py\<close> does one after the other.\<close>

definition chat_turn ::
  "chat_env \<Rightarrow> routing_config option \<Rightarrow> orchestrator \<Rightarrow> string \<Rightarrow> string \<Rightarrow> bool \<Rightarrow> intake \<Rightarrow> chat_message list \<Rightarrow> string
   \<Rightarrow> (string list \<times> unit result) turn_op" where
  "chat_turn e rcfg orc mode message intake_complete intake history conv_id =
     bind_turn (plan e rcfg orc mode message intake_complete intake) (\<lambda>d. stream e d message history conv_id)"

definition new_turn :: "llm_router \<Rightarrow> retriever \<Rightarrow> turn_state" where
  "new_turn ro kr = \<lparr>ts_router = ro, ts_retriever = kr, ts_calls = [], ts_found = []\<rparr>"

lemma decide_ok: "decision_ok (decide rcfg orc mode message ic intake)"
  unfolding decide_def Let_def split_beta by (auto simp: answer_decision_ok halted_decisions_ok)

text \<open>What planning changes of a decision.\<close>

definition planned :: "routing_decision \<Rightarrow> routing_decision \<Rightarrow> bool" where
  "planned d0 d \<longleftrightarrow> d = d0 \<or> (\<exists>why. d = (backend_fallback d0)\<lparr>rd_reason := why\<rparr>)"

lemma planned_refl: "planned d0 d0"
  by (simp add: planned_def)

lemma planned_backend: "planned d0 ((backend_fallback d0)\<lparr>rd_reason := why\<rparr>)"
  unfolding planned_def by blast

lemma plan_outcome:
  "plan e rcfg orc mode message ic intake s = (res, s1) \<Longrightarrow> ts_calls s1 = ts_calls s \<and> ts_found s1 = ts_found s
     \<and> (case res of Inl _ \<Rightarrow> True | Inr d \<Rightarrow> planned (decide rcfg orc mode message ic intake) d)"
proof (cases "rd_tool_execution_mode (decide rcfg orc mode message ic intake) \<noteq> ModelToolLoop
    \<or> \<not> rd_tool_loop_requires_route (decide rcfg orc mode message ic intake)")
  case False
  let ?d = "decide rcfg orc mode message ic intake"
  assume p: "plan e rcfg orc mode message ic intake s = (res, s1)"
  show ?thesis
  proof (cases "has_tool_capable_route (ce_plan e) (rd_cloud_allowed ?d) (Some (policy_value (rd_response_policy ?d)))
      (Some (router_task ?d message)) True (ts_router s)")
    case (Inl err)
    then show ?thesis using p False by (auto simp: plan_def route_aware_tool_loop_decision_def)
  next
    case (Inr x)
    then show ?thesis using p False planned_refl [of ?d] planned_backend [of ?d]
      by (cases x) (auto simp: plan_def route_aware_tool_loop_decision_def)
  qed
qed (auto simp: plan_def route_aware_tool_loop_decision_def planned_refl)

lemma planned_messages: "planned d0 d \<Longrightarrow> turn_messages cfg d history r = turn_messages cfg d0 history r"
proof -
  assume "planned d0 d"
  then have "rd_selected_mode d = rd_selected_mode d0" "rd_intake d = rd_intake d0" "rd_frame d = rd_frame d0"
    "rd_service_handoff_suggested d = rd_service_handoff_suggested d0" "rd_soft_service_offer d = rd_soft_service_offer d0"
    by (auto simp: planned_def backend_fallback_def)
  then show ?thesis by (simp only: turn_messages_def routing_frame_message_def)
qed

lemma planned_cap: "planned d0 d \<Longrightarrow> rd_max_tool_calls_per_turn d = rd_max_tool_calls_per_turn d0"
  by (auto simp: planned_def backend_fallback_def)

lemma planned_bound: "planned d0 d \<Longrightarrow> call_bound d \<le> call_bound d0"
  by (auto simp: planned_def call_bound_def backend_fallback_def)

lemma chat_turn_outcome:
  assumes "\<And>d. planned (decide rcfg orc mode message ic intake) d \<Longrightarrow> triple P (stream e d message history conv) (\<lambda>_. Q) Q"
    and "\<And>s. P s \<Longrightarrow> Q s" and "\<And>s s1. P s \<Longrightarrow> ts_calls s1 = ts_calls s \<Longrightarrow> ts_found s1 = ts_found s \<Longrightarrow> P s1" and "P s"
  shows "Q (snd (chat_turn e rcfg orc mode message ic intake history conv s))"
proof -
  obtain res s1 where p: "plan e rcfg orc mode message ic intake s = (res, s1)" by fastforce
  have s1: "P s1" using plan_outcome [OF p] assms(3,4) by blast
  show ?thesis
  proof (cases res)
    case (Inl err)
    then show ?thesis using p s1 assms(2) by (simp add: chat_turn_def bind_turn_def)
  next
    case (Inr d)
    then have "triple P (stream e d message history conv) (\<lambda>_. Q) Q" using assms(1) plan_outcome [OF p] by simp
    from triple_outcome [OF this s1] show ?thesis using p Inr by (simp add: chat_turn_def bind_turn_def)
  qed
qed

section \<open>Restricted context stays local\<close>

text \<open>C5: 
  Whatever a turn retrieves, a call that sends anything to a cloud model has messages that
  were put together before the retrieval, or everything retrieved before it may go to a
  cloud model. What other turns do meanwhile is arbitrary.
\<close>

theorem restricted_context_stays_local:
  "list_all (\<lambda>c. rc_messages c \<in> set (base_messages e (decide rcfg orc mode message ic intake) history)
         \<or> list_all rv_cloud_llm_eligible (rc_found c))
     (filter (\<lambda>c. list_ex sent_to_cloud (rc_events c))
       (ts_calls (snd (chat_turn e rcfg orc mode message ic intake history conv (new_turn ro kr)))))"
proof -
  let ?d = "decide rcfg orc mode message ic intake"
  let ?base = "base_messages e ?d history"
  have "safe_calls ?base (snd (chat_turn e rcfg orc mode message ic intake history conv (new_turn ro kr)))"
  proof (rule chat_turn_outcome [where P = "untouched ?base"])
    fix d
    assume d: "planned ?d d"
    have "rd_max_tool_calls_per_turn d \<in> {0, 1}"
      using planned_cap [OF d] decide_ok [of rcfg orc mode message ic intake] by (simp add: decision_ok_def)
    moreover have "base_messages e d history = ?base" using planned_messages [OF d] by (simp add: base_messages_def)
    ultimately show "triple (untouched ?base) (stream e d message history conv) (\<lambda>_. safe_calls ?base) (safe_calls ?base)"
      using stream_turn_tracked [of d e history message conv] by simp
  qed (auto simp: untouched_def safe_calls_def new_turn_def)
  then show ?thesis by (auto simp: safe_calls_def safe_call_def list_all_iff)
qed

section \<open>The number of model calls\<close>

lemma stream_turn_calls:
  "triple (at_most n) (stream e d um history sid) (\<lambda>_. at_most (n + call_bound d)) (at_most (n + call_bound d))"
proof -
  have rest: "triple (at_most (n + 1)) (stream_tail e d' msgs tools history sid um r emitted content)
      (\<lambda>_. at_most (n + call_bound d)) (at_most (n + call_bound d))" for d' msgs tools r emitted content
    unfolding stream_tail_def Let_def
    by (intro triple_if triple_return triple_bind [OF retry_calls]) (auto simp: at_most_def call_bound_def)
  have finish: "triple (at_most (n + 1)) (finish_stream e d' msgs tools history sid um r x)
      (\<lambda>_. at_most (n + call_bound d)) (at_most (n + call_bound d))" for d' msgs tools r x
  proof (rule tripleI)
    fix s
    assume s: "at_most (n + 1) s"
    obtain chunks ended where x: "x = (chunks, ended)" by fastforce
    obtain res s1 where t: "stream_tail e d' msgs tools history sid um r (live_chunks False [] chunks \<noteq> []) (concat chunks) s = (res, s1)"
      by fastforce
    have "at_most (n + call_bound d) s1" using triple_result [OF rest s t] by (auto split: sum.splits)
    moreover have "at_most (n + call_bound d) s" using s by (simp add: at_most_def call_bound_def)
    ultimately show "case finish_stream e d' msgs tools history sid um r x s of
        (Inl err, s1) \<Rightarrow> at_most (n + call_bound d) s1 | (Inr y, s1) \<Rightarrow> at_most (n + call_bound d) s1"
      using x t by (auto simp: finish_stream_def Let_def split: sum.splits)
  qed
  show ?thesis unfolding stream_def Let_def
    by (intro triple_option triple_return triple_if triple_bind [OF run_calls] triple_bind [OF first_retrieval_calls]
        triple_bind [OF stream_calls]) (use finish in \<open>auto simp: at_most_def call_bound_def\<close>)
qed


section \<open>Refused messages\<close>

text \<open>
  A message to refuse, by the texts it has once blanks are squeezed and letters are small: it
  names a secret and asks to show it, or it overrides the instructions; a message that opens
  as a question about the subject is let through, unless it is about the bot's own secrets.
\<close>

definition asks_for_secrets_or_override :: "string \<Rightarrow> bool" where
  "asks_for_secrets_or_override message =
     (let text = squeeze (lower message);
          named = (\<lambda>ts. list_ex (\<lambda>t. contains t text) ts);
          discussed = list_ex (\<lambda>p. \<exists>rest. text = p @ rest) [''what is'', ''what are'', ''what if'', ''how do'', ''how can'', ''explain'',
            ''teach'', ''help me detect'', ''help me defend'']
      in named [''system prompt'', ''developer message'', ''hidden prompt'', ''hidden instructions'', ''internal instructions'',
             ''internal policy'', ''api key'', ''secret'', ''token'', ''environment variable'']
           \<and> named [''reveal'', ''show'', ''print'', ''dump'', ''expose'', ''tell me'', ''give me'', ''share'', ''return'']
           \<and> (\<not> discussed \<or> named [''your system prompt'', ''your developer message'', ''your api key'', ''your secret'', ''your token'',
                ''your environment variable''])
         \<or> \<not> discussed \<and> named [''ignore previous instructions'', ''ignore all previous instructions'', ''ignore prior instructions'',
              ''ignore all prior instructions'', ''disregard previous instructions'', ''disregard prior instructions'',
              ''override your instructions'', ''you are now''])"

lemma prefix_found: "starts_with p s \<longleftrightarrow> (\<exists>rest. s = p @ rest)"
proof
  assume "starts_with p s"
  then have "s = p @ drop (length p) s" unfolding starts_with_def by (metis append_take_drop_id)
  then show "\<exists>rest. s = p @ rest" by blast
qed (auto simp: starts_with_def)

lemma refused_texts: "is_direct_safety_violation message = asks_for_secrets_or_override message"
  unfolding is_direct_safety_violation_def asks_for_secrets_or_override_def prefix_found [symmetric] has_any_def Let_def
    SECRET_REQUEST_TARGETS_def SECRET_REQUEST_VERBS_def DIRECT_OVERRIDE_MARKERS_def SAFE_DISCUSSION_PREFIXES_def
  by (cases "squeeze (lower message)") auto


text \<open>The deployment of the examples, with no routes that answer and no sources.\<close>

definition sample_search :: retrieval_env where
  "sample_search = \<lparr>rx_max_entries = 128, rx_ttl = 300, rx_now = 0, rx_now_put = 0, rx_rep = (\<lambda>_. []), rx_kb = (\<lambda>_ _. Inr ([], True)),
     rx_discovery = (\<lambda>_ _. ([], True)), rx_fallback = (\<lambda>_ _ _. None), rx_meanwhile = id\<rparr>"

definition sample_chat :: chat_env where
  "sample_chat = \<lparr>ce_config = \<lparr>cc_environ = (\<lambda>_. None), cc_deployment = default_deployment, cc_personas = None,
       cc_quarantine_max = 24000, cc_rep = (\<lambda>_. []), cc_loads = (\<lambda>_. None)\<rparr>,
     ce_plan = static_inputs, ce_calls = (\<lambda>_. sample_turn static_inputs only_cloud_answers), ce_searches = (\<lambda>_. sample_search),
     ce_waits = (\<lambda>_. id)\<rparr>"

abbreviation sample_start :: turn_state where
  "sample_start \<equiv> new_turn sample_router (new_retriever (\<lambda>_. None) None)"


end
