(* ===== verification/ChatAnswers.thy ===== *)
theory ChatAnswers
  imports ChatRules
begin

text \<open>
  What a chat turn shows: the internal sentinel is replaced on the plain branch of \<open>run\<close> and
  shown on the tool branch, a service turn quotes no price, the reported grade is the grade
  of the answer, untrusted content stays within its limit, and streamed chunks add up to the
  answer of the model.
\<close>

section \<open>The fallbacks are no sentinels\<close>

text \<open>A text with a word that neither sentinel has is not taken for one.\<close>

lemma normalize_keeps:
  assumes "contains t s" and "term_ok t"
  shows "contains t (normalize_answer s)"
  unfolding normalize_answer_def
  using squeeze_keeps [OF lower_keeps [OF strip_keeps [OF assms(1)]]] assms(2) by (simp add: term_ok_def)

lemma not_unknown:
  assumes "contains t s" and "term_ok t" and "\<not> contains t (normalize_answer UNKNOWN_ANSWER)"
    and "\<not> contains t (normalize_answer LEGACY_UNKNOWN_ANSWER)"
  shows "\<not> is_unknown_answer s"
  using normalize_keeps [OF assms(1,2)] assms(3,4) by (auto simp: is_unknown_answer_def)

lemma fresh_words:
  "list_all (\<lambda>t. term_ok t \<and> \<not> contains t (normalize_answer UNKNOWN_ANSWER) \<and> \<not> contains t (normalize_answer LEGACY_UNKNOWN_ANSWER))
     [''scoped'', ''pricing'', ''verified'']"
  by code_simp

lemma discovery_known [simp]: "\<not> is_unknown_answer (service_discovery_fallback cfg d)"
proof (rule not_unknown [where t = "''scoped''"])
  show "contains ''scoped'' (service_discovery_fallback cfg d)"
    unfolding service_discovery_fallback_def Let_def by (simp add: contains_right starts_with_def)
qed (use fresh_words in simp_all)

lemma pricing_known [simp]: "\<not> is_unknown_answer (service_pricing_fallback cfg d)"
proof (rule not_unknown [where t = "''pricing''"])
  show "contains ''pricing'' (service_pricing_fallback cfg d)"
    unfolding service_pricing_fallback_def Let_def by (simp add: contains_right starts_with_def)
qed (use fresh_words in simp_all)

lemma directions_known [simp]:
  "\<not> is_unknown_answer (automator_direction_fallback cfg d n)" "\<not> is_unknown_answer (education_direction_fallback d n)"
  "\<not> is_unknown_answer (general_direction_fallback d n)"
proof -
  have v: "contains ''verified'' s \<Longrightarrow> \<not> is_unknown_answer s" for s
    using not_unknown [of "''verified''" s] fresh_words by simp
  show "\<not> is_unknown_answer (automator_direction_fallback cfg d n)"
    by (rule v) (simp add: automator_direction_fallback_def Let_def starts_with_def)
  show "\<not> is_unknown_answer (education_direction_fallback d n)"
    by (rule v) (simp add: education_direction_fallback_def Let_def starts_with_def)
  show "\<not> is_unknown_answer (general_direction_fallback d n)"
    by (rule v) (simp add: general_direction_fallback_def Let_def starts_with_def)
qed

lemma guidance_known [simp]: "\<not> is_unknown_answer (fallback_general_guidance cfg content d history)"
  by (auto simp: fallback_general_guidance_def Let_def split: chat_mode.split)

lemma after_repair_known:
  "is_unknown_answer content \<Longrightarrow> \<not> is_unknown_answer (fallback_after_repair cfg content g d history)"
  by (auto simp: fallback_after_repair_def)

section \<open>The end of a turn\<close>

text \<open>
  The grade that is reported is the one of the answer. An answer that is not adequate is a
  fallback, chosen for a sentinel or for what a cloud retry answered.
\<close>

definition fallback_answer :: "chat_env \<Rightarrow> routing_decision \<Rightarrow> retrieval_result option \<Rightarrow> chat_message list \<Rightarrow> string \<Rightarrow> bool" where
  "fallback_answer e d r history text \<longleftrightarrow>
     (\<exists>c g. text = fallback_after_repair (ce_config e) c g d history
        \<and> (is_unknown_answer c \<or> rd_cloud_allowed d \<and> g = grade_of e c d r \<and> \<not> ag_adequate g))"

lemma retry_result:
  "retry_cloud_if_unknown e c d msgs tools sid um s = (Inr x, s1) \<Longrightarrow> x = c \<or> rd_cloud_allowed d"
  by (auto simp: retry_cloud_if_unknown_def split: if_splits prod.splits sum.splits)

lemma ladder_end:
  assumes "repair_ladder e d msgs tools history sid um r content s = (Inr res, s1)"
  shows "tr_answer_grade res = Some (grade_of e (tr_content res) d r) \<and> tr_retrieval res = r
    \<and> (ag_adequate (grade_of e (tr_content res) d r) \<and> (tr_content res = content \<or> rd_cloud_allowed d)
      \<or> fallback_answer e d r history (tr_content res))"
proof (cases "ag_adequate (grade_of e content d r)")
  case True
  then show ?thesis using assms by (auto simp: repair_ladder_def Let_def return_turn_def)
next
  case False
  let ?g = "grade_of e content d r"
  have rep: "repair content ?g = UNKNOWN_ANSWER" using False unfolding grade_of_def by (rule repair_inadequate)
  obtain x s2 where x: "retry_cloud_if_unknown e UNKNOWN_ANSWER d msgs tools sid um s = (Inr x, s2)"
    using assms False rep by (auto simp: repair_ladder_def Let_def bind_turn_def split: prod.splits sum.splits)
  show ?thesis
  proof (cases "x = UNKNOWN_ANSWER")
    case True
    have "fallback_after_repair (ce_config e) x ?g d history \<noteq> x"
      using True after_repair_known [of x "ce_config e" ?g d history] unknown_is_unknown by metis
    then have "tr_content res = fallback_after_repair (ce_config e) x ?g d history"
      and "tr_answer_grade res = Some (grade_of e (tr_content res) d r)" and "tr_retrieval res = r"
      using assms False rep x True by (auto simp: repair_ladder_def Let_def bind_turn_def return_turn_def)
    then show ?thesis using True unknown_is_unknown unfolding fallback_answer_def by metis
  next
    case changed: False
    let ?g1 = "grade_of e x d r"
    let ?f = "fallback_after_repair (ce_config e) x ?g1 d history"
    have "tr_answer_grade res = Some (grade_of e (tr_content res) d r)" and "tr_retrieval res = r"
      and "tr_content res = (if ag_adequate ?g1 then x else ?f)"
      using assms False rep x changed by (auto simp: repair_ladder_def Let_def bind_turn_def return_turn_def split: if_splits)
    then show ?thesis using retry_result [OF x] changed by (auto simp: fallback_answer_def)
  qed
qed

text \<open>Both branches of \<open>run\<close> end with the ladder.\<close>

lemma run_end:
  assumes "run e d um history sid s = (Inr res, s1)"
  shows "(early_answer d um = Some (tr_content res) \<and> tr_answer_grade res = None)
    \<or> (early_answer d um = None \<and> (\<exists>r d1. d1 = decision_for_retrieval d r \<and>
        (\<exists>msgs tools content s0 r1. repair_ladder e d1 msgs tools history sid um r1 content s0 = (Inr res, s1)
          \<and> (rd_tool_execution_mode d \<noteq> ModelToolLoop \<longrightarrow> r1 = r \<and> \<not> is_unknown_answer content))))"
proof (cases "early_answer d um")
  case (Some t)
  then show ?thesis using assms by (auto simp: run_def return_turn_def plain_result_def)
next
  case None
  obtain r s2 where r: "first_retrieval e d um s = (Inr r, s2)"
    using assms None by (auto simp: run_def bind_turn_def split: prod.splits sum.splits)
  let ?d = "decision_for_retrieval d r"
  let ?msgs = "turn_messages (ce_config e) d history r"
  have res: "(if rd_tool_execution_mode ?d = ModelToolLoop then run_tool_branch e ?d um history sid ?msgs r
      else run_plain_branch e ?d um history sid ?msgs r) s2 = (Inr res, s1)"
    using assms None r by (simp add: run_def bind_turn_def Let_def)
  show ?thesis
  proof (cases "rd_tool_execution_mode d = ModelToolLoop")
    case True
    then obtain content r1 s3 where "repair_ladder e ?d ?msgs False history sid um r1 content s3 = (Inr res, s1)"
      using res by (auto simp: run_tool_branch_def bind_turn_def split: prod.splits sum.splits)
    then show ?thesis using None True by blast
  next
    case False
    then obtain content tools s3 where "repair_ladder e ?d ?msgs tools history sid um r
        (fallback_general_guidance (ce_config e) content ?d history) s3 = (Inr res, s1)"
      using res by (auto simp: run_plain_branch_def Let_def bind_turn_def split: prod.splits sum.splits)
    moreover have "\<not> is_unknown_answer (fallback_general_guidance (ce_config e) content ?d history)" by simp
    ultimately show ?thesis using None by blast
  qed
qed

lemma focus_for_retrieval [simp]: "focus_of (decision_for_retrieval d r) x = focus_of d x"
  by (simp add: focus_of_def decision_for_retrieval_def)

lemma texts_for_retrieval [simp]:
  "service_pricing_fallback cfg (decision_for_retrieval d r) = service_pricing_fallback cfg d"
  "service_discovery_fallback cfg (decision_for_retrieval d r) = service_discovery_fallback cfg d"
  "fallback_general_guidance cfg c (decision_for_retrieval d r) history = fallback_general_guidance cfg c d history"
  by (simp_all add: service_pricing_fallback_def service_discovery_fallback_def fallback_general_guidance_def
      automator_direction_fallback_def education_direction_fallback_def general_direction_fallback_def Let_def split: chat_mode.split)

lemma claim_for_retrieval [simp]:
  "has_forbidden_service_commercial_claim c (decision_for_retrieval d r) = has_forbidden_service_commercial_claim c d"
  by (simp add: has_forbidden_service_commercial_claim_def)

lemma handoff_for_retrieval [simp]:
  "has_forbidden_service_handoff c (decision_for_retrieval d r) = has_forbidden_service_handoff c d"
  by (simp add: has_forbidden_service_handoff_def) (simp add: decision_for_retrieval_def)

lemma general_for_retrieval [simp]:
  "allows_direct_general_answer c (decision_for_retrieval d r) = allows_direct_general_answer c d"
  by (simp add: allows_direct_general_answer_def) (simp add: decision_for_retrieval_def)

lemma grade_for_retrieval [simp]: "grade_of e c (decision_for_retrieval d r) r1 = grade_of e c d r1"
  unfolding grade_of_def grade_def
  by (simp only: claim_for_retrieval handoff_for_retrieval general_for_retrieval mode_for_retrieval)

lemma guidance_unknown: "is_unknown_answer c \<Longrightarrow> fallback_general_guidance cfg c d history = fallback_general_guidance cfg UNKNOWN_ANSWER d history"
  by (simp add: fallback_general_guidance_def)

definition fallback_texts :: "chat_config \<Rightarrow> routing_decision \<Rightarrow> chat_message list \<Rightarrow> string list" where
  "fallback_texts cfg d history =
     [service_pricing_fallback cfg d, service_discovery_fallback cfg d, fallback_general_guidance cfg UNKNOWN_ANSWER d history]"

lemma after_repair_cases:
  "is_unknown_answer c \<or> rd_selected_mode d = ServiceMode \<Longrightarrow>
     fallback_after_repair cfg c g d history = service_pricing_fallback cfg d
     \<or> fallback_after_repair cfg c g d history = service_discovery_fallback cfg d
     \<or> is_unknown_answer c \<and> fallback_after_repair cfg c g d history = fallback_general_guidance cfg c d history"
  by (cases "rd_selected_mode d = ServiceMode") (simp_all add: fallback_after_repair_def)

lemma fallback_answer_texts:
  assumes "fallback_answer e (decision_for_retrieval d r) r1 history t" and "\<not> rd_cloud_allowed d \<or> rd_selected_mode d = ServiceMode"
  shows "t \<in> set (fallback_texts (ce_config e) d history)"
proof -
  obtain c g where t: "t = fallback_after_repair (ce_config e) c g (decision_for_retrieval d r) history"
    and c: "is_unknown_answer c \<or> rd_cloud_allowed (decision_for_retrieval d r)" using assms(1) by (auto simp: fallback_answer_def)
  have "is_unknown_answer c \<or> rd_selected_mode d = ServiceMode"
    using c assms(2) by (auto simp: decision_for_retrieval_def split: if_splits)
  then have "t = service_pricing_fallback (ce_config e) d \<or> t = service_discovery_fallback (ce_config e) d
      \<or> t = fallback_general_guidance (ce_config e) UNKNOWN_ANSWER d history"
    using after_repair_cases [of c "decision_for_retrieval d r" "ce_config e" g history] guidance_unknown [of c "ce_config e" d history]
    unfolding t mode_for_retrieval texts_for_retrieval by metis
  then show ?thesis unfolding fallback_texts_def list.set insert_iff by blast
qed

section \<open>What a turn shows\<close>

text \<open>C16: 
  The grade a turn reports is the grade of the answer it shows, for the retrieval it shows.
  Without a cloud model, and in service mode, an answer that is not adequate is one of three
  fallback texts.
\<close>

theorem inadequate_answers_are_replaced:
  "case fst (run e d um history sid s) of Inl _ \<Rightarrow> True
   | Inr res \<Rightarrow> (case tr_answer_grade res of
       None \<Rightarrow> early_answer d um = Some (tr_content res)
     | Some g \<Rightarrow> g = grade_of e (tr_content res) d (tr_retrieval res)
         \<and> (ag_adequate g \<or> (rd_cloud_allowed d \<and> rd_selected_mode d \<in> {AutomatorMode, EducatorMode})
            \<or> tr_content res \<in> set (fallback_texts (ce_config e) d history)))"
proof (cases "run e d um history sid s")
  case (Pair out s1)
  show ?thesis
  proof (cases out)
    case (Inr res)
    then have "run e d um history sid s = (Inr res, s1)" using Pair by simp
    from run_end [OF this] show ?thesis
    proof (elim disjE conjE exE)
      fix r d1 msgs tools content s0 r1
      assume d1: "d1 = decision_for_retrieval d r" and "repair_ladder e d1 msgs tools history sid um r1 content s0 = (Inr res, s1)"
      from ladder_end [OF this(2)] show ?thesis
        using fallback_answer_texts [of e d r r1 history "tr_content res"] Pair Inr d1 by (cases "rd_selected_mode d") auto
    qed (use Pair Inr in auto)
  qed (use Pair in simp)
qed

text \<open>A service turn never shows an answer of a model with a price or a commercial claim.\<close>

theorem service_turn_quotes_no_price:
  assumes "rd_selected_mode d = ServiceMode"
  shows "case fst (run e d um history sid s) of Inl _ \<Rightarrow> True
    | Inr res \<Rightarrow> early_answer d um = Some (tr_content res) \<or> tr_content res \<in> set (fallback_texts (ce_config e) d history)
        \<or> \<not> has_forbidden_service_commercial_claim (tr_content res) d"
proof (cases "fst (run e d um history sid s)")
  case (Inr res)
  then obtain s1 where "run e d um history sid s = (Inr res, s1)" by (cases "run e d um history sid s") auto
  from run_end [OF this] show ?thesis
  proof (elim disjE conjE exE)
    fix r d1 msgs tools content s0 r1
    assume d1: "d1 = decision_for_retrieval d r" and "repair_ladder e d1 msgs tools history sid um r1 content s0 = (Inr res, s1)"
    from ladder_end [OF this(2)] fallback_answer_texts [of e d r r1 history "tr_content res"] show ?thesis
      using assms d1 Inr adequate_service [of "cc_environ (ce_config e)" "tr_content res" d r1] by (auto simp: grade_of_def [symmetric])
  qed (use Inr in auto)
qed simp

definition service_sample :: routing_decision where
  "service_sample = plain_decision ServiceMode ServiceInquiryIntent"

theorem service_turn_quotes_no_price_witness:
  "case fst (run sample_chat service_sample ''What does it cost?'' [] ''c'' sample_start) of Inl _ \<Rightarrow> True
    | Inr res \<Rightarrow> early_answer service_sample ''What does it cost?'' = Some (tr_content res)
        \<or> tr_content res \<in> set (fallback_texts (ce_config sample_chat) service_sample [])
        \<or> \<not> has_forbidden_service_commercial_claim (tr_content res) service_sample"
  by (rule service_turn_quotes_no_price) (simp add: service_sample_def plain_decision_def)

text \<open>
  Without the tool loop and without a cloud model, the internal sentinel is never shown:
  every answer that is a sentinel is replaced by a fallback text.
\<close>

theorem plain_turn_never_shows_the_sentinel:
  assumes "rd_tool_execution_mode d \<noteq> ModelToolLoop" and "\<not> rd_cloud_allowed d"
  shows "case fst (run e d um history sid s) of Inl _ \<Rightarrow> True
    | Inr res \<Rightarrow> early_answer d um = Some (tr_content res) \<or> \<not> is_unknown_answer (tr_content res)"
proof (cases "fst (run e d um history sid s)")
  case (Inr res)
  then obtain s1 where "run e d um history sid s = (Inr res, s1)" by (cases "run e d um history sid s") auto
  from run_end [OF this] show ?thesis
  proof (elim disjE conjE exE)
    fix r d1 msgs tools content s0 r1
    assume d1: "d1 = decision_for_retrieval d r" and l: "repair_ladder e d1 msgs tools history sid um r1 content s0 = (Inr res, s1)"
      and "rd_tool_execution_mode d \<noteq> ModelToolLoop \<longrightarrow> r1 = r \<and> \<not> is_unknown_answer content"
    then have c: "\<not> is_unknown_answer content" using assms(1) by blast
    have no_cloud: "\<not> rd_cloud_allowed d1" using assms(2) d1 by (simp add: decision_for_retrieval_def)
    have "fallback_answer e d1 r1 history t \<Longrightarrow> \<not> is_unknown_answer t" for t
      using after_repair_known no_cloud by (auto simp: fallback_answer_def)
    then show ?thesis using ladder_end [OF l] c no_cloud Inr by auto
  qed (use Inr in auto)
qed simp

theorem plain_turn_never_shows_the_sentinel_witness:
  "case fst (run sample_chat service_sample ''What does it cost?'' [] ''c'' sample_start) of Inl _ \<Rightarrow> True
    | Inr res \<Rightarrow> early_answer service_sample ''What does it cost?'' = Some (tr_content res) \<or> \<not> is_unknown_answer (tr_content res)"
  by (rule plain_turn_never_shows_the_sentinel) (simp_all add: service_sample_def plain_decision_def)

end
