(* ===== verification/ChatStreams.thy ===== *)
theory ChatStreams
  imports ChatAnswers
begin

text \<open>
  The edges of a chat turn: where the internal sentinel is shown, what reaches the client of
  a streamed answer, the limit of the quarantine, and what every prompt keeps.
\<close>

section \<open>The sentinel on the tool branch\<close>

lemma sentinel_facts:
  "normalize_answer UNKNOWN_ANSWER = UNKNOWN_ANSWER" "\<not> has_money UNKNOWN_ANSWER" "urls UNKNOWN_ANSWER = []"
  "\<not> has_any UNKNOWN_ANSWER FORBIDDEN_SERVICE_COMMERCIAL_MARKERS" "\<not> has_any UNKNOWN_ANSWER SERVICE_HANDOFF_MARKERS"
  "UNKNOWN_ANSWER \<noteq> ''''"
  by code_simp+

text \<open>Once anything was retrieved, the grader takes the sentinel for an answer that declines.\<close>

lemma sentinel_is_adequate: "ag_adequate (grade env UNKNOWN_ANSWER d (Some r))"
  by (simp add: grade_def sentinel_facts has_forbidden_service_commercial_claim_def has_forbidden_service_handoff_def
      has_unsupported_url_def allows_direct_general_answer_def)

text \<open>So a tool loop that ends with the sentinel makes the turn show it.\<close>

lemma tool_branch_shows_the_sentinel:
  assumes "run_model_tool_loop e d (turn_persona e d) msgs r0 sid um s = (Inr (UNKNOWN_ANSWER, Some r), s1)"
    and "\<not> rd_cloud_allowed d"
  shows "run_tool_branch e d um history sid msgs r0 s = (Inr \<lparr>tr_content = UNKNOWN_ANSWER, tr_decision = d,
    tr_answer_grade = Some (grade_of e UNKNOWN_ANSWER d (Some r)), tr_retrieval = Some r\<rparr>, s1)"
  using assms sentinel_is_adequate
  by (simp add: run_tool_branch_def bind_turn_def retry_cloud_if_unknown_def repair_ladder_def return_turn_def grade_of_def)

text \<open>A loop whose last answer asks for tools once more ends with the sentinel.\<close>

lemma late_tool_request_gives_the_sentinel:
  assumes "router_chat e (msgs @ tool_msgs @ [final_answer_message])
      (call_request (decision_for_retrieval d retrieval) (pe_force_secondary p) (rd_cloud_allowed (decision_for_retrieval d retrieval))
        (router_task (decision_for_retrieval d retrieval) (tail_text (cc_rep (ce_config e)) msgs)) sid (context_cloud_eligible retrieval) False) s
      = (Inr resp, s1)"
    and "response_tool_calls resp \<noteq> []"
  shows "finish_tool_loop e d p msgs sid um (tool_msgs, True, retrieval) s = (Inr (UNKNOWN_ANSWER, retrieval), s1)"
  using assms by (simp add: finish_tool_loop_def bind_turn_def return_turn_def Let_def)

section \<open>Streamed answers\<close>

lemma live_after_start: "concat (live_chunks True b cs) = concat cs"
  by (induction cs arbitrary: b) auto

lemma live_all_or_nothing: "live_chunks False b cs = [] \<or> concat (live_chunks False b cs) = b @ concat cs"
proof (induction cs arbitrary: b)
  case (Cons c cs)
  then show ?case using Cons.IH [of "b @ c"] by (simp add: live_after_start Let_def)
qed simp

lemma lstrip_snoc: "lstrip (s @ t) = (if list_all is_space s then lstrip t else lstrip s @ t)"
  by (induction s) (auto simp: lstrip_def)

lemma lstrip_Nil: "lstrip s = [] \<longleftrightarrow> list_all is_space s"
  by (induction s) (auto simp: lstrip_def)

lemma starts_with_left: "starts_with (a @ b) s \<Longrightarrow> starts_with a s"
  unfolding starts_with_def by (metis append_eq_append_conv2 append_take_drop_id length_append append.assoc append_eq_conv_conj)

text \<open>What may still become a sentinel was so from its first character on.\<close>

lemma sentinel_prefix: "sentinel_might_emerge (a @ b) \<Longrightarrow> a \<noteq> [] \<Longrightarrow> sentinel_might_emerge a"
  by (auto simp: sentinel_might_emerge_def Let_def lstrip_snoc lstrip_Nil split: if_splits dest: starts_with_left)

lemma held_back: "sentinel_might_emerge (b @ concat cs) \<Longrightarrow> live_chunks False b cs = []"
proof (induction cs arbitrary: b)
  case (Cons c cs)
  show ?case
  proof (cases "c = []")
    case True
    then show ?thesis using Cons by simp
  next
    case False
    then have "sentinel_might_emerge (b @ c)" using sentinel_prefix [of "b @ c" "concat cs"] Cons.prems by simp
    then show ?thesis using Cons.IH [of "b @ c"] Cons.prems False by simp
  qed
qed simp

text \<open>A chunk that is held back may still become a sentinel; what cannot is sent on at once.\<close>

lemma sent_on:
  "\<not> sentinel_might_emerge (b @ concat cs) \<Longrightarrow> b @ concat cs \<noteq> [] \<Longrightarrow> b = [] \<or> sentinel_might_emerge b
    \<Longrightarrow> concat (live_chunks False b cs) = b @ concat cs"
proof (induction cs arbitrary: b)
  case (Cons c cs)
  show ?case
  proof (cases "c = []")
    case True
    then show ?thesis using Cons by simp
  next
    case False
    then show ?thesis using Cons.IH [of "b @ c"] Cons.prems by (simp add: live_after_start Let_def)
  qed
qed auto

lemma starts_with_rest: "starts_with p s \<longleftrightarrow> (\<exists>rest. p @ rest = s)"
proof
  assume "starts_with p s"
  then have "p @ drop (length p) s = s" unfolding starts_with_def by (metis append_take_drop_id)
  then show "\<exists>rest. p @ rest = s" by blast
qed (auto simp: starts_with_def)

lemma sentinel_start:
  "sentinel_might_emerge s \<or> s = [] \<longleftrightarrow> (\<exists>rest. dropWhile is_space s @ rest \<in> {UNKNOWN_ANSWER, LEGACY_UNKNOWN_ANSWER})"
proof (cases "lstrip s = []")
  case True
  then have "sentinel_might_emerge s \<or> s = []" by (simp add: sentinel_might_emerge_def Let_def)
  moreover have "dropWhile is_space s @ UNKNOWN_ANSWER \<in> {UNKNOWN_ANSWER, LEGACY_UNKNOWN_ANSWER}" using True by (simp add: lstrip_def)
  ultimately show ?thesis by blast
next
  case False
  then have "s \<noteq> []" by (auto simp: lstrip_def)
  then show ?thesis using False by (auto simp: sentinel_might_emerge_def Let_def lstrip_def starts_with_rest)
qed

lemma sentinels_written_out:
  "UNKNOWN_ANSWER = ''__needs_directional_fallback__''"
  "LEGACY_UNKNOWN_ANSWER = ''I don'' @ [CHR 0x27] @ ''t know based on the current documentation.''"
  by (simp_all add: UNKNOWN_ANSWER_def LEGACY_UNKNOWN_ANSWER_def)

text \<open>C19: 
  What reaches the client live is all of the model's answer, or nothing of it, and nothing
  exactly when the answer, without the blanks before it, is one of the two sentinels or the
  start of one.
\<close>

theorem stream_sends_all_or_nothing:
  "concat (live_chunks False [] chunks) =
     (if \<exists>rest. dropWhile is_space (concat chunks) @ rest
            \<in> {''__needs_directional_fallback__'', ''I don'' @ [CHR 0x27] @ ''t know based on the current documentation.''}
      then [] else concat chunks)"
  unfolding sentinels_written_out [symmetric] sentinel_start [symmetric]
  using held_back [of "[]" chunks] sent_on [of "[]" chunks] live_all_or_nothing [of "[]" chunks]
  by (metis append_Nil concat.simps(1))

text \<open>
  A sentinel with a line break behind it passes the hold-back: its first chunk is held, the
  second releases both to the client, and only then is the text recognized as a sentinel.
\<close>

theorem sentinel_with_line_break_is_streamed:
  "live_chunks False [] [UNKNOWN_ANSWER, nl] = [UNKNOWN_ANSWER @ nl] \<and> is_unknown_answer (UNKNOWN_ANSWER @ nl)
     \<and> stream_tail e d msgs tools history sid um r True (UNKNOWN_ANSWER @ nl)
         = return_turn [stream_correction_separator @ fallback_general_guidance (ce_config e) UNKNOWN_ANSWER d history]"
proof -
  have live: "live_chunks False [] [UNKNOWN_ANSWER, nl] = [UNKNOWN_ANSWER @ nl]" by code_simp
  have u: "is_unknown_answer (UNKNOWN_ANSWER @ nl)" by code_simp
  have "fallback_general_guidance (ce_config e) (UNKNOWN_ANSWER @ nl) d history \<noteq> UNKNOWN_ANSWER @ nl"
    using guidance_known [of "ce_config e" "UNKNOWN_ANSWER @ nl" d history] u by metis
  then show ?thesis using live u guidance_unknown [OF u, of "ce_config e" d history]
    by (simp add: stream_tail_def Let_def correction_def)
qed

section \<open>The quarantine\<close>

lemma head_length: "0 < b \<Longrightarrow> py_trunc (of_int b * (8 / 10)) = 4 * b div 5"
proof -
  assume "0 < b"
  moreover have "of_int b * (8 / 10) = (of_int (4 * b) / of_int 5 :: rat)" by simp
  ultimately show ?thesis by (simp only: py_trunc_def floor_divide_of_int_eq) simp
qed

text \<open>
  Untrusted content of any length takes at most the limit; content within the limit is not
  changed, and of longer content the start is kept.
\<close>

theorem quarantine_is_bounded:
  assumes "0 < limit"
  shows "int (length (trim_quarantined_payload limit content)) \<le> limit
    \<and> (if int (length content) \<le> limit then trim_quarantined_payload limit content = content
       else starts_with (take (nat (4 * (limit - int (length QUARANTINED_CONTEXT_TRUNCATION_MARKER)) div 5)) content)
              (trim_quarantined_payload limit content))"
proof (cases "int (length content) \<le> limit")
  case True
  then show ?thesis by (simp add: trim_quarantined_payload_def)
next
  case False
  let ?m = "QUARANTINED_CONTEXT_TRUNCATION_MARKER"
  let ?b = "limit - int (length ?m)"
  show ?thesis
  proof (cases "?b \<le> 0")
    case True
    then show ?thesis using False assms by (simp add: trim_quarantined_payload_def Let_def starts_with_def)
  next
    case pos: False
    let ?h = "py_trunc (of_int ?b * (8 / 10))"
    have d: "?h = 4 * ?b div 5" using head_length [of ?b] pos by simp
    then have h: "0 \<le> ?h" "?h < ?b" using pos by presburger+
    have t: "trim_quarantined_payload limit content = take (nat ?h) content @ ?m @ drop (length content - nat (?b - ?h)) content"
      using False pos assms by (simp add: trim_quarantined_payload_def Let_def)
    have "int (length (trim_quarantined_payload limit content)) = limit"
      unfolding t using h False pos by simp
    then show ?thesis using False t d by (simp add: starts_with_self)
  qed
qed

theorem quarantine_is_bounded_witness:
  "int (length (trim_quarantined_payload 5 ''abcdefgh'')) \<le> 5
    \<and> (if int (length ''abcdefgh'') \<le> 5 then trim_quarantined_payload 5 ''abcdefgh'' = ''abcdefgh''
       else starts_with (take (nat (4 * (5 - int (length QUARANTINED_CONTEXT_TRUNCATION_MARKER)) div 5)) ''abcdefgh'')
              (trim_quarantined_payload 5 ''abcdefgh''))"
  by (rule quarantine_is_bounded) simp

section \<open>Prompts\<close>

text \<open>
  Whatever the deployment sets, unless it replaces the whole prompt of the mode, the first
  message of a turn has the identity, the grounding rules and the security rules, in this
  order, and the first message is a system message.
\<close>

theorem prompts_keep_the_rules:
  assumes "case persona_override_of (cc_personas cfg) (mode_value (rd_selected_mode d)) of None \<Rightarrow> True | Some ov \<Rightarrow> po_system_prompt ov = ''''"
  shows "\<exists>m. hd (turn_messages cfg d history r)
    = system_message (current_bot_identity (cc_personas cfg) @ m @ CITATION_DISCIPLINE @ nl @ nl @ SAFETY_SYSTEM_PROMPT)"
proof -
  obtain m where "pe_system_prompt (get_persona (cc_personas cfg) (mode_value (rd_selected_mode d)))
      = current_bot_identity (cc_personas cfg) @ m @ CITATION_DISCIPLINE"
    using persona_keeps_rules [OF assms] by blast
  then show ?thesis by (auto simp: turn_messages_def persona_message_def)
qed

end
