(* ===== verification/ChatRecords.thy ===== *)
theory ChatRecords
  imports ContactIntake ChatPolicy
begin

text \<open>
  \<open>core/db/crud.py\<close>: the rows of the chat. A commit that fails raises and leaves the tables as
  they were; \<open>de_rival\<close> is the terminal row another request commits between the query and the
  commit of this one.
\<close>

datatype desk_place = NewConversation | NewMessage | NewReply | NewUsage | NewOutput | NewIntake | NewTerminal

datatype desk_point = ConversationCommit | MessageCommit | ReplyCommit | UsageCommit | OutputCommit | IntakeCommit | TerminalCommit

record desk_env =
  de_now :: utc
  de_clock :: rat
  de_uuid :: "desk_place \<Rightarrow> string"
  de_io :: "desk_point faults"
  de_dumps :: "intake \<Rightarrow> string"
  de_rival :: "terminal_intake option"

text \<open>A block that ends with a commit.\<close>

definition committed :: "desk_env \<Rightarrow> desk_point \<Rightarrow> 'a \<Rightarrow> site_db \<Rightarrow> site_db \<Rightarrow> 'a result \<times> site_db" where
  "committed e p x db db1 = (case de_io e p of Some err \<Rightarrow> (Inl (Raised err), db) | None \<Rightarrow> (Inr x, db1))"

section \<open>Conversations and messages\<close>

definition create_conversation :: "desk_env \<Rightarrow> string \<Rightarrow> site_db \<Rightarrow> conversation result \<times> site_db" where
  "create_conversation e mode db =
     (let c = \<lparr>cv_id = de_uuid e NewConversation, cv_mode = mode, cv_created_at = de_now e\<rparr>
      in committed e ConversationCommit c db (db\<lparr>sd_conversations := sd_conversations db @ [c]\<rparr>))"

definition get_conversation :: "string \<Rightarrow> site_db \<Rightarrow> conversation option" where
  "get_conversation conv_id db = find (\<lambda>c. cv_id c = conv_id) (sd_conversations db)"

definition get_messages :: "string \<Rightarrow> site_db \<Rightarrow> message_record list" where
  "get_messages conv_id db = sort_key mg_created_at (filter (\<lambda>m. mg_conversation_id m = conv_id) (sd_messages db))"

definition add_message ::
  "desk_env \<Rightarrow> desk_place \<Rightarrow> desk_point \<Rightarrow> string \<Rightarrow> string \<Rightarrow> string \<Rightarrow> site_db \<Rightarrow> message_record result \<times> site_db" where
  "add_message e u p conv_id role content db =
     (let m = \<lparr>mg_id = de_uuid e u, mg_conversation_id = conv_id, mg_role = role, mg_content = content, mg_created_at = de_now e\<rparr>
      in committed e p m db (db\<lparr>sd_messages := sd_messages db @ [m]\<rparr>))"

section \<open>Usage\<close>

record usage_snapshot =
  us_ip_requests :: nat
  us_session_requests :: nat
  us_daily_tokens :: int

definition chat_usage_snapshot :: "string \<Rightarrow> string \<Rightarrow> utc \<Rightarrow> utc \<Rightarrow> utc \<Rightarrow> site_db \<Rightarrow> usage_snapshot" where
  "chat_usage_snapshot ip_address skey ip_since session_since token_since db = \<lparr>
     us_ip_requests = length (filter (\<lambda>u. cu_ip_address u = ip_address \<and> cu_input_tokens u > 0 \<and> cu_created_at u \<ge> ip_since) (sd_usage db)),
     us_session_requests = length (filter (\<lambda>u. cu_session_key u = skey \<and> cu_input_tokens u > 0 \<and> cu_created_at u \<ge> session_since) (sd_usage db)),
     us_daily_tokens = sum_list (map (\<lambda>u. cu_input_tokens u + cu_output_tokens u) (filter (\<lambda>u. cu_created_at u \<ge> token_since) (sd_usage db)))\<rparr>"

definition usage_entry :: "desk_env \<Rightarrow> desk_place \<Rightarrow> string \<Rightarrow> string \<Rightarrow> string option \<Rightarrow> int \<Rightarrow> int \<Rightarrow> chat_usage" where
  "usage_entry e u ip_address skey conv_id n_in n_out = \<lparr>cu_id = de_uuid e u, cu_ip_address = take 128 (clean_text ip_address),
     cu_session_key = take 160 (clean_text skey), cu_conversation_id = conv_id, cu_input_tokens = max n_in 0,
     cu_output_tokens = max n_out 0, cu_created_at = de_now e\<rparr>"

definition add_chat_usage_event ::
  "desk_env \<Rightarrow> desk_place \<Rightarrow> desk_point \<Rightarrow> string \<Rightarrow> string \<Rightarrow> string option \<Rightarrow> int \<Rightarrow> int \<Rightarrow> site_db \<Rightarrow> chat_usage result \<times> site_db" where
  "add_chat_usage_event e u p ip_address skey conv_id n_in n_out db =
     (let r = usage_entry e u ip_address skey conv_id n_in n_out
      in committed e p r db (db\<lparr>sd_usage := sd_usage db @ [r]\<rparr>))"

section \<open>Intake\<close>

definition answer_of :: "intake \<Rightarrow> string \<Rightarrow> string" where
  "answer_of intake key = (case map_of intake key of None \<Rightarrow> '''' | Some v \<Rightarrow> v)"

definition new_intake_record :: "desk_env \<Rightarrow> string \<Rightarrow> string \<Rightarrow> intake_record" where
  "new_intake_record e conv_id mode = \<lparr>ik_id = de_uuid e NewIntake, ik_conversation_id = conv_id, ik_selected_mode = mode,
     ik_objective = '''', ik_building = '''', ik_maturity = '''', ik_help_needed = '''', ik_data = ''{}'', ik_created_at = de_now e,
     ik_updated_at = None\<rparr>"

definition fill_intake :: "desk_env \<Rightarrow> string \<Rightarrow> intake \<Rightarrow> intake_record \<Rightarrow> intake_record" where
  "fill_intake e mode intake r = r\<lparr>ik_selected_mode := mode, ik_objective := answer_of intake ''objective'',
     ik_building := answer_of intake ''building'', ik_maturity := answer_of intake ''maturity'',
     ik_help_needed := answer_of intake ''help_needed'', ik_data := de_dumps e intake, ik_updated_at := Some (de_now e)\<rparr>"

definition save_intake_record :: "desk_env \<Rightarrow> string \<Rightarrow> string \<Rightarrow> intake \<Rightarrow> site_db \<Rightarrow> intake_record result \<times> site_db" where
  "save_intake_record e conv_id mode intake db =
     (case find (\<lambda>r. ik_conversation_id r = conv_id) (sd_intakes db) of
        None \<Rightarrow> let r = fill_intake e mode intake (new_intake_record e conv_id mode)
          in committed e IntakeCommit r db (db\<lparr>sd_intakes := sd_intakes db @ [r]\<rparr>)
      | Some old \<Rightarrow> let r = fill_intake e mode intake old
          in committed e IntakeCommit r db (db\<lparr>sd_intakes := map (\<lambda>x. if ik_id x = ik_id old then r else x) (sd_intakes db)\<rparr>))"

record terminal_details =
  td_source_path :: string
  td_referrer :: string
  td_user_agent :: string
  td_ip_address :: string
  td_conversation_id :: "string option"
  td_contact_id :: "string option"
  td_count_submission :: bool

definition new_terminal :: "desk_env \<Rightarrow> string \<Rightarrow> string \<Rightarrow> terminal_intake" where
  "new_terminal e sid mode = \<lparr>ti_id = de_uuid e NewTerminal, ti_terminal_session_id = sid, ti_conversation_id = None, ti_contact_id = None,
     ti_selected_mode = mode, ti_objective = '''', ti_building = '''', ti_maturity = '''', ti_help_needed = '''', ti_source_path = '''',
     ti_referrer = '''', ti_user_agent = '''', ti_ip_address = '''', ti_data = ''{}'', ti_submission_count = 0, ti_created_at = de_now e,
     ti_updated_at = None\<rparr>"

text \<open>\<open>a or b\<close> for a text that is only set once, and for an optional link.\<close>

definition set_once :: "string \<Rightarrow> string \<Rightarrow> string" where
  "set_once old given = (if given \<noteq> '''' \<and> old = '''' then clean_text given else old)"

definition link_or :: "string option \<Rightarrow> string option \<Rightarrow> string option" where
  "link_or given old = (case given of Some v \<Rightarrow> if v \<noteq> '''' then Some v else old | None \<Rightarrow> old)"

definition apply_terminal_intake_record ::
  "desk_env \<Rightarrow> string \<Rightarrow> intake \<Rightarrow> terminal_details \<Rightarrow> terminal_intake \<Rightarrow> terminal_intake" where
  "apply_terminal_intake_record e mode intake t r =
     (let cleaned = map (\<lambda>(k, v). (k, clean_text v)) intake in
      r\<lparr>ti_selected_mode := clean_text mode, ti_objective := answer_of cleaned ''objective'',
        ti_building := answer_of cleaned ''building'', ti_maturity := answer_of cleaned ''maturity'',
        ti_help_needed := answer_of cleaned ''help_needed'', ti_source_path := set_once (ti_source_path r) (td_source_path t),
        ti_referrer := set_once (ti_referrer r) (td_referrer t), ti_user_agent := set_once (ti_user_agent r) (td_user_agent t),
        ti_ip_address := (if td_ip_address t \<noteq> '''' then clean_text (td_ip_address t) else ti_ip_address r),
        ti_data := de_dumps e cleaned,
        ti_submission_count := (if td_count_submission t then ti_submission_count r + 1 else ti_submission_count r),
        ti_conversation_id := link_or (td_conversation_id t) (ti_conversation_id r),
        ti_contact_id := link_or (td_contact_id t) (ti_contact_id r), ti_updated_at := Some (de_now e)\<rparr>)"

definition terminal_of :: "string \<Rightarrow> site_db \<Rightarrow> terminal_intake option" where
  "terminal_of sid db = find (\<lambda>r. ti_terminal_session_id r = sid) (rev (sort_key ti_created_at (sd_terminals db)))"

definition replace_terminal :: "terminal_intake \<Rightarrow> site_db \<Rightarrow> site_db" where
  "replace_terminal r db = db\<lparr>sd_terminals := map (\<lambda>x. if ti_id x = ti_id r then r else x) (sd_terminals db)\<rparr>"

text \<open>
  The unique constraint on the session refuses the insert when a rival row was committed;
  the second attempt works on that row.
\<close>

definition save_terminal_intake_submission ::
  "desk_env \<Rightarrow> string \<Rightarrow> string \<Rightarrow> intake \<Rightarrow> terminal_details \<Rightarrow> site_db \<Rightarrow> terminal_intake result \<times> site_db" where
  "save_terminal_intake_submission e sid mode intake t db =
     (case terminal_of sid db of
        Some old \<Rightarrow> let r = apply_terminal_intake_record e mode intake t old
          in committed e TerminalCommit r db (replace_terminal r db)
      | None \<Rightarrow>
          (case de_rival e of
             Some rival \<Rightarrow>
               if ti_terminal_session_id rival = sid
               then let db1 = db\<lparr>sd_terminals := sd_terminals db @ [rival]\<rparr>; r = apply_terminal_intake_record e mode intake t rival
                 in committed e TerminalCommit r db1 (replace_terminal r db1)
               else let r = apply_terminal_intake_record e mode intake t (new_terminal e sid mode); db1 = db\<lparr>sd_terminals := sd_terminals db @ [rival]\<rparr>
                 in committed e TerminalCommit r db1 (db1\<lparr>sd_terminals := sd_terminals db1 @ [r]\<rparr>)
           | None \<Rightarrow> let r = apply_terminal_intake_record e mode intake t (new_terminal e sid mode)
               in committed e TerminalCommit r db (db\<lparr>sd_terminals := sd_terminals db @ [r]\<rparr>)))"

section \<open>Cleaned texts\<close>

lemma strip_fixed: "strip t = t \<longleftrightarrow> t = [] \<or> \<not> is_space (hd t) \<and> \<not> is_space (last t)"
proof
  assume fixed: "strip t = t"
  have "rev (lstrip (rev (lstrip t))) = [] \<or> \<not> is_space (hd (rev (lstrip (rev (lstrip t)))))"
    by (rule rev_lstrip_rev_hd) (rule lstrip_hd)
  moreover have "rev t = lstrip (rev (lstrip t))" using arg_cong [OF fixed, of rev] by (simp add: strip_def)
  moreover have "lstrip (rev (lstrip t)) = [] \<or> \<not> is_space (hd (lstrip (rev (lstrip t))))" by (rule lstrip_hd)
  ultimately show "t = [] \<or> \<not> is_space (hd t) \<and> \<not> is_space (last t)"
    using fixed by (metis hd_rev rev_is_Nil_conv strip_def)
next
  assume "t = [] \<or> \<not> is_space (hd t) \<and> \<not> is_space (last t)"
  then show "strip t = t" by (cases "t = []") (simp_all add: strip_def lstrip_ident hd_rev)
qed

lemma set_strip: "set (strip s) \<subseteq> set s"
  by (auto simp: strip_def lstrip_def dest!: set_dropWhileD)

lemma clean_set: "c \<in> set (clean_text s) \<Longrightarrow> \<not> is_control c"
  using set_strip [of "filter (\<lambda>c. \<not> is_control c) s"] by (auto simp: clean_text_def)

lemma clean_fixed:
  "clean_text t = t \<longleftrightarrow> (\<forall>c \<in> set t. \<not> is_control c) \<and> (t = [] \<or> \<not> is_space (hd t) \<and> \<not> is_space (last t))"
proof
  assume fixed: "clean_text t = t"
  have plain: "\<forall>c \<in> set t. \<not> is_control c" using clean_set [of _ t] by (simp only: fixed) blast
  then have "filter (\<lambda>c. \<not> is_control c) t = t" by (simp add: filter_id_conv)
  then show "(\<forall>c \<in> set t. \<not> is_control c) \<and> (t = [] \<or> \<not> is_space (hd t) \<and> \<not> is_space (last t))"
    using fixed plain strip_fixed by (simp add: clean_text_def)
next
  assume plain: "(\<forall>c \<in> set t. \<not> is_control c) \<and> (t = [] \<or> \<not> is_space (hd t) \<and> \<not> is_space (last t))"
  then have "filter (\<lambda>c. \<not> is_control c) t = t" by (simp add: filter_id_conv)
  then show "clean_text t = t" using plain strip_fixed by (simp add: clean_text_def)
qed

lemma clean_idem: "clean_text (clean_text s) = clean_text s"
proof -
  have "strip (clean_text s) = clean_text s" by (simp add: clean_text_def)
  then show ?thesis using strip_fixed [of "clean_text s"] clean_set [of _ s] by (auto simp: clean_fixed)
qed

lemma clean_append: "clean_text a = a \<Longrightarrow> clean_text b = b \<Longrightarrow> a \<noteq> [] \<Longrightarrow> b \<noteq> [] \<Longrightarrow> clean_text (a @ b) = a @ b"
  by (auto simp: clean_fixed)

text \<open>A text that opens with a printable character keeps it.\<close>

lemma clean_head:
  assumes "\<not> is_control c" and "\<not> is_space c"
  shows "\<exists>u. clean_text (c # s) = c # u"
proof -
  have keeps: "\<exists>ys. lstrip (xs @ [c]) = ys @ [c]" for xs
    by (induction xs) (use assms in \<open>auto simp: lstrip_def\<close>)
  obtain ys where "lstrip (rev (filter (\<lambda>c. \<not> is_control c) s) @ [c]) = ys @ [c]" using keeps by blast
  then show ?thesis using assms by (simp add: clean_text_def strip_def lstrip_ident)
qed

section \<open>Lemmas\<close>

lemma committed_db: "snd (committed e p x db db1) \<in> {db, db1}"
  by (simp add: committed_def split: option.split)

lemma committedE:
  assumes "committed e p x db db1 = (res, db2)"
  obtains err where "res = Inl (Raised err)" "db2 = db" | "res = Inr x" "db2 = db1"
  using assms by (auto simp: committed_def split: option.splits)

lemma message_usage: "add_message e u p c r t db = (res, db1) \<Longrightarrow> sd_usage db1 = sd_usage db"
  by (auto simp: add_message_def Let_def elim: committedE)

lemma conversation_usage: "create_conversation e m db = (res, db1) \<Longrightarrow> sd_usage db1 = sd_usage db"
  by (auto simp: create_conversation_def Let_def elim: committedE)

lemma intake_usage: "save_intake_record e c m i db = (res, db1) \<Longrightarrow> sd_usage db1 = sd_usage db"
  by (auto simp: save_intake_record_def Let_def elim: committedE split: option.splits)

lemma terminal_usage: "save_terminal_intake_submission e s m i t db = (res, db1) \<Longrightarrow> sd_usage db1 = sd_usage db"
  by (auto simp: save_terminal_intake_submission_def replace_terminal_def Let_def elim: committedE split: option.splits if_splits)

lemmas usage_frames = message_usage conversation_usage intake_usage terminal_usage

end
