(* ===== verification/ChatMetrics.thy ===== *)
theory ChatMetrics
  imports ChatTurn ApprovalToken
begin

text \<open>
  What is logged and counted of a chat turn: the payloads of \<open>api/chat.py\<close>
  (\<open>_safe_decision_log_payload\<close>, \<open>_safe_route_log_payload\<close>, \<open>_log_chat_turn\<close>) and the
  counters of \<open>ChatMetrics\<close> in \<open>api/services.py\<close>, whose lock makes each operation one step.
\<close>

section \<open>The route of a turn\<close>

text \<open>The router's last decision, whichever turn published it.\<close>

definition selected_route_of :: "llm_router \<Rightarrow> string option" where
  "selected_route_of ro =
     (case ro_last_decision ro of None \<Rightarrow> None | Some d \<Rightarrow> if dg_selected_route d = '''' then None else Some (dg_selected_route d))"

definition decision_candidates :: "llm_router \<Rightarrow> candidate_line list" where
  "decision_candidates ro = (case ro_last_decision ro of None \<Rightarrow> [] | Some d \<Rightarrow> dg_candidates d)"

definition selected_route_tier :: "llm_router \<Rightarrow> string option \<Rightarrow> candidate_line list \<Rightarrow> string option" where
  "selected_route_tier ro selected candidates =
     (case selected of
        None \<Rightarrow> None
      | Some name \<Rightarrow> if name = '''' then None
          else (case find (\<lambda>r. pr_name r = name) (ro_routes ro) of
              Some r \<Rightarrow> Some (pr_cost_tier r)
            | None \<Rightarrow> map_option cl_cost_tier (find (\<lambda>c. cl_name c = name) candidates)))"

definition route_family :: "string option \<Rightarrow> string option \<Rightarrow> string option" where
  "route_family tier selected =
     (if selected = None \<or> selected = Some '''' then None
      else if tier = None \<or> tier = Some '''' then Some ''unknown''
      else Some (if tier = Some ''local'' then ''local'' else ''cloud''))"

section \<open>The log line\<close>

fun stage_value :: "conversation_stage \<Rightarrow> string" where
  "stage_value IntakeStage = ''intake''"
| "stage_value ActiveStage = ''active''"
| "stage_value RedirectStage = ''redirect''"

fun tool_mode_value :: "tool_mode \<Rightarrow> string" where
  "tool_mode_value ToolsDisabled = ''disabled''"
| "tool_mode_value BackendRetrievalOnly = ''backend_retrieval_only''"
| "tool_mode_value ModelToolLoop = ''model_tool_loop''"

record decision_log =
  dl_mode :: string
  dl_stage :: string
  dl_intent :: string
  dl_tone :: string
  dl_response_policy :: string
  dl_retrieval_required :: bool
  dl_retrieval_tool :: "string option"
  dl_tool_execution_mode :: string
  dl_cloud_allowed :: bool
  dl_service_handoff_suggested :: bool

definition safe_decision_log_payload :: "routing_decision \<Rightarrow> decision_log" where
  "safe_decision_log_payload d = \<lparr>dl_mode = mode_value (rd_selected_mode d), dl_stage = stage_value (rd_stage d),
     dl_intent = intent_value (rd_intent d), dl_tone = tone_value (rd_tone d), dl_response_policy = policy_value (rd_response_policy d),
     dl_retrieval_required = rd_retrieval_required d, dl_retrieval_tool = rd_retrieval_tool d,
     dl_tool_execution_mode = tool_mode_value (rd_tool_execution_mode d), dl_cloud_allowed = rd_cloud_allowed d,
     dl_service_handoff_suggested = rd_service_handoff_suggested d\<rparr>"

record route_log =
  rl_routing_strategy :: "string option"
  rl_selected_route :: "string option"
  rl_selected_route_tier :: "string option"
  rl_selected_route_family :: "string option"
  rl_ordered_routes :: "string list"
  rl_empty_reason :: "string option"
  rl_candidate_count :: nat

definition safe_route_log_payload :: "llm_router \<Rightarrow> route_log" where
  "safe_route_log_payload ro =
     (let selected = selected_route_of ro; candidates = decision_candidates ro; tier = selected_route_tier ro selected candidates in
      \<lparr>rl_routing_strategy = map_option dg_routing_strategy (ro_last_decision ro), rl_selected_route = selected,
       rl_selected_route_tier = tier, rl_selected_route_family = route_family tier selected,
       rl_ordered_routes = (case ro_last_decision ro of None \<Rightarrow> [] | Some d \<Rightarrow> dg_ordered_routes d),
       rl_empty_reason = (case ro_last_decision ro of None \<Rightarrow> None | Some d \<Rightarrow> if dg_empty_reason d = '''' then None else Some (dg_empty_reason d)),
       rl_candidate_count = length candidates\<rparr>)"

definition estimate_chat_tokens :: "string \<Rightarrow> int" where
  "estimate_chat_tokens s = (if s = '''' then 0 else max 1 ((int (length (utf8_encode s)) + 3) div 4))"

record turn_log =
  tl_request_id :: string
  tl_status :: string
  tl_duration_ms :: int
  tl_output_tokens :: int
  tl_output_chars :: int
  tl_decision :: decision_log
  tl_route :: route_log
  tl_error_type :: "string option"

definition turn_payload :: "string \<Rightarrow> string \<Rightarrow> rat \<Rightarrow> routing_decision \<Rightarrow> llm_router \<Rightarrow> string \<Rightarrow> string option \<Rightarrow> turn_log" where
  "turn_payload rid status elapsed d ro output error_type = \<lparr>tl_request_id = rid, tl_status = status,
     tl_duration_ms = round_half_even (elapsed * 1000), tl_output_tokens = estimate_chat_tokens output, tl_output_chars = int (length output),
     tl_decision = safe_decision_log_payload d, tl_route = safe_route_log_payload ro, tl_error_type = error_type\<rparr>"

section \<open>Counters\<close>

type_synonym counter = "(string \<times> nat) list"

definition count_of :: "string \<Rightarrow> counter \<Rightarrow> nat" where
  "count_of k c = (case dict_get c k of None \<Rightarrow> 0 | Some n \<Rightarrow> n)"

definition count_up :: "string \<Rightarrow> counter \<Rightarrow> counter" where
  "count_up k c = dict_set k (count_of k c + 1) c"

definition counted :: "counter \<Rightarrow> nat" where
  "counted c = sum_list (map snd c)"

record chat_metrics =
  cm_started_at :: utc
  cm_total_turns :: nat
  cm_total_duration_ms :: int
  cm_total_output_tokens :: int
  cm_total_output_chars :: int
  cm_last_turn_at :: "utc option"
  cm_by_status :: counter
  cm_by_mode :: counter
  cm_by_intent :: counter
  cm_by_route :: counter
  cm_by_route_family :: counter

definition new_chat_metrics :: "utc \<Rightarrow> chat_metrics" where
  "new_chat_metrics now = \<lparr>cm_started_at = now, cm_total_turns = 0, cm_total_duration_ms = 0, cm_total_output_tokens = 0,
     cm_total_output_chars = 0, cm_last_turn_at = None, cm_by_status = [], cm_by_mode = [], cm_by_intent = [], cm_by_route = [],
     cm_by_route_family = []\<rparr>"

definition text_or :: "string \<Rightarrow> string option \<Rightarrow> string" where
  "text_or d v = (case v of None \<Rightarrow> d | Some s \<Rightarrow> if s = '''' then d else s)"

text \<open>\<open>ChatMetrics.record\<close>\<close>

definition record_turn :: "utc \<Rightarrow> turn_log \<Rightarrow> chat_metrics \<Rightarrow> chat_metrics" where
  "record_turn now p m =
     (let d = tl_decision p; r = tl_route p in
      m\<lparr>cm_total_turns := cm_total_turns m + 1, cm_total_duration_ms := cm_total_duration_ms m + max (tl_duration_ms p) 0,
        cm_total_output_tokens := cm_total_output_tokens m + max (tl_output_tokens p) 0,
        cm_total_output_chars := cm_total_output_chars m + max (tl_output_chars p) 0, cm_last_turn_at := Some now,
        cm_by_status := count_up (text_or ''unknown'' (Some (tl_status p))) (cm_by_status m),
        cm_by_mode := count_up (text_or ''unknown'' (Some (dl_mode d))) (cm_by_mode m),
        cm_by_intent := count_up (text_or ''unknown'' (Some (dl_intent d))) (cm_by_intent m),
        cm_by_route := count_up (text_or ''none'' (rl_selected_route r)) (cm_by_route m),
        cm_by_route_family := count_up (text_or ''none'' (rl_selected_route_family r)) (cm_by_route_family m)\<rparr>)"

record metrics_snapshot =
  sn_started_at :: utc
  sn_last_turn_at :: "utc option"
  sn_total_turns :: nat
  sn_completed_turns :: nat
  sn_failed_turns :: nat
  sn_failure_rate :: rat
  sn_avg_duration_ms :: int
  sn_avg_output_tokens :: int
  sn_total_output_tokens :: int
  sn_total_output_chars :: int
  sn_by_status :: counter
  sn_by_mode :: counter
  sn_by_intent :: counter
  sn_by_route :: counter
  sn_by_route_family :: counter

definition metrics_snapshot_of :: "chat_metrics \<Rightarrow> metrics_snapshot" where
  "metrics_snapshot_of m =
     (let n = cm_total_turns m; failed = count_of ''failed'' (cm_by_status m) in
      \<lparr>sn_started_at = cm_started_at m, sn_last_turn_at = cm_last_turn_at m, sn_total_turns = n,
       sn_completed_turns = count_of ''completed'' (cm_by_status m), sn_failed_turns = failed,
       sn_failure_rate = (if n = 0 then 0 else py_round 4 (of_nat failed / of_nat n)),
       sn_avg_duration_ms = (if n = 0 then 0 else round_half_even (of_int (cm_total_duration_ms m) / of_nat n)),
       sn_avg_output_tokens = (if n = 0 then 0 else round_half_even (of_int (cm_total_output_tokens m) / of_nat n)),
       sn_total_output_tokens = cm_total_output_tokens m, sn_total_output_chars = cm_total_output_chars m,
       sn_by_status = cm_by_status m, sn_by_mode = cm_by_mode m, sn_by_intent = cm_by_intent m, sn_by_route = cm_by_route m,
       sn_by_route_family = cm_by_route_family m\<rparr>)"

section \<open>Lemmas\<close>

interpretation turn_counter: counter_store "\<lambda>c k. int (count_of k c)" count_up
  by unfold_locales (simp add: count_of_def count_up_def dict_kv.lookup_put)

lemma counted_put:
  "distinct (map fst c) \<Longrightarrow> counted (dict_set k n c) + count_of k c = counted c + n"
  by (induction c) (auto simp: counted_def count_of_def dict_set_def dict_get_def)

lemma counted_up: "distinct (map fst c) \<Longrightarrow> counted (count_up k c) = counted c + 1"
  using counted_put [of c k "count_of k c + 1"] by (simp add: count_up_def)

lemma count_up_distinct: "distinct (map fst c) \<Longrightarrow> distinct (map fst (count_up k c))"
  by (simp add: count_up_def dict_set_def upsert_distinct)

text \<open>Every counter counts each turn once.\<close>

definition metrics_ok :: "chat_metrics \<Rightarrow> bool" where
  "metrics_ok m = (\<forall>c \<in> {cm_by_status m, cm_by_mode m, cm_by_intent m, cm_by_route m, cm_by_route_family m}.
     distinct (map fst c) \<and> counted c = cm_total_turns m)"

lemma record_turn_ok: "metrics_ok m \<Longrightarrow> metrics_ok (record_turn now p m)"
  by (simp add: metrics_ok_def record_turn_def Let_def counted_up count_up_distinct)

lemma new_metrics_ok: "metrics_ok (new_chat_metrics now)"
  by (simp add: metrics_ok_def new_chat_metrics_def counted_def)

end
