(* ===== verification/ChatDesk.thy ===== *)
theory ChatDesk
  imports ChatRecords ChatRules ChatMetrics
begin

text \<open>
  \<open>api/chat.py\<close> and \<open>api/intake.py\<close>: the contract of a chat request, the abuse limits, the
  handler that ties a turn to the tables, the frames it sends, the heartbeat around them, and
  the intake form. The accepting part of a request and the part that runs after the answer
  each read one clock.
\<close>

section \<open>Limits\<close>

record chat_limits =
  lm_max_message :: int
  lm_ip_window :: int
  lm_session_window :: int
  lm_ip_limit :: int
  lm_session_limit :: int
  lm_daily_tokens :: int
  lm_output_reserve :: int

text \<open>\<open>int(os.getenv(name, default))\<close>; \<open>None\<close> is the ValueError that stops the import.\<close>

definition limit_from_env :: "environ \<Rightarrow> string \<Rightarrow> string \<Rightarrow> int option" where
  "limit_from_env env name d = py_int (getenv_or env name d)"

definition seconds :: "int \<Rightarrow> int" where
  "seconds n = n * 1000000"

definition chat_limits_from_env :: "environ \<Rightarrow> chat_limits option" where
  "chat_limits_from_env env =
     (case (limit_from_env env ''CHAT_MAX_MESSAGE_CHARS'' ''4000'', limit_from_env env ''CHAT_IP_WINDOW_SECONDS'' ''3600'',
            limit_from_env env ''CHAT_SESSION_WINDOW_SECONDS'' ''3600'', limit_from_env env ''CHAT_IP_LIMIT'' ''30'',
            limit_from_env env ''CHAT_SESSION_LIMIT'' ''12'', limit_from_env env ''CHAT_DAILY_TOKEN_LIMIT'' ''100000'',
            limit_from_env env ''CHAT_OUTPUT_TOKEN_RESERVE'' ''1000'') of
        (Some m, Some iw, Some sw, Some il, Some sl, Some dt, Some outr) \<Rightarrow>
          Some \<lparr>lm_max_message = m, lm_ip_window = seconds iw, lm_session_window = seconds sw, lm_ip_limit = il,
            lm_session_limit = sl, lm_daily_tokens = dt, lm_output_reserve = max outr 0\<rparr>
      | _ \<Rightarrow> None)"

text \<open>The middleware of \<open>make_body_size_limit\<close>: 413 for a body of more bytes than the limit on its path.\<close>

definition body_size_limit :: "string \<Rightarrow> int \<Rightarrow> string \<Rightarrow> string \<Rightarrow> nat \<Rightarrow> http_error option" where
  "body_size_limit path max_bytes detail url_path body_size =
     (if url_path = path \<and> int body_size > max_bytes then Some (HttpError 413 detail) else None)"

definition chat_body_size_limit :: "int \<Rightarrow> string \<Rightarrow> nat \<Rightarrow> http_error option" where
  "chat_body_size_limit max_bytes = body_size_limit ''/chat/stream'' max_bytes ''Chat request body is too large.''"

definition intake_body_size_limit :: "int \<Rightarrow> string \<Rightarrow> nat \<Rightarrow> http_error option" where
  "intake_body_size_limit max_bytes = body_size_limit ''/intake/submissions'' max_bytes ''Intake request body is too large.''"

section \<open>The questions\<close>

record intake_question =
  iq_id :: string
  iq_label :: string
  iq_options :: "string list"
  iq_placeholder :: "string option"

definition INTAKE_QUESTIONS :: "intake_question list" where
  "INTAKE_QUESTIONS = [
     \<lparr>iq_id = ''objective'', iq_label = ''What are you hoping to accomplish?'',
      iq_options = [''Explore automation support or consulting'', ''Get help building or debugging a workflow'',
        ''Learn how automation works'', ''Find reusable workflows, patterns, or examples''], iq_placeholder = None\<rparr>,
     \<lparr>iq_id = ''building'', iq_label = ''What are you trying to do or build?'', iq_options = [],
      iq_placeholder = Some ''Example: onboard users, clean PSA data, sync tickets, learn CTX/TASKS...''\<rparr>,
     \<lparr>iq_id = ''maturity'', iq_label = ''How automated are you today?'',
      iq_options = [''Just starting'', ''Some scripts/workflows'', ''Several production automations'', ''Mature automation program''],
      iq_placeholder = None\<rparr>,
     \<lparr>iq_id = ''help_needed'', iq_label = ''What would be most useful right now?'',
      iq_options = [''Help me choose the next step'', ''Give me a technical answer I can use'', ''Show me examples or patterns'',
        ''Walk me through it so I understand''], iq_placeholder = None\<rparr>]"

text \<open>The modes offered: id, name and description.\<close>

definition get_modes :: "(string \<times> string \<times> string) list" where
  "get_modes = [(''pipeline'', ''Service Inquiry'', ''Explore automation support, consulting, and implementation help.''),
     (''automator'', ''Automator Assistance'', ''Get help with automation workflows.''),
     (''educator'', ''Educator'', ''Learn automation concepts through lessons and challenges.'')]"

section \<open>The request\<close>

record chat_request =
  cq_message :: string
  cq_mode :: string
  cq_conversation_id :: "string option"
  cq_terminal_session_id :: "string option"
  cq_intake_complete :: bool
  cq_intake :: "intake option"

text \<open>A form field of the intake: its length is tested as sent, its text stored cleaned.\<close>

definition intake_field :: "string \<Rightarrow> nat \<Rightarrow> (string \<times> string) list \<Rightarrow> (string \<times> string) option" where
  "intake_field name most given =
     (case map_of given name of
        None \<Rightarrow> None
      | Some v \<Rightarrow> if 1 \<le> length v \<and> length v \<le> most then Some (name, clean_text v) else None)"

definition intake_answers :: "(string \<times> string) list \<Rightarrow> intake option" where
  "intake_answers given =
     (case (intake_field ''objective'' 300 given, intake_field ''building'' 1000 given, intake_field ''maturity'' 200 given,
            intake_field ''help_needed'' 200 given) of
        (Some a, Some b, Some c, Some d) \<Rightarrow> Some [a, b, c, d]
      | _ \<Rightarrow> None)"

text \<open>The session id is cleaned first; a blank one counts as none, another one has 8 to 100 characters.\<close>

definition read_session_id :: "string option \<Rightarrow> string option option" where
  "read_session_id raw =
     (case raw of
        None \<Rightarrow> Some None
      | Some v \<Rightarrow> let c = clean_text v in
          if c = '''' then Some None else if 8 \<le> length c \<and> length c \<le> 100 then Some (Some c) else None)"

text \<open>The body as parsed: texts, and the fields of the intake where there is one.\<close>

record chat_body =
  cb_message :: "string option"
  cb_mode :: "string option"
  cb_conversation_id :: "string option"
  cb_terminal_session_id :: "string option"
  cb_intake_complete :: "bool option"
  cb_intake :: "(string \<times> string) list option"

definition read_chat_request :: "chat_limits \<Rightarrow> chat_body \<Rightarrow> chat_request option" where
  "read_chat_request lm b =
     (case (cb_message b, read_session_id (cb_terminal_session_id b),
            (case cb_intake b of None \<Rightarrow> Some None | Some f \<Rightarrow> map_option Some (intake_answers f))) of
        (Some raw, Some sid, Some intake) \<Rightarrow>
          let message = clean_text raw; complete = (case cb_intake_complete b of None \<Rightarrow> False | Some v \<Rightarrow> v) in
          if message = '''' \<or> int (length message) > lm_max_message lm then None
          else if complete \<and> intake = None then None
          else Some \<lparr>cq_message = message, cq_mode = (case cb_mode b of None \<Rightarrow> ''automator'' | Some m \<Rightarrow> m),
            cq_conversation_id = cb_conversation_id b, cq_terminal_session_id = sid, cq_intake_complete = complete, cq_intake = intake\<rparr>
      | _ \<Rightarrow> None)"

section \<open>Abuse limits\<close>

definition chat_session_key :: "chat_request \<Rightarrow> string \<Rightarrow> string" where
  "chat_session_key q ip_address =
     (case cq_terminal_session_id q of
        Some t \<Rightarrow> if t \<noteq> '''' then ''terminal:'' @ t
          else (case cq_conversation_id q of Some c \<Rightarrow> if c \<noteq> '''' then ''conversation:'' @ c else ''ip:'' @ ip_address | None \<Rightarrow> ''ip:'' @ ip_address)
      | None \<Rightarrow> (case cq_conversation_id q of Some c \<Rightarrow> if c \<noteq> '''' then ''conversation:'' @ c else ''ip:'' @ ip_address | None \<Rightarrow> ''ip:'' @ ip_address))"

record abuse_context =
  ab_ip_address :: string
  ab_session_key :: string
  ab_input_tokens :: int

definition chat_refusal :: "chat_limits \<Rightarrow> usage_snapshot \<Rightarrow> int \<Rightarrow> http_error option" where
  "chat_refusal lm us n_in =
     (if lm_ip_limit lm > 0 \<and> int (us_ip_requests us) \<ge> lm_ip_limit lm
      then Some (HttpError 429 ''Too many chat requests from this network. Please try again later.'')
      else if lm_session_limit lm > 0 \<and> int (us_session_requests us) \<ge> lm_session_limit lm
      then Some (HttpError 429 ''Too many chat requests from this session. Please try again later.'')
      else if lm_daily_tokens lm > 0 \<and> us_daily_tokens us + n_in + lm_output_reserve lm > lm_daily_tokens lm
      then Some (HttpError 429 ''The public chat daily token budget is exhausted. Please try again later.'')
      else None)"

text \<open>
  The check reads the tables at one moment, and the row of an accepted request is added at a
  later one; requests that overlap may all be checked before any of them is counted.
\<close>

definition chat_gate :: "utc \<Rightarrow> chat_limits \<Rightarrow> chat_request \<Rightarrow> string \<Rightarrow> site_db \<Rightarrow> http_error option" where
  "chat_gate now lm q ip_address db =
     chat_refusal lm (chat_usage_snapshot ip_address (chat_session_key q ip_address) (now - lm_ip_window lm) (now - lm_session_window lm)
       (day_start now) db) (estimate_chat_tokens (cq_message q))"

definition count_request :: "desk_env \<Rightarrow> chat_request \<Rightarrow> string \<Rightarrow> site_db \<Rightarrow> abuse_context reply \<times> site_db" where
  "count_request e q ip_address db =
     (let key = chat_session_key q ip_address; n_in = estimate_chat_tokens (cq_message q) in
      case add_chat_usage_event e NewUsage UsageCommit ip_address key None n_in 0 db of
        (Inl err, db1) \<Rightarrow> (Inl (Crash ''usage''), db1)
      | (Inr _, db1) \<Rightarrow> (Inr \<lparr>ab_ip_address = ip_address, ab_session_key = key, ab_input_tokens = n_in\<rparr>, db1))"

definition enforce_chat_abuse_limits ::
  "desk_env \<Rightarrow> chat_limits \<Rightarrow> chat_request \<Rightarrow> string \<Rightarrow> site_db \<Rightarrow> abuse_context reply \<times> site_db" where
  "enforce_chat_abuse_limits e lm q ip_address db =
     (case chat_gate (de_now e) lm q ip_address db of
        Some err \<Rightarrow> (Inl err, db)
      | None \<Rightarrow> count_request e q ip_address db)"

section \<open>Opening a turn\<close>

record desk =
  dk_db :: site_db
  dk_turn :: turn_state
  dk_metrics :: chat_metrics

record chat_headers =
  ch_ip_address :: string
  ch_referrer :: string
  ch_user_agent :: string

record opened_chat =
  oc_conversation_id :: string
  oc_decision :: routing_decision
  oc_history :: "chat_message list"
  oc_abuse :: abuse_context

definition history_messages :: "string \<Rightarrow> site_db \<Rightarrow> chat_message list" where
  "history_messages conv_id db = map (\<lambda>m. [(''role'', JStr (mg_role m)), (''content'', JStr (mg_content m))]) (get_messages conv_id db)"

definition find_or_create :: "desk_env \<Rightarrow> chat_request \<Rightarrow> string \<Rightarrow> site_db \<Rightarrow> string reply \<times> site_db" where
  "find_or_create e q mode db =
     (case cq_conversation_id q of
        Some c \<Rightarrow> if c \<noteq> '''' then (case get_conversation c db of
              None \<Rightarrow> (Inl (HttpError 404 ''Conversation not found''), db)
            | Some v \<Rightarrow> (Inr (cv_id v), db))
          else (case create_conversation e mode db of (Inl _, db1) \<Rightarrow> (Inl (Crash ''conversation''), db1) | (Inr v, db1) \<Rightarrow> (Inr (cv_id v), db1))
      | None \<Rightarrow> (case create_conversation e mode db of (Inl _, db1) \<Rightarrow> (Inl (Crash ''conversation''), db1) | (Inr v, db1) \<Rightarrow> (Inr (cv_id v), db1)))"

definition store_intake :: "desk_env \<Rightarrow> chat_request \<Rightarrow> chat_headers \<Rightarrow> string \<Rightarrow> string \<Rightarrow> site_db \<Rightarrow> unit reply \<times> site_db" where
  "store_intake e q h conv_id mode db =
     (case cq_intake q of
        None \<Rightarrow> (Inr (), db)
      | Some intake \<Rightarrow>
          if \<not> cq_intake_complete q then (Inr (), db)
          else (case save_intake_record e conv_id mode intake db of
              (Inl _, db1) \<Rightarrow> (Inl (Crash ''intake''), db1)
            | (Inr _, db1) \<Rightarrow>
                (case cq_terminal_session_id q of
                   None \<Rightarrow> (Inr (), db1)
                 | Some sid \<Rightarrow>
                     (case save_terminal_intake_submission e sid mode intake \<lparr>td_source_path = ''/chat/stream'',
                          td_referrer = take 500 (clean_text (ch_referrer h)), td_user_agent = take 500 (clean_text (ch_user_agent h)),
                          td_ip_address = ch_ip_address h, td_conversation_id = Some conv_id, td_contact_id = None,
                          td_count_submission = False\<rparr> db1 of
                        (Inl _, db2) \<Rightarrow> (Inl (Crash ''terminal intake''), db2)
                      | (Inr _, db2) \<Rightarrow> (Inr (), db2)))))"

text \<open>From the limits, whose outcome is given here, to the history the model is given.\<close>

definition open_after ::
  "desk_env \<Rightarrow> chat_env \<Rightarrow> routing_config option \<Rightarrow> orchestrator \<Rightarrow> chat_request \<Rightarrow> chat_headers \<Rightarrow> desk
   \<Rightarrow> abuse_context reply \<times> site_db \<Rightarrow> opened_chat reply \<times> desk" where
  "open_after e ce rcfg orc q h dk checked =
     (case checked of
        (Inl err, db) \<Rightarrow> (Inl err, dk\<lparr>dk_db := db\<rparr>)
      | (Inr ab, db) \<Rightarrow>
          (case plan ce rcfg orc (cq_mode q) (cq_message q) (cq_intake_complete q) (case cq_intake q of None \<Rightarrow> [] | Some i \<Rightarrow> i) (dk_turn dk) of
             (Inl _, ts) \<Rightarrow> (Inl (Crash ''plan''), dk\<lparr>dk_db := db, dk_turn := ts\<rparr>)
           | (Inr d, ts) \<Rightarrow>
               (let mode = mode_value (rd_selected_mode d) in
                case find_or_create e q mode db of
                  (Inl err, db1) \<Rightarrow> (Inl err, dk\<lparr>dk_db := db1, dk_turn := ts\<rparr>)
                | (Inr conv_id, db1) \<Rightarrow>
                    (case store_intake e q h conv_id mode db1 of
                       (Inl err, db2) \<Rightarrow> (Inl err, dk\<lparr>dk_db := db2, dk_turn := ts\<rparr>)
                     | (Inr _, db2) \<Rightarrow>
                         (case add_message e NewMessage MessageCommit conv_id ''user'' (cq_message q) db2 of
                            (Inl _, db3) \<Rightarrow> (Inl (Crash ''message''), dk\<lparr>dk_db := db3, dk_turn := ts\<rparr>)
                          | (Inr _, db3) \<Rightarrow> (Inr \<lparr>oc_conversation_id = conv_id, oc_decision = d,
                                oc_history = history_messages conv_id db3, oc_abuse = ab\<rparr>, dk\<lparr>dk_db := db3, dk_turn := ts\<rparr>))))))"

definition open_chat ::
  "desk_env \<Rightarrow> chat_env \<Rightarrow> chat_limits \<Rightarrow> routing_config option \<Rightarrow> orchestrator \<Rightarrow> chat_request \<Rightarrow> chat_headers \<Rightarrow> desk
   \<Rightarrow> opened_chat reply \<times> desk" where
  "open_chat e ce lm rcfg orc q h dk =
     open_after e ce rcfg orc q h dk (enforce_chat_abuse_limits e lm q (ch_ip_address h) (dk_db dk))"

section \<open>The frames of an answer\<close>

datatype chat_frame =
    MetaFrame string string chat_mode conversation_stage "string option"
  | ContentFrame string
  | DoneFrame
  | FailedFrame string

definition opt_json :: "string option \<Rightarrow> json" where
  "opt_json x = (case x of None \<Rightarrow> JNull | Some s \<Rightarrow> JStr s)"

definition data_line :: "(json \<Rightarrow> string) \<Rightarrow> json \<Rightarrow> string" where
  "data_line dumps j = ''data: '' @ dumps j @ nl @ nl"

fun frame_text :: "(json \<Rightarrow> string) \<Rightarrow> chat_frame \<Rightarrow> string" where
  "frame_text dumps (MetaFrame conv rid mode stage tool) = data_line dumps (JObj [(''conversation_id'', JStr conv),
     (''request_id'', JStr rid), (''selected_mode'', JStr (mode_value mode)), (''stage'', JStr (stage_value stage)),
     (''retrieval_tool'', opt_json tool)])"
| "frame_text dumps (ContentFrame t) = data_line dumps (JObj [(''content'', JStr t)])"
| "frame_text dumps DoneFrame = ''data: [DONE]'' @ nl @ nl"
| "frame_text dumps (FailedFrame rid) = data_line dumps (JObj [(''error'', JObj [(''code'', JStr ''stream_failed''),
     (''message'', JStr ''The chat stream failed. Please try again.''), (''request_id'', JStr rid)])])"

section \<open>Answering\<close>

text \<open>
  The generator of \<open>chat_stream\<close> for a client that stays connected. The assistant's text is
  stored when the stream ended well, its tokens are booked in any case; failures of these
  two commits are logged only.
\<close>

definition finish_chat :: "desk_env \<Rightarrow> opened_chat \<Rightarrow> string list \<Rightarrow> bool \<Rightarrow> site_db \<Rightarrow> site_db" where
  "finish_chat e oc texts ok db =
     (let full = concat texts in
      if full = '''' then db
      else let db1 = (if ok then snd (add_message e NewReply ReplyCommit (oc_conversation_id oc) ''assistant'' full db) else db)
        in snd (add_chat_usage_event e NewOutput OutputCommit (ab_ip_address (oc_abuse oc)) (ab_session_key (oc_abuse oc))
             (Some (oc_conversation_id oc)) 0 (estimate_chat_tokens full) db1))"

definition chat_frames :: "string \<Rightarrow> opened_chat \<Rightarrow> string list \<Rightarrow> bool \<Rightarrow> chat_frame list" where
  "chat_frames rid oc texts ok =
     [MetaFrame (oc_conversation_id oc) rid (rd_selected_mode (oc_decision oc)) (rd_stage (oc_decision oc)) (rd_retrieval_tool (oc_decision oc))]
     @ map ContentFrame texts @ [if ok then DoneFrame else FailedFrame rid]"

fun error_class :: "py_error \<Rightarrow> string" where
  "error_class (ValueError _) = ''ValueError''"
| "error_class (LookupError _) = ''LookupError''"
| "error_class (KeyError _) = ''KeyError''"
| "error_class ZeroDivisionError = ''ZeroDivisionError''"
| "error_class (Raised name) = name"

text \<open>The chunks that were yielded, and the exception that ended them, if one did.\<close>

definition stream_outcome :: "(string list \<times> unit result) result \<Rightarrow> string list \<times> py_error option" where
  "stream_outcome r =
     (case r of
        Inl err \<Rightarrow> ([], Some err)
      | Inr (texts, Inl err) \<Rightarrow> (texts, Some err)
      | Inr (texts, Inr _) \<Rightarrow> (texts, None))"

definition log_chat_turn ::
  "desk_env \<Rightarrow> rat \<Rightarrow> string \<Rightarrow> routing_decision \<Rightarrow> string \<Rightarrow> py_error option \<Rightarrow> llm_router \<Rightarrow> chat_metrics \<Rightarrow> chat_metrics" where
  "log_chat_turn e started_at rid d output failure ro m =
     record_turn (de_now e) (turn_payload rid (if failure = None then ''completed'' else ''failed'') (de_clock e - started_at) d ro output
       (map_option error_class failure)) m"

definition generate_chat :: "desk_env \<Rightarrow> rat \<Rightarrow> chat_env \<Rightarrow> string \<Rightarrow> string \<Rightarrow> opened_chat \<Rightarrow> desk \<Rightarrow> chat_frame list \<times> desk" where
  "generate_chat e started_at ce rid message oc dk =
     (case stream ce (oc_decision oc) message (oc_history oc) (oc_conversation_id oc) (dk_turn dk) of
        (res, ts) \<Rightarrow>
          (case stream_outcome res of
             (texts, failure) \<Rightarrow>
               (chat_frames rid oc texts (failure = None),
                \<lparr>dk_db = finish_chat e oc texts (failure = None) (dk_db dk), dk_turn = ts,
                 dk_metrics = log_chat_turn e started_at rid (oc_decision oc) (concat texts) failure (ts_router ts) (dk_metrics dk)\<rparr>)))"

text \<open>
  \<open>chat_stream\<close>: the environment when the request came, and the one when the answer was
  complete. The first part is up to the opened chat, which is answered.
\<close>

definition answer_opened ::
  "desk_env \<Rightarrow> desk_env \<Rightarrow> chat_env \<Rightarrow> string \<Rightarrow> chat_request \<Rightarrow> opened_chat reply \<times> desk \<Rightarrow> chat_frame list reply \<times> desk" where
  "answer_opened e e1 ce rid q opened =
     (case opened of
        (Inl err, dk1) \<Rightarrow> (Inl err, dk1)
      | (Inr oc, dk1) \<Rightarrow> (case generate_chat e1 (de_clock e) ce rid (cq_message q) oc dk1 of (frames, dk2) \<Rightarrow> (Inr frames, dk2)))"

definition chat_stream ::
  "desk_env \<Rightarrow> desk_env \<Rightarrow> chat_env \<Rightarrow> chat_limits \<Rightarrow> routing_config option \<Rightarrow> orchestrator \<Rightarrow> string \<Rightarrow> chat_request \<Rightarrow> chat_headers
   \<Rightarrow> desk \<Rightarrow> chat_frame list reply \<times> desk" where
  "chat_stream e e1 ce lm rcfg orc rid q h dk = answer_opened e e1 ce rid q (open_chat e ce lm rcfg orc q h dk)"

text \<open>The rest of a request that passed the check earlier: what \<open>chat_stream\<close> does from the count on.\<close>

definition chat_admitted ::
  "desk_env \<Rightarrow> desk_env \<Rightarrow> chat_env \<Rightarrow> routing_config option \<Rightarrow> orchestrator \<Rightarrow> string \<Rightarrow> chat_request \<Rightarrow> chat_headers
   \<Rightarrow> desk \<Rightarrow> chat_frame list reply \<times> desk" where
  "chat_admitted e e1 ce rcfg orc rid q h dk =
     answer_opened e e1 ce rid q (open_after e ce rcfg orc q h dk (count_request e q (ch_ip_address h) (dk_db dk)))"

lemma chat_stream_phases:
  "chat_stream e e1 ce lm rcfg orc rid q h dk =
     (case chat_gate (de_now e) lm q (ch_ip_address h) (dk_db dk) of
        Some err \<Rightarrow> (Inl err, dk)
      | None \<Rightarrow> chat_admitted e e1 ce rcfg orc rid q h dk)"
  by (simp add: chat_stream_def chat_admitted_def open_chat_def enforce_chat_abuse_limits_def open_after_def answer_opened_def split: option.split)

section \<open>The heartbeat\<close>

datatype tick = Idle | Item string | Broken py_error | Finished

definition KEEP_ALIVE :: string where
  "KEEP_ALIVE = '': ka'' @ nl @ nl"

text \<open>What is sent for a timeline of the inner stream, in which \<open>Idle\<close> is a silent interval.\<close>

fun with_heartbeat :: "rat \<Rightarrow> tick list \<Rightarrow> string list \<times> unit result" where
  "with_heartbeat interval [] = ([], Inr ())"
| "with_heartbeat interval (Idle # ts) =
     (case with_heartbeat interval ts of (out, r) \<Rightarrow> (if interval \<le> 0 then out else KEEP_ALIVE # out, r))"
| "with_heartbeat interval (Item s # ts) = (case with_heartbeat interval ts of (out, r) \<Rightarrow> (s # out, r))"
| "with_heartbeat interval (Broken err # ts) = ([], Inl err)"
| "with_heartbeat interval (Finished # ts) = ([], Inr ())"

section \<open>The intake form\<close>

record intake_limits =
  il_ip_limit :: int
  il_session_limit :: int

definition intake_limits_from_env :: "environ \<Rightarrow> intake_limits option" where
  "intake_limits_from_env env =
     (case (limit_from_env env ''INTAKE_IP_LIMIT'' ''20'', limit_from_env env ''INTAKE_SESSION_LIMIT'' ''3'') of
        (Some a, Some b) \<Rightarrow> Some \<lparr>il_ip_limit = a, il_session_limit = b\<rparr>
      | _ \<Rightarrow> None)"

record intake_payload =
  ip_session_id :: string
  ip_selected_mode :: string
  ip_intake :: intake
  ip_source_path :: string

text \<open>Lengths are tested before the texts are cleaned.\<close>

definition read_intake_payload :: "string \<Rightarrow> string \<Rightarrow> (string \<times> string) list \<Rightarrow> string \<Rightarrow> intake_payload option" where
  "read_intake_payload sid mode given source_path =
     (case intake_answers given of
        None \<Rightarrow> None
      | Some intake \<Rightarrow>
          if length sid < 8 \<or> length sid > 100 \<or> mode \<notin> set [''pipeline'', ''automator'', ''educator''] \<or> length source_path > 300 then None
          else Some \<lparr>ip_session_id = clean_text sid, ip_selected_mode = mode, ip_intake = intake, ip_source_path = clean_text source_path\<rparr>)"

definition intake_refusal :: "intake_limits \<Rightarrow> utc \<Rightarrow> string \<Rightarrow> string \<Rightarrow> terminal_intake option \<Rightarrow> site_db \<Rightarrow> http_error option" where
  "intake_refusal il now sid ip_address existing db =
     (let since = now - days 1;
          network = HttpError 429 ''Too many intake submissions from this network. Please try again later.'';
          session = HttpError 429 ''Too many intake submissions from this session. Please try again later.'' in
      if int (length (filter (\<lambda>r. ti_ip_address r = ip_address \<and> ti_created_at r \<ge> since) (sd_terminals db))) \<ge> il_ip_limit il then Some network
      else case existing of
          Some r \<Rightarrow> let last_seen = (case ti_updated_at r of Some t \<Rightarrow> t | None \<Rightarrow> ti_created_at r) in
            if last_seen \<ge> since \<and> ti_submission_count r \<ge> il_session_limit il then Some session else None
        | None \<Rightarrow>
            if int (length (filter (\<lambda>r. ti_terminal_session_id r = sid \<and> ti_created_at r \<ge> since) (sd_terminals db))) \<ge> il_session_limit il
            then Some session else None)"

text \<open>The status code and the id of the row.\<close>

definition submit_intake :: "desk_env \<Rightarrow> intake_limits \<Rightarrow> chat_headers \<Rightarrow> intake_payload \<Rightarrow> site_db \<Rightarrow> (int \<times> string) reply \<times> site_db" where
  "submit_intake e il h p db =
     (let existing = terminal_of (ip_session_id p) db in
      case intake_refusal il (de_now e) (ip_session_id p) (ch_ip_address h) existing db of
        Some err \<Rightarrow> (Inl err, db)
      | None \<Rightarrow>
          (case save_terminal_intake_submission e (ip_session_id p) (ip_selected_mode p) (ip_intake p)
              \<lparr>td_source_path = ip_source_path p, td_referrer = take 500 (clean_text (ch_referrer h)),
               td_user_agent = take 500 (clean_text (ch_user_agent h)), td_ip_address = ch_ip_address h, td_conversation_id = None,
               td_contact_id = None, td_count_submission = True\<rparr> db of
             (Inl _, db1) \<Rightarrow> (Inl (Crash ''terminal intake''), db1)
           | (Inr r, db1) \<Rightarrow> (Inr (if existing = None then 201 else 200, ti_id r), db1)))"

end
