(* ===== verification/DeskRules.thy ===== *)
theory DeskRules
  imports ChatDesk
begin

text \<open>
  What the handler of \<open>/chat/stream\<close> guarantees over a run of requests: the limits per network
  and per terminal session, also for requests that overlap between their check and the row
  that counts them, and what a request adds to the usage table.
\<close>

section \<open>Interface: a log whose entries are rationed\<close>

text \<open>
  Work arrives, is admitted or turned away by what the log holds at that moment, and waits;
  later, in any order, it proceeds and appends its row. The second component of the state is
  the largest number that waited at once.
\<close>

datatype 'i overlap = Arrive 'i | Proceed nat

fun overlap_step ::
  "('i \<Rightarrow> 's \<Rightarrow> bool) \<Rightarrow> ('i \<Rightarrow> 's \<Rightarrow> 's) \<Rightarrow> 'i overlap \<Rightarrow> 'i list \<times> nat \<times> 's \<Rightarrow> 'i list \<times> nat \<times> 's" where
  "overlap_step admits proceed (Arrive i) (waiting, most, s) =
     (if admits i s then (waiting @ [i], max most (length waiting + 1), s) else (waiting, most, s))"
| "overlap_step admits proceed (Proceed n) (waiting, most, s) =
     (if n < length waiting then (take n waiting @ drop (n + 1) waiting, most, proceed (waiting ! n) s) else (waiting, most, s))"

fun arrivals :: "'i overlap list \<Rightarrow> 'i list" where
  "arrivals [] = []"
| "arrivals (Arrive i # evs) = i # arrivals evs"
| "arrivals (Proceed n # evs) = arrivals evs"

text \<open>The rows of a key in a window.\<close>

definition window_rows :: "('r \<Rightarrow> bool) \<Rightarrow> ('r \<Rightarrow> 'k) \<Rightarrow> ('r \<Rightarrow> int) \<Rightarrow> int \<Rightarrow> 'k \<Rightarrow> int \<Rightarrow> 'r list \<Rightarrow> nat" where
  "window_rows counts key time w k t rs = length (filter (\<lambda>r. counts r \<and> key r = k \<and> t \<le> time r \<and> time r \<le> t + w) rs)"

lemma window_rows_simps:
  "window_rows counts key time w k t [] = 0"
  "window_rows counts key time w k t (as @ bs) = window_rows counts key time w k t as + window_rows counts key time w k t bs"
  "window_rows counts key time w k t (filter counts as) = window_rows counts key time w k t as"
  by (simp_all add: window_rows_def conj_commute conj_left_commute)

lemma window_rows_le: "window_rows counts key time w k t rs \<le> length rs"
  by (simp add: window_rows_def)

lemma length_filter_le_filter: "(\<And>x. P x \<Longrightarrow> Q x) \<Longrightarrow> length (filter P xs) \<le> length (filter Q xs)"
  by (induction xs) (auto intro: le_SucI)

lemma taken_out: "n < length xs \<Longrightarrow> window_rows counts key time w k t (map row xs)
    = window_rows counts key time w k t (map row (take n xs @ drop (n + 1) xs)) + window_rows counts key time w k t [row (xs ! n)]"
  by (subst id_take_nth_drop [of n xs]) (simp_all add: window_rows_def)

text \<open>What a run keeps: the rows in the log and those still to come fit in every window.\<close>

definition within_quota ::
  "('s \<Rightarrow> 'r list) \<Rightarrow> ('i \<Rightarrow> 'r) \<Rightarrow> ('r \<Rightarrow> bool) \<Rightarrow> ('r \<Rightarrow> 'k) \<Rightarrow> ('r \<Rightarrow> int) \<Rightarrow> int \<Rightarrow> int \<Rightarrow> 'i list \<times> nat \<times> 's \<Rightarrow> bool" where
  "within_quota entries row counts key time w quota = (\<lambda>(waiting, most, s). length waiting \<le> most \<and>
     (\<forall>k t. int (window_rows counts key time w k t (entries s @ map row waiting)) < quota + int most))"

locale rationed_log =
  fixes entries :: "'s \<Rightarrow> 'r list"
    and admits :: "'i \<Rightarrow> 's \<Rightarrow> bool"
    and proceed :: "'i \<Rightarrow> 's \<Rightarrow> 's"
    and fit :: "'i \<Rightarrow> bool"
    and row :: "'i \<Rightarrow> 'r"
    and counts :: "'r \<Rightarrow> bool"
    and key :: "'r \<Rightarrow> 'k"
    and time :: "'r \<Rightarrow> int"
    and w :: int
    and quota :: int
  assumes admitted: "fit i \<Longrightarrow> admits i s \<Longrightarrow> counts (row i) \<Longrightarrow>
      int (length (filter (\<lambda>r. counts r \<and> key r = key (row i) \<and> time (row i) - w \<le> time r) (entries s))) < quota"
    and proceeds: "filter counts (entries (proceed i s)) \<in> {filter counts (entries s), filter counts (entries s) @ filter counts [row i]}"
begin

lemma arrive_keeps: "within_quota entries row counts key time w quota (waiting, most, s) \<Longrightarrow> fit i \<Longrightarrow> within_quota entries row counts key time w quota (overlap_step admits proceed (Arrive i) (waiting, most, s))"
proof -
  assume kept: "within_quota entries row counts key time w quota (waiting, most, s)" and fit: "fit i"
  have "int (window_rows counts key time w k t (entries s @ map row (waiting @ [i]))) < quota + int (max most (length waiting + 1))"
    if adm: "admits i s" for k t
  proof (cases "counts (row i) \<and> key (row i) = k \<and> t \<le> time (row i) \<and> time (row i) \<le> t + w")
    case True
    have "window_rows counts key time w k t (entries s)
        \<le> length (filter (\<lambda>r. counts r \<and> key r = key (row i) \<and> time (row i) - w \<le> time r) (entries s))"
      unfolding window_rows_def using True by (intro length_filter_le_filter) auto
    moreover have "window_rows counts key time w k t (map row waiting) \<le> length waiting"
      using window_rows_le [of counts key time w k t "map row waiting"] by simp
    moreover have "window_rows counts key time w k t [row i] \<le> 1"
      using window_rows_le [of counts key time w k t "[row i]"] by simp
    ultimately show ?thesis using admitted [OF fit adm] True by (simp add: window_rows_simps)
  next
    case False
    then have "window_rows counts key time w k t [row i] = 0" by (auto simp: window_rows_def)
    moreover have "int (window_rows counts key time w k t (entries s @ map row waiting)) < quota + int most"
      using kept by (simp add: within_quota_def)
    ultimately show ?thesis by (simp add: window_rows_simps)
  qed
  then show ?thesis using kept by (simp add: within_quota_def)
qed

lemma proceed_keeps: "within_quota entries row counts key time w quota (waiting, most, s) \<Longrightarrow> within_quota entries row counts key time w quota (overlap_step admits proceed (Proceed n) (waiting, most, s))"
proof (cases "n < length waiting")
  case True
  assume kept: "within_quota entries row counts key time w quota (waiting, most, s)"
  let ?s1 = "proceed (waiting ! n) s" and ?rest = "take n waiting @ drop (n + 1) waiting"
  have "window_rows counts key time w k t (entries ?s1) \<le> window_rows counts key time w k t (entries s @ [row (waiting ! n)])" for k t
    using proceeds [of "waiting ! n" s] window_rows_simps(2,3) [of counts key time w k t]
    by (metis insert_iff empty_iff order_refl le_add1)
  then have "window_rows counts key time w k t (entries ?s1 @ map row ?rest) \<le> window_rows counts key time w k t (entries s @ map row waiting)"
    for k t
    using taken_out [OF True, of counts key time w k t row] by (simp add: window_rows_simps)
  then show ?thesis using kept True unfolding within_quota_def by (fastforce intro: le_less_trans [rotated])
qed simp

lemma run_keeps:
  "list_all fit (arrivals evs) \<Longrightarrow> within_quota entries row counts key time w quota st \<Longrightarrow> within_quota entries row counts key time w quota (fold (overlap_step admits proceed) evs st)"
proof (induction evs arbitrary: st)
  case (Cons ev evs)
  obtain waiting most s where st: "st = (waiting, most, s)" by (metis surj_pair)
  have "within_quota entries row counts key time w quota (overlap_step admits proceed ev st)"
    using Cons.prems arrive_keeps proceed_keeps unfolding st by (cases ev) auto
  then show ?case using Cons by (cases ev) auto
qed simp

text \<open>Over any run from an empty log, a window holds fewer rows of a key than the quota and the most that waited.\<close>

lemma run_keeps_quota:
  assumes "list_all fit (arrivals evs)" and "entries s = []" and "quota > 0"
    and "fold (overlap_step admits proceed) evs ([], 0, s) = (waiting, most, s1)"
  shows "int (window_rows counts key time w k t (entries s1)) < quota + int most"
proof -
  have "within_quota entries row counts key time w quota ([], 0, s)" using assms(2,3) by (simp add: within_quota_def window_rows_simps)
  from run_keeps [OF assms(1) this] assms(4)
  have "int (window_rows counts key time w k t (entries s1 @ map row waiting)) < quota + int most" by (simp add: within_quota_def)
  then show ?thesis by (simp add: window_rows_simps)
qed

end

section \<open>What a request adds to the usage table\<close>

definition accepted_row :: "desk_env \<Rightarrow> chat_request \<Rightarrow> chat_headers \<Rightarrow> chat_usage" where
  "accepted_row e q h = usage_entry e NewUsage (ch_ip_address h) (chat_session_key q (ch_ip_address h)) None
     (estimate_chat_tokens (cq_message q)) 0"

lemma enforceE:
  assumes "enforce_chat_abuse_limits e lm q (ch_ip_address h) db = (res, db1)"
  obtains (refused) err where "res = Inl err" and "db1 = db"
  | (accepted) ab where "res = Inr ab" and "db1 = db\<lparr>sd_usage := sd_usage db @ [accepted_row e q h]\<rparr>"
      and "chat_gate (de_now e) lm q (ch_ip_address h) db = None"
  using assms
  by (auto simp: enforce_chat_abuse_limits_def count_request_def Let_def add_chat_usage_event_def accepted_row_def committed_def
      split: option.splits sum.splits)

lemma place_usage: "find_or_create e q mode db = (res, db1) \<Longrightarrow> sd_usage db1 = sd_usage db"
  by (auto simp: find_or_create_def split: option.splits sum.splits prod.splits if_splits dest: usage_frames)

lemma store_usage: "store_intake e q h c mode db = (res, db1) \<Longrightarrow> sd_usage db1 = sd_usage db"
  by (auto simp: store_intake_def split: option.splits sum.splits prod.splits if_splits dest!: usage_frames)

lemma open_usage:
  assumes "open_chat e ce lm rcfg orc q h dk = (res, dk1)"
  shows "sd_usage (dk_db dk1) = sd_usage (snd (enforce_chat_abuse_limits e lm q (ch_ip_address h) (dk_db dk)))"
  using assms by (auto simp: open_chat_def open_after_def Let_def split: sum.splits prod.splits dest!: place_usage store_usage message_usage)

lemma finish_usage:
  "\<exists>rs. sd_usage (finish_chat e oc texts ok db) = sd_usage db @ rs \<and> (\<forall>r \<in> set rs. cu_input_tokens r = 0)"
proof -
  have add: "\<exists>rs. sd_usage db2 = sd_usage db1 @ rs \<and> (\<forall>r \<in> set rs. cu_input_tokens r = 0)"
    if "add_chat_usage_event e NewOutput OutputCommit a k c 0 n db1 = (res, db2)" for a k c n db1 res db2
    using that by (auto simp: add_chat_usage_event_def usage_entry_def Let_def elim!: committedE)
  show ?thesis
  proof (cases "concat texts = ''''")
    case False
    then show ?thesis using add message_usage
      by (cases ok) (simp_all add: finish_chat_def Let_def, (metis prod.collapse)+)
  qed (simp add: finish_chat_def)
qed

section \<open>Runs of requests\<close>

text \<open>A request with the time of its check and the environments it meets.\<close>

record visit =
  vs_arrived :: utc
  vs_open :: desk_env
  vs_close :: desk_env
  vs_turns :: chat_env
  vs_request_id :: string
  vs_request :: chat_request
  vs_headers :: chat_headers

record desk_config =
  dc_limits :: chat_limits
  dc_routing :: "routing_config option"
  dc_orchestrator :: orchestrator

definition serve_desk :: "desk_config \<Rightarrow> visit \<Rightarrow> desk \<Rightarrow> chat_frame list reply \<times> desk" where
  "serve_desk dc v dk = chat_stream (vs_open v) (vs_close v) (vs_turns v) (dc_limits dc) (dc_routing dc) (dc_orchestrator dc)
     (vs_request_id v) (vs_request v) (vs_headers v) dk"

definition serve_all :: "desk_config \<Rightarrow> visit list \<Rightarrow> desk \<Rightarrow> desk" where
  "serve_all dc = fold (\<lambda>v dk. snd (serve_desk dc v dk))"

definition usage_log :: "desk \<Rightarrow> chat_usage list" where
  "usage_log dk = sd_usage (dk_db dk)"

definition visit_row :: "visit \<Rightarrow> chat_usage" where
  "visit_row v = accepted_row (vs_open v) (vs_request v) (vs_headers v)"

text \<open>
  Requests that overlap: each is checked when it arrives and does the rest when its turn comes,
  in any order and with any number of others in between.
\<close>

definition passes_gate :: "desk_config \<Rightarrow> visit \<Rightarrow> desk \<Rightarrow> bool" where
  "passes_gate dc v dk =
     (chat_gate (vs_arrived v) (dc_limits dc) (vs_request v) (ch_ip_address (vs_headers v)) (dk_db dk) = None)"

definition serve_admitted :: "desk_config \<Rightarrow> visit \<Rightarrow> desk \<Rightarrow> desk" where
  "serve_admitted dc v dk = snd (chat_admitted (vs_open v) (vs_close v) (vs_turns v) (dc_routing dc) (dc_orchestrator dc)
     (vs_request_id v) (vs_request v) (vs_headers v) dk)"

definition serve_overlapping :: "desk_config \<Rightarrow> visit overlap list \<Rightarrow> desk \<Rightarrow> visit list \<times> nat \<times> desk" where
  "serve_overlapping dc evs dk = fold (overlap_step (passes_gate dc) (serve_admitted dc)) evs ([], 0, dk)"

text \<open>A request that nothing overlaps is one that arrives and proceeds at once.\<close>

lemma alone_is_serve_desk:
  assumes "vs_arrived v = de_now (vs_open v)"
  shows "snd (snd (serve_overlapping dc [Arrive v, Proceed 0] dk)) = snd (serve_desk dc v dk)"
  using assms by (auto simp: serve_overlapping_def serve_desk_def chat_stream_phases passes_gate_def serve_admitted_def split: option.split)

text \<open>The rest of a request adds nothing, or its own row and then rows that no limit on requests counts.\<close>

lemma admitted_usage:
  obtains rs us where "usage_log (serve_admitted dc v dk) = usage_log dk @ us @ rs" and "us = [] \<or> us = [visit_row v]"
      and "\<forall>r \<in> set rs. cu_input_tokens r = 0"
proof -
  let ?h = "vs_headers v" and ?q = "vs_request v"
  obtain er db1 where count: "count_request (vs_open v) ?q (ch_ip_address ?h) (dk_db dk) = (er, db1)" by (metis surj_pair)
  obtain res dk1 where opened: "open_after (vs_open v) (vs_turns v) (dc_routing dc) (dc_orchestrator dc) ?q ?h dk (er, db1) = (res, dk1)"
    by (metis surj_pair)
  have db1: "sd_usage db1 = usage_log dk \<or> sd_usage db1 = usage_log dk @ [visit_row v]"
    using count by (auto simp: count_request_def add_chat_usage_event_def visit_row_def accepted_row_def usage_log_def Let_def
        committed_def split: option.splits)
  have dk1: "sd_usage (dk_db dk1) = sd_usage db1"
    using opened by (auto simp: open_after_def Let_def split: sum.splits prod.splits dest!: place_usage store_usage message_usage)
  have "\<exists>rs. usage_log (serve_admitted dc v dk) = sd_usage db1 @ rs \<and> (\<forall>r \<in> set rs. cu_input_tokens r = 0)"
  proof (cases res)
    case (Inl err)
    then show ?thesis by (simp add: serve_admitted_def chat_admitted_def count opened answer_opened_def usage_log_def dk1)
  next
    case (Inr oc)
    then show ?thesis
      using finish_usage [of "vs_close v" oc _ _ "dk_db dk1"]
      by (auto simp: serve_admitted_def chat_admitted_def count opened answer_opened_def generate_chat_def usage_log_def dk1 split: prod.split)
  qed
  then obtain rs where rs: "usage_log (serve_admitted dc v dk) = sd_usage db1 @ rs" "\<forall>r \<in> set rs. cu_input_tokens r = 0" by blast
  from db1 show thesis
  proof
    assume "sd_usage db1 = usage_log dk"
    then show thesis using that [of "[]" rs] rs by simp
  next
    assume "sd_usage db1 = usage_log dk @ [visit_row v]"
    then show thesis using that [of "[visit_row v]" rs] rs by simp
  qed
qed

section \<open>The limits\<close>

definition counted_row :: "chat_usage \<Rightarrow> bool" where
  "counted_row u = (cu_input_tokens u > 0)"

text \<open>
  An address that is stored the way it is looked up; and a request whose terminal session, if
  it names one, is: \<open>read_chat_request\<close> accepts no other.
\<close>

definition plain_address :: "string \<Rightarrow> bool" where
  "plain_address a = (take 128 (clean_text a) = a)"

definition address_fit :: "desk_config \<Rightarrow> visit \<Rightarrow> bool" where
  "address_fit dc v = (lm_ip_limit (dc_limits dc) > 0 \<and> plain_address (ch_ip_address (vs_headers v)) \<and> vs_arrived v \<le> de_now (vs_open v))"

definition read_session :: "chat_request \<Rightarrow> bool" where
  "read_session q = (case cq_terminal_session_id q of None \<Rightarrow> True | Some t \<Rightarrow> clean_text t = t \<and> length t \<le> 100)"

definition session_fit :: "desk_config \<Rightarrow> visit \<Rightarrow> bool" where
  "session_fit dc v = (lm_session_limit (dc_limits dc) > 0 \<and> read_session (vs_request v) \<and> vs_arrived v \<le> de_now (vs_open v))"

definition terminal_row :: "chat_usage \<Rightarrow> bool" where
  "terminal_row u = (counted_row u \<and> take 9 (cu_session_key u) = ''terminal:'')"

lemma read_request_session: "read_chat_request lm b = Some q \<Longrightarrow> read_session q"
  by (auto simp: read_chat_request_def read_session_def read_session_id_def Let_def clean_idem split: option.splits if_splits)

lemma terminal_key: "read_session q \<Longrightarrow> take 9 (take 160 (clean_text (chat_session_key q a))) = ''terminal:'' \<Longrightarrow>
  take 160 (clean_text (chat_session_key q a)) = chat_session_key q a"
proof -
  assume read: "read_session q" and start: "take 9 (take 160 (clean_text (chat_session_key q a))) = ''terminal:''"
  have "clean_text ''terminal:'' = ''terminal:''" by code_simp
  then have named: ?thesis if "cq_terminal_session_id q = Some t" "t \<noteq> ''''" for t
    using that read clean_append [of "''terminal:''" t] by (simp add: read_session_def chat_session_key_def)
  obtain u where u: "clean_text (''ip:'' @ a) = CHR ''i'' # u"
    using clean_head [of "CHR ''i''" "''p:'' @ a"] by (auto simp: is_control_def is_space_def)
  obtain c where c: "clean_text (''conversation:'' @ x) = CHR ''c'' # c x" for x
    using clean_head [of "CHR ''c''" "''onversation:'' @ x" for x] by (simp add: is_control_def is_space_def) metis
  show ?thesis
    using named start u c by (auto simp: chat_session_key_def split: option.splits if_splits)
qed

lemmas snapshot_defs = chat_gate_def chat_refusal_def chat_usage_snapshot_def counted_row_def visit_row_def
  accepted_row_def usage_entry_def usage_log_def passes_gate_def

text \<open>What the rest of a request adds, as a kind of counted row sees it.\<close>

lemma admitted_counts:
  assumes "\<And>u. counts u \<Longrightarrow> counted_row u"
  shows "filter counts (usage_log (serve_admitted dc v dk))
    \<in> {filter counts (usage_log dk), filter counts (usage_log dk) @ filter counts [visit_row v]}"
proof -
  obtain rs us where u: "usage_log (serve_admitted dc v dk) = usage_log dk @ us @ rs" "us = [] \<or> us = [visit_row v]"
    "\<forall>r \<in> set rs. cu_input_tokens r = 0" by (rule admitted_usage)
  have "filter counts rs = []" using u(3) assms by (fastforce simp: counted_row_def filter_empty_conv)
  then show ?thesis using u by auto
qed

text \<open>The rows of a key within the window before a request are those its check counted, or fewer.\<close>

lemma gate_counts:
  assumes "vs_arrived v \<le> de_now (vs_open v)" and "\<And>u. counts u \<Longrightarrow> counted_row u"
  shows "length (filter (\<lambda>r. counts r \<and> key r = k \<and> cu_created_at (visit_row v) - w \<le> cu_created_at r) rs)
    \<le> length (filter (\<lambda>r. counted_row r \<and> key r = k \<and> vs_arrived v - w \<le> cu_created_at r) rs)"
  using assms by (intro length_filter_le_filter) (auto simp: visit_row_def accepted_row_def usage_entry_def)

interpretation address_log: rationed_log usage_log "passes_gate dc" "serve_admitted dc" "address_fit dc" visit_row counted_row
    cu_ip_address cu_created_at "lm_ip_window (dc_limits dc)" "lm_ip_limit (dc_limits dc)" for dc
proof unfold_locales
  fix v dk
  assume fit: "address_fit dc v" and pass: "passes_gate dc v dk" and counts: "counted_row (visit_row v)"
  have "int (length (filter (\<lambda>r. counted_row r \<and> cu_ip_address r = ch_ip_address (vs_headers v)
      \<and> vs_arrived v - lm_ip_window (dc_limits dc) \<le> cu_created_at r) (usage_log dk))) < lm_ip_limit (dc_limits dc)"
    using fit pass by (simp add: snapshot_defs address_fit_def conj_commute conj_left_commute split: if_splits)
  moreover have "cu_ip_address (visit_row v) = ch_ip_address (vs_headers v)"
    using fit by (simp add: visit_row_def accepted_row_def usage_entry_def address_fit_def plain_address_def)
  ultimately show "int (length (filter (\<lambda>r. counted_row r \<and> cu_ip_address r = cu_ip_address (visit_row v)
      \<and> cu_created_at (visit_row v) - lm_ip_window (dc_limits dc) \<le> cu_created_at r) (usage_log dk))) < lm_ip_limit (dc_limits dc)"
    using gate_counts [of v counted_row cu_ip_address "ch_ip_address (vs_headers v)" "lm_ip_window (dc_limits dc)" "usage_log dk"] fit
    by (simp add: address_fit_def)
next
  show "filter counted_row (usage_log (serve_admitted dc v dk))
      \<in> {filter counted_row (usage_log dk), filter counted_row (usage_log dk) @ filter counted_row [visit_row v]}" for v dk
    by (rule admitted_counts)
qed

interpretation session_log: rationed_log usage_log "passes_gate dc" "serve_admitted dc" "session_fit dc" visit_row terminal_row
    cu_session_key cu_created_at "lm_session_window (dc_limits dc)" "lm_session_limit (dc_limits dc)" for dc
proof unfold_locales
  fix v dk
  assume fit: "session_fit dc v" and pass: "passes_gate dc v dk" and counts: "terminal_row (visit_row v)"
  let ?key = "chat_session_key (vs_request v) (ch_ip_address (vs_headers v))"
  have "int (length (filter (\<lambda>r. counted_row r \<and> cu_session_key r = ?key
      \<and> vs_arrived v - lm_session_window (dc_limits dc) \<le> cu_created_at r) (usage_log dk))) < lm_session_limit (dc_limits dc)"
    using fit pass by (simp add: snapshot_defs session_fit_def conj_commute conj_left_commute split: if_splits)
  moreover have "cu_session_key (visit_row v) = ?key"
    using fit counts terminal_key by (simp add: session_fit_def terminal_row_def visit_row_def accepted_row_def usage_entry_def)
  ultimately show "int (length (filter (\<lambda>r. terminal_row r \<and> cu_session_key r = cu_session_key (visit_row v)
      \<and> cu_created_at (visit_row v) - lm_session_window (dc_limits dc) \<le> cu_created_at r) (usage_log dk))) < lm_session_limit (dc_limits dc)"
    using gate_counts [of v terminal_row cu_session_key ?key "lm_session_window (dc_limits dc)" "usage_log dk"] fit
    by (simp add: session_fit_def terminal_row_def)
next
  show "filter terminal_row (usage_log (serve_admitted dc v dk))
      \<in> {filter terminal_row (usage_log dk), filter terminal_row (usage_log dk) @ filter terminal_row [visit_row v]}" for v dk
    by (rule admitted_counts) (simp add: terminal_row_def)
qed

end
