(* ===== verification/Patterns.thy ===== *)
theory Patterns
  imports Prelude
begin

text \<open>
  Python's regular expressions, as far as the detectors of the connector protocol use them: a
  backtracking matcher that returns all ends of a match in the order the \<open>re\<close> module tries
  them, and \<open>finditer\<close>. A subject is read from left to right; the state has the character
  before the position, the offset, what is left, and the span of the group \<open>secret\<close>. Texts
  are sequences of the characters up to 255.
\<close>

section \<open>Characters\<close>

text \<open>\<open>\w\<close>\<close>

definition is_word :: "char \<Rightarrow> bool" where
  "is_word c \<longleftrightarrow> (let n = (of_char c :: nat) in
     (48 \<le> n \<and> n \<le> 57) \<or> (65 \<le> n \<and> n \<le> 90) \<or> n = 95 \<or> (97 \<le> n \<and> n \<le> 122) \<or>
     n \<in> {170, 178, 179, 181, 185, 186, 188, 189, 190} \<or> (192 \<le> n \<and> n \<noteq> 215 \<and> n \<noteq> 247))"

definition is_letter :: "char \<Rightarrow> bool" where
  "is_letter c \<longleftrightarrow> (let n = (of_char c :: nat) in (65 \<le> n \<and> n \<le> 90) \<or> (97 \<le> n \<and> n \<le> 122))"

definition is_big :: "char \<Rightarrow> bool" where
  "is_big c \<longleftrightarrow> (let n = (of_char c :: nat) in 65 \<le> n \<and> n \<le> 90)"

section \<open>Patterns\<close>

text \<open>
  \<open>Repeat lo hi greedy p\<close> is \<open>p{lo,hi}\<close>, lazy where \<open>greedy\<close> is false; \<open>Edge\<close> is \<open>\b\<close>,
  \<open>NotAfter\<close> and \<open>NotBefore\<close> are the negative look-around of one character.
\<close>

datatype pattern =
    One "char \<Rightarrow> bool"
  | Nothing
  | Then pattern pattern
  | Or pattern pattern
  | Repeat nat "nat option" bool pattern
  | Secret pattern
  | Edge
  | NotAfter "char \<Rightarrow> bool"
  | NotBefore "char \<Rightarrow> bool"

record reading =
  rg_prev :: "char option"
  rg_offset :: nat
  rg_rest :: string
  rg_secret :: "(nat \<times> nat) option"

definition holds_at :: "(char \<Rightarrow> bool) \<Rightarrow> char option \<Rightarrow> bool" where
  "holds_at p c = (case c of None \<Rightarrow> False | Some x \<Rightarrow> p x)"

definition next_char :: "reading \<Rightarrow> char option" where
  "next_char g = (case rg_rest g of [] \<Rightarrow> None | c # _ \<Rightarrow> Some c)"

definition step_one :: "(char \<Rightarrow> bool) \<Rightarrow> reading \<Rightarrow> reading list" where
  "step_one p g = (case rg_rest g of
      [] \<Rightarrow> []
    | c # cs \<Rightarrow> if p c then [g\<lparr>rg_prev := Some c, rg_offset := rg_offset g + 1, rg_rest := cs\<rparr>] else [])"

text \<open>Up to \<open>k\<close> further repetitions, at least \<open>lo\<close> of them.\<close>

primrec repeated :: "(reading \<Rightarrow> reading list) \<Rightarrow> bool \<Rightarrow> nat \<Rightarrow> nat \<Rightarrow> reading \<Rightarrow> reading list" where
  "repeated m greedy 0 lo g = (if lo = 0 then [g] else [])"
| "repeated m greedy (Suc k) lo g =
     (if lo > 0 then concat (map (repeated m greedy k (lo - 1)) (m g))
      else if greedy then concat (map (repeated m greedy k 0) (m g)) @ [g]
      else g # concat (map (repeated m greedy k 0) (m g)))"

text \<open>Without an upper bound every repetition takes a character at least, so the rest of the text bounds them.\<close>

primrec ends :: "pattern \<Rightarrow> reading \<Rightarrow> reading list" where
  "ends (One p) g = step_one p g"
| "ends Nothing g = [g]"
| "ends (Then a b) g = concat (map (ends b) (ends a g))"
| "ends (Or a b) g = ends a g @ ends b g"
| "ends (Repeat lo hi greedy p) g =
     repeated (ends p) greedy (case hi of None \<Rightarrow> lo + length (rg_rest g) | Some h \<Rightarrow> h) lo g"
| "ends (Secret p) g = map (\<lambda>e. e\<lparr>rg_secret := Some (rg_offset g, rg_offset e)\<rparr>) (ends p g)"
| "ends Edge g = (if holds_at is_word (rg_prev g) \<noteq> holds_at is_word (next_char g) then [g] else [])"
| "ends (NotAfter p) g = (if holds_at p (rg_prev g) then [] else [g])"
| "ends (NotBefore p) g = (if holds_at p (next_char g) then [] else [g])"

section \<open>All matches\<close>

record reading_found =
  fd_start :: nat
  fd_end :: nat
  fd_secret :: "(nat \<times> nat) option"

text \<open>\<open>finditer\<close>; \<open>skip\<close> is how much of the text the last match has taken beyond this position.\<close>

primrec find_all :: "pattern \<Rightarrow> nat \<Rightarrow> char option \<Rightarrow> nat \<Rightarrow> string \<Rightarrow> reading_found list" where
  "find_all p skip prev off [] = []"
| "find_all p skip prev off (c # cs) =
     (if skip > 0 then find_all p (skip - 1) (Some c) (off + 1) cs
      else case ends p \<lparr>rg_prev = prev, rg_offset = off, rg_rest = c # cs, rg_secret = None\<rparr> of
          [] \<Rightarrow> find_all p 0 (Some c) (off + 1) cs
        | e # _ \<Rightarrow> \<lparr>fd_start = off, fd_end = rg_offset e, fd_secret = rg_secret e\<rparr>
            # find_all p (rg_offset e - off - 1) (Some c) (off + 1) cs)"

definition finditer :: "pattern \<Rightarrow> string \<Rightarrow> reading_found list" where
  "finditer p s = find_all p 0 None 0 s"

section \<open>Building blocks\<close>

fun all_of :: "pattern list \<Rightarrow> pattern" where
  "all_of [] = Nothing"
| "all_of [p] = p"
| "all_of (p # ps) = Then p (all_of ps)"

fun any_of :: "pattern list \<Rightarrow> pattern" where
  "any_of [] = One (\<lambda>_. False)"
| "any_of [p] = p"
| "any_of (p # ps) = Or p (any_of ps)"

definition literal :: "string \<Rightarrow> pattern" where
  "literal s = all_of (map (\<lambda>c. One (\<lambda>x. x = c)) s)"

text \<open>The same in any case, for \<open>(?i)\<close>: the text in small and in big letters.\<close>

definition literal_ci :: "string \<Rightarrow> string \<Rightarrow> pattern" where
  "literal_ci small big = all_of (map (\<lambda>(a, b). One (\<lambda>x. x = a \<or> x = b)) (zip small big))"

definition many :: "(char \<Rightarrow> bool) \<Rightarrow> pattern" where
  "many p = Repeat 0 None True (One p)"

definition at_least :: "nat \<Rightarrow> (char \<Rightarrow> bool) \<Rightarrow> pattern" where
  "at_least n p = Repeat n None True (One p)"

definition exactly :: "nat \<Rightarrow> (char \<Rightarrow> bool) \<Rightarrow> pattern" where
  "exactly n p = Repeat n (Some n) True (One p)"

definition maybe :: "pattern \<Rightarrow> pattern" where
  "maybe p = Repeat 0 (Some 1) True p"

section \<open>Where a match lies\<close>

definition reads :: "reading \<Rightarrow> reading \<Rightarrow> bool" where
  "reads g e \<longleftrightarrow> (\<exists>taken. rg_rest g = taken @ rg_rest e \<and> rg_offset e = rg_offset g + length taken)"

text \<open>A span that a pattern marks as secret lies within what it reads.\<close>

definition marks :: "reading \<Rightarrow> reading \<Rightarrow> bool" where
  "marks g e \<longleftrightarrow> (rg_secret e = rg_secret g \<or>
     (\<exists>a b. rg_secret e = Some (a, b) \<and> rg_offset g \<le> a \<and> a \<le> b \<and> b \<le> rg_offset e))"

definition follows :: "reading \<Rightarrow> reading \<Rightarrow> bool" where
  "follows g e \<longleftrightarrow> reads g e \<and> marks g e"

lemma follows_refl: "follows g g"
  by (simp add: follows_def reads_def marks_def)

lemma reads_trans: "reads g e \<Longrightarrow> reads e h \<Longrightarrow> reads g h"
  by (auto simp: reads_def)

lemma reads_offset: "reads g e \<Longrightarrow> rg_offset g \<le> rg_offset e"
  by (auto simp: reads_def)

lemma follows_trans: "follows g e \<Longrightarrow> follows e h \<Longrightarrow> follows g h"
  using reads_trans [of g e h] reads_offset [of g e] reads_offset [of e h]
  unfolding follows_def marks_def by auto

lemma repeated_follows:
  assumes step: "\<And>g e. e \<in> set (m g) \<Longrightarrow> follows g e"
  shows "e \<in> set (repeated m greedy k lo g) \<Longrightarrow> follows g e"
proof (induction k arbitrary: lo g)
  case (Suc k)
  have "follows g e" if "h \<in> set (m g)" "e \<in> set (repeated m greedy k n h)" for h n
    using that step Suc.IH follows_trans by blast
  then show ?case using Suc.prems follows_refl by (auto split: if_splits)
qed (auto simp: follows_refl split: if_splits)

lemma step_one_follows: "e \<in> set (step_one p g) \<Longrightarrow> follows g e"
  by (cases "rg_rest g") (auto simp: step_one_def follows_def reads_def marks_def split: if_splits)

lemma ends_follows: "e \<in> set (ends p g) \<Longrightarrow> follows g e"
proof (induction p arbitrary: g e)
  case (One q)
  then show ?case by (simp add: step_one_follows)
next
  case (Then a b)
  then obtain h where "h \<in> set (ends a g)" "e \<in> set (ends b h)" by auto
  then show ?case using Then.IH follows_trans by blast
next
  case (Repeat lo hi greedy p)
  then show ?case using repeated_follows [of "ends p"] by auto
next
  case (Secret p)
  then obtain h where h: "h \<in> set (ends p g)" "e = h\<lparr>rg_secret := Some (rg_offset g, rg_offset h)\<rparr>" by auto
  then have "reads g h" using Secret.IH by (simp add: follows_def)
  then show ?case using h(2) reads_offset [of g h] by (simp add: follows_def reads_def marks_def)
qed (auto simp: follows_refl split: if_splits)

text \<open>Every match lies in the text, and its secret in the match.\<close>

definition placed :: "nat \<Rightarrow> nat \<Rightarrow> reading_found \<Rightarrow> bool" where
  "placed lo hi f \<longleftrightarrow> lo \<le> fd_start f \<and> fd_start f \<le> fd_end f \<and> fd_end f \<le> hi \<and>
     (case fd_secret f of None \<Rightarrow> True | Some (a, b) \<Rightarrow> fd_start f \<le> a \<and> a \<le> b \<and> b \<le> fd_end f)"

lemma find_all_placed: "f \<in> set (find_all p skip prev off s) \<Longrightarrow> placed off (off + length s) f"
proof (induction s arbitrary: skip prev off)
  case (Cons c cs)
  have later: "placed off (off + length (c # cs)) f" if "f \<in> set (find_all p k q (off + 1) cs)" for k q
    using Cons.IH [OF that] by (auto simp: placed_def)
  show ?case
  proof (cases "skip > 0")
    case True
    then show ?thesis using Cons.prems later by simp
  next
    case False
    let ?g = "\<lparr>rg_prev = prev, rg_offset = off, rg_rest = c # cs, rg_secret = None\<rparr>"
    show ?thesis
    proof (cases "ends p ?g")
      case Nil
      then show ?thesis using Cons.prems False later by simp
    next
      case (Cons e es)
      then have "reads ?g e" "marks ?g e" using ends_follows [of e p ?g] by (simp_all add: follows_def)
      then have "placed off (off + length (c # cs)) \<lparr>fd_start = off, fd_end = rg_offset e, fd_secret = rg_secret e\<rparr>"
        by (auto simp: placed_def reads_def marks_def Cons_eq_append_conv split: option.splits)
      then show ?thesis using Cons.prems Cons False later by auto
    qed
  qed
qed simp

lemma finditer_placed: "f \<in> set (finditer p s) \<Longrightarrow> placed 0 (length s) f"
  using find_all_placed [of f p 0 None 0 s] by (simp add: finditer_def)

end
