(* ===== verification/Redaction.thy ===== *)
theory Redaction
  imports Prelude Patterns ApprovalToken "HOL-Library.List_Lexorder" "HOL-Library.Product_Lexorder"
begin

text \<open>
  The documents of the connector protocol (\<open>models.py\<close> and \<open>sections.py\<close> of
  \<open>gestalt_connector_protocol\<close>), with the field constraints that pydantic checks on a new one.
  The second part has the detectors and the pipeline of \<open>redaction.py\<close>.
\<close>

section \<open>Sections\<close>

record section_base =
  sb_section_id :: string
  sb_text :: string
  sb_metadata :: "(string \<times> string) list"

definition plain_section :: "string \<Rightarrow> section_base" where
  "plain_section t = \<lparr>sb_section_id = '''', sb_text = t, sb_metadata = []\<rparr>"

datatype structured_section =
    HeadingSection section_base int
  | ParagraphSection section_base
  | ListSection section_base bool "string list"
  | TableSection section_base string "string list" "string list list"
  | CodeSection section_base string string
  | CalloutSection section_base string string
  | LinkSection section_base string string

fun section_ok :: "structured_section \<Rightarrow> bool" where
  "section_ok (HeadingSection b level) = (1 \<le> level \<and> level \<le> 6)"
| "section_ok (CalloutSection b title tone_name) = (tone_name \<in> set [''note'', ''info'', ''warning'', ''danger''])"
| "section_ok _ = True"

section \<open>Documents\<close>

record source_metadata =
  sm_connector_id :: string
  sm_connector_name :: string
  sm_source_system :: string
  sm_source_type :: string
  sm_source_url :: string
  sm_external_id :: string
  sm_parent_external_id :: string
  sm_title :: string
  sm_path :: "string list"
  sm_organization :: string
  sm_labels :: "(string \<times> string) list"

definition source_ok :: "source_metadata \<Rightarrow> bool" where
  "source_ok m = (sm_connector_id m \<noteq> '''' \<and> sm_source_type m \<noteq> '''' \<and> sm_external_id m \<noteq> '''')"

record attachment =
  at_attachment_id :: string
  at_filename :: string
  at_media_type :: string
  at_size_bytes :: "int option"
  at_source_url :: string
  at_content_hash :: string
  at_text_extract :: string
  at_metadata :: "(string \<times> string) list"

record access_list =
  al_visibility :: string
  al_allowed_principals :: "string list"
  al_denied_principals :: "string list"
  al_source_acl_hash :: string

definition default_acl :: access_list where
  "default_acl = \<lparr>al_visibility = ''internal'', al_allowed_principals = [], al_denied_principals = [], al_source_acl_hash = ''''\<rparr>"

record redaction_event =
  re_detector_id :: string
  re_sensitive_class :: string
  re_snippet_hash :: string
  re_position :: nat
  re_count :: nat

record privacy =
  pv_cloud_llm_eligible :: bool
  pv_contains_pii :: bool
  pv_sensitive_classes_present :: "string list"
  pv_redactions_applied :: "redaction_event list"

definition default_privacy :: privacy where
  "default_privacy = \<lparr>pv_cloud_llm_eligible = True, pv_contains_pii = False, pv_sensitive_classes_present = [], pv_redactions_applied = []\<rparr>"

record timestamps =
  tp_source_created_at :: "utc option"
  tp_source_updated_at :: "utc option"
  tp_ingested_at :: utc
  tp_last_seen_at :: "utc option"

record document_policy =
  dy_display_eligible :: bool
  dy_retrieval_eligible :: bool
  dy_curriculum_eligible :: bool
  dy_retention_class :: string
  dy_license :: string
  dy_attribution :: string
  dy_provenance :: string

definition default_policy :: document_policy where
  "default_policy = \<lparr>dy_display_eligible = False, dy_retrieval_eligible = True, dy_curriculum_eligible = False,
     dy_retention_class = ''standard'', dy_license = '''', dy_attribution = '''', dy_provenance = ''''\<rparr>"

record document_diagnostics =
  dn_connector_version :: string
  dn_schema_version :: string
  dn_checksum :: string
  dn_source_etag :: string
  dn_trace_id :: string
  dn_warnings :: "string list"
  dn_errors :: "string list"

definition diagnostics_with :: "string list \<Rightarrow> document_diagnostics" where
  "diagnostics_with warnings = \<lparr>dn_connector_version = '''', dn_schema_version = ''1.0'', dn_checksum = '''', dn_source_etag = '''',
     dn_trace_id = '''', dn_warnings = warnings, dn_errors = []\<rparr>"

record document =
  dm_doc_id :: string
  dm_source :: source_metadata
  dm_body_text :: string
  dm_sections :: "structured_section list"
  dm_attachments :: "attachment list"
  dm_acl :: access_list
  dm_privacy :: privacy
  dm_timestamps :: timestamps
  dm_tags :: "string list"
  dm_policy :: document_policy
  dm_diagnostics :: document_diagnostics

text \<open>What the constructor of a document accepts.\<close>

definition document_ok :: "document \<Rightarrow> bool" where
  "document_ok d = (dm_doc_id d \<noteq> '''' \<and> dm_body_text d \<noteq> '''' \<and> source_ok (dm_source d) \<and> list_all section_ok (dm_sections d))"

text \<open>
  \<open>redaction.py\<close> of \<open>gestalt_connector_protocol\<close>: the detectors with their patterns, the merge
  of what they find, the replacement, and what becomes of a document. SHA-256 and the search
  for the host names an operator configures are parameters.
\<close>

section \<open>Detections and whitelist\<close>

record detection =
  dt_detector_id :: string
  dt_sensitive_class :: string
  dt_start :: nat
  dt_end :: nat
  dt_value :: string

definition NEVER_ALLOW_CLASSES :: "string list" where
  "NEVER_ALLOW_CLASSES = [''api_key'', ''password'', ''private_key'', ''jwt'']"

record whitelist =
  wl_allow_sensitive_classes :: "string list"
  wl_internal_hostname_patterns :: "string list"

definition allows :: "whitelist \<Rightarrow> string \<Rightarrow> bool" where
  "allows wl c = (c \<in> set (wl_allow_sensitive_classes wl) \<and> c \<notin> set NEVER_ALLOW_CLASSES)"

definition no_whitelist :: whitelist where
  "no_whitelist = \<lparr>wl_allow_sensitive_classes = [], wl_internal_hostname_patterns = []\<rparr>"

record redaction_env =
  rn_sha256 :: "string \<Rightarrow> string"
  rn_find_host :: "string \<Rightarrow> string \<Rightarrow> reading_found list"

type_synonym detector = "string \<Rightarrow> detection list"

section \<open>Detectors\<close>

definition slice :: "nat \<Rightarrow> nat \<Rightarrow> string \<Rightarrow> string" where
  "slice a b s = take (b - a) (drop a s)"

definition detected :: "string \<Rightarrow> string \<Rightarrow> string \<Rightarrow> nat \<Rightarrow> nat \<Rightarrow> detection" where
  "detected detector cls s a b = \<lparr>dt_detector_id = detector, dt_sensitive_class = cls, dt_start = a, dt_end = b, dt_value = slice a b s\<rparr>"

text \<open>The group \<open>secret\<close> where the pattern has one, else the whole match.\<close>

definition span_of :: "reading_found \<Rightarrow> nat \<times> nat" where
  "span_of f = (case fd_secret f of None \<Rightarrow> (fd_start f, fd_end f) | Some ab \<Rightarrow> ab)"

definition regex_detect :: "string \<Rightarrow> string \<Rightarrow> pattern list \<Rightarrow> detector" where
  "regex_detect detector cls patterns s =
     concat (map (\<lambda>p. map (\<lambda>f. case span_of f of (a, b) \<Rightarrow> detected detector cls s a b) (finditer p s)) patterns)"

definition is_quote :: "char \<Rightarrow> bool" where
  "is_quote c \<longleftrightarrow> c \<in> {CHR 0x22, CHR 0x27}"

text \<open>\<open>[^\s"']\<close>\<close>

definition is_plain :: "char \<Rightarrow> bool" where
  "is_plain c \<longleftrightarrow> \<not> is_space c \<and> \<not> is_quote c"

definition is_in :: "string \<Rightarrow> char \<Rightarrow> bool" where
  "is_in cs c = (c \<in> set cs)"

text \<open>\<open>\s*[:=]\s*["']?(?P<secret>[^\s"']{n,})\<close>\<close>

definition assigned_secret :: "nat \<Rightarrow> pattern list" where
  "assigned_secret n = [many is_space, One (is_in '':=''), many is_space, maybe (One is_quote), Secret (at_least n is_plain)]"

definition password_pattern :: pattern where
  "password_pattern = all_of ([Edge, any_of [literal_ci ''password'' ''PASSWORD'', literal_ci ''passwd'' ''PASSWD'', literal_ci ''pwd'' ''PWD'', literal_ci ''client_secret'' ''CLIENT_SECRET'', literal_ci ''secret'' ''SECRET''], Edge]
     @ assigned_secret 6)"

definition is_name :: "char \<Rightarrow> bool" where
  "is_name c \<longleftrightarrow> is_letter c \<or> is_digit c \<or> c = CHR ''_''"

definition named_secret_pattern :: pattern where
  "named_secret_pattern = all_of ([Edge, many is_name, any_of [literal_ci ''password'' ''PASSWORD'', literal_ci ''secret'' ''SECRET'', literal_ci ''token'' ''TOKEN''], many is_name, Edge]
     @ assigned_secret 8)"

text \<open>
  \<open>_entropy(value) >= 1.5\<close>, in exact arithmetic: with the counts \<open>c\<close> of the characters of a text
  of length \<open>n\<close>, the sum of \<open>(c / n) * log2 (n / c)\<close> is at least 1.5 exactly when
  \<open>2 ^ (3 * n) * (\<Prod> c ^ (2 * c)) \<le> n ^ (2 * n)\<close> (lemma \<open>entropy_high_iff\<close>).
\<close>

definition char_counts :: "string \<Rightarrow> nat list" where
  "char_counts s = map (\<lambda>c. count_list s c) (remdups s)"

definition entropy_high :: "string \<Rightarrow> bool" where
  "entropy_high s = (s \<noteq> '''' \<and>
     2 ^ (3 * length s) * prod_list (map (\<lambda>c. c ^ (2 * c)) (char_counts s)) \<le> length s ^ (2 * length s))"

definition password_detect :: detector where
  "password_detect s = regex_detect ''password-detector-v1'' ''password'' [password_pattern] s
     @ filter (\<lambda>d. entropy_high (dt_value d)) (regex_detect ''password-detector-v1'' ''password'' [named_secret_pattern] s)"

definition is_token :: "char \<Rightarrow> bool" where
  "is_token c \<longleftrightarrow> is_letter c \<or> is_digit c \<or> c \<in> {CHR ''_'', CHR ''-''}"

definition is_alnum7 :: "char \<Rightarrow> bool" where
  "is_alnum7 c \<longleftrightarrow> is_letter c \<or> is_digit c"

definition key_pattern :: "string \<Rightarrow> pattern \<Rightarrow> pattern" where
  "key_pattern prefix p = Secret (Then (literal prefix) p)"

definition vendor_key_pattern :: pattern where
  "vendor_key_pattern = all_of ([Edge, any_of [literal_ci ''azure'' ''AZURE'', literal_ci ''google'' ''GOOGLE'', literal_ci ''openai'' ''OPENAI'', literal_ci ''anthropic'' ''ANTHROPIC'', literal_ci ''stripe'' ''STRIPE''],
     maybe (One (is_in ''_-'')), Or (all_of [literal_ci ''api'' ''API'', maybe (One (is_in ''_-'')), literal_ci ''key'' ''KEY''])
       (all_of [literal_ci ''client'' ''CLIENT'', maybe (One (is_in ''_-'')), literal_ci ''secret'' ''SECRET'']), Edge] @ assigned_secret 16)"

definition api_key_patterns :: "pattern list" where
  "api_key_patterns = [
     key_pattern ''AKIA'' (exactly 16 (\<lambda>c. is_digit c \<or> is_big c)),
     key_pattern ''ghp_'' (at_least 20 is_name),
     key_pattern ''github_pat_'' (at_least 20 is_name),
     key_pattern ''sk_live_'' (at_least 16 is_alnum7),
     key_pattern ''sk-ant-'' (at_least 20 is_token),
     key_pattern ''sk-'' (at_least 20 is_alnum7),
     key_pattern ''AIza'' (at_least 20 is_token),
     vendor_key_pattern]"

definition api_key_detect :: detector where
  "api_key_detect = regex_detect ''api-key-detector-v1'' ''api_key'' api_key_patterns"

definition private_key_pattern :: pattern where
  "private_key_pattern = Secret (all_of [literal ''-----BEGIN '', many (\<lambda>c. is_big c \<or> c = CHR '' ''), literal ''PRIVATE KEY-----'',
     Repeat 1 None False (One (\<lambda>_. True)), literal ''-----END '', many (\<lambda>c. is_big c \<or> c = CHR '' ''), literal ''PRIVATE KEY-----''])"

definition private_key_detect :: detector where
  "private_key_detect = regex_detect ''private-key-detector-v1'' ''private_key'' [private_key_pattern]"

definition jwt_pattern :: pattern where
  "jwt_pattern = Secret (all_of [literal ''eyJ'', at_least 8 is_token, literal ''.'', at_least 8 is_token, literal ''.'', at_least 8 is_token])"

definition jwt_detect :: detector where
  "jwt_detect = regex_detect ''jwt-detector-v1'' ''jwt'' [jwt_pattern]"

definition ssn_pattern :: pattern where
  "ssn_pattern = all_of [Edge, exactly 3 is_digit, literal ''-'', exactly 2 is_digit, literal ''-'', exactly 4 is_digit, Edge]"

definition email_pattern :: pattern where
  "email_pattern = all_of [Edge, at_least 1 (\<lambda>c. is_letter c \<or> is_digit c \<or> is_in ''._%+-'' c), literal ''@'',
     at_least 1 (\<lambda>c. is_letter c \<or> is_digit c \<or> is_in ''.-'' c), literal ''.'', at_least 2 is_letter, Edge]"

definition phone_pattern :: pattern where
  "phone_pattern = all_of [NotAfter is_digit, maybe (Then (literal ''+1'') (maybe (One (is_in ''-. '')))), maybe (literal ''(''),
     exactly 3 is_digit, maybe (literal '')''), One (is_in ''-. ''), exactly 3 is_digit, One (is_in ''-. ''), exactly 4 is_digit, NotBefore is_digit]"

definition card_pattern :: pattern where
  "card_pattern = all_of [Edge, Repeat 13 (Some 19) True (Then (One is_digit) (Repeat 0 None False (One (is_in '' -'')))), Edge]"

definition account_pattern :: pattern where
  "account_pattern = all_of [Edge, any_of [literal_ci ''account'' ''ACCOUNT'', literal_ci ''acct'' ''ACCT'', literal_ci ''routing'' ''ROUTING''], Edge,
     Repeat 0 (Some 20) True (One (\<lambda>c. \<not> is_digit c)), Secret (Repeat 8 (Some 17) True (One is_digit)), Edge]"

text \<open>\<open>_luhn\<close>\<close>

definition digit_values :: "string \<Rightarrow> int list" where
  "digit_values s = map (\<lambda>c. int (of_char c) - 48) (filter is_digit s)"

fun luhn_sum :: "bool \<Rightarrow> int list \<Rightarrow> int" where
  "luhn_sum doubled [] = 0"
| "luhn_sum doubled (d # ds) =
     (if doubled then (if d * 2 > 9 then d * 2 - 9 else d * 2) else d) + luhn_sum (\<not> doubled) ds"

definition luhn :: "string \<Rightarrow> bool" where
  "luhn s = (let ds = digit_values s in length ds \<ge> 13 \<and> luhn_sum (even (length ds)) ds mod 10 = 0)"

definition pii_detect :: detector where
  "pii_detect s =
     (let found = regex_detect ''pii-detector-v1'' in
      found ''ssn'' [ssn_pattern] s @ found ''email'' [email_pattern] s @ found ''phone'' [phone_pattern] s
      @ filter (\<lambda>d. luhn (dt_value d)) (found ''credit_card'' [card_pattern] s) @ found ''bank_account'' [account_pattern] s)"

definition address_pattern :: pattern where
  "address_pattern = all_of [Edge, Repeat 3 (Some 3) True (Then (Repeat 1 (Some 3) True (One is_digit)) (literal ''.'')),
     Repeat 1 (Some 3) True (One is_digit), Edge]"

text \<open>\<open>ipaddress.ip_address(value)\<close> for a text of this shape: no leading zeros, at most 255.\<close>

definition octet_of :: "string \<Rightarrow> nat option" where
  "octet_of s = (let n = fold (\<lambda>c k. 10 * k + (of_char c - 48)) s (0 :: nat) in
     if (length s > 1 \<and> hd s = CHR ''0'') \<or> n > 255 then None else Some n)"

definition ipv4_of :: "string \<Rightarrow> nat option" where
  "ipv4_of s = (case map octet_of (split_on CHR ''.'' s) of
      [Some a, Some b, Some c, Some d] \<Rightarrow> Some (((a * 256 + b) * 256 + c) * 256 + d)
    | _ \<Rightarrow> None)"

text \<open>
  The networks of \<open>IPv4Address.is_private\<close>, first address and size in bits, and the two
  addresses it excepts.
\<close>

definition private_networks :: "(nat \<times> nat) list" where
  "private_networks = [(0, 24), (167772160, 24), (2130706432, 24), (2851995648, 16), (2886729728, 20), (3221225472, 8),
     (3221225642, 1), (3221225984, 8), (3232235520, 16), (3323068416, 17), (3325256704, 8), (3405803776, 8), (4026531840, 28),
     (4294967295, 0)]"

definition is_private_ipv4 :: "nat \<Rightarrow> bool" where
  "is_private_ipv4 a = (list_ex (\<lambda>(base, bits). a div 2 ^ bits = base div 2 ^ bits) private_networks
     \<and> a \<notin> {3221225481, 3221225482})"

definition internal_network_detect :: "redaction_env \<Rightarrow> string list \<Rightarrow> detector" where
  "internal_network_detect e hosts s =
     (let detector = ''internal-network-detector-v1''; cls = ''internal_network'' in
      filter (\<lambda>d. case ipv4_of (dt_value d) of None \<Rightarrow> False | Some a \<Rightarrow> is_private_ipv4 a) (regex_detect detector cls [address_pattern] s)
      @ concat (map (\<lambda>h. map (\<lambda>f. detected detector cls s (fd_start f) (fd_end f)) (rn_find_host e h s)) hosts))"

definition default_detectors :: "redaction_env \<Rightarrow> whitelist \<Rightarrow> detector list" where
  "default_detectors e wl = [password_detect, api_key_detect, private_key_detect, jwt_detect, pii_detect,
     internal_network_detect e (wl_internal_hostname_patterns wl)]"

section \<open>The pipeline\<close>

text \<open>\<open>last_end\<close> is -1 at first; an unsigned comparison needs no sentinel.\<close>

fun merge_from :: "nat \<Rightarrow> detection list \<Rightarrow> detection list" where
  "merge_from last_end [] = []"
| "merge_from last_end (d # ds) = (if dt_start d < last_end then merge_from last_end ds else d # merge_from (dt_end d) ds)"

definition detection_key :: "detection \<Rightarrow> nat \<times> int" where
  "detection_key d = (dt_start d, - (int (dt_end d) - int (dt_start d)))"

definition found_by :: "detector list \<Rightarrow> string \<Rightarrow> detection list" where
  "found_by detectors s = concat (map (\<lambda>f. f s) detectors)"

definition merged_detections :: "detector list \<Rightarrow> string \<Rightarrow> detection list" where
  "merged_detections detectors s = merge_from 0 (sort_key detection_key (found_by detectors s))"

definition event_of :: "redaction_env \<Rightarrow> detection \<Rightarrow> redaction_event" where
  "event_of e d = \<lparr>re_detector_id = dt_detector_id d, re_sensitive_class = dt_sensitive_class d,
     re_snippet_hash = take 16 (rn_sha256 e (utf8_encode (dt_value d))), re_position = dt_start d, re_count = 1\<rparr>"

definition marker :: "string \<Rightarrow> string" where
  "marker cls = ''[REDACTED:'' @ cls @ '']''"

definition redact_one :: "redaction_env \<Rightarrow> whitelist \<Rightarrow> detection \<Rightarrow> string \<times> redaction_event list \<Rightarrow> string \<times> redaction_event list" where
  "redact_one e wl d = (\<lambda>(s, events).
     if allows wl (dt_sensitive_class d) then (s, events)
     else (take (dt_start d) s @ marker (dt_sensitive_class d) @ drop (dt_end d) s, events @ [event_of e d]))"

definition redact :: "redaction_env \<Rightarrow> whitelist \<Rightarrow> string \<Rightarrow> detection list \<Rightarrow> string \<times> redaction_event list" where
  "redact e wl s ds = (case fold (redact_one e wl) (rev ds) (s, []) of (out, events) \<Rightarrow> (out, rev events))"

definition run_pipeline :: "redaction_env \<Rightarrow> whitelist \<Rightarrow> detector list \<Rightarrow> string \<Rightarrow> string \<times> redaction_event list" where
  "run_pipeline e wl detectors s = redact e wl s (merged_detections detectors s)"

definition is_pii_class :: "string \<Rightarrow> bool" where
  "is_pii_class c = (c \<in> set [''ssn'', ''email'', ''phone'', ''credit_card'', ''bank_account''])"

definition apply_to_document :: "redaction_env \<Rightarrow> whitelist \<Rightarrow> detector list \<Rightarrow> document \<Rightarrow> document" where
  "apply_to_document e wl detectors doc =
     (let ds = merged_detections detectors (dm_body_text doc); p = dm_privacy doc;
          classes = sort (remdups (map dt_sensitive_class ds @ pv_sensitive_classes_present p)) in
      case redact e wl (dm_body_text doc) ds of
        (out, events) \<Rightarrow> doc\<lparr>dm_body_text := out, dm_privacy := p\<lparr>
          pv_cloud_llm_eligible := pv_cloud_llm_eligible p \<and> classes = [],
          pv_contains_pii := pv_contains_pii p \<or> list_ex is_pii_class classes,
          pv_sensitive_classes_present := classes, pv_redactions_applied := pv_redactions_applied p @ events\<rparr>\<rparr>)"

end
