(* ===== verification/KeyHealth.thy ===== *)
theory KeyHealth
  imports BudgetAlerts Prelude
begin

text \<open>
  \<open>core/key_validation_monitor.py\<close>: the record of the tests of provider keys, and the alert
  when tests of one provider keep failing. A block of database work that raises leaves the
  tables as they were; the webhook is an outbox, with the success of a post as a parameter.
  Times are compared as instants, which the ISO texts in UTC order like.
  The second part is \<open>core/provider_balance.py\<close>.
\<close>

section \<open>State\<close>

record validation_attempt =
  va_provider_id :: string
  va_success :: bool
  va_failure_type :: string
  va_details :: string
  va_created_at :: utc

record validation_alert =
  vl_provider_id :: string
  vl_failure_type :: string
  vl_failure_count :: nat
  vl_threshold :: int
  vl_details :: string
  vl_timestamp :: utc

record key_monitor =
  km_ready :: bool
  km_webhook_url :: "string option"
  km_failure_threshold :: int
  km_attempts :: "validation_attempt list"
  km_sent :: "(string \<times> utc) list"
  km_outbox :: "validation_alert list"

datatype monitor_point = MonitorInit | AttemptWrite | FailureCount | SentRead | SentWrite | StatsQuery | AttemptDelete

record monitor_env =
  mo_now :: utc
  mo_io :: "monitor_point faults"
  mo_post_ok :: bool

definition DEFAULT_FAILURE_THRESHOLD :: int where
  "DEFAULT_FAILURE_THRESHOLD = 3"

text \<open>\<open>__init__\<close> and \<open>_load_config\<close>, over a database with the given rows.\<close>

definition new_key_monitor :: "environ \<Rightarrow> validation_attempt list \<Rightarrow> (string \<times> utc) list \<Rightarrow> key_monitor" where
  "new_key_monitor env attempts sent = \<lparr>km_ready = False, km_webhook_url = load_webhook env ''KEY_VALIDATION_ALERT_WEBHOOK_URL'',
     km_failure_threshold = (case py_int (getenv_or env ''KEY_VALIDATION_FAILURE_THRESHOLD'' ''3'') of
        None \<Rightarrow> DEFAULT_FAILURE_THRESHOLD | Some n \<Rightarrow> n),
     km_attempts = attempts, km_sent = sent, km_outbox = []\<rparr>"

section \<open>Operations\<close>

definition monitor_init :: "monitor_env \<Rightarrow> key_monitor \<Rightarrow> key_monitor" where
  "monitor_init e m = (if km_ready m then m else if mo_io e MonitorInit \<noteq> None then m else m\<lparr>km_ready := True\<rparr>)"

definition last_sent :: "key_monitor \<Rightarrow> string \<Rightarrow> utc option" where
  "last_sent m p = map_option snd (find_row fst p (km_sent m))"

definition put_sent :: "string \<Rightarrow> utc \<Rightarrow> key_monitor \<Rightarrow> key_monitor" where
  "put_sent p t m = m\<lparr>km_sent := upsert fst (\<lambda>r. (fst r, t)) (p, t) (km_sent m)\<rparr>"

definition sent_recently :: "monitor_env \<Rightarrow> string \<Rightarrow> key_monitor \<Rightarrow> bool" where
  "sent_recently e p m =
     (mo_io e SentRead = None \<and> (case last_sent m p of None \<Rightarrow> False | Some t \<Rightarrow> mo_now e - t < hours 1))"

text \<open>
  \<open>_send_alert\<close> looks up the last alert, and later posts and records; between the two, other
  tests may do the same. A failed look-up does not stop the post; a post that failed is not
  recorded.
\<close>

definition alert_due :: "monitor_env \<Rightarrow> string \<Rightarrow> key_monitor \<Rightarrow> bool" where
  "alert_due e p m = (km_webhook_url m \<noteq> None \<and> \<not> sent_recently e p m)"

definition post_alert :: "monitor_env \<Rightarrow> string \<Rightarrow> string \<Rightarrow> nat \<Rightarrow> string \<Rightarrow> key_monitor \<Rightarrow> bool \<times> key_monitor" where
  "post_alert e p failure_type n details m =
     (let m1 = m\<lparr>km_outbox := km_outbox m @ [\<lparr>vl_provider_id = p, vl_failure_type = failure_type, vl_failure_count = n,
             vl_threshold = km_failure_threshold m, vl_details = details, vl_timestamp = mo_now e\<rparr>]\<rparr>
      in if \<not> mo_post_ok e \<or> mo_io e SentWrite \<noteq> None then (False, m1) else (True, put_sent p (mo_now e) m1))"

definition send_validation_alert :: "monitor_env \<Rightarrow> string \<Rightarrow> string \<Rightarrow> nat \<Rightarrow> string \<Rightarrow> key_monitor \<Rightarrow> bool \<times> key_monitor" where
  "send_validation_alert e p failure_type n details m =
     (if alert_due e p m then post_alert e p failure_type n details m else (False, m))"

definition failures_since :: "utc \<Rightarrow> string \<Rightarrow> key_monitor \<Rightarrow> nat" where
  "failures_since t p m =
     length (filter (\<lambda>a. va_provider_id a = p \<and> \<not> va_success a \<and> va_created_at a > t) (km_attempts m))"

definition check_failures :: "monitor_env \<Rightarrow> string \<Rightarrow> string \<Rightarrow> string \<Rightarrow> key_monitor \<Rightarrow> key_monitor" where
  "check_failures e p failure_type details m =
     (if mo_io e FailureCount \<noteq> None then m
      else let n = failures_since (mo_now e - hours 1) p m in
        if int n \<ge> km_failure_threshold m then snd (send_validation_alert e p failure_type n details m) else m)"

definition record_attempt :: "monitor_env \<Rightarrow> string \<Rightarrow> bool \<Rightarrow> string option \<Rightarrow> string \<Rightarrow> key_monitor \<Rightarrow> key_monitor" where
  "record_attempt e p ok failure_type details m0 =
     (let m = monitor_init e m0 in
      if \<not> km_ready m then m
      else let m1 = (if mo_io e AttemptWrite \<noteq> None then m
               else m\<lparr>km_attempts := km_attempts m @ [\<lparr>va_provider_id = p, va_success = ok, va_failure_type = opt_str_or failure_type '''',
                 va_details = details, va_created_at = mo_now e\<rparr>]\<rparr>)
        in if \<not> ok \<and> km_webhook_url m1 \<noteq> None then check_failures e p (opt_str_or failure_type ''unknown'') details m1 else m1)"

text \<open>\<open>get_stats\<close>: successes and failures of one provider, or of each that was tested.\<close>

record provider_stats =
  sp_success :: nat
  sp_failures :: nat

definition stats_of :: "utc \<Rightarrow> string \<Rightarrow> key_monitor \<Rightarrow> provider_stats" where
  "stats_of t p m =
     (let hit = filter (\<lambda>a. va_provider_id a = p \<and> va_created_at a > t) (km_attempts m)
      in \<lparr>sp_success = length (filter va_success hit), sp_failures = length (filter (\<lambda>a. \<not> va_success a) hit)\<rparr>)"

datatype monitor_stats =
    StatsError string
  | StatsOne string int provider_stats
  | StatsAll int "(string \<times> provider_stats) list"

definition get_stats :: "monitor_env \<Rightarrow> string option \<Rightarrow> int \<Rightarrow> key_monitor \<Rightarrow> monitor_stats \<times> key_monitor" where
  "get_stats e provider n m0 =
     (let m = monitor_init e m0; since = mo_now e - hours n in
      (if \<not> km_ready m then StatsError ''monitor_not_ready''
       else case mo_io e StatsQuery of
           Some err \<Rightarrow> StatsError err
         | None \<Rightarrow>
             if provider \<noteq> None \<and> provider \<noteq> Some '''' then StatsOne (the provider) n (stats_of since (the provider) m)
             else StatsAll n (map (\<lambda>p. (p, stats_of since p m))
               (remdups (map va_provider_id (filter (\<lambda>a. va_created_at a > since) (km_attempts m))))), m))"

definition cleanup_attempts :: "monitor_env \<Rightarrow> int \<Rightarrow> key_monitor \<Rightarrow> nat \<times> key_monitor" where
  "cleanup_attempts e n m0 =
     (let m = monitor_init e m0; old = (\<lambda>a. va_created_at a < mo_now e - days n) in
      if \<not> km_ready m \<or> mo_io e AttemptDelete \<noteq> None then (0, m)
      else (length (filter old (km_attempts m)), m\<lparr>km_attempts := filter (\<lambda>a. \<not> old a) (km_attempts m)\<rparr>))"

section \<open>The alerts sent are a key/value table\<close>

interpretation sent_kv: kv_store last_sent put_sent
proof unfold_locales
  fix p and t :: utc and m :: key_monitor and q
  show "last_sent (put_sent p t m) q = (if q = p then Some t else last_sent m q)"
    by (simp add: last_sent_def put_sent_def find_row_upsert split: option.split)
qed

text \<open>
  \<open>core/provider_balance.py\<close>: what a vendor says is left of the credit, cached for some time,
  and the estimate from the spend recorded here. The answer of the vendor is a parameter; its
  lock makes each operation one step. Times are seconds.
\<close>

section \<open>Snapshots\<close>

record balance_snapshot =
  bl_provider_id :: string
  bl_available :: bool
  bl_source :: string
  bl_limit_usd :: rat
  bl_used_usd :: rat
  bl_remaining_usd :: rat
  bl_is_free_tier :: bool
  bl_checked_at :: rat
  bl_error :: string

record balance_checker =
  bk_api_key :: string
  bk_cache_ttl :: rat
  bk_cached :: "balance_snapshot option"

definition CACHE_TTL_SECONDS :: rat where
  "CACHE_TTL_SECONDS = 300"

definition new_balance_checker :: "string \<Rightarrow> balance_checker" where
  "new_balance_checker k = \<lparr>bk_api_key = k, bk_cache_ttl = CACHE_TTL_SECONDS, bk_cached = None\<rparr>"

text \<open>
  The answer for a key: limit, usage (\<open>None\<close> where null or missing) and the flag of the free
  tier, or the class of the exception the request or its decoding raised.
\<close>

datatype balance_answer = BalanceData "rat option" "rat option" bool | BalanceFails string

record balance_env =
  bv_now :: rat
  bv_answer :: "string \<Rightarrow> balance_answer"

section \<open>Operations\<close>

definition unavailable_balance :: "rat \<Rightarrow> string \<Rightarrow> balance_snapshot" where
  "unavailable_balance now err = \<lparr>bl_provider_id = ''openrouter'', bl_available = False, bl_source = ''unavailable'', bl_limit_usd = 0,
     bl_used_usd = 0, bl_remaining_usd = 0, bl_is_free_tier = False, bl_checked_at = now, bl_error = err\<rparr>"

definition fetch_balance :: "balance_env \<Rightarrow> string \<Rightarrow> balance_snapshot" where
  "fetch_balance e k =
     (if k = '''' then unavailable_balance (bv_now e) ''missing_api_key''
      else case bv_answer e k of
          BalanceFails err \<Rightarrow> unavailable_balance (bv_now e) err
        | BalanceData limit usage free \<Rightarrow>
            let l = (case limit of None \<Rightarrow> 0 | Some x \<Rightarrow> x); u = (case usage of None \<Rightarrow> 0 | Some x \<Rightarrow> x) in
            \<lparr>bl_provider_id = ''openrouter'', bl_available = True, bl_source = ''live'', bl_limit_usd = l, bl_used_usd = u,
             bl_remaining_usd = (if l > 0 then max (l - u) 0 else 0), bl_is_free_tier = free, bl_checked_at = bv_now e, bl_error = ''''\<rparr>)"

definition get_balance :: "balance_env \<Rightarrow> balance_checker \<Rightarrow> balance_snapshot \<times> balance_checker" where
  "get_balance e c =
     (case bk_cached c of
        Some b \<Rightarrow> if bv_now e - bl_checked_at b < bk_cache_ttl c then (b\<lparr>bl_provider_id := ''openrouter'', bl_source := ''cached''\<rparr>, c)
          else (let b1 = fetch_balance e (bk_api_key c) in (b1, c\<lparr>bk_cached := Some b1\<rparr>))
      | None \<Rightarrow> (let b1 = fetch_balance e (bk_api_key c) in (b1, c\<lparr>bk_cached := Some b1\<rparr>)))"

definition invalidate_balance :: "balance_checker \<Rightarrow> balance_checker" where
  "invalidate_balance c = c\<lparr>bk_cached := None\<rparr>"

definition local_tracking_balance :: "rat \<Rightarrow> string \<Rightarrow> rat \<Rightarrow> rat \<Rightarrow> rat \<Rightarrow> rat \<Rightarrow> balance_snapshot" where
  "local_tracking_balance now p max_daily max_monthly day_used month_used =
     (let daily = (if max_daily > 0 then max (max_daily - day_used) 0 else 0);
          monthly = (if max_monthly > 0 then max (max_monthly - month_used) 0 else 0) in
      \<lparr>bl_provider_id = p, bl_available = True, bl_source = ''local_tracking'', bl_limit_usd = max_monthly, bl_used_usd = month_used,
       bl_remaining_usd = (if max_daily > 0 \<and> max_monthly > 0 then min daily monthly else max daily monthly),
       bl_is_free_tier = False, bl_checked_at = now, bl_error = ''''\<rparr>)"

section \<open>Lemmas\<close>

lemma get_balance_key [simp]: "bk_api_key (snd (get_balance e c)) = bk_api_key c"
  by (simp add: get_balance_def Let_def split: option.split)

lemma invalidate_key [simp]: "bk_api_key (invalidate_balance c) = bk_api_key c"
  by (simp add: invalidate_balance_def)

text \<open>What is answered was asked of the vendor within the life of the cache, under the key of the checker.\<close>

definition cache_fresh :: "(rat \<Rightarrow> string \<Rightarrow> balance_answer) \<Rightarrow> balance_checker \<Rightarrow> bool" where
  "cache_fresh vendor c =
     (case bk_cached c of None \<Rightarrow> True
      | Some b \<Rightarrow> b = fetch_balance \<lparr>bv_now = bl_checked_at b, bv_answer = vendor (bl_checked_at b)\<rparr> (bk_api_key c))"

lemma fetch_checked_at [simp]: "bl_checked_at (fetch_balance e k) = bv_now e"
  by (simp add: fetch_balance_def unavailable_balance_def Let_def split: balance_answer.split)

lemma get_balance_fresh:
  "cache_fresh vendor c \<Longrightarrow> cache_fresh vendor (snd (get_balance \<lparr>bv_now = t, bv_answer = vendor t\<rparr> c))"
  by (auto simp: cache_fresh_def get_balance_def Let_def split: option.splits)

end
