(* ===== verification/KeyStore.thy ===== *)
theory KeyStore
  imports Tables ApprovalToken "HOL-Library.List_Lexorder"
begin

text \<open>
  \<open>core/key_store.py\<close>: the encrypted keys of the providers and the audit log of their use. Bytes
  are characters below 256. PBKDF2 and AES-GCM are parameters, and so are the random salt and
  nonce of a write. A block of database work that raises does so with an exception class and
  leaves the tables as they were.
\<close>

section \<open>State\<close>

record key_row =
  kr_provider_id :: string
  kr_salt :: string
  kr_nonce :: string
  kr_ciphertext :: string
  kr_updated_at :: string

record key_audit =
  ka_provider_id :: string
  ka_operation :: string
  ka_success :: bool
  ka_error_type :: string
  ka_source_ip :: string
  ka_created_at :: utc

record key_store =
  ks_ready :: bool
  ks_rows :: "key_row list"
  ks_audit :: "key_audit list"

record cipher =
  cf_derive :: "string \<Rightarrow> string \<Rightarrow> string"
  cf_seal :: "string \<Rightarrow> string \<Rightarrow> string \<Rightarrow> string"
  cf_open :: "string \<Rightarrow> string \<Rightarrow> string \<Rightarrow> string option"

datatype key_point = CreateTables | RowQuery | RowWrite | RowDelete | ListQuery | AuditWrite | AuditQuery | AuditDelete

record key_env =
  kn_now :: utc
  kn_iso :: "utc \<Rightarrow> string"
  kn_salt :: string
  kn_nonce :: string
  kn_io :: "key_point faults"
  kn_environ :: environ

definition new_key_store :: key_store where
  "new_key_store = \<lparr>ks_ready = False, ks_rows = [], ks_audit = []\<rparr>"

section \<open>Bytes\<close>

text \<open>\<open>bytes.hex\<close> and \<open>bytes.fromhex\<close>, which skips white space between the bytes.\<close>

definition to_hex :: "string \<Rightarrow> string" where
  "to_hex s = concat (map (\<lambda>c. [hex_digit (of_char c div 16), hex_digit (of_char c mod 16)]) s)"

definition hex_value :: "char \<Rightarrow> nat option" where
  "hex_value c = (let n = (of_char c :: nat) in
     if 48 \<le> n \<and> n \<le> 57 then Some (n - 48) else if 97 \<le> n \<and> n \<le> 102 then Some (n - 87)
     else if 65 \<le> n \<and> n \<le> 70 then Some (n - 55) else None)"

fun from_hex :: "string \<Rightarrow> string option" where
  "from_hex [] = Some []"
| "from_hex [c] = (if c \<in> {CHR '' '', CHR 0x09, CHR 0x0A, CHR 0x0B, CHR 0x0C, CHR 0x0D} then Some [] else None)"
| "from_hex (c # d # s) =
     (if c \<in> {CHR '' '', CHR 0x09, CHR 0x0A, CHR 0x0B, CHR 0x0C, CHR 0x0D} then from_hex (d # s)
      else case (hex_value c, hex_value d) of
          (Some h, Some l) \<Rightarrow> map_option ((#) (char_of (16 * h + l))) (from_hex s)
        | _ \<Rightarrow> None)"

section \<open>Encryption\<close>

definition derive_key :: "cipher \<Rightarrow> string \<Rightarrow> string \<Rightarrow> string" where
  "derive_key cf admin_token salt = cf_derive cf (utf8_encode admin_token) salt"

definition encrypt :: "cipher \<Rightarrow> key_env \<Rightarrow> string \<Rightarrow> string \<Rightarrow> string \<times> string \<times> string" where
  "encrypt cf e plaintext admin_token =
     (kn_salt e, kn_nonce e, cf_seal cf (derive_key cf admin_token (kn_salt e)) (kn_nonce e) (utf8_encode plaintext))"

definition decrypt :: "cipher \<Rightarrow> string \<Rightarrow> string \<Rightarrow> string \<Rightarrow> string \<Rightarrow> string option" where
  "decrypt cf salt nonce ct admin_token = Option.bind (cf_open cf (derive_key cf admin_token salt) nonce ct) utf8_decode"

section \<open>Operations\<close>

definition init_keys :: "key_env \<Rightarrow> key_store \<Rightarrow> key_store" where
  "init_keys e s = (if ks_ready s then s else case kn_io e CreateTables of None \<Rightarrow> s\<lparr>ks_ready := True\<rparr> | Some _ \<Rightarrow> s)"

definition log_access :: "key_env \<Rightarrow> string \<Rightarrow> string \<Rightarrow> bool \<Rightarrow> string \<Rightarrow> string option \<Rightarrow> key_store \<Rightarrow> key_store" where
  "log_access e provider_id operation ok error_type source_ip s =
     (if \<not> ks_ready s then s
      else case kn_io e AuditWrite of
          Some _ \<Rightarrow> s
        | None \<Rightarrow> s\<lparr>ks_audit := ks_audit s @ [\<lparr>ka_provider_id = provider_id, ka_operation = operation, ka_success = ok,
            ka_error_type = error_type, ka_source_ip = (case source_ip of None \<Rightarrow> '''' | Some a \<Rightarrow> a), ka_created_at = kn_now e\<rparr>]\<rparr>)"

definition row_of :: "string \<Rightarrow> key_row list \<Rightarrow> key_row option" where
  "row_of provider_id rows = find_row kr_provider_id provider_id rows"

definition put_row :: "key_row \<Rightarrow> key_row list \<Rightarrow> key_row list" where
  "put_row r rows = upsert kr_provider_id (\<lambda>x. r\<lparr>kr_provider_id := kr_provider_id x\<rparr>) r rows"

definition has_key :: "key_env \<Rightarrow> string \<Rightarrow> key_store \<Rightarrow> bool \<times> key_store" where
  "has_key e provider_id s0 =
     (let s = init_keys e s0 in
      if \<not> ks_ready s then (False, s)
      else case kn_io e RowQuery of
          Some err \<Rightarrow> (False, log_access e provider_id ''has'' False err None s)
        | None \<Rightarrow> let found = row_of provider_id (ks_rows s) \<noteq> None in
            (found, log_access e provider_id ''has'' found '''' None s))"

text \<open>Reading a row: \<open>fromhex\<close> raises ValueError, the decryption gives nothing.\<close>

definition open_row :: "cipher \<Rightarrow> key_row \<Rightarrow> string \<Rightarrow> string option result" where
  "open_row cf r admin_token =
     (case (from_hex (kr_salt r), from_hex (kr_nonce r), from_hex (kr_ciphertext r)) of
        (Some salt, Some nonce, Some ct) \<Rightarrow> Inr (decrypt cf salt nonce ct admin_token)
      | _ \<Rightarrow> Inl (ValueError ''fromhex''))"

definition get_key :: "cipher \<Rightarrow> key_env \<Rightarrow> string \<Rightarrow> string \<Rightarrow> string option \<Rightarrow> key_store \<Rightarrow> string option \<times> key_store" where
  "get_key cf e provider_id admin_token source_ip s0 =
     (let s = init_keys e s0; failed = (\<lambda>err. (None, log_access e provider_id ''get'' False err source_ip s)) in
      if \<not> ks_ready s then failed ''store_not_ready''
      else case kn_io e RowQuery of
          Some err \<Rightarrow> failed err
        | None \<Rightarrow> (case row_of provider_id (ks_rows s) of
              None \<Rightarrow> failed ''not_found''
            | Some r \<Rightarrow> (case open_row cf r admin_token of
                  Inl _ \<Rightarrow> failed ''ValueError''
                | Inr None \<Rightarrow> failed ''decryption_failed''
                | Inr (Some k) \<Rightarrow> (Some k, log_access e provider_id ''get'' True '''' source_ip s))))"

text \<open>The synchronous variants ask the file as it is and log nothing.\<close>

definition has_key_sync :: "key_env \<Rightarrow> string \<Rightarrow> key_store \<Rightarrow> bool" where
  "has_key_sync e provider_id s = (kn_io e RowQuery = None \<and> row_of provider_id (ks_rows s) \<noteq> None)"

definition get_key_sync :: "cipher \<Rightarrow> key_env \<Rightarrow> string \<Rightarrow> string \<Rightarrow> key_store \<Rightarrow> string option" where
  "get_key_sync cf e provider_id admin_token s =
     (case kn_io e RowQuery of
        Some _ \<Rightarrow> None
      | None \<Rightarrow> (case row_of provider_id (ks_rows s) of
            None \<Rightarrow> None
          | Some r \<Rightarrow> (case open_row cf r admin_token of Inl _ \<Rightarrow> None | Inr k \<Rightarrow> k)))"

definition set_key :: "cipher \<Rightarrow> key_env \<Rightarrow> string \<Rightarrow> string \<Rightarrow> string \<Rightarrow> string option \<Rightarrow> key_store \<Rightarrow> bool \<times> key_store" where
  "set_key cf e provider_id raw_key admin_token source_ip s0 =
     (let s = init_keys e s0 in
      if \<not> ks_ready s then (False, log_access e provider_id ''set'' False ''store_not_ready'' source_ip s)
      else case kn_io e RowWrite of
          Some err \<Rightarrow> (False, log_access e provider_id ''set'' False err source_ip s)
        | None \<Rightarrow> (case encrypt cf e raw_key admin_token of (salt, nonce, ct) \<Rightarrow>
            let r = \<lparr>kr_provider_id = provider_id, kr_salt = to_hex salt, kr_nonce = to_hex nonce, kr_ciphertext = to_hex ct,
                  kr_updated_at = kn_iso e (kn_now e)\<rparr>
            in (True, log_access e provider_id ''set'' True '''' source_ip (s\<lparr>ks_rows := put_row r (ks_rows s)\<rparr>))))"

definition delete_key :: "key_env \<Rightarrow> string \<Rightarrow> string option \<Rightarrow> key_store \<Rightarrow> bool \<times> key_store" where
  "delete_key e provider_id source_ip s0 =
     (let s = init_keys e s0 in
      if \<not> ks_ready s then (False, log_access e provider_id ''delete'' False ''store_not_ready'' source_ip s)
      else case kn_io e RowDelete of
          Some err \<Rightarrow> (False, log_access e provider_id ''delete'' False err source_ip s)
        | None \<Rightarrow> let gone = row_of provider_id (ks_rows s) \<noteq> None in
            (gone, log_access e provider_id ''delete'' gone '''' source_ip
               (s\<lparr>ks_rows := filter (\<lambda>r. kr_provider_id r \<noteq> provider_id) (ks_rows s)\<rparr>)))"

definition PROVIDER_ENV_VARS :: "(string \<times> string) list" where
  "PROVIDER_ENV_VARS = [(''openrouter'', ''OPENROUTER_API_KEY''), (''anthropic'', ''ANTHROPIC_API_KEY''),
     (''google'', ''GEMINI_CLOUD_API_KEY''), (''openai'', ''OPENAI_API_KEY''), (''github'', ''APP_GITHUB_TOKEN''),
     (''brave'', ''BRAVE_SEARCH_API_KEY'')]"

definition env_fallback :: "environ \<Rightarrow> string \<Rightarrow> string" where
  "env_fallback env provider_id =
     (case map_of PROVIDER_ENV_VARS provider_id of None \<Rightarrow> '''' | Some v \<Rightarrow> strip (getenv_or env v ''''))"

definition list_keys :: "key_env \<Rightarrow> key_store \<Rightarrow> key_row list \<times> key_store" where
  "list_keys e s0 =
     (let s = init_keys e s0 in
      if \<not> ks_ready s then ([], s)
      else case kn_io e ListQuery of
          Some err \<Rightarrow> ([], log_access e ''*'' ''list'' False err None s)
        | None \<Rightarrow> (sort_key kr_provider_id (ks_rows s), log_access e ''*'' ''list'' True '''' None s))"

record manifest =
  mf_exported_at :: utc
  mf_key_count :: nat
  mf_keys :: "key_row list"

definition export_encrypted :: "key_env \<Rightarrow> key_store \<Rightarrow> manifest \<times> key_store" where
  "export_encrypted e s0 =
     (case list_keys e s0 of
        (keys, s) \<Rightarrow> (\<lparr>mf_exported_at = kn_now e, mf_key_count = length keys, mf_keys = keys\<rparr>, log_access e ''*'' ''export'' True '''' None s))"

text \<open>An entry of a manifest, as parsed: a missing field raises KeyError where it is read.\<close>

type_synonym manifest_entry = "(string \<times> string) list"

definition entry_of :: "key_row \<Rightarrow> manifest_entry" where
  "entry_of r = [(''provider_id'', kr_provider_id r), (''salt'', kr_salt r), (''nonce'', kr_nonce r), (''ciphertext'', kr_ciphertext r),
     (''updated_at'', kr_updated_at r)]"

definition row_of_entry :: "manifest_entry \<Rightarrow> key_row option" where
  "row_of_entry d =
     (case (map_of d ''provider_id'', map_of d ''salt'', map_of d ''nonce'', map_of d ''ciphertext'', map_of d ''updated_at'') of
        (Some p, Some a, Some b, Some c, Some t) \<Rightarrow>
          Some \<lparr>kr_provider_id = p, kr_salt = a, kr_nonce = b, kr_ciphertext = c, kr_updated_at = t\<rparr>
      | _ \<Rightarrow> None)"

text \<open>The comparison with a fresh encryption of the stored key: \<open>None\<close> is a KeyError.\<close>

definition same_key :: "cipher \<Rightarrow> key_env \<Rightarrow> string \<Rightarrow> string \<Rightarrow> manifest_entry \<Rightarrow> bool option" where
  "same_key cf e stored admin_token d =
     (case encrypt cf e stored admin_token of (salt, nonce, ct) \<Rightarrow>
        (case map_of d ''salt'' of
           None \<Rightarrow> None
         | Some a \<Rightarrow> if to_hex salt \<noteq> a then Some False
             else map_option (\<lambda>c. to_hex ct = c) (map_of d ''ciphertext'')))"

definition import_one :: "cipher \<Rightarrow> key_env \<Rightarrow> string \<Rightarrow> manifest_entry \<Rightarrow> (nat \<times> nat) \<times> key_store \<Rightarrow> ((nat \<times> nat) \<times> key_store) result" where
  "import_one cf e admin_token d = (\<lambda>((imported, skipped), s0).
     case map_of d ''provider_id'' of
       None \<Rightarrow> Inl (KeyError ''provider_id'')
     | Some provider_id \<Rightarrow>
         (case get_key cf e provider_id admin_token None s0 of
            (stored, s) \<Rightarrow>
              (case (if stored \<in> {None, Some ''''} then Some False else same_key cf e (the stored) admin_token d) of
                 None \<Rightarrow> Inl (KeyError ''salt'')
               | Some True \<Rightarrow> Inr ((imported, skipped + 1), s)
               | Some False \<Rightarrow>
                   (case (row_of_entry d, kn_io e RowWrite) of
                      (Some r, None) \<Rightarrow> Inr ((imported + 1, skipped), s\<lparr>ks_rows := put_row r (ks_rows s)\<rparr>)
                    | _ \<Rightarrow> Inr ((imported, skipped), s)))))"

primrec import_all ::
  "cipher \<Rightarrow> (nat \<Rightarrow> key_env) \<Rightarrow> string \<Rightarrow> nat \<Rightarrow> manifest_entry list \<Rightarrow> (nat \<times> nat) \<times> key_store \<Rightarrow> ((nat \<times> nat) \<times> key_store) result" where
  "import_all cf es admin_token k [] st = Inr st"
| "import_all cf es admin_token k (d # ds) st =
     (case import_one cf (es k) admin_token d st of Inl err \<Rightarrow> Inl err | Inr st1 \<Rightarrow> import_all cf es admin_token (k + 1) ds st1)"

definition import_encrypted ::
  "cipher \<Rightarrow> key_env \<Rightarrow> (nat \<Rightarrow> key_env) \<Rightarrow> manifest_entry list \<Rightarrow> string \<Rightarrow> key_store \<Rightarrow> ((nat \<times> nat) \<times> key_store) result" where
  "import_encrypted cf e es entries admin_token s0 =
     (let s = init_keys e s0 in
      if \<not> ks_ready s then Inr ((0, 0), log_access e ''*'' ''import'' False ''store_not_ready'' None s)
      else case import_all cf es admin_token 0 entries ((0, 0), s) of
          Inl err \<Rightarrow> Inl err
        | Inr (counts, s1) \<Rightarrow> Inr (counts, log_access e ''*'' ''import'' True '''' None s1))"

definition effective_key :: "cipher \<Rightarrow> key_env \<Rightarrow> string \<Rightarrow> string \<Rightarrow> key_store \<Rightarrow> string \<times> key_store" where
  "effective_key cf e provider_id admin_token s0 =
     (case get_key cf e provider_id admin_token None s0 of
        (stored, s) \<Rightarrow> (opt_str_or stored (env_fallback (kn_environ e) provider_id), s))"

definition given_or_any :: "string option \<Rightarrow> string \<Rightarrow> bool" where
  "given_or_any wanted v = (wanted \<in> {None, Some ''''} \<or> wanted = Some v)"

definition get_audit_log :: "key_env \<Rightarrow> string option \<Rightarrow> string option \<Rightarrow> int \<Rightarrow> int \<Rightarrow> key_store \<Rightarrow> key_audit list \<times> key_store" where
  "get_audit_log e provider_id operation window limit s0 =
     (let s = init_keys e s0 in
      if \<not> ks_ready s \<or> kn_io e AuditQuery \<noteq> None then ([], s)
      else (sql_limit limit (rev (sort_key ka_created_at (filter (\<lambda>a. given_or_any provider_id (ka_provider_id a)
              \<and> given_or_any operation (ka_operation a) \<and> ka_created_at a > kn_now e - window * 3600000000) (ks_audit s)))), s))"

definition cleanup_old_audit_logs :: "key_env \<Rightarrow> int \<Rightarrow> key_store \<Rightarrow> nat \<times> key_store" where
  "cleanup_old_audit_logs e age s0 =
     (let s = init_keys e s0; old = (\<lambda>a. ka_created_at a < kn_now e - days age) in
      if \<not> ks_ready s \<or> kn_io e AuditDelete \<noteq> None then (0, s)
      else (length (filter old (ks_audit s)), s\<lparr>ks_audit := filter (\<lambda>a. \<not> old a) (ks_audit s)\<rparr>))"

end
