(* ===== verification/Registry.thy ===== *)
theory Registry
  imports Json Tables CloudBudget KeyStore RouterState TargetSafety
begin

text \<open>
  \<open>core/model_profile.py\<close>: the profiles of models and the store that loads them. Reading the
  file, and the conversion of one entry by pydantic, are parameters; the loop over the entries
  and what an invalid one does to the others are not.
  The second part is \<open>core/provider_registry.py\<close>, the keys and the routes of a process.
\<close>

record generation_params =
  gp_temperature :: rat
  gp_max_tokens :: int
  gp_top_p :: rat
  gp_stop :: "string list"

definition default_params :: generation_params where
  "default_params = \<lparr>gp_temperature = 7 / 10, gp_max_tokens = 2048, gp_top_p = 1, gp_stop = []\<rparr>"

record model_evidence =
  mv_source :: string
  mv_url :: string
  mv_note :: string

record model_profile =
  mp_name :: string
  mp_provider :: string
  mp_model :: string
  mp_base_url :: string
  mp_model_env :: string
  mp_base_url_env :: string
  mp_api_key_env :: string
  mp_role :: string
  mp_cost_tier :: string
  mp_input_price :: rat
  mp_output_price :: rat
  mp_deployment_status :: string
  mp_runtime_group :: string
  mp_enabled_by_default :: "bool option"
  mp_allowed_response_policies :: "string list"
  mp_params :: generation_params
  mp_recommended_for :: "string list"
  mp_avoid_for :: "string list"
  mp_routing_priority :: int
  mp_capabilities :: "string list"
  mp_tool_calling_quality :: string
  mp_preferred_provider_id :: string
  mp_context_window_tokens :: "int option"
  mp_max_output_tokens :: "int option"
  mp_evidence :: "model_evidence list"
  mp_description :: string

text \<open>The values the class allows.\<close>

definition profile_ok :: "model_profile \<Rightarrow> bool" where
  "profile_ok p = (mp_provider p \<in> set [''llama_cpp'', ''claude'', ''openai_compatible'', ''openrouter''] \<and>
     mp_role p \<in> set [''primary'', ''secondary'', ''escalation''] \<and> mp_cost_tier p \<in> set [''local'', ''low_cost'', ''premium''] \<and>
     mp_deployment_status p \<in> set [''active'', ''candidate'', ''disabled''] \<and>
     mp_tool_calling_quality p \<in> set [''none'', ''weak'', ''ok'', ''strong''])"

definition plain_profile :: "string \<Rightarrow> string \<Rightarrow> string \<Rightarrow> model_profile" where
  "plain_profile name provider model = \<lparr>mp_name = name, mp_provider = provider, mp_model = model, mp_base_url = '''', mp_model_env = '''',
     mp_base_url_env = '''', mp_api_key_env = '''', mp_role = ''primary'', mp_cost_tier = ''local'', mp_input_price = 0, mp_output_price = 0,
     mp_deployment_status = ''active'', mp_runtime_group = '''', mp_enabled_by_default = None, mp_allowed_response_policies = [''local_only''],
     mp_params = default_params, mp_recommended_for = [], mp_avoid_for = [], mp_routing_priority = 0, mp_capabilities = [],
     mp_tool_calling_quality = ''none'', mp_preferred_provider_id = '''', mp_context_window_tokens = None, mp_max_output_tokens = None,
     mp_evidence = [], mp_description = ''''\<rparr>"

definition route_enabled_by_default :: "model_profile \<Rightarrow> bool" where
  "route_enabled_by_default p = (case mp_enabled_by_default p of Some b \<Rightarrow> b | None \<Rightarrow> mp_deployment_status p \<noteq> ''disabled'')"

section \<open>The store\<close>

type_synonym profile_store = "(string \<times> model_profile) list"

datatype profiles_file = NoProfilesFile | ProfilesFile "json result"

record profile_env =
  pn_file :: profiles_file
  pn_read_profile :: "string \<Rightarrow> json \<Rightarrow> model_profile result"
  pn_environ :: environ

text \<open>The loop over the entries: it stops at the first one that is invalid and keeps those before.\<close>

primrec load_entries :: "(string \<Rightarrow> json \<Rightarrow> model_profile result) \<Rightarrow> (string \<times> json) list \<Rightarrow> profile_store \<Rightarrow> unit result \<times> profile_store" where
  "load_entries rd [] store = (Inr (), store)"
| "load_entries rd (x # xs) store =
     (case rd (fst x) (snd x) of
        Inl err \<Rightarrow> (Inl err, store)
      | Inr p \<Rightarrow> load_entries rd xs (dict_set (fst x) p store))"

definition strict_profiles :: "environ \<Rightarrow> bool" where
  "strict_profiles env = (lower (strip (getenv_or env ''LLM_PROFILES_STRICT'' '''')) \<in> {''1'', ''true''})"

text \<open>
  \<open>ProfileStore\<close>. A file whose JSON has no items to read raises AttributeError, which the
  handler does not name.
\<close>

definition load_profiles :: "profile_env \<Rightarrow> profile_store result" where
  "load_profiles e =
     (let failed = (\<lambda>err store. if strict_profiles (pn_environ e) then Inl err else Inr store) in
      case pn_file e of
        NoProfilesFile \<Rightarrow> Inr []
      | ProfilesFile (Inl err) \<Rightarrow> failed err []
      | ProfilesFile (Inr (JObj kvs)) \<Rightarrow>
          (case map_of kvs ''profiles'' of
             None \<Rightarrow> Inr []
           | Some (JObj entries) \<Rightarrow>
               (case load_entries (pn_read_profile e) entries [] of (Inl err, store) \<Rightarrow> failed err store | (Inr _, store) \<Rightarrow> Inr store)
           | Some _ \<Rightarrow> Inl (Raised ''AttributeError''))
      | ProfilesFile (Inr _) \<Rightarrow> Inl (Raised ''AttributeError''))"

definition profile_named :: "string \<Rightarrow> profile_store \<Rightarrow> model_profile option" where
  "profile_named name store = dict_get store name"

definition profile_names :: "profile_store \<Rightarrow> string list" where
  "profile_names store = map fst store"

definition store_profiles :: "profile_store \<Rightarrow> model_profile list" where
  "store_profiles store = map snd store"

section \<open>Lemmas\<close>

lemma load_entries_ok: "list_all (\<lambda>x. \<exists>p. rd (fst x) (snd x) = Inr p) xs \<Longrightarrow> fst (load_entries rd xs store) = Inr ()"
  by (induction xs arbitrary: store) auto

text \<open>An invalid entry takes every later one with it.\<close>

lemma load_entries_stops:
  assumes "list_all (\<lambda>x. \<exists>p. rd (fst x) (snd x) = Inr p) xs" and "rd name j = Inl err"
  shows "load_entries rd (xs @ (name, j) # ys) store = (Inl err, snd (load_entries rd xs store))"
  using assms by (induction xs arbitrary: store) auto

text \<open>
  \<open>core/provider_registry.py\<close>: the routes a process starts with, built from the profiles, the
  environment and the stored keys. A provider object is the record the router uses, with a
  number for its identity, together with what its constructor was given.
\<close>

section \<open>Environment\<close>

text \<open>\<open>env.py\<close> of \<open>gestalt_llm_contract\<close>: the names of the variables and the two endpoints.\<close>

definition ANTHROPIC_API_KEY :: string where "ANTHROPIC_API_KEY = ''ANTHROPIC_API_KEY''"
definition OPENROUTER_API_KEY :: string where "OPENROUTER_API_KEY = ''OPENROUTER_API_KEY''"
definition DEFAULT_OPENROUTER_BASE_URL :: string where "DEFAULT_OPENROUTER_BASE_URL = ''https://openrouter.ai/api/v1''"
definition DEFAULT_LOCAL_BASE_URL :: string where "DEFAULT_LOCAL_BASE_URL = ''http://localhost:8080/v1''"

definition env_text :: "environ \<Rightarrow> string \<Rightarrow> string \<Rightarrow> string" where
  "env_text env name d = strip (getenv_or env name d)"

definition provider_budget_id :: "model_profile \<Rightarrow> string" where
  "provider_budget_id p =
     (if mp_provider p = ''openrouter'' then ''openrouter'' else if mp_provider p = ''claude'' then ''anthropic''
      else if mp_api_key_env p = ''GEMINI_CLOUD_API_KEY'' then ''google'' else ''default'')"

section \<open>The address of a local model\<close>

record split_url =
  sl_scheme :: string
  sl_host :: string
  sl_port :: string
  sl_path :: string

text \<open>
  Scheme, host, the digits of the port and the path of an address without brackets, as
  \<open>urlparse\<close> splits it.
\<close>

definition split_address :: "string \<Rightarrow> split_url" where
  "split_address raw =
     (let (scheme, rest) = split_scheme (sanitize_url raw);
          named = starts_with ''//'' rest;
          netloc = (if named then takeWhile (\<lambda>c. c \<notin> {CHR ''/'', CHR ''?'', CHR ''#''}) (drop 2 rest) else []);
          tail = (if named then drop (2 + length netloc) rest else rest);
          hostinfo = snd (rpartition_at netloc)
      in \<lparr>sl_scheme = scheme, sl_host = lower (host_of hostinfo), sl_port = drop 1 (dropWhile (\<lambda>c. c \<noteq> CHR '':'') hostinfo),
          sl_path = takeWhile (\<lambda>c. c \<notin> {CHR ''?'', CHR ''#''}) tail\<rparr>)"

text \<open>\<open>.port\<close>: nothing for an empty one, ValueError for one that is no number up to 65535.\<close>

definition port_of :: "split_url \<Rightarrow> nat option result" where
  "port_of u = (if sl_port u = '''' then Inr None
     else if list_all is_digit (sl_port u)
     then let n = fold (\<lambda>c k. 10 * k + digit_val c) (sl_port u) (0 :: nat) in if n \<le> 65535 then Inr (Some n) else Inl (ValueError ''Port out of range'')
     else Inl (ValueError ''Port could not be cast to integer value''))"

definition nat_text :: "nat \<Rightarrow> string" where
  "nat_text n = str_of_int (int n)"

definition local_profile_base_url :: "environ \<Rightarrow> string \<Rightarrow> string result" where
  "local_profile_base_url env profile_url =
     (let override = env_text env ''LOCAL_LLM_BASE_URL'' ''''; own = str_or profile_url DEFAULT_LOCAL_BASE_URL in
      if override = '''' then Inr own
      else let p = split_address own; q = split_address override in
        if sl_host p \<in> {''localhost'', ''127.0.0.1''} \<and> sl_host q \<noteq> ''''
        then (case port_of p of
            Inl err \<Rightarrow> Inl err
          | Inr port \<Rightarrow> Inr (str_or (sl_scheme q) (sl_scheme p) @ ''://'' @ sl_host q
              @ (case port of None \<Rightarrow> '''' | Some n \<Rightarrow> if n = 0 then '''' else '':'' @ nat_text n)
              @ str_or (sl_path p) (str_or (sl_path q) ''/v1'')))
        else Inr override)"

section \<open>Profiles of the environment\<close>

record env_profile =
  ep_name :: string
  ep_enabled :: bool
  ep_role :: string
  ep_cost_tier :: string
  ep_deployment_status :: string
  ep_runtime_group :: string
  ep_enabled_by_default :: bool
  ep_allowed_response_policies :: "string list"
  ep_base_url :: string
  ep_api_key :: string
  ep_model :: string
  ep_params :: generation_params
  ep_capabilities :: "string list"
  ep_tool_calling_quality :: string

definition default_local_profile :: env_profile where
  "default_local_profile = \<lparr>ep_name = ''env-local'', ep_enabled = True, ep_role = ''primary'', ep_cost_tier = ''local'',
     ep_deployment_status = ''active'', ep_runtime_group = ''env'', ep_enabled_by_default = True,
     ep_allowed_response_policies = [''local_only''], ep_base_url = DEFAULT_LOCAL_BASE_URL, ep_api_key = '''', ep_model = ''local-model'',
     ep_params = default_params, ep_capabilities = [''chat'', ''rag_answering''], ep_tool_calling_quality = ''none''\<rparr>"

definition default_secondary_profile :: env_profile where
  "default_secondary_profile = \<lparr>ep_name = ''env-secondary'', ep_enabled = False, ep_role = ''secondary'', ep_cost_tier = ''low_cost'',
     ep_deployment_status = ''active'', ep_runtime_group = ''cloud'', ep_enabled_by_default = True,
     ep_allowed_response_policies = [''local_then_low_cost''], ep_base_url = '''', ep_api_key = '''', ep_model = '''',
     ep_params = default_params\<lparr>gp_max_tokens := 4096\<rparr>, ep_capabilities = [''chat'', ''tools'', ''rag_answering''],
     ep_tool_calling_quality = ''strong''\<rparr>"

record registry =
  rg_primary :: env_profile
  rg_secondary :: env_profile
  rg_store :: profile_store
  rg_key_store :: "key_store option"
  rg_admin_token :: string

definition primary_from_env :: "environ \<Rightarrow> profile_store \<Rightarrow> env_profile" where
  "primary_from_env env store =
     (let name = env_text env ''LOCAL_LLM_PROFILE'' '''' in
      case (if name = '''' then None else profile_named name store) of
        Some mp \<Rightarrow> default_local_profile\<lparr>ep_name := mp_name mp, ep_deployment_status := mp_deployment_status mp,
          ep_runtime_group := str_or (mp_runtime_group mp) ''personal_gpu'', ep_enabled_by_default := route_enabled_by_default mp,
          ep_allowed_response_policies := mp_allowed_response_policies mp, ep_base_url := str_or (mp_base_url mp) DEFAULT_LOCAL_BASE_URL,
          ep_model := mp_model mp, ep_params := mp_params mp, ep_capabilities := mp_capabilities mp,
          ep_tool_calling_quality := mp_tool_calling_quality mp\<rparr>
      | None \<Rightarrow> default_local_profile\<lparr>ep_base_url := env_text env ''LOCAL_LLM_BASE_URL'' DEFAULT_LOCAL_BASE_URL,
          ep_model := env_text env ''LOCAL_LLM_MODEL'' ''local-model''\<rparr>)"

definition secondary_from_env :: "environ \<Rightarrow> profile_store \<Rightarrow> env_profile" where
  "secondary_from_env env store =
     (let name = env_text env ''CLAUDE_PROFILE'' ''''; enabled = env_bool env ''ENABLE_CLAUDE_FALLBACK'' False;
          key = env_text env ANTHROPIC_API_KEY '''' in
      case (if name = '''' then None else profile_named name store) of
        Some sp \<Rightarrow> default_secondary_profile\<lparr>ep_name := mp_name sp, ep_enabled := enabled,
          ep_role := (if mp_cost_tier sp = ''premium'' then ''escalation'' else ''secondary''),
          ep_cost_tier := (if mp_cost_tier sp \<in> {''low_cost'', ''premium''} then mp_cost_tier sp else ''low_cost''),
          ep_deployment_status := mp_deployment_status sp, ep_runtime_group := str_or (mp_runtime_group sp) ''cloud'',
          ep_enabled_by_default := route_enabled_by_default sp, ep_allowed_response_policies := mp_allowed_response_policies sp,
          ep_api_key := key, ep_model := mp_model sp, ep_params := mp_params sp, ep_capabilities := mp_capabilities sp,
          ep_tool_calling_quality := mp_tool_calling_quality sp\<rparr>
      | None \<Rightarrow> default_secondary_profile\<lparr>ep_enabled := enabled, ep_api_key := key,
          ep_model := str_or (env_text env ''ANTHROPIC_MODEL'' '''') (env_text env ''CLAUDE_MODEL'' '''')\<rparr>)"

definition registry_from_env :: "environ \<Rightarrow> profile_store \<Rightarrow> registry" where
  "registry_from_env env store = \<lparr>rg_primary = primary_from_env env store, rg_secondary = secondary_from_env env store,
     rg_store = store, rg_key_store = None, rg_admin_token = ''''\<rparr>"

section \<open>Keys\<close>

text \<open>\<open>_get_api_key\<close>: the environment first, then the store.\<close>

definition get_api_key :: "cipher \<Rightarrow> key_env \<Rightarrow> registry \<Rightarrow> string \<Rightarrow> string \<Rightarrow> string" where
  "get_api_key cf e rg provider_id env_var =
     (let key = env_text (kn_environ e) env_var '''' in
      if key \<noteq> '''' then key
      else case rg_key_store rg of
          None \<Rightarrow> ''''
        | Some ks \<Rightarrow> if rg_admin_token rg = '''' then ''''
            else opt_str_or (get_key_sync cf e provider_id (rg_admin_token rg) ks) '''')"

section \<open>Routes\<close>

text \<open>A provider as built: the router's record, the key and the model it was given.\<close>

record built_provider =
  bp_provider :: provider
  bp_api_key :: string
  bp_model :: string

definition built :: "nat \<Rightarrow> string \<Rightarrow> string \<Rightarrow> bool \<Rightarrow> string \<Rightarrow> string \<Rightarrow> generation_params \<Rightarrow> built_provider" where
  "built k cls base_url rekeyable api_key model params =
     \<lparr>bp_provider = \<lparr>pv_id = k, pv_class = cls, pv_base_url = base_url, pv_max_tokens = gp_max_tokens params, pv_closable = True,
        pv_rekeyable = rekeyable\<rparr>, bp_api_key = api_key, bp_model = model\<rparr>"

definition rstrip_slashes :: "string \<Rightarrow> string" where
  "rstrip_slashes s = rev (dropWhile (\<lambda>c. c = CHR ''/'') (rev s))"

definition runtime_group_of :: "model_profile \<Rightarrow> string" where
  "runtime_group_of p = str_or (mp_runtime_group p)
     (if mp_cost_tier p \<in> {''low_cost'', ''premium''} then ''cloud'' else if mp_provider p = ''openrouter'' then ''openrouter'' else ''personal_gpu'')"

definition route_from_model_profile :: "model_profile \<Rightarrow> built_provider option \<Rightarrow> bool \<Rightarrow> string \<Rightarrow> string \<Rightarrow> provider_route" where
  "route_from_model_profile p b configured blocked_reason model =
     \<lparr>pr_name = mp_name p, pr_provider = map_option bp_provider b, pr_provider_type = mp_provider p, pr_model = str_or model (mp_model p),
      pr_role = mp_role p, pr_cost_tier = mp_cost_tier p, pr_allowed_response_policies = mp_allowed_response_policies p,
      pr_recommended_for = mp_recommended_for p, pr_avoid_for = mp_avoid_for p, pr_routing_priority = mp_routing_priority p,
      pr_configured = configured, pr_blocked_reason = blocked_reason, pr_deployment_status = mp_deployment_status p,
      pr_runtime_group = runtime_group_of p, pr_enabled_by_default = route_enabled_by_default p, pr_capabilities = mp_capabilities p,
      pr_tool_calling_quality = mp_tool_calling_quality p, pr_input_price = mp_input_price p, pr_output_price = mp_output_price p,
      pr_provider_budget_id = provider_budget_id p, pr_preferred_provider_id = mp_preferred_provider_id p, pr_catalog_derived = False\<rparr>"

type_synonym built_route = "provider_route \<times> built_provider option"

definition with_provider :: "model_profile \<Rightarrow> built_provider \<Rightarrow> string \<Rightarrow> built_route" where
  "with_provider p b model = (route_from_model_profile p (Some b) True '''' model, Some b)"

definition without_provider :: "model_profile \<Rightarrow> string \<Rightarrow> string \<Rightarrow> built_route" where
  "without_provider p why model = (route_from_model_profile p None False why model, None)"

definition route_from_local_profile :: "environ \<Rightarrow> nat \<Rightarrow> model_profile \<Rightarrow> built_route result" where
  "route_from_local_profile env k p =
     (case local_profile_base_url env (mp_base_url p) of
        Inl err \<Rightarrow> Inl err
      | Inr url \<Rightarrow> Inr (with_provider p (built k ''LocalProvider'' url False '''' (mp_model p) (mp_params p)) ''''))"

definition route_from_claude_profile :: "cipher \<Rightarrow> key_env \<Rightarrow> registry \<Rightarrow> nat \<Rightarrow> model_profile \<Rightarrow> built_route" where
  "route_from_claude_profile cf e rg k p =
     (let key = get_api_key cf e rg ''anthropic'' ANTHROPIC_API_KEY in
      if key = '''' then without_provider p ''missing_api_key'' ''''
      else with_provider p (built k ''ClaudeProvider'' (env_text (kn_environ e) ''ANTHROPIC_BASE_URL'' '''') True key (mp_model p) (mp_params p)) '''')"

text \<open>Which stored key a profile for an OpenAI-compatible endpoint takes.\<close>

definition stored_key_id :: "model_profile \<Rightarrow> string" where
  "stored_key_id p =
     (if contains ''ANTHROPIC'' (mp_api_key_env p) then ''anthropic'' else if contains ''GOOGLE'' (mp_api_key_env p) then ''google''
      else ''openai'')"

definition env_or_profile :: "environ \<Rightarrow> string \<Rightarrow> string \<Rightarrow> string" where
  "env_or_profile env name v = (if name \<noteq> '''' then env_text env name v else v)"

definition route_from_openai_compatible_profile :: "cipher \<Rightarrow> key_env \<Rightarrow> registry \<Rightarrow> nat \<Rightarrow> model_profile \<Rightarrow> built_route" where
  "route_from_openai_compatible_profile cf e rg k p =
     (let env = kn_environ e;
          key = (if mp_api_key_env p \<noteq> '''' then get_api_key cf e rg (stored_key_id p) (mp_api_key_env p) else '''');
          base_url = env_or_profile env (mp_base_url_env p) (mp_base_url p); model = env_or_profile env (mp_model_env p) (mp_model p) in
      if key = '''' then without_provider p ''missing_api_key'' model
      else if base_url = '''' then without_provider p ''missing_base_url'' model
      else with_provider p (built k ''OpenAICompatibleProvider'' (rstrip_slashes base_url) True key model (mp_params p)) model)"

definition route_from_openrouter_profile :: "key_env \<Rightarrow> nat \<Rightarrow> model_profile \<Rightarrow> built_route" where
  "route_from_openrouter_profile e k p =
     (let env = kn_environ e; key = env_text env (str_or (mp_api_key_env p) OPENROUTER_API_KEY) '''';
          from_env = (if mp_base_url_env p \<noteq> '''' then env_text env (mp_base_url_env p) '''' else '''');
          base_url = str_or from_env (str_or (mp_base_url p) (env_text env ''OPENROUTER_BASE_URL'' DEFAULT_OPENROUTER_BASE_URL));
          model = env_or_profile env (mp_model_env p) (mp_model p) in
      if key = '''' then without_provider p ''missing_api_key'' model
      else with_provider p (built k ''OpenAICompatibleProvider'' (rstrip_slashes base_url) True key model (mp_params p)) model)"

definition route_from_provider :: "string \<Rightarrow> built_provider \<Rightarrow> env_profile \<Rightarrow> built_route" where
  "route_from_provider name b p =
     ((plain_route name (Some (bp_provider b)) (pv_class (bp_provider b)) (bp_model b) (ep_role p) (ep_cost_tier p) (ep_allowed_response_policies p))
        \<lparr>pr_deployment_status := ep_deployment_status p, pr_runtime_group := ep_runtime_group p,
         pr_enabled_by_default := ep_enabled_by_default p, pr_capabilities := ep_capabilities p,
         pr_tool_calling_quality := ep_tool_calling_quality p\<rparr>, Some b)"

definition build_primary :: "registry \<Rightarrow> nat \<Rightarrow> built_provider" where
  "build_primary rg k = built k ''LocalProvider'' (ep_base_url (rg_primary rg)) False '''' (ep_model (rg_primary rg)) (ep_params (rg_primary rg))"

definition build_secondary :: "environ \<Rightarrow> registry \<Rightarrow> nat \<Rightarrow> built_provider option" where
  "build_secondary env rg k =
     (let p = rg_secondary rg in
      if \<not> ep_enabled p \<or> ep_api_key p = '''' \<or> ep_model p = '''' then None
      else Some (built k ''ClaudeProvider'' (env_text env ''ANTHROPIC_BASE_URL'' '''') True (ep_api_key p) (ep_model p) (ep_params p)))"

definition route_of_profile :: "cipher \<Rightarrow> key_env \<Rightarrow> registry \<Rightarrow> nat \<Rightarrow> model_profile \<Rightarrow> built_route result" where
  "route_of_profile cf e rg k p =
     (if mp_provider p = ''llama_cpp'' then route_from_local_profile (kn_environ e) k p
      else if mp_provider p = ''openai_compatible'' then Inr (route_from_openai_compatible_profile cf e rg k p)
      else if mp_provider p = ''openrouter'' then Inr (route_from_openrouter_profile e k p)
      else Inr (route_from_claude_profile cf e rg k p))"

text \<open>The profiles by kind of provider, in the order of the store within a kind.\<close>

definition profile_order :: "profile_store \<Rightarrow> model_profile list" where
  "profile_order store = concat (map (\<lambda>kind. filter (\<lambda>p. mp_provider p = kind) (store_profiles store))
     [''llama_cpp'', ''openai_compatible'', ''openrouter'', ''claude''])"

definition build_routes :: "cipher \<Rightarrow> key_env \<Rightarrow> registry \<Rightarrow> built_route list result" where
  "build_routes cf e rg =
     (let ps = profile_order (rg_store rg) in
      if ps = [] then Inr (route_from_provider ''env-local'' (build_primary rg 0) (rg_primary rg) #
        (case build_secondary (kn_environ e) rg 1 of None \<Rightarrow> [] | Some b \<Rightarrow> [route_from_provider ''env-secondary'' b (rg_secondary rg)]))
      else map_result (\<lambda>(k, p). route_of_profile cf e rg k p) (zip [0..<length ps] ps))"

text \<open>\<open>build_app_services\<close>: the registry of a process that starts.\<close>

definition start_registry :: "key_env \<Rightarrow> profile_store \<Rightarrow> key_store \<Rightarrow> registry" where
  "start_registry e store ks = (registry_from_env (kn_environ e) store)\<lparr>rg_key_store := Some ks,
     rg_admin_token := getenv_or (kn_environ e) ''ADMIN_TOKEN'' ''''\<rparr>"

end
