(* ===== verification/AdminDesk.thy ===== *)
theory AdminDesk
  imports KeyHealth Registry TurnDecision ContactIntake RateLimiter
begin

text \<open>
  \<open>api/admin.py\<close> and \<open>require_admin_token\<close> of \<open>api/services.py\<close>: who may use the admin API, the
  policy an operator sets at run time, and the keys of the providers. The services of the
  process are one record; the budget gate is the router's. \<open>ad_live\<close> has the key of each live
  provider object by its identity. One request reads one clock per service.
\<close>

section \<open>The services\<close>

record admin_services =
  ad_orchestrator :: orchestrator
  ad_router :: llm_router
  ad_keys :: "key_store option"
  ad_live :: "(nat \<times> string) list"
  ad_limiter :: buckets
  ad_monitor :: key_monitor
  ad_balance :: "balance_checker option"

record admin_request =
  aq_host :: "string option"
  aq_forwarded :: "string option"
  aq_token :: "string option"

datatype probe_answer = ProbeStatus int | ProbeFails string

record admin_env =
  ae_environ :: environ
  ae_clock :: rat
  ae_budget :: budget_env
  ae_keys :: key_env
  ae_cipher :: cipher
  ae_monitor :: monitor_env
  ae_balance :: balance_env
  ae_probe :: "string \<Rightarrow> string \<Rightarrow> probe_answer"
  ae_loopback :: "string \<Rightarrow> bool option"

section \<open>The door\<close>

text \<open>\<open>hmac.compare_digest\<close> on texts raises TypeError unless both are ASCII.\<close>

definition compare_digest :: "string \<Rightarrow> string \<Rightarrow> bool result" where
  "compare_digest a b =
     (if list_all (\<lambda>c. (of_char c :: nat) < 128) (a @ b) then Inr (a = b) else Inl (Raised ''TypeError''))"

definition loopback_dev_admin_enabled :: "environ \<Rightarrow> bool" where
  "loopback_dev_admin_enabled env = (lower (strip (getenv_or env ''ALLOW_LOOPBACK_DEV_ADMIN'' '''')) \<in> {''1'', ''true'', ''yes''})"

text \<open>\<open>ip_address(host).is_loopback\<close> is a parameter, \<open>None\<close> for a text that is no address.\<close>

definition is_loopback_client :: "admin_env \<Rightarrow> admin_request \<Rightarrow> bool" where
  "is_loopback_client e q =
     (let host = strip (opt_str_or (aq_host q) '''') in host = ''localhost'' \<or> ae_loopback e host = Some True)"

definition require_admin_token :: "admin_env \<Rightarrow> admin_request \<Rightarrow> unit reply" where
  "require_admin_token e q =
     (let configured = strip (getenv_or (ae_environ e) ''ADMIN_POLICY_TOKEN'' ''''); token = strip (opt_str_or (aq_token q) '''') in
      if configured \<noteq> ''''
      then (if token = '''' then Inl (HttpError 401 ''Invalid admin token'')
        else case compare_digest token configured of
            Inl _ \<Rightarrow> Inl (Crash ''TypeError'')
          | Inr same \<Rightarrow> if same then Inr () else Inl (HttpError 401 ''Invalid admin token''))
      else if loopback_dev_admin_enabled (ae_environ e) \<and> is_loopback_client e q \<and> token \<noteq> ''''
      then (case compare_digest token ''local-dev-admin'' of
            Inl _ \<Rightarrow> Inl (Crash ''TypeError'')
          | Inr same \<Rightarrow> if same then Inr () else Inl (HttpError 503 ''Admin policy token is not configured''))
      else Inl (HttpError 503 ''Admin policy token is not configured''))"

text \<open>An endpoint behind the door.\<close>

definition admin_only ::
  "admin_env \<Rightarrow> admin_request \<Rightarrow> (admin_services \<Rightarrow> 'a reply \<times> admin_services) \<Rightarrow> admin_services \<Rightarrow> 'a reply \<times> admin_services" where
  "admin_only e q act s = (case require_admin_token e q of Inl err \<Rightarrow> (Inl err, s) | Inr _ \<Rightarrow> act s)"

section \<open>The policy\<close>

record policy_patch =
  ap_routing_strategy :: "string option"
  ap_cloud_spillover_enabled :: "bool option"
  ap_low_cost_enabled :: "bool option"
  ap_claude_enabled :: "bool option"
  ap_max_calls_per_turn :: "int option"
  ap_max_calls_per_session :: "int option"
  ap_max_calls_per_day :: "int option"
  ap_max_calls_per_month :: "int option"
  ap_max_daily_usd :: "rat option"
  ap_max_monthly_usd :: "rat option"
  ap_max_input_tokens_per_call :: "int option"
  ap_max_output_tokens_per_call :: "int option"
  ap_routes :: "(string \<times> bool) list option"
  ap_provider_budgets :: "(string \<times> (string \<times> rat) list) list option"

definition no_patch :: policy_patch where
  "no_patch = \<lparr>ap_routing_strategy = None, ap_cloud_spillover_enabled = None, ap_low_cost_enabled = None, ap_claude_enabled = None,
     ap_max_calls_per_turn = None, ap_max_calls_per_session = None, ap_max_calls_per_day = None, ap_max_calls_per_month = None,
     ap_max_daily_usd = None, ap_max_monthly_usd = None, ap_max_input_tokens_per_call = None, ap_max_output_tokens_per_call = None,
     ap_routes = None, ap_provider_budgets = None\<rparr>"

text \<open>The validator of the request body; a refused body is answered with 422.\<close>

definition patch_ok :: "policy_patch \<Rightarrow> bool" where
  "patch_ok p = (case ap_routing_strategy p of None \<Rightarrow> True | Some v \<Rightarrow> v \<in> set ROUTING_STRATEGIES)"

definition DEFAULT_CLOUD_INPUT_TOKEN_CAP :: int where
  "DEFAULT_CLOUD_INPUT_TOKEN_CAP = 8000"

definition DEFAULT_CLOUD_OUTPUT_TOKEN_CAP :: int where
  "DEFAULT_CLOUD_OUTPUT_TOKEN_CAP = 2048"

text \<open>
  \<open>services.cloud_budget.config\<close> is the configuration of the one gate or of the global gate;
  without a global gate the property gives a fresh one each time, and writing to it is lost.
\<close>

fun budget_config :: "router_budget \<Rightarrow> cloud_budget_config option" where
  "budget_config NoBudget = None"
| "budget_config (SingleGate g) = Some (cg_config g)"
| "budget_config (MultiGate m) = Some (multi_config m)"

fun map_config :: "(cloud_budget_config \<Rightarrow> cloud_budget_config) \<Rightarrow> router_budget \<Rightarrow> router_budget" where
  "map_config f NoBudget = NoBudget"
| "map_config f (SingleGate g) = SingleGate (g\<lparr>cg_config := f (cg_config g)\<rparr>)"
| "map_config f (MultiGate m) = MultiGate (m\<lparr>mg_global := map_option (\<lambda>g. g\<lparr>cg_config := f (cg_config g)\<rparr>) (mg_global m)\<rparr>)"

fun init_budget :: "budget_env \<Rightarrow> router_budget \<Rightarrow> router_budget" where
  "init_budget e NoBudget = NoBudget"
| "init_budget e (SingleGate g) = SingleGate (gate_init e g)"
| "init_budget e (MultiGate m) = MultiGate (multi_init e m)"

definition map_budget :: "(router_budget \<Rightarrow> router_budget) \<Rightarrow> admin_services \<Rightarrow> admin_services" where
  "map_budget f s = s\<lparr>ad_router := (ad_router s)\<lparr>ro_budget := f (ro_budget (ad_router s))\<rparr>\<rparr>"

definition map_policy :: "(cloud_spend_policy \<Rightarrow> cloud_spend_policy) \<Rightarrow> admin_services \<Rightarrow> admin_services" where
  "map_policy f s = s\<lparr>ad_orchestrator := (ad_orchestrator s)\<lparr>or_cloud_policy := f (or_cloud_policy (ad_orchestrator s))\<rparr>\<rparr>"

definition if_given :: "'a option \<Rightarrow> ('a \<Rightarrow> 'b \<Rightarrow> 'b) \<Rightarrow> 'b \<Rightarrow> 'b" where
  "if_given x f = (case x of None \<Rightarrow> id | Some v \<Rightarrow> f v)"

text \<open>Enabling the low-cost tier implies the spillover; switching the spillover off switches both tiers off.\<close>

definition wanted_spillover :: "policy_patch \<Rightarrow> bool option" where
  "wanted_spillover p =
     (if ap_cloud_spillover_enabled p = None \<and> ap_low_cost_enabled p = Some True then Some True else ap_cloud_spillover_enabled p)"

definition apply_spillover :: "budget_env \<Rightarrow> policy_patch \<Rightarrow> admin_services \<Rightarrow> admin_services" where
  "apply_spillover e p s =
     (if ro_budget (ad_router s) = NoBudget then s
      else case wanted_spillover p of
          None \<Rightarrow> s
        | Some on \<Rightarrow>
            let s1 = map_budget (map_config (cb_enabled_update (\<lambda>_. on))) s in
            if on then map_budget (init_budget e) s1
            else map_policy (\<lambda>cp. cp\<lparr>cp_low_cost_enabled := False, cp_claude_enabled := False\<rparr>) s1)"

definition apply_strategy :: "policy_patch \<Rightarrow> admin_services \<Rightarrow> admin_services" where
  "apply_strategy p s = s\<lparr>ad_router := if_given (ap_routing_strategy p) (\<lambda>v. ro_strategy_update (\<lambda>_. v)) (ad_router s)\<rparr>"

definition unknown_routes :: "policy_patch \<Rightarrow> admin_services \<Rightarrow> string list" where
  "unknown_routes p s =
     (case ap_routes p of None \<Rightarrow> []
      | Some rs \<Rightarrow> filter (\<lambda>name. name \<notin> pr_name ` set (ro_routes (ad_router s))) (map fst rs))"

definition apply_routes :: "policy_patch \<Rightarrow> admin_services \<Rightarrow> admin_services" where
  "apply_routes p s =
     s\<lparr>ad_router := fold (\<lambda>(name, enabled). set_route_enabled name enabled) (case ap_routes p of None \<Rightarrow> [] | Some rs \<Rightarrow> rs) (ad_router s)\<rparr>"

definition apply_tiers :: "policy_patch \<Rightarrow> cloud_spend_policy \<Rightarrow> cloud_spend_policy" where
  "apply_tiers p =
     (let off = (ap_cloud_spillover_enabled p = Some False);
          tier = (\<lambda>x. if off \<and> x = Some True then None else x) in
      if_given (ap_max_calls_per_session p) (\<lambda>n. cp_max_cloud_calls_per_session_update (\<lambda>_. n))
      \<circ> if_given (ap_max_calls_per_turn p) (\<lambda>n. cp_max_cloud_calls_per_turn_update (\<lambda>_. n))
      \<circ> if_given (tier (ap_low_cost_enabled p)) (\<lambda>b. cp_low_cost_enabled_update (\<lambda>_. b))
      \<circ> if_given (tier (ap_claude_enabled p)) (\<lambda>b. cp_claude_enabled_update (\<lambda>_. b)))"

text \<open>The caps as given, and token caps for a spillover that is switched on while they are zero.\<close>

definition apply_caps :: "policy_patch \<Rightarrow> cloud_budget_config \<Rightarrow> cloud_budget_config" where
  "apply_caps p =
     (\<lambda>c. if ap_cloud_spillover_enabled p = Some True
        then c\<lparr>cb_max_input_tokens_per_call := (if cb_max_input_tokens_per_call c = 0 then DEFAULT_CLOUD_INPUT_TOKEN_CAP
               else cb_max_input_tokens_per_call c),
             cb_max_output_tokens_per_call := (if cb_max_output_tokens_per_call c = 0 then DEFAULT_CLOUD_OUTPUT_TOKEN_CAP
               else cb_max_output_tokens_per_call c)\<rparr>
        else c)
     \<circ> if_given (ap_max_output_tokens_per_call p) (\<lambda>n. cb_max_output_tokens_per_call_update (\<lambda>_. n))
     \<circ> if_given (ap_max_input_tokens_per_call p) (\<lambda>n. cb_max_input_tokens_per_call_update (\<lambda>_. n))
     \<circ> if_given (ap_max_monthly_usd p) (\<lambda>x. cb_max_monthly_usd_update (\<lambda>_. x))
     \<circ> if_given (ap_max_daily_usd p) (\<lambda>x. cb_max_daily_usd_update (\<lambda>_. x))
     \<circ> if_given (ap_max_calls_per_month p) (\<lambda>n. cb_max_calls_per_month_update (\<lambda>_. n))
     \<circ> if_given (ap_max_calls_per_day p) (\<lambda>n. cb_max_calls_per_day_update (\<lambda>_. n))
     \<circ> if_given (ap_max_calls_per_session p) (\<lambda>n. cb_max_calls_per_session_update (\<lambda>_. n))
     \<circ> if_given (ap_max_calls_per_turn p) (\<lambda>n. cb_max_calls_per_turn_update (\<lambda>_. n))"

text \<open>One provider after the other; a pair of zero caps stops the loop.\<close>

fun apply_provider_budgets :: "(string \<times> (string \<times> rat) list) list \<Rightarrow> router_budget \<Rightarrow> unit reply \<times> router_budget" where
  "apply_provider_budgets [] b = (Inr (), b)"
| "apply_provider_budgets ((pid, limits) # rest) b =
     (let daily = map_of limits ''max_daily_usd''; monthly = map_of limits ''max_monthly_usd'' in
      if daily = Some 0 \<and> monthly = Some 0 then (Inl (HttpError 400 (''Cannot set both caps to zero for '' @ pid)), b)
      else case b of
          MultiGate m \<Rightarrow> apply_provider_budgets rest (MultiGate (update_provider_budget pid daily monthly m))
        | NoBudget \<Rightarrow> (Inr (), b)
        | SingleGate g \<Rightarrow> (Inl (Crash ''AttributeError''), b))"

definition apply_admin_policy :: "budget_env \<Rightarrow> policy_patch \<Rightarrow> admin_services \<Rightarrow> unit reply \<times> admin_services" where
  "apply_admin_policy e p s0 =
     (let s1 = apply_strategy p (apply_spillover e p s0) in
      if unknown_routes p s1 \<noteq> [] then (Inl (HttpError 400 ''unknown_route_names''), s1)
      else let s2 = map_budget (map_config (apply_caps p)) (map_policy (apply_tiers p) (apply_routes p s1)) in
        if ro_budget (ad_router s2) = NoBudget then (Inr (), s2)
        else case apply_provider_budgets (case ap_provider_budgets p of None \<Rightarrow> [] | Some bs \<Rightarrow> bs) (ro_budget (ad_router s2)) of
            (r, b) \<Rightarrow> (r, map_budget (\<lambda>_. b) s2))"

definition admin_policy_patch :: "admin_env \<Rightarrow> admin_request \<Rightarrow> policy_patch \<Rightarrow> admin_services \<Rightarrow> unit reply \<times> admin_services" where
  "admin_policy_patch e q p s =
     admin_only e q (\<lambda>s. if patch_ok p then apply_admin_policy (ae_budget e) p s else (Inl (HttpError 422 ''routing_strategy''), s)) s"

text \<open>What \<open>GET /policy\<close> shows.\<close>

record policy_view =
  py_routing_strategy :: string
  py_spillover :: "cloud_budget_config option"
  py_route_overrides :: "(string \<times> bool) list"

definition admin_policy :: "admin_env \<Rightarrow> admin_request \<Rightarrow> admin_services \<Rightarrow> policy_view reply" where
  "admin_policy e q s =
     (case require_admin_token e q of
        Inl err \<Rightarrow> Inl err
      | Inr _ \<Rightarrow> Inr \<lparr>py_routing_strategy = ro_strategy (ad_router s), py_spillover = budget_config (ro_budget (ad_router s)),
          py_route_overrides = route_overrides (ad_router s)\<rparr>)"

section \<open>Keys of the providers\<close>

definition get_client_ip :: "admin_request \<Rightarrow> string" where
  "get_client_ip q =
     (case aq_forwarded q of
        Some f \<Rightarrow> if f \<noteq> '''' then strip (hd (split_on (CHR '','') f)) else (case aq_host q of None \<Rightarrow> ''unknown'' | Some h \<Rightarrow> h)
      | None \<Rightarrow> (case aq_host q of None \<Rightarrow> ''unknown'' | Some h \<Rightarrow> h))"

text \<open>The limiter of the key endpoints is configured by \<open>KEY_STORE_RATE_LIMIT_RPS\<close> and \<open>_BURST\<close>.\<close>

definition check_key_store_rate_limit :: "admin_env \<Rightarrow> admin_request \<Rightarrow> admin_services \<Rightarrow> unit reply \<times> admin_services" where
  "check_key_store_rate_limit e q s =
     (case is_allowed (rate_config_from_env (ae_environ e) ''KEY_STORE'') (ae_clock e) (''keystore:'' @ get_client_ip q) 1 (ad_limiter s) of
        (r, bs) \<Rightarrow>
          ((case r of
              Inl _ \<Rightarrow> Inl (Crash ''ZeroDivisionError'')
            | Inr (True, _) \<Rightarrow> Inr ()
            | Inr (False, meta) \<Rightarrow> Inl (HttpError 429 (''Rate limit exceeded. Retry after ''
                @ str_of_int (case meta of DeniedMeta wait _ \<Rightarrow> round_half_even wait | AllowedMeta _ _ \<Rightarrow> 1) @ '' seconds.''))),
           s\<lparr>ad_limiter := bs\<rparr>))"

record key_test =
  kt_valid :: bool
  kt_error :: string

text \<open>The answer of the vendor's cheapest endpoint, with the status codes that mean a refused key.\<close>

definition read_probe :: "int list \<Rightarrow> probe_answer \<Rightarrow> key_test" where
  "read_probe refused a =
     (case a of
        ProbeStatus n \<Rightarrow> if n = 200 then \<lparr>kt_valid = True, kt_error = ''''\<rparr>
          else if n \<in> set refused then \<lparr>kt_valid = False, kt_error = ''invalid_api_key''\<rparr>
          else \<lparr>kt_valid = False, kt_error = ''unexpected_status_'' @ str_of_int n\<rparr>
      | ProbeFails err \<Rightarrow> \<lparr>kt_valid = False, kt_error = ''request_error: '' @ err\<rparr>)"

definition probe_key :: "admin_env \<Rightarrow> string \<Rightarrow> string \<Rightarrow> key_test" where
  "probe_key e provider_id k =
     (if provider_id = ''openrouter''
      then (let b = fetch_balance (ae_balance e) k in \<lparr>kt_valid = bl_available b, kt_error = bl_error b\<rparr>)
      else if provider_id \<in> {''anthropic'', ''openai''} then read_probe [401] (ae_probe e provider_id k)
      else if provider_id = ''google'' then read_probe [400, 403] (ae_probe e provider_id k)
      else if k \<noteq> '''' then \<lparr>kt_valid = True, kt_error = ''''\<rparr> else \<lparr>kt_valid = False, kt_error = ''empty_key''\<rparr>)"

text \<open>\<open>_test_provider_key\<close>: each test is recorded with the monitor.\<close>

definition test_key :: "admin_env \<Rightarrow> string \<Rightarrow> string \<Rightarrow> admin_services \<Rightarrow> key_test \<times> admin_services" where
  "test_key e provider_id k s =
     (let t = probe_key e provider_id k;
          head = hd (split_on (CHR '':'') (kt_error t));
          failure_type = (if kt_valid t \<or> head = '''' then None else Some head) in
      (t, s\<lparr>ad_monitor := record_attempt (ae_monitor e) provider_id (kt_valid t) failure_type (kt_error t) (ad_monitor s)\<rparr>))"

text \<open>The live providers of the vendor take the new key.\<close>

definition rotate_live :: "string \<Rightarrow> string \<Rightarrow> admin_services \<Rightarrow> admin_services" where
  "rotate_live provider_id k s =
     s\<lparr>ad_live := fold (\<lambda>n. dict_set n k) (rotate_provider_key provider_id (ad_router s)) (ad_live s)\<rparr>"

definition forget_balance :: "string \<Rightarrow> admin_services \<Rightarrow> admin_services" where
  "forget_balance provider_id s =
     (if provider_id = ''openrouter'' then s\<lparr>ad_balance := map_option invalidate_balance (ad_balance s)\<rparr> else s)"

definition header_token :: "admin_request \<Rightarrow> string" where
  "header_token q = strip (opt_str_or (aq_token q) '''')"

record key_stored =
  kd_provider_id :: string
  kd_stored :: bool
  kd_test :: key_test

definition store_provider_key :: "admin_env \<Rightarrow> admin_request \<Rightarrow> string \<Rightarrow> string \<Rightarrow> admin_services \<Rightarrow> key_stored reply \<times> admin_services" where
  "store_provider_key e q provider_id k s0 =
     (if provider_id \<notin> fst ` set PROVIDER_ENV_VARS then (Inl (HttpError 400 ''unknown_provider''), s0)
      else case check_key_store_rate_limit e q s0 of
          (Inl err, s) \<Rightarrow> (Inl err, s)
        | (Inr _, s) \<Rightarrow>
            if header_token q = '''' then (Inl (HttpError 401 ''Missing admin token''), s)
            else (case ad_keys s of
                None \<Rightarrow> (Inl (HttpError 503 ''Key store not available''), s)
              | Some ks \<Rightarrow>
                  (case set_key (ae_cipher e) (ae_keys e) provider_id k (header_token q) None ks of
                     (ok, ks1) \<Rightarrow>
                       (let s1 = s\<lparr>ad_keys := Some ks1\<rparr> in
                        if \<not> ok then (Inl (HttpError 500 ''Failed to store key''), s1)
                        else case test_key e provider_id k (rotate_live provider_id k (forget_balance provider_id s1)) of
                            (t, s2) \<Rightarrow> (case has_key (ae_keys e) provider_id ks1 of
                                (has, ks2) \<Rightarrow> (Inr \<lparr>kd_provider_id = provider_id, kd_stored = has, kd_test = t\<rparr>, s2\<lparr>ad_keys := Some ks2\<rparr>))))))"

text \<open>The body has a key of 1 to 500 characters.\<close>

definition set_provider_key ::
  "admin_env \<Rightarrow> admin_request \<Rightarrow> string \<Rightarrow> string \<Rightarrow> admin_services \<Rightarrow> key_stored reply \<times> admin_services" where
  "set_provider_key e q provider_id k =
     admin_only e q (\<lambda>s. if 1 \<le> length k \<and> length k \<le> 500 then store_provider_key e q provider_id k s else (Inl (HttpError 422 ''key''), s))"

text \<open>Whether a key was deleted, and whether the environment has another one.\<close>

definition delete_provider_key :: "admin_env \<Rightarrow> admin_request \<Rightarrow> string \<Rightarrow> admin_services \<Rightarrow> (bool \<times> bool) reply \<times> admin_services" where
  "delete_provider_key e q provider_id =
     admin_only e q (\<lambda>s0.
       case check_key_store_rate_limit e q s0 of
         (Inl err, s) \<Rightarrow> (Inl err, s)
       | (Inr _, s) \<Rightarrow>
           (case ad_keys s of
              None \<Rightarrow> (Inl (HttpError 503 ''Key store not available''), s)
            | Some ks \<Rightarrow>
                (case delete_key (ae_keys e) provider_id None ks of
                   (gone, ks1) \<Rightarrow>
                     (let k = env_fallback (ae_environ e) provider_id; s1 = forget_balance provider_id (s\<lparr>ad_keys := Some ks1\<rparr>) in
                      (Inr (gone, k \<noteq> ''''), if k \<noteq> '''' then rotate_live provider_id k s1 else s1)))))"

text \<open>The key that counts as active: the stored one, else the one of the environment.\<close>

definition test_provider_key :: "admin_env \<Rightarrow> admin_request \<Rightarrow> string \<Rightarrow> admin_services \<Rightarrow> key_test reply \<times> admin_services" where
  "test_provider_key e q provider_id =
     admin_only e q (\<lambda>s0.
       case check_key_store_rate_limit e q s0 of
         (Inl err, s) \<Rightarrow> (Inl err, s)
       | (Inr _, s) \<Rightarrow>
           (case ad_keys s of
              None \<Rightarrow> (Inr \<lparr>kt_valid = False, kt_error = ''no_key_configured''\<rparr>, s)
            | Some ks \<Rightarrow>
                (case get_key (ae_cipher e) (ae_keys e) provider_id (header_token q) None ks of
                   (stored, ks1) \<Rightarrow>
                     (let k = opt_str_or stored (env_fallback (ae_environ e) provider_id); s1 = s\<lparr>ad_keys := Some ks1\<rparr> in
                      if k = '''' then (Inr \<lparr>kt_valid = False, kt_error = ''no_key_configured''\<rparr>, s1)
                      else case test_key e provider_id k s1 of (t, s2) \<Rightarrow> (Inr t, s2)))))"

record key_status =
  kx_provider_id :: string
  kx_has_stored_key :: bool
  kx_has_env_key :: bool
  kx_active_source :: string

definition key_status_of :: "admin_env \<Rightarrow> string \<Rightarrow> bool \<Rightarrow> key_status" where
  "key_status_of e p stored =
     (let env = (env_fallback (ae_environ e) p \<noteq> '''') in
      \<lparr>kx_provider_id = p, kx_has_stored_key = stored, kx_has_env_key = env,
       kx_active_source = (if stored then ''store'' else if env then ''env'' else ''none'')\<rparr>)"

fun key_statuses :: "admin_env \<Rightarrow> string list \<Rightarrow> key_store \<Rightarrow> key_status list \<times> key_store" where
  "key_statuses e [] ks = ([], ks)"
| "key_statuses e (p # ps) ks =
     (case has_key (ae_keys e) p ks of
        (stored, ks1) \<Rightarrow> (case key_statuses e ps ks1 of (rest, ks2) \<Rightarrow> (key_status_of e p stored # rest, ks2)))"

definition list_provider_keys :: "admin_env \<Rightarrow> admin_request \<Rightarrow> admin_services \<Rightarrow> key_status list reply \<times> admin_services" where
  "list_provider_keys e q =
     admin_only e q (\<lambda>s.
       case ad_keys s of
         None \<Rightarrow> (Inr (map (\<lambda>p. \<lparr>kx_provider_id = p, kx_has_stored_key = False, kx_has_env_key = False, kx_active_source = ''none''\<rparr>)
             (sort (map fst PROVIDER_ENV_VARS))), s)
       | Some ks \<Rightarrow> (case key_statuses e (sort (map fst PROVIDER_ENV_VARS)) ks of
             (xs, ks1) \<Rightarrow> (Inr xs, s\<lparr>ad_keys := Some ks1\<rparr>)))"

text \<open>The operator's way out of an accounting block.\<close>

definition clear_block :: "budget_env \<Rightarrow> router_budget \<Rightarrow> decision reply \<times> router_budget" where
  "clear_block e b =
     (case b of
        NoBudget \<Rightarrow> (Inl (Crash ''AttributeError''), b)
      | SingleGate g \<Rightarrow> (case clear_accounting_block e g of (d, g1) \<Rightarrow> (Inr d, SingleGate g1))
      | MultiGate m \<Rightarrow> (case multi_clear_accounting_block e m of (d, m1) \<Rightarrow> (Inr d, MultiGate m1)))"

definition admin_clear_accounting_block :: "admin_env \<Rightarrow> admin_request \<Rightarrow> admin_services \<Rightarrow> decision reply \<times> admin_services" where
  "admin_clear_accounting_block e q =
     admin_only e q (\<lambda>s. case clear_block (ae_budget e) (ro_budget (ad_router s)) of (r, b) \<Rightarrow> (r, map_budget (\<lambda>_. b) s))"

end
