(* ===== verification/KeyRules.thy ===== *)
theory KeyRules
  imports Registry RouterSamples
begin

text \<open>
  What the key store guarantees of the keys it holds and of its audit log, and what becomes of a
  stored key when the routes of a process are built.
\<close>

section \<open>Bytes in hexadecimal\<close>

lemma hex_value_digit: "n < 16 \<Longrightarrow> hex_value (hex_digit n) = Some n"
  by (simp add: hex_value_def hex_digit_def Let_def)

lemma hex_digit_code: "n < 16 \<Longrightarrow> (of_char (hex_digit n) :: nat) \<ge> 48"
  by (simp add: hex_digit_def)

lemma hex_digit_no_blank: "n < 16 \<Longrightarrow> hex_digit n \<notin> {CHR '' '', CHR 0x09, CHR 0x0A, CHR 0x0B, CHR 0x0C, CHR 0x0D}"
  using hex_digit_code [of n] by auto

lemma from_hex_byte:
  assumes "h < 16" and "l < 16"
  shows "from_hex (hex_digit h # hex_digit l # s) = map_option ((#) (char_of (16 * h + l))) (from_hex s)"
  using assms hex_digit_no_blank [of h] by (simp add: hex_value_digit)

lemma from_hex_to_hex: "from_hex (to_hex s) = Some s"
proof (induction s)
  case (Cons c s)
  have "(of_char c :: nat) div 16 < 16" using byte_less [of c] unfolding byte_def by (intro less_mult_imp_div_less) simp
  moreover have "char_of (16 * ((of_char c :: nat) div 16) + (of_char c :: nat) mod 16) = c" by (simp add: mult_div_mod_eq)
  ultimately show ?case using Cons from_hex_byte by (simp add: to_hex_def)
qed (simp add: to_hex_def)

section \<open>Rows\<close>

lemma row_of_put: "row_of p (put_row r rows) = (if p = kr_provider_id r then Some r else row_of p rows)"
  unfolding row_of_def put_row_def
  by (subst find_row_upsert) (auto split: option.split dest: find_row_SomeD)

text \<open>The stored columns of a provider, and a write of them.\<close>

definition columns :: "key_row \<Rightarrow> string \<times> string \<times> string \<times> string" where
  "columns r = (kr_salt r, kr_nonce r, kr_ciphertext r, kr_updated_at r)"

definition columns_of :: "key_row list \<Rightarrow> string \<Rightarrow> (string \<times> string \<times> string \<times> string) option" where
  "columns_of rows p = map_option columns (row_of p rows)"

definition put_columns :: "string \<Rightarrow> string \<times> string \<times> string \<times> string \<Rightarrow> key_row list \<Rightarrow> key_row list" where
  "put_columns p = (\<lambda>(a, b, c, t). put_row \<lparr>kr_provider_id = p, kr_salt = a, kr_nonce = b, kr_ciphertext = c, kr_updated_at = t\<rparr>)"

interpretation key_rows: kv_store columns_of put_columns
  by unfold_locales (auto simp: columns_of_def put_columns_def row_of_put columns_def split: prod.split)

lemma row_of_delete: "row_of p (filter (\<lambda>r. kr_provider_id r \<noteq> q) rows) = (if p = q then None else row_of p rows)"
  by (induction rows) (auto simp: row_of_def)

section \<open>What the code relies on of the cipher\<close>

text \<open>A ciphertext opens under the key and nonce it was made with, for keys derived from a token.\<close>

definition opens :: "cipher \<Rightarrow> bool" where
  "opens cf = (\<forall>t salt n p. cf_open cf (derive_key cf t salt) n (cf_seal cf (derive_key cf t salt) n p) = Some p)"

text \<open>
  Nothing is assumed of other tokens: some derive the same key (a token and that token with
  zero bytes behind it do, in PBKDF2). What a token reads of a text sealed under another one
  is what the cipher opens.
\<close>

definition reads_of_sealed :: "cipher \<Rightarrow> key_env \<Rightarrow> string \<Rightarrow> string \<Rightarrow> string \<Rightarrow> string option" where
  "reads_of_sealed cf e token k other =
     Option.bind (cf_open cf (derive_key cf other (kn_salt e)) (kn_nonce e)
       (cf_seal cf (derive_key cf token (kn_salt e)) (kn_nonce e) (utf8_encode k))) utf8_decode"

text \<open>A cipher for the witnesses: it keeps key and text side by side.\<close>

definition boxed :: cipher where
  "boxed = \<lparr>cf_derive = (\<lambda>t s. t), cf_seal = (\<lambda>k n p. to_hex k @ CHR ''.'' # p),
     cf_open = (\<lambda>k n c. if starts_with (to_hex k @ ''.'') c then Some (drop (length (to_hex k) + 1) c) else None)\<rparr>"

section \<open>Keys are read back\<close>

definition store_works :: "key_env \<Rightarrow> bool" where
  "store_works e = (\<forall>p. kn_io e p = None)"

lemma open_sealed:
  assumes "opens cf"
  shows "open_row cf \<lparr>kr_provider_id = p, kr_salt = to_hex (kn_salt e), kr_nonce = to_hex (kn_nonce e),
      kr_ciphertext = to_hex (cf_seal cf (derive_key cf t (kn_salt e)) (kn_nonce e) (utf8_encode k)), kr_updated_at = u\<rparr> t = Inr (Some k)"
  using assms by (simp add: open_row_def from_hex_to_hex decrypt_def opens_def utf8_read_back)

lemma log_rows [simp]: "ks_rows (log_access e p operation ok err ip s) = ks_rows s"
  "ks_ready (log_access e p operation ok err ip s) = ks_ready s"
  by (simp_all add: log_access_def split: option.split)

lemma init_rows [simp]: "ks_rows (init_keys e s) = ks_rows s"
  by (simp add: init_keys_def split: option.split)

lemma init_healthy: "store_works e \<Longrightarrow> ks_ready (init_keys e s)"
  by (simp add: init_keys_def store_works_def)

lemma sealed_read_back: "opens cf \<Longrightarrow> reads_of_sealed cf e token k token = Some k"
  by (simp add: reads_of_sealed_def opens_def utf8_read_back)

lemma set_then_get:
  assumes "opens cf" and "store_works e" and "store_works f" and "set_key cf e p k token ip s = (ok, s1)"
  shows "ok \<and> (\<forall>t. fst (get_key cf f p t ip2 s1) = reads_of_sealed cf e token k t) \<and> fst (get_key cf f p token ip2 s1) = Some k \<and>
    (\<forall>q. q \<noteq> p \<longrightarrow> row_of q (ks_rows s1) = row_of q (ks_rows s))"
proof -
  let ?r = "\<lparr>kr_provider_id = p, kr_salt = to_hex (kn_salt e), kr_nonce = to_hex (kn_nonce e),
      kr_ciphertext = to_hex (cf_seal cf (derive_key cf token (kn_salt e)) (kn_nonce e) (utf8_encode k)), kr_updated_at = kn_iso e (kn_now e)\<rparr>"
  have set: "ok" "ks_ready s1" "ks_rows s1 = put_row ?r (ks_rows s)"
    using assms(2,4) init_healthy [of e s] by (auto simp: set_key_def encrypt_def Let_def store_works_def)
  have "open_row cf ?r t = Inr (reads_of_sealed cf e token k t)" for t
    by (simp add: open_row_def from_hex_to_hex decrypt_def reads_of_sealed_def)
  then have "fst (get_key cf f p t ip2 s1) = reads_of_sealed cf e token k t" for t
    using assms(3) init_healthy [of f s1] set(2)
    by (auto simp: get_key_def Let_def store_works_def set(3) row_of_put split: sum.split option.split)
  then show ?thesis using set sealed_read_back [OF assms(1)] by (auto simp: row_of_put)
qed

text \<open>C10: while the database works, a key that was stored is read back under the same admin token, whatever was
  stored before, and the rows of other providers are untouched. Under another token, what is
  read is what the cipher opens with the key derived from that token: nothing, where
  authenticated encryption refuses it. That no other token derives the same key is not claimed.\<close>

theorem stored_key_is_read_back:
  assumes "opens cf" and "store_works e" and "store_works f" and "set_key cf e p k token ip s = (ok, s1)"
  shows "ok \<and> fst (get_key cf f p token ip2 s1) = Some k \<and>
    fst (get_key cf f p other ip2 s1) = (case cf_open cf (derive_key cf other (kn_salt e)) (kn_nonce e)
        (cf_seal cf (derive_key cf token (kn_salt e)) (kn_nonce e) (utf8_encode k)) of None \<Rightarrow> None | Some bytes \<Rightarrow> utf8_decode bytes) \<and>
    (q \<noteq> p \<longrightarrow> row_of q (ks_rows s1) = row_of q (ks_rows s))"
  using set_then_get [OF assms, of ip2] by (auto simp: reads_of_sealed_def split: option.split)

section \<open>The audit log\<close>

text \<open>What an operation adds to the log of a store that is ready and whose log can be written.\<close>

definition audited :: "key_env \<Rightarrow> string \<Rightarrow> string \<Rightarrow> key_store \<Rightarrow> bool \<Rightarrow> key_store \<Rightarrow> bool" where
  "audited e p operation s ok s1 = (\<exists>err ip. ks_audit s1 = ks_audit s @ [\<lparr>ka_provider_id = p, ka_operation = operation, ka_success = ok,
     ka_error_type = err, ka_source_ip = ip, ka_created_at = kn_now e\<rparr>])"

lemma log_audited:
  assumes "ks_ready s" and "kn_io e AuditWrite = None" and "ks_audit s = ks_audit s0"
  shows "audited e p operation s0 ok (log_access e p operation ok err ip s)"
  using assms by (simp add: audited_def log_access_def)

lemma init_ready: "ks_ready s \<Longrightarrow> init_keys e s = s"
  by (simp add: init_keys_def)

text \<open>C20: on a ready store whose log can be written, each of the four asynchronous operations on a key
  (get_key, set_key, delete_key and has_key) adds one entry with its outcome to the log,
  whatever fails in the operation itself, and the reading ones change no key. The synchronous
  reads, which the start-up uses, are not among them: they log nothing.\<close>

theorem every_access_is_audited:
  assumes "ks_ready s" and "kn_io e AuditWrite = None"
  shows "(case get_key cf e p token ip s of (k, s1) \<Rightarrow> audited e p ''get'' s (k \<noteq> None) s1 \<and> ks_rows s1 = ks_rows s) \<and>
    (case has_key e p s of (found, s1) \<Rightarrow> audited e p ''has'' s found s1 \<and> ks_rows s1 = ks_rows s) \<and>
    (case set_key cf e p k token ip s of (ok, s1) \<Rightarrow> audited e p ''set'' s ok s1) \<and>
    (case delete_key e p ip s of (gone, s1) \<Rightarrow> audited e p ''delete'' s gone s1)"
  using assms
  by (auto simp: get_key_def has_key_def set_key_def delete_key_def encrypt_def Let_def init_ready log_audited
      split: option.split sum.split prod.split)

text \<open>An operation on a store that could not be set up leaves no entry, although it asks for one.\<close>

lemma store_not_ready_is_not_audited:
  "\<not> ks_ready s \<Longrightarrow> kn_io e CreateTables = Some err \<Longrightarrow> get_key cf e p token ip s = (None, s)"
  by (simp add: get_key_def init_keys_def log_access_def Let_def)

section \<open>Backup\<close>

lemma row_of_entry_of: "row_of_entry (entry_of r) = Some r"
  by (simp add: row_of_entry_def entry_of_def)

lemma map_of_entry: "map_of (entry_of r) ''provider_id'' = Some (kr_provider_id r)" "map_of (entry_of r) ''salt'' = Some (kr_salt r)"
  by (simp_all add: entry_of_def)

lemma get_key_rows: "ks_rows (snd (get_key cf e p token ip s)) = ks_rows s"
  by (auto simp: get_key_def Let_def split: option.split sum.split)

lemma get_key_ready: "store_works e \<Longrightarrow> ks_ready (snd (get_key cf e p token ip s))"
  using init_healthy [of e s] by (auto simp: get_key_def Let_def split: option.split sum.split)

text \<open>The salt of a fresh encryption is none of a manifest.\<close>

definition fresh_salts :: "(nat \<Rightarrow> key_env) \<Rightarrow> key_row list \<Rightarrow> bool" where
  "fresh_salts es rows = (\<forall>k. \<forall>r \<in> set rows. to_hex (kn_salt (es k)) \<noteq> kr_salt r)"

lemma import_one_replaces:
  assumes "store_works e" and "to_hex (kn_salt e) \<noteq> kr_salt r"
  shows "\<exists>s1. import_one cf e token (entry_of r) ((m, n), s) = Inr ((m + 1, n), s1) \<and> ks_rows s1 = put_row r (ks_rows s)"
proof -
  obtain stored s1 where get: "get_key cf e (kr_provider_id r) token None s = (stored, s1)" by fastforce
  then have "ks_rows s1 = ks_rows s" using get_key_rows by (metis snd_conv)
  then show ?thesis using assms get
    by (auto simp: import_one_def map_of_entry same_key_def encrypt_def row_of_entry_of store_works_def)
qed

lemma import_all_replaces:
  assumes "\<And>k. store_works (es k)" and "fresh_salts es rows"
  shows "\<exists>s1. import_all cf es token k (map entry_of rows) ((m, n), s) = Inr ((m + length rows, n), s1) \<and>
    ks_rows s1 = fold put_row rows (ks_rows s)"
  using assms(2)
proof (induction rows arbitrary: k m s)
  case (Cons r rows)
  then have "to_hex (kn_salt (es k)) \<noteq> kr_salt r" by (simp add: fresh_salts_def)
  from import_one_replaces [OF assms(1) this, of cf token m n s] obtain s1 where
    one: "import_one cf (es k) token (entry_of r) ((m, n), s) = Inr ((m + 1, n), s1)" "ks_rows s1 = put_row r (ks_rows s)" by blast
  have "fresh_salts es rows" using Cons.prems by (simp add: fresh_salts_def)
  from Cons.IH [OF this, of "k + 1" "m + 1" s1] obtain s2 where
    "import_all cf es token (k + 1) (map entry_of rows) ((m + 1, n), s1) = Inr ((m + 1 + length rows, n), s2)"
    "ks_rows s2 = fold put_row rows (ks_rows s1)" by blast
  then show ?case using one by (intro exI [of _ s2]) simp
qed simp

lemma row_of_Cons: "row_of p (r # rows) = (if kr_provider_id r = p then Some r else row_of p rows)"
  by (simp add: row_of_def)

lemma row_of_fold_put: "distinct (map kr_provider_id rows) \<Longrightarrow>
  row_of p (fold put_row rows base) = (case row_of p rows of Some r \<Rightarrow> Some r | None \<Rightarrow> row_of p base)"
proof (induction rows arbitrary: base)
  case (Cons r rows)
  then have "p = kr_provider_id r \<Longrightarrow> row_of p rows = None" by (auto simp: row_of_def find_row_None_iff)
  then show ?case using Cons by (auto simp: row_of_put row_of_Cons split: option.split)
qed (simp add: row_of_def)

lemma import_replaces:
  assumes "store_works e" and "\<And>k. store_works (es k)" and "fresh_salts es rows" and "distinct (map kr_provider_id rows)"
  shows "\<exists>s1. import_encrypted cf e es (map entry_of rows) token s = Inr ((length rows, 0), s1) \<and>
    (\<forall>p. row_of p (ks_rows s1) = (case row_of p rows of Some r \<Rightarrow> Some r | None \<Rightarrow> row_of p (ks_rows s)))"
proof -
  obtain s1 where "import_all cf es token 0 (map entry_of rows) ((0, 0), init_keys e s) = Inr ((length rows, 0), s1)"
      "ks_rows s1 = fold put_row rows (ks_rows s)"
    using import_all_replaces [OF assms(2,3), of cf token 0 0 0 "init_keys e s"] by auto
  then show ?thesis using init_healthy [OF assms(1), of s] row_of_fold_put [OF assms(4)]
    by (simp add: import_encrypted_def Let_def)
qed

text \<open>What is read depends on the row of the provider; the order of the rows does not matter.\<close>

lemma get_key_by_row:
  assumes "store_works e" and "row_of p (ks_rows s) = row_of p (ks_rows s')"
  shows "fst (get_key cf e p t ip s) = fst (get_key cf e p t ip s')"
  using assms init_healthy [of e s] init_healthy [of e s']
  by (auto simp: get_key_def Let_def store_works_def split: option.split sum.split)

lemma row_of_iff: "distinct (map kr_provider_id rows) \<Longrightarrow> row_of p rows = Some r \<longleftrightarrow> r \<in> set rows \<and> kr_provider_id r = p"
  by (induction rows) (auto simp: row_of_Cons row_of_def)

lemma row_of_sorted: "distinct (map kr_provider_id rows) \<Longrightarrow> row_of p (sort_key kr_provider_id rows) = row_of p rows"
proof -
  assume d: "distinct (map kr_provider_id rows)"
  then have "distinct (map kr_provider_id (sort_key kr_provider_id rows))" by (simp add: distinct_map)
  then have "row_of p (sort_key kr_provider_id rows) = Some r \<longleftrightarrow> row_of p rows = Some r" for r
    using d row_of_iff [of rows p r] row_of_iff [of "sort_key kr_provider_id rows" p r] by simp
  then show ?thesis by (metis option.exhaust)
qed

lemma row_of_none: "row_of p rows = None \<longleftrightarrow> p \<notin> kr_provider_id ` set rows"
  by (induction rows) (auto simp: row_of_Cons, auto simp: row_of_def)

text \<open>C28: while the database works: what one store exports, another one imports, replacing the keys it has of
  the exported providers and skipping none, whatever they are and whatever token they were
  encrypted under (the comparison encrypts again, with a salt that occurs in no entry).
  Afterwards each provider of the export reads, under any token, what it read in the exporting
  store, and the others read what they read before. The exporting table has one row a provider.\<close>

theorem import_overwrites_and_restores:
  assumes "store_works f" and "distinct (map kr_provider_id (ks_rows s0))" and "export_encrypted f s0 = (mf, s0')"
    and "store_works e" and "\<And>k. store_works (es k)" and "fresh_salts es (mf_keys mf)" and "store_works g"
  shows "\<exists>s1. import_encrypted cf e es (map entry_of (mf_keys mf)) token s = Inr ((length (ks_rows s0), 0), s1) \<and>
    (\<forall>p t ip. fst (get_key cf g p t ip s1) = fst (get_key cf g p t ip (if p \<in> kr_provider_id ` set (ks_rows s0) then s0 else s)))"
proof -
  have keys: "mf_keys mf = sort_key kr_provider_id (ks_rows s0)"
    using assms(1,3) init_healthy [of f s0] by (auto simp: export_encrypted_def list_keys_def Let_def store_works_def)
  then have "distinct (map kr_provider_id (mf_keys mf))" using assms(2) by (simp add: distinct_map)
  from import_replaces [OF assms(4,5,6) this, of cf token s] obtain s1 where
    s1: "import_encrypted cf e es (map entry_of (mf_keys mf)) token s = Inr ((length (mf_keys mf), 0), s1)"
    and rows: "row_of p (ks_rows s1) = (case row_of p (mf_keys mf) of Some r \<Rightarrow> Some r | None \<Rightarrow> row_of p (ks_rows s))" for p
    by blast
  have row: "row_of p (ks_rows s1) = row_of p (ks_rows (if p \<in> kr_provider_id ` set (ks_rows s0) then s0 else s))" for p
    using rows [of p] row_of_none [of p "ks_rows s0"] unfolding keys row_of_sorted [OF assms(2)]
    by (cases "row_of p (ks_rows s0)") simp_all
  show ?thesis
  proof (intro exI [of _ s1] conjI allI)
    show "import_encrypted cf e es (map entry_of (mf_keys mf)) token s = Inr ((length (ks_rows s0), 0), s1)"
      using s1 by (simp add: keys)
    show "fst (get_key cf g p t ip s1) = fst (get_key cf g p t ip (if p \<in> kr_provider_id ` set (ks_rows s0) then s0 else s))" for p t ip
      by (rule get_key_by_row [OF assms(7) row])
  qed
qed

section \<open>From the store to the routes\<close>

lemma sync_reads_the_same: "store_works e \<Longrightarrow> get_key_sync cf e p t s = fst (get_key cf e p t ip s)"
  using init_healthy [of e s] by (auto simp: get_key_sync_def get_key_def Let_def store_works_def split: option.split sum.split)

text \<open>A key in the environment wins over the one in the store, so a key stored at run time is not
  used by a process that starts with the variable set.\<close>

theorem environment_hides_the_stored_key:
  assumes "env_text (kn_environ e) ANTHROPIC_API_KEY '''' = k" and "k \<noteq> ''''"
  shows "map_option bp_api_key (snd (route_from_claude_profile cf e (start_registry e store ks) n p)) = Some k"
  using assms by (simp add: route_from_claude_profile_def get_api_key_def with_provider_def built_def Let_def)

text \<open>A key that the admin API stored under its own token is lost to a process that starts without
  ADMIN_TOKEN, or with a value of it whose key does not open it: the route is built without a provider.\<close>

theorem stored_key_is_lost_at_restart:
  assumes "opens cf" and "store_works e" and "store_works f"
    and "env_text (kn_environ f) ANTHROPIC_API_KEY '''' = ''''"
    and "reads_of_sealed cf e token k (getenv_or (kn_environ f) ''ADMIN_TOKEN'' '''') = None"
    and "set_key cf e ''anthropic'' k token ip s = (ok, s1)"
  shows "fst (get_key cf f ''anthropic'' token ip s1) = Some k \<and>
    route_from_claude_profile cf f (start_registry f store s1) n p = without_provider p ''missing_api_key'' ''''"
proof -
  let ?t = "getenv_or (kn_environ f) ''ADMIN_TOKEN'' ''''"
  have set: "fst (get_key cf f ''anthropic'' token ip s1) = Some k" "fst (get_key cf f ''anthropic'' ?t ip s1) = None"
    using set_then_get [OF assms(1-3,6), of ip] assms(5) by auto
  then have "get_key_sync cf f ''anthropic'' ?t s1 = None" using sync_reads_the_same [OF assms(3)] by metis
  then show ?thesis using set assms(4) by (simp add: route_from_claude_profile_def get_api_key_def start_registry_def Let_def)
qed

section \<open>Whose key a profile takes\<close>

text \<open>A profile for an OpenAI-compatible endpoint whose variable names neither of the three vendors
  sends the stored OpenAI key to that endpoint, wherever it is, when its own variable is empty.\<close>

theorem openai_key_goes_to_any_endpoint:
  assumes "mp_api_key_env p \<noteq> ''''" and "\<not> contains ''ANTHROPIC'' (mp_api_key_env p)" and "\<not> contains ''GOOGLE'' (mp_api_key_env p)"
    and "env_text (kn_environ e) (mp_api_key_env p) '''' = ''''"
    and "get_key_sync cf e ''openai'' (getenv_or (kn_environ e) ''ADMIN_TOKEN'' '''') ks = Some k" and "k \<noteq> ''''"
    and "getenv_or (kn_environ e) ''ADMIN_TOKEN'' '''' \<noteq> ''''" and "env_or_profile (kn_environ e) (mp_base_url_env p) (mp_base_url p) = url"
    and "url \<noteq> ''''"
  shows "\<exists>b. snd (route_from_openai_compatible_profile cf e (start_registry e store ks) n p) = Some b \<and> bp_api_key b = k \<and>
    pv_base_url (bp_provider b) = rstrip_slashes url"
proof -
  have "str_or k '''' = k" using assms(6) by (cases k) simp_all
  then show ?thesis
    using assms by (simp add: route_from_openai_compatible_profile_def get_api_key_def stored_key_id_def start_registry_def with_provider_def
        built_def Let_def)
qed

lemma built_budget_ids:
  assumes "build_routes cf e rg = Inr brs" and "r \<in> fst ` set brs"
  shows "pr_provider_budget_id r \<in> {''openrouter'', ''anthropic'', ''google'', ''default''}"
proof -
  have one: "pr_provider_budget_id (fst br) \<in> {''openrouter'', ''anthropic'', ''google'', ''default''}"
    if "route_of_profile cf e rg k p = Inr br" for k p br
    using that by (auto simp: route_of_profile_def route_from_local_profile_def route_from_openai_compatible_profile_def
        route_from_openrouter_profile_def route_from_claude_profile_def with_provider_def without_provider_def Let_def
        route_from_model_profile_def provider_budget_id_def split: sum.splits if_splits)
  have many: "\<exists>x \<in> set xs. f x = Inr br" if "map_result f xs = Inr brs" "br \<in> set brs"
    for f :: "nat \<times> model_profile \<Rightarrow> built_route result" and xs br brs
    using that by (induction xs arbitrary: brs) (auto simp: bind_result_def split: sum.splits)
  show ?thesis
  proof (cases "profile_order (rg_store rg) = []")
    case True
    then show ?thesis using assms
      by (auto simp: build_routes_def Let_def route_from_provider_def plain_route_def split: option.splits)
  next
    case False
    with assms(1) have "map_result (\<lambda>(k, p). route_of_profile cf e rg k p)
        (zip [0..<length (profile_order (rg_store rg))] (profile_order (rg_store rg))) = Inr brs" by (simp add: build_routes_def Let_def)
    moreover obtain br where br: "br \<in> set brs" "r = fst br" using assms(2) by blast
    ultimately obtain x where "(\<lambda>(k, p). route_of_profile cf e rg k p) x = Inr br" using many by blast
    then show ?thesis using one br(2) by (simp only: case_prod_unfold)
  qed
qed

lemma visit_none: "rs = [] \<Longrightarrow> visit_providers q rs seen = seen"
  by simp

text \<open>No route the registry builds has the budget of the providers openai, github or brave, so storing a
  key for one of these replaces the key of no live provider.\<close>

theorem rotation_reaches_no_route_of_other_vendors:
  assumes "build_routes cf e rg = Inr brs" and "all_routes ro = map fst brs" and "vendor \<in> {''openai'', ''github'', ''brave''}"
  shows "rotate_provider_key vendor ro = []"
proof -
  have "pr_provider_budget_id r \<noteq> vendor" if "r \<in> set (all_routes ro)" for r
    using built_budget_ids [OF assms(1)] that assms(2,3) by fastforce
  then have "filter (\<lambda>r. pr_provider_budget_id r = vendor) (all_routes ro) = []" by (simp add: filter_empty_conv)
  then show ?thesis by (simp add: rotate_provider_key_def)
qed

section \<open>Witnesses\<close>

lemma hex_no_dot: "CHR ''.'' \<notin> set (to_hex s)"
proof -
  have "CHR ''.'' \<noteq> hex_digit n" if "n < 16" for n
  proof
    assume dot: "CHR ''.'' = hex_digit n"
    have "(of_char (hex_digit n) :: nat) = 46" unfolding dot [symmetric] by simp
    then show False using hex_digit_code [OF that] by simp
  qed
  moreover have "(of_char c :: nat) div 16 < 16" for c using byte_less [of c] unfolding byte_def by (intro less_mult_imp_div_less) simp
  ultimately show ?thesis by (simp add: to_hex_def)
qed

lemma boxed_opens: "opens boxed"
  by (simp add: opens_def boxed_def starts_with_def)

lemma boxed_refuses: "t \<noteq> u \<Longrightarrow> cf_open boxed (derive_key boxed u salt) n (cf_seal boxed (derive_key boxed t salt) n p) = None"
proof -
  have "a = b" if start: "starts_with (to_hex (utf8_encode a) @ ''.'') (to_hex (utf8_encode b) @ CHR ''.'' # p)" for a b p
  proof -
    have before: "takeWhile (\<lambda>c. c \<noteq> CHR ''.'') (to_hex x @ CHR ''.'' # q) = to_hex x" for x q
      using hex_no_dot [of x] by (induction "to_hex x") (auto simp: takeWhile_append)
    obtain q where "to_hex (utf8_encode b) @ CHR ''.'' # p = to_hex (utf8_encode a) @ CHR ''.'' # q"
      using start unfolding starts_with_def by (metis append.assoc append_Cons append_Nil append_take_drop_id)
    then have "to_hex (utf8_encode b) = to_hex (utf8_encode a)" using before by metis
    then show ?thesis by (metis from_hex_to_hex option.inject utf8_read_back)
  qed
  then show "t \<noteq> u \<Longrightarrow> ?thesis" by (auto simp: boxed_def derive_key_def)
qed

definition calm_keys :: key_env where
  "calm_keys = \<lparr>kn_now = 0, kn_iso = (\<lambda>_. ''1970''), kn_salt = ''0123456789abcdef'', kn_nonce = ''nonce0123456'', kn_io = (\<lambda>_. None),
     kn_environ = (\<lambda>_. None)\<rparr>"

definition restarted :: key_env where
  "restarted = calm_keys\<lparr>kn_environ := (\<lambda>_. None)(''ADMIN_TOKEN'' := Some ''other'')\<rparr>"

lemma calm_works: "store_works calm_keys" "store_works restarted"
  by (simp_all add: store_works_def calm_keys_def restarted_def)

abbreviation sample_set :: "string \<Rightarrow> bool \<times> key_store" where
  "sample_set vendor \<equiv> set_key boxed calm_keys vendor ''sk-1'' ''policy'' None new_key_store"

theorem stored_key_is_read_back_witness:
  "fst (get_key boxed calm_keys ''openai'' ''policy'' None (snd (sample_set ''openai''))) = Some ''sk-1'' \<and>
   fst (get_key boxed calm_keys ''openai'' ''other'' None (snd (sample_set ''openai''))) = None"
  using stored_key_is_read_back [OF boxed_opens calm_works(1) calm_works(1), of "''openai''" "''sk-1''" "''policy''" None new_key_store
      "fst (sample_set ''openai'')" "snd (sample_set ''openai'')" None "''other''"] boxed_refuses [of "''policy''" "''other''"] by simp

theorem every_access_is_audited_witness:
  "audited calm_keys ''openai'' ''get'' (new_key_store\<lparr>ks_ready := True\<rparr>) False
     (snd (get_key boxed calm_keys ''openai'' ''policy'' None (new_key_store\<lparr>ks_ready := True\<rparr>)))"
proof -
  have none: "fst (get_key boxed calm_keys ''openai'' ''policy'' None (new_key_store\<lparr>ks_ready := True\<rparr>)) = None"
    by (simp add: get_key_def Let_def init_ready calm_keys_def row_of_def new_key_store_def)
  show ?thesis
    using every_access_is_audited [where s = "new_key_store\<lparr>ks_ready := True\<rparr>" and e = calm_keys and cf = boxed and p = "''openai''"
        and token = "''policy''" and ip = None and k = "''k''"] none
    by (simp add: calm_keys_def split: prod.splits)
qed

theorem import_overwrites_and_restores_witness:
  "\<exists>s1. import_encrypted boxed calm_keys (\<lambda>_. calm_keys\<lparr>kn_salt := ''another salt of''\<rparr>)
      (map entry_of (mf_keys (fst (export_encrypted calm_keys (snd (sample_set ''openai'')))))) ''policy'' new_key_store = Inr ((1, 0), s1) \<and>
    fst (get_key boxed calm_keys ''openai'' ''policy'' None s1) = Some ''sk-1''"
proof -
  let ?es = "\<lambda>_. calm_keys\<lparr>kn_salt := ''another salt of''\<rparr>" and ?mf = "fst (export_encrypted calm_keys (snd (sample_set ''openai'')))"
  have rows: "map kr_provider_id (ks_rows (snd (sample_set ''openai''))) = [''openai'']" by code_simp
  have "map kr_salt (mf_keys ?mf) = [to_hex ''0123456789abcdef'']" by code_simp
  then have "fresh_salts ?es (mf_keys ?mf)" by (auto simp: fresh_salts_def to_hex_def)
  moreover have "store_works (?es k)" for k by (simp add: store_works_def calm_keys_def)
  ultimately show ?thesis
    using import_overwrites_and_restores [OF calm_works(1) _ prod.collapse [symmetric] calm_works(1) _ _ calm_works(1),
        of "snd (sample_set ''openai'')" ?es boxed "''policy''" new_key_store] rows
      set_then_get [OF boxed_opens calm_works(1) calm_works(1) prod.collapse [symmetric], of "''openai''" "''sk-1''" "''policy''" None new_key_store None]
    by (auto simp: map_eq_Cons_conv)
qed

theorem environment_hides_the_stored_key_witness:
  "map_option bp_api_key (snd (route_from_claude_profile boxed (calm_keys\<lparr>kn_environ := (\<lambda>_. Some ''env'')\<rparr>)
      (start_registry (calm_keys\<lparr>kn_environ := (\<lambda>_. Some ''env'')\<rparr>) [] (snd (sample_set ''anthropic''))) 0
      (plain_profile ''c'' ''claude'' ''m''))) = Some ''env''"
  by (rule environment_hides_the_stored_key) (simp_all add: env_text_def getenv_or_def strip_no_space is_space_def)

theorem stored_key_is_lost_at_restart_witness:
  "route_from_claude_profile boxed restarted (start_registry restarted [] (snd (sample_set ''anthropic''))) 0 (plain_profile ''c'' ''claude'' ''m'')
     = without_provider (plain_profile ''c'' ''claude'' ''m'') ''missing_api_key'' ''''"
proof -
  have "reads_of_sealed boxed calm_keys ''policy'' ''sk-1'' ''other'' = None" by (simp add: reads_of_sealed_def boxed_refuses)
  moreover have "getenv_or (kn_environ restarted) ''ADMIN_TOKEN'' '''' = ''other''" by (simp add: restarted_def getenv_or_def)
  moreover have "env_text (kn_environ restarted) ANTHROPIC_API_KEY '''' = ''''" by code_simp
  ultimately show ?thesis
    using stored_key_is_lost_at_restart [OF boxed_opens calm_works(1) calm_works(2) _ _ prod.collapse [symmetric],
        of "''policy''" "''sk-1''" None new_key_store "[]" 0 "plain_profile ''c'' ''claude'' ''m''"] by simp
qed

definition claude_store :: profile_store where
  "claude_store = [(''c'', plain_profile ''c'' ''claude'' ''m'')]"

theorem rotation_reaches_no_route_of_other_vendors_witness:
  "\<exists>brs. build_routes boxed restarted (start_registry restarted claude_store new_key_store) = Inr brs \<and> brs \<noteq> [] \<and>
    rotate_provider_key ''openai'' (sample_router\<lparr>ro_routes := map fst brs, ro_synthesized := []\<rparr>) = []"
proof -
  let ?brs = "[route_from_claude_profile boxed restarted (start_registry restarted claude_store new_key_store) 0 (plain_profile ''c'' ''claude'' ''m'')]"
  have built: "build_routes boxed restarted (start_registry restarted claude_store new_key_store) = Inr ?brs"
    by (simp add: build_routes_def start_registry_def registry_from_env_def claude_store_def profile_order_def store_profiles_def
        plain_profile_def route_of_profile_def bind_result_def)
  show ?thesis
    using rotation_reaches_no_route_of_other_vendors [OF built, of "sample_router\<lparr>ro_routes := map fst ?brs, ro_synthesized := []\<rparr>" "''openai''"]
      built by (auto simp: all_routes_def)
qed

text \<open>The profile of the repository for Gemini.\<close>

definition gemini_cloud :: model_profile where
  "gemini_cloud = (plain_profile ''gemini-cloud'' ''openai_compatible'' ''gemini'')\<lparr>mp_api_key_env := ''GEMINI_CLOUD_API_KEY'',
     mp_base_url_env := ''GEMINI_CLOUD_BASE_URL'', mp_cost_tier := ''low_cost'', mp_role := ''secondary''\<rparr>"

definition gemini_start :: key_env where
  "gemini_start = calm_keys\<lparr>kn_environ := (\<lambda>_. None)(''ADMIN_TOKEN'' := Some ''policy'', ''GEMINI_CLOUD_BASE_URL'' := Some ''https://g'')\<rparr>"

theorem openai_key_goes_to_any_endpoint_witness:
  "\<exists>b. snd (route_from_openai_compatible_profile boxed gemini_start (start_registry gemini_start [] (snd (sample_set ''openai''))) 0 gemini_cloud) = Some b \<and>
    bp_api_key b = ''sk-1'' \<and> pv_base_url (bp_provider b) = ''https://g''"
proof -
  have "store_works gemini_start" by (simp add: store_works_def gemini_start_def calm_keys_def)
  then have "get_key_sync boxed gemini_start ''openai'' ''policy'' (snd (sample_set ''openai'')) = Some ''sk-1''"
    using set_then_get [OF boxed_opens calm_works(1) _ prod.collapse [symmetric], of gemini_start "''openai''" "''sk-1''" "''policy''"
        None new_key_store None]
      sealed_read_back [OF boxed_opens] by (simp add: sync_reads_the_same [where ip = None])
  then show ?thesis
    using openai_key_goes_to_any_endpoint [where p = gemini_cloud and e = gemini_start and cf = boxed and k = "''sk-1''"
        and ks = "snd (sample_set ''openai'')" and store = "[]" and n = 0 and url = "''https://g''"]
    by (simp add: gemini_start_def gemini_cloud_def plain_profile_def calm_keys_def env_text_def getenv_or_def env_or_profile_def
        strip_no_space is_space_def rstrip_slashes_def starts_with_def)
qed

end
