(* ===== verification/AdminRules.thy ===== *)
theory AdminRules
  imports AdminDesk KeyRules TurnRules
begin

text \<open>
  What the admin API promises: who gets in, what a policy patch reaches, and what becomes of a
  key that is stored; and how often the monitor alerts.
\<close>

section \<open>The door\<close>

lemma admin_door:
  "(require_admin_token e q = Inr () \<longleftrightarrow>
     list_all (\<lambda>c. (of_char c :: nat) < 128) (header_token q) \<and> header_token q \<noteq> '''' \<and>
     (if strip (getenv_or (ae_environ e) ''ADMIN_POLICY_TOKEN'' '''') \<noteq> ''''
      then header_token q = strip (getenv_or (ae_environ e) ''ADMIN_POLICY_TOKEN'' '''')
      else loopback_dev_admin_enabled (ae_environ e) \<and> is_loopback_client e q \<and> header_token q = ''local-dev-admin'')) \<and>
   (case require_admin_token e q of Inl err \<Rightarrow> admin_only e q act s = (Inl err, s) | Inr _ \<Rightarrow> admin_only e q act s = act s)"
proof
  have dev: "compare_digest t ''local-dev-admin'' = (if list_all (\<lambda>c. (of_char c :: nat) < 128) t then Inr (t = ''local-dev-admin'')
      else Inl (Raised ''TypeError''))" for t
    by (simp add: compare_digest_def)
  show "require_admin_token e q = Inr () \<longleftrightarrow>
     list_all (\<lambda>c. (of_char c :: nat) < 128) (header_token q) \<and> header_token q \<noteq> '''' \<and>
     (if strip (getenv_or (ae_environ e) ''ADMIN_POLICY_TOKEN'' '''') \<noteq> ''''
      then header_token q = strip (getenv_or (ae_environ e) ''ADMIN_POLICY_TOKEN'' '''')
      else loopback_dev_admin_enabled (ae_environ e) \<and> is_loopback_client e q \<and> header_token q = ''local-dev-admin'')"
    unfolding require_admin_token_def header_token_def [symmetric] Let_def dev by (auto simp: compare_digest_def)
qed (simp add: admin_only_def split: sum.split)

text \<open>The endpoints, and a run of requests with the environment each meets: which succeed, and the services after.\<close>

datatype admin_call = PatchPolicy policy_patch | ReadPolicy | SetKey string string | DeleteKey string | TestKey string | ListKeys | ClearBlock

definition succeeded :: "'a reply \<times> admin_services \<Rightarrow> bool \<times> admin_services" where
  "succeeded = (\<lambda>(r, s). (case r of Inl _ \<Rightarrow> False | Inr _ \<Rightarrow> True, s))"

definition serve_admin :: "admin_env \<times> admin_request \<times> admin_call \<Rightarrow> admin_services \<Rightarrow> bool \<times> admin_services" where
  "serve_admin = (\<lambda>(e, q, c) s.
     case c of
       PatchPolicy p \<Rightarrow> succeeded (admin_policy_patch e q p s)
     | ReadPolicy \<Rightarrow> succeeded (admin_policy e q s, s)
     | SetKey vendor k \<Rightarrow> succeeded (set_provider_key e q vendor k s)
     | DeleteKey vendor \<Rightarrow> succeeded (delete_provider_key e q vendor s)
     | TestKey vendor \<Rightarrow> succeeded (test_provider_key e q vendor s)
     | ListKeys \<Rightarrow> succeeded (list_provider_keys e q s)
     | ClearBlock \<Rightarrow> succeeded (admin_clear_accounting_block e q s))"

fun serve_admins :: "(admin_env \<times> admin_request \<times> admin_call) list \<Rightarrow> admin_services \<Rightarrow> bool list \<times> admin_services" where
  "serve_admins [] s = ([], s)"
| "serve_admins (r # rs) s = (case serve_admin r s of (ok, s1) \<Rightarrow> (case serve_admins rs s1 of (oks, s2) \<Rightarrow> (ok # oks, s2)))"

text \<open>Who has the token: the one that is configured, up to blanks around both, or the development token where that is allowed.\<close>

definition has_admin_token :: "admin_env \<times> admin_request \<times> admin_call \<Rightarrow> bool" where
  "has_admin_token = (\<lambda>(e, q, c).
     let configured = strip (getenv_or (ae_environ e) ''ADMIN_POLICY_TOKEN'' '''');
         given = strip (case aq_token q of None \<Rightarrow> '''' | Some t \<Rightarrow> t); host = strip (case aq_host q of None \<Rightarrow> '''' | Some h \<Rightarrow> h) in
     if configured \<noteq> '''' then given = configured
     else given = ''local-dev-admin'' \<and> (host = ''localhost'' \<or> ae_loopback e host = Some True)
       \<and> lower (strip (getenv_or (ae_environ e) ''ALLOW_LOOPBACK_DEV_ADMIN'' '''')) \<in> {''1'', ''true'', ''yes''})"

lemma opt_str_or_empty: "opt_str_or x '''' = (case x of None \<Rightarrow> '''' | Some t \<Rightarrow> t)"
  by (cases x; cases "the x") (simp_all add: opt_str_or_def)

lemma no_token_no_entry:
  assumes "\<not> has_admin_token (e, q, c)"
  obtains err where "require_admin_token e q = Inl err"
proof -
  have "require_admin_token e q \<noteq> Inr ()"
    using assms admin_door [of e q]
    by (auto simp: has_admin_token_def Let_def header_token_def loopback_dev_admin_enabled_def is_loopback_client_def opt_str_or_empty
        split: if_splits)
  then show thesis using that by (cases "require_admin_token e q") auto
qed

lemma turned_away: "\<not> has_admin_token r \<Longrightarrow> serve_admin r s = (False, s)"
proof -
  assume "\<not> has_admin_token r"
  moreover obtain e q c where r: "r = (e, q, c)" by (metis surj_pair)
  ultimately obtain err where "require_admin_token e q = Inl err" using no_token_no_entry by metis
  then show ?thesis unfolding r
    by (cases c) (simp_all add: serve_admin_def succeeded_def admin_policy_patch_def admin_policy_def set_provider_key_def
        delete_provider_key_def test_provider_key_def list_provider_keys_def admin_clear_accounting_block_def admin_only_def)
qed

text \<open>C24: over any run of requests to the modelled endpoints of the admin API, the services end as if the
  requests without the token had never been made, and each request that succeeds has the
  token: the configured one, up to blanks around it; without a configured one the fixed
  development token, from a loopback client and where the environment opts in.\<close>

theorem admin_needs_the_token:
  "snd (serve_admins rs s) = snd (serve_admins (filter has_admin_token rs) s) \<and>
   set (map fst (filter snd (zip rs (fst (serve_admins rs s))))) \<subseteq> Collect has_admin_token"
proof (induction rs arbitrary: s)
  case (Cons r rs)
  obtain ok s1 where r: "serve_admin r s = (ok, s1)" by (metis surj_pair)
  obtain oks s2 where rs: "serve_admins rs s1 = (oks, s2)" by (metis surj_pair)
  obtain oks' s3 where rest: "serve_admins (filter has_admin_token rs) s1 = (oks', s3)" by (metis surj_pair)
  show ?case using Cons.IH [of s1] turned_away [of r s] r rs rest by (cases "has_admin_token r") auto
qed simp

section \<open>Switching the cloud off\<close>

lemma map_budget_fields [simp]:
  "ro_budget (ad_router (map_budget f s)) = f (ro_budget (ad_router s))" "ad_orchestrator (map_budget f s) = ad_orchestrator s"
  "ro_routes (ad_router (map_budget f s)) = ro_routes (ad_router s)" "ro_overrides (ad_router (map_budget f s)) = ro_overrides (ad_router s)"
  "ro_strategy (ad_router (map_budget f s)) = ro_strategy (ad_router s)"
  by (simp_all add: map_budget_def)

lemma map_policy_fields [simp]:
  "ad_router (map_policy f s) = ad_router s" "or_cloud_policy (ad_orchestrator (map_policy f s)) = f (or_cloud_policy (ad_orchestrator s))"
  by (simp_all add: map_policy_def)

lemma if_given_fields [simp]: "if_given None f = id" "if_given (Some v) f = f v"
  by (simp_all add: if_given_def)

lemma strategy_fields [simp]:
  "ro_budget (ad_router (apply_strategy p s)) = ro_budget (ad_router s)" "ad_orchestrator (apply_strategy p s) = ad_orchestrator s"
  "ro_routes (ad_router (apply_strategy p s)) = ro_routes (ad_router s)" "ro_overrides (ad_router (apply_strategy p s)) = ro_overrides (ad_router s)"
  "ro_strategy (ad_router (apply_strategy p s)) = (case ap_routing_strategy p of None \<Rightarrow> ro_strategy (ad_router s) | Some v \<Rightarrow> v)"
  by (simp_all add: apply_strategy_def if_given_def split: option.split)

lemma set_route_enabled_budget [simp]: "ro_budget (set_route_enabled n b ro) = ro_budget ro"
  by (simp add: set_route_enabled_def Let_def split: option.split)

lemma apply_routes_fields [simp]:
  "ro_budget (ad_router (apply_routes p s)) = ro_budget (ad_router s)" "ad_orchestrator (apply_routes p s) = ad_orchestrator s"
proof -
  have "ro_budget (fold (\<lambda>(name, enabled). set_route_enabled name enabled) rs ro) = ro_budget ro" for rs ro
    by (induction rs arbitrary: ro) auto
  then show "ro_budget (ad_router (apply_routes p s)) = ro_budget (ad_router s)" by (simp add: apply_routes_def)
qed (simp add: apply_routes_def)

text \<open>A gate that lets no call through.\<close>

definition cloud_closed :: "router_budget \<Rightarrow> bool" where
  "cloud_closed b =
     (case b of NoBudget \<Rightarrow> False | SingleGate g \<Rightarrow> \<not> cb_enabled (cg_config g)
      | MultiGate m \<Rightarrow> (case mg_global m of None \<Rightarrow> False | Some g \<Rightarrow> \<not> cb_enabled (cg_config g)))"

lemma caps_enabled [simp]: "cb_enabled (apply_caps p c) = cb_enabled c"
  by (simp add: apply_caps_def if_given_def split: option.split)

lemma closed_caps [simp]: "cloud_closed (map_config (apply_caps p) b) = cloud_closed b"
  by (cases b) (simp_all add: cloud_closed_def split: option.split)

lemma closed_providers: "apply_provider_budgets bs b = (r, b1) \<Longrightarrow> cloud_closed b1 = cloud_closed b"
proof (induction bs b arbitrary: r b1 rule: apply_provider_budgets.induct)
  case (2 pid limits rest b)
  have keep: "cloud_closed (MultiGate (update_provider_budget pid x y m)) = cloud_closed (MultiGate m)" for x y m
    by (simp add: cloud_closed_def update_provider_budget_def Let_def split: option.split)
  show ?case using 2 keep by (auto simp: Let_def split: if_splits router_budget.splits)
qed simp

lemma map_config_multi [simp]:
  "map_config f b = NoBudget \<longleftrightarrow> b = NoBudget" "(\<exists>m. map_config f b = MultiGate m) \<longleftrightarrow> (\<exists>m. b = MultiGate m)"
  "init_budget e b = NoBudget \<longleftrightarrow> b = NoBudget" "(\<exists>m. init_budget e b = MultiGate m) \<longleftrightarrow> (\<exists>m. b = MultiGate m)"
  by (cases b; simp)+

lemma providers_multi: "apply_provider_budgets bs (MultiGate m) = (r, b) \<Longrightarrow> \<exists>m1. b = MultiGate m1"
  by (induction bs arbitrary: m r b) (auto simp: Let_def split: if_splits)

lemma spillover_multi: "(\<exists>m. ro_budget (ad_router (apply_spillover e p s)) = MultiGate m) \<longleftrightarrow> (\<exists>m. ro_budget (ad_router s) = MultiGate m)"
  by (simp add: apply_spillover_def Let_def split: option.split)

lemma patch_keeps_gates:
  assumes "apply_admin_policy e p s = (res, s1)" and "ro_budget (ad_router s) = MultiGate m"
  shows "\<exists>m1. ro_budget (ad_router s1) = MultiGate m1"
proof -
  define s0 where "s0 = apply_strategy p (apply_spillover e p s)"
  obtain m0 where m0: "ro_budget (ad_router s0) = MultiGate m0" using spillover_multi [of e p s] assms(2) by (auto simp: s0_def)
  then show ?thesis
    using assms(1) providers_multi
    by (auto simp: apply_admin_policy_def s0_def [symmetric] Let_def split: if_splits prod.splits)
qed

definition cloud_off :: "cloud_spend_policy \<Rightarrow> bool" where
  "cloud_off cp = (\<not> cp_low_cost_enabled cp \<and> \<not> cp_claude_enabled cp)"

lemma tiers_off: "cloud_off cp \<Longrightarrow> ap_cloud_spillover_enabled p = Some False \<Longrightarrow> cloud_off (apply_tiers p cp)"
  by (auto simp: cloud_off_def apply_tiers_def if_given_def Let_def split: option.split)

lemma patch_off:
  assumes off: "ap_cloud_spillover_enabled p = Some False" and gate: "ro_budget (ad_router s) = SingleGate g \<or>
      (\<exists>m. ro_budget (ad_router s) = MultiGate m \<and> mg_global m = Some g)"
    and applied: "apply_admin_policy e p s = (res, s1)"
  shows "cloud_closed (ro_budget (ad_router s1)) \<and> cloud_off (or_cloud_policy (ad_orchestrator s1))"
proof -
  define s0 where "s0 = apply_strategy p (apply_spillover e p s)"
  have start: "cloud_closed (ro_budget (ad_router s0))" "cloud_off (or_cloud_policy (ad_orchestrator s0))"
    using gate off by (auto simp: s0_def apply_spillover_def wanted_spillover_def cloud_closed_def cloud_off_def Let_def)
  then have some: "ro_budget (ad_router s0) \<noteq> NoBudget" by (auto simp: cloud_closed_def)
  show ?thesis
  proof (cases "unknown_routes p s0 = []")
    case False
    then show ?thesis using applied start by (simp add: apply_admin_policy_def s0_def [symmetric] Let_def)
  next
    case True
    let ?b = "map_config (apply_caps p) (ro_budget (ad_router s0))"
    obtain r b where loop: "apply_provider_budgets (case ap_provider_budgets p of None \<Rightarrow> [] | Some bs \<Rightarrow> bs) ?b = (r, b)" by fastforce
    have "?b \<noteq> NoBudget" using some by (cases "ro_budget (ad_router s0)") auto
    then show ?thesis
      using applied True start closed_providers [OF loop] tiers_off [OF start(2) off]
      by (simp add: apply_admin_policy_def s0_def [symmetric] Let_def loop) auto
  qed
qed

lemma off_decides_local: "cloud_off (or_cloud_policy orc) \<Longrightarrow>
  \<not> rd_cloud_allowed (decide cfg orc mode message answered given) \<and> rd_response_policy (decide cfg orc mode message answered given) = LocalOnly"
  by (auto simp: cloud_off_def decide_def Let_def answer_decision_fields cloud_allowed_for_def select_policy_def
      intake_decision_def redirect_decision_def plain_decision_def split: prod.splits)

lemma gate_init_config [simp]: "cg_config (gate_init e g) = cg_config g"
  by (simp add: gate_init_def split: option.split)

lemma multi_init_closed: "cloud_closed (MultiGate (multi_init e m)) = cloud_closed (MultiGate m)"
  by (simp add: multi_init_def on_global_def load_cloud_def cloud_closed_def split: option.split prod.split)

lemma closed_denies:
  "cloud_closed (SingleGate g) \<Longrightarrow> \<not> allowed (fst (reserve q g))"
  "cloud_closed (MultiGate m) \<Longrightarrow> \<not> allowed (fst (multi_reserve q pid m))"
proof -
  have one: "reserve q g = (deny ''cloud_spillover_disabled'', g)" if "\<not> cb_enabled (cg_config g)" for g
    using that by (simp add: reserve_def Let_def)
  show "cloud_closed (SingleGate g) \<Longrightarrow> \<not> allowed (fst (reserve q g))" by (simp add: cloud_closed_def one)
  assume closed: "cloud_closed (MultiGate m)"
  then obtain g where g: "mg_global m = Some g" "\<not> cb_enabled (cg_config g)" by (auto simp: cloud_closed_def split: option.splits)
  define g1 where "g1 = load_cloud (mg_file m) g"
  have "cg_config (load_cloud f h) = cg_config h" for f h by (simp add: load_cloud_def)
  then show "\<not> allowed (fst (multi_reserve q pid m))"
    using g by (simp add: multi_reserve_def multi_init_def on_global_def Let_def one)
qed

text \<open>C11: an operator's patch that switches the spillover off closes the cloud to every later turn, where the
  gate of all providers has its global gate, as the application builds it: no decision allows
  the cloud and the gate reserves nothing, whatever else the patch asks for and even if it is
  refused in the end for an unknown route or a pair of zero caps. Only a patch with an unknown
  routing strategy is refused before anything is applied: it is answered with 422 and changes nothing.\<close>

theorem spillover_off_reaches_every_turn:
  assumes "require_admin_token e q = Inr ()" and "ap_cloud_spillover_enabled p = Some False"
    and "ro_budget (ad_router s) = MultiGate m" and "mg_global m \<noteq> None"
  shows "case admin_policy_patch e q p s of (res, s1) \<Rightarrow>
    if ap_routing_strategy p \<in> insert None (Some ` set ROUTING_STRATEGIES)
    then \<not> rd_cloud_allowed (decide cfg (ad_orchestrator s1) mode message answered given) \<and>
      rd_response_policy (decide cfg (ad_orchestrator s1) mode message answered given) = LocalOnly \<and>
      (\<exists>m1. ro_budget (ad_router s1) = MultiGate m1 \<and> \<not> allowed (fst (multi_reserve rq pid m1)))
    else res = Inl (HttpError 422 ''routing_strategy'') \<and> s1 = s"
proof -
  have valid: "patch_ok p \<longleftrightarrow> ap_routing_strategy p \<in> insert None (Some ` set ROUTING_STRATEGIES)"
    by (cases "ap_routing_strategy p") (auto simp: patch_ok_def)
  obtain res s1 where run: "apply_admin_policy (ae_budget e) p s = (res, s1)" by (metis surj_pair)
  obtain g where "mg_global m = Some g" using assms(4) by auto
  then have closed: "cloud_closed (ro_budget (ad_router s1))" "cloud_off (or_cloud_policy (ad_orchestrator s1))"
    using patch_off [OF assms(2) _ run] assms(3) by auto
  have "\<exists>m1. ro_budget (ad_router s1) = MultiGate m1" using patch_keeps_gates [OF run] assms(3) by auto
  then obtain m1 where m1: "ro_budget (ad_router s1) = MultiGate m1" by blast
  show ?thesis
  proof (cases "patch_ok p")
    case True
    then have "admin_policy_patch e q p s = (res, s1)" using assms(1) run by (simp add: admin_policy_patch_def admin_only_def)
    then show ?thesis using off_decides_local [OF closed(2)] closed_denies(2) closed(1) m1 True valid by auto
  next
    case False
    then have eq: "admin_policy_patch e q p s = (Inl (HttpError 422 ''routing_strategy''), s)"
      using assms(1) by (simp add: admin_policy_patch_def admin_only_def)
    have "ap_routing_strategy p \<notin> insert None (Some ` set ROUTING_STRATEGIES)" using False valid by blast
    then show ?thesis unfolding eq by auto
  qed
qed

section \<open>What is wrong with a patch\<close>

lemma spillover_config:
  "ro_budget (ad_router s) = MultiGate m \<Longrightarrow> mg_global m = Some g \<Longrightarrow>
   budget_config (ro_budget (ad_router (apply_spillover e p s))) =
     Some ((cg_config g)\<lparr>cb_enabled := (case wanted_spillover p of None \<Rightarrow> cb_enabled (cg_config g) | Some on \<Rightarrow> on)\<rparr>)"
  by (simp add: apply_spillover_def Let_def multi_init_def on_global_def load_cloud_def multi_config_def split: option.split prod.split)

lemma spillover_router [simp]:
  "ro_routes (ad_router (apply_spillover e p s)) = ro_routes (ad_router s)"
  "ro_overrides (ad_router (apply_spillover e p s)) = ro_overrides (ad_router s)"
  "ro_strategy (ad_router (apply_spillover e p s)) = ro_strategy (ad_router s)"
  by (simp_all add: apply_spillover_def Let_def split: option.split)

text \<open>A patch that is refused because it names an unknown route is half applied: the spillover and the strategy
  are as it asked, its routes, caps and tiers are not.\<close>

theorem refused_patch_is_half_applied:
  assumes "require_admin_token e q = Inr ()" and "patch_ok p" and "ap_routes p = Some rs" and "(name, on) \<in> set rs"
    and "name \<notin> pr_name ` set (ro_routes (ad_router s))" and "ro_budget (ad_router s) = MultiGate m" and "mg_global m = Some g"
  shows "case admin_policy_patch e q p s of (res, s1) \<Rightarrow>
    res = Inl (HttpError 400 ''unknown_route_names'') \<and> ro_overrides (ad_router s1) = ro_overrides (ad_router s) \<and>
    ro_strategy (ad_router s1) = (case ap_routing_strategy p of None \<Rightarrow> ro_strategy (ad_router s) | Some v \<Rightarrow> v) \<and>
    budget_config (ro_budget (ad_router s1)) =
      Some ((cg_config g)\<lparr>cb_enabled := (case wanted_spillover p of None \<Rightarrow> cb_enabled (cg_config g) | Some b \<Rightarrow> b)\<rparr>)"
proof -
  let ?s1 = "apply_strategy p (apply_spillover (ae_budget e) p s)"
  have "name \<in> set (unknown_routes p ?s1)" using assms(3-5) by (force simp: unknown_routes_def)
  then have "unknown_routes p ?s1 \<noteq> []" by auto
  then have "admin_policy_patch e q p s = (Inl (HttpError 400 ''unknown_route_names''), ?s1)"
    using assms(1,2) by (simp add: admin_policy_patch_def admin_only_def apply_admin_policy_def Let_def)
  then show ?thesis using spillover_config [OF assms(6,7)] by (simp split: option.split)
qed

lemma updated_caps:
  "\<exists>pg. dict_get (mg_gates (update_provider_budget pid daily monthly m)) pid = Some pg \<and>
    pb_max_daily_usd (pg_config pg) = (case dict_get (mg_gates m) pid of None \<Rightarrow> num_or daily 0
      | Some old \<Rightarrow> (case daily of None \<Rightarrow> pb_max_daily_usd (pg_config old) | Some d \<Rightarrow> d)) \<and>
    pb_max_monthly_usd (pg_config pg) = (case dict_get (mg_gates m) pid of None \<Rightarrow> num_or monthly 0
      | Some old \<Rightarrow> (case monthly of None \<Rightarrow> pb_max_monthly_usd (pg_config old) | Some d \<Rightarrow> d))"
  by (cases "dict_get (mg_gates m) pid"; cases daily; cases monthly)
    (simp_all add: update_provider_budget_def Let_def dict_kv.lookup_put new_provider_gate_def)

text \<open>C36: the patch that sets both caps of a provider to zero is refused, because zero caps mean no caps; two
  patches with one zero each are accepted, and after them the provider's gate lets every call
  through.\<close>

theorem zero_caps_in_two_patches:
  "apply_provider_budgets [(pid, [(''max_daily_usd'', 0), (''max_monthly_usd'', 0)])] (MultiGate m)
     = (Inl (HttpError 400 (''Cannot set both caps to zero for '' @ pid)), MultiGate m) \<and>
   (\<exists>m1 m2 pg. apply_provider_budgets [(pid, [(''max_daily_usd'', 0)])] (MultiGate m) = (Inr (), MultiGate m1) \<and>
     apply_provider_budgets [(pid, [(''max_monthly_usd'', 0)])] (MultiGate m1) = (Inr (), MultiGate m2) \<and>
     dict_get (mg_gates m2) pid = Some pg \<and> (\<forall>call. allowed (fst (check_and_record call pg))))"
  (is "?both \<and> ?split")
proof
  show ?both by simp
  let ?m1 = "update_provider_budget pid (Some 0) None m"
  let ?m2 = "update_provider_budget pid None (Some 0) ?m1"
  obtain pg1 where one: "dict_get (mg_gates ?m1) pid = Some pg1" "pb_max_daily_usd (pg_config pg1) = 0"
    using updated_caps [of pid "Some 0" None m] by (auto simp: num_or_def split: option.splits)
  then have "\<exists>pg. dict_get (mg_gates ?m2) pid = Some pg \<and> \<not> provider_is_enabled (pg_config pg)"
    using updated_caps [of pid None "Some 0" ?m1] by (auto simp: provider_is_enabled_def)
  then obtain pg where "dict_get (mg_gates ?m2) pid = Some pg" "\<not> provider_is_enabled (pg_config pg)" by blast
  moreover from this have "allowed (fst (check_and_record call pg))" for call by (cases call) (simp add: check_and_record_def)
  ultimately show ?split by - (rule exI [of _ ?m1], rule exI [of _ ?m2], rule exI [of _ pg], simp add: Let_def)
qed

text \<open>The premium tier alone does not imply the spillover: turns may plan for a cloud the gate refuses.\<close>

lemma claude_tier_without_spillover:
  assumes "p = no_patch\<lparr>ap_claude_enabled := Some True\<rparr>" and "apply_admin_policy e p s = (res, s1)"
  shows "cp_claude_enabled (or_cloud_policy (ad_orchestrator s1)) \<and> budget_config (ro_budget (ad_router s1)) = budget_config (ro_budget (ad_router s))"
proof -
  have "map_config (apply_caps p) b = b" for b
    using assms(1) by (cases b) (auto simp: apply_caps_def no_patch_def option.map_ident split: option.split)
  then show ?thesis
    using assms by (auto simp: apply_admin_policy_def Let_def apply_spillover_def wanted_spillover_def unknown_routes_def no_patch_def
        apply_tiers_def split: if_splits)
qed

section \<open>Storing a key\<close>

lemma visited: "n \<in> set (visit_providers f rs seen) \<longleftrightarrow> n \<in> set seen \<or> (\<exists>r \<in> set rs. \<exists>pv. pr_provider r = Some pv \<and> f pv \<and> pv_id pv = n)"
  by (induction f rs seen rule: visit_providers.induct) (auto split: option.splits)

lemma rotated_keys: "dict_get (fold (\<lambda>n. dict_set n k) ns d) n = (if n \<in> set ns then Some k else dict_get d n)"
  by (induction ns arbitrary: d) (auto simp: dict_kv.lookup_put)

lemma get_key_by_rows:
  assumes "store_works f" and "ks_rows s = ks_rows s'"
  shows "fst (get_key cf f p token ip s) = fst (get_key cf f p token ip' s')"
  using assms init_healthy [OF assms(1), of s] init_healthy [OF assms(1), of s']
  by (auto simp: get_key_def Let_def store_works_def split: option.split sum.split)

lemma has_key_rows: "has_key e p s = (found, s1) \<Longrightarrow> ks_rows s1 = ks_rows s"
  by (auto simp: has_key_def Let_def split: if_splits option.splits)

lemma test_key_fields:
  assumes "test_key e p k s = (t, s1)"
  shows "t = probe_key e p k" "ad_keys s1 = ad_keys s" "ad_live s1 = ad_live s" "ad_router s1 = ad_router s" "ad_balance s1 = ad_balance s"
  using assms by (auto simp: test_key_def Let_def)

lemma balance_fields [simp]:
  "ad_keys (forget_balance p s) = ad_keys s" "ad_live (forget_balance p s) = ad_live s" "ad_router (forget_balance p s) = ad_router s"
  "map_option bk_api_key (ad_balance (forget_balance p s)) = map_option bk_api_key (ad_balance s)"
  by (simp_all add: forget_balance_def option.map_comp comp_def)

lemma rate_check_fields:
  assumes "check_key_store_rate_limit e q s = (r, s1)"
  shows "ad_keys s1 = ad_keys s" "ad_live s1 = ad_live s" "ad_router s1 = ad_router s" "ad_balance s1 = ad_balance s"
  using assms by (auto simp: check_key_store_rate_limit_def split: prod.splits)

text \<open>C26: an admitted request to store a key of 1 to 500 characters of a known vendor, within the rate limit
  and while the key store works, stores the key; it is read back under the caller's token, and
  is at once the key of every live provider of its vendor that can take one, whatever the vendor
  said when it was tested; the balance is still asked for with the key the process started with.\<close>

theorem stored_key_is_live_untested:
  assumes "require_admin_token e q = Inr ()" and "vendor \<in> fst ` set PROVIDER_ENV_VARS" and "1 \<le> length k" and "length k \<le> 500"
    and "fst (check_key_store_rate_limit e q s) = Inr ()" and "ad_keys s = Some ks"
    and "opens (ae_cipher e)" and "store_works (ae_keys e)"
  shows "case set_provider_key e q vendor k s of (res, s1) \<Rightarrow>
    res = Inr \<lparr>kd_provider_id = vendor, kd_stored = True, kd_test = probe_key e vendor k\<rparr> \<and>
    (\<exists>ks1. ad_keys s1 = Some ks1 \<and> fst (get_key (ae_cipher e) (ae_keys e) vendor (header_token q) None ks1) = Some k) \<and>
    (\<forall>r pv. r \<in> set (all_routes (ad_router s)) \<longrightarrow> pr_provider_budget_id r = vendor \<longrightarrow> pr_provider r = Some pv \<longrightarrow> pv_rekeyable pv \<longrightarrow>
      dict_get (ad_live s1) (pv_id pv) = Some k) \<and>
    map_option bk_api_key (ad_balance s1) = map_option bk_api_key (ad_balance s)"
proof -
  obtain s1 where rate: "check_key_store_rate_limit e q s = (Inr (), s1)" using assms(5) by (metis prod.collapse)
  note r = rate_check_fields [OF rate]
  have token: "header_token q \<noteq> ''''" using assms(1) admin_door by blast
  obtain ok ks1 where set: "set_key (ae_cipher e) (ae_keys e) vendor k (header_token q) None ks = (ok, ks1)" by fastforce
  have stored: "ok" "fst (get_key (ae_cipher e) (ae_keys e) vendor (header_token q) None ks1) = Some k"
    using set_then_get [OF assms(7,8,8) set, of None] by blast+
  let ?s2 = "rotate_live vendor k (forget_balance vendor (s1\<lparr>ad_keys := Some ks1\<rparr>))"
  obtain t s3 where test: "test_key e vendor k ?s2 = (t, s3)" by fastforce
  note t = test_key_fields [OF test]
  obtain found ks2 where has: "has_key (ae_keys e) vendor ks1 = (found, ks2)" by fastforce
  have found: "found"
  proof -
    have "row_of vendor (ks_rows ks1) \<noteq> None"
      using stored init_healthy [OF assms(8), of ks1] by (auto simp: get_key_def Let_def split: option.splits if_splits)
    then show ?thesis using has init_healthy [OF assms(8), of ks1] assms(8) by (auto simp: has_key_def Let_def store_works_def)
  qed
  have run: "set_provider_key e q vendor k s =
      (Inr \<lparr>kd_provider_id = vendor, kd_stored = True, kd_test = probe_key e vendor k\<rparr>, s3\<lparr>ad_keys := Some ks2\<rparr>)"
    using assms(1-4,6) token r stored found
    by (simp add: set_provider_key_def admin_only_def store_provider_key_def rate set Let_def test has t(1))
  have "fst (get_key (ae_cipher e) (ae_keys e) vendor (header_token q) None ks2) = Some k"
    using get_key_by_rows [OF assms(8) has_key_rows [OF has], of "ae_cipher e" vendor "header_token q" None None] stored by simp
  moreover have "dict_get (ad_live s3) (pv_id pv) = Some k"
    if "r \<in> set (all_routes (ad_router s))" "pr_provider_budget_id r = vendor" "pr_provider r = Some pv" "pv_rekeyable pv" for r pv
    using that t(3) r(3) by (auto simp: rotate_live_def rotated_keys rotate_provider_key_def visited)
  moreover have "map_option bk_api_key (ad_balance s3) = map_option bk_api_key (ad_balance s)"
    using t(5) r(4) balance_fields(4) [of vendor "s1\<lparr>ad_keys := Some ks1\<rparr>"] by (simp add: rotate_live_def)
  ultimately show ?thesis by (simp add: run)
qed

text \<open>A deleted key that the environment does not replace stays the key of the live providers.\<close>

lemma deleted_key_stays_live:
  assumes "env_fallback (ae_environ e) vendor = ''''"
  shows "ad_live (snd (delete_provider_key e q vendor s)) = ad_live s"
proof -
  have "ad_live (snd (admin_only e q act s)) = ad_live s" if "\<And>s. ad_live (snd (act s)) = ad_live s" for act :: "admin_services \<Rightarrow> 'a reply \<times> admin_services"
    using that by (simp add: admin_only_def split: sum.split)
  then show ?thesis
    unfolding delete_provider_key_def
    by (rule) (auto simp: assms Let_def dest: rate_check_fields(2) split: prod.splits sum.splits option.splits)
qed

section \<open>Alerts of the monitor\<close>

record key_trial =
  tr_env :: monitor_env
  tr_provider :: string
  tr_success :: bool
  tr_failure_type :: "string option"
  tr_details :: string

definition record_trials :: "key_trial list \<Rightarrow> key_monitor \<Rightarrow> key_monitor" where
  "record_trials = fold (\<lambda>t. record_attempt (tr_env t) (tr_provider t) (tr_success t) (tr_failure_type t) (tr_details t))"

text \<open>The webhook answers and the database works; the times do not decrease.\<close>

definition trial_works :: "key_trial \<Rightarrow> bool" where
  "trial_works t = (mo_post_ok (tr_env t) \<and> mo_io (tr_env t) SentRead = None \<and> mo_io (tr_env t) SentWrite = None)"

definition an_hour_apart :: "validation_alert \<Rightarrow> validation_alert \<Rightarrow> bool" where
  "an_hour_apart a b = (vl_provider_id a = vl_provider_id b \<longrightarrow> vl_timestamp b \<ge> vl_timestamp a + hours 1)"

text \<open>Every alert in the outbox is at most as late as the recorded one of its provider.\<close>

definition alerts_recorded :: "key_monitor \<Rightarrow> bool" where
  "alerts_recorded m = (sorted_wrt an_hour_apart (km_outbox m) \<and>
     (\<forall>a \<in> set (km_outbox m). \<exists>t. last_sent m (vl_provider_id a) = Some t \<and> vl_timestamp a \<le> t))"

lemma send_recorded:
  assumes "alerts_recorded m" and "mo_post_ok e" and "mo_io e SentRead = None" and "mo_io e SentWrite = None"
  shows "alerts_recorded (snd (send_validation_alert e p ft n d m))"
proof (cases "km_webhook_url m = None \<or> sent_recently e p m")
  case True
  then show ?thesis using assms(1) by (auto simp: send_validation_alert_def alert_due_def post_alert_def)
next
  case False
  let ?a = "\<lparr>vl_provider_id = p, vl_failure_type = ft, vl_failure_count = n, vl_threshold = km_failure_threshold m, vl_details = d,
      vl_timestamp = mo_now e\<rparr>"
  let ?m1 = "m\<lparr>km_outbox := km_outbox m @ [?a]\<rparr>"
  have eq: "snd (send_validation_alert e p ft n d m) = put_sent p (mo_now e) ?m1"
    using False assms by (auto simp: send_validation_alert_def alert_due_def post_alert_def Let_def)
  have out: "km_outbox (put_sent p (mo_now e) ?m1) = km_outbox m @ [?a]" by (simp add: put_sent_def)
  have sent: "last_sent (put_sent p (mo_now e) ?m1) q = (if q = p then Some (mo_now e) else last_sent m q)" for q
    unfolding sent_kv.lookup_put by (simp add: last_sent_def)
  have late: "mo_now e \<ge> t + hours 1" if "last_sent m p = Some t" for t
    using False assms(3) that by (simp add: sent_recently_def)
  have apart: "an_hour_apart a ?a" and before: "vl_provider_id a = p \<Longrightarrow> vl_timestamp a \<le> mo_now e" if "a \<in> set (km_outbox m)" for a
  proof -
    obtain t where t: "last_sent m (vl_provider_id a) = Some t" "vl_timestamp a \<le> t"
      using assms(1) \<open>a \<in> set (km_outbox m)\<close> by (auto simp: alerts_recorded_def)
    show "an_hour_apart a ?a" using t late [of t] by (auto simp: an_hour_apart_def)
    show "vl_provider_id a = p \<Longrightarrow> vl_timestamp a \<le> mo_now e" using t late [of t] by (simp add: hours_def)
  qed
  show ?thesis
    using assms(1) apart before unfolding eq alerts_recorded_def out sent by (auto simp: sorted_wrt_append)
qed

lemma attempt_recorded:
  assumes "alerts_recorded m" and "mo_post_ok e" and "mo_io e SentRead = None" and "mo_io e SentWrite = None"
  shows "alerts_recorded (record_attempt e p ok ft d m)"
proof -
  have attempts: "alerts_recorded (m'\<lparr>km_attempts := xs\<rparr>) = alerts_recorded m'" for m' xs
    by (simp add: alerts_recorded_def last_sent_def)
  have init: "alerts_recorded (monitor_init e m)" using assms(1) by (simp add: monitor_init_def alerts_recorded_def last_sent_def)
  have check: "alerts_recorded (check_failures e p x d m')" if "alerts_recorded m'" for x m'
    using that assms send_recorded by (simp add: check_failures_def Let_def)
  show ?thesis using init by (simp add: record_attempt_def Let_def attempts check)
qed

text \<open>C33: over tests of provider keys that do not overlap, while the webhook answers and the database works,
  two alerts for one provider are at least an hour apart, however the tests fail and whatever
  happens to other providers. Tests that overlap between the look-up of the last alert and its
  record are not covered, and break it: \<open>tests_at_once_alert_twice\<close>.\<close>

theorem alerts_an_hour_apart:
  assumes "list_all trial_works ts" and "km_outbox m = []"
  shows "sorted_wrt an_hour_apart (km_outbox (record_trials ts m))"
proof -
  have "alerts_recorded (record_trials ts m)" if "alerts_recorded m" for m
    using assms(1) that unfolding record_trials_def by (induction ts arbitrary: m) (simp_all add: trial_works_def attempt_recorded)
  moreover have "alerts_recorded m" using assms(2) by (simp add: alerts_recorded_def)
  ultimately show ?thesis by (simp add: alerts_recorded_def)
qed

text \<open>Nothing holds back a test that looks up the last alert while another one's alert is being posted.\<close>

lemma tests_at_once_alert_twice:
  assumes "alert_due e p m" and "alert_due f p m" and "mo_post_ok e" and "mo_io e SentWrite = None"
  shows "map vl_timestamp (km_outbox (snd (post_alert f p ft' n' d' (snd (post_alert e p ft n d m)))))
    = map vl_timestamp (km_outbox m) @ [mo_now e, mo_now f]"
  using assms(3,4) by (simp add: post_alert_def put_sent_def Let_def)

section \<open>Witnesses\<close>

definition sample_multi :: multi_gate where
  "sample_multi = \<lparr>mg_env = (\<lambda>_. None), mg_file = \<lparr>sf_budget = empty_db, sf_fired_table = False, sf_fired = [], sf_cost_tables = False,
     sf_events = [], sf_sent = []\<rparr>, mg_global = Some sample_gate, mg_gates = [], mg_headroom = []\<rparr>"

definition sample_services :: admin_services where
  "sample_services = \<lparr>ad_orchestrator = \<lparr>or_cloud_policy = \<lparr>cp_low_cost_enabled = True, cp_claude_enabled = True,
       cp_max_cloud_calls_per_turn = 1, cp_max_cloud_calls_per_session = 5\<rparr>, or_model_tool_loop_enabled = False\<rparr>,
     ad_router = sample_router\<lparr>ro_budget := MultiGate sample_multi\<rparr>, ad_keys = Some new_key_store, ad_live = [], ad_limiter = [],
     ad_monitor = new_key_monitor (\<lambda>_. Some ''1'') [] [], ad_balance = None\<rparr>"

definition sample_admin :: admin_env where
  "sample_admin = \<lparr>ae_environ = (\<lambda>_. None)(''ADMIN_POLICY_TOKEN'' := Some ''policy''), ae_clock = 0, ae_budget = calm 0, ae_keys = calm_keys,
     ae_cipher = boxed, ae_monitor = \<lparr>mo_now = 0, mo_io = (\<lambda>_. None), mo_post_ok = True\<rparr>,
     ae_balance = \<lparr>bv_now = 0, bv_answer = (\<lambda>_. BalanceFails ''ConnectError'')\<rparr>, ae_probe = (\<lambda>_ _. ProbeStatus 401),
     ae_loopback = (\<lambda>_. None)\<rparr>"

definition policy_request :: admin_request where
  "policy_request = \<lparr>aq_host = Some ''198.51.100.7'', aq_forwarded = None, aq_token = Some ''policy''\<rparr>"

lemma sample_admitted: "require_admin_token sample_admin policy_request = Inr ()"
  by (simp add: admin_door header_token_def policy_request_def sample_admin_def getenv_or_def strip_no_space is_space_def opt_str_or_def)

definition off_patch :: policy_patch where
  "off_patch = no_patch\<lparr>ap_cloud_spillover_enabled := Some False, ap_claude_enabled := Some True, ap_routes := Some [(''nowhere'', True)]\<rparr>"

theorem spillover_off_reaches_every_turn_witness:
  "case admin_policy_patch sample_admin policy_request off_patch sample_services of (res, s1) \<Rightarrow>
     \<not> rd_cloud_allowed (decide None (ad_orchestrator s1) ''automator'' ''hi'' True []) \<and>
     (\<exists>m1. ro_budget (ad_router s1) = MultiGate m1 \<and> \<not> allowed (fst (multi_reserve (sample_request 0) None m1)))"
  using spillover_off_reaches_every_turn [OF sample_admitted, of off_patch sample_services sample_multi None "''automator''" "''hi''" True "[]"
      "sample_request 0" None]
  by (simp add: off_patch_def no_patch_def sample_services_def sample_multi_def split: prod.splits)

theorem refused_patch_is_half_applied_witness:
  "fst (admin_policy_patch sample_admin policy_request off_patch sample_services) = Inl (HttpError 400 ''unknown_route_names'') \<and>
   map_option cb_enabled (budget_config (ro_budget (ad_router (snd (admin_policy_patch sample_admin policy_request off_patch sample_services)))))
     = Some False"
  using refused_patch_is_half_applied [OF sample_admitted, of off_patch "[(''nowhere'', True)]" "''nowhere''" True sample_services sample_multi
      sample_gate]
  by (simp add: off_patch_def no_patch_def patch_ok_def sample_services_def sample_multi_def sample_router_def new_router_def wanted_spillover_def
      local_route_def cloud_route_def plain_route_def split: prod.splits)

lemma sample_rate: "fst (check_key_store_rate_limit sample_admin policy_request sample_services) = Inr ()"
proof -
  let ?cfg = "rate_config_from_env (ae_environ sample_admin) ''KEY_STORE''"
  have cfg: "requests_per_second ?cfg = 5" "burst ?cfg = 10" by (simp_all add: sample_admin_def rate_config_from_env_def getenv_or_def, code_simp+)
  have "granted (fst (is_allowed ?cfg 0 (''keystore:'' @ get_client_ip policy_request) 1 []))"
    by (subst is_allowed_granted) (simp_all add: cfg available_def refill_def fresh_bucket_def bucket_of_def)
  then obtain meta bs where "is_allowed ?cfg 0 (''keystore:'' @ get_client_ip policy_request) 1 [] = (Inr (True, meta), bs)"
    unfolding granted_def by (metis prod.collapse)
  moreover have "ad_limiter sample_services = []" "ae_clock sample_admin = 0" by (simp_all add: sample_services_def sample_admin_def)
  ultimately show ?thesis by (simp add: check_key_store_rate_limit_def)
qed

theorem stored_key_is_live_untested_witness:
  "case set_provider_key sample_admin policy_request ''anthropic'' ''sk-2'' sample_services of (res, s1) \<Rightarrow>
     res = Inr \<lparr>kd_provider_id = ''anthropic'', kd_stored = True, kd_test = \<lparr>kt_valid = False, kt_error = ''invalid_api_key''\<rparr>\<rparr>"
  using stored_key_is_live_untested [OF sample_admitted _ _ _ sample_rate, of "''anthropic''" "''sk-2''" new_key_store] boxed_opens
    calm_works(1)
  by (simp add: PROVIDER_ENV_VARS_def sample_services_def sample_admin_def probe_key_def read_probe_def split: prod.splits)

definition failed_trial :: "utc \<Rightarrow> key_trial" where
  "failed_trial t = \<lparr>tr_env = \<lparr>mo_now = t, mo_io = (\<lambda>_. None), mo_post_ok = True\<rparr>, tr_provider = ''openai'', tr_success = False,
     tr_failure_type = Some ''invalid_api_key'', tr_details = ''''\<rparr>"

text \<open>Three failures a minute apart give one alert, and a fourth within the hour none.\<close>

theorem alerts_an_hour_apart_witness:
  "sorted_wrt an_hour_apart (km_outbox (record_trials (map failed_trial [0, 60000000, 120000000, 180000000])
     (new_key_monitor ((\<lambda>_. None)(''KEY_VALIDATION_ALERT_WEBHOOK_URL'' := Some ''https://hook'')) [] []))) \<and>
   map vl_failure_count (km_outbox (record_trials (map failed_trial [0, 60000000, 120000000, 180000000])
     (new_key_monitor ((\<lambda>_. None)(''KEY_VALIDATION_ALERT_WEBHOOK_URL'' := Some ''https://hook'')) [] []))) = [3]"
proof (rule conjI)
  show "sorted_wrt an_hour_apart (km_outbox (record_trials (map failed_trial [0, 60000000, 120000000, 180000000])
     (new_key_monitor ((\<lambda>_. None)(''KEY_VALIDATION_ALERT_WEBHOOK_URL'' := Some ''https://hook'')) [] [])))"
    by (rule alerts_an_hour_apart) (simp_all add: failed_trial_def trial_works_def new_key_monitor_def)
  show "map vl_failure_count (km_outbox (record_trials (map failed_trial [0, 60000000, 120000000, 180000000])
     (new_key_monitor ((\<lambda>_. None)(''KEY_VALIDATION_ALERT_WEBHOOK_URL'' := Some ''https://hook'')) [] []))) = [3]"
    by code_simp
qed

end
