(* ===== verification/Spec2Isabelle.thy ===== *)
theory Spec2Isabelle
  imports BudgetAlerts SessionCost RateLimiter ProviderBudget ModelResolver DiscoveryPasses
    Newsletter SiteForms Retention DiscoveryDisplay TurnRules RouterFaults ChatStreams Retriever
    DeskGuarantees RedactionRules AdminRules
begin

text \<open>
  GestaltWorkframe is the back end of a community site: a chat assistant over several
  language models, a pipeline that watches public sources for finds and lets an operator
  review them, a newsletter made of the approved finds, public forms, and the budget and
  retention machinery around them. This development models that back end
  (\<open>gestaltworkframe/core\<close>, and the parts of \<open>api\<close> and \<open>kb\<close> that hold logic of their own)
  as functions on explicit states, and proves what the parts promise.

  \<^bold>\<open>Vocabulary.\<close> \<open>Prelude\<close> has the Python values and functions the code uses (strings,
  truthiness, number parsing, rounding, UTC time) and errors as values; \<open>Json\<close> what
  \<open>json.loads\<close> returns; \<open>Markup\<close> HTML escaping and \<open>LIKE\<close>. \<open>Tables\<close> has keyed tables and
  the interfaces that several components share, as locales: \<open>kv_store\<close> (a lookup after an
  insert), \<open>counter_store\<close>, \<open>capped\<close> (a server that admits below a cap and counts what it
  admits never passes the cap) and \<open>append_log\<close>. Each is interpreted on the code's own
  tables: the alert table, the session counters, the buckets, the budget counters.

  \<^bold>\<open>Money.\<close> \<open>BudgetAlerts\<close> (\<open>core/budget_alerts.py\<close>), \<open>SessionCost\<close>
  (\<open>core/session_cost_tracker.py\<close>), \<open>CloudBudget\<close> and \<open>ProviderBudget\<close>
  (\<open>core/cloud_budget.py\<close>): one record per class, one function per method, each block of
  database I/O a fault point that may raise. Their lemmas show that admitted calls stay
  within the call, dollar and token caps, that the gate fails closed, that alerts fire
  exactly when they should, and where the code falls short (two provider checks that
  interleave overspend; the session alert looks at single calls only). \<open>RateLimiter\<close>
  (\<open>core/rate_limiter.py\<close>) bounds what a client gets in any window.

  \<^bold>\<open>Choice of a model.\<close> \<open>ModelCatalog\<close>, \<open>ModelLanes\<close> and \<open>ModelResolver\<close> (the files of the
  same names): parsing and caching of the catalogue, the lanes, and \<open>resolve_lane\<close>, whose
  shortlist meets the lane, is best for the tier's objective, and does not depend on the
  order of the catalogue.

  \<^bold>\<open>A chat turn.\<close> \<open>ChatPolicy\<close> (\<open>core/policy.py\<close>, \<open>core/tool_policy.py\<close>) has the vocabulary
  of a turn and the tools of each mode; \<open>RoutingFrame\<close> (\<open>core/routing_frame.py\<close>) classifies
  a message by its signals, with the text functions of \<open>Words\<close>; \<open>TurnDecision\<close>
  (\<open>core/orchestrator.py\<close>) decides mode, policy, tools and handoff. \<open>TurnRules\<close> proves that
  decisions are consistent, that cloud models are only allowed when switched on, that case
  and blanks do not matter, and two consequences of the substring signals.

  \<^bold>\<open>The model router\<close> (\<open>core/router.py\<close>, \<open>core/runtime.py\<close>, \<open>core/model_transport.py\<close>).
  \<open>Routes\<close> has the routes, policies and aliases; \<open>RouterState\<close> the state
  of \<open>LLMRouter\<close> with its operator controls, health cache, breakers and generation slots;
  \<open>RouteOrder\<close> the order of the routes of a turn, on top of \<open>ModelResolver\<close>;
  \<open>RouterTurn\<close> \<open>chat\<close> and \<open>stream_chat\<close> on top of the budget gates. What other turns do
  while one waits is an arbitrary function, and a ghost trace records what is reserved and
  sent. \<open>RouterRules\<close> proves that nothing leaves for a cloud model unless the turn allows
  it, that the lane order is a permutation of the routes that passed the gate, and that
  synthesized routes meet their lane; \<open>RouterRuns\<close> has the locales \<open>turn_invariant\<close> and
  \<open>field_invariant\<close> for invariants of whole runs, \<open>RouterGuarantees\<close> their instances (the
  session cap of the global gate bounds the calls sent, breakers of backup routes never close)
  and the slots as an interleaving step relation, with every call giving back its own; \<open>RouterFaults\<close> the status list and the
  error behaviour. \<open>RouterSamples\<close> has the deployment the examples use.

  \<^bold>\<open>Answering.\<close> \<open>Retriever\<close> (\<open>core/retrieval.py\<close>) has the knowledge retriever with its
  cache and its invariant; \<open>AnswerGrading\<close> (\<open>core/answer_grading.py\<close>) the grade
  and the repair of an answer; \<open>Personas\<close> (\<open>core/personas.py\<close>) and \<open>ChatPrompts\<close> the texts.
  \<open>ChatTurn\<close> translates \<open>core/chat_orchestrator.py\<close> operation by operation on a state that
  has the router and the retriever: \<open>plan\<close>, \<open>run\<close>, \<open>stream\<close>, the tool loop and the retries.
  \<open>ChatRuns\<close> has a logic of triples for these operations; \<open>ChatRules\<close>, \<open>ChatAnswers\<close> and
  \<open>ChatStreams\<close> use it to prove, down to the events of the router, that nothing built from
  restricted context is sent to a cloud model, how often a turn asks the router and a provider,
  that inadequate answers are replaced, and what a stream holds back.

  \<^bold>\<open>The chat desk.\<close> \<open>ChatRecords\<close> (\<open>core/db/crud.py\<close>) has the rows of the chat and the usage,
  \<open>ChatMetrics\<close> (\<open>api/services.py\<close>) the log line and the counters, \<open>ChatDesk\<close>
  (\<open>api/chat.py\<close>, \<open>api/intake.py\<close>) the request contracts, the abuse limits and the handler
  that ties a turn of \<open>ChatTurn\<close> to the tables, the frames and the metrics. \<open>DeskRules\<close> has
  the locale \<open>rationed_log\<close> of a log whose server admits a key only below its quota within a
  window, where requests that arrive together see the same log, interpreted for networks and
  for sessions; \<open>DeskGuarantees\<close> proves the limits over such runs (each is exceeded by no more
  than the requests under way at once), that what is sent is what is stored, and that the
  counters add up.

  \<^bold>\<open>Keys and routes of a process.\<close> \<open>KeyStore\<close> (\<open>core/key_store.py\<close>) and
  \<open>Registry\<close> (\<open>core/model_profile.py\<close>, \<open>core/provider_registry.py\<close>): encrypted keys with
  their audit log, the profiles, and the routes the router is given. \<open>KeyRules\<close> proves what
  is read back, what is audited, what an import does, and which key reaches which endpoint.

  \<^bold>\<open>The operator.\<close> \<open>AdminDesk\<close> (\<open>api/admin.py\<close>, the admin token of \<open>api/services.py\<close>): who may use the
  admin API, the policy patch that writes the router, the budget and the spend policy, and the
  endpoints of the provider keys, on top of \<open>KeyStore\<close>, \<open>Registry\<close>, \<open>KeyHealth\<close>
  (\<open>core/key_validation_monitor.py\<close>, \<open>core/provider_balance.py\<close>).
  \<open>AdminRules\<close> proves that the token is needed, that switching the spillover off reaches the
  decisions and the budget of every later turn, what a refused patch leaves behind, and what a
  stored or a deleted key does to the live providers.

  \<^bold>\<open>Redaction.\<close> \<open>Patterns\<close> is a backtracking matcher for the regular expressions of the
  detectors; \<open>Redaction\<close> (\<open>models.py\<close>, \<open>sections.py\<close> and
  \<open>redaction.py\<close> of \<open>packages/gestalt-connector-protocol\<close>) the documents and the pipeline.
  \<open>RedactionRules\<close> shows that the replacement from the end is a single pass from the start,
  that every detection begins in a merged span, that a document with a key in its text stays
  local, and what escapes.

  \<^bold>\<open>Discovery.\<close> \<open>TargetSafety\<close> and \<open>Watchlist\<close> (\<open>kb/\<close>) decide what may be fetched.
  \<open>DiscoveryState\<close> has the three tables and the vector index; \<open>DiscoveryQueue\<close>
  (\<open>core/discovery_queue.py\<close>) the operator's operations; \<open>DiscoveryScheduler\<close>
  (\<open>core/discovery_scheduler.py\<close>) the passes, with sessions that commit and roll back;
  \<open>DiscoveryReview\<close> the scores, \<open>DiscoveryDisplay\<close> the texts shown. \<open>DiscoveryRuns\<close>,
  \<open>DiscoveryIndex\<close>, \<open>DiscoveryPolling\<close> and \<open>DiscoveryPasses\<close> prove invariants over runs
  that mix operations and passes, with failing commits; what an invariant has to satisfy for
  a whole pass is the locale \<open>pass_invariant\<close>. What the index and the library hold after a
  step that fails half-way is shown beside them.

  \<^bold>\<open>Newsletter.\<close> \<open>NewsletterState\<close>, \<open>NewsletterLabels\<close>, \<open>NewsletterIssues\<close>, \<open>ApprovalToken\<close>,
  \<open>NewsletterRender\<close> and \<open>NewsletterDispatch\<close> translate
  \<open>core/newsletter.py\<close>, with each commit a fault point and with what other sessions commit
  in between a parameter. \<open>NewsletterSafety\<close> has the abstract life cycle of an issue as an
  inductive step relation, and shows that every operation refines it;
  \<open>NewsletterInvariants\<close> the locale \<open>news_invariant\<close> for invariants over any run, whose
  instances \<open>NewsletterGuarantees\<close> and \<open>Newsletter\<close> use: an issue reaches a subscriber
  once, a sent issue is frozen, a pass of the dispatcher whose commits hold sends exactly the
  due issues (\<open>NewsletterPass\<close>), and the ways in which a draft or an issue gets stuck.

  \<^bold>\<open>Public forms and data protection.\<close> \<open>SiteData\<close>, \<open>Subscribers\<close>,
  \<open>HandoffPackets\<close>, \<open>ContactIntake\<close> (\<open>core/subscribers.py\<close>, \<open>core/contact_autoreply.py\<close>,
  \<open>core/handoff_packets.py\<close>, \<open>api/contact.py\<close>, \<open>api/newsletter_public.py\<close>) and \<open>SiteForms\<close>
  with their properties (locale \<open>form_invariant\<close>); \<open>Retention\<close> (\<open>core/retention.py\<close>)
  against a declarative specification of the sweep.

  \<^bold>\<open>Bounds and fuel.\<close> Loops are structural recursion or have a termination proof; the loop
  that looks for a free slug is a \<open>partial_function\<close> and is proved to return. There is no
  fuel.

  \<^bold>\<open>Assumptions.\<close> One request or tick reads one clock; \<open>uuid4\<close> gives ids not used before
  (a hypothesis where it matters); a \<open>float\<close> is the rational it denotes; a query without
  \<open>ORDER BY\<close> returns rows in the order of insertion; a commit that fails leaves the
  tables as they were. Third-party code is a parameter: HMAC, IP parsing and DNS, the
  mail and LinkedIn transports, the vector index, the publisher, \<open>json.dumps\<close>, pydantic's
  validation of a lane or a profile, PBKDF2 and AES-GCM, SHA-256, the handlers that fetch feeds, the answers of model providers.

  \<^bold>\<open>Not modelled.\<close> Logging; the endless loops that call the modelled passes; HTTP glue that
  only forwards; the health, hand-off and retention endpoints of the admin API; a client that disconnects in the middle of a stream; schema migrations;
  calls to the GitHub API and the vector store; the clients of the model vendors; the
  file-system connector; the review script of the CI; the web front end.
\<close>

end
